(* ===== verification/Prelude.thy ===== *)
theory Prelude
  imports
    Main
    "HOL-Library.Char_ord"
    "HOL-Library.List_Lexorder"
    "HOL-Library.Product_Lexorder"
    "HOL-Library.Multiset"
    "HOL-Library.Word"
begin

text \<open>
  Shared vocabulary of the development: the errors of \<^verbatim>\<open>domain/errors.py\<close>, results that
  are either an error or a value, and the part of Python's \<^verbatim>\<open>str\<close> that the components use.

  A Python string is modelled by \<^typ>\<open>string\<close>: a list of characters with code points below
  256 (the Latin-1 fragment of Unicode). Predicates such as \<open>is_space\<close> follow Python on that
  fragment.
\<close>

named_theorems res_simps \<open>rewriting of results: binding, guards, traversals\<close>

section \<open>Errors\<close>

text \<open>One constructor per exception class that the modelled code raises, with its message.
  \<open>IntegrityError\<close> is \<^verbatim>\<open>sqlite3.IntegrityError\<close>; \<open>PyError\<close> is a built-in exception that the
  code does not raise itself, with its class name.\<close>

datatype zekam_error =
    ConfigurationError string
  | PolicyViolation string
  | AuthorizationRequired string
  | ConcurrencyConflict string
  | NotFound string
  | ValidationFailed string
  | IntegrityError string
  | PyError string

type_synonym 'a res = "zekam_error + 'a"

fun error_code :: "zekam_error \<Rightarrow> string" where
  "error_code (ConfigurationError _) = ''configuration-error''"
| "error_code (PolicyViolation _) = ''policy-violation''"
| "error_code (AuthorizationRequired _) = ''authorization-required''"
| "error_code (ConcurrencyConflict _) = ''concurrency-conflict''"
| "error_code (NotFound _) = ''not-found''"
| "error_code (ValidationFailed _) = ''validation-failed''"
| "error_code (IntegrityError _) = ''sqlite-integrity-error''"
| "error_code (PyError _) = ''python-error''"

section \<open>Results\<close>

definition rbind :: "'a res \<Rightarrow> ('a \<Rightarrow> 'b res) \<Rightarrow> 'b res" where
  "rbind m f = (case m of Inl e \<Rightarrow> Inl e | Inr x \<Rightarrow> f x)"

definition is_ok :: "'a res \<Rightarrow> bool" where
  "is_ok m = (case m of Inl _ \<Rightarrow> False | Inr _ \<Rightarrow> True)"

text \<open>A Python loop over a sequence whose body may raise: stops at the first error.\<close>

fun rmap :: "('a \<Rightarrow> 'b res) \<Rightarrow> 'a list \<Rightarrow> 'b list res" where
  "rmap f [] = Inr []"
| "rmap f (x # xs) = rbind (f x) (\<lambda>y. rbind (rmap f xs) (\<lambda>ys. Inr (y # ys)))"

text \<open>A loop that threads a state.\<close>

fun rfold :: "('s \<Rightarrow> 'a \<Rightarrow> 's res) \<Rightarrow> 's \<Rightarrow> 'a list \<Rightarrow> 's res" where
  "rfold f s [] = Inr s"
| "rfold f s (x # xs) = rbind (f s x) (\<lambda>s'. rfold f s' xs)"

lemma rbind_simps [simp, res_simps]:
  "rbind (Inl e) f = Inl e"
  "rbind (Inr x) f = f x"
  by (simp_all add: rbind_def)

lemma rbind_Inr_iff [res_simps]: "rbind m f = Inr y \<longleftrightarrow> (\<exists>x. m = Inr x \<and> f x = Inr y)"
  by (cases m) auto

lemma rbind_Inl_iff [res_simps]:
  "rbind m f = Inl e \<longleftrightarrow> m = Inl e \<or> (\<exists>x. m = Inr x \<and> f x = Inl e)"
  by (cases m) auto

lemma is_ok_simps [simp]: "is_ok (Inr x)" "\<not> is_ok (Inl e)"
  by (simp_all add: is_ok_def)

lemma is_ok_iff: "is_ok m \<longleftrightarrow> (\<exists>x. m = Inr x)"
  by (cases m) auto

lemma if_Inl_eq_Inr [res_simps]: "(if c then Inl e else m) = Inr y \<longleftrightarrow> \<not> c \<and> m = Inr y"
  by simp

lemma if_Inr_iff [res_simps]: "(if c then a else b) = Inr z \<longleftrightarrow> c \<and> a = Inr z \<or> \<not> c \<and> b = Inr z"
  by simp

lemma case_option_Inr_iff [res_simps]:
  "(case x of None \<Rightarrow> a | Some y \<Rightarrow> f y) = Inr z \<longleftrightarrow> x = None \<and> a = Inr z \<or> (\<exists>y. x = Some y \<and> f y = Inr z)"
  by (cases x) auto

lemma case_prod_Inr_iff [res_simps]: "(case p of (a, b) \<Rightarrow> f a b) = Inr z \<longleftrightarrow> (\<exists>a b. p = (a, b) \<and> f a b = Inr z)"
  by (cases p) auto

lemma rmap_Inr_iff: "rmap f xs = Inr ys \<longleftrightarrow> list_all2 (\<lambda>x y. f x = Inr y) xs ys"
proof (induction xs arbitrary: ys)
  case Nil
  then show ?case by auto
next
  case (Cons x xs)
  then show ?case by (cases ys) (auto simp: rbind_Inr_iff)
qed

lemma rmap_append:
  "rmap f (xs @ ys) = rbind (rmap f xs) (\<lambda>us. rbind (rmap f ys) (\<lambda>vs. Inr (us @ vs)))"
proof (induction xs)
  case Nil
  show ?case by (cases "rmap f ys") simp_all
next
  case (Cons x xs)
  then show ?case
    by (cases "f x"; cases "rmap f xs"; cases "rmap f ys") simp_all
qed

text \<open>An invariant kept by every iteration is kept by the loop.\<close>

lemma rfold_invariant:
  assumes "rfold f s xs = Inr t" and "P s"
    and "\<And>s x s'. P s \<Longrightarrow> x \<in> set xs \<Longrightarrow> f s x = Inr s' \<Longrightarrow> P s'"
  shows "P t"
  using assms
proof (induction xs arbitrary: s)
  case Nil
  then show ?case by simp
next
  case (Cons x xs)
  from Cons.prems(1) obtain s' where "f s x = Inr s'" "rfold f s' xs = Inr t"
    by (auto simp: rbind_Inr_iff)
  with Cons show ?case by (metis list.set_intros)
qed

section \<open>Strings\<close>

text \<open>Python's \<^verbatim>\<open>str.isspace\<close> on code points below 256.\<close>

definition is_space :: "char \<Rightarrow> bool" where
  "is_space c = (let n = (of_char c :: nat) in
     (9 \<le> n \<and> n \<le> 13) \<or> (28 \<le> n \<and> n \<le> 32) \<or> n = 133 \<or> n = 160)"

definition lstrip :: "string \<Rightarrow> string" where
  "lstrip s = dropWhile is_space s"

definition rstrip :: "string \<Rightarrow> string" where
  "rstrip s = rev (dropWhile is_space (rev s))"

definition strip :: "string \<Rightarrow> string" where
  "strip s = rstrip (lstrip s)"

text \<open>The guard \<^verbatim>\<open>not value.strip()\<close>.\<close>

definition blank :: "string \<Rightarrow> bool" where
  "blank s = (strip s = [])"

definition py_lower_char :: "char \<Rightarrow> char" where
  "py_lower_char c = (let n = (of_char c :: nat) in
     if (65 \<le> n \<and> n \<le> 90) \<or> (192 \<le> n \<and> n \<le> 222 \<and> n \<noteq> 215) then char_of (n + 32) else c)"

definition py_lower :: "string \<Rightarrow> string" where
  "py_lower s = map py_lower_char s"

definition is_lower_az :: "char \<Rightarrow> bool" where
  "is_lower_az c = (CHR ''a'' \<le> c \<and> c \<le> CHR ''z'')"

definition is_upper_az :: "char \<Rightarrow> bool" where
  "is_upper_az c = (CHR ''A'' \<le> c \<and> c \<le> CHR ''Z'')"

definition is_digit09 :: "char \<Rightarrow> bool" where
  "is_digit09 c = (CHR ''0'' \<le> c \<and> c \<le> CHR ''9'')"

definition is_lower_hex :: "char \<Rightarrow> bool" where
  "is_lower_hex c = (is_digit09 c \<or> (CHR ''a'' \<le> c \<and> c \<le> CHR ''f''))"

text \<open>\<^verbatim>\<open>s.split(sep)\<close> and \<^verbatim>\<open>sep.join(parts)\<close> for a one-character separator.\<close>

fun split_on :: "char \<Rightarrow> string \<Rightarrow> string list" where
  "split_on sep [] = [[]]"
| "split_on sep (c # cs) =
     (if c = sep then [] # split_on sep cs
      else (case split_on sep cs of [] \<Rightarrow> [[c]] | w # ws \<Rightarrow> (c # w) # ws))"

fun join_with :: "string \<Rightarrow> string list \<Rightarrow> string" where
  "join_with sep [] = []"
| "join_with sep [w] = w"
| "join_with sep (w # v # ws) = w @ sep @ join_with sep (v # ws)"

definition starts_with :: "string \<Rightarrow> string \<Rightarrow> bool" where
  "starts_with s p = (take (length p) s = p)"

fun contains_sub :: "string \<Rightarrow> string \<Rightarrow> bool" where
  "contains_sub [] p = (p = [])"
| "contains_sub (c # cs) p = (starts_with (c # cs) p \<or> contains_sub cs p)"

text \<open>Number of bytes of the UTF-8 encoding.\<close>

definition utf8_len :: "string \<Rightarrow> nat" where
  "utf8_len s = sum_list (map (\<lambda>c. if (of_char c :: nat) < 128 then 1 else 2) s)"

definition utf8_bytes :: "string \<Rightarrow> nat list" where
  "utf8_bytes s = concat (map (\<lambda>c. let n = (of_char c :: nat) in
     if n < 128 then [n] else [192 + n div 64, 128 + n mod 64]) s)"

text \<open>Decimal text of integers (\<^verbatim>\<open>str(n)\<close>).\<close>

definition digit_char :: "nat \<Rightarrow> char" where
  "digit_char d = char_of (48 + d)"

fun nat_str :: "nat \<Rightarrow> string" where
  "nat_str n = (if n < 10 then [digit_char n] else nat_str (n div 10) @ [digit_char (n mod 10)])"

declare nat_str.simps [simp del]

definition int_str :: "int \<Rightarrow> string" where
  "int_str i = (if i < 0 then ''-'' @ nat_str (nat (- i)) else nat_str (nat i))"

text \<open>Zero-padded decimal text (\<^verbatim>\<open>%0wd\<close>).\<close>

definition pad_nat :: "nat \<Rightarrow> nat \<Rightarrow> string" where
  "pad_nat w n = replicate (w - length (nat_str n)) (CHR ''0'') @ nat_str n"

subsection \<open>Lemmas on strings\<close>

lemma blank_nonspace: "\<not> is_space c \<Longrightarrow> \<not> blank (c # t)"
  by (simp add: blank_def strip_def lstrip_def rstrip_def)

lemma utf8_len_bytes: "utf8_len s = length (utf8_bytes s)"
  by (induction s) (auto simp: utf8_len_def utf8_bytes_def Let_def)

lemma split_on_nonempty [simp]: "split_on sep s \<noteq> []"
  by (induction s) (auto split: list.splits)

lemma join_split [simp]: "join_with [sep] (split_on sep s) = s"
proof (induction s)
  case Nil
  then show ?case by simp
next
  case (Cons c cs)
  then show ?case
    by (cases "split_on sep cs"; cases "tl (split_on sep cs)") auto
qed

lemma split_on_no_sep: "w \<in> set (split_on sep s) \<Longrightarrow> sep \<notin> set w"
proof (induction s arbitrary: w)
  case Nil
  then show ?case by simp
next
  case (Cons c cs)
  obtain v vs where v: "split_on sep cs = v # vs"
    by (cases "split_on sep cs") auto
  with Cons.prems consider "c = sep" "w = []" | "w \<in> set (split_on sep cs)"
    | "c \<noteq> sep" "w = c # v"
    by (auto split: if_splits)
  then show ?case
  proof cases
    case 3
    have "sep \<notin> set v" using Cons.IH [of v] v by simp
    with 3 show ?thesis by simp
  qed (use Cons.IH in auto)
qed

lemma split_on_id: "sep \<notin> set s \<Longrightarrow> split_on sep s = [s]"
  by (induction s) auto

lemma split_on_append_sep: "sep \<notin> set w \<Longrightarrow> split_on sep (w @ sep # s) = w # split_on sep s"
  by (induction w) auto

lemma split_join:
  assumes "ws \<noteq> []" and "\<forall>w \<in> set ws. sep \<notin> set w"
  shows "split_on sep (join_with [sep] ws) = ws"
  using assms
proof (induction "[sep]" ws rule: join_with.induct)
  case (3 w v ws)
  then show ?case by (simp add: split_on_append_sep)
qed (auto simp: split_on_id)

lemma in_set_join: "c \<in> set (join_with [sep] ws) \<Longrightarrow> c = sep \<or> (\<exists>w \<in> set ws. c \<in> set w)"
  by (induction "[sep]" ws rule: join_with.induct) auto

lemma digit_char_inj: "a < 10 \<Longrightarrow> b < 10 \<Longrightarrow> digit_char a = digit_char b \<Longrightarrow> a = b"
  unfolding digit_char_def
proof -
  assume a: "a < 10" "b < 10" and eq: "(char_of (48 + a) :: char) = char_of (48 + b)"
  have "(of_char (char_of (48 + a) :: char) :: nat) = of_char (char_of (48 + b) :: char)"
    using eq by simp
  with a show "a = b" by simp
qed

lemma nat_str_nonempty [simp]: "nat_str n \<noteq> []" "[] \<noteq> nat_str n"
  by (subst nat_str.simps, simp)+

lemma nat_str_inj: "nat_str m = nat_str n \<Longrightarrow> m = n"
proof (induction m arbitrary: n rule: nat_str.induct)
  case (1 m)
  show ?case
  proof (cases "m < 10")
    case True
    then have m: "nat_str m = [digit_char m]" by (simp add: nat_str.simps [of m])
    show ?thesis
    proof (cases "n < 10")
      case True
      with m 1(2) \<open>m < 10\<close> show ?thesis by (simp add: nat_str.simps [of n] digit_char_inj)
    next
      case False
      then have "nat_str n = nat_str (n div 10) @ [digit_char (n mod 10)]"
        by (simp add: nat_str.simps [of n])
      with m 1(2) show ?thesis by simp
    qed
  next
    case False
    then have m: "nat_str m = nat_str (m div 10) @ [digit_char (m mod 10)]"
      by (simp add: nat_str.simps [of m])
    show ?thesis
    proof (cases "n < 10")
      case True
      then have "nat_str n = [digit_char n]" by (simp add: nat_str.simps [of n])
      with m 1(2) show ?thesis by simp
    next
      case nlt: False
      then have "nat_str n = nat_str (n div 10) @ [digit_char (n mod 10)]"
        by (simp add: nat_str.simps [of n])
      with m 1(2) have "nat_str (m div 10) = nat_str (n div 10)"
        and "digit_char (m mod 10) = digit_char (n mod 10)" by simp_all
      then have "m div 10 = n div 10" "m mod 10 = n mod 10"
        using 1(1) [OF False] digit_char_inj by auto
      then show ?thesis by (metis div_mult_mod_eq)
    qed
  qed
qed

lemma is_digit09_digit_char: "d < 10 \<Longrightarrow> is_digit09 (digit_char d)"
  by (simp add: is_digit09_def digit_char_def less_eq_char_def)

lemma nat_str_digits: "c \<in> set (nat_str n) \<Longrightarrow> is_digit09 c"
proof (induction n rule: nat_str.induct)
  case (1 n)
  then show ?case
    by (cases "n < 10") (auto simp: nat_str.simps [of n] is_digit09_digit_char)
qed

lemma strip_id: "\<forall>c \<in> set s. \<not> is_space c \<Longrightarrow> strip s = s"
proof -
  have "dropWhile is_space xs = xs" if "\<forall>c \<in> set xs. \<not> is_space c" for xs
    using that by (cases xs) auto
  note this [of s] this [of "rev s"]
  then show "\<forall>c \<in> set s. \<not> is_space c \<Longrightarrow> strip s = s"
    by (simp add: strip_def rstrip_def lstrip_def)
qed

lemma set_strip: "set (strip s) \<subseteq> set s"
  unfolding strip_def rstrip_def lstrip_def by (auto dest!: set_dropWhileD)

lemma strip_strip [simp]: "strip (strip s) = strip s"
proof (cases "strip s = []")
  case True
  moreover have "strip [] = []" by (simp add: strip_def rstrip_def lstrip_def)
  ultimately show ?thesis by simp
next
  case False
  have dw: "dropWhile P (dropWhile P xs) = dropWhile P xs" for P and xs :: string
    by (induction xs) auto
  define t where "t = lstrip s"
  have t: "dropWhile is_space t = t" by (simp add: t_def lstrip_def dw)
  obtain b where b: "t = rstrip t @ b"
    unfolding rstrip_def by (metis rev_append rev_rev_ident takeWhile_dropWhile_id)
  have ne: "rstrip t \<noteq> []" using False by (simp add: strip_def t_def)
  with b have "hd (rstrip t) = hd t" "t \<noteq> []" by (metis hd_append2, metis append_is_Nil_conv)
  with t have "\<not> is_space (hd (rstrip t))" by (metis hd_dropWhile)
  with ne have "lstrip (rstrip t) = rstrip t" by (cases "rstrip t") (auto simp: lstrip_def)
  then show ?thesis by (simp add: strip_def t_def [symmetric]) (simp add: rstrip_def dw)
qed

lemma in_split_chars: "w \<in> set (split_on sep s) \<Longrightarrow> c \<in> set w \<Longrightarrow> c \<in> set s"
proof (induction s arbitrary: w)
  case (Cons d s)
  obtain v vs where v: "split_on sep s = v # vs" by (cases "split_on sep s") auto
  with Cons.prems Cons.IH [of v] Cons.IH [of w] show ?case by (auto split: if_splits)
qed simp

lemma list012_cases:
  obtains (nil) "xs = []" | (one) x where "xs = [x]" | (more) x y zs where "xs = x # y # zs"
  by (metis neq_Nil_conv)

section \<open>Rows\<close>

text \<open>\<^verbatim>\<open>update ... set ... where ...\<close> on a table kept as a list of rows.\<close>

definition update_where :: "('r \<Rightarrow> bool) \<Rightarrow> ('r \<Rightarrow> 'r) \<Rightarrow> 'r list \<Rightarrow> 'r list" where
  "update_where sel f rows = map (\<lambda>r. if sel r then f r else r) rows"

lemma mem_update_where: "y \<in> set (update_where sel f rs) \<longleftrightarrow> (\<exists>x \<in> set rs. y = (if sel x then f x else x))"
  by (auto simp: update_where_def)

lemma update_where_keep: "x \<in> set rs \<Longrightarrow> \<not> sel x \<Longrightarrow> x \<in> set (update_where sel f rs)"
  by (auto simp: mem_update_where intro!: bexI [of _ x])

lemma update_where_new: "x \<in> set rs \<Longrightarrow> sel x \<Longrightarrow> f x \<in> set (update_where sel f rs)"
  by (auto simp: mem_update_where intro!: bexI [of _ x])

lemma map_update_where: "(\<And>r. g (f r) = g r) \<Longrightarrow> map g (update_where sel f rs) = map g rs"
  by (auto simp: update_where_def)

lemma image_update_where: "(\<And>r. g (f r) = g r) \<Longrightarrow> g ` set (update_where sel f rs) = g ` set rs"
  using map_update_where [of g f sel rs] by (metis list.set_map)

lemma distinct_key_eq: "distinct (map f xs) \<Longrightarrow> a \<in> set xs \<Longrightarrow> b \<in> set xs \<Longrightarrow> f a = f b \<Longrightarrow> a = b"
  by (metis distinct_map inj_onD)

lemma find_key_Some: "find (\<lambda>r. f r = k) rs = Some x \<Longrightarrow> x \<in> set rs \<and> f x = k"
  by (auto simp: find_Some_iff)

lemma find_key_None: "find (\<lambda>r. f r = k) rs = None \<longleftrightarrow> k \<notin> f ` set rs"
  by (auto simp: find_None_iff)

lemma find_key_distinct: "distinct (map f rs) \<Longrightarrow> x \<in> set rs \<Longrightarrow> find (\<lambda>r. f r = f x) rs = Some x"
  by (induction rs) (auto simp: rev_image_eqI)

section \<open>Instants\<close>

text \<open>An instant is a number of microseconds since the epoch; a \<^verbatim>\<open>datetime\<close> ends with the year
  9999, and adding a duration beyond it raises.\<close>

definition max_instant :: int where
  "max_instant = 253402300799999999"

definition add_delta :: "int \<Rightarrow> int \<Rightarrow> int res" where
  "add_delta moment d = (if moment + d > max_instant then Inl (PyError ''OverflowError'') else Inr (moment + d))"

section \<open>Sorting by a key\<close>

text \<open>Python's \<^verbatim>\<open>sorted\<close> is stable; so is \<^const>\<open>sort_key\<close>. Where the key is injective on
  the elements, the result depends only on which elements there are.\<close>

lemma sort_key_perm_eq:
  assumes "mset xs = mset ys" and "inj_on f (set xs)"
  shows "sort_key f xs = sort_key f ys"
proof -
  have "set xs = set ys" using assms(1) by (metis set_mset_mset)
  have "map f (sort_key f xs) = map f (sort_key f ys)"
  proof (rule properties_for_sort [symmetric, of "map f (sort_key f xs)", THEN trans])
    show "mset (map f (sort_key f xs)) = mset (map f (sort_key f ys))"
      using assms(1) by simp
    show "sorted (map f (sort_key f xs))" by simp
    show "sort (map f (sort_key f ys)) = map f (sort_key f ys)"
      by (simp add: sorted_sort_id)
  qed
  then show ?thesis
    using assms(2) \<open>set xs = set ys\<close>
    by (intro map_inj_on [of f]) (simp_all)
qed

text \<open>The lexicographic order is decided by prefixes of equal length.\<close>

lemma list_less_append:
  assumes "length xs = length ys" and "xs < (ys :: 'a :: order list)"
  shows "xs @ us < ys @ vs"
  using assms
proof (induction xs ys rule: list_induct2)
  case (Cons x xs y ys)
  then show ?case by (auto simp: list_less_def lexord_cons_cons)
qed (simp add: list_less_def)

end
