(* ===== verification/Sha256.thy ===== *)
theory Sha256
  imports Prelude
begin

text \<open>
  SHA-256 as \<^verbatim>\<open>hashlib.sha256(...).hexdigest()\<close> computes it (FIPS 180-4), executable on
  32-bit words. The components only rely on the shape of the result: sixty-four lower-case
  hexadecimal characters.
\<close>

unbundle bit_operations_syntax

text \<open>The round constants are the first 32 bits after the point of the cube roots of the first 64
  primes: the cube root of \<open>p * 2 ^ 96\<close>, rounded down and reduced to 32 bits.\<close>

fun cube_root_bits :: "nat \<Rightarrow> int \<Rightarrow> int \<Rightarrow> int" where
  "cube_root_bits 0 r n = r"
| "cube_root_bits (Suc b) r n =
     (let q = r + 2 ^ b in if q ^ 3 \<le> n then cube_root_bits b q n else cube_root_bits b r n)"

definition sha_primes :: "int list" where
  "sha_primes = filter (\<lambda>n. list_all (\<lambda>d. n mod d \<noteq> 0) [2..n - 1]) [2..311]"

definition sha_K :: "32 word list" where
  "sha_K = map (\<lambda>p. word_of_int (cube_root_bits 35 0 (p * 2 ^ 96))) sha_primes"

type_synonym sha_state =
  "32 word \<times> 32 word \<times> 32 word \<times> 32 word \<times> 32 word \<times> 32 word \<times> 32 word \<times> 32 word"

definition sha_init :: sha_state where
  "sha_init = (0x6a09e667, 0xbb67ae85, 0x3c6ef372, 0xa54ff53a,
               0x510e527f, 0x9b05688c, 0x1f83d9ab, 0x5be0cd19)"

definition sha_ch :: "32 word \<Rightarrow> 32 word \<Rightarrow> 32 word \<Rightarrow> 32 word" where
  "sha_ch x y z = (x AND y) XOR (NOT x AND z)"

definition sha_maj :: "32 word \<Rightarrow> 32 word \<Rightarrow> 32 word \<Rightarrow> 32 word" where
  "sha_maj x y z = (x AND y) XOR (x AND z) XOR (y AND z)"

definition sha_S0 :: "32 word \<Rightarrow> 32 word" where
  "sha_S0 x = word_rotr 2 x XOR word_rotr 13 x XOR word_rotr 22 x"

definition sha_S1 :: "32 word \<Rightarrow> 32 word" where
  "sha_S1 x = word_rotr 6 x XOR word_rotr 11 x XOR word_rotr 25 x"

definition sha_s0 :: "32 word \<Rightarrow> 32 word" where
  "sha_s0 x = word_rotr 7 x XOR word_rotr 18 x XOR drop_bit 3 x"

definition sha_s1 :: "32 word \<Rightarrow> 32 word" where
  "sha_s1 x = word_rotr 17 x XOR word_rotr 19 x XOR drop_bit 10 x"

text \<open>Padding: one \<open>0x80\<close> byte, zeros, and the bit length in eight bytes.\<close>

definition be_bytes :: "nat \<Rightarrow> nat \<Rightarrow> nat list" where
  "be_bytes w n = map (\<lambda>i. nat ((int n div 256 ^ i) mod 256)) (rev [0..<w])"

definition sha_pad :: "nat list \<Rightarrow> nat list" where
  "sha_pad bs = bs @ [128] @ replicate ((119 - length bs mod 64) mod 64) 0
     @ be_bytes 8 (8 * length bs)"

fun sha_words :: "nat list \<Rightarrow> 32 word list" where
  "sha_words (a # b # c # d # bs) =
     (of_nat a * 0x1000000 + of_nat b * 0x10000 + of_nat c * 0x100 + of_nat d) # sha_words bs"
| "sha_words _ = []"

text \<open>The message schedule: forty-eight further words; the list holds the latest word first.\<close>

fun sha_expand :: "nat \<Rightarrow> 32 word list \<Rightarrow> 32 word list" where
  "sha_expand 0 ws = rev ws"
| "sha_expand (Suc n) ws =
     sha_expand n ((sha_s1 (ws ! 1) + ws ! 6 + sha_s0 (ws ! 14) + ws ! 15) # ws)"

fun sha_round :: "sha_state \<Rightarrow> 32 word \<times> 32 word \<Rightarrow> sha_state" where
  "sha_round (a, b, c, d, e, f, g, h) (k, w) =
     (let t1 = h + sha_S1 e + sha_ch e f g + k + w;
          t2 = sha_S0 a + sha_maj a b c
      in (t1 + t2, a, b, c, d + t1, e, f, g))"

fun sha_add :: "sha_state \<Rightarrow> sha_state \<Rightarrow> sha_state" where
  "sha_add (a, b, c, d, e, f, g, h) (a', b', c', d', e', f', g', h') =
     (a + a', b + b', c + c', d + d', e + e', f + f', g + g', h + h')"

definition sha_block :: "sha_state \<Rightarrow> 32 word list \<Rightarrow> sha_state" where
  "sha_block st ws = sha_add st (foldl sha_round st (zip sha_K (sha_expand 48 (rev ws))))"

fun sha_blocks :: "nat \<Rightarrow> sha_state \<Rightarrow> 32 word list \<Rightarrow> sha_state" where
  "sha_blocks 0 st ws = st"
| "sha_blocks (Suc n) st ws = sha_blocks n (sha_block st (take 16 ws)) (drop 16 ws)"

definition hex_digit :: "nat \<Rightarrow> char" where
  "hex_digit n = ''0123456789abcdef'' ! (n mod 16)"

definition word_hex :: "32 word \<Rightarrow> string" where
  "word_hex w = map (\<lambda>i. hex_digit (unat (drop_bit (4 * i) w AND 15))) (rev [0..<8])"

definition sha256_hex :: "nat list \<Rightarrow> string" where
  "sha256_hex bs =
     (let ws = sha_words (sha_pad bs);
          (a, b, c, d, e, f, g, h) = sha_blocks (length ws div 16) sha_init ws
      in concat (map word_hex [a, b, c, d, e, f, g, h]))"

lemma hex_digit_lower_hex: "is_lower_hex (hex_digit n)"
proof -
  have "list_all is_lower_hex ''0123456789abcdef''"
    by (simp add: is_lower_hex_def is_digit09_def less_eq_char_def)
  moreover have "hex_digit n \<in> set ''0123456789abcdef''"
    unfolding hex_digit_def by (rule nth_mem) simp
  ultimately show ?thesis unfolding list_all_iff by blast
qed

lemma length_word_hex [simp]: "length (word_hex w) = 8"
  by (simp add: word_hex_def)

lemma word_hex_lower_hex: "c \<in> set (word_hex w) \<Longrightarrow> is_lower_hex c"
  by (auto simp: word_hex_def hex_digit_lower_hex)

lemma sha256_hex_shape: "length (sha256_hex bs) = 64" "c \<in> set (sha256_hex bs) \<Longrightarrow> is_lower_hex c"
  by (auto simp: sha256_hex_def Let_def word_hex_lower_hex split: prod.splits)

text \<open>The padded message is a whole number of blocks.\<close>

lemma sha_pad_blocks: "64 dvd length (sha_pad bs)"
proof -
  define r where "r = length bs mod 64"
  have r: "r < 64" by (simp add: r_def)
  have "length (sha_pad bs) = length bs + 1 + (119 - r) mod 64 + 8"
    by (simp add: sha_pad_def be_bytes_def r_def)
  moreover have "(119 - r) mod 64 = (if r \<le> 55 then 55 - r else 119 - r)"
    using r by (auto simp: mod_if)
  moreover have "length bs = 64 * (length bs div 64) + r"
    by (simp add: r_def)
  ultimately have "length (sha_pad bs) = 64 * (length bs div 64) + (if r \<le> 55 then 64 else 128)"
    using r by (auto split: if_splits)
  then show ?thesis by (auto split: if_splits)
qed

end
