(* ===== verification/Canonical.thy ===== *)
theory Canonical
  imports Sha256
begin

text \<open>
  Canonical JSON and digests (\<^verbatim>\<open>domain/canonical.py\<close>): \<open>normalize_value\<close> is
  \<^verbatim>\<open>_normalize\<close>, \<open>canonical_json\<close> is \<^verbatim>\<open>json.dumps\<close> with sorted keys, the separators
  \<open>,\<close> and \<open>:\<close> and \<^verbatim>\<open>ensure_ascii=False\<close>, and \<open>digest\<close> is the prefixed SHA-256 of the
  UTF-8 bytes. The lemmas show that the text depends only on the logical value (order of
  dictionary entries does not matter), that normalisation is idempotent, that distinct
  normalised values never share a text, and that every digest passes \<open>parse_digest\<close>.

  A finite float is represented by the text Python's \<^verbatim>\<open>float.__repr__\<close> gives for it, which is
  what \<^verbatim>\<open>json.dumps\<close> emits. A value of a HOL datatype cannot be cyclic, so the cycle check of
  \<^verbatim>\<open>_normalize\<close> has no counterpart.
\<close>

section \<open>Python values and JSON values\<close>

datatype pyfloat = FloatRepr string | NonFiniteFloat

text \<open>A finite decimal is a sign, a coefficient and an exponent.\<close>

datatype pydecimal = Decimal bool nat int | NonFiniteDecimal

text \<open>An aware datetime is given by its UTC instant in microseconds since the epoch.\<close>

datatype pydatetime = Naive | Aware int

datatype pyval =
    PNone
  | PStr string
  | PBool bool
  | PInt int
  | PFloat pyfloat
  | PDecimal pydecimal
  | PEnum pyval
  | PUuid string
  | PDatetime pydatetime
  | PDate int int int
  | PBytes
  | PDict "(pyval \<times> pyval) list"
  | PList "pyval list"
  | PSet
  | POther string

datatype json =
    JNull
  | JBool bool
  | JInt int
  | JFloat string
  | JStr string
  | JArr "json list"
  | JObj "(string \<times> json) list"

section \<open>Decimals and instants as text\<close>

text \<open>\<^verbatim>\<open>Decimal.normalize()\<close> rounds to the context precision (28 digits, half even) and
  removes trailing zeros.\<close>

definition decimal_precision :: nat where
  "decimal_precision = 28"

definition decimal_round :: "nat \<Rightarrow> int \<Rightarrow> nat \<times> int" where
  "decimal_round c e =
     (let n = length (nat_str c) in
      if n \<le> decimal_precision then (c, e)
      else let k = n - decimal_precision; q = c div 10 ^ k; r = c mod 10 ^ k;
               up = (2 * r > 10 ^ k \<or> (2 * r = 10 ^ k \<and> odd q))
           in (if up then q + 1 else q, e + int k))"

fun strip_zeros :: "nat \<Rightarrow> int \<Rightarrow> nat \<times> int" where
  "strip_zeros c e =
     (if c = 0 then (0, 0) else if c mod 10 = 0 then strip_zeros (c div 10) (e + 1) else (c, e))"

declare strip_zeros.simps [simp del]

definition decimal_normalize :: "nat \<Rightarrow> int \<Rightarrow> nat \<times> int" where
  "decimal_normalize c e = (case decimal_round c e of (c', e') \<Rightarrow> strip_zeros c' e')"

text \<open>\<^verbatim>\<open>format(value.normalize(), "f")\<close>.\<close>

definition decimal_text :: "bool \<Rightarrow> nat \<Rightarrow> int \<Rightarrow> string" where
  "decimal_text neg c e =
     (case decimal_normalize c e of (c', e') \<Rightarrow>
        (if neg then ''-'' else '''') @
        (if e' \<ge> 0 then nat_str c' @ replicate (nat e') (CHR ''0'')
         else let k = nat (- e');
                  ds = replicate (Suc k - length (nat_str c')) (CHR ''0'') @ nat_str c'
              in take (length ds - k) ds @ ''.'' @ drop (length ds - k) ds))"

text \<open>Year, month and day of a day number counted from 1970-01-01.\<close>

definition civil_from_days :: "int \<Rightarrow> int \<times> int \<times> int" where
  "civil_from_days days =
     (let z = days + 719468;
          era = z div 146097;
          doe = z - era * 146097;
          yoe = (doe - doe div 1460 + doe div 36524 - doe div 146096) div 365;
          doy = doe - (365 * yoe + yoe div 4 - yoe div 100);
          mp = (5 * doy + 2) div 153;
          d = doy - (153 * mp + 2) div 5 + 1;
          m = (if mp < 10 then mp + 3 else mp - 9);
          y = yoe + era * 400
      in (if m \<le> 2 then y + 1 else y, m, d))"

definition iso_date :: "int \<Rightarrow> int \<Rightarrow> int \<Rightarrow> string" where
  "iso_date y m d = pad_nat 4 (nat y) @ ''-'' @ pad_nat 2 (nat m) @ ''-'' @ pad_nat 2 (nat d)"

text \<open>\<^verbatim>\<open>astimezone(UTC).isoformat()\<close> without the offset suffix.\<close>

definition iso_utc :: "int \<Rightarrow> string" where
  "iso_utc us =
     (let secs = us div 1000000; frac = us mod 1000000;
          days = secs div 86400; sod = secs mod 86400;
          (y, m, d) = civil_from_days days
      in iso_date y m d @ ''T'' @ pad_nat 2 (nat (sod div 3600)) @ '':''
         @ pad_nat 2 (nat (sod div 60 mod 60)) @ '':'' @ pad_nat 2 (nat (sod mod 60))
         @ (if frac = 0 then '''' else ''.'' @ pad_nat 6 (nat frac)))"

section \<open>Normalisation\<close>

fun normalize_value :: "pyval \<Rightarrow> json res"
  and normalize_items :: "(string \<times> json) list \<Rightarrow> (pyval \<times> pyval) list \<Rightarrow> (string \<times> json) list res"
  and normalize_list :: "pyval list \<Rightarrow> json list res" where
  "normalize_value PNone = Inr JNull"
| "normalize_value (PStr s) = Inr (JStr s)"
| "normalize_value (PBool b) = Inr (JBool b)"
| "normalize_value (PInt i) = Inr (JInt i)"
| "normalize_value (PFloat (FloatRepr t)) = Inr (JFloat t)"
| "normalize_value (PFloat NonFiniteFloat) =
     Inl (ValidationFailed ''Kanonik JSON sonlu olmayan float kabul etmez'')"
| "normalize_value (PDecimal (Decimal neg c e)) = Inr (JStr (decimal_text neg c e))"
| "normalize_value (PDecimal NonFiniteDecimal) =
     Inl (ValidationFailed ''Kanonik JSON sonlu olmayan Decimal kabul etmez'')"
| "normalize_value (PEnum v) = normalize_value v"
| "normalize_value (PUuid u) = Inr (JStr u)"
| "normalize_value (PDatetime Naive) =
     Inl (ValidationFailed ''Kanonik JSON timezone'suz datetime kabul etmez'')"
| "normalize_value (PDatetime (Aware us)) = Inr (JStr (iso_utc us @ ''Z''))"
| "normalize_value (PDate y m d) = Inr (JStr (iso_date y m d))"
| "normalize_value PBytes =
     Inl (ValidationFailed ''Kanonik JSON ham bayt kabul etmez; once kodlayin'')"
| "normalize_value (PDict kvs) =
     rbind (normalize_items [] kvs) (\<lambda>items. Inr (JObj (sort_key fst items)))"
| "normalize_value (PList vs) = rbind (normalize_list vs) (\<lambda>js. Inr (JArr js))"
| "normalize_value PSet =
     Inl (ValidationFailed ''Kanonik JSON sirasiz kume kabul etmez; once listeye cevirin'')"
| "normalize_value (POther t) =
     Inl (ValidationFailed (''Kanonik JSON desteklenmeyen tip: '' @ t))"
| "normalize_items acc [] = Inr acc"
| "normalize_items acc ((k, v) # kvs) =
     (case k of
        PStr s \<Rightarrow>
          (if s \<in> fst ` set acc
           then Inl (ValidationFailed ''Kanonik JSON yinelenen anahtar kabul etmez'')
           else rbind (normalize_value v) (\<lambda>j. normalize_items (acc @ [(s, j)]) kvs))
      | _ \<Rightarrow> Inl (ValidationFailed ''Kanonik JSON yalnizca metin anahtar kabul eder''))"
| "normalize_list [] = Inr []"
| "normalize_list (v # vs) =
     rbind (normalize_value v) (\<lambda>j. rbind (normalize_list vs) (\<lambda>js. Inr (j # js)))"

definition canonicalize :: "pyval \<Rightarrow> json res" where
  "canonicalize v = normalize_value v"

text \<open>A field of a decoded JSON object, as \<^verbatim>\<open>dict.get\<close> reads it.\<close>

definition json_field :: "json \<Rightarrow> string \<Rightarrow> json option" where
  "json_field j k = (case j of JObj kvs \<Rightarrow> map_of kvs k | _ \<Rightarrow> None)"

section \<open>Text\<close>

definition hex2 :: "nat \<Rightarrow> string" where
  "hex2 n = [hex_digit (n div 16), hex_digit n]"

definition esc_char :: "char \<Rightarrow> string" where
  "esc_char c =
     (if c = CHR 0x22 then [CHR 0x5C, CHR 0x22]
      else if c = CHR 0x5C then [CHR 0x5C, CHR 0x5C]
      else if c = CHR 0x08 then [CHR 0x5C, CHR ''b'']
      else if c = CHR 0x09 then [CHR 0x5C, CHR ''t'']
      else if c = CHR 0x0A then [CHR 0x5C, CHR ''n'']
      else if c = CHR 0x0C then [CHR 0x5C, CHR ''f'']
      else if c = CHR 0x0D then [CHR 0x5C, CHR ''r'']
      else if (of_char c :: nat) < 32 then CHR 0x5C # ''u00'' @ hex2 (of_char c)
      else [c])"

definition esc_string :: "string \<Rightarrow> string" where
  "esc_string s = concat (map esc_char s)"

definition quote :: char where
  "quote = CHR 0x22"

fun dumps :: "json \<Rightarrow> string"
  and dumps_list :: "json list \<Rightarrow> string"
  and dumps_items :: "(string \<times> json) list \<Rightarrow> string" where
  "dumps JNull = ''null''"
| "dumps (JBool b) = (if b then ''true'' else ''false'')"
| "dumps (JInt i) = int_str i"
| "dumps (JFloat t) = t"
| "dumps (JStr s) = quote # esc_string s @ [quote]"
| "dumps (JArr js) = CHR ''['' # dumps_list js @ [CHR '']'']"
| "dumps (JObj kvs) = CHR ''{'' # dumps_items kvs @ [CHR ''}'']"
| "dumps_list [] = []"
| "dumps_list [j] = dumps j"
| "dumps_list (j # k # js) = dumps j @ CHR '','' # dumps_list (k # js)"
| "dumps_items [] = []"
| "dumps_items [(k, j)] = quote # esc_string k @ quote # CHR '':'' # dumps j"
| "dumps_items ((k, j) # kv # kvs) =
     quote # esc_string k @ quote # CHR '':'' # dumps j @ CHR '','' # dumps_items (kv # kvs)"

definition canonical_json :: "pyval \<Rightarrow> string res" where
  "canonical_json v = rbind (canonicalize v) (\<lambda>j. Inr (dumps j))"

section \<open>Digests\<close>

definition digest_prefix :: string where
  "digest_prefix = ''sha256:''"

definition digest_json :: "json \<Rightarrow> string" where
  "digest_json j = digest_prefix @ sha256_hex (utf8_bytes (dumps j))"

definition digest :: "pyval \<Rightarrow> string res" where
  "digest v = rbind (canonicalize v) (\<lambda>j. Inr (digest_json j))"

definition digest_hex :: "pyval \<Rightarrow> string res" where
  "digest_hex v = rbind (canonicalize v) (\<lambda>j. Inr (sha256_hex (utf8_bytes (dumps j))))"

definition digest_of_bytes :: "nat list \<Rightarrow> string" where
  "digest_of_bytes payload = digest_prefix @ sha256_hex payload"

definition parse_digest :: "string \<Rightarrow> string res" where
  "parse_digest value =
     (if \<not> starts_with value digest_prefix
      then Inl (ValidationFailed ''Digest sha256: oneki tasimali'')
      else let hexadecimal = drop (length digest_prefix) value in
        if length hexadecimal \<noteq> 64 \<or> list_ex (\<lambda>c. \<not> is_lower_hex c) hexadecimal
        then Inl (ValidationFailed ''Digest 64 karakterlik kucuk harf onaltilik olmali'')
        else Inr hexadecimal)"

definition digests_match :: "string \<Rightarrow> string \<Rightarrow> bool res" where
  "digests_match l r = rbind (parse_digest l) (\<lambda>a. rbind (parse_digest r) (\<lambda>b. Inr (a = b)))"

abbreviation valid_digest :: "string \<Rightarrow> bool" where
  "valid_digest d \<equiv> is_ok (parse_digest d)"

section \<open>Normalised values\<close>

text \<open>Keys of every object strictly increasing, at every depth.\<close>

fun canon :: "json \<Rightarrow> bool" where
  "canon (JArr js) = list_all canon js"
| "canon (JObj kvs) = (sorted_wrt (<) (map fst kvs) \<and> list_all (\<lambda>kv. canon (snd kv)) kvs)"
| "canon _ = True"

text \<open>A JSON value read back as the Python value \<^verbatim>\<open>json.loads\<close> builds for it.\<close>

fun embed :: "json \<Rightarrow> pyval" where
  "embed JNull = PNone"
| "embed (JBool b) = PBool b"
| "embed (JInt i) = PInt i"
| "embed (JFloat t) = PFloat (FloatRepr t)"
| "embed (JStr s) = PStr s"
| "embed (JArr js) = PList (map embed js)"
| "embed (JObj kvs) = PDict (map (\<lambda>kv. (PStr (fst kv), embed (snd kv))) kvs)"

fun entry_ok :: "pyval \<times> pyval \<Rightarrow> string \<times> json \<Rightarrow> bool" where
  "entry_ok (k, v) (s, j) = (k = PStr s \<and> normalize_value v = Inr j)"

lemma normalize_items_Inr_iff:
  "normalize_items acc kvs = Inr items \<longleftrightarrow>
     (\<exists>new. items = acc @ new \<and> list_all2 entry_ok kvs new
        \<and> distinct (map fst new) \<and> fst ` set acc \<inter> fst ` set new = {})"
proof (induction kvs arbitrary: acc)
  case Nil
  then show ?case by auto
next
  case (Cons kv kvs)
  obtain k v where kv: "kv = (k, v)" by (cases kv)
  show ?case (is "?L \<longleftrightarrow> ?R")
  proof
    assume ?L
    then obtain s j where s: "k = PStr s" "s \<notin> fst ` set acc" "normalize_value v = Inr j"
      and rec: "normalize_items (acc @ [(s, j)]) kvs = Inr items"
      by (auto simp: kv rbind_Inr_iff split: pyval.splits if_splits)
    from Cons.IH [of "acc @ [(s, j)]"] rec obtain new where
      new: "items = acc @ (s, j) # new" "list_all2 entry_ok kvs new" "distinct (map fst new)"
        "fst ` set (acc @ [(s, j)]) \<inter> fst ` set new = {}" by auto
    then show ?R using s by (intro exI [of _ "(s, j) # new"]) (auto simp: kv)
  next
    assume ?R
    then obtain s j new where new: "items = acc @ (s, j) # new" "entry_ok (k, v) (s, j)"
      "list_all2 entry_ok kvs new" "distinct (map fst ((s, j) # new))"
      "fst ` set acc \<inter> fst ` set ((s, j) # new) = {}"
      by (auto simp: kv list_all2_Cons1)
    have "normalize_items (acc @ [(s, j)]) kvs = Inr items"
      unfolding Cons.IH using new by (intro exI [of _ new]) auto
    with new show ?L by (auto simp: kv)
  qed
qed

lemma normalize_list_Inr_iff:
  "normalize_list vs = Inr js \<longleftrightarrow> list_all2 (\<lambda>v j. normalize_value v = Inr j) vs js"
proof (induction vs arbitrary: js)
  case Nil
  then show ?case by auto
next
  case (Cons v vs)
  then show ?case by (cases js) (auto simp: rbind_Inr_iff)
qed

lemma normalize_texts: "normalize_list (map PStr xs) = Inr (map JStr xs)"
  by (induction xs) simp_all

lemma normalize_dict_Inr_iff:
  "normalize_value (PDict kvs) = Inr j \<longleftrightarrow>
     (\<exists>items. list_all2 entry_ok kvs items \<and> distinct (map fst items)
        \<and> j = JObj (sort_key fst items))"
  by (auto simp: rbind_Inr_iff normalize_items_Inr_iff)

lemma list_all2_mset_transfer:
  assumes "list_all2 R xs ys" and "mset xs = mset xs'"
  shows "\<exists>ys'. list_all2 R xs' ys' \<and> mset ys' = mset ys"
  using list_all2_reorder_left_invariance [OF assms(1) assms(2) [symmetric]] by auto

lemma distinct_fst_inj_on: "distinct (map fst items) \<Longrightarrow> inj_on fst (set items)"
  by (simp add: distinct_map)

lemma normalize_dict_perm:
  assumes "normalize_value (PDict kvs) = Inr j" and "mset kvs = mset kvs'"
  shows "normalize_value (PDict kvs') = Inr j"
proof -
  from assms(1) obtain items where items: "list_all2 entry_ok kvs items" "distinct (map fst items)"
    "j = JObj (sort_key fst items)" unfolding normalize_dict_Inr_iff by blast
  from list_all2_mset_transfer [OF items(1) assms(2)] obtain items' where
    items': "list_all2 entry_ok kvs' items'" "mset items' = mset items" by blast
  from items'(2) have "mset (map fst items') = mset (map fst items)" by simp
  with items(2) have "distinct (map fst items')" by (metis mset_eq_imp_distinct_iff)
  moreover have "sort_key fst items = sort_key fst items'"
    using items(2) items'(2) by (intro sort_key_perm_eq) (auto simp: distinct_fst_inj_on)
  ultimately show ?thesis using items items' unfolding normalize_dict_Inr_iff by metis
qed

lemma sorted_wrt_sort_key_fst:
  assumes "distinct (map fst items)"
  shows "sorted_wrt (<) (map fst (sort_key fst items))"
proof -
  have "distinct (map fst (sort_key fst items))"
    using assms by (metis mset_eq_imp_distinct_iff mset_map mset_sort)
  then show ?thesis by (simp add: strict_sorted_iff)
qed

lemma canon_normalize_aux:
  "normalize_value v = Inr j \<Longrightarrow> canon j"
  "normalize_items acc kvs = Inr items \<Longrightarrow> \<forall>kv \<in> set acc. canon (snd kv) \<Longrightarrow>
     \<forall>kv \<in> set items. canon (snd kv)"
  "normalize_list vs = Inr js \<Longrightarrow> list_all canon js"
proof (induction v and acc kvs and vs arbitrary: j and items and js
    rule: normalize_value_normalize_items_normalize_list.induct)
  case (15 kvs)
  from 15(2) obtain items where items: "normalize_items [] kvs = Inr items"
    "j = JObj (sort_key fst items)" by (auto simp: rbind_Inr_iff)
  then have "distinct (map fst items)" by (simp add: normalize_items_Inr_iff)
  with 15(1) [OF items(1)] items show ?case
    by (auto simp: sorted_wrt_sort_key_fst list_all_iff)
next
  case (20 acc k v kvs)
  from 20(3) obtain s j where s: "k = PStr s" "s \<notin> fst ` set acc" "normalize_value v = Inr j"
    "normalize_items (acc @ [(s, j)]) kvs = Inr items"
    by (auto simp: rbind_Inr_iff split: pyval.splits if_splits)
  with 20(1) [OF s(1,2)] 20(4) have "\<forall>kv \<in> set (acc @ [(s, j)]). canon (snd kv)" by auto
  then show ?case using 20(2) [OF s(1,2) s(4)] by blast
qed (auto simp: rbind_Inr_iff)

lemmas canon_normalize = canon_normalize_aux(1)

lemma normalize_embed: "canon j \<Longrightarrow> normalize_value (embed j) = Inr j"
proof (induction j)
  case (JArr js)
  then have "list_all2 (\<lambda>v j. normalize_value v = Inr j) (map embed js) js"
    by (auto simp: list_all2_conv_all_nth list_all_iff)
  then show ?case by (simp add: normalize_list_Inr_iff [THEN iffD2])
next
  case (JObj kvs)
  have "list_all2 entry_ok (map (\<lambda>kv. (PStr (fst kv), embed (snd kv))) kvs) kvs"
    using JObj by (auto simp: list_all2_conv_all_nth list_all_iff split_beta
        intro!: entry_ok.simps [THEN iffD2] elim!: allE dest: nth_mem)
      (metis (no_types, lifting) entry_ok.simps nth_mem prod.collapse snds.intros)
  moreover have "distinct (map fst kvs)" using JObj.prems by (simp add: strict_sorted_iff)
  moreover have "sort_key fst kvs = kvs"
    using JObj.prems by (simp add: sort_key_id_if_sorted strict_sorted_iff)
  ultimately show ?case unfolding embed.simps normalize_dict_Inr_iff by metis
qed auto

section \<open>The text determines the value\<close>

text \<open>Values without floats, whose text is a token given from outside.\<close>

fun float_free :: "json \<Rightarrow> bool" where
  "float_free (JFloat _) = False"
| "float_free (JArr js) = list_all float_free js"
| "float_free (JObj kvs) = list_all (\<lambda>kv. float_free (snd kv)) kvs"
| "float_free _ = True"

text \<open>What may follow a value inside a larger text.\<close>

definition ends_value :: "string \<Rightarrow> bool" where
  "ends_value r = (r = [] \<or> hd r \<in> {CHR '','', CHR '']'', CHR ''}''})"

lemma of_char_less_256: "(of_char c :: nat) < 256"
  by (metis char_of_char of_char_mod_256 of_char_of mod_less_divisor zero_less_numeral)

lemma hex_digit_inj: "hex_digit a = hex_digit b \<Longrightarrow> a mod 16 = b mod 16"
proof -
  have "distinct ''0123456789abcdef''" by simp
  then show "hex_digit a = hex_digit b \<Longrightarrow> a mod 16 = b mod 16"
    unfolding hex_digit_def by (subst (asm) nth_eq_iff_index_eq) simp_all
qed

lemma hex2_inj: "a < 256 \<Longrightarrow> b < 256 \<Longrightarrow> hex2 a = hex2 b \<Longrightarrow> a = b"
proof -
  assume ab: "a < 256" "b < 256" "hex2 a = hex2 b"
  then have "a div 16 mod 16 = b div 16 mod 16" "a mod 16 = b mod 16"
    by (auto simp: hex2_def dest: hex_digit_inj)
  moreover from ab(1,2) have "a div 16 < 16" "b div 16 < 16" by auto
  ultimately show "a = b" by (metis div_mult_mod_eq mod_less)
qed

lemma esc_char_cases:
  obtains (plain) "esc_char c = [c]" "c \<noteq> CHR 0x5C" "c \<noteq> quote"
  | (short) e where "esc_char c = [CHR 0x5C, e]"
      "(e, c) \<in> {(CHR 0x22, CHR 0x22), (CHR 0x5C, CHR 0x5C), (CHR ''b'', CHR 0x08),
        (CHR ''t'', CHR 0x09), (CHR ''n'', CHR 0x0A), (CHR ''f'', CHR 0x0C), (CHR ''r'', CHR 0x0D)}"
  | (long) "esc_char c = CHR 0x5C # CHR ''u'' # ''00'' @ hex2 (of_char c)"
proof (cases "c \<in> {CHR 0x22, CHR 0x5C, CHR 0x08, CHR 0x09, CHR 0x0A, CHR 0x0C, CHR 0x0D}")
  case True
  then show ?thesis by (intro short [of "hd (tl (esc_char c))"]) (auto simp: esc_char_def)
next
  case False
  then show ?thesis
    by (cases "(of_char c :: nat) < 32") (auto simp: esc_char_def quote_def intro: plain long)
qed

lemma esc_char_not_quote: "hd (esc_char c) \<noteq> quote" "esc_char c \<noteq> []"
  by (cases c rule: esc_char_cases; simp add: quote_def)+

lemma esc_char_prefix_free:
  assumes "esc_char c @ x = esc_char d @ y"
  shows "c = d \<and> x = y"
proof (cases c rule: esc_char_cases)
  case plain
  with assms show ?thesis by (cases d rule: esc_char_cases) auto
next
  case (short e)
  with assms show ?thesis by (cases d rule: esc_char_cases) (auto simp: quote_def)
next
  case long
  with assms show ?thesis
  proof (cases d rule: esc_char_cases)
    case long': long
    with assms long have "hex2 (of_char c) = hex2 (of_char d)" "x = y"
      by (auto simp: hex2_def)
    moreover from this have "(of_char c :: nat) = of_char d"
      by (intro hex2_inj) (simp_all add: of_char_less_256)
    ultimately show ?thesis by (metis char_of_char)
  qed auto
qed

lemma esc_string_simps [simp]:
  "esc_string [] = []" "esc_string (c # cs) = esc_char c @ esc_string cs"
  by (simp_all add: esc_string_def)

lemma esc_string_quoted_inj:
  "esc_string s @ quote # x = esc_string t @ quote # y \<Longrightarrow> s = t \<and> x = y"
proof (induction s arbitrary: t)
  case Nil
  then show ?case using esc_char_not_quote by (cases t) (auto, metis hd_append2 list.sel(1))
next
  case (Cons c cs)
  show ?case
  proof (cases t)
    case Nil
    with Cons.prems have "hd (esc_char c) = quote"
      by (metis append_is_Nil_conv append_Nil append_assoc esc_char_not_quote(2) esc_string_simps
          hd_append2 list.sel(1))
    then show ?thesis using esc_char_not_quote by blast
  next
    case t: (Cons d ds)
    with Cons.prems have "esc_char c @ (esc_string cs @ quote # x)
        = esc_char d @ (esc_string ds @ quote # y)" by simp
    from esc_char_prefix_free [OF this] Cons.IH [of ds] t show ?thesis by auto
  qed
qed

lemma ends_value_not_digit: "ends_value r \<Longrightarrow> r = [] \<or> \<not> is_digit09 (hd r)"
  by (auto simp: ends_value_def is_digit09_def less_eq_char_def)

lemma nat_str_prefix:
  assumes "nat_str m @ x = nat_str n @ y" and "ends_value x" "ends_value y"
  shows "m = n \<and> x = y"
proof -
  have tw: "takeWhile is_digit09 (nat_str k @ r) = nat_str k" if "ends_value r" for k r
  proof -
    have "takeWhile is_digit09 (nat_str k @ r) = nat_str k @ takeWhile is_digit09 r"
      by (rule takeWhile_append2) (rule nat_str_digits)
    also have "takeWhile is_digit09 r = []"
      using ends_value_not_digit [OF that] by (cases r) auto
    finally show ?thesis by simp
  qed
  from assms have "nat_str m = nat_str n" by (metis tw)
  with assms(1) show ?thesis by (auto dest: nat_str_inj)
qed

lemma nat_str_not_minus: "nat_str n = CHR ''-'' # xs \<Longrightarrow> False"
  using nat_str_digits [of "CHR ''-''" n] by (auto simp: is_digit09_def less_eq_char_def)

lemma nat_str_append_not_minus: "nat_str n @ u = CHR ''-'' # v \<longleftrightarrow> False"
  using nat_str_not_minus [of n] by (cases "nat_str n") auto

lemma int_str_prefix:
  assumes "int_str i @ x = int_str k @ y" and "ends_value x" "ends_value y"
  shows "i = k \<and> x = y"
proof (cases "i < 0"; cases "k < 0")
  assume "i < 0" "k < 0"
  with assms nat_str_prefix [of "nat (- i)" x "nat (- k)" y] show ?thesis
    by (auto simp: int_str_def)
next
  assume "\<not> i < 0" "\<not> k < 0"
  with assms nat_str_prefix [of "nat i" x "nat k" y] show ?thesis
    by (auto simp: int_str_def)
next
  assume "i < 0" "\<not> k < 0"
  with assms(1) have "nat_str (nat k) @ y = CHR ''-'' # nat_str (nat (- i)) @ x"
    by (simp add: int_str_def)
  then show ?thesis by (simp add: nat_str_append_not_minus)
next
  assume "\<not> i < 0" "k < 0"
  with assms(1) have "nat_str (nat i) @ x = CHR ''-'' # nat_str (nat (- k)) @ y"
    by (simp add: int_str_def)
  then show ?thesis by (simp add: nat_str_append_not_minus)
qed

lemma esc_string_quoted_colon:
  "quote # esc_string s @ quote # CHR '':'' # x = quote # esc_string t @ quote # CHR '':'' # y
     \<Longrightarrow> s = t \<and> x = y"
  using esc_string_quoted_inj [of s "CHR '':'' # x" t "CHR '':'' # y"] by simp

lemma ends_value_simps [simp]:
  "ends_value []" "ends_value (CHR '','' # r)" "ends_value (CHR '']'' # r)" "ends_value (CHR ''}'' # r)"
  by (simp_all add: ends_value_def)

text \<open>The first character of a text tells which kind of value it is.\<close>

lemma int_str_hd: "int_str i @ r = c # r' \<Longrightarrow> c = CHR ''-'' \<or> is_digit09 c"
  using nat_str_digits [of c] by (auto simp: int_str_def split: if_splits)
    (metis append_eq_Cons_conv list.set_intros(1) nat_str_nonempty(1))

lemma int_str_not_other:
  "int_str i @ r = c # r' \<Longrightarrow> c \<notin> {CHR ''n'', CHR ''t'', CHR ''f'', quote, CHR ''['', CHR ''{''}"
  by (drule int_str_hd) (auto simp: is_digit09_def less_eq_char_def quote_def)

lemma dumps_nonempty: "float_free j \<Longrightarrow> dumps j \<noteq> []"
  by (cases j) (auto simp: int_str_def)

text \<open>Read from the left, a text of a float-free value followed by a delimiter has one
  reading only.\<close>

definition one_reading :: "json \<Rightarrow> bool" where
  "one_reading j = (\<forall>k x y. float_free j \<longrightarrow> float_free k \<longrightarrow> ends_value x \<longrightarrow> ends_value y \<longrightarrow>
     dumps j @ x = dumps k @ y \<longrightarrow> j = k \<and> x = y)"

lemma one_readingD:
  "one_reading j \<Longrightarrow> float_free j \<Longrightarrow> float_free k \<Longrightarrow> ends_value x \<Longrightarrow> ends_value y \<Longrightarrow>
     dumps j @ x = dumps k @ y \<Longrightarrow> j = k \<and> x = y"
  unfolding one_reading_def by blast

lemma dumps_hd:
  "float_free j \<Longrightarrow> dumps j @ x = c # r \<Longrightarrow> c \<noteq> CHR '']'' \<and> c \<noteq> CHR ''}'' \<and> c \<noteq> CHR '',''"
  by (cases j)
    (auto simp: quote_def is_digit09_def less_eq_char_def dest!: int_str_hd split: if_splits)

lemma dumps_list_reading:
  assumes "list_all float_free js" "list_all float_free ks" "\<forall>j \<in> set js. one_reading j"
    and "dumps_list js @ CHR '']'' # x = dumps_list ks @ CHR '']'' # y"
  shows "js = ks \<and> x = y"
  using assms
proof (induction js arbitrary: ks rule: induct_list012)
  case (1 ks)
  then show ?case
    by (cases ks rule: list012_cases) (auto dest: dumps_hd [OF _ sym])
next
  case (2 j ks)
  note prems = "2.prems"
  show ?case
  proof (cases ks rule: list012_cases)
    case nil
    with prems show ?thesis by (auto dest: dumps_hd)
  next
    case (one k)
    with prems one_readingD [of j k "CHR '']'' # x" "CHR '']'' # y"] show ?thesis by simp
  next
    case (more k k' ks')
    have "j = k \<and> CHR '']'' # x = CHR '','' # dumps_list (k' # ks') @ CHR '']'' # y"
      by (rule one_readingD) (use prems more in auto)
    then show ?thesis by simp
  qed
next
  case (3 j j' js' ks)
  note prems = "3.prems" and IH = "3.IH"(2)
  show ?case
  proof (cases ks rule: list012_cases)
    case nil
    with prems show ?thesis by (auto dest: dumps_hd)
  next
    case (one k)
    have "j = k \<and> CHR '','' # dumps_list (j' # js') @ CHR '']'' # x = CHR '']'' # y"
      by (rule one_readingD) (use prems one in auto)
    then show ?thesis by simp
  next
    case (more k k' ks')
    have "j = k \<and> CHR '','' # dumps_list (j' # js') @ CHR '']'' # x
        = CHR '','' # dumps_list (k' # ks') @ CHR '']'' # y"
      by (rule one_readingD) (use prems more in auto)
    then have jk: "j = k" and rest:
      "dumps_list (j' # js') @ CHR '']'' # x = dumps_list (k' # ks') @ CHR '']'' # y" by auto
    have "j' # js' = k' # ks' \<and> x = y"
      by (rule IH) (use prems more rest in auto)
    with jk more show ?thesis by simp
  qed
qed

lemma dumps_items_reading:
  assumes "list_all (\<lambda>kv. float_free (snd kv)) ps" "list_all (\<lambda>kv. float_free (snd kv)) qs"
    and "\<forall>kv \<in> set ps. one_reading (snd kv)"
    and "dumps_items ps @ CHR ''}'' # x = dumps_items qs @ CHR ''}'' # y"
  shows "ps = qs \<and> x = y"
  using assms
proof (induction ps arbitrary: qs rule: induct_list012)
  case (1 qs)
  then show ?case
    by (cases qs rule: list012_cases; cases "hd qs") (auto simp: quote_def)
next
  case (2 kv0 qs)
  note prems = "2.prems"
  obtain s j where kv0 [simp]: "kv0 = (s, j)" by (cases kv0)
  show ?case
  proof (cases qs rule: list012_cases)
    case nil
    with prems show ?thesis by (auto simp: quote_def)
  next
    case (one q)
    obtain t k where q: "q = (t, k)" by (cases q)
    with prems(4) one have "s = t \<and> dumps j @ CHR ''}'' # x = dumps k @ CHR ''}'' # y"
      by (intro esc_string_quoted_colon) simp
    with prems q one one_readingD [of j k "CHR ''}'' # x" "CHR ''}'' # y"] show ?thesis by simp
  next
    case (more q q' qs')
    obtain t k where q: "q = (t, k)" by (cases q)
    with prems(4) more have "s = t \<and> dumps j @ CHR ''}'' # x
        = dumps k @ CHR '','' # dumps_items (q' # qs') @ CHR ''}'' # y"
      by (intro esc_string_quoted_colon) simp
    then have "j = k \<and> CHR ''}'' # x = CHR '','' # dumps_items (q' # qs') @ CHR ''}'' # y"
      by (intro one_readingD) (use prems q more in auto)
    then show ?thesis by simp
  qed
next
  case (3 kv0 p ps' qs)
  note prems = "3.prems" and IH = "3.IH"(2)
  obtain s j where kv0 [simp]: "kv0 = (s, j)" by (cases kv0)
  show ?case
  proof (cases qs rule: list012_cases)
    case nil
    with prems show ?thesis by (auto simp: quote_def)
  next
    case (one q)
    obtain t k where q: "q = (t, k)" by (cases q)
    with prems(4) one have "s = t \<and> dumps j @ CHR '','' # dumps_items (p # ps') @ CHR ''}'' # x
        = dumps k @ CHR ''}'' # y"
      by (intro esc_string_quoted_colon) simp
    then have "j = k \<and> CHR '','' # dumps_items (p # ps') @ CHR ''}'' # x = CHR ''}'' # y"
      by (intro one_readingD) (use prems q one in auto)
    then show ?thesis by simp
  next
    case (more q q' qs')
    obtain t k where q: "q = (t, k)" by (cases q)
    with prems(4) more have st: "s = t \<and>
        dumps j @ CHR '','' # dumps_items (p # ps') @ CHR ''}'' # x
        = dumps k @ CHR '','' # dumps_items (q' # qs') @ CHR ''}'' # y"
      by (intro esc_string_quoted_colon) simp
    then have "j = k \<and> CHR '','' # dumps_items (p # ps') @ CHR ''}'' # x
        = CHR '','' # dumps_items (q' # qs') @ CHR ''}'' # y"
      by (intro one_readingD) (use prems q more in auto)
    then have jk: "j = k \<and> dumps_items (p # ps') @ CHR ''}'' # x
        = dumps_items (q' # qs') @ CHR ''}'' # y" by simp
    have "p # ps' = q' # qs' \<and> x = y"
      by (rule IH) (use prems more jk in auto)
    with st jk q more show ?thesis by simp
  qed
qed

lemma one_reading_all: "one_reading j"
proof (induction j)
  case (JArr js)
  show ?case unfolding one_reading_def
  proof (intro allI impI)
    fix k x y
    assume a: "float_free (JArr js)" "float_free k" "dumps (JArr js) @ x = dumps k @ y"
    then obtain ks where k: "k = JArr ks"
      by (cases k) (auto simp: quote_def split: if_splits dest!: int_str_not_other [OF sym])
    with a have "dumps_list js @ CHR '']'' # x = dumps_list ks @ CHR '']'' # y" by simp
    with a k JArr dumps_list_reading [of js ks x y] show "JArr js = k \<and> x = y" by auto
  qed
next
  case (JObj ps)
  have ih: "\<forall>kv \<in> set ps. one_reading (snd kv)"
    using JObj by (metis prod.collapse snds.intros)
  show ?case unfolding one_reading_def
  proof (intro allI impI)
    fix k x y
    assume a: "float_free (JObj ps)" "float_free k" "dumps (JObj ps) @ x = dumps k @ y"
    then obtain qs where k: "k = JObj qs"
      by (cases k) (auto simp: quote_def split: if_splits dest!: int_str_not_other [OF sym])
    with a have "dumps_items ps @ CHR ''}'' # x = dumps_items qs @ CHR ''}'' # y" by simp
    with a k ih dumps_items_reading [of ps qs x y] show "JObj ps = k \<and> x = y" by auto
  qed
next
  case (JInt i)
  show ?case unfolding one_reading_def
  proof (intro allI impI)
    fix k x y
    assume a: "float_free k" "ends_value x" "ends_value y" "dumps (JInt i) @ x = dumps k @ y"
    then obtain i' where "k = JInt i'"
      by (cases k) (auto simp: quote_def split: if_splits dest!: int_str_not_other)
    with a int_str_prefix [of i x i' y] show "JInt i = k \<and> x = y" by simp
  qed
next
  case (JStr s)
  show ?case unfolding one_reading_def
  proof (intro allI impI)
    fix k x y
    assume a: "float_free k" "dumps (JStr s) @ x = dumps k @ y"
    then obtain t where "k = JStr t"
      by (cases k) (auto simp: quote_def split: if_splits dest!: int_str_not_other [OF sym])
    with a esc_string_quoted_inj [of s x t y] show "JStr s = k \<and> x = y" by simp
  qed
next
  case JNull
  then show ?case unfolding one_reading_def
    by (intro allI impI, case_tac k)
      (auto simp: quote_def split: if_splits dest!: int_str_not_other [OF sym])
next
  case (JBool b)
  then show ?case unfolding one_reading_def
    by (intro allI impI, case_tac k)
      (auto simp: quote_def split: if_splits dest!: int_str_not_other [OF sym])
next
  case (JFloat t)
  then show ?case by (simp add: one_reading_def)
qed

lemma dumps_inj: "float_free j \<Longrightarrow> float_free k \<Longrightarrow> dumps j = dumps k \<Longrightarrow> j = k"
  using one_readingD [OF one_reading_all, of j k "[]" "[]"] by simp

section \<open>Digests parse\<close>

lemma starts_with_append [simp]: "starts_with (p @ s) p"
  by (simp add: starts_with_def)

lemma parse_digest_Inr_iff:
  "parse_digest d = Inr h \<longleftrightarrow>
     d = digest_prefix @ h \<and> length h = 64 \<and> (\<forall>c \<in> set h. is_lower_hex c)"
proof -
  have "starts_with d digest_prefix \<Longrightarrow> d = digest_prefix @ drop (length digest_prefix) d"
    unfolding starts_with_def by (metis append_take_drop_id)
  then show ?thesis
    by (auto simp: parse_digest_def Let_def list_ex_iff)
qed

lemma parse_digest_json: "parse_digest (digest_json j) = Inr (sha256_hex (utf8_bytes (dumps j)))"
  by (simp add: parse_digest_Inr_iff digest_json_def sha256_hex_shape)

lemma valid_digest_json [simp]: "valid_digest (digest_json j)"
  by (simp add: parse_digest_json)

section \<open>Properties\<close>

text \<open>The digest of a dictionary does not depend on the order in which its entries were
  inserted: if one order has a digest, every permutation of the entries has the same one.\<close>

theorem digest_ignores_entry_order:
  assumes "digest (PDict kvs) = Inr d" and "mset kvs = mset kvs'"
  shows "digest (PDict kvs') = Inr d"
proof -
  from assms(1) obtain j where "normalize_value (PDict kvs) = Inr j" "d = digest_json j"
    unfolding digest_def canonicalize_def rbind_Inr_iff by blast
  with normalize_dict_perm [OF _ assms(2)] show ?thesis
    unfolding digest_def canonicalize_def rbind_Inr_iff by blast
qed

theorem digest_ignores_entry_order_witness:
  "digest (PDict [(PStr ''b'', PInt 2), (PStr ''a'', PNone)])
     = digest (PDict [(PStr ''a'', PNone), (PStr ''b'', PInt 2)])"
proof -
  have d: "digest (PDict [(PStr ''b'', PInt 2), (PStr ''a'', PNone)])
      = Inr (digest_json (JObj [(''a'', JNull), (''b'', JInt 2)]))"
    by (simp add: digest_def canonicalize_def)
  show ?thesis
    using digest_ignores_entry_order [OF d, of "[(PStr ''a'', PNone), (PStr ''b'', PInt 2)]"] d
    by simp
qed

text \<open>Values whose normal forms differ have different canonical texts: the text that is
  hashed determines the normalised value (for values without floats).\<close>

theorem canonical_json_injective:
  assumes "canonicalize v = Inr j" "canonicalize w = Inr k"
    and "float_free j" "float_free k"
    and "canonical_json v = canonical_json w"
  shows "j = k"
  using assms by (auto simp: canonical_json_def intro: dumps_inj)

theorem canonical_json_injective_witness:
  "canonical_json (PList [PStr ''a'', PInt 12]) = canonical_json (PList [PEnum (PStr ''a''), PInt 12])
     \<and> canonicalize (PList [PStr ''a'', PInt 12]) = canonicalize (PList [PEnum (PStr ''a''), PInt 12])"
proof -
  have a: "canonicalize (PList [PStr ''a'', PInt 12]) = Inr (JArr [JStr ''a'', JInt 12])"
    and b: "canonicalize (PList [PEnum (PStr ''a''), PInt 12]) = Inr (JArr [JStr ''a'', JInt 12])"
    by (simp_all add: canonicalize_def)
  then have "canonical_json (PList [PStr ''a'', PInt 12])
      = canonical_json (PList [PEnum (PStr ''a''), PInt 12])"
    by (simp add: canonical_json_def)
  with canonical_json_injective [OF a b] a b show ?thesis by simp
qed

text \<open>Normalisation yields a canonical value (keys strictly increasing at every depth), and
  reading that value back and normalising it again changes nothing.\<close>

theorem canonicalize_idempotent:
  assumes "canonicalize v = Inr j"
  shows "canon j \<and> canonicalize (embed j) = Inr j \<and> canonical_json (embed j) = canonical_json v"
  using assms canon_normalize [of v j] normalize_embed [of j]
  by (simp add: canonicalize_def canonical_json_def)

theorem canonicalize_idempotent_witness:
  "canonicalize (embed (JObj [(''a'', JBool True), (''b'', JArr [])]))
     = Inr (JObj [(''a'', JBool True), (''b'', JArr [])])"
proof -
  have "canonicalize (PDict [(PStr ''b'', PList []), (PStr ''a'', PBool True)])
      = Inr (JObj [(''a'', JBool True), (''b'', JArr [])])"
    by (simp add: canonicalize_def)
  from canonicalize_idempotent [OF this] show ?thesis by blast
qed

text \<open>Every digest the module produces is accepted by its own parser, which returns the
  unprefixed hexadecimal digest of the same value: sixty-four lower-case hex characters.\<close>

theorem digest_parses:
  assumes "digest v = Inr d"
  shows "\<exists>h. parse_digest d = Inr h \<and> digest_hex v = Inr h \<and> d = digest_prefix @ h \<and>
    length h = 64 \<and> list_all is_lower_hex h"
proof -
  from assms obtain j where j: "canonicalize v = Inr j" "d = digest_json j"
    by (auto simp: digest_def rbind_Inr_iff)
  then show ?thesis
    by (auto simp: digest_hex_def parse_digest_Inr_iff digest_json_def sha256_hex_shape list_all_iff)
qed

theorem digest_parses_witness: "\<exists>h. digest_hex (PInt 7) = Inr h \<and> length h = 64"
proof -
  have "digest (PInt 7) = Inr (digest_json (JInt 7))"
    by (simp add: digest_def canonicalize_def)
  from digest_parses [OF this] show ?thesis by blast
qed

text \<open>Decimals are not carried without loss: \<^verbatim>\<open>Decimal.normalize()\<close> rounds to 28
  significant digits, so two different decimals of 29 digits share one canonical text, and with
  it one digest.\<close>

theorem decimal_digest_collision:
  "canonical_json (PDecimal (Decimal False 10000000000000000000000000001 0))
     = canonical_json (PDecimal (Decimal False 10000000000000000000000000002 0))
   \<and> digest (PDecimal (Decimal False 10000000000000000000000000001 0))
     = digest (PDecimal (Decimal False 10000000000000000000000000002 0))"
proof -
  have "decimal_round 10000000000000000000000000001 0 = (1000000000000000000000000000, 1)"
    "decimal_round 10000000000000000000000000002 0 = (1000000000000000000000000000, 1)"
    by (simp_all add: decimal_round_def decimal_precision_def nat_str.simps Let_def)
  then have "decimal_text False 10000000000000000000000000001 0
      = decimal_text False 10000000000000000000000000002 0"
    by (simp add: decimal_text_def decimal_normalize_def)
  then show ?thesis by (simp add: canonical_json_def canonicalize_def digest_def)
qed

end
