(* ===== verification/Resources.thy ===== *)
theory Resources
  imports Prelude "HOL-Library.Sublist"
begin

text \<open>
  Logical resources and lock conflicts (\<^verbatim>\<open>domain/resources.py\<close>): parsing and printing of
  resource identifiers, the conflict relation between lock requests, and the order in which
  locks are taken. The interface \<open>lock_conflicts\<close> states what a lock manager relies on
  (symmetry, compatibility of reads); it is interpreted on \<open>conflicts\<close>.
\<close>

section \<open>Resources\<close>

definition GLOBAL_KINDS :: "string list" where
  "GLOBAL_KINDS = [''provider'', ''model-benchmark'', ''skill-registry'']"

definition KNOWN_KINDS :: "string list" where
  "KNOWN_KINDS = [''project'', ''work'', ''path'', ''db-object'', ''artifact'', ''provider'',
     ''model-benchmark'', ''skill-registry'', ''memory'', ''runtime-bootstrap'']"

datatype lock_mode = READ | WRITE

fun lock_mode_value :: "lock_mode \<Rightarrow> string" where
  "lock_mode_value READ = ''read''"
| "lock_mode_value WRITE = ''write''"

record logical_resource =
  lr_kind :: string
  lr_scope :: string
  lr_rest :: string

text \<open>The dataclass constructor with its \<^verbatim>\<open>__post_init__\<close> checks.\<close>

definition make_resource :: "string \<Rightarrow> string \<Rightarrow> string \<Rightarrow> logical_resource res" where
  "make_resource kind scope rest =
     (if kind \<notin> set KNOWN_KINDS then Inl (ValidationFailed (''Bilinmeyen resource turu: '' @ kind))
      else if scope = [] then Inl (ValidationFailed ''Resource kapsami bos olamaz'')
      else Inr \<lparr>lr_kind = kind, lr_scope = scope, lr_rest = rest\<rparr>)"

definition is_segment_char :: "char \<Rightarrow> bool" where
  "is_segment_char c = (is_lower_az c \<or> is_upper_az c \<or> is_digit09 c \<or> c \<in> set ''._:/@-'')"

text \<open>\<^verbatim>\<open>^[A-Za-z]:/\<close>.\<close>

definition drive_prefix :: "string \<Rightarrow> bool" where
  "drive_prefix s = (case s of a # b # c # _ \<Rightarrow> (is_lower_az a \<or> is_upper_az a) \<and> b = CHR '':'' \<and> c = CHR ''/''
     | _ \<Rightarrow> False)"

definition path_segments :: "string \<Rightarrow> string list" where
  "path_segments candidate = filter (\<lambda>seg. seg \<noteq> '''' \<and> seg \<noteq> ''.'') (split_on (CHR ''/'') candidate)"

definition normalize_path :: "string \<Rightarrow> string res" where
  "normalize_path raw =
     (if raw = [] then Inl (ValidationFailed ''Path resource bir yol icermeli'')
      else let candidate = map (\<lambda>c. if c = CHR 0x5C then CHR ''/'' else c) raw in
        if starts_with candidate ''/'' \<or> drive_prefix candidate
        then Inl (ValidationFailed ''Path resource mutlak yol olamaz'')
        else let segments = path_segments candidate in
          if list_ex (\<lambda>seg. seg = ''..'') segments
          then Inl (ValidationFailed ''Path resource `..` iceremez'')
          else if segments = [] then Inl (ValidationFailed ''Path resource bos olamaz'')
          else Inr (join_with ''/'' segments))"

definition parse_resource :: "string \<Rightarrow> logical_resource res" where
  "parse_resource text =
     (let candidate = strip text in
      if candidate = [] then Inl (ValidationFailed ''Resource bos olamaz'')
      else if CHR 0x5C \<in> set candidate then Inl (ValidationFailed ''Resource ters bolu iceremez'')
      else if \<not> list_all is_segment_char candidate
      then Inl (ValidationFailed ''Resource izin verilmeyen karakter iceriyor'')
      else let parts = split_on (CHR '':'') candidate; kind = hd parts in
        if kind \<notin> set KNOWN_KINDS
        then Inl (ValidationFailed (''Bilinmeyen resource turu: '' @ kind))
        else if length parts < 2 then Inl (ValidationFailed ''Resource en az tur ve kapsam icermeli'')
        else let scope = parts ! 1; rest = join_with '':'' (drop 2 parts) in
          if kind = ''path'' then rbind (normalize_path rest) (\<lambda>p. make_resource kind scope p)
          else make_resource kind scope rest)"

text \<open>The property \<^verbatim>\<open>text\<close>.\<close>

definition resource_text :: "logical_resource \<Rightarrow> string" where
  "resource_text r = lr_kind r @ '':'' @ lr_scope r
     @ (if lr_rest r \<noteq> [] then '':'' @ lr_rest r else '''')"

definition resource_project :: "logical_resource \<Rightarrow> string option" where
  "resource_project r = (if lr_kind r \<in> set GLOBAL_KINDS then None else Some (lr_scope r))"

definition path_parts :: "logical_resource \<Rightarrow> string list" where
  "path_parts r = (if lr_kind r = ''path'' \<and> lr_rest r \<noteq> [] then split_on (CHR ''/'') (lr_rest r) else [])"

definition is_ancestor_of :: "logical_resource \<Rightarrow> logical_resource \<Rightarrow> bool" where
  "is_ancestor_of self other =
     (if lr_kind self \<noteq> ''path'' \<or> lr_kind other \<noteq> ''path''
         \<or> resource_project self \<noteq> resource_project other then False
      else let mine = path_parts self; theirs = path_parts other in
        length mine < length theirs \<and> take (length mine) theirs = mine)"

section \<open>Lock requests\<close>

record resource_request =
  rr_resource :: logical_resource
  rr_mode :: lock_mode

definition parse_request :: "string \<Rightarrow> lock_mode \<Rightarrow> resource_request res" where
  "parse_request text mode =
     rbind (parse_resource text) (\<lambda>r. Inr \<lparr>rr_resource = r, rr_mode = mode\<rparr>)"

definition is_write :: "resource_request \<Rightarrow> bool" where
  "is_write r = (rr_mode r = WRITE)"

definition conflicts :: "resource_request \<Rightarrow> resource_request \<Rightarrow> bool" where
  "conflicts left right =
     (if \<not> is_write left \<and> \<not> is_write right then False
      else let first = rr_resource left; second = rr_resource right in
        if resource_project first \<noteq> None \<and> resource_project second \<noteq> None
           \<and> resource_project first \<noteq> resource_project second then False
        else if resource_project first = None \<or> resource_project second = None then first = second
        else if lr_kind first = ''project'' \<or> lr_kind second = ''project'' then True
        else if first = second then True
        else if lr_kind first = ''path'' \<and> lr_kind second = ''path''
        then is_ancestor_of first second \<or> is_ancestor_of second first
        else False)"

definition conflicting_pairs ::
  "resource_request list \<Rightarrow> resource_request list \<Rightarrow> (resource_request \<times> resource_request) list" where
  "conflicting_pairs requests held =
     concat (map (\<lambda>wanted. map (Pair wanted) (filter (conflicts wanted) held)) requests)"

fun has_internal_conflict :: "resource_request list \<Rightarrow> bool" where
  "has_internal_conflict [] = False"
| "has_internal_conflict (first # rest) = (list_ex (conflicts first) rest \<or> has_internal_conflict rest)"

definition lock_key :: "resource_request \<Rightarrow> string \<times> string" where
  "lock_key r = (resource_text (rr_resource r), lock_mode_value (rr_mode r))"

definition lock_order :: "resource_request list \<Rightarrow> resource_request list" where
  "lock_order requests = sort_key lock_key requests"

definition parse_requests :: "string list \<Rightarrow> string list \<Rightarrow> resource_request list res" where
  "parse_requests read write =
     rbind (rmap (\<lambda>t. parse_request t READ) read) (\<lambda>rs.
     rbind (rmap (\<lambda>t. parse_request t WRITE) write) (\<lambda>ws. Inr (lock_order (rs @ ws))))"

section \<open>The conflict interface\<close>

text \<open>What a lock manager may assume of a conflict relation: it does not depend on who asks
  first, and two reads never exclude each other.\<close>

locale lock_conflicts =
  fixes conflict :: "'r \<Rightarrow> 'r \<Rightarrow> bool"
    and writes :: "'r \<Rightarrow> bool"
  assumes conflict_sym: "conflict a b \<Longrightarrow> conflict b a"
    and conflict_needs_write: "conflict a b \<Longrightarrow> writes a \<or> writes b"
begin

text \<open>A set of granted requests in which no two positions conflict.\<close>

definition compatible :: "'r list \<Rightarrow> bool" where
  "compatible rs = sorted_wrt (\<lambda>a b. \<not> conflict a b) rs"

lemma compatible_append:
  "compatible (rs @ hs) \<longleftrightarrow> compatible rs \<and> compatible hs \<and> (\<forall>r \<in> set rs. \<forall>h \<in> set hs. \<not> conflict r h)"
  by (auto simp: compatible_def sorted_wrt_append)

text \<open>Granting a compatible batch that conflicts with nothing held keeps the table compatible.\<close>

lemma grant_compatible:
  assumes "compatible rs" "compatible hs" "\<forall>r \<in> set rs. \<forall>h \<in> set hs. \<not> conflict r h"
  shows "compatible (hs @ rs)"
  using assms conflict_sym by (auto simp: compatible_append)

lemma readers_compatible: "\<forall>r \<in> set rs. \<not> writes r \<Longrightarrow> compatible rs"
  by (induction rs) (auto simp: compatible_def dest: conflict_needs_write)

end

lemma conflicts_sym: "conflicts a b = conflicts b a"
  unfolding conflicts_def Let_def by (auto split: if_splits)

lemma conflicts_needs_write: "conflicts a b \<Longrightarrow> is_write a \<or> is_write b"
  by (auto simp: conflicts_def split: if_splits)

interpretation resource_locks: lock_conflicts conflicts is_write
  by unfold_locales (auto simp: conflicts_sym conflicts_needs_write)

lemma conflicting_pairs_empty:
  "conflicting_pairs rs hs = [] \<longleftrightarrow> (\<forall>r \<in> set rs. \<forall>h \<in> set hs. \<not> conflicts r h)"
  by (auto simp: conflicting_pairs_def filter_empty_conv)

lemma has_internal_conflict_compatible: "has_internal_conflict rs \<longleftrightarrow> \<not> resource_locks.compatible rs"
  by (induction rs) (auto simp: resource_locks.compatible_def list_ex_iff)

section \<open>Parsing and printing\<close>

lemma segment_char_not_space: "is_segment_char c \<Longrightarrow> \<not> is_space c"
  by (auto simp: is_segment_char_def is_space_def is_lower_az_def is_upper_az_def is_digit09_def
      less_eq_char_def Let_def)

lemma backslash_not_segment: "\<not> is_segment_char (CHR 0x5C)"
  by (simp add: is_segment_char_def is_lower_az_def is_upper_az_def is_digit09_def less_eq_char_def)

lemma known_kinds_no_colon: "k \<in> set KNOWN_KINDS \<Longrightarrow> CHR '':'' \<notin> set k \<and> k \<noteq> []"
  by (auto simp: KNOWN_KINDS_def)

lemma colon_slash_segment [simp]: "is_segment_char (CHR '':'')" "is_segment_char (CHR ''/'')"
  by (simp_all add: is_segment_char_def)

lemma known_kinds_segment: "k \<in> set KNOWN_KINDS \<Longrightarrow> list_all is_segment_char k"
  by (auto simp: KNOWN_KINDS_def is_segment_char_def is_lower_az_def less_eq_char_def)

text \<open>A path in normal form: non-empty, its segments proper names.\<close>

definition normal_path :: "string \<Rightarrow> bool" where
  "normal_path p = (\<forall>seg \<in> set (split_on (CHR ''/'') p). seg \<noteq> '''' \<and> seg \<noteq> ''.'' \<and> seg \<noteq> ''..'')"

lemma normalize_path_Inr:
  assumes "normalize_path raw = Inr p" and "list_all is_segment_char raw"
  shows "normal_path p" "p \<noteq> []" "list_all is_segment_char p"
proof -
  from assms(2) have "CHR 0x5C \<notin> set raw" using backslash_not_segment by (auto simp: list_all_iff)
  then have cand: "map (\<lambda>c. if c = CHR 0x5C then CHR ''/'' else c) raw = raw"
    by (intro map_idI) auto
  with assms(1) have p: "p = join_with ''/'' (path_segments raw)" "path_segments raw \<noteq> []"
    "''..'' \<notin> set (path_segments raw)"
    by (auto simp: normalize_path_def Let_def list_ex_iff split: if_splits)
  have segs: "\<forall>w \<in> set (path_segments raw). CHR ''/'' \<notin> set w \<and> w \<noteq> [] \<and> w \<noteq> ''.''"
    by (auto simp: path_segments_def dest: split_on_no_sep)
  then have "split_on (CHR ''/'') p = path_segments raw"
    using p by (simp add: split_join)
  then show "normal_path p" using segs p by (auto simp: normal_path_def)
  show "p \<noteq> []" using p segs by (cases "path_segments raw" rule: list012_cases) auto
  have "is_segment_char c" if c: "c \<in> set p" for c
  proof -
    from c p(1) have "c = CHR ''/'' \<or> (\<exists>w \<in> set (path_segments raw). c \<in> set w)"
      using in_set_join by blast
    then have "c = CHR ''/'' \<or> c \<in> set raw"
      using in_split_chars [of _ "CHR ''/''" raw c] by (simp add: path_segments_def) blast
    then show ?thesis using assms(2) by (auto simp: list_all_iff)
  qed
  then show "list_all is_segment_char p" by (simp add: list_all_iff)
qed

lemma normalize_path_id:
  assumes "normal_path p" "list_all is_segment_char p" "\<not> drive_prefix p"
  shows "normalize_path p = Inr p"
proof -
  have ne: "p \<noteq> []" using assms(1) by (cases p) (simp_all add: normal_path_def)
  have "CHR 0x5C \<notin> set p" using assms(2) backslash_not_segment by (auto simp: list_all_iff)
  then have cand: "map (\<lambda>c. if c = CHR 0x5C then CHR ''/'' else c) p = p"
    by (intro map_idI) auto
  have segs: "path_segments p = split_on (CHR ''/'') p" "''..'' \<notin> set (path_segments p)"
    using assms(1) by (auto simp: path_segments_def normal_path_def filter_id_conv)
  have "\<not> starts_with p ''/''"
  proof
    assume "starts_with p ''/''"
    then obtain q where "p = CHR ''/'' # q" by (cases p) (auto simp: starts_with_def)
    with assms(1) show False by (simp add: normal_path_def)
  qed
  then show ?thesis using ne assms(3) segs
    by (auto simp: normalize_path_def cand Let_def list_ex_iff)
qed

lemma split_resource_text:
  assumes "CHR '':'' \<notin> set (lr_kind r)" "CHR '':'' \<notin> set (lr_scope r)"
  shows "split_on (CHR '':'') (resource_text r)
    = lr_kind r # lr_scope r # (if lr_rest r = [] then [] else split_on (CHR '':'') (lr_rest r))"
  using assms by (auto simp: resource_text_def split_on_append_sep split_on_id)

text \<open>What every parsed resource satisfies.\<close>

definition wf_resource :: "logical_resource \<Rightarrow> bool" where
  "wf_resource r =
     (lr_kind r \<in> set KNOWN_KINDS \<and> lr_scope r \<noteq> [] \<and> CHR '':'' \<notin> set (lr_scope r)
      \<and> list_all is_segment_char (lr_scope r) \<and> list_all is_segment_char (lr_rest r)
      \<and> (lr_kind r = ''path'' \<longrightarrow> normal_path (lr_rest r)))"

lemma make_resource_Inr_iff:
  "make_resource k s t = Inr r \<longleftrightarrow>
     k \<in> set KNOWN_KINDS \<and> s \<noteq> [] \<and> r = \<lparr>lr_kind = k, lr_scope = s, lr_rest = t\<rparr>"
  by (auto simp: make_resource_def)

lemma parse_resource_wf:
  assumes "parse_resource text = Inr r"
  shows "wf_resource r"
proof -
  define c where "c = strip text"
  define parts where "parts = split_on (CHR '':'') c"
  have chars: "list_all is_segment_char c" and len: "2 \<le> length parts" and
    body: "(if hd parts = ''path''
       then rbind (normalize_path (join_with '':'' (drop 2 parts))) (\<lambda>p. make_resource (hd parts) (parts ! 1) p)
       else make_resource (hd parts) (parts ! 1) (join_with '':'' (drop 2 parts))) = Inr r"
    using assms
    by (auto simp: parse_resource_def Let_def c_def [symmetric] parts_def [symmetric] split: if_splits)
  have seg: "list_all is_segment_char w" if "w \<in> set parts" for w
    using that chars by (auto simp: parts_def list_all_iff dest: in_split_chars)
  have scope: "parts ! 1 \<in> set parts" using len by simp
  have rest: "list_all is_segment_char (join_with '':'' (drop 2 parts))"
    using seg by (auto simp: list_all_iff dest!: in_set_join in_set_dropD)
  have nocolon: "CHR '':'' \<notin> set (parts ! 1)" using scope by (auto simp: parts_def dest: split_on_no_sep)
  show ?thesis
  proof (cases "hd parts = ''path''")
    case True
    with body obtain p where p: "normalize_path (join_with '':'' (drop 2 parts)) = Inr p"
      "make_resource (hd parts) (parts ! 1) p = Inr r" by (auto simp: rbind_Inr_iff)
    from normalize_path_Inr [OF p(1) rest] p(2) seg [OF scope] nocolon show ?thesis
      by (auto simp: wf_resource_def make_resource_Inr_iff)
  next
    case False
    with body seg [OF scope] nocolon rest show ?thesis
      by (auto simp: wf_resource_def make_resource_Inr_iff)
  qed
qed

lemma parse_resource_text:
  assumes "wf_resource r" and "\<not> (lr_kind r = ''path'' \<and> drive_prefix (lr_rest r))"
  shows "parse_resource (resource_text r) = Inr r"
proof -
  note wf = assms(1) [unfolded wf_resource_def] and kind = known_kinds_no_colon [of "lr_kind r"]
    known_kinds_segment [of "lr_kind r"]
  have chars: "list_all is_segment_char (resource_text r)"
    using wf kind by (auto simp: resource_text_def list_all_iff)
  then have strip: "strip (resource_text r) = resource_text r"
    by (intro strip_id) (auto simp: list_all_iff dest: segment_char_not_space)
  have split: "split_on (CHR '':'') (resource_text r)
    = lr_kind r # lr_scope r # (if lr_rest r = [] then [] else split_on (CHR '':'') (lr_rest r))"
    using wf kind by (intro split_resource_text) auto
  have ne: "resource_text r \<noteq> []" "CHR 0x5C \<notin> set (resource_text r)"
    using chars backslash_not_segment by (auto simp: resource_text_def list_all_iff)
  have "join_with '':'' (drop 2 (split_on (CHR '':'') (resource_text r))) = lr_rest r"
    unfolding split by simp
  moreover have "normalize_path (lr_rest r) = Inr (lr_rest r)" if "lr_kind r = ''path''"
    using wf assms(2) that by (intro normalize_path_id) auto
  ultimately show ?thesis
    using wf chars ne strip
    by (auto simp: parse_resource_def Let_def split make_resource_def)
qed

lemma resource_text_inj:
  assumes "wf_resource a" "wf_resource b" "resource_text a = resource_text b"
  shows "a = b"
proof -
  have split: "split_on (CHR '':'') (resource_text r)
    = lr_kind r # lr_scope r # (if lr_rest r = [] then [] else split_on (CHR '':'') (lr_rest r))"
    if "wf_resource r" for r
    using that known_kinds_no_colon [of "lr_kind r"]
    by (intro split_resource_text) (auto simp: wf_resource_def)
  have "lr_kind a = lr_kind b" "lr_scope a = lr_scope b"
    using assms split [OF assms(1)] split [OF assms(2)] by simp_all
  moreover from this have "lr_rest a = lr_rest b"
    using assms(3) by (auto simp: resource_text_def split: if_splits)
  ultimately show ?thesis by simp
qed

lemma lock_mode_value_inj: "lock_mode_value m = lock_mode_value n \<Longrightarrow> m = n"
  by (cases m; cases n) auto

lemma lock_key_inj:
  "wf_resource (rr_resource a) \<Longrightarrow> wf_resource (rr_resource b) \<Longrightarrow> lock_key a = lock_key b \<Longrightarrow> a = b"
  using resource_text_inj [of "rr_resource a" "rr_resource b"] lock_mode_value_inj [of "rr_mode a" "rr_mode b"]
  by (simp add: lock_key_def)

section \<open>Path conflicts\<close>

lemma path_parts_inj:
  assumes "wf_resource a" "wf_resource b" "lr_kind a = ''path''" "lr_kind b = ''path''"
    "lr_scope a = lr_scope b" "path_parts a = path_parts b"
  shows "a = b"
proof -
  have ne: "lr_rest r \<noteq> []" if "wf_resource r" "lr_kind r = ''path''" for r
    using that by (cases "lr_rest r") (simp_all add: wf_resource_def normal_path_def)
  have "split_on (CHR ''/'') (lr_rest a) = split_on (CHR ''/'') (lr_rest b)"
    using assms ne by (simp add: path_parts_def)
  then have "lr_rest a = lr_rest b" by (metis join_split)
  with assms show ?thesis by simp
qed

lemma path_project: "lr_kind r = ''path'' \<Longrightarrow> resource_project r = Some (lr_scope r)"
  by (simp add: resource_project_def GLOBAL_KINDS_def)

lemma is_ancestor_of_iff:
  assumes "lr_kind a = ''path''" "lr_kind b = ''path''" "lr_scope a = lr_scope b"
  shows "is_ancestor_of a b \<longleftrightarrow> strict_prefix (path_parts a) (path_parts b)"
proof -
  have "length xs < length ys \<and> take (length xs) ys = xs \<longleftrightarrow> strict_prefix xs ys"
    for xs ys :: "string list"
    by (auto simp: strict_prefix_def prefix_def) (metis append_take_drop_id)
  with assms show ?thesis by (simp add: is_ancestor_of_def path_project Let_def)
qed

section \<open>Properties\<close>

text \<open>Parsing a resource and printing it gives a text that parses to the same resource, except
  that a path beginning with a drive letter is refused the second time.\<close>

theorem parse_resource_roundtrip:
  assumes "parse_resource text = Inr r"
  shows "parse_resource (resource_text r) = Inr r \<or> lr_kind r = ''path'' \<and> drive_prefix (lr_rest r)"
  using parse_resource_text [OF parse_resource_wf [OF assms]] by blast

theorem parse_resource_roundtrip_witness:
  "parse_resource '' path:web:./src//app '' = Inr \<lparr>lr_kind = ''path'', lr_scope = ''web'', lr_rest = ''src/app''\<rparr>
   \<and> parse_resource ''path:web:src/app'' = Inr \<lparr>lr_kind = ''path'', lr_scope = ''web'', lr_rest = ''src/app''\<rparr>"
proof -
  have p: "parse_resource '' path:web:./src//app ''
    = Inr \<lparr>lr_kind = ''path'', lr_scope = ''web'', lr_rest = ''src/app''\<rparr>" by code_simp
  with parse_resource_roundtrip [OF p] show ?thesis
    by (simp add: resource_text_def drive_prefix_def)
qed

text \<open>The check for absolute paths is made before the path is normalised: a path with a
  drive letter after \<^verbatim>\<open>./\<close> is accepted, and the resource it gives prints as a text that the
  parser refuses.\<close>

theorem parse_resource_admits_drive_path:
  "parse_resource ''path:web:./C:/x'' = Inr \<lparr>lr_kind = ''path'', lr_scope = ''web'', lr_rest = ''C:/x''\<rparr>
   \<and> parse_resource ''path:web:C:/x'' = Inl (ValidationFailed ''Path resource mutlak yol olamaz'')"
  by code_simp

text \<open>Two requests on paths of one project conflict exactly when one of them writes and one
  path is the other or lies below it.\<close>

theorem path_conflicts_iff:
  assumes "wf_resource (rr_resource a)" "wf_resource (rr_resource b)"
    and "lr_kind (rr_resource a) = ''path''" "lr_kind (rr_resource b) = ''path''"
    and "lr_scope (rr_resource a) = lr_scope (rr_resource b)"
  shows "conflicts a b \<longleftrightarrow> (is_write a \<or> is_write b)
    \<and> (prefix (path_parts (rr_resource a)) (path_parts (rr_resource b))
       \<or> prefix (path_parts (rr_resource b)) (path_parts (rr_resource a)))"
proof -
  have "rr_resource a = rr_resource b \<longleftrightarrow> path_parts (rr_resource a) = path_parts (rr_resource b)"
    using path_parts_inj [OF assms] by auto
  moreover have "conflicts a b \<longleftrightarrow> (is_write a \<or> is_write b) \<and> (rr_resource a = rr_resource b
      \<or> strict_prefix (path_parts (rr_resource a)) (path_parts (rr_resource b))
      \<or> strict_prefix (path_parts (rr_resource b)) (path_parts (rr_resource a)))"
    using assms by (simp add: conflicts_def Let_def path_project is_ancestor_of_iff)
  ultimately show ?thesis by (auto simp: prefix_order.le_less)
qed

theorem path_conflicts_iff_witness:
  "conflicts \<lparr>rr_resource = \<lparr>lr_kind = ''path'', lr_scope = ''web'', lr_rest = ''src''\<rparr>, rr_mode = READ\<rparr>
     \<lparr>rr_resource = \<lparr>lr_kind = ''path'', lr_scope = ''web'', lr_rest = ''src/app''\<rparr>, rr_mode = WRITE\<rparr>"
proof -
  let ?a = "\<lparr>rr_resource = \<lparr>lr_kind = ''path'', lr_scope = ''web'', lr_rest = ''src''\<rparr>, rr_mode = READ\<rparr>"
  let ?b = "\<lparr>rr_resource = \<lparr>lr_kind = ''path'', lr_scope = ''web'', lr_rest = ''src/app''\<rparr>, rr_mode = WRITE\<rparr>"
  have "wf_resource (rr_resource ?a)" "wf_resource (rr_resource ?b)" by code_simp+
  then show ?thesis
    by (subst path_conflicts_iff) (simp_all add: is_write_def path_parts_def)
qed

text \<open>When the requests of a job do not conflict with each other nor with any held lock, the
  locks held after granting them are again pairwise compatible.\<close>

theorem grant_keeps_locks_compatible:
  assumes "resource_locks.compatible held" and "\<not> has_internal_conflict requests"
    and "conflicting_pairs requests held = []"
  shows "resource_locks.compatible (held @ requests)"
  using assms resource_locks.grant_compatible
  by (simp add: has_internal_conflict_compatible conflicting_pairs_empty)

theorem grant_keeps_locks_compatible_witness:
  "resource_locks.compatible
     [\<lparr>rr_resource = \<lparr>lr_kind = ''path'', lr_scope = ''web'', lr_rest = ''src''\<rparr>, rr_mode = READ\<rparr>,
      \<lparr>rr_resource = \<lparr>lr_kind = ''path'', lr_scope = ''web'', lr_rest = ''docs''\<rparr>, rr_mode = WRITE\<rparr>]"
proof -
  let ?h = "[\<lparr>rr_resource = \<lparr>lr_kind = ''path'', lr_scope = ''web'', lr_rest = ''src''\<rparr>, rr_mode = READ\<rparr>]"
  let ?r = "[\<lparr>rr_resource = \<lparr>lr_kind = ''path'', lr_scope = ''web'', lr_rest = ''docs''\<rparr>, rr_mode = WRITE\<rparr>]"
  have "\<not> has_internal_conflict ?r" "conflicting_pairs ?r ?h = []" by code_simp+
  moreover have "resource_locks.compatible ?h" by (simp add: resource_locks.compatible_def)
  ultimately show ?thesis using grant_keeps_locks_compatible [of ?h ?r] by simp
qed

text \<open>Locks are taken in one order, whatever the order of the requests: any two listings of the
  same well-formed requests give the same sequence, sorted by resource text and mode.\<close>

theorem lock_order_canonical:
  assumes "mset rs = mset ss" and "\<forall>r \<in> set rs. wf_resource (rr_resource r)"
  shows "lock_order rs = lock_order ss \<and> sorted (map lock_key (lock_order rs))
    \<and> mset (lock_order rs) = mset rs"
proof -
  have "inj_on lock_key (set rs)" using assms(2) lock_key_inj by (auto intro!: inj_onI)
  from sort_key_perm_eq [OF assms(1) this] show ?thesis
    using assms(1) by (simp add: lock_order_def)
qed

theorem lock_order_canonical_witness:
  "lock_order [\<lparr>rr_resource = \<lparr>lr_kind = ''path'', lr_scope = ''web'', lr_rest = ''src''\<rparr>, rr_mode = WRITE\<rparr>,
      \<lparr>rr_resource = \<lparr>lr_kind = ''path'', lr_scope = ''web'', lr_rest = ''docs''\<rparr>, rr_mode = READ\<rparr>]
   = lock_order [\<lparr>rr_resource = \<lparr>lr_kind = ''path'', lr_scope = ''web'', lr_rest = ''docs''\<rparr>, rr_mode = READ\<rparr>,
      \<lparr>rr_resource = \<lparr>lr_kind = ''path'', lr_scope = ''web'', lr_rest = ''src''\<rparr>, rr_mode = WRITE\<rparr>]"
proof -
  let ?a = "\<lparr>rr_resource = \<lparr>lr_kind = ''path'', lr_scope = ''web'', lr_rest = ''src''\<rparr>, rr_mode = WRITE\<rparr>"
  let ?b = "\<lparr>rr_resource = \<lparr>lr_kind = ''path'', lr_scope = ''web'', lr_rest = ''docs''\<rparr>, rr_mode = READ\<rparr>"
  have wf: "wf_resource (rr_resource ?a)" "wf_resource (rr_resource ?b)" by code_simp+
  have "\<forall>r \<in> set [?a, ?b]. wf_resource (rr_resource r)" using wf by simp
  moreover have "mset [?a, ?b] = mset [?b, ?a]" by simp
  ultimately show ?thesis using lock_order_canonical [of "[?a, ?b]" "[?b, ?a]"] by blast
qed

end
