(* ===== verification/Runtime.thy ===== *)
theory Runtime
  imports Canonical Resources
begin

text \<open>
  The execution plane's domain records (\<^verbatim>\<open>domain/runtime.py\<close>): jobs, leases, effect claims,
  effect receipts, the recovery decision and the reconciliation requests. Every constructor is
  the dataclass constructor followed by its \<^verbatim>\<open>__post_init__\<close> checks. The identifiers that
  \<^verbatim>\<open>create\<close> draws with \<^verbatim>\<open>new_uuid7(now=moment)\<close> and the moment itself are arguments; a UUID is
  its text.
\<close>

type_synonym uuid = string

section \<open>Enumerations\<close>

datatype job_state = READY | RUNNING | COMPLETED | FAILED | BLOCKED | RECOVERY_REQUIRED | CANCELLED

fun job_state_value :: "job_state \<Rightarrow> string" where
  "job_state_value READY = ''ready''"
| "job_state_value RUNNING = ''running''"
| "job_state_value COMPLETED = ''completed''"
| "job_state_value FAILED = ''failed''"
| "job_state_value BLOCKED = ''blocked''"
| "job_state_value RECOVERY_REQUIRED = ''recovery-required''"
| "job_state_value CANCELLED = ''cancelled''"

definition TERMINAL_JOB_STATES :: "job_state list" where
  "TERMINAL_JOB_STATES = [COMPLETED, FAILED, CANCELLED]"

datatype job_kind = READ_ONLY | MUTATION | PROVIDER_CALL | VERIFICATION

fun job_kind_value :: "job_kind \<Rightarrow> string" where
  "job_kind_value READ_ONLY = ''read-only''"
| "job_kind_value MUTATION = ''mutation''"
| "job_kind_value PROVIDER_CALL = ''provider-call''"
| "job_kind_value VERIFICATION = ''verification''"

datatype receipt_status = RS_COMPLETED | RS_FAILED

fun receipt_status_value :: "receipt_status \<Rightarrow> string" where
  "receipt_status_value RS_COMPLETED = ''completed''"
| "receipt_status_value RS_FAILED = ''failed''"

datatype failure_category =
  FC_TIMEOUT | FC_POLICY | FC_AUTHORIZATION | FC_VALIDATION | FC_CONFLICT | FC_ADAPTER
  | FC_PROVIDER | FC_UNKNOWN_EFFECT | FC_INTERNAL | FC_CANCELLED

fun failure_category_value :: "failure_category \<Rightarrow> string" where
  "failure_category_value FC_TIMEOUT = ''timeout''"
| "failure_category_value FC_POLICY = ''policy''"
| "failure_category_value FC_AUTHORIZATION = ''authorization''"
| "failure_category_value FC_VALIDATION = ''validation''"
| "failure_category_value FC_CONFLICT = ''conflict''"
| "failure_category_value FC_ADAPTER = ''adapter''"
| "failure_category_value FC_PROVIDER = ''provider''"
| "failure_category_value FC_UNKNOWN_EFFECT = ''unknown-effect''"
| "failure_category_value FC_INTERNAL = ''internal''"
| "failure_category_value FC_CANCELLED = ''cancelled''"

section \<open>Owner tokens\<close>

definition owner_digest :: "string \<Rightarrow> string res" where
  "owner_digest token =
     (if token = [] then Inl (ValidationFailed ''Owner token bos olamaz'')
      else Inr (''sha256:'' @ sha256_hex (utf8_bytes token)))"

section \<open>Jobs\<close>

record job =
  job_id :: uuid
  job_realm_id :: uuid
  job_project_id :: uuid
  job_kind_of :: job_kind
  job_state_of :: job_state
  job_idempotency_key :: string
  job_priority :: int
  job_attempt_count :: int
  job_max_attempts :: int
  job_fencing_token :: int
  job_required_capabilities :: "string list"
  job_resources :: "resource_request list"
  job_work_item_id :: "uuid option"
  job_plan_id :: "uuid option"
  job_step_id :: "string option"
  job_assignment_id :: "uuid option"
  job_run_id :: "uuid option"
  job_payload :: pyval
  job_available_at :: int
  job_created_at :: int

definition check_job :: "job \<Rightarrow> job res" where
  "check_job j =
     (if blank (job_idempotency_key j) then Inl (ValidationFailed ''Idempotency key bos olamaz'')
      else if job_max_attempts j < 1 then Inl (ValidationFailed ''max_attempts en az 1 olmali'')
      else if job_attempt_count j < 0 then Inl (ValidationFailed ''attempt_count negatif olamaz'')
      else if job_fencing_token j < 0 then Inl (ValidationFailed ''fencing_token negatif olamaz'')
      else Inr j)"

text \<open>\<^verbatim>\<open>Job.create\<close>; the keyword arguments with defaults are the fields of \<open>job_request\<close>.\<close>

record job_request =
  jq_realm_id :: uuid
  jq_project_id :: uuid
  jq_kind :: job_kind
  jq_idempotency_key :: string
  jq_resources :: "resource_request list"
  jq_required_capabilities :: "string list"
  jq_priority :: int
  jq_max_attempts :: int
  jq_work_item_id :: "uuid option"
  jq_plan_id :: "uuid option"
  jq_step_id :: "string option"
  jq_assignment_id :: "uuid option"
  jq_run_id :: "uuid option"
  jq_payload :: "pyval option"
  jq_available_at :: "int option"

definition job_create :: "uuid \<Rightarrow> int \<Rightarrow> job_request \<Rightarrow> job res" where
  "job_create new_id moment q = check_job
     \<lparr>job_id = new_id,
      job_realm_id = jq_realm_id q,
      job_project_id = jq_project_id q,
      job_kind_of = jq_kind q,
      job_state_of = READY,
      job_idempotency_key = jq_idempotency_key q,
      job_priority = jq_priority q,
      job_attempt_count = 0,
      job_max_attempts = jq_max_attempts q,
      job_fencing_token = 0,
      job_required_capabilities = sort (jq_required_capabilities q),
      job_resources = lock_order (jq_resources q),
      job_work_item_id = jq_work_item_id q,
      job_plan_id = jq_plan_id q,
      job_step_id = jq_step_id q,
      job_assignment_id = jq_assignment_id q,
      job_run_id = jq_run_id q,
      job_payload = (case jq_payload q of None \<Rightarrow> PDict [] | Some p \<Rightarrow> p),
      job_available_at = (case jq_available_at q of None \<Rightarrow> moment | Some t \<Rightarrow> t),
      job_created_at = moment\<rparr>"

definition job_is_terminal :: "job \<Rightarrow> bool" where
  "job_is_terminal j = (job_state_of j \<in> set TERMINAL_JOB_STATES)"

definition write_resources :: "job \<Rightarrow> resource_request list" where
  "write_resources j = filter is_write (job_resources j)"

definition produces_effect :: "job \<Rightarrow> bool" where
  "produces_effect j = (job_kind_of j \<noteq> READ_ONLY)"

definition has_attempts_left :: "job \<Rightarrow> bool" where
  "has_attempts_left j = (job_attempt_count j < job_max_attempts j)"

definition request_as_dict :: "resource_request \<Rightarrow> pyval" where
  "request_as_dict r = PDict
     [(PStr ''resource'', PStr (resource_text (rr_resource r))),
      (PStr ''mode'', PStr (lock_mode_value (rr_mode r)))]"

definition opt_text :: "string option \<Rightarrow> pyval" where
  "opt_text v = (case v of None \<Rightarrow> PNone | Some s \<Rightarrow> PStr s)"

definition job_as_dict :: "job \<Rightarrow> pyval" where
  "job_as_dict j = PDict
     [(PStr ''id'', PStr (job_id j)),
      (PStr ''project_id'', PStr (job_project_id j)),
      (PStr ''kind'', PStr (job_kind_value (job_kind_of j))),
      (PStr ''state'', PStr (job_state_value (job_state_of j))),
      (PStr ''idempotency_key'', PStr (job_idempotency_key j)),
      (PStr ''priority'', PInt (job_priority j)),
      (PStr ''attempt_count'', PInt (job_attempt_count j)),
      (PStr ''max_attempts'', PInt (job_max_attempts j)),
      (PStr ''fencing_token'', PInt (job_fencing_token j)),
      (PStr ''required_capabilities'', PList (map PStr (job_required_capabilities j))),
      (PStr ''resources'', PList (map request_as_dict (job_resources j))),
      (PStr ''work_item_id'', opt_text (job_work_item_id j)),
      (PStr ''step_id'', opt_text (job_step_id j)),
      (PStr ''assignment_id'', opt_text (job_assignment_id j)),
      (PStr ''run_id'', opt_text (job_run_id j))]"

section \<open>Leases\<close>

record lease =
  lease_id :: uuid
  lease_realm_id :: uuid
  lease_job_id :: uuid
  lease_attempt_id :: uuid
  lease_owner_digest :: string
  lease_fencing_token :: int
  lease_expires_at :: int
  lease_heartbeat_at :: int
  lease_worker_label :: string

definition check_lease :: "lease \<Rightarrow> lease res" where
  "check_lease l = rbind (parse_digest (lease_owner_digest l)) (\<lambda>_.
     if lease_fencing_token l < 1 then Inl (ValidationFailed ''Fencing token 1'den kucuk olamaz'')
     else if blank (lease_worker_label l) then Inl (ValidationFailed ''Worker etiketi bos olamaz'')
     else Inr l)"

definition is_valid_at :: "lease \<Rightarrow> int \<Rightarrow> bool" where
  "is_valid_at l moment = (lease_expires_at l > moment)"

text \<open>The comparison of owners is made first: an empty token raises.\<close>

definition lease_matches :: "lease \<Rightarrow> string \<Rightarrow> int \<Rightarrow> bool res" where
  "lease_matches l token fencing_token = rbind (owner_digest token) (\<lambda>d.
     Inr (d = lease_owner_digest l \<and> fencing_token = lease_fencing_token l))"

section \<open>Effect claims\<close>

record effect_claim =
  claim_id :: uuid
  claim_realm_id :: uuid
  claim_job_id :: uuid
  claim_attempt_id :: uuid
  claim_operation :: string
  claim_effect_digest :: string
  claim_authorization_digest :: string
  claim_idempotency_key :: string
  claim_resources :: "resource_request list"
  claim_execution_identity :: string
  claim_fencing_token :: int
  claim_adapter_digest :: string
  claim_claimed_at :: int

definition check_claim :: "effect_claim \<Rightarrow> effect_claim res" where
  "check_claim c =
     rbind (parse_digest (claim_effect_digest c)) (\<lambda>_.
     rbind (parse_digest (claim_authorization_digest c)) (\<lambda>_.
     rbind (parse_digest (claim_adapter_digest c)) (\<lambda>_.
     if blank (claim_operation c) then Inl (ValidationFailed ''Claim operasyonu bos olamaz'')
     else if blank (claim_idempotency_key c)
     then Inl (ValidationFailed ''Claim idempotency key bos olamaz'')
     else Inr c)))"

text \<open>\<^verbatim>\<open>EffectClaim.create\<close>: the caller's fields are given as a record whose identifier, time and
  resource order are replaced.\<close>

definition claim_create :: "uuid \<Rightarrow> int \<Rightarrow> effect_claim \<Rightarrow> effect_claim res" where
  "claim_create new_id moment c = check_claim
     (c\<lparr>claim_id := new_id, claim_resources := lock_order (claim_resources c),
        claim_claimed_at := moment\<rparr>)"

definition claim_body :: "effect_claim \<Rightarrow> (pyval \<times> pyval) list" where
  "claim_body c =
     [(PStr ''job_id'', PStr (claim_job_id c)),
      (PStr ''operation'', PStr (claim_operation c)),
      (PStr ''effect_digest'', PStr (claim_effect_digest c)),
      (PStr ''authorization_digest'', PStr (claim_authorization_digest c)),
      (PStr ''idempotency_key'', PStr (claim_idempotency_key c)),
      (PStr ''resources'', PList (map request_as_dict (claim_resources c))),
      (PStr ''execution_identity'', PStr (claim_execution_identity c)),
      (PStr ''fencing_token'', PInt (claim_fencing_token c)),
      (PStr ''adapter_digest'', PStr (claim_adapter_digest c))]"

definition claim_digest :: "effect_claim \<Rightarrow> string res" where
  "claim_digest c = digest (PDict (claim_body c))"

section \<open>Effect receipts\<close>

record effect_receipt =
  receipt_id :: uuid
  receipt_realm_id :: uuid
  receipt_claim_id :: uuid
  receipt_status_of :: receipt_status
  receipt_result_digest :: "string option"
  receipt_failure_category :: "failure_category option"
  receipt_failure_digest :: "string option"
  receipt_adapter_evidence_digest :: "string option"
  receipt_token_count :: int
  receipt_cost_micros :: int
  receipt_latency_ms :: int
  receipt_completed_at :: int

definition check_receipt :: "effect_receipt \<Rightarrow> effect_receipt res" where
  "check_receipt r = rbind
     (case receipt_status_of r of
        RS_COMPLETED \<Rightarrow>
          (case receipt_result_digest r of
             None \<Rightarrow> Inl (ValidationFailed ''Completed receipt result digest tasimali'')
           | Some d \<Rightarrow>
             if d = [] then Inl (ValidationFailed ''Completed receipt result digest tasimali'')
             else rbind (parse_digest d) (\<lambda>_.
               if receipt_failure_category r \<noteq> None
               then Inl (ValidationFailed ''Completed receipt failure kategorisi tasiyamaz'')
               else Inr ()))
      | RS_FAILED \<Rightarrow>
          (if receipt_failure_category r = None
           then Inl (ValidationFailed ''Failed receipt failure kategorisi tasimali'')
           else if receipt_result_digest r \<noteq> None
           then Inl (ValidationFailed ''Failed receipt result digest tasiyamaz'')
           else Inr ()))
     (\<lambda>_. if receipt_token_count r < 0 \<or> receipt_cost_micros r < 0 \<or> receipt_latency_ms r < 0
       then Inl (ValidationFailed ''Olcumler negatif olamaz'') else Inr r)"

definition receipt_completed ::
  "uuid \<Rightarrow> int \<Rightarrow> uuid \<Rightarrow> effect_claim \<Rightarrow> string \<Rightarrow> string option \<Rightarrow> int \<Rightarrow> int \<Rightarrow> int \<Rightarrow> effect_receipt res" where
  "receipt_completed new_id moment realm claim result evidence tokens cost latency = check_receipt
     \<lparr>receipt_id = new_id, receipt_realm_id = realm, receipt_claim_id = claim_id claim,
      receipt_status_of = RS_COMPLETED, receipt_result_digest = Some result,
      receipt_failure_category = None, receipt_failure_digest = None,
      receipt_adapter_evidence_digest = evidence, receipt_token_count = tokens,
      receipt_cost_micros = cost, receipt_latency_ms = latency, receipt_completed_at = moment\<rparr>"

definition receipt_failed ::
  "uuid \<Rightarrow> int \<Rightarrow> uuid \<Rightarrow> effect_claim \<Rightarrow> failure_category \<Rightarrow> string option \<Rightarrow> string option \<Rightarrow> int
   \<Rightarrow> effect_receipt res" where
  "receipt_failed new_id moment realm claim category failure evidence latency = check_receipt
     \<lparr>receipt_id = new_id, receipt_realm_id = realm, receipt_claim_id = claim_id claim,
      receipt_status_of = RS_FAILED, receipt_result_digest = None,
      receipt_failure_category = Some category, receipt_failure_digest = failure,
      receipt_adapter_evidence_digest = evidence, receipt_token_count = 0,
      receipt_cost_micros = 0, receipt_latency_ms = latency, receipt_completed_at = moment\<rparr>"

section \<open>Recovery\<close>

datatype recovery_outcome =
  NOTHING_TO_RECOVER | RECONCILED_COMPLETED | RECONCILED_FAILED | RO_RECOVERY_REQUIRED
  | BLOCKED_EFFECT_UNCERTAIN

fun recovery_outcome_value :: "recovery_outcome \<Rightarrow> string" where
  "recovery_outcome_value NOTHING_TO_RECOVER = ''nothing-to-recover''"
| "recovery_outcome_value RECONCILED_COMPLETED = ''reconciled-completed''"
| "recovery_outcome_value RECONCILED_FAILED = ''reconciled-failed''"
| "recovery_outcome_value RO_RECOVERY_REQUIRED = ''recovery-required''"
| "recovery_outcome_value BLOCKED_EFFECT_UNCERTAIN = ''blocked-effect-uncertain''"

record recovery_assessment =
  ra_outcome :: recovery_outcome
  ra_claim_id :: "uuid option"
  ra_reason :: string
  ra_silent_retry_allowed :: bool
  ra_next_safe_action :: string

definition assess_recovery ::
  "effect_claim option \<Rightarrow> effect_receipt option \<Rightarrow> receipt_status option \<Rightarrow> recovery_assessment" where
  "assess_recovery claim receipt adapter_evidence =
     (case claim of
        None \<Rightarrow> \<lparr>ra_outcome = NOTHING_TO_RECOVER, ra_claim_id = None, ra_reason = ''claim-yok'',
          ra_silent_retry_allowed = True, ra_next_safe_action = ''Is yeniden kuyruga alinabilir''\<rparr>
      | Some c \<Rightarrow>
        (case receipt of
           Some r \<Rightarrow>
             \<lparr>ra_outcome = (if receipt_status_of r = RS_COMPLETED then RECONCILED_COMPLETED
                else RECONCILED_FAILED),
              ra_claim_id = Some (claim_id c), ra_reason = ''terminal-receipt-var'',
              ra_silent_retry_allowed = False,
              ra_next_safe_action = ''Mevcut receipt kanonik sonuctur; tekrar yurutme''\<rparr>
         | None \<Rightarrow>
           if adapter_evidence = Some RS_COMPLETED then
             \<lparr>ra_outcome = RECONCILED_COMPLETED, ra_claim_id = Some (claim_id c),
              ra_reason = ''adapter-effect-gerceklesmis'', ra_silent_retry_allowed = False,
              ra_next_safe_action = ''Kanonik receipt uret ve isi kapat''\<rparr>
           else if adapter_evidence = Some RS_FAILED then
             \<lparr>ra_outcome = RECONCILED_FAILED, ra_claim_id = Some (claim_id c),
              ra_reason = ''adapter-effect-gerceklesmemis'', ra_silent_retry_allowed = False,
              ra_next_safe_action = ''Gozden gecirilmis yeni recovery plani hazirla''\<rparr>
           else
             \<lparr>ra_outcome = RO_RECOVERY_REQUIRED, ra_claim_id = Some (claim_id c),
              ra_reason = ''claim-var-receipt-yok'', ra_silent_retry_allowed = False,
              ra_next_safe_action = ''Adapter reconciliation yap; sessiz retry yasak''\<rparr>))"

definition assert_no_silent_retry :: "recovery_assessment \<Rightarrow> unit res" where
  "assert_no_silent_retry a =
     (if \<not> ra_silent_retry_allowed a
      then Inl (PolicyViolation (''Sessiz retry yasak: '' @ recovery_outcome_value (ra_outcome a)
        @ '' ('' @ ra_reason a @ '')''))
      else Inr ())"

record reconciled_completion_request =
  rc_job_id :: uuid
  rc_attempt_id :: uuid
  rc_claim_id :: uuid
  rc_fencing_token :: int
  rc_claim_digest :: string
  rc_effect_digest :: string
  rc_authorization_digest :: string
  rc_result_digest :: string
  rc_adapter_evidence_digest :: string

definition check_reconciled_completion ::
  "reconciled_completion_request \<Rightarrow> reconciled_completion_request res" where
  "check_reconciled_completion q =
     (if rc_fencing_token q < 1
      then Inl (ValidationFailed ''Recovery fencing token pozitif olmali'')
      else rbind (rmap parse_digest [rc_claim_digest q, rc_effect_digest q,
          rc_authorization_digest q, rc_result_digest q, rc_adapter_evidence_digest q])
        (\<lambda>_. Inr q))"

record reconciled_failure_request =
  rf_job_id :: uuid
  rf_attempt_id :: uuid
  rf_claim_id :: uuid
  rf_receipt_id :: uuid
  rf_fencing_token :: int
  rf_claim_digest :: string
  rf_effect_digest :: string
  rf_authorization_digest :: string
  rf_failure_digest :: string

definition check_reconciled_failure ::
  "reconciled_failure_request \<Rightarrow> reconciled_failure_request res" where
  "check_reconciled_failure q =
     (if rf_fencing_token q < 1
      then Inl (ValidationFailed ''Failure reconciliation fencing token pozitif olmali'')
      else rbind (rmap parse_digest [rf_claim_digest q, rf_effect_digest q,
          rf_authorization_digest q, rf_failure_digest q]) (\<lambda>_. Inr q))"

section \<open>Lemmas\<close>

lemma check_job_Inr_iff:
  "check_job j = Inr k \<longleftrightarrow> k = j \<and> \<not> blank (job_idempotency_key j) \<and> 1 \<le> job_max_attempts j
     \<and> 0 \<le> job_attempt_count j \<and> 0 \<le> job_fencing_token j"
  by (auto simp: check_job_def)

lemma check_receipt_Inr:
  assumes "check_receipt r = Inr s"
  shows "s = r"
    and "receipt_status_of r = RS_COMPLETED \<Longrightarrow>
      (\<exists>d. receipt_result_digest r = Some d \<and> valid_digest d) \<and> receipt_failure_category r = None"
    and "receipt_status_of r = RS_FAILED \<Longrightarrow>
      receipt_result_digest r = None \<and> receipt_failure_category r \<noteq> None"
  using assms
  by (auto simp: check_receipt_def rbind_Inr_iff is_ok_iff split: receipt_status.splits option.splits if_splits)

definition request_json :: "resource_request \<Rightarrow> json" where
  "request_json r = JObj [(''mode'', JStr (lock_mode_value (rr_mode r))),
     (''resource'', JStr (resource_text (rr_resource r)))]"

lemma normalize_request: "normalize_value (request_as_dict r) = Inr (request_json r)"
  by (simp add: request_as_dict_def request_json_def)

lemma normalize_requests:
  "normalize_list (map request_as_dict rs) = Inr (map request_json rs)"
  by (induction rs) (simp_all add: normalize_request)

definition claim_items :: "effect_claim \<Rightarrow> (string \<times> json) list" where
  "claim_items c =
     [(''job_id'', JStr (claim_job_id c)),
      (''operation'', JStr (claim_operation c)),
      (''effect_digest'', JStr (claim_effect_digest c)),
      (''authorization_digest'', JStr (claim_authorization_digest c)),
      (''idempotency_key'', JStr (claim_idempotency_key c)),
      (''resources'', JArr (map request_json (claim_resources c))),
      (''execution_identity'', JStr (claim_execution_identity c)),
      (''fencing_token'', JInt (claim_fencing_token c)),
      (''adapter_digest'', JStr (claim_adapter_digest c))]"

lemma canonicalize_claim_body:
  "canonicalize (PDict (claim_body c)) = Inr (JObj (sort_key fst (claim_items c)))"
  by (simp add: canonicalize_def claim_body_def claim_items_def normalize_requests)

lemma claim_items_distinct: "distinct (map fst (claim_items c))"
  by (simp add: claim_items_def)

lemma float_free_claim: "float_free (JObj (sort_key fst (claim_items c)))"
  by (auto simp: claim_items_def request_json_def list_all_iff)

lemma request_json_inj:
  "wf_resource (rr_resource a) \<Longrightarrow> wf_resource (rr_resource b) \<Longrightarrow> request_json a = request_json b \<Longrightarrow> a = b"
  by (rule lock_key_inj) (simp_all add: request_json_def lock_key_def)

lemma map_request_json_inj:
  assumes "map request_json rs = map request_json ss"
    and "\<forall>r \<in> set rs. wf_resource (rr_resource r)" "\<forall>r \<in> set ss. wf_resource (rr_resource r)"
  shows "rs = ss"
  using assms
proof (induction rs arbitrary: ss)
  case (Cons r rs)
  then obtain s ss' where "ss = s # ss'" by (cases ss) auto
  with Cons show ?case using request_json_inj [of r s] by auto
qed simp

text \<open>The entries of a sorted dictionary are those of the unsorted one.\<close>

lemma sorted_items_map_of:
  assumes "distinct (map fst xs)" "distinct (map fst ys)" "sort_key fst xs = sort_key fst ys"
  shows "map_of xs = map_of ys"
proof -
  have "set xs = set ys" using assms(3) by (metis set_sort)
  with assms(1,2) show ?thesis by (simp add: map_of_inject_set)
qed

lemma claim_items_eq:
  assumes "sort_key fst (claim_items a) = sort_key fst (claim_items b)"
  shows "claim_items a = claim_items b"
proof -
  have "map_of (claim_items a) k = map_of (claim_items b) k" for k
    using sorted_items_map_of [OF claim_items_distinct claim_items_distinct assms] by simp
  from this [of "''job_id''"] this [of "''operation''"] this [of "''effect_digest''"]
    this [of "''authorization_digest''"] this [of "''idempotency_key''"] this [of "''resources''"]
    this [of "''execution_identity''"] this [of "''fencing_token''"] this [of "''adapter_digest''"]
  show ?thesis by (simp add: claim_items_def)
qed

section \<open>Properties\<close>

text \<open>A claim without a terminal receipt never allows a silent retry: the guard
  \<open>assert_no_silent_retry\<close> lets a job run again exactly when it never claimed an effect,
  whatever receipt or adapter evidence there is.\<close>

theorem silent_retry_iff_no_claim:
  "assert_no_silent_retry (assess_recovery claim receipt evidence) = Inr () \<longleftrightarrow> claim = None"
  by (auto simp: assess_recovery_def assert_no_silent_retry_def split: option.splits)

text \<open>The text under a claim digest binds the claim: two claims over well-formed resources
  with the same canonical body agree on the job, the operation, the three digests, the
  idempotency key, the resources, the execution identity and the fencing token.\<close>

theorem claim_body_binds_fields:
  assumes "canonical_json (PDict (claim_body a)) = canonical_json (PDict (claim_body b))"
    and "\<forall>r \<in> set (claim_resources a). wf_resource (rr_resource r)"
    and "\<forall>r \<in> set (claim_resources b). wf_resource (rr_resource r)"
  shows "claim_job_id a = claim_job_id b \<and> claim_operation a = claim_operation b
    \<and> claim_effect_digest a = claim_effect_digest b
    \<and> claim_authorization_digest a = claim_authorization_digest b
    \<and> claim_idempotency_key a = claim_idempotency_key b \<and> claim_resources a = claim_resources b
    \<and> claim_execution_identity a = claim_execution_identity b
    \<and> claim_fencing_token a = claim_fencing_token b \<and> claim_adapter_digest a = claim_adapter_digest b"
proof -
  from assms(1) have "JObj (sort_key fst (claim_items a)) = JObj (sort_key fst (claim_items b))"
    by (intro dumps_inj float_free_claim) (simp add: canonical_json_def canonicalize_claim_body)
  then have "claim_items a = claim_items b" by (intro claim_items_eq) simp
  then show ?thesis using assms(2,3) map_request_json_inj by (simp add: claim_items_def)
qed

definition sample_digest :: string where
  "sample_digest = ''sha256:e3b0c44298fc1c149afbf4c8996fb92427ae41e4649b934ca495991b7852b855''"

definition sample_claim :: "string \<Rightarrow> int \<Rightarrow> effect_claim" where
  "sample_claim job fence =
     \<lparr>claim_id = ''c1'', claim_realm_id = ''r1'', claim_job_id = job, claim_attempt_id = ''a1'',
      claim_operation = ''deploy'', claim_effect_digest = sample_digest,
      claim_authorization_digest = sample_digest, claim_idempotency_key = ''k1'',
      claim_resources = [\<lparr>rr_resource = \<lparr>lr_kind = ''path'', lr_scope = ''web'', lr_rest = ''src''\<rparr>,
        rr_mode = WRITE\<rparr>],
      claim_execution_identity = ''worker'', claim_fencing_token = fence,
      claim_adapter_digest = sample_digest, claim_claimed_at = 0\<rparr>"

theorem claim_body_binds_fields_witness:
  "canonical_json (PDict (claim_body (sample_claim ''j1'' 3)))
     \<noteq> canonical_json (PDict (claim_body (sample_claim ''j1'' 4)))"
proof -
  have "wf_resource \<lparr>lr_kind = ''path'', lr_scope = ''web'', lr_rest = ''src''\<rparr>" by code_simp
  then show ?thesis
    using claim_body_binds_fields [of "sample_claim ''j1'' 3" "sample_claim ''j1'' 4"]
    by (auto simp: sample_claim_def)
qed

text \<open>A new job starts ready, unfenced, with an attempt left and with its locks in lock order;
  creation fails only for a blank idempotency key or fewer than one attempt.\<close>

theorem job_create_spec:
  "case job_create new_id moment q of
     Inl e \<Rightarrow> error_code e = ''validation-failed''
       \<and> (blank (jq_idempotency_key q) \<or> jq_max_attempts q < 1)
   | Inr j \<Rightarrow> \<not> blank (job_idempotency_key j) \<and> job_id j = new_id \<and> job_state_of j = READY
       \<and> \<not> job_is_terminal j \<and> has_attempts_left j \<and> job_fencing_token j = 0
       \<and> mset (job_resources j) = mset (jq_resources q) \<and> sorted (map lock_key (job_resources j))
       \<and> sorted (job_required_capabilities j)"
  by (auto simp: job_create_def check_job_def job_is_terminal_def TERMINAL_JOB_STATES_def
      has_attempts_left_def lock_order_def split: sum.splits if_splits)

text \<open>A receipt that passes its checks is consistent with its status: a completed one carries a
  valid result digest and no failure category, a failed one a category and no result; recovery
  over it reports the same status.\<close>

theorem checked_receipt_consistent:
  assumes "check_receipt r = Inr s"
  shows "(receipt_status_of s = RS_COMPLETED \<longleftrightarrow> (\<exists>d. receipt_result_digest s = Some d \<and> valid_digest d))
    \<and> (receipt_status_of s = RS_FAILED \<longleftrightarrow> receipt_failure_category s \<noteq> None)
    \<and> (ra_outcome (assess_recovery (Some c) (Some s) evidence) = RECONCILED_COMPLETED
        \<longleftrightarrow> receipt_result_digest s \<noteq> None)"
  using check_receipt_Inr [OF assms]
  by (cases "receipt_status_of r") (auto simp: assess_recovery_def)

theorem checked_receipt_consistent_witness:
  "\<exists>s. receipt_failed ''x1'' 5 ''r1'' (sample_claim ''j1'' 3) FC_TIMEOUT None None 40 = Inr s
     \<and> receipt_failure_category s = Some FC_TIMEOUT
     \<and> ra_outcome (assess_recovery (Some (sample_claim ''j1'' 3)) (Some s) None) \<noteq> RECONCILED_COMPLETED"
proof -
  obtain s where s: "receipt_failed ''x1'' 5 ''r1'' (sample_claim ''j1'' 3) FC_TIMEOUT None None 40 = Inr s"
    "receipt_failure_category s = Some FC_TIMEOUT" "receipt_result_digest s = None"
    by (simp add: receipt_failed_def check_receipt_def)
  from checked_receipt_consistent [OF s(1) [unfolded receipt_failed_def], of "sample_claim ''j1'' 3" None] s
  show ?thesis by auto
qed

end
