(* ===== verification/Identifiers.thy ===== *)
theory Identifiers
  imports Prelude
begin

text \<open>
  Identifiers (\<^verbatim>\<open>domain/identifiers.py\<close>): UUIDv7 values, portable slugs and portable text. A
  UUID is its sixteen bytes; the ten random bytes of \<^verbatim>\<open>secrets.token_bytes\<close> and the
  millisecond reading of the clock are arguments. The lemmas show the bit layout, that the
  timestamp is recovered, that UUIDs of later milliseconds are larger, and that normalised
  slugs validate.
\<close>

unbundle bit_operations_syntax

type_synonym byte = "8 word"

section \<open>UUIDv7\<close>

text \<open>Big-endian bytes of a number (\<^verbatim>\<open>int.to_bytes(6, "big")\<close>) and back.\<close>

definition to_bytes6 :: "int \<Rightarrow> byte list" where
  "to_bytes6 n = map (\<lambda>i. word_of_int (n div 256 ^ i)) [5, 4, 3, 2, 1, 0]"

definition from_bytes :: "byte list \<Rightarrow> int" where
  "from_bytes bs = foldl (\<lambda>acc b. acc * 256 + uint b) 0 bs"

definition new_uuid7 :: "bool \<Rightarrow> int \<Rightarrow> byte list \<Rightarrow> byte list res" where
  "new_uuid7 tz_aware milliseconds random_bytes =
     (if \<not> tz_aware then Inl (ValidationFailed ''UUIDv7 icin timezone'lu zaman gerekir'')
      else if \<not> (0 \<le> milliseconds \<and> milliseconds < 2 ^ 48)
      then Inl (ValidationFailed ''Zaman damgasi UUIDv7 araligi disinda'')
      else let value = to_bytes6 milliseconds @ random_bytes;
               value = value[6 := (value ! 6 AND 0x0F) OR 0x70];
               value = value[8 := (value ! 8 AND 0x3F) OR 0x80]
           in Inr value)"

text \<open>\<^verbatim>\<open>UUID.version\<close>: the high nibble of byte six, where the variant bits of byte eight are
  those of RFC 4122.\<close>

definition uuid_version :: "byte list \<Rightarrow> int option" where
  "uuid_version u = (if u ! 8 AND 0xC0 = 0x80 then Some (uint (drop_bit 4 (u ! 6))) else None)"

text \<open>The result is the instant in milliseconds since the epoch.\<close>

definition uuid7_timestamp :: "byte list \<Rightarrow> int res" where
  "uuid7_timestamp u =
     (if uuid_version u \<noteq> Some 7
      then Inl (ValidationFailed ''Yalnizca UUIDv7 zaman damgasi tasir'')
      else Inr (from_bytes (take 6 u)))"

section \<open>Slugs\<close>

definition slug_min_length :: nat where "slug_min_length = 2"
definition slug_max_length :: nat where "slug_max_length = 64"

definition is_slug_char :: "char \<Rightarrow> bool" where
  "is_slug_char c = (is_lower_az c \<or> is_digit09 c)"

text \<open>\<^verbatim>\<open>[a-z0-9]+(?:-[a-z0-9]+)*\<close> on the whole text.\<close>

definition slug_shape :: "string \<Rightarrow> bool" where
  "slug_shape s = list_all (\<lambda>w. w \<noteq> [] \<and> list_all is_slug_char w) (split_on (CHR ''-'') s)"

text \<open>\<^verbatim>\<open>SLUG_PATTERN.match\<close>: the final \<open>$\<close> of a Python pattern also matches just before a
  newline that ends the text.\<close>

definition slug_pattern_match :: "string \<Rightarrow> bool" where
  "slug_pattern_match s =
     (slug_shape s \<or> (s \<noteq> [] \<and> last s = CHR 0x0A \<and> slug_shape (butlast s)))"

text \<open>\<^verbatim>\<open>re.sub(r"[^a-z0-9]+", "-", s)\<close>.\<close>

function dash_runs :: "string \<Rightarrow> string" where
  "dash_runs [] = []"
| "dash_runs (c # cs) =
     (if is_slug_char c then c # dash_runs cs
      else CHR ''-'' # dash_runs (dropWhile (\<lambda>d. \<not> is_slug_char d) cs))"
  by pat_completeness auto
termination
  by (relation "measure length") (auto simp: length_dropWhile_le less_Suc_eq_le)

text \<open>\<^verbatim>\<open>re.sub(r"-{2,}", "-", s)\<close>.\<close>

function collapse_dashes :: "string \<Rightarrow> string" where
  "collapse_dashes [] = []"
| "collapse_dashes (c # cs) =
     (if c = CHR ''-'' then c # collapse_dashes (dropWhile (\<lambda>d. d = CHR ''-'') cs)
      else c # collapse_dashes cs)"
  by pat_completeness auto
termination
  by (relation "measure length") (auto simp: length_dropWhile_le less_Suc_eq_le)

definition strip_dashes :: "string \<Rightarrow> string" where
  "strip_dashes s = rev (dropWhile (\<lambda>d. d = CHR ''-'') (rev (dropWhile (\<lambda>d. d = CHR ''-'') s)))"

definition rstrip_dashes :: "string \<Rightarrow> string" where
  "rstrip_dashes s = rev (dropWhile (\<lambda>d. d = CHR ''-'') (rev s))"

definition normalize_slug :: "string \<Rightarrow> string res" where
  "normalize_slug value =
     (let lowered = py_lower (strip value);
          replaced = strip_dashes (dash_runs lowered);
          collapsed = collapse_dashes replaced
      in if collapsed = [] then Inl (ValidationFailed ''Slug uretilemedi'')
         else Inr (rstrip_dashes (take slug_max_length collapsed)))"

text \<open>The patterns of \<^verbatim>\<open>_NON_PORTABLE_PATTERNS\<close>: a drive letter, a leading slash, a
  backslash anywhere.\<close>

definition non_portable :: "string \<Rightarrow> bool" where
  "non_portable s =
     ((length s \<ge> 2 \<and> is_lower_az (s ! 0) \<and> s ! 1 = CHR '':'')
      \<or> starts_with s ''/'' \<or> CHR 0x5C \<in> set s)"

definition validate_slug :: "string \<Rightarrow> string res" where
  "validate_slug value =
     (if \<not> (slug_min_length \<le> length value \<and> length value \<le> slug_max_length)
      then Inl (ValidationFailed ''Slug uzunlugu 2-64 araliginda olmali'')
      else if \<not> slug_pattern_match value
      then Inl (ValidationFailed ''Slug yalnizca kucuk harf, rakam ve tek tire icerebilir'')
      else if non_portable value
      then Inl (ValidationFailed ''Slug makineye ozel bir yol parcasi icseremez'')
      else Inr value)"

text \<open>\<open>home\<close> is \<^verbatim>\<open>os.path.expanduser("~")\<close>.\<close>

definition to_slashes :: "string \<Rightarrow> string" where
  "to_slashes s = map (\<lambda>c. if c = CHR 0x5C then CHR ''/'' else c) s"

definition assert_portable :: "string \<Rightarrow> string \<Rightarrow> string res" where
  "assert_portable home_dir value =
     (let candidate = strip value in
      if candidate = [] then Inl (ValidationFailed ''Portable deger bos olamaz'')
      else let lowered = to_slashes (py_lower candidate) in
        if (length lowered \<ge> 3 \<and> is_lower_az (lowered ! 0) \<and> lowered ! 1 = CHR '':''
             \<and> lowered ! 2 = CHR ''/'') \<or> starts_with lowered ''/'' \<or> starts_with lowered ''~''
        then Inl (ValidationFailed ''Portable kayit mutlak yol tasiyamaz'')
        else let home = to_slashes (py_lower home_dir) in
          if home \<noteq> [] \<and> contains_sub lowered home
          then Inl (ValidationFailed ''Portable kayit kullanici ana dizinini tasiyamaz'')
          else Inr candidate)"

section \<open>UUIDv7: layout and order\<close>

lemma uint_byte_word: "uint (word_of_int n :: byte) = n mod 256"
  by (simp add: uint_word_of_int)

lemma length_to_bytes6 [simp]: "length (to_bytes6 n) = 6"
  by (simp add: to_bytes6_def)

lemma from_bytes_Nil [simp]: "from_bytes [] = 0"
  by (simp add: from_bytes_def)

lemma from_bytes_acc:
  "foldl (\<lambda>acc b. acc * 256 + uint b) a bs = a * 256 ^ length bs + from_bytes (bs :: byte list)"
proof (induction bs arbitrary: a)
  case Nil
  then show ?case by simp
next
  case (Cons b bs)
  show ?case
    using Cons.IH [of "a * 256 + uint b"] Cons.IH [of "uint b"]
    by (simp add: from_bytes_def algebra_simps)
qed

lemma from_bytes_Cons: "from_bytes (b # bs) = uint b * 256 ^ length bs + from_bytes bs"
  using from_bytes_acc [of "uint b" bs] by (simp add: from_bytes_def)

lemma uint_byte_bounds: "0 \<le> uint (b :: byte)" "uint b < 256"
  using uint_bounded [of b] by simp_all

lemma from_bytes_bounds: "0 \<le> from_bytes bs \<and> from_bytes bs < 256 ^ length bs"
proof (induction bs)
  case Nil
  then show ?case by simp
next
  case (Cons b bs)
  have "uint b * 256 ^ length bs \<le> 255 * 256 ^ length bs"
    using uint_byte_bounds [of b] by (intro mult_right_mono) auto
  moreover have "0 \<le> uint b * 256 ^ length bs" using uint_byte_bounds [of b] by simp
  ultimately have "0 \<le> uint b * 256 ^ length bs + from_bytes bs"
    "uint b * 256 ^ length bs + from_bytes bs < 255 * 256 ^ length bs + 256 ^ length bs"
    using Cons by linarith+
  then show ?case by (simp add: from_bytes_Cons)
qed

text \<open>Byte sequences of one length are ordered as the numbers they denote.\<close>

lemma from_bytes_less:
  assumes "length xs = length ys" "from_bytes xs < from_bytes ys"
  shows "xs < ys"
  using assms
proof (induction xs ys rule: list_induct2)
  case Nil
  then show ?case by simp
next
  case (Cons x xs y ys)
  let ?p = "256 ^ length ys :: int"
  have "\<not> uint y < uint x"
  proof
    assume "uint y < uint x"
    then have "(uint y + 1) * ?p \<le> uint x * ?p" by (intro mult_right_mono) auto
    with Cons from_bytes_bounds [of xs] from_bytes_bounds [of ys] show False
      by (simp add: from_bytes_Cons distrib_right)
  qed
  then have "x < y \<or> x = y" by (simp add: word_less_def word_uint_eq_iff) linarith
  moreover have "from_bytes xs < from_bytes ys" if "x = y"
    using Cons that by (simp add: from_bytes_Cons)
  ultimately show ?case using Cons.IH by auto
qed

lemma from_to_bytes6:
  assumes "0 \<le> n" "n < 2 ^ 48"
  shows "from_bytes (to_bytes6 n) = n"
proof -
  have step: "n div 256 ^ Suc k * 256 + n div 256 ^ k mod 256 = n div 256 ^ k" for k
  proof -
    have "n div 256 ^ Suc k = n div 256 ^ k div 256"
      by (simp add: zdiv_zmult2_eq [symmetric] mult.commute)
    then show ?thesis by simp
  qed
  have "n div 256 ^ 5 \<le> (2 ^ 48 - 1) div 256 ^ 5"
    using assms by (intro zdiv_mono1) auto
  then have "n div 256 ^ 5 < 256" by simp
  moreover have "0 \<le> n div 256 ^ 5" using assms by (simp add: pos_imp_zdiv_nonneg_iff)
  ultimately have top: "n div 256 ^ 5 mod 256 = n div 256 ^ 5" by simp
  have "from_bytes (to_bytes6 n) =
    ((((n div 256 ^ 5 * 256 + n div 256 ^ 4 mod 256) * 256 + n div 256 ^ 3 mod 256) * 256
      + n div 256 ^ 2 mod 256) * 256 + n div 256 ^ 1 mod 256) * 256 + n div 256 ^ 0 mod 256"
    using top by (simp add: from_bytes_def to_bytes6_def uint_byte_word)
  also have "\<dots> = n"
    using step [of 4] step [of 3] step [of 2] step [of 1] step [of 0]
    by (simp only: eval_nat_numeral power_0 div_by_1 One_nat_def BitM.simps)
  finally show ?thesis .
qed

lemma version_nibble: "drop_bit 4 ((w AND 0x0F) OR 0x70 :: 8 word) = 7"
proof (rule bit_word_eqI)
  fix n assume "n < LENGTH(8)"
  then consider "n=0"|"n=1"|"n=2"|"n=3"|"n=4"|"n=5"|"n=6"|"n=7" by fastforce
  then show "bit (drop_bit 4 ((w AND 0x0F) OR 0x70 :: 8 word)) n = bit (7 :: 8 word) n"
    by cases (simp_all add: bit_simps)
qed
lemma variant_bits: "((w AND 0x3F) OR 0x80) AND 0xC0 = (0x80 :: 8 word)"
proof (rule bit_word_eqI)
  fix n assume "n < LENGTH(8)"
  then consider "n=0"|"n=1"|"n=2"|"n=3"|"n=4"|"n=5"|"n=6"|"n=7" by fastforce
  then show "bit (((w AND 0x3F) OR 0x80) AND 0xC0) n = bit (0x80 :: 8 word) n"
    by cases (simp_all add: bit_simps)
qed

lemma new_uuid7_Inr:
  assumes "new_uuid7 tz ms rnd = Inr u" "length rnd = 10"
  shows "length u = 16" "take 6 u = to_bytes6 ms" "uuid_version u = Some 7" "0 \<le> ms" "ms < 2 ^ 48"
proof -
  from assms obtain v where v: "v = to_bytes6 ms @ rnd" and
    u: "u = (v[6 := (v ! 6 AND 0x0F) OR 0x70])[8 := (v[6 := (v ! 6 AND 0x0F) OR 0x70] ! 8 AND 0x3F) OR 0x80]"
    and ms: "0 \<le> ms" "ms < 2 ^ 48"
    by (auto simp: new_uuid7_def Let_def split: if_splits)
  have len: "length v = 16" using v assms(2) by simp
  show "length u = 16" using u len by simp
  show "take 6 u = to_bytes6 ms" using u v by (simp add: take_update_swap list_update_beyond)
  have "u ! 8 = (v ! 8 AND 0x3F) OR 0x80" "u ! 6 = (v ! 6 AND 0x0F) OR 0x70"
    using u len by simp_all
  then show "uuid_version u = Some 7"
    by (simp add: uuid_version_def version_nibble variant_bits)
qed (use assms in \<open>auto simp: new_uuid7_def Let_def split: if_splits\<close>)

section \<open>Slugs: normal forms\<close>

abbreviation dash :: char where "dash \<equiv> CHR ''-''"
definition no_double_dash :: "string \<Rightarrow> bool" where
  "no_double_dash s = successively (\<lambda>a b. \<not> (a = dash \<and> b = dash)) s"

lemma dash_not_slug_char [simp]: "\<not> is_slug_char dash"
  by (simp add: is_slug_char_def is_lower_az_def is_digit09_def less_eq_char_def)

lemma dropWhile_hd: "dropWhile P xs = [] \<or> \<not> P (hd (dropWhile P xs))"
  using hd_dropWhile by blast

lemma dash_runs_chars: "c \<in> set (dash_runs s) \<Longrightarrow> is_slug_char c \<or> c = dash"
  by (induction s rule: dash_runs.induct) (auto split: if_splits)

lemma dash_runs_hd: "s \<noteq> [] \<Longrightarrow> is_slug_char (hd s) \<Longrightarrow> dash_runs s \<noteq> [] \<and> hd (dash_runs s) = hd s"
  by (cases s) auto

lemma dash_runs_no_double: "no_double_dash (dash_runs s)"
proof (induction s rule: dash_runs.induct)
  case 1
  then show ?case by (simp add: no_double_dash_def)
next
  case (2 c cs)
  let ?d = "dropWhile (\<lambda>d. \<not> is_slug_char d) cs"
  have "dash_runs ?d = [] \<or> hd (dash_runs ?d) \<noteq> dash"
  proof (cases "?d = []")
    case False
    then have "is_slug_char (hd ?d)" using dropWhile_hd [of "\<lambda>d. \<not> is_slug_char d" cs] by blast
    with dash_runs_hd [OF False] have "is_slug_char (hd (dash_runs ?d))" by simp
    then show ?thesis by (metis dash_not_slug_char)
  next
    case True
    then have "dash_runs ?d = []" by (simp only: dash_runs.simps)
    then show ?thesis by blast
  qed
  with 2 show ?case
    by (auto simp: no_double_dash_def successively_Cons)
qed

lemma collapse_dashes_id: "no_double_dash s \<Longrightarrow> collapse_dashes s = s"
proof (induction s rule: collapse_dashes.induct)
  case (2 c cs)
  then have "dropWhile (\<lambda>d. d = dash) cs = cs" if "c = dash"
    using that by (cases cs) (auto simp: no_double_dash_def)
  with 2 show ?case by (auto simp: no_double_dash_def successively_Cons)
qed simp

lemma split_on_hd_empty: "hd (split_on sep s) = [] \<longleftrightarrow> s = [] \<or> hd s = sep"
  by (cases s) (auto split: list.splits)

lemma split_on_tl_empty:
  "[] \<in> set (tl (split_on sep s)) \<Longrightarrow>
     (s \<noteq> [] \<and> last s = sep) \<or> \<not> successively (\<lambda>a b. \<not> (a = sep \<and> b = sep)) s"
proof (induction s)
  case Nil
  then show ?case by simp
next
  case (Cons c cs)
  obtain w ws where w: "split_on sep cs = w # ws" by (cases "split_on sep cs") auto
  have "w = [] \<longleftrightarrow> cs = [] \<or> hd cs = sep" using split_on_hd_empty [of sep cs] w by simp
  with Cons w show ?case by (auto simp: successively_Cons split: if_splits)
qed

lemma split_on_chars: "w \<in> set (split_on sep s) \<Longrightarrow> c \<in> set w \<Longrightarrow> c \<in> set s \<and> c \<noteq> sep"
proof (induction s arbitrary: w)
  case Nil
  then show ?case by simp
next
  case (Cons d s)
  obtain v vs where v: "split_on sep s = v # vs" by (cases "split_on sep s") auto
  with Cons.prems Cons.IH [of v] Cons.IH [of w] show ?case by (auto split: if_splits)
qed

lemma slug_shapeI:
  assumes "s \<noteq> []" "\<forall>c \<in> set s. is_slug_char c \<or> c = dash" "no_double_dash s"
    and "hd s \<noteq> dash" "last s \<noteq> dash"
  shows "slug_shape s"
proof -
  have "w \<noteq> []" if "w \<in> set (split_on dash s)" for w
  proof
    assume "w = []"
    with that have "hd (split_on dash s) = [] \<or> [] \<in> set (tl (split_on dash s))"
      by (cases "split_on dash s") auto
    then show False
      using assms split_on_hd_empty [of dash s] split_on_tl_empty [of dash s]
      by (auto simp: no_double_dash_def)
  qed
  then show ?thesis
    using assms(2) by (auto simp: slug_shape_def list_all_iff dest: split_on_chars)
qed

lemma no_double_dash_drop: "no_double_dash (xs @ ys) \<Longrightarrow> no_double_dash xs \<and> no_double_dash ys"
  by (simp add: no_double_dash_def successively_append_iff)

lemma strip_dashes_split: "\<exists>a b. s = a @ strip_dashes s @ b"
proof -
  define t where "t = dropWhile (\<lambda>d. d = dash) s"
  have "s = takeWhile (\<lambda>d. d = dash) s @ t" by (simp add: t_def)
  moreover have "t = strip_dashes s @ rev (takeWhile (\<lambda>d. d = dash) (rev t))"
    unfolding strip_dashes_def t_def [symmetric]
    by (metis rev_append rev_rev_ident takeWhile_dropWhile_id)
  ultimately show ?thesis by metis
qed

lemma rstrip_dashes_split: "\<exists>b. s = rstrip_dashes s @ b"
  unfolding rstrip_dashes_def by (metis rev_append rev_rev_ident takeWhile_dropWhile_id)

lemma rstrip_dashes_last: "rstrip_dashes s \<noteq> [] \<Longrightarrow> last (rstrip_dashes s) \<noteq> dash"
  using dropWhile_hd [of "\<lambda>d. d = dash" "rev s"]
  by (auto simp: rstrip_dashes_def last_rev)

lemma strip_dashes_hd: "strip_dashes s \<noteq> [] \<Longrightarrow> hd (strip_dashes s) \<noteq> dash"
proof -
  define t where "t = dropWhile (\<lambda>d. d = dash) s"
  assume ne: "strip_dashes s \<noteq> []"
  have eq: "strip_dashes s = rstrip_dashes t" by (simp add: strip_dashes_def rstrip_dashes_def t_def)
  obtain b where "t = rstrip_dashes t @ b" using rstrip_dashes_split by blast
  with ne eq have "hd (strip_dashes s) = hd t" "t \<noteq> []" by (metis hd_append2, metis append_is_Nil_conv)
  then show ?thesis using dropWhile_hd [of "\<lambda>d. d = dash" s] t_def by auto
qed

lemma normalize_slug_shape:
  assumes "normalize_slug v = Inr s"
  shows "slug_shape s \<and> length s \<le> slug_max_length"
proof -
  define r where "r = strip_dashes (dash_runs (py_lower (strip v)))"
  obtain a b where "dash_runs (py_lower (strip v)) = a @ r @ b"
    using strip_dashes_split r_def by metis
  then have r: "no_double_dash r" "\<forall>c \<in> set r. is_slug_char c \<or> c = dash"
    using dash_runs_no_double [of "py_lower (strip v)"] dash_runs_chars [of _ "py_lower (strip v)"]
    by (auto dest!: no_double_dash_drop)
  with assms have s: "s = rstrip_dashes (take slug_max_length r)" and "r \<noteq> []"
    by (auto simp: normalize_slug_def Let_def r_def [symmetric] collapse_dashes_id split: if_splits)
  define t where "t = take slug_max_length r"
  obtain u where u: "t = s @ u" using rstrip_dashes_split s t_def by metis
  have hd: "hd t \<noteq> dash" and tne: "t \<noteq> []"
    using \<open>r \<noteq> []\<close> strip_dashes_hd r_def
    by (auto simp: t_def slug_max_length_def hd_take)
  have sne: "s \<noteq> []"
  proof
    assume "s = []"
    then have "\<forall>c \<in> set t. c = dash"
      using s by (simp add: t_def [symmetric] rstrip_dashes_def dropWhile_eq_Nil_conv)
    with hd tne show False using hd_in_set by blast
  qed
  obtain w where w: "r = t @ w" using t_def by (metis append_take_drop_id)
  have "slug_shape s"
  proof (rule slug_shapeI)
    show "no_double_dash s" using r(1) w u by (metis no_double_dash_drop append_assoc)
    show "hd s \<noteq> dash" using hd u sne by simp
    show "last s \<noteq> dash" using rstrip_dashes_last s sne by blast
  qed (use r(2) w u sne in auto)
  moreover have "length s \<le> slug_max_length" using u t_def by (metis length_append length_take
      le_add1 min.cobounded2 order_trans)
  ultimately show ?thesis by simp
qed

lemma slug_shape_chars: "slug_shape s \<Longrightarrow> c \<in> set s \<Longrightarrow> is_slug_char c \<or> c = dash"
proof -
  assume s: "slug_shape s" and c: "c \<in> set s"
  have "s = join_with [dash] (split_on dash s)" by simp
  with c have "c = dash \<or> (\<exists>w \<in> set (split_on dash s). c \<in> set w)" by (metis in_set_join)
  with s show ?thesis by (auto simp: slug_shape_def list_all_iff)
qed

lemma slug_shape_portable: "slug_shape s \<Longrightarrow> \<not> non_portable s"
proof
  assume s: "slug_shape s" and n: "non_portable s"
  have bad: "c \<notin> set s" if "c = CHR '':'' \<or> c = CHR ''/'' \<or> c = CHR 0x5C" for c
    using slug_shape_chars [OF s, of c] that
    by (auto simp: is_slug_char_def is_lower_az_def is_digit09_def less_eq_char_def)
  from n consider "length s \<ge> 2" "s ! 1 = CHR '':''" | "starts_with s ''/''" | "CHR 0x5C \<in> set s"
    by (auto simp: non_portable_def)
  then show False
  proof cases
    case 1
    then have "CHR '':'' \<in> set s" by (metis Suc_1 Suc_le_lessD nth_mem One_nat_def)
    then show False using bad by blast
  next
    case 2
    then have "CHR ''/'' \<in> set s" by (cases s) (auto simp: starts_with_def)
    then show False using bad by blast
  qed (use bad in blast)
qed
section \<open>Properties\<close>

text \<open>A UUIDv7 carries version 7 and the RFC 4122 variant, its timestamp is the
  millisecond it was made in, and UUIDs made in a later millisecond are larger as byte
  sequences whatever the random bytes.\<close>

theorem new_uuid7_time_ordered:
  assumes "new_uuid7 True ms rnd = Inr u" "new_uuid7 True ms' rnd' = Inr u'"
    and "length rnd = 10" "length rnd' = 10"
  shows "length u = 16 \<and> uuid_version u = Some 7 \<and> uuid7_timestamp u = Inr ms
    \<and> (ms < ms' \<longrightarrow> u < u')"
proof -
  note u = new_uuid7_Inr [OF assms(1,3)] and u' = new_uuid7_Inr [OF assms(2,4)]
  have "u < u'" if "ms < ms'"
  proof -
    have "from_bytes (take 6 u) < from_bytes (take 6 u')"
      using u u' that by (simp add: from_to_bytes6)
    then have "take 6 u < take 6 u'" using u(2) u'(2) by (intro from_bytes_less) simp_all
    then have "take 6 u @ drop 6 u < take 6 u' @ drop 6 u'"
      using u(2) u'(2) by (intro list_less_append) simp_all
    then show ?thesis by simp
  qed
  then show ?thesis using u by (simp add: uuid7_timestamp_def from_to_bytes6)
qed

theorem new_uuid7_time_ordered_witness:
  "\<exists>u u'. new_uuid7 True 1000 (replicate 10 0xFF) = Inr u \<and> new_uuid7 True 1001 (replicate 10 0) = Inr u'
     \<and> uuid7_timestamp u = Inr 1000 \<and> u < u'"
proof -
  obtain u u' where u: "new_uuid7 True 1000 (replicate 10 0xFF) = Inr u"
    "new_uuid7 True 1001 (replicate 10 0) = Inr u'"
    by (simp add: new_uuid7_def Let_def)
  with new_uuid7_time_ordered [OF u] show ?thesis by auto
qed

text \<open>Every slug that \<^verbatim>\<open>normalize_slug\<close> produces is accepted unchanged by
  \<^verbatim>\<open>validate_slug\<close>, unless it is a single character (shorter than the minimum length).\<close>

theorem normalize_slug_validates:
  assumes "normalize_slug v = Inr s" and "slug_min_length \<le> length s"
  shows "validate_slug s = Inr s"
  using normalize_slug_shape [OF assms(1)] assms(2) slug_shape_portable [of s]
  by (simp add: validate_slug_def slug_pattern_match_def)

theorem normalize_slug_validates_witness: "validate_slug ''ornek-proje-2'' = Inr ''ornek-proje-2''"
proof -
  have "normalize_slug '' Ornek  Proje_2! '' = Inr ''ornek-proje-2''"
    by code_simp
  from normalize_slug_validates [OF this] show ?thesis by (simp add: slug_min_length_def)
qed

text \<open>Because the final \<open>$\<close> of the slug pattern also matches before a closing newline,
  \<^verbatim>\<open>validate_slug\<close> accepts a slug followed by a newline, which is neither a lower-case letter,
  a digit nor a dash.\<close>

theorem validate_slug_accepts_newline:
  "validate_slug [CHR ''a'', CHR ''b'', CHR 0x0A] = Inr [CHR ''a'', CHR ''b'', CHR 0x0A]
   \<and> \<not> slug_shape [CHR ''a'', CHR ''b'', CHR 0x0A]"
  by code_simp

end
