(* ===== verification/LocalContracts.thy ===== *)
theory LocalContracts
  imports Runtime Identifiers
begin

text \<open>
  The contracts of the local runtime (\<^verbatim>\<open>application/local_runtime.py\<close>): the operations reserved
  for dedicated workers, the validation of consumer allowlists, the canonical work binding of a
  job, and the values that cross the store's boundary. The canonical-text checks that the
  recovery helpers share (\<^verbatim>\<open>local_continuity.py\<close>, \<^verbatim>\<open>local_continuity_v4_internal.py\<close>) are here
  too.

  The secret scanner (\<^verbatim>\<open>application/secret_detection.scan_text\<close>) and the home directory are
  parameters, collected in the record \<open>env\<close>.
\<close>

section \<open>Parameters\<close>

record env =
  en_scan :: "string \<Rightarrow> string \<Rightarrow> bool"
  en_scan_secret :: "string \<Rightarrow> string \<Rightarrow> bool"
  en_home :: string

section \<open>Operation and event kinds\<close>

definition RUNTIME_OUTBOX_KINDS :: "string list" where
  "RUNTIME_OUTBOX_KINDS = [''job.enqueued'', ''job.ready'', ''job.completed'', ''job.failed'',
     ''job.recovery-required'', ''job.quarantined'']"

definition RESERVED_JOB_OPERATIONS :: "string list" where
  "RESERVED_JOB_OPERATIONS =
     [''publication.trust.enroll'', ''publication.trust.rotate'', ''publication.test.attest'',
      ''publication.verification.attest'', ''publication.evidence.bind'', ''publication.review'',
      ''git.push'', ''project.index'', ''test.measure'', ''test.run'', ''continuity.compile'',
      ''continuity.resume'', ''research.run'', ''knowledge.create'', ''knowledge.update'',
      ''knowledge.archive'', ''knowledge.restore'', ''project.odi-bind'', ''project.odi-smart-import'',
      ''skill.trial'', ''skill.audit.verify'', ''skill.audit.review'', ''skill.evaluation.aggregate'',
      ''skill.evaluation.native-project'', ''skill.invocation.native-record'', ''skill.native.execute'',
      ''skill.invocation.from-execution'', ''skill.outcome.native-verify'',
      ''skill.outcome.native-record'', ''tournament.select'']"

text \<open>\<^verbatim>\<open>[a-z][a-z0-9]*(?:[._/-][a-z0-9]+)*\<close> on the whole text.\<close>

definition is_kind_separator :: "char \<Rightarrow> bool" where
  "is_kind_separator c = (c \<in> set ''._/-'')"

definition runtime_kind :: "string \<Rightarrow> bool" where
  "runtime_kind s =
     (s \<noteq> [] \<and> is_lower_az (hd s)
      \<and> list_all (\<lambda>c. is_lower_az c \<or> is_digit09 c \<or> is_kind_separator c) s
      \<and> \<not> is_kind_separator (last s)
      \<and> successively (\<lambda>a b. \<not> (is_kind_separator a \<and> is_kind_separator b)) s)"

fun validate_kind_list :: "string \<Rightarrow> string list \<Rightarrow> string list \<Rightarrow> string list res" where
  "validate_kind_list label kinds [] = Inr kinds"
| "validate_kind_list label kinds (k # ks) =
     (if \<not> (1 \<le> length k \<and> length k \<le> 128) \<or> \<not> runtime_kind k
      then Inl (ValidationFailed (label @ '' exact bounded token olmali''))
      else if k \<in> set kinds then Inl (ValidationFailed (label @ '' duplicate olamaz''))
      else validate_kind_list label (kinds @ [k]) ks)"

definition validate_kinds :: "string list \<Rightarrow> string \<Rightarrow> string list res" where
  "validate_kinds value label =
     (if \<not> (1 \<le> length value \<and> length value \<le> 64)
      then Inl (ValidationFailed (label @ '' 1..64 elemanli tuple olmali''))
      else validate_kind_list label [] value)"

definition validate_outbox_kinds :: "string list \<Rightarrow> string list res" where
  "validate_outbox_kinds value = validate_kinds value ''Outbox supported kinds''"

definition validate_job_operations :: "string list \<Rightarrow> string list res" where
  "validate_job_operations value = validate_kinds value ''Job supported operations''"

section \<open>Canonical texts\<close>

text \<open>\<^verbatim>\<open>str(UUID(value)) == value\<close>: the canonical lower-case form.\<close>

definition is_uuid_text :: "string \<Rightarrow> bool" where
  "is_uuid_text s = (map length (split_on (CHR ''-'') s) = [8, 4, 4, 4, 12]
     \<and> list_all (\<lambda>c. is_lower_hex c \<or> c = CHR ''-'') s)"

text \<open>\<^verbatim>\<open>local_continuity_v4_internal._text\<close>.\<close>

definition canonical_text :: "string \<Rightarrow> string \<Rightarrow> string res" where
  "canonical_text value label =
     (if value = [] \<or> utf8_len value > 512 \<or> value \<noteq> strip value
      then Inl (ValidationFailed (label @ '' outside canonical bound''))
      else if list_ex (\<lambda>c. (of_char c :: nat) < 32 \<or> (of_char c :: nat) = 127) value
      then Inl (ValidationFailed (label @ '' contains control characters''))
      else Inr value)"

text \<open>\<^verbatim>\<open>^[A-Za-z0-9][A-Za-z0-9_.:/#-]{0,511}$\<close> on the whole text.\<close>

definition logical_token :: "string \<Rightarrow> bool" where
  "logical_token s =
     (s \<noteq> [] \<and> length s \<le> 512
      \<and> (is_lower_az (hd s) \<or> is_upper_az (hd s) \<or> is_digit09 (hd s))
      \<and> list_all (\<lambda>c. is_lower_az c \<or> is_upper_az c \<or> is_digit09 c \<or> c \<in> set ''_.:/#-'') s)"

definition logical :: "env \<Rightarrow> string \<Rightarrow> string \<Rightarrow> string res" where
  "logical env value label =
     (if \<not> logical_token value
      then Inl (ValidationFailed (label @ '' bounded logical reference required''))
      else rbind (assert_portable (en_home env) value) (\<lambda>_.
        if en_scan_secret env ''continuity/reference'' value
        then Inl (PolicyViolation (label @ '' secret reference content forbidden''))
        else Inr value))"

definition canonical_key :: "env \<Rightarrow> string \<Rightarrow> string \<Rightarrow> string res" where
  "canonical_key env value label =
     rbind (canonical_text value label) (\<lambda>result. rbind (logical env result label) (\<lambda>_. Inr result))"

definition canonical_uuid :: "string \<Rightarrow> string \<Rightarrow> string res" where
  "canonical_uuid value label =
     rbind (canonical_text value label) (\<lambda>result.
       if \<not> is_uuid_text result then Inl (ValidationFailed (label @ '' canonical UUID required''))
       else Inr result)"

section \<open>Work bindings\<close>

record local_job_binding =
  lb_project_id :: string
  lb_work_item_id :: string
  lb_work_revision :: int
  lb_run_id :: string
  lb_config_revision_id :: string
  lb_config_digest :: string
  lb_plan_digest :: string
  lb_run_step_id :: "string option"
  lb_source_snapshot_id :: "string option"

definition check_binding :: "local_job_binding \<Rightarrow> local_job_binding res" where
  "check_binding b =
     (if \<not> list_all is_uuid_text ([lb_project_id b, lb_work_item_id b, lb_run_id b, lb_config_revision_id b]
          @ (case lb_run_step_id b of None \<Rightarrow> [] | Some x \<Rightarrow> [x])
          @ (case lb_source_snapshot_id b of None \<Rightarrow> [] | Some x \<Rightarrow> [x]))
      then Inl (ValidationFailed ''Local job binding canonical UUID required'')
      else if lb_work_revision b < 1
      then Inl (ValidationFailed ''Local job binding positive Work revision required'')
      else rbind (parse_digest (lb_config_digest b)) (\<lambda>_.
        rbind (parse_digest (lb_plan_digest b)) (\<lambda>_. Inr b)))"

definition binding_body :: "local_job_binding \<Rightarrow> pyval" where
  "binding_body b = PDict
     [(PStr ''schema'', PStr ''zekam-local-job-binding/v1''),
      (PStr ''project_id'', PStr (lb_project_id b)),
      (PStr ''work_item_id'', PStr (lb_work_item_id b)),
      (PStr ''work_revision'', PInt (lb_work_revision b)),
      (PStr ''run_id'', PStr (lb_run_id b)),
      (PStr ''config_revision_id'', PStr (lb_config_revision_id b)),
      (PStr ''config_digest'', PStr (lb_config_digest b)),
      (PStr ''plan_digest'', PStr (lb_plan_digest b)),
      (PStr ''run_step_id'', opt_text (lb_run_step_id b)),
      (PStr ''source_snapshot_id'', opt_text (lb_source_snapshot_id b)),
      (PStr ''grants_authority'', PBool False)]"

definition binding_digest :: "local_job_binding \<Rightarrow> string res" where
  "binding_digest b = digest (binding_body b)"

section \<open>States and statuses\<close>

datatype local_state =
  L_READY | L_RUNNING | L_RECOVERY_REQUIRED | L_COMPLETED | L_FAILED | L_CANCELLED | L_QUARANTINED

fun local_state_value :: "local_state \<Rightarrow> string" where
  "local_state_value L_READY = ''ready''"
| "local_state_value L_RUNNING = ''running''"
| "local_state_value L_RECOVERY_REQUIRED = ''recovery-required''"
| "local_state_value L_COMPLETED = ''completed''"
| "local_state_value L_FAILED = ''failed''"
| "local_state_value L_CANCELLED = ''cancelled''"
| "local_state_value L_QUARANTINED = ''quarantined''"

datatype effect_status = E_COMPLETED | E_FAILED | E_UNKNOWN

fun effect_status_value :: "effect_status \<Rightarrow> string" where
  "effect_status_value E_COMPLETED = ''completed''"
| "effect_status_value E_FAILED = ''failed''"
| "effect_status_value E_UNKNOWN = ''unknown''"

datatype delivery_state = D_PENDING | D_CLAIMED | D_DELIVERED | D_FAILED | D_RECOVERY_REQUIRED

datatype delivery_status = DS_DELIVERED | DS_FAILED | DS_UNKNOWN

datatype case_kind = EFFECT_UNKNOWN | OUTBOX_DELIVERY_UNKNOWN

datatype resolution_outcome = O_COMPLETED | O_FAILED | O_DELIVERED

fun resolution_outcome_value :: "resolution_outcome \<Rightarrow> string" where
  "resolution_outcome_value O_COMPLETED = ''completed''"
| "resolution_outcome_value O_FAILED = ''failed''"
| "resolution_outcome_value O_DELIVERED = ''delivered''"

section \<open>Values at the boundary of the store\<close>

record local_job =
  lj_id :: string
  lj_state :: local_state
  lj_key :: string
  lj_attempt_count :: int
  lj_max_attempts :: int
  lj_payload :: json

record local_lease =
  ll_id :: string
  ll_job_id :: string
  ll_owner_id :: string
  ll_owner_pid :: int
  ll_owner_token :: string
  ll_fencing_token :: int
  ll_expires_at :: int

record local_claim =
  lc_id :: string
  lc_job_id :: string
  lc_lease_id :: string
  lc_fencing_token :: int
  lc_operation :: string
  lc_effect_digest :: string

record local_claimed_work =
  cw_job :: local_job
  cw_lease :: local_lease

record local_outbox_event =
  oe_id :: string
  oe_job_id :: string
  oe_key :: string
  oe_kind :: string
  oe_payload_digest :: string
  oe_payload :: json
  oe_state :: delivery_state

record local_outbox_claim =
  oc_event :: local_outbox_event
  oc_claim_id :: string
  oc_owner_id :: string
  oc_owner_pid :: int
  oc_owner_token :: string
  oc_fencing_token :: int
  oc_expires_at :: int

record recovery_sweep =
  sw_requeued :: int
  sw_recovery_required :: int
  sw_released_locks :: int
  sw_finalized :: int
  sw_timed_out :: int

record local_runtime_status =
  rs_ready_jobs :: nat
  rs_running_jobs :: nat
  rs_recovery_jobs :: nat
  rs_quarantined_jobs :: nat
  rs_pending_outbox :: nat
  rs_claimed_outbox :: nat
  rs_recovery_outbox :: nat
  rs_open_recovery_cases :: nat

end
