(* ===== verification/LocalStore.thy ===== *)
theory LocalStore
  imports LocalContracts
begin

text \<open>
  The tables of the local runtime (\<^verbatim>\<open>infrastructure/sqlite/operational_schema.py\<close>, schema version
  3) as lists of rows, with the statements the store executes on them. An insert checks the
  primary key, the unique columns, the foreign keys and the CHECK constraints of the table and
  gives \<open>IntegrityError\<close> when one fails; the append-only triggers leave no update or delete for
  the audit tables. A transaction is a function from the state to an error or a new state: an
  error is the rollback.

  A timestamp column holds \<^verbatim>\<open>datetime.isoformat()\<close> of a UTC instant, whose text order is the order of
  the instants; the model keeps the instant. A payload column holds the canonical JSON text of
  the value kept here. The identifiers that \<^verbatim>\<open>new_uuid7\<close> will draw are the list \<open>st_uuids\<close>.
\<close>

section \<open>Rows\<close>

record job_row =
  jr_id :: string
  jr_key :: string
  jr_payload :: json
  jr_state :: local_state
  jr_attempts :: int
  jr_max_attempts :: int
  jr_available_at :: int
  jr_timeout_at :: "int option"
  jr_fencing :: int
  jr_evidence :: "string option"
  jr_created_at :: int
  jr_updated_at :: int

record lease_row =
  ls_id :: string
  ls_job :: string
  ls_owner :: string
  ls_pid :: int
  ls_token :: string
  ls_fencing :: int
  ls_heartbeat_at :: int
  ls_expires_at :: int

record lock_row =
  lk_resource :: string
  lk_job :: string
  lk_lease :: string
  lk_fencing :: int
  lk_acquired_at :: int

record claim_row =
  cl_id :: string
  cl_job :: string
  cl_lease :: string
  cl_fencing :: int
  cl_operation :: string
  cl_effect :: string
  cl_key :: string
  cl_claimed_at :: int

record receipt_row =
  re_id :: string
  re_claim :: string
  re_status :: effect_status
  re_evidence :: string
  re_created_at :: int

record outbox_row =
  ob_id :: string
  ob_job :: string
  ob_key :: string
  ob_kind :: string
  ob_payload :: json
  ob_digest :: string
  ob_created_at :: int

text \<open>The claim columns of a delivery are all null or all set.\<close>

record delivery_claim =
  dc_id :: string
  dc_owner :: string
  dc_pid :: int
  dc_token :: string
  dc_expires_at :: int

record delivery_row =
  dv_outbox :: string
  dv_state :: delivery_state
  dv_fencing :: int
  dv_claim :: "delivery_claim option"
  dv_updated_at :: int

record outbox_receipt_row =
  or_id :: string
  or_outbox :: string
  or_claim :: string
  or_fencing :: int
  or_status :: delivery_status
  or_evidence :: string
  or_created_at :: int

record case_row =
  ca_id :: string
  ca_job :: string
  ca_claim :: "string option"
  ca_outbox :: "string option"
  ca_kind :: case_kind
  ca_evidence :: string
  ca_open :: bool
  ca_created_at :: int
  ca_resolved_at :: "int option"

record resolution_row =
  rv_id :: string
  rv_case :: string
  rv_outcome :: resolution_outcome
  rv_evidence :: string
  rv_created_at :: int

record slot_row =
  sl_key :: string
  sl_digest :: string
  sl_job :: string
  sl_created_at :: int

record store =
  st_jobs :: "job_row list"
  st_leases :: "lease_row list"
  st_locks :: "lock_row list"
  st_claims :: "claim_row list"
  st_receipts :: "receipt_row list"
  st_outbox :: "outbox_row list"
  st_deliveries :: "delivery_row list"
  st_outbox_receipts :: "outbox_receipt_row list"
  st_cases :: "case_row list"
  st_resolutions :: "resolution_row list"
  st_slots :: "slot_row list"
  st_max_pending :: int
  st_uuids :: "string list"

definition empty_store :: "int \<Rightarrow> string list \<Rightarrow> store" where
  "empty_store max_pending uuids =
     \<lparr>st_jobs = [], st_leases = [], st_locks = [], st_claims = [], st_receipts = [], st_outbox = [],
      st_deliveries = [], st_outbox_receipts = [], st_cases = [], st_resolutions = [], st_slots = [],
      st_max_pending = max_pending, st_uuids = uuids\<rparr>"

section \<open>Reading\<close>

definition find_job :: "store \<Rightarrow> string \<Rightarrow> job_row option" where
  "find_job s i = find (\<lambda>r. jr_id r = i) (st_jobs s)"

definition find_job_key :: "store \<Rightarrow> string \<Rightarrow> job_row option" where
  "find_job_key s k = find (\<lambda>r. jr_key r = k) (st_jobs s)"

definition find_lease :: "store \<Rightarrow> string \<Rightarrow> lease_row option" where
  "find_lease s i = find (\<lambda>r. ls_id r = i) (st_leases s)"

definition find_claim :: "store \<Rightarrow> string \<Rightarrow> claim_row option" where
  "find_claim s i = find (\<lambda>r. cl_id r = i) (st_claims s)"

definition receipt_of :: "store \<Rightarrow> string \<Rightarrow> receipt_row option" where
  "receipt_of s c = find (\<lambda>r. re_claim r = c) (st_receipts s)"

definition case_of_claim :: "store \<Rightarrow> string \<Rightarrow> case_row option" where
  "case_of_claim s c = find (\<lambda>r. ca_claim r = Some c) (st_cases s)"

definition find_case :: "store \<Rightarrow> string \<Rightarrow> case_row option" where
  "find_case s i = find (\<lambda>r. ca_id r = i) (st_cases s)"

definition resolution_of :: "store \<Rightarrow> string \<Rightarrow> resolution_row option" where
  "resolution_of s c = find (\<lambda>r. rv_case r = c) (st_resolutions s)"

definition find_outbox :: "store \<Rightarrow> string \<Rightarrow> outbox_row option" where
  "find_outbox s i = find (\<lambda>r. ob_id r = i) (st_outbox s)"

definition find_delivery :: "store \<Rightarrow> string \<Rightarrow> delivery_row option" where
  "find_delivery s i = find (\<lambda>r. dv_outbox r = i) (st_deliveries s)"

definition outbox_receipt_of :: "store \<Rightarrow> string \<Rightarrow> outbox_receipt_row option" where
  "outbox_receipt_of s i = find (\<lambda>r. or_outbox r = i) (st_outbox_receipts s)"

definition claims_of :: "store \<Rightarrow> string \<Rightarrow> claim_row list" where
  "claims_of s j = filter (\<lambda>c. cl_job c = j) (st_claims s)"

definition unresolved :: "store \<Rightarrow> claim_row \<Rightarrow> bool" where
  "unresolved s c = (case receipt_of s (cl_id c) of None \<Rightarrow> True | Some r \<Rightarrow> re_status r = E_UNKNOWN)"

definition pending_count :: "store \<Rightarrow> nat" where
  "pending_count s = length (filter (\<lambda>d. dv_state d \<in> {D_PENDING, D_CLAIMED, D_RECOVERY_REQUIRED})
     (st_deliveries s))"

section \<open>Constraints\<close>

definition unique_violation :: "string \<Rightarrow> 'a res" where
  "unique_violation column = Inl (IntegrityError (''UNIQUE constraint failed: '' @ column))"

definition foreign_key_violation :: "'a res" where
  "foreign_key_violation = Inl (IntegrityError ''FOREIGN KEY constraint failed'')"

definition check_violation :: "string \<Rightarrow> 'a res" where
  "check_violation table = Inl (IntegrityError (''CHECK constraint failed: '' @ table))"

definition job_check :: "job_row \<Rightarrow> bool" where
  "job_check j = (0 \<le> jr_attempts j \<and> 1 \<le> jr_max_attempts j \<and> jr_max_attempts j \<le> 100
     \<and> 0 \<le> jr_fencing j
     \<and> ((jr_state j \<in> {L_READY, L_RUNNING}) = (jr_evidence j = None)))"

definition delivery_check :: "delivery_row \<Rightarrow> bool" where
  "delivery_check d = (0 \<le> dv_fencing d \<and> ((dv_state d = D_PENDING) = (dv_claim d = None))
     \<and> (case dv_claim d of None \<Rightarrow> True | Some c \<Rightarrow> 0 < dc_pid c))"

section \<open>Statements\<close>

definition new_uuid :: "store \<Rightarrow> (string \<times> store) res" where
  "new_uuid s = (case st_uuids s of [] \<Rightarrow> Inl (PyError ''StopIteration'')
     | u # us \<Rightarrow> Inr (u, s\<lparr>st_uuids := us\<rparr>))"

definition insert_job_row :: "job_row \<Rightarrow> store \<Rightarrow> store res" where
  "insert_job_row r s =
     (if jr_id r \<in> jr_id ` set (st_jobs s) then unique_violation ''local_job.id''
      else if jr_key r \<in> jr_key ` set (st_jobs s) then unique_violation ''local_job.idempotency_key''
      else if \<not> job_check r then check_violation ''local_job''
      else Inr (s\<lparr>st_jobs := st_jobs s @ [r]\<rparr>))"

text \<open>\<^verbatim>\<open>update local_job set ... where id=? and ...\<close>; the result is the number of rows updated.\<close>

definition update_job :: "string \<Rightarrow> (job_row \<Rightarrow> bool) \<Rightarrow> (job_row \<Rightarrow> job_row) \<Rightarrow> store \<Rightarrow> (nat \<times> store) res" where
  "update_job i p f s =
     (let sel = (\<lambda>r. jr_id r = i \<and> p r) in
      if list_all (\<lambda>r. sel r \<longrightarrow> job_check (f r)) (st_jobs s)
      then Inr (length (filter sel (st_jobs s)),
        s\<lparr>st_jobs := update_where sel f (st_jobs s)\<rparr>)
      else check_violation ''local_job'')"

definition insert_lease :: "lease_row \<Rightarrow> store \<Rightarrow> store res" where
  "insert_lease r s =
     (if ls_id r \<in> ls_id ` set (st_leases s) then unique_violation ''local_lease.id''
      else if ls_job r \<in> ls_job ` set (st_leases s) then unique_violation ''local_lease.job_id''
      else if \<not> (0 < ls_pid r \<and> 0 < ls_fencing r) then check_violation ''local_lease''
      else if ls_job r \<notin> jr_id ` set (st_jobs s) then foreign_key_violation
      else Inr (s\<lparr>st_leases := st_leases s @ [r]\<rparr>))"

definition touch_lease :: "string \<Rightarrow> int \<Rightarrow> int \<Rightarrow> store \<Rightarrow> store" where
  "touch_lease i heartbeat expires s = s\<lparr>st_leases :=
     update_where (\<lambda>r. ls_id r = i) (\<lambda>r. r\<lparr>ls_heartbeat_at := heartbeat, ls_expires_at := expires\<rparr>)
       (st_leases s)\<rparr>"

text \<open>Deleting a lease also deletes its locks (\<^verbatim>\<open>on delete cascade\<close>).\<close>

definition delete_lease :: "string \<Rightarrow> store \<Rightarrow> store" where
  "delete_lease i s = s\<lparr>st_leases := filter (\<lambda>r. ls_id r \<noteq> i) (st_leases s),
     st_locks := filter (\<lambda>r. lk_lease r \<noteq> i) (st_locks s)\<rparr>"

definition insert_lock :: "lock_row \<Rightarrow> store \<Rightarrow> store res" where
  "insert_lock r s =
     (if lk_resource r \<in> lk_resource ` set (st_locks s)
      then unique_violation ''local_resource_lock.resource''
      else if lk_job r \<notin> jr_id ` set (st_jobs s) \<or> lk_lease r \<notin> ls_id ` set (st_leases s)
      then foreign_key_violation
      else Inr (s\<lparr>st_locks := st_locks s @ [r]\<rparr>))"

definition delete_locks :: "string \<Rightarrow> store \<Rightarrow> store" where
  "delete_locks lease s = s\<lparr>st_locks := filter (\<lambda>r. lk_lease r \<noteq> lease) (st_locks s)\<rparr>"

definition insert_claim :: "claim_row \<Rightarrow> store \<Rightarrow> store res" where
  "insert_claim r s =
     (if cl_id r \<in> cl_id ` set (st_claims s) then unique_violation ''local_effect_claim.id''
      else if cl_key r \<in> cl_key ` set (st_claims s)
      then unique_violation ''local_effect_claim.idempotency_key''
      else if cl_job r \<notin> jr_id ` set (st_jobs s) then foreign_key_violation
      else Inr (s\<lparr>st_claims := st_claims s @ [r]\<rparr>))"

definition insert_receipt :: "receipt_row \<Rightarrow> store \<Rightarrow> store res" where
  "insert_receipt r s =
     (if re_id r \<in> re_id ` set (st_receipts s) then unique_violation ''local_effect_receipt.id''
      else if re_claim r \<in> re_claim ` set (st_receipts s)
      then unique_violation ''local_effect_receipt.claim_id''
      else if re_claim r \<notin> cl_id ` set (st_claims s) then foreign_key_violation
      else Inr (s\<lparr>st_receipts := st_receipts s @ [r]\<rparr>))"

text \<open>The two inserts that publish an event: the outbox row and its pending delivery.\<close>

definition insert_outbox :: "outbox_row \<Rightarrow> store \<Rightarrow> store res" where
  "insert_outbox r s =
     (if ob_id r \<in> ob_id ` set (st_outbox s) then unique_violation ''local_outbox.id''
      else if ob_key r \<in> ob_key ` set (st_outbox s)
      then unique_violation ''local_outbox.idempotency_key''
      else if ob_job r \<notin> jr_id ` set (st_jobs s) then foreign_key_violation
      else if ob_id r \<in> dv_outbox ` set (st_deliveries s)
      then unique_violation ''local_outbox_delivery.outbox_id''
      else Inr (s\<lparr>st_outbox := st_outbox s @ [r],
        st_deliveries := st_deliveries s @ [\<lparr>dv_outbox = ob_id r, dv_state = D_PENDING,
          dv_fencing = 0, dv_claim = None, dv_updated_at = ob_created_at r\<rparr>]\<rparr>))"

definition claim_ids :: "store \<Rightarrow> string \<Rightarrow> string list" where
  "claim_ids s except = concat (map (\<lambda>d. if dv_outbox d = except then []
     else case dv_claim d of None \<Rightarrow> [] | Some c \<Rightarrow> [dc_id c]) (st_deliveries s))"

definition update_delivery ::
  "string \<Rightarrow> (delivery_row \<Rightarrow> bool) \<Rightarrow> (delivery_row \<Rightarrow> delivery_row) \<Rightarrow> store \<Rightarrow> (nat \<times> store) res" where
  "update_delivery i p f s =
     (let sel = (\<lambda>d. dv_outbox d = i \<and> p d) in
      if \<not> list_all (\<lambda>d. sel d \<longrightarrow> delivery_check (f d)) (st_deliveries s)
      then check_violation ''local_outbox_delivery''
      else if list_ex (\<lambda>d. sel d \<and> (case dv_claim (f d) of None \<Rightarrow> False
             | Some c \<Rightarrow> dc_id c \<in> set (claim_ids s i))) (st_deliveries s)
      then unique_violation ''local_outbox_delivery.claim_id''
      else Inr (length (filter sel (st_deliveries s)),
        s\<lparr>st_deliveries := update_where sel f (st_deliveries s)\<rparr>))"

definition insert_outbox_receipt :: "outbox_receipt_row \<Rightarrow> store \<Rightarrow> store res" where
  "insert_outbox_receipt r s =
     (if or_id r \<in> or_id ` set (st_outbox_receipts s) then unique_violation ''local_outbox_receipt.id''
      else if or_outbox r \<in> or_outbox ` set (st_outbox_receipts s)
      then unique_violation ''local_outbox_receipt.outbox_id''
      else if or_claim r \<in> or_claim ` set (st_outbox_receipts s)
      then unique_violation ''local_outbox_receipt.claim_id''
      else if \<not> 0 < or_fencing r then check_violation ''local_outbox_receipt''
      else if or_outbox r \<notin> ob_id ` set (st_outbox s) then foreign_key_violation
      else Inr (s\<lparr>st_outbox_receipts := st_outbox_receipts s @ [r]\<rparr>))"

definition insert_case :: "case_row \<Rightarrow> store \<Rightarrow> store res" where
  "insert_case r s =
     (if \<not> ca_open r \<or> ca_resolved_at r \<noteq> None
      then Inl (IntegrityError ''local_recovery_case must start open'')
      else if ca_id r \<in> ca_id ` set (st_cases s) then unique_violation ''local_recovery_case.id''
      else if ca_claim r \<noteq> None \<and> ca_claim r \<in> ca_claim ` set (st_cases s)
      then unique_violation ''local_recovery_case.effect_claim_id''
      else if ca_outbox r \<noteq> None \<and> ca_outbox r \<in> ca_outbox ` set (st_cases s)
      then unique_violation ''local_recovery_case.outbox_id''
      else if (ca_claim r = None) = (ca_outbox r = None) then check_violation ''local_recovery_case''
      else if ca_job r \<notin> jr_id ` set (st_jobs s)
        \<or> (\<exists>c \<in> set_option (ca_claim r). c \<notin> cl_id ` set (st_claims s))
        \<or> (\<exists>c \<in> set_option (ca_outbox r). c \<notin> ob_id ` set (st_outbox s))
      then foreign_key_violation
      else Inr (s\<lparr>st_cases := st_cases s @ [r]\<rparr>))"

text \<open>The insert trigger of \<^verbatim>\<open>local_recovery_resolution\<close>: the case must be open and the outcome fit
  its kind.\<close>

definition outcome_allowed :: "case_kind \<Rightarrow> resolution_outcome \<Rightarrow> bool" where
  "outcome_allowed kind outcome =
     (case kind of EFFECT_UNKNOWN \<Rightarrow> outcome \<in> {O_COMPLETED, O_FAILED}
      | OUTBOX_DELIVERY_UNKNOWN \<Rightarrow> outcome \<in> {O_DELIVERED, O_FAILED})"

definition insert_resolution :: "resolution_row \<Rightarrow> store \<Rightarrow> store res" where
  "insert_resolution r s =
     (if \<not> list_ex (\<lambda>c. ca_id c = rv_case r \<and> ca_open c \<and> outcome_allowed (ca_kind c) (rv_outcome r))
          (st_cases s)
      then Inl (IntegrityError ''local_recovery_resolution case/outcome mismatch'')
      else if rv_id r \<in> rv_id ` set (st_resolutions s) then unique_violation ''local_recovery_resolution.id''
      else if rv_case r \<in> rv_case ` set (st_resolutions s)
      then unique_violation ''local_recovery_resolution.recovery_case_id''
      else Inr (s\<lparr>st_resolutions := st_resolutions s @ [r]\<rparr>))"

text \<open>\<^verbatim>\<open>update local_recovery_case set state='resolved'\<close> under the guard trigger: only an open case
  that has a resolution.\<close>

definition resolve_case :: "string \<Rightarrow> int \<Rightarrow> store \<Rightarrow> store res" where
  "resolve_case i moment s =
     (if list_ex (\<lambda>c. ca_id c = i \<and> (\<not> ca_open c \<or> i \<notin> rv_case ` set (st_resolutions s))) (st_cases s)
      then Inl (IntegrityError ''local_recovery_case immutable evidence/state transition'')
      else Inr (s\<lparr>st_cases := update_where (\<lambda>c. ca_id c = i)
        (\<lambda>c. c\<lparr>ca_open := False, ca_resolved_at := Some moment\<rparr>) (st_cases s)\<rparr>))"

definition insert_slot :: "slot_row \<Rightarrow> store \<Rightarrow> store res" where
  "insert_slot r s =
     (if sl_key r \<in> sl_key ` set (st_slots s) then unique_violation ''local_scheduler_slot.slot_key''
      else if sl_job r \<in> sl_job ` set (st_slots s) then unique_violation ''local_scheduler_slot.job_id''
      else if sl_job r \<notin> jr_id ` set (st_jobs s) then foreign_key_violation
      else Inr (s\<lparr>st_slots := st_slots s @ [r]\<rparr>))"

end
