(* ===== verification/RecoveryTx.thy ===== *)
theory RecoveryTx
  imports LocalStore
begin

text \<open>
  The transaction helpers of recovery (\<^verbatim>\<open>infrastructure/sqlite/local_runtime_recovery_tx.py\<close>):
  capacity of the outbox, insertion of an effect recovery case, the transition of a running job
  to recovery, the resolution of a case and the reconciliation of a job. Each re-derives from
  the tables what its caller expects and refuses on any difference.
\<close>

section \<open>Evidence\<close>

definition iso_text :: "int \<Rightarrow> string" where
  "iso_text t = iso_utc t @ ''+00:00''"

definition unknown_case_evidence :: "string \<Rightarrow> string \<Rightarrow> string res" where
  "unknown_case_evidence claim receipt_evidence = digest (PDict
     [(PStr ''case_kind'', PStr ''effect-unknown''), (PStr ''claim_id'', PStr claim),
      (PStr ''receipt_evidence'', PStr receipt_evidence)])"

definition finish_case_evidence :: "string \<Rightarrow> string \<Rightarrow> string res" where
  "finish_case_evidence claim effect = digest (PDict
     [(PStr ''case_kind'', PStr ''effect-unknown''), (PStr ''claim_id'', PStr claim),
      (PStr ''effect_digest'', PStr effect)])"

definition sweep_case_evidence :: "string \<Rightarrow> string \<Rightarrow> int \<Rightarrow> string res" where
  "sweep_case_evidence claim effect fence = digest (PDict
     [(PStr ''case_kind'', PStr ''effect-unknown''), (PStr ''claim_id'', PStr claim),
      (PStr ''effect_digest'', PStr effect), (PStr ''recovered_fence'', PInt fence)])"

definition digest_list :: "string list \<Rightarrow> string res" where
  "digest_list ds = digest (PList (map PStr ds))"

definition bounded_int :: "int \<Rightarrow> string \<Rightarrow> int \<Rightarrow> int \<Rightarrow> int res" where
  "bounded_int value name minimum maximum =
     (if \<not> (minimum \<le> value \<and> value \<le> maximum)
      then Inl (ValidationFailed (name @ '' '' @ int_str minimum @ ''..'' @ int_str maximum @ '' olmali''))
      else Inr value)"

section \<open>Outbox capacity\<close>

definition require_outbox_capacity :: "int \<Rightarrow> store \<Rightarrow> unit res" where
  "require_outbox_capacity maximum s =
     rbind (bounded_int maximum ''Max pending outbox'' 1 100000) (\<lambda>_.
       if st_max_pending s \<noteq> maximum
       then Inl (PolicyViolation ''Persisted max pending outbox config drift'')
       else if int (pending_count s) \<ge> maximum
       then Inl (PolicyViolation ''Local outbox backpressure limit dolu'')
       else Inr ())"

section \<open>Recovery cases\<close>

text \<open>The route of a case specification with the fields the route carries.\<close>

datatype case_route =
    UnknownReceipt string
  | FinishReceiptless string
  | SweepReceiptless string int

definition case_evidence :: "store \<Rightarrow> case_route \<Rightarrow> claim_row \<Rightarrow> int \<Rightarrow> string res" where
  "case_evidence s route claim created_at =
     (case route of
        UnknownReceipt receipt_evidence \<Rightarrow>
          rbind (parse_digest receipt_evidence) (\<lambda>_.
          rbind (unknown_case_evidence (cl_id claim) receipt_evidence) (\<lambda>evidence.
            if map (\<lambda>r. (re_status r, re_evidence r, re_created_at r))
                 (filter (\<lambda>r. re_claim r = cl_id claim) (st_receipts s))
               \<noteq> [(E_UNKNOWN, receipt_evidence, created_at)]
            then Inl (ValidationFailed ''Unknown receipt case spec drift'')
            else Inr evidence))
      | FinishReceiptless effect \<Rightarrow>
          if receipt_of s (cl_id claim) \<noteq> None
          then Inl (ConcurrencyConflict ''Receiptless recovery found receipt'')
          else rbind (parse_digest effect) (\<lambda>_.
            if effect \<noteq> cl_effect claim then Inl (PolicyViolation ''Recovery effect digest drift'')
            else finish_case_evidence (cl_id claim) effect)
      | SweepReceiptless effect fence \<Rightarrow>
          if receipt_of s (cl_id claim) \<noteq> None
          then Inl (ConcurrencyConflict ''Receiptless recovery found receipt'')
          else rbind (parse_digest effect) (\<lambda>_.
            if effect \<noteq> cl_effect claim then Inl (PolicyViolation ''Recovery effect digest drift'')
            else rbind (bounded_int fence ''Recovered fence'' 1 2147483647) (\<lambda>_.
              if fence \<noteq> cl_fencing claim then Inl (PolicyViolation ''Recovery claim fence drift'')
              else sweep_case_evidence (cl_id claim) effect fence)))"

definition insert_effect_recovery_case ::
  "case_route \<Rightarrow> string \<Rightarrow> string \<Rightarrow> string \<Rightarrow> string \<Rightarrow> int \<Rightarrow> store \<Rightarrow> store res" where
  "insert_effect_recovery_case route case_id jid cid expected_evidence created_at s =
     rbind (canonical_uuid case_id ''Recovery case'') (\<lambda>_.
     rbind (canonical_uuid jid ''Recovery job'') (\<lambda>_.
     rbind (canonical_uuid cid ''Recovery claim'') (\<lambda>_.
     rbind (parse_digest expected_evidence) (\<lambda>_.
     case find (\<lambda>c. cl_id c = cid \<and> cl_job c = jid) (st_claims s) of
       None \<Rightarrow> Inl (ConcurrencyConflict ''Effect recovery claim scope drift'')
     | Some claim \<Rightarrow>
       rbind (case_evidence s route claim created_at) (\<lambda>evidence.
         if evidence \<noteq> expected_evidence then Inl (PolicyViolation ''Recovery case evidence drift'')
         else let
           existing = filter (\<lambda>c. ca_id c = case_id \<or> ca_claim c = Some cid) (st_cases s);
           expected = \<lparr>ca_id = case_id, ca_job = jid, ca_claim = Some cid, ca_outbox = None,
             ca_kind = EFFECT_UNKNOWN, ca_evidence = evidence, ca_open = True,
             ca_created_at = created_at, ca_resolved_at = None\<rparr>
         in if existing \<noteq> []
            then (if existing \<noteq> [expected]
                  then Inl (ConcurrencyConflict ''Effect recovery case collision'') else Inr s)
            else insert_case expected s)))))"

section \<open>The recovery event\<close>

definition recovery_outbox_row ::
  "env \<Rightarrow> string \<Rightarrow> string \<Rightarrow> string \<Rightarrow> string \<Rightarrow> pyval \<Rightarrow> int \<Rightarrow> outbox_row res" where
  "recovery_outbox_row env outbox_id jid key kind payload created_at =
     rbind (canonical_uuid outbox_id ''Recovery outbox'') (\<lambda>_.
     rbind (canonical_uuid jid ''Recovery outbox job'') (\<lambda>_.
     rbind (canonical_key env key ''Recovery outbox key'') (\<lambda>_.
     rbind (canonical_key env kind ''Recovery outbox event'') (\<lambda>_.
     rbind (canonicalize payload) (\<lambda>j.
       if utf8_len (dumps j) > 32768
       then Inl (ValidationFailed ''Recovery outbox payload outside bound'')
       else Inr \<lparr>ob_id = outbox_id, ob_job = jid, ob_key = key, ob_kind = kind, ob_payload = j,
         ob_digest = digest_json j, ob_created_at = created_at\<rparr>)))))"

definition require_fresh_outbox :: "outbox_row \<Rightarrow> store \<Rightarrow> unit res" where
  "require_fresh_outbox r s =
     (if list_ex (\<lambda>b. ob_id b = ob_id r \<or> ob_key b = ob_key r) (st_outbox s)
      then Inl (ConcurrencyConflict ''Recovery outbox identity/key collision'') else Inr ())"

section \<open>Running to recovery\<close>

datatype transition_route = FinishRecovery | SweepRecovery

definition check_lock_rows :: "env \<Rightarrow> string \<Rightarrow> string \<Rightarrow> int \<Rightarrow> lock_row list \<Rightarrow> unit res" where
  "check_lock_rows env jid lid fence locks =
     (if length locks > 64 then Inl (ValidationFailed ''Recovery exact bounded lock tuple required'')
      else rbind (rmap (\<lambda>k.
          rbind (canonical_key env (lk_resource k) ''Recovery lock resource'') (\<lambda>_.
          rbind (canonical_uuid (lk_job k) ''Recovery lock job'') (\<lambda>_.
          rbind (canonical_uuid (lk_lease k) ''Recovery lock lease'') (\<lambda>_.
          rbind (bounded_int (lk_fencing k) ''Recovery lock fence'' 1 2147483647) (\<lambda>_.
            if lk_job k \<noteq> jid \<or> lk_lease k \<noteq> lid \<or> lk_fencing k \<noteq> fence
            then Inl (ValidationFailed ''Recovery lock scope drift'') else Inr ()))))) locks)
        (\<lambda>_. let resources = map lk_resource locks in
          if resources \<noteq> sort resources \<or> \<not> distinct resources
          then Inl (ValidationFailed ''Recovery lock tuple noncanonical'') else Inr ()))"

text \<open>The open effect cases of a job with their claims, in the order of the route, each with the
  evidence the route expects.\<close>

definition open_effect_cases :: "transition_route \<Rightarrow> string \<Rightarrow> store \<Rightarrow> (case_row \<times> claim_row) list" where
  "open_effect_cases route jid s =
     sort_key (\<lambda>(rc, c). if route = SweepRecovery then cl_id c else ca_id rc)
       (concat (map (\<lambda>rc. map (Pair rc) (filter (\<lambda>c. Some (cl_id c) = ca_claim rc) (st_claims s)))
         (filter (\<lambda>rc. ca_job rc = jid \<and> ca_open rc) (st_cases s))))"

definition actual_case_evidence ::
  "transition_route \<Rightarrow> int \<Rightarrow> store \<Rightarrow> case_row \<times> claim_row \<Rightarrow> string res" where
  "actual_case_evidence route fence s = (\<lambda>(rc, c).
     case receipt_of s (cl_id c) of
       None \<Rightarrow> Inr (ca_evidence rc)
     | Some r \<Rightarrow>
       if re_status r = E_UNKNOWN
       then rbind (unknown_case_evidence (cl_id c) (re_evidence r)) (\<lambda>stored.
         if ca_evidence rc \<noteq> stored \<or> re_created_at r \<noteq> ca_created_at rc
         then Inl (ConcurrencyConflict ''Unknown receipt recovery case drift'')
         else if route = SweepRecovery then sweep_case_evidence (cl_id c) (cl_effect c) fence
         else Inr (ca_evidence rc))
       else Inl (ConcurrencyConflict ''Recovery case receipt state drift''))"

text \<open>The delete of the lease names the row just read, so it removes one row, and the locks of the
  lease that its own delete would leave go with it (\<^verbatim>\<open>on delete cascade\<close>).\<close>

definition transition_running_job_to_recovery ::
  "env \<Rightarrow> transition_route \<Rightarrow> string \<Rightarrow> string \<Rightarrow> int \<Rightarrow> lock_row list \<Rightarrow> string list \<Rightarrow> string
   \<Rightarrow> int \<Rightarrow> string \<Rightarrow> int \<Rightarrow> store \<Rightarrow> store res" where
  "transition_running_job_to_recovery env route jid lid fence expected_locks case_digests
       terminal_evidence updated_at outbox_id maximum s =
     rbind (bounded_int fence ''Recovery fencing token'' 1 2147483647) (\<lambda>_.
     rbind (canonical_uuid jid ''Recovery job'') (\<lambda>_.
     rbind (canonical_uuid lid ''Recovery lease'') (\<lambda>_.
     rbind (canonical_uuid outbox_id ''Recovery outbox'') (\<lambda>_.
     rbind (check_lock_rows env jid lid fence expected_locks) (\<lambda>_.
     rbind (rmap parse_digest case_digests) (\<lambda>_.
     rbind (digest_list case_digests) (\<lambda>terminal.
     rbind (parse_digest terminal_evidence) (\<lambda>_.
     if terminal \<noteq> terminal_evidence then Inl (PolicyViolation ''Recovery terminal evidence drift'')
     else let
       payload = PDict ([(PStr ''job_id'', PStr jid), (PStr ''state'', PStr ''recovery-required'')]
         @ (if route = SweepRecovery then [(PStr ''fencing_token'', PInt fence)] else []));
       key = (if route = FinishRecovery then ''job:'' @ jid @ '':terminal''
         else ''job:'' @ jid @ '':recovery:'' @ int_str fence @ '':recovery-required'')
     in
     rbind (recovery_outbox_row env outbox_id jid key ''job.recovery-required'' payload updated_at) (\<lambda>outbox.
     rbind (rmap (actual_case_evidence route fence s) (open_effect_cases route jid s)) (\<lambda>actual.
     if actual \<noteq> case_digests then Inl (ConcurrencyConflict ''Recovery case evidence tuple drift'')
     else
     rbind (require_outbox_capacity maximum s) (\<lambda>_.
     if sort_key lk_resource (filter (\<lambda>k. lk_job k = jid) (st_locks s)) \<noteq> expected_locks
     then Inl (ConcurrencyConflict ''Recovery resource lock tuple drift'')
     else case (find_lease s lid, find_job s jid) of
       (Some lease, Some job) \<Rightarrow>
         if jr_state job \<noteq> L_RUNNING \<or> ls_job lease \<noteq> jid \<or> ls_fencing lease \<noteq> fence
            \<or> jr_fencing job \<noteq> fence
         then Inl (ConcurrencyConflict ''Recovery running job/lease fence drift'')
         else
         rbind (require_fresh_outbox outbox s) (\<lambda>_.
         if length (filter (\<lambda>k. lk_lease k = lid \<and> lk_job k = jid) (st_locks s)) \<noteq> length expected_locks
         then Inl (ConcurrencyConflict ''Recovery resource lock delete drift'')
         else
         rbind (update_job jid (\<lambda>r. jr_state r = L_RUNNING \<and> jr_fencing r = fence)
             (\<lambda>r. r\<lparr>jr_state := L_RECOVERY_REQUIRED, jr_evidence := Some terminal, jr_updated_at := updated_at\<rparr>)
             (delete_lease lid (delete_locks lid s))) (\<lambda>(n, s').
         if n \<noteq> 1 then Inl (ConcurrencyConflict ''Recovery running job transition drift'')
         else insert_outbox outbox s'))
     | _ \<Rightarrow> Inl (ConcurrencyConflict ''Recovery running job/lease fence drift''))))))))))))"

section \<open>Resolutions\<close>

definition insert_effect_recovery_resolution ::
  "string \<Rightarrow> string \<Rightarrow> resolution_outcome \<Rightarrow> string \<Rightarrow> int \<Rightarrow> store \<Rightarrow> store res" where
  "insert_effect_recovery_resolution resolution_id case_id outcome evidence created_at s =
     (if outcome = O_DELIVERED then Inl (ValidationFailed ''Recovery resolution outcome invalid'')
      else
      rbind (canonical_uuid resolution_id ''Recovery resolution'') (\<lambda>_.
      rbind (canonical_uuid case_id ''Recovery case'') (\<lambda>_.
      rbind (parse_digest evidence) (\<lambda>_.
      if \<not> (case find_case s case_id of None \<Rightarrow> False | Some c \<Rightarrow> ca_kind c = EFFECT_UNKNOWN \<and> ca_open c)
      then Inl (ConcurrencyConflict ''Recovery resolution exact open effect case required'')
      else if list_ex (\<lambda>r. rv_id r = resolution_id \<or> rv_case r = case_id) (st_resolutions s)
      then Inl (ConcurrencyConflict ''Recovery resolution collision'')
      else rbind (insert_resolution \<lparr>rv_id = resolution_id, rv_case = case_id, rv_outcome = outcome,
            rv_evidence = evidence, rv_created_at = created_at\<rparr> s) (\<lambda>s'.
          resolve_case case_id created_at s')))))"

section \<open>Reconciliation\<close>

text \<open>The chain of a claim: its receipt, its case and the resolution of the case.\<close>

definition claim_resolution :: "store \<Rightarrow> claim_row \<Rightarrow> resolution_row option" where
  "claim_resolution s c =
     (case case_of_claim s (cl_id c) of None \<Rightarrow> None | Some rc \<Rightarrow> resolution_of s (ca_id rc))"

definition reconcile_entry :: "store \<Rightarrow> claim_row \<Rightarrow> pyval" where
  "reconcile_entry s c = PList
     [opt_text (map_option (\<lambda>r. effect_status_value (re_status r)) (receipt_of s (cl_id c))),
      opt_text (map_option re_evidence (receipt_of s (cl_id c))),
      opt_text (map_option (\<lambda>r. resolution_outcome_value (rv_outcome r)) (claim_resolution s c)),
      opt_text (map_option rv_evidence (claim_resolution s c))]"

definition reconcile_evidence :: "store \<Rightarrow> string \<Rightarrow> string res" where
  "reconcile_evidence s jid =
     digest (PList (map (reconcile_entry s) (sort_key cl_id (claims_of s jid))))"

definition reconcile_effect_recovery_job ::
  "env \<Rightarrow> string \<Rightarrow> string list \<Rightarrow> local_state \<Rightarrow> string \<Rightarrow> int \<Rightarrow> string \<Rightarrow> int \<Rightarrow> store \<Rightarrow> store res" where
  "reconcile_effect_recovery_job env jid case_ids terminal_state terminal_evidence updated_at
       outbox_id maximum s =
     (if terminal_state \<notin> {L_COMPLETED, L_FAILED}
      then Inl (ValidationFailed ''Recovery reconcile terminal state invalid'')
      else if case_ids = [] then Inl (ValidationFailed ''Recovery reconcile exact case tuple required'')
      else
      rbind (canonical_uuid jid ''Recovery reconcile job'') (\<lambda>_.
      rbind (canonical_uuid outbox_id ''Recovery reconcile outbox'') (\<lambda>_.
      rbind (rmap (\<lambda>i. canonical_uuid i ''Recovery reconcile case'') case_ids) (\<lambda>_.
      if case_ids \<noteq> sort (remdups case_ids)
      then Inl (ValidationFailed ''Recovery reconcile case tuple noncanonical'')
      else
      rbind (parse_digest terminal_evidence) (\<lambda>_.
      rbind (recovery_outbox_row env outbox_id jid (''job:'' @ jid @ '':reconciled'')
          (''job.'' @ local_state_value terminal_state)
          (PDict [(PStr ''job_id'', PStr jid), (PStr ''state'', PStr (local_state_value terminal_state)),
            (PStr ''reconciled'', PBool True)]) updated_at) (\<lambda>outbox.
      rbind (require_outbox_capacity maximum s) (\<lambda>_.
      if map ca_id (sort_key ca_id (filter (\<lambda>c. ca_job c = jid \<and> \<not> ca_open c
           \<and> resolution_of s (ca_id c) \<noteq> None) (st_cases s))) \<noteq> case_ids
      then Inl (ConcurrencyConflict ''Recovery reconcile case tuple drift'')
      else
      rbind (reconcile_evidence s jid) (\<lambda>computed.
      if computed \<noteq> terminal_evidence
      then Inl (PolicyViolation ''Recovery reconcile terminal evidence drift'')
      else if \<not> (case find_job s jid of None \<Rightarrow> False | Some j \<Rightarrow> jr_state j = L_RECOVERY_REQUIRED)
      then Inl (ConcurrencyConflict ''Recovery reconcile job state drift'')
      else
      rbind (require_fresh_outbox outbox s) (\<lambda>_.
      rbind (update_job jid (\<lambda>r. jr_state r = L_RECOVERY_REQUIRED)
          (\<lambda>r. r\<lparr>jr_state := terminal_state, jr_evidence := Some terminal_evidence,
            jr_updated_at := updated_at\<rparr>) s) (\<lambda>(n, s').
        if n \<noteq> 1 then Inl (ConcurrencyConflict ''Recovery reconcile job transition drift'')
        else insert_outbox outbox s'))))))))))"

end
