(* ===== verification/LocalQueue.thy ===== *)
theory LocalQueue
  imports RecoveryTx
begin

text \<open>
  The job side of \<^verbatim>\<open>SQLiteLocalRuntimeStore\<close> (\<^verbatim>\<open>infrastructure/sqlite/local_runtime.py\<close>): enqueueing,
  scheduling, claiming with a lease and a fencing token, heartbeats, effect claims and receipts,
  finishing, quarantine, the recovery sweep, resolution and reconciliation. An operation takes
  the instants it reads from the clock as arguments.

  The schema is one of the versions without work bindings (3, 5 and 6), so a job that carries a
  binding marker is refused by \<open>require_binding_schema\<close>. Checks of the dynamic type of an argument
  have no counterpart: the argument has that type.
\<close>

section \<open>Argument checks\<close>

definition required :: "string \<Rightarrow> string \<Rightarrow> string res" where
  "required value name =
     (if blank value \<or> length value > 512 then Inl (ValidationFailed (name @ '' bos/gecersiz''))
      else Inr (strip value))"

text \<open>\<^verbatim>\<open>re.search(r"(?:^|:)(?:[/]|[A-Za-z]:[/])", resource)\<close>.\<close>

definition absolute_at :: "string \<Rightarrow> bool" where
  "absolute_at s = (starts_with s ''/'' \<or> drive_prefix s)"

fun absolute_after_colon :: "string \<Rightarrow> bool" where
  "absolute_after_colon [] = False"
| "absolute_after_colon (c # cs) = ((c = CHR '':'' \<and> absolute_at cs) \<or> absolute_after_colon cs)"

definition portable_resource :: "env \<Rightarrow> string \<Rightarrow> string res" where
  "portable_resource env value = rbind (required value ''Resource'') (\<lambda>resource.
     if CHR 0x5C \<in> set resource then Inl (ValidationFailed ''Resource ters bolu iceremez'')
     else if absolute_at resource \<or> absolute_after_colon resource
     then Inl (ValidationFailed ''Resource mutlak yol olamaz'')
     else if ''..'' \<in> set (split_on (CHR ''/'') (map (\<lambda>c. if c = CHR '':'' then CHR ''/'' else c) resource))
     then Inl (ValidationFailed ''Resource `..` iceremez'')
     else if en_scan env ''runtime/resource'' (''resource='' @ resource)
     then Inl (PolicyViolation ''Resource secret benzeri deger tasiyamaz'')
     else Inr resource)"

definition dict_get :: "(pyval \<times> pyval) list \<Rightarrow> string \<Rightarrow> pyval option" where
  "dict_get kvs k = map_of kvs (PStr k)"

definition skill_line :: "(pyval \<times> pyval) list \<Rightarrow> string option" where
  "skill_line kvs =
     (case dict_get kvs ''effect'' of
        Some (PDict e) \<Rightarrow> (case dict_get e ''line'' of Some (PStr l) \<Rightarrow> Some l | _ \<Rightarrow> None)
      | _ \<Rightarrow> None)"

definition payload_json :: "env \<Rightarrow> pyval \<Rightarrow> json res" where
  "payload_json env payload =
     (case payload of
        PDict kvs \<Rightarrow>
          if dict_get kvs ''operation'' = Some (PStr ''skill.execute.local-journal/v1'')
             \<and> (case skill_line kvs of None \<Rightarrow> False
                 | Some l \<Rightarrow> en_scan env ''runtime/skill-execution-input'' l)
          then Inl (PolicyViolation ''Skill execution secret durable queue'ya yazilamaz'')
          else rbind (canonicalize payload) (\<lambda>j.
            if utf8_len (dumps j) > 1048576
            then Inl (ValidationFailed ''Local payload 1 MiB sinirini asiyor'') else Inr j)
      | _ \<Rightarrow> Inl (ValidationFailed ''Local payload object olmali''))"

section \<open>The outbox\<close>

definition emit_outbox :: "env \<Rightarrow> string \<Rightarrow> string \<Rightarrow> pyval \<Rightarrow> string \<Rightarrow> int \<Rightarrow> store \<Rightarrow> store res" where
  "emit_outbox env jid event_kind payload key created_at s =
     rbind (payload_json env payload) (\<lambda>j.
       if int (pending_count s) \<ge> st_max_pending s
       then Inl (PolicyViolation ''Local outbox backpressure limit dolu'')
       else rbind (new_uuid s) (\<lambda>(outbox_id, s1).
         rbind (required key ''Outbox idempotency key'') (\<lambda>k.
         rbind (required event_kind ''Outbox event kind'') (\<lambda>kind.
           insert_outbox \<lparr>ob_id = outbox_id, ob_job = jid, ob_key = k, ob_kind = kind, ob_payload = j,
             ob_digest = digest_json j, ob_created_at = created_at\<rparr> s1))))"

section \<open>Views\<close>

definition job_view :: "job_row \<Rightarrow> local_job" where
  "job_view r = \<lparr>lj_id = jr_id r, lj_state = jr_state r, lj_key = jr_key r,
     lj_attempt_count = jr_attempts r, lj_max_attempts = jr_max_attempts r, lj_payload = jr_payload r\<rparr>"

definition lease_view :: "lease_row \<Rightarrow> local_lease" where
  "lease_view r = \<lparr>ll_id = ls_id r, ll_job_id = ls_job r, ll_owner_id = ls_owner r,
     ll_owner_pid = ls_pid r, ll_owner_token = ls_token r, ll_fencing_token = ls_fencing r,
     ll_expires_at = ls_expires_at r\<rparr>"

definition claim_view :: "claim_row \<Rightarrow> local_claim" where
  "claim_view r = \<lparr>lc_id = cl_id r, lc_job_id = cl_job r, lc_lease_id = cl_lease r,
     lc_fencing_token = cl_fencing r, lc_operation = cl_operation r, lc_effect_digest = cl_effect r\<rparr>"

text \<open>Reading back a row just written; \<open>None\<close> stands for subscripting a missing row.\<close>

definition read_job :: "store \<Rightarrow> string \<Rightarrow> local_job res" where
  "read_job s i = (case find_job s i of None \<Rightarrow> Inl (PyError ''TypeError'') | Some r \<Rightarrow> Inr (job_view r))"

definition runtime_status :: "store \<Rightarrow> local_runtime_status" where
  "runtime_status s =
     (let jobs = (\<lambda>st. length (filter (\<lambda>r. jr_state r = st) (st_jobs s)));
          out = (\<lambda>st. length (filter (\<lambda>d. dv_state d = st) (st_deliveries s)))
      in \<lparr>rs_ready_jobs = jobs L_READY, rs_running_jobs = jobs L_RUNNING,
          rs_recovery_jobs = jobs L_RECOVERY_REQUIRED, rs_quarantined_jobs = jobs L_QUARANTINED,
          rs_pending_outbox = out D_PENDING, rs_claimed_outbox = out D_CLAIMED,
          rs_recovery_outbox = out D_RECOVERY_REQUIRED,
          rs_open_recovery_cases = length (filter ca_open (st_cases s))\<rparr>)"

definition recovery_cases :: "store \<Rightarrow> bool \<Rightarrow> case_row list" where
  "recovery_cases s open_only =
     sort_key (\<lambda>c. (ca_created_at c, ca_id c)) (filter (\<lambda>c. open_only \<longrightarrow> ca_open c) (st_cases s))"

section \<open>Configuration\<close>

text \<open>The part of \<^verbatim>\<open>__init__\<close> that fixes the outbox bound: the stored value, if any, is immutable.\<close>

definition configure :: "bool \<Rightarrow> int option \<Rightarrow> int option \<Rightarrow> int res" where
  "configure existing_only stored max_pending_outbox =
     rbind (case max_pending_outbox of None \<Rightarrow> Inr 0
       | Some m \<Rightarrow> bounded_int m ''Max pending outbox'' 1 100000) (\<lambda>_.
     case stored of
       None \<Rightarrow>
         if existing_only then Inl (PolicyViolation ''Local runtime requires existing admitted config'')
         else Inr (case max_pending_outbox of None \<Rightarrow> 1000 | Some m \<Rightarrow> m)
     | Some c \<Rightarrow>
         rbind (if existing_only then bounded_int c ''Persisted max pending outbox'' 1 100000 else Inr c) (\<lambda>_.
         if max_pending_outbox \<noteq> None \<and> max_pending_outbox \<noteq> Some c
         then Inl (PolicyViolation ''Persisted max pending outbox config drift'') else Inr c))"

section \<open>Enqueueing\<close>

definition insert_job ::
  "env \<Rightarrow> string \<Rightarrow> string \<Rightarrow> json \<Rightarrow> int \<Rightarrow> int \<Rightarrow> int option \<Rightarrow> int \<Rightarrow> store \<Rightarrow> store res" where
  "insert_job env jid key payload max_attempts available_at timeout_at created_at s =
     rbind (insert_job_row \<lparr>jr_id = jid, jr_key = key, jr_payload = payload, jr_state = L_READY,
         jr_attempts = 0, jr_max_attempts = max_attempts, jr_available_at = available_at,
         jr_timeout_at = timeout_at, jr_fencing = 0, jr_evidence = None,
         jr_created_at = created_at, jr_updated_at = created_at\<rparr> s) (\<lambda>s1.
     emit_outbox env jid ''job.enqueued''
       (PDict [(PStr ''job_id'', PStr jid), (PStr ''idempotency_key'', PStr key)])
       (''job:'' @ jid @ '':enqueued'') created_at s1)"

definition require_binding_schema :: "'a res" where
  "require_binding_schema =
     Inl (ConfigurationError ''Bound local job requires admitted operational schema v7'')"

text \<open>\<open>clock\<close> is the reading of the clock used for a missing \<open>available_at\<close>, \<open>now\<close> the later one
  stored as creation time.\<close>

definition enqueue ::
  "env \<Rightarrow> int \<Rightarrow> int \<Rightarrow> string \<Rightarrow> pyval \<Rightarrow> int \<Rightarrow> int option \<Rightarrow> int option \<Rightarrow> local_job_binding option
   \<Rightarrow> store \<Rightarrow> (store \<times> local_job \<times> bool) res" where
  "enqueue env clock now idempotency_key payload max_attempts available_at timeout_at binding s =
     rbind (required idempotency_key ''Idempotency key'') (\<lambda>key.
     rbind (bounded_int max_attempts ''Local job max_attempts'' 1 100) (\<lambda>_.
     let available = (case available_at of None \<Rightarrow> clock | Some t \<Rightarrow> t) in
     if (case timeout_at of None \<Rightarrow> False | Some t \<Rightarrow> t \<le> available)
     then Inl (ValidationFailed ''Local job timeout available_at sonrasinda olmali'')
     else
     rbind (payload_json env payload) (\<lambda>j.
     if json_field j ''work_binding_digest'' \<noteq> None
     then Inl (ValidationFailed ''Local job binding marker is runtime-owned'')
     else case binding of
       Some b \<Rightarrow> rbind (check_binding b) (\<lambda>_. rbind (binding_digest b) (\<lambda>d.
         rbind (payload_json env (case payload of PDict kvs \<Rightarrow> PDict (kvs @ [(PStr ''work_binding_digest'', PStr d)])
           | v \<Rightarrow> v)) (\<lambda>_. require_binding_schema)))
     | None \<Rightarrow>
       (case find_job_key s key of
          Some existing \<Rightarrow>
            if dumps (jr_payload existing) \<noteq> dumps j \<or> jr_max_attempts existing \<noteq> max_attempts
               \<or> (available_at \<noteq> None \<and> jr_available_at existing \<noteq> available)
               \<or> (timeout_at \<noteq> None \<and> jr_timeout_at existing \<noteq> timeout_at)
            then Inl (ConcurrencyConflict ''Local job idempotency replay payload drift'')
            else Inr (s, job_view existing, False)
        | None \<Rightarrow>
            rbind (new_uuid s) (\<lambda>(jid, s1).
            rbind (insert_job env jid key j max_attempts available timeout_at now s1) (\<lambda>s2.
            rbind (read_job s2 jid) (\<lambda>job. Inr (s2, job, True))))))))"

definition schedule_once ::
  "env \<Rightarrow> string \<Rightarrow> string \<Rightarrow> string \<Rightarrow> pyval \<Rightarrow> int \<Rightarrow> store \<Rightarrow> (store \<times> local_job \<times> bool) res" where
  "schedule_once env slot_key schedule_digest idempotency_key payload moment s =
     rbind (parse_digest schedule_digest) (\<lambda>_.
     rbind (required slot_key ''Scheduler slot'') (\<lambda>slot.
     rbind (required idempotency_key ''Idempotency key'') (\<lambda>key.
     rbind (payload_json env payload) (\<lambda>j.
     case find (\<lambda>r. sl_key r = slot) (st_slots s) of
       Some row \<Rightarrow>
         if sl_digest row \<noteq> schedule_digest then Inl (ConcurrencyConflict ''Scheduler slot digest drift'')
         else (case find_job s (sl_job row) of
           None \<Rightarrow> Inl (ConcurrencyConflict ''Scheduler slot orphan job'')
         | Some job \<Rightarrow>
           if jr_key job \<noteq> key \<or> dumps (jr_payload job) \<noteq> dumps j
           then Inl (ConcurrencyConflict ''Scheduler slot replay payload drift'')
           else Inr (s, job_view job, False))
     | None \<Rightarrow>
         if find_job_key s key \<noteq> None
         then Inl (ConcurrencyConflict ''Scheduler job idempotency key zaten kullanilmis'')
         else
         rbind (new_uuid s) (\<lambda>(jid, s1).
         rbind (insert_job env jid key j 1 moment None moment s1) (\<lambda>s2.
         rbind (insert_slot \<lparr>sl_key = slot, sl_digest = schedule_digest, sl_job = jid,
             sl_created_at = moment\<rparr> s2) (\<lambda>s3.
         rbind (read_job s3 jid) (\<lambda>job. Inr (s3, job, True)))))))))"

section \<open>The recovery sweep\<close>

definition sorted_unresolved :: "store \<Rightarrow> string \<Rightarrow> claim_row list" where
  "sorted_unresolved s jid = sort_key cl_id (filter (unresolved s) (claims_of s jid))"

text \<open>One unresolved claim of a swept job. \<open>s0\<close> is the state the rows were read from; the result
  adds the evidence of the claim's case.\<close>

definition sweep_claim ::
  "lease_row \<Rightarrow> int \<Rightarrow> store \<Rightarrow> store \<times> string list \<Rightarrow> claim_row \<Rightarrow> (store \<times> string list) res" where
  "sweep_claim lease moment s0 = (\<lambda>(s, digests) c.
     case receipt_of s0 (cl_id c) of
       Some r \<Rightarrow>
         rbind (new_uuid s) (\<lambda>(_, s1).
         rbind (unknown_case_evidence (cl_id c) (re_evidence r)) (\<lambda>stored.
         case case_of_claim s0 (cl_id c) of
           None \<Rightarrow> Inl (ConcurrencyConflict ''Unknown receipt recovery case drift'')
         | Some rc \<Rightarrow>
           if ca_evidence rc \<noteq> stored \<or> ca_created_at rc \<noteq> re_created_at r
           then Inl (ConcurrencyConflict ''Unknown receipt recovery case drift'')
           else
           rbind (insert_effect_recovery_case (UnknownReceipt (re_evidence r)) (ca_id rc) (ls_job lease)
               (cl_id c) stored (ca_created_at rc) s1) (\<lambda>s2.
           rbind (sweep_case_evidence (cl_id c) (cl_effect c) (ls_fencing lease)) (\<lambda>evidence.
             Inr (s2, digests @ [evidence])))))
     | None \<Rightarrow>
         rbind (sweep_case_evidence (cl_id c) (cl_effect c) (ls_fencing lease)) (\<lambda>evidence.
         rbind (new_uuid s) (\<lambda>(cid, s1).
         rbind (insert_effect_recovery_case (SweepReceiptless (cl_effect c) (ls_fencing lease)) cid
             (ls_job lease) (cl_id c) evidence moment s1) (\<lambda>s2.
           Inr (s2, digests @ [evidence])))))"

text \<open>The end of a lease that does not need recovery: the job gets its new state and evidence, the
  locks and the lease go, and the event is published.\<close>

definition release_lease ::
  "env \<Rightarrow> lease_row \<Rightarrow> int \<Rightarrow> local_state \<Rightarrow> string option \<Rightarrow> store \<Rightarrow> store res" where
  "release_lease env lease moment state evidence s =
     rbind (update_job (ls_job lease) (\<lambda>_. True)
         (\<lambda>r. r\<lparr>jr_state := state, jr_evidence := evidence, jr_updated_at := moment\<rparr>) s) (\<lambda>(_, s1).
     emit_outbox env (ls_job lease) (''job.'' @ local_state_value state)
       (PDict [(PStr ''job_id'', PStr (ls_job lease)), (PStr ''state'', PStr (local_state_value state)),
         (PStr ''fencing_token'', PInt (ls_fencing lease))])
       (''job:'' @ ls_job lease @ '':recovery:'' @ int_str (ls_fencing lease) @ '':'' @ local_state_value state)
       moment (delete_lease (ls_id lease) (delete_locks (ls_id lease) s1)))"

definition receipts_evidence :: "store \<Rightarrow> string \<Rightarrow> string res" where
  "receipts_evidence s jid = digest (PList (map
     (\<lambda>r. PList [PStr (effect_status_value (re_status r)), PStr (re_evidence r)])
     (sort_key re_id (filter (\<lambda>r. list_ex (\<lambda>c. cl_id c = re_claim r) (claims_of s jid)) (st_receipts s)))))"

definition has_failed_receipt :: "store \<Rightarrow> string \<Rightarrow> bool" where
  "has_failed_receipt s jid =
     list_ex (\<lambda>r. re_status r = E_FAILED \<and> list_ex (\<lambda>c. cl_id c = re_claim r) (claims_of s jid)) (st_receipts s)"

definition sweep_lease :: "env \<Rightarrow> int \<Rightarrow> store \<times> recovery_sweep \<Rightarrow> lease_row \<Rightarrow> (store \<times> recovery_sweep) res" where
  "sweep_lease env moment = (\<lambda>(s, sweep) lease.
     let jid = ls_job lease;
         locks = sort_key lk_resource (filter (\<lambda>k. lk_lease k = ls_id lease) (st_locks s));
         sweep1 = sweep\<lparr>sw_released_locks := sw_released_locks sweep + int (length locks)\<rparr>;
         open_claims = sorted_unresolved s jid
     in
     if open_claims \<noteq> [] then
       rbind (rfold (sweep_claim lease moment s) (s, []) open_claims) (\<lambda>(s1, digests).
       rbind (digest_list digests) (\<lambda>terminal.
       rbind (require_outbox_capacity (st_max_pending s1) s1) (\<lambda>_.
       rbind (new_uuid s1) (\<lambda>(outbox_id, s2).
       rbind (transition_running_job_to_recovery env SweepRecovery jid (ls_id lease) (ls_fencing lease)
           locks digests terminal moment outbox_id (st_max_pending s2) s2) (\<lambda>s3.
         Inr (s3, sweep1\<lparr>sw_recovery_required := sw_recovery_required sweep1 + 1\<rparr>))))))
     else if claims_of s jid \<noteq> [] then
       rbind (receipts_evidence s jid) (\<lambda>evidence.
       rbind (release_lease env lease moment (if has_failed_receipt s jid then L_FAILED else L_COMPLETED)
           (Some evidence) s) (\<lambda>s1.
         Inr (s1, sweep1\<lparr>sw_finalized := sw_finalized sweep1 + 1\<rparr>)))
     else case find_job s jid of
       None \<Rightarrow> Inl (PyError ''TypeError'')
     | Some job \<Rightarrow>
       let timed_out = (case jr_timeout_at job of None \<Rightarrow> False | Some t \<Rightarrow> t \<le> moment);
           exhausted = (jr_attempts job \<ge> jr_max_attempts job);
           state = (if timed_out \<or> exhausted then L_FAILED else L_READY)
       in
       rbind (if state = L_FAILED
           then rbind (digest (PDict
             [(PStr ''reason'', PStr (if timed_out then ''timeout'' else ''attempts-exhausted'')),
              (PStr ''job_id'', PStr jid), (PStr ''fencing_token'', PInt (ls_fencing lease))]))
             (\<lambda>d. Inr (Some d))
           else Inr None) (\<lambda>evidence.
       rbind (release_lease env lease moment state evidence s) (\<lambda>s1.
         Inr (s1, sweep1\<lparr>sw_requeued := sw_requeued sweep1 + 1,
           sw_timed_out := sw_timed_out sweep1 + (if timed_out then 1 else 0)\<rparr>))))"

definition ready_timed_out :: "int \<Rightarrow> job_row \<Rightarrow> bool" where
  "ready_timed_out moment r = (jr_state r = L_READY
     \<and> (case jr_timeout_at r of None \<Rightarrow> False | Some t \<Rightarrow> t \<le> moment))"

definition sweep_ready_job :: "env \<Rightarrow> int \<Rightarrow> store \<Rightarrow> job_row \<Rightarrow> store res" where
  "sweep_ready_job env moment s job =
     rbind (digest (PDict [(PStr ''reason'', PStr ''ready-timeout''), (PStr ''job_id'', PStr (jr_id job)),
       (PStr ''at'', PStr (iso_text moment))])) (\<lambda>evidence.
     rbind (update_job (jr_id job) (\<lambda>r. jr_state r = L_READY)
         (\<lambda>r. r\<lparr>jr_state := L_FAILED, jr_evidence := Some evidence, jr_updated_at := moment\<rparr>) s) (\<lambda>(_, s1).
     emit_outbox env (jr_id job) ''job.failed''
       (PDict [(PStr ''job_id'', PStr (jr_id job)), (PStr ''state'', PStr ''failed''),
         (PStr ''reason'', PStr ''ready-timeout'')])
       (''job:'' @ jr_id job @ '':ready-timeout'') moment s1))"

text \<open>The leases to sweep: the expired ones and the given orphans, by expiry and id.\<close>

definition swept_leases :: "int \<Rightarrow> string list \<Rightarrow> store \<Rightarrow> lease_row list" where
  "swept_leases moment orphans s =
     sort_key (\<lambda>l. (ls_expires_at l, ls_id l))
       (filter (\<lambda>l. ls_expires_at l \<le> moment \<or> ls_id l \<in> set orphans) (st_leases s))"

definition empty_sweep :: recovery_sweep where
  "empty_sweep = \<lparr>sw_requeued = 0, sw_recovery_required = 0, sw_released_locks = 0, sw_finalized = 0,
     sw_timed_out = 0\<rparr>"

definition recover :: "env \<Rightarrow> int \<Rightarrow> string list \<Rightarrow> store \<Rightarrow> (store \<times> recovery_sweep) res" where
  "recover env moment orphans s =
     rbind (rfold (sweep_lease env moment) (s, empty_sweep) (swept_leases moment orphans s)) (\<lambda>(s1, sweep).
     let timeouts = sort_key jr_id (filter (ready_timed_out moment) (st_jobs s1)) in
     rbind (rfold (sweep_ready_job env moment) s1 timeouts) (\<lambda>s2.
       Inr (s2, sweep\<lparr>sw_timed_out := sw_timed_out sweep + int (length timeouts)\<rparr>)))"

definition recover_expired :: "env \<Rightarrow> int \<Rightarrow> store \<Rightarrow> (store \<times> recovery_sweep) res" where
  "recover_expired env moment s = recover env moment [] s"

text \<open>\<^verbatim>\<open>_process_probe_value\<close> and the first half of \<^verbatim>\<open>recover_orphans\<close>, which runs before the
  transaction: the leases whose owner process is gone or is another process.\<close>

definition process_probe_value :: "(int \<Rightarrow> string option) \<Rightarrow> int \<Rightarrow> string option res" where
  "process_probe_value probe pid =
     (case probe pid of None \<Rightarrow> Inr None
      | Some v \<Rightarrow> if blank v \<or> v \<noteq> strip v \<or> length v > 512
        then Inl (ValidationFailed ''Process token probe string veya null donmeli'') else Inr (Some v))"

definition orphan_lease_ids :: "(int \<Rightarrow> string option) \<Rightarrow> store \<Rightarrow> string list res" where
  "orphan_lease_ids probe snapshot =
     rbind (rmap (\<lambda>l. rbind (process_probe_value probe (ls_pid l)) (\<lambda>observed.
         Inr (if observed \<noteq> Some (ls_token l) then [ls_id l] else [])))
       (sort_key ls_id (st_leases snapshot))) (\<lambda>ids. Inr (concat ids))"

definition recover_orphans ::
  "env \<Rightarrow> (int \<Rightarrow> string option) \<Rightarrow> store \<Rightarrow> int \<Rightarrow> store \<Rightarrow> (store \<times> recovery_sweep) res" where
  "recover_orphans env probe snapshot moment s =
     rbind (orphan_lease_ids probe snapshot) (\<lambda>ids. recover env moment ids s)"

section \<open>Claiming a job\<close>

definition operation_selected :: "string list option \<Rightarrow> json \<Rightarrow> bool" where
  "operation_selected operations payload =
     (case operations of
        None \<Rightarrow> (case json_field payload ''operation'' of
            Some (JStr t) \<Rightarrow> strip t \<notin> set RESERVED_JOB_OPERATIONS | _ \<Rightarrow> True)
      | Some ops \<Rightarrow> (case json_field payload ''operation'' of Some (JStr t) \<Rightarrow> t \<in> set ops | _ \<Rightarrow> False))"

definition claimable :: "int \<Rightarrow> string list option \<Rightarrow> string option \<Rightarrow> job_row \<Rightarrow> bool" where
  "claimable moment operations jid r =
     (jr_state r = L_READY \<and> jr_available_at r \<le> moment
      \<and> (case jr_timeout_at r of None \<Rightarrow> True | Some t \<Rightarrow> t > moment)
      \<and> jr_attempts r < jr_max_attempts r
      \<and> operation_selected operations (jr_payload r)
      \<and> (case jid of None \<Rightarrow> True | Some i \<Rightarrow> jr_id r = i))"

definition select_job :: "int \<Rightarrow> string list option \<Rightarrow> string option \<Rightarrow> store \<Rightarrow> job_row option" where
  "select_job moment operations jid s =
     (case sort_key (\<lambda>r. (jr_available_at r, jr_created_at r, jr_id r))
        (filter (claimable moment operations jid) (st_jobs s)) of [] \<Rightarrow> None | r # _ \<Rightarrow> Some r)"

definition validate_job_binding :: "job_row \<Rightarrow> unit res" where
  "validate_job_binding r =
     (case json_field (jr_payload r) ''work_binding_digest'' of
        None \<Rightarrow> Inr () | Some JNull \<Rightarrow> Inr () | Some _ \<Rightarrow> require_binding_schema)"

definition start_job ::
  "job_row \<Rightarrow> string \<Rightarrow> int \<Rightarrow> string \<Rightarrow> int \<Rightarrow> string list \<Rightarrow> int \<Rightarrow> store
   \<Rightarrow> (store \<times> local_claimed_work option) res" where
  "start_job r owner pid token lease_seconds resources moment s =
     (let fencing = jr_fencing r + 1 in
      rbind (new_uuid s) (\<lambda>(lid, s1).
      rbind (add_delta moment (lease_seconds * 1000000)) (\<lambda>expires.
      rbind (update_job (jr_id r) (\<lambda>j. jr_state j = L_READY)
          (\<lambda>j. j\<lparr>jr_state := L_RUNNING, jr_attempts := jr_attempts j + 1, jr_fencing := fencing,
            jr_updated_at := moment\<rparr>) s1) (\<lambda>(_, s2).
      rbind (insert_lease \<lparr>ls_id = lid, ls_job = jr_id r, ls_owner = owner, ls_pid = pid, ls_token = token,
          ls_fencing = fencing, ls_heartbeat_at = moment, ls_expires_at = expires\<rparr> s2) (\<lambda>s3.
      rbind (rfold (\<lambda>t resource. insert_lock \<lparr>lk_resource = resource, lk_job = jr_id r, lk_lease = lid,
          lk_fencing = fencing, lk_acquired_at = moment\<rparr> t) s3 resources) (\<lambda>s4.
      rbind (read_job s4 (jr_id r)) (\<lambda>job.
      case find_lease s4 lid of
        None \<Rightarrow> Inl (PyError ''TypeError'')
      | Some l \<Rightarrow> Inr (s4, Some \<lparr>cw_job = job, cw_lease = lease_view l\<rparr>))))))))"

definition claim_next_tx ::
  "env \<Rightarrow> string \<Rightarrow> int \<Rightarrow> string \<Rightarrow> int \<Rightarrow> string list \<Rightarrow> string list option \<Rightarrow> string option \<Rightarrow> int
   \<Rightarrow> store \<Rightarrow> (store \<times> local_claimed_work option) res" where
  "claim_next_tx env owner pid token lease_seconds resources operations jid moment s =
     rbind (recover env moment [] s) (\<lambda>(s1, _).
     case select_job moment operations jid s1 of
       None \<Rightarrow> Inr (s1, None)
     | Some r \<Rightarrow> rbind (validate_job_binding r) (\<lambda>_.
         start_job r owner pid token lease_seconds resources moment s1))"

text \<open>A conflict on a resource lock rolls the transaction back and gives no work.\<close>

definition lock_conflict :: "zekam_error \<Rightarrow> bool" where
  "lock_conflict e = (case e of IntegrityError m \<Rightarrow> contains_sub m ''local_resource_lock.resource'' | _ \<Rightarrow> False)"

definition claim_next ::
  "env \<Rightarrow> string \<Rightarrow> int \<Rightarrow> string \<Rightarrow> int \<Rightarrow> string list \<Rightarrow> string list option \<Rightarrow> string option \<Rightarrow> int
   \<Rightarrow> store \<Rightarrow> (store \<times> local_claimed_work option) res" where
  "claim_next env owner_id owner_pid owner_token lease_seconds resources supported_operations jid moment s =
     rbind (case supported_operations of None \<Rightarrow> Inr None
       | Some ops \<Rightarrow> rbind (validate_job_operations ops) (\<lambda>v. Inr (Some v))) (\<lambda>operations.
     rbind (case jid of None \<Rightarrow> Inr ()
       | Some i \<Rightarrow>
         if operations = None
         then Inl (ValidationFailed ''Exact job id explicit supported operations ister'')
         else rbind (required i ''Exact job id'') (\<lambda>k. if k \<noteq> i
           then Inl (ValidationFailed ''Exact job id explicit supported operations ister'') else Inr ())) (\<lambda>_.
     rbind (required owner_id ''Owner'') (\<lambda>owner.
     rbind (bounded_int owner_pid ''Owner PID'' 1 2147483647) (\<lambda>_.
     rbind (required owner_token ''Owner token'') (\<lambda>token.
     rbind (bounded_int lease_seconds ''Lease suresi'' 1 3600) (\<lambda>_.
     rbind (rmap (portable_resource env) resources) (\<lambda>items.
     let normalized = sort (remdups items) in
     if length normalized \<noteq> length resources
     then Inl (ValidationFailed ''Resource listesi duplicate tasiyamaz'')
     else case claim_next_tx env owner owner_pid token lease_seconds normalized operations jid moment s of
       Inl e \<Rightarrow> if lock_conflict e then Inr (s, None) else Inl e
     | Inr x \<Rightarrow> Inr x)))))))"

section \<open>Working under a lease\<close>

definition heartbeat ::
  "string \<Rightarrow> string \<Rightarrow> string \<Rightarrow> int \<Rightarrow> int \<Rightarrow> int \<Rightarrow> store \<Rightarrow> (store \<times> local_lease) res" where
  "heartbeat lid owner_id owner_token fencing_token lease_seconds moment s =
     rbind (required lid ''Lease id'') (\<lambda>key.
     rbind (required owner_id ''Owner'') (\<lambda>owner.
     rbind (required owner_token ''Owner token'') (\<lambda>token.
     rbind (bounded_int fencing_token ''Fencing token'' 1 2147483647) (\<lambda>_.
     rbind (bounded_int lease_seconds ''Lease suresi'' 1 3600) (\<lambda>_.
     case find_lease s key of
       None \<Rightarrow> Inl (NotFound ''Local lease bulunamadi'')
     | Some row \<Rightarrow>
       if ls_owner row \<noteq> owner \<or> ls_token row \<noteq> token \<or> ls_fencing row \<noteq> fencing_token
          \<or> ls_expires_at row \<le> moment
       then Inl (ConcurrencyConflict ''Local lease owner/fence/expiry drift'')
       else
       rbind (add_delta moment (lease_seconds * 1000000)) (\<lambda>expires.
       let s1 = touch_lease key moment expires s in
       case find_lease s1 key of
         None \<Rightarrow> Inl (PyError ''TypeError'')
       | Some l \<Rightarrow> Inr (s1, lease_view l)))))))"

text \<open>The guard that effect claims, finishing and quarantine share: the stored lease is the one the
  worker holds, with its owner, token and fence, and it has not expired.\<close>

definition live_lease :: "local_claimed_work \<Rightarrow> int \<Rightarrow> store \<Rightarrow> bool" where
  "live_lease work moment s =
     (case find_lease s (ll_id (cw_lease work)) of
        None \<Rightarrow> False
      | Some l \<Rightarrow> ls_job l = lj_id (cw_job work) \<and> ls_owner l = ll_owner_id (cw_lease work)
          \<and> ls_token l = ll_owner_token (cw_lease work)
          \<and> ls_fencing l = ll_fencing_token (cw_lease work) \<and> ls_expires_at l > moment)"

definition claim_effect ::
  "local_claimed_work \<Rightarrow> string \<Rightarrow> string \<Rightarrow> string \<Rightarrow> int \<Rightarrow> store \<Rightarrow> (store \<times> local_claim \<times> bool) res" where
  "claim_effect work operation effect_digest idempotency_key moment s =
     rbind (parse_digest effect_digest) (\<lambda>_.
     rbind (required operation ''Operation'') (\<lambda>operation_key.
     rbind (required idempotency_key ''Effect idempotency key'') (\<lambda>idempotency.
     case find_job s (lj_id (cw_job work)) of
       None \<Rightarrow> Inl (PolicyViolation ''Local job effect binding missing'')
     | Some job \<Rightarrow>
       rbind (validate_job_binding job) (\<lambda>_.
       if \<not> live_lease work moment s
       then Inl (ConcurrencyConflict ''Effect claim current lease/fence ister'')
       else case find (\<lambda>c. cl_key c = idempotency) (st_claims s) of
         Some existing \<Rightarrow>
           if (cl_job existing, cl_operation existing, cl_effect existing)
              \<noteq> (lj_id (cw_job work), operation_key, effect_digest)
           then Inl (ConcurrencyConflict ''Effect claim idempotency drift'')
           else Inr (s, claim_view existing, False)
       | None \<Rightarrow>
           rbind (new_uuid s) (\<lambda>(cid, s1).
           let row = \<lparr>cl_id = cid, cl_job = lj_id (cw_job work), cl_lease = ll_id (cw_lease work),
             cl_fencing = ll_fencing_token (cw_lease work), cl_operation = operation_key,
             cl_effect = effect_digest, cl_key = idempotency, cl_claimed_at = moment\<rparr> in
           rbind (insert_claim row s1) (\<lambda>s2. Inr (s2, claim_view row, True)))))))"

definition record_receipt ::
  "local_claim \<Rightarrow> effect_status \<Rightarrow> string \<Rightarrow> int \<Rightarrow> store \<Rightarrow> (store \<times> receipt_row) res" where
  "record_receipt claim status evidence_digest moment s =
     rbind (parse_digest evidence_digest) (\<lambda>_.
     if \<not> (case find_claim s (lc_id claim) of None \<Rightarrow> False | Some c \<Rightarrow> claim_view c = claim)
     then Inl (ConcurrencyConflict ''Local receipt exact claim drift'')
     else case receipt_of s (lc_id claim) of
       Some existing \<Rightarrow>
         if (re_status existing, re_evidence existing) \<noteq> (status, evidence_digest)
         then Inl (ConcurrencyConflict ''Local receipt replay drift'')
         else Inr (s, existing)
     | None \<Rightarrow>
         rbind (new_uuid s) (\<lambda>(rid, s1).
         let row = \<lparr>re_id = rid, re_claim = lc_id claim, re_status = status,
           re_evidence = evidence_digest, re_created_at = moment\<rparr> in
         rbind (insert_receipt row s1) (\<lambda>s2.
         rbind (if status = E_UNKNOWN
             then rbind (unknown_case_evidence (lc_id claim) evidence_digest) (\<lambda>evidence.
               rbind (new_uuid s2) (\<lambda>(cid, s3).
               insert_effect_recovery_case (UnknownReceipt evidence_digest) cid (lc_job_id claim)
                 (lc_id claim) evidence moment s3))
             else Inr s2) (\<lambda>s4. Inr (s4, row)))))"

definition finish_cases :: "string \<Rightarrow> int \<Rightarrow> store \<Rightarrow> store res" where
  "finish_cases jid moment s =
     rfold (\<lambda>t c.
         rbind (finish_case_evidence (cl_id c) (cl_effect c)) (\<lambda>evidence.
         rbind (new_uuid t) (\<lambda>(cid, t1).
         insert_effect_recovery_case (FinishReceiptless (cl_effect c)) cid jid (cl_id c) evidence moment t1)))
       s (sorted_unresolved s jid)"

definition open_cases :: "string \<Rightarrow> store \<Rightarrow> case_row list" where
  "open_cases jid s = sort_key ca_id (filter (\<lambda>c. ca_job c = jid \<and> ca_open c) (st_cases s))"

definition finish_recovery :: "env \<Rightarrow> local_claimed_work \<Rightarrow> int \<Rightarrow> store \<Rightarrow> (store \<times> local_job) res" where
  "finish_recovery env work moment s =
     (let jid = lj_id (cw_job work) in
      rbind (if open_cases jid s = [] then finish_cases jid moment s else Inr s) (\<lambda>s1.
      let digests = map ca_evidence (open_cases jid s1) in
      rbind (digest_list digests) (\<lambda>terminal.
      rbind (require_outbox_capacity (st_max_pending s1) s1) (\<lambda>_.
      rbind (new_uuid s1) (\<lambda>(outbox_id, s2).
      rbind (transition_running_job_to_recovery env FinishRecovery jid (ll_id (cw_lease work))
          (ll_fencing_token (cw_lease work))
          (sort_key lk_resource (filter (\<lambda>k. lk_job k = jid) (st_locks s2)))
          digests terminal moment outbox_id (st_max_pending s2) s2) (\<lambda>s3.
      rbind (read_job s3 jid) (\<lambda>job. Inr (s3, job))))))))"

definition finish ::
  "env \<Rightarrow> local_claimed_work \<Rightarrow> local_state \<Rightarrow> string option \<Rightarrow> int \<Rightarrow> store \<Rightarrow> (store \<times> local_job) res" where
  "finish env work state evidence_digest moment s =
     (let jid = lj_id (cw_job work); lid = ll_id (cw_lease work) in
      if state \<notin> {L_COMPLETED, L_FAILED, L_RECOVERY_REQUIRED}
      then Inl (ValidationFailed ''Local terminal state gecersiz'')
      else
      rbind (case evidence_digest of
          None \<Rightarrow> if state \<noteq> L_RECOVERY_REQUIRED
            then Inl (PolicyViolation ''Terminal local job evidence digest gerektirir'') else Inr None
        | Some d \<Rightarrow> if state \<noteq> L_RECOVERY_REQUIRED then rbind (parse_digest d) (\<lambda>_. Inr (Some d))
            else Inl (ValidationFailed ''Recovery-required evidence recovery case tarafindan uretilir'')) (\<lambda>evidence.
      if \<not> live_lease work moment s then Inl (ConcurrencyConflict ''Local finish current fence ister'')
      else let pending = (sorted_unresolved s jid \<noteq> []) in
        if pending \<and> state \<noteq> L_RECOVERY_REQUIRED
        then Inl (PolicyViolation ''Unresolved claim yalniz recovery-required olabilir'')
        else if \<not> pending \<and> state = L_RECOVERY_REQUIRED
        then Inl (PolicyViolation ''Recovery-required receiptless claim ister'')
        else if has_failed_receipt s jid \<and> state = L_COMPLETED
        then Inl (PolicyViolation ''Failed effect receipt completed job olamaz'')
        else if pending then finish_recovery env work moment s
        else
        rbind (update_job jid (\<lambda>r. jr_state r = L_RUNNING)
            (\<lambda>r. r\<lparr>jr_state := state, jr_evidence := evidence, jr_updated_at := moment\<rparr>)
            (delete_lease lid (delete_locks lid s))) (\<lambda>(n, s1).
        if n \<noteq> 1 then Inl (ConcurrencyConflict ''Local finish running job ister'')
        else
        rbind (emit_outbox env jid (''job.'' @ local_state_value state)
            (PDict [(PStr ''job_id'', PStr jid), (PStr ''state'', PStr (local_state_value state))])
            (''job:'' @ jid @ '':terminal'') moment s1) (\<lambda>s2.
        rbind (read_job s2 jid) (\<lambda>job. Inr (s2, job))))))"

definition quarantine ::
  "env \<Rightarrow> local_claimed_work \<Rightarrow> string \<Rightarrow> int \<Rightarrow> store \<Rightarrow> (store \<times> local_job) res" where
  "quarantine env work evidence_digest moment s =
     (let jid = lj_id (cw_job work); lid = ll_id (cw_lease work) in
      rbind (parse_digest evidence_digest) (\<lambda>_.
      if \<not> live_lease work moment s then Inl (ConcurrencyConflict ''Quarantine current live fence ister'')
      else if claims_of s jid \<noteq> []
      then Inl (PolicyViolation ''Effect claim sonrasi poison quarantine yasak'')
      else
      rbind (update_job jid (\<lambda>r. jr_state r = L_RUNNING)
          (\<lambda>r. r\<lparr>jr_state := L_QUARANTINED, jr_evidence := Some evidence_digest, jr_updated_at := moment\<rparr>)
          (delete_lease lid (delete_locks lid s))) (\<lambda>(_, s1).
      rbind (emit_outbox env jid ''job.quarantined''
          (PDict [(PStr ''job_id'', PStr jid), (PStr ''state'', PStr ''quarantined'')])
          (''job:'' @ jid @ '':quarantined'') moment s1) (\<lambda>s2.
      rbind (read_job s2 jid) (\<lambda>job. Inr (s2, job))))))"

section \<open>Resolving and reconciling\<close>

definition resolve_recovery ::
  "string \<Rightarrow> resolution_outcome \<Rightarrow> string \<Rightarrow> int \<Rightarrow> store \<Rightarrow> (store \<times> resolution_row) res" where
  "resolve_recovery recovery_case_id outcome evidence_digest moment s =
     rbind (required recovery_case_id ''Recovery case id'') (\<lambda>case_id.
     rbind (parse_digest evidence_digest) (\<lambda>_.
     case find_case s case_id of
       None \<Rightarrow> Inl (NotFound ''Recovery case bulunamadi'')
     | Some rc \<Rightarrow>
       if \<not> outcome_allowed (ca_kind rc) outcome
       then Inl (ValidationFailed ''Recovery outcome case kind ile uyumsuz'')
       else if ca_kind rc = EFFECT_UNKNOWN
         \<and> (case ca_claim rc of None \<Rightarrow> False | Some c \<Rightarrow>
              (case receipt_of s c of None \<Rightarrow> False
               | Some r \<Rightarrow> re_status r \<noteq> E_UNKNOWN \<and> effect_status_value (re_status r) \<noteq> resolution_outcome_value outcome))
       then Inl (ConcurrencyConflict ''Recovery resolution terminal receipt ile celisiyor'')
       else case resolution_of s case_id of
         Some existing \<Rightarrow>
           if (rv_outcome existing, rv_evidence existing) \<noteq> (outcome, evidence_digest)
           then Inl (ConcurrencyConflict ''Recovery resolution replay drift'')
           else Inr (s, existing)
       | None \<Rightarrow>
         if \<not> ca_open rc then Inl (ConcurrencyConflict ''Recovery case acik degil'')
         else
         rbind (new_uuid s) (\<lambda>(rid, s1).
         let row = \<lparr>rv_id = rid, rv_case = case_id, rv_outcome = outcome, rv_evidence = evidence_digest,
           rv_created_at = moment\<rparr> in
         rbind (if ca_kind rc = EFFECT_UNKNOWN
             then insert_effect_recovery_resolution rid case_id outcome evidence_digest moment s1
             else rbind (insert_resolution row s1) (\<lambda>s2.
               rbind (resolve_case case_id moment s2) (\<lambda>s3.
               rbind (update_delivery (case ca_outbox rc of None \<Rightarrow> '''' | Some b \<Rightarrow> b)
                   (\<lambda>d. dv_state d = D_RECOVERY_REQUIRED)
                   (\<lambda>d. d\<lparr>dv_state := (if outcome = O_DELIVERED then D_DELIVERED else D_FAILED),
                     dv_updated_at := moment\<rparr>) s3) (\<lambda>(_, s4). Inr s4)))) (\<lambda>s5.
         Inr (s5, row)))))"

definition claim_open :: "store \<Rightarrow> claim_row \<Rightarrow> bool" where
  "claim_open s c =
     (case case_of_claim s (cl_id c) of
        Some rc \<Rightarrow> resolution_of s (ca_id rc) = None
      | None \<Rightarrow> unresolved s c)"

definition claim_failed :: "store \<Rightarrow> claim_row \<Rightarrow> bool" where
  "claim_failed s c =
     ((case receipt_of s (cl_id c) of None \<Rightarrow> False | Some r \<Rightarrow> re_status r = E_FAILED)
      \<or> (case claim_resolution s c of None \<Rightarrow> False | Some v \<Rightarrow> rv_outcome v = O_FAILED))"

definition reconcile_recovery :: "env \<Rightarrow> string \<Rightarrow> int \<Rightarrow> store \<Rightarrow> (store \<times> local_job) res" where
  "reconcile_recovery env job_key moment s =
     rbind (required job_key ''Job id'') (\<lambda>jid.
     case find_job s jid of
       None \<Rightarrow> Inl (NotFound ''Local job bulunamadi'')
     | Some job \<Rightarrow>
       if jr_state job \<noteq> L_RECOVERY_REQUIRED
       then Inl (PolicyViolation ''Reconcile recovery-required job ister'')
       else if list_ex (claim_open s) (claims_of s jid) then Inr (s, job_view job)
       else
       rbind (reconcile_evidence s jid) (\<lambda>terminal.
       rbind (require_outbox_capacity (st_max_pending s) s) (\<lambda>_.
       rbind (new_uuid s) (\<lambda>(outbox_id, s1).
       rbind (reconcile_effect_recovery_job env jid
           (map ca_id (sort_key ca_id (filter (\<lambda>c. ca_job c = jid \<and> \<not> ca_open c) (st_cases s1))))
           (if list_ex (claim_failed s) (claims_of s jid) then L_FAILED else L_COMPLETED)
           terminal moment outbox_id (st_max_pending s1) s1) (\<lambda>s2.
       rbind (read_job s2 jid) (\<lambda>updated. Inr (s2, updated)))))))"

definition destroy_terminal :: "string \<Rightarrow> store \<Rightarrow> store res" where
  "destroy_terminal job_key s =
     rbind (required job_key ''Job id'') (\<lambda>jid.
     case find_job s jid of
       None \<Rightarrow> Inl (NotFound ''Local job bulunamadi'')
     | Some job \<Rightarrow>
       if jr_state job \<notin> {L_COMPLETED, L_FAILED, L_CANCELLED, L_QUARANTINED}
       then Inl (PolicyViolation ''Yalniz terminal local job destroy edilebilir'')
       else Inl (PolicyViolation ''Local job/claim/receipt/outbox audit retention nedeniyle silinemez''))"

end
