(* ===== verification/LocalOutbox.thy ===== *)
theory LocalOutbox
  imports LocalQueue
begin

text \<open>
  The delivery side of \<^verbatim>\<open>SQLiteLocalRuntimeStore\<close>: pending events, claiming one for delivery under
  a fence, heartbeats, delivery receipts, and the sweep that turns an abandoned delivery into a
  recovery case.
\<close>

section \<open>Events\<close>

text \<open>\<^verbatim>\<open>_outbox\<close>: the stored payload must still have the stored digest. The payload is re-validated
  like a new one.\<close>

definition outbox_view :: "env \<Rightarrow> outbox_row \<Rightarrow> delivery_row \<Rightarrow> local_outbox_event res" where
  "outbox_view env o_row d =
     rbind (payload_json env (embed (ob_payload o_row))) (\<lambda>j.
       if dumps j \<noteq> dumps (ob_payload o_row) \<or> digest_json j \<noteq> ob_digest o_row
       then Inl (ValidationFailed ''Outbox persisted payload canonical/digest drift'')
       else Inr \<lparr>oe_id = ob_id o_row, oe_job_id = ob_job o_row, oe_key = ob_key o_row,
         oe_kind = ob_kind o_row, oe_payload_digest = ob_digest o_row, oe_payload = ob_payload o_row,
         oe_state = dv_state d\<rparr>)"

text \<open>The join of events and deliveries.\<close>

definition outbox_rows :: "store \<Rightarrow> (outbox_row \<times> delivery_row) list" where
  "outbox_rows s = concat (map (\<lambda>b. map (Pair b) (filter (\<lambda>d. dv_outbox d = ob_id b) (st_deliveries s)))
     (st_outbox s))"

definition find_outbox_row :: "store \<Rightarrow> string \<Rightarrow> (outbox_row \<times> delivery_row) option" where
  "find_outbox_row s i = find (\<lambda>(b, d). ob_id b = i) (outbox_rows s)"

definition read_event :: "env \<Rightarrow> store \<Rightarrow> string \<Rightarrow> local_outbox_event res" where
  "read_event env s i =
     (case find_outbox_row s i of None \<Rightarrow> Inl (PyError ''TypeError'') | Some (b, d) \<Rightarrow> outbox_view env b d)"

definition pending_outbox :: "env \<Rightarrow> int \<Rightarrow> store \<Rightarrow> local_outbox_event list res" where
  "pending_outbox env limit s =
     rbind (bounded_int limit ''Outbox limit'' 1 1000) (\<lambda>_.
       rmap (\<lambda>(b, d). outbox_view env b d)
         (take (nat limit) (sort_key (\<lambda>(b, d). (ob_created_at b, ob_id b))
           (filter (\<lambda>(b, d). dv_state d = D_PENDING) (outbox_rows s)))))"

section \<open>The delivery sweep\<close>

definition delivery_abandoned :: "int \<Rightarrow> (int \<Rightarrow> string option) option \<Rightarrow> delivery_claim \<Rightarrow> bool res" where
  "delivery_abandoned moment probe c =
     (case probe of
        None \<Rightarrow> Inr (dc_expires_at c \<le> moment)
      | Some f \<Rightarrow> rbind (process_probe_value f (dc_pid c)) (\<lambda>observed.
          Inr (dc_expires_at c \<le> moment \<or> observed \<noteq> Some (dc_token c))))"

definition abandon_delivery :: "int \<Rightarrow> store \<Rightarrow> outbox_row \<times> delivery_row \<times> delivery_claim \<Rightarrow> store res" where
  "abandon_delivery moment s = (\<lambda>(b, d, c).
     rbind (digest (PDict [(PStr ''case_kind'', PStr ''outbox-delivery-unknown''),
       (PStr ''outbox_id'', PStr (ob_id b)), (PStr ''claim_id'', PStr (dc_id c)),
       (PStr ''fencing_token'', PInt (dv_fencing d))])) (\<lambda>evidence.
     rbind (new_uuid s) (\<lambda>(rid, s1).
     rbind (insert_outbox_receipt \<lparr>or_id = rid, or_outbox = ob_id b, or_claim = dc_id c,
         or_fencing = dv_fencing d, or_status = DS_UNKNOWN, or_evidence = evidence,
         or_created_at = moment\<rparr> s1) (\<lambda>s2.
     rbind (update_delivery (ob_id b) (\<lambda>_. True)
         (\<lambda>d. d\<lparr>dv_state := D_RECOVERY_REQUIRED, dv_updated_at := moment\<rparr>) s2) (\<lambda>(_, s3).
     rbind (new_uuid s3) (\<lambda>(cid, s4).
     insert_case \<lparr>ca_id = cid, ca_job = ob_job b, ca_claim = None, ca_outbox = Some (ob_id b),
       ca_kind = OUTBOX_DELIVERY_UNKNOWN, ca_evidence = evidence, ca_open = True,
       ca_created_at = moment, ca_resolved_at = None\<rparr> s4))))))"

definition claimed_deliveries :: "store \<Rightarrow> (outbox_row \<times> delivery_row \<times> delivery_claim) list" where
  "claimed_deliveries s =
     sort_key (\<lambda>(b, d, c). ob_id b)
       (concat (map (\<lambda>(b, d). case dv_claim d of None \<Rightarrow> [] | Some c \<Rightarrow> [(b, d, c)])
         (filter (\<lambda>(b, d). dv_state d = D_CLAIMED) (outbox_rows s))))"

definition recover_outbox_tx ::
  "int \<Rightarrow> (int \<Rightarrow> string option) option \<Rightarrow> store \<Rightarrow> (store \<times> nat) res" where
  "recover_outbox_tx moment probe s =
     rbind (rmap (\<lambda>(b, d, c). rbind (delivery_abandoned moment probe c) (\<lambda>gone.
         Inr (if gone then [(b, d, c)] else []))) (claimed_deliveries s)) (\<lambda>parts.
     let abandoned = concat parts in
     rbind (rfold (abandon_delivery moment) s abandoned) (\<lambda>s1. Inr (s1, length abandoned)))"

definition recover_outbox :: "int \<Rightarrow> (int \<Rightarrow> string option) option \<Rightarrow> store \<Rightarrow> (store \<times> nat) res" where
  "recover_outbox moment probe s = recover_outbox_tx moment probe s"

section \<open>Claiming and receipts\<close>

definition select_outbox :: "string list \<Rightarrow> string option \<Rightarrow> bool \<Rightarrow> store \<Rightarrow> (outbox_row \<times> delivery_row) option" where
  "select_outbox kinds outbox_id require_completed_job s =
     (case sort_key (\<lambda>(b, d). (ob_created_at b, ob_id b))
        (filter (\<lambda>(b, d). dv_state d = D_PENDING \<and> ob_kind b \<in> set kinds
            \<and> (case outbox_id of None \<Rightarrow> True | Some i \<Rightarrow> ob_id b = i)
            \<and> (require_completed_job \<longrightarrow>
                list_ex (\<lambda>j. jr_id j = ob_job b \<and> jr_state j = L_COMPLETED) (st_jobs s)))
          (outbox_rows s)) of [] \<Rightarrow> None | x # _ \<Rightarrow> Some x)"

definition claim_outbox ::
  "env \<Rightarrow> string list \<Rightarrow> string option \<Rightarrow> bool \<Rightarrow> string \<Rightarrow> int \<Rightarrow> string \<Rightarrow> int \<Rightarrow> int \<Rightarrow> store
   \<Rightarrow> (store \<times> local_outbox_claim option) res" where
  "claim_outbox env supported_kinds outbox_id require_completed_job owner_id owner_pid owner_token
       lease_seconds moment s =
     rbind (validate_outbox_kinds supported_kinds) (\<lambda>kinds.
     rbind (case outbox_id of None \<Rightarrow> Inr ()
       | Some i \<Rightarrow> rbind (required i ''Exact outbox id'') (\<lambda>k.
           if k \<noteq> i then Inl (ValidationFailed ''Outbox id exact required'') else Inr ())) (\<lambda>_.
     rbind (required owner_id ''Outbox owner'') (\<lambda>owner.
     rbind (required owner_token ''Outbox owner token'') (\<lambda>token.
     rbind (bounded_int owner_pid ''Outbox owner PID'' 1 2147483647) (\<lambda>_.
     rbind (bounded_int lease_seconds ''Outbox lease'' 1 3600) (\<lambda>_.
     rbind (recover_outbox_tx moment None s) (\<lambda>(s1, _).
     case select_outbox kinds outbox_id require_completed_job s1 of
       None \<Rightarrow> Inr (s1, None)
     | Some (b, d) \<Rightarrow>
       let fence = dv_fencing d + 1 in
       rbind (new_uuid s1) (\<lambda>(cid, s2).
       rbind (add_delta moment (lease_seconds * 1000000)) (\<lambda>expires.
       rbind (update_delivery (ob_id b) (\<lambda>d. dv_state d = D_PENDING)
           (\<lambda>d. d\<lparr>dv_state := D_CLAIMED, dv_fencing := fence,
             dv_claim := Some \<lparr>dc_id = cid, dc_owner = owner, dc_pid = owner_pid, dc_token = token,
               dc_expires_at = expires\<rparr>, dv_updated_at := moment\<rparr>) s2) (\<lambda>(_, s3).
       rbind (read_event env s3 (ob_id b)) (\<lambda>event.
         Inr (s3, Some \<lparr>oc_event = event, oc_claim_id = cid, oc_owner_id = owner,
           oc_owner_pid = owner_pid, oc_owner_token = token, oc_fencing_token = fence,
           oc_expires_at = expires\<rparr>))))))))))))"

text \<open>The comparison of a caller's claim with the stored event and delivery.\<close>

definition same_claim :: "local_outbox_claim \<Rightarrow> outbox_row \<Rightarrow> delivery_row \<Rightarrow> bool" where
  "same_claim claim b d =
     (case dv_claim d of None \<Rightarrow> False | Some c \<Rightarrow>
        dc_id c = oc_claim_id claim \<and> dc_owner c = oc_owner_id claim \<and> dc_pid c = oc_owner_pid claim
        \<and> dc_token c = oc_owner_token claim \<and> dv_fencing d = oc_fencing_token claim
        \<and> ob_digest b = oe_payload_digest (oc_event claim) \<and> ob_kind b = oe_kind (oc_event claim)
        \<and> ob_job b = oe_job_id (oc_event claim) \<and> ob_key b = oe_key (oc_event claim)
        \<and> dc_expires_at c = oc_expires_at claim)"

definition heartbeat_outbox ::
  "env \<Rightarrow> local_outbox_claim \<Rightarrow> int \<Rightarrow> int \<Rightarrow> store \<Rightarrow> (store \<times> local_outbox_claim) res" where
  "heartbeat_outbox env claim lease_seconds moment s =
     (let oid = oe_id (oc_event claim) in
      rbind (bounded_int lease_seconds ''Outbox lease'' 1 3600) (\<lambda>_.
      case find_outbox_row s oid of
        None \<Rightarrow> Inl (ConcurrencyConflict ''Outbox heartbeat exact claim/fence drift'')
      | Some (b, d) \<Rightarrow>
        if oe_state (oc_event claim) \<noteq> D_CLAIMED \<or> dv_state d \<noteq> D_CLAIMED \<or> \<not> same_claim claim b d
        then Inl (ConcurrencyConflict ''Outbox heartbeat exact claim/fence drift'')
        else if oc_expires_at claim \<le> moment
        then Inl (ConcurrencyConflict ''Outbox heartbeat expired claim'')
        else
        rbind (add_delta moment (lease_seconds * 1000000)) (\<lambda>expires.
        rbind (update_delivery oid
            (\<lambda>d. dv_state d = D_CLAIMED \<and> map_option dc_id (dv_claim d) = Some (oc_claim_id claim)
              \<and> dv_fencing d = oc_fencing_token claim)
            (\<lambda>d. d\<lparr>dv_claim := map_option (\<lambda>c. c\<lparr>dc_expires_at := expires\<rparr>) (dv_claim d),
              dv_updated_at := moment\<rparr>) s) (\<lambda>(n, s1).
        if n \<noteq> 1 then Inl (ConcurrencyConflict ''Outbox heartbeat claim kaybi'')
        else rbind (read_event env s1 oid) (\<lambda>event.
          Inr (s1, claim\<lparr>oc_event := event, oc_expires_at := expires\<rparr>))))))"

fun delivery_state_of :: "delivery_status \<Rightarrow> delivery_state" where
  "delivery_state_of DS_DELIVERED = D_DELIVERED"
| "delivery_state_of DS_FAILED = D_FAILED"
| "delivery_state_of DS_UNKNOWN = D_RECOVERY_REQUIRED"

definition write_outbox_receipt ::
  "local_outbox_claim \<Rightarrow> delivery_status \<Rightarrow> string \<Rightarrow> int \<Rightarrow> store \<Rightarrow> store res" where
  "write_outbox_receipt claim status evidence moment s =
     (let oid = oe_id (oc_event claim) in
      rbind (new_uuid s) (\<lambda>(rid, s1).
      rbind (insert_outbox_receipt \<lparr>or_id = rid, or_outbox = oid, or_claim = oc_claim_id claim,
          or_fencing = oc_fencing_token claim, or_status = status, or_evidence = evidence,
          or_created_at = moment\<rparr> s1) (\<lambda>s2.
      rbind (update_delivery oid (\<lambda>_. True)
          (\<lambda>d. d\<lparr>dv_state := delivery_state_of status, dv_updated_at := moment\<rparr>) s2) (\<lambda>(_, s3).
      if status \<noteq> DS_UNKNOWN then Inr s3
      else
      rbind (digest (PDict [(PStr ''case_kind'', PStr ''outbox-delivery-unknown''),
        (PStr ''outbox_id'', PStr oid), (PStr ''claim_id'', PStr (oc_claim_id claim)),
        (PStr ''receipt_evidence'', PStr evidence)])) (\<lambda>case_evidence.
      rbind (new_uuid s3) (\<lambda>(cid, s4).
      if Some oid \<in> ca_outbox ` set (st_cases s4) then Inr s4
      else insert_case \<lparr>ca_id = cid, ca_job = oe_job_id (oc_event claim), ca_claim = None,
        ca_outbox = Some oid, ca_kind = OUTBOX_DELIVERY_UNKNOWN, ca_evidence = case_evidence,
        ca_open = True, ca_created_at = moment, ca_resolved_at = None\<rparr> s4))))))"

definition record_outbox_receipt ::
  "env \<Rightarrow> local_outbox_claim \<Rightarrow> delivery_status \<Rightarrow> string \<Rightarrow> int \<Rightarrow> store \<Rightarrow> (store \<times> local_outbox_event) res" where
  "record_outbox_receipt env claim status evidence_digest moment s =
     (let oid = oe_id (oc_event claim) in
      if digest_json (oe_payload (oc_event claim)) \<noteq> oe_payload_digest (oc_event claim)
      then Inl (ConcurrencyConflict ''Outbox receipt exact claim/fence drift (payload)'')
      else
      rbind (parse_digest evidence_digest) (\<lambda>_.
      case find_outbox_row s oid of
        None \<Rightarrow> Inl (ConcurrencyConflict ''Outbox receipt exact claim/fence drift'')
      | Some (b, d) \<Rightarrow>
        if \<not> same_claim claim b d
        then Inl (ConcurrencyConflict ''Outbox receipt exact claim/fence drift'')
        else
        rbind (outbox_view env b d) (\<lambda>_.
        rbind (case outbox_receipt_of s oid of
            Some existing \<Rightarrow>
              if (or_status existing, or_evidence existing) \<noteq> (status, evidence_digest)
              then Inl (ConcurrencyConflict ''Outbox receipt replay drift'') else Inr s
          | None \<Rightarrow>
              if dv_state d \<noteq> D_CLAIMED \<or> oc_expires_at claim \<le> moment
              then Inl (ConcurrencyConflict ''Outbox receipt live claim ister'')
              else write_outbox_receipt claim status evidence_digest moment s) (\<lambda>s1.
        rbind (read_event env s1 oid) (\<lambda>event. Inr (s1, event))))))"

end
