(* ===== verification/Histories.thy ===== *)
theory Histories
  imports Prelude
begin

text \<open>
  The interfaces of the stateful components: an operation that may fail takes a state and an
  event to a new state, and a history is a sequence of events that all succeed. The locale
  \<open>guarded_system\<close> asks that every operation keeps an invariant, \<open>ranked_system\<close> that it never
  lowers a rank, \<open>revisioned_system\<close> that it keeps the identity of the record and raises its
  revision by one. The components interpret them on their own operations.
\<close>

section \<open>Invariants along a history\<close>

locale guarded_system =
  fixes exec :: "'s \<Rightarrow> 'e \<Rightarrow> 's res"
    and inv :: "'s \<Rightarrow> bool"
  assumes exec_inv: "inv s \<Longrightarrow> exec s e = Inr t \<Longrightarrow> inv t"
begin

definition run :: "'s \<Rightarrow> 'e list \<Rightarrow> 's res" where
  "run s es = rfold exec s es"

inductive reach :: "'s \<Rightarrow> 's \<Rightarrow> bool" for s where
  reach_refl: "reach s s"
| reach_step: "reach s t \<Longrightarrow> exec t e = Inr u \<Longrightarrow> reach s u"

lemma run_simps:
  "run s [] = Inr s"
  "run s (e # es) = rbind (exec s e) (\<lambda>t. run t es)"
  by (simp_all add: run_def)

lemma run_append: "run s (es @ fs) = rbind (run s es) (\<lambda>t. run t fs)"
proof (induction es arbitrary: s)
  case (Cons e es)
  then show ?case by (cases "exec s e") (simp_all add: run_simps)
qed (simp add: run_simps)

lemma run_inv: "run s es = Inr t \<Longrightarrow> inv s \<Longrightarrow> inv t"
  by (induction es arbitrary: s) (auto simp: run_simps rbind_Inr_iff dest: exec_inv)

lemma reach_inv: "reach s t \<Longrightarrow> inv s \<Longrightarrow> inv t"
  by (induction rule: reach.induct) (auto dest: exec_inv)

lemma run_snoc: "run s es = Inr t \<Longrightarrow> exec t e = Inr u \<Longrightarrow> run s (es @ [e]) = Inr u"
  by (simp add: run_append run_simps)

lemma reach_run: "reach s t \<longleftrightarrow> (\<exists>es. run s es = Inr t)"
proof
  assume "reach s t"
  then show "\<exists>es. run s es = Inr t"
    by (induction rule: reach.induct) (auto intro: run_simps run_snoc)
next
  have "run u es = Inr t \<Longrightarrow> reach s u \<Longrightarrow> reach s t" for u es
    by (induction es arbitrary: u) (auto simp: run_simps rbind_Inr_iff intro: reach_step)
  then show "\<exists>es. run s es = Inr t \<Longrightarrow> reach s t" by (blast intro: reach_refl)
qed

lemma reach_trans: "reach s t \<Longrightarrow> reach t u \<Longrightarrow> reach s u"
  unfolding reach_run using run_append by (metis rbind_simps(2))

end

section \<open>Quantities that never decrease\<close>

locale ranked_system = guarded_system exec inv
  for exec :: "'s \<Rightarrow> 'e \<Rightarrow> 's res" and inv :: "'s \<Rightarrow> bool" +
  fixes rank :: "'s \<Rightarrow> 'r :: preorder"
  assumes exec_rank: "inv s \<Longrightarrow> exec s e = Inr t \<Longrightarrow> rank s \<le> rank t"
begin

lemma reach_rank: "reach s t \<Longrightarrow> inv s \<Longrightarrow> rank s \<le> rank t"
proof (induction rule: reach.induct)
  case (reach_step t e u)
  then have "inv t" using reach_inv by blast
  with reach_step show ?case using exec_rank order_trans by blast
qed simp

end

section \<open>Revisions\<close>

locale revisioned_system = guarded_system exec inv
  for exec :: "'s \<Rightarrow> 'e \<Rightarrow> 's res" and inv :: "'s \<Rightarrow> bool" +
  fixes ident :: "'s \<Rightarrow> 'i"
    and revision :: "'s \<Rightarrow> int"
  assumes exec_ident: "exec s e = Inr t \<Longrightarrow> ident t = ident s"
    and exec_revision: "exec s e = Inr t \<Longrightarrow> revision t = revision s + 1"
begin

lemma run_revision:
  "run s es = Inr t \<Longrightarrow> ident t = ident s \<and> revision t = revision s + int (length es)"
  by (induction es arbitrary: s)
    (auto simp: run_simps rbind_Inr_iff dest: exec_ident exec_revision)

text \<open>A revision number names one state of a history: two prefixes that reach the same revision
  are the same prefix.\<close>

lemma revision_names_state:
  assumes "run s (es @ fs) = Inr t" "run s es = Inr u" "revision u = revision t"
  shows "fs = [] \<and> u = t"
proof -
  from assms have "run u fs = Inr t" by (simp add: run_append)
  moreover from run_revision [OF this] assms(3) have "fs = []" by simp
  ultimately show ?thesis by (simp add: run_simps)
qed

end

end
