(* ===== verification/StoreInvariant.thy ===== *)
theory StoreInvariant
  imports LocalOutbox Histories
begin

text \<open>
  Invariants of the local runtime's tables. \<open>core_ok\<close> relates jobs, leases, resource locks and
  effect claims: a lease exists exactly for a running job and carries its current fence, every
  lock belongs to a live lease, every claim carries the fence of its job, and a job that is
  ready again has never claimed an effect. \<open>outbox_ok\<close> bounds the undelivered events. The relation
  \<open>job_step\<close> is the abstract life cycle of a job; \<open>jobs_advance\<close> says that an operation only moves
  jobs along it.
\<close>

section \<open>The core tables\<close>

definition lease_ok :: "job_row list \<Rightarrow> lease_row \<Rightarrow> bool" where
  "lease_ok jobs l = (\<exists>j \<in> set jobs. jr_id j = ls_job l \<and> jr_state j = L_RUNNING \<and> jr_fencing j = ls_fencing l)"

definition lock_ok :: "lease_row list \<Rightarrow> lock_row \<Rightarrow> bool" where
  "lock_ok leases k = (\<exists>l \<in> set leases. lk_lease k = ls_id l \<and> lk_job k = ls_job l \<and> lk_fencing k = ls_fencing l)"

definition claim_ok :: "job_row list \<Rightarrow> claim_row \<Rightarrow> bool" where
  "claim_ok jobs c = (\<exists>j \<in> set jobs. jr_id j = cl_job c \<and> jr_fencing j = cl_fencing c \<and> jr_state j \<noteq> L_READY)"

definition job_ok :: "job_row \<Rightarrow> bool" where
  "job_ok j = (job_check j \<and> jr_fencing j = jr_attempts j \<and> jr_attempts j \<le> jr_max_attempts j)"

definition core_ok :: "job_row list \<Rightarrow> lease_row list \<Rightarrow> lock_row list \<Rightarrow> claim_row list \<Rightarrow> bool" where
  "core_ok jobs leases locks claims =
     (distinct (map jr_id jobs) \<and> distinct (map ls_id leases) \<and> distinct (map ls_job leases)
      \<and> distinct (map lk_resource locks)
      \<and> (\<forall>j \<in> set jobs. job_ok j)
      \<and> (\<forall>j \<in> set jobs. jr_state j = L_RUNNING \<longrightarrow> jr_id j \<in> ls_job ` set leases)
      \<and> (\<forall>l \<in> set leases. lease_ok jobs l)
      \<and> (\<forall>k \<in> set locks. lock_ok leases k)
      \<and> (\<forall>c \<in> set claims. claim_ok jobs c))"

abbreviation store_core :: "store \<Rightarrow> bool" where
  "store_core s \<equiv> core_ok (st_jobs s) (st_leases s) (st_locks s) (st_claims s)"

section \<open>The life cycle of a job\<close>

inductive job_step :: "job_row \<Rightarrow> job_row \<Rightarrow> bool" where
  step_start: "jr_state j = L_READY \<Longrightarrow> jr_attempts j < jr_max_attempts j \<Longrightarrow>
    job_step j (j\<lparr>jr_state := L_RUNNING, jr_attempts := jr_attempts j + 1,
      jr_fencing := jr_fencing j + 1, jr_updated_at := t\<rparr>)"
| step_requeue: "jr_state j = L_RUNNING \<Longrightarrow>
    job_step j (j\<lparr>jr_state := L_READY, jr_evidence := None, jr_updated_at := t\<rparr>)"
| step_close: "jr_state j = L_RUNNING \<Longrightarrow> st \<in> {L_COMPLETED, L_FAILED, L_RECOVERY_REQUIRED, L_QUARANTINED} \<Longrightarrow>
    job_step j (j\<lparr>jr_state := st, jr_evidence := Some d, jr_updated_at := t\<rparr>)"
| step_timeout: "jr_state j = L_READY \<Longrightarrow>
    job_step j (j\<lparr>jr_state := L_FAILED, jr_evidence := Some d, jr_updated_at := t\<rparr>)"
| step_reconcile: "jr_state j = L_RECOVERY_REQUIRED \<Longrightarrow> st \<in> {L_COMPLETED, L_FAILED} \<Longrightarrow>
    job_step j (j\<lparr>jr_state := st, jr_evidence := Some d, jr_updated_at := t\<rparr>)"

inductive_cases job_stepE: "job_step j k"

abbreviation job_steps :: "job_row \<Rightarrow> job_row \<Rightarrow> bool" where
  "job_steps \<equiv> job_step\<^sup>*\<^sup>*"

definition terminal_states :: "local_state list" where
  "terminal_states = [L_COMPLETED, L_FAILED, L_CANCELLED, L_QUARANTINED]"

lemma job_step_terminal: "jr_state j \<in> set terminal_states \<Longrightarrow> \<not> job_step j k"
  by (auto simp: terminal_states_def elim: job_stepE)

lemma job_steps_terminal: "job_steps j k \<Longrightarrow> jr_state j \<in> set terminal_states \<Longrightarrow> k = j"
  by (induction rule: converse_rtranclp_induct) (auto dest: job_step_terminal)

lemma job_steps_identity:
  "job_steps j k \<Longrightarrow> jr_id k = jr_id j \<and> jr_key k = jr_key j \<and> jr_payload k = jr_payload j
     \<and> jr_max_attempts k = jr_max_attempts j \<and> jr_timeout_at k = jr_timeout_at j
     \<and> jr_available_at k = jr_available_at j \<and> jr_fencing j \<le> jr_fencing k"
  by (induction rule: rtranclp_induct) (auto elim!: job_stepE)

definition jobs_advance :: "job_row list \<Rightarrow> job_row list \<Rightarrow> bool" where
  "jobs_advance js ks = (\<forall>j \<in> set js. \<exists>k \<in> set ks. job_steps j k)"

lemma jobs_advance_refl [simp]: "jobs_advance js js"
  by (auto simp: jobs_advance_def)

lemma jobs_advance_trans: "jobs_advance js ks \<Longrightarrow> jobs_advance ks ls \<Longrightarrow> jobs_advance js ls"
  unfolding jobs_advance_def by (meson rtranclp_trans)

lemma jobs_advance_append: "jobs_advance js (js @ ks)"
  by (auto simp: jobs_advance_def)

text \<open>An update of the selected rows that steps each of them.\<close>

lemma jobs_advance_update:
  assumes "\<And>j. j \<in> set js \<Longrightarrow> sel j \<Longrightarrow> job_step j (f j)"
  shows "jobs_advance js (update_where sel f js)"
  unfolding jobs_advance_def
proof
  fix j
  assume j: "j \<in> set js"
  show "\<exists>k \<in> set (update_where sel f js). job_steps j k"
  proof (cases "sel j")
    case True
    with j assms update_where_new show ?thesis by (metis r_into_rtranclp)
  next
    case False
    with j update_where_keep show ?thesis by (metis rtranclp.rtrancl_refl)
  qed
qed

section \<open>Steps that keep the core\<close>



lemma core_okI:
  assumes "distinct (map jr_id jobs)" "distinct (map ls_id leases)" "distinct (map ls_job leases)"
    "distinct (map lk_resource locks)"
    "\<And>j. j \<in> set jobs \<Longrightarrow> job_ok j"
    "\<And>j. j \<in> set jobs \<Longrightarrow> jr_state j = L_RUNNING \<Longrightarrow> jr_id j \<in> ls_job ` set leases"
    "\<And>l. l \<in> set leases \<Longrightarrow> lease_ok jobs l"
    "\<And>k. k \<in> set locks \<Longrightarrow> lock_ok leases k"
    "\<And>c. c \<in> set claims \<Longrightarrow> claim_ok jobs c"
  shows "core_ok jobs leases locks claims"
  using assms by (simp add: core_ok_def)

lemma core_okD:
  assumes "core_ok jobs leases locks claims"
  shows "distinct (map jr_id jobs)" "distinct (map ls_id leases)" "distinct (map ls_job leases)"
    "distinct (map lk_resource locks)"
    "j \<in> set jobs \<Longrightarrow> job_ok j"
    "j \<in> set jobs \<Longrightarrow> jr_state j = L_RUNNING \<Longrightarrow> jr_id j \<in> ls_job ` set leases"
    "l \<in> set leases \<Longrightarrow> lease_ok jobs l"
    "k \<in> set locks \<Longrightarrow> lock_ok leases k"
    "c \<in> set claims \<Longrightarrow> claim_ok jobs c"
  using assms by (simp_all add: core_ok_def)

lemma core_add_job:
  assumes core: "core_ok jobs leases locks claims" and r: "jr_id r \<notin> jr_id ` set jobs" "job_ok r"
    "jr_state r = L_READY"
  shows "core_ok (jobs @ [r]) leases locks claims"
proof (rule core_okI)
  show "lease_ok (jobs @ [r]) l" if "l \<in> set leases" for l
    using core_okD(7) [OF core that] by (auto simp: lease_ok_def)
  show "claim_ok (jobs @ [r]) c" if "c \<in> set claims" for c
    using core_okD(9) [OF core that] by (auto simp: claim_ok_def)
qed (use core_okD [OF core] r in auto)

lemma core_touch_lease:
  fixes h e :: int
  assumes core: "core_ok jobs leases locks claims"
  defines "f \<equiv> \<lambda>r :: lease_row. r\<lparr>ls_heartbeat_at := h, ls_expires_at := e\<rparr>"
  shows "core_ok jobs (update_where (\<lambda>r. ls_id r = i) f leases) locks claims"
proof (rule core_okI)
  let ?ls = "update_where (\<lambda>r. ls_id r = i) f leases"
  have f: "ls_id (f r) = ls_id r" "ls_job (f r) = ls_job r" "ls_fencing (f r) = ls_fencing r" for r
    by (simp_all add: f_def)
  show "distinct (map ls_id ?ls)" "distinct (map ls_job ?ls)"
    using core_okD(2,3) [OF core] by (simp_all add: map_update_where f)
  show "jr_id j \<in> ls_job ` set ?ls" if "j \<in> set jobs" "jr_state j = L_RUNNING" for j
    using core_okD(6) [OF core that] by (simp add: image_update_where f)
  show "lease_ok jobs l" if l: "l \<in> set ?ls" for l
  proof -
    from l obtain l' where "l' \<in> set leases" "l = (if ls_id l' = i then f l' else l')"
      by (auto simp: mem_update_where)
    with core_okD(7) [OF core this(1)] f show ?thesis by (auto simp: lease_ok_def)
  qed
  show "lock_ok ?ls k" if k: "k \<in> set locks" for k
  proof -
    from core_okD(8) [OF core k] obtain l where "l \<in> set leases" "lk_lease k = ls_id l"
      "lk_job k = ls_job l" "lk_fencing k = ls_fencing l" by (auto simp: lock_ok_def)
    with update_where_new [of l leases] update_where_keep [of l leases] f show ?thesis
      unfolding lock_ok_def by metis
  qed
qed (use core_okD [OF core] in auto)

lemma core_add_claim:
  assumes "core_ok jobs leases locks claims" "claim_ok jobs c"
  shows "core_ok jobs leases locks (claims @ [c])"
  using assms by (auto simp: core_ok_def)

lemma core_add_lock:
  assumes "core_ok jobs leases locks claims" "lk_resource k \<notin> lk_resource ` set locks" "lock_ok leases k"
  shows "core_ok jobs leases (locks @ [k]) claims"
  using assms by (auto simp: core_ok_def)

lemma core_start:
  fixes t :: int
  assumes core: "core_ok jobs leases locks claims" and r: "r \<in> set jobs" "jr_state r = L_READY"
    "jr_attempts r < jr_max_attempts r"
    and l: "ls_job l = jr_id r" "ls_fencing l = jr_fencing r + 1" "ls_id l \<notin> ls_id ` set leases"
      "ls_job l \<notin> ls_job ` set leases"
  defines "f \<equiv> \<lambda>j. j\<lparr>jr_state := L_RUNNING, jr_attempts := jr_attempts j + 1,
      jr_fencing := jr_fencing r + 1, jr_updated_at := t\<rparr>"
  defines "sel \<equiv> \<lambda>j. jr_id j = jr_id r \<and> jr_state j = L_READY"
  shows "core_ok (update_where sel f jobs) (leases @ [l]) locks claims"
proof (rule core_okI)
  let ?js = "update_where sel f jobs"
  note d = core_okD(1) [OF core]
  have sel: "sel j \<longleftrightarrow> j = r" if "j \<in> set jobs" for j
    using that r distinct_key_eq [OF d] by (auto simp: sel_def)
  have fr: "f r \<in> set ?js" using r(1) sel update_where_new by metis
  have keep: "j \<in> set ?js" if "j \<in> set jobs" "j \<noteq> r" for j using that sel update_where_keep by metis
  have mem: "j = f r \<or> j \<in> set jobs \<and> j \<noteq> r" if "j \<in> set ?js" for j
    using that sel r(1) by (auto simp: mem_update_where split: if_splits)
  show "distinct (map jr_id ?js)" using d by (simp add: map_update_where f_def)
  show "job_ok j" if "j \<in> set ?js" for j
    using mem [OF that] core_okD(5) [OF core, of j] core_okD(5) [OF core r(1)] r
    by (auto simp: job_ok_def job_check_def f_def)
  show "jr_id j \<in> ls_job ` set (leases @ [l])" if "j \<in> set ?js" "jr_state j = L_RUNNING" for j
    using mem [OF that(1)] that(2) core_okD(6) [OF core] l(1) by (auto simp: f_def)
  show "lease_ok ?js l'" if l': "l' \<in> set (leases @ [l])" for l'
  proof (cases "l' = l")
    case True
    with fr l show ?thesis by (auto simp: lease_ok_def f_def intro!: bexI [of _ "f r"])
  next
    case False
    with l' core_okD(7) [OF core] obtain j where "j \<in> set jobs" "jr_id j = ls_job l'"
      "jr_state j = L_RUNNING" "jr_fencing j = ls_fencing l'" by (auto simp: lease_ok_def)
    with keep r(2) show ?thesis unfolding lease_ok_def by (metis local_state.distinct(1))
  qed
  show "lock_ok (leases @ [l]) k" if "k \<in> set locks" for k
    using core_okD(8) [OF core that] by (auto simp: lock_ok_def)
  show "claim_ok ?js c" if c: "c \<in> set claims" for c
    using core_okD(9) [OF core c] keep r(2) unfolding claim_ok_def by metis
qed (use core_okD(2,3,4) [OF core] l in auto)

lemma core_end_lease:
  fixes t :: int
  assumes core: "core_ok jobs leases locks claims" and l: "l \<in> set leases"
    and p: "\<And>r. r \<in> set jobs \<Longrightarrow> jr_id r = ls_job l \<Longrightarrow> p r"
    and st: "st \<noteq> L_RUNNING" "(st = L_READY) = (ev = None)"
    and ready: "st = L_READY \<Longrightarrow> \<forall>c \<in> set claims. cl_job c \<noteq> ls_job l"
  defines "f \<equiv> \<lambda>r. r\<lparr>jr_state := st, jr_evidence := ev, jr_updated_at := t\<rparr>"
  shows "core_ok (update_where (\<lambda>r. jr_id r = ls_job l \<and> p r) f jobs)
    (filter (\<lambda>r. ls_id r \<noteq> ls_id l) leases) (filter (\<lambda>k. lk_lease k \<noteq> ls_id l) locks) claims"
proof (rule core_okI)
  let ?js = "update_where (\<lambda>r. jr_id r = ls_job l \<and> p r) f jobs"
  let ?ls = "filter (\<lambda>r. ls_id r \<noteq> ls_id l) leases"
  have keep: "j \<in> set ?js" if "j \<in> set jobs" "jr_id j \<noteq> ls_job l" for j
    using that by (intro update_where_keep) auto
  have new: "f j \<in> set ?js" if "j \<in> set jobs" "jr_id j = ls_job l" for j
    using that p by (intro update_where_new) auto
  have mem: "(\<exists>r \<in> set jobs. jr_id r = ls_job l \<and> j = f r) \<or> j \<in> set jobs \<and> jr_id j \<noteq> ls_job l"
    if "j \<in> set ?js" for j
  proof -
    from that obtain r where r: "r \<in> set jobs" "j = (if jr_id r = ls_job l \<and> p r then f r else r)"
      unfolding mem_update_where by blast
    then show ?thesis by (cases "jr_id r = ls_job l") (auto simp: p)
  qed
  have other: "ls_job l' \<noteq> ls_job l" if "l' \<in> set ?ls" for l'
    using that l distinct_key_eq [OF core_okD(3) [OF core]] by auto
  show "distinct (map jr_id ?js)" using core_okD(1) [OF core] by (simp add: map_update_where f_def)
  show "job_ok j" if "j \<in> set ?js" for j
    using mem [OF that] core_okD(5) [OF core] st by (auto simp: job_ok_def job_check_def f_def)
  show "jr_id j \<in> ls_job ` set ?ls" if j: "j \<in> set ?js" "jr_state j = L_RUNNING" for j
  proof -
    from mem [OF j(1)] j(2) st(1) have "j \<in> set jobs" "jr_id j \<noteq> ls_job l" by (auto simp: f_def)
    with core_okD(6) [OF core this(1) j(2)] obtain l' where "l' \<in> set leases" "jr_id j = ls_job l'"
      "ls_job l' \<noteq> ls_job l" by auto
    moreover from this have "ls_id l' \<noteq> ls_id l"
      using l distinct_key_eq [OF core_okD(2) [OF core]] by metis
    ultimately show ?thesis by auto
  qed
  show "lease_ok ?js l'" if l': "l' \<in> set ?ls" for l'
    using l' core_okD(7) [OF core, of l'] other [OF l'] keep unfolding lease_ok_def by auto
  show "lock_ok ?ls k" if "k \<in> set (filter (\<lambda>k. lk_lease k \<noteq> ls_id l) locks)" for k
    using that core_okD(8) [OF core, of k] by (auto simp: lock_ok_def)
  show "claim_ok ?js c" if c: "c \<in> set claims" for c
  proof -
    from core_okD(9) [OF core c] obtain j where j: "j \<in> set jobs" "jr_id j = cl_job c"
      "jr_fencing j = cl_fencing c" "jr_state j \<noteq> L_READY" by (auto simp: claim_ok_def)
    show ?thesis
    proof (cases "cl_job c = ls_job l")
      case True
      with ready c have "st \<noteq> L_READY" by auto
      with new [of j] True j show ?thesis by (auto simp: claim_ok_def f_def intro!: bexI [of _ "f j"])
    next
      case False
      with keep [of j] j show ?thesis by (auto simp: claim_ok_def intro!: bexI [of _ j])
    qed
  qed
qed (use core_okD(2,3,4) [OF core] in \<open>auto intro: distinct_map_filter\<close>)

text \<open>A job that has no lease changes its state: a ready job times out, a recovered job is closed.\<close>

lemma core_close_idle:
  fixes t :: int and d :: string
  assumes core: "core_ok jobs leases locks claims"
    and p: "\<And>r. p r \<Longrightarrow> jr_state r \<noteq> L_RUNNING" and st: "st \<notin> {L_READY, L_RUNNING}"
  defines "f \<equiv> \<lambda>r. r\<lparr>jr_state := st, jr_evidence := Some d, jr_updated_at := t\<rparr>"
  shows "core_ok (update_where (\<lambda>r. jr_id r = i \<and> p r) f jobs) leases locks claims"
proof (rule core_okI)
  let ?js = "update_where (\<lambda>r. jr_id r = i \<and> p r) f jobs"
  have run: "j \<in> set ?js" if "j \<in> set jobs" "jr_state j = L_RUNNING" for j
    using that p by (intro update_where_keep) auto
  have mem: "(\<exists>r \<in> set jobs. j = f r) \<or> j \<in> set jobs" if "j \<in> set ?js" for j
    using that by (auto simp: mem_update_where split: if_splits)
  show "distinct (map jr_id ?js)" using core_okD(1) [OF core] by (simp add: map_update_where f_def)
  show "job_ok j" if "j \<in> set ?js" for j
    using mem [OF that] core_okD(5) [OF core] st by (auto simp: job_ok_def job_check_def f_def)
  show "jr_id j \<in> ls_job ` set leases" if "j \<in> set ?js" "jr_state j = L_RUNNING" for j
    using mem [OF that(1)] that(2) core_okD(6) [OF core] st by (auto simp: f_def)
  show "lease_ok ?js l" if "l \<in> set leases" for l
    using core_okD(7) [OF core that] run unfolding lease_ok_def by metis
  show "claim_ok ?js c" if c: "c \<in> set claims" for c
  proof -
    from core_okD(9) [OF core c] obtain j where j: "j \<in> set jobs" "jr_id j = cl_job c"
      "jr_fencing j = cl_fencing c" "jr_state j \<noteq> L_READY" by (auto simp: claim_ok_def)
    then have "(if jr_id j = i \<and> p j then f j else j) \<in> set ?js"
      unfolding mem_update_where by blast
    moreover have "jr_id (if jr_id j = i \<and> p j then f j else j) = cl_job c"
      "jr_fencing (if jr_id j = i \<and> p j then f j else j) = cl_fencing c"
      "jr_state (if jr_id j = i \<and> p j then f j else j) \<noteq> L_READY"
      using j st by (auto simp: f_def)
    ultimately show ?thesis unfolding claim_ok_def by blast
  qed
qed (use core_okD(2,3,4,8) [OF core] in auto)

section \<open>The outbox bound\<close>

abbreviation undelivered :: "delivery_row \<Rightarrow> bool" where
  "undelivered d \<equiv> dv_state d \<in> {D_PENDING, D_CLAIMED, D_RECOVERY_REQUIRED}"

definition outbox_ok :: "delivery_row list \<Rightarrow> outbox_receipt_row list \<Rightarrow> int \<Rightarrow> bool" where
  "outbox_ok deliveries receipts maximum =
     (int (length (filter undelivered deliveries)) \<le> maximum
      \<and> (\<forall>d \<in> set deliveries. dv_state d \<in> {D_DELIVERED, D_FAILED, D_RECOVERY_REQUIRED}
          \<longrightarrow> dv_outbox d \<in> or_outbox ` set receipts))"

abbreviation store_outbox :: "store \<Rightarrow> bool" where
  "store_outbox s \<equiv> outbox_ok (st_deliveries s) (st_outbox_receipts s) (st_max_pending s)"

lemma count_update_where:
  assumes "\<And>d. d \<in> set ds \<Longrightarrow> sel d \<Longrightarrow> P (f d) \<Longrightarrow> P d"
  shows "length (filter P (update_where sel f ds)) \<le> length (filter P ds)"
  using assms
proof (induction ds)
  case (Cons d ds)
  have "length (filter P (update_where sel f ds)) \<le> length (filter P ds)"
    using Cons by (auto simp: update_where_def)
  then show ?case using Cons.prems [of d] by (auto simp: update_where_def)
qed (simp add: update_where_def)

lemma outbox_add_pending:
  assumes "outbox_ok ds rs m" "int (length (filter undelivered ds)) < m" "dv_state d = D_PENDING"
  shows "outbox_ok (ds @ [d]) rs m"
  using assms by (auto simp: outbox_ok_def)

lemma outbox_update:
  assumes ok: "outbox_ok ds rs m" and sub: "set rs \<subseteq> set rs'"
    and f: "\<And>d. dv_outbox (f d) = dv_outbox d"
    and keep: "\<And>d. d \<in> set ds \<Longrightarrow> sel d \<Longrightarrow> undelivered (f d) \<Longrightarrow> undelivered d"
    and receipt: "\<And>d. d \<in> set ds \<Longrightarrow> sel d \<Longrightarrow> dv_state (f d) \<in> {D_DELIVERED, D_FAILED, D_RECOVERY_REQUIRED}
      \<Longrightarrow> dv_outbox d \<in> or_outbox ` set rs'"
  shows "outbox_ok (update_where sel f ds) rs' m"
proof -
  have "int (length (filter undelivered (update_where sel f ds))) \<le> m"
    using count_update_where [of ds sel undelivered f, OF keep] ok by (auto simp: outbox_ok_def)
  moreover have "dv_outbox d \<in> or_outbox ` set rs'"
    if d: "d \<in> set (update_where sel f ds)" "dv_state d \<in> {D_DELIVERED, D_FAILED, D_RECOVERY_REQUIRED}" for d
  proof -
    from d(1) obtain x where x: "x \<in> set ds" "d = (if sel x then f x else x)"
      unfolding mem_update_where by blast
    show ?thesis
    proof (cases "sel x")
      case True
      with x d(2) receipt [of x] f show ?thesis by simp
    next
      case False
      with x d(2) ok have "dv_outbox d \<in> or_outbox ` set rs" by (auto simp: outbox_ok_def)
      with sub show ?thesis by blast
    qed
  qed
  ultimately show ?thesis by (auto simp: outbox_ok_def)
qed

section \<open>Moves of the store\<close>

datatype audit_row =
    AuditClaim claim_row
  | AuditReceipt receipt_row
  | AuditEvent outbox_row
  | AuditDelivery outbox_receipt_row
  | AuditResolution resolution_row

definition audit :: "store \<Rightarrow> audit_row set" where
  "audit s = AuditClaim ` set (st_claims s) \<union> AuditReceipt ` set (st_receipts s)
     \<union> AuditEvent ` set (st_outbox s) \<union> AuditDelivery ` set (st_outbox_receipts s)
     \<union> AuditResolution ` set (st_resolutions s)"

definition good :: "store \<Rightarrow> bool" where
  "good s = (store_core s \<and> store_outbox s)"

text \<open>What an operation may do to a good store.\<close>

definition moves :: "store \<Rightarrow> store \<Rightarrow> bool" where
  "moves s t = (good s \<longrightarrow> good t \<and> jobs_advance (st_jobs s) (st_jobs t) \<and> audit s \<subseteq> audit t
     \<and> st_max_pending t = st_max_pending s)"

lemma moves_refl [simp]: "moves s s"
  by (simp add: moves_def)

lemma moves_trans: "moves s t \<Longrightarrow> moves t u \<Longrightarrow> moves s u"
  unfolding moves_def by (auto dest: jobs_advance_trans)

lemma moves_frame:
  assumes "st_jobs t = st_jobs s" "st_leases t = st_leases s" "st_locks t = st_locks s"
    "st_claims t = st_claims s" "st_deliveries t = st_deliveries s"
    "st_outbox_receipts t = st_outbox_receipts s" "st_max_pending t = st_max_pending s"
    "audit s \<subseteq> audit t"
  shows "moves s t"
  using assms by (simp add: moves_def good_def)

lemma moves_rfold:
  assumes "rfold f s xs = Inr t" and "\<And>u x v. x \<in> set xs \<Longrightarrow> f u x = Inr v \<Longrightarrow> moves u v"
  shows "moves s t"
proof (rule rfold_invariant [OF assms(1), of "moves s"])
  fix u x v
  assume "moves s u" "x \<in> set xs" "f u x = Inr v"
  with assms(2) moves_trans show "moves s v" by blast
qed simp

lemma moves_uuid: "new_uuid s = Inr (u, t) \<Longrightarrow> moves s t"
  by (intro moves_frame) (auto simp: new_uuid_def audit_def split: list.splits)

lemma moves_receipt: "insert_receipt r s = Inr t \<Longrightarrow> moves s t"
  by (intro moves_frame) (auto simp: insert_receipt_def unique_violation_def foreign_key_violation_def
      audit_def split: if_splits)

lemma moves_case: "insert_case r s = Inr t \<Longrightarrow> moves s t"
  by (intro moves_frame) (auto simp: insert_case_def unique_violation_def foreign_key_violation_def
      check_violation_def audit_def split: if_splits)

lemma moves_resolution: "insert_resolution r s = Inr t \<Longrightarrow> moves s t"
  by (intro moves_frame) (auto simp: insert_resolution_def unique_violation_def audit_def split: if_splits)

lemma moves_resolve_case: "resolve_case i m s = Inr t \<Longrightarrow> moves s t"
  by (intro moves_frame) (auto simp: resolve_case_def audit_def split: if_splits)

lemma moves_slot: "insert_slot r s = Inr t \<Longrightarrow> moves s t"
  by (intro moves_frame) (auto simp: insert_slot_def unique_violation_def foreign_key_violation_def
      audit_def split: if_splits)

lemma moves_outbox:
  assumes "insert_outbox r s = Inr t" "int (pending_count s) < st_max_pending s"
  shows "moves s t"
proof -
  from assms(1) have t: "st_deliveries t = st_deliveries s @ [\<lparr>dv_outbox = ob_id r, dv_state = D_PENDING,
      dv_fencing = 0, dv_claim = None, dv_updated_at = ob_created_at r\<rparr>]"
    "st_jobs t = st_jobs s" "st_leases t = st_leases s" "st_locks t = st_locks s"
    "st_claims t = st_claims s" "st_outbox_receipts t = st_outbox_receipts s"
    "st_max_pending t = st_max_pending s" "audit s \<subseteq> audit t"
    by (auto simp: insert_outbox_def unique_violation_def foreign_key_violation_def audit_def
        split: if_splits)
  have "store_outbox t" if "store_outbox s"
    unfolding t using that assms(2) by (intro outbox_add_pending) (auto simp: pending_count_def)
  with t show ?thesis by (simp add: moves_def good_def)
qed

lemma new_uuid_fields:
  assumes "new_uuid s = Inr (u, t)"
  shows "st_jobs t = st_jobs s" "st_leases t = st_leases s" "st_locks t = st_locks s"
    "st_claims t = st_claims s" "st_receipts t = st_receipts s" "st_outbox t = st_outbox s"
    "st_deliveries t = st_deliveries s" "st_outbox_receipts t = st_outbox_receipts s"
    "st_cases t = st_cases s" "st_resolutions t = st_resolutions s" "st_slots t = st_slots s"
    "st_max_pending t = st_max_pending s" "st_uuids s = u # st_uuids t"
  using assms by (auto simp: new_uuid_def split: list.splits)

lemma emit_outbox_Inr:
  assumes "emit_outbox env j k p key at0 s = Inr t"
  obtains u s1 r where "new_uuid s = Inr (u, s1)" "insert_outbox r s1 = Inr t" "ob_id r = u" "ob_job r = j"
    "required key ''Outbox idempotency key'' = Inr (ob_key r)" "int (pending_count s) < st_max_pending s"
proof (cases "int (pending_count s) < st_max_pending s")
  case True
  with assms that show ?thesis by (auto simp: emit_outbox_def rbind_Inr_iff)
next
  case False
  with assms show ?thesis by (auto simp: emit_outbox_def rbind_Inr_iff)
qed

lemma moves_emit:
  assumes "emit_outbox env j k p key at0 s = Inr t"
  shows "moves s t"
  using assms
proof (rule emit_outbox_Inr)
  fix u s1 r
  assume a: "new_uuid s = Inr (u, s1)" "insert_outbox r s1 = Inr t" "int (pending_count s) < st_max_pending s"
  then have "int (pending_count s1) < st_max_pending s1" by (simp add: pending_count_def new_uuid_fields)
  with a show "moves s t" using moves_outbox moves_uuid moves_trans by blast
qed

lemma moves_effect_case: "insert_effect_recovery_case route c j cl ev m s = Inr t \<Longrightarrow> moves s t"
  by (auto simp: insert_effect_recovery_case_def rbind_Inr_iff Let_def dest: moves_case
      split: option.splits if_splits)

lemma moves_effect_resolution: "insert_effect_recovery_resolution i c oc ev m s = Inr t \<Longrightarrow> moves s t"
  by (auto simp: insert_effect_recovery_resolution_def rbind_Inr_iff
      intro: moves_trans [OF moves_resolution moves_resolve_case] split: option.splits if_splits)

lemma update_job_Inr:
  "update_job i p f s = Inr (n, t) \<longleftrightarrow>
     t = s\<lparr>st_jobs := update_where (\<lambda>r. jr_id r = i \<and> p r) f (st_jobs s)\<rparr>
     \<and> n = length (filter (\<lambda>r. jr_id r = i \<and> p r) (st_jobs s))
     \<and> (\<forall>r \<in> set (st_jobs s). jr_id r = i \<longrightarrow> p r \<longrightarrow> job_check (f r))"
  by (auto simp: update_job_def Let_def list_all_iff check_violation_def)

lemma update_delivery_Inr:
  "update_delivery i p f s = Inr (n, t) \<Longrightarrow>
     t = s\<lparr>st_deliveries := update_where (\<lambda>d. dv_outbox d = i \<and> p d) f (st_deliveries s)\<rparr>
     \<and> n = length (filter (\<lambda>d. dv_outbox d = i \<and> p d) (st_deliveries s))"
  by (auto simp: update_delivery_def Let_def check_violation_def unique_violation_def split: if_splits)

text \<open>Ending a lease: the one place where a running job leaves that state.\<close>

lemma moves_end_lease:
  assumes l: "l \<in> set (st_leases s)"
    and p: "\<And>r. good s \<Longrightarrow> r \<in> set (st_jobs s) \<Longrightarrow> jr_id r = ls_job l \<Longrightarrow> p r"
    and st: "st \<in> {L_READY, L_COMPLETED, L_FAILED, L_RECOVERY_REQUIRED, L_QUARANTINED}"
      "(st = L_READY) = (ev = None)"
    and ready: "st = L_READY \<Longrightarrow> claims_of s (ls_job l) = []"
    and t: "st_jobs t = update_where (\<lambda>r. jr_id r = ls_job l \<and> p r)
        (\<lambda>r. r\<lparr>jr_state := st, jr_evidence := ev, jr_updated_at := m\<rparr>) (st_jobs s)"
      "st_leases t = filter (\<lambda>r. ls_id r \<noteq> ls_id l) (st_leases s)"
      "st_locks t = filter (\<lambda>k. lk_lease k \<noteq> ls_id l) (st_locks s)"
      "st_claims t = st_claims s" "st_deliveries t = st_deliveries s"
      "st_outbox_receipts t = st_outbox_receipts s" "st_max_pending t = st_max_pending s"
      "audit s \<subseteq> audit t"
  shows "moves s t"
proof -
  have "good t \<and> jobs_advance (st_jobs s) (st_jobs t)" if g: "good s"
  proof
    have core: "store_core s" using g by (simp add: good_def)
    have "\<forall>c \<in> set (st_claims s). cl_job c \<noteq> ls_job l" if "st = L_READY"
      using ready [OF that] by (auto simp: claims_of_def filter_empty_conv)
    then have "store_core t" unfolding t
      by (intro core_end_lease [OF core l]) (use p [OF g] st in auto)
    then show "good t" using g by (simp add: good_def t)
    show "jobs_advance (st_jobs s) (st_jobs t)" unfolding t(1)
    proof (rule jobs_advance_update)
      fix j
      assume j: "j \<in> set (st_jobs s)" "jr_id j = ls_job l \<and> p j"
      from core_okD(7) [OF core l] j core_okD(1) [OF core] have "jr_state j = L_RUNNING"
        by (auto simp: lease_ok_def dest: distinct_key_eq)
      then show "job_step j (j\<lparr>jr_state := st, jr_evidence := ev, jr_updated_at := m\<rparr>)"
        using st step_requeue [of j, where t = m] step_close [of j st, where d = "the ev" and t = m] by (cases ev) auto
    qed
  qed
  then show ?thesis by (simp add: moves_def t)
qed

lemma moves_close_idle:
  assumes p: "\<And>r. p r \<Longrightarrow> jr_state r = L_READY \<and> st = L_FAILED
      \<or> jr_state r = L_RECOVERY_REQUIRED \<and> st \<in> {L_COMPLETED, L_FAILED}"
    and st: "st \<in> {L_COMPLETED, L_FAILED}"
    and u: "update_job i p (\<lambda>r. r\<lparr>jr_state := st, jr_evidence := Some d, jr_updated_at := m\<rparr>) s = Inr (n, t)"
  shows "moves s t"
proof -
  have t: "t = s\<lparr>st_jobs := update_where (\<lambda>r. jr_id r = i \<and> p r)
      (\<lambda>r. r\<lparr>jr_state := st, jr_evidence := Some d, jr_updated_at := m\<rparr>) (st_jobs s)\<rparr>"
    using u by (simp add: update_job_Inr)
  have np: "jr_state r \<noteq> L_RUNNING" if "p r" for r using p [OF that] by auto
  have "store_core t" if "good s"
    unfolding t using that st np by (simp add: good_def) (rule core_close_idle, auto)
  moreover have "jobs_advance (st_jobs s) (st_jobs t)" unfolding t
    using p step_timeout [where d = d and t = m] step_reconcile [where st = st and d = d and t = m]
    by (auto intro!: jobs_advance_update)
  ultimately show ?thesis by (auto simp: moves_def good_def t audit_def)
qed

end
