(* ===== verification/LocalRuntime.thy ===== *)
theory LocalRuntime
  imports StoreInvariant
begin

text \<open>
  Correctness of the local runtime store. Every operation moves a good store to a good store
  along the life cycle of jobs and keeps the audit tables (lemmas \<open>moves_*\<close>); the operations are
  the events of a \<open>ranked_system\<close>, from which the properties over all histories follow.
\<close>

section \<open>Frames\<close>

text \<open>A statement that only adds recovery cases and draws identifiers.\<close>

definition case_frame :: "store \<Rightarrow> store \<Rightarrow> bool" where
  "case_frame s t = (st_jobs t = st_jobs s \<and> st_leases t = st_leases s \<and> st_locks t = st_locks s
     \<and> st_claims t = st_claims s \<and> st_receipts t = st_receipts s \<and> st_outbox t = st_outbox s
     \<and> st_deliveries t = st_deliveries s \<and> st_outbox_receipts t = st_outbox_receipts s
     \<and> st_resolutions t = st_resolutions s \<and> st_slots t = st_slots s
     \<and> st_max_pending t = st_max_pending s)"

lemma case_frame_refl [simp]: "case_frame s s"
  by (simp add: case_frame_def)

lemma case_frame_fields:
  assumes "case_frame s t"
  shows "st_jobs t = st_jobs s" "st_leases t = st_leases s" "st_locks t = st_locks s"
    "st_claims t = st_claims s" "st_receipts t = st_receipts s" "st_outbox t = st_outbox s"
    "st_deliveries t = st_deliveries s" "st_outbox_receipts t = st_outbox_receipts s"
    "st_resolutions t = st_resolutions s" "st_slots t = st_slots s" "st_max_pending t = st_max_pending s"
  using assms by (simp_all add: case_frame_def)

lemma case_frame_trans: "case_frame s t \<Longrightarrow> case_frame t u \<Longrightarrow> case_frame s u"
  by (simp add: case_frame_def)

lemma case_frame_moves: "case_frame s t \<Longrightarrow> moves s t"
  by (intro moves_frame) (auto simp: case_frame_fields audit_def)

lemma new_uuid_frame: "new_uuid s = Inr (u, t) \<Longrightarrow> case_frame s t"
  by (auto simp: new_uuid_def case_frame_def split: list.splits)

lemma insert_case_frame: "insert_case r s = Inr t \<Longrightarrow> case_frame s t"
  by (auto simp: insert_case_def case_frame_def unique_violation_def foreign_key_violation_def
      check_violation_def split: if_splits)

lemma effect_case_frame: "insert_effect_recovery_case route c j cl ev m s = Inr t \<Longrightarrow> case_frame s t"
  by (auto simp: insert_effect_recovery_case_def res_simps Let_def dest: insert_case_frame)

lemma rfold_frame:
  assumes "rfold f s xs = Inr t" and "\<And>u x v. x \<in> set xs \<Longrightarrow> f u x = Inr v \<Longrightarrow> case_frame u v"
  shows "case_frame s t"
proof (rule rfold_invariant [OF assms(1), of "case_frame s"])
  fix u x v
  assume "case_frame s u" "x \<in> set xs" "f u x = Inr v"
  with assms(2) case_frame_trans show "case_frame s v" by blast
qed simp

lemma sweep_claim_frame:
  "sweep_claim l m s0 (s, ds) c = Inr (t, ds') \<Longrightarrow> case_frame s t"
  by (auto simp: sweep_claim_def res_simps dest!: effect_case_frame new_uuid_frame intro: case_frame_trans)

lemma sweep_claims_frame:
  "rfold (sweep_claim l m s0) (s, ds) cs = Inr (t, ds') \<Longrightarrow> case_frame s t"
proof (induction cs arbitrary: s ds)
  case (Cons c cs)
  then obtain u es where "sweep_claim l m s0 (s, ds) c = Inr (u, es)"
    "rfold (sweep_claim l m s0) (u, es) cs = Inr (t, ds')"
    by (auto simp: rbind_Inr_iff)
  with Cons.IH sweep_claim_frame case_frame_trans show ?case by blast
qed simp

text \<open>Publishing an event touches no table but the outbox.\<close>

lemma emit_fields:
  assumes "emit_outbox env j k p key at0 s = Inr t"
  shows "st_jobs t = st_jobs s" "st_leases t = st_leases s" "st_locks t = st_locks s"
    "st_claims t = st_claims s" "st_receipts t = st_receipts s" "st_cases t = st_cases s"
    "st_resolutions t = st_resolutions s" "st_slots t = st_slots s" "st_max_pending t = st_max_pending s"
    "st_outbox_receipts t = st_outbox_receipts s"
  using assms
  by (auto elim!: emit_outbox_Inr simp: insert_outbox_def unique_violation_def foreign_key_violation_def
      new_uuid_fields split: if_splits)

section \<open>Enqueueing\<close>

lemma insert_job_row_Inr:
  "insert_job_row r s = Inr t \<Longrightarrow> t = s\<lparr>st_jobs := st_jobs s @ [r]\<rparr> \<and> jr_id r \<notin> jr_id ` set (st_jobs s)
     \<and> jr_key r \<notin> jr_key ` set (st_jobs s) \<and> job_check r"
  by (auto simp: insert_job_row_def unique_violation_def check_violation_def split: if_splits)

lemma moves_insert_job: "insert_job env j key p mx av tm m s = Inr t \<Longrightarrow> moves s t"
proof -
  assume "insert_job env j key p mx av tm m s = Inr t"
  then obtain r s1 where r: "insert_job_row r s = Inr s1" "jr_state r = L_READY" "jr_attempts r = 0"
      "jr_fencing r = 0"
    and e: "moves s1 t"
    by (auto simp: insert_job_def rbind_Inr_iff dest: moves_emit)
  from insert_job_row_Inr [OF r(1)] r have s1: "s1 = s\<lparr>st_jobs := st_jobs s @ [r]\<rparr>"
    "jr_id r \<notin> jr_id ` set (st_jobs s)" "job_ok r" by (auto simp: job_ok_def job_check_def)
  have "moves s s1"
    using core_add_job [of "st_jobs s" "st_leases s" "st_locks s" "st_claims s" r] s1 r(2)
    by (auto simp: moves_def good_def audit_def jobs_advance_append)
  with e moves_trans show ?thesis by blast
qed

lemma moves_enqueue: "enqueue env clock now key p mx av tm b s = Inr (t, r) \<Longrightarrow> moves s t"
  by (auto simp: enqueue_def res_simps Let_def require_binding_schema_def
      dest!: moves_uuid moves_insert_job intro: moves_trans)

lemma moves_schedule_once: "schedule_once env slot d key p m s = Inr (t, r) \<Longrightarrow> moves s t"
  by (auto simp: schedule_once_def res_simps
      dest!: moves_uuid moves_insert_job moves_slot intro: moves_trans)

section \<open>The recovery transition\<close>

lemma find_lease_Some: "find_lease s i = Some l \<Longrightarrow> l \<in> set (st_leases s) \<and> ls_id l = i"
  unfolding find_lease_def by (rule find_key_Some)

lemma find_job_Some: "find_job s i = Some j \<Longrightarrow> j \<in> set (st_jobs s) \<and> jr_id j = i"
  unfolding find_job_def by (rule find_key_Some)

lemma good_lease_job:
  assumes "good s" "l \<in> set (st_leases s)" "j \<in> set (st_jobs s)" "jr_id j = ls_job l"
  shows "jr_state j = L_RUNNING \<and> jr_fencing j = ls_fencing l"
proof -
  have core: "store_core s" using assms(1) by (simp add: good_def)
  from core_okD(7) [OF core assms(2)] obtain k where "k \<in> set (st_jobs s)" "jr_id k = ls_job l"
    "jr_state k = L_RUNNING" "jr_fencing k = ls_fencing l" by (auto simp: lease_ok_def)
  with distinct_key_eq [OF core_okD(1) [OF core]] assms(3,4) show ?thesis by metis
qed

lemma transition_Inr:
  assumes "transition_running_job_to_recovery env route jid lid fence locks ds te m ob mx s = Inr t"
  obtains l job r s1 where "find_lease s lid = Some l" "ls_job l = jid" "ls_fencing l = fence"
    "find_job s jid = Some job" "jr_state job = L_RUNNING" "jr_fencing job = fence"
    "check_lock_rows env jid lid fence locks = Inr ()"
    "int (pending_count s) < st_max_pending s"
    "s1 = (delete_lease lid (delete_locks lid s))\<lparr>st_jobs :=
       update_where (\<lambda>r. jr_id r = jid \<and> (jr_state r = L_RUNNING \<and> jr_fencing r = fence))
         (\<lambda>r. r\<lparr>jr_state := L_RECOVERY_REQUIRED, jr_evidence := Some te, jr_updated_at := m\<rparr>) (st_jobs s)\<rparr>"
    "insert_outbox r s1 = Inr t"
  using assms that
  by (auto simp: transition_running_job_to_recovery_def rbind_Inr_iff Let_def update_job_Inr
      require_outbox_capacity_def delete_lease_def delete_locks_def
      split: option.splits if_splits prod.splits)

lemma moves_transition:
  assumes "transition_running_job_to_recovery env route jid lid fence locks ds te m ob mx s = Inr t"
  shows "moves s t" "st_leases t = filter (\<lambda>r. ls_id r \<noteq> lid) (st_leases s)"
    "st_cases t = st_cases s"
proof -
  from assms obtain l job r s1 where l: "find_lease s lid = Some l" "ls_job l = jid" "ls_fencing l = fence"
    and cap: "int (pending_count s) < st_max_pending s"
    and s1: "s1 = (delete_lease lid (delete_locks lid s))\<lparr>st_jobs :=
       update_where (\<lambda>r. jr_id r = jid \<and> (jr_state r = L_RUNNING \<and> jr_fencing r = fence))
         (\<lambda>r. r\<lparr>jr_state := L_RECOVERY_REQUIRED, jr_evidence := Some te, jr_updated_at := m\<rparr>) (st_jobs s)\<rparr>"
    and o: "insert_outbox r s1 = Inr t"
    by (rule transition_Inr) blast
  from find_lease_Some [OF l(1)] have lm: "l \<in> set (st_leases s)" "ls_id l = lid" by auto
  have "moves s s1"
    by (rule moves_end_lease [where l = l and st = L_RECOVERY_REQUIRED and ev = "Some te" and m = m
          and p = "\<lambda>r. jr_state r = L_RUNNING \<and> jr_fencing r = fence"])
      (use lm l good_lease_job [OF _ lm(1)] in \<open>auto simp: s1 delete_lease_def delete_locks_def audit_def\<close>)
  moreover have "moves s1 t"
    using cap by (intro moves_outbox [OF o]) (simp add: s1 pending_count_def delete_lease_def delete_locks_def)
  ultimately show "moves s t" by (rule moves_trans)
  show "st_leases t = filter (\<lambda>r. ls_id r \<noteq> lid) (st_leases s)" "st_cases t = st_cases s"
    using o by (auto simp: insert_outbox_def unique_violation_def foreign_key_violation_def s1
        delete_lease_def delete_locks_def split: if_splits)
qed

section \<open>The sweep\<close>

lemma release_lease_moves:
  assumes "release_lease env l m st ev s = Inr t" and "l \<in> set (st_leases s)"
    and "st \<in> {L_READY, L_COMPLETED, L_FAILED}" "(st = L_READY) = (ev = None)"
    and "st = L_READY \<Longrightarrow> claims_of s (ls_job l) = []"
  shows "moves s t" "st_leases t = filter (\<lambda>r. ls_id r \<noteq> ls_id l) (st_leases s)"
proof -
  define s1 where "s1 = delete_lease (ls_id l) (delete_locks (ls_id l) (s\<lparr>st_jobs :=
    update_where (\<lambda>r. jr_id r = ls_job l \<and> True)
      (\<lambda>r. r\<lparr>jr_state := st, jr_evidence := ev, jr_updated_at := m\<rparr>) (st_jobs s)\<rparr>))"
  from assms(1) have e: "emit_outbox env (ls_job l) (''job.'' @ local_state_value st)
       (PDict [(PStr ''job_id'', PStr (ls_job l)), (PStr ''state'', PStr (local_state_value st)),
         (PStr ''fencing_token'', PInt (ls_fencing l))])
       (''job:'' @ ls_job l @ '':recovery:'' @ int_str (ls_fencing l) @ '':'' @ local_state_value st)
       m s1 = Inr t"
    by (auto simp: release_lease_def res_simps update_job_Inr s1_def)
  have "moves s s1"
    by (rule moves_end_lease [where l = l and st = st and ev = ev and m = m and p = "\<lambda>_. True"])
      (use assms in \<open>auto simp: s1_def delete_lease_def delete_locks_def audit_def\<close>)
  with moves_emit [OF e] moves_trans show "moves s t" by blast
  show "st_leases t = filter (\<lambda>r. ls_id r \<noteq> ls_id l) (st_leases s)"
    using emit_fields(2) [OF e] by (simp add: s1_def delete_lease_def delete_locks_def)
qed

lemma sweep_lease_moves:
  assumes "sweep_lease env m (s, w) l = Inr (t, w')" and l: "l \<in> set (st_leases s)"
  shows "moves s t \<and> st_leases t = filter (\<lambda>r. ls_id r \<noteq> ls_id l) (st_leases s)"
proof -
  show ?thesis
  proof (cases "sorted_unresolved s (ls_job l) = []")
    case False
    with assms(1) obtain s1 ds te s2 ob locks where
      a: "rfold (sweep_claim l m s) (s, []) (sorted_unresolved s (ls_job l)) = Inr (s1, ds)"
      "new_uuid s1 = Inr (ob, s2)"
      "transition_running_job_to_recovery env SweepRecovery (ls_job l) (ls_id l) (ls_fencing l) locks ds
         te m ob (st_max_pending s2) s2 = Inr t"
      by (auto simp: sweep_lease_def Let_def rbind_Inr_iff case_prod_Inr_iff)
    have f: "case_frame s s2"
      using sweep_claims_frame [OF a(1)] new_uuid_frame [OF a(2)] case_frame_trans by blast
    with moves_transition [OF a(3)] case_frame_moves [OF f] moves_trans case_frame_fields(2) [OF f]
    show ?thesis by metis
  next
    case no: True
    have "\<exists>st ev. release_lease env l m st ev s = Inr t \<and> st \<in> {L_READY, L_COMPLETED, L_FAILED}
        \<and> (st = L_READY) = (ev = None) \<and> (st = L_READY \<longrightarrow> claims_of s (ls_job l) = [])"
    proof (cases "claims_of s (ls_job l) = []")
      case False
      with assms(1) no obtain d where "release_lease env l m
          (if has_failed_receipt s (ls_job l) then L_FAILED else L_COMPLETED) (Some d) s = Inr t"
        by (auto simp: sweep_lease_def Let_def rbind_Inr_iff)
      then show ?thesis by (cases "has_failed_receipt s (ls_job l)") auto
    next
      case True
      with assms(1) no obtain job where job: "find_job s (ls_job l) = Some job"
        by (auto simp: sweep_lease_def Let_def case_option_Inr_iff)
      define dead where "dead = ((case jr_timeout_at job of None \<Rightarrow> False | Some t \<Rightarrow> t \<le> m)
        \<or> jr_attempts job \<ge> jr_max_attempts job)"
      have "\<exists>ev. release_lease env l m (if dead then L_FAILED else L_READY) ev s = Inr t \<and> (ev = None) = (\<not> dead)"
        using assms(1) no True job
        by (cases dead) (auto simp: sweep_lease_def Let_def rbind_Inr_iff dead_def)
      with True show ?thesis by (cases dead) auto
    qed
    with release_lease_moves [OF _ l] show ?thesis by blast
  qed
qed

lemma sweep_leases_moves:
  assumes "rfold (sweep_lease env m) (s, w) ls = Inr (t, w')" "set ls \<subseteq> set (st_leases s)"
    "distinct (map ls_id ls)"
  shows "moves s t \<and> st_leases t = filter (\<lambda>r. ls_id r \<notin> ls_id ` set ls) (st_leases s)"
  using assms
proof (induction ls arbitrary: s w)
  case (Cons l ls)
  from Cons.prems(1) obtain u v where u: "sweep_lease env m (s, w) l = Inr (u, v)"
    "rfold (sweep_lease env m) (u, v) ls = Inr (t, w')" by (auto simp: rbind_Inr_iff)
  from sweep_lease_moves [OF u(1)] Cons.prems have m: "moves s u"
    and ls: "st_leases u = filter (\<lambda>r. ls_id r \<noteq> ls_id l) (st_leases s)" by auto
  have "set ls \<subseteq> set (st_leases u)" using Cons.prems ls by (auto simp: rev_image_eqI)
  with Cons.IH [OF u(2)] Cons.prems(3) m ls show ?case
    by (auto intro: moves_trans simp: filter_filter conj_commute intro!: filter_cong)
qed simp

lemma sweep_ready_moves: "sweep_ready_job env m s j = Inr t \<Longrightarrow> moves s t \<and> st_leases t = st_leases s"
proof -
  assume a: "sweep_ready_job env m s j = Inr t"
  then obtain d n s1 where u: "update_job (jr_id j) (\<lambda>r. jr_state r = L_READY)
      (\<lambda>r. r\<lparr>jr_state := L_FAILED, jr_evidence := Some d, jr_updated_at := m\<rparr>) s = Inr (n, s1)"
    and e: "moves s1 t" "st_leases t = st_leases s1"
    by (auto simp: sweep_ready_job_def res_simps dest: moves_emit emit_fields(2))
  have "moves s s1" by (rule moves_close_idle [OF _ _ u]) auto
  with e u moves_trans show ?thesis by (auto simp: update_job_Inr)
qed

lemma sweep_ready_list_moves:
  "rfold (sweep_ready_job env m) s js = Inr t \<Longrightarrow> moves s t \<and> st_leases t = st_leases s"
  by (induction js arbitrary: s) (auto simp: rbind_Inr_iff dest!: sweep_ready_moves intro: moves_trans)

lemma distinct_map_sort_key: "distinct (map g (sort_key f xs)) = distinct (map g xs)"
proof (rule mset_eq_imp_distinct_iff)
  show "mset (map g (sort_key f xs)) = mset (map g xs)" by simp
qed

lemma swept_leases_ok:
  assumes "good s"
  shows "set (swept_leases m os s) \<subseteq> set (st_leases s)" "distinct (map ls_id (swept_leases m os s))"
proof -
  have "distinct (map ls_id (st_leases s))" using assms by (auto simp: good_def dest: core_okD(2))
  then show "distinct (map ls_id (swept_leases m os s))"
    unfolding swept_leases_def distinct_map_sort_key by (rule distinct_map_filter)
qed (auto simp: swept_leases_def)

lemma recover_Inr:
  assumes "recover env m os s = Inr (t, w)"
  obtains s1 w1 where "rfold (sweep_lease env m) (s, empty_sweep) (swept_leases m os s) = Inr (s1, w1)"
    "rfold (sweep_ready_job env m) s1 (sort_key jr_id (filter (ready_timed_out m) (st_jobs s1))) = Inr t"
  using assms by (auto simp: recover_def res_simps Let_def)

lemma moves_recover: "recover env m os s = Inr (t, w) \<Longrightarrow> moves s t"
proof (erule recover_Inr)
  fix s1 w1
  assume a: "rfold (sweep_lease env m) (s, empty_sweep) (swept_leases m os s) = Inr (s1, w1)"
    "rfold (sweep_ready_job env m) s1 (sort_key jr_id (filter (ready_timed_out m) (st_jobs s1))) = Inr t"
  have "moves s s1" if "good s"
    using sweep_leases_moves [OF a(1)] swept_leases_ok [OF that] by blast
  then have "moves s s1" by (auto simp: moves_def)
  with sweep_ready_list_moves [OF a(2)] moves_trans show "moves s t" by blast
qed

section \<open>Claiming\<close>

lemma insert_lock_Inr:
  "insert_lock k s = Inr t \<Longrightarrow> t = s\<lparr>st_locks := st_locks s @ [k]\<rparr> \<and> lk_resource k \<notin> lk_resource ` set (st_locks s)"
  by (auto simp: insert_lock_def unique_violation_def foreign_key_violation_def split: if_splits)

lemma insert_lease_Inr:
  "insert_lease l s = Inr t \<Longrightarrow> t = s\<lparr>st_leases := st_leases s @ [l]\<rparr> \<and> ls_id l \<notin> ls_id ` set (st_leases s)
     \<and> ls_job l \<notin> ls_job ` set (st_leases s)"
  by (auto simp: insert_lease_def unique_violation_def foreign_key_violation_def check_violation_def
      split: if_splits)

lemma insert_locks_moves:
  assumes "rfold (\<lambda>t r. insert_lock \<lparr>lk_resource = r, lk_job = ls_job l, lk_lease = ls_id l,
      lk_fencing = ls_fencing l, lk_acquired_at = m\<rparr> t) s rs = Inr t" "l \<in> set (st_leases s)"
  shows "moves s t \<and> st_leases t = st_leases s \<and> st_jobs t = st_jobs s"
  using assms
proof (induction rs arbitrary: s)
  case (Cons r rs)
  let ?k = "\<lparr>lk_resource = r, lk_job = ls_job l, lk_lease = ls_id l, lk_fencing = ls_fencing l,
    lk_acquired_at = m\<rparr>"
  from Cons.prems(1) obtain u where u: "insert_lock ?k s = Inr u"
    "rfold (\<lambda>t r. insert_lock \<lparr>lk_resource = r, lk_job = ls_job l, lk_lease = ls_id l,
      lk_fencing = ls_fencing l, lk_acquired_at = m\<rparr> t) u rs = Inr t" by (auto simp: rbind_Inr_iff)
  from insert_lock_Inr [OF u(1)] have e: "u = s\<lparr>st_locks := st_locks s @ [?k]\<rparr>"
    "r \<notin> lk_resource ` set (st_locks s)" by auto
  have "lock_ok (st_leases s) ?k" using Cons.prems(2) by (auto simp: lock_ok_def)
  then have "moves s u" using core_add_lock [of "st_jobs s" "st_leases s" "st_locks s" "st_claims s" ?k] e
    by (auto simp: moves_def good_def audit_def)
  with Cons.IH [OF u(2)] Cons.prems(2) e show ?case by (auto intro: moves_trans)
qed simp

lemma select_job_Some:
  "select_job m ops j s = Some r \<Longrightarrow> r \<in> set (st_jobs s) \<and> claimable m ops j r"
proof -
  define xs where "xs = sort_key (\<lambda>r. (jr_available_at r, jr_created_at r, jr_id r))
    (filter (claimable m ops j) (st_jobs s))"
  assume "select_job m ops j s = Some r"
  then have "r \<in> set xs" unfolding select_job_def xs_def [symmetric] by (cases xs) auto
  then show ?thesis by (simp add: xs_def)
qed

lemma start_job_Inr:
  assumes "start_job r owner pid token secs rs m s = Inr (t, w)"
  obtains lid s1 e l s3 where "new_uuid s = Inr (lid, s1)" "add_delta m (secs * 1000000) = Inr e"
    "l = \<lparr>ls_id = lid, ls_job = jr_id r, ls_owner = owner, ls_pid = pid, ls_token = token,
      ls_fencing = jr_fencing r + 1, ls_heartbeat_at = m, ls_expires_at = e\<rparr>"
    "insert_lease l (s1\<lparr>st_jobs := update_where (\<lambda>j. jr_id j = jr_id r \<and> jr_state j = L_READY)
        (\<lambda>j. j\<lparr>jr_state := L_RUNNING, jr_attempts := jr_attempts j + 1, jr_fencing := jr_fencing r + 1,
          jr_updated_at := m\<rparr>) (st_jobs s1)\<rparr>) = Inr s3"
    "rfold (\<lambda>t resource. insert_lock \<lparr>lk_resource = resource, lk_job = ls_job l, lk_lease = ls_id l,
        lk_fencing = ls_fencing l, lk_acquired_at = m\<rparr> t) s3 rs = Inr t"
    "\<exists>job l'. find_job t (jr_id r) = Some job \<and> find_lease t lid = Some l'
      \<and> w = Some \<lparr>cw_job = job_view job, cw_lease = lease_view l'\<rparr>"
  using assms that
  by (fastforce simp: start_job_def Let_def res_simps update_job_Inr read_job_def)

lemma moves_start_job:
  assumes "start_job r owner pid token secs rs m s = Inr (t, w)" "claimable m ops j r" "r \<in> set (st_jobs s)"
  shows "moves s t"
  using assms(1)
proof (rule start_job_Inr)
  fix lid s1 e l s3
  let ?f = "\<lambda>j. j\<lparr>jr_state := L_RUNNING, jr_attempts := jr_attempts j + 1, jr_fencing := jr_fencing r + 1,
    jr_updated_at := m\<rparr>"
  let ?sel = "\<lambda>j. jr_id j = jr_id r \<and> jr_state j = L_READY"
  assume a: "new_uuid s = Inr (lid, s1)"
    "l = \<lparr>ls_id = lid, ls_job = jr_id r, ls_owner = owner, ls_pid = pid, ls_token = token,
      ls_fencing = jr_fencing r + 1, ls_heartbeat_at = m, ls_expires_at = e\<rparr>"
    "insert_lease l (s1\<lparr>st_jobs := update_where ?sel ?f (st_jobs s1)\<rparr>) = Inr s3"
    "rfold (\<lambda>t resource. insert_lock \<lparr>lk_resource = resource, lk_job = ls_job l, lk_lease = ls_id l,
        lk_fencing = ls_fencing l, lk_acquired_at = m\<rparr> t) s3 rs = Inr t"
  note l = insert_lease_Inr [OF a(3)]
  have r: "jr_state r = L_READY" "jr_attempts r < jr_max_attempts r"
    using assms(2) by (auto simp: claimable_def)
  have "moves s1 s3"
  proof -
    have "good s3 \<and> jobs_advance (st_jobs s1) (st_jobs s3)" if g: "good s1"
    proof
      have core: "store_core s1" using g by (simp add: good_def)
      have "core_ok (update_where ?sel ?f (st_jobs s1)) (st_leases s1 @ [l]) (st_locks s1) (st_claims s1)"
        by (rule core_start [OF core]) (use assms(3) r l new_uuid_fields [OF a(1)] in \<open>auto simp: a(2)\<close>)
      then show "good s3" using g l by (auto simp: good_def)
      have "job_step k (?f k)" if "k \<in> set (st_jobs s1)" "?sel k" for k
      proof -
        have "k = r" using that assms(3) distinct_key_eq [OF core_okD(1) [OF core]] new_uuid_fields(1) [OF a(1)]
          by auto
        then show ?thesis using step_start [of r] r by auto
      qed
      then show "jobs_advance (st_jobs s1) (st_jobs s3)" using l by (auto intro!: jobs_advance_update)
    qed
    then show ?thesis using l by (auto simp: moves_def audit_def)
  qed
  moreover have "moves s3 t" using insert_locks_moves [OF a(4)] l by auto
  ultimately show "moves s t" using moves_uuid [OF a(1)] moves_trans by blast
qed

lemma claim_next_Inr:
  assumes "claim_next env o0 pid tok secs rs ops j m s = Inr (t, w)"
  obtains (none) "t = s" "w = None"
  | (tx) owner token items ops' where "claim_next_tx env owner pid token secs items ops' j m s = Inr (t, w)"
      "required o0 ''Owner'' = Inr owner" "required tok ''Owner token'' = Inr token"
proof -
  from assms obtain owner token items ops' where r: "required o0 ''Owner'' = Inr owner"
      "required tok ''Owner token'' = Inr token"
    and c: "(case claim_next_tx env owner pid token secs (sort (remdups items)) ops' j m s of
       Inl e \<Rightarrow> if lock_conflict e then Inr (s, None) else Inl e | Inr x \<Rightarrow> Inr x) = Inr (t, w)"
    unfolding claim_next_def Let_def rbind_Inr_iff if_Inl_eq_Inr by blast
  show thesis
  proof (cases "claim_next_tx env owner pid token secs (sort (remdups items)) ops' j m s")
    case (Inl e)
    with c show thesis by (intro none) (auto split: if_splits)
  next
    case (Inr x)
    with c r show thesis by (intro tx) auto
  qed
qed

lemma moves_claim_next:
  assumes "claim_next env o0 pid tok secs rs ops j m s = Inr (t, w)"
  shows "moves s t"
  using assms
proof (cases rule: claim_next_Inr)
  case (tx owner token items ops')
  then obtain s1 w1 where "recover env m [] s = Inr (s1, w1)" "moves s1 t"
    by (auto simp: claim_next_tx_def res_simps dest!: select_job_Some intro: moves_start_job)
  with moves_recover moves_trans show ?thesis by blast
qed simp

section \<open>Working under a lease\<close>

lemma moves_heartbeat: "heartbeat lid o0 tok f secs m s = Inr (t, l) \<Longrightarrow> moves s t"
proof -
  assume "heartbeat lid o0 tok f secs m s = Inr (t, l)"
  then obtain i e where t: "t = touch_lease i m e s"
    by (auto simp: heartbeat_def Let_def res_simps)
  show ?thesis unfolding t
    using core_touch_lease [of "st_jobs s" "st_leases s" "st_locks s" "st_claims s"]
    by (auto simp: moves_def good_def touch_lease_def audit_def)
qed

lemma live_leaseD:
  assumes "live_lease w m s"
  obtains l where "l \<in> set (st_leases s)" "ls_id l = ll_id (cw_lease w)" "ls_job l = lj_id (cw_job w)"
    "ls_fencing l = ll_fencing_token (cw_lease w)" "m < ls_expires_at l"
    "ls_owner l = ll_owner_id (cw_lease w)" "ls_token l = ll_owner_token (cw_lease w)"
  using assms that by (auto simp: live_lease_def split: option.splits dest!: find_lease_Some)

lemma claim_effect_Inr:
  assumes "claim_effect w op ed key m s = Inr (t, c, new)"
  obtains (replay) "t = s" "\<not> new" "live_lease w m s"
  | (fresh) cid s1 row where "new" "live_lease w m s" "new_uuid s = Inr (cid, s1)" "insert_claim row s1 = Inr t"
      "cl_job row = lj_id (cw_job w)" "cl_fencing row = ll_fencing_token (cw_lease w)"
      "cl_lease row = ll_id (cw_lease w)"
  using assms that by (auto simp: claim_effect_def Let_def res_simps)

lemma insert_claim_Inr:
  "insert_claim c s = Inr t \<Longrightarrow> t = s\<lparr>st_claims := st_claims s @ [c]\<rparr> \<and> cl_id c \<notin> cl_id ` set (st_claims s)"
  by (auto simp: insert_claim_def unique_violation_def foreign_key_violation_def split: if_splits)

lemma moves_claim_effect:
  assumes "claim_effect w op ed key m s = Inr (t, c, new)"
  shows "moves s t"
  using assms
proof (cases rule: claim_effect_Inr)
  case (fresh cid s1 row)
  from fresh(2) obtain l where l: "l \<in> set (st_leases s)" "ls_job l = lj_id (cw_job w)"
    "ls_fencing l = ll_fencing_token (cw_lease w)" by (rule live_leaseD)
  have "claim_ok (st_jobs s1) row" if "good s1"
  proof -
    have "lease_ok (st_jobs s1) l" using that l(1) new_uuid_fields(2) [OF fresh(3)]
      by (auto simp: good_def dest: core_okD(7))
    then show ?thesis using fresh l by (auto simp: lease_ok_def claim_ok_def)
  qed
  then have "moves s1 t"
    using insert_claim_Inr [OF fresh(4)] core_add_claim [of "st_jobs s1" "st_leases s1" "st_locks s1" "st_claims s1" row]
    by (auto simp: moves_def good_def audit_def)
  with moves_uuid [OF fresh(3)] moves_trans show ?thesis by blast
qed simp

lemma moves_record_receipt: "record_receipt c st ev m s = Inr (t, r) \<Longrightarrow> moves s t"
  by (auto simp: record_receipt_def Let_def res_simps dest!: moves_uuid moves_receipt moves_effect_case
      intro: moves_trans)

lemma finish_cases_frame: "finish_cases j m s = Inr t \<Longrightarrow> case_frame s t"
  unfolding finish_cases_def
  by (rule rfold_frame) (auto simp: res_simps dest!: effect_case_frame new_uuid_frame intro: case_frame_trans)

lemma moves_finish_recovery: "finish_recovery env w m s = Inr (t, j) \<Longrightarrow> moves s t"
proof -
  assume "finish_recovery env w m s = Inr (t, j)"
  then obtain s1 s2 ob te ds locks where
    "(if open_cases (lj_id (cw_job w)) s = [] then finish_cases (lj_id (cw_job w)) m s else Inr s) = Inr s1"
    and a: "new_uuid s1 = Inr (ob, s2)"
    "transition_running_job_to_recovery env FinishRecovery (lj_id (cw_job w)) (ll_id (cw_lease w))
      (ll_fencing_token (cw_lease w)) locks ds te m ob (st_max_pending s2) s2 = Inr t"
    unfolding finish_recovery_def Let_def rbind_Inr_iff case_prod_Inr_iff by auto
  then have "case_frame s s1" by (auto dest: finish_cases_frame split: if_splits)
  with a show ?thesis using case_frame_moves moves_uuid moves_transition(1) moves_trans by metis
qed

text \<open>A worker ends its lease: the locks and the lease go, then the job gets its final state.\<close>

lemma moves_close_lease:
  assumes "live_lease w m s" "st \<in> {L_COMPLETED, L_FAILED, L_QUARANTINED}"
    and "update_job (lj_id (cw_job w)) (\<lambda>r. jr_state r = L_RUNNING)
      (\<lambda>r. r\<lparr>jr_state := st, jr_evidence := Some ev, jr_updated_at := m\<rparr>)
      (delete_lease (ll_id (cw_lease w)) (delete_locks (ll_id (cw_lease w)) s)) = Inr (n, t)"
  shows "moves s t"
proof -
  from assms(1) obtain l where l: "l \<in> set (st_leases s)" "ls_id l = ll_id (cw_lease w)"
    "ls_job l = lj_id (cw_job w)" by (rule live_leaseD)
  show ?thesis
    by (rule moves_end_lease [where l = l and st = st and ev = "Some ev" and m = m
          and p = "\<lambda>r. jr_state r = L_RUNNING"])
      (use assms(2,3) l good_lease_job [OF _ l(1)] in
        \<open>auto simp: update_job_Inr delete_lease_def delete_locks_def audit_def\<close>)
qed

lemma finish_Inr:
  assumes "finish env w st ev m s = Inr (t, j)"
  obtains (recovery) "st = L_RECOVERY_REQUIRED" "live_lease w m s" "finish_recovery env w m s = Inr (t, j)"
  | (close) d n s1 where "st \<in> {L_COMPLETED, L_FAILED}" "live_lease w m s" "ev = Some d"
      "sorted_unresolved s (lj_id (cw_job w)) = []"
      "st = L_COMPLETED \<Longrightarrow> \<not> has_failed_receipt s (lj_id (cw_job w))"
      "update_job (lj_id (cw_job w)) (\<lambda>r. jr_state r = L_RUNNING)
        (\<lambda>r. r\<lparr>jr_state := st, jr_evidence := Some d, jr_updated_at := m\<rparr>)
        (delete_lease (ll_id (cw_lease w)) (delete_locks (ll_id (cw_lease w)) s)) = Inr (n, s1)"
      "emit_outbox env (lj_id (cw_job w)) (''job.'' @ local_state_value st)
        (PDict [(PStr ''job_id'', PStr (lj_id (cw_job w))), (PStr ''state'', PStr (local_state_value st))])
        (''job:'' @ lj_id (cw_job w) @ '':terminal'') m s1 = Inr t"
proof (cases "sorted_unresolved s (lj_id (cw_job w)) = []")
  case False
  with assms show thesis
    by (intro recovery) (auto simp: finish_def Let_def rbind_Inr_iff if_Inl_eq_Inr split: if_splits)
next
  case True
  with assms have st: "st \<in> {L_COMPLETED, L_FAILED}"
    by (auto simp: finish_def Let_def rbind_Inr_iff split: if_splits)
  with assms obtain d where ev: "ev = Some d"
    by (cases ev) (auto simp: finish_def Let_def)
  have live: "live_lease w m s" using assms st ev
    by (auto simp: finish_def Let_def rbind_Inr_iff split: if_splits)
  have ok: "\<not> has_failed_receipt s (lj_id (cw_job w))" if "st = L_COMPLETED"
    using assms ev True that live by (auto simp: finish_def Let_def rbind_Inr_iff split: if_splits)
  define u where "u = update_job (lj_id (cw_job w)) (\<lambda>r. jr_state r = L_RUNNING)
    (\<lambda>r. r\<lparr>jr_state := st, jr_evidence := Some d, jr_updated_at := m\<rparr>)
    (delete_lease (ll_id (cw_lease w)) (delete_locks (ll_id (cw_lease w)) s))"
  obtain n s1 where u: "u = Inr (n, s1)" and e: "emit_outbox env (lj_id (cw_job w)) (''job.'' @ local_state_value st)
      (PDict [(PStr ''job_id'', PStr (lj_id (cw_job w))), (PStr ''state'', PStr (local_state_value st))])
      (''job:'' @ lj_id (cw_job w) @ '':terminal'') m s1 = Inr t"
  proof -
    from assms st True live ok ev have "rbind u (\<lambda>(n, s1). if n \<noteq> 1 then Inl (ConcurrencyConflict ''Local finish running job ister'')
        else rbind (emit_outbox env (lj_id (cw_job w)) (''job.'' @ local_state_value st)
      (PDict [(PStr ''job_id'', PStr (lj_id (cw_job w))), (PStr ''state'', PStr (local_state_value st))])
      (''job:'' @ lj_id (cw_job w) @ '':terminal'') m s1) (\<lambda>s2. rbind (read_job s2 (lj_id (cw_job w))) (\<lambda>job. Inr (s2, job)))) = Inr (t, j)"
      by (cases "parse_digest d") (auto simp: finish_def Let_def u_def)
    then show thesis using that unfolding rbind_Inr_iff case_prod_Inr_iff if_Inl_eq_Inr by blast
  qed
  show thesis by (rule close [OF st live ev True ok u [unfolded u_def] e])
qed

lemma moves_finish:
  assumes "finish env w st ev m s = Inr (t, j)"
  shows "moves s t"
  using assms
proof (cases rule: finish_Inr)
  case recovery
  then show ?thesis using moves_finish_recovery by blast
next
  case (close d n s1)
  have "moves s s1" by (rule moves_close_lease [OF close(2) _ close(6)]) (use close(1) in auto)
  with moves_emit [OF close(7)] moves_trans show ?thesis by blast
qed

lemma moves_quarantine:
  assumes "quarantine env w ev m s = Inr (t, j)"
  shows "moves s t"
proof -
  from assms obtain n s1 where a: "live_lease w m s"
    "update_job (lj_id (cw_job w)) (\<lambda>r. jr_state r = L_RUNNING)
      (\<lambda>r. r\<lparr>jr_state := L_QUARANTINED, jr_evidence := Some ev, jr_updated_at := m\<rparr>)
      (delete_lease (ll_id (cw_lease w)) (delete_locks (ll_id (cw_lease w)) s)) = Inr (n, s1)" "moves s1 t"
    by (auto simp: quarantine_def Let_def rbind_Inr_iff case_prod_Inr_iff if_Inl_eq_Inr dest: moves_emit)
  from moves_close_lease [OF a(1) _ a(2)] a(3) moves_trans show ?thesis by blast
qed

section \<open>Resolving and reconciling\<close>

lemma moves_update_delivery:
  assumes "update_delivery i p f s = Inr (n, t)" and f: "\<And>d. dv_outbox (f d) = dv_outbox d"
    and keep: "\<And>d. d \<in> set (st_deliveries s) \<Longrightarrow> dv_outbox d = i \<Longrightarrow> p d \<Longrightarrow> undelivered (f d) \<Longrightarrow> good s \<Longrightarrow> undelivered d"
    and receipt: "\<And>d. d \<in> set (st_deliveries s) \<Longrightarrow> dv_outbox d = i \<Longrightarrow> p d \<Longrightarrow> good s \<Longrightarrow>
      dv_state (f d) \<in> {D_DELIVERED, D_FAILED, D_RECOVERY_REQUIRED} \<Longrightarrow> i \<in> or_outbox ` set (st_outbox_receipts s)"
  shows "moves s t"
proof -
  have t: "t = s\<lparr>st_deliveries := update_where (\<lambda>d. dv_outbox d = i \<and> p d) f (st_deliveries s)\<rparr>"
    using update_delivery_Inr [OF assms(1)] by simp
  have "outbox_ok (update_where (\<lambda>d. dv_outbox d = i \<and> p d) f (st_deliveries s)) (st_outbox_receipts s) (st_max_pending s)"
    if g: "good s"
    by (rule outbox_update [where rs = "st_outbox_receipts s"])
      (use g f keep receipt in \<open>auto simp: good_def\<close>)
  then show ?thesis by (auto simp: moves_def good_def t audit_def)
qed

lemma good_delivery_receipt:
  "good s \<Longrightarrow> d \<in> set (st_deliveries s) \<Longrightarrow> dv_state d = D_RECOVERY_REQUIRED
     \<Longrightarrow> dv_outbox d \<in> or_outbox ` set (st_outbox_receipts s)"
  by (auto simp: good_def outbox_ok_def)

lemma moves_resolve_recovery: "resolve_recovery c oc ev m s = Inr (t, r) \<Longrightarrow> moves s t"
proof -
  assume a: "resolve_recovery c oc ev m s = Inr (t, r)"
  have d: "moves u v" if "update_delivery i (\<lambda>d. dv_state d = D_RECOVERY_REQUIRED)
      (\<lambda>d. d\<lparr>dv_state := (if oc = O_DELIVERED then D_DELIVERED else D_FAILED), dv_updated_at := m\<rparr>) u = Inr (n, v)"
    for i u n v
    by (rule moves_update_delivery [OF that]) (use good_delivery_receipt in \<open>auto split: if_splits\<close>)
  from a show ?thesis
    by (auto simp: resolve_recovery_def Let_def rbind_Inr_iff case_prod_Inr_iff case_option_Inr_iff if_Inr_iff
        dest!: moves_uuid moves_effect_resolution moves_resolution moves_resolve_case d intro: moves_trans)
qed

lemma moves_reconcile_job:
  assumes "reconcile_effect_recovery_job env j cs st te m ob mx s = Inr t"
  shows "moves s t"
proof -
  from assms obtain r n s1 where st: "st \<in> {L_COMPLETED, L_FAILED}"
    and u: "update_job j (\<lambda>r. jr_state r = L_RECOVERY_REQUIRED)
      (\<lambda>r. r\<lparr>jr_state := st, jr_evidence := Some te, jr_updated_at := m\<rparr>) s = Inr (n, s1)"
    and o: "insert_outbox r s1 = Inr t" and cap: "int (pending_count s) < st_max_pending s"
    unfolding reconcile_effect_recovery_job_def rbind_Inr_iff case_prod_Inr_iff if_Inl_eq_Inr
      require_outbox_capacity_def by (metis not_le_imp_less)
  have "moves s s1" by (rule moves_close_idle [OF _ st u]) (use st in auto)
  moreover have "moves s1 t" using cap u by (intro moves_outbox [OF o]) (simp add: update_job_Inr pending_count_def)
  ultimately show ?thesis by (rule moves_trans)
qed

lemma moves_reconcile_recovery: "reconcile_recovery env j m s = Inr (t, r) \<Longrightarrow> moves s t"
  by (auto simp: reconcile_recovery_def rbind_Inr_iff case_prod_Inr_iff case_option_Inr_iff if_Inr_iff
      dest!: moves_uuid moves_reconcile_job intro: moves_trans)


end
