(* ===== verification/OutboxMoves.thy ===== *)
theory OutboxMoves
  imports LocalRuntime
begin

text \<open>
  The delivery operations of \<open>LocalOutbox\<close> move a good store to a good store: a delivery leaves the
  undelivered states only together with its receipt, and nothing but a new event adds to them.
\<close>

section \<open>Deliveries\<close>

lemma insert_outbox_receipt_Inr:
  "insert_outbox_receipt r s = Inr t \<Longrightarrow> t = s\<lparr>st_outbox_receipts := st_outbox_receipts s @ [r]\<rparr>
     \<and> or_outbox r \<notin> or_outbox ` set (st_outbox_receipts s)"
  by (auto simp: insert_outbox_receipt_def unique_violation_def foreign_key_violation_def check_violation_def
      split: if_splits)

text \<open>A receipt is only inserted for a delivery that had none, hence for one still undelivered: the
  new state never adds to the undelivered events.\<close>

lemma moves_deliver:
  assumes r: "insert_outbox_receipt r s = Inr u"
    and d: "update_delivery (or_outbox r) (\<lambda>_. True) (\<lambda>d. d\<lparr>dv_state := st, dv_updated_at := m\<rparr>) u = Inr (n, t)"
  shows "moves s t"
proof -
  let ?ds = "update_where (\<lambda>d. dv_outbox d = or_outbox r \<and> True) (\<lambda>d. d\<lparr>dv_state := st, dv_updated_at := m\<rparr>)
    (st_deliveries s)"
  note u = insert_outbox_receipt_Inr [OF r]
  have t: "t = s\<lparr>st_outbox_receipts := st_outbox_receipts s @ [r], st_deliveries := ?ds\<rparr>"
    using update_delivery_Inr [OF d] u by simp
  have "outbox_ok ?ds (st_outbox_receipts s @ [r]) (st_max_pending s)" if "good s"
  proof (rule outbox_update [where rs = "st_outbox_receipts s"])
    fix d
    assume d: "d \<in> set (st_deliveries s)" "dv_outbox d = or_outbox r \<and> True"
    with u have "dv_outbox d \<notin> or_outbox ` set (st_outbox_receipts s)" by simp
    with d(1) \<open>good s\<close> have "dv_state d \<notin> {D_DELIVERED, D_FAILED, D_RECOVERY_REQUIRED}"
      unfolding good_def outbox_ok_def by blast
    then show "undelivered d" by (cases "dv_state d") auto
  qed (use \<open>good s\<close> in \<open>auto simp: good_def\<close>)
  then show ?thesis by (auto simp: moves_def good_def t audit_def)
qed

lemma moves_deliver_row:
  assumes "insert_outbox_receipt \<lparr>or_id = i, or_outbox = b, or_claim = c, or_fencing = f, or_status = q,
      or_evidence = e, or_created_at = m'\<rparr> s = Inr u"
    "update_delivery b (\<lambda>_. True) (\<lambda>d. d\<lparr>dv_state := st, dv_updated_at := m\<rparr>) u = Inr (n, t)"
  shows "moves s t"
  using moves_deliver [OF assms(1)] assms(2) by simp

lemma moves_abandon: "abandon_delivery m s x = Inr t \<Longrightarrow> moves s t"
  by (cases x) (auto simp: abandon_delivery_def rbind_Inr_iff case_prod_Inr_iff
      dest!: moves_uuid moves_case moves_deliver_row intro: moves_trans)

lemma moves_recover_outbox: "recover_outbox_tx m probe s = Inr (t, n) \<Longrightarrow> moves s t"
  by (auto simp: recover_outbox_tx_def Let_def rbind_Inr_iff intro: moves_rfold moves_abandon)

lemma moves_claim_delivery:
  assumes "update_delivery b (\<lambda>d. dv_state d = D_PENDING) (\<lambda>d. d\<lparr>dv_state := D_CLAIMED, dv_fencing := fence,
    dv_claim := c, dv_updated_at := m\<rparr>) s = Inr (n, t)"
  shows "moves s t"
  by (rule moves_update_delivery [OF assms]) auto

lemma moves_claim_outbox: "claim_outbox env kinds i req o0 pid tok secs m s = Inr (t, w) \<Longrightarrow> moves s t"
  by (auto simp: claim_outbox_def Let_def rbind_Inr_iff case_prod_Inr_iff case_option_Inr_iff
      dest!: moves_recover_outbox moves_uuid moves_claim_delivery intro: moves_trans)

lemma moves_heartbeat_outbox:
  assumes "heartbeat_outbox env c secs m s = Inr (t, w)"
  shows "moves s t"
proof -
  from assms obtain e n where u: "update_delivery (oe_id (oc_event c))
      (\<lambda>d. dv_state d = D_CLAIMED \<and> map_option dc_id (dv_claim d) = Some (oc_claim_id c)
        \<and> dv_fencing d = oc_fencing_token c)
      (\<lambda>d. d\<lparr>dv_claim := map_option (\<lambda>c. c\<lparr>dc_expires_at := e\<rparr>) (dv_claim d), dv_updated_at := m\<rparr>) s = Inr (n, t)"
    unfolding heartbeat_outbox_def Let_def rbind_Inr_iff case_prod_Inr_iff case_option_Inr_iff if_Inl_eq_Inr by auto
  show ?thesis by (rule moves_update_delivery [OF u]) auto
qed

lemma moves_write_receipt: "write_outbox_receipt c st ev m s = Inr t \<Longrightarrow> moves s t"
  by (auto simp: write_outbox_receipt_def Let_def rbind_Inr_iff case_prod_Inr_iff if_Inr_iff
      simp del: delivery_state_of.simps
      dest!: moves_uuid moves_case moves_deliver_row intro: moves_trans)

lemma moves_record_outbox_receipt: "record_outbox_receipt env c st ev m s = Inr (t, w) \<Longrightarrow> moves s t"
  unfolding record_outbox_receipt_def Let_def rbind_Inr_iff case_prod_Inr_iff case_option_Inr_iff if_Inl_eq_Inr
  by (auto dest: moves_write_receipt)


end
