(* ===== verification/RuntimeHistory.thy ===== *)
theory RuntimeHistory
  imports OutboxMoves
begin

text \<open>
  Histories of the local runtime store: one event per public operation of
  \<^verbatim>\<open>SQLiteLocalRuntimeStore\<close> that opens a write transaction, in any order and by any number of
  workers. Each transaction takes the write lock (\<^verbatim>\<open>begin immediate\<close>), so that an interleaving of
  workers is a sequence of events. The store interprets the interface of systems with an invariant
  and a growing audit record.
\<close>

datatype store_event =
    Enqueue int int string pyval int "int option" "int option" "local_job_binding option"
  | ScheduleOnce string string string pyval int
  | ClaimNext string int string int "string list" "string list option" "string option" int
  | Heartbeat string string string int int int
  | ClaimEffect local_claimed_work string string string int
  | RecordReceipt local_claim effect_status string int
  | Finish local_claimed_work local_state "string option" int
  | Quarantine local_claimed_work string int
  | RecoverExpired int
  | RecoverOrphans "int \<Rightarrow> string option" store int
  | ResolveRecovery string resolution_outcome string int
  | ReconcileRecovery string int
  | ClaimOutbox "string list" "string option" bool string int string int int
  | HeartbeatOutbox local_outbox_claim int int
  | RecordOutboxReceipt local_outbox_claim delivery_status string int
  | RecoverOutbox int "(int \<Rightarrow> string option) option"
  | DestroyTerminal string

text \<open>The state after an event; the value the operation returns to its caller is dropped.\<close>

abbreviation state_of :: "(store \<times> 'a) res \<Rightarrow> store res" where
  "state_of r \<equiv> rbind r (\<lambda>(s, _). Inr s)"

fun store_exec :: "env \<Rightarrow> store \<Rightarrow> store_event \<Rightarrow> store res" where
  "store_exec env s (Enqueue clock now key payload attempts available timeout binding) =
     state_of (enqueue env clock now key payload attempts available timeout binding s)"
| "store_exec env s (ScheduleOnce slot dig key payload moment) =
     state_of (schedule_once env slot dig key payload moment s)"
| "store_exec env s (ClaimNext owner pid token secs resources ops jid moment) =
     state_of (claim_next env owner pid token secs resources ops jid moment s)"
| "store_exec env s (Heartbeat lid owner token fence secs moment) =
     state_of (heartbeat lid owner token fence secs moment s)"
| "store_exec env s (ClaimEffect work op effect key moment) = state_of (claim_effect work op effect key moment s)"
| "store_exec env s (RecordReceipt c st ev moment) = state_of (record_receipt c st ev moment s)"
| "store_exec env s (Finish work st ev moment) = state_of (finish env work st ev moment s)"
| "store_exec env s (Quarantine work ev moment) = state_of (quarantine env work ev moment s)"
| "store_exec env s (RecoverExpired moment) = state_of (recover_expired env moment s)"
| "store_exec env s (RecoverOrphans probe snapshot moment) = state_of (recover_orphans env probe snapshot moment s)"
| "store_exec env s (ResolveRecovery c oc ev moment) = state_of (resolve_recovery c oc ev moment s)"
| "store_exec env s (ReconcileRecovery jid moment) = state_of (reconcile_recovery env jid moment s)"
| "store_exec env s (ClaimOutbox kinds oid req owner pid token secs moment) =
     state_of (claim_outbox env kinds oid req owner pid token secs moment s)"
| "store_exec env s (HeartbeatOutbox c secs moment) = state_of (heartbeat_outbox env c secs moment s)"
| "store_exec env s (RecordOutboxReceipt c st ev moment) = state_of (record_outbox_receipt env c st ev moment s)"
| "store_exec env s (RecoverOutbox moment probe) = state_of (recover_outbox moment probe s)"
| "store_exec env s (DestroyTerminal jid) = destroy_terminal jid s"

lemma destroy_terminal_refused: "destroy_terminal jid s \<noteq> Inr t"
  by (auto simp: destroy_terminal_def rbind_Inr_iff split: option.splits if_splits)

lemma state_of_moves:
  assumes "state_of r = Inr t" "\<And>x. r = Inr (t, x) \<Longrightarrow> moves s t"
  shows "moves s t"
  using assms by (auto simp: rbind_Inr_iff)

lemma moves_recover_orphans: "recover_orphans env probe snap m s = Inr (t, w) \<Longrightarrow> moves s t"
  by (auto simp: recover_orphans_def rbind_Inr_iff dest: moves_recover)

lemmas store_moves = moves_enqueue moves_schedule_once moves_claim_next moves_heartbeat moves_claim_effect
  moves_record_receipt moves_finish moves_quarantine moves_recover moves_recover_orphans
  moves_resolve_recovery moves_reconcile_recovery moves_claim_outbox moves_heartbeat_outbox
  moves_record_outbox_receipt moves_recover_outbox

lemma store_exec_moves: "store_exec env s e = Inr t \<Longrightarrow> moves s t"
  by (cases e) (auto simp: rbind_Inr_iff recover_expired_def recover_outbox_def destroy_terminal_refused
      dest: store_moves)

interpretation runtime_store: ranked_system "store_exec env" good audit for env
proof
  fix s e t
  assume "good s" "store_exec env s e = Inr t"
  with store_exec_moves show "good t" "audit s \<le> audit t" unfolding moves_def by blast+
qed

lemma good_empty: "0 \<le> mx \<Longrightarrow> good (empty_store mx us)"
  by (simp add: good_def empty_store_def core_ok_def outbox_ok_def)

lemma reach_advance:
  assumes "runtime_store.reach env s t" "good s"
  shows "jobs_advance (st_jobs s) (st_jobs t)"
  using assms
proof (induction rule: runtime_store.reach.induct)
  case (reach_step t e u)
  then have "good t" using runtime_store.reach_inv by blast
  with store_exec_moves [OF reach_step(2)] have "jobs_advance (st_jobs t) (st_jobs u)" by (simp add: moves_def)
  with reach_step show ?case using jobs_advance_trans by blast
qed simp

end
