(* ===== verification/RuntimeSamples.thy ===== *)
theory RuntimeSamples
  imports RuntimeHistory
begin

text \<open>
  A concrete history of the store, evaluated step by step: a job is queued, claimed with a lock,
  claims an effect, a second job is queued, the receipt arrives, the first job is finished and the
  second one claimed; on another branch the worker dies. Digests stay symbolic: no step looks into
  them beyond their form.
\<close>

section \<open>Parameters, rows and payloads\<close>

definition sample_env :: env where
  "sample_env = \<lparr>en_scan = (\<lambda>_ _. False), en_scan_secret = (\<lambda>_ _. False), en_home = ''/home/zekam''\<rparr>"

definition sample_id :: "char \<Rightarrow> string" where
  "sample_id c = ''01900000-0000-7000-8000-00000000000'' @ [c]"

abbreviation sid1 :: string where "sid1 \<equiv> sample_id CHR ''1''"
abbreviation sid5 :: string where "sid5 \<equiv> sample_id CHR ''5''"

lemma sample_id_eq [simp]: "sample_id c = sample_id d \<longleftrightarrow> c = d"
  by (simp add: sample_id_def)

definition sample_start :: store where
  "sample_start = empty_store 10 (map sample_id ''123456789abcdef'')"

definition sample_input :: pyval where
  "sample_input = PDict [(PStr ''operation'', PStr ''note.write'')]"

definition sample_payload :: json where
  "sample_payload = JObj [(''operation'', JStr ''note.write'')]"

definition sample_job :: "string \<Rightarrow> string \<Rightarrow> int \<Rightarrow> job_row" where
  "sample_job i key at0 = \<lparr>jr_id = i, jr_key = key, jr_payload = sample_payload,
     jr_state = L_READY, jr_attempts = 0, jr_max_attempts = 2, jr_available_at = at0, jr_timeout_at = None,
     jr_fencing = 0, jr_evidence = None, jr_created_at = at0, jr_updated_at = at0\<rparr>"

definition sample_event :: "string \<Rightarrow> string \<Rightarrow> string \<Rightarrow> json \<Rightarrow> string \<Rightarrow> int \<Rightarrow> outbox_row" where
  "sample_event i jid kind j key at0 =
     \<lparr>ob_id = i, ob_job = jid, ob_key = key, ob_kind = kind, ob_payload = j, ob_digest = digest_json j,
      ob_created_at = at0\<rparr>"

definition sample_pending :: "string \<Rightarrow> int \<Rightarrow> delivery_row" where
  "sample_pending i at0 = \<lparr>dv_outbox = i, dv_state = D_PENDING, dv_fencing = 0, dv_claim = None,
     dv_updated_at = at0\<rparr>"

definition sample_enqueued :: "string \<Rightarrow> string \<Rightarrow> json" where
  "sample_enqueued jid key = JObj [(''idempotency_key'', JStr key), (''job_id'', JStr jid)]"

lemmas sample_rows = sample_job_def sample_event_def sample_pending_def

text \<open>Texts and payloads the steps check.\<close>

lemma sample_texts [simp]:
  "required ''nightly'' ''Idempotency key'' = Inr ''nightly''"
  "required ''hourly'' ''Idempotency key'' = Inr ''hourly''"
  "required ''worker'' ''Owner'' = Inr ''worker''"
  "required ''token'' ''Owner token'' = Inr ''token''"
  "required ''write'' ''Operation'' = Inr ''write''"
  "required ''effect'' ''Effect idempotency key'' = Inr ''effect''"
  "required ''job.enqueued'' ''Outbox event kind'' = Inr ''job.enqueued''"
  "required ''job.completed'' ''Outbox event kind'' = Inr ''job.completed''"
  "required ''job.ready'' ''Outbox event kind'' = Inr ''job.ready''"
  by code_simp+

lemma sample_keys [simp]:
  "required (CHR ''j'' # CHR ''o'' # CHR ''b'' # CHR '':'' # sid1 @ '':enqueued'') ''Outbox idempotency key''
     = Inr (CHR ''j'' # CHR ''o'' # CHR ''b'' # CHR '':'' # sid1 @ '':enqueued'')"
  "required (CHR ''j'' # CHR ''o'' # CHR ''b'' # CHR '':'' # sid5 @ '':enqueued'') ''Outbox idempotency key''
     = Inr (CHR ''j'' # CHR ''o'' # CHR ''b'' # CHR '':'' # sid5 @ '':enqueued'')"
  "required (CHR ''j'' # CHR ''o'' # CHR ''b'' # CHR '':'' # sid1 @ '':terminal'') ''Outbox idempotency key''
     = Inr (CHR ''j'' # CHR ''o'' # CHR ''b'' # CHR '':'' # sid1 @ '':terminal'')"
  by code_simp+

lemma payload_jsonI:
  assumes "canonicalize (PDict kvs) = Inr j" "utf8_len (dumps j) < 1000"
    "dict_get kvs ''operation'' \<noteq> Some (PStr ''skill.execute.local-journal/v1'')"
  shows "payload_json env (PDict kvs) = Inr j"
  using assms by (simp add: payload_json_def)

lemma sample_payloads [simp]:
  "payload_json env sample_input = Inr sample_payload"
  "payload_json env (PDict [(PStr ''job_id'', PStr sid1), (PStr ''idempotency_key'', PStr ''nightly'')])
     = Inr (sample_enqueued sid1 ''nightly'')"
  "payload_json env (PDict [(PStr ''job_id'', PStr sid5), (PStr ''idempotency_key'', PStr ''hourly'')])
     = Inr (sample_enqueued sid5 ''hourly'')"
  "payload_json env (PDict [(PStr ''job_id'', PStr sid1), (PStr ''state'', PStr ''completed'')])
     = Inr (JObj [(''job_id'', JStr sid1), (''state'', JStr ''completed'')])"
  unfolding sample_input_def by (rule payload_jsonI; code_simp)+

lemma sample_digest_ok [simp]: "parse_digest sample_digest = Inr (drop 7 sample_digest)"
  by code_simp

lemma sample_payload_fields [simp]:
  "json_field sample_payload ''work_binding_digest'' = None"
  "json_field sample_payload ''operation'' = Some (JStr ''note.write'')"
  "strip ''note.write'' \<notin> set RESERVED_JOB_OPERATIONS"
  by code_simp+

lemma sample_resource [simp]: "portable_resource sample_env ''db:main'' = Inr ''db:main''"
  by code_simp

section \<open>The main branch\<close>

definition sample_queued :: store where
  "sample_queued = sample_start\<lparr>st_jobs := [sample_job sid1 ''nightly'' 5],
     st_outbox := [sample_event (sample_id CHR ''2'') sid1 ''job.enqueued'' (sample_enqueued sid1 ''nightly'')
       (''job:'' @ sid1 @ '':enqueued'') 5],
     st_deliveries := [sample_pending (sample_id CHR ''2'') 5], st_uuids := map sample_id ''3456789abcdef''\<rparr>"

lemmas enqueue_defs = enqueue_def bounded_int_def find_job_key_def new_uuid_def insert_job_def
  insert_job_row_def job_check_def emit_outbox_def pending_count_def insert_outbox_def read_job_def find_job_def Let_def

lemma sample_enqueue:
  "enqueue sample_env 5 5 ''nightly'' sample_input 2 None None None sample_start
     = Inr (sample_queued, job_view (sample_job sid1 ''nightly'' 5), True)"
  by (simp add: enqueue_defs sample_start_def empty_store_def sample_queued_def sample_rows)

definition sample_lease :: lease_row where
  "sample_lease = \<lparr>ls_id = sample_id CHR ''3'', ls_job = sid1, ls_owner = ''worker'', ls_pid = 100,
     ls_token = ''token'', ls_fencing = 1, ls_heartbeat_at = 6, ls_expires_at = 60000006\<rparr>"

definition sample_lock :: lock_row where
  "sample_lock = \<lparr>lk_resource = ''db:main'', lk_job = sid1, lk_lease = sample_id CHR ''3'', lk_fencing = 1,
     lk_acquired_at = 6\<rparr>"

definition sample_started :: job_row where
  "sample_started = (sample_job sid1 ''nightly'' 5)\<lparr>jr_state := L_RUNNING, jr_attempts := 1, jr_fencing := 1,
     jr_updated_at := 6\<rparr>"

definition sample_running :: store where
  "sample_running = sample_queued\<lparr>st_jobs := [sample_started], st_leases := [sample_lease],
     st_locks := [sample_lock], st_uuids := map sample_id ''456789abcdef''\<rparr>"

definition sample_worker :: local_claimed_work where
  "sample_worker = \<lparr>cw_job = job_view sample_started, cw_lease = lease_view sample_lease\<rparr>"

lemmas recover_defs = recover_def swept_leases_def ready_timed_out_def empty_sweep_def

lemmas claim_next_defs = claim_next_def claim_next_tx_def select_job_def claimable_def operation_selected_def
  validate_job_binding_def start_job_def update_job_def update_where_def insert_lease_def insert_lock_def
  find_lease_def add_delta_def max_instant_def recover_defs bounded_int_def new_uuid_def read_job_def find_job_def
  job_check_def Let_def

lemmas sample_stores = sample_start_def empty_store_def sample_queued_def sample_rows sample_running_def
  sample_started_def sample_lease_def sample_lock_def sample_worker_def

lemma sample_claim_next:
  "claim_next sample_env ''worker'' 100 ''token'' 60 [''db:main''] None None 6 sample_queued
     = Inr (sample_running, Some sample_worker)"
  by (simp add: claim_next_defs sample_stores)


definition sample_claim_row :: claim_row where
  "sample_claim_row = \<lparr>cl_id = sample_id CHR ''4'', cl_job = sid1, cl_lease = sample_id CHR ''3'', cl_fencing = 1,
     cl_operation = ''write'', cl_effect = sample_digest, cl_key = ''effect'', cl_claimed_at = 7\<rparr>"

definition sample_claimed :: store where
  "sample_claimed = sample_running\<lparr>st_claims := [sample_claim_row], st_uuids := map sample_id ''56789abcdef''\<rparr>"

lemmas live_defs = live_lease_def find_lease_def job_view_def lease_view_def

lemma sample_claim_effect:
  "claim_effect sample_worker ''write'' sample_digest ''effect'' 7 sample_running
     = Inr (sample_claimed, claim_view sample_claim_row, True)"
  by (simp add: claim_effect_def live_defs validate_job_binding_def new_uuid_def insert_claim_def find_job_def
      Let_def sample_claimed_def sample_claim_row_def sample_stores)

definition sample_two :: store where
  "sample_two = sample_claimed\<lparr>st_jobs := [sample_started, sample_job sid5 ''hourly'' 8],
     st_outbox := st_outbox sample_queued @ [sample_event (sample_id CHR ''6'') sid5 ''job.enqueued''
       (sample_enqueued sid5 ''hourly'') (''job:'' @ sid5 @ '':enqueued'') 8],
     st_deliveries := [sample_pending (sample_id CHR ''2'') 5, sample_pending (sample_id CHR ''6'') 8],
     st_uuids := map sample_id ''789abcdef''\<rparr>"

lemmas sample_stores2 = sample_stores sample_claimed_def sample_claim_row_def sample_two_def

lemma sample_enqueue_second:
  "enqueue sample_env 8 8 ''hourly'' sample_input 2 None None None sample_claimed
     = Inr (sample_two, job_view (sample_job sid5 ''hourly'' 8), True)"
  by (simp add: enqueue_defs sample_stores2)

definition sample_receipt :: receipt_row where
  "sample_receipt = \<lparr>re_id = sample_id CHR ''7'', re_claim = sample_id CHR ''4'', re_status = E_COMPLETED,
     re_evidence = sample_digest, re_created_at = 9\<rparr>"

definition sample_receipted :: store where
  "sample_receipted = sample_two\<lparr>st_receipts := [sample_receipt], st_uuids := map sample_id ''89abcdef''\<rparr>"

lemma sample_record_receipt:
  "record_receipt (claim_view sample_claim_row) E_COMPLETED sample_digest 9 sample_two
     = Inr (sample_receipted, sample_receipt)"
  by (simp add: record_receipt_def find_claim_def claim_view_def receipt_of_def new_uuid_def insert_receipt_def
      Let_def sample_receipted_def sample_receipt_def sample_stores2)

definition sample_completed :: job_row where
  "sample_completed = sample_started\<lparr>jr_state := L_COMPLETED, jr_evidence := Some sample_digest, jr_updated_at := 10\<rparr>"

definition sample_done :: store where
  "sample_done = sample_receipted\<lparr>st_jobs := [sample_completed, sample_job sid5 ''hourly'' 8],
     st_leases := [], st_locks := [],
     st_outbox := st_outbox sample_two @ [sample_event (sample_id CHR ''8'') sid1 ''job.completed''
       (JObj [(''job_id'', JStr sid1), (''state'', JStr ''completed'')]) (''job:'' @ sid1 @ '':terminal'') 10],
     st_deliveries := st_deliveries sample_two @ [sample_pending (sample_id CHR ''8'') 10],
     st_uuids := map sample_id ''9abcdef''\<rparr>"

lemmas sample_stores3 = sample_stores2 sample_receipted_def sample_receipt_def sample_completed_def sample_done_def

lemmas finish_defs = finish_def sorted_unresolved_def claims_of_def unresolved_def receipt_of_def
  has_failed_receipt_def update_job_def update_where_def job_check_def delete_lease_def delete_locks_def
  emit_outbox_def pending_count_def new_uuid_def insert_outbox_def read_job_def find_job_def Let_def live_defs

lemma sample_finish:
  "finish sample_env sample_worker L_COMPLETED (Some sample_digest) 10 sample_receipted
     = Inr (sample_done, job_view sample_completed)"
  by (simp add: finish_defs sample_stores3)

definition sample_lease2 :: lease_row where
  "sample_lease2 = \<lparr>ls_id = sample_id CHR ''9'', ls_job = sid5, ls_owner = ''worker'', ls_pid = 100,
     ls_token = ''token'', ls_fencing = 1, ls_heartbeat_at = 11, ls_expires_at = 60000011\<rparr>"

definition sample_started2 :: job_row where
  "sample_started2 = (sample_job sid5 ''hourly'' 8)\<lparr>jr_state := L_RUNNING, jr_attempts := 1, jr_fencing := 1,
     jr_updated_at := 11\<rparr>"

definition sample_last :: store where
  "sample_last = sample_done\<lparr>st_jobs := [sample_completed, sample_started2], st_leases := [sample_lease2],
     st_locks := [], st_uuids := map sample_id ''abcdef''\<rparr>"

lemma sample_claim_second:
  "claim_next sample_env ''worker'' 100 ''token'' 60 [] None None 11 sample_done
     = Inr (sample_last, Some \<lparr>cw_job = job_view sample_started2, cw_lease = lease_view sample_lease2\<rparr>)"
  by (simp add: claim_next_defs sample_stores3 sample_last_def sample_started2_def sample_lease2_def)

text \<open>The branch as a history.\<close>

lemma sample_reach:
  "runtime_store.reach sample_env sample_start sample_queued"
  "runtime_store.reach sample_env sample_queued sample_running"
  "runtime_store.reach sample_env sample_running sample_claimed"
  "runtime_store.reach sample_env sample_claimed sample_receipted"
  "runtime_store.reach sample_env sample_receipted sample_done"
  "runtime_store.reach sample_env sample_done sample_last"
proof -
  have step: "runtime_store.reach sample_env s t" if "store_exec sample_env s e = Inr t" for s e t
    using runtime_store.reach_step [OF runtime_store.reach_refl that] .
  show "runtime_store.reach sample_env sample_start sample_queued"
    by (rule step [of _ "Enqueue 5 5 ''nightly'' sample_input 2 None None None"]) (simp add: sample_enqueue)
  show "runtime_store.reach sample_env sample_queued sample_running"
    by (rule step [of _ "ClaimNext ''worker'' 100 ''token'' 60 [''db:main''] None None 6"]) (simp add: sample_claim_next)
  show "runtime_store.reach sample_env sample_running sample_claimed"
    by (rule step [of _ "ClaimEffect sample_worker ''write'' sample_digest ''effect'' 7"]) (simp add: sample_claim_effect)
  have "runtime_store.reach sample_env sample_claimed sample_two"
    by (rule step [of _ "Enqueue 8 8 ''hourly'' sample_input 2 None None None"]) (simp add: sample_enqueue_second)
  moreover have "runtime_store.reach sample_env sample_two sample_receipted"
    by (rule step [of _ "RecordReceipt (claim_view sample_claim_row) E_COMPLETED sample_digest 9"])
      (simp add: sample_record_receipt)
  ultimately show "runtime_store.reach sample_env sample_claimed sample_receipted" by (rule runtime_store.reach_trans)
  show "runtime_store.reach sample_env sample_receipted sample_done"
    by (rule step [of _ "Finish sample_worker L_COMPLETED (Some sample_digest) 10"]) (simp add: sample_finish)
  show "runtime_store.reach sample_env sample_done sample_last"
    by (rule step [of _ "ClaimNext ''worker'' 100 ''token'' 60 [] None None 11"]) (simp add: sample_claim_second)
qed

lemma sample_from_start:
  "runtime_store.reach sample_env (empty_store 10 (map sample_id ''123456789abcdef'')) sample_queued"
  "runtime_store.reach sample_env (empty_store 10 (map sample_id ''123456789abcdef'')) sample_running"
  "runtime_store.reach sample_env (empty_store 10 (map sample_id ''123456789abcdef'')) sample_claimed"
  "runtime_store.reach sample_env (empty_store 10 (map sample_id ''123456789abcdef'')) sample_receipted"
  "runtime_store.reach sample_env (empty_store 10 (map sample_id ''123456789abcdef'')) sample_done"
  unfolding sample_start_def [symmetric] using sample_reach runtime_store.reach_trans by metis+

section \<open>The branch on which the worker dies\<close>

definition sample_effect_case :: json where
  "sample_effect_case = JObj [(''case_kind'', JStr ''effect-unknown''), (''claim_id'', JStr (sample_id CHR ''4'')),
     (''effect_digest'', JStr sample_digest), (''recovered_fence'', JInt 1)]"

definition sample_terminal :: string where
  "sample_terminal = digest_json (JArr [JStr (digest_json sample_effect_case)])"

definition sample_case :: case_row where
  "sample_case = \<lparr>ca_id = sid5, ca_job = sid1, ca_claim = Some (sample_id CHR ''4''), ca_outbox = None,
     ca_kind = EFFECT_UNKNOWN, ca_evidence = digest_json sample_effect_case, ca_open = True,
     ca_created_at = 70000000, ca_resolved_at = None\<rparr>"

definition sample_lost :: store where
  "sample_lost = sample_claimed\<lparr>st_jobs := [sample_started\<lparr>jr_state := L_RECOVERY_REQUIRED,
       jr_evidence := Some sample_terminal, jr_updated_at := 70000000\<rparr>],
     st_leases := [], st_locks := [], st_cases := [sample_case],
     st_outbox := st_outbox sample_claimed @ [sample_event (sample_id CHR ''6'') sid1 ''job.recovery-required''
       (JObj [(''fencing_token'', JInt 1), (''job_id'', JStr sid1), (''state'', JStr ''recovery-required'')])
       (''job:'' @ sid1 @ '':recovery:1:recovery-required'') 70000000],
     st_deliveries := st_deliveries sample_claimed @ [sample_pending (sample_id CHR ''6'') 70000000],
     st_uuids := map sample_id ''789abcdef''\<rparr>"

lemma sample_uuids [simp]:
  "canonical_uuid sid1 x = Inr sid1" "canonical_uuid sid5 x = Inr sid5"
  "canonical_uuid (sample_id CHR ''3'') x = Inr (sample_id CHR ''3'')"
  "canonical_uuid (sample_id CHR ''4'') x = Inr (sample_id CHR ''4'')"
  "canonical_uuid (sample_id CHR ''6'') x = Inr (sample_id CHR ''6'')"
proof -
  have t: "is_uuid_text (sample_id c)" "\<not> list_ex (\<lambda>c. (of_char c :: nat) < 32 \<or> (of_char c :: nat) = 127) (sample_id c)"
     "strip (sample_id c) = sample_id c" "utf8_len (sample_id c) = 36"
    if "c \<in> set ''13456''" for c
    using that by (simp_all, elim disjE; simp; code_simp)+
  show "canonical_uuid sid1 x = Inr sid1" "canonical_uuid sid5 x = Inr sid5"
  "canonical_uuid (sample_id CHR ''3'') x = Inr (sample_id CHR ''3'')"
  "canonical_uuid (sample_id CHR ''4'') x = Inr (sample_id CHR ''4'')"
  "canonical_uuid (sample_id CHR ''6'') x = Inr (sample_id CHR ''6'')"
    using t by (simp_all add: canonical_uuid_def canonical_text_def) (simp_all add: sample_id_def)
qed

lemma sample_case_evidence [simp]:
  "sweep_case_evidence (sample_id CHR ''4'') sample_digest 1 = Inr (digest_json sample_effect_case)"
proof -
  have "canonicalize (PDict
     [(PStr ''case_kind'', PStr ''effect-unknown''), (PStr ''claim_id'', PStr (sample_id CHR ''4'')),
      (PStr ''effect_digest'', PStr sample_digest), (PStr ''recovered_fence'', PInt 1)]) = Inr sample_effect_case"
    by code_simp
  then show ?thesis by (simp add: sweep_case_evidence_def digest_def)
qed

lemma sample_digest_list [simp]: "digest_list [d] = Inr (digest_json (JArr [JStr d]))"
  by (simp add: digest_list_def digest_def canonicalize_def)

lemma sample_recovery_row [simp]:
  "recovery_outbox_row sample_env (sample_id CHR ''6'') sid1 (''job:'' @ sid1 @ '':recovery:1:recovery-required'')
     ''job.recovery-required'' (PDict [(PStr ''job_id'', PStr sid1), (PStr ''state'', PStr ''recovery-required''), (PStr ''fencing_token'', PInt 1)]) m
    = Inr (sample_event (sample_id CHR ''6'') sid1 ''job.recovery-required''
       (JObj [(''fencing_token'', JInt 1), (''job_id'', JStr sid1), (''state'', JStr ''recovery-required'')])
       (''job:'' @ sid1 @ '':recovery:1:recovery-required'') m)"
proof -
  have k: "canonical_key sample_env (''job:'' @ sid1 @ '':recovery:1:recovery-required'') ''Recovery outbox key'' = Inr (''job:'' @ sid1 @ '':recovery:1:recovery-required'')"
    "canonical_key sample_env ''job.recovery-required'' ''Recovery outbox event'' = Inr ''job.recovery-required''"
    by code_simp+
  have c: "canonicalize (PDict [(PStr ''job_id'', PStr sid1), (PStr ''state'', PStr ''recovery-required''), (PStr ''fencing_token'', PInt 1)])
    = Inr (JObj [(''fencing_token'', JInt 1), (''job_id'', JStr sid1), (''state'', JStr ''recovery-required'')])"
    "utf8_len (dumps (JObj [(''fencing_token'', JInt 1), (''job_id'', JStr sid1), (''state'', JStr ''recovery-required'')])) < 1000"
    by code_simp+
  show ?thesis using c(2) unfolding recovery_outbox_row_def k c(1) by (simp add: sample_event_def)
qed

lemma sample_lock_key [simp]: "canonical_key sample_env ''db:main'' ''Recovery lock resource'' = Inr ''db:main''"
  "int_str 1 = ''1''"
  by code_simp+

lemmas sweep_defs = recover_defs sweep_lease_def sweep_claim_def sorted_unresolved_def claims_of_def unresolved_def
  receipt_of_def new_uuid_def insert_effect_recovery_case_def case_evidence_def insert_case_def
  require_outbox_capacity_def bounded_int_def pending_count_def transition_running_job_to_recovery_def
  check_lock_rows_def open_effect_cases_def actual_case_evidence_def require_fresh_outbox_def find_lease_def find_job_def
  update_job_def update_where_def job_check_def delete_lease_def delete_locks_def insert_outbox_def Let_def

lemma sample_recover_lost:
  "recover sample_env 70000000 [] sample_claimed
     = Inr (sample_lost, empty_sweep\<lparr>sw_recovery_required := 1, sw_released_locks := 1\<rparr>)"
  by (simp add: sweep_defs sample_stores2 sample_lost_def sample_terminal_def sample_case_def parse_digest_json
      sample_recovery_row [simplified])

lemma sample_reach_lost: "runtime_store.reach sample_env sample_claimed sample_lost"
  using runtime_store.reach_step [OF runtime_store.reach_refl, of _ sample_claimed "RecoverExpired 70000000"]
  by (simp add: recover_expired_def sample_recover_lost)

text \<open>The case is resolved as failed and the job reconciled.\<close>

definition sample_resolution :: resolution_row where
  "sample_resolution = \<lparr>rv_id = sample_id CHR ''7'', rv_case = sid5, rv_outcome = O_FAILED,
     rv_evidence = sample_digest, rv_created_at = 80000000\<rparr>"

definition sample_resolved :: store where
  "sample_resolved = sample_lost\<lparr>st_cases := [sample_case\<lparr>ca_open := False, ca_resolved_at := Some 80000000\<rparr>],
     st_resolutions := [sample_resolution], st_uuids := map sample_id ''89abcdef''\<rparr>"

lemma sample_uuid7 [simp]: "canonical_uuid (sample_id CHR ''7'') ''Recovery resolution'' = Inr (sample_id CHR ''7'')"
  "canonical_uuid (sample_id CHR ''8'') ''Recovery reconcile outbox'' = Inr (sample_id CHR ''8'')"
  "required sid5 ''Recovery case id'' = Inr sid5" "required sid1 ''Job id'' = Inr sid1" "strip sid1 = sid1"
  by code_simp+

lemmas sample_stores_lost = sample_stores2 sample_lost_def sample_terminal_def sample_case_def sample_resolved_def
  sample_resolution_def

lemma sample_resolve:
  "resolve_recovery sid5 O_FAILED sample_digest 80000000 sample_lost = Inr (sample_resolved, sample_resolution)"
  by (simp add: resolve_recovery_def insert_effect_recovery_resolution_def find_case_def outcome_allowed_def
      receipt_of_def resolution_of_def new_uuid_def insert_resolution_def resolve_case_def update_where_def Let_def
      sample_stores_lost)

definition sample_outcome :: json where
  "sample_outcome = JArr [JArr [JNull, JNull, JStr ''failed'', JStr sample_digest]]"

lemma sample_reconcile_digest [simp]:
  "digest (PList [PList [PNone, PNone, PStr ''failed'', PStr sample_digest]]) = Inr (digest_json sample_outcome)"
proof -
  have "canonicalize (PList [PList [PNone, PNone, PStr ''failed'', PStr sample_digest]]) = Inr sample_outcome"
    by code_simp
  then show ?thesis by (simp add: digest_def)
qed

definition sample_reconciled_event :: json where
  "sample_reconciled_event = JObj [(''job_id'', JStr sid1), (''reconciled'', JBool True), (''state'', JStr ''failed'')]"

lemma sample_reconciled_row:
  "recovery_outbox_row sample_env (sample_id CHR ''8'') sid1 (''job:'' @ sid1 @ '':reconciled'') ''job.failed''
     (PDict [(PStr ''job_id'', PStr sid1), (PStr ''state'', PStr ''failed''), (PStr ''reconciled'', PBool True)]) m
   = Inr (sample_event (sample_id CHR ''8'') sid1 ''job.failed'' sample_reconciled_event
       (''job:'' @ sid1 @ '':reconciled'') m)"
proof -
  have k: "canonical_key sample_env (''job:'' @ sid1 @ '':reconciled'') ''Recovery outbox key''
      = Inr (''job:'' @ sid1 @ '':reconciled'')"
    "canonical_key sample_env ''job.failed'' ''Recovery outbox event'' = Inr ''job.failed''"
    "canonical_uuid (sample_id CHR ''8'') ''Recovery outbox'' = Inr (sample_id CHR ''8'')"
    by code_simp+
  have c: "canonicalize (PDict [(PStr ''job_id'', PStr sid1), (PStr ''state'', PStr ''failed''),
      (PStr ''reconciled'', PBool True)]) = Inr sample_reconciled_event"
    "utf8_len (dumps sample_reconciled_event) < 1000"
    by code_simp+
  show ?thesis using c(2) unfolding recovery_outbox_row_def k c(1) by (simp add: sample_event_def)
qed

definition sample_reconciled :: store where
  "sample_reconciled = sample_resolved\<lparr>st_jobs := [sample_started\<lparr>jr_state := L_FAILED,
       jr_evidence := Some (digest_json sample_outcome), jr_updated_at := 90000000\<rparr>],
     st_outbox := st_outbox sample_lost @ [sample_event (sample_id CHR ''8'') sid1 ''job.failed''
       sample_reconciled_event (''job:'' @ sid1 @ '':reconciled'') 90000000],
     st_deliveries := st_deliveries sample_lost @ [sample_pending (sample_id CHR ''8'') 90000000],
     st_uuids := map sample_id ''9abcdef''\<rparr>"

lemmas reconcile_defs = reconcile_recovery_def claim_open_def claim_failed_def case_of_claim_def resolution_of_def
  claim_resolution_def claims_of_def receipt_of_def reconcile_evidence_def reconcile_entry_def opt_text_def
  require_outbox_capacity_def bounded_int_def pending_count_def new_uuid_def reconcile_effect_recovery_job_def
  require_fresh_outbox_def update_job_def update_where_def job_check_def insert_outbox_def read_job_def find_job_def
  Let_def

lemma sample_reconcile:
  "reconcile_recovery sample_env sid1 90000000 sample_resolved
     = Inr (sample_reconciled, job_view (sample_started\<lparr>jr_state := L_FAILED,
         jr_evidence := Some (digest_json sample_outcome), jr_updated_at := 90000000\<rparr>))"
  by (simp add: reconcile_defs sample_stores_lost sample_reconciled_def parse_digest_json
      sample_reconciled_row [simplified])

section \<open>A scheduled job\<close>

definition sample_scheduled :: store where
  "sample_scheduled = sample_start\<lparr>st_jobs := [(sample_job sid1 ''nightly'' 5)\<lparr>jr_max_attempts := 1\<rparr>],
     st_outbox := st_outbox sample_queued, st_deliveries := st_deliveries sample_queued,
     st_slots := [\<lparr>sl_key = ''slot'', sl_digest = sample_digest, sl_job = sid1, sl_created_at = 5\<rparr>],
     st_uuids := st_uuids sample_queued\<rparr>"

lemma sample_slot [simp]: "required ''slot'' ''Scheduler slot'' = Inr ''slot''"
  by code_simp

lemma sample_schedule:
  "schedule_once sample_env ''slot'' sample_digest ''nightly'' sample_input 5 sample_start
     = Inr (sample_scheduled, job_view ((sample_job sid1 ''nightly'' 5)\<lparr>jr_max_attempts := 1\<rparr>), True)"
  by (simp add: schedule_once_def enqueue_defs insert_slot_def sample_stores sample_scheduled_def)

end
