(* ===== verification/RuntimeGuarantees.thy ===== *)
theory RuntimeGuarantees
  imports RuntimeSamples
begin

text \<open>
  What the local runtime guarantees to the workers that share it, over every history of the store
  from an empty database: one lease per running job, exclusive resource locks, no second run of a
  job that has claimed an effect, final states that stay, an append-only audit record and a bounded
  outbox.
\<close>

section \<open>Facts about reachable stores\<close>

lemma reachable_good: "0 \<le> mx \<Longrightarrow> runtime_store.reach env (empty_store mx us) s \<Longrightarrow> good s"
  using runtime_store.reach_inv good_empty by blast

lemma audit_claims: "audit s \<subseteq> audit t \<Longrightarrow> set (st_claims s) \<subseteq> set (st_claims t)"
  by (auto simp: audit_def)

lemma audit_parts:
  assumes "audit s \<subseteq> audit t"
  shows "set (st_claims s) \<subseteq> set (st_claims t)" "set (st_receipts s) \<subseteq> set (st_receipts t)"
    "set (st_outbox s) \<subseteq> set (st_outbox t)" "set (st_outbox_receipts s) \<subseteq> set (st_outbox_receipts t)"
    "set (st_resolutions s) \<subseteq> set (st_resolutions t)"
  using assms by (auto simp: audit_def)

lemma good_claim_job:
  assumes "good s" "c \<in> set (st_claims s)" "j \<in> set (st_jobs s)" "jr_id j = cl_job c"
  shows "jr_state j \<noteq> L_READY" "jr_fencing j = cl_fencing c"
proof -
  from assms(1) have core: "store_core s" by (simp add: good_def)
  from core_okD(9) [OF core assms(2)] obtain k where "k \<in> set (st_jobs s)" "jr_id k = cl_job c"
    "jr_fencing k = cl_fencing c" "jr_state k \<noteq> L_READY" by (auto simp: claim_ok_def)
  with distinct_key_eq [OF core_okD(1) [OF core]] assms(3,4)
  show "jr_state j \<noteq> L_READY" "jr_fencing j = cl_fencing c" by metis+
qed

lemma good_running_iff:
  assumes "good s" "j \<in> set (st_jobs s)"
  shows "jr_state j = L_RUNNING \<longleftrightarrow> (\<exists>l \<in> set (st_leases s). ls_job l = jr_id j)"
    and "l \<in> set (st_leases s) \<Longrightarrow> ls_job l = jr_id j \<Longrightarrow> ls_fencing l = jr_fencing j"
proof -
  from assms(1) have core: "store_core s" by (simp add: good_def)
  show "jr_state j = L_RUNNING \<longleftrightarrow> (\<exists>l \<in> set (st_leases s). ls_job l = jr_id j)"
    using core_okD(6) [OF core assms(2)] good_lease_job [OF assms(1) _ assms(2)] unfolding image_iff by metis
  show "ls_fencing l = jr_fencing j" if "l \<in> set (st_leases s)" "ls_job l = jr_id j"
    using good_lease_job [OF assms(1) that(1) assms(2)] that(2) by simp
qed

lemma claim_next_started:
  assumes "claim_next env o0 pid tok secs rs ops jid m s = Inr (t, Some w)"
  obtains s1 v r owner token items where "recover env m [] s = Inr (s1, v)" "r \<in> set (st_jobs s1)"
    "jr_state r = L_READY" "start_job r owner pid token secs items m s1 = Inr (t, Some w)"
    "moves s s1" "moves s1 t" "lj_id (cw_job w) = jr_id r"
  using assms
proof (cases rule: claim_next_Inr)
  case (tx owner token items ops')
  then obtain s1 v r where a: "recover env m [] s = Inr (s1, v)" "select_job m ops' jid s1 = Some r"
    "start_job r owner pid token secs items m s1 = Inr (t, Some w)"
    by (auto simp: claim_next_tx_def rbind_Inr_iff case_prod_Inr_iff case_option_Inr_iff)
  note sel = select_job_Some [OF a(2)]
  from a(3) obtain job where "find_job t (jr_id r) = Some job" "cw_job w = job_view job"
    by (rule start_job_Inr) auto
  then have "lj_id (cw_job w) = jr_id r" by (auto simp: find_job_def job_view_def find_Some_iff)
  with that a sel moves_recover [OF a(1)] moves_start_job [OF a(3)] show thesis
    by (auto simp: claimable_def)
qed simp

text \<open>A job that is handed out has claimed no effect.\<close>

lemma claim_next_unclaimed_job:
  assumes "good s" "claim_next env o0 pid tok secs rs ops jid m s = Inr (t, Some w)" "c \<in> set (st_claims s)"
  shows "lj_id (cw_job w) \<noteq> cl_job c"
proof
  assume eq: "lj_id (cw_job w) = cl_job c"
  from assms(2) show False
  proof (rule claim_next_started)
    fix s1 r
    assume "moves s s1" and r: "r \<in> set (st_jobs s1)" "jr_state r = L_READY" "lj_id (cw_job w) = jr_id r"
    with assms(1) have "good s1" "audit s \<subseteq> audit s1" by (auto simp: moves_def)
    with audit_claims assms(3) good_claim_job(1) r eq show False by (metis subsetD)
  qed
qed

section \<open>Guarantees\<close>

text \<open>C5. Mutual exclusion of workers: at every point of every history, a job is running exactly
  when a lease for it exists, the lease carries the job's current fence, no two leases are for one
  job, and the attempts stay within their bound.\<close>

theorem one_lease_per_running_job:
  assumes "0 \<le> mx" "runtime_store.reach env (empty_store mx us) s"
  shows "distinct (map ls_job (st_leases s))
    \<and> (\<forall>j \<in> set (st_jobs s). jr_attempts j \<le> jr_max_attempts j
        \<and> (jr_state j = L_RUNNING) = (\<exists>l \<in> set (st_leases s). ls_job l = jr_id j)
        \<and> (\<forall>l \<in> set (st_leases s). ls_job l = jr_id j \<longrightarrow> ls_fencing l = jr_fencing j))"
proof -
  have g: "good s" using reachable_good assms by blast
  then have "distinct (map ls_job (st_leases s))" by (auto simp: good_def dest: core_okD(3))
  moreover have "jr_attempts j \<le> jr_max_attempts j" if "j \<in> set (st_jobs s)" for j
    using g that by (auto simp: good_def job_ok_def dest: core_okD(5))
  ultimately show ?thesis using good_running_iff [OF g] by blast
qed

theorem one_lease_per_running_job_witness:
  "(jr_state sample_started = L_RUNNING) = (\<exists>l \<in> set (st_leases sample_running). ls_job l = jr_id sample_started)
    \<and> jr_state sample_started = L_RUNNING"
  using one_lease_per_running_job [OF _ sample_from_start(2)] by (simp add: sample_stores)

text \<open>C21. Exclusive locks: no resource is locked twice, and every lock belongs to a live lease of a
  running job, with that lease's job and fence; when a lease ends its locks are gone.\<close>

theorem locks_exclusive:
  assumes "0 \<le> mx" "runtime_store.reach env (empty_store mx us) s"
  shows "distinct (map lk_resource (st_locks s))
    \<and> (\<forall>k \<in> set (st_locks s). \<exists>l \<in> set (st_leases s). \<exists>j \<in> set (st_jobs s).
        lk_lease k = ls_id l \<and> lk_job k = jr_id j \<and> ls_job l = jr_id j
        \<and> jr_state j = L_RUNNING \<and> lk_fencing k = jr_fencing j)"
proof -
  have core: "store_core s" using reachable_good [OF assms] by (simp add: good_def)
  then show ?thesis
    using core_okD(4) [OF core] core_okD(7,8) [OF core] unfolding lease_ok_def lock_ok_def by metis
qed

theorem locks_exclusive_witness:
  "\<exists>l \<in> set (st_leases sample_running). \<exists>j \<in> set (st_jobs sample_running).
     lk_lease sample_lock = ls_id l \<and> lk_job sample_lock = jr_id j \<and> ls_job l = jr_id j
     \<and> jr_state j = L_RUNNING \<and> lk_fencing sample_lock = jr_fencing j"
proof -
  have "sample_lock \<in> set (st_locks sample_running)" by (simp add: sample_running_def)
  with locks_exclusive [OF _ sample_from_start(2)] show ?thesis by simp
qed

text \<open>C1. No silent retry: once a job has claimed an effect, no worker ever gets the job again,
  whatever happened since - expired leases, process crashes, sweeps or time-outs. \<close>

theorem claimed_effect_never_rerun:
  assumes "0 \<le> mx" "runtime_store.reach env (empty_store mx us) s" "c \<in> set (st_claims s)"
    and "runtime_store.reach env s t"
    and "claim_next env o0 pid tok secs rs ops jid m t = Inr (t', Some w)"
  shows "lj_id (cw_job w) \<noteq> cl_job c"
proof -
  have g: "good s" "good t" using reachable_good [OF assms(1,2)] runtime_store.reach_inv [OF assms(4)] by auto
  have "c \<in> set (st_claims t)"
    using runtime_store.reach_rank [OF assms(4) g(1)] audit_claims assms(3) by blast
  with claim_next_unclaimed_job g(2) assms(5) show ?thesis by blast
qed

theorem claimed_effect_never_rerun_witness: "lj_id (job_view sample_started2) \<noteq> cl_job sample_claim_row"
  using claimed_effect_never_rerun [OF _ sample_from_start(3) _
      runtime_store.reach_trans [OF sample_reach(4,5)] sample_claim_second, of sample_claim_row]
  by (simp add: sample_claimed_def)

text \<open>C22. Refinement: every history moves each job only along the life cycle \<open>job_step\<close> (start,
  requeue, close, time-out, reconcile); the identity, the payload and the limits of the job stay,
  and its fence never goes back.\<close>

theorem jobs_follow_life_cycle:
  assumes "0 \<le> mx" "runtime_store.reach env (empty_store mx us) s" "runtime_store.reach env s t"
    and "find_job s i = Some j"
  shows "\<exists>k. find_job t i = Some k \<and> job_steps j k \<and> jr_payload k = jr_payload j
    \<and> jr_max_attempts k = jr_max_attempts j \<and> jr_fencing j \<le> jr_fencing k"
proof -
  have g: "good s" using reachable_good [OF assms(1,2)] .
  from find_job_Some [OF assms(4)] have j: "j \<in> set (st_jobs s)" "jr_id j = i" by auto
  with reach_advance [OF assms(3) g] obtain k where k: "k \<in> set (st_jobs t)" "job_steps j k"
    by (auto simp: jobs_advance_def)
  from job_steps_identity [OF k(2)] j have id: "jr_id k = i" "jr_payload k = jr_payload j"
    "jr_max_attempts k = jr_max_attempts j" "jr_fencing j \<le> jr_fencing k" by auto
  have "good t" using runtime_store.reach_inv [OF assms(3) g] .
  then have "find_job t i = Some k"
    using k id core_okD(1) unfolding find_job_def good_def by (metis find_key_distinct)
  with k id show ?thesis by blast
qed

theorem jobs_follow_life_cycle_witness:
  "\<exists>k. find_job sample_last sid1 = Some k \<and> job_steps sample_started k \<and> jr_payload k = jr_payload sample_started
    \<and> jr_max_attempts k = jr_max_attempts sample_started \<and> jr_fencing sample_started \<le> jr_fencing k"
proof -
  have "runtime_store.reach sample_env sample_running sample_last"
    using sample_reach runtime_store.reach_trans by metis
  moreover have "find_job sample_running sid1 = Some sample_started"
    by (simp add: find_job_def sample_running_def sample_started_def sample_job_def)
  ultimately show ?thesis using jobs_follow_life_cycle [OF _ sample_from_start(2)] by simp
qed

text \<open>C30. A final state is final: a job that is completed, failed, cancelled or quarantined keeps
  its whole row - state, evidence, attempts and fence - along every later history.\<close>

theorem terminal_jobs_frozen:
  assumes "0 \<le> mx" "runtime_store.reach env (empty_store mx us) s" "runtime_store.reach env s t"
    and "j \<in> set (st_jobs s)" "jr_state j \<in> set terminal_states"
  shows "j \<in> set (st_jobs t) \<and> jr_evidence j \<noteq> None"
proof -
  have g: "good s" using reachable_good [OF assms(1,2)] .
  have "job_check j" using g assms(4) by (auto simp: good_def job_ok_def dest: core_okD(5))
  with assms(5) have "jr_evidence j \<noteq> None" by (auto simp: terminal_states_def job_check_def)
  with reach_advance [OF assms(3) g] assms(4,5) job_steps_terminal show ?thesis
    unfolding jobs_advance_def by metis
qed

theorem terminal_jobs_frozen_witness: "sample_completed \<in> set (st_jobs sample_last) \<and> jr_evidence sample_completed \<noteq> None"
  by (rule terminal_jobs_frozen [OF _ sample_from_start(5) sample_reach(6)])
    (simp_all add: sample_done_def sample_completed_def terminal_states_def)

text \<open>The audit record only grows: no operation removes or changes an effect claim, a receipt,
  an event, a delivery receipt or a resolution.\<close>

theorem audit_append_only:
  assumes "0 \<le> mx" "runtime_store.reach env (empty_store mx us) s" "runtime_store.reach env s t"
  shows "set (st_claims s) \<subseteq> set (st_claims t) \<and> set (st_receipts s) \<subseteq> set (st_receipts t)
    \<and> set (st_outbox s) \<subseteq> set (st_outbox t) \<and> set (st_outbox_receipts s) \<subseteq> set (st_outbox_receipts t)
    \<and> set (st_resolutions s) \<subseteq> set (st_resolutions t)"
  using audit_parts [OF runtime_store.reach_rank [OF assms(3) reachable_good [OF assms(1,2)]]] by blast

theorem audit_append_only_witness:
  "st_claims sample_claimed = [sample_claim_row] \<and> sample_claim_row \<in> set (st_claims sample_receipted)"
  using audit_append_only [OF _ sample_from_start(3) sample_reach(4)] by (simp add: sample_claimed_def)

lemma reach_max_pending:
  assumes "runtime_store.reach env s t" "good s"
  shows "st_max_pending t = st_max_pending s"
  using assms
proof (induction rule: runtime_store.reach.induct)
  case (reach_step t e u)
  then have "good t" using runtime_store.reach_inv by blast
  with reach_step store_exec_moves [OF reach_step(2)] show ?case by (simp add: moves_def)
qed simp

text \<open>Backpressure: the undelivered events never exceed the configured maximum, and a delivery
  that is over (delivered, failed or handed to recovery) has its receipt.\<close>

theorem outbox_bounded:
  assumes "0 \<le> mx" "runtime_store.reach env (empty_store mx us) s"
  shows "int (pending_count s) \<le> mx
    \<and> (\<forall>d \<in> set (st_deliveries s). dv_state d \<notin> {D_PENDING, D_CLAIMED} \<longrightarrow>
        (\<exists>r \<in> set (st_outbox_receipts s). or_outbox r = dv_outbox d))"
proof -
  have "st_max_pending s = mx" using reach_max_pending [OF assms(2) good_empty [OF assms(1)]]
    by (simp add: empty_store_def)
  moreover have ok: "store_outbox s" using reachable_good [OF assms] by (simp add: good_def)
  moreover have "\<exists>r \<in> set (st_outbox_receipts s). or_outbox r = dv_outbox d"
    if d: "d \<in> set (st_deliveries s)" "dv_state d \<notin> {D_PENDING, D_CLAIMED}" for d
  proof -
    have "dv_state d \<in> {D_DELIVERED, D_FAILED, D_RECOVERY_REQUIRED}" using d(2) by (cases "dv_state d") auto
    with d(1) ok have "dv_outbox d \<in> or_outbox ` set (st_outbox_receipts s)" unfolding outbox_ok_def by blast
    then show ?thesis by auto
  qed
  ultimately show ?thesis unfolding outbox_ok_def pending_count_def by metis
qed

theorem outbox_bounded_witness: "int (pending_count sample_done) \<le> 10 \<and> pending_count sample_done = 3"
  using outbox_bounded [OF _ sample_from_start(5)]
  by (simp add: sample_done_def sample_two_def pending_count_def sample_pending_def)

end
