(* ===== verification/RuntimeOperations.thy ===== *)
theory RuntimeOperations
  imports RuntimeGuarantees
begin

text \<open>
  What single operations of the local runtime promise their caller: idempotent enqueueing and
  scheduling, rejection of workers whose lease or fence is gone, the evidence a completed job needs,
  the grant of a claim, the effect of a sweep and the outcome of a reconciliation.
\<close>

section \<open>Enqueueing\<close>

lemma insert_job_Inr:
  assumes "insert_job env i key p mx av tm m s = Inr t"
  obtains r where "st_jobs t = st_jobs s @ [r]" "jr_id r = i" "jr_key r = key" "jr_payload r = p"
    "jr_max_attempts r = mx" "jr_available_at r = av" "jr_timeout_at r = tm" "jr_state r = L_READY"
    "i \<notin> jr_id ` set (st_jobs s)" "key \<notin> jr_key ` set (st_jobs s)" "st_slots t = st_slots s"
proof -
  from assms obtain r s1 k q e where r: "insert_job_row r s = Inr s1" "jr_id r = i" "jr_key r = key" "jr_payload r = p"
    "jr_max_attempts r = mx" "jr_available_at r = av" "jr_timeout_at r = tm" "jr_state r = L_READY"
    and e: "emit_outbox env i k q e m s1 = Inr t"
    by (auto simp: insert_job_def rbind_Inr_iff)
  from insert_job_row_Inr [OF r(1)] r emit_fields(1,8) [OF e] that [of r] show thesis by auto
qed

lemma find_append_new: "x \<notin> f ` set rs \<Longrightarrow> f r = x \<Longrightarrow> find (\<lambda>r. f r = x) (rs @ [r]) = Some r"
  by (induction rs) auto

lemma new_job_found:
  assumes "insert_job env i key p mx av tm m s = Inr t"
  obtains r where "find_job t i = Some r" "find_job_key t key = Some r" "read_job t i = Inr (job_view r)"
    "jr_key r = key" "jr_payload r = p" "jr_max_attempts r = mx" "jr_available_at r = av" "jr_timeout_at r = tm"
    "st_slots t = st_slots s"
  using assms
proof (rule insert_job_Inr)
  fix r
  assume r: "st_jobs t = st_jobs s @ [r]" "jr_id r = i" "jr_key r = key" "jr_payload r = p"
    "jr_max_attempts r = mx" "jr_available_at r = av" "jr_timeout_at r = tm"
    "i \<notin> jr_id ` set (st_jobs s)" "key \<notin> jr_key ` set (st_jobs s)" "st_slots t = st_slots s"
  from r have "find_job t i = Some r" "find_job_key t key = Some r"
    by (auto simp: find_job_def find_job_key_def find_append_new)
  then show thesis using r by (intro that [of r]) (auto simp: read_job_def)
qed

lemma enqueue_fresh:
  assumes "enqueue env clock now key p mx av tm None s = Inr (t, job, True)"
  obtains k j i s1 where "required key ''Idempotency key'' = Inr k"
    "bounded_int mx ''Local job max_attempts'' 1 100 = Inr mx" "payload_json env p = Inr j"
    "json_field j ''work_binding_digest'' = None" "read_job t i = Inr job"
    "insert_job env i k j mx (case av of None \<Rightarrow> clock | Some a \<Rightarrow> a) tm now s1 = Inr t"
proof -
  from assms obtain k x j where a: "required key ''Idempotency key'' = Inr k"
    "bounded_int mx ''Local job max_attempts'' 1 100 = Inr x" "payload_json env p = Inr j"
    "json_field j ''work_binding_digest'' = None"
    "(case find_job_key s k of
        Some existing \<Rightarrow>
          if dumps (jr_payload existing) \<noteq> dumps j \<or> jr_max_attempts existing \<noteq> mx
             \<or> (av \<noteq> None \<and> jr_available_at existing \<noteq> (case av of None \<Rightarrow> clock | Some t \<Rightarrow> t))
             \<or> (tm \<noteq> None \<and> jr_timeout_at existing \<noteq> tm)
          then Inl (ConcurrencyConflict ''Local job idempotency replay payload drift'')
          else Inr (s, job_view existing, False)
      | None \<Rightarrow>
          rbind (new_uuid s) (\<lambda>(jid, s1).
          rbind (insert_job env jid k j mx (case av of None \<Rightarrow> clock | Some t \<Rightarrow> t) tm now s1) (\<lambda>s2.
          rbind (read_job s2 jid) (\<lambda>job. Inr (s2, job, True))))) = Inr (t, job, True)"
    unfolding enqueue_def Let_def rbind_Inr_iff if_Inl_eq_Inr option.case by blast
  from a(2) have "x = mx" by (auto simp: bounded_int_def split: if_splits)
  with a that show thesis
    by (auto simp: rbind_Inr_iff case_prod_Inr_iff case_option_Inr_iff if_Inl_eq_Inr)
qed

text \<open>Enqueueing is idempotent: repeating an enqueue that created a job - at any later time, by any
  caller - returns the same job, reports that it was not created, and changes nothing. The second
  call must still pass the check that the timeout lies after the availability.\<close>

theorem enqueue_replay:
  assumes "enqueue env clock now key p mx av tm None s = Inr (t, job, True)"
    and "\<forall>d. tm = Some d \<longrightarrow> (case av of None \<Rightarrow> clock' | Some a \<Rightarrow> a) < d"
  shows "enqueue env clock' now' key p mx av tm None t = Inr (t, job, False)"
  using assms(1)
proof (rule enqueue_fresh)
  fix k j i s1
  assume a: "required key ''Idempotency key'' = Inr k" "bounded_int mx ''Local job max_attempts'' 1 100 = Inr mx"
    "payload_json env p = Inr j" "json_field j ''work_binding_digest'' = None" "read_job t i = Inr job"
    "insert_job env i k j mx (case av of None \<Rightarrow> clock | Some a \<Rightarrow> a) tm now s1 = Inr t"
  from a(6) obtain r where r: "find_job_key t k = Some r" "read_job t i = Inr (job_view r)" "jr_payload r = j"
    "jr_max_attempts r = mx" "jr_available_at r = (case av of None \<Rightarrow> clock | Some a \<Rightarrow> a)" "jr_timeout_at r = tm"
    by (rule new_job_found)
  have ok: "\<not> (case tm of None \<Rightarrow> False | Some d \<Rightarrow> d \<le> (case av of None \<Rightarrow> clock' | Some a \<Rightarrow> a))"
    using assms(2) by (cases tm) auto
  show ?thesis using a r ok by (cases av; cases tm) (auto simp: enqueue_def Let_def)
qed

theorem enqueue_replay_witness:
  "enqueue sample_env 99 99 ''nightly'' sample_input 2 None None None sample_queued
     = Inr (sample_queued, job_view (sample_job sid1 ''nightly'' 5), False)"
  by (rule enqueue_replay [OF sample_enqueue]) simp

lemma schedule_fresh:
  assumes "schedule_once env slot d key p m s = Inr (t, job, True)" "payload_json env p = Inr j"
  obtains x sl k i s1 s2 where "parse_digest d = Inr x" "required slot ''Scheduler slot'' = Inr sl"
    "required key ''Idempotency key'' = Inr k" "insert_job env i k j 1 m None m s1 = Inr s2" "read_job t i = Inr job"
    "insert_slot \<lparr>sl_key = sl, sl_digest = d, sl_job = i, sl_created_at = m\<rparr> s2 = Inr t"
proof -
  from assms(1) obtain x sl k j' where a: "parse_digest d = Inr x" "required slot ''Scheduler slot'' = Inr sl"
    "required key ''Idempotency key'' = Inr k" and j': "payload_json env p = Inr j'"
    and c: "(case find (\<lambda>r. sl_key r = sl) (st_slots s) of
       Some row \<Rightarrow>
         if sl_digest row \<noteq> d then Inl (ConcurrencyConflict ''Scheduler slot digest drift'')
         else (case find_job s (sl_job row) of
           None \<Rightarrow> Inl (ConcurrencyConflict ''Scheduler slot orphan job'')
         | Some job \<Rightarrow>
           if jr_key job \<noteq> k \<or> dumps (jr_payload job) \<noteq> dumps j'
           then Inl (ConcurrencyConflict ''Scheduler slot replay payload drift'')
           else Inr (s, job_view job, False))
     | None \<Rightarrow>
         if find_job_key s k \<noteq> None
         then Inl (ConcurrencyConflict ''Scheduler job idempotency key zaten kullanilmis'')
         else
         rbind (new_uuid s) (\<lambda>(jid, s1).
         rbind (insert_job env jid k j' 1 m None m s1) (\<lambda>s2.
         rbind (insert_slot \<lparr>sl_key = sl, sl_digest = d, sl_job = jid, sl_created_at = m\<rparr> s2) (\<lambda>s3.
         rbind (read_job s3 jid) (\<lambda>job. Inr (s3, job, True)))))) = Inr (t, job, True)"
    unfolding schedule_once_def rbind_Inr_iff by blast
  have "j' = j" using j' assms(2) by simp
  from c [unfolded \<open>j' = j\<close>] that [OF a] show thesis
    by (auto simp: rbind_Inr_iff case_prod_Inr_iff case_option_Inr_iff if_Inl_eq_Inr)
qed

text \<open>A scheduler slot yields one job: repeating a \<open>schedule_once\<close> that created a job, for the same
  slot, digest, key and payload, returns that job again and changes nothing.\<close>

theorem schedule_once_replay:
  assumes "schedule_once env slot d key p m s = Inr (t, job, True)"
  shows "schedule_once env slot d key p m' t = Inr (t, job, False)"
proof -
  from assms obtain j where j: "payload_json env p = Inr j"
    by (auto simp: schedule_once_def rbind_Inr_iff)
  with assms obtain x sl k i s1 s2 where a: "parse_digest d = Inr x" "required slot ''Scheduler slot'' = Inr sl"
    "required key ''Idempotency key'' = Inr k"
    and i: "insert_job env i k j 1 m None m s1 = Inr s2" "read_job t i = Inr job"
    and sl: "insert_slot \<lparr>sl_key = sl, sl_digest = d, sl_job = i, sl_created_at = m\<rparr> s2 = Inr t"
    by (rule schedule_fresh)
  let ?row = "\<lparr>sl_key = sl, sl_digest = d, sl_job = i, sl_created_at = m\<rparr>"
  have t: "t = s2\<lparr>st_slots := st_slots s2 @ [?row]\<rparr>" "sl \<notin> sl_key ` set (st_slots s2)"
    using sl by (auto simp: insert_slot_def unique_violation_def foreign_key_violation_def split: if_splits)
  then have row: "find (\<lambda>r. sl_key r = sl) (st_slots t) = Some ?row" by (simp add: find_append_new)
  from i(1) obtain r where r: "find_job s2 i = Some r" "jr_key r = k" "jr_payload r = j"
    by (rule new_job_found)
  then have "find_job t i = Some r" by (simp add: t find_job_def)
  with a j row r i(2) show ?thesis by (auto simp: schedule_once_def read_job_def)
qed

theorem schedule_once_replay_witness:
  "schedule_once sample_env ''slot'' sample_digest ''nightly'' sample_input 99 sample_scheduled
     = Inr (sample_scheduled, job_view ((sample_job sid1 ''nightly'' 5)\<lparr>jr_max_attempts := 1\<rparr>), False)"
  by (rule schedule_once_replay [OF sample_schedule])

section \<open>Working under a lease\<close>

lemma live_lease_fence:
  assumes "good s" "live_lease w m s" "find_job s (lj_id (cw_job w)) = Some j"
  shows "jr_state j = L_RUNNING \<and> jr_fencing j = ll_fencing_token (cw_lease w)"
proof -
  from assms(2) obtain l where "l \<in> set (st_leases s)" "ls_job l = lj_id (cw_job w)"
    "ls_fencing l = ll_fencing_token (cw_lease w)" by (rule live_leaseD)
  with good_lease_job [OF assms(1)] find_job_Some [OF assms(3)] show ?thesis by metis
qed

lemma lease_guard:
  assumes "\<not> live_lease w m s"
  shows "\<not> is_ok (finish env w st ev m s)" "\<not> is_ok (claim_effect w op ed key m s)"
    "\<not> is_ok (quarantine env w ev' m s)"
proof -
  have "finish env w st ev m s \<noteq> Inr (t, j)" for t j
    using assms by (auto elim: finish_Inr)
  moreover have "claim_effect w op ed key m s \<noteq> Inr (t, c, n)" for t c n
    using assms by (auto elim: claim_effect_Inr)
  moreover have "quarantine env w ev' m s \<noteq> Inr (t, j)" for t j
    using assms by (auto simp: quarantine_def Let_def rbind_Inr_iff)
  ultimately show "\<not> is_ok (finish env w st ev m s)" "\<not> is_ok (claim_effect w op ed key m s)"
    "\<not> is_ok (quarantine env w ev' m s)" unfolding is_ok_iff split_paired_Ex by blast+
qed

text \<open>C20. Fencing: a worker whose job is no longer running, or has been given to another worker under a
  newer fence, can no longer claim an effect, finish the job or quarantine it, whatever its lease
  said when it got the job.\<close>

theorem stale_worker_rejected:
  assumes "0 \<le> mx" "runtime_store.reach env (empty_store mx us) s"
    and "find_job s (lj_id (cw_job w)) = Some j"
    and "jr_state j = L_RUNNING \<longrightarrow> jr_fencing j \<noteq> ll_fencing_token (cw_lease w)"
  shows "\<not> is_ok (finish env w st ev m s) \<and> \<not> is_ok (claim_effect w op ed key m s)
    \<and> \<not> is_ok (quarantine env w ev' m s)"
proof -
  have "\<not> live_lease w m s"
    using live_lease_fence [OF reachable_good [OF assms(1,2)] _ assms(3)] assms(4) by blast
  with lease_guard show ?thesis by blast
qed


theorem stale_worker_rejected_witness:
  "\<not> is_ok (finish sample_env sample_worker L_FAILED (Some sample_digest) 11 sample_done)
   \<and> \<not> is_ok (claim_effect sample_worker ''write'' sample_digest ''again'' 11 sample_done)
   \<and> \<not> is_ok (quarantine sample_env sample_worker sample_digest 11 sample_done)"
proof (rule stale_worker_rejected [OF _ sample_from_start(5)])
  show "find_job sample_done (lj_id (cw_job sample_worker)) = Some sample_completed"
    by (simp add: find_job_def job_view_def sample_stores3)
qed (simp_all add: sample_completed_def)

lemma find_update_where:
  assumes "\<And>r. key (f r) = key r"
  shows "find (\<lambda>r. key r = i) (update_where sel f rs) =
    map_option (\<lambda>r. if sel r then f r else r) (find (\<lambda>r. key r = i) rs)"
  using assms by (induction rs) (auto simp: update_where_def)

lemma update_job_find:
  assumes "update_job i p f s = Inr (n, t)" "\<And>r. jr_id (f r) = jr_id r" "find_job s i = Some r" "p r"
  shows "find_job t i = Some (f r)"
  using assms find_job_Some [OF assms(3)]
  by (auto simp: update_job_Inr find_job_def find_update_where [where key = jr_id])

lemma read_job_find: "read_job s i = Inr job \<longleftrightarrow> (\<exists>r. find_job s i = Some r \<and> job = job_view r)"
  by (auto simp: read_job_def split: option.splits)

lemma no_unresolved_iff: "sorted_unresolved s i = [] \<longleftrightarrow> (\<forall>c \<in> set (claims_of s i). \<not> unresolved s c)"
proof -
  have "set (sorted_unresolved s i) = {c \<in> set (claims_of s i). unresolved s c}"
    by (simp add: sorted_unresolved_def)
  then show ?thesis by (auto simp del: set_empty simp: set_empty [symmetric])
qed

lemma failed_receipt_of:
  "c \<in> set (claims_of s i) \<Longrightarrow> receipt_of s (cl_id c) = Some r \<Longrightarrow> re_status r = E_FAILED \<Longrightarrow> has_failed_receipt s i"
  unfolding has_failed_receipt_def list_ex_iff receipt_of_def by (metis find_key_Some)

lemma lease_job_running:
  assumes "good s" "live_lease w m s"
  obtains j where "find_job s (lj_id (cw_job w)) = Some j" "jr_state j = L_RUNNING"
proof -
  from assms(2) obtain l where l: "l \<in> set (st_leases s)" "ls_job l = lj_id (cw_job w)" by (rule live_leaseD)
  have core: "store_core s" using assms(1) by (simp add: good_def)
  from core_okD(7) [OF core l(1)] l(2) obtain j where j: "j \<in> set (st_jobs s)" "jr_id j = lj_id (cw_job w)"
    "jr_state j = L_RUNNING" by (auto simp: lease_ok_def)
  with that find_key_distinct [OF core_okD(1) [OF core] j(1)] show thesis by (simp add: find_job_def)
qed

lemma finish_state:
  assumes "good s" "finish env w st ev m s = Inr (t, job)"
  shows "\<exists>j. find_job t (lj_id (cw_job w)) = Some j \<and> jr_state j = st
    \<and> (st \<noteq> L_RECOVERY_REQUIRED \<longrightarrow> jr_evidence j = ev)"
  using assms(2)
proof (cases rule: finish_Inr)
  case recovery
  then obtain s1 s2 locks ds te ob mx where
    "transition_running_job_to_recovery env FinishRecovery (lj_id (cw_job w)) (ll_id (cw_lease w))
      (ll_fencing_token (cw_lease w)) locks ds te m ob mx s2 = Inr t"
    by (auto simp: finish_recovery_def Let_def rbind_Inr_iff case_prod_Inr_iff)
  then show ?thesis
  proof (rule transition_Inr)
    fix l j r s3
    assume j: "find_job s2 (lj_id (cw_job w)) = Some j" "jr_state j = L_RUNNING"
      "jr_fencing j = ll_fencing_token (cw_lease w)"
      and s3: "s3 = (delete_lease (ll_id (cw_lease w)) (delete_locks (ll_id (cw_lease w)) s2))\<lparr>st_jobs :=
       update_where (\<lambda>r. jr_id r = lj_id (cw_job w) \<and> (jr_state r = L_RUNNING \<and> jr_fencing r = ll_fencing_token (cw_lease w)))
         (\<lambda>r. r\<lparr>jr_state := L_RECOVERY_REQUIRED, jr_evidence := Some te, jr_updated_at := m\<rparr>) (st_jobs s2)\<rparr>"
      and o: "insert_outbox r s3 = Inr t"
    have "st_jobs t = st_jobs s3"
      using o by (auto simp: insert_outbox_def unique_violation_def foreign_key_violation_def split: if_splits)
    with j s3 recovery(1) find_job_Some [OF j(1)] show ?thesis
      by (auto simp: find_job_def find_update_where [where key = jr_id])
  qed
next
  case (close d n s1)
  from lease_job_running [OF assms(1) close(2)] obtain j where "find_job s (lj_id (cw_job w)) = Some j" "jr_state j = L_RUNNING" .
  then have "find_job s1 (lj_id (cw_job w)) = Some (j\<lparr>jr_state := st, jr_evidence := Some d, jr_updated_at := m\<rparr>)"
    using update_job_find [OF close(6), of j] by (simp add: find_job_def delete_lease_def delete_locks_def)
  then show ?thesis using emit_fields(1) [OF close(7)] close(3) by (simp add: find_job_def)
qed

text \<open>C19. Completed means completed: when a worker finishes a job as completed, each effect the job ever
  claimed has a receipt that says completed, the worker held the live lease, and afterwards the job
  carries the given evidence while its lease and all locks of the lease are gone.\<close>

theorem finish_completed:
  assumes "0 \<le> mx" "runtime_store.reach env (empty_store mx us) s"
    and "finish env w L_COMPLETED ev m s = Inr (t, job)"
  shows "live_lease w m s
    \<and> (\<forall>c \<in> set (claims_of s (lj_id (cw_job w))). \<exists>r. receipt_of s (cl_id c) = Some r \<and> re_status r = E_COMPLETED)
    \<and> (\<exists>j. find_job t (lj_id (cw_job w)) = Some j \<and> jr_state j = L_COMPLETED \<and> jr_evidence j = ev)
    \<and> find_lease t (ll_id (cw_lease w)) = None
    \<and> (\<forall>k \<in> set (st_locks t). lk_lease k \<noteq> ll_id (cw_lease w))"
  using assms(3)
proof (cases rule: finish_Inr)
  case (close d n s1)
  let ?i = "lj_id (cw_job w)"
  have "\<exists>r. receipt_of s (cl_id c) = Some r \<and> re_status r = E_COMPLETED" if c: "c \<in> set (claims_of s ?i)" for c
  proof -
    from close(4) c have "\<not> unresolved s c" by (simp add: no_unresolved_iff)
    then obtain r where r: "receipt_of s (cl_id c) = Some r" "re_status r \<noteq> E_UNKNOWN"
      by (auto simp: unresolved_def split: option.splits)
    with failed_receipt_of [OF c r(1)] close(5) show ?thesis by (cases "re_status r") auto
  qed
  moreover have "\<exists>j. find_job t ?i = Some j \<and> jr_state j = L_COMPLETED \<and> jr_evidence j = ev"
    using finish_state [OF reachable_good [OF assms(1,2)] assms(3)] by simp
  moreover have "st_leases t = filter (\<lambda>r. ls_id r \<noteq> ll_id (cw_lease w)) (st_leases s)"
    "st_locks t = filter (\<lambda>k. lk_lease k \<noteq> ll_id (cw_lease w)) (st_locks s)"
    using close(6) emit_fields(2,3) [OF close(7)] by (auto simp: update_job_Inr delete_lease_def delete_locks_def)
  ultimately show ?thesis using close(2) by (auto simp: find_lease_def find_None_iff)
qed simp

theorem finish_completed_witness:
  "\<exists>r. receipt_of sample_receipted (cl_id sample_claim_row) = Some r \<and> re_status r = E_COMPLETED"
proof -
  have "sample_claim_row \<in> set (claims_of sample_receipted (lj_id (cw_job sample_worker)))"
    by (simp add: claims_of_def job_view_def sample_stores3)
  with finish_completed [OF _ sample_from_start(4) sample_finish] show ?thesis by simp
qed

section \<open>Reconciling\<close>

lemma reconcile_job_found:
  assumes "reconcile_effect_recovery_job env j cs st te m ob mx s = Inr t" "read_job t j = Inr job"
  shows "lj_state job = st"
proof -
  from assms(1) obtain r n s1 where u: "update_job j (\<lambda>r. jr_state r = L_RECOVERY_REQUIRED)
      (\<lambda>r. r\<lparr>jr_state := st, jr_evidence := Some te, jr_updated_at := m\<rparr>) s = Inr (n, s1)"
    and o: "insert_outbox r s1 = Inr t"
    and f: "case find_job s j of None \<Rightarrow> False | Some j \<Rightarrow> jr_state j = L_RECOVERY_REQUIRED"
    unfolding reconcile_effect_recovery_job_def rbind_Inr_iff case_prod_Inr_iff if_Inl_eq_Inr by blast
  from f obtain q where "find_job s j = Some q" "jr_state q = L_RECOVERY_REQUIRED"
    by (auto split: option.splits)
  with update_job_find [OF u, of q] have "find_job s1 j = Some (q\<lparr>jr_state := st, jr_evidence := Some te, jr_updated_at := m\<rparr>)"
    by simp
  moreover have "st_jobs t = st_jobs s1"
    using o by (auto simp: insert_outbox_def unique_violation_def foreign_key_violation_def split: if_splits)
  ultimately show ?thesis using assms(2) by (auto simp: read_job_find find_job_def job_view_def)
qed

text \<open>Reconciliation decides by the evidence: it acts only on a job in recovery; while some claim of
  the job is still open it changes nothing; otherwise the job becomes failed exactly when a receipt
  or a resolution of one of its claims says failed, and completed if none does.\<close>

theorem reconcile_outcome:
  assumes "reconcile_recovery env key m s = Inr (t, job)"
  shows "\<exists>j. find_job s (strip key) = Some j \<and> jr_state j = L_RECOVERY_REQUIRED
    \<and> (if \<exists>c \<in> set (claims_of s (strip key)). claim_open s c then t = s \<and> job = job_view j
       else lj_state job = (if \<exists>c \<in> set (claims_of s (strip key)). claim_failed s c then L_FAILED else L_COMPLETED))"
proof -
  from assms have k: "required key ''Job id'' = Inr (strip key)"
    by (auto simp: reconcile_recovery_def rbind_Inr_iff required_def split: if_splits)
  with assms obtain j where j: "find_job s (strip key) = Some j" "jr_state j = L_RECOVERY_REQUIRED"
    by (auto simp: reconcile_recovery_def case_option_Inr_iff if_Inl_eq_Inr)
  show ?thesis
  proof (cases "list_ex (claim_open s) (claims_of s (strip key))")
    case True
    with assms k j show ?thesis by (auto simp: reconcile_recovery_def list_ex_iff)
  next
    case False
    with assms k j obtain te s1 ob s2 cs mx' where "read_job t (strip key) = Inr job"
      "reconcile_effect_recovery_job env (strip key) cs
         (if list_ex (claim_failed s) (claims_of s (strip key)) then L_FAILED else L_COMPLETED) te m ob mx' s1 = Inr t"
      by (auto simp: reconcile_recovery_def rbind_Inr_iff case_prod_Inr_iff)
    with reconcile_job_found j False show ?thesis by (auto simp: list_ex_iff)
  qed
qed

theorem reconcile_outcome_witness:
  "lj_state (job_view (sample_started\<lparr>jr_state := L_FAILED, jr_evidence := Some (digest_json sample_outcome),
       jr_updated_at := 90000000\<rparr>))
     = (if \<exists>c \<in> set (claims_of sample_resolved sid1). claim_failed sample_resolved c then L_FAILED else L_COMPLETED)"
proof -
  have "\<not> (\<exists>c \<in> set (claims_of sample_resolved sid1). claim_open sample_resolved c)"
    by (simp add: claims_of_def claim_open_def case_of_claim_def resolution_of_def sample_stores_lost)
  with reconcile_outcome [OF sample_reconcile] show ?thesis by (auto split: if_splits)
qed

end
