(* ===== verification/RuntimeRecovery.thy ===== *)
theory RuntimeRecovery
  imports RuntimeOperations
begin

text \<open>
  Claims and crash recovery: what a worker holds after a claim, that a sweep leaves no expired lease
  and no timed-out job behind, and that a job whose effect is unknown goes to recovery with an open
  case, never back to the queue.
\<close>

section \<open>Claiming\<close>

lemma claim_next_args:
  assumes "claim_next env o0 pid tok secs rs ops jid m s = Inr (t, Some w)"
  obtains items s1 v r owner token ops' where "1 \<le> secs" "rmap (portable_resource env) rs = Inr items"
    "recover env m [] s = Inr (s1, v)" "r \<in> set (st_jobs s1)" "claimable m ops' jid r"
    "start_job r owner pid token secs (sort (remdups items)) m s1 = Inr (t, Some w)"
proof -
  from assms obtain owner token items ops' b where r: "bounded_int secs ''Lease suresi'' 1 3600 = Inr b"
      "rmap (portable_resource env) rs = Inr items"
    and c: "(case claim_next_tx env owner pid token secs (sort (remdups items)) ops' jid m s of
       Inl e \<Rightarrow> if lock_conflict e then Inr (s, None) else Inl e | Inr x \<Rightarrow> Inr x) = Inr (t, Some w)"
    unfolding claim_next_def Let_def rbind_Inr_iff if_Inl_eq_Inr by blast
  then have "claim_next_tx env owner pid token secs (sort (remdups items)) ops' jid m s = Inr (t, Some w)"
    by (auto split: sum.splits if_splits)
  then obtain s1 v q where a: "recover env m [] s = Inr (s1, v)" "select_job m ops' jid s1 = Some q"
    "start_job q owner pid token secs (sort (remdups items)) m s1 = Inr (t, Some w)"
    by (auto simp: claim_next_tx_def rbind_Inr_iff case_prod_Inr_iff case_option_Inr_iff)
  have "1 \<le> secs" using r(1) by (auto simp: bounded_int_def split: if_splits)
  with that [OF _ r(2) a(1) _ _ a(3)] select_job_Some [OF a(2)] show thesis by blast
qed

lemma insert_locks_rows:
  assumes "rfold (\<lambda>t r. insert_lock \<lparr>lk_resource = r, lk_job = j, lk_lease = i, lk_fencing = f,
      lk_acquired_at = m\<rparr> t) s rs = Inr t"
  shows "st_locks t = st_locks s @ map (\<lambda>r. \<lparr>lk_resource = r, lk_job = j, lk_lease = i, lk_fencing = f,
      lk_acquired_at = m\<rparr>) rs" "st_leases t = st_leases s" "st_jobs t = st_jobs s"
  using assms
  by (induction rs arbitrary: s) (auto simp: rbind_Inr_iff dest!: insert_lock_Inr)

lemma portable_resource_strip: "portable_resource env r = Inr x \<Longrightarrow> x = strip r"
  by (auto simp: portable_resource_def required_def rbind_Inr_iff split: if_splits)

lemma started_lease:
  assumes "start_job r owner pid token secs items m s = Inr (t, Some w)" "1 \<le> secs"
  shows "live_lease w m t" "ll_fencing_token (cw_lease w) = jr_fencing r + 1" "lj_id (cw_job w) = jr_id r"
    "\<And>x. x \<in> set items \<Longrightarrow> \<exists>k \<in> set (st_locks t). lk_resource k = x \<and> lk_lease k = ll_id (cw_lease w)
       \<and> lk_fencing k = jr_fencing r + 1"
proof -
  from assms(1) obtain lid s1 e l s3 where a: "add_delta m (secs * 1000000) = Inr e"
    "l = \<lparr>ls_id = lid, ls_job = jr_id r, ls_owner = owner, ls_pid = pid, ls_token = token,
      ls_fencing = jr_fencing r + 1, ls_heartbeat_at = m, ls_expires_at = e\<rparr>"
    "insert_lease l s1 = Inr s3"
    "rfold (\<lambda>t resource. insert_lock \<lparr>lk_resource = resource, lk_job = ls_job l, lk_lease = ls_id l,
        lk_fencing = ls_fencing l, lk_acquired_at = m\<rparr> t) s3 items = Inr t"
    "\<exists>job l'. find_job t (jr_id r) = Some job \<and> find_lease t lid = Some l'
      \<and> Some w = Some \<lparr>cw_job = job_view job, cw_lease = lease_view l'\<rparr>"
    by (rule start_job_Inr) blast
  note locks = insert_locks_rows [OF a(4)]
  from insert_lease_Inr [OF a(3)] have "find_lease s3 lid = Some l"
    by (auto simp: find_lease_def a(2) intro!: find_append_new)
  then have fl: "find_lease t lid = Some l" by (simp add: find_lease_def locks(2))
  with a(5) obtain job where w: "w = \<lparr>cw_job = job_view job, cw_lease = lease_view l\<rparr>"
    and job: "find_job t (jr_id r) = Some job" by auto
  have e: "m < e" using a(1) assms(2) by (auto simp: add_delta_def split: if_splits)
  from find_job_Some [OF job] show "lj_id (cw_job w) = jr_id r" by (simp add: w job_view_def)
  then show "live_lease w m t" using fl e by (simp add: live_lease_def w lease_view_def a(2))
  show "ll_fencing_token (cw_lease w) = jr_fencing r + 1" by (simp add: w lease_view_def a(2))
  show "\<exists>k \<in> set (st_locks t). lk_resource k = x \<and> lk_lease k = ll_id (cw_lease w) \<and> lk_fencing k = jr_fencing r + 1"
    if "x \<in> set items" for x
    unfolding locks(1) using that by (force simp: w lease_view_def a(2))
qed

lemma rmap_mem: "rmap f xs = Inr ys \<Longrightarrow> x \<in> set xs \<Longrightarrow> \<exists>y \<in> set ys. f x = Inr y"
  by (induction xs arbitrary: ys) (auto simp: rbind_Inr_iff)

text \<open>A granted claim is a claim: the worker holds a live lease, its fence is greater than any fence
  the job had before, and every resource it asked for is locked for that lease.\<close>

theorem claim_next_grants:
  assumes "0 \<le> mx" "runtime_store.reach env (empty_store mx us) s"
    and "claim_next env o0 pid tok secs rs ops jid m s = Inr (t, Some w)"
  shows "live_lease w m t
    \<and> (\<forall>x \<in> set rs. \<exists>k \<in> set (st_locks t). lk_resource k = strip x \<and> lk_lease k = ll_id (cw_lease w))
    \<and> (\<forall>j \<in> set (st_jobs s). jr_id j = lj_id (cw_job w) \<longrightarrow> jr_fencing j < ll_fencing_token (cw_lease w))"
  using assms(3)
proof (rule claim_next_args)
  fix items s1 v r owner token
  assume a: "1 \<le> secs" "rmap (portable_resource env) rs = Inr items" "recover env m [] s = Inr (s1, v)"
    "r \<in> set (st_jobs s1)" "start_job r owner pid token secs (sort (remdups items)) m s1 = Inr (t, Some w)"
  note st = started_lease [OF a(5,1)]
  have g: "good s" using reachable_good [OF assms(1,2)] .
  with moves_recover [OF a(3)] have g1: "good s1" "jobs_advance (st_jobs s) (st_jobs s1)" by (auto simp: moves_def)
  have "strip x \<in> set (sort (remdups items))" if "x \<in> set rs" for x
    using rmap_mem [OF a(2) that] by (auto dest: portable_resource_strip)
  moreover have "jr_fencing j < ll_fencing_token (cw_lease w)"
    if j: "j \<in> set (st_jobs s)" "jr_id j = lj_id (cw_job w)" for j
  proof -
    from g1(2) j obtain k where k: "k \<in> set (st_jobs s1)" "job_steps j k" by (auto simp: jobs_advance_def)
    from job_steps_identity [OF k(2)] j st(3) have "jr_id k = jr_id r" "jr_fencing j \<le> jr_fencing k" by auto
    moreover have "distinct (map jr_id (st_jobs s1))" using g1(1) by (auto simp: good_def dest: core_okD(1))
    ultimately have "k = r" "jr_fencing j \<le> jr_fencing r" using distinct_key_eq k(1) a(4) by metis+
    then show ?thesis using st(2) by simp
  qed
  ultimately show ?thesis using st(1,4) by blast
qed

theorem claim_next_grants_witness:
  "live_lease sample_worker 6 sample_running
   \<and> (\<exists>k \<in> set (st_locks sample_running). lk_resource k = strip ''db:main''
        \<and> lk_lease k = ll_id (cw_lease sample_worker))"
  using claim_next_grants [OF _ sample_from_start(1) sample_claim_next] by simp


section \<open>The sweep is complete\<close>

lemma sweep_ready_jobs:
  assumes "sweep_ready_job env m s j = Inr t"
  obtains d where "st_jobs t = update_where (\<lambda>r. jr_id r = jr_id j \<and> jr_state r = L_READY)
      (\<lambda>r. r\<lparr>jr_state := L_FAILED, jr_evidence := Some d, jr_updated_at := m\<rparr>) (st_jobs s)"
    "st_cases t = st_cases s"
proof -
  from assms obtain d n s1 k p key where
    "update_job (jr_id j) (\<lambda>r. jr_state r = L_READY)
       (\<lambda>r. r\<lparr>jr_state := L_FAILED, jr_evidence := Some d, jr_updated_at := m\<rparr>) s = Inr (n, s1)"
    and e: "emit_outbox env (jr_id j) k p key m s1 = Inr t"
    by (auto simp: sweep_ready_job_def rbind_Inr_iff case_prod_Inr_iff)
  with emit_fields(1,6) [OF e] that show thesis by (auto simp: update_job_Inr)
qed

lemma sweep_ready_list:
  "rfold (sweep_ready_job env m) s js = Inr t \<Longrightarrow>
     (\<forall>r \<in> set (st_jobs t). ready_timed_out m r \<longrightarrow> r \<in> set (st_jobs s) \<and> jr_id r \<notin> jr_id ` set js)
     \<and> st_cases t = st_cases s
     \<and> (\<forall>r \<in> set (st_jobs s). jr_state r \<noteq> L_READY \<longrightarrow> r \<in> set (st_jobs t))"
proof (induction js arbitrary: s)
  case (Cons j js)
  from Cons.prems obtain u where u: "sweep_ready_job env m s j = Inr u" "rfold (sweep_ready_job env m) u js = Inr t"
    by (auto simp: rbind_Inr_iff)
  from u(1) obtain d where d: "st_jobs u = update_where (\<lambda>r. jr_id r = jr_id j \<and> jr_state r = L_READY)
      (\<lambda>r. r\<lparr>jr_state := L_FAILED, jr_evidence := Some d, jr_updated_at := m\<rparr>) (st_jobs s)"
    "st_cases u = st_cases s" by (rule sweep_ready_jobs)
  have a: "r \<in> set (st_jobs s) \<and> jr_id r \<noteq> jr_id j" if "r \<in> set (st_jobs u)" "ready_timed_out m r" for r
  proof -
    from that(1) obtain x where "x \<in> set (st_jobs s)" "r = (if jr_id x = jr_id j \<and> jr_state x = L_READY
        then x\<lparr>jr_state := L_FAILED, jr_evidence := Some d, jr_updated_at := m\<rparr> else x)"
      unfolding d mem_update_where by blast
    with that(2) show ?thesis by (cases "jr_id x = jr_id j \<and> jr_state x = L_READY") (auto simp: ready_timed_out_def)
  qed
  have b: "r \<in> set (st_jobs u)" if "r \<in> set (st_jobs s)" "jr_state r \<noteq> L_READY" for r
    using that unfolding d by (intro update_where_keep) auto
  note IH = Cons.IH [OF u(2)]
  show ?case
  proof (intro conjI ballI impI)
    fix r
    assume "r \<in> set (st_jobs t)" "ready_timed_out m r"
    with IH have "r \<in> set (st_jobs u)" "jr_id r \<notin> jr_id ` set js" by blast+
    with a \<open>ready_timed_out m r\<close> show "r \<in> set (st_jobs s)" "jr_id r \<notin> jr_id ` set (j # js)" by simp_all
  next
    show "st_cases t = st_cases s" using IH d(2) by simp
  next
    fix r
    assume "r \<in> set (st_jobs s)" "jr_state r \<noteq> L_READY"
    with b IH show "r \<in> set (st_jobs t)" by blast
  qed
qed simp

lemma recover_leases:
  assumes "good s" "recover env m os s = Inr (t, w)"
  shows "st_leases t = filter (\<lambda>l. m < ls_expires_at l \<and> ls_id l \<notin> set os) (st_leases s)"
    and "j \<in> set (st_jobs t) \<Longrightarrow> \<not> ready_timed_out m j"
proof -
  from assms(2) obtain s1 w1 where a: "rfold (sweep_lease env m) (s, empty_sweep) (swept_leases m os s) = Inr (s1, w1)"
    "rfold (sweep_ready_job env m) s1 (sort_key jr_id (filter (ready_timed_out m) (st_jobs s1))) = Inr t"
    by (rule recover_Inr)
  have "ls_id l \<in> ls_id ` set (swept_leases m os s) \<longleftrightarrow> \<not> (m < ls_expires_at l \<and> ls_id l \<notin> set os)"
    if "l \<in> set (st_leases s)" for l
  proof -
    have "distinct (map ls_id (st_leases s))" using assms(1) by (auto simp: good_def dest: core_okD(2))
    with that have "ls_id l \<in> ls_id ` set (swept_leases m os s) \<longleftrightarrow> l \<in> set (swept_leases m os s)"
      by (auto simp: swept_leases_def dest: distinct_key_eq)
    with that show ?thesis by (auto simp: swept_leases_def)
  qed
  with sweep_leases_moves [OF a(1) swept_leases_ok [OF assms(1)]] sweep_ready_list_moves [OF a(2)]
  show "st_leases t = filter (\<lambda>l. m < ls_expires_at l \<and> ls_id l \<notin> set os) (st_leases s)"
    by (auto intro!: filter_cong)
  show "\<not> ready_timed_out m j" if "j \<in> set (st_jobs t)"
    using sweep_ready_list [OF a(2)] that by auto
qed

text \<open>A sweep is complete: when it returns, the leases left are exactly those that have neither expired
  nor been reported as orphans, and no ready job is past its timeout.\<close>

theorem recover_complete:
  assumes "0 \<le> mx" "runtime_store.reach env (empty_store mx us) s" "recover env m os s = Inr (t, w)"
  shows "st_leases t = filter (\<lambda>l. m < ls_expires_at l \<and> ls_id l \<notin> set os) (st_leases s)
    \<and> (\<forall>j \<in> set (st_jobs t). \<not> ready_timed_out m j)"
  using recover_leases [OF reachable_good [OF assms(1,2)] assms(3)] by blast

theorem recover_complete_witness:
  "st_leases sample_claimed = [sample_lease] \<and> st_leases sample_lost = []
   \<and> filter (ready_timed_out 70000000) (st_jobs sample_lost) = []"
  using recover_complete [OF _ sample_from_start(3) sample_recover_lost]
  by (simp add: sample_claimed_def sample_running_def sample_lease_def filter_empty_conv)

section \<open>Unknown effects\<close>

definition escalated :: "string \<Rightarrow> string \<Rightarrow> store \<Rightarrow> bool" where
  "escalated jid cid s \<longleftrightarrow> (\<exists>j \<in> set (st_jobs s). jr_id j = jid \<and> jr_state j = L_RECOVERY_REQUIRED)
     \<and> (\<exists>k \<in> set (st_cases s). ca_claim k = Some cid \<and> ca_job k = jid \<and> ca_open k)"

lemma effect_case_present:
  assumes "insert_effect_recovery_case route i jid cid ev m s = Inr t"
  shows "\<exists>k \<in> set (st_cases t). ca_claim k = Some cid \<and> ca_job k = jid \<and> ca_open k"
    and "set (st_cases s) \<subseteq> set (st_cases t)"
proof -
  define row where "row = \<lparr>ca_id = i, ca_job = jid, ca_claim = Some cid, ca_outbox = None,
    ca_kind = EFFECT_UNKNOWN, ca_evidence = ev, ca_open = True, ca_created_at = m, ca_resolved_at = None\<rparr>"
  from assms have e: "(if filter (\<lambda>c. ca_id c = i \<or> ca_claim c = Some cid) (st_cases s) \<noteq> []
      then (if filter (\<lambda>c. ca_id c = i \<or> ca_claim c = Some cid) (st_cases s) \<noteq> [row]
        then Inl (ConcurrencyConflict ''Effect recovery case collision'') else Inr s)
      else insert_case row s) = Inr t"
    by (auto simp: insert_effect_recovery_case_def rbind_Inr_iff case_option_Inr_iff Let_def row_def if_Inl_eq_Inr
        simp del: filter_empty_conv)
  have "row \<in> set (st_cases t) \<and> set (st_cases s) \<subseteq> set (st_cases t)"
  proof (cases "filter (\<lambda>c. ca_id c = i \<or> ca_claim c = Some cid) (st_cases s) = []")
    case True
    with e have "t = s\<lparr>st_cases := st_cases s @ [row]\<rparr>"
      by (auto simp: insert_case_def unique_violation_def foreign_key_violation_def check_violation_def split: if_splits)
    then show ?thesis by auto
  next
    case False
    with e have "filter (\<lambda>c. ca_id c = i \<or> ca_claim c = Some cid) (st_cases s) = [row]" "t = s"
      by (auto split: if_splits)
    moreover from this(1) have "set (filter (\<lambda>c. ca_id c = i \<or> ca_claim c = Some cid) (st_cases s)) = {row}" by simp
    then have "row \<in> set (st_cases s)" unfolding set_filter by blast
    ultimately show ?thesis by simp
  qed
  then show "set (st_cases s) \<subseteq> set (st_cases t)" "\<exists>k \<in> set (st_cases t). ca_claim k = Some cid \<and> ca_job k = jid \<and> ca_open k"
    by (auto intro!: bexI [of _ row]) (simp_all add: row_def)
qed

lemma sweep_claim_case:
  assumes "sweep_claim l m s0 (s, ds) c = Inr (t, ds')"
  shows "\<exists>k \<in> set (st_cases t). ca_claim k = Some (cl_id c) \<and> ca_job k = ls_job l \<and> ca_open k"
    and "set (st_cases s) \<subseteq> set (st_cases t)"
proof -
  from assms obtain u s1 route i ev m' where "new_uuid s = Inr (u, s1)"
    "insert_effect_recovery_case route i (ls_job l) (cl_id c) ev m' s1 = Inr t"
    by (auto simp: sweep_claim_def rbind_Inr_iff case_prod_Inr_iff case_option_Inr_iff if_Inl_eq_Inr)
  with effect_case_present new_uuid_fields(9)
  show "\<exists>k \<in> set (st_cases t). ca_claim k = Some (cl_id c) \<and> ca_job k = ls_job l \<and> ca_open k"
    "set (st_cases s) \<subseteq> set (st_cases t)" by metis+
qed

lemma sweep_claims_cases:
  assumes "rfold (sweep_claim l m s0) (s, ds) cs = Inr (t, ds')"
  shows "set (st_cases s) \<subseteq> set (st_cases t)
    \<and> (\<forall>c \<in> set cs. \<exists>k \<in> set (st_cases t). ca_claim k = Some (cl_id c) \<and> ca_job k = ls_job l \<and> ca_open k)"
  using assms
proof (induction cs arbitrary: s ds)
  case (Cons c cs)
  then obtain u es where u: "sweep_claim l m s0 (s, ds) c = Inr (u, es)"
    "rfold (sweep_claim l m s0) (u, es) cs = Inr (t, ds')" by (auto simp: rbind_Inr_iff)
  with Cons.IH [OF u(2)] sweep_claim_case [OF u(1)] show ?case by simp blast
qed simp


text \<open>What a sweep of one lease leaves alone, and what it does to a job with an unresolved claim.\<close>

lemma release_lease_frame:
  assumes "release_lease env l m st ev s = Inr t"
  shows "st_claims t = st_claims s" "st_receipts t = st_receipts s" "st_cases t = st_cases s"
    "\<And>r. r \<in> set (st_jobs s) \<Longrightarrow> jr_id r \<noteq> ls_job l \<Longrightarrow> r \<in> set (st_jobs t)"
proof -
  from assms obtain s1 n k p key where u: "update_job (ls_job l) (\<lambda>_. True)
      (\<lambda>r. r\<lparr>jr_state := st, jr_evidence := ev, jr_updated_at := m\<rparr>) s = Inr (n, s1)"
    and e: "emit_outbox env (ls_job l) k p key m (delete_lease (ls_id l) (delete_locks (ls_id l) s1)) = Inr t"
    by (auto simp: release_lease_def rbind_Inr_iff case_prod_Inr_iff)
  show "st_claims t = st_claims s" "st_receipts t = st_receipts s" "st_cases t = st_cases s"
    using u emit_fields [OF e] by (auto simp: update_job_Inr delete_lease_def delete_locks_def)
  show "r \<in> set (st_jobs t)" if "r \<in> set (st_jobs s)" "jr_id r \<noteq> ls_job l" for r
    using that u emit_fields(1) [OF e]
    by (auto simp: update_job_Inr delete_lease_def delete_locks_def intro: update_where_keep)
qed

lemma transition_frame:
  assumes "transition_running_job_to_recovery env route jid lid fence locks ds te m ob mx s = Inr t"
  shows "st_claims t = st_claims s \<and> st_receipts t = st_receipts s \<and> st_cases t = st_cases s
    \<and> (\<forall>r \<in> set (st_jobs s). jr_id r \<noteq> jid \<longrightarrow> r \<in> set (st_jobs t))
    \<and> (\<exists>j \<in> set (st_jobs t). jr_id j = jid \<and> jr_state j = L_RECOVERY_REQUIRED)"
  using assms
proof (rule transition_Inr)
  fix l job r s1
  let ?f = "\<lambda>r. r\<lparr>jr_state := L_RECOVERY_REQUIRED, jr_evidence := Some te, jr_updated_at := m\<rparr>"
  let ?sel = "\<lambda>r. jr_id r = jid \<and> (jr_state r = L_RUNNING \<and> jr_fencing r = fence)"
  assume j: "find_job s jid = Some job" "jr_state job = L_RUNNING" "jr_fencing job = fence"
    and s1: "s1 = (delete_lease lid (delete_locks lid s))\<lparr>st_jobs := update_where ?sel ?f (st_jobs s)\<rparr>"
    and o: "insert_outbox r s1 = Inr t"
  have t: "st_claims t = st_claims s" "st_receipts t = st_receipts s" "st_cases t = st_cases s"
    "st_jobs t = update_where ?sel ?f (st_jobs s)"
    using o by (auto simp: insert_outbox_def unique_violation_def foreign_key_violation_def s1
        delete_lease_def delete_locks_def split: if_splits)
  have "?f job \<in> set (st_jobs t)" unfolding t using find_job_Some [OF j(1)] j by (intro update_where_new) auto
  then have "\<exists>j \<in> set (st_jobs t). jr_id j = jid \<and> jr_state j = L_RECOVERY_REQUIRED"
    using find_job_Some [OF j(1)] by (intro bexI [of _ "?f job"]) auto
  moreover have "q \<in> set (st_jobs t)" if "q \<in> set (st_jobs s)" "jr_id q \<noteq> jid" for q
    unfolding t using that by (intro update_where_keep) auto
  ultimately show ?thesis using t by blast
qed


lemma sweep_lease_frame:
  assumes "sweep_lease env m (s, w) l = Inr (t, w')"
  shows "st_claims t = st_claims s \<and> st_receipts t = st_receipts s \<and> set (st_cases s) \<subseteq> set (st_cases t)
    \<and> (\<forall>r \<in> set (st_jobs s). jr_id r \<noteq> ls_job l \<longrightarrow> r \<in> set (st_jobs t))
    \<and> (\<forall>c \<in> set (claims_of s (ls_job l)). unresolved s c \<longrightarrow> escalated (ls_job l) (cl_id c) t)"
proof (cases "sorted_unresolved s (ls_job l) = []")
  case False
  with assms obtain s1 ds te s2 ob locks where
    a: "rfold (sweep_claim l m s) (s, []) (sorted_unresolved s (ls_job l)) = Inr (s1, ds)" "new_uuid s1 = Inr (ob, s2)"
    "transition_running_job_to_recovery env SweepRecovery (ls_job l) (ls_id l) (ls_fencing l) locks ds
       te m ob (st_max_pending s2) s2 = Inr t"
    by (auto simp: sweep_lease_def Let_def rbind_Inr_iff case_prod_Inr_iff)
  have f: "case_frame s s2"
    using sweep_claims_frame [OF a(1)] new_uuid_frame [OF a(2)] case_frame_trans by blast
  have set: "set (sorted_unresolved s (ls_job l)) = {c \<in> set (claims_of s (ls_job l)). unresolved s c}"
    by (simp add: sorted_unresolved_def)
  note c = sweep_claims_cases [OF a(1)] new_uuid_fields(9) [OF a(2)]
  show ?thesis
    using transition_frame [OF a(3)] c case_frame_fields [OF f] unfolding escalated_def set by auto
next
  case no: True
  then obtain st ev where r: "release_lease env l m st ev s = Inr t"
    using assms
    by (auto simp: sweep_lease_def Let_def rbind_Inr_iff case_option_Inr_iff split: if_splits)
  show ?thesis using release_lease_frame [OF r] no by (auto simp: no_unresolved_iff)
qed

lemma sweep_leases_escalate:
  assumes "rfold (sweep_lease env m) (s, w) ls = Inr (t, w')" "distinct (map ls_job ls)" "c \<in> set (st_claims s)"
    and "(\<exists>l \<in> set ls. ls_job l = cl_job c) \<and> unresolved s c
      \<or> cl_job c \<notin> ls_job ` set ls \<and> escalated (cl_job c) (cl_id c) s"
  shows "escalated (cl_job c) (cl_id c) t"
  using assms
proof (induction ls arbitrary: s w)
  case (Cons l ls)
  from Cons.prems(1) obtain u v where u: "sweep_lease env m (s, w) l = Inr (u, v)"
    "rfold (sweep_lease env m) (u, v) ls = Inr (t, w')" by (auto simp: rbind_Inr_iff)
  note f = sweep_lease_frame [OF u(1)]
  have c: "c \<in> set (st_claims u)" using f Cons.prems(3) by simp
  have un: "unresolved u c = unresolved s c" using f by (simp add: unresolved_def receipt_of_def)
  have d: "distinct (map ls_job ls)" "ls_job l \<notin> ls_job ` set ls" using Cons.prems(2) by auto
  show ?case
  proof (cases "ls_job l = cl_job c")
    case True
    with Cons.prems(4) have "unresolved s c" by auto
    with f True Cons.prems(3) have "escalated (cl_job c) (cl_id c) u" by (auto simp: claims_of_def)
    with Cons.IH [OF u(2) d(1) c] d(2) True show ?thesis by auto
  next
    case False
    with f have "escalated (cl_job c) (cl_id c) u" if "escalated (cl_job c) (cl_id c) s"
      using that unfolding escalated_def by (metis subsetD)
    with Cons.IH [OF u(2) d(1) c] Cons.prems(4) False un show ?thesis by auto
  qed
qed auto

text \<open>C4. A crash after an effect claim is escalated, never retried: when a sweep ends the lease of a job
  that has a claim with no receipt, or with an unknown one, the job is in recovery afterwards and
  the claim has an open recovery case of that job.\<close>

theorem unknown_effect_escalates:
  assumes "0 \<le> mx" "runtime_store.reach env (empty_store mx us) s" "recover env m os s = Inr (t, w)"
    and "l \<in> set (st_leases s)" "ls_expires_at l \<le> m \<or> ls_id l \<in> set os"
    and "c \<in> set (claims_of s (ls_job l))" "unresolved s c"
  shows "(\<exists>j. find_job t (ls_job l) = Some j \<and> jr_state j = L_RECOVERY_REQUIRED)
    \<and> (\<exists>k \<in> set (st_cases t). ca_claim k = Some (cl_id c) \<and> ca_job k = ls_job l \<and> ca_open k)"
  using assms(3)
proof (rule recover_Inr)
  fix s1 w1
  assume a: "rfold (sweep_lease env m) (s, empty_sweep) (swept_leases m os s) = Inr (s1, w1)"
    "rfold (sweep_ready_job env m) s1 (sort_key jr_id (filter (ready_timed_out m) (st_jobs s1))) = Inr t"
  have g: "good s" using reachable_good [OF assms(1,2)] .
  with moves_recover [OF assms(3)] have gt: "good t" by (simp add: moves_def)
  have c: "c \<in> set (st_claims s)" "cl_job c = ls_job l" using assms(6) by (auto simp: claims_of_def)
  have "distinct (map ls_job (st_leases s))" using g by (auto simp: good_def dest: core_okD(3))
  then have "distinct (map ls_job (swept_leases m os s))"
    unfolding swept_leases_def distinct_map_sort_key by (rule distinct_map_filter)
  moreover have "l \<in> set (swept_leases m os s)" using assms(4,5) by (simp add: swept_leases_def)
  ultimately have e: "escalated (ls_job l) (cl_id c) s1"
    using sweep_leases_escalate [OF a(1) _ c(1)] assms(7) c(2) by auto
  then obtain j where j: "j \<in> set (st_jobs s1)" "jr_id j = ls_job l" "jr_state j = L_RECOVERY_REQUIRED"
    by (auto simp: escalated_def)
  note r = sweep_ready_list [OF a(2)]
  have "j \<in> set (st_jobs t)" using r j by auto
  then have "find_job t (ls_job l) = Some j"
    using gt j(2) core_okD(1) unfolding find_job_def good_def by (metis find_key_distinct)
  with j(3) e r show ?thesis by (auto simp: escalated_def)
qed

theorem unknown_effect_escalates_witness:
  "(\<exists>j. find_job sample_lost sid1 = Some j \<and> jr_state j = L_RECOVERY_REQUIRED)
   \<and> (\<exists>k \<in> set (st_cases sample_lost). ca_claim k = Some (sample_id CHR ''4'') \<and> ca_job k = sid1 \<and> ca_open k)"
  using unknown_effect_escalates [OF _ sample_from_start(3) sample_recover_lost, of sample_lease sample_claim_row]
  by (simp add: claims_of_def unresolved_def receipt_of_def sample_stores2)

end
