(* ===== verification/RuntimeHazards.thy ===== *)
theory RuntimeHazards
  imports RuntimeRecovery
begin

text \<open>
  Two situations in which one job stops the whole queue: every claim and every sweep first ends the
  expired leases, and a lease that cannot be ended makes them fail. A lock on a resource that the
  claim accepts but the recovery transaction refuses, and a recovery case that was resolved while
  its job was still running, both lead there. The third theorem is about a payload marker that one
  of the two ways into the queue lets through.
\<close>

section \<open>A lease that cannot be ended\<close>

lemma sweep_one_lease:
  assumes "st_leases s = [l]" "ls_expires_at l \<le> m" "recover env m os s = Inr (t, w)"
  obtains u v where "sweep_lease env m (s, empty_sweep) l = Inr (u, v)"
  using assms(3)
proof (rule recover_Inr)
  fix s1 w1
  assume "rfold (sweep_lease env m) (s, empty_sweep) (swept_leases m os s) = Inr (s1, w1)"
  then show thesis using assms(1,2) that by (auto simp: swept_leases_def rbind_Inr_iff)
qed

lemma no_recovery_no_claim:
  assumes "\<And>t v. recover env m [] s \<noteq> Inr (t, v)"
  shows "claim_next env o0 pid tok secs rs ops jid m s \<noteq> Inr (t, Some w)"
  using assms by (auto elim!: claim_next_started)

lemma canonical_key_token: "canonical_key env x label = Inr y \<Longrightarrow> logical_token x"
  by (auto simp: canonical_key_def canonical_text_def logical_def rbind_Inr_iff split: if_splits)

lemma check_lock_rows_tokens:
  "check_lock_rows env jid lid f ks = Inr () \<Longrightarrow> k \<in> set ks \<Longrightarrow> logical_token (lk_resource k)"
  by (auto simp: check_lock_rows_def rbind_Inr_iff if_Inl_eq_Inr dest!: rmap_mem canonical_key_token)

text \<open>C38. A lock can block the queue: if the only lease has expired, its job has an effect claim without
  a known result, and one of its locks is on a resource that is no logical token - which
  \<open>portable_resource\<close> accepts when the lock is taken, for instance because of an \<^verbatim>\<open>@\<close> - then no
  sweep succeeds any more and no worker gets any job.\<close>

theorem lock_blocks_queue:
  assumes "st_leases s = [l]" "ls_expires_at l \<le> m" "sorted_unresolved s (ls_job l) \<noteq> []"
    and "k \<in> set (st_locks s)" "lk_lease k = ls_id l" "\<not> logical_token (lk_resource k)"
  shows "\<not> is_ok (recover env m os s) \<and> claim_next env o0 pid tok secs rs ops jid m s \<noteq> Inr (t, Some w)"
proof -
  have "recover env m os s \<noteq> Inr (t, v)" for os t v
  proof
    assume "recover env m os s = Inr (t, v)"
    with assms(1,2) obtain u w where "sweep_lease env m (s, empty_sweep) l = Inr (u, w)"
      by (rule sweep_one_lease)
    with assms(3) obtain ds te ob s2 where "transition_running_job_to_recovery env SweepRecovery (ls_job l) (ls_id l)
        (ls_fencing l) (sort_key lk_resource (filter (\<lambda>k. lk_lease k = ls_id l) (st_locks s))) ds te m ob
        (st_max_pending s2) s2 = Inr u"
      by (auto simp: sweep_lease_def Let_def rbind_Inr_iff case_prod_Inr_iff)
    then have "check_lock_rows env (ls_job l) (ls_id l) (ls_fencing l)
        (sort_key lk_resource (filter (\<lambda>k. lk_lease k = ls_id l) (st_locks s))) = Inr ()"
      by (rule transition_Inr)
    from check_lock_rows_tokens [OF this, of k] assms(4,5,6) show False by simp
  qed
  then show ?thesis using no_recovery_no_claim by (simp add: is_ok_iff)
qed

definition sample_mail_lock :: store where
  "sample_mail_lock = sample_claimed\<lparr>st_locks := [sample_lock\<lparr>lk_resource := ''mail:a@b''\<rparr>]\<rparr>"

theorem lock_blocks_queue_witness:
  "portable_resource sample_env ''mail:a@b'' = Inr ''mail:a@b''
   \<and> \<not> is_ok (recover sample_env 70000000 [] sample_mail_lock)"
proof
  show "portable_resource sample_env ''mail:a@b'' = Inr ''mail:a@b''" by code_simp
  have "\<not> logical_token ''mail:a@b''" by code_simp
  then show "\<not> is_ok (recover sample_env 70000000 [] sample_mail_lock)"
    using lock_blocks_queue [of sample_mail_lock sample_lease 70000000 "sample_lock\<lparr>lk_resource := ''mail:a@b''\<rparr>"]
    by (simp add: sample_mail_lock_def sorted_unresolved_def claims_of_def unresolved_def receipt_of_def sample_stores2)
qed

section \<open>A case resolved too early\<close>

lemma resolved_case_collides:
  assumes "rc \<in> set (st_cases s)" "ca_claim rc = Some cid" "\<not> ca_open rc"
  shows "insert_effect_recovery_case route i jid cid ev m s \<noteq> Inr t"
proof
  assume "insert_effect_recovery_case route i jid cid ev m s = Inr t"
  moreover have "rc \<in> set (filter (\<lambda>c. ca_id c = i \<or> ca_claim c = Some cid) (st_cases s))" using assms by simp
  ultimately have "rc = \<lparr>ca_id = i, ca_job = jid, ca_claim = Some cid, ca_outbox = None, ca_kind = EFFECT_UNKNOWN,
      ca_evidence = ev, ca_open = True, ca_created_at = m, ca_resolved_at = None\<rparr>"
    by (auto simp: insert_effect_recovery_case_def rbind_Inr_iff case_option_Inr_iff Let_def if_Inr_iff
        simp del: set_filter dest: arg_cong [where f = set])
  with assms(3) show False by simp
qed

lemma sweep_resolved_fails:
  assumes "c \<in> set cs" "rc \<in> set (st_cases s)" "ca_claim rc = Some (cl_id c)" "\<not> ca_open rc"
  shows "rfold (sweep_claim l m s0) (s, ds) cs \<noteq> Inr (t, es)"
  using assms
proof (induction cs arbitrary: s ds)
  case (Cons d cs)
  show ?case
  proof
    assume "rfold (sweep_claim l m s0) (s, ds) (d # cs) = Inr (t, es)"
    then obtain u fs where u: "sweep_claim l m s0 (s, ds) d = Inr (u, fs)"
      "rfold (sweep_claim l m s0) (u, fs) cs = Inr (t, es)" by (auto simp: rbind_Inr_iff)
    from u(1) obtain v s1 route i ev m' where a: "new_uuid s = Inr (v, s1)"
      "insert_effect_recovery_case route i (ls_job l) (cl_id d) ev m' s1 = Inr u"
      by (auto simp: sweep_claim_def rbind_Inr_iff case_prod_Inr_iff case_option_Inr_iff if_Inl_eq_Inr)
    have rc: "rc \<in> set (st_cases s1)" using Cons.prems(2) new_uuid_fields(9) [OF a(1)] by simp
    with a(2) resolved_case_collides Cons.prems(3,4) have "c \<noteq> d" by blast
    with Cons.prems(1) have "c \<in> set cs" by simp
    moreover have "rc \<in> set (st_cases u)" using effect_case_present(2) [OF a(2)] rc by blast
    ultimately show False using Cons.IH Cons.prems(3,4) u(2) by blast
  qed
qed simp

text \<open>Resolving early blocks the queue: \<open>resolve_recovery\<close> resolves the case of an unknown receipt also
  while the job is still running; the claim stays unresolved, the resolved case collides with the
  open one the recovery wants, so that from the end of the lease on no sweep succeeds and no worker
  gets any job.\<close>

theorem early_resolution_blocks_queue:
  assumes "st_leases s = [l]" "c \<in> set (claims_of s (ls_job l))" "unresolved s c"
    and "rc \<in> set (st_cases s)" "ca_claim rc = Some (cl_id c)" "\<not> ca_open rc" "ls_expires_at l \<le> m"
  shows "\<not> is_ok (recover env m os s) \<and> claim_next env o0 pid tok secs rs ops jid m s \<noteq> Inr (t, Some w)"
proof -
  have c: "c \<in> set (sorted_unresolved s (ls_job l))" using assms(2,3) by (simp add: sorted_unresolved_def)
  have "recover env m os s \<noteq> Inr (t, v)" for os t v
  proof
    assume "recover env m os s = Inr (t, v)"
    with assms(1,7) obtain u w where "sweep_lease env m (s, empty_sweep) l = Inr (u, w)"
      by (rule sweep_one_lease)
    moreover have "sorted_unresolved s (ls_job l) \<noteq> []" using c by auto
    ultimately obtain s1 ds where
      "rfold (sweep_claim l m s) (s, []) (sorted_unresolved s (ls_job l)) = Inr (s1, ds)"
      by (auto simp: sweep_lease_def Let_def rbind_Inr_iff case_prod_Inr_iff)
    with sweep_resolved_fails [OF c assms(4-6)] show False by blast
  qed
  then show ?thesis using no_recovery_no_claim by (simp add: is_ok_iff)
qed

definition sample_early :: store where
  "sample_early = sample_claimed\<lparr>st_receipts := [sample_receipt\<lparr>re_status := E_UNKNOWN\<rparr>],
     st_cases := [sample_case\<lparr>ca_open := False, ca_resolved_at := Some 10\<rparr>], st_resolutions := [sample_resolution]\<rparr>"

theorem early_resolution_blocks_queue_witness: "\<not> is_ok (recover sample_env 70000000 [] sample_early)"
  using early_resolution_blocks_queue [of sample_early sample_lease sample_claim_row
      "sample_case\<lparr>ca_open := False, ca_resolved_at := Some 10\<rparr>" 70000000]
  by (simp add: sample_early_def sample_receipt_def claims_of_def unresolved_def receipt_of_def sample_case_def sample_stores2)


section \<open>The binding marker\<close>

lemma marker_blocks:
  assumes "json_field (jr_payload r) ''work_binding_digest'' = Some v" "v \<noteq> JNull"
    and "recover env m [] s0 = Inr (s, q)" "select_job m ops jid s = Some r"
  shows "claim_next_tx env owner pid token secs rs ops jid m s0
    = Inl (ConfigurationError ''Bound local job requires admitted operational schema v7'')"
  using assms by (cases v) (simp_all add: claim_next_tx_def validate_job_binding_def require_binding_schema_def)

text \<open>Only one way into the queue protects the binding marker: \<open>enqueue\<close> refuses a payload that
  carries the runtime's own \<^verbatim>\<open>work_binding_digest\<close>, \<open>schedule_once\<close> stores it; on a schema without
  bindings the job it creates can never be started, and a worker whose selection it heads gets an
  error instead of the next job.\<close>

theorem scheduled_marker_unclaimable:
  assumes "schedule_once env slot d key p m s = Inr (t, job, True)" "payload_json env p = Inr j"
    and "json_field j ''work_binding_digest'' = Some v" "v \<noteq> JNull"
  shows "\<not> is_ok (enqueue env clock now key' p mx av tm b s')
    \<and> (\<exists>r. find_job t (lj_id job) = Some r \<and> jr_state r = L_READY
        \<and> (recover env m' [] u0 = Inr (u, q) \<longrightarrow> select_job m' ops jid u = Some r \<longrightarrow>
            claim_next_tx env owner pid token secs rs ops jid m' u0
              = Inl (ConfigurationError ''Bound local job requires admitted operational schema v7'')))"
proof
  show "\<not> is_ok (enqueue env clock now key' p mx av tm b s')"
    using assms(2,3) by (auto simp: is_ok_iff enqueue_def Let_def rbind_Inr_iff if_Inl_eq_Inr)
  from assms(1) obtain x sl k i s1 s2 where i: "insert_job env i k j 1 m None m s1 = Inr s2" "read_job t i = Inr job"
    "insert_slot \<lparr>sl_key = sl, sl_digest = d, sl_job = i, sl_created_at = m\<rparr> s2 = Inr t"
    by (rule schedule_fresh [OF _ assms(2)])
  then have t: "st_jobs t = st_jobs s2"
    by (auto simp: insert_slot_def unique_violation_def foreign_key_violation_def split: if_splits)
  from i(1) obtain r where r: "find_job s2 i = Some r" "jr_payload r = j" "jr_state r = L_READY" "jr_id r = i"
    by (rule insert_job_Inr) (auto simp: find_job_def find_append_new)
  then have "find_job t (lj_id job) = Some r" using i(2) by (auto simp: find_job_def t read_job_find job_view_def)
  with r marker_blocks [of r v] assms(3,4)
  show "\<exists>r. find_job t (lj_id job) = Some r \<and> jr_state r = L_READY
        \<and> (recover env m' [] u0 = Inr (u, q) \<longrightarrow> select_job m' ops jid u = Some r \<longrightarrow>
            claim_next_tx env owner pid token secs rs ops jid m' u0
              = Inl (ConfigurationError ''Bound local job requires admitted operational schema v7''))"
    by auto
qed

lemma sample_marked [simp]:
  "payload_json env (PDict [(PStr ''work_binding_digest'', PStr ''x'')]) = Inr (JObj [(''work_binding_digest'', JStr ''x'')])"
  by (rule payload_jsonI; code_simp)

theorem scheduled_marker_unclaimable_witness:
  "\<exists>t job r. schedule_once sample_env ''slot'' sample_digest ''nightly''
       (PDict [(PStr ''work_binding_digest'', PStr ''x'')]) 5 sample_start = Inr (t, job, True)
     \<and> find_job t (lj_id job) = Some r \<and> jr_state r = L_READY"
proof -
  obtain t job where s: "schedule_once sample_env ''slot'' sample_digest ''nightly''
       (PDict [(PStr ''work_binding_digest'', PStr ''x'')]) 5 sample_start = Inr (t, job, True)"
    by (simp add: schedule_once_def enqueue_defs insert_slot_def sample_stores)
  have "json_field (JObj [(''work_binding_digest'', JStr ''x'')]) ''work_binding_digest'' = Some (JStr ''x'')"
    by (simp add: json_field_def)
  moreover have "JStr ''x'' \<noteq> JNull" by simp
  ultimately have "\<exists>r. find_job t (lj_id job) = Some r \<and> jr_state r = L_READY"
    using conjunct2 [OF scheduled_marker_unclaimable [OF s sample_marked]] by (metis (no_types, lifting))
  with s show ?thesis by blast
qed

end
