(* ===== verification/LocalService.thy ===== *)
theory LocalService
  imports RuntimeHistory
begin

text \<open>
  The services of one worker or outbox tick (\<^verbatim>\<open>application/local_runtime_service.py\<close>). The service
  knows the store only through the port \<^verbatim>\<open>LocalRuntimeStore\<close>: a record of operations over an
  abstract state, so that the model is as database-neutral as the code.

  Every call of the port is a transaction of its own: when a tick raises, the transactions it has
  committed stay. Before each call other processes may commit any number of transactions, and the
  process may be killed between any two calls. Both are read from the schedule of the tick, a list
  with one entry per call: what the others do to the state before it, and the clock. A tick whose
  schedule ends is killed there. The effect executor and the outbox publisher are parameters; the
  world keeps the list of the requests they were given.
\<close>

section \<open>The world of a tick\<close>

record local_effect_request =
  rq_operation :: string
  rq_key :: string
  rq_payload :: json

record local_effect_result =
  er_status :: effect_status
  er_evidence :: string

record local_delivery_result =
  dr_status :: delivery_status
  dr_evidence :: string

text \<open>A call ends with a value, raises an exception, or the process is killed during it. Only an
  exception can be caught.\<close>

datatype 'a outcome = Done 'a | Raised zekam_error | Killed

type_synonym 's schedule = "(('s \<Rightarrow> 's) \<times> int) list"

record 's world =
  wo_store :: 's
  wo_schedule :: "'s schedule"
  wo_calls :: "(string \<times> local_effect_request) list"
  wo_sent :: "local_outbox_claim list"

type_synonym ('s, 'a) svc = "'s world \<Rightarrow> 'a outcome \<times> 's world"

definition sreturn :: "'a \<Rightarrow> ('s, 'a) svc" where
  "sreturn x w = (Done x, w)"

definition sraise :: "zekam_error \<Rightarrow> ('s, 'a) svc" where
  "sraise e w = (Raised e, w)"

definition slift :: "'a res \<Rightarrow> ('s, 'a) svc" where
  "slift r = (case r of Inl e \<Rightarrow> sraise e | Inr x \<Rightarrow> sreturn x)"

definition sbind :: "('s, 'a) svc \<Rightarrow> ('a \<Rightarrow> ('s, 'b) svc) \<Rightarrow> ('s, 'b) svc" where
  "sbind m f w = (case m w of (Done x, w1) \<Rightarrow> f x w1 | (Raised e, w1) \<Rightarrow> (Raised e, w1) | (Killed, w1) \<Rightarrow> (Killed, w1))"

text \<open>\<^verbatim>\<open>try: ... except Exception: ...\<close>\<close>

definition stry :: "('s, 'a) svc \<Rightarrow> ('s, 'a) svc \<Rightarrow> ('s, 'a) svc" where
  "stry m handler w = (case m w of (Raised e, w1) \<Rightarrow> handler w1 | (Done x, w1) \<Rightarrow> (Done x, w1) | (Killed, w1) \<Rightarrow> (Killed, w1))"

text \<open>One call of the port, after the transactions that other processes commit before it.\<close>

definition port_call :: "(int \<Rightarrow> 's \<Rightarrow> ('s \<times> 'a) res) \<Rightarrow> ('s, 'a) svc" where
  "port_call f w =
     (case wo_schedule w of
        [] \<Rightarrow> (Killed, w)
      | (others, now) # rest \<Rightarrow>
          let s = others (wo_store w) in
          (case f now s of
             Inl e \<Rightarrow> (Raised e, w\<lparr>wo_store := s, wo_schedule := rest\<rparr>)
           | Inr (t, x) \<Rightarrow> (Done x, w\<lparr>wo_store := t, wo_schedule := rest\<rparr>)))"

section \<open>The port\<close>

text \<open>The operations of the protocol \<^verbatim>\<open>LocalRuntimeStore\<close> that the service calls. The last two
  arguments are the clock and the state.\<close>

record 's port =
  po_claim_next :: "string \<Rightarrow> int \<Rightarrow> string \<Rightarrow> int \<Rightarrow> string list \<Rightarrow> string list option \<Rightarrow> string option
     \<Rightarrow> int \<Rightarrow> 's \<Rightarrow> ('s \<times> local_claimed_work option) res"
  po_heartbeat :: "string \<Rightarrow> string \<Rightarrow> string \<Rightarrow> int \<Rightarrow> int \<Rightarrow> int \<Rightarrow> 's \<Rightarrow> ('s \<times> local_lease) res"
  po_claim_effect :: "local_claimed_work \<Rightarrow> string \<Rightarrow> string \<Rightarrow> string \<Rightarrow> int \<Rightarrow> 's \<Rightarrow> ('s \<times> local_claim \<times> bool) res"
  po_record_receipt :: "local_claim \<Rightarrow> effect_status \<Rightarrow> string \<Rightarrow> int \<Rightarrow> 's \<Rightarrow> ('s \<times> receipt_row) res"
  po_finish :: "local_claimed_work \<Rightarrow> local_state \<Rightarrow> string option \<Rightarrow> int \<Rightarrow> 's \<Rightarrow> ('s \<times> local_job) res"
  po_quarantine :: "local_claimed_work \<Rightarrow> string \<Rightarrow> int \<Rightarrow> 's \<Rightarrow> ('s \<times> local_job) res"
  po_recover_expired :: "int \<Rightarrow> 's \<Rightarrow> ('s \<times> recovery_sweep) res"
  po_recover_orphans :: "(int \<Rightarrow> string option) \<Rightarrow> 's \<Rightarrow> int \<Rightarrow> 's \<Rightarrow> ('s \<times> recovery_sweep) res"
  po_claim_outbox :: "string list \<Rightarrow> string option \<Rightarrow> bool \<Rightarrow> string \<Rightarrow> int \<Rightarrow> string \<Rightarrow> int \<Rightarrow> int \<Rightarrow> 's
     \<Rightarrow> ('s \<times> local_outbox_claim option) res"
  po_heartbeat_outbox :: "local_outbox_claim \<Rightarrow> int \<Rightarrow> int \<Rightarrow> 's \<Rightarrow> ('s \<times> local_outbox_claim) res"
  po_record_outbox_receipt :: "local_outbox_claim \<Rightarrow> delivery_status \<Rightarrow> string \<Rightarrow> int \<Rightarrow> 's \<Rightarrow> ('s \<times> local_outbox_event) res"
  po_recover_outbox :: "(int \<Rightarrow> string option) option \<Rightarrow> int \<Rightarrow> 's \<Rightarrow> ('s \<times> nat) res"

section \<open>Dispatchers\<close>

type_synonym effect_executor = "local_effect_request \<Rightarrow> local_effect_result res"
type_synonym outbox_publisher = "local_outbox_claim \<Rightarrow> local_delivery_result res"

fun delivery_status_value :: "delivery_status \<Rightarrow> string" where
  "delivery_status_value DS_DELIVERED = ''delivered''"
| "delivery_status_value DS_FAILED = ''failed''"
| "delivery_status_value DS_UNKNOWN = ''unknown''"

definition is_object :: "json \<Rightarrow> bool" where
  "is_object j = (case j of JObj _ \<Rightarrow> True | _ \<Rightarrow> False)"

definition effect_dispatcher :: "(string \<times> effect_executor) list \<Rightarrow> (string \<times> effect_executor) list res" where
  "effect_dispatcher routes =
     (if \<not> (1 \<le> length routes \<and> length routes \<le> 64)
      then Inl (ValidationFailed ''Effect routes 1..64 elemanli tuple olmali'')
      else rbind (validate_job_operations (map fst routes)) (\<lambda>_. Inr routes))"

definition outbox_dispatcher :: "(string \<times> outbox_publisher) list \<Rightarrow> (string \<times> outbox_publisher) list res" where
  "outbox_dispatcher routes =
     (if \<not> (1 \<le> length routes \<and> length routes \<le> 64)
      then Inl (ValidationFailed ''Outbox routes 1..64 elemanli tuple olmali'')
      else rbind (validate_outbox_kinds (map fst routes)) (\<lambda>_. Inr routes))"

definition dispatch_effect :: "(string \<times> effect_executor) list \<Rightarrow> effect_executor" where
  "dispatch_effect routes request =
     (if rq_operation request \<notin> set (map fst routes)
      then Inl (PolicyViolation ''Effect operation handler registry disinda'')
      else if \<not> is_object (rq_payload request)
      then Inl (ValidationFailed ''Effect dispatch payload object olmali'')
      else case map_of routes (rq_operation request) of
        None \<Rightarrow> Inl (PolicyViolation ''Effect operation handler registry disinda'')
      | Some handler \<Rightarrow> rbind (handler request) (\<lambda>result.
          rbind (parse_digest (er_evidence result)) (\<lambda>_. Inr result)))"

definition dispatch_outbox :: "(string \<times> outbox_publisher) list \<Rightarrow> outbox_publisher" where
  "dispatch_outbox routes claim =
     (let event = oc_event claim in
      if oe_kind event \<notin> set (map fst routes)
      then Inl (PolicyViolation ''Outbox consumer event kind desteklemiyor'')
      else if oe_state event \<noteq> D_CLAIMED \<or> \<not> is_object (oe_payload event)
      then Inl (ValidationFailed ''Outbox dispatch claim payload/state drift'')
      else rbind (digest (embed (oe_payload event))) (\<lambda>d.
        if d \<noteq> oe_payload_digest event
        then Inl (ValidationFailed ''Outbox dispatch claim payload/state drift'')
        else case map_of routes (oe_kind event) of
          None \<Rightarrow> Inl (PolicyViolation ''Outbox consumer event kind desteklemiyor'')
        | Some handler \<Rightarrow> rbind (handler claim) (\<lambda>result.
            rbind (parse_digest (dr_evidence result)) (\<lambda>_. Inr result))))"

section \<open>The service\<close>

record service =
  sv_effect :: effect_executor
  sv_outbox :: "(string \<times> outbox_publisher) list"
  sv_operations :: "string list option"

definition new_service ::
  "effect_executor option \<Rightarrow> (string \<times> effect_executor) list option \<Rightarrow> outbox_publisher option
   \<Rightarrow> (string \<times> outbox_publisher) list option \<Rightarrow> string list option \<Rightarrow> service res" where
  "new_service executor effects publisher outbox operations =
     (if (executor = None) = (effects = None)
      then Inl (ValidationFailed ''Effect exact tek executor veya dispatcher ister'')
      else if (publisher = None) = (outbox = None)
      then Inl (ValidationFailed ''Outbox exact tek publisher veya dispatcher ister'')
      else
      rbind (case publisher of
          Some p \<Rightarrow> outbox_dispatcher (map (\<lambda>kind. (kind, p)) RUNTIME_OUTBOX_KINDS)
        | None \<Rightarrow> (case outbox of None \<Rightarrow> Inl (PyError ''AssertionError'') | Some r \<Rightarrow> Inr r)) (\<lambda>routes.
      if effects \<noteq> None \<and> operations \<noteq> None
      then Inl (ValidationFailed ''Effect dispatcher ayri supported_operations kabul etmez'')
      else case effects of
        Some r \<Rightarrow> Inr \<lparr>sv_effect = dispatch_effect r, sv_outbox = routes, sv_operations = Some (map fst r)\<rparr>
      | None \<Rightarrow>
          (case executor of
             None \<Rightarrow> Inl (ValidationFailed ''Effect executor resolution failed'')
           | Some f \<Rightarrow>
             rbind (case operations of None \<Rightarrow> Inr None
               | Some ops \<Rightarrow> rbind (validate_job_operations ops) (\<lambda>v. Inr (Some v))) (\<lambda>ops.
             Inr \<lparr>sv_effect = f, sv_outbox = routes, sv_operations = ops\<rparr>))))"

text \<open>The keeper thread renews the lease while the effect runs. How often it wakes up before the
  effect ends is a number of the tick; a renewal that raises ends it and marks it unhealthy. The
  value it carries is the claim it renews.\<close>

primrec keeper_run :: "('c \<Rightarrow> ('s, 'c) svc) \<Rightarrow> nat \<Rightarrow> 'c \<Rightarrow> ('s, 'c \<times> bool) svc" where
  "keeper_run renew 0 c = sreturn (c, True)"
| "keeper_run renew (Suc n) c =
     sbind (stry (sbind (renew c) (\<lambda>c1. sreturn (Some c1))) (sreturn None)) (\<lambda>r.
       case r of None \<Rightarrow> sreturn (c, False) | Some c1 \<Rightarrow> keeper_run renew n c1)"

text \<open>A call of \<^verbatim>\<open>run_worker_once\<close> or \<^verbatim>\<open>publish_outbox_once\<close>: its arguments, how often the keeper
  wakes up, and whether its thread ends within the join timeout.\<close>

record tick_call =
  tc_owner :: string
  tc_pid :: int
  tc_token :: string
  tc_lease_seconds :: int
  tc_job :: "string option"
  tc_resources :: "string list"
  tc_beats :: nat
  tc_joined :: bool

definition renew_lease :: "'s port \<Rightarrow> tick_call \<Rightarrow> local_claimed_work \<Rightarrow> ('s, local_lease) svc" where
  "renew_lease P call work =
     port_call (po_heartbeat P (ll_id (cw_lease work)) (ll_owner_id (cw_lease work))
       (ll_owner_token (cw_lease work)) (ll_fencing_token (cw_lease work)) (tc_lease_seconds call))"

definition lease_loss_digest :: "string \<Rightarrow> string \<Rightarrow> string \<Rightarrow> string \<Rightarrow> string res" where
  "lease_loss_digest scope reference previous_status previous_evidence = digest (PDict
     [(PStr ''schema'', PStr ''zekam-local-runtime-lease-loss/v1''), (PStr ''scope'', PStr scope),
      (PStr ''reference'', PStr reference), (PStr ''previous_status'', PStr previous_status),
      (PStr ''previous_evidence_digest'', PStr previous_evidence)])"

definition call_executor :: "service \<Rightarrow> string \<Rightarrow> local_effect_request \<Rightarrow> ('s, local_effect_result) svc" where
  "call_executor sv jid request w =
     slift (sv_effect sv request) (w\<lparr>wo_calls := (jid, request) # wo_calls w\<rparr>)"

text \<open>The effect runs while the keeper renews the lease; afterwards the lease is renewed once more. When
  it is no longer known to be held, the result is unknown.\<close>

definition confirm_lease ::
  "'s port \<Rightarrow> tick_call \<Rightarrow> local_claimed_work \<Rightarrow> local_effect_result \<Rightarrow> ('s, local_effect_result) svc" where
  "confirm_lease P call work result =
     sbind (keeper_run (\<lambda>_. sbind (renew_lease P call work) (\<lambda>_. sreturn ())) (tc_beats call) ()) (\<lambda>(_, alive).
     sbind (if alive \<and> tc_joined call
         then stry (sbind (renew_lease P call work) (\<lambda>_. sreturn True)) (sreturn False)
         else sreturn False) (\<lambda>healthy.
     if healthy then sreturn result
     else sbind (slift (lease_loss_digest ''effect'' (lj_id (cw_job work))
         (effect_status_value (er_status result)) (er_evidence result))) (\<lambda>d.
       sreturn \<lparr>er_status = E_UNKNOWN, er_evidence = d\<rparr>)))"

definition run_effect ::
  "'s port \<Rightarrow> service \<Rightarrow> tick_call \<Rightarrow> local_claimed_work \<Rightarrow> local_effect_request \<Rightarrow> ('s, local_effect_result) svc" where
  "run_effect P sv call work request =
     sbind (stry (call_executor sv (lj_id (cw_job work)) request)
       (sbind (slift (digest (PStr ''effect-executor-exception''))) (\<lambda>d.
         sreturn \<lparr>er_status = E_UNKNOWN, er_evidence = d\<rparr>)))
     (confirm_lease P call work)"

definition conclude_work ::
  "'s port \<Rightarrow> local_claimed_work \<Rightarrow> local_claim \<Rightarrow> local_effect_result \<Rightarrow> ('s, local_claimed_work option) svc" where
  "conclude_work P work claim result =
     sbind (port_call (po_record_receipt P claim (er_status result) (er_evidence result))) (\<lambda>_.
     sbind (if er_status result = E_UNKNOWN
         then port_call (po_finish P work L_RECOVERY_REQUIRED None)
         else port_call (po_finish P work
           (if er_status result = E_COMPLETED then L_COMPLETED else L_FAILED) (Some (er_evidence result)))) (\<lambda>_.
     sreturn (Some work)))"

definition refuse_work :: "'s port \<Rightarrow> local_claimed_work \<Rightarrow> string \<Rightarrow> string \<Rightarrow> ('s, 'a) svc" where
  "refuse_work P work reason message =
     sbind (slift (digest (PStr reason))) (\<lambda>d.
     sbind (port_call (po_quarantine P work d)) (\<lambda>_. sraise (ValidationFailed message)))"

text \<open>The part of \<^verbatim>\<open>run_worker_once\<close> after the checks of the payload: claim the effect, run it, and
  record its result.\<close>

definition work_on_effect ::
  "'s port \<Rightarrow> service \<Rightarrow> tick_call \<Rightarrow> local_claimed_work \<Rightarrow> string \<Rightarrow> (string \<times> json) list
   \<Rightarrow> ('s, local_claimed_work option) svc" where
  "work_on_effect P sv call work operation effect =
     sbind (slift (digest (embed (JObj effect)))) (\<lambda>effect_digest.
     let key = ''job:'' @ lj_id (cw_job work) @ '':effect:'' @ effect_digest in
     sbind (port_call (po_claim_effect P work operation effect_digest key)) (\<lambda>(claim, created).
     if \<not> created
     then sraise (ConcurrencyConflict ''Persisted effect claim yeniden calistirilamaz'')
     else
     sbind (run_effect P sv call work
         \<lparr>rq_operation = strip operation, rq_key = key, rq_payload = JObj effect\<rparr>)
       (conclude_work P work claim)))"

definition handle_work ::
  "'s port \<Rightarrow> service \<Rightarrow> tick_call \<Rightarrow> local_claimed_work \<Rightarrow> ('s, local_claimed_work option) svc" where
  "handle_work P sv call work =
     (case json_field (lj_payload (cw_job work)) ''operation'' of
        Some (JStr operation) \<Rightarrow>
          if blank operation
          then refuse_work P work ''invalid-operation'' ''Local job operation metin olmali''
          else (case json_field (lj_payload (cw_job work)) ''effect'' of
            Some (JObj effect) \<Rightarrow> work_on_effect P sv call work operation effect
          | _ \<Rightarrow> refuse_work P work ''invalid-effect-payload'' ''Local job effect object olmali'')
      | _ \<Rightarrow> refuse_work P work ''invalid-operation'' ''Local job operation metin olmali'')"

definition run_worker_once :: "'s port \<Rightarrow> service \<Rightarrow> tick_call \<Rightarrow> ('s, local_claimed_work option) svc" where
  "run_worker_once P sv call =
     sbind (port_call (po_claim_next P (tc_owner call) (tc_pid call) (tc_token call) (tc_lease_seconds call)
       (tc_resources call) (sv_operations sv) (tc_job call))) (\<lambda>claimed.
     case claimed of
       None \<Rightarrow> sreturn None
     | Some work \<Rightarrow> handle_work P sv call work)"

definition call_publisher :: "service \<Rightarrow> local_outbox_claim \<Rightarrow> ('s, local_delivery_result) svc" where
  "call_publisher sv claim w =
     slift (dispatch_outbox (sv_outbox sv) claim) (w\<lparr>wo_sent := claim # wo_sent w\<rparr>)"

text \<open>The keeper of a delivery also replaces the claim by the renewed one; afterwards the claim is
  renewed once more.\<close>

definition keep_delivery :: "'s port \<Rightarrow> tick_call \<Rightarrow> local_outbox_claim \<Rightarrow> ('s, local_outbox_claim \<times> bool) svc" where
  "keep_delivery P call claim =
     (let renew = (\<lambda>c. port_call (po_heartbeat_outbox P c (tc_lease_seconds call))) in
      sbind (keeper_run renew (tc_beats call) claim) (\<lambda>(claim1, alive).
      if alive \<and> tc_joined call
      then stry (sbind (renew claim1) (\<lambda>c. sreturn (c, True))) (sreturn (claim1, False))
      else sreturn (claim1, False)))"

definition settle_delivery ::
  "'s port \<Rightarrow> local_outbox_claim \<Rightarrow> bool \<Rightarrow> local_delivery_result \<Rightarrow> ('s, local_outbox_claim option) svc" where
  "settle_delivery P claim healthy result =
     sbind (if healthy then sreturn result
         else sbind (slift (lease_loss_digest ''outbox'' (oe_id (oc_event claim))
             (delivery_status_value (dr_status result)) (dr_evidence result))) (\<lambda>d.
           sreturn \<lparr>dr_status = DS_UNKNOWN, dr_evidence = d\<rparr>)) (\<lambda>result1.
     sbind (port_call (po_record_outbox_receipt P claim (dr_status result1) (dr_evidence result1))) (\<lambda>_.
     sreturn (Some claim)))"

definition deliver :: "'s port \<Rightarrow> service \<Rightarrow> tick_call \<Rightarrow> local_outbox_claim \<Rightarrow> ('s, local_outbox_claim option) svc" where
  "deliver P sv call claim =
     sbind (stry (call_publisher sv claim)
       (sbind (slift (digest (PStr ''outbox-publisher-exception''))) (\<lambda>d.
         sreturn \<lparr>dr_status = DS_UNKNOWN, dr_evidence = d\<rparr>))) (\<lambda>result.
     sbind (keep_delivery P call claim) (\<lambda>(claim1, healthy). settle_delivery P claim1 healthy result))"

definition publish_outbox_once :: "'s port \<Rightarrow> service \<Rightarrow> tick_call \<Rightarrow> ('s, local_outbox_claim option) svc" where
  "publish_outbox_once P sv call =
     sbind (port_call (po_claim_outbox P (map fst (sv_outbox sv)) None False (tc_owner call) (tc_pid call)
       (tc_token call) (tc_lease_seconds call))) (\<lambda>claimed.
     case claimed of
       None \<Rightarrow> sreturn None
     | Some claim \<Rightarrow>
       if oe_kind (oc_event claim) \<notin> set (map fst (sv_outbox sv))
       then sraise (PolicyViolation ''Outbox store unsupported kind claim dondurdu'')
       else deliver P sv call claim)"

text \<open>\<^verbatim>\<open>recover_orphans\<close> reads the leases on a connection of its own before its transaction.\<close>

definition read_snapshot :: "('s, 's) svc" where
  "read_snapshot = port_call (\<lambda>now s. Inr (s, s))"

record local_startup_recovery =
  su_orphans :: recovery_sweep
  su_expired :: recovery_sweep
  su_outbox :: nat

definition startup :: "'s port \<Rightarrow> (int \<Rightarrow> string option) \<Rightarrow> ('s, local_startup_recovery) svc" where
  "startup P probe =
     sbind read_snapshot (\<lambda>snapshot.
     sbind (port_call (po_recover_orphans P probe snapshot)) (\<lambda>orphans.
     sbind (port_call (po_recover_expired P)) (\<lambda>expired.
     sbind (port_call (po_recover_outbox P (Some probe))) (\<lambda>outbox.
     sreturn \<lparr>su_orphans = orphans, su_expired = expired, su_outbox = outbox\<rparr>))))"

definition startup_outbox :: "'s port \<Rightarrow> (int \<Rightarrow> string option) \<Rightarrow> ('s, nat) svc" where
  "startup_outbox P probe = port_call (po_recover_outbox P (Some probe))"

section \<open>Sequences of ticks\<close>

text \<open>A host serves one tick after the other; a process that is killed is started again. \<open>'c\<close> is the
  schedule of a tick.\<close>

datatype 'c tick =
    WorkerTick service tick_call 'c
  | PublishTick service tick_call 'c
  | StartupTick "int \<Rightarrow> string option" 'c

fun serve_tick :: "'s port \<Rightarrow> 's world \<Rightarrow> 's schedule tick \<Rightarrow> 's world" where
  "serve_tick P w (WorkerTick sv call c) = snd (run_worker_once P sv call (w\<lparr>wo_schedule := c\<rparr>))"
| "serve_tick P w (PublishTick sv call c) = snd (publish_outbox_once P sv call (w\<lparr>wo_schedule := c\<rparr>))"
| "serve_tick P w (StartupTick probe c) = snd (startup P probe (w\<lparr>wo_schedule := c\<rparr>))"

definition serve :: "'s port \<Rightarrow> 's world \<Rightarrow> 's schedule tick list \<Rightarrow> 's world" where
  "serve P w ticks = foldl (serve_tick P) w ticks"

definition fresh_world :: "'s \<Rightarrow> 's world" where
  "fresh_world s = \<lparr>wo_store = s, wo_schedule = [], wo_calls = [], wo_sent = []\<rparr>"

section \<open>The SQLite store behind the port\<close>

definition sqlite_port :: "env \<Rightarrow> store port" where
  "sqlite_port env =
     \<lparr>po_claim_next = claim_next env, po_heartbeat = heartbeat, po_claim_effect = claim_effect,
      po_record_receipt = record_receipt, po_finish = finish env, po_quarantine = quarantine env,
      po_recover_expired = recover_expired env, po_recover_orphans = recover_orphans env,
      po_claim_outbox = claim_outbox env, po_heartbeat_outbox = heartbeat_outbox env,
      po_record_outbox_receipt = record_outbox_receipt env,
      po_recover_outbox = (\<lambda>probe moment. recover_outbox moment probe)\<rparr>"

text \<open>What other processes do: a sequence of transactions, of which the failing ones change nothing.\<close>

fun commit_all :: "env \<Rightarrow> store_event list \<Rightarrow> store \<Rightarrow> store" where
  "commit_all env [] s = s"
| "commit_all env (e # es) s = commit_all env es (case store_exec env s e of Inl _ \<Rightarrow> s | Inr t \<Rightarrow> t)"

definition sqlite_schedule :: "env \<Rightarrow> (store_event list \<times> int) list \<Rightarrow> store schedule" where
  "sqlite_schedule env items = map (\<lambda>(es, now). (commit_all env es, now)) items"

lemma sqlite_port_simps [simp]:
  "po_claim_next (sqlite_port env) = claim_next env" "po_claim_effect (sqlite_port env) = claim_effect"
  "po_heartbeat (sqlite_port env) = heartbeat" "po_record_receipt (sqlite_port env) = record_receipt"
  "po_finish (sqlite_port env) = finish env" "po_quarantine (sqlite_port env) = quarantine env"
  "po_recover_expired (sqlite_port env) = recover_expired env"
  "po_recover_orphans (sqlite_port env) = recover_orphans env" "po_claim_outbox (sqlite_port env) = claim_outbox env"
  "po_heartbeat_outbox (sqlite_port env) = heartbeat_outbox env"
  "po_record_outbox_receipt (sqlite_port env) = record_outbox_receipt env"
  "po_recover_outbox (sqlite_port env) = (\<lambda>probe moment. recover_outbox moment probe)"
  by (simp_all add: sqlite_port_def)

section \<open>Calls that return\<close>

lemma sbind_Done_iff: "sbind m f w = (Done y, w') \<longleftrightarrow> (\<exists>x w1. m w = (Done x, w1) \<and> f x w1 = (Done y, w'))"
  by (auto simp: sbind_def split: prod.splits outcome.splits)

lemma stry_Done_iff: "stry m h w = (Done y, w') \<longleftrightarrow>
    m w = (Done y, w') \<or> (\<exists>e w1. m w = (Raised e, w1) \<and> h w1 = (Done y, w'))"
  by (auto simp: stry_def split: prod.splits outcome.splits)

lemma slift_Done_iff: "slift r w = (Done x, w') \<longleftrightarrow> r = Inr x \<and> w' = w"
  by (cases r) (auto simp: slift_def sraise_def sreturn_def)

lemma sreturn_Done_iff: "sreturn x w = (Done y, w') \<longleftrightarrow> y = x \<and> w' = w" "sraise e w \<noteq> (Done y, w')"
  by (auto simp: sreturn_def sraise_def)

lemma port_call_Done_iff: "port_call f w = (Done x, w') \<longleftrightarrow>
    (\<exists>others now rest t. wo_schedule w = (others, now) # rest \<and> f now (others (wo_store w)) = Inr (t, x)
      \<and> w' = w\<lparr>wo_store := t, wo_schedule := rest\<rparr>)"
  by (auto simp: port_call_def Let_def split: list.splits sum.splits prod.splits)

lemmas svc_Done = sbind_Done_iff stry_Done_iff slift_Done_iff sreturn_Done_iff

lemma run_effect_result:
  assumes "run_effect P sv call work q w = (Done x, w')"
  shows "er_status x = E_UNKNOWN \<or> sv_effect sv q = Inr x"
  using assms
  by (auto simp: run_effect_def confirm_lease_def svc_Done call_executor_def split: prod.splits if_splits)

end
