(* ===== verification/ServicePort.thy ===== *)
theory ServicePort
  imports LocalService
begin

text \<open>
  The contract of the port \<^verbatim>\<open>LocalRuntimeStore\<close> as the service relies on it, and what the service
  does with any store that keeps it. The laws speak of a relation \<open>later\<close> between the states of
  the store, of an invariant \<open>sound\<close>, and of the jobs that have claimed an effect.
\<close>

section \<open>The contract\<close>

locale runtime_port =
  fixes P :: "'s port"
    and sound :: "'s \<Rightarrow> bool"
    and later :: "'s \<Rightarrow> 's \<Rightarrow> bool"
    and claimed :: "'s \<Rightarrow> string set"
  assumes later_refl: "later s s"
    and later_trans: "later s t \<Longrightarrow> later t u \<Longrightarrow> later s u"
    and later_sound: "later s t \<Longrightarrow> sound s \<Longrightarrow> sound t"
    and later_claimed: "later s t \<Longrightarrow> sound s \<Longrightarrow> claimed s \<subseteq> claimed t"
    and claim_next_later: "po_claim_next P o0 pid tok secs rs ops jid m s = Inr (t, x) \<Longrightarrow> later s t"
    and heartbeat_later: "po_heartbeat P lid o0 tok f secs m s = Inr (t, l) \<Longrightarrow> later s t"
    and claim_effect_later: "po_claim_effect P w op d k m s = Inr (t, cb) \<Longrightarrow> later s t"
    and record_receipt_later: "po_record_receipt P c st ev m s = Inr (t, r) \<Longrightarrow> later s t"
    and finish_later: "po_finish P w ls evo m s = Inr (t, j) \<Longrightarrow> later s t"
    and quarantine_later: "po_quarantine P w ev m s = Inr (t, j) \<Longrightarrow> later s t"
    and recover_expired_later: "po_recover_expired P m s = Inr (t, sw) \<Longrightarrow> later s t"
    and recover_orphans_later: "po_recover_orphans P probe snap m s = Inr (t, sw) \<Longrightarrow> later s t"
    and claim_outbox_later: "po_claim_outbox P kinds i b o0 pid tok secs m s = Inr (t, oc) \<Longrightarrow> later s t"
    and heartbeat_outbox_later: "po_heartbeat_outbox P oc' secs m s = Inr (t, oc'') \<Longrightarrow> later s t"
    and record_outbox_receipt_later: "po_record_outbox_receipt P oc' ds ev m s = Inr (t, oe) \<Longrightarrow> later s t"
    and recover_outbox_later: "po_recover_outbox P op' m s = Inr (t, n) \<Longrightarrow> later s t"
    and claim_next_unclaimed:
      "sound s \<Longrightarrow> po_claim_next P o0 pid tok secs rs ops jid m s = Inr (t, Some w) \<Longrightarrow> lj_id (cw_job w) \<notin> claimed s"
    and claim_effect_claims:
      "po_claim_effect P w op d k m s = Inr (t, c, True) \<Longrightarrow> lj_id (cw_job w) \<in> claimed t"
begin

lemmas port_later = claim_next_later heartbeat_later claim_effect_later record_receipt_later finish_later
  quarantine_later recover_expired_later recover_orphans_later claim_outbox_later heartbeat_outbox_later
  record_outbox_receipt_later recover_outbox_later

text \<open>Other processes also only use the operations of the store.\<close>

definition fair :: "'s schedule \<Rightarrow> bool" where
  "fair c \<longleftrightarrow> (\<forall>f \<in> fst ` set c. \<forall>s. sound s \<longrightarrow> later s (f s))"

definition proper :: "'s world \<Rightarrow> bool" where
  "proper w \<longleftrightarrow> fair (wo_schedule w) \<and> sound (wo_store w)"

text \<open>An action is quiet when it keeps the laws of the store and gives the executor no request.\<close>

definition quiet :: "('s, 'a) svc \<Rightarrow> bool" where
  "quiet m \<longleftrightarrow> (\<forall>w. proper w \<longrightarrow> later (wo_store w) (wo_store (snd (m w))) \<and> proper (snd (m w))
     \<and> wo_calls (snd (m w)) = wo_calls w)"

lemma quietD:
  assumes "quiet m" "proper w" "m w = (r, w')"
  shows "later (wo_store w) (wo_store w')" "proper w'" "wo_calls w' = wo_calls w"
  using assms unfolding quiet_def by force+

lemma quiet_basic: "quiet (sreturn x)" "quiet (sraise e)"
  by (simp_all add: quiet_def sreturn_def sraise_def later_refl)

lemma quiet_slift: "quiet (slift r)"
  by (cases r) (simp_all add: slift_def quiet_basic)

lemma quiet_sbind:
  assumes "quiet m" "\<And>x. quiet (f x)"
  shows "quiet (sbind m f)"
  unfolding quiet_def
proof (intro allI impI)
  fix w
  assume w: "proper w"
  obtain r w1 where m: "m w = (r, w1)" by fastforce
  note a = quietD [OF assms(1) w m]
  show "later (wo_store w) (wo_store (snd (sbind m f w))) \<and> proper (snd (sbind m f w))
     \<and> wo_calls (snd (sbind m f w)) = wo_calls w"
  proof (cases r)
    case (Done x)
    then have "sbind m f w = f x w1" by (simp add: sbind_def m)
    with a assms(2) [of x] later_trans show ?thesis unfolding quiet_def by metis
  qed (use a in \<open>simp_all add: sbind_def m\<close>)
qed

lemma quiet_stry:
  assumes "quiet m" "quiet h"
  shows "quiet (stry m h)"
  unfolding quiet_def
proof (intro allI impI)
  fix w
  assume w: "proper w"
  obtain r w1 where m: "m w = (r, w1)" by fastforce
  note a = quietD [OF assms(1) w m]
  show "later (wo_store w) (wo_store (snd (stry m h w))) \<and> proper (snd (stry m h w))
     \<and> wo_calls (snd (stry m h w)) = wo_calls w"
  proof (cases r)
    case (Raised e)
    then have "stry m h w = h w1" by (simp add: stry_def m)
    with a assms(2) later_trans show ?thesis unfolding quiet_def by metis
  qed (use a in \<open>simp_all add: stry_def m\<close>)
qed

text \<open>A call of the port runs its operation on a later state and leads to a later one.\<close>

lemma port_call_cases:
  assumes "proper w" "port_call f w = (r, w')" "\<forall>m s t x. f m s = Inr (t, x) \<longrightarrow> later s t"
  obtains (killed) "r = Killed" "w' = w"
    | (raised) e where "r = Raised e" "later (wo_store w) (wo_store w')" "proper w'" "wo_calls w' = wo_calls w"
    | (call) m s x where "r = Done x" "later (wo_store w) s" "f m s = Inr (wo_store w', x)"
        "later s (wo_store w')" "sound s" "proper w'" "wo_calls w' = wo_calls w"
proof (cases "wo_schedule w")
  case Nil
  with assms(2) killed show thesis by (simp add: port_call_def)
next
  case (Cons a rest)
  obtain g now where a: "a = (g, now)" by fastforce
  let ?s = "g (wo_store w)"
  from assms(1) Cons a have g: "later (wo_store w) ?s" "sound ?s" "fair rest"
    using later_sound by (auto simp: proper_def fair_def)
  show thesis
  proof (cases "f now ?s")
    case (Inl e)
    with assms(2) Cons a g raised show thesis by (auto simp: port_call_def proper_def)
  next
    case (Inr p)
    then obtain t x where p: "f now ?s = Inr (t, x)" by (cases p) auto
    have "w' = w\<lparr>wo_store := t, wo_schedule := rest\<rparr>" "r = Done x"
      using assms(2) Cons a p by (simp_all add: port_call_def)
    moreover have "later ?s t" using assms(3) p by blast
    ultimately show thesis using call [of x ?s now] p g later_sound by (simp add: proper_def)
  qed
qed

lemma quiet_port_call:
  assumes "\<And>m s t x. f m s = Inr (t, x) \<Longrightarrow> later s t"
  shows "quiet (port_call f)"
  unfolding quiet_def
proof (intro allI impI)
  fix w
  assume w: "proper w"
  obtain r w1 where p: "port_call f w = (r, w1)" by fastforce
  from port_call_cases [OF w p] assms show "later (wo_store w) (wo_store (snd (port_call f w))) \<and>
      proper (snd (port_call f w)) \<and> wo_calls (snd (port_call f w)) = wo_calls w"
    using w later_refl later_trans p by cases auto
qed

lemmas quiet_intros = quiet_basic quiet_slift quiet_sbind quiet_stry quiet_port_call

lemma quiet_if: "quiet a \<Longrightarrow> quiet b \<Longrightarrow> quiet (if c then a else b)"
  by simp

lemma quiet_option: "quiet a \<Longrightarrow> (\<And>x. quiet (f x)) \<Longrightarrow> quiet (case z of None \<Rightarrow> a | Some x \<Rightarrow> f x)"
  by (cases z) simp_all

lemma quiet_prod: "(\<And>a b. quiet (f a b)) \<Longrightarrow> quiet (case z of (a, b) \<Rightarrow> f a b)"
  by (cases z) simp

lemma quiet_keeper: "(\<And>c. quiet (renew c)) \<Longrightarrow> quiet (keeper_run renew n c)"
  by (induction n arbitrary: c) (auto intro!: quiet_intros quiet_option)

lemma quiet_renew: "quiet (renew_lease P call work)"
  unfolding renew_lease_def by (intro quiet_intros) (rule port_later)

lemma quiet_refuse: "quiet (refuse_work P work reason msg)"
  unfolding refuse_work_def by (intro quiet_intros) (rule port_later)

lemma quiet_conclude: "quiet (conclude_work P work claim result)"
  unfolding conclude_work_def by (intro quiet_intros quiet_if; rule port_later)

section \<open>Ticks that run no effect\<close>

lemma quiet_startup: "quiet (startup P probe)"
proof -
  have q: "quiet (port_call (\<lambda>now s. Inr (s, s)))" by (rule quiet_port_call) (simp add: later_refl)
  show ?thesis unfolding startup_def read_snapshot_def
    by (rule quiet_sbind [OF q]) (intro quiet_sbind quiet_basic quiet_port_call; rule port_later)
qed

lemma quiet_call_publisher: "quiet (call_publisher sv claim)"
  by (cases "dispatch_outbox (sv_outbox sv) claim")
    (simp_all add: quiet_def call_publisher_def slift_def sreturn_def sraise_def proper_def later_refl)

lemma quiet_publish: "quiet (publish_outbox_once P sv call)"
  unfolding publish_outbox_once_def deliver_def keep_delivery_def settle_delivery_def Let_def
  by (intro quiet_sbind quiet_stry quiet_basic quiet_slift quiet_option quiet_if quiet_prod quiet_keeper
      quiet_call_publisher quiet_port_call; rule port_later)

section \<open>The worker tick\<close>

lemma quiet_confirm_lease: "quiet (confirm_lease P call work result)"
  unfolding confirm_lease_def
  by (intro quiet_sbind quiet_stry quiet_basic quiet_slift quiet_if quiet_prod quiet_keeper quiet_renew)

text \<open>Running the effect gives the executor one request, for the job that is worked on.\<close>

lemma run_effect_once:
  assumes "proper w" "run_effect P sv call work request w = (r, w')"
  shows "later (wo_store w) (wo_store w')" "proper w'"
    "wo_calls w' = (lj_id (cw_job work), request) # wo_calls w"
proof -
  let ?w = "w\<lparr>wo_calls := (lj_id (cw_job work), request) # wo_calls w\<rparr>"
  have w: "proper ?w" using assms(1) by (simp add: proper_def)
  define k where "k = sbind (stry (slift (sv_effect sv request))
    (sbind (slift (digest (PStr ''effect-executor-exception''))) (\<lambda>d. sreturn \<lparr>er_status = E_UNKNOWN, er_evidence = d\<rparr>)))
    (confirm_lease P call work)"
  have q: "quiet k" unfolding k_def
    by (intro quiet_sbind quiet_stry quiet_basic quiet_slift quiet_confirm_lease)
  have "run_effect P sv call work request w = k ?w"
    by (simp add: run_effect_def k_def sbind_def stry_def call_executor_def)
  with quietD [OF q w] assms(2)
  show "later (wo_store w) (wo_store w')" "proper w'" "wo_calls w' = (lj_id (cw_job work), request) # wo_calls w"
    by simp_all
qed

text \<open>An action that runs the effect of a job at most once, and only after the job has claimed it.\<close>

definition runs_job :: "string \<Rightarrow> 's world \<Rightarrow> 's world \<Rightarrow> bool" where
  "runs_job j w w' \<longleftrightarrow> later (wo_store w) (wo_store w') \<and> proper w'
     \<and> (wo_calls w' = wo_calls w \<or> (\<exists>q. wo_calls w' = (j, q) # wo_calls w \<and> j \<in> claimed (wo_store w')))"

lemma runs_job_quiet: "quiet m \<Longrightarrow> proper w \<Longrightarrow> m w = (r, w') \<Longrightarrow> runs_job j w w'"
  using quietD unfolding runs_job_def by metis

lemma runs_job_before:
  "runs_job j w1 w' \<Longrightarrow> later (wo_store w) (wo_store w1) \<Longrightarrow> wo_calls w1 = wo_calls w \<Longrightarrow> runs_job j w w'"
  using later_trans unfolding runs_job_def by metis

lemma effect_then_conclude:
  assumes "proper w" "lj_id (cw_job work) \<in> claimed (wo_store w)"
    and "sbind (run_effect P sv call work q) (conclude_work P work cl) w = (r, w')"
  shows "runs_job (lj_id (cw_job work)) w w'"
proof -
  obtain r1 w1 where e: "run_effect P sv call work q w = (r1, w1)" by fastforce
  note once = run_effect_once [OF assms(1) e]
  have "later (wo_store w1) (wo_store w') \<and> proper w' \<and> wo_calls w' = wo_calls w1"
  proof (cases r1)
    case (Done x)
    then have "conclude_work P work cl x w1 = (r, w')" using assms(3) e by (simp add: sbind_def)
    with quietD [OF quiet_conclude once(2)] show ?thesis by blast
  qed (use e assms(3) once in \<open>simp_all add: sbind_def later_refl\<close>)
  then have a: "later (wo_store w) (wo_store w')" "proper w'" "wo_calls w' = (lj_id (cw_job work), q) # wo_calls w"
    using once later_trans by auto
  then show ?thesis using assms(1,2) later_claimed [OF a(1)] by (auto simp: runs_job_def proper_def)
qed

lemma work_on_effect_runs:
  assumes "proper w" "work_on_effect P sv call work operation effect w = (r, w')"
  shows "runs_job (lj_id (cw_job work)) w w'"
proof (cases "digest (embed (JObj effect))")
  case (Inl e)
  with assms show ?thesis
    by (auto simp: work_on_effect_def sbind_def slift_def sraise_def runs_job_def later_refl)
next
  case (Inr d)
  define key where "key = ''job:'' @ lj_id (cw_job work) @ '':effect:'' @ d"
  define rest where "rest = (\<lambda>(claim, created).
      if \<not> created
      then sraise (ConcurrencyConflict ''Persisted effect claim yeniden calistirilamaz'')
      else sbind (run_effect P sv call work \<lparr>rq_operation = strip operation, rq_key = key, rq_payload = JObj effect\<rparr>)
        (conclude_work P work claim))"
  have e: "sbind (port_call (po_claim_effect P work operation d key)) rest w = (r, w')"
    using assms(2) unfolding work_on_effect_def Inr key_def rest_def Let_def
    by (simp add: sbind_def slift_def sreturn_def)
  obtain r1 w1 where p: "port_call (po_claim_effect P work operation d key) w = (r1, w1)" by fastforce
  have "\<forall>m s t x. po_claim_effect P work operation d key m s = Inr (t, x) \<longrightarrow> later s t"
    using claim_effect_later by blast
  with assms(1) p show ?thesis
  proof (cases rule: port_call_cases)
    case (call m s x)
    obtain cl created where x: "x = (cl, created)" by fastforce
    have s: "rest x w1 = (r, w')" using e p call(1) by (simp add: sbind_def)
    have "runs_job (lj_id (cw_job work)) w1 w'"
    proof (cases created)
      case True
      with call(3) x have "po_claim_effect P work operation d key m s = Inr (wo_store w1, cl, True)" by simp
      from claim_effect_claims [OF this] have "lj_id (cw_job work) \<in> claimed (wo_store w1)" .
      with s x True effect_then_conclude [OF call(6)] show ?thesis unfolding rest_def by auto
    next
      case False
      with s x call(6) show ?thesis by (auto simp: rest_def sraise_def runs_job_def later_refl)
    qed
    then show ?thesis using runs_job_before later_trans [OF call(2,4)] call(7) by blast
  qed (use e p assms(1) in \<open>auto simp: sbind_def runs_job_def later_refl\<close>)
qed

lemma handle_work_runs:
  assumes "proper w" "handle_work P sv call work w = (r, w')"
  shows "runs_job (lj_id (cw_job work)) w w'"
proof -
  have "(\<exists>op ef. handle_work P sv call work = work_on_effect P sv call work op ef)
      \<or> (\<exists>a b. handle_work P sv call work = refuse_work P work a b)"
    unfolding handle_work_def by (auto split: option.splits json.splits if_splits)
  with assms work_on_effect_runs runs_job_quiet [OF quiet_refuse] show ?thesis by metis
qed

text \<open>A worker tick gives the executor at most one request; the job it is for had claimed no effect
  when the tick began, and has claimed one when it ends.\<close>

lemma worker_tick:
  assumes "proper w" "run_worker_once P sv call w = (r, w')"
  shows "later (wo_store w) (wo_store w')" "proper w'"
    "wo_calls w' = wo_calls w \<or>
     (\<exists>j q. wo_calls w' = (j, q) # wo_calls w \<and> j \<notin> claimed (wo_store w) \<and> j \<in> claimed (wo_store w'))"
proof -
  obtain r1 w1 where p: "port_call (po_claim_next P (tc_owner call) (tc_pid call) (tc_token call) (tc_lease_seconds call)
       (tc_resources call) (sv_operations sv) (tc_job call)) w = (r1, w1)" by fastforce
  have l: "\<forall>m s t x. po_claim_next P (tc_owner call) (tc_pid call) (tc_token call) (tc_lease_seconds call)
       (tc_resources call) (sv_operations sv) (tc_job call) m s = Inr (t, x) \<longrightarrow> later s t"
    using claim_next_later by blast
  have "\<exists>j. runs_job j w w' \<and> (wo_calls w' = wo_calls w \<or> j \<notin> claimed (wo_store w))"
    using assms(1) p l
  proof (cases rule: port_call_cases)
    case (call m s x)
    show ?thesis
    proof (cases x)
      case None
      with assms p call later_trans [OF call(2,4)] show ?thesis
        by (simp add: run_worker_once_def sbind_def sreturn_def runs_job_def)
    next
      case (Some work)
      then have "handle_work P sv call work w1 = (r, w')"
        using assms(2) p call(1) by (simp add: run_worker_once_def sbind_def)
      from handle_work_runs [OF call(6) this] have "runs_job (lj_id (cw_job work)) w w'"
        using runs_job_before later_trans [OF call(2,4)] call(7) by blast
      moreover have "claimed (wo_store w) \<subseteq> claimed s" using assms(1) call(2) later_claimed by (simp add: proper_def)
      ultimately show ?thesis using claim_next_unclaimed [OF call(5)] call(3) Some by blast
    qed
  qed (use assms p in \<open>auto simp: run_worker_once_def sbind_def runs_job_def later_refl\<close>)
  then show "later (wo_store w) (wo_store w')" "proper w'" "wo_calls w' = wo_calls w \<or>
     (\<exists>j q. wo_calls w' = (j, q) # wo_calls w \<and> j \<notin> claimed (wo_store w) \<and> j \<in> claimed (wo_store w'))"
    by (auto simp: runs_job_def)
qed

section \<open>Sequences of ticks\<close>

definition accounted :: "'s world \<Rightarrow> bool" where
  "accounted w \<longleftrightarrow> sound (wo_store w) \<and> distinct (map fst (wo_calls w))
     \<and> fst ` set (wo_calls w) \<subseteq> claimed (wo_store w)"

lemma accounted_quiet:
  assumes "accounted w" "fair c" "quiet m"
  shows "accounted (snd (m (w\<lparr>wo_schedule := c\<rparr>)))"
proof -
  let ?w = "w\<lparr>wo_schedule := c\<rparr>"
  have "proper ?w" using assms by (simp add: accounted_def proper_def)
  with assms(3) have "later (wo_store ?w) (wo_store (snd (m ?w)))" "proper (snd (m ?w))"
    "wo_calls (snd (m ?w)) = wo_calls ?w" unfolding quiet_def by blast+
  with assms(1) later_claimed show ?thesis by (fastforce simp: accounted_def proper_def)
qed

lemma accounted_tick:
  assumes "accounted w" "\<forall>c \<in> set_tick t. fair c"
  shows "accounted (serve_tick P w t)"
proof (cases t)
  case (WorkerTick sv call c)
  let ?w = "w\<lparr>wo_schedule := c\<rparr>"
  have "proper ?w" using assms WorkerTick by (simp add: accounted_def proper_def)
  obtain r w' where r: "run_worker_once P sv call ?w = (r, w')" by fastforce
  note a = worker_tick [OF \<open>proper ?w\<close> r]
  have "claimed (wo_store w) \<subseteq> claimed (wo_store w')"
    using a later_claimed [of "wo_store w" "wo_store w'"] assms(1) by (simp add: accounted_def)
  with assms(1) have "fst ` set (wo_calls w) \<subseteq> claimed (wo_store w')" unfolding accounted_def by blast
  with a r assms(1) WorkerTick show ?thesis by (fastforce simp: accounted_def proper_def)
qed (use assms in \<open>auto intro!: accounted_quiet quiet_publish quiet_startup\<close>)

lemma serve_accounted:
  assumes "accounted w" "\<forall>t \<in> set ticks. \<forall>c \<in> set_tick t. fair c"
  shows "accounted (serve P w ticks)"
  using assms unfolding serve_def by (induction ticks arbitrary: w) (auto intro: accounted_tick)

end

end
