(* ===== verification/ServiceSamples.thy ===== *)
theory ServiceSamples
  imports RuntimeSamples LocalService
begin

text \<open>
  A concrete worker tick, evaluated call by call: a queued job is claimed, its effect is claimed and
  run while the keeper renews the lease once, and the job is completed. An outbox tick delivers the
  event of the queued job.
\<close>

section \<open>The job\<close>

definition note_effect :: json where
  "note_effect = JObj [(''note'', JStr ''hello'')]"

definition note_payload :: json where
  "note_payload = JObj [(''effect'', note_effect), (''operation'', JStr ''note.write'')]"

definition note_job :: job_row where
  "note_job = (sample_job sid1 ''nightly'' 5)\<lparr>jr_payload := note_payload\<rparr>"

definition note_input :: pyval where
  "note_input = PDict [(PStr ''operation'', PStr ''note.write''),
     (PStr ''effect'', PDict [(PStr ''note'', PStr ''hello'')])]"

definition note_queued :: store where
  "note_queued = sample_queued\<lparr>st_jobs := [note_job]\<rparr>"

lemma note_payload_json [simp]: "payload_json env note_input = Inr note_payload"
  unfolding note_input_def by (rule payload_jsonI; code_simp)

lemma note_fields [simp]:
  "json_field note_payload ''work_binding_digest'' = None"
  "json_field note_payload ''operation'' = Some (JStr ''note.write'')"
  "json_field note_payload ''effect'' = Some note_effect"
  by code_simp+

lemma note_enqueue:
  "enqueue sample_env 5 5 ''nightly'' note_input 2 None None None sample_start
     = Inr (note_queued, job_view note_job, True)"
  by (simp add: enqueue_defs sample_start_def empty_store_def sample_queued_def note_queued_def note_job_def
      sample_rows)

lemma note_reach: "runtime_store.reach sample_env (empty_store 10 (map sample_id ''123456789abcdef'')) note_queued"
proof -
  have "store_exec sample_env sample_start (Enqueue 5 5 ''nightly'' note_input 2 None None None) = Inr note_queued"
    by (simp add: note_enqueue)
  from runtime_store.reach_step [OF runtime_store.reach_refl this] show ?thesis unfolding sample_start_def .
qed

section \<open>Claiming\<close>

definition note_running :: store where
  "note_running = note_queued\<lparr>st_jobs := [note_job\<lparr>jr_state := L_RUNNING, jr_attempts := 1, jr_fencing := 1,
     jr_updated_at := 6\<rparr>], st_leases := [sample_lease], st_uuids := map sample_id ''456789abcdef''\<rparr>"

definition note_work :: local_claimed_work where
  "note_work = \<lparr>cw_job = job_view (note_job\<lparr>jr_state := L_RUNNING, jr_attempts := 1, jr_fencing := 1,
     jr_updated_at := 6\<rparr>), cw_lease = lease_view sample_lease\<rparr>"

lemma note_claim_next:
  "claim_next sample_env ''worker'' 100 ''token'' 60 [] None None 6 note_queued = Inr (note_running, Some note_work)"
  by (simp add: claim_next_defs sample_stores note_queued_def note_running_def note_job_def note_work_def)

definition note_digest :: string where
  "note_digest = digest_json note_effect"

definition note_key :: string where
  "note_key = ''job:'' @ sid1 @ '':effect:'' @ note_digest"

lemma note_digest_ok: "digest (embed note_effect) = Inr note_digest" "\<exists>x. parse_digest note_digest = Inr x"
proof -
  have "canonicalize (embed note_effect) = Inr note_effect" by code_simp
  then show "digest (embed note_effect) = Inr note_digest" by (simp add: digest_def note_digest_def)
qed (simp add: note_digest_def parse_digest_json)

lemma note_key_ok [simp]: "required note_key ''Effect idempotency key'' = Inr note_key"
proof -
  have hex: "is_lower_hex c \<Longrightarrow> \<not> is_space c" for c
    by (auto simp: is_lower_hex_def is_digit09_def is_space_def Let_def less_eq_char_def)
  have "\<forall>c \<in> set (sid1 @ '':effect:''). \<not> is_space c" by code_simp
  then have "\<forall>c \<in> set note_key. \<not> is_space c"
    unfolding note_key_def note_digest_def digest_json_def digest_prefix_def
    using sha256_hex_shape(2) hex by (auto simp: is_space_def)
  then have "strip note_key = note_key" by (rule strip_id)
  moreover have "length note_key < 200"
    by (simp add: note_key_def note_digest_def digest_json_def digest_prefix_def sha256_hex_shape(1) sample_id_def)
  moreover have "note_key \<noteq> []" by (simp add: note_key_def)
  ultimately show ?thesis by (simp add: required_def blank_def)
qed

definition note_claim :: claim_row where
  "note_claim = \<lparr>cl_id = sample_id CHR ''4'', cl_job = sid1, cl_lease = sample_id CHR ''3'', cl_fencing = 1,
     cl_operation = ''note.write'', cl_effect = note_digest, cl_key = note_key, cl_claimed_at = 7\<rparr>"

definition note_claimed :: store where
  "note_claimed = note_running\<lparr>st_claims := [note_claim], st_uuids := map sample_id ''56789abcdef''\<rparr>"

lemma note_operation [simp]: "required ''note.write'' ''Operation'' = Inr ''note.write''"
  "\<not> blank ''note.write''" "strip ''note.write'' = ''note.write''"
  by code_simp+

lemmas note_stores = sample_stores note_queued_def note_running_def note_job_def note_work_def note_claimed_def
  note_claim_def

lemma note_claim_effect:
  "claim_effect note_work ''note.write'' note_digest note_key 7 note_running
     = Inr (note_claimed, claim_view note_claim, True)"
  using note_digest_ok(2)
  by (auto simp: claim_effect_def live_defs validate_job_binding_def new_uuid_def insert_claim_def find_job_def
      Let_def note_stores)

section \<open>The effect and its end\<close>

definition renewed :: "int \<Rightarrow> store" where
  "renewed m = note_claimed\<lparr>st_leases := [sample_lease\<lparr>ls_heartbeat_at := m, ls_expires_at := m + 60000000\<rparr>]\<rparr>"

lemma note_lease_id [simp]: "required (sample_id CHR ''3'') ''Lease id'' = Inr (sample_id CHR ''3'')"
  by code_simp

lemmas heartbeat_defs = heartbeat_def bounded_int_def find_lease_def add_delta_def max_instant_def touch_lease_def
  update_where_def Let_def

lemma note_heartbeat:
  "heartbeat (sample_id CHR ''3'') ''worker'' ''token'' 1 60 8 note_claimed
     = Inr (renewed 8, lease_view (sample_lease\<lparr>ls_heartbeat_at := 8, ls_expires_at := 60000008\<rparr>))"
  "heartbeat (sample_id CHR ''3'') ''worker'' ''token'' 1 60 9 (renewed 8)
     = Inr (renewed 9, lease_view (sample_lease\<lparr>ls_heartbeat_at := 9, ls_expires_at := 60000009\<rparr>))"
  by (simp_all add: heartbeat_defs note_stores renewed_def)

definition note_receipt :: receipt_row where
  "note_receipt = \<lparr>re_id = sid5, re_claim = sample_id CHR ''4'', re_status = E_COMPLETED,
     re_evidence = sample_digest, re_created_at = 10\<rparr>"

definition note_receipted :: store where
  "note_receipted = (renewed 9)\<lparr>st_receipts := [note_receipt], st_uuids := map sample_id ''6789abcdef''\<rparr>"

lemma note_record_receipt:
  "record_receipt (claim_view note_claim) E_COMPLETED sample_digest 10 (renewed 9) = Inr (note_receipted, note_receipt)"
  by (simp add: record_receipt_def find_claim_def claim_view_def receipt_of_def new_uuid_def insert_receipt_def
      Let_def note_receipted_def note_receipt_def renewed_def note_stores)

definition note_completed :: job_row where
  "note_completed = note_job\<lparr>jr_state := L_COMPLETED, jr_attempts := 1, jr_fencing := 1,
     jr_evidence := Some sample_digest, jr_updated_at := 11\<rparr>"

definition note_done :: store where
  "note_done = note_receipted\<lparr>st_jobs := [note_completed], st_leases := [], st_locks := [],
     st_outbox := st_outbox note_queued @ [sample_event (sample_id CHR ''6'') sid1 ''job.completed''
       (JObj [(''job_id'', JStr sid1), (''state'', JStr ''completed'')]) (''job:'' @ sid1 @ '':terminal'') 11],
     st_deliveries := st_deliveries note_queued @ [sample_pending (sample_id CHR ''6'') 11],
     st_uuids := map sample_id ''789abcdef''\<rparr>"

lemma note_finish:
  "finish sample_env note_work L_COMPLETED (Some sample_digest) 11 note_receipted
     = Inr (note_done, job_view note_completed)"
  by (simp add: finish_defs note_stores note_receipted_def note_receipt_def renewed_def note_done_def note_completed_def)

section \<open>The tick\<close>

definition note_service :: service where
  "note_service = \<lparr>sv_effect = (\<lambda>_. Inr \<lparr>er_status = E_COMPLETED, er_evidence = sample_digest\<rparr>), sv_outbox = [],
     sv_operations = None\<rparr>"

definition note_call :: tick_call where
  "note_call = \<lparr>tc_owner = ''worker'', tc_pid = 100, tc_token = ''token'', tc_lease_seconds = 60, tc_job = None,
     tc_resources = [], tc_beats = 1, tc_joined = True\<rparr>"

definition note_request :: local_effect_request where
  "note_request = \<lparr>rq_operation = ''note.write'', rq_key = note_key, rq_payload = note_effect\<rparr>"

definition note_items :: "(store_event list \<times> int) list" where
  "note_items = map (Pair []) [6, 7, 8, 9, 10, 11]"

definition note_world :: "store world" where
  "note_world = \<lparr>wo_store = note_done, wo_schedule = [], wo_calls = [(sid1, note_request)], wo_sent = []\<rparr>"

lemmas svc_defs = sbind_def stry_def sreturn_def slift_def port_call_def sraise_def

lemma note_key_eq [simp]:
  "CHR ''j'' # CHR ''o'' # CHR ''b'' # CHR '':'' # sid1 @ CHR '':'' # CHR ''e'' # CHR ''f'' # CHR ''f'' # CHR ''e'' #
     CHR ''c'' # CHR ''t'' # CHR '':'' # note_digest = note_key"
  by (simp add: note_key_def)

lemma note_ids [simp]: "lj_id (cw_job note_work) = sid1" "lj_payload (cw_job note_work) = note_payload"
  "ll_id (cw_lease note_work) = sample_id CHR ''3''" "ll_owner_id (cw_lease note_work) = ''worker''"
  "ll_owner_token (cw_lease note_work) = ''token''" "ll_fencing_token (cw_lease note_work) = 1"
  by (simp_all add: note_work_def job_view_def lease_view_def note_job_def sample_job_def sample_lease_def)

lemma note_tick:
  "run_worker_once (sqlite_port sample_env) note_service note_call
     ((fresh_world note_queued)\<lparr>wo_schedule := sqlite_schedule sample_env note_items\<rparr>) = (Done (Some note_work), note_world)"
proof -
  have e: "note_effect = JObj [(''note'', JStr ''hello'')]" by (simp add: note_effect_def)
  have w: "work_on_effect (sqlite_port sample_env) note_service note_call note_work ''note.write'' [(''note'', JStr ''hello'')]
      \<lparr>wo_store = note_running, wo_schedule = sqlite_schedule sample_env (map (Pair []) [7, 8, 9, 10, 11]),
       wo_calls = [], wo_sent = []\<rparr> = (Done (Some note_work), note_world)"
    unfolding work_on_effect_def e [symmetric] note_digest_ok(1) Let_def note_ids
    by (simp add: svc_defs note_claim_effect sqlite_schedule_def run_effect_def confirm_lease_def call_executor_def
        note_service_def renew_lease_def note_call_def conclude_work_def note_heartbeat note_record_receipt note_finish
        note_world_def note_request_def)
  show ?thesis
    unfolding run_worker_once_def sbind_def
    using w by (simp add: port_call_def note_claim_next sqlite_schedule_def fresh_world_def note_items_def note_call_def
        note_service_def handle_work_def e)
qed

section \<open>Ticks after it\<close>

lemma note_idle:
  "claim_next sample_env ''worker'' 100 ''token'' 60 [] None None 12 note_done = Inr (note_done, None)"
  by (simp add: claim_next_defs note_stores note_receipted_def note_receipt_def renewed_def note_done_def note_completed_def)

definition note_ticks :: "(store_event list \<times> int) list tick list" where
  "note_ticks = [WorkerTick note_service note_call note_items, WorkerTick note_service note_call [([], 12)],
     WorkerTick note_service note_call []]"

lemma note_serve:
  "wo_calls (serve (sqlite_port sample_env) (fresh_world note_queued)
     (map (map_tick (sqlite_schedule sample_env)) note_ticks)) = [(sid1, note_request)]"
proof -
  have "run_worker_once (sqlite_port sample_env) note_service note_call
      (note_world\<lparr>wo_schedule := sqlite_schedule sample_env [([], 12)]\<rparr>) = (Done None, note_world)"
    by (simp add: run_worker_once_def svc_defs sqlite_schedule_def note_world_def note_call_def note_service_def note_idle)
  moreover have "run_worker_once (sqlite_port sample_env) note_service note_call
      (note_world\<lparr>wo_schedule := sqlite_schedule sample_env []\<rparr>) = (Killed, note_world)"
    by (simp add: run_worker_once_def svc_defs sqlite_schedule_def note_world_def)
  ultimately show ?thesis
    using note_tick by (simp add: serve_def note_ticks_def) (simp add: note_world_def)
qed

section \<open>An outbox tick\<close>

definition sent_claim :: "int \<Rightarrow> delivery_claim" where
  "sent_claim m = \<lparr>dc_id = sample_id CHR ''3'', dc_owner = ''worker'', dc_pid = 100, dc_token = ''token'',
     dc_expires_at = m + 60000000\<rparr>"

definition sent_delivery :: "int \<Rightarrow> delivery_row" where
  "sent_delivery m = \<lparr>dv_outbox = sample_id CHR ''2'', dv_state = D_CLAIMED, dv_fencing = 1,
     dv_claim = Some (sent_claim m), dv_updated_at = m\<rparr>"

definition sent_store :: "int \<Rightarrow> store" where
  "sent_store m = note_queued\<lparr>st_deliveries := [sent_delivery m], st_uuids := map sample_id ''456789abcdef''\<rparr>"

definition sent_event :: local_outbox_event where
  "sent_event = \<lparr>oe_id = sample_id CHR ''2'', oe_job_id = sid1, oe_key = ''job:'' @ sid1 @ '':enqueued'',
     oe_kind = ''job.enqueued'', oe_payload_digest = digest_json (sample_enqueued sid1 ''nightly''),
     oe_payload = sample_enqueued sid1 ''nightly'', oe_state = D_CLAIMED\<rparr>"

definition sent :: "int \<Rightarrow> local_outbox_claim" where
  "sent m = \<lparr>oc_event = sent_event, oc_claim_id = sample_id CHR ''3'', oc_owner_id = ''worker'', oc_owner_pid = 100,
     oc_owner_token = ''token'', oc_fencing_token = 1, oc_expires_at = m + 60000000\<rparr>"

lemma sent_texts [simp]:
  "required ''worker'' ''Outbox owner'' = Inr ''worker''" "required ''token'' ''Outbox owner token'' = Inr ''token''"
  "validate_outbox_kinds [''job.enqueued''] = Inr [''job.enqueued'']"
  by code_simp+

lemma enqueued_embed: "canonicalize (embed (sample_enqueued sid1 ''nightly'')) = Inr (sample_enqueued sid1 ''nightly'')"
  by code_simp

lemma enqueued_payload [simp]: "payload_json env (embed (sample_enqueued sid1 ''nightly'')) = Inr (sample_enqueued sid1 ''nightly'')"
proof -
  have "embed (sample_enqueued sid1 ''nightly'') = PDict [(PStr ''idempotency_key'', PStr ''nightly''), (PStr ''job_id'', PStr sid1)]"
    by (simp add: sample_enqueued_def)
  moreover have "utf8_len (dumps (sample_enqueued sid1 ''nightly'')) < 1000" by code_simp
  ultimately show ?thesis using enqueued_embed by (auto intro!: payload_jsonI simp: dict_get_def)
qed

lemma sent_digest [simp]: "digest (embed (sample_enqueued sid1 ''nightly'')) = Inr (digest_json (sample_enqueued sid1 ''nightly''))"
  by (simp add: digest_def enqueued_embed)

lemmas sent_defs = sent_store_def sent_delivery_def sent_claim_def sent_event_def sent_def sample_stores note_queued_def
  note_job_def

lemmas outbox_defs = find_outbox_row_def outbox_rows_def read_event_def outbox_view_def update_delivery_def update_where_def
  delivery_check_def claim_ids_def add_delta_def max_instant_def bounded_int_def new_uuid_def Let_def

lemma sent_claim_outbox:
  "claim_outbox sample_env [''job.enqueued''] None False ''worker'' 100 ''token'' 60 6 note_queued
     = Inr (sent_store 6, Some (sent 6))"
  by (simp add: claim_outbox_def recover_outbox_tx_def claimed_deliveries_def select_outbox_def outbox_defs sent_defs)

lemma sent_heartbeat:
  "heartbeat_outbox sample_env (sent 6) 60 7 (sent_store 6) = Inr (sent_store 7, sent 7)"
  by (simp add: heartbeat_outbox_def same_claim_def outbox_defs sent_defs)

definition sent_receipt :: outbox_receipt_row where
  "sent_receipt = \<lparr>or_id = sample_id CHR ''4'', or_outbox = sample_id CHR ''2'', or_claim = sample_id CHR ''3'',
     or_fencing = 1, or_status = DS_DELIVERED, or_evidence = sample_digest, or_created_at = 8\<rparr>"

definition sent_done :: store where
  "sent_done = (sent_store 7)\<lparr>st_deliveries := [(sent_delivery 7)\<lparr>dv_state := D_DELIVERED, dv_updated_at := 8\<rparr>],
     st_outbox_receipts := [sent_receipt], st_uuids := map sample_id ''56789abcdef''\<rparr>"

lemma sent_record:
  "record_outbox_receipt sample_env (sent 7) DS_DELIVERED sample_digest 8 (sent_store 7)
     = Inr (sent_done, sent_event\<lparr>oe_state := D_DELIVERED\<rparr>)"
  by (simp add: record_outbox_receipt_def same_claim_def outbox_receipt_of_def write_outbox_receipt_def
      insert_outbox_receipt_def outbox_defs sent_defs sent_done_def sent_receipt_def)

definition sent_service :: service where
  "sent_service = note_service\<lparr>sv_outbox := [(''job.enqueued'',
     (\<lambda>_. Inr \<lparr>dr_status = DS_DELIVERED, dr_evidence = sample_digest\<rparr>))]\<rparr>"

definition sent_world :: "store world" where
  "sent_world = \<lparr>wo_store = sent_done, wo_schedule = [], wo_calls = [], wo_sent = [sent 6]\<rparr>"

lemma sent_dispatch: "dispatch_outbox (sv_outbox sent_service) (sent 6) = Inr \<lparr>dr_status = DS_DELIVERED, dr_evidence = sample_digest\<rparr>"
proof -
  have "is_object (sample_enqueued sid1 ''nightly'')" by (simp add: is_object_def sample_enqueued_def)
  then show ?thesis by (simp add: dispatch_outbox_def sent_service_def sent_def sent_event_def Let_def)
qed

lemma sent_tick:
  "publish_outbox_once (sqlite_port sample_env) sent_service (note_call\<lparr>tc_beats := 0\<rparr>)
     ((fresh_world note_queued)\<lparr>wo_schedule := sqlite_schedule sample_env [([], 6), ([], 7), ([], 8)]\<rparr>)
   = (Done (Some (sent 7)), sent_world)"
proof -
  have "map fst (sv_outbox sent_service) = [''job.enqueued'']" "oe_kind (oc_event (sent 6)) = ''job.enqueued''"
    by (simp_all add: sent_service_def sent_def sent_event_def)
  then show ?thesis
    by (simp add: publish_outbox_once_def deliver_def keep_delivery_def settle_delivery_def svc_defs call_publisher_def
        sent_dispatch note_call_def sqlite_schedule_def fresh_world_def sent_claim_outbox sent_heartbeat sent_record
        sent_world_def Let_def)
qed

section \<open>A start-up\<close>

lemma sample_startup:
  "\<exists>r w. startup (sqlite_port sample_env) (\<lambda>pid. if pid = 100 then Some ''token'' else None)
     ((fresh_world note_running)\<lparr>wo_schedule := sqlite_schedule sample_env [([], 7), ([], 8), ([], 9), ([], 10)]\<rparr>)
   = (Done r, w) \<and> wo_store w = note_running"
proof -
  have t: "\<not> blank ''token''" "strip ''token'' = ''token''" by code_simp+
  have "recover_orphans sample_env (\<lambda>pid. if pid = 100 then Some ''token'' else None) note_running 8 note_running
      = Inr (note_running, empty_sweep)"
    by (simp add: recover_orphans_def orphan_lease_ids_def process_probe_value_def recover_defs note_stores t)
  moreover have "recover_expired sample_env 9 note_running = Inr (note_running, empty_sweep)"
    by (simp add: recover_expired_def recover_defs note_stores)
  moreover have "recover_outbox 10 p note_running = Inr (note_running, 0)" for p
    by (simp add: recover_outbox_def recover_outbox_tx_def claimed_deliveries_def outbox_rows_def note_stores)
  ultimately show ?thesis
    by (simp add: startup_def read_snapshot_def svc_defs sqlite_schedule_def fresh_world_def)
qed

lemma note_reach_running:
  "runtime_store.reach sample_env (empty_store 10 (map sample_id ''123456789abcdef'')) note_running"
proof -
  have "store_exec sample_env note_queued (ClaimNext ''worker'' 100 ''token'' 60 [] None None 6) = Inr note_running"
    by (simp add: note_claim_next)
  from runtime_store.reach_step [OF note_reach this] show ?thesis .
qed

end
