(* ===== verification/ServiceGuarantees.thy ===== *)
theory ServiceGuarantees
  imports ServicePort ServiceSamples RuntimeRecovery
begin

text \<open>
  What the service guarantees on the SQLite store: the store keeps the contract of the port, so that
  every tick is a history of the store and no effect is given to the executor twice; a job is
  completed only on the word of the executor.
\<close>

section \<open>The store keeps the contract\<close>

lemma reach_exec: "store_exec env s e = Inr t \<Longrightarrow> runtime_store.reach env s t"
  using runtime_store.reach_step [OF runtime_store.reach_refl] .

lemma claim_effect_created:
  assumes "claim_effect w op d k m s = Inr (t, c, True)"
  shows "\<exists>r \<in> set (st_claims t). cl_job r = lj_id (cw_job w) \<and> c = claim_view r"
  using assms
  by (auto simp: claim_effect_def rbind_Inr_iff case_option_Inr_iff case_prod_Inr_iff if_Inl_eq_Inr Let_def
      new_uuid_def insert_claim_def unique_violation_def foreign_key_violation_def split: if_splits list.splits)

lemma op_reach:
  "claim_next env o0 pid tok secs rs ops jid m s = Inr (t, x0) \<Longrightarrow> runtime_store.reach env s t"
  "heartbeat lid o0 tok f secs m s = Inr (t, x1) \<Longrightarrow> runtime_store.reach env s t"
  "claim_effect w op d k m s = Inr (t, x2) \<Longrightarrow> runtime_store.reach env s t"
  "record_receipt c st ev m s = Inr (t, x3) \<Longrightarrow> runtime_store.reach env s t"
  "finish env w ls evo m s = Inr (t, x4) \<Longrightarrow> runtime_store.reach env s t"
  "quarantine env w ev m s = Inr (t, x5) \<Longrightarrow> runtime_store.reach env s t"
  "recover_expired env m s = Inr (t, x6) \<Longrightarrow> runtime_store.reach env s t"
  "recover_orphans env probe snap m s = Inr (t, x7) \<Longrightarrow> runtime_store.reach env s t"
  "claim_outbox env kinds i b o0 pid tok secs m s = Inr (t, x8) \<Longrightarrow> runtime_store.reach env s t"
  "heartbeat_outbox env oc secs m s = Inr (t, x9) \<Longrightarrow> runtime_store.reach env s t"
  "record_outbox_receipt env oc ds ev m s = Inr (t, x10) \<Longrightarrow> runtime_store.reach env s t"
  "recover_outbox m probe' s = Inr (t, x11) \<Longrightarrow> runtime_store.reach env s t"
  using reach_exec [of env s "ClaimNext o0 pid tok secs rs ops jid m" t]
    reach_exec [of env s "Heartbeat lid o0 tok f secs m" t]
    reach_exec [of env s "ClaimEffect w op d k m" t]
    reach_exec [of env s "RecordReceipt c st ev m" t]
    reach_exec [of env s "Finish w ls evo m" t]
    reach_exec [of env s "Quarantine w ev m" t]
    reach_exec [of env s "RecoverExpired m" t]
    reach_exec [of env s "RecoverOrphans probe snap m" t]
    reach_exec [of env s "ClaimOutbox kinds i b o0 pid tok secs m" t]
    reach_exec [of env s "HeartbeatOutbox oc secs m" t]
    reach_exec [of env s "RecordOutboxReceipt oc ds ev m" t]
    reach_exec [of env s "RecoverOutbox m probe'" t]
  by simp_all

interpretation sqlite: runtime_port "sqlite_port env" good "runtime_store.reach env"
    "\<lambda>s. cl_job ` set (st_claims s)" for env
proof
  fix s t u assume "runtime_store.reach env s t" "runtime_store.reach env t u"
  then show "runtime_store.reach env s u" by (rule runtime_store.reach_trans)
next
  fix s t assume a: "runtime_store.reach env s t" "good s"
  show "good t" using a by (rule runtime_store.reach_inv)
  show "cl_job ` set (st_claims s) \<subseteq> cl_job ` set (st_claims t)"
    by (rule image_mono, rule audit_claims, rule runtime_store.reach_rank [OF a])
next
  fix o0 pid tok secs rs ops jid m s t w
  assume "good s" "po_claim_next (sqlite_port env) o0 pid tok secs rs ops jid m s = Inr (t, Some w)"
  then show "lj_id (cw_job w) \<notin> cl_job ` set (st_claims s)"
    using claim_next_unclaimed_job by auto
next
  fix w op d k m s t c
  assume "po_claim_effect (sqlite_port env) w op d k m s = Inr (t, c, True)"
  then show "lj_id (cw_job w) \<in> cl_job ` set (st_claims t)"
    using claim_effect_created [of w op d k m s t c] by (metis imageI sqlite_port_simps(2))
qed (auto simp: runtime_store.reach_refl dest: op_reach)

lemma commit_all_reach: "runtime_store.reach env s (commit_all env es s)"
proof (induction es arbitrary: s)
  case (Cons e es)
  then show ?case using runtime_store.reach_trans [OF reach_exec] by (cases "store_exec env s e") auto
qed (simp add: runtime_store.reach_refl)

lemma sqlite_schedule_fair: "sqlite.fair env (sqlite_schedule env items)"
  using commit_all_reach by (auto simp: sqlite.fair_def sqlite_schedule_def)

section \<open>The result of a worker tick\<close>

lemma receipt_recorded:
  assumes "record_receipt c st ev m s = Inr (t, r)"
  shows "r \<in> set (st_receipts t) \<and> re_claim r = lc_id c \<and> re_status r = st \<and> re_evidence r = ev"
  using assms
  by (auto simp: record_receipt_def rbind_Inr_iff case_option_Inr_iff case_prod_Inr_iff if_Inl_eq_Inr Let_def receipt_of_def
      insert_receipt_def unique_violation_def foreign_key_violation_def find_Some_iff
      case_frame_def dest!: effect_case_frame new_uuid_frame split: if_splits)

lemma conclude_work_result:
  assumes "sqlite.proper env w" "conclude_work (sqlite_port env) work c x w = (Done y, w')"
  shows "\<exists>r j. r \<in> set (st_receipts (wo_store w')) \<and> re_claim r = lc_id c \<and> re_status r = er_status x
    \<and> re_evidence r = er_evidence x \<and> find_job (wo_store w') (lj_id (cw_job work)) = Some j
    \<and> jr_state j = (case er_status x of E_COMPLETED \<Rightarrow> L_COMPLETED | E_FAILED \<Rightarrow> L_FAILED | E_UNKNOWN \<Rightarrow> L_RECOVERY_REQUIRED)"
proof -
  obtain w1 r where p: "port_call (record_receipt c (er_status x) (er_evidence x)) w = (Done r, w1)"
    and f: "\<exists>job. port_call (finish env work
       (case er_status x of E_COMPLETED \<Rightarrow> L_COMPLETED | E_FAILED \<Rightarrow> L_FAILED | E_UNKNOWN \<Rightarrow> L_RECOVERY_REQUIRED)
       (if er_status x = E_UNKNOWN then None else Some (er_evidence x))) w1 = (Done job, w')"
    using assms(2) unfolding conclude_work_def
    by (cases "er_status x") (auto simp: svc_Done sqlite_port_def)
  have l: "\<forall>m s t x'. record_receipt c (er_status x) (er_evidence x) m s = Inr (t, x') \<longrightarrow> runtime_store.reach env s t"
    using op_reach(4) by blast
  from assms(1) p l have w1: "sqlite.proper env w1"
    by (cases rule: sqlite.port_call_cases) simp_all
  have rr: "r \<in> set (st_receipts (wo_store w1)) \<and> re_claim r = lc_id c \<and> re_status r = er_status x \<and> re_evidence r = er_evidence x"
    using p receipt_recorded by (auto simp: port_call_Done_iff)
  from f obtain job where f: "port_call (finish env work
       (case er_status x of E_COMPLETED \<Rightarrow> L_COMPLETED | E_FAILED \<Rightarrow> L_FAILED | E_UNKNOWN \<Rightarrow> L_RECOVERY_REQUIRED)
       (if er_status x = E_UNKNOWN then None else Some (er_evidence x))) w1 = (Done job, w')" by blast
  have l: "\<forall>m s t x'. finish env work
       (case er_status x of E_COMPLETED \<Rightarrow> L_COMPLETED | E_FAILED \<Rightarrow> L_FAILED | E_UNKNOWN \<Rightarrow> L_RECOVERY_REQUIRED)
       (if er_status x = E_UNKNOWN then None else Some (er_evidence x)) m s = Inr (t, x') \<longrightarrow> runtime_store.reach env s t"
    using op_reach(5) by blast
  from w1 f l show ?thesis
  proof (cases rule: sqlite.port_call_cases)
    case (call m s x')
    have "r \<in> set (st_receipts (wo_store w'))"
      using rr runtime_store.reach_rank [OF runtime_store.reach_trans [OF call(2,4)]] w1 audit_parts(2)
      unfolding sqlite.proper_def by blast
    with rr finish_state [OF call(5,3)] show ?thesis by auto
  qed simp_all
qed

text \<open>The next calls of an operation, each after the transactions that other processes commit before it, all
  succeed.\<close>

primrec renewals :: "(int \<Rightarrow> 's \<Rightarrow> ('s \<times> 'a) res) \<Rightarrow> nat \<Rightarrow> 's world \<Rightarrow> bool" where
  "renewals f 0 w = True"
| "renewals f (Suc n) w =
     (case wo_schedule w of [] \<Rightarrow> False
      | (others, now) # rest \<Rightarrow> (case f now (others (wo_store w)) of Inl _ \<Rightarrow> False
          | Inr (t, _) \<Rightarrow> renewals f n (w\<lparr>wo_store := t, wo_schedule := rest\<rparr>)))"

text \<open>From the moment the executor is called, the lease of the job is renewed by every beat of the keeper and once
  more after it, and the keeper ends in time.\<close>

definition lease_held :: "'s port \<Rightarrow> tick_call \<Rightarrow> local_claimed_work \<Rightarrow> 's world \<Rightarrow> bool" where
  "lease_held P call work w = (tc_joined call \<and> renewals (po_heartbeat P (ll_id (cw_lease work)) (ll_owner_id (cw_lease work))
     (ll_owner_token (cw_lease work)) (ll_fencing_token (cw_lease work)) (tc_lease_seconds call)) (Suc (tc_beats call)) w)"

lemma renewals_calls: "renewals f n (w\<lparr>wo_calls := c\<rparr>) = renewals f n w"
proof (induction n arbitrary: w)
  case (Suc n)
  have "renewals f n (w\<lparr>wo_calls := c, wo_store := t, wo_schedule := r\<rparr>) = renewals f n (w\<lparr>wo_store := t, wo_schedule := r\<rparr>)" for t r
  proof -
    have "w\<lparr>wo_calls := c, wo_store := t, wo_schedule := r\<rparr> = w\<lparr>wo_store := t, wo_schedule := r, wo_calls := c\<rparr>" by (cases w) simp
    then show ?thesis using Suc.IH [of "w\<lparr>wo_store := t, wo_schedule := r\<rparr>"] by metis
  qed
  then show ?case by (auto split: list.splits prod.splits sum.splits)
qed simp

lemma port_call_once:
  "sbind (port_call f) (\<lambda>_. sreturn x) w =
     (case wo_schedule w of [] \<Rightarrow> (Killed, w)
      | (others, now) # rest \<Rightarrow> (case f now (others (wo_store w)) of
          Inl e \<Rightarrow> (Raised e, w\<lparr>wo_store := others (wo_store w), wo_schedule := rest\<rparr>)
        | Inr (t, _) \<Rightarrow> (Done x, w\<lparr>wo_store := t, wo_schedule := rest\<rparr>)))"
  by (auto simp: sbind_def port_call_def sreturn_def Let_def split: list.splits sum.splits)

lemma keeper_renewals:
  assumes "keeper_run renew n () w = (Done ((), alive), w')" "renew () = sbind (port_call f) (\<lambda>_. sreturn ())"
  shows "renewals f (n + k) w \<longleftrightarrow> alive \<and> renewals f k w'"
  using assms(1)
proof (induction n arbitrary: w)
  case 0
  then show ?case by (simp add: sreturn_Done_iff)
next
  case (Suc n)
  note one = port_call_once [of f "()" w, folded assms(2)]
  show ?case
  proof (cases "wo_schedule w")
    case Nil
    then show ?thesis using Suc.prems by (simp add: svc_defs one)
  next
    case (Cons a rest)
    obtain others now where a: "a = (others, now)" by fastforce
    show ?thesis
    proof (cases "f now (others (wo_store w))")
      case (Inl e)
      then show ?thesis using Suc.prems Cons a by (auto simp: svc_defs one)
    next
      case (Inr x)
      obtain t y where x: "x = (t, y)" by fastforce
      have "keeper_run renew n () (w\<lparr>wo_store := t, wo_schedule := rest\<rparr>) = (Done ((), alive), w')"
        using Suc.prems Cons a Inr x by (simp add: svc_defs one)
      from Suc.IH [OF this] show ?thesis using Cons a Inr x by simp
    qed
  qed
qed

lemma confirm_lease_held:
  assumes "confirm_lease P call work result w = (Done x, w')"
  shows "if lease_held P call work w then x = result else er_status x = E_UNKNOWN"
proof -
  let ?f = "po_heartbeat P (ll_id (cw_lease work)) (ll_owner_id (cw_lease work)) (ll_owner_token (cw_lease work))
    (ll_fencing_token (cw_lease work)) (tc_lease_seconds call)"
  let ?renew = "\<lambda>_. sbind (port_call ?f) (\<lambda>_. sreturn ())"
  let ?last = "\<lambda>z. if snd z \<and> tc_joined call then stry (sbind (port_call ?f) (\<lambda>_. sreturn True)) (sreturn False) else sreturn False"
  let ?answer = "\<lambda>healthy. if healthy then sreturn result
      else sbind (slift (lease_loss_digest ''effect'' (lj_id (cw_job work)) (effect_status_value (er_status result)) (er_evidence result)))
        (\<lambda>d. sreturn \<lparr>er_status = E_UNKNOWN, er_evidence = d\<rparr>)"
  have "sbind (keeper_run ?renew (tc_beats call) ()) (\<lambda>z. sbind (?last z) ?answer) w = (Done x, w')"
    using assms unfolding confirm_lease_def renew_lease_def case_prod_beta .
  from iffD1 [OF sbind_Done_iff this] obtain z w1 where k: "keeper_run ?renew (tc_beats call) () w = (Done z, w1)"
    and rest: "sbind (?last z) ?answer w1 = (Done x, w')" by (elim exE conjE)
  from iffD1 [OF sbind_Done_iff rest] obtain healthy w2 where h: "?last z w1 = (Done healthy, w2)" and a: "?answer healthy w2 = (Done x, w')"
    by (elim exE conjE)
  have x: "if healthy then x = result else er_status x = E_UNKNOWN" using a by (cases healthy) (auto simp: svc_Done)
  have "healthy \<longleftrightarrow> snd z \<and> tc_joined call \<and> renewals ?f (Suc 0) w1"
    using h by (cases "wo_schedule w1") (auto simp: stry_def sreturn_def port_call_once split: if_splits sum.splits prod.splits)
  also have "\<dots> \<longleftrightarrow> lease_held P call work w"
    using keeper_renewals [of ?renew "tc_beats call" w "snd z" w1 ?f "Suc 0"] k by (cases z) (auto simp: lease_held_def)
  finally show ?thesis using x by simp
qed

lemma run_effect_known:
  assumes "run_effect P sv call work q w = (Done x, w')"
  shows "er_status x \<noteq> E_UNKNOWN \<longleftrightarrow> lease_held P call work w \<and> (\<exists>y. sv_effect sv q = Inr y \<and> er_status y \<noteq> E_UNKNOWN)"
proof -
  let ?w = "w\<lparr>wo_calls := (lj_id (cw_job work), q) # wo_calls w\<rparr>"
  obtain y where y: "confirm_lease P call work y ?w = (Done x, w')"
    "case sv_effect sv q of Inl _ \<Rightarrow> er_status y = E_UNKNOWN | Inr z \<Rightarrow> z = y"
    using assms unfolding run_effect_def sbind_Done_iff
    by (cases "sv_effect sv q") (auto simp: svc_defs call_executor_def split: sum.splits)
  have "lease_held P call work ?w = lease_held P call work w" by (simp only: lease_held_def renewals_calls)
  with confirm_lease_held [OF y(1)] y(2) show ?thesis by (auto split: sum.splits if_splits)
qed

lemma work_on_effect_result:
  assumes "sqlite.proper env w" "work_on_effect (sqlite_port env) sv call work operation effect w = (Done y, w')"
  shows "\<exists>q c r j d claim v. wo_calls w' = (lj_id (cw_job work), q) # wo_calls w
    \<and> port_call (claim_effect work operation d (rq_key q)) w = (Done (claim, True), v)
    \<and> c \<in> set (st_claims (wo_store w')) \<and> cl_job c = lj_id (cw_job work) \<and> cl_id c = lc_id claim
    \<and> r \<in> set (st_receipts (wo_store w')) \<and> re_claim r = cl_id c
    \<and> find_job (wo_store w') (lj_id (cw_job work)) = Some j
    \<and> jr_state j = (case re_status r of E_COMPLETED \<Rightarrow> L_COMPLETED | E_FAILED \<Rightarrow> L_FAILED | E_UNKNOWN \<Rightarrow> L_RECOVERY_REQUIRED)
    \<and> (re_status r \<noteq> E_UNKNOWN \<longleftrightarrow>
        lease_held (sqlite_port env) call work v \<and> (\<exists>x. sv_effect sv q = Inr x \<and> er_status x \<noteq> E_UNKNOWN))
    \<and> (re_status r \<noteq> E_UNKNOWN \<longrightarrow> sv_effect sv q = Inr \<lparr>er_status = re_status r, er_evidence = re_evidence r\<rparr>)"
proof -
  from assms(2) obtain d q c cr w1 where p: "port_call (claim_effect work operation d (rq_key q)) w = (Done (c, cr), w1)"
    and r: "(if \<not> cr then sraise (ConcurrencyConflict ''Persisted effect claim yeniden calistirilamaz'')
      else sbind (run_effect (sqlite_port env) sv call work q) (conclude_work (sqlite_port env) work c)) w1 = (Done y, w')"
    unfolding work_on_effect_def Let_def svc_Done split_paired_Ex prod.case sqlite_port_simps
    by (metis local_effect_request.select_convs(2))
  from r have "cr" by (simp add: sreturn_Done_iff split: if_splits)
  with r obtain x w2 where e: "run_effect (sqlite_port env) sv call work q w1 = (Done x, w2)"
    and co: "conclude_work (sqlite_port env) work c x w2 = (Done y, w')"
    by (auto simp: sbind_Done_iff)
  note p = p [unfolded eqTrueI [OF \<open>cr\<close>]]
  have l: "\<forall>m s t x'. claim_effect work operation d (rq_key q) m s = Inr (t, x') \<longrightarrow> runtime_store.reach env s t"
    using op_reach(3) by blast
  from assms(1) p l have w1: "sqlite.proper env w1" "wo_calls w1 = wo_calls w"
    by (cases rule: sqlite.port_call_cases; simp)+
  from p obtain m s where "claim_effect work operation d (rq_key q) m s = Inr (wo_store w1, c, True)"
    by (auto simp: port_call_Done_iff)
  from claim_effect_created [OF this] obtain k where k: "k \<in> set (st_claims (wo_store w1))"
    "cl_job k = lj_id (cw_job work)" "c = claim_view k" by blast
  note once = sqlite.run_effect_once [OF w1(1) e]
  note quiet = sqlite.quietD [OF sqlite.quiet_conclude once(2) co]
  have kept: "k \<in> set (st_claims (wo_store w'))"
    using k(1) runtime_store.reach_rank [OF runtime_store.reach_trans [OF once(1) quiet(1)]] w1 audit_claims
    unfolding sqlite.proper_def by blast
  from conclude_work_result [OF once(2) co] obtain r j where r: "r \<in> set (st_receipts (wo_store w'))"
    "re_claim r = lc_id c" "re_status r = er_status x" "re_evidence r = er_evidence x"
    "find_job (wo_store w') (lj_id (cw_job work)) = Some j"
    "jr_state j = (case er_status x of E_COMPLETED \<Rightarrow> L_COMPLETED | E_FAILED \<Rightarrow> L_FAILED | E_UNKNOWN \<Rightarrow> L_RECOVERY_REQUIRED)"
    by blast
  have answer: "sv_effect sv q = Inr \<lparr>er_status = er_status x, er_evidence = er_evidence x\<rparr>" if "er_status x \<noteq> E_UNKNOWN"
    using run_effect_result [OF e] that by simp
  have calls: "wo_calls w' = (lj_id (cw_job work), q) # wo_calls w" using once(3) quiet(3) w1(2) by simp
  have id: "cl_id k = lc_id c" using k(3) by (simp add: claim_view_def)
  show ?thesis
    using calls p kept k(2) id r answer run_effect_known [OF e]
    by (intro exI [of _ q] exI [of _ k] exI [of _ r] exI [of _ j] exI [of _ d] exI [of _ c] exI [of _ w1]) simp
qed

text \<open>C6. A job is concluded on the word of the executor and under a lease that is held. When a worker tick
  returns a job, that job was claimed, its effect was claimed for the first time, and the executor was given one
  request, for this job and with the key of the claim; the claim has a receipt, and the state of the job is the
  one the receipt stands for. The receipt is completed or failed exactly when the executor answered so, every
  renewal of the lease by the keeper and the last one after it succeeded, and the keeper ended in time, and then
  it is what the executor answered; an executor that raises or answers unknown, a lost lease and a keeper that
  does not end all leave an unknown receipt and the job in recovery.\<close>

theorem worker_tick_outcome:
  assumes "0 \<le> mx" "runtime_store.reach env (empty_store mx us) s"
    and "run_worker_once (sqlite_port env) sv call
      ((fresh_world s)\<lparr>wo_schedule := sqlite_schedule env items\<rparr>) = (Done (Some work), w)"
  shows "\<exists>q c r j operation d claim u v. wo_calls w = [(lj_id (cw_job work), q)]
    \<and> port_call (claim_next env (tc_owner call) (tc_pid call) (tc_token call) (tc_lease_seconds call) (tc_resources call)
        (sv_operations sv) (tc_job call)) ((fresh_world s)\<lparr>wo_schedule := sqlite_schedule env items\<rparr>) = (Done (Some work), u)
    \<and> port_call (claim_effect work operation d (rq_key q)) u = (Done (claim, True), v)
    \<and> c \<in> set (st_claims (wo_store w)) \<and> cl_job c = lj_id (cw_job work) \<and> cl_id c = lc_id claim
    \<and> r \<in> set (st_receipts (wo_store w)) \<and> re_claim r = cl_id c
    \<and> find_job (wo_store w) (lj_id (cw_job work)) = Some j
    \<and> jr_state j = (case re_status r of E_COMPLETED \<Rightarrow> L_COMPLETED | E_FAILED \<Rightarrow> L_FAILED | E_UNKNOWN \<Rightarrow> L_RECOVERY_REQUIRED)
    \<and> (re_status r \<noteq> E_UNKNOWN \<longleftrightarrow>
        lease_held (sqlite_port env) call work v \<and> (\<exists>x. sv_effect sv q = Inr x \<and> er_status x \<noteq> E_UNKNOWN))
    \<and> (re_status r \<noteq> E_UNKNOWN \<longrightarrow> sv_effect sv q = Inr \<lparr>er_status = re_status r, er_evidence = re_evidence r\<rparr>)"
proof -
  let ?w = "(fresh_world s)\<lparr>wo_schedule := sqlite_schedule env items\<rparr>"
  have w: "sqlite.proper env ?w" using sqlite_schedule_fair reachable_good [OF assms(1,2)]
    by (simp add: sqlite.proper_def fresh_world_def)
  from assms(3) obtain work' w1 where p: "port_call (claim_next env (tc_owner call) (tc_pid call) (tc_token call)
       (tc_lease_seconds call) (tc_resources call) (sv_operations sv) (tc_job call)) ?w = (Done (Some work'), w1)"
    and h: "handle_work (sqlite_port env) sv call work' w1 = (Done (Some work), w)"
    unfolding run_worker_once_def sbind_Done_iff sqlite_port_simps
    by (auto simp: sreturn_Done_iff split: option.splits)
  have l: "\<forall>m s t x'. claim_next env (tc_owner call) (tc_pid call) (tc_token call)
       (tc_lease_seconds call) (tc_resources call) (sv_operations sv) (tc_job call) m s = Inr (t, x') \<longrightarrow> runtime_store.reach env s t"
    using op_reach(1) by blast
  from w p l have w1: "sqlite.proper env w1" "wo_calls w1 = []"
    by (cases rule: sqlite.port_call_cases; simp add: fresh_world_def)+
  have no: "refuse_work P wk a b v \<noteq> (Done z, v')" for P :: "store port" and wk a b v z v'
    by (auto simp: refuse_work_def svc_Done)
  from h obtain op ef where e: "work_on_effect (sqlite_port env) sv call work' op ef w1 = (Done (Some work), w)"
    unfolding handle_work_def by (auto simp: no split: option.splits json.splits if_splits)
  then have same: "work' = work"
    by (auto simp: work_on_effect_def conclude_work_def Let_def svc_Done split: prod.splits if_splits)
  from work_on_effect_result [OF w1(1) e [unfolded same]] p [unfolded same] w1(2) show ?thesis by fastforce
qed

theorem worker_tick_outcome_witness:
  "\<exists>q c r j v. wo_calls note_world = [(sid1, q)]
    \<and> c \<in> set (st_claims (wo_store note_world)) \<and> cl_job c = sid1
    \<and> r \<in> set (st_receipts (wo_store note_world)) \<and> re_claim r = cl_id c
    \<and> find_job (wo_store note_world) sid1 = Some j
    \<and> jr_state j = (case re_status r of E_COMPLETED \<Rightarrow> L_COMPLETED | E_FAILED \<Rightarrow> L_FAILED | E_UNKNOWN \<Rightarrow> L_RECOVERY_REQUIRED)
    \<and> (re_status r \<noteq> E_UNKNOWN \<longleftrightarrow> lease_held (sqlite_port sample_env) note_call note_work v
         \<and> (\<exists>x. sv_effect note_service q = Inr x \<and> er_status x \<noteq> E_UNKNOWN))"
  using worker_tick_outcome [OF _ note_reach note_tick] by (simp, blast)

section \<open>At most once\<close>

text \<open>C2. No effect is executed twice: whatever ticks the hosts serve - worker ticks, outbox ticks and
  start-ups, with any transactions of other processes between their calls, and with the process
  killed at any point - the requests that the executor gets are all for different jobs.\<close>

theorem effects_run_at_most_once:
  assumes "0 \<le> mx" "runtime_store.reach env (empty_store mx us) s"
  shows "distinct (map fst (wo_calls (serve (sqlite_port env) (fresh_world s)
    (map (map_tick (sqlite_schedule env)) ticks))))"
proof -
  have "sqlite.accounted (fresh_world s)"
    using reachable_good [OF assms] by (simp add: sqlite.accounted_def fresh_world_def)
  moreover have "\<forall>t \<in> set (map (map_tick (sqlite_schedule env)) ticks). \<forall>c \<in> set_tick t. sqlite.fair env c"
    using sqlite_schedule_fair by (auto simp: tick.set_map)
  ultimately have "sqlite.accounted (serve (sqlite_port env) (fresh_world s) (map (map_tick (sqlite_schedule env)) ticks))"
    by (rule sqlite.serve_accounted)
  then show ?thesis by (simp add: sqlite.accounted_def)
qed

theorem effects_run_at_most_once_witness:
  "distinct (map fst (wo_calls (serve (sqlite_port sample_env) (fresh_world note_queued)
     (map (map_tick (sqlite_schedule sample_env)) note_ticks))))
   \<and> wo_calls (serve (sqlite_port sample_env) (fresh_world note_queued)
     (map (map_tick (sqlite_schedule sample_env)) note_ticks)) = [(sid1, note_request)]"
  using effects_run_at_most_once [OF _ note_reach] note_serve by simp

section \<open>The result of an outbox tick\<close>

lemma keeper_invariant:
  assumes "keeper_run renew n c w = (Done (c', alive), w')" "I c"
    and "\<And>c w c1 w1. I c \<Longrightarrow> renew c w = (Done c1, w1) \<Longrightarrow> I c1"
  shows "I c'"
  using assms(1,2)
proof (induction n arbitrary: c w)
  case 0
  then show ?case by (simp add: sreturn_Done_iff)
next
  case (Suc n)
  then show ?case
    by (auto simp: svc_Done split: option.splits) (metis assms(3))
qed

lemma heartbeat_outbox_same:
  assumes "heartbeat_outbox env c secs m s = Inr (t, c')"
  shows "oe_id (oc_event c') = oe_id (oc_event c)" "oc_claim_id c' = oc_claim_id c"
  using assms
  by (auto simp: heartbeat_outbox_def Let_def rbind_Inr_iff case_option_Inr_iff case_prod_Inr_iff if_Inl_eq_Inr
      read_event_def outbox_view_def find_outbox_row_def find_Some_iff)

lemma outbox_receipt_recorded:
  assumes "record_outbox_receipt env c st ev m s = Inr (t, e)"
  shows "\<exists>r \<in> set (st_outbox_receipts t). or_outbox r = oe_id (oc_event c) \<and> or_status r = st \<and> or_evidence r = ev"
proof -
  from assms have "write_outbox_receipt c st ev m s = Inr t
      \<or> (\<exists>r. outbox_receipt_of s (oe_id (oc_event c)) = Some r \<and> or_status r = st \<and> or_evidence r = ev \<and> t = s)"
    unfolding record_outbox_receipt_def Let_def rbind_Inr_iff if_Inl_eq_Inr case_option_Inr_iff case_prod_Inr_iff
    by auto
  then show ?thesis
  proof (elim disjE exE)
    assume "write_outbox_receipt c st ev m s = Inr t"
    then show ?thesis
      by (auto simp: write_outbox_receipt_def Let_def rbind_Inr_iff case_prod_Inr_iff if_Inr_iff new_uuid_def
          insert_outbox_receipt_def update_delivery_def insert_case_def unique_violation_def foreign_key_violation_def
          check_violation_def split: if_splits list.splits)
  qed (auto simp: outbox_receipt_of_def find_Some_iff)
qed

text \<open>Calls of the port and everything built from them leave the list of deliveries alone.\<close>

lemma port_call_sent: "port_call f w = (r, w') \<Longrightarrow> wo_sent w' = wo_sent w"
  by (auto simp: port_call_def Let_def split: list.splits sum.splits prod.splits)

lemma keeper_sent:
  assumes "keeper_run (\<lambda>c. port_call (f c)) n c w = (Done x, w')"
  shows "wo_sent w' = wo_sent w"
  using assms
proof (induction n arbitrary: c w)
  case (Suc n)
  then show ?case
    by (auto simp: svc_Done sbind_def sreturn_def split: option.splits outcome.splits prod.splits dest!: port_call_sent)
qed (simp add: sreturn_Done_iff)

lemma keep_delivery_sent:
  assumes "keep_delivery P call c w = (Done x, w')"
  shows "wo_sent w' = wo_sent w"
  using assms unfolding keep_delivery_def Let_def
  by (auto simp: svc_Done sbind_def sreturn_def split: option.splits outcome.splits prod.splits if_splits
      dest!: keeper_sent port_call_sent)

lemma keep_delivery_same:
  assumes "keep_delivery (sqlite_port env) call c w = (Done (c', healthy), w')"
  shows "oe_id (oc_event c') = oe_id (oc_event c) \<and> oc_claim_id c' = oc_claim_id c"
proof -
  define renew where "renew = (\<lambda>c. port_call (heartbeat_outbox env c (tc_lease_seconds call)))"
  have step: "oe_id (oc_event c2) = oe_id (oc_event c) \<and> oc_claim_id c2 = oc_claim_id c"
    if "oe_id (oc_event c1) = oe_id (oc_event c) \<and> oc_claim_id c1 = oc_claim_id c" "renew c1 v = (Done c2, v')"
    for c1 c2 v v'
    using that heartbeat_outbox_same unfolding renew_def port_call_Done_iff by metis
  from assms obtain c1 alive w1 where k: "keeper_run renew (tc_beats call) c w = (Done (c1, alive), w1)"
    and r: "(if alive \<and> tc_joined call then stry (sbind (renew c1) (\<lambda>c. sreturn (c, True))) (sreturn (c1, False))
      else sreturn (c1, False)) w1 = (Done (c', healthy), w')"
    unfolding keep_delivery_def Let_def sqlite_port_simps renew_def [symmetric] sbind_Done_iff [of "keeper_run _ _ _"]
    by auto
  note c1 = keeper_invariant [where I = "\<lambda>x. oe_id (oc_event x) = oe_id (oc_event c) \<and> oc_claim_id x = oc_claim_id c",
      OF k _ step]
  from c1 have c1: "oe_id (oc_event c1) = oe_id (oc_event c) \<and> oc_claim_id c1 = oc_claim_id c" by simp
  have "c' = c1 \<or> (\<exists>v v'. renew c1 v = (Done c', v'))"
    using r by (auto simp: svc_Done split: if_splits)
  with c1 step [OF c1] show ?thesis by blast
qed

lemma deliver_result:
  assumes "deliver (sqlite_port env) sv call first w = (Done (Some claim), w')"
  shows "wo_sent w' = first # wo_sent w \<and> oe_id (oc_event first) = oe_id (oc_event claim)
    \<and> (\<exists>r \<in> set (st_outbox_receipts (wo_store w')). or_outbox r = oe_id (oc_event claim)
        \<and> (or_status r = DS_UNKNOWN \<or>
           dispatch_outbox (sv_outbox sv) first = Inr \<lparr>dr_status = or_status r, dr_evidence = or_evidence r\<rparr>))"
proof -
  from assms obtain result w1 w2 healthy c2
    where c: "stry (call_publisher sv first) (sbind (slift (digest (PStr ''outbox-publisher-exception''))) (\<lambda>d.
         sreturn \<lparr>dr_status = DS_UNKNOWN, dr_evidence = d\<rparr>)) w = (Done result, w1)"
    and k: "keep_delivery (sqlite_port env) call first w1 = (Done (c2, healthy), w2)"
    and s: "settle_delivery (sqlite_port env) c2 healthy result w2 = (Done (Some claim), w')"
    unfolding deliver_def sbind_Done_iff [of "stry _ _"] sbind_Done_iff [of "keep_delivery _ _ _"] split_paired_Ex prod.case
    by blast
  have r: "dr_status result = DS_UNKNOWN \<or> dispatch_outbox (sv_outbox sv) first = Inr result" "wo_sent w1 = first # wo_sent w"
    using c by (auto simp: svc_Done call_publisher_def slift_def sraise_def sreturn_def split: sum.splits)
  from s obtain result1 x w3 where r1: "(if healthy then sreturn result
         else sbind (slift (lease_loss_digest ''outbox'' (oe_id (oc_event c2))
             (delivery_status_value (dr_status result)) (dr_evidence result))) (\<lambda>d.
           sreturn \<lparr>dr_status = DS_UNKNOWN, dr_evidence = d\<rparr>)) w2 = (Done result1, w3)" and cl: "c2 = claim"
    and p: "port_call (record_outbox_receipt env claim (dr_status result1) (dr_evidence result1)) w3 = (Done x, w')"
    unfolding settle_delivery_def sbind_Done_iff [of "if _ then _ else _"] sbind_Done_iff [of "port_call _"] sreturn_Done_iff
      sqlite_port_simps by blast
  then have r1: "result1 = result \<or> dr_status result1 = DS_UNKNOWN" "w3 = w2"
    by (auto simp: svc_Done split: if_splits)
  from p obtain m s0 where "record_outbox_receipt env claim (dr_status result1) (dr_evidence result1) m s0 = Inr (wo_store w', x)"
    by (auto simp: port_call_Done_iff)
  from outbox_receipt_recorded [OF this] r1(1) r(1)
  have "\<exists>r \<in> set (st_outbox_receipts (wo_store w')). or_outbox r = oe_id (oc_event claim) \<and> (or_status r = DS_UNKNOWN
      \<or> dispatch_outbox (sv_outbox sv) first = Inr \<lparr>dr_status = or_status r, dr_evidence = or_evidence r\<rparr>)"
    by (auto intro!: bexI)
  then show ?thesis
    using keep_delivery_same [OF k] keep_delivery_sent [OF k] port_call_sent [OF p] r(2) r1(2) cl by simp
qed

text \<open>An event counts as delivered, or as failed, on the word of its publisher alone: when an outbox
  tick returns a claim, the publisher was called once, for that event, and the store holds a
  delivery receipt of the event which is unknown or is exactly what the publisher answered. A
  publisher that raises, a lost lease and a keeper that does not end all give an unknown receipt.\<close>

theorem publish_tick_outcome:
  assumes "publish_outbox_once (sqlite_port env) sv call
      ((fresh_world s)\<lparr>wo_schedule := sqlite_schedule env items\<rparr>) = (Done (Some claim), w)"
  shows "\<exists>first r. wo_sent w = [first] \<and> oe_id (oc_event first) = oe_id (oc_event claim)
    \<and> r \<in> set (st_outbox_receipts (wo_store w)) \<and> or_outbox r = oe_id (oc_event claim)
    \<and> (or_status r = DS_UNKNOWN \<or>
       dispatch_outbox (sv_outbox sv) first = Inr \<lparr>dr_status = or_status r, dr_evidence = or_evidence r\<rparr>)"
proof -
  let ?w = "(fresh_world s)\<lparr>wo_schedule := sqlite_schedule env items\<rparr>"
  from assms obtain first w1 where p: "port_call (claim_outbox env (map fst (sv_outbox sv)) None False (tc_owner call)
      (tc_pid call) (tc_token call) (tc_lease_seconds call)) ?w = (Done (Some first), w1)"
    and d: "deliver (sqlite_port env) sv call first w1 = (Done (Some claim), w)"
    unfolding publish_outbox_once_def sbind_Done_iff sqlite_port_simps
    by (auto simp: sreturn_Done_iff split: option.splits if_splits)
  have "wo_sent w1 = []" using port_call_sent [OF p] by (simp add: fresh_world_def)
  with deliver_result [OF d] show ?thesis by auto
qed

theorem publish_tick_outcome_witness:
  "\<exists>first r. wo_sent sent_world = [first] \<and> oe_id (oc_event first) = oe_id (oc_event (sent 7))
    \<and> r \<in> set (st_outbox_receipts (wo_store sent_world)) \<and> or_outbox r = oe_id (oc_event (sent 7))
    \<and> (or_status r = DS_UNKNOWN \<or>
       dispatch_outbox (sv_outbox sent_service) first = Inr \<lparr>dr_status = or_status r, dr_evidence = or_evidence r\<rparr>)"
  by (rule publish_tick_outcome [OF sent_tick])

section \<open>Starting up\<close>

lemma orphan_lease_ids_complete:
  assumes "orphan_lease_ids probe s = Inr ids" "l \<in> set (st_leases s)" "ls_id l \<notin> set ids"
  shows "probe (ls_pid l) = Some (ls_token l)"
proof -
  from assms(1) obtain parts where p: "rmap (\<lambda>l. rbind (process_probe_value probe (ls_pid l)) (\<lambda>observed.
      Inr (if observed \<noteq> Some (ls_token l) then [ls_id l] else []))) (sort_key ls_id (st_leases s)) = Inr parts"
    and ids: "ids = concat parts"
    by (auto simp: orphan_lease_ids_def rbind_Inr_iff)
  have "l \<in> set (sort_key ls_id (st_leases s))" using assms(2) by simp
  with p obtain part where part: "part \<in> set parts" "rbind (process_probe_value probe (ls_pid l)) (\<lambda>observed.
      Inr (if observed \<noteq> Some (ls_token l) then [ls_id l] else [])) = Inr part"
    unfolding rmap_Inr_iff list_all2_conv_all_nth in_set_conv_nth by (metis)
  with ids assms(3) have "ls_id l \<notin> set part" by auto
  with part(2) show ?thesis
    by (auto simp: rbind_Inr_iff process_probe_value_def split: option.splits if_splits)
qed

lemma recover_outbox_leases:
  assumes "recover_outbox m probe s = Inr (t, n)"
  shows "st_leases t = st_leases s"
proof -
  have "st_leases t = st_leases s" if "rfold (abandon_delivery m) s xs = Inr t" for xs s t
    using that
  proof (rule rfold_invariant [where P = "\<lambda>u. st_leases u = st_leases s"])
    fix u x v
    assume "st_leases u = st_leases s" "abandon_delivery m u x = Inr v"
    then show "st_leases v = st_leases s"
      by (cases x) (auto simp: abandon_delivery_def rbind_Inr_iff case_prod_Inr_iff new_uuid_def insert_outbox_receipt_def
          update_delivery_def insert_case_def Let_def unique_violation_def foreign_key_violation_def check_violation_def
          split: if_splits list.splits)
  qed simp
  with assms show ?thesis by (auto simp: recover_outbox_def recover_outbox_tx_def Let_def rbind_Inr_iff)
qed

text \<open>Starting up clears out dead workers: after a start-up, every lease left belongs to a process that
  is alive and still has the identity it claimed with, and has not expired; every running job has
  such a lease.\<close>

theorem startup_clears_dead_workers:
  assumes "0 \<le> mx" "runtime_store.reach env (empty_store mx us) s"
    and "startup (sqlite_port env) probe ((fresh_world s)\<lparr>wo_schedule :=
      sqlite_schedule env [([], m0), ([], m1), ([], m2), ([], m3)]\<rparr>) = (Done r, w)"
  shows "(\<forall>l \<in> set (st_leases (wo_store w)). l \<in> set (st_leases s) \<and> m2 < ls_expires_at l
      \<and> probe (ls_pid l) = Some (ls_token l))
    \<and> (\<forall>j \<in> set (st_jobs (wo_store w)). jr_state j = L_RUNNING \<longrightarrow>
      (\<exists>l \<in> set (st_leases (wo_store w)). ls_job l = jr_id j))"
proof -
  from assms(3) obtain s1 s2 x1 x2 x3 where o: "recover_orphans env probe s m1 s = Inr (s1, x1)"
    and e: "recover_expired env m2 s1 = Inr (s2, x2)" and b: "recover_outbox m3 (Some probe) s2 = Inr (wo_store w, x3)"
    by (auto simp: startup_def read_snapshot_def svc_Done port_call_Done_iff sqlite_schedule_def fresh_world_def)
  note g = reachable_good [OF assms(1,2)]
  have g1: "good s1" using g moves_recover_orphans [OF o] by (simp add: moves_def)
  have g2: "good (wo_store w)"
    using g1 op_reach(7) [OF e] op_reach(12) [OF b] runtime_store.reach_inv by blast
  from o obtain ids where ids: "orphan_lease_ids probe s = Inr ids" "recover env m1 ids s = Inr (s1, x1)"
    by (auto simp: recover_orphans_def rbind_Inr_iff)
  have "st_leases (wo_store w) = filter (\<lambda>l. m2 < ls_expires_at l)
      (filter (\<lambda>l. m1 < ls_expires_at l \<and> ls_id l \<notin> set ids) (st_leases s))"
    using recover_leases(1) [OF g ids(2)] recover_leases(1) [OF g1, of env m2 "[]"] e recover_outbox_leases [OF b]
    by (simp add: recover_expired_def)
  then have "\<forall>l \<in> set (st_leases (wo_store w)). l \<in> set (st_leases s) \<and> m2 < ls_expires_at l
      \<and> probe (ls_pid l) = Some (ls_token l)"
    using orphan_lease_ids_complete [OF ids(1)] by auto
  with good_running_iff(1) [OF g2] show ?thesis by blast
qed

theorem startup_clears_dead_workers_witness:
  "9 < ls_expires_at sample_lease
   \<and> (if ls_pid sample_lease = 100 then Some ''token'' else None) = Some (ls_token sample_lease)"
proof -
  obtain r w where w: "startup (sqlite_port sample_env) (\<lambda>pid. if pid = 100 then Some ''token'' else None)
     ((fresh_world note_running)\<lparr>wo_schedule := sqlite_schedule sample_env [([], 7), ([], 8), ([], 9), ([], 10)]\<rparr>)
   = (Done r, w)" "wo_store w = note_running" using sample_startup by blast
  have "sample_lease \<in> set (st_leases (wo_store w))" by (simp add: w(2) note_running_def)
  with startup_clears_dead_workers [OF _ note_reach_running w(1)] show ?thesis by fastforce
qed

end
