(* ===== verification/Float64.thy ===== *)
theory Float64
  imports Canonical
begin

text \<open>
  Python's \<^verbatim>\<open>float\<close>, IEEE 754 binary64 with rounding to nearest, ties to even. A finite number is a
  sign, a significand below \<open>2 ^ 53\<close> and an exponent of at least \<open>-1074\<close>; it stands for
  \<open>(-1) ^ sign * significand * 2 ^ exponent\<close>, and \<open>float_ok\<close> says that the significand is normalised,
  so that every number has one representation (the two zeros are two). The operations compute the
  exact result over the integers and round it once; the division keeps a sticky bit. \<open>py_sum\<close> is
  the compensated summation that \<^verbatim>\<open>sum\<close> applies to floats since Python 3.12, \<open>float_repr\<close> the
  shortest text that reads back as the same number.
\<close>

section \<open>Numbers\<close>

datatype float64 = Fin bool nat int | Inf bool | NaN

definition float_zero :: float64 where
  "float_zero = Fin False 0 (- 1074)"

text \<open>\<^verbatim>\<open>math.isfinite\<close>.\<close>

fun isfinite :: "float64 \<Rightarrow> bool" where
  "isfinite (Fin _ _ _) = True"
| "isfinite _ = False"

fun nat_bits :: "nat \<Rightarrow> nat" where
  "nat_bits n = (if n = 0 then 0 else Suc (nat_bits (n div 2)))"

declare nat_bits.simps [simp del]

fun float_ok :: "float64 \<Rightarrow> bool" where
  "float_ok (Fin s m e) = (m < 2 ^ 53 \<and> - 1074 \<le> e \<and> e \<le> 971 \<and> (2 ^ 52 \<le> m \<or> e = - 1074))"
| "float_ok _ = True"

section \<open>Rounding\<close>

definition half_even :: "nat \<Rightarrow> nat \<Rightarrow> nat" where
  "half_even m d = (let q = m div d; r = m mod d in if 2 * r > d \<or> (2 * r = d \<and> odd q) then q + 1 else q)"

definition pack :: "bool \<Rightarrow> nat \<Rightarrow> int \<Rightarrow> float64" where
  "pack s q e =
     (if q = 2 ^ 53 then (if e + 1 > 971 then Inf s else Fin s (2 ^ 52) (e + 1))
      else if e > 971 then Inf s
      else Fin s q e)"

text \<open>The binary64 number nearest to \<open>(-1) ^ s * m * 2 ^ e\<close>.\<close>

definition round_float :: "bool \<Rightarrow> nat \<Rightarrow> int \<Rightarrow> float64" where
  "round_float s m e =
     (if m = 0 then Fin s 0 (- 1074)
      else let k = max (int (nat_bits m) - 53) (- 1074 - e) in
        if k \<le> 0 then pack s (m * 2 ^ nat (- k)) (e + k)
        else pack s (half_even m (2 ^ nat k)) (e + k))"

section \<open>Operations\<close>

definition signed :: "bool \<Rightarrow> nat \<Rightarrow> int" where
  "signed s m = (if s then - int m else int m)"

fun float_neg :: "float64 \<Rightarrow> float64" where
  "float_neg (Fin s m e) = Fin (\<not> s) m e"
| "float_neg (Inf s) = Inf (\<not> s)"
| "float_neg NaN = NaN"

fun float_abs :: "float64 \<Rightarrow> float64" where
  "float_abs (Fin s m e) = Fin False m e"
| "float_abs (Inf s) = Inf False"
| "float_abs NaN = NaN"

fun float_add :: "float64 \<Rightarrow> float64 \<Rightarrow> float64" where
  "float_add (Fin s m e) (Fin t n f) =
     (let g = min e f; v = signed s m * 2 ^ nat (e - g) + signed t n * 2 ^ nat (f - g) in
      if v = 0 then Fin (s \<and> t) 0 (- 1074) else round_float (v < 0) (nat \<bar>v\<bar>) g)"
| "float_add (Inf s) (Inf t) = (if s = t then Inf s else NaN)"
| "float_add (Inf s) (Fin _ _ _) = Inf s"
| "float_add (Fin _ _ _) (Inf t) = Inf t"
| "float_add NaN _ = NaN"
| "float_add _ NaN = NaN"

definition float_sub :: "float64 \<Rightarrow> float64 \<Rightarrow> float64" where
  "float_sub a b = float_add a (float_neg b)"

fun float_lt :: "float64 \<Rightarrow> float64 \<Rightarrow> bool" where
  "float_lt (Fin s m e) (Fin t n f) =
     (let g = min e f in signed s m * 2 ^ nat (e - g) < signed t n * 2 ^ nat (f - g))"
| "float_lt (Inf s) (Inf t) = (s \<and> \<not> t)"
| "float_lt (Inf s) (Fin _ _ _) = s"
| "float_lt (Fin _ _ _) (Inf t) = (\<not> t)"
| "float_lt NaN _ = False"
| "float_lt _ NaN = False"

fun float_eq :: "float64 \<Rightarrow> float64 \<Rightarrow> bool" where
  "float_eq (Fin s m e) (Fin t n f) =
     (let g = min e f in signed s m * 2 ^ nat (e - g) = signed t n * 2 ^ nat (f - g))"
| "float_eq (Inf s) (Inf t) = (s = t)"
| "float_eq _ _ = False"

definition float_le :: "float64 \<Rightarrow> float64 \<Rightarrow> bool" where
  "float_le a b = (float_lt a b \<or> float_eq a b)"

text \<open>\<^verbatim>\<open>max(a, b)\<close>: the second argument replaces the first only when it is larger.\<close>

definition float_max :: "float64 \<Rightarrow> float64 \<Rightarrow> float64" where
  "float_max a b = (if float_lt a b then b else a)"

text \<open>\<^verbatim>\<open>float(n)\<close>.\<close>

definition float_of_int :: "int \<Rightarrow> float64 res" where
  "float_of_int i =
     (case round_float (i < 0) (nat \<bar>i\<bar>) 0 of
        Inf _ \<Rightarrow> Inl (PyError ''OverflowError'')
      | x \<Rightarrow> Inr x)"

fun float_div :: "float64 \<Rightarrow> float64 \<Rightarrow> float64 res" where
  "float_div (Fin s m e) (Fin t n f) =
     (if n = 0 then Inl (PyError ''ZeroDivisionError'')
      else if m = 0 then Inr (Fin (s \<noteq> t) 0 (- 1074))
      else let q = (m * 2 ^ 110) div n; r = (m * 2 ^ 110) mod n in
        Inr (round_float (s \<noteq> t) (2 * q + (if r = 0 then 0 else 1)) (e - f - 111)))"
| "float_div (Inf s) (Fin t n f) = (if n = 0 then Inl (PyError ''ZeroDivisionError'') else Inr (Inf (s \<noteq> t)))"
| "float_div (Fin s m e) (Inf t) = Inr (Fin (s \<noteq> t) 0 (- 1074))"
| "float_div (Inf s) (Inf t) = Inr NaN"
| "float_div NaN (Fin t n f) = (if n = 0 then Inl (PyError ''ZeroDivisionError'') else Inr NaN)"
| "float_div NaN _ = Inr NaN"
| "float_div _ NaN = Inr NaN"

text \<open>\<^verbatim>\<open>sum\<close> of a sequence of floats: the first item is added to the integer 0, the others are added
  with Neumaier's compensation.\<close>

fun sum_loop :: "float64 \<Rightarrow> float64 \<Rightarrow> float64 list \<Rightarrow> float64" where
  "sum_loop f c [] = (if \<not> float_eq c float_zero \<and> isfinite c then float_add f c else f)"
| "sum_loop f c (x # xs) =
     (let t = float_add f x;
          d = (if float_le (float_abs x) (float_abs f)
               then float_add (float_sub f t) x else float_add (float_sub x t) f)
      in sum_loop t (float_add c d) xs)"

text \<open>The sum of no item is the integer 0, here the float it is equal to.\<close>

fun py_sum :: "float64 list \<Rightarrow> float64" where
  "py_sum [] = float_zero"
| "py_sum (x # xs) = sum_loop (float_add float_zero x) float_zero xs"

section \<open>Text of a float\<close>

text \<open>The binary64 number nearest to \<open>d * 10 ^ k\<close>, as \<^verbatim>\<open>float(text)\<close> reads it.\<close>

definition read_decimal :: "nat \<Rightarrow> int \<Rightarrow> float64" where
  "read_decimal d k =
     (if k \<ge> 0 then round_float False (d * 10 ^ nat k) 0
      else let p = 10 ^ nat (- k); l = 60 + nat_bits p; q = (d * 2 ^ l) div p; r = (d * 2 ^ l) mod p
           in round_float False (2 * q + (if r = 0 then 0 else 1)) (- int l - 1))"

text \<open>The least \<open>j\<close> with \<open>den \<le> num * 10 ^ j\<close>; a positive binary64 number is at least
  \<open>2 ^ (-1074) > 10 ^ (-324)\<close>, so 400 rounds are enough.\<close>

fun scale_up :: "nat \<Rightarrow> nat \<Rightarrow> nat \<Rightarrow> nat" where
  "scale_up 0 num den = 0"
| "scale_up (Suc fuel) num den = (if den \<le> num then 0 else Suc (scale_up fuel (num * 10) den))"

text \<open>Numerator and denominator of \<open>m * 2 ^ e\<close>, and the exponent of its leading decimal digit.\<close>

definition fraction :: "nat \<Rightarrow> int \<Rightarrow> nat \<times> nat" where
  "fraction m e = (if e \<ge> 0 then (m * 2 ^ nat e, 1) else (m, 2 ^ nat (- e)))"

definition leading_exponent :: "nat \<Rightarrow> nat \<Rightarrow> int" where
  "leading_exponent num den =
     (if den \<le> num then int (length (nat_str (num div den))) - 1 else - int (scale_up 400 num den))"

text \<open>The decimal of \<open>n\<close> digits, with exponent \<open>k\<close> of its last digit, nearest to the number among
  the two neighbours that read back as it; of two equally near ones the even one.\<close>

definition n_digits :: "nat \<Rightarrow> int \<Rightarrow> nat \<Rightarrow> (nat \<times> int) option" where
  "n_digits m e n =
     (case fraction m e of (num, den) \<Rightarrow>
        let k = leading_exponent num den - int n + 1;
            (a, b) = (if k \<ge> 0 then (num, den * 10 ^ nat k) else (num * 10 ^ nat (- k), den));
            lo = a div b; r = a mod b;
            back = (\<lambda>d. read_decimal d k = Fin False m e)
        in if back lo \<and> (\<not> back (lo + 1) \<or> 2 * r < b \<or> (2 * r = b \<and> even lo)) then Some (lo, k)
           else if back (lo + 1) then Some (lo + 1, k)
           else None)"

text \<open>The first length from \<open>n\<close> on that has such a decimal; 17 digits always have one.\<close>

fun shortest_from :: "nat \<Rightarrow> nat \<Rightarrow> nat \<Rightarrow> int \<Rightarrow> (nat \<times> int) option" where
  "shortest_from 0 n m e = None"
| "shortest_from (Suc fuel) n m e =
     (case n_digits m e n of Some dk \<Rightarrow> Some dk | None \<Rightarrow> shortest_from fuel (Suc n) m e)"

text \<open>Fixed notation for decimal exponents from -4 to 15, scientific notation otherwise.\<close>

definition decimal_layout :: "string \<Rightarrow> int \<Rightarrow> string" where
  "decimal_layout ds x =
     (if 0 \<le> x \<and> x < 16 then
        (let w = nat x + 1; ds' = ds @ replicate (w - length ds) (CHR ''0'') in
         take w ds' @ ''.'' @ (if length ds' \<le> w then ''0'' else drop w ds'))
      else if - 4 \<le> x \<and> x < 0 then ''0.'' @ replicate (nat (- x) - 1) (CHR ''0'') @ ds
      else take 1 ds @ (if length ds = 1 then '''' else ''.'' @ drop 1 ds) @ ''e'' @
           (if x < 0 then ''-'' else ''+'') @ pad_nat 2 (nat \<bar>x\<bar>))"

text \<open>The decimal digits without trailing zeros, and the exponent of the first one.\<close>

definition decimal_digits :: "nat \<Rightarrow> int \<Rightarrow> string \<times> int" where
  "decimal_digits d k =
     (case strip_zeros d k of (d', k') \<Rightarrow> (nat_str d', k' + int (length (nat_str d')) - 1))"

text \<open>\<^verbatim>\<open>float.__repr__\<close>.\<close>

fun float_repr :: "float64 \<Rightarrow> string" where
  "float_repr (Fin s m e) =
     (if s then ''-'' else '''') @
     (if m = 0 then ''0.0''
      else case shortest_from 17 1 m e of
             None \<Rightarrow> ''''
           | Some (d, k) \<Rightarrow> (case decimal_digits d k of (ds, x) \<Rightarrow> decimal_layout ds x))"
| "float_repr (Inf s) = (if s then ''-inf'' else ''inf'')"
| "float_repr NaN = ''nan''"

definition py_float :: "float64 \<Rightarrow> pyval" where
  "py_float x = PFloat (if isfinite x then FloatRepr (float_repr x) else NonFiniteFloat)"

end
