(* ===== verification/Optimization.thy ===== *)
theory Optimization
  imports Float64 Runtime
begin

text \<open>
  Metrics, evidence and measured progress (\<^verbatim>\<open>domain/optimization.py\<close>). Metric values are floats of
  \<open>Float64\<close>; every dataclass is a record with the function \<open>check_...\<close> that its
  \<^verbatim>\<open>__post_init__\<close> runs, and \<open>evaluate_progress\<close> turns three rows of measurements into a vector
  with one of five progress states. The lemmas show that the state does not depend on the order in
  which the evidence arrives, what each state says of the evidence and of the deltas, and which
  inputs the evaluation refuses.
\<close>

section \<open>Enumerations\<close>

datatype metric_direction = MAXIMIZE | MINIMIZE | TARGET | RANGE

fun metric_direction_value :: "metric_direction \<Rightarrow> string" where
  "metric_direction_value MAXIMIZE = ''maximize''"
| "metric_direction_value MINIMIZE = ''minimize''"
| "metric_direction_value TARGET = ''target''"
| "metric_direction_value RANGE = ''range''"

datatype metric_role = PRIMARY | HARD_GUARD | SECONDARY | COST

fun metric_role_value :: "metric_role \<Rightarrow> string" where
  "metric_role_value PRIMARY = ''primary''"
| "metric_role_value HARD_GUARD = ''hard-guard''"
| "metric_role_value SECONDARY = ''secondary''"
| "metric_role_value COST = ''cost''"

datatype metric_aggregation = AGG_LATEST | AGG_MEAN | AGG_MEDIAN | AGG_P95 | AGG_SUM

fun metric_aggregation_value :: "metric_aggregation \<Rightarrow> string" where
  "metric_aggregation_value AGG_LATEST = ''latest''"
| "metric_aggregation_value AGG_MEAN = ''mean''"
| "metric_aggregation_value AGG_MEDIAN = ''median''"
| "metric_aggregation_value AGG_P95 = ''p95''"
| "metric_aggregation_value AGG_SUM = ''sum''"

datatype progress_state = IMPROVED | TARGET_REACHED | PLATEAU | REGRESSED | INVALID

fun progress_state_value :: "progress_state \<Rightarrow> string" where
  "progress_state_value IMPROVED = ''improved''"
| "progress_state_value TARGET_REACHED = ''target-reached''"
| "progress_state_value PLATEAU = ''plateau''"
| "progress_state_value REGRESSED = ''regressed''"
| "progress_state_value INVALID = ''invalid''"

datatype validator_asset_role = ASSET_TEST | ASSET_FIXTURE | ASSET_METRIC | ASSET_THRESHOLD

fun validator_asset_role_value :: "validator_asset_role \<Rightarrow> string" where
  "validator_asset_role_value ASSET_TEST = ''test''"
| "validator_asset_role_value ASSET_FIXTURE = ''fixture''"
| "validator_asset_role_value ASSET_METRIC = ''metric''"
| "validator_asset_role_value ASSET_THRESHOLD = ''threshold''"

section \<open>Shared checks\<close>

text \<open>The guard \<^verbatim>\<open>values != tuple(sorted(set(values)))\<close>, negated.\<close>

definition canonical_tuple :: "'a :: linorder list \<Rightarrow> bool" where
  "canonical_tuple xs = (xs = sort (remdups xs))"

text \<open>\<^verbatim>\<open>for value in values: parse_digest(value)\<close>.\<close>

definition parse_all :: "string list \<Rightarrow> unit res" where
  "parse_all ds = rbind (rmap parse_digest ds) (\<lambda>_. Inr ())"

fun is_aware :: "pydatetime \<Rightarrow> bool" where
  "is_aware Naive = False"
| "is_aware (Aware _) = True"

text \<open>\<open>a <= b\<close> of two aware instants.\<close>

fun datetime_le :: "pydatetime \<Rightarrow> pydatetime \<Rightarrow> bool" where
  "datetime_le (Aware a) (Aware b) = (a \<le> b)"
| "datetime_le _ _ = False"

text \<open>The loops over labelled texts that must not be blank.\<close>

fun first_blank :: "(string \<times> string) list \<Rightarrow> string option" where
  "first_blank [] = None"
| "first_blank ((label, t) # rest) = (if blank t then Some label else first_blank rest)"

section \<open>Validator assets\<close>

record validator_asset =
  va_asset_id :: string
  va_logical_ref :: string
  va_content_digest :: string
  va_role :: validator_asset_role

definition check_validator_asset :: "validator_asset \<Rightarrow> validator_asset res" where
  "check_validator_asset a =
     (if blank (va_asset_id a) \<or> blank (va_logical_ref a)
      then Inl (ValidationFailed ''Validator asset kimlik ve logical ref ister'')
      else rbind (parse_digest (va_content_digest a)) (\<lambda>_. Inr a))"

definition validator_asset_as_dict :: "validator_asset \<Rightarrow> pyval" where
  "validator_asset_as_dict a = PDict
     [(PStr ''asset_id'', PStr (va_asset_id a)), (PStr ''logical_ref'', PStr (va_logical_ref a)),
      (PStr ''content_digest'', PStr (va_content_digest a)),
      (PStr ''role'', PStr (validator_asset_role_value (va_role a)))]"

record validator_asset_manifest =
  vm_manifest_id :: uuid
  vm_objective_id :: uuid
  vm_validator_spec_digest :: string
  vm_source_revision :: string
  vm_builder_assignment_id :: uuid
  vm_verifier_assignment_id :: uuid
  vm_assets :: "validator_asset list"
  vm_created_at :: pydatetime
  vm_grants_authority :: bool

definition canonical_assets :: "validator_asset list \<Rightarrow> bool" where
  "canonical_assets as =
     (as \<noteq> [] \<and> distinct (map va_asset_id as) \<and> distinct (map va_logical_ref as)
      \<and> as = sort_key (\<lambda>a. (va_asset_id a, va_logical_ref a)) as)"

definition check_validator_asset_manifest :: "validator_asset_manifest \<Rightarrow> validator_asset_manifest res" where
  "check_validator_asset_manifest m =
     (if vm_grants_authority m then Inl (PolicyViolation ''Validator asset manifest authority veremez'')
      else rbind (parse_digest (vm_validator_spec_digest m)) (\<lambda>_.
        if blank (vm_source_revision m)
        then Inl (ValidationFailed ''Validator asset manifest source revision ister'')
        else if vm_builder_assignment_id m = vm_verifier_assignment_id m
        then Inl (PolicyViolation ''Builder kendi validator asset verifier'i olamaz'')
        else if \<not> canonical_assets (vm_assets m)
        then Inl (ValidationFailed ''Validator asset listesi dolu, tekil ve kanonik olmali'')
        else if \<not> is_aware (vm_created_at m)
        then Inl (ValidationFailed ''Validator asset manifest zamani timezone-aware olmali'')
        else Inr m))"

definition manifest_as_dict :: "validator_asset_manifest \<Rightarrow> pyval" where
  "manifest_as_dict m = PDict
     [(PStr ''schema'', PStr ''zekam-validator-asset-manifest/v1''),
      (PStr ''manifest_id'', PStr (vm_manifest_id m)), (PStr ''objective_id'', PStr (vm_objective_id m)),
      (PStr ''validator_spec_digest'', PStr (vm_validator_spec_digest m)),
      (PStr ''source_revision'', PStr (vm_source_revision m)),
      (PStr ''builder_assignment_id'', PStr (vm_builder_assignment_id m)),
      (PStr ''verifier_assignment_id'', PStr (vm_verifier_assignment_id m)),
      (PStr ''assets'', PList (map validator_asset_as_dict (vm_assets m))),
      (PStr ''created_at'', PDatetime (vm_created_at m)), (PStr ''grants_authority'', PBool False)]"

definition manifest_digest :: "validator_asset_manifest \<Rightarrow> string res" where
  "manifest_digest m = digest (manifest_as_dict m)"

definition logical_refs :: "validator_asset_manifest \<Rightarrow> string list" where
  "logical_refs m = map va_logical_ref (vm_assets m)"

definition assert_builder_write_scope :: "validator_asset_manifest \<Rightarrow> string list \<Rightarrow> unit res" where
  "assert_builder_write_scope m written =
     (if list_ex (\<lambda>r. r \<in> set written) (logical_refs m)
      then Inl (PolicyViolation ''Builder validator asset write scope disinda olmali'')
      else Inr ())"

section \<open>Metric specifications\<close>

record metric_spec =
  ms_metric_id :: string
  ms_name :: string
  ms_unit :: string
  ms_direction :: metric_direction
  ms_role :: metric_role
  ms_source_kind :: string
  ms_target_value :: "float64 option"
  ms_min_value :: "float64 option"
  ms_max_value :: "float64 option"
  ms_minimum_meaningful_delta :: float64
  ms_regression_tolerance :: float64
  ms_aggregation :: metric_aggregation

definition opt_finite :: "float64 option \<Rightarrow> bool" where
  "opt_finite v = (case v of None \<Rightarrow> True | Some x \<Rightarrow> isfinite x)"

definition exact_target :: "metric_spec \<Rightarrow> bool" where
  "exact_target s = (ms_target_value s \<noteq> None \<and> ms_min_value s = None \<and> ms_max_value s = None)"

definition proper_range :: "metric_spec \<Rightarrow> bool" where
  "proper_range s = (ms_target_value s = None \<and>
     (case (ms_min_value s, ms_max_value s) of (Some lo, Some hi) \<Rightarrow> \<not> float_lt hi lo | _ \<Rightarrow> False))"

definition check_metric_spec :: "metric_spec \<Rightarrow> metric_spec res" where
  "check_metric_spec s =
     (case first_blank [(''metric_id'', ms_metric_id s), (''name'', ms_name s), (''unit'', ms_unit s),
                        (''source_kind'', ms_source_kind s)] of
        Some label \<Rightarrow> Inl (ValidationFailed (''Metric '' @ label @ '' bos olamaz''))
      | None \<Rightarrow>
        if \<not> (opt_finite (ms_target_value s) \<and> opt_finite (ms_min_value s) \<and> opt_finite (ms_max_value s)
             \<and> isfinite (ms_minimum_meaningful_delta s) \<and> isfinite (ms_regression_tolerance s))
        then Inl (ValidationFailed ''Metric esik ve toleranslari sonlu olmali'')
        else if float_lt (ms_minimum_meaningful_delta s) float_zero \<or> float_lt (ms_regression_tolerance s) float_zero
        then Inl (ValidationFailed ''Metric delta ve regression toleransi negatif olamaz'')
        else (case ms_direction s of
          TARGET \<Rightarrow> if \<not> exact_target s then Inl (ValidationFailed ''Target metric exact target_value ister'') else Inr s
        | RANGE \<Rightarrow> if \<not> proper_range s then Inl (ValidationFailed ''Range metric gecerli min_value/max_value ister'')
            else Inr s
        | _ \<Rightarrow> if \<not> exact_target s then Inl (ValidationFailed ''Maximize/minimize metric exact target_value ister'')
            else Inr s))"

definition opt_float :: "float64 option \<Rightarrow> pyval" where
  "opt_float v = (case v of None \<Rightarrow> PNone | Some x \<Rightarrow> py_float x)"

definition metric_spec_as_dict :: "metric_spec \<Rightarrow> pyval" where
  "metric_spec_as_dict s = PDict
     [(PStr ''metric_id'', PStr (ms_metric_id s)), (PStr ''name'', PStr (ms_name s)), (PStr ''unit'', PStr (ms_unit s)),
      (PStr ''direction'', PStr (metric_direction_value (ms_direction s))),
      (PStr ''role'', PStr (metric_role_value (ms_role s))), (PStr ''source_kind'', PStr (ms_source_kind s)),
      (PStr ''target_value'', opt_float (ms_target_value s)), (PStr ''min_value'', opt_float (ms_min_value s)),
      (PStr ''max_value'', opt_float (ms_max_value s)),
      (PStr ''minimum_meaningful_delta'', py_float (ms_minimum_meaningful_delta s)),
      (PStr ''regression_tolerance'', py_float (ms_regression_tolerance s)),
      (PStr ''aggregation'', PStr (metric_aggregation_value (ms_aggregation s)))]"

definition spec_digest :: "metric_spec \<Rightarrow> string res" where
  "spec_digest s = digest (metric_spec_as_dict s)"

section \<open>Objectives\<close>

record optimization_objective =
  oo_objective_id :: uuid
  oo_realm_id :: uuid
  oo_project_id :: uuid
  oo_work_item_id :: uuid
  oo_plan_id :: uuid
  oo_step_id :: string
  oo_artifact_ref :: string
  oo_artifact_baseline_digest :: string
  oo_measurement_plan_digest :: string
  oo_validator_asset_manifest_digest :: string
  oo_metric_specs :: "metric_spec list"
  oo_max_attempts :: int
  oo_max_tokens :: int
  oo_max_cost_micros :: int
  oo_deadline :: pydatetime
  oo_reversibility_class :: string
  oo_created_at :: pydatetime
  oo_grants_authority :: bool

definition check_objective :: "optimization_objective \<Rightarrow> optimization_objective res" where
  "check_objective o1 =
     (if oo_grants_authority o1 then Inl (PolicyViolation ''Optimization objective authority veremez'')
      else case first_blank [(''step_id'', oo_step_id o1), (''artifact_ref'', oo_artifact_ref o1),
                             (''reversibility_class'', oo_reversibility_class o1)] of
        Some label \<Rightarrow> Inl (ValidationFailed (''Objective '' @ label @ '' bos olamaz''))
      | None \<Rightarrow> rbind (parse_all [oo_artifact_baseline_digest o1, oo_measurement_plan_digest o1,
                                  oo_validator_asset_manifest_digest o1]) (\<lambda>_.
          if \<not> (1 \<le> oo_max_attempts o1 \<and> oo_max_attempts o1 \<le> 100)
          then Inl (ValidationFailed ''Objective max attempts 1..100 araliginda olmali'')
          else if oo_max_tokens o1 < 1 \<or> oo_max_cost_micros o1 < 1
          then Inl (ValidationFailed ''Objective token ve cost butcesi pozitif olmali'')
          else if \<not> is_aware (oo_created_at o1) \<or> \<not> is_aware (oo_deadline o1)
          then Inl (ValidationFailed ''Objective zamanlari timezone-aware olmali'')
          else if datetime_le (oo_deadline o1) (oo_created_at o1)
          then Inl (ValidationFailed ''Objective deadline created_at sonrasinda olmali'')
          else if oo_metric_specs o1 = [] \<or> \<not> canonical_tuple (map ms_metric_id (oo_metric_specs o1))
          then Inl (ValidationFailed ''Objective metric listesi dolu, tekil ve kanonik olmali'')
          else if \<not> list_ex (\<lambda>s. ms_role s = PRIMARY) (oo_metric_specs o1)
          then Inl (ValidationFailed ''Objective en az bir primary metric ister'')
          else Inr o1))"

definition objective_as_dict :: "optimization_objective \<Rightarrow> pyval" where
  "objective_as_dict o1 = PDict
     [(PStr ''objective_id'', PStr (oo_objective_id o1)), (PStr ''realm_id'', PStr (oo_realm_id o1)),
      (PStr ''project_id'', PStr (oo_project_id o1)), (PStr ''work_item_id'', PStr (oo_work_item_id o1)),
      (PStr ''plan_id'', PStr (oo_plan_id o1)), (PStr ''step_id'', PStr (oo_step_id o1)),
      (PStr ''artifact_ref'', PStr (oo_artifact_ref o1)),
      (PStr ''artifact_baseline_digest'', PStr (oo_artifact_baseline_digest o1)),
      (PStr ''measurement_plan_digest'', PStr (oo_measurement_plan_digest o1)),
      (PStr ''validator_asset_manifest_digest'', PStr (oo_validator_asset_manifest_digest o1)),
      (PStr ''metric_specs'', PList (map metric_spec_as_dict (oo_metric_specs o1))),
      (PStr ''max_attempts'', PInt (oo_max_attempts o1)), (PStr ''max_tokens'', PInt (oo_max_tokens o1)),
      (PStr ''max_cost_micros'', PInt (oo_max_cost_micros o1)), (PStr ''deadline'', PDatetime (oo_deadline o1)),
      (PStr ''reversibility_class'', PStr (oo_reversibility_class o1)),
      (PStr ''created_at'', PDatetime (oo_created_at o1)), (PStr ''grants_authority'', PBool False)]"

definition objective_digest :: "optimization_objective \<Rightarrow> string res" where
  "objective_digest o1 = digest (objective_as_dict o1)"

section \<open>Measurements\<close>

record measurement_evidence =
  me_metric_id :: string
  me_value :: float64
  me_evidence_ref :: string
  me_evidence_digest :: string
  me_source_revision :: string
  me_measured_at :: pydatetime
  me_measurement_identity :: string
  me_verifier_identity :: string
  me_producer_self_report :: bool

definition check_measurement :: "measurement_evidence \<Rightarrow> measurement_evidence res" where
  "check_measurement e =
     (case first_blank [(''metric_id'', me_metric_id e), (''evidence_ref'', me_evidence_ref e),
                        (''source_revision'', me_source_revision e),
                        (''measurement_identity'', me_measurement_identity e),
                        (''verifier_identity'', me_verifier_identity e)] of
        Some label \<Rightarrow> Inl (ValidationFailed (''Measurement '' @ label @ '' bos olamaz''))
      | None \<Rightarrow>
        if \<not> isfinite (me_value e) then Inl (ValidationFailed ''Measurement value sonlu olmali'')
        else if \<not> me_producer_self_report e \<and> me_measurement_identity e = me_verifier_identity e
        then Inl (PolicyViolation ''Measurement producer ve verifier kimligi farkli olmali'')
        else rbind (parse_digest (me_evidence_digest e)) (\<lambda>_.
          if \<not> is_aware (me_measured_at e) then Inl (ValidationFailed ''Measurement zamani timezone-aware olmali'')
          else Inr e))"

definition measurement_as_dict :: "measurement_evidence \<Rightarrow> pyval" where
  "measurement_as_dict e = PDict
     [(PStr ''metric_id'', PStr (me_metric_id e)), (PStr ''value'', py_float (me_value e)),
      (PStr ''evidence_ref'', PStr (me_evidence_ref e)), (PStr ''evidence_digest'', PStr (me_evidence_digest e)),
      (PStr ''source_revision'', PStr (me_source_revision e)), (PStr ''measured_at'', PDatetime (me_measured_at e)),
      (PStr ''measurement_identity'', PStr (me_measurement_identity e)),
      (PStr ''verifier_identity'', PStr (me_verifier_identity e)),
      (PStr ''producer_self_report'', PBool (me_producer_self_report e))]"

record metric_progress_result =
  mr_metric_id :: string
  mr_role :: metric_role
  mr_favorable_delta :: float64
  mr_meaningful_progress :: bool
  mr_regressed :: bool
  mr_target_reached :: bool

definition result_as_dict :: "metric_progress_result \<Rightarrow> pyval" where
  "result_as_dict r = PDict
     [(PStr ''metric_id'', PStr (mr_metric_id r)), (PStr ''role'', PStr (metric_role_value (mr_role r))),
      (PStr ''favorable_delta'', py_float (mr_favorable_delta r)),
      (PStr ''meaningful_progress'', PBool (mr_meaningful_progress r)),
      (PStr ''regressed'', PBool (mr_regressed r)), (PStr ''target_reached'', PBool (mr_target_reached r))]"

section \<open>Progress vectors\<close>

type_synonym metric_values = "(string \<times> float64) list"

record progress_vector =
  pv_baseline_values :: metric_values
  pv_previous_values :: metric_values
  pv_current_values :: metric_values
  pv_deltas :: metric_values
  pv_metric_results :: "metric_progress_result list"
  pv_evidence_digests :: "string list"
  pv_value_per_cost :: "float64 option"
  pv_progress_state :: progress_state
  pv_invalid_reasons :: "string list"

fun check_value_sets :: "metric_values list \<Rightarrow> unit res" where
  "check_value_sets [] = Inr ()"
| "check_value_sets (vs # rest) =
     (if \<not> canonical_tuple (map fst vs) then Inl (ValidationFailed ''Progress metric values kanonik ve tekil olmali'')
      else if list_ex (\<lambda>kv. \<not> isfinite (snd kv)) vs then Inl (ValidationFailed ''Progress metric values sonlu olmali'')
      else check_value_sets rest)"

definition same_keys :: "progress_vector \<Rightarrow> bool" where
  "same_keys v = (let ks = map fst (pv_deltas v) in
     map fst (pv_baseline_values v) = ks \<and> map fst (pv_previous_values v) = ks
     \<and> map fst (pv_current_values v) = ks \<and> map mr_metric_id (pv_metric_results v) = ks)"

definition check_progress_vector :: "progress_vector \<Rightarrow> progress_vector res" where
  "check_progress_vector v =
     rbind (check_value_sets [pv_baseline_values v, pv_previous_values v, pv_current_values v, pv_deltas v]) (\<lambda>_.
       if pv_progress_state v \<noteq> INVALID \<and> \<not> same_keys v
       then Inl (ValidationFailed ''Progress vector metric cardinality/binding drift'')
       else if list_ex (\<lambda>(r, d). \<not> float_eq (mr_favorable_delta r) (snd d)) (zip (pv_metric_results v) (pv_deltas v))
       then Inl (ValidationFailed ''Progress vector result/delta drift'')
       else if \<not> opt_finite (pv_value_per_cost v)
       then Inl (ValidationFailed ''Progress value-per-cost sonlu olmali'')
       else rbind (parse_all (pv_evidence_digests v)) (\<lambda>_.
         if \<not> canonical_tuple (pv_evidence_digests v)
         then Inl (ValidationFailed ''Progress evidence digest listesi kanonik olmali'')
         else if pv_progress_state v = INVALID \<and> pv_invalid_reasons v = []
         then Inl (ValidationFailed ''Invalid progress gerekce ister'')
         else if pv_progress_state v \<noteq> INVALID \<and> pv_invalid_reasons v \<noteq> []
         then Inl (ValidationFailed ''Gecerli progress invalid reason tasiyamaz'')
         else if pv_progress_state v \<noteq> INVALID \<and> pv_evidence_digests v = []
         then Inl (ValidationFailed ''Gecerli progress external evidence ister'')
         else Inr v))"

definition values_dict :: "metric_values \<Rightarrow> pyval" where
  "values_dict vs = PDict (map (\<lambda>(k, x). (PStr k, py_float x)) vs)"

definition results_with_role :: "metric_role \<Rightarrow> metric_progress_result list \<Rightarrow> metric_progress_result list" where
  "results_with_role role rs = filter (\<lambda>r. mr_role r = role) rs"

definition progress_as_dict :: "progress_vector \<Rightarrow> pyval" where
  "progress_as_dict v = PDict
     [(PStr ''baseline_values'', values_dict (pv_baseline_values v)),
      (PStr ''previous_values'', values_dict (pv_previous_values v)),
      (PStr ''current_values'', values_dict (pv_current_values v)), (PStr ''deltas'', values_dict (pv_deltas v)),
      (PStr ''hard_guard_results'', PList (map result_as_dict (results_with_role HARD_GUARD (pv_metric_results v)))),
      (PStr ''primary_progress_results'', PList (map result_as_dict (results_with_role PRIMARY (pv_metric_results v)))),
      (PStr ''target_results'', PList (map result_as_dict (pv_metric_results v))),
      (PStr ''evidence_digests'', PList (map PStr (pv_evidence_digests v))),
      (PStr ''value_per_cost'', opt_float (pv_value_per_cost v)),
      (PStr ''progress_state'', PStr (progress_state_value (pv_progress_state v))),
      (PStr ''invalid_reasons'', PList (map PStr (pv_invalid_reasons v)))]"

definition progress_digest :: "progress_vector \<Rightarrow> string res" where
  "progress_digest v = digest (progress_as_dict v)"

section \<open>Evaluation\<close>

text \<open>The assertions of the helpers raise \<^verbatim>\<open>AssertionError\<close>; \<^const>\<open>check_metric_spec\<close> rules them out.\<close>

definition asserted :: "'a option \<Rightarrow> 'a res" where
  "asserted v = (case v of None \<Rightarrow> Inl (PyError ''AssertionError'') | Some x \<Rightarrow> Inr x)"

definition distance_to_target :: "metric_spec \<Rightarrow> float64 \<Rightarrow> float64 res" where
  "distance_to_target s x =
     (case ms_direction s of
        TARGET \<Rightarrow> rbind (asserted (ms_target_value s)) (\<lambda>t. Inr (float_abs (float_sub x t)))
      | RANGE \<Rightarrow> rbind (asserted (ms_min_value s)) (\<lambda>lo. rbind (asserted (ms_max_value s)) (\<lambda>hi.
          if float_lt x lo then Inr (float_sub lo x)
          else if float_lt hi x then Inr (float_sub x hi)
          else Inr float_zero))
      | _ \<Rightarrow> Inl (PyError ''AssertionError''))"

definition favorable_delta :: "metric_spec \<Rightarrow> float64 \<Rightarrow> float64 \<Rightarrow> float64 res" where
  "favorable_delta s previous current =
     (case ms_direction s of
        MAXIMIZE \<Rightarrow> Inr (float_sub current previous)
      | MINIMIZE \<Rightarrow> Inr (float_sub previous current)
      | _ \<Rightarrow> rbind (distance_to_target s previous) (\<lambda>a. rbind (distance_to_target s current) (\<lambda>b.
          Inr (float_sub a b))))"

definition target_reached :: "metric_spec \<Rightarrow> float64 \<Rightarrow> bool res" where
  "target_reached s x =
     (case ms_direction s of
        MAXIMIZE \<Rightarrow> rbind (asserted (ms_target_value s)) (\<lambda>t. Inr (float_le t x))
      | MINIMIZE \<Rightarrow> rbind (asserted (ms_target_value s)) (\<lambda>t. Inr (float_le x t))
      | _ \<Rightarrow> rbind (distance_to_target s x) (\<lambda>d. Inr (float_le d (ms_regression_tolerance s))))"

text \<open>\<^verbatim>\<open>_evidence_values\<close>: the values by metric, and the reasons why the row is not usable.\<close>

definition evidence_values ::
  "metric_spec list \<Rightarrow> measurement_evidence list \<Rightarrow> string \<Rightarrow> metric_values \<times> string list" where
  "evidence_values specs evidence label =
     (let expected = map ms_metric_id specs; observed = map me_metric_id evidence in
      if \<not> distinct observed then ([], [label @ '':duplicate-metric''])
      else (map (\<lambda>e. (me_metric_id e, me_value e)) evidence,
        sort ((if list_ex (\<lambda>m. m \<notin> set observed) expected then [label @ '':missing-metric''] else [])
          @ (if list_ex (\<lambda>m. m \<notin> set expected) observed then [label @ '':unexpected-metric''] else [])
          @ (if list_ex me_producer_self_report evidence then [label @ '':producer-self-report''] else [])
          @ (if length (remdups (map me_source_revision evidence)) \<noteq> 1 then [label @ '':source-revision-drift'']
             else []))))"

definition metric_get :: "metric_values \<Rightarrow> string \<Rightarrow> float64 res" where
  "metric_get vs k = (case map_of vs k of None \<Rightarrow> Inl (PyError ''KeyError'') | Some x \<Rightarrow> Inr x)"

definition metric_result :: "metric_spec \<Rightarrow> float64 \<Rightarrow> bool \<Rightarrow> metric_progress_result" where
  "metric_result s favorable reached =
     \<lparr>mr_metric_id = ms_metric_id s, mr_role = ms_role s, mr_favorable_delta = favorable,
      mr_meaningful_progress =
        (float_le (ms_minimum_meaningful_delta s) favorable \<and> float_lt (ms_regression_tolerance s) favorable),
      mr_regressed = float_lt favorable (float_neg (ms_regression_tolerance s)),
      mr_target_reached = reached\<rparr>"

definition measure_spec :: "metric_values \<Rightarrow> metric_values \<Rightarrow> metric_spec \<Rightarrow> metric_progress_result res" where
  "measure_spec previous_values current_values s =
     rbind (metric_get previous_values (ms_metric_id s)) (\<lambda>p.
     rbind (metric_get current_values (ms_metric_id s)) (\<lambda>c.
     rbind (favorable_delta s p c) (\<lambda>favorable.
     rbind (target_reached s c) (\<lambda>reached.
     Inr (metric_result s favorable reached)))))"

definition state_of_results :: "metric_progress_result list \<Rightarrow> progress_state" where
  "state_of_results rs =
     (let primary = results_with_role PRIMARY rs in
      if list_ex mr_regressed (results_with_role HARD_GUARD rs) \<or> list_ex mr_regressed primary then REGRESSED
      else if primary \<noteq> [] \<and> list_all mr_target_reached primary then TARGET_REACHED
      else if list_ex mr_meaningful_progress primary then IMPROVED
      else PLATEAU)"

text \<open>The sum of no primary delta is the integer 0, and \<^verbatim>\<open>0 / cost\<close> is \<^verbatim>\<open>0.0\<close> for every cost.\<close>

definition value_per_cost :: "metric_progress_result list \<Rightarrow> int \<Rightarrow> float64 option res" where
  "value_per_cost rs cost_micros =
     (let primary = results_with_role PRIMARY rs in
      if cost_micros = 0 then Inr None
      else if primary = [] then Inr (Some float_zero)
      else rbind (float_of_int cost_micros) (\<lambda>c.
        rbind (float_div (py_sum (map (\<lambda>r. float_max (mr_favorable_delta r) float_zero) primary)) c) (\<lambda>x.
        Inr (Some x))))"

definition evidence_digest_set :: "measurement_evidence list list \<Rightarrow> string list" where
  "evidence_digest_set rows = sort (remdups (map me_evidence_digest (concat rows)))"

definition evaluate_progress ::
  "metric_spec list \<Rightarrow> measurement_evidence list \<Rightarrow> measurement_evidence list \<Rightarrow> measurement_evidence list \<Rightarrow>
     int \<Rightarrow> progress_vector res" where
  "evaluate_progress specs baseline previous current cost_micros =
     (if specs = [] \<or> \<not> canonical_tuple (map ms_metric_id specs)
      then Inl (ValidationFailed ''Progress metric specs dolu, tekil ve kanonik olmali'')
      else if cost_micros < 0 then Inl (ValidationFailed ''Progress cost negatif olamaz'')
      else case (evidence_values specs baseline ''baseline'', evidence_values specs previous ''previous'',
                 evidence_values specs current ''current'') of
        ((baseline_values, baseline_errors), (previous_values, previous_errors), (current_values, current_errors)) \<Rightarrow>
        let errors = sort (baseline_errors @ previous_errors @ current_errors);
            digests = evidence_digest_set [baseline, previous, current] in
        if errors \<noteq> [] then
          check_progress_vector \<lparr>pv_baseline_values = [], pv_previous_values = [], pv_current_values = [],
            pv_deltas = [], pv_metric_results = [], pv_evidence_digests = digests, pv_value_per_cost = None,
            pv_progress_state = INVALID, pv_invalid_reasons = errors\<rparr>
        else rbind (rmap (measure_spec previous_values current_values) specs) (\<lambda>results.
          rbind (value_per_cost results cost_micros) (\<lambda>vpc.
          check_progress_vector \<lparr>pv_baseline_values = sort_key fst baseline_values,
            pv_previous_values = sort_key fst previous_values, pv_current_values = sort_key fst current_values,
            pv_deltas = map (\<lambda>r. (mr_metric_id r, mr_favorable_delta r)) results, pv_metric_results = results,
            pv_evidence_digests = digests, pv_value_per_cost = vpc,
            pv_progress_state = state_of_results results, pv_invalid_reasons = []\<rparr>)))"

section \<open>Lists without order and repetition\<close>

lemma canonical_tuple_iff: "canonical_tuple xs \<longleftrightarrow> sorted xs \<and> distinct xs"
  unfolding canonical_tuple_def
  by (metis distinct_remdups distinct_remdups_id distinct_sort sorted_sort sorted_sort_id)

lemma sort_eq_of_canonical: "canonical_tuple xs \<Longrightarrow> distinct ys \<Longrightarrow> set ys = set xs \<Longrightarrow> sort ys = xs"
  unfolding canonical_tuple_iff by (simp add: sorted_distinct_set_unique)

lemma length_remdups_set: "set xs = set ys \<Longrightarrow> length (remdups xs) = length (remdups ys)"
  by (simp add: length_remdups_card_conv)

lemma parse_all_Inr_iff: "parse_all ds = Inr u \<longleftrightarrow> (\<forall>d \<in> set ds. valid_digest d)"
proof (induction ds)
  case (Cons d ds)
  then show ?case by (cases "parse_digest d"; cases "rmap parse_digest ds") (auto simp: parse_all_def)
qed (simp add: parse_all_def)

section \<open>Usable rows of evidence\<close>

text \<open>Every metric of the specification measured once and nothing else, no self-report, and one
  source revision.\<close>

definition usable_row :: "metric_spec list \<Rightarrow> measurement_evidence list \<Rightarrow> bool" where
  "usable_row specs row =
     (distinct (map me_metric_id row) \<and> set (map me_metric_id row) = set (map ms_metric_id specs)
      \<and> \<not> list_ex me_producer_self_report row \<and> length (remdups (map me_source_revision row)) = 1)"

definition row_values :: "measurement_evidence list \<Rightarrow> metric_values" where
  "row_values row = map (\<lambda>e. (me_metric_id e, me_value e)) row"

lemma fst_row_values [simp]: "map fst (row_values row) = map me_metric_id row"
  by (simp add: row_values_def)

lemma evidence_values_usable:
  "snd (evidence_values specs row label) = [] \<longleftrightarrow> usable_row specs row"
  "usable_row specs row \<Longrightarrow> evidence_values specs row label = (row_values row, [])"
  by (auto simp: evidence_values_def usable_row_def row_values_def Let_def list_ex_iff)

lemma evidence_values_perm:
  assumes "mset row = mset row'"
  shows "snd (evidence_values specs row label) = snd (evidence_values specs row' label)"
    and "sort_key fst (fst (evidence_values specs row label)) = sort_key fst (fst (evidence_values specs row' label))"
    and "map_of (fst (evidence_values specs row label)) = map_of (fst (evidence_values specs row' label))"
    and "usable_row specs row = usable_row specs row'"
proof -
  have sets: "set row = set row'" using assms mset_eq_setD by blast
  have dist: "distinct (map me_metric_id row) = distinct (map me_metric_id row')"
    using assms by (metis mset_map mset_eq_imp_distinct_iff)
  have revs: "length (remdups (map me_source_revision row)) = length (remdups (map me_source_revision row'))"
    using sets by (intro length_remdups_set) simp
  have rows: "mset (row_values row) = mset (row_values row')" "set (row_values row) = set (row_values row')"
    unfolding row_values_def using assms sets by simp_all
  show "snd (evidence_values specs row label) = snd (evidence_values specs row' label)"
    unfolding evidence_values_def Let_def using dist revs sets by (simp add: list_ex_iff)
  show "usable_row specs row = usable_row specs row'"
    unfolding usable_row_def using dist revs sets by (simp add: list_ex_iff)
  have fst_ev: "fst (evidence_values specs r label) = (if distinct (map me_metric_id r) then row_values r else [])" for r
    by (simp add: evidence_values_def row_values_def Let_def)
  show "sort_key fst (fst (evidence_values specs row label)) = sort_key fst (fst (evidence_values specs row' label))"
    unfolding fst_ev using dist rows(1) by (auto intro!: sort_key_perm_eq distinct_fst_inj_on)
  show "map_of (fst (evidence_values specs row label)) = map_of (fst (evidence_values specs row' label))"
    unfolding fst_ev using dist rows(2) by (auto simp: map_of_inject_set)
qed

section \<open>The order of the evidence\<close>

lemma measure_spec_cong:
  "map_of p = map_of p' \<Longrightarrow> map_of c = map_of c' \<Longrightarrow> measure_spec p c = measure_spec p' c'"
  by (simp add: measure_spec_def metric_get_def fun_eq_iff)

lemma evidence_digest_set_perm:
  assumes "mset a = mset a'" "mset b = mset b'" "mset c = mset c'"
  shows "evidence_digest_set [a, b, c] = evidence_digest_set [a', b', c']"
  using assms [THEN mset_eq_setD]
  by (simp add: evidence_digest_set_def flip: sorted_list_of_set_sort_remdups)

text \<open>The evaluation depends only on which measurements there are: handing over the rows in any
  other order gives the same vector or the same refusal.\<close>

theorem evidence_order_irrelevant:
  assumes "mset baseline = mset baseline'" "mset previous = mset previous'" "mset current = mset current'"
  shows "evaluate_progress specs baseline previous current cost = evaluate_progress specs baseline' previous' current' cost"
proof -
  note perm = evidence_values_perm [where specs = specs]
  note ev = perm(1) [OF assms(1), of "''baseline''"] perm(1) [OF assms(2), of "''previous''"] perm(1) [OF assms(3), of "''current''"]
    perm(2) [OF assms(1), of "''baseline''"] perm(2) [OF assms(2), of "''previous''"] perm(2) [OF assms(3), of "''current''"]
  note ms = measure_spec_cong [OF perm(3) [OF assms(2), of "''previous''"] perm(3) [OF assms(3), of "''current''"]]
  show ?thesis
    unfolding evaluate_progress_def case_prod_beta prod.case fst_conv snd_conv ev ms evidence_digest_set_perm [OF assms] ..
qed

section \<open>The states\<close>

lemma same_revision_nonempty: "usable_row specs row \<Longrightarrow> row \<noteq> []"
  by (auto simp: usable_row_def)

definition well_posed :: "metric_spec list \<Rightarrow> int \<Rightarrow> bool" where
  "well_posed specs cost = (specs \<noteq> [] \<and> canonical_tuple (map ms_metric_id specs) \<and> 0 \<le> cost)"

definition unusable_vector :: "metric_spec list \<Rightarrow> measurement_evidence list \<Rightarrow> measurement_evidence list \<Rightarrow>
    measurement_evidence list \<Rightarrow> progress_vector" where
  "unusable_vector specs baseline previous current =
     \<lparr>pv_baseline_values = [], pv_previous_values = [], pv_current_values = [], pv_deltas = [], pv_metric_results = [],
      pv_evidence_digests = evidence_digest_set [baseline, previous, current], pv_value_per_cost = None,
      pv_progress_state = INVALID,
      pv_invalid_reasons = sort (snd (evidence_values specs baseline ''baseline'')
        @ snd (evidence_values specs previous ''previous'') @ snd (evidence_values specs current ''current''))\<rparr>"

definition measured_vector :: "measurement_evidence list \<Rightarrow> measurement_evidence list \<Rightarrow> measurement_evidence list \<Rightarrow>
    metric_progress_result list \<Rightarrow> float64 option \<Rightarrow> progress_vector" where
  "measured_vector baseline previous current results vpc =
     \<lparr>pv_baseline_values = sort_key fst (row_values baseline), pv_previous_values = sort_key fst (row_values previous),
      pv_current_values = sort_key fst (row_values current),
      pv_deltas = map (\<lambda>r. (mr_metric_id r, mr_favorable_delta r)) results, pv_metric_results = results,
      pv_evidence_digests = evidence_digest_set [baseline, previous, current], pv_value_per_cost = vpc,
      pv_progress_state = state_of_results results, pv_invalid_reasons = []\<rparr>"

lemma sort_eq_Nil: "sort xs = [] \<longleftrightarrow> xs = []"
  by (metis length_0_conv length_sort)

lemma evaluate_ill_posed: "\<not> well_posed specs cost \<Longrightarrow> \<exists>m. evaluate_progress specs b p c cost = Inl (ValidationFailed m)"
  by (auto simp: evaluate_progress_def well_posed_def)

lemma evaluate_unusable:
  assumes "well_posed specs cost" "\<not> (usable_row specs b \<and> usable_row specs p \<and> usable_row specs c)"
  shows "evaluate_progress specs b p c cost = check_progress_vector (unusable_vector specs b p c)"
proof -
  have "sort (snd (evidence_values specs b ''baseline'') @ snd (evidence_values specs p ''previous'')
      @ snd (evidence_values specs c ''current'')) \<noteq> []"
    using assms(2) by (simp add: sort_eq_Nil evidence_values_usable(1))
  with assms(1) show ?thesis
    by (simp add: evaluate_progress_def well_posed_def unusable_vector_def case_prod_beta)
qed

lemma evaluate_usable:
  assumes "well_posed specs cost" "usable_row specs b" "usable_row specs p" "usable_row specs c"
  shows "evaluate_progress specs b p c cost =
    rbind (rmap (measure_spec (row_values p) (row_values c)) specs) (\<lambda>results.
    rbind (value_per_cost results cost) (\<lambda>vpc. check_progress_vector (measured_vector b p c results vpc)))"
  using assms(1)
  by (simp add: evaluate_progress_def well_posed_def measured_vector_def evidence_values_usable(2) assms(2-4) linorder_not_less)

lemma check_progress_vector_id: "check_progress_vector v = Inr w \<Longrightarrow> w = v"
  by (auto simp: check_progress_vector_def rbind_Inr_iff split: if_splits)

lemma evaluate_progress_cases:
  assumes "evaluate_progress specs b p c cost = Inr v"
  obtains (unusable) "\<not> (usable_row specs b \<and> usable_row specs p \<and> usable_row specs c)" "v = unusable_vector specs b p c"
  | (measured) results vpc where "usable_row specs b" "usable_row specs p" "usable_row specs c"
      "rmap (measure_spec (row_values p) (row_values c)) specs = Inr results" "v = measured_vector b p c results vpc"
proof (cases "usable_row specs b \<and> usable_row specs p \<and> usable_row specs c")
  case True
  have "well_posed specs cost" using assms evaluate_ill_posed by (metis Inl_Inr_False)
  from evaluate_usable [OF this] True assms show ?thesis
    by (auto simp: rbind_Inr_iff dest!: check_progress_vector_id intro: measured)
next
  case False
  have "well_posed specs cost" using assms evaluate_ill_posed by (metis Inl_Inr_False)
  from evaluate_unusable [OF this False] assms
  have "check_progress_vector (unusable_vector specs b p c) = Inr v" by simp
  from check_progress_vector_id [OF this] show ?thesis by (rule unusable [OF False])
qed

text \<open>The delta of a metric between two rows, as the evaluation measures it.\<close>

definition measured_delta ::
  "metric_spec \<Rightarrow> measurement_evidence list \<Rightarrow> measurement_evidence list \<Rightarrow> float64 \<Rightarrow> bool" where
  "measured_delta s previous current d =
     (\<exists>e \<in> set previous. \<exists>f \<in> set current. me_metric_id e = ms_metric_id s \<and> me_metric_id f = ms_metric_id s
        \<and> favorable_delta s (me_value e) (me_value f) = Inr d)"

lemma metric_get_row:
  assumes "usable_row specs row"
  shows "metric_get (row_values row) k = Inr x \<longleftrightarrow> (\<exists>e \<in> set row. me_metric_id e = k \<and> me_value e = x)"
proof -
  from assms have "distinct (map fst (row_values row))" by (simp add: usable_row_def)
  then have "map_of (row_values row) k = Some x \<longleftrightarrow> (k, x) \<in> set (row_values row)"
    by (rule map_of_eq_Some_iff)
  also have "\<dots> \<longleftrightarrow> (\<exists>e \<in> set row. me_metric_id e = k \<and> me_value e = x)" by (auto simp: row_values_def)
  finally show ?thesis by (cases "map_of (row_values row) k") (auto simp: metric_get_def)
qed

lemma measure_spec_Inr:
  assumes "usable_row specs p" "usable_row specs c" "measure_spec (row_values p) (row_values c) s = Inr r"
  obtains d f where "measured_delta s p c d" "f \<in> set c" "me_metric_id f = ms_metric_id s"
    "r = metric_result s d (mr_target_reached r)" "target_reached s (me_value f) = Inr (mr_target_reached r)"
proof -
  from assms(3) obtain x y d t where m: "metric_get (row_values p) (ms_metric_id s) = Inr x"
    "metric_get (row_values c) (ms_metric_id s) = Inr y" "favorable_delta s x y = Inr d" "target_reached s y = Inr t"
    "r = metric_result s d t"
    unfolding measure_spec_def rbind_Inr_iff by auto
  from m(1) obtain e where e: "e \<in> set p" "me_metric_id e = ms_metric_id s" "me_value e = x"
    unfolding metric_get_row [OF assms(1)] by blast
  from m(2) obtain f where f: "f \<in> set c" "me_metric_id f = ms_metric_id s" "me_value f = y"
    unfolding metric_get_row [OF assms(2)] by blast
  have "mr_target_reached r = t" using m(5) by (simp add: metric_result_def)
  with m e f show ?thesis by (intro that [of d f]) (auto simp: measured_delta_def)
qed

lemma results_in_specs:
  assumes "rmap f specs = Inr results"
  shows "s \<in> set specs \<Longrightarrow> \<exists>r \<in> set results. f s = Inr r" and "r \<in> set results \<Longrightarrow> \<exists>s \<in> set specs. f s = Inr r"
proof -
  from assms have "list_all2 (\<lambda>x y. f x = Inr y) specs results" by (simp add: rmap_Inr_iff)
  then have "(\<forall>s \<in> set specs. \<exists>r \<in> set results. f s = Inr r) \<and> (\<forall>r \<in> set results. \<exists>s \<in> set specs. f s = Inr r)"
    by (induction rule: list_all2_induct) auto
  then show "s \<in> set specs \<Longrightarrow> \<exists>r \<in> set results. f s = Inr r" and "r \<in> set results \<Longrightarrow> \<exists>s \<in> set specs. f s = Inr r"
    by blast+
qed

lemma metric_result_simps [simp]:
  "mr_metric_id (metric_result s d t) = ms_metric_id s" "mr_role (metric_result s d t) = ms_role s"
  "mr_favorable_delta (metric_result s d t) = d" "mr_target_reached (metric_result s d t) = t"
  "mr_regressed (metric_result s d t) = float_lt d (float_neg (ms_regression_tolerance s))"
  "mr_meaningful_progress (metric_result s d t) =
     (float_le (ms_minimum_meaningful_delta s) d \<and> float_lt (ms_regression_tolerance s) d)"
  by (simp_all add: metric_result_def)

lemma state_of_results_earned:
  assumes "state_of_results rs \<in> {IMPROVED, TARGET_REACHED}"
  shows "r \<in> set rs \<Longrightarrow> mr_role r \<in> {PRIMARY, HARD_GUARD} \<Longrightarrow> \<not> mr_regressed r"
    and "state_of_results rs = TARGET_REACHED \<Longrightarrow> r \<in> set rs \<Longrightarrow> mr_role r = PRIMARY \<Longrightarrow> mr_target_reached r"
    and "\<exists>r \<in> set rs. mr_role r = PRIMARY
      \<and> (state_of_results rs = IMPROVED \<longrightarrow> mr_meaningful_progress r) \<and> (state_of_results rs = TARGET_REACHED \<longrightarrow> mr_target_reached r)"
  using assms
  by (auto simp: state_of_results_def results_with_role_def list_ex_iff list_all_iff filter_empty_conv Let_def split: if_splits)

text \<open>C24. Progress is earned by measurements. When the evaluation says improved or target reached, each of
  the three rows holds exactly one measurement of every metric, none reported by the producer itself,
  all of one source revision; no primary
  metric and no hard guard got worse by more than its tolerance; for target reached every primary
  metric's current value is at its target; for improved some primary metric gained at least the
  minimum meaningful delta and more than the tolerance.\<close>

theorem progress_is_earned:
  assumes "evaluate_progress specs baseline previous current cost = Inr v"
    and "pv_progress_state v = IMPROVED \<or> pv_progress_state v = TARGET_REACHED"
  shows "usable_row specs baseline \<and> usable_row specs previous \<and> usable_row specs current
    \<and> (\<forall>s \<in> set specs. ms_role s \<in> {PRIMARY, HARD_GUARD} \<longrightarrow>
      (\<exists>d. measured_delta s previous current d \<and> \<not> float_lt d (float_neg (ms_regression_tolerance s))))
    \<and> (pv_progress_state v = TARGET_REACHED \<longrightarrow> (\<forall>s \<in> set specs. ms_role s = PRIMARY \<longrightarrow>
      (\<exists>e \<in> set current. me_metric_id e = ms_metric_id s \<and> target_reached s (me_value e) = Inr True)))
    \<and> (pv_progress_state v = IMPROVED \<longrightarrow> (\<exists>s \<in> set specs. ms_role s = PRIMARY \<and> (\<exists>d. measured_delta s previous current d
      \<and> float_le (ms_minimum_meaningful_delta s) d \<and> float_lt (ms_regression_tolerance s) d)))"
proof -
  from assms obtain results vpc where m: "usable_row specs baseline" "usable_row specs previous" "usable_row specs current"
    "rmap (measure_spec (row_values previous) (row_values current)) specs = Inr results"
    "v = measured_vector baseline previous current results vpc"
    by (cases rule: evaluate_progress_cases) (auto simp: unusable_vector_def)
  have state: "pv_progress_state v = state_of_results results" by (simp add: m(5) measured_vector_def)
  with assms(2) have earned: "state_of_results results \<in> {IMPROVED, TARGET_REACHED}" by simp
  note st = state_of_results_earned [OF earned]
  have res: "\<exists>r d f. r \<in> set results \<and> measured_delta s previous current d \<and> f \<in> set current
      \<and> me_metric_id f = ms_metric_id s \<and> r = metric_result s d (mr_target_reached r)
      \<and> target_reached s (me_value f) = Inr (mr_target_reached r)" if "s \<in> set specs" for s
    using results_in_specs(1) [OF m(4) that] measure_spec_Inr [OF m(2,3)] by metis
  have guards: "\<forall>s \<in> set specs. ms_role s \<in> {PRIMARY, HARD_GUARD} \<longrightarrow>
      (\<exists>d. measured_delta s previous current d \<and> \<not> float_lt d (float_neg (ms_regression_tolerance s)))"
    using res st(1) by (metis metric_result_simps(2,5))
  have targets: "pv_progress_state v = TARGET_REACHED \<longrightarrow> (\<forall>s \<in> set specs. ms_role s = PRIMARY \<longrightarrow>
      (\<exists>e \<in> set current. me_metric_id e = ms_metric_id s \<and> target_reached s (me_value e) = Inr True))"
    using res st(2) unfolding state by (metis metric_result_simps(2))
  have gains: "pv_progress_state v = IMPROVED \<longrightarrow> (\<exists>s \<in> set specs. ms_role s = PRIMARY \<and> (\<exists>d. measured_delta s previous current d
      \<and> float_le (ms_minimum_meaningful_delta s) d \<and> float_lt (ms_regression_tolerance s) d))"
  proof
    assume "pv_progress_state v = IMPROVED"
    with st(3) obtain r where r: "r \<in> set results" "mr_role r = PRIMARY" "mr_meaningful_progress r"
      unfolding state by auto
    from results_in_specs(2) [OF m(4) r(1)] obtain s where s: "s \<in> set specs"
      "measure_spec (row_values previous) (row_values current) s = Inr r" by blast
    from measure_spec_Inr [OF m(2,3) s(2)] obtain d where "measured_delta s previous current d"
      "r = metric_result s d (mr_target_reached r)" by metis
    with r s show "\<exists>s \<in> set specs. ms_role s = PRIMARY \<and> (\<exists>d. measured_delta s previous current d
      \<and> float_le (ms_minimum_meaningful_delta s) d \<and> float_lt (ms_regression_tolerance s) d)"
      by (metis metric_result_simps(2,6))
  qed
  from m(1-3) guards targets gains show ?thesis by blast
qed

section \<open>Which evaluations are refused\<close>

abbreviation checked_specs :: "metric_spec list \<Rightarrow> bool" where
  "checked_specs specs \<equiv> list_all (\<lambda>s. is_ok (check_metric_spec s)) specs"

abbreviation checked_row :: "measurement_evidence list \<Rightarrow> bool" where
  "checked_row row \<equiv> list_all (\<lambda>e. is_ok (check_measurement e)) row"

lemma check_metric_spec_shape:
  assumes "is_ok (check_metric_spec s)"
  shows "ms_direction s \<noteq> RANGE \<Longrightarrow> \<exists>t. ms_target_value s = Some t"
    and "ms_direction s = RANGE \<Longrightarrow> \<exists>lo hi. ms_min_value s = Some lo \<and> ms_max_value s = Some hi"
  using assms
  by (cases "ms_direction s"; auto simp: check_metric_spec_def exact_target_def proper_range_def split: option.splits if_splits)+

lemma check_measurement_shape:
  "is_ok (check_measurement e) \<Longrightarrow> isfinite (me_value e) \<and> valid_digest (me_evidence_digest e)"
  by (auto simp: check_measurement_def is_ok_iff rbind_Inr_iff split: option.splits if_splits)

lemma distance_total: "is_ok (check_metric_spec s) \<Longrightarrow> ms_direction s \<in> {TARGET, RANGE} \<Longrightarrow> \<exists>d. distance_to_target s x = Inr d"
  using check_metric_spec_shape [of s] by (cases "ms_direction s") (auto simp: distance_to_target_def asserted_def)

lemma delta_total: "is_ok (check_metric_spec s) \<Longrightarrow> \<exists>d. favorable_delta s x y = Inr d"
  using distance_total [of s x] distance_total [of s y] by (cases "ms_direction s") (auto simp: favorable_delta_def)

lemma target_reached_total: "is_ok (check_metric_spec s) \<Longrightarrow> \<exists>b. target_reached s x = Inr b"
  using distance_total [of s x] check_metric_spec_shape [of s]
  by (cases "ms_direction s") (auto simp: target_reached_def asserted_def)

lemma rmap_total: "(\<And>x. x \<in> set xs \<Longrightarrow> \<exists>y. f x = Inr y) \<Longrightarrow> \<exists>ys. rmap f xs = Inr ys"
proof (induction xs)
  case (Cons x xs)
  then obtain y ys where "f x = Inr y" "rmap f xs = Inr ys" by fastforce
  then show ?case by simp
qed simp

lemma metric_get_total:
  assumes "usable_row specs row" "s \<in> set specs"
  shows "\<exists>x. metric_get (row_values row) (ms_metric_id s) = Inr x"
proof -
  from assms have "ms_metric_id s \<in> set (map me_metric_id row)" by (auto simp: usable_row_def)
  then show ?thesis unfolding metric_get_row [OF assms(1)] by (metis image_iff image_set)
qed

lemma measure_total:
  assumes "usable_row specs p" "usable_row specs c" "checked_specs specs"
  shows "\<exists>results. rmap (measure_spec (row_values p) (row_values c)) specs = Inr results"
proof (rule rmap_total)
  fix s assume s: "s \<in> set specs"
  with assms(3) have ok: "is_ok (check_metric_spec s)" by (simp add: list_all_iff)
  obtain x where x: "metric_get (row_values p) (ms_metric_id s) = Inr x" using metric_get_total [OF assms(1) s] by blast
  obtain y where y: "metric_get (row_values c) (ms_metric_id s) = Inr y" using metric_get_total [OF assms(2) s] by blast
  from x y delta_total [OF ok, of x y] target_reached_total [OF ok, of y]
  show "\<exists>r. measure_spec (row_values p) (row_values c) s = Inr r" by (auto simp: measure_spec_def)
qed

lemma measured_ids: "rmap (measure_spec ps cs) specs = Inr results \<Longrightarrow> map mr_metric_id results = map ms_metric_id specs"
  unfolding rmap_Inr_iff
  by (induction specs results rule: list_all2_induct) (auto simp: measure_spec_def rbind_Inr_iff)

lemma evidence_digests_ok:
  assumes "checked_row b" "checked_row p" "checked_row c"
  shows "parse_all (evidence_digest_set [b, p, c]) = Inr ()" "canonical_tuple (evidence_digest_set [b, p, c])"
  using assms check_measurement_shape
  by (auto simp: parse_all_Inr_iff evidence_digest_set_def canonical_tuple_iff list_all_iff)

lemma sorted_row_values:
  assumes "usable_row specs row" "canonical_tuple (map ms_metric_id specs)"
  shows "map fst (sort_key fst (row_values row)) = map ms_metric_id specs"
proof -
  have "map fst (sort_key fst (row_values row)) = sort (map fst (row_values row))"
    by (rule properties_for_sort [symmetric]) (simp_all del: fst_row_values)
  also have "\<dots> = map ms_metric_id specs"
    using assms by (intro sort_eq_of_canonical) (auto simp: usable_row_def)
  finally show ?thesis .
qed

lemma measured_deltas:
  assumes "usable_row specs p" "usable_row specs c" "rmap (measure_spec (row_values p) (row_values c)) specs = Inr results"
  shows "(\<exists>r \<in> set results. mr_favorable_delta r = d) \<longleftrightarrow> (\<exists>s \<in> set specs. measured_delta s p c d)"
proof
  assume "\<exists>r \<in> set results. mr_favorable_delta r = d"
  then obtain r s where "mr_favorable_delta r = d" "s \<in> set specs" "measure_spec (row_values p) (row_values c) s = Inr r"
    using results_in_specs(2) [OF assms(3)] by blast
  with measure_spec_Inr [OF assms(1,2)] show "\<exists>s \<in> set specs. measured_delta s p c d"
    by (metis metric_result_simps(3))
next
  assume "\<exists>s \<in> set specs. measured_delta s p c d"
  then obtain s e f where s: "s \<in> set specs" and e: "e \<in> set p" "me_metric_id e = ms_metric_id s"
    and f: "f \<in> set c" "me_metric_id f = ms_metric_id s" and d: "favorable_delta s (me_value e) (me_value f) = Inr d"
    unfolding measured_delta_def by blast
  from s obtain r where r: "r \<in> set results" "measure_spec (row_values p) (row_values c) s = Inr r"
    using results_in_specs(1) [OF assms(3)] by blast
  have "metric_get (row_values p) (ms_metric_id s) = Inr (me_value e)" "metric_get (row_values c) (ms_metric_id s) = Inr (me_value f)"
    unfolding metric_get_row [OF assms(1)] metric_get_row [OF assms(2)] using e f by blast+
  with r(2) d have "mr_favorable_delta r = d" by (auto simp: measure_spec_def rbind_Inr_iff)
  with r(1) show "\<exists>r \<in> set results. mr_favorable_delta r = d" by blast
qed

lemma float_eq_refl: "isfinite x \<Longrightarrow> float_eq x x"
  by (cases x) (simp_all add: Let_def)

lemma row_values_finite: "checked_row row \<Longrightarrow> \<forall>kv \<in> set (row_values row). isfinite (snd kv)"
  using check_measurement_shape by (auto simp: row_values_def list_all_iff)

lemma check_costed_vector:
  assumes "usable_row specs b" "usable_row specs p" "usable_row specs c" "canonical_tuple (map ms_metric_id specs)"
    and "checked_row b" "checked_row p" "checked_row c"
    and "rmap (measure_spec (row_values p) (row_values c)) specs = Inr results"
  shows "is_ok (check_progress_vector (measured_vector b p c results vpc))
    \<longleftrightarrow> (\<forall>r \<in> set results. isfinite (mr_favorable_delta r)) \<and> opt_finite vpc"
proof -
  let ?v = "measured_vector b p c results vpc"
  have state: "state_of_results results \<noteq> INVALID" by (simp add: state_of_results_def Let_def)
  have keys: "map fst (pv_deltas ?v) = map ms_metric_id specs"
    using measured_ids [OF assms(8)] by (simp add: measured_vector_def comp_def)
  have vals: "check_value_sets [pv_baseline_values ?v, pv_previous_values ?v, pv_current_values ?v, pv_deltas ?v] = Inr ()
      \<longleftrightarrow> (\<forall>r \<in> set results. isfinite (mr_favorable_delta r))"
    using keys assms(4) sorted_row_values [OF assms(1,4)] sorted_row_values [OF assms(2,4)] sorted_row_values [OF assms(3,4)]
      row_values_finite [OF assms(5)] row_values_finite [OF assms(6)] row_values_finite [OF assms(7)]
    by (simp add: measured_vector_def list_ex_iff)
  have "same_keys ?v"
    using keys sorted_row_values [OF assms(1,4)] sorted_row_values [OF assms(2,4)] sorted_row_values [OF assms(3,4)]
      measured_ids [OF assms(8)] by (simp add: same_keys_def measured_vector_def Let_def)
  moreover have "\<forall>r \<in> set results. isfinite (mr_favorable_delta r) \<Longrightarrow>
      \<not> list_ex (\<lambda>(r, d). \<not> float_eq (mr_favorable_delta r) (snd d)) (zip (pv_metric_results ?v) (pv_deltas ?v))"
    by (auto simp: measured_vector_def list_ex_iff zip_map2 float_eq_refl zip_same)
  moreover have "evidence_digest_set [b, p, c] \<noteq> []"
    using same_revision_nonempty [OF assms(1)] by (simp add: evidence_digest_set_def sort_eq_Nil)
  ultimately show ?thesis
    using vals state evidence_digests_ok [OF assms(5-7)]
    by (auto simp: check_progress_vector_def is_ok_iff rbind_Inr_iff measured_vector_def)
qed

lemmas check_measured_vector = check_costed_vector [where vpc = None, simplified opt_finite_def option.case simp_thms]

lemma check_unusable_vector:
  assumes "checked_row b" "checked_row p" "checked_row c"
    and "\<not> (usable_row specs b \<and> usable_row specs p \<and> usable_row specs c)"
  shows "is_ok (check_progress_vector (unusable_vector specs b p c))"
proof -
  have "pv_invalid_reasons (unusable_vector specs b p c) \<noteq> []"
    using assms(4) by (simp add: unusable_vector_def sort_eq_Nil evidence_values_usable(1))
  then show ?thesis
    using evidence_digests_ok [OF assms(1-3)]
    by (simp add: check_progress_vector_def unusable_vector_def opt_finite_def canonical_tuple_def)
qed

text \<open>The gains of the primary metrics, in the order of the metrics, can be divided by the cost.\<close>

definition cost_measurable :: "metric_spec list \<Rightarrow> measurement_evidence list \<Rightarrow> measurement_evidence list \<Rightarrow> int \<Rightarrow> bool" where
  "cost_measurable specs previous current cost =
     (let primary = filter (\<lambda>s. ms_role s = PRIMARY) specs in
      cost = 0 \<or> primary = [] \<or> (\<exists>gains c x. list_all2 (\<lambda>s d. measured_delta s previous current d) primary gains
        \<and> float_of_int cost = Inr c \<and> float_div (py_sum (map (\<lambda>d. float_max d float_zero) gains)) c = Inr x \<and> isfinite x))"

lemma measured_delta_iff:
  assumes "usable_row specs p" "usable_row specs c" "measure_spec (row_values p) (row_values c) s = Inr r"
  shows "measured_delta s p c d \<longleftrightarrow> d = mr_favorable_delta r" "mr_role r = ms_role s"
proof -
  from assms(3) obtain x y e t where m: "metric_get (row_values p) (ms_metric_id s) = Inr x"
    "metric_get (row_values c) (ms_metric_id s) = Inr y" "favorable_delta s x y = Inr e" "r = metric_result s e t"
    unfolding measure_spec_def rbind_Inr_iff by auto
  show "mr_role r = ms_role s" by (simp add: m(4))
  show "measured_delta s p c d \<longleftrightarrow> d = mr_favorable_delta r"
  proof
    assume "measured_delta s p c d"
    then obtain ep ec where e: "ep \<in> set p" "me_metric_id ep = ms_metric_id s" "ec \<in> set c" "me_metric_id ec = ms_metric_id s"
      "favorable_delta s (me_value ep) (me_value ec) = Inr d" unfolding measured_delta_def by blast
    have "metric_get (row_values p) (ms_metric_id s) = Inr (me_value ep)" "metric_get (row_values c) (ms_metric_id s) = Inr (me_value ec)"
      unfolding metric_get_row [OF assms(1)] metric_get_row [OF assms(2)] using e by blast+
    then show "d = mr_favorable_delta r" using m e(5) by simp
  next
    assume "d = mr_favorable_delta r"
    moreover obtain ep where "ep \<in> set p" "me_metric_id ep = ms_metric_id s" "me_value ep = x" using m(1) metric_get_row [OF assms(1)] by blast
    moreover obtain ec where "ec \<in> set c" "me_metric_id ec = ms_metric_id s" "me_value ec = y" using m(2) metric_get_row [OF assms(2)] by blast
    ultimately show "measured_delta s p c d" using m(3,4) by (auto simp: measured_delta_def)
  qed
qed

lemma primary_gains:
  assumes "usable_row specs p" "usable_row specs c" "list_all2 (\<lambda>s r. measure_spec (row_values p) (row_values c) s = Inr r) ss results"
  shows "list_all2 (\<lambda>s d. measured_delta s p c d) (filter (\<lambda>s. ms_role s = PRIMARY) ss) gains
      \<longleftrightarrow> gains = map mr_favorable_delta (results_with_role PRIMARY results)"
    "filter (\<lambda>s. ms_role s = PRIMARY) ss = [] \<longleftrightarrow> results_with_role PRIMARY results = []"
proof -
  show "list_all2 (\<lambda>s d. measured_delta s p c d) (filter (\<lambda>s. ms_role s = PRIMARY) ss) gains
      \<longleftrightarrow> gains = map mr_favorable_delta (results_with_role PRIMARY results)"
    using assms(3)
    by (induction ss results arbitrary: gains rule: list_all2_induct)
      (auto simp: results_with_role_def list_all2_Cons1 measured_delta_iff [OF assms(1,2)])
  show "filter (\<lambda>s. ms_role s = PRIMARY) ss = [] \<longleftrightarrow> results_with_role PRIMARY results = []"
    using assms(3)
    by (induction ss results rule: list_all2_induct) (auto simp: results_with_role_def measured_delta_iff(2) [OF assms(1,2)])
qed

lemma isfinite_zero: "isfinite float_zero"
  by (simp add: float_zero_def)

lemma cost_measurable_iff:
  assumes "usable_row specs p" "usable_row specs c" "rmap (measure_spec (row_values p) (row_values c)) specs = Inr results"
  shows "(\<exists>vpc. value_per_cost results cost = Inr vpc \<and> opt_finite vpc) \<longleftrightarrow> cost_measurable specs p c cost"
proof -
  note g = primary_gains [OF assms(1,2) assms(3) [unfolded rmap_Inr_iff]]
  show ?thesis
    unfolding cost_measurable_def value_per_cost_def Let_def g
    by (cases "cost = 0"; cases "results_with_role PRIMARY results = []") (auto simp: rbind_Inr_iff opt_finite_def comp_def isfinite_zero)
qed

text \<open>C35. With well-posed metrics and checked measurements the evaluation says exactly what it can measure. When
  some row cannot be used it returns a vector in the state invalid whose reasons, of which there is at least
  one, are the sorted faults of the three rows. When all rows can be used it returns a vector exactly if every
  favourable delta is finite and, for a cost other than zero, the gains of the primary metrics can be added and
  divided by the cost with a finite result; otherwise it raises. So two finite measurements whose difference
  overflows are refused with an error instead of the state invalid.\<close>

theorem evaluation_accepts_exactly:
  assumes "well_posed specs cost" "checked_specs specs" "checked_row baseline" "checked_row previous" "checked_row current"
  shows "(\<not> (usable_row specs baseline \<and> usable_row specs previous \<and> usable_row specs current) \<longrightarrow>
      (\<exists>v. evaluate_progress specs baseline previous current cost = Inr v \<and> pv_progress_state v = INVALID \<and> pv_invalid_reasons v \<noteq> []
        \<and> pv_invalid_reasons v = sort (snd (evidence_values specs baseline ''baseline'')
            @ snd (evidence_values specs previous ''previous'') @ snd (evidence_values specs current ''current''))))
    \<and> (usable_row specs baseline \<and> usable_row specs previous \<and> usable_row specs current \<longrightarrow>
      ((\<exists>v. evaluate_progress specs baseline previous current cost = Inr v) \<longleftrightarrow>
        (\<forall>s \<in> set specs. \<forall>d. measured_delta s previous current d \<longrightarrow> isfinite d) \<and> cost_measurable specs previous current cost))"
proof (cases "usable_row specs baseline \<and> usable_row specs previous \<and> usable_row specs current")
  case False
  obtain v where v: "evaluate_progress specs baseline previous current cost = Inr v"
    using check_unusable_vector [OF assms(3-5) False] by (auto simp: evaluate_unusable [OF assms(1) False] is_ok_iff)
  moreover have "v = unusable_vector specs baseline previous current"
    using v False by (cases rule: evaluate_progress_cases) auto
  moreover have "pv_invalid_reasons (unusable_vector specs baseline previous current) \<noteq> []"
    using False by (simp add: unusable_vector_def sort_eq_Nil evidence_values_usable(1))
  ultimately show ?thesis using False by (auto simp: unusable_vector_def)
next
  case True
  then have u: "usable_row specs baseline" "usable_row specs previous" "usable_row specs current" by simp_all
  obtain results where r: "rmap (measure_spec (row_values previous) (row_values current)) specs = Inr results"
    using measure_total [OF u(2,3) assms(2)] by blast
  have canon: "canonical_tuple (map ms_metric_id specs)" using assms(1) by (simp add: well_posed_def)
  have "(\<exists>v. evaluate_progress specs baseline previous current cost = Inr v)
      \<longleftrightarrow> (\<exists>vpc. value_per_cost results cost = Inr vpc \<and> is_ok (check_progress_vector (measured_vector baseline previous current results vpc)))"
    unfolding evaluate_usable [OF assms(1) u] r by (auto simp: is_ok_iff rbind_Inr_iff)
  also have "\<dots> \<longleftrightarrow> (\<forall>r \<in> set results. isfinite (mr_favorable_delta r)) \<and> cost_measurable specs previous current cost"
    unfolding check_costed_vector [OF u canon assms(3-5) r] cost_measurable_iff [OF u(2,3) r, symmetric] by blast
  also have "(\<forall>r \<in> set results. isfinite (mr_favorable_delta r)) \<longleftrightarrow> (\<forall>s \<in> set specs. \<forall>d. measured_delta s previous current d \<longrightarrow> isfinite d)"
    using measured_deltas [OF u(2,3) r] by metis
  finally show ?thesis using True by blast
qed

end
