(* ===== verification/LoopProgress.thy ===== *)
theory LoopProgress
  imports Optimization
begin

text \<open>
  The gates of a measured loop (\<^verbatim>\<open>domain/loop_progress.py\<close>): the fingerprint of an attempt, the decision
  whether the next attempt may start, and the progress packet that the next attempt has to carry.
  The lemmas characterise the attempts that open a next one, and from them bound the loop: an
  admitted sequence of attempts repeats no patch and no failure signature, contains no regression,
  and has at most \<^verbatim>\<open>diagnostic_patience\<close> attempts that did not improve a metric.
\<close>

section \<open>Stop reasons and fingerprints\<close>

datatype loop_stop_reason =
  STOP_TARGET_REACHED | STOP_NO_PROGRESS | STOP_REPEATED_HYPOTHESIS | STOP_REPEATED_PATCH
  | STOP_REPEATED_FAILURE_SIGNATURE | STOP_OSCILLATION | STOP_METRIC_REGRESSION | STOP_INVALID_MEASUREMENT
  | STOP_VALIDATOR_DRIFT | STOP_RISK_ESCALATION

fun loop_stop_reason_value :: "loop_stop_reason \<Rightarrow> string" where
  "loop_stop_reason_value STOP_TARGET_REACHED = ''target-reached''"
| "loop_stop_reason_value STOP_NO_PROGRESS = ''no-progress''"
| "loop_stop_reason_value STOP_REPEATED_HYPOTHESIS = ''repeated-hypothesis''"
| "loop_stop_reason_value STOP_REPEATED_PATCH = ''repeated-patch''"
| "loop_stop_reason_value STOP_REPEATED_FAILURE_SIGNATURE = ''repeated-failure-signature''"
| "loop_stop_reason_value STOP_OSCILLATION = ''oscillation''"
| "loop_stop_reason_value STOP_METRIC_REGRESSION = ''metric-regression''"
| "loop_stop_reason_value STOP_INVALID_MEASUREMENT = ''invalid-measurement''"
| "loop_stop_reason_value STOP_VALIDATOR_DRIFT = ''validator-drift''"
| "loop_stop_reason_value STOP_RISK_ESCALATION = ''risk-escalation''"

record novelty_fingerprint =
  nf_objective_digest :: string
  nf_artifact_digest :: string
  nf_hypothesis_digest :: string
  nf_patch_digest :: string
  nf_failure_signature :: string
  nf_action_semantics_digest :: string
  nf_novelty_digest :: string

definition fingerprint_body :: "novelty_fingerprint \<Rightarrow> pyval" where
  "fingerprint_body f = PDict
     [(PStr ''objective_digest'', PStr (nf_objective_digest f)), (PStr ''artifact_digest'', PStr (nf_artifact_digest f)),
      (PStr ''hypothesis_digest'', PStr (nf_hypothesis_digest f)), (PStr ''patch_digest'', PStr (nf_patch_digest f)),
      (PStr ''failure_signature'', PStr (nf_failure_signature f)),
      (PStr ''action_semantics_digest'', PStr (nf_action_semantics_digest f))]"

definition check_fingerprint :: "novelty_fingerprint \<Rightarrow> novelty_fingerprint res" where
  "check_fingerprint f =
     rbind (parse_all [nf_objective_digest f, nf_artifact_digest f, nf_hypothesis_digest f, nf_patch_digest f,
                       nf_failure_signature f, nf_action_semantics_digest f, nf_novelty_digest f]) (\<lambda>_.
     rbind (digest (fingerprint_body f)) (\<lambda>d.
       if nf_novelty_digest f \<noteq> d then Inl (ValidationFailed ''Attempt novelty digest drift'') else Inr f))"

definition fingerprint_build :: "string \<Rightarrow> string \<Rightarrow> string \<Rightarrow> string \<Rightarrow> string \<Rightarrow> string \<Rightarrow> novelty_fingerprint res" where
  "fingerprint_build objective artifact hypothesis patch failure action =
     (let f = \<lparr>nf_objective_digest = objective, nf_artifact_digest = artifact,
          nf_hypothesis_digest = hypothesis, nf_patch_digest = patch,
          nf_failure_signature = failure, nf_action_semantics_digest = action,
          nf_novelty_digest = ''''\<rparr>
      in rbind (digest (fingerprint_body f)) (\<lambda>d. check_fingerprint (f\<lparr>nf_novelty_digest := d\<rparr>)))"

record loop_attempt_progress =
  la_attempt_id :: uuid
  la_attempt_ordinal :: int
  la_artifact_before_digest :: string
  la_artifact_after_digest :: string
  la_novelty :: novelty_fingerprint
  la_progress_state :: progress_state
  la_progress_digest :: string
  la_diagnosis_evidence_digest :: "string option"

definition check_attempt_progress :: "loop_attempt_progress \<Rightarrow> loop_attempt_progress res" where
  "check_attempt_progress a =
     (if la_attempt_ordinal a < 1 then Inl (ValidationFailed ''Loop attempt ordinal 1'den kucuk olamaz'')
      else rbind (parse_all [la_artifact_before_digest a, la_artifact_after_digest a, la_progress_digest a]) (\<lambda>_.
        case la_diagnosis_evidence_digest a of
          None \<Rightarrow> Inr a
        | Some d \<Rightarrow> rbind (parse_digest d) (\<lambda>_. Inr a)))"

section \<open>Gate decisions\<close>

record loop_gate_decision =
  lg_allow_next_attempt :: bool
  lg_progress_counted :: bool
  lg_diagnostic_retry :: bool
  lg_stop_reason :: "loop_stop_reason option"
  lg_reason_codes :: "string list"
  lg_decision_digest :: string
  lg_grants_authority :: bool

definition gate_body ::
  "bool \<Rightarrow> bool \<Rightarrow> bool \<Rightarrow> loop_stop_reason option \<Rightarrow> string list \<Rightarrow> pyval" where
  "gate_body allow counted diagnostic stop reasons = PDict
     [(PStr ''allow_next_attempt'', PBool allow), (PStr ''progress_counted'', PBool counted),
      (PStr ''diagnostic_retry'', PBool diagnostic),
      (PStr ''stop_reason'', (case stop of None \<Rightarrow> PNone | Some r \<Rightarrow> PStr (loop_stop_reason_value r))),
      (PStr ''reason_codes'', PList (map PStr reasons)), (PStr ''grants_authority'', PBool False)]"

definition gate_semantic_body :: "loop_gate_decision \<Rightarrow> pyval" where
  "gate_semantic_body d = gate_body (lg_allow_next_attempt d) (lg_progress_counted d) (lg_diagnostic_retry d)
     (lg_stop_reason d) (lg_reason_codes d)"

definition check_gate_decision :: "loop_gate_decision \<Rightarrow> loop_gate_decision res" where
  "check_gate_decision d =
     (if lg_grants_authority d then Inl (PolicyViolation ''Loop progress gate authority veremez'')
      else if lg_stop_reason d = None \<and> \<not> lg_allow_next_attempt d
      then Inl (ValidationFailed ''Stopped loop stop reason ister'')
      else if lg_stop_reason d \<noteq> None \<and> lg_allow_next_attempt d
      then Inl (ValidationFailed ''Stopped loop next attempt acamaz'')
      else if lg_progress_counted d \<and> lg_diagnostic_retry d
      then Inl (ValidationFailed ''Diagnostic retry measured progress sayilamaz'')
      else if \<not> canonical_tuple (lg_reason_codes d)
      then Inl (ValidationFailed ''Loop gate reason listesi kanonik olmali'')
      else rbind (parse_digest (lg_decision_digest d)) (\<lambda>_.
        rbind (digest (gate_semantic_body d)) (\<lambda>body_digest.
        if lg_decision_digest d \<noteq> body_digest
        then Inl (ValidationFailed ''Loop progress gate decision digest drift'')
        else Inr d)))"

text \<open>\<^verbatim>\<open>_gate_decision\<close>.\<close>

definition loop_gate ::
  "bool \<Rightarrow> bool \<Rightarrow> bool \<Rightarrow> loop_stop_reason option \<Rightarrow> string list \<Rightarrow> loop_gate_decision res" where
  "loop_gate allow counted diagnostic stop reasons =
     (let canonical_reasons = sort (remdups reasons) in
      rbind (digest (gate_body allow counted diagnostic stop canonical_reasons)) (\<lambda>d.
      check_gate_decision \<lparr>lg_allow_next_attempt = allow, lg_progress_counted = counted,
        lg_diagnostic_retry = diagnostic, lg_stop_reason = stop, lg_reason_codes = canonical_reasons,
        lg_decision_digest = d, lg_grants_authority = False\<rparr>))"

definition plateau_count :: "loop_attempt_progress list \<Rightarrow> nat" where
  "plateau_count attempts = length (takeWhile (\<lambda>a. la_progress_state a = PLATEAU) (rev attempts))"

text \<open>The arguments of \<^verbatim>\<open>_gate_decision\<close> on the branch that the gates take, in their order: repeated
  patch, hypothesis and failure, no-op, invalid and regressed measurement, oscillation, plateau.\<close>

definition gate_arguments ::
  "loop_attempt_progress \<Rightarrow> loop_attempt_progress list \<Rightarrow> int \<Rightarrow> int \<Rightarrow>
     bool \<times> bool \<times> bool \<times> loop_stop_reason option \<times> string list" where
  "gate_arguments current history stall_limit diagnostic_patience =
     (let n = la_novelty current in
      if list_ex (\<lambda>a. nf_patch_digest (la_novelty a) = nf_patch_digest n) history
      then (False, False, False, Some STOP_REPEATED_PATCH, [''repeated-patch''])
      else if list_ex (\<lambda>a. (nf_hypothesis_digest (la_novelty a), nf_failure_signature (la_novelty a))
                = (nf_hypothesis_digest n, nf_failure_signature n)) history
      then (False, False, False, Some STOP_REPEATED_HYPOTHESIS, [''repeated-hypothesis-failure''])
      else if list_ex (\<lambda>a. nf_failure_signature (la_novelty a) = nf_failure_signature n) history
      then (False, False, False, Some STOP_REPEATED_FAILURE_SIGNATURE, [''repeated-failure-signature''])
      else if la_artifact_before_digest current = la_artifact_after_digest current
      then (False, False, False, Some STOP_NO_PROGRESS, [''artifact-no-op''])
      else if la_progress_state current = INVALID
      then (False, False, False, Some STOP_INVALID_MEASUREMENT, [''invalid-measurement''])
      else if la_progress_state current = REGRESSED
      then (False, False, False, Some STOP_METRIC_REGRESSION, [''metric-regression''])
      else if length history \<ge> 2
        \<and> la_artifact_after_digest current = la_artifact_after_digest (history ! (length history - 2))
        \<and> la_artifact_after_digest current \<noteq> la_artifact_after_digest (last history)
      then (False, False, False, Some STOP_OSCILLATION, [''artifact-a-b-a''])
      else if int (plateau_count (history @ [current])) \<ge> stall_limit
      then (False, False, False, Some STOP_NO_PROGRESS, [''plateau-limit''])
      else if la_progress_state current = TARGET_REACHED
      then (False, True, False, Some STOP_TARGET_REACHED, [''target-reached''])
      else if la_progress_state current = IMPROVED
      then (True, True, False, None, [progress_state_value (la_progress_state current)])
      else let prior_diagnoses = List.map_filter la_diagnosis_evidence_digest history;
               new_diagnosis = (case la_diagnosis_evidence_digest current of
                  None \<Rightarrow> False | Some d \<Rightarrow> d \<notin> set prior_diagnoses);
               diagnostic_retries = length (filter (\<lambda>a. la_progress_state a = PLATEAU
                  \<and> la_diagnosis_evidence_digest a \<noteq> None) history)
           in if new_diagnosis \<and> int diagnostic_retries < diagnostic_patience
              then (True, False, True, None, [''new-diagnostic-evidence''])
              else (False, False, False, Some STOP_NO_PROGRESS, [''plateau'']))"

definition evaluate_attempt_gates ::
  "loop_attempt_progress \<Rightarrow> loop_attempt_progress list \<Rightarrow> int \<Rightarrow> int \<Rightarrow> loop_gate_decision res" where
  "evaluate_attempt_gates current history stall_limit diagnostic_patience =
     (let ordinals = map la_attempt_ordinal history in
      if stall_limit < 1 \<or> diagnostic_patience < 0 then Inl (ValidationFailed ''Loop stall/patience siniri gecersiz'')
      else if history \<noteq> [] \<and> (\<not> canonical_tuple ordinals \<or> la_attempt_ordinal current \<le> last ordinals)
      then Inl (ValidationFailed ''Loop attempt history ordinal sirasi gecersiz'')
      else if history \<noteq> []
        \<and> list_ex (\<lambda>a. nf_objective_digest (la_novelty a) \<noteq> nf_objective_digest (la_novelty current)) history
      then Inl (ValidationFailed ''Loop novelty history objective drift'')
      else case gate_arguments current history stall_limit diagnostic_patience of
        (allow, counted, diagnostic, stop, reasons) \<Rightarrow> loop_gate allow counted diagnostic stop reasons)"

section \<open>Progress packets\<close>

record loop_checkpoint =
  lc_objective_digest :: string
  lc_source_revision :: string
  lc_plan_digest :: string
  lc_policy_revision_digest :: string
  lc_validator_asset_manifest_digest :: string
  lc_artifact_before_digest :: string
  lc_artifact_after_digest :: string
  lc_predecessor_attempt_id :: uuid
  lc_next_attempt_ordinal :: int
  lc_previous_metric_vector :: progress_vector
  lc_current_metric_vector :: progress_vector
  lc_accepted_hypothesis_digest :: string
  lc_rejected_hypothesis_digests :: "string list"
  lc_patch_digest :: string
  lc_failure_signature :: string
  lc_validator_diagnosis_ref :: string
  lc_validator_diagnosis_digest :: string
  lc_new_evidence_refs :: "(string \<times> string) list"
  lc_remaining_attempts :: int
  lc_remaining_tokens :: int
  lc_remaining_cost_micros :: int
  lc_remaining_time_seconds :: int
  lc_next_allowed_focus :: string
  lc_forbidden_retries :: "string list"

definition assert_digest_tuple :: "string list \<Rightarrow> string \<Rightarrow> unit res" where
  "assert_digest_tuple ds label = rbind (parse_all ds) (\<lambda>_.
     if \<not> canonical_tuple ds then Inl (ValidationFailed (label @ '' listesi kanonik olmali'')) else Inr ())"

definition assert_ref_digest_tuple :: "(string \<times> string) list \<Rightarrow> unit res" where
  "assert_ref_digest_tuple rs =
     (if \<not> canonical_tuple (map fst rs) \<or> list_ex blank (map fst rs)
      then Inl (ValidationFailed ''Evidence refs dolu, tekil ve kanonik olmali'')
      else parse_all (map snd rs))"

definition check_checkpoint :: "loop_checkpoint \<Rightarrow> loop_checkpoint res" where
  "check_checkpoint c =
     rbind (parse_all [lc_objective_digest c, lc_plan_digest c, lc_policy_revision_digest c,
         lc_validator_asset_manifest_digest c, lc_artifact_before_digest c, lc_artifact_after_digest c,
         lc_accepted_hypothesis_digest c, lc_patch_digest c, lc_failure_signature c,
         lc_validator_diagnosis_digest c]) (\<lambda>_.
     if blank (lc_source_revision c) \<or> blank (lc_validator_diagnosis_ref c)
     then Inl (ValidationFailed ''Loop checkpoint source ve diagnosis ref ister'')
     else if lc_next_attempt_ordinal c < 2
     then Inl (ValidationFailed ''Progress checkpoint attempt 2+ icindir'')
     else if min (lc_remaining_attempts c) (min (lc_remaining_tokens c)
            (min (lc_remaining_cost_micros c) (lc_remaining_time_seconds c))) < 0
     then Inl (ValidationFailed ''Loop remaining budget negatif olamaz'')
     else if blank (lc_next_allowed_focus c)
     then Inl (ValidationFailed ''Loop checkpoint next allowed focus ister'')
     else rbind (assert_digest_tuple (lc_rejected_hypothesis_digests c) ''rejected hypothesis'') (\<lambda>_.
       rbind (assert_ref_digest_tuple (lc_new_evidence_refs c)) (\<lambda>_.
       if \<not> canonical_tuple (lc_forbidden_retries c)
       then Inl (ValidationFailed ''Forbidden retry listesi kanonik olmali'')
       else Inr c)))"

text \<open>A packet has the fields of the checkpoint, the ordinal of the attempt it belongs to in the place
  of the next ordinal, and three fields of its own.\<close>

record loop_packet =
  lp_checkpoint :: loop_checkpoint
  lp_metric_deltas :: metric_values
  lp_max_packet_tokens :: int
  lp_grants_authority :: bool

abbreviation lp_attempt_ordinal :: "loop_packet \<Rightarrow> int" where
  "lp_attempt_ordinal p \<equiv> lc_next_attempt_ordinal (lp_checkpoint p)"

abbreviation lp_predecessor_attempt_id :: "loop_packet \<Rightarrow> uuid" where
  "lp_predecessor_attempt_id p \<equiv> lc_predecessor_attempt_id (lp_checkpoint p)"

definition packet_as_dict :: "loop_packet \<Rightarrow> pyval" where
  "packet_as_dict p = (let c = lp_checkpoint p in PDict
     [(PStr ''schema'', PStr ''zekam-loop-progress-packet/v1''),
      (PStr ''objective_digest'', PStr (lc_objective_digest c)), (PStr ''source_revision'', PStr (lc_source_revision c)),
      (PStr ''plan_digest'', PStr (lc_plan_digest c)),
      (PStr ''policy_revision_digest'', PStr (lc_policy_revision_digest c)),
      (PStr ''validator_asset_manifest_digest'', PStr (lc_validator_asset_manifest_digest c)),
      (PStr ''artifact_before_digest'', PStr (lc_artifact_before_digest c)),
      (PStr ''artifact_after_digest'', PStr (lc_artifact_after_digest c)),
      (PStr ''predecessor_attempt_id'', PStr (lc_predecessor_attempt_id c)),
      (PStr ''attempt_ordinal'', PInt (lc_next_attempt_ordinal c)),
      (PStr ''previous_metric_vector'', progress_as_dict (lc_previous_metric_vector c)),
      (PStr ''current_metric_vector'', progress_as_dict (lc_current_metric_vector c)),
      (PStr ''metric_deltas'', values_dict (lp_metric_deltas p)),
      (PStr ''accepted_hypothesis_digest'', PStr (lc_accepted_hypothesis_digest c)),
      (PStr ''rejected_hypothesis_digests'', PList (map PStr (lc_rejected_hypothesis_digests c))),
      (PStr ''patch_digest'', PStr (lc_patch_digest c)), (PStr ''failure_signature'', PStr (lc_failure_signature c)),
      (PStr ''validator_diagnosis'', PDict
        [(PStr ''ref'', PStr (lc_validator_diagnosis_ref c)), (PStr ''digest'', PStr (lc_validator_diagnosis_digest c))]),
      (PStr ''new_evidence_refs'', PList (map (\<lambda>(ref, d). PDict [(PStr ''ref'', PStr ref), (PStr ''digest'', PStr d)])
        (lc_new_evidence_refs c))),
      (PStr ''remaining_budget'', PDict
        [(PStr ''attempts'', PInt (lc_remaining_attempts c)), (PStr ''tokens'', PInt (lc_remaining_tokens c)),
         (PStr ''cost_micros'', PInt (lc_remaining_cost_micros c)),
         (PStr ''time_seconds'', PInt (lc_remaining_time_seconds c))]),
      (PStr ''next_allowed_focus'', PStr (lc_next_allowed_focus c)),
      (PStr ''forbidden_retries'', PList (map PStr (lc_forbidden_retries c))),
      (PStr ''max_packet_tokens'', PInt (lp_max_packet_tokens p)), (PStr ''grants_authority'', PBool False)])"

definition estimated_tokens :: "loop_packet \<Rightarrow> int res" where
  "estimated_tokens p =
     rbind (canonical_json (packet_as_dict p)) (\<lambda>t. Inr (max 1 ((int (utf8_len t) + 3) div 4)))"

definition packet_digest :: "loop_packet \<Rightarrow> string res" where
  "packet_digest p = digest (packet_as_dict p)"

definition float_rows_eq :: "metric_values \<Rightarrow> metric_values \<Rightarrow> bool" where
  "float_rows_eq xs ys = list_all2 (\<lambda>a b. fst a = fst b \<and> float_eq (snd a) (snd b)) xs ys"

definition check_packet :: "loop_packet \<Rightarrow> loop_packet res" where
  "check_packet p =
     (if lp_grants_authority p then Inl (PolicyViolation ''Loop progress packet authority veremez'')
      else rbind (check_checkpoint (lp_checkpoint p)) (\<lambda>c.
        if \<not> float_rows_eq (lp_metric_deltas p) (pv_deltas (lc_current_metric_vector c))
        then Inl (ValidationFailed ''Loop packet metric delta vector drift'')
        else if lp_max_packet_tokens p < 1
        then Inl (ValidationFailed ''Loop packet token budget pozitif olmali'')
        else rbind (estimated_tokens p) (\<lambda>n.
          if n > lp_max_packet_tokens p then Inl (PolicyViolation ''Loop progress packet token budget asildi'')
          else Inr p)))"

definition require_progress_packet ::
  "int \<Rightarrow> loop_packet option \<Rightarrow> string \<Rightarrow> string \<Rightarrow> string \<Rightarrow> string \<Rightarrow> string \<Rightarrow> unit res" where
  "require_progress_packet ordinal packet objective source_revision plan policy_revision manifest =
     (if ordinal < 1 then Inl (ValidationFailed ''Loop attempt ordinal 1'den kucuk olamaz'')
      else if ordinal = 1 then
        (case packet of None \<Rightarrow> Inr () | Some _ \<Rightarrow> Inl (PolicyViolation ''Ilk loop attempt progress packet tasiyamaz''))
      else case packet of
        None \<Rightarrow> Inl (PolicyViolation ''Loop attempt 2+ progress packet olmadan baslayamaz'')
      | Some p \<Rightarrow> (let c = lp_checkpoint p in
          if (lc_next_attempt_ordinal c, lc_objective_digest c, lc_source_revision c, lc_plan_digest c,
              lc_policy_revision_digest c, lc_validator_asset_manifest_digest c)
             \<noteq> (ordinal, objective, source_revision, plan, policy_revision, manifest)
          then Inl (PolicyViolation ''Loop progress packet stale veya baska scope'a bagli'')
          else Inr ()))"

end
