(* ===== verification/LoopGates.thy ===== *)
theory LoopGates
  imports LoopProgress Histories
begin

section \<open>What a decision says\<close>

lemma gate_body_digest: "\<exists>j. digest (gate_body allow counted diagnostic stop reasons) = Inr (digest_json j)"
  by (cases stop) (auto simp: digest_def canonicalize_def gate_body_def normalize_texts)

text \<open>Every decision the gates build passes its own checks.\<close>

lemma loop_gate_total:
  assumes "allow \<longleftrightarrow> stop = None" "\<not> (counted \<and> diagnostic)"
  shows "\<exists>d. loop_gate allow counted diagnostic stop reasons = Inr d \<and> lg_allow_next_attempt d = allow
    \<and> lg_progress_counted d = counted \<and> lg_diagnostic_retry d = diagnostic \<and> lg_stop_reason d = stop
    \<and> set (lg_reason_codes d) = set reasons \<and> \<not> lg_grants_authority d"
proof -
  obtain j where "digest (gate_body allow counted diagnostic stop (sort (remdups reasons))) = Inr (digest_json j)"
    using gate_body_digest by blast
  moreover have "valid_digest (digest_json j)" by simp
  then obtain h where "parse_digest (digest_json j) = Inr h" by (auto simp: is_ok_iff)
  moreover have "canonical_tuple (sort (remdups reasons))" by (simp add: canonical_tuple_iff)
  ultimately show ?thesis
    using assms by (auto simp: loop_gate_def Let_def check_gate_decision_def gate_semantic_body_def)
qed

section \<open>Attempts that open the next one\<close>

definition ordered_history :: "loop_attempt_progress \<Rightarrow> loop_attempt_progress list \<Rightarrow> bool" where
  "ordered_history current history =
     (history = [] \<or> (canonical_tuple (map la_attempt_ordinal history)
        \<and> last (map la_attempt_ordinal history) < la_attempt_ordinal current
        \<and> (\<forall>a \<in> set history. nf_objective_digest (la_novelty a) = nf_objective_digest (la_novelty current))))"

text \<open>No patch and no failure signature of the history comes back, the artifact changes, and it does
  not return to the one before the last.\<close>

definition novel :: "loop_attempt_progress \<Rightarrow> loop_attempt_progress list \<Rightarrow> bool" where
  "novel current history =
     (la_artifact_before_digest current \<noteq> la_artifact_after_digest current
      \<and> (\<forall>a \<in> set history. nf_patch_digest (la_novelty a) \<noteq> nf_patch_digest (la_novelty current)
           \<and> nf_failure_signature (la_novelty a) \<noteq> nf_failure_signature (la_novelty current))
      \<and> \<not> (length history \<ge> 2
        \<and> la_artifact_after_digest current = la_artifact_after_digest (history ! (length history - 2))
        \<and> la_artifact_after_digest current \<noteq> la_artifact_after_digest (last history)))"

definition diagnosed_plateau :: "loop_attempt_progress \<Rightarrow> bool" where
  "diagnosed_plateau a = (la_progress_state a = PLATEAU \<and> la_diagnosis_evidence_digest a \<noteq> None)"

text \<open>A plateau with a diagnosis that no earlier attempt had, while the patience lasts.\<close>

definition fresh_diagnosis :: "loop_attempt_progress \<Rightarrow> loop_attempt_progress list \<Rightarrow> int \<Rightarrow> bool" where
  "fresh_diagnosis current history patience =
     (diagnosed_plateau current
      \<and> (\<forall>a \<in> set history. la_diagnosis_evidence_digest a \<noteq> la_diagnosis_evidence_digest current)
      \<and> int (length (filter diagnosed_plateau history)) < patience)"

definition opens_next :: "loop_attempt_progress \<Rightarrow> loop_attempt_progress list \<Rightarrow> int \<Rightarrow> int \<Rightarrow> bool" where
  "opens_next current history stall patience =
     (novel current history \<and> int (plateau_count (history @ [current])) < stall
      \<and> (la_progress_state current = IMPROVED \<or> fresh_diagnosis current history patience))"

lemma set_map_filter: "set (List.map_filter f xs) = {y. \<exists>x \<in> set xs. f x = Some y}"
  by (force simp: List.map_filter_def)

lemma gates_refuse:
  "stall < 1 \<or> patience < 0 \<or> \<not> ordered_history current history
     \<Longrightarrow> \<exists>m. evaluate_attempt_gates current history stall patience = Inl (ValidationFailed m)"
  by (auto simp: evaluate_attempt_gates_def ordered_history_def list_ex_iff Let_def)

lemma gates_decide:
  "1 \<le> stall \<Longrightarrow> 0 \<le> patience \<Longrightarrow> ordered_history current history \<Longrightarrow>
     evaluate_attempt_gates current history stall patience =
       (case gate_arguments current history stall patience of
         (allow, counted, diagnostic, stop, reasons) \<Rightarrow> loop_gate allow counted diagnostic stop reasons)"
  by (auto simp: evaluate_attempt_gates_def ordered_history_def list_ex_iff Let_def)

lemma fresh_diagnosis_iff:
  assumes "la_progress_state current = PLATEAU"
  shows "((case la_diagnosis_evidence_digest current of None \<Rightarrow> False
        | Some d \<Rightarrow> d \<notin> set (List.map_filter la_diagnosis_evidence_digest history))
      \<and> int (length (filter (\<lambda>a. la_progress_state a = PLATEAU \<and> la_diagnosis_evidence_digest a \<noteq> None) history)) < patience)
    \<longleftrightarrow> fresh_diagnosis current history patience"
  using assms unfolding fresh_diagnosis_def diagnosed_plateau_def
  by (cases "la_diagnosis_evidence_digest current") (auto simp: set_map_filter)

lemma gate_arguments_cases:
  obtains (opened) reasons where "opens_next current history stall patience"
      "gate_arguments current history stall patience =
         (True, la_progress_state current = IMPROVED, la_progress_state current \<noteq> IMPROVED, None, reasons)"
  | (reached) reasons where "\<not> opens_next current history stall patience" "la_progress_state current = TARGET_REACHED"
      "gate_arguments current history stall patience = (False, True, False, Some STOP_TARGET_REACHED, reasons)"
  | (stopped) r reasons where "\<not> opens_next current history stall patience"
      "gate_arguments current history stall patience = (False, False, False, Some r, reasons)"
proof (cases "novel current history \<and> int (plateau_count (history @ [current])) < stall")
  case False
  then have "\<not> opens_next current history stall patience" by (auto simp: opens_next_def)
  moreover have "\<exists>r reasons. gate_arguments current history stall patience = (False, False, False, Some r, reasons)"
    using False by (auto simp: gate_arguments_def novel_def list_ex_iff Let_def)
  ultimately show thesis using stopped by blast
next
  case True
  then have chain: "\<not> list_ex (\<lambda>a. nf_patch_digest (la_novelty a) = nf_patch_digest (la_novelty current)) history"
    "\<not> list_ex (\<lambda>a. nf_failure_signature (la_novelty a) = nf_failure_signature (la_novelty current)) history"
    "\<not> list_ex (\<lambda>a. (nf_hypothesis_digest (la_novelty a), nf_failure_signature (la_novelty a))
        = (nf_hypothesis_digest (la_novelty current), nf_failure_signature (la_novelty current))) history"
    "la_artifact_before_digest current \<noteq> la_artifact_after_digest current" "\<not> stall \<le> int (plateau_count (history @ [current]))"
    "\<not> (length history \<ge> 2 \<and> la_artifact_after_digest current = la_artifact_after_digest (history ! (length history - 2))
        \<and> la_artifact_after_digest current \<noteq> la_artifact_after_digest (last history))"
    by (auto simp: novel_def list_ex_iff)
  have args: "gate_arguments current history stall patience =
      (case la_progress_state current of
         INVALID \<Rightarrow> (False, False, False, Some STOP_INVALID_MEASUREMENT, [''invalid-measurement''])
       | REGRESSED \<Rightarrow> (False, False, False, Some STOP_METRIC_REGRESSION, [''metric-regression''])
       | TARGET_REACHED \<Rightarrow> (False, True, False, Some STOP_TARGET_REACHED, [''target-reached''])
       | IMPROVED \<Rightarrow> (True, True, False, None, [''improved''])
       | PLATEAU \<Rightarrow> if fresh_diagnosis current history patience
           then (True, False, True, None, [''new-diagnostic-evidence''])
           else (False, False, False, Some STOP_NO_PROGRESS, [''plateau'']))"
    unfolding gate_arguments_def Let_def if_not_P [OF chain(1)] if_not_P [OF chain(2)] if_not_P [OF chain(3)]
      if_not_P [OF chain(4)] if_not_P [OF chain(5)] if_not_P [OF chain(6)]
    using fresh_diagnosis_iff [of current history patience] by (cases "la_progress_state current") simp_all
  have opens: "opens_next current history stall patience
      \<longleftrightarrow> la_progress_state current = IMPROVED \<or> fresh_diagnosis current history patience"
    using True by (simp add: opens_next_def)
  show thesis
  proof (cases "la_progress_state current")
    case PLATEAU
    with args opens show thesis
      by (cases "fresh_diagnosis current history patience") (auto intro: opened stopped)
  qed (use args opens in \<open>auto simp: fresh_diagnosis_def diagnosed_plateau_def intro: opened reached stopped\<close>)
qed

section \<open>Sequences of attempts\<close>

text \<open>The next attempt of a loop starts only after a decision that allows it.\<close>

definition attempt_step ::
  "int \<Rightarrow> int \<Rightarrow> loop_attempt_progress list \<Rightarrow> loop_attempt_progress \<Rightarrow> loop_attempt_progress list res" where
  "attempt_step stall patience history current =
     rbind (evaluate_attempt_gates current history stall patience) (\<lambda>d.
       if lg_allow_next_attempt d then Inr (history @ [current])
       else Inl (PolicyViolation ''Stopped loop next attempt acamaz''))"

text \<open>What holds of every sequence of attempts that were all allowed to continue.\<close>

definition healthy_history :: "int \<Rightarrow> int \<Rightarrow> loop_attempt_progress list \<Rightarrow> bool" where
  "healthy_history stall patience history =
     (distinct (map (nf_patch_digest \<circ> la_novelty) history)
      \<and> distinct (map (nf_failure_signature \<circ> la_novelty) history)
      \<and> sorted_wrt (<) (map la_attempt_ordinal history)
      \<and> (\<forall>a \<in> set history. la_artifact_before_digest a \<noteq> la_artifact_after_digest a
           \<and> (la_progress_state a = IMPROVED \<or> diagnosed_plateau a))
      \<and> int (plateau_count history) < max 1 stall
      \<and> int (length (filter diagnosed_plateau history)) \<le> max 0 patience)"

lemma evaluate_allows:
  assumes "evaluate_attempt_gates current history stall patience = Inr d" "lg_allow_next_attempt d"
  shows "1 \<le> stall \<and> 0 \<le> patience \<and> ordered_history current history \<and> opens_next current history stall patience"
proof -
  have ok: "1 \<le> stall" "0 \<le> patience" "ordered_history current history"
    using assms(1) gates_refuse [of stall patience current history] by fastforce+
  have "opens_next current history stall patience"
  proof (cases rule: gate_arguments_cases [of current history stall patience])
    case (reached reasons)
    with assms loop_gate_total [of False "Some STOP_TARGET_REACHED" True False reasons] show ?thesis
      by (auto simp: gates_decide [OF ok])
  next
    case (stopped r reasons)
    with assms loop_gate_total [of False "Some r" False False reasons] show ?thesis
      by (auto simp: gates_decide [OF ok])
  qed
  with ok show ?thesis by simp
qed

lemma attempt_step_Inr:
  "attempt_step stall patience history current = Inr h \<longleftrightarrow>
     1 \<le> stall \<and> 0 \<le> patience \<and> ordered_history current history \<and> opens_next current history stall patience
     \<and> h = history @ [current]"
proof
  assume "attempt_step stall patience history current = Inr h"
  then show "1 \<le> stall \<and> 0 \<le> patience \<and> ordered_history current history \<and> opens_next current history stall patience
     \<and> h = history @ [current]"
    unfolding attempt_step_def rbind_Inr_iff using evaluate_allows by (fastforce split: if_splits)
next
  assume *: "1 \<le> stall \<and> 0 \<le> patience \<and> ordered_history current history \<and> opens_next current history stall patience
     \<and> h = history @ [current]"
  then have ok: "1 \<le> stall" "0 \<le> patience" "ordered_history current history" by simp_all
  show "attempt_step stall patience history current = Inr h"
  proof (cases rule: gate_arguments_cases [of current history stall patience])
    case (opened reasons)
    with * loop_gate_total [of True None "la_progress_state current = IMPROVED" "la_progress_state current \<noteq> IMPROVED" reasons]
    show ?thesis by (auto simp: attempt_step_def gates_decide [OF ok])
  qed (use * in simp_all)
qed

lemma ordered_snoc:
  assumes "ordered_history current history" "sorted_wrt (<) (map la_attempt_ordinal history)"
  shows "sorted_wrt (<) (map la_attempt_ordinal (history @ [current]))"
proof (cases history rule: rev_cases)
  case (snoc h a)
  with assms show ?thesis by (fastforce simp: ordered_history_def sorted_wrt_append)
qed simp

lemma plateau_not_improved: "diagnosed_plateau a \<Longrightarrow> la_progress_state a = PLATEAU"
  by (simp add: diagnosed_plateau_def)

lemma attempt_step_healthy:
  assumes "healthy_history stall patience h" "attempt_step stall patience h a = Inr h'"
  shows "healthy_history stall patience h'"
proof -
  from assms(2) have st: "1 \<le> stall" "0 \<le> patience" "ordered_history a h" "opens_next a h stall patience" "h' = h @ [a]"
    by (simp_all add: attempt_step_Inr)
  from st(4) have nov: "novel a h" and flat: "int (plateau_count h') < stall"
    and gain: "la_progress_state a = IMPROVED \<or> fresh_diagnosis a h patience"
    by (simp_all add: opens_next_def st(5))
  have fresh: "nf_patch_digest (la_novelty a) \<notin> nf_patch_digest ` la_novelty ` set h"
    "nf_failure_signature (la_novelty a) \<notin> nf_failure_signature ` la_novelty ` set h"
    "la_artifact_before_digest a \<noteq> la_artifact_after_digest a"
    using nov by (fastforce simp: novel_def)+
  have count: "int (length (filter diagnosed_plateau h')) \<le> max 0 patience"
    using gain assms(1) st(2) by (auto simp: st(5) healthy_history_def fresh_diagnosis_def diagnosed_plateau_def)
  have kind: "la_progress_state a = IMPROVED \<or> diagnosed_plateau a" using gain by (auto simp: fresh_diagnosis_def)
  show ?thesis
    using assms(1) fresh count kind flat ordered_snoc [OF st(3)]
    unfolding healthy_history_def st(5) by (auto simp: image_image comp_def)
qed

interpretation measured_loop: guarded_system "attempt_step stall patience" "healthy_history stall patience"
  for stall patience
  by unfold_locales (rule attempt_step_healthy)

lemma healthy_Nil: "healthy_history stall patience []"
  by (simp add: healthy_history_def plateau_count_def)

lemma healthy_states:
  assumes "healthy_history stall patience h"
  shows "length h = length (filter (\<lambda>a. la_progress_state a = IMPROVED) h) + length (filter diagnosed_plateau h)"
proof -
  have "filter diagnosed_plateau h = filter (\<lambda>a. la_progress_state a \<noteq> IMPROVED) h"
    using assms by (intro filter_cong) (auto simp: healthy_history_def diagnosed_plateau_def)
  then show ?thesis by (metis sum_length_filter_compl)
qed

text \<open>C10. The measured loop is bounded by its measurements. In every history of attempts each of which the
  gates allowed to be followed by another, the attempts that did not improve are at most as many as the
  patience of the objective; no attempt regressed, was invalid or had already reached the target; and
  no two attempts have the same patch or the same failure signature.\<close>

theorem measured_loop_bounded:
  assumes "measured_loop.run stall patience [] attempts = Inr history" "0 \<le> patience"
  shows "int (length history) \<le> int (length (filter (\<lambda>a. la_progress_state a = IMPROVED) history)) + patience
    \<and> (\<forall>a \<in> set history. la_progress_state a \<notin> {REGRESSED, INVALID, TARGET_REACHED})
    \<and> distinct (map (nf_patch_digest \<circ> la_novelty) history)
    \<and> distinct (map (nf_failure_signature \<circ> la_novelty) history)"
proof -
  have h: "healthy_history stall patience history"
    by (rule measured_loop.run_inv [OF assms(1) healthy_Nil])
  have "int (length history) \<le> int (length (filter (\<lambda>a. la_progress_state a = IMPROVED) history)) + patience"
    using h assms(2) healthy_states [OF h] by (simp add: healthy_history_def)
  moreover have "\<forall>a \<in> set history. la_progress_state a \<notin> {REGRESSED, INVALID, TARGET_REACHED}"
    using h by (auto simp: healthy_history_def diagnosed_plateau_def)
  ultimately show ?thesis using h by (simp add: healthy_history_def)
qed

text \<open>C8. The gates end every loop over finitely many failures: continuing the history with an attempt that
  the gates allow is a well-founded relation when the failure signatures come from a finite set, for
  any stall bound and any patience, and from any history, also one the gates did not produce.\<close>

theorem measured_loop_terminates:
  assumes "finite S"
  shows "wf {(h', h). \<exists>a. nf_failure_signature (la_novelty a) \<in> S \<and> attempt_step stall patience h a = Inr h'}"
proof (rule wf_subset)
  let ?used = "\<lambda>h. nf_failure_signature ` la_novelty ` set h"
  show "wf (measure (\<lambda>h. card (S - ?used h)))" by simp
  show "{(h', h). \<exists>a. nf_failure_signature (la_novelty a) \<in> S \<and> attempt_step stall patience h a = Inr h'}
      \<subseteq> measure (\<lambda>h. card (S - ?used h))"
  proof (clarsimp simp: attempt_step_Inr)
    fix h a assume "nf_failure_signature (la_novelty a) \<in> S" "opens_next a h stall patience"
    then have "nf_failure_signature (la_novelty a) \<in> S - ?used h" by (auto simp: opens_next_def novel_def)
    then have "card (S - insert (nf_failure_signature (la_novelty a)) (?used h)) < card (S - ?used h)"
      using assms by (intro psubset_card_mono) auto
    then show "card (S - insert (nf_failure_signature (la_novelty a)) (?used h)) < card (S - ?used h)" .
  qed
qed

end
