(* ===== verification/LoopPolicy.thy ===== *)
theory LoopPolicy
  imports LoopProgress
begin

text \<open>
  The contracts of a bounded loop (\<^verbatim>\<open>domain/loop_policy.py\<close>): the policy with its budgets and its
  measured bindings, the request for an attempt with the digests that identify it, the admission of
  an attempt and the validation of its result. Each dataclass is a record with the function that its
  \<^verbatim>\<open>__post_init__\<close> runs.
\<close>

section \<open>Enumerations\<close>

datatype loop_delta_kind = DIFFERENT_PATCH | NEW_EVIDENCE | NEW_FAILURE_DIAGNOSIS | REVISED_PLAN

fun loop_delta_kind_value :: "loop_delta_kind \<Rightarrow> string" where
  "loop_delta_kind_value DIFFERENT_PATCH = ''different-patch-digest''"
| "loop_delta_kind_value NEW_EVIDENCE = ''new-evidence''"
| "loop_delta_kind_value NEW_FAILURE_DIAGNOSIS = ''new-failure-diagnosis''"
| "loop_delta_kind_value REVISED_PLAN = ''revised-plan''"

datatype loop_effect_class =
  LE_READ_ONLY | LE_MODEL_CALL | LE_TOOL_CALL | LE_FILE_WRITE | LE_DEPLOY | LE_MIGRATION_APPLY | LE_EXTERNAL_MESSAGE

fun loop_effect_class_value :: "loop_effect_class \<Rightarrow> string" where
  "loop_effect_class_value LE_READ_ONLY = ''read-only''"
| "loop_effect_class_value LE_MODEL_CALL = ''model-call''"
| "loop_effect_class_value LE_TOOL_CALL = ''tool-call''"
| "loop_effect_class_value LE_FILE_WRITE = ''file-write''"
| "loop_effect_class_value LE_DEPLOY = ''deploy''"
| "loop_effect_class_value LE_MIGRATION_APPLY = ''migration-apply''"
| "loop_effect_class_value LE_EXTERNAL_MESSAGE = ''external-message''"

datatype loop_terminal_state = LT_PASSED | LT_BLOCKED | LT_BUDGET_EXHAUSTED | LT_MANUAL_REVIEW

fun loop_terminal_state_value :: "loop_terminal_state \<Rightarrow> string" where
  "loop_terminal_state_value LT_PASSED = ''passed''"
| "loop_terminal_state_value LT_BLOCKED = ''blocked''"
| "loop_terminal_state_value LT_BUDGET_EXHAUSTED = ''budget-exhausted''"
| "loop_terminal_state_value LT_MANUAL_REVIEW = ''manual-review''"

datatype loop_attempt_outcome = LO_RETRYABLE_FAILURE | LO_PASSED | LO_BLOCKED | LO_MANUAL_REVIEW

fun loop_attempt_outcome_value :: "loop_attempt_outcome \<Rightarrow> string" where
  "loop_attempt_outcome_value LO_RETRYABLE_FAILURE = ''retryable-failure''"
| "loop_attempt_outcome_value LO_PASSED = ''passed''"
| "loop_attempt_outcome_value LO_BLOCKED = ''blocked''"
| "loop_attempt_outcome_value LO_MANUAL_REVIEW = ''manual-review''"

section \<open>Loop policies\<close>

record loop_policy =
  lo_id :: uuid
  lo_realm_id :: uuid
  lo_project_id :: uuid
  lo_work_item_id :: uuid
  lo_plan_id :: uuid
  lo_step_id :: string
  lo_assignment_id :: uuid
  lo_context_manifest_id :: uuid
  lo_validator_assignment_id :: uuid
  lo_max_attempts :: int
  lo_max_tokens :: int
  lo_max_cost_micros :: int
  lo_deadline :: pydatetime
  lo_validator_spec_digest :: string
  lo_required_delta :: "loop_delta_kind list"
  lo_forbidden_effects :: "loop_effect_class list"
  lo_terminal_states :: "loop_terminal_state list"
  lo_source_revision :: string
  lo_context_manifest_digest :: string
  lo_plan_digest :: string
  lo_policy_revision_digest :: string
  lo_canonical_effect_kind :: string
  lo_created_at :: pydatetime
  lo_grants_authority :: bool
  lo_objective_id :: "uuid option"
  lo_stable_objective_digest :: "string option"
  lo_measurement_plan_digest :: "string option"
  lo_validator_manifest_id :: "uuid option"
  lo_validator_asset_manifest_digest :: "string option"
  lo_metric_specs_digest :: "string option"
  lo_stall_limit :: "int option"
  lo_diagnostic_patience :: "int option"
  lo_progress_token_budget :: "int option"
  lo_minimum_value_per_cost :: "float64 option"

definition CANONICAL_EFFECT_KINDS :: "string list" where
  "CANONICAL_EFFECT_KINDS = [''none'', ''file-write'', ''database-write'', ''network-call'', ''provider-call'',
     ''git-commit'', ''git-push'', ''process-run'']"

text \<open>Which of the ten bindings of a measured policy are present, in the order of the tuple.\<close>

definition v2_present :: "loop_policy \<Rightarrow> bool list" where
  "v2_present p =
     [lo_objective_id p \<noteq> None, lo_stable_objective_digest p \<noteq> None, lo_measurement_plan_digest p \<noteq> None,
      lo_validator_manifest_id p \<noteq> None, lo_validator_asset_manifest_digest p \<noteq> None, lo_metric_specs_digest p \<noteq> None,
      lo_stall_limit p \<noteq> None, lo_diagnostic_patience p \<noteq> None, lo_progress_token_budget p \<noteq> None,
      lo_minimum_value_per_cost p \<noteq> None]"

definition validate_v2_bindings :: "loop_policy \<Rightarrow> unit res" where
  "validate_v2_bindings p =
     (if list_all (\<lambda>b. \<not> b) (v2_present p) then Inr ()
      else if list_ex (\<lambda>b. \<not> b) (v2_present p)
      then Inl (ValidationFailed ''Measured LoopPolicy v2 bindingleri exact ve tam olmali'')
      else rbind (parse_all [the (lo_stable_objective_digest p), the (lo_measurement_plan_digest p),
             the (lo_validator_asset_manifest_digest p), the (lo_metric_specs_digest p)]) (\<lambda>_.
        if \<not> (1 \<le> the (lo_stall_limit p) \<and> the (lo_stall_limit p) \<le> lo_max_attempts p)
        then Inl (ValidationFailed ''Measured LoopPolicy stall limit attempt butcesini asamaz'')
        else if \<not> (0 \<le> the (lo_diagnostic_patience p) \<and> the (lo_diagnostic_patience p) < lo_max_attempts p)
        then Inl (ValidationFailed ''Measured LoopPolicy diagnostic patience gecersiz'')
        else if \<not> (64 \<le> the (lo_progress_token_budget p) \<and> the (lo_progress_token_budget p) \<le> lo_max_tokens p)
        then Inl (ValidationFailed ''Measured LoopPolicy progress token budget gecersiz'')
        else if \<not> isfinite (the (lo_minimum_value_per_cost p)) \<or> float_lt (the (lo_minimum_value_per_cost p)) float_zero
        then Inl (ValidationFailed ''Measured LoopPolicy minimum value-per-cost gecersiz'')
        else Inr ()))"

definition check_loop_policy :: "loop_policy \<Rightarrow> loop_policy res" where
  "check_loop_policy p =
     (if lo_grants_authority p then Inl (PolicyViolation ''Loop policy authority veremez'')
      else if \<not> (1 \<le> lo_max_attempts p \<and> lo_max_attempts p \<le> 100)
      then Inl (ValidationFailed ''Loop max attempts 1..100 araliginda olmali'')
      else if lo_max_tokens p < 1 \<or> lo_max_cost_micros p < 1
      then Inl (ValidationFailed ''Loop token ve cost butcesi pozitif olmali'')
      else if \<not> is_aware (lo_created_at p) \<or> \<not> is_aware (lo_deadline p)
      then Inl (ValidationFailed ''Loop zamanlari timezone-aware olmali'')
      else if datetime_le (lo_deadline p) (lo_created_at p)
      then Inl (ValidationFailed ''Loop deadline created_at sonrasinda olmali'')
      else if blank (lo_step_id p) \<or> blank (lo_source_revision p)
      then Inl (ValidationFailed ''Loop step ve source revision bos olamaz'')
      else if lo_canonical_effect_kind p \<notin> set CANONICAL_EFFECT_KINDS
      then Inl (ValidationFailed ''Loop canonical effect kind desteklenmiyor'')
      else rbind (parse_all [lo_validator_spec_digest p, lo_context_manifest_digest p, lo_plan_digest p,
                             lo_policy_revision_digest p]) (\<lambda>_.
        if \<not> canonical_tuple (map loop_delta_kind_value (lo_required_delta p))
        then Inl (ValidationFailed ''Loop required delta listesi kanonik olmali'')
        else if lo_required_delta p = []
        then Inl (ValidationFailed ''Loop en az bir evidence delta turu ister'')
        else if \<not> canonical_tuple (map loop_effect_class_value (lo_forbidden_effects p))
        then Inl (ValidationFailed ''Loop forbidden effect listesi kanonik olmali'')
        else if lo_terminal_states p \<noteq> [LT_BLOCKED, LT_BUDGET_EXHAUSTED, LT_MANUAL_REVIEW, LT_PASSED]
        then Inl (ValidationFailed ''Loop terminal state seti exact ve kapali olmali'')
        else rbind (validate_v2_bindings p) (\<lambda>_. Inr p)))"

definition opt_int :: "int option \<Rightarrow> pyval" where
  "opt_int v = (case v of None \<Rightarrow> PNone | Some i \<Rightarrow> PInt i)"

text \<open>\<^verbatim>\<open>str(self.validator_manifest_id)\<close> of a missing identifier is the text \<^verbatim>\<open>None\<close>.\<close>

definition str_of_uuid :: "uuid option \<Rightarrow> string" where
  "str_of_uuid v = (case v of None \<Rightarrow> ''None'' | Some u \<Rightarrow> u)"

definition measured_v2_body :: "loop_policy \<Rightarrow> pyval" where
  "measured_v2_body p = PDict
     [(PStr ''objective_id'', PStr (str_of_uuid (lo_objective_id p))),
      (PStr ''stable_objective_digest'', opt_text (lo_stable_objective_digest p)),
      (PStr ''measurement_plan_digest'', opt_text (lo_measurement_plan_digest p)),
      (PStr ''validator_manifest_id'', PStr (str_of_uuid (lo_validator_manifest_id p))),
      (PStr ''validator_asset_manifest_digest'', opt_text (lo_validator_asset_manifest_digest p)),
      (PStr ''metric_specs_digest'', opt_text (lo_metric_specs_digest p)),
      (PStr ''stall_limit'', opt_int (lo_stall_limit p)),
      (PStr ''diagnostic_patience'', opt_int (lo_diagnostic_patience p)),
      (PStr ''progress_token_budget'', opt_int (lo_progress_token_budget p)),
      (PStr ''minimum_value_per_cost'', opt_float (lo_minimum_value_per_cost p))]"

definition loop_policy_body :: "loop_policy \<Rightarrow> pyval" where
  "loop_policy_body p = PDict
     ([(PStr ''id'', PStr (lo_id p)), (PStr ''realm_id'', PStr (lo_realm_id p)),
       (PStr ''project_id'', PStr (lo_project_id p)), (PStr ''work_item_id'', PStr (lo_work_item_id p)),
       (PStr ''plan_id'', PStr (lo_plan_id p)), (PStr ''step_id'', PStr (lo_step_id p)),
       (PStr ''assignment_id'', PStr (lo_assignment_id p)), (PStr ''context_manifest_id'', PStr (lo_context_manifest_id p)),
       (PStr ''validator_assignment_id'', PStr (lo_validator_assignment_id p)),
       (PStr ''max_attempts'', PInt (lo_max_attempts p)), (PStr ''max_tokens'', PInt (lo_max_tokens p)),
       (PStr ''max_cost_micros'', PInt (lo_max_cost_micros p)), (PStr ''deadline'', PDatetime (lo_deadline p)),
       (PStr ''validator_spec_digest'', PStr (lo_validator_spec_digest p)),
       (PStr ''required_delta'', PList (map (PStr \<circ> loop_delta_kind_value) (lo_required_delta p))),
       (PStr ''forbidden_effects'', PList (map (PStr \<circ> loop_effect_class_value) (lo_forbidden_effects p))),
       (PStr ''terminal_states'', PList (map (PStr \<circ> loop_terminal_state_value) (lo_terminal_states p))),
       (PStr ''source_revision'', PStr (lo_source_revision p)),
       (PStr ''context_manifest_digest'', PStr (lo_context_manifest_digest p)), (PStr ''plan_digest'', PStr (lo_plan_digest p)),
       (PStr ''policy_revision_digest'', PStr (lo_policy_revision_digest p)),
       (PStr ''canonical_effect_kind'', PStr (lo_canonical_effect_kind p)),
       (PStr ''created_at'', PDatetime (lo_created_at p)), (PStr ''grants_authority'', PBool False)]
      @ (if lo_objective_id p \<noteq> None then [(PStr ''measured_v2'', measured_v2_body p)] else []))"

definition loop_policy_digest :: "loop_policy \<Rightarrow> string res" where
  "loop_policy_digest p = digest (loop_policy_body p)"

section \<open>Requests for an attempt\<close>

record loop_attempt_request =
  lr_loop_id :: uuid
  lr_prompt_digest :: string
  lr_context_digest :: string
  lr_action_digest :: string
  lr_source_revision :: string
  lr_plan_digest :: string
  lr_policy_revision_digest :: string
  lr_validator_spec_digest :: string
  lr_reserved_input_tokens :: int
  lr_reserved_output_tokens :: int
  lr_reserved_cost_micros :: int
  lr_predecessor_attempt_id :: "uuid option"
  lr_delta_evidence_ids :: "uuid list"
  lr_attempt_ordinal :: int
  lr_objective_digest :: "string option"
  lr_validator_asset_manifest_digest :: "string option"
  lr_progress_packet_digest :: "string option"
  lr_metric_vector_digest :: "string option"
  lr_novelty_digest :: "string option"
  lr_novelty :: "novelty_fingerprint option"

definition request_measured :: "loop_attempt_request \<Rightarrow> bool" where
  "request_measured r =
     (lr_objective_digest r \<noteq> None \<or> lr_validator_asset_manifest_digest r \<noteq> None \<or> lr_progress_packet_digest r \<noteq> None
      \<or> lr_metric_vector_digest r \<noteq> None \<or> lr_novelty_digest r \<noteq> None \<or> lr_novelty r \<noteq> None)"

definition parse_present :: "string option list \<Rightarrow> unit res" where
  "parse_present vs = parse_all (List.map_filter (\<lambda>v. v) vs)"

definition check_attempt_request :: "loop_attempt_request \<Rightarrow> loop_attempt_request res" where
  "check_attempt_request r =
     rbind (parse_all [lr_prompt_digest r, lr_context_digest r, lr_action_digest r, lr_plan_digest r,
                       lr_policy_revision_digest r, lr_validator_spec_digest r]) (\<lambda>_.
     if blank (lr_source_revision r) then Inl (ValidationFailed ''Loop attempt source revision bos olamaz'')
     else if min (lr_reserved_input_tokens r) (min (lr_reserved_output_tokens r) (lr_reserved_cost_micros r)) < 0
     then Inl (ValidationFailed ''Loop reservation negatif olamaz'')
     else if lr_reserved_input_tokens r + lr_reserved_output_tokens r < 1
     then Inl (ValidationFailed ''Loop attempt pozitif token reservation ister'')
     else if \<not> canonical_tuple (lr_delta_evidence_ids r)
     then Inl (ValidationFailed ''Loop evidence kimlikleri kanonik ve unique olmali'')
     else if lr_attempt_ordinal r < 1 then Inl (ValidationFailed ''Loop attempt ordinal 1'den kucuk olamaz'')
     else rbind (parse_present [lr_objective_digest r, lr_validator_asset_manifest_digest r,
              lr_progress_packet_digest r, lr_metric_vector_digest r, lr_novelty_digest r]) (\<lambda>_.
       if request_measured r \<and> (lr_objective_digest r = None \<or> lr_validator_asset_manifest_digest r = None
            \<or> lr_novelty_digest r = None \<or> lr_novelty r = None)
       then Inl (ValidationFailed ''Measured loop attempt exact canonical novelty ister'')
       else if (case lr_novelty r of None \<Rightarrow> False
              | Some n \<Rightarrow> lr_novelty_digest r \<noteq> Some (nf_novelty_digest n) \<or> lr_objective_digest r \<noteq> Some (nf_objective_digest n))
       then Inl (ValidationFailed ''Measured loop novelty body/digest/objective drift'')
       else if request_measured r \<and> lr_attempt_ordinal r = 1
            \<and> (lr_predecessor_attempt_id r \<noteq> None \<or> lr_progress_packet_digest r \<noteq> None \<or> lr_metric_vector_digest r \<noteq> None)
       then Inl (ValidationFailed ''Ilk measured loop attempt predecessor/progress tasiyamaz'')
       else if lr_attempt_ordinal r > 1
            \<and> (lr_predecessor_attempt_id r = None \<or> lr_objective_digest r = None
               \<or> lr_validator_asset_manifest_digest r = None \<or> lr_progress_packet_digest r = None
               \<or> lr_metric_vector_digest r = None \<or> lr_novelty_digest r = None)
       then Inl (ValidationFailed ''Loop attempt 2+ exact progress/novelty binding ister'')
       else Inr r))"

definition semantic_request_digest :: "loop_attempt_request \<Rightarrow> string res" where
  "semantic_request_digest r =
     (case lr_novelty_digest r of
        Some d \<Rightarrow> Inr d
      | None \<Rightarrow> digest (PDict [(PStr ''prompt_digest'', PStr (lr_prompt_digest r)),
          (PStr ''context_digest'', PStr (lr_context_digest r)), (PStr ''action_digest'', PStr (lr_action_digest r))]))"

definition attempt_binding_digest :: "loop_attempt_request \<Rightarrow> string res" where
  "attempt_binding_digest r = digest (PDict
     ([(PStr ''source_revision'', PStr (lr_source_revision r)), (PStr ''plan_digest'', PStr (lr_plan_digest r)),
       (PStr ''policy_revision_digest'', PStr (lr_policy_revision_digest r)),
       (PStr ''validator_spec_digest'', PStr (lr_validator_spec_digest r)),
       (PStr ''predecessor_attempt_id'', opt_text (lr_predecessor_attempt_id r))]
      @ (if lr_attempt_ordinal r \<noteq> 1 \<or> request_measured r
         then [(PStr ''measured_v2'', PDict
           [(PStr ''attempt_ordinal'', PInt (lr_attempt_ordinal r)),
            (PStr ''objective_digest'', opt_text (lr_objective_digest r)),
            (PStr ''validator_asset_manifest_digest'', opt_text (lr_validator_asset_manifest_digest r)),
            (PStr ''progress_packet_digest'', opt_text (lr_progress_packet_digest r)),
            (PStr ''metric_vector_digest'', opt_text (lr_metric_vector_digest r)),
            (PStr ''novelty_digest'', opt_text (lr_novelty_digest r)),
            (PStr ''novelty_body'', (case lr_novelty r of None \<Rightarrow> PNone | Some n \<Rightarrow> fingerprint_body n))])]
         else [])))"

definition delta_digest :: "loop_attempt_request \<Rightarrow> string res" where
  "delta_digest r = digest (PList (map PStr (lr_delta_evidence_ids r)))"

section \<open>Admissions and validations\<close>

record loop_admission =
  ad_admitted :: bool
  ad_loop_id :: uuid
  ad_attempt_id :: "uuid option"
  ad_ordinal :: "int option"
  ad_terminal_state :: "loop_terminal_state option"
  ad_reason :: string
  ad_decision_digest :: string
  ad_grants_authority :: bool

definition check_admission :: "loop_admission \<Rightarrow> loop_admission res" where
  "check_admission a =
     (if ad_grants_authority a then Inl (PolicyViolation ''Loop admission authority veremez'')
      else rbind (parse_digest (ad_decision_digest a)) (\<lambda>_.
        if ad_admitted a \<noteq> (ad_attempt_id a \<noteq> None \<and> ad_ordinal a \<noteq> None)
        then Inl (ValidationFailed ''Loop admission attempt binding tutarsiz'')
        else if ad_admitted a \<and> ad_terminal_state a \<noteq> None
        then Inl (ValidationFailed ''Admitted loop terminal state tasiyamaz'')
        else if \<not> ad_admitted a \<and> ad_terminal_state a = None
        then Inl (ValidationFailed ''Reddedilen loop terminal state ister'')
        else Inr a))"

record loop_validation =
  lv_outcome :: loop_attempt_outcome
  lv_validator_spec_digest :: string
  lv_actual_input_tokens :: int
  lv_actual_output_tokens :: int
  lv_actual_cost_micros :: int
  lv_result_invocation_id :: uuid
  lv_verifier_invocation_id :: uuid
  lv_effect_receipt_id :: "uuid option"
  lv_metric_evidence_refs :: "string list"
  lv_metric_vector_digest :: "string option"
  lv_progress_state :: "progress_state option"
  lv_progress_decision_digest :: "string option"
  lv_progress_packet_digest :: "string option"
  lv_producer_self_report :: bool
  lv_hard_guard_regressed :: bool

definition validation_measured :: "loop_validation \<Rightarrow> bool" where
  "validation_measured v =
     (lv_metric_evidence_refs v \<noteq> [] \<or> lv_metric_vector_digest v \<noteq> None \<or> lv_progress_state v \<noteq> None
      \<or> lv_progress_decision_digest v \<noteq> None \<or> lv_progress_packet_digest v \<noteq> None)"

definition check_validation :: "loop_validation \<Rightarrow> loop_validation res" where
  "check_validation v =
     rbind (parse_digest (lv_validator_spec_digest v)) (\<lambda>_.
     if min (lv_actual_input_tokens v) (min (lv_actual_output_tokens v) (lv_actual_cost_micros v)) < 0
     then Inl (ValidationFailed ''Loop actual usage negatif olamaz'')
     else if validation_measured v then
       (if lv_metric_evidence_refs v = [] \<or> lv_metric_vector_digest v = None \<or> lv_progress_state v = None
            \<or> lv_progress_decision_digest v = None \<or> lv_progress_packet_digest v = None
        then Inl (ValidationFailed ''Loop validation v2 metric bindingleri exact olmali'')
        else if \<not> canonical_tuple (lv_metric_evidence_refs v)
        then Inl (ValidationFailed ''Loop metric evidence refs kanonik ve unique olmali'')
        else if list_ex blank (lv_metric_evidence_refs v)
        then Inl (ValidationFailed ''Loop metric evidence ref bos olamaz'')
        else rbind (parse_present [lv_metric_vector_digest v, lv_progress_decision_digest v,
                                   lv_progress_packet_digest v]) (\<lambda>_. Inr v))
     else if lv_producer_self_report v \<or> lv_hard_guard_regressed v
     then Inl (ValidationFailed ''Loop validation v2 guard bayraklari metric binding ister'')
     else Inr v)"

definition measured_progress :: "loop_validation \<Rightarrow> bool" where
  "measured_progress v =
     (lv_progress_state v \<in> {Some IMPROVED, Some TARGET_REACHED} \<and> \<not> lv_producer_self_report v
      \<and> \<not> lv_hard_guard_regressed v)"

fun outcome_terminal_state :: "loop_attempt_outcome \<Rightarrow> loop_terminal_state option" where
  "outcome_terminal_state LO_PASSED = Some LT_PASSED"
| "outcome_terminal_state LO_BLOCKED = Some LT_BLOCKED"
| "outcome_terminal_state LO_MANUAL_REVIEW = Some LT_MANUAL_REVIEW"
| "outcome_terminal_state LO_RETRYABLE_FAILURE = None"

definition validation_terminal_state :: "loop_validation \<Rightarrow> loop_terminal_state option" where
  "validation_terminal_state v = outcome_terminal_state (lv_outcome v)"

end
