(* ===== verification/Security.thy ===== *)
theory Security
  imports Runtime
begin

text \<open>
  The security domain (\<^verbatim>\<open>domain/security.py\<close>): data classes, secret values and their redaction,
  references to secrets, exact one-shot authorizations with their scope, and outbound requests.
  A record is followed by the check of its \<^verbatim>\<open>__post_init__\<close>; the identifiers drawn with
  \<^verbatim>\<open>new_uuid7\<close> and the moment are arguments. Instants are timezone-aware.
\<close>

section \<open>Classifications and states\<close>

datatype data_classification = DC_PUBLIC | DC_INTERNAL | DC_CONFIDENTIAL | DC_RESTRICTED | DC_SECRET | DC_LOCAL_ONLY

fun data_classification_value :: "data_classification \<Rightarrow> string" where
  "data_classification_value DC_PUBLIC = ''public''"
| "data_classification_value DC_INTERNAL = ''internal''"
| "data_classification_value DC_CONFIDENTIAL = ''confidential''"
| "data_classification_value DC_RESTRICTED = ''restricted''"
| "data_classification_value DC_SECRET = ''secret''"
| "data_classification_value DC_LOCAL_ONLY = ''local-only''"

definition NEVER_OUTBOUND :: "data_classification list" where
  "NEVER_OUTBOUND = [DC_SECRET, DC_LOCAL_ONLY]"

definition REVIEW_REQUIRED_OUTBOUND :: "data_classification list" where
  "REVIEW_REQUIRED_OUTBOUND = [DC_RESTRICTED]"

datatype secret_status = SECRET_ACTIVE | SECRET_ROTATING | SECRET_REVOKED

fun secret_status_value :: "secret_status \<Rightarrow> string" where
  "secret_status_value SECRET_ACTIVE = ''active''"
| "secret_status_value SECRET_ROTATING = ''rotating''"
| "secret_status_value SECRET_REVOKED = ''revoked''"

datatype secret_backend = SB_ENVIRONMENT | SB_OS_KEYCHAIN | SB_VAULT | SB_KMS | SB_LOCAL_ENCRYPTED

fun secret_backend_value :: "secret_backend \<Rightarrow> string" where
  "secret_backend_value SB_ENVIRONMENT = ''environment''"
| "secret_backend_value SB_OS_KEYCHAIN = ''os-keychain''"
| "secret_backend_value SB_VAULT = ''vault''"
| "secret_backend_value SB_KMS = ''kms''"
| "secret_backend_value SB_LOCAL_ENCRYPTED = ''local-encrypted''"

datatype authorization_state = AS_ISSUED | AS_CONSUMED | AS_REVOKED | AS_EXPIRED

fun authorization_state_value :: "authorization_state \<Rightarrow> string" where
  "authorization_state_value AS_ISSUED = ''issued''"
| "authorization_state_value AS_CONSUMED = ''consumed''"
| "authorization_state_value AS_REVOKED = ''revoked''"
| "authorization_state_value AS_EXPIRED = ''expired''"

datatype outbound_state = OS_PREPARED | OS_APPROVED | OS_EXECUTED | OS_DENIED

fun outbound_state_value :: "outbound_state \<Rightarrow> string" where
  "outbound_state_value OS_PREPARED = ''prepared''"
| "outbound_state_value OS_APPROVED = ''approved''"
| "outbound_state_value OS_EXECUTED = ''executed''"
| "outbound_state_value OS_DENIED = ''denied''"

section \<open>Secret values\<close>

definition REDACTED :: string where
  "REDACTED = ''***''"

definition MIN_REDACTABLE_LENGTH :: nat where
  "MIN_REDACTABLE_LENGTH = 4"

record secret_value =
  sv_value :: string
  sv_cleared :: bool

definition new_secret :: "string \<Rightarrow> secret_value res" where
  "new_secret value =
     (if value = [] then Inl (ValidationFailed ''Secret degeri bos olamaz'')
      else Inr \<lparr>sv_value = value, sv_cleared = False\<rparr>)"

definition reveal :: "secret_value \<Rightarrow> string res" where
  "reveal s = (if sv_cleared s then Inl (PolicyViolation ''Secret degeri temizlenmis'') else Inr (sv_value s))"

definition clear_secret :: "secret_value \<Rightarrow> secret_value" where
  "clear_secret s = s\<lparr>sv_value := '''', sv_cleared := True\<rparr>"

text \<open>\<^verbatim>\<open>__repr__\<close>, \<^verbatim>\<open>__str__\<close> and \<^verbatim>\<open>__format__\<close>.\<close>

definition secret_repr :: "secret_value \<Rightarrow> string" where
  "secret_repr s = ''SecretValue('' @ REDACTED @ '')''"

definition secret_str :: "secret_value \<Rightarrow> string" where
  "secret_str s = REDACTED"

definition secret_eq :: "secret_value \<Rightarrow> secret_value \<Rightarrow> bool" where
  "secret_eq s t = (sv_value s = sv_value t)"

definition secret_bool :: "secret_value \<Rightarrow> bool" where
  "secret_bool s = (sv_value s \<noteq> [])"

text \<open>A secret can be neither hashed nor serialised.\<close>

definition secret_hash :: "secret_value \<Rightarrow> int res" where
  "secret_hash s = Inl (PyError ''TypeError'')"

definition secret_reduce :: "secret_value \<Rightarrow> pyval res" where
  "secret_reduce s = Inl (PyError ''TypeError'')"

text \<open>\<^verbatim>\<open>str.replace\<close> for a text that is not empty: occurrences are replaced from the left and do not overlap.\<close>

function replace_all :: "string \<Rightarrow> string \<Rightarrow> string \<Rightarrow> string" where
  "replace_all old new [] = []"
| "replace_all old new (c # s) =
     (if old = [] then c # s
      else if starts_with (c # s) old then new @ replace_all old new (drop (length old) (c # s))
      else c # replace_all old new s)"
  by pat_completeness auto
termination
  by (relation "measure (\<lambda>(_, _, s). length s)") auto

fun redact :: "string \<Rightarrow> secret_value list \<Rightarrow> string res" where
  "redact text [] = Inr text"
| "redact text (s # ss) =
     (if sv_cleared s then redact text ss
      else rbind (reveal s) (\<lambda>value.
        redact (if length value \<ge> MIN_REDACTABLE_LENGTH then replace_all value REDACTED text else text) ss))"

section \<open>References to secrets\<close>

definition opt_uuid :: "uuid option \<Rightarrow> pyval" where
  "opt_uuid u = (case u of None \<Rightarrow> PNone | Some i \<Rightarrow> PStr i)"

definition opt_instant :: "int option \<Rightarrow> pyval" where
  "opt_instant t = (case t of None \<Rightarrow> PNone | Some m \<Rightarrow> PDatetime (Aware m))"

record secret_ref =
  sr_id :: uuid
  sr_realm_id :: uuid
  sr_name :: string
  sr_provider :: string
  sr_purpose :: string
  sr_allowed_operations :: "string list"
  sr_store_backend :: secret_backend
  sr_store_locator :: string
  sr_project_id :: "uuid option"
  sr_version :: int
  sr_status :: secret_status
  sr_expires_at :: "int option"
  sr_created_at :: int

definition check_secret_ref :: "secret_ref \<Rightarrow> secret_ref res" where
  "check_secret_ref r =
     (if sr_allowed_operations r = [] then Inl (ValidationFailed ''SecretRef en az bir izinli operasyon tasimali'')
      else if blank (sr_purpose r) then Inl (ValidationFailed ''SecretRef amaci bos olamaz'')
      else if blank (sr_store_locator r) then Inl (ValidationFailed ''SecretRef store locator bos olamaz'')
      else if sr_version r < 1 then Inl (ValidationFailed ''SecretRef surumu 1'den kucuk olamaz'')
      else Inr r)"

text \<open>The keyword arguments of \<^verbatim>\<open>SecretRef.create\<close> are the fields of the given record; its id, status
  and creation time are set here.\<close>

definition secret_ref_create :: "uuid \<Rightarrow> int \<Rightarrow> secret_ref \<Rightarrow> secret_ref res" where
  "secret_ref_create new_id moment r = check_secret_ref (r\<lparr>sr_id := new_id,
     sr_allowed_operations := sort (sr_allowed_operations r), sr_status := SECRET_ACTIVE, sr_created_at := moment\<rparr>)"

definition secret_is_usable :: "secret_ref \<Rightarrow> int \<Rightarrow> bool" where
  "secret_is_usable r moment =
     (sr_status r = SECRET_ACTIVE \<and> (case sr_expires_at r of None \<Rightarrow> True | Some t \<Rightarrow> t > moment))"

definition secret_permits :: "secret_ref \<Rightarrow> string \<Rightarrow> bool" where
  "secret_permits r operation = (operation \<in> set (sr_allowed_operations r))"

definition secret_ref_body :: "secret_ref \<Rightarrow> (pyval \<times> pyval) list" where
  "secret_ref_body r =
     [(PStr ''name'', PStr (sr_name r)), (PStr ''provider'', PStr (sr_provider r)),
      (PStr ''purpose'', PStr (sr_purpose r)),
      (PStr ''allowed_operations'', PList (map PStr (sr_allowed_operations r))),
      (PStr ''store_backend'', PStr (secret_backend_value (sr_store_backend r))),
      (PStr ''store_locator'', PStr (sr_store_locator r)),
      (PStr ''project_id'', opt_uuid (sr_project_id r)), (PStr ''version'', PInt (sr_version r))]"

definition metadata_digest :: "secret_ref \<Rightarrow> string res" where
  "metadata_digest r = digest (PDict (secret_ref_body r))"

definition secret_ref_as_dict :: "secret_ref \<Rightarrow> (pyval \<times> pyval) list res" where
  "secret_ref_as_dict r = rbind (metadata_digest r) (\<lambda>d. Inr (secret_ref_body r @
     [(PStr ''id'', PStr (sr_id r)), (PStr ''status'', PStr (secret_status_value (sr_status r))),
      (PStr ''expires_at'', opt_instant (sr_expires_at r)), (PStr ''metadata_digest'', PStr d)]))"

section \<open>Authorizations\<close>

record authorization_scope =
  as_resources :: "string list"
  as_read_resources :: "string list"
  as_write_resources :: "string list"
  as_effects :: "string list"
  as_provider_refs :: "string list"
  as_secret_ref_ids :: "uuid list"
  as_data_classifications :: "data_classification list"

definition check_scope :: "authorization_scope \<Rightarrow> authorization_scope res" where
  "check_scope s =
     (if as_effects s = [] then Inl (ValidationFailed ''Yetki en az bir etki turu icermeli'') else Inr s)"

text \<open>An entry matches a resource when they are equal, or when it ends in a star and the resource
  starts with the rest of the entry.\<close>

definition resource_pattern :: "string \<Rightarrow> string \<Rightarrow> bool" where
  "resource_pattern allowed resource =
     (allowed = resource \<or> (allowed \<noteq> [] \<and> last allowed = CHR ''*'' \<and> starts_with resource (butlast allowed)))"

definition covers_resource :: "authorization_scope \<Rightarrow> string \<Rightarrow> bool" where
  "covers_resource s resource = list_ex (\<lambda>allowed. resource_pattern allowed resource) (as_resources s)"

definition covers_read :: "authorization_scope \<Rightarrow> string \<Rightarrow> bool" where
  "covers_read s resource = (resource \<in> set (as_read_resources s))"

definition covers_write :: "authorization_scope \<Rightarrow> string \<Rightarrow> bool" where
  "covers_write s resource = (resource \<in> set (as_write_resources s))"

definition covers_effect :: "authorization_scope \<Rightarrow> string \<Rightarrow> bool" where
  "covers_effect s effect = (effect \<in> set (as_effects s))"

definition scope_body :: "authorization_scope \<Rightarrow> (pyval \<times> pyval) list" where
  "scope_body s =
     [(PStr ''allowed_resources'', PList (map PStr (sort (as_resources s)))),
      (PStr ''allowed_effects'', PList (map PStr (sort (as_effects s)))),
      (PStr ''provider_refs'', PList (map PStr (sort (as_provider_refs s)))),
      (PStr ''secret_ref_ids'', PList (map PStr (sort (as_secret_ref_ids s)))),
      (PStr ''data_classifications'',
        PList (map PStr (sort (map data_classification_value (as_data_classifications s)))))]
     @ (if as_read_resources s \<noteq> [] \<or> as_write_resources s \<noteq> []
        then [(PStr ''allowed_read_resources'', PList (map PStr (sort (as_read_resources s)))),
              (PStr ''allowed_write_resources'', PList (map PStr (sort (as_write_resources s))))]
        else [])"

record authorization =
  au_id :: uuid
  au_realm_id :: uuid
  au_actor_id :: uuid
  au_plan_digest :: string
  au_effect_digest :: string
  au_scope :: authorization_scope
  au_risk :: string
  au_issued_at :: int
  au_expires_at :: int
  au_work_item_id :: "uuid option"
  au_plan_id :: "uuid option"
  au_state :: authorization_state
  au_consumed_at :: "int option"
  au_consumed_by :: "string option"
  au_revoked_at :: "int option"
  au_revocation_reason :: "string option"

definition check_authorization :: "authorization \<Rightarrow> authorization res" where
  "check_authorization a =
     rbind (parse_digest (au_plan_digest a)) (\<lambda>_.
     rbind (parse_digest (au_effect_digest a)) (\<lambda>_.
     if au_expires_at a \<le> au_issued_at a
     then Inl (ValidationFailed ''Yetki suresi verilis aninin sonrasinda olmali'') else Inr a))"

definition authorization_issue ::
  "uuid \<Rightarrow> int \<Rightarrow> uuid \<Rightarrow> uuid \<Rightarrow> string \<Rightarrow> string \<Rightarrow> authorization_scope \<Rightarrow> string \<Rightarrow> int
   \<Rightarrow> uuid option \<Rightarrow> uuid option \<Rightarrow> authorization res" where
  "authorization_issue new_id moment realm_id actor_id plan_digest effect_digest scope risk lifetime
       work_item_id plan_id =
     rbind (add_delta moment lifetime) (\<lambda>expires.
     check_authorization \<lparr>au_id = new_id, au_realm_id = realm_id, au_actor_id = actor_id,
       au_plan_digest = plan_digest, au_effect_digest = effect_digest, au_scope = scope, au_risk = risk,
       au_issued_at = moment, au_expires_at = expires, au_work_item_id = work_item_id, au_plan_id = plan_id,
       au_state = AS_ISSUED, au_consumed_at = None, au_consumed_by = None, au_revoked_at = None,
       au_revocation_reason = None\<rparr>)"

definition authorization_is_valid_at :: "authorization \<Rightarrow> int \<Rightarrow> bool" where
  "authorization_is_valid_at a moment =
     (au_state a = AS_ISSUED \<and> au_issued_at a \<le> moment \<and> moment < au_expires_at a)"

definition rejection_reason :: "authorization \<Rightarrow> int \<Rightarrow> string option" where
  "rejection_reason a moment =
     (if au_state a = AS_CONSUMED then Some ''authorization-already-consumed''
      else if au_state a = AS_REVOKED then Some ''authorization-revoked''
      else if au_state a = AS_EXPIRED \<or> au_expires_at a \<le> moment then Some ''authorization-expired''
      else if moment < au_issued_at a then Some ''authorization-not-yet-valid''
      else None)"

definition authorization_body :: "authorization \<Rightarrow> (pyval \<times> pyval) list" where
  "authorization_body a =
     [(PStr ''actor_id'', PStr (au_actor_id a)), (PStr ''work_item_id'', opt_uuid (au_work_item_id a)),
      (PStr ''plan_digest'', PStr (au_plan_digest a)), (PStr ''effect_digest'', PStr (au_effect_digest a)),
      (PStr ''scope'', PDict (scope_body (au_scope a))), (PStr ''risk'', PStr (au_risk a)),
      (PStr ''issued_at'', PDatetime (Aware (au_issued_at a))),
      (PStr ''expires_at'', PDatetime (Aware (au_expires_at a)))]"

definition authorization_digest :: "authorization \<Rightarrow> string res" where
  "authorization_digest a = digest (PDict (authorization_body a))"

definition authorization_as_dict :: "authorization \<Rightarrow> (pyval \<times> pyval) list res" where
  "authorization_as_dict a = rbind (authorization_digest a) (\<lambda>d. Inr (authorization_body a @
     [(PStr ''id'', PStr (au_id a)), (PStr ''state'', PStr (authorization_state_value (au_state a))),
      (PStr ''consumed_at'', opt_instant (au_consumed_at a)), (PStr ''revoked_at'', opt_instant (au_revoked_at a)),
      (PStr ''revocation_reason'', opt_text (au_revocation_reason a)), (PStr ''authorization_digest'', PStr d)]))"

section \<open>Outbound requests\<close>

record outbound_request =
  ou_id :: uuid
  ou_realm_id :: uuid
  ou_provider_ref :: string
  ou_endpoint_ref :: string
  ou_operation :: string
  ou_payload_digest :: string
  ou_request_identity :: string
  ou_data_categories :: "data_classification list"
  ou_retention_assumption :: string
  ou_region :: string
  ou_authorization_id :: "uuid option"
  ou_state :: outbound_state
  ou_denial_reason :: "string option"
  ou_created_at :: int

definition check_outbound :: "outbound_request \<Rightarrow> outbound_request res" where
  "check_outbound r =
     rbind (parse_digest (ou_payload_digest r)) (\<lambda>_.
     if blank (ou_provider_ref r) then Inl (ValidationFailed ''Provider referansi bos olamaz'')
     else if blank (ou_endpoint_ref r) then Inl (ValidationFailed ''Endpoint referansi bos olamaz'')
     else if blank (ou_operation r) then Inl (ValidationFailed ''Operasyon bos olamaz'')
     else if blank (ou_request_identity r) then Inl (ValidationFailed ''Istek kimligi bos olamaz'')
     else Inr r)"

text \<open>The keyword arguments of \<^verbatim>\<open>OutboundRequest.prepare\<close> are the fields of the given record.\<close>

definition outbound_prepare :: "uuid \<Rightarrow> int \<Rightarrow> outbound_request \<Rightarrow> outbound_request res" where
  "outbound_prepare new_id moment r = check_outbound (r\<lparr>ou_id := new_id,
     ou_data_categories := sort_key data_classification_value (remdups (ou_data_categories r)),
     ou_authorization_id := None, ou_state := OS_PREPARED, ou_denial_reason := None, ou_created_at := moment\<rparr>)"

definition outbound_target :: "outbound_request \<Rightarrow> string" where
  "outbound_target r = ou_provider_ref r @ '':'' @ ou_endpoint_ref r @ '':'' @ ou_operation r"

definition blocking_classifications :: "outbound_request \<Rightarrow> data_classification list" where
  "blocking_classifications r = filter (\<lambda>c. c \<in> set NEVER_OUTBOUND) (ou_data_categories r)"

definition review_required_classifications :: "outbound_request \<Rightarrow> data_classification list" where
  "review_required_classifications r = filter (\<lambda>c. c \<in> set REVIEW_REQUIRED_OUTBOUND) (ou_data_categories r)"

definition outbound_with_state ::
  "outbound_request \<Rightarrow> outbound_state \<Rightarrow> uuid option \<Rightarrow> string option \<Rightarrow> outbound_request res" where
  "outbound_with_state r state authorization_id denial_reason = check_outbound (r\<lparr>
     ou_authorization_id := (case authorization_id of None \<Rightarrow> ou_authorization_id r | Some i \<Rightarrow> Some i),
     ou_state := state, ou_denial_reason := denial_reason\<rparr>)"

definition outbound_as_dict :: "outbound_request \<Rightarrow> (pyval \<times> pyval) list" where
  "outbound_as_dict r =
     [(PStr ''id'', PStr (ou_id r)), (PStr ''provider_ref'', PStr (ou_provider_ref r)),
      (PStr ''endpoint_ref'', PStr (ou_endpoint_ref r)), (PStr ''operation'', PStr (ou_operation r)),
      (PStr ''payload_digest'', PStr (ou_payload_digest r)),
      (PStr ''request_identity'', PStr (ou_request_identity r)),
      (PStr ''data_categories'', PList (map (PStr \<circ> data_classification_value) (ou_data_categories r))),
      (PStr ''retention_assumption'', PStr (ou_retention_assumption r)), (PStr ''region'', PStr (ou_region r)),
      (PStr ''authorization_id'', opt_uuid (ou_authorization_id r)),
      (PStr ''state'', PStr (outbound_state_value (ou_state r))),
      (PStr ''denial_reason'', opt_text (ou_denial_reason r))]"

section \<open>What redaction hides\<close>

lemma starts_with_Nil [simp]: "starts_with s []"
  by (simp add: starts_with_def)

lemma starts_with_Cons: "starts_with (c # s) (d # p) \<longleftrightarrow> c = d \<and> starts_with s p"
  by (auto simp: starts_with_def)

lemma starts_with_empty: "starts_with [] p \<longleftrightarrow> p = []"
  by (auto simp: starts_with_def)

lemma contains_sub_drop: "contains_sub (drop n s) p \<Longrightarrow> contains_sub s p"
proof (induction n arbitrary: s)
  case (Suc n)
  then show ?case by (cases s) auto
qed simp

text \<open>Text that came out of a replacement starts with a star, so a word without stars that begins in
  the new body began at the same place of the old one.\<close>

lemma starts_with_replace_all:
  "CHR ''*'' \<notin> set v \<Longrightarrow> starts_with (replace_all old REDACTED s) v \<Longrightarrow> starts_with s v"
proof (induction old REDACTED s arbitrary: v rule: replace_all.induct)
  case (2 old c s)
  then show ?case by (cases v) (auto simp: starts_with_Cons REDACTED_def split: if_splits)
qed simp

lemma starts_with_marked:
  assumes "starts_with (REDACTED @ r) v" "CHR ''*'' \<notin> set v"
  shows "v = []"
  using assms by (cases v) (auto simp: REDACTED_def starts_with_Cons)

lemma contains_sub_marked:
  assumes "contains_sub (REDACTED @ r) v" "CHR ''*'' \<notin> set v" "v \<noteq> []"
  shows "contains_sub r v"
  using assms by (cases v) (auto simp: REDACTED_def starts_with_Cons)

lemma contains_sub_replace_all:
  "CHR ''*'' \<notin> set v \<Longrightarrow> v \<noteq> [] \<Longrightarrow> contains_sub (replace_all old REDACTED s) v \<Longrightarrow> contains_sub s v"
proof (induction old REDACTED s rule: replace_all.induct)
  case (2 old c s)
  consider (none) "old = []" | (hit) "old \<noteq> []" "starts_with (c # s) old" | (miss) "old \<noteq> []" "\<not> starts_with (c # s) old" by blast
  then show ?case
  proof cases
    case hit
    with "2.prems" hit have "contains_sub (replace_all old REDACTED (drop (length old) (c # s))) v"
      by (auto dest: contains_sub_marked simp del: contains_sub.simps)
    with "2.hyps"(1) [OF hit "2.prems"(1,2)] show ?thesis using contains_sub_drop by blast
  next
    case miss
    with "2.prems" have "starts_with (c # replace_all old REDACTED s) v \<or> contains_sub (replace_all old REDACTED s) v"
      by simp
    moreover have "starts_with (c # replace_all old REDACTED s) v \<Longrightarrow> starts_with (c # s) v"
      using starts_with_replace_all [of v old "c # s"] "2.prems"(1) miss by simp
    ultimately show ?thesis using "2.hyps"(2) [OF miss "2.prems"(1,2)] by auto
  qed (use "2.prems" in simp)
qed simp

lemma replace_all_removes:
  "CHR ''*'' \<notin> set old \<Longrightarrow> old \<noteq> [] \<Longrightarrow> \<not> contains_sub (replace_all old REDACTED s) old"
proof (induction old REDACTED s rule: replace_all.induct)
  case (2 old c s)
  show ?case
  proof (cases "starts_with (c # s) old")
    case True
    with 2 show ?thesis by (auto dest!: contains_sub_marked simp del: contains_sub.simps)
  next
    case False
    with "2.prems" starts_with_replace_all [of old old "c # s"]
    have "\<not> starts_with (c # replace_all old REDACTED s) old" by auto
    with False 2 show ?thesis by simp
  qed
qed simp

definition hidden_in :: "string \<Rightarrow> secret_value \<Rightarrow> bool" where
  "hidden_in body s =
     (sv_cleared s \<or> length (sv_value s) < MIN_REDACTABLE_LENGTH \<or> CHR ''*'' \<in> set (sv_value s)
      \<or> \<not> contains_sub body (sv_value s))"

lemma hidden_in_replace:
  "hidden_in body s \<Longrightarrow> hidden_in (replace_all value REDACTED body) s"
  unfolding hidden_in_def MIN_REDACTABLE_LENGTH_def using contains_sub_replace_all by fastforce

lemma redact_keeps_hidden: "redact body ss = Inr out \<Longrightarrow> hidden_in body s \<Longrightarrow> hidden_in out s"
  by (induction body ss rule: redact.induct) (auto simp: reveal_def hidden_in_replace split: if_splits)

lemma redact_hides: "redact body ss = Inr out \<Longrightarrow> s \<in> set ss \<Longrightarrow> hidden_in out s"
proof (induction body ss rule: redact.induct)
  case (2 body t ss)
  show ?case
  proof (cases "s = t")
    case True
    have "hidden_in (replace_all (sv_value t) REDACTED body) t"
      using replace_all_removes [of "sv_value t" body]
      by (cases "sv_value t = []") (auto simp: hidden_in_def MIN_REDACTABLE_LENGTH_def)
    with True "2.prems" show ?thesis
      using redact_keeps_hidden by (fastforce simp: reveal_def hidden_in_def split: if_splits)
  next
    case False
    with 2 show ?thesis by (auto simp: reveal_def split: if_splits)
  qed
qed simp

lemma redact_total: "\<exists>out. redact body ss = Inr out"
  by (induction body ss rule: redact.induct) (auto simp: reveal_def)

text \<open>C37. \<^verbatim>\<open>redact\<close> never raises, and in its result no secret of at least four characters that has
  not been cleared and contains no star occurs, whatever the other secrets are and in whichever order
  they are replaced.\<close>

theorem redact_hides_every_secret:
  "\<exists>out. redact body secrets = Inr out \<and>
     (\<forall>s \<in> set secrets. \<not> sv_cleared s \<longrightarrow> 4 \<le> length (sv_value s) \<longrightarrow> CHR ''*'' \<notin> set (sv_value s)
        \<longrightarrow> \<not> contains_sub out (sv_value s))"
proof -
  obtain out where out: "redact body secrets = Inr out" using redact_total by blast
  then show ?thesis
    using redact_hides [OF out] by (fastforce simp: hidden_in_def MIN_REDACTABLE_LENGTH_def)
qed

theorem redact_hides_every_secret_witness:
  "\<exists>out. redact ''key=hunter2; again hunter2'' [\<lparr>sv_value = ''hunter2'', sv_cleared = False\<rparr>] = Inr out
     \<and> out = ''key=***; again ***'' \<and> \<not> contains_sub out ''hunter2''"
proof -
  have shown: "redact ''key=hunter2; again hunter2'' [\<lparr>sv_value = ''hunter2'', sv_cleared = False\<rparr>]
      = Inr ''key=***; again ***''" by code_simp
  then show ?thesis
    using redact_hides_every_secret [of "''key=hunter2; again hunter2''" "[\<lparr>sv_value = ''hunter2'', sv_cleared = False\<rparr>]"]
    by auto
qed

text \<open>The reasons of a rejection are complete: there is none exactly when the authorization is valid.\<close>

lemma rejection_reason_None: "rejection_reason a moment = None \<longleftrightarrow> authorization_is_valid_at a moment"
  by (cases "au_state a") (auto simp: rejection_reason_def authorization_is_valid_at_def)

end
