(* ===== verification/Work.thy ===== *)
theory Work
  imports Runtime Histories
begin

text \<open>
  The work graph (\<^verbatim>\<open>domain/work.py\<close>): the state machine of work items, their revisions,
  relations, intents and decisions, and task plans with the topological order of their steps.
  The operations on a work item interpret \<open>revisioned_system\<close>; the step order is proved sound
  and complete with respect to the dependency graph.
\<close>

section \<open>States and transitions\<close>

datatype work_type =
  WT_REQUEST | WT_DEFECT | WT_TASK | WT_SUBTASK | WT_DECISION | WT_RESEARCH | WT_IDEA | WT_MAINTENANCE

fun work_type_value :: "work_type \<Rightarrow> string" where
  "work_type_value WT_REQUEST = ''request''"
| "work_type_value WT_DEFECT = ''defect''"
| "work_type_value WT_TASK = ''task''"
| "work_type_value WT_SUBTASK = ''subtask''"
| "work_type_value WT_DECISION = ''decision''"
| "work_type_value WT_RESEARCH = ''research''"
| "work_type_value WT_IDEA = ''idea''"
| "work_type_value WT_MAINTENANCE = ''maintenance''"

datatype work_state =
  WS_PROPOSED | WS_READY | WS_ACTIVE | WS_BLOCKED | WS_VERIFICATION | WS_COMPLETED | WS_CANCELLED
  | WS_ARCHIVED

fun work_state_value :: "work_state \<Rightarrow> string" where
  "work_state_value WS_PROPOSED = ''proposed''"
| "work_state_value WS_READY = ''ready''"
| "work_state_value WS_ACTIVE = ''active''"
| "work_state_value WS_BLOCKED = ''blocked''"
| "work_state_value WS_VERIFICATION = ''verification''"
| "work_state_value WS_COMPLETED = ''completed''"
| "work_state_value WS_CANCELLED = ''cancelled''"
| "work_state_value WS_ARCHIVED = ''archived''"

definition TERMINAL_STATES :: "work_state list" where
  "TERMINAL_STATES = [WS_COMPLETED, WS_CANCELLED, WS_ARCHIVED]"

definition OPEN_STATES :: "work_state list" where
  "OPEN_STATES = [WS_PROPOSED, WS_READY, WS_ACTIVE, WS_BLOCKED, WS_VERIFICATION]"

fun ALLOWED_TRANSITIONS :: "work_state \<Rightarrow> work_state list" where
  "ALLOWED_TRANSITIONS WS_PROPOSED = [WS_READY, WS_CANCELLED, WS_ARCHIVED]"
| "ALLOWED_TRANSITIONS WS_READY = [WS_ACTIVE, WS_BLOCKED, WS_PROPOSED, WS_CANCELLED]"
| "ALLOWED_TRANSITIONS WS_ACTIVE = [WS_VERIFICATION, WS_BLOCKED, WS_READY, WS_CANCELLED]"
| "ALLOWED_TRANSITIONS WS_BLOCKED = [WS_READY, WS_ACTIVE, WS_CANCELLED]"
| "ALLOWED_TRANSITIONS WS_VERIFICATION = [WS_COMPLETED, WS_ACTIVE, WS_BLOCKED, WS_CANCELLED]"
| "ALLOWED_TRANSITIONS WS_COMPLETED = [WS_ACTIVE, WS_ARCHIVED]"
| "ALLOWED_TRANSITIONS WS_CANCELLED = [WS_PROPOSED, WS_ARCHIVED]"
| "ALLOWED_TRANSITIONS WS_ARCHIVED = []"

datatype relation_kind =
  DEPENDS_ON | BLOCKS | PARENT_OF | DUPLICATES | RELATES_TO | SUPERSEDES

fun relation_kind_value :: "relation_kind \<Rightarrow> string" where
  "relation_kind_value DEPENDS_ON = ''depends-on''"
| "relation_kind_value BLOCKS = ''blocks''"
| "relation_kind_value PARENT_OF = ''parent-of''"
| "relation_kind_value DUPLICATES = ''duplicates''"
| "relation_kind_value RELATES_TO = ''relates-to''"
| "relation_kind_value SUPERSEDES = ''supersedes''"

definition can_transition :: "work_state \<Rightarrow> work_state \<Rightarrow> bool" where
  "can_transition current target = (target \<in> set (ALLOWED_TRANSITIONS current))"

definition assert_transition :: "work_state \<Rightarrow> work_state \<Rightarrow> unit res" where
  "assert_transition current target =
     (if current = target then Inl (ValidationFailed (''Durum zaten '' @ work_state_value current))
      else if \<not> can_transition current target
      then Inl (PolicyViolation (''Izinsiz durum gecisi: '' @ work_state_value current @ '' -> ''
        @ work_state_value target))
      else Inr ())"

section \<open>Work items\<close>

record acceptance_criterion =
  ac_text :: string
  ac_verified :: bool

definition check_criterion :: "acceptance_criterion \<Rightarrow> acceptance_criterion res" where
  "check_criterion c = (if blank (ac_text c) then Inl (ValidationFailed ''Kabul kriteri bos olamaz'') else Inr c)"

record evidence_ref =
  ev_kind :: string
  ev_reference :: string
  ev_digest :: "string option"

definition check_evidence :: "evidence_ref \<Rightarrow> evidence_ref res" where
  "check_evidence e = (if blank (ev_kind e) \<or> blank (ev_reference e)
     then Inl (ValidationFailed ''Kanit turu ve referansi bos olamaz'') else Inr e)"

record work_item =
  wi_id :: uuid
  wi_realm_id :: uuid
  wi_project_id :: uuid
  wi_type :: work_type
  wi_state :: work_state
  wi_title :: string
  wi_summary :: string
  wi_external_number :: "string option"
  wi_revision :: int
  wi_criteria :: "acceptance_criterion list"
  wi_evidence :: "evidence_ref list"
  wi_created_at :: int
  wi_updated_at :: int

definition check_work_item :: "work_item \<Rightarrow> work_item res" where
  "check_work_item w =
     (if blank (wi_title w) then Inl (ValidationFailed ''Is basligi bos olamaz'')
      else if wi_revision w < 1 then Inl (ValidationFailed ''Revision 1'den kucuk olamaz'')
      else if wi_state w = WS_COMPLETED \<and> wi_evidence w = []
      then Inl (PolicyViolation ''Acceptance evidence olmadan completed olamaz'')
      else Inr w)"

definition work_create ::
  "uuid \<Rightarrow> int \<Rightarrow> uuid \<Rightarrow> uuid \<Rightarrow> work_type \<Rightarrow> string \<Rightarrow> string \<Rightarrow> string option
   \<Rightarrow> acceptance_criterion list \<Rightarrow> work_item res" where
  "work_create new_id moment realm project wtype title summary external criteria = check_work_item
     \<lparr>wi_id = new_id, wi_realm_id = realm, wi_project_id = project, wi_type = wtype,
      wi_state = WS_PROPOSED, wi_title = strip title, wi_summary = summary,
      wi_external_number = external, wi_revision = 1, wi_criteria = criteria, wi_evidence = [],
      wi_created_at = moment, wi_updated_at = moment\<rparr>"

definition work_is_open :: "work_item \<Rightarrow> bool" where
  "work_is_open w = (wi_state w \<in> set OPEN_STATES)"

definition work_is_terminal :: "work_item \<Rightarrow> bool" where
  "work_is_terminal w = (wi_state w \<in> set TERMINAL_STATES)"

definition criterion_as_dict :: "acceptance_criterion \<Rightarrow> pyval" where
  "criterion_as_dict c = PDict [(PStr ''text'', PStr (ac_text c)), (PStr ''verified'', PBool (ac_verified c))]"

definition evidence_as_dict :: "evidence_ref \<Rightarrow> pyval" where
  "evidence_as_dict e = PDict [(PStr ''kind'', PStr (ev_kind e)),
     (PStr ''reference'', PStr (ev_reference e)), (PStr ''digest'', opt_text (ev_digest e))]"

definition work_body :: "work_item \<Rightarrow> pyval" where
  "work_body w = PDict
     [(PStr ''id'', PStr (wi_id w)),
      (PStr ''project_id'', PStr (wi_project_id w)),
      (PStr ''external_number'', opt_text (wi_external_number w)),
      (PStr ''type'', PStr (work_type_value (wi_type w))),
      (PStr ''state'', PStr (work_state_value (wi_state w))),
      (PStr ''title'', PStr (wi_title w)),
      (PStr ''summary'', PStr (wi_summary w)),
      (PStr ''revision'', PInt (wi_revision w)),
      (PStr ''acceptance_criteria'', PList (map criterion_as_dict (wi_criteria w))),
      (PStr ''acceptance_evidence'', PList (map evidence_as_dict (wi_evidence w)))]"

definition record_digest :: "work_item \<Rightarrow> string res" where
  "record_digest w = digest (work_body w)"

definition with_state :: "work_item \<Rightarrow> work_state \<Rightarrow> evidence_ref list \<Rightarrow> int \<Rightarrow> work_item res" where
  "with_state self target evidence now =
     rbind (assert_transition (wi_state self) target) (\<lambda>_.
       let merged_evidence = wi_evidence self @ evidence in
       if target = WS_COMPLETED \<and> merged_evidence = []
       then Inl (PolicyViolation ''Acceptance evidence olmadan completed olamaz'')
       else check_work_item (self\<lparr>wi_state := target, wi_revision := wi_revision self + 1,
         wi_evidence := merged_evidence, wi_updated_at := now\<rparr>))"

text \<open>\<^verbatim>\<open>title or self.title\<close> keeps the old title for None and for the empty text.\<close>

definition with_details ::
  "work_item \<Rightarrow> string option \<Rightarrow> string option \<Rightarrow> acceptance_criterion list option \<Rightarrow> int \<Rightarrow> work_item res" where
  "with_details self title summary criteria now = check_work_item
     (self\<lparr>wi_title := strip (case title of None \<Rightarrow> wi_title self
             | Some t \<Rightarrow> if t = [] then wi_title self else t),
           wi_summary := (case summary of None \<Rightarrow> wi_summary self | Some s \<Rightarrow> s),
           wi_revision := wi_revision self + 1,
           wi_criteria := (case criteria of None \<Rightarrow> wi_criteria self | Some c \<Rightarrow> c),
           wi_updated_at := now\<rparr>)"

section \<open>Relations, intents and decisions\<close>

record work_relation =
  wr_id :: uuid
  wr_realm_id :: uuid
  wr_project_id :: uuid
  wr_source_id :: uuid
  wr_target_id :: uuid
  wr_kind :: relation_kind
  wr_created_at :: int

definition relation_create ::
  "uuid \<Rightarrow> int \<Rightarrow> work_item \<Rightarrow> work_item \<Rightarrow> relation_kind \<Rightarrow> work_relation res" where
  "relation_create new_id moment source target kind =
     (if wi_project_id source \<noteq> wi_project_id target
      then Inl (PolicyViolation ''Cross-project iliski reddedildi'')
      else if wi_realm_id source \<noteq> wi_realm_id target
      then Inl (PolicyViolation ''Cross-realm iliski reddedildi'')
      else if wi_id source = wi_id target
      then Inl (ValidationFailed ''Bir is kaydi kendisiyle iliskilendirilemez'')
      else Inr \<lparr>wr_id = new_id, wr_realm_id = wi_realm_id source,
        wr_project_id = wi_project_id source, wr_source_id = wi_id source,
        wr_target_id = wi_id target, wr_kind = kind, wr_created_at = moment\<rparr>)"

record intent =
  in_id :: uuid
  in_realm_id :: uuid
  in_work_item_id :: uuid
  in_revision :: int
  in_goal :: string
  in_non_goals :: "string list"
  in_outcomes :: "string list"
  in_constraints :: "string list"
  in_created_at :: int

definition intent_create ::
  "uuid \<Rightarrow> int \<Rightarrow> work_item \<Rightarrow> string \<Rightarrow> int \<Rightarrow> string list \<Rightarrow> string list \<Rightarrow> string list \<Rightarrow> intent res" where
  "intent_create new_id moment w goal revision non_goals outcomes constraints =
     (if blank (strip goal) then Inl (ValidationFailed ''Intent hedefi bos olamaz'')
      else if revision < 1 then Inl (ValidationFailed ''Revision 1'den kucuk olamaz'')
      else Inr \<lparr>in_id = new_id, in_realm_id = wi_realm_id w, in_work_item_id = wi_id w,
        in_revision = revision, in_goal = strip goal, in_non_goals = non_goals,
        in_outcomes = outcomes, in_constraints = constraints, in_created_at = moment\<rparr>)"

definition intent_body :: "intent \<Rightarrow> pyval" where
  "intent_body i = PDict
     [(PStr ''work_item_id'', PStr (in_work_item_id i)),
      (PStr ''revision'', PInt (in_revision i)),
      (PStr ''goal'', PStr (in_goal i)),
      (PStr ''non_goals'', PList (map PStr (in_non_goals i))),
      (PStr ''outcomes'', PList (map PStr (in_outcomes i))),
      (PStr ''constraints'', PList (map PStr (in_constraints i)))]"

definition intent_digest :: "intent \<Rightarrow> string res" where
  "intent_digest i = digest (intent_body i)"

record decision_option =
  do_name :: string
  do_summary :: string
  do_rejected_because :: "string option"

definition check_option :: "decision_option \<Rightarrow> decision_option res" where
  "check_option d = (if blank (do_name d) then Inl (ValidationFailed ''Secenek adi bos olamaz'') else Inr d)"

definition option_as_dict :: "decision_option \<Rightarrow> pyval" where
  "option_as_dict d = PDict [(PStr ''name'', PStr (do_name d)), (PStr ''summary'', PStr (do_summary d)),
     (PStr ''rejected_because'', opt_text (do_rejected_because d))]"

record decision =
  de_id :: uuid
  de_realm_id :: uuid
  de_work_item_id :: uuid
  de_revision :: int
  de_question :: string
  de_chosen_option :: string
  de_rationale :: string
  de_alternatives :: "decision_option list"
  de_criteria :: "string list"
  de_evidence :: "evidence_ref list"
  de_decided_at :: int

definition check_decision :: "decision \<Rightarrow> decision res" where
  "check_decision d =
     rbind (rmap (\<lambda>(label, value). if blank value then Inl (ValidationFailed (label @ '' bos olamaz'')) else Inr ())
       [(''Karar sorusu'', de_question d), (''Secilen secenek'', de_chosen_option d),
        (''Gerekce'', de_rationale d)]) (\<lambda>_.
     if de_revision d < 1 then Inl (ValidationFailed ''Revision 1'den kucuk olamaz'') else Inr d)"

definition decision_create ::
  "uuid \<Rightarrow> int \<Rightarrow> work_item \<Rightarrow> int \<Rightarrow> string \<Rightarrow> string \<Rightarrow> string \<Rightarrow> decision_option list \<Rightarrow> string list
   \<Rightarrow> evidence_ref list \<Rightarrow> decision res" where
  "decision_create new_id moment w revision question chosen rationale alternatives criteria evidence =
     check_decision \<lparr>de_id = new_id, de_realm_id = wi_realm_id w, de_work_item_id = wi_id w,
       de_revision = revision, de_question = strip question, de_chosen_option = strip chosen,
       de_rationale = strip rationale, de_alternatives = alternatives, de_criteria = criteria,
       de_evidence = evidence, de_decided_at = moment\<rparr>"

definition decision_body :: "decision \<Rightarrow> pyval" where
  "decision_body d = PDict
     [(PStr ''work_item_id'', PStr (de_work_item_id d)),
      (PStr ''revision'', PInt (de_revision d)),
      (PStr ''question'', PStr (de_question d)),
      (PStr ''chosen_option'', PStr (de_chosen_option d)),
      (PStr ''rationale'', PStr (de_rationale d)),
      (PStr ''alternatives'', PList (map option_as_dict (de_alternatives d))),
      (PStr ''criteria'', PList (map PStr (de_criteria d))),
      (PStr ''evidence'', PList (map evidence_as_dict (de_evidence d)))]"

definition decision_digest :: "decision \<Rightarrow> string res" where
  "decision_digest d = digest (decision_body d)"

section \<open>Task plans\<close>

datatype effect_kind =
  EK_NONE | EK_FILE_WRITE | EK_DATABASE_WRITE | EK_NETWORK_CALL | EK_PROVIDER_CALL | EK_GIT_COMMIT
  | EK_GIT_PUSH | EK_PROCESS_RUN

fun effect_kind_value :: "effect_kind \<Rightarrow> string" where
  "effect_kind_value EK_NONE = ''none''"
| "effect_kind_value EK_FILE_WRITE = ''file-write''"
| "effect_kind_value EK_DATABASE_WRITE = ''database-write''"
| "effect_kind_value EK_NETWORK_CALL = ''network-call''"
| "effect_kind_value EK_PROVIDER_CALL = ''provider-call''"
| "effect_kind_value EK_GIT_COMMIT = ''git-commit''"
| "effect_kind_value EK_GIT_PUSH = ''git-push''"
| "effect_kind_value EK_PROCESS_RUN = ''process-run''"

definition AUTHORIZED_EFFECTS :: "effect_kind list" where
  "AUTHORIZED_EFFECTS = [EK_FILE_WRITE, EK_DATABASE_WRITE, EK_NETWORK_CALL, EK_PROVIDER_CALL,
     EK_GIT_COMMIT, EK_GIT_PUSH, EK_PROCESS_RUN]"

record plan_step =
  ps_step_id :: string
  ps_title :: string
  ps_effect :: effect_kind
  ps_logical_resources :: "string list"
  ps_depends_on :: "string list"
  ps_risk :: string

definition check_step :: "plan_step \<Rightarrow> plan_step res" where
  "check_step s =
     (if blank (ps_step_id s) then Inl (ValidationFailed ''Adim kimligi bos olamaz'')
      else if blank (ps_title s) then Inl (ValidationFailed ''Adim basligi bos olamaz'')
      else if ps_step_id s \<in> set (ps_depends_on s)
      then Inl (ValidationFailed ''Adim kendisine bagimli olamaz'')
      else Inr s)"

definition step_requires_authorization :: "plan_step \<Rightarrow> bool" where
  "step_requires_authorization s = (ps_effect s \<in> set AUTHORIZED_EFFECTS)"

definition step_body :: "plan_step \<Rightarrow> pyval" where
  "step_body s = PDict
     [(PStr ''step_id'', PStr (ps_step_id s)),
      (PStr ''title'', PStr (ps_title s)),
      (PStr ''effect'', PStr (effect_kind_value (ps_effect s))),
      (PStr ''logical_resources'', PList (map PStr (sort (ps_logical_resources s)))),
      (PStr ''depends_on'', PList (map PStr (sort (ps_depends_on s)))),
      (PStr ''risk'', PStr (ps_risk s))]"

text \<open>Python's \<^verbatim>\<open>repr\<close> of a list of texts, used in an error message.\<close>

definition py_repr :: "string \<Rightarrow> string" where
  "py_repr s =
     (let q = (if CHR 0x27 \<in> set s \<and> CHR 0x22 \<notin> set s then CHR 0x22 else CHR 0x27);
          esc = (\<lambda>c. let n = (of_char c :: nat) in
            if c = q \<or> c = CHR 0x5C then [CHR 0x5C, c]
            else if n = 10 then [CHR 0x5C, CHR ''n''] else if n = 13 then [CHR 0x5C, CHR ''r'']
            else if n = 9 then [CHR 0x5C, CHR ''t'']
            else if n < 32 \<or> (127 \<le> n \<and> n \<le> 160) \<or> n = 173 then [CHR 0x5C, CHR ''x''] @ hex2 n
            else [c])
      in [q] @ concat (map esc s) @ [q])"

definition py_repr_list :: "string list \<Rightarrow> string" where
  "py_repr_list xs = ''['' @ join_with '', '' (map py_repr xs) @ '']''"

text \<open>The loop of \<^verbatim>\<open>assert_acyclic_steps\<close>. The dictionary \<^verbatim>\<open>pending\<close> is an association list in
  insertion order, each set of needs a list without repetitions. Every round moves the steps
  that need nothing, in sorted order, and drops them from the needs of the others.\<close>

type_synonym pending = "(string \<times> string list) list"

definition ready_steps :: "pending \<Rightarrow> string list" where
  "ready_steps pending = sort (map fst (filter (\<lambda>kv. snd kv = []) pending))"

definition drop_steps :: "string list \<Rightarrow> pending \<Rightarrow> pending" where
  "drop_steps ready pending =
     map (\<lambda>kv. (fst kv, filter (\<lambda>n. n \<notin> set ready) (snd kv)))
       (filter (\<lambda>kv. fst kv \<notin> set ready) pending)"

function topo_loop :: "string list \<Rightarrow> pending \<Rightarrow> string list res" where
  "topo_loop ordered pending =
     (if pending = [] then Inr ordered
      else let ready = ready_steps pending in
        if ready = [] then Inl (ValidationFailed ''Plan adimlarinda dongu var'')
        else topo_loop (ordered @ ready) (drop_steps ready pending))"
  by pat_completeness auto

lemma ready_steps_iff: "k \<in> set (ready_steps pending) \<longleftrightarrow> (k, []) \<in> set pending"
  unfolding ready_steps_def by force

lemma drop_steps_shorter:
  assumes "ready_steps pending \<noteq> []"
  shows "length (drop_steps (ready_steps pending) pending) < length pending"
proof -
  obtain k where "k \<in> set (ready_steps pending)" using assms by (cases "ready_steps pending") auto
  then have "k \<in> set (ready_steps pending)" "(k, []) \<in> set pending" by (auto simp: ready_steps_iff)
  then show ?thesis
    unfolding drop_steps_def length_map by (intro length_filter_less [of "(k, [])"]) auto
qed

termination topo_loop
  by (relation "measure (\<lambda>(ordered, pending). length pending)") (auto intro: drop_steps_shorter)

declare topo_loop.simps [simp del]

definition assert_acyclic_steps :: "plan_step list \<Rightarrow> string list res" where
  "assert_acyclic_steps steps =
     (let identifiers = map ps_step_id steps in
      if \<not> distinct identifiers then Inl (ValidationFailed ''Adim kimlikleri tekil olmali'')
      else let dependencies = map (\<lambda>s. (ps_step_id s, remdups (ps_depends_on s))) steps in
        rbind (rmap (\<lambda>(step_id, requirements).
            let unknown = filter (\<lambda>d. d \<notin> set identifiers) requirements in
            if unknown \<noteq> []
            then Inl (ValidationFailed (step_id @ '' tanimsiz adima bagimli: ''
              @ py_repr_list (sort unknown)))
            else Inr ()) dependencies)
          (\<lambda>_. topo_loop [] dependencies))"

record task_plan =
  tp_id :: uuid
  tp_realm_id :: uuid
  tp_project_id :: uuid
  tp_work_item_id :: uuid
  tp_revision :: int
  tp_source_revision :: string
  tp_policy_digest :: string
  tp_steps :: "plan_step list"
  tp_created_at :: int

definition check_plan :: "task_plan \<Rightarrow> task_plan res" where
  "check_plan p =
     (if tp_steps p = [] then Inl (ValidationFailed ''Plan en az bir adim icermeli'')
      else if tp_revision p < 1 then Inl (ValidationFailed ''Revision 1'den kucuk olamaz'')
      else if blank (tp_source_revision p)
      then Inl (ValidationFailed ''Plan source revision'a baglanmali'')
      else rbind (assert_acyclic_steps (tp_steps p)) (\<lambda>_. Inr p))"

definition plan_create ::
  "uuid \<Rightarrow> int \<Rightarrow> work_item \<Rightarrow> int \<Rightarrow> string \<Rightarrow> string \<Rightarrow> plan_step list \<Rightarrow> task_plan res" where
  "plan_create new_id moment w revision source_revision policy_digest steps = check_plan
     \<lparr>tp_id = new_id, tp_realm_id = wi_realm_id w, tp_project_id = wi_project_id w,
      tp_work_item_id = wi_id w, tp_revision = revision, tp_source_revision = source_revision,
      tp_policy_digest = policy_digest, tp_steps = steps, tp_created_at = moment\<rparr>"

definition execution_order :: "task_plan \<Rightarrow> string list res" where
  "execution_order p = assert_acyclic_steps (tp_steps p)"

definition plan_effect_digest :: "task_plan \<Rightarrow> string res" where
  "plan_effect_digest p = digest (PList (map (\<lambda>s. PDict
       [(PStr ''step_id'', PStr (ps_step_id s)),
        (PStr ''effect'', PStr (effect_kind_value (ps_effect s))),
        (PStr ''logical_resources'', PList (map PStr (sort (ps_logical_resources s))))])
     (filter (\<lambda>s. ps_effect s \<noteq> EK_NONE) (sort_key ps_step_id (tp_steps p)))))"

definition plan_requires_authorization :: "task_plan \<Rightarrow> bool" where
  "plan_requires_authorization p = list_ex step_requires_authorization (tp_steps p)"

definition writable_resources :: "task_plan \<Rightarrow> string list" where
  "writable_resources p =
     sort (remdups (concat (map ps_logical_resources (filter step_requires_authorization (tp_steps p)))))"

definition plan_body :: "task_plan \<Rightarrow> pyval res" where
  "plan_body p = rbind (plan_effect_digest p) (\<lambda>effect. Inr (PDict
     [(PStr ''work_item_id'', PStr (tp_work_item_id p)),
      (PStr ''project_id'', PStr (tp_project_id p)),
      (PStr ''revision'', PInt (tp_revision p)),
      (PStr ''source_revision'', PStr (tp_source_revision p)),
      (PStr ''policy_digest'', PStr (tp_policy_digest p)),
      (PStr ''steps'', PList (map step_body (tp_steps p))),
      (PStr ''effect_digest'', PStr effect),
      (PStr ''grants_authority'', PBool False)]))"

definition plan_digest :: "task_plan \<Rightarrow> string res" where
  "plan_digest p = rbind (plan_body p) digest"

definition has_drifted_from :: "task_plan \<Rightarrow> string \<Rightarrow> string \<Rightarrow> bool" where
  "has_drifted_from p source_revision policy_digest =
     (tp_source_revision p \<noteq> source_revision \<or> tp_policy_digest p \<noteq> policy_digest)"

section \<open>Lemmas on work items\<close>

lemma check_work_item_Inr_iff:
  "check_work_item w = Inr v \<longleftrightarrow> v = w \<and> \<not> blank (wi_title w) \<and> 1 \<le> wi_revision w
     \<and> (wi_state w = WS_COMPLETED \<longrightarrow> wi_evidence w \<noteq> [])"
  by (auto simp: check_work_item_def)

lemma assert_transition_Inr_iff:
  "assert_transition a b = Inr () \<longleftrightarrow> a \<noteq> b \<and> can_transition a b"
  by (auto simp: assert_transition_def)

lemma with_state_Inr_iff:
  "with_state w target ev now = Inr v \<longleftrightarrow>
     v = w\<lparr>wi_state := target, wi_revision := wi_revision w + 1, wi_evidence := wi_evidence w @ ev,
        wi_updated_at := now\<rparr>
     \<and> can_transition (wi_state w) target \<and> wi_state w \<noteq> target
     \<and> \<not> blank (wi_title w) \<and> 0 \<le> wi_revision w
     \<and> (target = WS_COMPLETED \<longrightarrow> wi_evidence w @ ev \<noteq> [])"
  by (auto simp: with_state_def rbind_Inr_iff Let_def check_work_item_Inr_iff assert_transition_Inr_iff)

text \<open>The operations on one item, as events.\<close>

datatype work_event =
    SetState work_state "evidence_ref list" int
  | SetDetails "string option" "string option" "acceptance_criterion list option" int

fun work_exec :: "work_item \<Rightarrow> work_event \<Rightarrow> work_item res" where
  "work_exec w (SetState target ev now) = with_state w target ev now"
| "work_exec w (SetDetails title summary criteria now) = with_details w title summary criteria now"

definition work_ok :: "work_item \<Rightarrow> bool" where
  "work_ok w = (\<not> blank (wi_title w) \<and> 1 \<le> wi_revision w
     \<and> (wi_state w = WS_COMPLETED \<longrightarrow> wi_evidence w \<noteq> []))"

definition work_identity :: "work_item \<Rightarrow> uuid \<times> uuid \<times> uuid \<times> work_type \<times> int" where
  "work_identity w = (wi_id w, wi_realm_id w, wi_project_id w, wi_type w, wi_created_at w)"

lemma work_exec_ok: "work_exec w e = Inr v \<Longrightarrow> work_ok v"
  by (cases e) (auto simp: work_ok_def with_state_Inr_iff with_details_def check_work_item_Inr_iff)

lemma work_exec_evidence: "work_exec w e = Inr v \<Longrightarrow> \<exists>ev. wi_evidence v = wi_evidence w @ ev"
  by (cases e) (auto simp: with_state_Inr_iff with_details_def check_work_item_Inr_iff)

interpretation work_items: revisioned_system work_exec work_ok work_identity wi_revision
proof
  fix w v and e
  assume "work_exec w e = Inr v"
  then show "work_identity v = work_identity w" "wi_revision v = wi_revision w + 1"
    by (cases e; auto simp: work_identity_def with_state_Inr_iff with_details_def
        check_work_item_Inr_iff)+
qed (rule work_exec_ok)

lemma work_create_ok: "work_create i m r p t ti s x c = Inr w \<Longrightarrow> work_ok w \<and> wi_revision w = 1"
  by (auto simp: work_create_def check_work_item_Inr_iff work_ok_def)

lemma run_evidence_grows:
  "work_items.run w es = Inr v \<Longrightarrow> \<exists>ev. wi_evidence v = wi_evidence w @ ev"
proof (induction es arbitrary: w)
  case (Cons e es)
  then obtain u where "work_exec w e = Inr u" "work_items.run u es = Inr v"
    by (auto simp: work_items.run_simps rbind_Inr_iff)
  with Cons.IH work_exec_evidence show ?case by (metis append.assoc)
qed (simp add: work_items.run_simps)

section \<open>Lemmas on the step order\<close>

text \<open>In \<open>zs\<close>, everything \<open>k\<close> needs comes before \<open>k\<close>.\<close>

definition after_needs :: "string list \<Rightarrow> string \<Rightarrow> string list \<Rightarrow> bool" where
  "after_needs zs k ns = (\<forall>ys ws. zs = ys @ k # ws \<longrightarrow> set ns \<subseteq> set ys)"

definition pending_ok :: "pending \<Rightarrow> bool" where
  "pending_ok pending = (distinct (map fst pending)
     \<and> (\<forall>(k, ns) \<in> set pending. set ns \<subseteq> fst ` set pending))"

definition pending_rel :: "pending \<Rightarrow> (string \<times> string) set" where
  "pending_rel pending = {(n, k). \<exists>ns. (k, ns) \<in> set pending \<and> n \<in> set ns}"

lemma drop_steps_mem:
  "(k, ms) \<in> set (drop_steps ready pending) \<longleftrightarrow>
     (\<exists>ns. (k, ns) \<in> set pending \<and> k \<notin> set ready \<and> ms = filter (\<lambda>n. n \<notin> set ready) ns)"
  by (force simp: drop_steps_def)

lemma drop_steps_keys: "fst ` set (drop_steps ready pending) = fst ` set pending - set ready"
  by (force simp: drop_steps_def)

lemma drop_steps_ok: "pending_ok pending \<Longrightarrow> pending_ok (drop_steps ready pending)"
proof -
  assume ok: "pending_ok pending"
  have "map fst (drop_steps ready pending) = filter (\<lambda>k. k \<notin> set ready) (map fst pending)"
    by (simp add: drop_steps_def filter_map o_def)
  then have "distinct (map fst (drop_steps ready pending))" using ok by (simp add: pending_ok_def)
  then show ?thesis using ok unfolding pending_ok_def drop_steps_keys
    by (force simp: drop_steps_mem)
qed

lemma drop_steps_rel: "pending_rel (drop_steps ready pending) \<subseteq> pending_rel pending"
  by (auto simp: pending_rel_def drop_steps_mem)

lemma after_needs_ready:
  assumes "pending_ok pending" "ready = ready_steps pending" "(k, ns) \<in> set pending"
    and tail: "\<And>ms. (k, ms) \<in> set (drop_steps ready pending) \<Longrightarrow> after_needs zs k ms"
  shows "after_needs (ready @ zs) k ns"
proof (cases "k \<in> set ready")
  case True
  then have "(k, []) \<in> set pending" using assms(2) by (simp add: ready_steps_iff)
  then have "ns = []" using assms(1,3) by (auto simp: pending_ok_def dest: eq_key_imp_eq_value)
  then show ?thesis by (simp add: after_needs_def)
next
  case False
  with assms(3) tail have t: "after_needs zs k (filter (\<lambda>n. n \<notin> set ready) ns)"
    by (auto simp: drop_steps_mem)
  show ?thesis unfolding after_needs_def
  proof (intro allI impI)
    fix ys ws
    assume eq: "ready @ zs = ys @ k # ws"
    then obtain us where "ys = ready @ us" "zs = us @ k # ws"
      using False by (auto simp: append_eq_append_conv2 append_eq_Cons_conv)
    with t show "set ns \<subseteq> set ys" by (auto simp: after_needs_def)
  qed
qed

lemma topo_loop_sound:
  "topo_loop ordered pending = Inr res \<Longrightarrow> pending_ok pending \<Longrightarrow>
     \<exists>zs. res = ordered @ zs \<and> distinct zs \<and> set zs = fst ` set pending
       \<and> (\<forall>(k, ns) \<in> set pending. after_needs zs k ns)"
proof (induction ordered pending rule: topo_loop.induct)
  case (1 ordered pending)
  show ?case
  proof (cases "pending = []")
    case True
    with 1(2) show ?thesis by (simp add: topo_loop.simps)
  next
    case False
    define ready where "ready = ready_steps pending"
    have ne: "ready \<noteq> []" and rec: "topo_loop (ordered @ ready) (drop_steps ready pending) = Inr res"
      using False 1(2) by (auto simp: topo_loop.simps [of ordered pending] ready_def Let_def split: if_splits)
    have ok: "pending_ok (drop_steps ready pending)" using 1(3) by (rule drop_steps_ok)
    from 1(1) [OF False ready_def ne rec ok] obtain zs where
      zs: "res = (ordered @ ready) @ zs" "distinct zs" "set zs = fst ` set pending - set ready"
        "\<forall>(k, ns) \<in> set (drop_steps ready pending). after_needs zs k ns"
      unfolding drop_steps_keys by blast
    have sub: "set ready \<subseteq> fst ` set pending" by (auto simp: ready_def ready_steps_iff intro: rev_image_eqI)
    have "distinct ready" using 1(3)
      by (auto simp: ready_def ready_steps_def pending_ok_def intro: distinct_map_filter)
    moreover have "\<forall>(k, ns) \<in> set pending. after_needs (ready @ zs) k ns"
      using zs(4) after_needs_ready [OF 1(3) ready_def] by blast
    ultimately show ?thesis using zs sub by (intro exI [of _ "ready @ zs"]) auto
  qed
qed

lemma no_ready_cyclic:
  assumes "pending_ok pending" "pending \<noteq> []" "ready_steps pending = []"
  shows "\<not> acyclic (pending_rel pending)"
proof
  assume "acyclic (pending_rel pending)"
  moreover have "pending_rel pending \<subseteq> (\<Union>kv \<in> set pending. set (snd kv) \<times> {fst kv})"
    by (force simp: pending_rel_def)
  then have "finite (pending_rel pending)" by (rule finite_subset) auto
  ultimately have "wf (pending_rel pending)" by (rule finite_acyclic_wf [rotated])
  moreover obtain a where "a \<in> fst ` set pending" using assms(2) by (cases pending) auto
  ultimately obtain z where z: "z \<in> fst ` set pending"
    and min: "\<And>y. (y, z) \<in> pending_rel pending \<Longrightarrow> y \<notin> fst ` set pending"
    by (metis wfE_min)
  then obtain ns where ns: "(z, ns) \<in> set pending" by auto
  moreover from this assms(3) have "ns \<noteq> []" using ready_steps_iff [of z pending] by auto
  ultimately have "hd ns \<in> fst ` set pending" "(hd ns, z) \<in> pending_rel pending"
    using assms(1) by (force simp: pending_ok_def, auto simp: pending_rel_def)
  with min show False by blast
qed

lemma topo_loop_complete:
  "topo_loop ordered pending = Inl e \<Longrightarrow> pending_ok pending \<Longrightarrow> \<not> acyclic (pending_rel pending)"
proof (induction ordered pending rule: topo_loop.induct)
  case (1 ordered pending)
  have ne: "pending \<noteq> []" using 1(2) by (auto simp: topo_loop.simps)
  show ?case
  proof (cases "ready_steps pending = []")
    case True
    with 1(3) ne show ?thesis by (intro no_ready_cyclic)
  next
    case False
    with 1(2) ne have "topo_loop (ordered @ ready_steps pending) (drop_steps (ready_steps pending) pending) = Inl e"
      by (simp add: topo_loop.simps [of ordered pending] Let_def)
    from 1(1) [OF ne refl False this drop_steps_ok [OF 1(3)]] show ?thesis
      using drop_steps_rel acyclic_subset by blast
  qed
qed

lemma before_position:
  assumes "after_needs zs k ns" "k \<in> set zs" "n \<in> set ns"
  shows "length (takeWhile (\<lambda>x. x \<noteq> n) zs) < length (takeWhile (\<lambda>x. x \<noteq> k) zs)"
proof -
  have tw: "takeWhile (\<lambda>x. x \<noteq> a) (us @ a # vs) = us" if "a \<notin> set us" for a and us vs :: "string list"
    using that by (induction us) auto
  from split_list_first [OF assms(2)] obtain ys ws where zs: "zs = ys @ k # ws" "k \<notin> set ys" by blast
  with assms(1,3) have "n \<in> set ys" by (auto simp: after_needs_def)
  from split_list_first [OF this] obtain us vs where ys: "ys = us @ n # vs" "n \<notin> set us" by blast
  have "takeWhile (\<lambda>x. x \<noteq> k) zs = ys" using tw zs by simp
  moreover have "takeWhile (\<lambda>x. x \<noteq> n) zs = us" using tw [of n us "vs @ k # ws"] zs ys by simp
  ultimately show ?thesis using ys by simp
qed

lemma ordered_acyclic:
  assumes "\<forall>(k, ns) \<in> set pending. after_needs zs k ns" "fst ` set pending \<subseteq> set zs"
  shows "acyclic (pending_rel pending)"
proof -
  have "pending_rel pending \<subseteq> measure (\<lambda>k. length (takeWhile (\<lambda>x. x \<noteq> k) zs))"
  proof
    fix p assume "p \<in> pending_rel pending"
    then obtain n k ns where p: "p = (n, k)" "(k, ns) \<in> set pending" "n \<in> set ns"
      by (auto simp: pending_rel_def)
    with assms have "after_needs zs k ns" "k \<in> set zs" by (auto intro: rev_image_eqI)
    with before_position p show "p \<in> measure (\<lambda>k. length (takeWhile (\<lambda>x. x \<noteq> k) zs))" by simp
  qed
  then show ?thesis using wf_measure wf_subset wf_acyclic by blast
qed

text \<open>The dependency graph of a plan.\<close>

definition step_pending :: "plan_step list \<Rightarrow> pending" where
  "step_pending steps = map (\<lambda>s. (ps_step_id s, remdups (ps_depends_on s))) steps"

definition step_rel :: "plan_step list \<Rightarrow> (string \<times> string) set" where
  "step_rel steps = {(d, ps_step_id s) | d s. s \<in> set steps \<and> d \<in> set (ps_depends_on s)}"

lemma pending_rel_steps: "pending_rel (step_pending steps) = step_rel steps"
  by (force simp: pending_rel_def step_pending_def step_rel_def)

lemma fst_step_pending: "fst ` set (step_pending steps) = ps_step_id ` set steps"
  by (force simp: step_pending_def)

lemma pending_ok_steps:
  "pending_ok (step_pending steps) \<longleftrightarrow> distinct (map ps_step_id steps)
     \<and> \<Union> (set ` ps_depends_on ` set steps) \<subseteq> ps_step_id ` set steps"
  unfolding pending_ok_def fst_step_pending by (auto simp: step_pending_def o_def)

lemma assert_acyclic_steps_eq:
  "assert_acyclic_steps steps = Inr order \<longleftrightarrow>
     pending_ok (step_pending steps) \<and> topo_loop [] (step_pending steps) = Inr order"
proof -
  let ?chk = "\<lambda>(step_id, requirements).
    let unknown = filter (\<lambda>d. d \<notin> set (map ps_step_id steps)) requirements in
    if unknown \<noteq> []
    then Inl (ValidationFailed (step_id @ '' tanimsiz adima bagimli: '' @ py_repr_list (sort unknown)))
    else Inr ()"
  have "(\<exists>us. rmap ?chk ps = Inr us) \<longleftrightarrow>
      (\<forall>(k, ns) \<in> set ps. set ns \<subseteq> ps_step_id ` set steps)" for ps
    by (induction ps) (auto simp: rbind_Inr_iff Let_def filter_empty_conv split: if_splits)
  then show ?thesis
    unfolding assert_acyclic_steps_def step_pending_def [symmetric] Let_def
    by (auto simp: pending_ok_def rbind_Inr_iff step_pending_def [of steps] o_def image_image
        split: if_splits)
qed

section \<open>Properties\<close>

text \<open>Whatever sequence of state changes and edits is applied to a new work item, a completed
  item has acceptance evidence, its revision is one more than the number of changes, its identity
  never changes, and evidence once recorded is never dropped.\<close>

theorem work_history_invariant:
  assumes "work_create new_id moment realm project wtype title summary external criteria = Inr w"
    and "work_items.run w (es @ fs) = Inr v" and "work_items.run w es = Inr u"
  shows "(wi_state v = WS_COMPLETED \<longrightarrow> wi_evidence v \<noteq> []) \<and> \<not> blank (wi_title v)
    \<and> wi_revision v = 1 + int (length (es @ fs)) \<and> work_identity v = work_identity w
    \<and> (\<exists>ev. wi_evidence v = wi_evidence u @ ev)"
proof -
  have w: "work_ok w" "wi_revision w = 1" using work_create_ok [OF assms(1)] by auto
  from work_items.run_inv [OF assms(2) w(1)] work_items.run_revision [OF assms(2)] w(2)
  have "work_ok v" "work_identity v = work_identity w" "wi_revision v = 1 + int (length (es @ fs))" by auto
  moreover from assms(2,3) have "work_items.run u fs = Inr v" by (simp add: work_items.run_append)
  ultimately show ?thesis using run_evidence_grows by (auto simp: work_ok_def)
qed

definition sample_work :: work_item where
  "sample_work = \<lparr>wi_id = ''w1'', wi_realm_id = ''r1'', wi_project_id = ''p1'', wi_type = WT_TASK,
     wi_state = WS_PROPOSED, wi_title = ''Fix'', wi_summary = '''', wi_external_number = None,
     wi_revision = 1, wi_criteria = [], wi_evidence = [], wi_created_at = 0, wi_updated_at = 0\<rparr>"

definition sample_evidence :: evidence_ref where
  "sample_evidence = \<lparr>ev_kind = ''test'', ev_reference = ''run-1'', ev_digest = None\<rparr>"

lemma sample_work_created: "work_create ''w1'' 0 ''r1'' ''p1'' WT_TASK '' Fix '' '''' None [] = Inr sample_work"
  by code_simp

theorem work_history_invariant_witness:
  "\<exists>v. work_items.run sample_work [SetState WS_READY [] 1, SetState WS_ACTIVE [] 2,
       SetState WS_VERIFICATION [] 3, SetState WS_COMPLETED [sample_evidence] 4] = Inr v
     \<and> wi_state v = WS_COMPLETED \<and> wi_evidence v \<noteq> [] \<and> wi_revision v = 5"
proof -
  let ?es = "[SetState WS_READY [] 1, SetState WS_ACTIVE [] 2, SetState WS_VERIFICATION [] 3]"
  let ?fs = "[SetState WS_COMPLETED [sample_evidence] 4]"
  have nb: "\<not> blank ''Fix''" by code_simp
  obtain u where u: "work_items.run sample_work ?es = Inr u"
    and v: "work_items.run u ?fs = Inr (u\<lparr>wi_state := WS_COMPLETED, wi_revision := 5,
      wi_evidence := [sample_evidence], wi_updated_at := 4\<rparr>)"
    using nb by (auto simp: work_items.run_simps sample_work_def with_state_def assert_transition_def
        can_transition_def check_work_item_def)
  then have "work_items.run sample_work (?es @ ?fs) = Inr (u\<lparr>wi_state := WS_COMPLETED,
      wi_revision := 5, wi_evidence := [sample_evidence], wi_updated_at := 4\<rparr>)"
    by (simp only: work_items.run_append rbind_simps)
  from work_history_invariant [OF sample_work_created this u] this show ?thesis by auto
qed

text \<open>Archived is final, and it is the only dead end: some state change succeeds on a well-formed
  item exactly when it is not archived.\<close>

theorem archived_is_final:
  "(\<exists>target evidence now v. with_state w target evidence now = Inr v) \<longleftrightarrow>
     wi_state w \<noteq> WS_ARCHIVED \<and> \<not> blank (wi_title w) \<and> 0 \<le> wi_revision w"
proof -
  have "wi_state w \<noteq> WS_ARCHIVED \<Longrightarrow> \<exists>t. can_transition (wi_state w) t \<and> wi_state w \<noteq> t \<and> t \<noteq> WS_COMPLETED"
    by (cases "wi_state w") (auto simp: can_transition_def)
  moreover have "\<not> can_transition WS_ARCHIVED t" for t by (simp add: can_transition_def)
  ultimately show ?thesis by (auto simp: with_state_Inr_iff)
qed

text \<open>C39. The steps of a plan pass the check of their graph exactly when their names are distinct, every dependency names a step
  of the plan, and the dependency graph has no cycle.\<close>

theorem plan_accepted_iff_acyclic:
  "(\<exists>order. assert_acyclic_steps steps = Inr order) \<longleftrightarrow>
     distinct (map ps_step_id steps)
     \<and> \<Union> (set ` ps_depends_on ` set steps) \<subseteq> ps_step_id ` set steps
     \<and> acyclic (step_rel steps)"
proof -
  let ?p = "step_pending steps"
  have "acyclic (pending_rel ?p)" if ok: "pending_ok ?p" "topo_loop [] ?p = Inr order" for order
    using topo_loop_sound [OF ok(2,1)] ordered_acyclic [of ?p] by auto
  moreover have "\<exists>order. topo_loop [] ?p = Inr order" if "pending_ok ?p" "acyclic (pending_rel ?p)"
    using that topo_loop_complete [of "[]" ?p] by (cases "topo_loop [] ?p") auto
  ultimately have "(\<exists>order. assert_acyclic_steps steps = Inr order) \<longleftrightarrow>
      pending_ok ?p \<and> acyclic (pending_rel ?p)"
    by (auto simp: assert_acyclic_steps_eq)
  then show ?thesis by (simp add: pending_ok_steps pending_rel_steps)
qed

text \<open>The order of an accepted plan lists every step once, and each step after all the steps it
  depends on.\<close>

theorem plan_order_topological:
  assumes "assert_acyclic_steps steps = Inr order"
  shows "distinct order \<and> set order = ps_step_id ` set steps
    \<and> (\<forall>s \<in> set steps. \<forall>ys ws. order = ys @ ps_step_id s # ws \<longrightarrow> set (ps_depends_on s) \<subseteq> set ys)"
proof -
  from assms have "pending_ok (step_pending steps)" "topo_loop [] (step_pending steps) = Inr order"
    by (auto simp: assert_acyclic_steps_eq)
  from topo_loop_sound [OF this(2,1)] have o: "distinct order" "set order = ps_step_id ` set steps"
    "\<forall>(k, ns) \<in> set (step_pending steps). after_needs order k ns"
    by (auto simp: fst_step_pending)
  have "after_needs order (ps_step_id s) (remdups (ps_depends_on s))" if "s \<in> set steps" for s
    using o(3) that by (auto simp: step_pending_def)
  with o(1,2) show ?thesis by (auto simp: after_needs_def)
qed

theorem plan_order_topological_witness:
  "assert_acyclic_steps
     [\<lparr>ps_step_id = ''b'', ps_title = ''B'', ps_effect = EK_NONE, ps_logical_resources = [],
       ps_depends_on = [''c''], ps_risk = ''low''\<rparr>,
      \<lparr>ps_step_id = ''c'', ps_title = ''C'', ps_effect = EK_NONE, ps_logical_resources = [],
       ps_depends_on = [], ps_risk = ''low''\<rparr>] = Inr [''c'', ''b'']
   \<and> set [''c'', ''b''] = {''b'', ''c''}"
proof -
  let ?s = "[\<lparr>ps_step_id = ''b'', ps_title = ''B'', ps_effect = EK_NONE, ps_logical_resources = [],
       ps_depends_on = [''c''], ps_risk = ''low''\<rparr>,
      \<lparr>ps_step_id = ''c'', ps_title = ''C'', ps_effect = EK_NONE, ps_logical_resources = [],
       ps_depends_on = [], ps_risk = ''low''\<rparr>]"
  have "assert_acyclic_steps ?s = Inr [''c'', ''b'']" by code_simp
  with plan_order_topological [OF this] show ?thesis by simp
qed

end
