(* ===== verification/Policy.thy ===== *)
theory Policy
  imports Security Work
begin

text \<open>
  Policies, capabilities and risk (\<^verbatim>\<open>domain/policy.py\<close>). A dictionary with one entry for every member
  of an enumeration is a function. The risk levels are a linear order, as \<^verbatim>\<open>RISK_ORDER\<close> ranks them.
\<close>

section \<open>Risk levels\<close>

datatype risk_level = RISK_NONE | RISK_LOW | RISK_MEDIUM | RISK_HIGH | RISK_CRITICAL

fun risk_level_value :: "risk_level \<Rightarrow> string" where
  "risk_level_value RISK_NONE = ''none''"
| "risk_level_value RISK_LOW = ''low''"
| "risk_level_value RISK_MEDIUM = ''medium''"
| "risk_level_value RISK_HIGH = ''high''"
| "risk_level_value RISK_CRITICAL = ''critical''"

fun RISK_ORDER :: "risk_level \<Rightarrow> nat" where
  "RISK_ORDER RISK_NONE = 0"
| "RISK_ORDER RISK_LOW = 1"
| "RISK_ORDER RISK_MEDIUM = 2"
| "RISK_ORDER RISK_HIGH = 3"
| "RISK_ORDER RISK_CRITICAL = 4"

lemma RISK_ORDER_inj: "RISK_ORDER a = RISK_ORDER b \<Longrightarrow> a = b"
  by (cases a; cases b) simp_all

instantiation risk_level :: linorder
begin

definition less_eq_risk_level :: "risk_level \<Rightarrow> risk_level \<Rightarrow> bool" where
  "less_eq_risk_level a b = (RISK_ORDER a \<le> RISK_ORDER b)"

definition less_risk_level :: "risk_level \<Rightarrow> risk_level \<Rightarrow> bool" where
  "less_risk_level a b = (RISK_ORDER a < RISK_ORDER b)"

instance
  by standard (auto simp: less_eq_risk_level_def less_risk_level_def intro: RISK_ORDER_inj)

end

text \<open>\<^verbatim>\<open>max\<close> with a key keeps the first of the largest elements.\<close>

fun max_risk :: "risk_level list \<Rightarrow> risk_level" where
  "max_risk [] = RISK_NONE"
| "max_risk (l # ls) = foldl (\<lambda>m x. if RISK_ORDER x > RISK_ORDER m then x else m) l ls"

fun BASE_RISK_BY_EFFECT :: "effect_kind \<Rightarrow> risk_level" where
  "BASE_RISK_BY_EFFECT EK_NONE = RISK_NONE"
| "BASE_RISK_BY_EFFECT EK_PROCESS_RUN = RISK_MEDIUM"
| "BASE_RISK_BY_EFFECT EK_FILE_WRITE = RISK_MEDIUM"
| "BASE_RISK_BY_EFFECT EK_NETWORK_CALL = RISK_MEDIUM"
| "BASE_RISK_BY_EFFECT EK_PROVIDER_CALL = RISK_MEDIUM"
| "BASE_RISK_BY_EFFECT EK_DATABASE_WRITE = RISK_HIGH"
| "BASE_RISK_BY_EFFECT EK_GIT_COMMIT = RISK_MEDIUM"
| "BASE_RISK_BY_EFFECT EK_GIT_PUSH = RISK_HIGH"

fun BASE_RISK_BY_DATA :: "data_classification \<Rightarrow> risk_level" where
  "BASE_RISK_BY_DATA DC_PUBLIC = RISK_NONE"
| "BASE_RISK_BY_DATA DC_INTERNAL = RISK_LOW"
| "BASE_RISK_BY_DATA DC_CONFIDENTIAL = RISK_MEDIUM"
| "BASE_RISK_BY_DATA DC_RESTRICTED = RISK_HIGH"
| "BASE_RISK_BY_DATA DC_SECRET = RISK_CRITICAL"
| "BASE_RISK_BY_DATA DC_LOCAL_ONLY = RISK_HIGH"

definition VERIFIER_REQUIRED_FROM :: risk_level where
  "VERIFIER_REQUIRED_FROM = RISK_HIGH"

definition AUTO_APPROVED_ACTIONS :: "string list" where
  "AUTO_APPROVED_ACTIONS = [''status'', ''list'', ''history'', ''show'', ''doctor'', ''plan'', ''dry-run'',
     ''local-retrieval'', ''source-inspect'', ''derived-projection'']"

record risk_assessment =
  ra_level :: risk_level
  ra_factors :: "string list"
  ra_requires_authorization :: bool
  ra_requires_verifier :: bool
  ra_irreversible :: bool

definition risk_as_dict :: "risk_assessment \<Rightarrow> (pyval \<times> pyval) list" where
  "risk_as_dict r =
     [(PStr ''level'', PStr (risk_level_value (ra_level r))), (PStr ''factors'', PList (map PStr (ra_factors r))),
      (PStr ''requires_authorization'', PBool (ra_requires_authorization r)),
      (PStr ''requires_independent_verifier'', PBool (ra_requires_verifier r)),
      (PStr ''irreversible'', PBool (ra_irreversible r))]"

text \<open>Each source of risk adds at most one factor and one level.\<close>

definition effect_factors :: "effect_kind list \<Rightarrow> (string \<times> risk_level) list" where
  "effect_factors effects = map (\<lambda>e. (''effect:'' @ effect_kind_value e @ ''='' @ risk_level_value (BASE_RISK_BY_EFFECT e),
     BASE_RISK_BY_EFFECT e)) effects"

definition data_factors :: "data_classification list \<Rightarrow> (string \<times> risk_level) list" where
  "data_factors data = map (\<lambda>c. (''data:'' @ data_classification_value c @ ''='' @ risk_level_value (BASE_RISK_BY_DATA c),
     BASE_RISK_BY_DATA c)) data"

definition context_factors :: "int \<Rightarrow> bool \<Rightarrow> bool \<Rightarrow> bool \<Rightarrow> (string \<times> risk_level) list" where
  "context_factors resource_count reversible external destructive =
     (if resource_count > 20 then [(''blast-radius:'' @ int_str resource_count @ ''=high'', RISK_HIGH)]
      else if resource_count > 5 then [(''blast-radius:'' @ int_str resource_count @ ''=medium'', RISK_MEDIUM)]
      else [])
     @ (if \<not> reversible then [(''irreversible=high'', RISK_HIGH)] else [])
     @ (if external then [(''external-system=medium'', RISK_MEDIUM)] else [])
     @ (if destructive then [(''destructive=critical'', RISK_CRITICAL)] else [])"

definition risk_factors ::
  "effect_kind list \<Rightarrow> data_classification list \<Rightarrow> int \<Rightarrow> bool \<Rightarrow> bool \<Rightarrow> bool \<Rightarrow> (string \<times> risk_level) list" where
  "risk_factors effects data resource_count reversible external destructive =
     effect_factors effects @ data_factors data @ context_factors resource_count reversible external destructive"

definition classify_risk ::
  "effect_kind list \<Rightarrow> data_classification list \<Rightarrow> int \<Rightarrow> bool \<Rightarrow> bool \<Rightarrow> bool \<Rightarrow> risk_assessment" where
  "classify_risk effects data resource_count reversible external destructive =
     (let found = risk_factors effects data resource_count reversible external destructive;
          level = max_risk (RISK_NONE # map snd found) in
      \<lparr>ra_level = level,
       ra_factors = sort (remdups (map fst (filter (\<lambda>(_, l). l \<noteq> RISK_NONE) found))),
       ra_requires_authorization =
         (list_ex (\<lambda>e. e \<in> set AUTHORIZED_EFFECTS) effects \<or> RISK_ORDER level \<ge> RISK_ORDER RISK_MEDIUM),
       ra_requires_verifier = (RISK_ORDER level \<ge> RISK_ORDER VERIFIER_REQUIRED_FROM),
       ra_irreversible = (\<not> reversible \<or> destructive)\<rparr>)"

definition is_auto_approved :: "string \<Rightarrow> effect_kind list \<Rightarrow> bool" where
  "is_auto_approved action effects =
     (if list_ex (\<lambda>e. e \<noteq> EK_NONE) effects then False else action \<in> set AUTO_APPROVED_ACTIONS)"

section \<open>Gate decisions\<close>

datatype gate_outcome = GATE_ALLOW | GATE_DENY

fun gate_outcome_value :: "gate_outcome \<Rightarrow> string" where
  "gate_outcome_value GATE_ALLOW = ''allow''"
| "gate_outcome_value GATE_DENY = ''deny''"

record gate_decision =
  gd_gate :: string
  gd_outcome :: gate_outcome
  gd_reason :: string

definition decision_allowed :: "gate_decision \<Rightarrow> bool" where
  "decision_allowed d = (gd_outcome d = GATE_ALLOW)"

definition gate_as_dict :: "gate_decision \<Rightarrow> pyval" where
  "gate_as_dict d = PDict
     [(PStr ''gate'', PStr (gd_gate d)), (PStr ''outcome'', PStr (gate_outcome_value (gd_outcome d))),
      (PStr ''reason'', PStr (gd_reason d))]"

text \<open>A gate result is the list of its decisions.\<close>

definition gates_allowed :: "gate_decision list \<Rightarrow> bool" where
  "gates_allowed ds = list_all decision_allowed ds"

definition first_denial :: "gate_decision list \<Rightarrow> gate_decision option" where
  "first_denial ds = find (\<lambda>d. \<not> decision_allowed d) ds"

definition gates_as_dict :: "gate_decision list \<Rightarrow> (pyval \<times> pyval) list" where
  "gates_as_dict ds =
     [(PStr ''allowed'', PBool (gates_allowed ds)), (PStr ''decisions'', PList (map gate_as_dict ds)),
      (PStr ''first_denial'', case first_denial ds of None \<Rightarrow> PNone | Some d \<Rightarrow> gate_as_dict d)]"

section \<open>Policies\<close>

record policy_rule =
  ru_name :: string
  ru_effect_kinds :: "effect_kind list"
  ru_allow :: bool
  ru_max_risk :: risk_level
  ru_allowed_resources :: "string list"
  ru_reason :: string

definition check_rule :: "policy_rule \<Rightarrow> policy_rule res" where
  "check_rule r = (if blank (ru_name r) then Inl (ValidationFailed ''Policy kurali adi bos olamaz'') else Inr r)"

definition applies_to :: "policy_rule \<Rightarrow> effect_kind \<Rightarrow> bool" where
  "applies_to r effect = (ru_effect_kinds r = [] \<or> effect \<in> set (ru_effect_kinds r))"

definition rule_body :: "policy_rule \<Rightarrow> pyval" where
  "rule_body r = PDict
     [(PStr ''name'', PStr (ru_name r)),
      (PStr ''effect_kinds'', PList (map PStr (sort (map effect_kind_value (ru_effect_kinds r))))),
      (PStr ''allow'', PBool (ru_allow r)), (PStr ''max_risk'', PStr (risk_level_value (ru_max_risk r))),
      (PStr ''allowed_resources'', PList (map PStr (sort (ru_allowed_resources r)))),
      (PStr ''reason'', PStr (ru_reason r))]"

record policy_document =
  pd_id :: uuid
  pd_realm_id :: uuid
  pd_name :: string
  pd_revision :: int
  pd_rules :: "policy_rule list"
  pd_network_default_deny :: bool
  pd_push_default_deny :: bool
  pd_effective_from :: int

definition check_policy :: "policy_document \<Rightarrow> policy_document res" where
  "check_policy d =
     (if pd_revision d < 1 then Inl (ValidationFailed ''Policy revision 1'den kucuk olamaz'')
      else if \<not> distinct (map ru_name (pd_rules d)) then Inl (ValidationFailed ''Policy kural adlari tekil olmali'')
      else Inr d)"

definition policy_create ::
  "uuid \<Rightarrow> int \<Rightarrow> uuid \<Rightarrow> string \<Rightarrow> int \<Rightarrow> policy_rule list \<Rightarrow> bool \<Rightarrow> bool \<Rightarrow> policy_document res" where
  "policy_create new_id moment realm_id name revision rules network_default_deny push_default_deny =
     check_policy \<lparr>pd_id = new_id, pd_realm_id = realm_id, pd_name = name, pd_revision = revision, pd_rules = rules,
       pd_network_default_deny = network_default_deny, pd_push_default_deny = push_default_deny,
       pd_effective_from = moment\<rparr>"

definition rule_for :: "policy_document \<Rightarrow> effect_kind \<Rightarrow> policy_rule option" where
  "rule_for d effect = find (\<lambda>r. applies_to r effect) (pd_rules d)"

definition policy_body :: "policy_document \<Rightarrow> (pyval \<times> pyval) list" where
  "policy_body d =
     [(PStr ''name'', PStr (pd_name d)), (PStr ''revision'', PInt (pd_revision d)),
      (PStr ''rules'', PList (map rule_body (pd_rules d))),
      (PStr ''network_default_deny'', PBool (pd_network_default_deny d)),
      (PStr ''push_default_deny'', PBool (pd_push_default_deny d))]"

definition policy_digest :: "policy_document \<Rightarrow> string res" where
  "policy_digest d = digest (PDict (policy_body d))"

definition policy_as_dict :: "policy_document \<Rightarrow> (pyval \<times> pyval) list res" where
  "policy_as_dict d = rbind (policy_digest d) (\<lambda>p. Inr (policy_body d @
     [(PStr ''id'', PStr (pd_id d)), (PStr ''policy_digest'', PStr p)]))"

section \<open>Capabilities\<close>

datatype capability_kind =
  CK_READ | CK_FILESYSTEM | CK_DATABASE | CK_NETWORK | CK_PROVIDER | CK_PROCESS | CK_GIT

fun capability_kind_value :: "capability_kind \<Rightarrow> string" where
  "capability_kind_value CK_READ = ''read''"
| "capability_kind_value CK_FILESYSTEM = ''filesystem''"
| "capability_kind_value CK_DATABASE = ''database''"
| "capability_kind_value CK_NETWORK = ''network''"
| "capability_kind_value CK_PROVIDER = ''provider''"
| "capability_kind_value CK_PROCESS = ''process''"
| "capability_kind_value CK_GIT = ''git''"

record capability =
  ca_id :: uuid
  ca_realm_id :: uuid
  ca_name :: string
  ca_revision :: int
  ca_kind :: capability_kind
  ca_description :: string
  ca_definition :: "(pyval \<times> pyval) list"
  ca_created_at :: int

definition check_capability :: "capability \<Rightarrow> capability res" where
  "check_capability c =
     (if blank (ca_name c) then Inl (ValidationFailed ''Capability adi bos olamaz'')
      else if ca_revision c < 1 then Inl (ValidationFailed ''Capability revision 1'den kucuk olamaz'')
      else Inr c)"

definition capability_create ::
  "uuid \<Rightarrow> int \<Rightarrow> uuid \<Rightarrow> string \<Rightarrow> int \<Rightarrow> capability_kind \<Rightarrow> string \<Rightarrow> (pyval \<times> pyval) list \<Rightarrow> capability res" where
  "capability_create new_id moment realm_id name revision kind description def_entries =
     check_capability \<lparr>ca_id = new_id, ca_realm_id = realm_id, ca_name = name, ca_revision = revision, ca_kind = kind,
       ca_description = description, ca_definition = def_entries, ca_created_at = moment\<rparr>"

definition capability_body :: "capability \<Rightarrow> (pyval \<times> pyval) list" where
  "capability_body c =
     [(PStr ''name'', PStr (ca_name c)), (PStr ''revision'', PInt (ca_revision c)),
      (PStr ''kind'', PStr (capability_kind_value (ca_kind c))), (PStr ''description'', PStr (ca_description c)),
      (PStr ''definition'', PDict (ca_definition c))]"

definition capability_digest :: "capability \<Rightarrow> string res" where
  "capability_digest c = digest (PDict (capability_body c))"

definition capability_as_dict :: "capability \<Rightarrow> (pyval \<times> pyval) list res" where
  "capability_as_dict c = rbind (capability_digest c) (\<lambda>d. Inr (capability_body c @
     [(PStr ''id'', PStr (ca_id c)), (PStr ''capability_digest'', PStr d)]))"

section \<open>The policy of a fresh installation\<close>

definition default_policy_rules :: "policy_rule list" where
  "default_policy_rules =
     [\<lparr>ru_name = ''salt-okunur-serbest'', ru_effect_kinds = [EK_NONE], ru_allow = True, ru_max_risk = RISK_NONE,
       ru_allowed_resources = [], ru_reason = ''Salt okunur islemler policy ile serbesttir''\<rparr>,
      \<lparr>ru_name = ''dosya-yazimi-sinirli'', ru_effect_kinds = [EK_FILE_WRITE], ru_allow = True, ru_max_risk = RISK_HIGH,
       ru_allowed_resources = [], ru_reason = ''Dosya yazimi yalnizca sandbox icinde ve exact authorization ile''\<rparr>,
      \<lparr>ru_name = ''surec-calistirma-sinirli'', ru_effect_kinds = [EK_PROCESS_RUN], ru_allow = True,
       ru_max_risk = RISK_HIGH, ru_allowed_resources = [], ru_reason = ''Test/build calistirma typed runner ile''\<rparr>,
      \<lparr>ru_name = ''veritabani-yazimi-yuksek-risk'', ru_effect_kinds = [EK_DATABASE_WRITE], ru_allow = True,
       ru_max_risk = RISK_HIGH, ru_allowed_resources = [], ru_reason = ''DB yazimi yedek ve rollback plani ister''\<rparr>,
      \<lparr>ru_name = ''ag-varsayilan-kapali'', ru_effect_kinds = [EK_NETWORK_CALL, EK_PROVIDER_CALL], ru_allow = False,
       ru_max_risk = RISK_NONE, ru_allowed_resources = [],
       ru_reason = ''Ag varsayilan olarak kapalidir; exact allowlist gerekir''\<rparr>,
      \<lparr>ru_name = ''commit-sinirli'', ru_effect_kinds = [EK_GIT_COMMIT], ru_allow = True, ru_max_risk = RISK_MEDIUM,
       ru_allowed_resources = [], ru_reason = ''Commit yalnizca test ve verifier gectikten sonra''\<rparr>,
      \<lparr>ru_name = ''push-varsayilan-kapali'', ru_effect_kinds = [EK_GIT_PUSH], ru_allow = False, ru_max_risk = RISK_NONE,
       ru_allowed_resources = [], ru_reason = ''Push varsayilan olarak yasaktir; acik kullanici talebi gerekir''\<rparr>]"

section \<open>Risk only rises\<close>

lemma risk_least [simp]: "RISK_NONE \<le> r"
  by (simp add: less_eq_risk_level_def)

lemma foldl_max_risk:
  "foldl (\<lambda>m x. if RISK_ORDER x > RISK_ORDER m then x else m) l ls = fold max ls l"
  by (induction ls arbitrary: l) (auto simp: less_eq_risk_level_def max_def dest!: RISK_ORDER_inj)

lemma max_risk_Max: "max_risk (l # ls) = Max (set (l # ls))"
  by (simp add: foldl_max_risk Max.set_eq_fold del: set_simps)

lemma max_risk_le: "max_risk (l # ls) \<le> r \<longleftrightarrow> (\<forall>x \<in> set (l # ls). x \<le> r)"
  unfolding max_risk_Max by (rule Max_le_iff) simp_all

lemma risk_level_le:
  "ra_level (classify_risk es ds n undo ext des) \<le> r \<longleftrightarrow>
     (\<forall>e \<in> set es. BASE_RISK_BY_EFFECT e \<le> r) \<and> (\<forall>c \<in> set ds. BASE_RISK_BY_DATA c \<le> r)
     \<and> (n > 20 \<longrightarrow> RISK_HIGH \<le> r) \<and> (n > 5 \<longrightarrow> RISK_MEDIUM \<le> r) \<and> (\<not> undo \<longrightarrow> RISK_HIGH \<le> r)
     \<and> (ext \<longrightarrow> RISK_MEDIUM \<le> r) \<and> (des \<longrightarrow> RISK_CRITICAL \<le> r)"
proof -
  have medium: "RISK_HIGH \<le> r \<Longrightarrow> RISK_MEDIUM \<le> r" by (simp add: less_eq_risk_level_def)
  show ?thesis
    unfolding classify_risk_def Let_def risk_assessment.simps max_risk_le risk_factors_def effect_factors_def
      data_factors_def context_factors_def
    using medium by (auto simp: image_iff ball_Un)
qed

lemma AUTHORIZED_EFFECTS_iff: "e \<in> set AUTHORIZED_EFFECTS \<longleftrightarrow> e \<noteq> EK_NONE"
  by (cases e) (simp_all add: AUTHORIZED_EFFECTS_def)

lemma risk_assessment_flags:
  "ra_requires_authorization (classify_risk es ds n undo ext des) \<longleftrightarrow>
     (\<exists>e \<in> set es. e \<noteq> EK_NONE) \<or> RISK_MEDIUM \<le> ra_level (classify_risk es ds n undo ext des)"
  "ra_requires_verifier (classify_risk es ds n undo ext des) \<longleftrightarrow>
     RISK_HIGH \<le> ra_level (classify_risk es ds n undo ext des)"
  by (auto simp: classify_risk_def Let_def AUTHORIZED_EFFECTS_iff list_ex_iff VERIFIER_REQUIRED_FROM_def
      less_eq_risk_level_def)

text \<open>The level of a request is the largest of the levels of its effects, of its data and of its
  context, and it can only rise: a request with more effects, more data, more resources, or with an
  unfavourable flag set has at least the level of the smaller one, and still needs an authorization
  and an independent verifier when the smaller one did.\<close>

theorem risk_only_rises:
  assumes "set es \<subseteq> set es'" "set ds \<subseteq> set ds'" "n \<le> n'" "undo' \<longrightarrow> undo" "ext \<longrightarrow> ext'" "des \<longrightarrow> des'"
  defines "small \<equiv> classify_risk es ds n undo ext des" and "large \<equiv> classify_risk es' ds' n' undo' ext' des'"
  shows "ra_level small \<le> ra_level large
    \<and> (ra_requires_authorization small \<longrightarrow> ra_requires_authorization large)
    \<and> (ra_requires_verifier small \<longrightarrow> ra_requires_verifier large)"
proof -
  have "ra_level large \<le> ra_level large" by simp
  then have le: "ra_level small \<le> ra_level large"
    unfolding large_def small_def risk_level_le using assms(1-6) by auto
  then show ?thesis
    using assms(1) unfolding small_def large_def risk_assessment_flags by (auto intro: order_trans)
qed

theorem risk_only_rises_witness:
  "ra_level (classify_risk [EK_FILE_WRITE] [] 2 True False False)
     \<le> ra_level (classify_risk [EK_FILE_WRITE, EK_GIT_COMMIT] [DC_RESTRICTED] 7 True True False)
   \<and> ra_requires_authorization (classify_risk [EK_FILE_WRITE, EK_GIT_COMMIT] [DC_RESTRICTED] 7 True True False)"
proof -
  have "ra_requires_authorization (classify_risk [EK_FILE_WRITE] [] 2 True False False)" by code_simp
  then show ?thesis
    using risk_only_rises [of "[EK_FILE_WRITE]" "[EK_FILE_WRITE, EK_GIT_COMMIT]" "[]" "[DC_RESTRICTED]" 2 7
        True True False True False False] by simp
qed

end
