(* ===== verification/Governance.thy ===== *)
theory Governance
  imports Policy
begin

text \<open>
  The governance service (\<^verbatim>\<open>application/governance.py\<close>): the chain of hard gates, exact
  authorizations, and the gate in front of providers. The repositories are a port: a record of
  operations over an abstract state of the database, which the composition root may leave out.
  An operation returns the new state together with its result, so what a call has written before it
  raises is kept; the transaction around the calls belongs to the caller. The moment of a call and
  the identifiers drawn with \<^verbatim>\<open>new_uuid7\<close> are arguments. Messages are transliterated to ASCII.
\<close>

section \<open>Calls over the database\<close>

type_synonym ('s, 'a) gov = "'s \<Rightarrow> 's \<times> 'a res"

definition greturn :: "'a \<Rightarrow> ('s, 'a) gov" where
  "greturn x s = (s, Inr x)"

definition graise :: "zekam_error \<Rightarrow> ('s, 'a) gov" where
  "graise e s = (s, Inl e)"

definition glift :: "'a res \<Rightarrow> ('s, 'a) gov" where
  "glift r s = (s, r)"

definition gbind :: "('s, 'a) gov \<Rightarrow> ('a \<Rightarrow> ('s, 'b) gov) \<Rightarrow> ('s, 'b) gov" where
  "gbind m f s = (case m s of (t, Inl e) \<Rightarrow> (t, Inl e) | (t, Inr x) \<Rightarrow> f x t)"

text \<open>\<^verbatim>\<open>try: ... except NotFound: ...\<close>\<close>

definition gcatch_not_found :: "('s, 'a) gov \<Rightarrow> ('s, 'a) gov \<Rightarrow> ('s, 'a) gov" where
  "gcatch_not_found m handler s =
     (case m s of (t, Inl (NotFound _)) \<Rightarrow> handler t | r \<Rightarrow> r)"

primrec gmap :: "('a \<Rightarrow> ('s, 'b) gov) \<Rightarrow> 'a list \<Rightarrow> ('s, 'b list) gov" where
  "gmap f [] = greturn []"
| "gmap f (x # xs) = gbind (f x) (\<lambda>y. gbind (gmap f xs) (\<lambda>ys. greturn (y # ys)))"

section \<open>Requests and verdicts\<close>

definition DEFAULT_POLICY_NAME :: string where
  "DEFAULT_POLICY_NAME = ''varsayilan''"

definition DEFAULT_AUTHORIZATION_LIFETIME :: int where
  "DEFAULT_AUTHORIZATION_LIFETIME = 30 * 60 * 1000000"

record effect_request =
  rq_action :: string
  rq_effects :: "effect_kind list"
  rq_resources :: "string list"
  rq_data_classifications :: "data_classification list"
  rq_provider_refs :: "string list"
  rq_reversible :: bool
  rq_destructive :: bool
  rq_external :: bool
  rq_capabilities :: "string list"

definition request_body :: "effect_request \<Rightarrow> (pyval \<times> pyval) list" where
  "request_body r =
     [(PStr ''action'', PStr (rq_action r)),
      (PStr ''effects'', PList (map PStr (sort (map effect_kind_value (rq_effects r))))),
      (PStr ''resources'', PList (map PStr (sort (rq_resources r)))),
      (PStr ''data_classifications'',
        PList (map PStr (sort (map data_classification_value (rq_data_classifications r))))),
      (PStr ''provider_refs'', PList (map PStr (sort (rq_provider_refs r)))),
      (PStr ''reversible'', PBool (rq_reversible r)), (PStr ''destructive'', PBool (rq_destructive r)),
      (PStr ''touches_external_system'', PBool (rq_external r))]"

definition effect_digest :: "effect_request \<Rightarrow> string res" where
  "effect_digest r = digest (PDict (request_body r))"

definition request_risk :: "effect_request \<Rightarrow> risk_assessment" where
  "request_risk r = classify_risk (rq_effects r) (rq_data_classifications r) (int (length (rq_resources r)))
     (rq_reversible r) (rq_external r) (rq_destructive r)"

record governance_verdict =
  gv_request :: effect_request
  gv_risk :: risk_assessment
  gv_gates :: "gate_decision list"
  gv_auto_approved :: bool
  gv_authorization :: "authorization option"

definition verdict_allowed :: "governance_verdict \<Rightarrow> bool" where
  "verdict_allowed v = gates_allowed (gv_gates v)"

definition denial_reason :: "governance_verdict \<Rightarrow> string option" where
  "denial_reason v = map_option gd_reason (first_denial (gv_gates v))"

definition verdict_as_dict :: "governance_verdict \<Rightarrow> (pyval \<times> pyval) list res" where
  "verdict_as_dict v = rbind (effect_digest (gv_request v)) (\<lambda>d. Inr
     [(PStr ''request'', PDict (request_body (gv_request v))), (PStr ''effect_digest'', PStr d),
      (PStr ''risk'', PDict (risk_as_dict (gv_risk v))), (PStr ''gates'', PDict (gates_as_dict (gv_gates v))),
      (PStr ''auto_approved'', PBool (gv_auto_approved v)), (PStr ''allowed'', PBool (verdict_allowed v)),
      (PStr ''authorization_id'', opt_uuid (map_option au_id (gv_authorization v)))])"

section \<open>The repositories\<close>

record consume_result =
  cr_consumed :: bool
  cr_reason :: string
  cr_authorization :: "authorization option"

definition consume_as_dict :: "consume_result \<Rightarrow> (pyval \<times> pyval) list" where
  "consume_as_dict r =
     [(PStr ''consumed'', PBool (cr_consumed r)), (PStr ''reason'', PStr (cr_reason r)),
      (PStr ''authorization_id'', opt_uuid (map_option au_id (cr_authorization r)))]"

text \<open>The arguments of \<^verbatim>\<open>AuditRepository.record\<close>.\<close>

record audit_entry =
  ae_action :: string
  ae_subject_type :: string
  ae_subject_id :: string
  ae_decision :: string
  ae_reason :: string
  ae_evidence :: "(pyval \<times> pyval) list"
  ae_actor_id :: "uuid option"
  ae_authorization_id :: "uuid option"
  ae_correlation_id :: "uuid option"
  ae_now :: int

record 's repositories =
  rp_policy_append :: "policy_document \<Rightarrow> ('s, policy_document) gov"
  rp_policy_current :: "string \<Rightarrow> ('s, policy_document option) gov"
  rp_capability_current :: "string \<Rightarrow> ('s, capability option) gov"
  rp_issue :: "authorization \<Rightarrow> ('s, authorization) gov"
  rp_get :: "uuid \<Rightarrow> ('s, authorization) gov"
  rp_consume :: "uuid \<Rightarrow> string \<Rightarrow> string \<Rightarrow> int \<Rightarrow> ('s, consume_result) gov"
  rp_revoke :: "uuid \<Rightarrow> string \<Rightarrow> int \<Rightarrow> ('s, bool) gov"
  rp_outbound_record :: "outbound_request \<Rightarrow> ('s, outbound_request) gov"
  rp_audit_record :: "audit_entry \<Rightarrow> ('s, uuid) gov"

record 's governance =
  gs_realm_id :: uuid
  gs_actor_id :: "uuid option"
  gs_correlation_id :: "uuid option"
  gs_provider :: "'s repositories option"

definition repository :: "'s governance \<Rightarrow> ('s repositories \<Rightarrow> ('s, 'a) gov) \<Rightarrow> ('s, 'a) gov" where
  "repository sv f =
     (case gs_provider sv of
        None \<Rightarrow> graise (ConfigurationError ''Governance repository provider local-first composition root'ta kurulmamis'')
      | Some R \<Rightarrow> f R)"

section \<open>Policies\<close>

definition ensure_default_policy :: "'s governance \<Rightarrow> uuid \<Rightarrow> int \<Rightarrow> ('s, policy_document) gov" where
  "ensure_default_policy sv new_id moment =
     gbind (repository sv (\<lambda>R. rp_policy_current R DEFAULT_POLICY_NAME)) (\<lambda>current.
     case current of
       Some document \<Rightarrow> greturn document
     | None \<Rightarrow>
       gbind (glift (policy_create new_id moment (gs_realm_id sv) DEFAULT_POLICY_NAME 1 default_policy_rules True True))
         (\<lambda>document. repository sv (\<lambda>R. rp_policy_append R document)))"

definition active_policy :: "'s governance \<Rightarrow> string \<Rightarrow> ('s, policy_document) gov" where
  "active_policy sv name =
     gbind (repository sv (\<lambda>R. rp_policy_current R name)) (\<lambda>current.
     case current of None \<Rightarrow> graise (NotFound (''Policy bulunamadi: '' @ name)) | Some document \<Rightarrow> greturn document)"

section \<open>The gates\<close>

definition allow_gate :: "string \<Rightarrow> string \<Rightarrow> gate_decision" where
  "allow_gate gate reason = \<lparr>gd_gate = gate, gd_outcome = GATE_ALLOW, gd_reason = reason\<rparr>"

definition deny_gate :: "string \<Rightarrow> string \<Rightarrow> gate_decision" where
  "deny_gate gate reason = \<lparr>gd_gate = gate, gd_outcome = GATE_DENY, gd_reason = reason\<rparr>"

definition capability_decision :: "string list \<Rightarrow> gate_decision" where
  "capability_decision missing =
     (if missing \<noteq> [] then deny_gate ''capability'' (''capability-missing:'' @ join_with '','' (sort missing))
      else allow_gate ''capability'' ''capabilities-registered'')"

definition capability_gate :: "'s governance \<Rightarrow> effect_request \<Rightarrow> ('s, gate_decision) gov" where
  "capability_gate sv request =
     gbind (gmap (\<lambda>name. gbind (repository sv (\<lambda>R. rp_capability_current R name))
       (\<lambda>found. greturn (name, found = None))) (rq_capabilities request)) (\<lambda>checked.
     greturn (capability_decision (map fst (filter snd checked))))"

fun policy_gate_from :: "policy_document \<Rightarrow> string list \<Rightarrow> effect_kind list \<Rightarrow> gate_decision" where
  "policy_gate_from document resources [] = allow_gate ''policy'' ''policy-allows''"
| "policy_gate_from document resources (effect # effects) =
     (case rule_for document effect of
        None \<Rightarrow> deny_gate ''policy'' (''policy-rule-missing:'' @ effect_kind_value effect)
      | Some rule \<Rightarrow>
        if \<not> ru_allow rule
        then deny_gate ''policy'' (''policy-denies:'' @ effect_kind_value effect @ '':'' @ ru_name rule)
        else
          let uncovered = (if ru_allowed_resources rule \<noteq> []
            then filter (\<lambda>resource. \<not> list_ex (\<lambda>allowed. resource_pattern allowed resource) (ru_allowed_resources rule))
              resources
            else []) in
          if uncovered \<noteq> []
          then deny_gate ''policy'' (''resource-out-of-policy:'' @ effect_kind_value effect @ '':''
            @ join_with '','' (sort uncovered))
          else policy_gate_from document resources effects)"

definition policy_gate :: "effect_request \<Rightarrow> policy_document \<Rightarrow> gate_decision" where
  "policy_gate request document = policy_gate_from document (rq_resources request) (rq_effects request)"

fun risk_gate_from :: "policy_document \<Rightarrow> risk_assessment \<Rightarrow> effect_kind list \<Rightarrow> gate_decision" where
  "risk_gate_from document risk [] =
     allow_gate ''risk'' (''risk-'' @ risk_level_value (ra_level risk) @ ''-within-policy'')"
| "risk_gate_from document risk (effect # effects) =
     (case rule_for document effect of
        None \<Rightarrow> risk_gate_from document risk effects
      | Some rule \<Rightarrow>
        if RISK_ORDER (ra_level risk) > RISK_ORDER (ru_max_risk rule)
        then deny_gate ''risk'' (''risk-above-policy-ceiling:'' @ risk_level_value (ra_level risk) @ ''>''
          @ risk_level_value (ru_max_risk rule) @ '':'' @ ru_name rule)
        else risk_gate_from document risk effects)"

definition risk_gate :: "effect_request \<Rightarrow> policy_document \<Rightarrow> risk_assessment \<Rightarrow> gate_decision" where
  "risk_gate request document risk = risk_gate_from document risk (rq_effects request)"

definition scope_gate :: "effect_request \<Rightarrow> authorization option \<Rightarrow> gate_decision res" where
  "scope_gate request authorization =
     (case authorization of
        None \<Rightarrow> Inr (deny_gate ''scope'' ''authorization-required'')
      | Some a \<Rightarrow>
        (case find (\<lambda>e. e \<noteq> EK_NONE \<and> \<not> covers_effect (au_scope a) (effect_kind_value e)) (rq_effects request) of
           Some e \<Rightarrow> Inr (deny_gate ''scope'' (''effect-out-of-scope:'' @ effect_kind_value e))
         | None \<Rightarrow>
           (case find (\<lambda>r. \<not> covers_resource (au_scope a) r) (rq_resources request) of
              Some r \<Rightarrow> Inr (deny_gate ''scope'' (''resource-out-of-scope:'' @ r))
            | None \<Rightarrow>
              (case find (\<lambda>p. p \<notin> set (as_provider_refs (au_scope a))) (rq_provider_refs request) of
                 Some p \<Rightarrow> Inr (deny_gate ''scope'' (''provider-out-of-scope:'' @ p))
               | None \<Rightarrow> rbind (effect_digest request) (\<lambda>d.
                   if au_effect_digest a \<noteq> d then Inr (deny_gate ''scope'' ''effect-digest-mismatch'')
                   else Inr (allow_gate ''scope'' ''scope-matches''))))))"

definition authorization_gate :: "authorization option \<Rightarrow> int \<Rightarrow> gate_decision" where
  "authorization_gate authorization moment =
     (case authorization of
        None \<Rightarrow> deny_gate ''authorization'' ''authorization-required''
      | Some a \<Rightarrow>
        (case rejection_reason a moment of
           Some reason \<Rightarrow> deny_gate ''authorization'' reason
         | None \<Rightarrow> allow_gate ''authorization'' ''authorization-valid''))"

text \<open>The part of \<^verbatim>\<open>evaluate\<close> after the capability gate: a gate is asked only when the one before it
  has allowed the request.\<close>

definition gate_chain ::
  "gate_decision \<Rightarrow> effect_request \<Rightarrow> policy_document \<Rightarrow> authorization option \<Rightarrow> int \<Rightarrow> gate_decision list res" where
  "gate_chain capability request document authorization moment =
     (let risk = request_risk request;
          auto = is_auto_approved (rq_action request) (rq_effects request);
          policy = policy_gate request document;
          ceiling = risk_gate request document risk in
      if \<not> decision_allowed capability then Inr [capability]
      else if \<not> decision_allowed policy then Inr [capability, policy]
      else if \<not> decision_allowed ceiling then Inr [capability, policy, ceiling]
      else if \<not> auto \<and> ra_requires_authorization risk
      then rbind (scope_gate request authorization) (\<lambda>scope.
        if decision_allowed scope
        then Inr [capability, policy, ceiling, scope, authorization_gate authorization moment]
        else Inr [capability, policy, ceiling, scope])
      else Inr [capability, policy, ceiling, allow_gate ''authorization'' ''salt-okunur-islem-otomatik''])"

definition verdict_entry :: "'s governance \<Rightarrow> governance_verdict \<Rightarrow> int \<Rightarrow> string \<Rightarrow> (pyval \<times> pyval) list \<Rightarrow> audit_entry" where
  "verdict_entry sv verdict moment effect evidence =
     \<lparr>ae_action = ''gate.'' @ rq_action (gv_request verdict), ae_subject_type = ''effect'', ae_subject_id = effect,
      ae_decision = (if verdict_allowed verdict then ''allow'' else ''deny''),
      ae_reason = (case denial_reason verdict of None \<Rightarrow> ''all-gates-passed''
        | Some r \<Rightarrow> if r = [] then ''all-gates-passed'' else r),
      ae_evidence = evidence, ae_actor_id = gs_actor_id sv,
      ae_authorization_id = map_option au_id (gv_authorization verdict), ae_correlation_id = gs_correlation_id sv,
      ae_now = moment\<rparr>"

definition audit_verdict :: "'s governance \<Rightarrow> governance_verdict \<Rightarrow> int \<Rightarrow> ('s, uuid) gov" where
  "audit_verdict sv verdict moment =
     gbind (glift (effect_digest (gv_request verdict))) (\<lambda>effect.
     gbind (glift (verdict_as_dict verdict)) (\<lambda>evidence.
     repository sv (\<lambda>R. rp_audit_record R (verdict_entry sv verdict moment effect evidence))))"

definition evaluate ::
  "'s governance \<Rightarrow> effect_request \<Rightarrow> authorization option \<Rightarrow> policy_document option \<Rightarrow> int \<Rightarrow> bool
   \<Rightarrow> ('s, governance_verdict) gov" where
  "evaluate sv request authorization policy moment record_audit =
     gbind (case policy of Some document \<Rightarrow> greturn document | None \<Rightarrow> active_policy sv DEFAULT_POLICY_NAME) (\<lambda>document.
     gbind (capability_gate sv request) (\<lambda>capability.
     gbind (glift (gate_chain capability request document authorization moment)) (\<lambda>gates.
     let verdict = \<lparr>gv_request = request, gv_risk = request_risk request, gv_gates = gates,
       gv_auto_approved = is_auto_approved (rq_action request) (rq_effects request),
       gv_authorization = authorization\<rparr> in
     if record_audit then gbind (audit_verdict sv verdict moment) (\<lambda>_. greturn verdict)
     else greturn verdict)))"

section \<open>Authorizations\<close>

text \<open>The right operand of \<^verbatim>\<open>|\<close> replaces an entry with the same key.\<close>

definition dict_set :: "(pyval \<times> pyval) list \<Rightarrow> string \<Rightarrow> pyval \<Rightarrow> (pyval \<times> pyval) list" where
  "dict_set d k v =
     (if PStr k \<in> fst ` set d then map (\<lambda>(j, w). if j = PStr k then (j, v) else (j, w)) d
      else d @ [(PStr k, v)])"

text \<open>The scope is derived from the request.\<close>

definition issue_scope :: "effect_request \<Rightarrow> uuid list \<Rightarrow> authorization_scope res" where
  "issue_scope request secret_ref_ids =
     (let effects = sort (map effect_kind_value (filter (\<lambda>e. e \<noteq> EK_NONE) (rq_effects request))) in
      check_scope \<lparr>as_resources = sort (rq_resources request), as_read_resources = [], as_write_resources = [],
        as_effects = (if effects = [] then [''none''] else effects),
        as_provider_refs = sort (rq_provider_refs request), as_secret_ref_ids = secret_ref_ids,
        as_data_classifications = rq_data_classifications request\<rparr>)"

definition issue_plan_digest :: "effect_request \<Rightarrow> task_plan option \<Rightarrow> string option \<Rightarrow> string res" where
  "issue_plan_digest request plan given =
     (case given of
        Some (c # cs) \<Rightarrow> Inr (c # cs)
      | _ \<Rightarrow> (case plan of Some p \<Rightarrow> plan_digest p | None \<Rightarrow> digest (PDict (request_body request))))"

definition new_authorization ::
  "'s governance \<Rightarrow> uuid \<Rightarrow> effect_request \<Rightarrow> uuid \<Rightarrow> task_plan option \<Rightarrow> string option \<Rightarrow> uuid option \<Rightarrow> uuid option
   \<Rightarrow> int \<Rightarrow> uuid list \<Rightarrow> int \<Rightarrow> authorization res" where
  "new_authorization sv new_id request actor_id plan given_digest work_item_id plan_id lifetime secret_ref_ids moment =
     (if plan \<noteq> None \<and> (work_item_id \<noteq> None \<or> plan_id \<noteq> None)
      then Inl (PolicyViolation ''Authorization plan nesnesi ile explicit plan kimligi karisamaz'')
      else if (work_item_id = None) \<noteq> (plan_id = None)
      then Inl (PolicyViolation ''Authorization work ve plan kimliklerini birlikte ister'')
      else
      rbind (issue_scope request secret_ref_ids) (\<lambda>scope.
      rbind (issue_plan_digest request plan given_digest) (\<lambda>bound_plan.
      rbind (effect_digest request) (\<lambda>bound_effect.
      authorization_issue new_id moment (gs_realm_id sv) actor_id bound_plan bound_effect scope
        (risk_level_value (ra_level (request_risk request))) lifetime
        (case plan of Some p \<Rightarrow> Some (tp_work_item_id p) | None \<Rightarrow> work_item_id)
        (case plan of Some p \<Rightarrow> Some (tp_id p) | None \<Rightarrow> plan_id)))))"

definition issue_authorization ::
  "'s governance \<Rightarrow> uuid \<Rightarrow> effect_request \<Rightarrow> uuid \<Rightarrow> task_plan option \<Rightarrow> string option \<Rightarrow> uuid option \<Rightarrow> uuid option
   \<Rightarrow> int \<Rightarrow> uuid list \<Rightarrow> int \<Rightarrow> ('s, authorization) gov" where
  "issue_authorization sv new_id request actor_id plan given_digest work_item_id plan_id lifetime secret_ref_ids moment =
     gbind (glift (new_authorization sv new_id request actor_id plan given_digest work_item_id plan_id lifetime
       secret_ref_ids moment)) (\<lambda>authorization.
     gbind (repository sv (\<lambda>R. rp_issue R authorization)) (\<lambda>_.
     gbind (glift (authorization_as_dict authorization)) (\<lambda>evidence.
     gbind (repository sv (\<lambda>R. rp_audit_record R
       \<lparr>ae_action = ''authorization.issued'', ae_subject_type = ''authorization'', ae_subject_id = au_id authorization,
        ae_decision = ''record'', ae_reason = ''risk-'' @ risk_level_value (ra_level (request_risk request)),
        ae_evidence = dict_set evidence ''risk'' (PDict (risk_as_dict (request_risk request))),
        ae_actor_id = Some actor_id, ae_authorization_id = Some (au_id authorization),
        ae_correlation_id = gs_correlation_id sv, ae_now = moment\<rparr>)) (\<lambda>_.
     greturn authorization))))"

definition consume_authorization ::
  "'s governance \<Rightarrow> uuid \<Rightarrow> effect_request \<Rightarrow> string \<Rightarrow> int \<Rightarrow> ('s, consume_result) gov" where
  "consume_authorization sv authorization_id request consumed_by moment =
     gbind (glift (effect_digest request)) (\<lambda>d.
     gbind (repository sv (\<lambda>R. rp_consume R authorization_id d consumed_by moment)) (\<lambda>result.
     gbind (repository sv (\<lambda>R. rp_audit_record R
       \<lparr>ae_action = ''authorization.consume'', ae_subject_type = ''authorization'', ae_subject_id = authorization_id,
        ae_decision = (if cr_consumed result then ''allow'' else ''deny''), ae_reason = cr_reason result,
        ae_evidence = dict_set (consume_as_dict result) ''effect_digest'' (PStr d),
        ae_actor_id = gs_actor_id sv,
        ae_authorization_id = (if cr_authorization result = None then None else Some authorization_id),
        ae_correlation_id = gs_correlation_id sv, ae_now = moment\<rparr>)) (\<lambda>_.
     greturn result)))"

definition existing_authorization_id :: "'s governance \<Rightarrow> uuid \<Rightarrow> ('s, uuid option) gov" where
  "existing_authorization_id sv authorization_id =
     gcatch_not_found
       (gbind (repository sv (\<lambda>R. rp_get R authorization_id)) (\<lambda>a. greturn (Some (au_id a))))
       (greturn None)"

definition revoke_authorization :: "'s governance \<Rightarrow> uuid \<Rightarrow> string \<Rightarrow> int \<Rightarrow> ('s, bool) gov" where
  "revoke_authorization sv authorization_id reason moment =
     gbind (repository sv (\<lambda>R. rp_revoke R authorization_id reason moment)) (\<lambda>revoked.
     gbind (existing_authorization_id sv authorization_id) (\<lambda>existing.
     gbind (repository sv (\<lambda>R. rp_audit_record R
       \<lparr>ae_action = ''authorization.revoke'', ae_subject_type = ''authorization'', ae_subject_id = authorization_id,
        ae_decision = (if revoked then ''allow'' else ''deny''),
        ae_reason = (if revoked then reason else ''authorization-not-revocable''),
        ae_evidence = [(PStr ''revoked'', PBool revoked)], ae_actor_id = gs_actor_id sv,
        ae_authorization_id = existing, ae_correlation_id = gs_correlation_id sv, ae_now = moment\<rparr>)) (\<lambda>_.
     greturn revoked)))"

definition require_authorized ::
  "'s governance \<Rightarrow> effect_request \<Rightarrow> authorization option \<Rightarrow> string \<Rightarrow> int \<Rightarrow> ('s, authorization) gov" where
  "require_authorized sv request authorization consumed_by moment =
     gbind (evaluate sv request authorization None moment True) (\<lambda>verdict.
     if \<not> verdict_allowed verdict
     then let reason = (case denial_reason verdict of None \<Rightarrow> ''denied'' | Some r \<Rightarrow> if r = [] then ''denied'' else r) in
       if starts_with reason ''authorization'' \<or> contains_sub reason ''out-of-scope''
       then graise (AuthorizationRequired (''Etki yetkilendirilmedi: '' @ reason))
       else graise (PolicyViolation (''Etki reddedildi: '' @ reason))
     else case authorization of
       None \<Rightarrow> graise (AuthorizationRequired ''Yetki gerekli'')
     | Some a \<Rightarrow>
       gbind (consume_authorization sv (au_id a) request consumed_by moment) (\<lambda>result.
       if \<not> cr_consumed result
       then graise (AuthorizationRequired (''Yetki tuketilemedi: '' @ cr_reason result))
       else case cr_authorization result of
         None \<Rightarrow> graise (AuthorizationRequired (''Yetki tuketilemedi: '' @ cr_reason result))
       | Some consumed \<Rightarrow> greturn consumed))"

section \<open>The provider gate\<close>

definition outbound_audit ::
  "'s governance \<Rightarrow> string \<Rightarrow> outbound_request \<Rightarrow> string \<Rightarrow> string \<Rightarrow> uuid option \<Rightarrow> int \<Rightarrow> audit_entry" where
  "outbound_audit sv action request decision reason authorization_id moment =
     \<lparr>ae_action = action, ae_subject_type = ''outbound'', ae_subject_id = ou_id request, ae_decision = decision,
      ae_reason = reason, ae_evidence = outbound_as_dict request, ae_actor_id = gs_actor_id sv,
      ae_authorization_id = authorization_id, ae_correlation_id = gs_correlation_id sv, ae_now = moment\<rparr>"

definition provider_prepare :: "'s governance \<Rightarrow> outbound_request \<Rightarrow> int \<Rightarrow> ('s, outbound_request) gov" where
  "provider_prepare sv request moment =
     (let blocking = blocking_classifications request in
      if blocking \<noteq> [] then
        let reason = ''forbidden-data-class:'' @ join_with '','' (map data_classification_value blocking) in
        gbind (glift (outbound_with_state request OS_DENIED None (Some reason))) (\<lambda>denied.
        gbind (repository sv (\<lambda>R. rp_outbound_record R denied)) (\<lambda>_.
        gbind (repository sv (\<lambda>R. rp_audit_record R
          (outbound_audit sv ''outbound.prepare'' denied ''deny'' reason None moment))) (\<lambda>_.
        greturn denied)))
      else
        gbind (repository sv (\<lambda>R. rp_outbound_record R request)) (\<lambda>_.
        gbind (repository sv (\<lambda>R. rp_audit_record R
          (outbound_audit sv ''outbound.prepare'' request ''record'' ''prepared-without-network'' None moment))) (\<lambda>_.
        greturn request)))"

definition mismatch_reason :: "outbound_request \<Rightarrow> authorization \<Rightarrow> int \<Rightarrow> string option" where
  "mismatch_reason request a moment =
     (case rejection_reason a moment of
        Some reason \<Rightarrow> Some reason
      | None \<Rightarrow>
        if blocking_classifications request \<noteq> [] then Some ''forbidden-data-class''
        else if ou_provider_ref request \<notin> set (as_provider_refs (au_scope a))
        then Some (''provider-out-of-scope:'' @ ou_provider_ref request)
        else if \<not> covers_resource (au_scope a) (outbound_target request)
        then Some (''endpoint-out-of-scope:'' @ outbound_target request)
        else map_option (\<lambda>c. ''data-class-not-reviewed:'' @ data_classification_value c)
          (find (\<lambda>c. c \<notin> set (as_data_classifications (au_scope a))) (review_required_classifications request)))"

definition provider_apply ::
  "'s governance \<Rightarrow> outbound_request \<Rightarrow> authorization \<Rightarrow> int \<Rightarrow> ('s, outbound_request) gov" where
  "provider_apply sv request a moment =
     (case mismatch_reason request a moment of
        Some reason \<Rightarrow>
          gbind (glift (outbound_with_state request OS_DENIED None (Some reason))) (\<lambda>denied.
          gbind (repository sv (\<lambda>R. rp_outbound_record R denied)) (\<lambda>_.
          gbind (repository sv (\<lambda>R. rp_audit_record R
            (outbound_audit sv ''outbound.apply'' denied ''deny'' reason (Some (au_id a)) moment))) (\<lambda>_.
          graise (PolicyViolation (''Outbound istek reddedildi: '' @ reason)))))
      | None \<Rightarrow>
          gbind (glift (outbound_with_state request OS_APPROVED (Some (au_id a)) None)) (\<lambda>approved.
          gbind (repository sv (\<lambda>R. rp_outbound_record R approved)) (\<lambda>_.
          gbind (repository sv (\<lambda>R. rp_audit_record R
            (outbound_audit sv ''outbound.apply'' approved ''allow'' ''request-matches-authorization'' (Some (au_id a)) moment))) (\<lambda>_.
          greturn approved))))"

section \<open>Capabilities of a fresh installation\<close>

definition registered_capability_names :: "capability list \<Rightarrow> string list" where
  "registered_capability_names capabilities = sort (map ca_name capabilities)"

definition DEFAULT_CAPABILITIES :: "(string \<times> capability_kind \<times> string) list" where
  "DEFAULT_CAPABILITIES =
     [(''source.read'', CK_READ, ''Harici kaynagi salt okunur okur''),
      (''sandbox.write'', CK_FILESYSTEM, ''Yalitilmis calisma alanina yazar''),
      (''database.read'', CK_DATABASE, ''Kanonik store'dan okur''),
      (''database.write'', CK_DATABASE, ''Kanonik store'a yazar''),
      (''provider.call'', CK_PROVIDER, ''Model saglayicisina istek gonderir''),
      (''process.run'', CK_PROCESS, ''Typed runner ile surec calistirir''),
      (''git.read'', CK_GIT, ''Salt okunur Git komutlari calistirir'')]"

text \<open>Each capability draws its own identifier and moment.\<close>

definition default_capabilities :: "(uuid \<times> int) list \<Rightarrow> uuid \<Rightarrow> capability list res" where
  "default_capabilities draws realm_id =
     rmap (\<lambda>((new_id, moment), (name, kind, description)).
       capability_create new_id moment realm_id name 1 kind description []) (zip draws DEFAULT_CAPABILITIES)"

end
