(* ===== verification/GovernancePort.thy ===== *)
theory GovernancePort
  imports Governance
begin

text \<open>
  What the governance service makes of its repositories. The gates are compared with a declarative
  reading of policy and authorization. The locale \<open>repository_port\<close> asks that every operation of the
  repositories takes the database along a preorder; then so does every call of the service. The
  locale \<open>authorization_port\<close> adds what a consumption promises, and shows that one authorization
  admits one call.
\<close>

section \<open>The gates as predicates\<close>

lemma allow_gate_allowed [simp]: "decision_allowed (allow_gate g r)" "\<not> decision_allowed (deny_gate g r)"
  by (simp_all add: decision_allowed_def allow_gate_def deny_gate_def)

lemma allow_not_deny [simp]: "allow_gate g r \<noteq> deny_gate g' r'"
  by (simp add: allow_gate_def deny_gate_def)

definition rule_covers :: "policy_rule \<Rightarrow> string list \<Rightarrow> bool" where
  "rule_covers rule resources =
     (ru_allow rule \<and> (ru_allowed_resources rule = []
        \<or> (\<forall>r \<in> set resources. \<exists>p \<in> set (ru_allowed_resources rule). resource_pattern p r)))"

text \<open>The policy permits a request when the first rule for each of its effects allows the effect on all
  the resources and admits the risk.\<close>

definition policy_permits :: "policy_document \<Rightarrow> effect_request \<Rightarrow> bool" where
  "policy_permits document request =
     (\<forall>e \<in> set (rq_effects request). \<exists>rule. rule_for document e = Some rule
        \<and> rule_covers rule (rq_resources request) \<and> ra_level (request_risk request) \<le> ru_max_risk rule)"

text \<open>An authorization opens a request when its scope covers every effect, resource and provider of it, when
  it was issued for this very request, and when it is valid.\<close>

definition authorization_opens :: "effect_request \<Rightarrow> int \<Rightarrow> authorization \<Rightarrow> bool" where
  "authorization_opens request moment a =
     ((\<forall>e \<in> set (rq_effects request). e = EK_NONE \<or> effect_kind_value e \<in> set (as_effects (au_scope a)))
      \<and> (\<forall>r \<in> set (rq_resources request). covers_resource (au_scope a) r)
      \<and> set (rq_provider_refs request) \<subseteq> set (as_provider_refs (au_scope a))
      \<and> effect_digest request = Inr (au_effect_digest a) \<and> authorization_is_valid_at a moment)"

definition needs_authorization :: "effect_request \<Rightarrow> bool" where
  "needs_authorization request =
     (\<not> is_auto_approved (rq_action request) (rq_effects request) \<and> ra_requires_authorization (request_risk request))"

lemma policy_gate_allowed:
  "decision_allowed (policy_gate_from document resources es) \<longleftrightarrow>
     (\<forall>e \<in> set es. \<exists>rule. rule_for document e = Some rule \<and> rule_covers rule resources)"
  by (induction es)
    (auto simp: rule_covers_def Let_def filter_empty_conv list_ex_iff split: option.splits if_splits)

lemma risk_gate_allowed:
  "decision_allowed (risk_gate_from document risk es) \<longleftrightarrow>
     (\<forall>e \<in> set es. \<forall>rule. rule_for document e = Some rule \<longrightarrow> ra_level risk \<le> ru_max_risk rule)"
  by (induction es) (auto simp: less_eq_risk_level_def split: option.splits)

lemma find_None_ball: "find P xs = None \<longleftrightarrow> (\<forall>x \<in> set xs. \<not> P x)"
  by (auto simp: find_None_iff)

lemma find_Some_bex: "find P xs = Some x \<Longrightarrow> x \<in> set xs \<and> P x"
  by (auto simp: find_Some_iff)

lemma scope_gate_allowed:
  assumes "scope_gate request authorization = Inr d"
  shows "decision_allowed d \<and> decision_allowed (authorization_gate authorization moment)
    \<longleftrightarrow> (\<exists>a. authorization = Some a \<and> authorization_opens request moment a)"
  using assms
  by (auto simp: scope_gate_def authorization_gate_def authorization_opens_def covers_effect_def
      rejection_reason_None [symmetric] find_None_ball rbind_Inr_iff subset_iff
      split: option.splits if_splits dest!: find_Some_bex)

lemma gate_chain_allowed:
  assumes "gate_chain capability request document authorization moment = Inr gates"
  shows "gates_allowed gates \<longleftrightarrow> decision_allowed capability \<and> policy_permits document request
    \<and> (needs_authorization request \<longrightarrow> (\<exists>a. authorization = Some a \<and> authorization_opens request moment a))"
proof -
  have policy: "policy_permits document request \<longleftrightarrow> decision_allowed (policy_gate request document)
      \<and> decision_allowed (risk_gate request document (request_risk request))"
    unfolding policy_permits_def policy_gate_def risk_gate_def policy_gate_allowed risk_gate_allowed by fastforce
  show ?thesis
  proof (cases "needs_authorization request \<and> policy_permits document request \<and> decision_allowed capability")
    case True
    with assms policy obtain d where "scope_gate request authorization = Inr d"
      "gates_allowed gates \<longleftrightarrow> decision_allowed d \<and> decision_allowed (authorization_gate authorization moment)"
      by (auto simp: gate_chain_def Let_def gates_allowed_def needs_authorization_def rbind_Inr_iff
          split: if_splits)
    with scope_gate_allowed True show ?thesis by blast
  next
    case False
    with assms policy show ?thesis
      by (auto simp: gate_chain_def Let_def gates_allowed_def needs_authorization_def split: if_splits)
  qed
qed

section \<open>Calls that keep a preorder\<close>

lemma gbind_Inr_iff:
  "gbind m f s = (t, Inr y) \<longleftrightarrow> (\<exists>u x. m s = (u, Inr x) \<and> f x u = (t, Inr y))"
  by (auto simp: gbind_def split: prod.splits sum.splits)

lemma gov_Inr_iff [simp]:
  "greturn x s = (t, Inr y) \<longleftrightarrow> t = s \<and> y = x"
  "graise e s \<noteq> (t, Inr y)"
  "glift r s = (t, Inr y) \<longleftrightarrow> t = s \<and> r = Inr y"
  by (auto simp: greturn_def graise_def glift_def)

locale call_frame =
  fixes steps :: "'s \<Rightarrow> 's \<Rightarrow> bool"
  assumes steps_refl: "steps s s"
    and steps_trans: "steps s t \<Longrightarrow> steps t u \<Longrightarrow> steps s u"
begin

definition framed :: "('s, 'a) gov \<Rightarrow> bool" where
  "framed m = (\<forall>s. steps s (fst (m s)))"

lemma framed_basic: "framed (greturn x)" "framed (graise e)" "framed (glift r)"
  by (simp_all add: framed_def greturn_def graise_def glift_def steps_refl)

lemma framed_gbind:
  assumes "framed m" "\<And>x. framed (f x)"
  shows "framed (gbind m f)"
  unfolding framed_def
proof
  fix s
  have first: "steps s (fst (m s))" and rest: "steps t (fst (f x t))" for t x
    using assms by (simp_all add: framed_def)
  show "steps s (fst (gbind m f s))"
    using first steps_trans [OF first rest] by (auto simp: gbind_def split: prod.splits sum.splits)
qed

lemma framed_catch:
  assumes "framed m" "framed h"
  shows "framed (gcatch_not_found m h)"
  unfolding framed_def
proof
  fix s
  have first: "steps s (fst (m s))" and rest: "steps t (fst (h t))" for t
    using assms by (simp_all add: framed_def)
  show "steps s (fst (gcatch_not_found m h s))"
    using first steps_trans [OF first rest]
    by (auto simp: gcatch_not_found_def split: prod.splits sum.splits zekam_error.splits)
qed

lemma framed_gmap: "(\<And>x. framed (f x)) \<Longrightarrow> framed (gmap f xs)"
  by (induction xs) (auto intro!: framed_gbind framed_basic)

lemma framed_if: "framed a \<Longrightarrow> framed b \<Longrightarrow> framed (if c then a else b)"
  by simp

lemma framed_option: "framed a \<Longrightarrow> (\<And>x. framed (f x)) \<Longrightarrow> framed (case y of None \<Rightarrow> a | Some x \<Rightarrow> f x)"
  by (cases y) simp_all

lemmas framed_calls = framed_basic framed_gbind framed_catch framed_gmap framed_if framed_option

end

locale repository_port = call_frame steps
  for steps :: "'s \<Rightarrow> 's \<Rightarrow> bool" +
  fixes R :: "'s repositories"
  assumes policy_append_steps: "steps s (fst (rp_policy_append R d s))"
    and policy_current_steps: "steps s (fst (rp_policy_current R name s))"
    and capability_current_steps: "steps s (fst (rp_capability_current R name s))"
    and issue_steps: "steps s (fst (rp_issue R a s))"
    and get_steps: "steps s (fst (rp_get R i s))"
    and consume_steps: "steps s (fst (rp_consume R i ed b m s))"
    and revoke_steps: "steps s (fst (rp_revoke R i r m s))"
    and outbound_record_steps: "steps s (fst (rp_outbound_record R q s))"
    and audit_record_steps: "steps s (fst (rp_audit_record R e s))"
begin

lemma framed_repository:
  assumes "gs_provider sv = Some R \<or> gs_provider sv = None" "framed (f R)"
  shows "framed (repository sv f)"
  using assms by (auto simp: repository_def framed_basic)

lemma framed_operations:
  "framed (rp_policy_append R d)" "framed (rp_policy_current R name)" "framed (rp_capability_current R name)"
  "framed (rp_issue R a)" "framed (rp_get R i)" "framed (rp_consume R i e b m)" "framed (rp_revoke R i r m)"
  "framed (rp_outbound_record R q)" "framed (rp_audit_record R w)"
  by (simp_all add: framed_def policy_append_steps policy_current_steps capability_current_steps issue_steps
      get_steps consume_steps revoke_steps outbound_record_steps audit_record_steps)

lemmas framed_intros = framed_calls framed_repository framed_operations

lemma framed_service:
  assumes "gs_provider sv = Some R \<or> gs_provider sv = None"
  shows "framed (ensure_default_policy sv new_id moment)"
    and "framed (evaluate sv request authorization policy moment record_audit)"
    and "framed (issue_authorization sv new_id request actor plan given work plan_id lifetime secrets moment)"
    and "framed (consume_authorization sv i request by moment)"
    and "framed (revoke_authorization sv i reason moment)"
    and "framed (provider_prepare sv outbound moment)"
    and "framed (provider_apply sv outbound a moment)"
  unfolding ensure_default_policy_def evaluate_def audit_verdict_def active_policy_def capability_gate_def issue_authorization_def
    consume_authorization_def revoke_authorization_def existing_authorization_id_def provider_prepare_def
    provider_apply_def Let_def
  by (intro framed_intros assms)+

lemma framed_require_authorized:
  assumes "gs_provider sv = Some R \<or> gs_provider sv = None"
  shows "framed (require_authorized sv request authorization by moment)"
  unfolding require_authorized_def Let_def
  by (intro framed_intros framed_service assms)

end

section \<open>One authorization, one call\<close>

locale authorization_port = repository_port steps R
  for steps :: "'s \<Rightarrow> 's \<Rightarrow> bool" and R :: "'s repositories" +
  fixes ok :: "'s \<Rightarrow> bool" and spent :: "uuid \<Rightarrow> 's \<Rightarrow> bool"
  assumes ok_steps: "ok s \<Longrightarrow> steps s t \<Longrightarrow> ok t"
    and spent_steps: "ok s \<Longrightarrow> spent i s \<Longrightarrow> steps s t \<Longrightarrow> spent i t"
    and consume_fresh: "ok s \<Longrightarrow> rp_consume R i e b m s = (t, Inr r) \<Longrightarrow> cr_consumed r \<Longrightarrow> \<not> spent i s"
    and consume_spends: "ok s \<Longrightarrow> rp_consume R i e b m s = (t, Inr r) \<Longrightarrow> cr_consumed r \<Longrightarrow> spent i t"
begin

lemma require_authorized_consumes:
  assumes "gs_provider sv = Some R" "ok s" "require_authorized sv request (Some a) by moment s = (t, Inr c)"
  shows "\<not> spent (au_id a) s \<and> spent (au_id a) t"
proof -
  have wired: "gs_provider sv = Some R \<or> gs_provider sv = None" using assms(1) by simp
  from assms(3) obtain v r u where
    eval: "evaluate sv request (Some a) None moment True s = (u, Inr v)" and
    consume: "consume_authorization sv (au_id a) request by moment u = (t, Inr r)" and "cr_consumed r"
    unfolding require_authorized_def Let_def gbind_Inr_iff
    by (auto simp: gbind_Inr_iff split: if_splits option.splits)
  from consume obtain e u1 rid where
    spend: "rp_consume R (au_id a) e by moment u = (u1, Inr r)" and
    audit: "\<exists>entry. rp_audit_record R entry u1 = (t, Inr rid)"
    unfolding consume_authorization_def gbind_Inr_iff by (auto simp: repository_def assms(1))
  have "steps s u" using framed_service(2) [OF wired] eval unfolding framed_def by (metis fst_conv)
  then have "ok u" using ok_steps assms(2) by blast
  have "steps u1 t" using audit audit_record_steps by (metis fst_conv)
  have "\<not> spent (au_id a) u" "spent (au_id a) u1"
    using consume_fresh consume_spends \<open>ok u\<close> spend \<open>cr_consumed r\<close> by blast+
  moreover have "ok u1" using ok_steps \<open>ok u\<close> consume_steps spend by (metis fst_conv)
  ultimately show ?thesis
    using spent_steps assms(2) \<open>steps s u\<close> \<open>steps u1 t\<close> by blast
qed

lemma require_authorized_steps:
  assumes "gs_provider sv = Some R" "require_authorized sv request authorization by moment s = (t, r)"
  shows "steps s t"
  using framed_require_authorized assms unfolding framed_def by (metis fst_conv)

end

end
