(* ===== verification/LoopService.thy ===== *)
theory LoopService
  imports LoopPolicy Governance GovernancePort
begin

text \<open>
  The one production path of a loop attempt (\<^verbatim>\<open>application/loop_service.py\<close>): admission, effect,
  validator, ledger. The ledger is the protocol \<^verbatim>\<open>LoopLedger\<close>, a record of operations over an abstract
  state; the effect and the validator may change that state too. The lemmas show that an attempt the
  ledger has admitted is always closed on it, whatever the effect, the validator and the ledger do.
\<close>

section \<open>The ledger and the outcome\<close>

record 's loop_ledger =
  ll_admit :: "loop_attempt_request \<Rightarrow> ('s, loop_admission) gov"
  ll_complete :: "uuid \<Rightarrow> loop_validation \<Rightarrow> ('s, string) gov"
  ll_interrupt :: "uuid \<Rightarrow> string \<Rightarrow> ('s, loop_terminal_state) gov"
  ll_bind_dispatch :: "uuid \<Rightarrow> string \<Rightarrow> uuid \<Rightarrow> ('s, unit) gov"

record 'v loop_execution_result =
  le_value :: 'v
  le_admission :: loop_admission
  le_validation :: loop_validation
  le_terminal_state :: "loop_terminal_state option"

text \<open>\<^verbatim>\<open>LoopTerminalState(state)\<close>.\<close>

definition loop_terminal_of :: "string \<Rightarrow> loop_terminal_state res" where
  "loop_terminal_of t =
     (case find (\<lambda>k. loop_terminal_state_value k = t) [LT_PASSED, LT_BLOCKED, LT_BUDGET_EXHAUSTED, LT_MANUAL_REVIEW] of
        None \<Rightarrow> Inl (PyError ''ValueError'')
      | Some k \<Rightarrow> Inr k)"

text \<open>\<^verbatim>\<open>type(exc).__name__\<close>.\<close>

fun error_class_name :: "zekam_error \<Rightarrow> string" where
  "error_class_name (ConfigurationError _) = ''ConfigurationError''"
| "error_class_name (PolicyViolation _) = ''PolicyViolation''"
| "error_class_name (AuthorizationRequired _) = ''AuthorizationRequired''"
| "error_class_name (ConcurrencyConflict _) = ''ConcurrencyConflict''"
| "error_class_name (NotFound _) = ''NotFound''"
| "error_class_name (ValidationFailed _) = ''ValidationFailed''"
| "error_class_name (IntegrityError _) = ''IntegrityError''"
| "error_class_name (PyError name) = name"

text \<open>\<^verbatim>\<open>try: ... except Exception as exc: ...\<close>\<close>

definition gexcept :: "('s, 'a) gov \<Rightarrow> (zekam_error \<Rightarrow> ('s, 'a) gov) \<Rightarrow> ('s, 'a) gov" where
  "gexcept m handler s = (case m s of (t, Inl e) \<Rightarrow> handler e t | r \<Rightarrow> r)"

section \<open>The executor\<close>

definition assert_v2_progress :: "loop_validation \<Rightarrow> unit res" where
  "assert_v2_progress v =
     (case lv_progress_state v of
        None \<Rightarrow> Inr ()
      | Some state \<Rightarrow>
        if lv_producer_self_report v \<and> state \<in> {IMPROVED, TARGET_REACHED}
        then Inl (PolicyViolation ''Producer self-report measured progress sayilamaz'')
        else if lv_hard_guard_regressed v \<and> state \<in> {IMPROVED, TARGET_REACHED}
        then Inl (PolicyViolation ''Hard guard regresyonu measured progress sayilamaz'')
        else if lv_outcome v = LO_PASSED \<and> state \<noteq> TARGET_REACHED
        then Inl (PolicyViolation ''Measured loop passed sonucu target-reached ister'')
        else Inr ())"

definition failure_digest :: "uuid \<Rightarrow> zekam_error \<Rightarrow> string res" where
  "failure_digest attempt e = digest (PDict
     [(PStr ''attempt_id'', PStr attempt), (PStr ''failure_category'', PStr (error_class_name e))])"

definition run_attempt ::
  "'s loop_ledger \<Rightarrow> loop_attempt_request \<Rightarrow> ('s, 'v) gov \<Rightarrow> ('v \<Rightarrow> loop_admission \<Rightarrow> ('s, loop_validation) gov) \<Rightarrow>
     (loop_admission \<Rightarrow> ('s, unit) gov) option \<Rightarrow> loop_admission \<Rightarrow> uuid \<Rightarrow> ('s, 'v \<times> loop_validation \<times> string) gov" where
  "run_attempt ledger request effect validator before_effect admission attempt =
     gbind (case before_effect of None \<Rightarrow> greturn () | Some f \<Rightarrow> f admission) (\<lambda>_.
     gbind effect (\<lambda>value.
     gbind (validator value admission) (\<lambda>validation.
     gbind (if lv_validator_spec_digest validation \<noteq> lr_validator_spec_digest request
            then graise (PolicyViolation ''Loop validator sonucu immutable spec ile uyusmuyor'')
            else glift (assert_v2_progress validation)) (\<lambda>_.
     gbind (ll_complete ledger attempt validation) (\<lambda>state.
     greturn (value, validation, state))))))"

definition refusal_text :: "loop_admission \<Rightarrow> string" where
  "refusal_text a = ''Loop dispatch reddedildi: ''
     @ (case ad_terminal_state a of None \<Rightarrow> ''unknown'' | Some t \<Rightarrow> loop_terminal_state_value t)
     @ '' ('' @ ad_reason a @ '')''"

definition terminal_after :: "string \<Rightarrow> loop_terminal_state option res" where
  "terminal_after state = (if state = ''active'' then Inr None else rbind (loop_terminal_of state) (\<lambda>t. Inr (Some t)))"

definition loop_execute ::
  "'s loop_ledger \<Rightarrow> loop_attempt_request \<Rightarrow> ('s, 'v) gov \<Rightarrow> ('v \<Rightarrow> loop_admission \<Rightarrow> ('s, loop_validation) gov) \<Rightarrow>
     (loop_admission \<Rightarrow> ('s, unit) gov) option \<Rightarrow> ('s, 'v loop_execution_result) gov" where
  "loop_execute ledger request effect validator before_effect =
     gbind (ll_admit ledger request) (\<lambda>admission.
       case (ad_admitted admission, ad_attempt_id admission) of
         (True, Some attempt) \<Rightarrow>
           gbind (gexcept (run_attempt ledger request effect validator before_effect admission attempt)
                    (\<lambda>e. gbind (glift (failure_digest attempt e)) (\<lambda>d.
                         gbind (ll_interrupt ledger attempt d) (\<lambda>_. graise e))))
             (\<lambda>(value, validation, state).
               gbind (glift (terminal_after state)) (\<lambda>terminal.
               greturn \<lparr>le_value = value, le_admission = admission, le_validation = validation,
                 le_terminal_state = terminal\<rparr>))
       | _ \<Rightarrow> graise (PolicyViolation (refusal_text admission)))"

text \<open>\<^verbatim>\<open>LoopBoundAgentDispatchService.dispatch\<close>: the invocation is bound to the attempt before the canonical
  dispatch, which is a parameter here.\<close>

definition bind_agent_dispatch :: "'s loop_ledger \<Rightarrow> uuid \<Rightarrow> loop_admission \<Rightarrow> ('s, unit) gov" where
  "bind_agent_dispatch ledger invocation admission =
     (case ad_attempt_id admission of
        None \<Rightarrow> graise (PolicyViolation ''Admitted loop attempt kimligi eksik'')
      | Some attempt \<Rightarrow> ll_bind_dispatch ledger attempt ''agent'' invocation)"

definition loop_bound_dispatch ::
  "'s loop_ledger \<Rightarrow> loop_attempt_request \<Rightarrow> uuid \<Rightarrow> ('s, 'v) gov \<Rightarrow>
     ('v \<Rightarrow> loop_admission \<Rightarrow> ('s, loop_validation) gov) \<Rightarrow> ('s, 'v loop_execution_result) gov" where
  "loop_bound_dispatch ledger request invocation canonical_dispatch validator =
     loop_execute ledger request canonical_dispatch validator (Some (bind_agent_dispatch ledger invocation))"

section \<open>Every admitted attempt is closed\<close>

lemma failure_digest_total: "\<exists>d. failure_digest attempt e = Inr d"
  by (simp add: failure_digest_def digest_def canonicalize_def)

lemma assert_v2_Inr: "assert_v2_progress v = Inr u \<Longrightarrow>
    (lv_progress_state v \<in> {Some IMPROVED, Some TARGET_REACHED} \<longrightarrow> measured_progress v)
    \<and> (lv_outcome v = LO_PASSED \<and> lv_progress_state v \<noteq> None \<longrightarrow> lv_progress_state v = Some TARGET_REACHED)"
  by (auto simp: assert_v2_progress_def measured_progress_def split: option.splits if_splits)

lemma run_attempt_Inr:
  assumes "run_attempt ledger request effect validator before_effect admission attempt s = (t, Inr (x, v, state))"
  shows "lv_validator_spec_digest v = lr_validator_spec_digest request \<and> assert_v2_progress v = Inr ()
    \<and> (\<exists>u. ll_complete ledger attempt v u = (t, Inr state))"
  using assms unfolding run_attempt_def by (auto simp: gbind_Inr_iff split: if_splits)

text \<open>C9. An admitted attempt is always closed in the ledger. The last thing that happens to the ledger is
  either a completion, with a validation of the requested validator, which claims progress only with
  the measured evidence for it and, when it is measured, passes only when the target is reached (a validation
  without a progress state is passed through as the validator gave it), and with the terminal state that the
  ledger returned; or an interruption with the digest of the failure, which is then raised,
  unless the interruption fails itself and its own error is raised.\<close>

theorem admitted_attempt_closed:
  assumes "ll_admit ledger request s = (s1, Inr admission)" "ad_admitted admission" "ad_attempt_id admission = Some attempt"
    and "loop_execute ledger request effect validator before_effect s = (t, r)"
  shows "(\<exists>v u state. ll_complete ledger attempt v u = (t, Inr state)
        \<and> lv_validator_spec_digest v = lr_validator_spec_digest request
        \<and> (lv_progress_state v \<in> {Some IMPROVED, Some TARGET_REACHED} \<longrightarrow> measured_progress v)
        \<and> (lv_outcome v = LO_PASSED \<and> lv_progress_state v \<noteq> None \<longrightarrow> lv_progress_state v = Some TARGET_REACHED)
        \<and> (\<forall>x. r = Inr x \<longrightarrow> le_validation x = v \<and> terminal_after state = Inr (le_terminal_state x)))
    \<or> (\<exists>e d u i. failure_digest attempt e = Inr d \<and> ll_interrupt ledger attempt d u = (t, i)
        \<and> (r = Inl e \<or> (\<exists>f. i = Inl f \<and> r = Inl f)))"
proof -
  let ?run = "run_attempt ledger request effect validator before_effect admission attempt"
  obtain u out where run: "?run s1 = (u, out)" by fastforce
  show ?thesis
  proof (cases out)
    case (Inl e)
    obtain d where d: "failure_digest attempt e = Inr d" using failure_digest_total by blast
    obtain w i where i: "ll_interrupt ledger attempt d u = (w, i)" by fastforce
    have "(t, r) = (w, (case i of Inl f \<Rightarrow> Inl f | Inr _ \<Rightarrow> Inl e))"
      using assms run Inl d i
      by (cases i) (auto simp: loop_execute_def gbind_def gexcept_def glift_def graise_def)
    with d i show ?thesis by (intro disjI2 exI [of _ e] exI [of _ d] exI [of _ u] exI [of _ i]) (cases i; simp)
  next
    case (Inr out')
    obtain x v state where o: "out' = (x, v, state)" by (metis prod_cases3)
    note done_ok = run_attempt_Inr [OF run [unfolded Inr o]]
    have "t = u \<and> r = rbind (terminal_after state) (\<lambda>term. Inr \<lparr>le_value = x, le_admission = admission,
        le_validation = v, le_terminal_state = term\<rparr>)"
      using assms run Inr o
      by (cases "terminal_after state") (auto simp: loop_execute_def gbind_def gexcept_def glift_def greturn_def)
    then show ?thesis using done_ok assert_v2_Inr [of v] by (fastforce simp: rbind_Inr_iff)
  qed
qed

end
