(* ===== verification/Uuids.thy ===== *)
theory Uuids
  imports Canonical Security LocalContracts
begin

text \<open>
  Identifiers as text. Name-based identifiers as \<^verbatim>\<open>uuid.uuid5(namespace, name)\<close> computes them: SHA-1 (FIPS 180-4) of the
  sixteen bytes of the namespace and the UTF-8 bytes of the name, the first sixteen bytes with the
  version and variant bits set, as text. \<open>uuid_of_text\<close> is the constructor \<^verbatim>\<open>UUID(text)\<close>, which accepts
  several spellings; on the canonical text of an identifier it is the identity.
\<close>

unbundle bit_operations_syntax

section \<open>SHA-1\<close>

type_synonym sha1_state = "32 word \<times> 32 word \<times> 32 word \<times> 32 word \<times> 32 word"

definition sha1_init :: sha1_state where
  "sha1_init = (0x67452301, 0xefcdab89, 0x98badcfe, 0x10325476, 0xc3d2e1f0)"

definition sha1_f :: "nat \<Rightarrow> 32 word \<Rightarrow> 32 word \<Rightarrow> 32 word \<Rightarrow> 32 word" where
  "sha1_f t x y z =
     (if t < 20 then sha_ch x y z else if t < 40 then x XOR y XOR z
      else if t < 60 then sha_maj x y z else x XOR y XOR z)"

definition sha1_k :: "nat \<Rightarrow> 32 word" where
  "sha1_k t = (if t < 20 then 0x5a827999 else if t < 40 then 0x6ed9eba1 else if t < 60 then 0x8f1bbcdc else 0xca62c1d6)"

text \<open>The message schedule; the list holds the latest word first.\<close>

fun sha1_expand :: "nat \<Rightarrow> 32 word list \<Rightarrow> 32 word list" where
  "sha1_expand 0 ws = rev ws"
| "sha1_expand (Suc n) ws =
     sha1_expand n (word_rotl 1 (ws ! 2 XOR ws ! 7 XOR ws ! 13 XOR ws ! 15) # ws)"

fun sha1_round :: "sha1_state \<Rightarrow> nat \<times> 32 word \<Rightarrow> sha1_state" where
  "sha1_round (a, b, c, d, e) (t, w) =
     (word_rotl 5 a + sha1_f t b c d + e + sha1_k t + w, a, word_rotl 30 b, c, d)"

definition sha1_block :: "sha1_state \<Rightarrow> 32 word list \<Rightarrow> sha1_state" where
  "sha1_block st ws =
     (case (st, foldl sha1_round st (zip [0..<80] (sha1_expand 64 (rev ws)))) of
        ((a, b, c, d, e), (a', b', c', d', e')) \<Rightarrow> (a + a', b + b', c + c', d + d', e + e'))"

fun sha1_blocks :: "nat \<Rightarrow> sha1_state \<Rightarrow> 32 word list \<Rightarrow> sha1_state" where
  "sha1_blocks 0 st ws = st"
| "sha1_blocks (Suc n) st ws = sha1_blocks n (sha1_block st (take 16 ws)) (drop 16 ws)"

definition sha1 :: "nat list \<Rightarrow> sha1_state" where
  "sha1 bs = (let ws = sha_words (sha_pad bs) in sha1_blocks (length ws div 16) sha1_init ws)"

section \<open>Identifiers\<close>

text \<open>The version is in the high bits of the seventh byte, the variant in those of the ninth.\<close>

definition uuid5 :: "nat list \<Rightarrow> string \<Rightarrow> string" where
  "uuid5 namespace name =
     (case sha1 (namespace @ utf8_bytes name) of (a, b, c, d, e) \<Rightarrow>
        let b' = (b AND 0xffff0fff) OR 0x5000; c' = (c AND 0x3fffffff) OR 0x80000000 in
        word_hex a @ ''-'' @ take 4 (word_hex b') @ ''-'' @ drop 4 (word_hex b') @ ''-''
        @ take 4 (word_hex c') @ ''-'' @ drop 4 (word_hex c') @ word_hex d)"

lemma length_uuid5 [simp]: "length (uuid5 namespace name) = 36"
  by (simp add: uuid5_def Let_def split: prod.splits)

section \<open>Reading an identifier\<close>

definition is_hex :: "char \<Rightarrow> bool" where
  "is_hex c = (is_digit09 c \<or> (CHR ''a'' \<le> c \<and> c \<le> CHR ''f'') \<or> (CHR ''A'' \<le> c \<and> c \<le> CHR ''F''))"

text \<open>Digits with single underscores between them.\<close>

fun hex_groups :: "bool \<Rightarrow> string \<Rightarrow> string option" where
  "hex_groups digit [] = (if digit then Some [] else None)"
| "hex_groups digit (c # cs) =
     (if is_hex c then map_option (\<lambda>ds. py_lower_char c # ds) (hex_groups True cs)
      else if c = CHR ''_'' \<and> digit then (case cs of [] \<Rightarrow> None | d # _ \<Rightarrow> if is_hex d then hex_groups False cs else None)
      else None)"

text \<open>\<^verbatim>\<open>int(text, 16)\<close>: surrounding white space, a sign and a prefix are allowed. The result is the
  digits; a text with a minus sign does not occur here.\<close>

definition hex_int :: "string \<Rightarrow> string option" where
  "hex_int t =
     (let u = strip t;
          v = (case u of c # cs \<Rightarrow> if c = CHR ''+'' then cs else u | [] \<Rightarrow> u) in
      if starts_with v ''0x'' \<or> starts_with v ''0X''
      then (case drop 2 v of CHR ''_'' # ds \<Rightarrow> hex_groups False ds | ds \<Rightarrow> hex_groups False ds)
      else hex_groups False v)"

definition strip_braces :: "string \<Rightarrow> string" where
  "strip_braces t = rev (dropWhile (\<lambda>c. c \<in> set ''{}'') (rev (dropWhile (\<lambda>c. c \<in> set ''{}'') t)))"

definition uuid_layout :: "string \<Rightarrow> string" where
  "uuid_layout h = take 8 h @ ''-'' @ take 4 (drop 8 h) @ ''-'' @ take 4 (drop 12 h) @ ''-''
     @ take 4 (drop 16 h) @ ''-'' @ drop 20 h"

definition uuid_of_text :: "string \<Rightarrow> string res" where
  "uuid_of_text t =
     (let h = filter (\<lambda>c. c \<noteq> CHR ''-'') (strip_braces (replace_all ''uuid:'' '''' (replace_all ''urn:'' '''' t))) in
      if length h \<noteq> 32 then Inl (PyError ''ValueError'')
      else case hex_int h of
        None \<Rightarrow> Inl (PyError ''ValueError'')
      | Some ds \<Rightarrow> Inr (uuid_layout (replicate (32 - length ds) (CHR ''0'') @ ds)))"

lemma replace_all_absent: "old \<noteq> [] \<Longrightarrow> hd old \<notin> set s \<Longrightarrow> replace_all old new s = s"
proof (induction old new s rule: replace_all.induct)
  case (2 old new c s)
  then have "\<not> starts_with (c # s) old" by (cases old) (auto simp: starts_with_def)
  with 2 show ?case by simp
qed simp

lemma strip_braces_id: "CHR ''{'' \<notin> set t \<Longrightarrow> CHR ''}'' \<notin> set t \<Longrightarrow> strip_braces t = t"
proof -
  have "dropWhile (\<lambda>c. c \<in> set ''{}'') xs = xs" if "CHR ''{'' \<notin> set xs" "CHR ''}'' \<notin> set xs" for xs
    using that by (cases xs) auto
  from this [of t] this [of "rev t"]
  show "CHR ''{'' \<notin> set t \<Longrightarrow> CHR ''}'' \<notin> set t \<Longrightarrow> strip_braces t = t" by (simp add: strip_braces_def)
qed

lemma is_lower_hex_facts:
  "is_lower_hex c \<Longrightarrow> is_hex c \<and> py_lower_char c = c \<and> \<not> is_space c \<and> c \<notin> set ''-{}+xXu_''"
proof -
  have "\<forall>c \<in> set (map char_of [0..<256 :: nat]). is_lower_hex c \<longrightarrow>
      is_hex c \<and> py_lower_char c = c \<and> \<not> is_space c \<and> c \<notin> set ''-{}+xXu_''" by code_simp
  moreover have "c \<in> set (map char_of [0..<256 :: nat])"
    using of_char_less_256 [of c] by (auto simp: image_iff intro!: bexI [of _ "of_char c"])
  ultimately show "is_lower_hex c \<Longrightarrow> is_hex c \<and> py_lower_char c = c \<and> \<not> is_space c \<and> c \<notin> set ''-{}+xXu_''" by blast
qed

lemma hex_groups_digits: "list_all is_lower_hex ds \<Longrightarrow> ds \<noteq> [] \<or> digit \<Longrightarrow> hex_groups digit ds = Some ds"
  by (induction ds arbitrary: digit) (auto simp: is_lower_hex_facts)

lemma hex_int_digits:
  assumes "list_all is_lower_hex ds" "ds \<noteq> []"
  shows "hex_int ds = Some ds"
proof -
  have strip: "strip ds = ds" using assms by (intro strip_id) (auto simp: list_all_iff is_lower_hex_facts)
  have x: "CHR ''x'' \<notin> set ds" "CHR ''X'' \<notin> set ds" using assms is_lower_hex_facts by (auto simp: list_all_iff)
  then have "\<not> starts_with ds ''0x''" "\<not> starts_with ds ''0X''"
    using in_set_takeD [of _ "Suc (Suc 0)" ds] by (auto simp: starts_with_def dest!: arg_cong [of _ _ set])
  moreover have "hd ds \<noteq> CHR ''+''" using assms is_lower_hex_facts by (cases ds) auto
  ultimately show ?thesis
    using strip assms by (cases ds) (simp_all add: hex_int_def hex_groups_digits is_lower_hex_facts Let_def)
qed

lemma five_parts:
  "map length xs = [n1, n2, n3, n4, n5] \<Longrightarrow> \<exists>a b c d e. xs = [a, b, c, d, e] \<and> length a = n1 \<and> length b = n2
     \<and> length c = n3 \<and> length d = n4 \<and> length e = n5"
  by (auto simp: map_eq_Cons_conv)

lemma uuid_parts:
  assumes "map length (split_on (CHR ''-'') s) = [8, 4, 4, 4, 12]"
  shows "length (filter (\<lambda>c. c \<noteq> CHR ''-'') s) = 32" "uuid_layout (filter (\<lambda>c. c \<noteq> CHR ''-'') s) = s"
proof -
  obtain a b c d e where p: "split_on (CHR ''-'') s = [a, b, c, d, e]"
    and l: "length a = 8" "length b = 4" "length c = 4" "length d = 4" "length e = 12"
    using five_parts [OF assms] by blast
  have s: "s = a @ ''-'' @ b @ ''-'' @ c @ ''-'' @ d @ ''-'' @ e"
    using join_split [of "CHR ''-''" s] unfolding p by simp
  have n: "CHR ''-'' \<notin> set w" if "w \<in> {a, b, c, d, e}" for w
    using split_on_no_sep [of w "CHR ''-''" s] that unfolding p by auto
  have id: "filter (\<lambda>c. c \<noteq> CHR ''-'') w = w" if "w \<in> {a, b, c, d, e}" for w
    using n [OF that] by (intro filter_True) auto
  have f: "filter (\<lambda>c. c \<noteq> CHR ''-'') s = a @ b @ c @ d @ e"
    unfolding s by (simp add: id)
  show "length (filter (\<lambda>c. c \<noteq> CHR ''-'') s) = 32" unfolding f using l by simp
  show "uuid_layout (filter (\<lambda>c. c \<noteq> CHR ''-'') s) = s" unfolding f uuid_layout_def using l by (simp add: s)
qed

lemma uuid_of_text_canonical:
  assumes "is_uuid_text s"
  shows "uuid_of_text s = Inr s"
proof -
  have shape: "map length (split_on (CHR ''-'') s) = [8, 4, 4, 4, 12]" and chars: "\<forall>c \<in> set s. is_lower_hex c \<or> c = CHR ''-''"
    using assms by (auto simp: is_uuid_text_def list_all_iff)
  have absent: "CHR ''u'' \<notin> set s" "CHR ''{'' \<notin> set s" "CHR ''}'' \<notin> set s"
    using chars is_lower_hex_facts by fastforce+
  have h: "list_all is_lower_hex (filter (\<lambda>c. c \<noteq> CHR ''-'') s)" using chars by (auto simp: list_all_iff)
  have ne: "filter (\<lambda>c. c \<noteq> CHR ''-'') s \<noteq> []" using uuid_parts(1) [OF shape] by (metis length_0_conv zero_neq_numeral)
  show ?thesis
    using uuid_parts [OF shape] hex_int_digits [OF h ne]
    by (simp add: uuid_of_text_def replace_all_absent absent strip_braces_id Let_def)
qed

end
