(* ===== verification/LoopOrchestrator.thy ===== *)
theory LoopOrchestrator
  imports LoopPolicy Governance Uuids
begin

text \<open>
  One durable job per attempt (\<^verbatim>\<open>application/loop_orchestrator.py\<close> and the request that
  \<^verbatim>\<open>application/measured_loop_worker.py\<close> reads back from the job). The identifiers of the attempt and of
  the job are derived from what the attempt is; a production job is planned without authority, and
  may be enqueued only once an authorization of exactly its effect scope is attached.
\<close>

definition ATTEMPT_NAMESPACE :: "nat list" where
  "ATTEMPT_NAMESPACE = [0xa8, 0xf7, 0xeb, 0xc3, 0xc8, 0xbf, 0x53, 0xf0, 0xb1, 0x67, 0x21, 0xce, 0x71, 0x4a, 0x4c, 0xc5]"

definition JOB_NAMESPACE :: "nat list" where
  "JOB_NAMESPACE = [0x51, 0xea, 0x6e, 0x1d, 0x63, 0x39, 0x5f, 0xd2, 0xa4, 0x5f, 0x0d, 0x92, 0x7c, 0x82, 0xbe, 0xf2]"

section \<open>Plans\<close>

record effect_scope_request =
  es_job_id :: uuid
  es_loop_id :: uuid
  es_attempt_id :: uuid
  es_driver_digest :: string
  es_source_revision :: string
  es_topology_decision_id :: uuid
  es_topology_decision_digest :: string
  es_resources :: "string list"

definition measured_loop_effect_scope_digest :: "effect_scope_request \<Rightarrow> string res" where
  "measured_loop_effect_scope_digest q = digest (PDict
     [(PStr ''schema'', PStr ''zekam-measured-loop-local-effect/v2''), (PStr ''job_id'', PStr (es_job_id q)),
      (PStr ''loop_id'', PStr (es_loop_id q)), (PStr ''attempt_id'', PStr (es_attempt_id q)),
      (PStr ''driver_digest'', PStr (es_driver_digest q)), (PStr ''source_revision'', PStr (es_source_revision q)),
      (PStr ''topology_decision_id'', PStr (es_topology_decision_id q)),
      (PStr ''topology_decision_digest'', PStr (es_topology_decision_digest q)),
      (PStr ''resources'', PList (map PStr (sort (es_resources q))))])"

record loop_job_plan =
  jp_loop_id :: uuid
  jp_attempt_id :: uuid
  jp_ordinal :: int
  jp_predecessor_attempt_id :: "uuid option"
  jp_progress_packet :: "loop_packet option"
  jp_idempotency_digest :: string
  jp_job :: job
  jp_effect_scope_digest :: "string option"

record loop_job_result =
  jr_job :: job
  jr_job_created :: bool
  jr_binding_created :: bool
  jr_idempotency_digest :: string

record loop_control =
  co_paused :: bool
  co_draining :: bool
  co_cancelled :: bool

definition assert_open :: "loop_control \<Rightarrow> unit res" where
  "assert_open c =
     (if co_cancelled c then Inl (PolicyViolation ''Cancelled loop yeni attempt acamaz'')
      else if co_draining c then Inl (PolicyViolation ''Draining loop yeni attempt acamaz'')
      else if co_paused c then Inl (PolicyViolation ''Paused loop yeni attempt acamaz'')
      else Inr ())"

text \<open>The keyword arguments of \<^verbatim>\<open>plan_attempt\<close>.\<close>

record plan_arguments =
  pa_objective :: optimization_objective
  pa_policy :: loop_policy
  pa_ordinal :: int
  pa_predecessor_attempt_id :: "uuid option"
  pa_progress_packet :: "loop_packet option"
  pa_kind :: job_kind
  pa_resources :: "resource_request list"
  pa_required_capabilities :: "string list"
  pa_priority :: int
  pa_run_id :: "uuid option"
  pa_control :: "loop_control option"
  pa_admission_request :: "loop_attempt_request option"
  pa_effect_authorization_id :: "uuid option"
  pa_effect_authorization_digest :: "string option"
  pa_topology_decision_id :: "uuid option"
  pa_topology_decision_digest :: "string option"
  pa_topology_pattern :: "string option"
  pa_production_driver_digest :: "string option"

definition parse_optional :: "string option \<Rightarrow> unit res" where
  "parse_optional v = (case v of None \<Rightarrow> Inr () | Some d \<Rightarrow> rbind (parse_digest d) (\<lambda>_. Inr ()))"

definition check_authority_arguments :: "plan_arguments \<Rightarrow> unit res" where
  "check_authority_arguments a =
     rbind (case pa_control a of None \<Rightarrow> Inr () | Some c \<Rightarrow> assert_open c) (\<lambda>_.
     if (pa_effect_authorization_id a = None) \<noteq> (pa_effect_authorization_digest a = None)
     then Inl (ValidationFailed ''Loop attempt effect authorization exact cift ister'')
     else rbind (parse_optional (pa_effect_authorization_digest a)) (\<lambda>_.
       if (pa_topology_decision_id a \<noteq> None \<or> pa_topology_decision_digest a \<noteq> None \<or> pa_topology_pattern a \<noteq> None)
          \<and> (pa_topology_decision_id a = None \<or> pa_topology_decision_digest a = None \<or> pa_topology_pattern a = None)
       then Inl (ValidationFailed ''Loop attempt topology exact uclu binding ister'')
       else rbind (parse_optional (pa_topology_decision_digest a)) (\<lambda>_.
         if pa_topology_pattern a \<noteq> None \<and> pa_topology_pattern a \<noteq> Some ''bounded-loop''
         then Inl (PolicyViolation ''Measured loop job bounded-loop topology ister'')
         else if pa_production_driver_digest a = None then Inr ()
         else rbind (parse_optional (pa_production_driver_digest a)) (\<lambda>_.
           if pa_topology_decision_id a = None
           then Inl (PolicyViolation ''Production measured loop topology binding ister'')
           else if pa_effect_authorization_id a \<noteq> None
           then Inl (PolicyViolation ''Production loop authorization plan sonrasinda attach edilir'')
           else Inr ()))))"

text \<open>\<^verbatim>\<open>_assert_scope\<close>; the realms are those of the measured-loop store and of the job store.\<close>

definition assert_scope :: "uuid \<Rightarrow> uuid \<Rightarrow> optimization_objective \<Rightarrow> loop_policy \<Rightarrow> unit res" where
  "assert_scope measured_realm job_realm o1 p =
     (if measured_realm \<noteq> job_realm then Inl (PolicyViolation ''Measured loop repository realm binding drift'')
      else if oo_realm_id o1 \<noteq> measured_realm then Inl (PolicyViolation ''Measured loop objective realm binding drift'')
      else if (oo_project_id o1, oo_work_item_id o1, oo_plan_id o1, oo_step_id o1)
            \<noteq> (lo_project_id p, lo_work_item_id p, lo_plan_id p, lo_step_id p)
      then Inl (ValidationFailed ''Measured loop objective/policy scope drift'')
      else Inr ())"

definition check_predecessor :: "plan_arguments \<Rightarrow> unit res" where
  "check_predecessor a =
     (if pa_ordinal a = 1 \<and> pa_predecessor_attempt_id a \<noteq> None
      then Inl (ValidationFailed ''Ilk loop attempt predecessor tasiyamaz'')
      else if pa_ordinal a > 1 then
        (case (pa_predecessor_attempt_id a, pa_progress_packet a) of
           (Some u, Some p) \<Rightarrow> if lp_predecessor_attempt_id p \<noteq> u
             then Inl (PolicyViolation ''Loop attempt predecessor/progress packet drift'') else Inr ()
         | _ \<Rightarrow> Inl (PolicyViolation ''Loop attempt 2+ predecessor ve packet ister''))
      else Inr ())"

section \<open>Payload\<close>

definition dict_update :: "(pyval \<times> pyval) list \<Rightarrow> (string \<times> pyval) list \<Rightarrow> (pyval \<times> pyval) list" where
  "dict_update d kvs = foldl (\<lambda>e (k, v). dict_set e k v) d kvs"

definition identity_body :: "uuid \<Rightarrow> int \<Rightarrow> uuid option \<Rightarrow> string option \<Rightarrow> (string \<times> pyval) list" where
  "identity_body loop ordinal predecessor packet =
     [(''schema'', PStr ''zekam-loop-attempt-job-identity/v1''), (''loop_id'', PStr loop), (''ordinal'', PInt ordinal),
      (''predecessor_attempt_id'', opt_text predecessor), (''progress_packet_digest'', opt_text packet)]"

definition identity_digest :: "uuid \<Rightarrow> int \<Rightarrow> uuid option \<Rightarrow> string option \<Rightarrow> string res" where
  "identity_digest loop ordinal predecessor packet =
     digest (PDict (map (\<lambda>(k, v). (PStr k, v)) (identity_body loop ordinal predecessor packet)))"

definition admission_body :: "loop_attempt_request \<Rightarrow> pyval" where
  "admission_body r = PDict
     [(PStr ''prompt_digest'', PStr (lr_prompt_digest r)), (PStr ''context_digest'', PStr (lr_context_digest r)),
      (PStr ''action_digest'', PStr (lr_action_digest r)), (PStr ''source_revision'', PStr (lr_source_revision r)),
      (PStr ''plan_digest'', PStr (lr_plan_digest r)),
      (PStr ''policy_revision_digest'', PStr (lr_policy_revision_digest r)),
      (PStr ''validator_spec_digest'', PStr (lr_validator_spec_digest r)),
      (PStr ''reserved_input_tokens'', PInt (lr_reserved_input_tokens r)),
      (PStr ''reserved_output_tokens'', PInt (lr_reserved_output_tokens r)),
      (PStr ''reserved_cost_micros'', PInt (lr_reserved_cost_micros r)),
      (PStr ''delta_evidence_ids'', PList (map PStr (lr_delta_evidence_ids r))),
      (PStr ''objective_digest'', opt_text (lr_objective_digest r)),
      (PStr ''validator_asset_manifest_digest'', opt_text (lr_validator_asset_manifest_digest r)),
      (PStr ''progress_packet_digest'', opt_text (lr_progress_packet_digest r)),
      (PStr ''metric_vector_digest'', opt_text (lr_metric_vector_digest r)),
      (PStr ''novelty_digest'', opt_text (lr_novelty_digest r)),
      (PStr ''novelty_body'', (case lr_novelty r of None \<Rightarrow> PNone | Some n \<Rightarrow> fingerprint_body n))]"

text \<open>A dictionary display with an unpacked dictionary: a later entry replaces an earlier one with the
  same key.\<close>

definition base_payload :: "plan_arguments \<Rightarrow> string option \<Rightarrow> uuid \<Rightarrow> string \<Rightarrow> (pyval \<times> pyval) list" where
  "base_payload a packet attempt objective =
     (let p = pa_policy a in
      dict_update [(PStr ''schema'', PStr ''zekam-loop-attempt-job/v1'')]
       (identity_body (lo_id p) (pa_ordinal a) (pa_predecessor_attempt_id a) packet
        @ [(''attempt_id'', PStr attempt), (''objective_digest'', PStr objective),
           (''source_revision'', PStr (lo_source_revision p)), (''plan_digest'', PStr (lo_plan_digest p)),
           (''policy_revision_digest'', PStr (lo_policy_revision_digest p)),
           (''validator_asset_manifest_digest'', PStr (oo_validator_asset_manifest_digest (pa_objective a))),
           (''grants_authority'', PBool False)]))"

definition optional_entries :: "plan_arguments \<Rightarrow> (string \<times> pyval) list" where
  "optional_entries a =
     (case pa_admission_request a of None \<Rightarrow> [] | Some r \<Rightarrow> [(''admission'', admission_body r)])
     @ (case pa_effect_authorization_id a of None \<Rightarrow> []
        | Some u \<Rightarrow> [(''effect_authorization'', PDict [(PStr ''authorization_id'', PStr u),
            (PStr ''authorization_digest'', opt_text (pa_effect_authorization_digest a))])])
     @ (case pa_topology_decision_id a of None \<Rightarrow> []
        | Some u \<Rightarrow> [(''topology'', PDict [(PStr ''decision_id'', PStr u),
            (PStr ''decision_digest'', opt_text (pa_topology_decision_digest a)),
            (PStr ''pattern'', opt_text (pa_topology_pattern a))])])"

section \<open>Operations\<close>

definition request_binding ::
  "loop_attempt_request \<Rightarrow> uuid \<times> int \<times> uuid option \<times> string option \<times> string option \<times> string option" where
  "request_binding r = (lr_loop_id r, lr_attempt_ordinal r, lr_predecessor_attempt_id r, lr_objective_digest r,
     lr_validator_asset_manifest_digest r, lr_progress_packet_digest r)"

definition packet_digest_option :: "loop_packet option \<Rightarrow> string option res" where
  "packet_digest_option packet =
     (case packet of None \<Rightarrow> Inr None | Some p \<Rightarrow> rbind (packet_digest p) (\<lambda>d. Inr (Some d)))"

definition scope_of_plan :: "plan_arguments \<Rightarrow> uuid \<Rightarrow> uuid \<Rightarrow> string option res" where
  "scope_of_plan a attempt job =
     (case pa_production_driver_digest a of
        None \<Rightarrow> Inr None
      | Some driver \<Rightarrow>
        rbind (measured_loop_effect_scope_digest
           \<lparr>es_job_id = job, es_loop_id = lo_id (pa_policy a), es_attempt_id = attempt, es_driver_digest = driver,
            es_source_revision = lo_source_revision (pa_policy a),
            es_topology_decision_id = the (pa_topology_decision_id a),
            es_topology_decision_digest = the (pa_topology_decision_digest a),
            es_resources = map (resource_text \<circ> rr_resource) (pa_resources a)\<rparr>) (\<lambda>d. Inr (Some d)))"

definition plan_payload :: "plan_arguments \<Rightarrow> string option \<Rightarrow> uuid \<Rightarrow> string \<Rightarrow> string option \<Rightarrow> (pyval \<times> pyval) list" where
  "plan_payload a packet attempt objective scope =
     dict_update (base_payload a packet attempt objective)
       (optional_entries a @ (case scope of None \<Rightarrow> [] | Some d \<Rightarrow> [(''effect_scope_digest'', PStr d)]))"

definition plan_job :: "uuid \<Rightarrow> int \<Rightarrow> plan_arguments \<Rightarrow> uuid \<Rightarrow> string \<Rightarrow> (pyval \<times> pyval) list \<Rightarrow> job res" where
  "plan_job new_id moment a job identity payload =
     (let p = pa_policy a in
      rbind (job_create new_id moment
        \<lparr>jq_realm_id = lo_realm_id p, jq_project_id = lo_project_id p, jq_kind = pa_kind a,
         jq_idempotency_key = ''loop-attempt:'' @ lo_id p @ '':'' @ int_str (pa_ordinal a) @ '':'' @ identity,
         jq_resources = pa_resources a, jq_required_capabilities = pa_required_capabilities a,
         jq_priority = pa_priority a, jq_max_attempts = 1, jq_work_item_id = Some (lo_work_item_id p),
         jq_plan_id = Some (lo_plan_id p), jq_step_id = Some (lo_step_id p),
         jq_assignment_id = Some (lo_assignment_id p), jq_run_id = pa_run_id a, jq_payload = Some (PDict payload),
         jq_available_at = None\<rparr>) (\<lambda>j. check_job (j\<lparr>job_id := job\<rparr>)))"

definition plan_attempt :: "uuid \<Rightarrow> uuid \<Rightarrow> uuid \<Rightarrow> int \<Rightarrow> plan_arguments \<Rightarrow> loop_job_plan res" where
  "plan_attempt measured_realm job_realm new_id moment a =
     (let p = pa_policy a; o1 = pa_objective a in
      rbind (check_authority_arguments a) (\<lambda>_.
      rbind (assert_scope measured_realm job_realm o1 p) (\<lambda>_.
      rbind (objective_digest o1) (\<lambda>objective.
      rbind (require_progress_packet (pa_ordinal a) (pa_progress_packet a) objective (lo_source_revision p)
               (lo_plan_digest p) (lo_policy_revision_digest p) (oo_validator_asset_manifest_digest o1)) (\<lambda>_.
      rbind (check_predecessor a) (\<lambda>_.
      rbind (packet_digest_option (pa_progress_packet a)) (\<lambda>packet.
      rbind (identity_digest (lo_id p) (pa_ordinal a) (pa_predecessor_attempt_id a) packet) (\<lambda>identity.
      let attempt = uuid5 ATTEMPT_NAMESPACE identity; job = uuid5 JOB_NAMESPACE identity in
      if (case pa_admission_request a of None \<Rightarrow> False
          | Some r \<Rightarrow> request_binding r \<noteq> (lo_id p, pa_ordinal a, pa_predecessor_attempt_id a, Some objective,
              Some (oo_validator_asset_manifest_digest o1), packet))
      then Inl (ValidationFailed ''Loop attempt admission request/job plan binding drift'')
      else rbind (scope_of_plan a attempt job) (\<lambda>scope.
        rbind (plan_job new_id moment a job identity (plan_payload a packet attempt objective scope)) (\<lambda>j.
        Inr \<lparr>jp_loop_id = lo_id p, jp_attempt_id = attempt, jp_ordinal = pa_ordinal a,
             jp_predecessor_attempt_id = pa_predecessor_attempt_id a, jp_progress_packet = pa_progress_packet a,
             jp_idempotency_digest = identity, jp_job = j, jp_effect_scope_digest = scope\<rparr>))))))))))"

definition payload_entries :: "job \<Rightarrow> (pyval \<times> pyval) list" where
  "payload_entries j = (case job_payload j of PDict kvs \<Rightarrow> kvs | _ \<Rightarrow> [])"

definition attach_effect_authorization :: "loop_job_plan \<Rightarrow> uuid \<Rightarrow> string \<Rightarrow> loop_job_plan res" where
  "attach_effect_authorization plan authorization scope =
     rbind (parse_digest scope) (\<lambda>_.
     if jp_effect_scope_digest plan \<noteq> Some scope
     then Inl (PolicyViolation ''Loop effect authorization scope digest drift'')
     else if map_of (payload_entries (jp_job plan)) (PStr ''effect_authorization'') \<noteq> None
     then Inl (PolicyViolation ''Loop effect authorization zaten bagli'')
     else rbind (check_job ((jp_job plan)\<lparr>job_payload := PDict (dict_set (payload_entries (jp_job plan)) ''effect_authorization''
            (PDict [(PStr ''authorization_id'', PStr authorization), (PStr ''effect_digest'', PStr scope)]))\<rparr>)) (\<lambda>j.
       Inr (plan\<lparr>jp_job := j\<rparr>)))"

text \<open>The protocols \<^verbatim>\<open>MeasuredLoopStore\<close> and \<^verbatim>\<open>LoopJobStore\<close> over an abstract state; \<open>ls_unit_of_work\<close> runs the
  body inside the transaction of the measured-loop store.\<close>

record 's loop_stores =
  ls_unit_of_work :: "('s, loop_job_result) gov \<Rightarrow> ('s, loop_job_result) gov"
  ls_assert_loop_open :: "uuid \<Rightarrow> ('s, unit) gov"
  ls_enqueue :: "job \<Rightarrow> ('s, job \<times> bool) gov"
  ls_bind_loop_attempt_job ::
    "uuid \<Rightarrow> int \<Rightarrow> uuid option \<Rightarrow> loop_packet option \<Rightarrow> job \<Rightarrow> string \<Rightarrow> ('s, bool) gov"

text \<open>\<^verbatim>\<open>UUID(str(value))\<close> of a JSON value: the text of a float, a list or a dictionary is never one.\<close>

fun uuid_of_value :: "pyval \<Rightarrow> string res" where
  "uuid_of_value (PStr t) = uuid_of_text t"
| "uuid_of_value (PInt i) = uuid_of_text (int_str i)"
| "uuid_of_value _ = Inl (PyError ''ValueError'')"

definition payload_get :: "(pyval \<times> pyval) list \<Rightarrow> string \<Rightarrow> pyval" where
  "payload_get d k = (case map_of d (PStr k) of None \<Rightarrow> PNone | Some v \<Rightarrow> v)"

definition carries_authorization :: "(pyval \<times> pyval) list \<Rightarrow> string \<Rightarrow> bool" where
  "carries_authorization payload scope =
     (case payload_get payload ''effect_authorization'' of
        PDict entries \<Rightarrow> payload_get entries ''effect_digest'' = PStr scope
      | _ \<Rightarrow> False)"

definition check_enqueue :: "loop_job_plan \<Rightarrow> unit res" where
  "check_enqueue plan =
     rbind (uuid_of_value (payload_get (payload_entries (jp_job plan)) ''loop_id'')) (\<lambda>loop.
     if jp_loop_id plan \<noteq> loop then Inl (ValidationFailed ''Loop attempt plan/job binding drift'')
     else case jp_effect_scope_digest plan of
       None \<Rightarrow> Inr ()
     | Some scope \<Rightarrow>
       if \<not> carries_authorization (payload_entries (jp_job plan)) scope
       then Inl (PolicyViolation ''Production loop enqueue attached exact authorization ister'')
       else Inr ())"

definition enqueue_attempt :: "'s loop_stores \<Rightarrow> loop_job_plan \<Rightarrow> ('s, loop_job_result) gov" where
  "enqueue_attempt stores plan =
     gbind (glift (check_enqueue plan)) (\<lambda>_.
     ls_unit_of_work stores (
       gbind (ls_assert_loop_open stores (jp_loop_id plan)) (\<lambda>_.
       gbind (ls_enqueue stores (jp_job plan)) (\<lambda>(j, created).
       gbind (ls_bind_loop_attempt_job stores (jp_loop_id plan) (jp_ordinal plan) (jp_predecessor_attempt_id plan)
                (jp_progress_packet plan) j (jp_idempotency_digest plan)) (\<lambda>bound.
       greturn \<lparr>jr_job = j, jr_job_created = created, jr_binding_created = bound,
         jr_idempotency_digest = jp_idempotency_digest plan\<rparr>)))))"

section \<open>Payloads as dictionaries\<close>

lemma map_of_replaced: "map_of (map (\<lambda>(j, w). if j = k then (j, v) else (j, w)) d) =
    (if k \<in> fst ` set d then (map_of d)(k \<mapsto> v) else map_of d)"
  by (induction d) (auto simp: fun_eq_iff)

lemma map_of_dict_set: "map_of (dict_set d k v) = (map_of d)(PStr k \<mapsto> v)"
proof (cases "PStr k \<in> fst ` set d")
  case False
  then have "map_of d (PStr k) = None" by (simp add: map_of_eq_None_iff)
  with False show ?thesis by (auto simp: dict_set_def map_of_append map_add_def fun_eq_iff split: option.splits)
qed (simp add: dict_set_def map_of_replaced)

lemma payload_get_set: "payload_get (dict_set d k v) j = (if j = k then v else payload_get d j)"
  by (simp add: payload_get_def map_of_dict_set)

lemma dict_update_simps [simp]:
  "dict_update d [] = d" "dict_update d ((k, v) # kvs) = dict_update (dict_set d k v) kvs"
  by (simp_all add: dict_update_def)

lemma dict_update_append: "dict_update d (xs @ ys) = dict_update (dict_update d xs) ys"
  by (simp add: dict_update_def)

lemma payload_get_update: "payload_get (dict_update d kvs) j =
    (case map_of (rev kvs) j of None \<Rightarrow> payload_get d j | Some v \<Rightarrow> v)"
proof (induction kvs arbitrary: d)
  case (Cons kv kvs)
  obtain k v where "kv = (k, v)" by force
  with Cons show ?case by (auto simp: payload_get_set map_of_append map_add_def split: option.splits)
qed simp

text \<open>The keys that the optional entries may use.\<close>

lemma optional_keys: "k \<in> fst ` set (optional_entries a) \<Longrightarrow> k \<in> {''admission'', ''effect_authorization'', ''topology''}"
  by (auto simp: optional_entries_def split: option.splits)

lemma plan_payload_base:
  assumes "k \<notin> {''admission'', ''effect_authorization'', ''topology'', ''effect_scope_digest''}"
  shows "payload_get (plan_payload a packet attempt objective scope) k = payload_get (base_payload a packet attempt objective) k"
proof -
  have "map_of (rev (optional_entries a @ (case scope of None \<Rightarrow> [] | Some d \<Rightarrow> [(''effect_scope_digest'', PStr d)]))) k = None"
    using assms optional_keys [of k a] by (auto simp: map_of_eq_None_iff split: option.splits)
  then show ?thesis by (simp only: plan_payload_def payload_get_update option.case)
qed

lemma base_payload_get:
  "payload_get (base_payload a packet attempt objective) ''schema'' = PStr ''zekam-loop-attempt-job-identity/v1''"
  "payload_get (base_payload a packet attempt objective) ''loop_id'' = PStr (lo_id (pa_policy a))"
  "payload_get (base_payload a packet attempt objective) ''ordinal'' = PInt (pa_ordinal a)"
  "payload_get (base_payload a packet attempt objective) ''predecessor_attempt_id'' = opt_text (pa_predecessor_attempt_id a)"
  "payload_get (base_payload a packet attempt objective) ''attempt_id'' = PStr attempt"
  by (simp_all add: base_payload_def identity_body_def payload_get_set dict_update_append Let_def)

lemma plan_payload_get:
  "payload_get (plan_payload a packet attempt objective scope) ''schema'' = PStr ''zekam-loop-attempt-job-identity/v1''"
  "payload_get (plan_payload a packet attempt objective scope) ''loop_id'' = PStr (lo_id (pa_policy a))"
  "payload_get (plan_payload a packet attempt objective scope) ''ordinal'' = PInt (pa_ordinal a)"
  "payload_get (plan_payload a packet attempt objective scope) ''predecessor_attempt_id'' = opt_text (pa_predecessor_attempt_id a)"
  "payload_get (plan_payload a packet attempt objective scope) ''attempt_id'' = PStr attempt"
  by (simp_all add: plan_payload_base base_payload_get)

lemma plan_payload_admission:
  "payload_get (plan_payload a packet attempt objective scope) ''admission'' =
     (case pa_admission_request a of None \<Rightarrow> PNone | Some r \<Rightarrow> admission_body r)"
proof -
  have "payload_get (base_payload a packet attempt objective) ''admission'' = PNone"
    by (simp add: base_payload_def identity_body_def payload_get_set dict_update_append Let_def) (simp add: payload_get_def)
  then show ?thesis
    by (simp add: plan_payload_def payload_get_set dict_update_append optional_entries_def split: option.splits)
qed

lemma base_payload_keys: "map_of (base_payload a packet attempt objective) (PStr ''effect_authorization'') = None"
  by (simp add: base_payload_def identity_body_def map_of_dict_set dict_update_append Let_def)

lemma plan_payload_authorization:
  "map_of (plan_payload a packet attempt objective scope) (PStr ''effect_authorization'') = None
     \<longleftrightarrow> pa_effect_authorization_id a = None"
  by (simp add: plan_payload_def map_of_dict_set dict_update_append optional_entries_def base_payload_keys
      split: option.splits)

lemma plan_job_Inr:
  assumes "plan_job new_id moment a job identity payload = Inr j"
  shows "job_id j = job" "job_payload j = PDict payload" "job_max_attempts j = 1" "check_job j = Inr j"
    "job_idempotency_key j = ''loop-attempt:'' @ lo_id (pa_policy a) @ '':'' @ int_str (pa_ordinal a) @ '':'' @ identity"
  using assms by (auto simp: plan_job_def job_create_def check_job_def rbind_Inr_iff Let_def split: if_splits)

lemma ex_unit_iff: "(\<exists>u :: unit. P u) \<longleftrightarrow> P ()"
  by auto

lemma plan_attempt_Inr:
  assumes "plan_attempt measured_realm job_realm new_id moment a = Inr plan"
  obtains objective packet identity scope j where
    "check_authority_arguments a = Inr ()" "objective_digest (pa_objective a) = Inr objective"
    "require_progress_packet (pa_ordinal a) (pa_progress_packet a) objective (lo_source_revision (pa_policy a))
       (lo_plan_digest (pa_policy a)) (lo_policy_revision_digest (pa_policy a))
       (oo_validator_asset_manifest_digest (pa_objective a)) = Inr ()"
    "check_predecessor a = Inr ()" "packet_digest_option (pa_progress_packet a) = Inr packet"
    "identity_digest (lo_id (pa_policy a)) (pa_ordinal a) (pa_predecessor_attempt_id a) packet = Inr identity"
    "\<forall>r. pa_admission_request a = Some r \<longrightarrow> request_binding r = (lo_id (pa_policy a), pa_ordinal a,
       pa_predecessor_attempt_id a, Some objective, Some (oo_validator_asset_manifest_digest (pa_objective a)), packet)"
    "scope_of_plan a (uuid5 ATTEMPT_NAMESPACE identity) (uuid5 JOB_NAMESPACE identity) = Inr scope"
    "plan_job new_id moment a (uuid5 JOB_NAMESPACE identity) identity
       (plan_payload a packet (uuid5 ATTEMPT_NAMESPACE identity) objective scope) = Inr j"
    "plan = \<lparr>jp_loop_id = lo_id (pa_policy a), jp_attempt_id = uuid5 ATTEMPT_NAMESPACE identity, jp_ordinal = pa_ordinal a,
       jp_predecessor_attempt_id = pa_predecessor_attempt_id a, jp_progress_packet = pa_progress_packet a,
       jp_idempotency_digest = identity, jp_job = j, jp_effect_scope_digest = scope\<rparr>"
proof -
  from assms obtain objective packet identity scope j where *:
    "check_authority_arguments a = Inr ()" "objective_digest (pa_objective a) = Inr objective"
    "require_progress_packet (pa_ordinal a) (pa_progress_packet a) objective (lo_source_revision (pa_policy a))
       (lo_plan_digest (pa_policy a)) (lo_policy_revision_digest (pa_policy a))
       (oo_validator_asset_manifest_digest (pa_objective a)) = Inr ()"
    "check_predecessor a = Inr ()" "packet_digest_option (pa_progress_packet a) = Inr packet"
    "identity_digest (lo_id (pa_policy a)) (pa_ordinal a) (pa_predecessor_attempt_id a) packet = Inr identity"
    "\<not> (case pa_admission_request a of None \<Rightarrow> False | Some r \<Rightarrow> request_binding r \<noteq> (lo_id (pa_policy a), pa_ordinal a,
       pa_predecessor_attempt_id a, Some objective, Some (oo_validator_asset_manifest_digest (pa_objective a)), packet))"
    "scope_of_plan a (uuid5 ATTEMPT_NAMESPACE identity) (uuid5 JOB_NAMESPACE identity) = Inr scope"
    "plan_job new_id moment a (uuid5 JOB_NAMESPACE identity) identity
       (plan_payload a packet (uuid5 ATTEMPT_NAMESPACE identity) objective scope) = Inr j"
    "plan = \<lparr>jp_loop_id = lo_id (pa_policy a), jp_attempt_id = uuid5 ATTEMPT_NAMESPACE identity, jp_ordinal = pa_ordinal a,
       jp_predecessor_attempt_id = pa_predecessor_attempt_id a, jp_progress_packet = pa_progress_packet a,
       jp_idempotency_digest = identity, jp_job = j, jp_effect_scope_digest = scope\<rparr>"
    unfolding plan_attempt_def Let_def rbind_Inr_iff if_Inl_eq_Inr ex_unit_iff sum.inject by blast
  show thesis
    by (rule that [OF *(1-6) _ *(8-10)]) (use *(7) in auto)
qed

section \<open>The identity of an attempt\<close>

text \<open>The identity of an attempt depends on the loop, the ordinal, the predecessor and the progress
  packet only. Two plans that agree on these name the same attempt and the same job under the same
  idempotency key, whatever the clock, the drawn identifier, the priority or the driver, so a planner
  that crashed and plans again cannot start a second attempt; the job is tried once. The payload
  carries the attempt, but under the schema of the identity and not under the schema of the job.\<close>

theorem attempt_identity_deterministic:
  assumes "plan_attempt measured_realm job_realm new_id moment a = Inr plan"
    and "plan_attempt measured_realm' job_realm' new_id' moment' b = Inr plan'"
    and "lo_id (pa_policy a) = lo_id (pa_policy b)" "pa_ordinal a = pa_ordinal b"
    and "pa_predecessor_attempt_id a = pa_predecessor_attempt_id b" "pa_progress_packet a = pa_progress_packet b"
  shows "jp_attempt_id plan = jp_attempt_id plan' \<and> job_id (jp_job plan) = job_id (jp_job plan')
    \<and> job_idempotency_key (jp_job plan) = job_idempotency_key (jp_job plan')
    \<and> jp_idempotency_digest plan = jp_idempotency_digest plan'
    \<and> job_max_attempts (jp_job plan) = 1
    \<and> payload_get (payload_entries (jp_job plan)) ''attempt_id'' = PStr (jp_attempt_id plan)
    \<and> payload_get (payload_entries (jp_job plan)) ''schema'' = PStr ''zekam-loop-attempt-job-identity/v1''"
proof -
  obtain pa ia sa ja oa where a: "packet_digest_option (pa_progress_packet a) = Inr pa"
    "identity_digest (lo_id (pa_policy a)) (pa_ordinal a) (pa_predecessor_attempt_id a) pa = Inr ia"
    "plan_job new_id moment a (uuid5 JOB_NAMESPACE ia) ia (plan_payload a pa (uuid5 ATTEMPT_NAMESPACE ia) oa sa) = Inr ja"
    "jp_attempt_id plan = uuid5 ATTEMPT_NAMESPACE ia" "jp_idempotency_digest plan = ia" "jp_job plan = ja"
    by (rule plan_attempt_Inr [OF assms(1)]) simp
  obtain pb ib sb jb ob where b: "packet_digest_option (pa_progress_packet b) = Inr pb"
    "identity_digest (lo_id (pa_policy b)) (pa_ordinal b) (pa_predecessor_attempt_id b) pb = Inr ib"
    "plan_job new_id' moment' b (uuid5 JOB_NAMESPACE ib) ib (plan_payload b pb (uuid5 ATTEMPT_NAMESPACE ib) ob sb) = Inr jb"
    "jp_attempt_id plan' = uuid5 ATTEMPT_NAMESPACE ib" "jp_idempotency_digest plan' = ib" "jp_job plan' = jb"
    by (rule plan_attempt_Inr [OF assms(2)]) simp
  have "pa = pb" using a(1) b(1) assms(6) by simp
  with a(2) b(2) assms(3-5) have "ia = ib" by simp
  note ja = plan_job_Inr [OF a(3)] and jb = plan_job_Inr [OF b(3)]
  have "payload_entries ja = plan_payload a pa (uuid5 ATTEMPT_NAMESPACE ia) oa sa"
    by (simp add: payload_entries_def ja(2))
  then show ?thesis
    using a(4-6) b(4-6) \<open>ia = ib\<close> ja(1,3,5) jb(1,5) assms(3,4) by (simp add: plan_payload_get)
qed

section \<open>Production attempts need an authorization\<close>

lemma attach_Inr:
  assumes "jp_effect_scope_digest plan = Some scope" "valid_digest scope" "check_job (jp_job plan) = Inr (jp_job plan)"
    and "map_of (payload_entries (jp_job plan)) (PStr ''effect_authorization'') = None"
  shows "\<exists>plan'. attach_effect_authorization plan authorization scope = Inr plan' \<and> jp_loop_id plan' = jp_loop_id plan
    \<and> jp_effect_scope_digest plan' = Some scope
    \<and> payload_entries (jp_job plan') = dict_set (payload_entries (jp_job plan)) ''effect_authorization''
         (PDict [(PStr ''authorization_id'', PStr authorization), (PStr ''effect_digest'', PStr scope)])"
proof -
  obtain h where "parse_digest scope = Inr h" using assms(2) by (auto simp: is_ok_iff)
  moreover have "check_job ((jp_job plan)\<lparr>job_payload := p\<rparr>) = Inr ((jp_job plan)\<lparr>job_payload := p\<rparr>)" for p
    using assms(3) by (auto simp: check_job_def split: if_splits)
  ultimately show ?thesis
    using assms(1,4) by (simp add: attach_effect_authorization_def payload_entries_def)
qed

lemma scope_of_plan_Inr:
  assumes "scope_of_plan a attempt job = Inr s" "pa_production_driver_digest a = Some driver"
  shows "\<exists>scope. s = Some scope \<and> valid_digest scope"
  using assms by (auto simp: scope_of_plan_def measured_loop_effect_scope_digest_def digest_def rbind_Inr_iff)

text \<open>C33. A planned attempt with a production driver is not enqueued until an authorization is attached: the
  enqueue is refused before the stores are asked and changes nothing. An authorization for any other
  scope cannot be attached, one for the scope of the plan can, the result passes the check of the
  enqueue, and a second authorization cannot be attached to it.\<close>

theorem production_enqueue_needs_authorization:
  assumes "plan_attempt measured_realm job_realm new_id moment a = Inr plan"
    and "pa_production_driver_digest a = Some driver" "is_uuid_text (lo_id (pa_policy a))"
  shows "\<exists>scope. jp_effect_scope_digest plan = Some scope
    \<and> enqueue_attempt stores plan s = (s, Inl (PolicyViolation ''Production loop enqueue attached exact authorization ister''))
    \<and> (\<forall>other. other \<noteq> scope \<longrightarrow> \<not> is_ok (attach_effect_authorization plan authorization other))
    \<and> (\<exists>plan'. attach_effect_authorization plan authorization scope = Inr plan' \<and> check_enqueue plan' = Inr ()
        \<and> \<not> is_ok (attach_effect_authorization plan' again scope))"
proof -
  obtain pk idn sc j obj where p: "check_authority_arguments a = Inr ()"
    "scope_of_plan a (uuid5 ATTEMPT_NAMESPACE idn) (uuid5 JOB_NAMESPACE idn) = Inr sc"
    "plan_job new_id moment a (uuid5 JOB_NAMESPACE idn) idn (plan_payload a pk (uuid5 ATTEMPT_NAMESPACE idn) obj sc) = Inr j"
    "jp_loop_id plan = lo_id (pa_policy a)" "jp_job plan = j" "jp_effect_scope_digest plan = sc"
    by (rule plan_attempt_Inr [OF assms(1)]) simp
  obtain scope where sc: "sc = Some scope" "valid_digest scope" using scope_of_plan_Inr [OF p(2) assms(2)] by blast
  note j = plan_job_Inr [OF p(3)]
  have entries: "payload_entries (jp_job plan) = plan_payload a pk (uuid5 ATTEMPT_NAMESPACE idn) obj sc"
    by (simp add: payload_entries_def p(5) j(2))
  have "pa_effect_authorization_id a = None"
    using p(1) assms(2) by (auto simp: check_authority_arguments_def rbind_Inr_iff split: if_splits)
  then have none: "map_of (payload_entries (jp_job plan)) (PStr ''effect_authorization'') = None"
    unfolding entries plan_payload_authorization .
  have loop: "uuid_of_value (payload_get (payload_entries (jp_job plan)) ''loop_id'') = Inr (jp_loop_id plan)"
    by (simp add: entries plan_payload_get p(4) uuid_of_text_canonical [OF assms(3)])
  have "check_enqueue plan = Inl (PolicyViolation ''Production loop enqueue attached exact authorization ister'')"
    by (simp add: check_enqueue_def loop p(6) sc(1) carries_authorization_def payload_get_def [of _ "''effect_authorization''"] none)
  then have refused: "enqueue_attempt stores plan s
      = (s, Inl (PolicyViolation ''Production loop enqueue attached exact authorization ister''))"
    by (simp add: enqueue_attempt_def gbind_def glift_def)
  have "check_job (jp_job plan) = Inr (jp_job plan)" using j(4) p(5) by simp
  from attach_Inr [OF _ sc(2) this none] obtain plan' where plan': "attach_effect_authorization plan authorization scope = Inr plan'"
    "jp_loop_id plan' = jp_loop_id plan" "jp_effect_scope_digest plan' = Some scope"
    "payload_entries (jp_job plan') = dict_set (payload_entries (jp_job plan)) ''effect_authorization''
         (PDict [(PStr ''authorization_id'', PStr authorization), (PStr ''effect_digest'', PStr scope)])"
    using p(6) sc(1) by blast
  have "check_enqueue plan' = Inr ()"
    using loop by (simp add: check_enqueue_def plan'(2,3,4) payload_get_set carries_authorization_def)
      (simp add: payload_get_def)
  moreover have "\<not> is_ok (attach_effect_authorization plan' again scope)"
    by (auto simp: attach_effect_authorization_def plan'(3,4) map_of_dict_set is_ok_iff rbind_Inr_iff)
  moreover have "\<forall>other. other \<noteq> scope \<longrightarrow> \<not> is_ok (attach_effect_authorization plan authorization other)"
    by (auto simp: attach_effect_authorization_def p(6) sc(1) is_ok_iff rbind_Inr_iff)
  ultimately show ?thesis using p(6) sc(1) refused plan'(1) by blast
qed

end
