(* ===== verification/LoopWorker.thy ===== *)
theory LoopWorker
  imports LoopOrchestrator GovernancePort
begin

text \<open>
  The request that the worker of a measured loop reads back from the payload of its job
  (\<^verbatim>\<open>application/measured_loop_worker.py\<close>, \<^verbatim>\<open>_request\<close>, \<^verbatim>\<open>_optional_text\<close> and \<^verbatim>\<open>_novelty\<close>). The payload is a JSON
  document, so a value of it is \<^verbatim>\<open>None\<close>, a Boolean, a number, a text, a list or a dictionary. The lemmas
  show that the worker reads exactly the request that was planned.
\<close>

section \<open>Values as texts and numbers\<close>

text \<open>\<^verbatim>\<open>repr\<close> of a text: double quotes only when it has a single quote and no double quote.\<close>

definition repr_char :: "char \<Rightarrow> char \<Rightarrow> string" where
  "repr_char q c = (let n = (of_char c :: nat) in
     if c = q \<or> n = 92 then [CHR 0x5C, c] else if n = 10 then [CHR 0x5C, CHR ''n''] else if n = 13 then [CHR 0x5C, CHR ''r'']
     else if n = 9 then [CHR 0x5C, CHR ''t'']
     else if n < 32 \<or> (127 \<le> n \<and> n \<le> 160) \<or> n = 173 then [CHR 0x5C, CHR ''x''] @ hex2 n else [c])"

definition repr_text :: "string \<Rightarrow> string" where
  "repr_text t = (let q = (if CHR 0x27 \<in> set t \<and> CHR 0x22 \<notin> set t then CHR 0x22 else CHR 0x27) in
     [q] @ concat (map (repr_char q) t) @ [q])"

text \<open>\<^verbatim>\<open>repr\<close> of a value of a JSON document; other values do not occur in one.\<close>

fun repr_value :: "pyval \<Rightarrow> string" where
  "repr_value PNone = ''None''"
| "repr_value (PBool b) = (if b then ''True'' else ''False'')"
| "repr_value (PInt i) = int_str i"
| "repr_value (PFloat (FloatRepr t)) = t"
| "repr_value (PStr t) = repr_text t"
| "repr_value (PList vs) = ''['' @ join_with '', '' (map repr_value vs) @ '']''"
| "repr_value (PDict kvs) = ''{'' @ join_with '', '' (map (\<lambda>kv. repr_value (fst kv) @ '': '' @ repr_value (snd kv)) kvs) @ ''}''"
| "repr_value _ = ''''"

text \<open>\<^verbatim>\<open>str(value)\<close>.\<close>

definition str_value :: "pyval \<Rightarrow> string" where
  "str_value v = (case v of PStr t \<Rightarrow> t | _ \<Rightarrow> repr_value v)"

fun digit_groups :: "bool \<Rightarrow> nat \<Rightarrow> string \<Rightarrow> nat option" where
  "digit_groups digit acc [] = (if digit then Some acc else None)"
| "digit_groups digit acc (c # cs) =
     (if is_digit09 c then digit_groups True (10 * acc + (of_char c - 48)) cs
      else if c = CHR ''_'' \<and> digit then digit_groups False acc cs else None)"

text \<open>\<^verbatim>\<open>int(text)\<close>.\<close>

definition int_of_text :: "string \<Rightarrow> int res" where
  "int_of_text t =
     (let u = strip t;
          (s, v) = (case u of c # cs \<Rightarrow> if c = CHR ''-'' then (- 1, cs) else if c = CHR ''+'' then (1, cs) else (1, u) | [] \<Rightarrow> (1, u))
      in case digit_groups False 0 v of None \<Rightarrow> Inl (PyError ''ValueError'') | Some n \<Rightarrow> Inr (s * int n))"

text \<open>\<^verbatim>\<open>int(x)\<close> of a float, from the text of the float: digits, point, digits and a decimal exponent.\<close>

definition int_of_float_text :: "string \<Rightarrow> int" where
  "int_of_float_text t =
     (let neg = starts_with t ''-''; u = (if neg then drop 1 t else t);
          mant = takeWhile (\<lambda>c. c \<noteq> CHR ''e'') u; ex = drop (Suc (length mant)) u;
          whole = takeWhile (\<lambda>c. c \<noteq> CHR ''.'') mant; frac = drop (Suc (length whole)) mant;
          num = (\<lambda>ds. case digit_groups False 0 ds of None \<Rightarrow> 0 | Some n \<Rightarrow> n);
          shift = (case ex of c # ds \<Rightarrow> if c = CHR ''-'' then - int (num ds) else int (num ds) | [] \<Rightarrow> 0) - int (length frac);
          n = num (whole @ frac);
          v = (if shift \<ge> 0 then n * 10 ^ nat shift else n div 10 ^ nat (- shift))
      in if neg then - int v else int v)"

fun int_of_value :: "pyval \<Rightarrow> int res" where
  "int_of_value (PInt i) = Inr i"
| "int_of_value (PBool b) = Inr (if b then 1 else 0)"
| "int_of_value (PStr t) = int_of_text t"
| "int_of_value (PFloat (FloatRepr t)) = Inr (int_of_float_text t)"
| "int_of_value _ = Inl (PyError ''TypeError'')"

text \<open>Iteration over a value.\<close>

fun iterate :: "pyval \<Rightarrow> pyval list res" where
  "iterate (PList vs) = Inr vs"
| "iterate (PStr t) = Inr (map (\<lambda>c. PStr [c]) t)"
| "iterate (PDict kvs) = Inr (map fst kvs)"
| "iterate _ = Inl (PyError ''TypeError'')"

definition dict_item :: "(pyval \<times> pyval) list \<Rightarrow> string \<Rightarrow> pyval res" where
  "dict_item d k = (case map_of d (PStr k) of None \<Rightarrow> Inl (PyError ''KeyError'') | Some v \<Rightarrow> Inr v)"

section \<open>Reading the request\<close>

definition optional_text :: "pyval \<Rightarrow> string option" where
  "optional_text v = (if v = PNone then None else Some (str_value v))"

definition NOVELTY_KEYS :: "string list" where
  "NOVELTY_KEYS = [''objective_digest'', ''artifact_digest'', ''hypothesis_digest'', ''patch_digest'', ''failure_signature'',
     ''action_semantics_digest'']"

definition read_novelty :: "pyval \<Rightarrow> pyval \<Rightarrow> novelty_fingerprint option res" where
  "read_novelty body supplied =
     (if body = PNone \<and> supplied = PNone then Inr None
      else case body of
        PDict d \<Rightarrow>
          if supplied = PNone then Inl (ValidationFailed ''Measured loop job canonical novelty body ister'')
          else if fst ` set d \<noteq> PStr ` set NOVELTY_KEYS
          then Inl (ValidationFailed ''Measured loop job novelty body exact component seti ister'')
          else rbind (check_fingerprint
            \<lparr>nf_objective_digest = str_value (payload_get d ''objective_digest''),
             nf_artifact_digest = str_value (payload_get d ''artifact_digest''),
             nf_hypothesis_digest = str_value (payload_get d ''hypothesis_digest''),
             nf_patch_digest = str_value (payload_get d ''patch_digest''),
             nf_failure_signature = str_value (payload_get d ''failure_signature''),
             nf_action_semantics_digest = str_value (payload_get d ''action_semantics_digest''),
             nf_novelty_digest = str_value supplied\<rparr>) (\<lambda>f. Inr (Some f))
      | _ \<Rightarrow> Inl (ValidationFailed ''Measured loop job canonical novelty body ister''))"

definition read_text :: "(pyval \<times> pyval) list \<Rightarrow> string \<Rightarrow> string res" where
  "read_text d k = rbind (dict_item d k) (\<lambda>v. Inr (str_value v))"

definition read_int :: "(pyval \<times> pyval) list \<Rightarrow> string \<Rightarrow> int res" where
  "read_int d k = rbind (dict_item d k) int_of_value"

definition read_request_body ::
  "(pyval \<times> pyval) list \<Rightarrow> (pyval \<times> pyval) list \<Rightarrow> loop_attempt_request res" where
  "read_request_body payload admission =
     rbind (read_int payload ''ordinal'') (\<lambda>ordinal.
     rbind (dict_item admission ''delta_evidence_ids'') (\<lambda>ids.
     rbind (iterate ids) (\<lambda>items.
     rbind (rmap uuid_of_value items) (\<lambda>evidence_ids.
     rbind (dict_item payload ''loop_id'') (\<lambda>loop_value.
     rbind (uuid_of_value loop_value) (\<lambda>loop.
     rbind (read_text admission ''prompt_digest'') (\<lambda>prompt.
     rbind (read_text admission ''context_digest'') (\<lambda>context_digest.
     rbind (read_text admission ''action_digest'') (\<lambda>action.
     rbind (read_text admission ''source_revision'') (\<lambda>source.
     rbind (read_text admission ''plan_digest'') (\<lambda>plan.
     rbind (read_text admission ''policy_revision_digest'') (\<lambda>revision.
     rbind (read_text admission ''validator_spec_digest'') (\<lambda>spec.
     rbind (read_int admission ''reserved_input_tokens'') (\<lambda>input_tokens.
     rbind (read_int admission ''reserved_output_tokens'') (\<lambda>output_tokens.
     rbind (read_int admission ''reserved_cost_micros'') (\<lambda>cost.
     rbind (if payload_get payload ''predecessor_attempt_id'' = PNone then Inr None
            else rbind (uuid_of_value (payload_get payload ''predecessor_attempt_id'')) (\<lambda>u. Inr (Some u))) (\<lambda>predecessor.
     rbind (read_novelty (payload_get admission ''novelty_body'') (payload_get admission ''novelty_digest'')) (\<lambda>novelty.
     check_attempt_request
       \<lparr>lr_loop_id = loop, lr_prompt_digest = prompt, lr_context_digest = context_digest, lr_action_digest = action,
        lr_source_revision = source, lr_plan_digest = plan, lr_policy_revision_digest = revision,
        lr_validator_spec_digest = spec, lr_reserved_input_tokens = input_tokens,
        lr_reserved_output_tokens = output_tokens, lr_reserved_cost_micros = cost,
        lr_predecessor_attempt_id = predecessor, lr_delta_evidence_ids = evidence_ids, lr_attempt_ordinal = ordinal,
        lr_objective_digest = optional_text (payload_get admission ''objective_digest''),
        lr_validator_asset_manifest_digest = optional_text (payload_get admission ''validator_asset_manifest_digest''),
        lr_progress_packet_digest = optional_text (payload_get admission ''progress_packet_digest''),
        lr_metric_vector_digest = optional_text (payload_get admission ''metric_vector_digest''),
        lr_novelty_digest = optional_text (payload_get admission ''novelty_digest''),
        lr_novelty = novelty\<rparr>))))))))))))))))))"

text \<open>\<^verbatim>\<open>except (KeyError, TypeError, ValueError)\<close>.\<close>

definition payload_invalid :: "'a res \<Rightarrow> 'a res" where
  "payload_invalid r =
     (case r of
        Inl (PyError name) \<Rightarrow> if name \<in> {''KeyError'', ''TypeError'', ''ValueError''}
          then Inl (ValidationFailed ''Measured loop job admission payload gecersiz'') else r
      | _ \<Rightarrow> r)"

definition read_request :: "job \<Rightarrow> loop_attempt_request res" where
  "read_request j =
     (let payload = payload_entries j in
      case payload_get payload ''admission'' of
        PDict admission \<Rightarrow> payload_invalid (read_request_body payload admission)
      | _ \<Rightarrow> Inl (PolicyViolation ''Measured loop job exact admission payload ister''))"

section \<open>The handler of a job\<close>

record attempt_execution =
  ax_packet :: loop_packet
  ax_evidence :: "measurement_evidence list"
  ax_outcome :: loop_attempt_outcome
  ax_result_invocation_id :: uuid
  ax_verifier_invocation_id :: uuid
  ax_actual_input_tokens :: int
  ax_actual_output_tokens :: int
  ax_actual_cost_micros :: int
  ax_effect_receipt_id :: "uuid option"
  ax_stop_reason :: "loop_stop_reason option"
  ax_next_request :: "loop_attempt_request option"
  ax_auto_enqueue_next :: bool

record stored_progress =
  sp_packet_digest :: string
  sp_progress_decision_digest :: string

type_synonym attempt_record = "stored_progress \<times> string \<times> uuid option"

text \<open>What the handler is composed of: the two repositories, the contract loader, the runner of the
  attempt, the optional checkpoint writer and the stores of the orchestrator. \<open>wp_transaction\<close> is
  \<^verbatim>\<open>connection.transaction()\<close> of the database driver.\<close>

record 's worker_ports =
  wp_admit :: "loop_attempt_request \<Rightarrow> uuid \<Rightarrow> ('s, loop_admission) gov"
  wp_run :: "job \<Rightarrow> loop_admission \<Rightarrow> ('s, attempt_execution) gov"
  wp_load :: "uuid \<Rightarrow> ('s, optimization_objective \<times> loop_policy) gov"
  wp_transaction :: "('s, attempt_record) gov \<Rightarrow> ('s, attempt_record) gov"
  wp_store_loop_progress :: "uuid \<Rightarrow> loop_packet \<Rightarrow> measurement_evidence list \<Rightarrow> uuid \<Rightarrow> uuid \<Rightarrow>
    loop_stop_reason option \<Rightarrow> ('s, stored_progress) gov"
  wp_checkpoint_writer :: "(job \<Rightarrow> loop_admission \<Rightarrow> attempt_execution \<Rightarrow> string \<Rightarrow> string \<Rightarrow> ('s, unit) gov) option"
  wp_complete :: "uuid \<Rightarrow> loop_validation \<Rightarrow> ('s, string) gov"
  wp_stores :: "'s loop_stores"
  wp_measured_realm :: uuid
  wp_job_realm :: uuid

definition attempt_validation :: "attempt_execution \<Rightarrow> loop_policy \<Rightarrow> stored_progress \<Rightarrow> loop_validation res" where
  "attempt_validation x p stored =
     (let v = lc_current_metric_vector (lp_checkpoint (ax_packet x)) in
      rbind (progress_digest v) (\<lambda>d. check_validation
       \<lparr>lv_outcome = ax_outcome x, lv_validator_spec_digest = lo_validator_spec_digest p,
        lv_actual_input_tokens = ax_actual_input_tokens x, lv_actual_output_tokens = ax_actual_output_tokens x,
        lv_actual_cost_micros = ax_actual_cost_micros x, lv_result_invocation_id = ax_result_invocation_id x,
        lv_verifier_invocation_id = ax_verifier_invocation_id x, lv_effect_receipt_id = ax_effect_receipt_id x,
        lv_metric_evidence_refs = map me_evidence_ref (ax_evidence x), lv_metric_vector_digest = Some d,
        lv_progress_state = Some (pv_progress_state v),
        lv_progress_decision_digest = Some (sp_progress_decision_digest stored),
        lv_progress_packet_digest = Some (sp_packet_digest stored),
        lv_producer_self_report = False, lv_hard_guard_regressed = False\<rparr>))"

text \<open>The next attempt, planned with the defaults of \<^verbatim>\<open>plan_attempt\<close>.\<close>

definition next_arguments ::
  "optimization_objective \<Rightarrow> loop_policy \<Rightarrow> attempt_execution \<Rightarrow> uuid \<Rightarrow> loop_attempt_request \<Rightarrow> uuid option \<Rightarrow> plan_arguments" where
  "next_arguments o1 p x predecessor request run =
     \<lparr>pa_objective = o1, pa_policy = p, pa_ordinal = lp_attempt_ordinal (ax_packet x),
      pa_predecessor_attempt_id = Some predecessor, pa_progress_packet = Some (ax_packet x), pa_kind = MUTATION,
      pa_resources = [], pa_required_capabilities = [''loop.measured-attempt''], pa_priority = 100, pa_run_id = run,
      pa_control = None, pa_admission_request = Some request, pa_effect_authorization_id = None,
      pa_effect_authorization_digest = None, pa_topology_decision_id = None, pa_topology_decision_digest = None,
      pa_topology_pattern = None, pa_production_driver_digest = None\<rparr>"

definition enqueue_next ::
  "'s worker_ports \<Rightarrow> uuid \<Rightarrow> int \<Rightarrow> job \<Rightarrow> optimization_objective \<Rightarrow> loop_policy \<Rightarrow> attempt_execution \<Rightarrow> uuid \<Rightarrow>
     string \<Rightarrow> ('s, uuid option) gov" where
  "enqueue_next ports new_id moment j o1 p x attempt state =
     (if state = ''active'' \<and> ax_auto_enqueue_next x then
        (case (ax_stop_reason x, ax_next_request x) of
           (None, Some request) \<Rightarrow>
             gbind (glift (plan_attempt (wp_measured_realm ports) (wp_job_realm ports) new_id moment
                      (next_arguments o1 p x attempt request (job_run_id j)))) (\<lambda>plan.
             gbind (enqueue_attempt (wp_stores ports) plan) (\<lambda>r. greturn (Some (job_id (jr_job r)))))
         | _ \<Rightarrow> graise (PolicyViolation ''Active measured loop exact next request ister''))
      else greturn None)"

definition record_attempt ::
  "'s worker_ports \<Rightarrow> uuid \<Rightarrow> int \<Rightarrow> job \<Rightarrow> loop_attempt_request \<Rightarrow> loop_admission \<Rightarrow> uuid \<Rightarrow> attempt_execution \<Rightarrow>
     optimization_objective \<Rightarrow> loop_policy \<Rightarrow> ('s, attempt_record) gov" where
  "record_attempt ports new_id moment j request admission attempt x o1 p =
     gbind (wp_store_loop_progress ports (lr_loop_id request) (ax_packet x) (ax_evidence x) (lo_assignment_id p)
              (lo_validator_assignment_id p) (ax_stop_reason x)) (\<lambda>stored.
     gbind (case wp_checkpoint_writer ports of None \<Rightarrow> greturn ()
            | Some w \<Rightarrow> w j admission x (sp_packet_digest stored) (sp_progress_decision_digest stored)) (\<lambda>_.
     gbind (glift (attempt_validation x p stored)) (\<lambda>validation.
     gbind (wp_complete ports attempt validation) (\<lambda>state.
     gbind (enqueue_next ports new_id moment j o1 p x attempt state) (\<lambda>next_job.
     greturn (stored, state, next_job))))))"

definition worker_result :: "job \<Rightarrow> uuid \<Rightarrow> attempt_record \<Rightarrow> string res" where
  "worker_result j attempt record1 =
     (case record1 of (stored, state, next_job) \<Rightarrow> digest (PDict
       [(PStr ''schema'', PStr ''zekam-measured-loop-worker-result/v1''), (PStr ''job_id'', PStr (job_id j)),
        (PStr ''attempt_id'', PStr attempt), (PStr ''packet_digest'', PStr (sp_packet_digest stored)),
        (PStr ''progress_decision_digest'', PStr (sp_progress_decision_digest stored)),
        (PStr ''terminal_state'', PStr state), (PStr ''next_job_id'', opt_text next_job)]))"

definition check_execution :: "attempt_execution \<Rightarrow> uuid \<Rightarrow> int \<Rightarrow> unit res" where
  "check_execution x attempt ordinal =
     (if lp_predecessor_attempt_id (ax_packet x) \<noteq> attempt \<or> lp_attempt_ordinal (ax_packet x) \<noteq> ordinal + 1
      then Inl (ValidationFailed ''Measured loop runner packet/attempt binding drift'') else Inr ())"

definition check_contract ::
  "attempt_execution \<Rightarrow> loop_attempt_request \<Rightarrow> optimization_objective \<Rightarrow> loop_policy \<Rightarrow> unit res" where
  "check_contract x request o1 p =
     rbind (objective_digest o1) (\<lambda>d.
       if d \<noteq> lc_objective_digest (lp_checkpoint (ax_packet x)) \<or> lo_id p \<noteq> lr_loop_id request
       then Inl (ValidationFailed ''Measured loop runner current contract binding drift'') else Inr ())"

definition handle_attempt :: "'s worker_ports \<Rightarrow> uuid \<Rightarrow> int \<Rightarrow> job \<Rightarrow> ('s, string) gov" where
  "handle_attempt ports new_id moment j =
     gbind (glift (read_request j)) (\<lambda>request.
     gbind (glift (uuid_of_value (payload_get (payload_entries j) ''attempt_id''))) (\<lambda>attempt_id.
     gbind (wp_admit ports request attempt_id) (\<lambda>admission.
       case (ad_admitted admission, ad_attempt_id admission, ad_ordinal admission) of
         (True, Some attempt, Some ordinal) \<Rightarrow>
           gbind (wp_run ports j admission) (\<lambda>x.
           gbind (glift (check_execution x attempt ordinal)) (\<lambda>_.
           gbind (wp_load ports (lr_loop_id request)) (\<lambda>(o1, p).
           gbind (glift (check_contract x request o1 p)) (\<lambda>_.
           gbind (wp_transaction ports (record_attempt ports new_id moment j request admission attempt x o1 p)) (\<lambda>r.
           glift (worker_result j attempt r))))))
       | _ \<Rightarrow> graise (PolicyViolation (''Measured loop admission reddedildi: '' @ ad_reason admission)))))"

section \<open>The planned request is the one read back\<close>

definition uuid_fields_ok :: "loop_attempt_request \<Rightarrow> bool" where
  "uuid_fields_ok r = (is_uuid_text (lr_loop_id r) \<and> list_all is_uuid_text (lr_delta_evidence_ids r)
     \<and> (case lr_predecessor_attempt_id r of None \<Rightarrow> True | Some u \<Rightarrow> is_uuid_text u))"

lemma rmap_uuid_texts: "list_all is_uuid_text us \<Longrightarrow> rmap uuid_of_value (map PStr us) = Inr us"
  by (induction us) (simp_all add: uuid_of_text_canonical)

lemma optional_text_opt [simp]: "optional_text (opt_text v) = v"
  by (cases v) (simp_all add: optional_text_def opt_text_def str_value_def)

lemma opt_text_PNone [simp]: "opt_text v = PNone \<longleftrightarrow> v = None"
  by (cases v) (simp_all add: opt_text_def)

lemma read_novelty_back:
  assumes "check_fingerprint n = Inr n" "d = nf_novelty_digest n"
  shows "read_novelty (fingerprint_body n) (opt_text (Some d)) = Inr (Some n)"
proof -
  have keys: "fst ` set (case fingerprint_body n of PDict d \<Rightarrow> d) = PStr ` set NOVELTY_KEYS"
    by (auto simp: fingerprint_body_def NOVELTY_KEYS_def)
  have "check_fingerprint \<lparr>nf_objective_digest = nf_objective_digest n, nf_artifact_digest = nf_artifact_digest n,
      nf_hypothesis_digest = nf_hypothesis_digest n, nf_patch_digest = nf_patch_digest n,
      nf_failure_signature = nf_failure_signature n, nf_action_semantics_digest = nf_action_semantics_digest n,
      nf_novelty_digest = nf_novelty_digest n\<rparr> = Inr n" using assms(1) by (cases n) simp
  then show ?thesis
    using keys by (simp add: read_novelty_def assms(2) opt_text_def fingerprint_body_def payload_get_def str_value_def)
qed

lemma admission_items:
  assumes "admission_body r = PDict d"
  shows "read_text d ''prompt_digest'' = Inr (lr_prompt_digest r)" "read_text d ''context_digest'' = Inr (lr_context_digest r)"
    "read_text d ''action_digest'' = Inr (lr_action_digest r)" "read_text d ''source_revision'' = Inr (lr_source_revision r)"
    "read_text d ''plan_digest'' = Inr (lr_plan_digest r)"
    "read_text d ''policy_revision_digest'' = Inr (lr_policy_revision_digest r)"
    "read_text d ''validator_spec_digest'' = Inr (lr_validator_spec_digest r)"
    "read_int d ''reserved_input_tokens'' = Inr (lr_reserved_input_tokens r)"
    "read_int d ''reserved_output_tokens'' = Inr (lr_reserved_output_tokens r)"
    "read_int d ''reserved_cost_micros'' = Inr (lr_reserved_cost_micros r)"
    "dict_item d ''delta_evidence_ids'' = Inr (PList (map PStr (lr_delta_evidence_ids r)))"
    "payload_get d ''objective_digest'' = opt_text (lr_objective_digest r)"
    "payload_get d ''validator_asset_manifest_digest'' = opt_text (lr_validator_asset_manifest_digest r)"
    "payload_get d ''progress_packet_digest'' = opt_text (lr_progress_packet_digest r)"
    "payload_get d ''metric_vector_digest'' = opt_text (lr_metric_vector_digest r)"
    "payload_get d ''novelty_digest'' = opt_text (lr_novelty_digest r)"
    "payload_get d ''novelty_body'' = (case lr_novelty r of None \<Rightarrow> PNone | Some n \<Rightarrow> fingerprint_body n)"
  using assms by (auto simp: admission_body_def read_text_def read_int_def dict_item_def payload_get_def str_value_def)

lemma checked_novelty:
  assumes "check_attempt_request r = Inr r" "\<And>n. lr_novelty r = Some n \<Longrightarrow> check_fingerprint n = Inr n"
  shows "read_novelty (case lr_novelty r of None \<Rightarrow> PNone | Some n \<Rightarrow> fingerprint_body n) (opt_text (lr_novelty_digest r))
    = Inr (lr_novelty r)"
proof (cases "lr_novelty r")
  case None
  with assms(1) have "lr_novelty_digest r = None"
    by (auto simp: check_attempt_request_def request_measured_def rbind_Inr_iff split: if_splits)
  with None show ?thesis by (simp add: read_novelty_def)
next
  case (Some n)
  with assms(1) have "lr_novelty_digest r = Some (nf_novelty_digest n)"
    by (auto simp: check_attempt_request_def rbind_Inr_iff split: if_splits)
  with Some read_novelty_back [OF assms(2) [OF Some]] show ?thesis by simp
qed

lemma read_request_from:
  assumes "payload_get (payload_entries j) ''loop_id'' = PStr (lr_loop_id r)"
    "payload_get (payload_entries j) ''ordinal'' = PInt (lr_attempt_ordinal r)"
    "payload_get (payload_entries j) ''predecessor_attempt_id'' = opt_text (lr_predecessor_attempt_id r)"
    "payload_get (payload_entries j) ''admission'' = admission_body r"
    and "check_attempt_request r = Inr r" "\<And>n. lr_novelty r = Some n \<Longrightarrow> check_fingerprint n = Inr n" "uuid_fields_ok r"
  shows "read_request j = Inr r"
proof -
  obtain d where d: "admission_body r = PDict d" by (simp add: admission_body_def)
  have item: "dict_item (payload_entries j) k = Inr (payload_get (payload_entries j) k)"
    if "payload_get (payload_entries j) k \<noteq> PNone" for k
    using that by (auto simp: dict_item_def payload_get_def split: option.splits)
  have pre: "(if opt_text (lr_predecessor_attempt_id r) = PNone then Inr None
      else rbind (uuid_of_value (opt_text (lr_predecessor_attempt_id r))) (\<lambda>u. Inr (Some u))) = Inr (lr_predecessor_attempt_id r)"
    using assms(7) by (cases "lr_predecessor_attempt_id r") (simp_all add: uuid_fields_ok_def opt_text_def uuid_of_text_canonical)
  have head: "read_int (payload_entries j) ''ordinal'' = Inr (lr_attempt_ordinal r)"
    "dict_item (payload_entries j) ''loop_id'' = Inr (PStr (lr_loop_id r))"
    using item [of "''ordinal''"] item [of "''loop_id''"] assms(1,2) by (simp_all add: read_int_def)
  have ids: "rmap uuid_of_value (map PStr (lr_delta_evidence_ids r)) = Inr (lr_delta_evidence_ids r)"
    "uuid_of_value (PStr (lr_loop_id r)) = Inr (lr_loop_id r)"
    using assms(7) by (simp_all add: uuid_fields_ok_def rmap_uuid_texts uuid_of_text_canonical)
  have "read_request_body (payload_entries j) d = Inr r"
    unfolding read_request_body_def
    by (simp only: head ids admission_items [OF d] rbind_simps iterate.simps assms(1-3) pre checked_novelty [OF assms(5,6)]
        optional_text_opt) (use assms(5) in \<open>cases r; simp\<close>)
  then show ?thesis by (simp add: read_request_def assms(4) d payload_invalid_def)
qed

lemma planned_payload:
  assumes "plan_attempt measured_realm job_realm new_id moment a = Inr plan" "pa_admission_request a = Some r"
  shows "payload_get (payload_entries (jp_job plan)) ''loop_id'' = PStr (lr_loop_id r)"
    "payload_get (payload_entries (jp_job plan)) ''ordinal'' = PInt (lr_attempt_ordinal r)"
    "payload_get (payload_entries (jp_job plan)) ''predecessor_attempt_id'' = opt_text (lr_predecessor_attempt_id r)"
    "payload_get (payload_entries (jp_job plan)) ''admission'' = admission_body r"
    "jp_ordinal plan = pa_ordinal a" "jp_predecessor_attempt_id plan = pa_predecessor_attempt_id a"
proof -
  obtain pk idn sc j obj where p:
    "request_binding r = (lo_id (pa_policy a), pa_ordinal a, pa_predecessor_attempt_id a, Some obj,
       Some (oo_validator_asset_manifest_digest (pa_objective a)), pk)"
    "plan_job new_id moment a (uuid5 JOB_NAMESPACE idn) idn (plan_payload a pk (uuid5 ATTEMPT_NAMESPACE idn) obj sc) = Inr j"
    "jp_job plan = j" "jp_ordinal plan = pa_ordinal a" "jp_predecessor_attempt_id plan = pa_predecessor_attempt_id a"
    by (rule plan_attempt_Inr [OF assms(1)]) (simp add: assms(2))
  have entries: "payload_entries (jp_job plan) = plan_payload a pk (uuid5 ATTEMPT_NAMESPACE idn) obj sc"
    by (simp add: payload_entries_def p(3) plan_job_Inr(2) [OF p(2)])
  from p(1) have bind: "lo_id (pa_policy a) = lr_loop_id r" "pa_ordinal a = lr_attempt_ordinal r"
    "pa_predecessor_attempt_id a = lr_predecessor_attempt_id r" by (simp_all add: request_binding_def)
  show "payload_get (payload_entries (jp_job plan)) ''loop_id'' = PStr (lr_loop_id r)"
    "payload_get (payload_entries (jp_job plan)) ''ordinal'' = PInt (lr_attempt_ordinal r)"
    "payload_get (payload_entries (jp_job plan)) ''predecessor_attempt_id'' = opt_text (lr_predecessor_attempt_id r)"
    "payload_get (payload_entries (jp_job plan)) ''admission'' = admission_body r"
    "jp_ordinal plan = pa_ordinal a" "jp_predecessor_attempt_id plan = pa_predecessor_attempt_id a"
    using p(4,5) by (simp_all add: entries plan_payload_get plan_payload_admission bind assms(2))
qed

lemma attached_payload:
  assumes "attach_effect_authorization plan authorization scope = Inr plan'" "k \<noteq> ''effect_authorization''"
  shows "payload_get (payload_entries (jp_job plan')) k = payload_get (payload_entries (jp_job plan)) k"
  using assms by (auto simp: attach_effect_authorization_def check_job_def rbind_Inr_iff payload_entries_def payload_get_set
      split: if_splits)

text \<open>C34. The request that the orchestrator plans is the request that the worker reads back from the job,
  also after an authorization has been attached to it.\<close>

theorem planned_request_read_back:
  assumes "plan_attempt measured_realm job_realm new_id moment a = Inr plan" "pa_admission_request a = Some r"
    and "check_attempt_request r = Inr r" "\<And>n. lr_novelty r = Some n \<Longrightarrow> check_fingerprint n = Inr n" "uuid_fields_ok r"
  shows "read_request (jp_job plan) = Inr r
    \<and> (\<forall>authorization scope plan'. attach_effect_authorization plan authorization scope = Inr plan'
        \<longrightarrow> read_request (jp_job plan') = Inr r)"
proof -
  note get = planned_payload [OF assms(1,2)]
  have "read_request (jp_job plan) = Inr r" by (rule read_request_from [OF get(1-4) assms(3-5)])
  moreover have "read_request (jp_job plan') = Inr r"
    if "attach_effect_authorization plan authorization scope = Inr plan'" for authorization scope plan'
    by (rule read_request_from [OF _ _ _ _ assms(3-5)]) (simp_all add: attached_payload [OF that] get)
  ultimately show ?thesis by blast
qed

section \<open>The chain of attempts\<close>

lemma enqueue_next_Some:
  assumes "enqueue_next ports new_id moment j o1 p x attempt state s = (t, Inr (Some jid))"
  obtains next_request plan r where "state = ''active''" "ax_stop_reason x = None" "ax_next_request x = Some next_request"
    "plan_attempt (wp_measured_realm ports) (wp_job_realm ports) new_id moment
       (next_arguments o1 p x attempt next_request (job_run_id j)) = Inr plan"
    "enqueue_attempt (wp_stores ports) plan s = (t, Inr r)" "jid = job_id (jr_job r)"
proof -
  from assms have "state = ''active''" "ax_stop_reason x = None"
    by (auto simp: enqueue_next_def graise_def greturn_def split: if_splits option.splits)
  moreover from assms obtain next_request where n: "ax_next_request x = Some next_request"
    by (auto simp: enqueue_next_def graise_def greturn_def split: if_splits option.splits)
  moreover from assms calculation obtain plan r where
    "plan_attempt (wp_measured_realm ports) (wp_job_realm ports) new_id moment
       (next_arguments o1 p x attempt next_request (job_run_id j)) = Inr plan"
    "enqueue_attempt (wp_stores ports) plan s = (t, Inr r)" "jid = job_id (jr_job r)"
    by (auto simp: enqueue_next_def gbind_Inr_iff split: if_splits)
  ultimately show thesis by (rule that)
qed

text \<open>C23. The loop carries on across jobs. When recording an attempt enqueues a next job, the ledger kept the
  loop active on a validation that names the stored packet, the runner gave no reason to stop, the
  enqueued plan has the next ordinal and this attempt as its predecessor, and the worker that takes
  the new job reads back exactly the request that the runner asked for.\<close>

theorem next_attempt_follows:
  assumes "record_attempt ports new_id moment j request admission attempt x o1 p s = (t, Inr (stored, state, Some jid))"
    and "check_execution x attempt ordinal = Inr ()"
    and "\<And>r. ax_next_request x = Some r \<Longrightarrow> check_attempt_request r = Inr r \<and> uuid_fields_ok r"
    and "\<And>r n. ax_next_request x = Some r \<Longrightarrow> lr_novelty r = Some n \<Longrightarrow> check_fingerprint n = Inr n"
  shows "\<exists>validation u1 u2 next_request plan r.
      wp_complete ports attempt validation u1 = (u2, Inr ''active'')
      \<and> lv_progress_packet_digest validation = Some (sp_packet_digest stored)
      \<and> ax_stop_reason x = None \<and> ax_next_request x = Some next_request
      \<and> enqueue_attempt (wp_stores ports) plan u2 = (t, Inr r) \<and> jid = job_id (jr_job r)
      \<and> jp_ordinal plan = ordinal + 1 \<and> jp_predecessor_attempt_id plan = Some attempt
      \<and> read_request (jp_job plan) = Inr next_request"
proof -
  from assms(1) obtain validation u1 u2 where rec: "attempt_validation x p stored = Inr validation"
    "wp_complete ports attempt validation u1 = (u2, Inr state)"
    "enqueue_next ports new_id moment j o1 p x attempt state u2 = (t, Inr (Some jid))"
    unfolding record_attempt_def gbind_Inr_iff by auto
  obtain next_request plan r where n: "state = ''active''" "ax_stop_reason x = None" "ax_next_request x = Some next_request"
    "plan_attempt (wp_measured_realm ports) (wp_job_realm ports) new_id moment
       (next_arguments o1 p x attempt next_request (job_run_id j)) = Inr plan"
    "enqueue_attempt (wp_stores ports) plan u2 = (t, Inr r)" "jid = job_id (jr_job r)"
    by (rule enqueue_next_Some [OF rec(3)])
  have args: "pa_admission_request (next_arguments o1 p x attempt next_request (job_run_id j)) = Some next_request"
    "pa_ordinal (next_arguments o1 p x attempt next_request (job_run_id j)) = lp_attempt_ordinal (ax_packet x)"
    "pa_predecessor_attempt_id (next_arguments o1 p x attempt next_request (job_run_id j)) = Some attempt"
    by (simp_all add: next_arguments_def)
  note pl = planned_payload [OF n(4) args(1)]
  have "read_request (jp_job plan) = Inr next_request"
    using read_request_from [OF pl(1-4)] assms(3,4) n(3) by blast
  moreover have "lp_attempt_ordinal (ax_packet x) = ordinal + 1"
    using assms(2) by (simp add: check_execution_def split: if_splits)
  moreover have "lv_progress_packet_digest validation = Some (sp_packet_digest stored)"
    using rec(1) by (auto simp: attempt_validation_def check_validation_def rbind_Inr_iff Let_def split: if_splits)
  ultimately show ?thesis
    using rec(2) n pl(5,6) args(2,3)
    by (intro exI [of _ validation] exI [of _ u1] exI [of _ u2] exI [of _ next_request] exI [of _ plan] exI [of _ r]) simp
qed

end
