(* ===== verification/SecurityLedger.thy ===== *)
theory SecurityLedger
  imports Governance Identifiers
begin

text \<open>
  The PostgreSQL repositories of the governance service
  (\<^verbatim>\<open>legacy-preserved/src-postgres/security_repository.py\<close>) over the tables of
  \<^verbatim>\<open>migrations/0006_security_governance.sql\<close>: rows, constraints, the trigger on authorizations and the
  row-level security that shows a session the rows of its own realm only. A \<open>jsonb\<close> column holds the
  JSON value of the canonical text that is written. Identifiers are their canonical texts. The names
  of the rows of other schemas (realms, actors, work items, projects) are lists in the state. Texts
  are compared by code point.
\<close>

section \<open>Tables\<close>

record policy_row =
  pr_id :: uuid
  pr_realm_id :: uuid
  pr_name :: string
  pr_revision :: int
  pr_document :: json
  pr_policy_digest :: string
  pr_effective_from :: int

record capability_row =
  cb_id :: uuid
  cb_realm_id :: uuid
  cb_name :: string
  cb_revision :: int
  cb_kind :: capability_kind
  cb_description :: string
  cb_definition :: json
  cb_digest :: string
  cb_created_at :: int

record authorization_row =
  aw_id :: uuid
  aw_realm_id :: uuid
  aw_actor_id :: uuid
  aw_work_item_id :: "uuid option"
  aw_plan_id :: "uuid option"
  aw_plan_digest :: string
  aw_effect_digest :: string
  aw_scope :: json
  aw_allowed_resources :: "string list"
  aw_allowed_effects :: "string list"
  aw_provider_refs :: "string list"
  aw_secret_ref_ids :: "uuid list"
  aw_risk :: string
  aw_state :: authorization_state
  aw_issued_at :: int
  aw_expires_at :: int
  aw_consumed_at :: "int option"
  aw_consumed_by :: "string option"
  aw_revoked_at :: "int option"
  aw_revocation_reason :: "string option"
  aw_digest :: string

record audit_event_row =
  av_id :: uuid
  av_realm_id :: uuid
  av_sequence :: nat
  av_actor_id :: "uuid option"
  av_correlation_id :: "uuid option"
  av_action :: string
  av_subject_type :: string
  av_subject_id :: string
  av_authorization_id :: "uuid option"
  av_decision :: string
  av_reason :: string
  av_evidence_digest :: string
  av_occurred_at :: int

text \<open>A secret reference and an outbound request are stored column by column.\<close>

record ledger =
  lg_realm :: uuid
  lg_realms :: "uuid list"
  lg_actors :: "(uuid \<times> uuid) list"
  lg_works :: "(uuid \<times> uuid) list"
  lg_projects :: "(uuid \<times> uuid) list"
  lg_uuids :: "uuid list"
  lg_policies :: "policy_row list"
  lg_capabilities :: "capability_row list"
  lg_secrets :: "secret_ref list"
  lg_authorizations :: "authorization_row list"
  lg_outbound :: "outbound_request list"
  lg_audit :: "audit_event_row list"

section \<open>Constraints\<close>

definition pg_check_violation :: zekam_error where
  "pg_check_violation = PyError ''psycopg.errors.CheckViolation''"

definition pg_unique_violation :: zekam_error where
  "pg_unique_violation = PyError ''psycopg.errors.UniqueViolation''"

definition pg_foreign_key_violation :: zekam_error where
  "pg_foreign_key_violation = PyError ''psycopg.errors.ForeignKeyViolation''"

definition pg_insufficient_privilege :: zekam_error where
  "pg_insufficient_privilege = PyError ''psycopg.errors.InsufficientPrivilege''"

text \<open>\<^verbatim>\<open>^[a-z0-9]+([seps][a-z0-9]+)*$\<close>\<close>

fun name_segments :: "char list \<Rightarrow> bool \<Rightarrow> string \<Rightarrow> bool" where
  "name_segments seps inside [] = inside"
| "name_segments seps inside (c # cs) =
     (if is_slug_char c then name_segments seps True cs
      else c \<in> set seps \<and> inside \<and> name_segments seps False cs)"

definition name_format :: "char list \<Rightarrow> string \<Rightarrow> bool" where
  "name_format seps s = name_segments seps False s"

text \<open>\<^verbatim>\<open>^sha256:[0-9a-f]{64}$\<close>\<close>

definition digest_format :: "string \<Rightarrow> bool" where
  "digest_format s = (starts_with s ''sha256:'' \<and> length s = 71 \<and> list_all is_lower_hex (drop 7 s))"

text \<open>\<^verbatim>\<open>^[a-z][a-z0-9_.-]*$\<close>\<close>

definition action_format :: "string \<Rightarrow> bool" where
  "action_format s = (case s of [] \<Rightarrow> False
     | c # cs \<Rightarrow> is_lower_az c \<and> list_all (\<lambda>d. is_slug_char d \<or> d \<in> set ''_.-'') cs)"

text \<open>\<^verbatim>\<open>btrim(s) <> ''\<close>: only spaces are trimmed.\<close>

definition not_only_spaces :: "string \<Rightarrow> bool" where
  "not_only_spaces s = list_ex (\<lambda>c. c \<noteq> CHR '' '') s"

definition authorization_row_check :: "authorization_row \<Rightarrow> bool" where
  "authorization_row_check r =
     (aw_risk r \<in> {''none'', ''low'', ''medium'', ''high'', ''critical''}
      \<and> digest_format (aw_plan_digest r) \<and> digest_format (aw_effect_digest r) \<and> digest_format (aw_digest r)
      \<and> aw_expires_at r > aw_issued_at r
      \<and> (aw_state r = AS_CONSUMED \<longleftrightarrow> aw_consumed_at r \<noteq> None)
      \<and> (aw_state r = AS_REVOKED \<longleftrightarrow> aw_revoked_at r \<noteq> None)
      \<and> aw_allowed_effects r \<noteq> [])"

text \<open>\<^verbatim>\<open>security.enforce_authorization_transition\<close>\<close>

definition transition_refused :: "authorization_row \<Rightarrow> authorization_row \<Rightarrow> bool" where
  "transition_refused old new =
     (aw_state old \<noteq> AS_ISSUED \<and> aw_state new \<noteq> aw_state old
      \<or> aw_plan_digest old \<noteq> aw_plan_digest new \<or> aw_effect_digest old \<noteq> aw_effect_digest new
      \<or> aw_allowed_resources old \<noteq> aw_allowed_resources new \<or> aw_allowed_effects old \<noteq> aw_allowed_effects new)"

definition outbound_row_check :: "outbound_request \<Rightarrow> bool" where
  "outbound_row_check r =
     (digest_format (ou_payload_digest r)
      \<and> (ou_state r = OS_EXECUTED \<longrightarrow> ou_authorization_id r \<noteq> None)
      \<and> (ou_state r = OS_DENIED \<longleftrightarrow> ou_denial_reason r \<noteq> None))"

definition audit_row_check :: "audit_event_row \<Rightarrow> bool" where
  "audit_row_check r =
     (av_decision r \<in> {''allow'', ''deny'', ''record''} \<and> action_format (av_action r)
      \<and> digest_format (av_evidence_digest r) \<and> not_only_spaces (av_reason r))"

text \<open>A reference to another table; a null column refers to nothing.\<close>

definition refers :: "'a option \<Rightarrow> 'a list \<Rightarrow> bool" where
  "refers k ks = (case k of None \<Rightarrow> True | Some x \<Rightarrow> x \<in> set ks)"

section \<open>Decoding\<close>

definition key_error :: "'a res" where
  "key_error = Inl (PyError ''KeyError'')"

definition json_text :: "json option \<Rightarrow> string res" where
  "json_text j = (case j of None \<Rightarrow> key_error | Some (JStr s) \<Rightarrow> Inr s | _ \<Rightarrow> Inl (PyError ''TypeError''))"

definition json_bool :: "json option \<Rightarrow> bool res" where
  "json_bool j = (case j of None \<Rightarrow> key_error | Some (JBool b) \<Rightarrow> Inr b | _ \<Rightarrow> Inl (PyError ''TypeError''))"

definition json_int :: "json option \<Rightarrow> int res" where
  "json_int j = (case j of None \<Rightarrow> key_error | Some (JInt i) \<Rightarrow> Inr i | _ \<Rightarrow> Inl (PyError ''TypeError''))"

definition json_items :: "json option \<Rightarrow> json list res" where
  "json_items j = (case j of None \<Rightarrow> key_error | Some (JArr js) \<Rightarrow> Inr js | _ \<Rightarrow> Inl (PyError ''TypeError''))"

text \<open>\<^verbatim>\<open>tuple(d.get(key) or ())\<close> for a list of texts.\<close>

definition json_texts :: "json option \<Rightarrow> string list res" where
  "json_texts j =
     (case j of None \<Rightarrow> Inr [] | Some JNull \<Rightarrow> Inr []
      | Some (JArr js) \<Rightarrow> rmap (\<lambda>x. json_text (Some x)) js
      | _ \<Rightarrow> Inl (PyError ''TypeError''))"

definition value_error :: "'a res" where
  "value_error = Inl (PyError ''ValueError'')"

text \<open>\<^verbatim>\<open>EffectKind(item)\<close>, \<^verbatim>\<open>RiskLevel(item)\<close> and \<^verbatim>\<open>DataClassification(item)\<close>: the member with the value.\<close>

definition effect_kind_of :: "string \<Rightarrow> effect_kind res" where
  "effect_kind_of s =
     (case find (\<lambda>k. effect_kind_value k = s) [EK_NONE, EK_FILE_WRITE, EK_DATABASE_WRITE, EK_NETWORK_CALL,
        EK_PROVIDER_CALL, EK_GIT_COMMIT, EK_GIT_PUSH, EK_PROCESS_RUN] of
        None \<Rightarrow> value_error | Some k \<Rightarrow> Inr k)"

definition risk_level_of :: "string \<Rightarrow> risk_level res" where
  "risk_level_of s =
     (case find (\<lambda>k. risk_level_value k = s) [RISK_NONE, RISK_LOW, RISK_MEDIUM, RISK_HIGH, RISK_CRITICAL] of
        None \<Rightarrow> value_error | Some k \<Rightarrow> Inr k)"

definition data_classification_of :: "string \<Rightarrow> data_classification res" where
  "data_classification_of s =
     (case find (\<lambda>k. data_classification_value k = s)
        [DC_PUBLIC, DC_INTERNAL, DC_CONFIDENTIAL, DC_RESTRICTED, DC_SECRET, DC_LOCAL_ONLY] of
        None \<Rightarrow> value_error | Some k \<Rightarrow> Inr k)"

section \<open>Statements\<close>

text \<open>A statement that fails changes nothing.\<close>

definition statement :: "(ledger \<Rightarrow> (ledger \<times> 'a) res) \<Rightarrow> (ledger, 'a) gov" where
  "statement f s = (case f s of Inl e \<Rightarrow> (s, Inl e) | Inr (t, x) \<Rightarrow> (t, Inr x))"

definition query :: "(ledger \<Rightarrow> 'a) \<Rightarrow> (ledger, 'a) gov" where
  "query f s = (s, Inr (f s))"

text \<open>The row with the largest key, as \<^verbatim>\<open>order by key desc limit 1\<close> gives it.\<close>

definition newest :: "('r \<Rightarrow> int) \<Rightarrow> 'r list \<Rightarrow> 'r option" where
  "newest key rows = (case sort_key (\<lambda>r. - key r) rows of [] \<Rightarrow> None | r # _ \<Rightarrow> Some r)"

section \<open>Policies and capabilities\<close>

definition insert_policy :: "policy_row \<Rightarrow> ledger \<Rightarrow> (ledger \<times> unit) res" where
  "insert_policy r s =
     (if pr_realm_id r \<noteq> lg_realm s then Inl pg_insufficient_privilege
      else if \<not> (name_format ''-'' (pr_name r) \<and> pr_revision r \<ge> 1
        \<and> (case pr_document r of JObj _ \<Rightarrow> True | _ \<Rightarrow> False) \<and> digest_format (pr_policy_digest r))
      then Inl pg_check_violation
      else if list_ex (\<lambda>q. pr_id q = pr_id r
        \<or> pr_realm_id q = pr_realm_id r \<and> pr_name q = pr_name r \<and> pr_revision q = pr_revision r) (lg_policies s)
      then Inl pg_unique_violation
      else if pr_realm_id r \<notin> set (lg_realms s) then Inl pg_foreign_key_violation
      else Inr (s\<lparr>lg_policies := lg_policies s @ [r]\<rparr>, ()))"

definition policy_append :: "policy_document \<Rightarrow> (ledger, policy_document) gov" where
  "policy_append d =
     gbind (glift (canonicalize (PDict (policy_body d)))) (\<lambda>body.
     gbind (glift (policy_digest d)) (\<lambda>pd.
     gbind (statement (insert_policy \<lparr>pr_id = pd_id d, pr_realm_id = pd_realm_id d, pr_name = pd_name d,
       pr_revision = pd_revision d, pr_document = body, pr_policy_digest = pd,
       pr_effective_from = pd_effective_from d\<rparr>)) (\<lambda>_.
     greturn d)))"

definition rule_from_json :: "json \<Rightarrow> policy_rule res" where
  "rule_from_json j =
     rbind (json_text (json_field j ''name'')) (\<lambda>name.
     rbind (json_items (json_field j ''effect_kinds'')) (\<lambda>kinds.
     rbind (rmap (\<lambda>k. rbind (json_text (Some k)) effect_kind_of) kinds) (\<lambda>effects.
     rbind (json_bool (json_field j ''allow'')) (\<lambda>allow.
     rbind (json_text (json_field j ''max_risk'')) (\<lambda>risk.
     rbind (risk_level_of risk) (\<lambda>ceiling.
     rbind (json_texts (json_field j ''allowed_resources'')) (\<lambda>resources.
     rbind (case json_field j ''reason'' of None \<Rightarrow> Inr [] | r \<Rightarrow> json_text r) (\<lambda>reason.
     check_rule \<lparr>ru_name = name, ru_effect_kinds = effects, ru_allow = allow, ru_max_risk = ceiling,
       ru_allowed_resources = resources, ru_reason = reason\<rparr>))))))))"

definition policy_from_row :: "policy_row \<Rightarrow> policy_document res" where
  "policy_from_row r =
     (let body = pr_document r in
      rbind (json_text (json_field body ''name'')) (\<lambda>name.
      rbind (json_int (json_field body ''revision'')) (\<lambda>revision.
      rbind (json_items (json_field body ''rules'')) (\<lambda>items.
      rbind (rmap rule_from_json items) (\<lambda>rules.
      rbind (json_bool (json_field body ''network_default_deny'')) (\<lambda>network.
      rbind (json_bool (json_field body ''push_default_deny'')) (\<lambda>push.
      check_policy \<lparr>pd_id = pr_id r, pd_realm_id = pr_realm_id r, pd_name = name, pd_revision = revision,
        pd_rules = rules, pd_network_default_deny = network, pd_push_default_deny = push,
        pd_effective_from = pr_effective_from r\<rparr>)))))))"

definition policy_current_row :: "string \<Rightarrow> ledger \<Rightarrow> policy_row option" where
  "policy_current_row name s =
     newest pr_revision (filter (\<lambda>r. pr_realm_id r = lg_realm s \<and> pr_name r = name) (lg_policies s))"

definition policy_current :: "string \<Rightarrow> (ledger, policy_document option) gov" where
  "policy_current name =
     gbind (query (policy_current_row name)) (\<lambda>row.
     case row of None \<Rightarrow> greturn None
     | Some r \<Rightarrow> gbind (glift (policy_from_row r)) (\<lambda>d. greturn (Some d)))"

definition policy_next_revision :: "string \<Rightarrow> (ledger, int) gov" where
  "policy_next_revision name =
     gbind (policy_current name) (\<lambda>current.
     greturn (case current of None \<Rightarrow> 1 | Some d \<Rightarrow> pd_revision d + 1))"

definition insert_capability :: "capability_row \<Rightarrow> ledger \<Rightarrow> (ledger \<times> unit) res" where
  "insert_capability r s =
     (if cb_realm_id r \<noteq> lg_realm s then Inl pg_insufficient_privilege
      else if \<not> (name_format ''.-'' (cb_name r) \<and> cb_revision r \<ge> 1 \<and> digest_format (cb_digest r))
      then Inl pg_check_violation
      else if list_ex (\<lambda>q. cb_id q = cb_id r
        \<or> cb_realm_id q = cb_realm_id r \<and> cb_name q = cb_name r \<and> cb_revision q = cb_revision r) (lg_capabilities s)
      then Inl pg_unique_violation
      else if cb_realm_id r \<notin> set (lg_realms s) then Inl pg_foreign_key_violation
      else Inr (s\<lparr>lg_capabilities := lg_capabilities s @ [r]\<rparr>, ()))"

definition capability_append :: "capability \<Rightarrow> (ledger, capability) gov" where
  "capability_append c =
     gbind (glift (canonicalize (PDict (ca_definition c)))) (\<lambda>entries.
     gbind (glift (capability_digest c)) (\<lambda>d.
     gbind (statement (insert_capability \<lparr>cb_id = ca_id c, cb_realm_id = ca_realm_id c, cb_name = ca_name c,
       cb_revision = ca_revision c, cb_kind = ca_kind c, cb_description = ca_description c, cb_definition = entries,
       cb_digest = d, cb_created_at = ca_created_at c\<rparr>)) (\<lambda>_.
     greturn c)))"

definition capability_from_row :: "capability_row \<Rightarrow> capability res" where
  "capability_from_row r = check_capability
     \<lparr>ca_id = cb_id r, ca_realm_id = cb_realm_id r, ca_name = cb_name r, ca_revision = cb_revision r,
      ca_kind = cb_kind r, ca_description = cb_description r,
      ca_definition = (case cb_definition r of JObj kvs \<Rightarrow> map (\<lambda>(k, v). (PStr k, embed v)) kvs | _ \<Rightarrow> []),
      ca_created_at = cb_created_at r\<rparr>"

definition capability_current_row :: "string \<Rightarrow> ledger \<Rightarrow> capability_row option" where
  "capability_current_row name s =
     newest cb_revision (filter (\<lambda>r. cb_realm_id r = lg_realm s \<and> cb_name r = name) (lg_capabilities s))"

definition capability_current :: "string \<Rightarrow> (ledger, capability option) gov" where
  "capability_current name =
     gbind (query (capability_current_row name)) (\<lambda>row.
     case row of None \<Rightarrow> greturn None
     | Some r \<Rightarrow> gbind (glift (capability_from_row r)) (\<lambda>c. greturn (Some c)))"

definition capability_list_all :: "(ledger, capability list) gov" where
  "capability_list_all =
     gbind (query (\<lambda>s. sort (remdups (map cb_name (filter (\<lambda>r. cb_realm_id r = lg_realm s) (lg_capabilities s))))))
       (\<lambda>names.
     gbind (gmap capability_current names) (\<lambda>found.
     greturn (List.map_filter (\<lambda>c. c) found)))"

definition capability_next_revision :: "string \<Rightarrow> (ledger, int) gov" where
  "capability_next_revision name =
     gbind (capability_current name) (\<lambda>current.
     greturn (case current of None \<Rightarrow> 1 | Some c \<Rightarrow> ca_revision c + 1))"

section \<open>Secret references\<close>

definition insert_secret :: "secret_ref \<Rightarrow> ledger \<Rightarrow> (ledger \<times> unit) res" where
  "insert_secret r s =
     (if sr_realm_id r \<noteq> lg_realm s then Inl pg_insufficient_privilege
      else if \<not> (name_format ''._-'' (sr_name r) \<and> sr_version r \<ge> 1 \<and> sr_allowed_operations r \<noteq> []
        \<and> not_only_spaces (sr_purpose r))
      then Inl pg_check_violation
      else if list_ex (\<lambda>q. sr_id q = sr_id r
        \<or> sr_realm_id q = sr_realm_id r \<and> sr_name q = sr_name r \<and> sr_version q = sr_version r) (lg_secrets s)
      then Inl pg_unique_violation
      else if sr_realm_id r \<notin> set (lg_realms s)
        \<or> \<not> refers (map_option (\<lambda>p. (sr_realm_id r, p)) (sr_project_id r)) (lg_projects s)
      then Inl pg_foreign_key_violation
      else Inr (s\<lparr>lg_secrets := lg_secrets s @ [r]\<rparr>, ()))"

definition secret_add :: "uuid \<Rightarrow> secret_ref \<Rightarrow> (ledger, secret_ref) gov" where
  "secret_add realm_id r =
     (if sr_realm_id r \<noteq> realm_id then graise (PolicyViolation ''Cross-realm SecretRef reddedildi'')
      else gbind (glift (metadata_digest r)) (\<lambda>_.
        gbind (statement (insert_secret r)) (\<lambda>_. greturn r)))"

definition secret_get :: "uuid \<Rightarrow> (ledger, secret_ref) gov" where
  "secret_get ref_id =
     gbind (query (\<lambda>s. find (\<lambda>r. sr_realm_id r = lg_realm s \<and> sr_id r = ref_id) (lg_secrets s))) (\<lambda>row.
     case row of None \<Rightarrow> graise (NotFound ''SecretRef bulunamadi'') | Some r \<Rightarrow> glift (check_secret_ref r))"

definition secret_current_by_name :: "string \<Rightarrow> (ledger, secret_ref option) gov" where
  "secret_current_by_name name =
     gbind (query (\<lambda>s. newest sr_version (filter (\<lambda>r. sr_realm_id r = lg_realm s \<and> sr_name r = name
       \<and> sr_status r \<noteq> SECRET_REVOKED) (lg_secrets s)))) (\<lambda>row.
     case row of None \<Rightarrow> greturn None
     | Some r \<Rightarrow> gbind (glift (check_secret_ref r)) (\<lambda>v. greturn (Some v)))"

definition secret_list_all :: "(ledger, secret_ref list) gov" where
  "secret_list_all =
     gbind (query (\<lambda>s. sort_key (\<lambda>r. (sr_name r, - sr_version r))
       (filter (\<lambda>r. sr_realm_id r = lg_realm s) (lg_secrets s)))) (\<lambda>rows.
     glift (rmap check_secret_ref rows))"

definition secret_set_status :: "uuid \<Rightarrow> secret_status \<Rightarrow> (ledger, unit) gov" where
  "secret_set_status ref_id status =
     gbind (statement (\<lambda>s.
       let hit = (\<lambda>r. sr_realm_id r = lg_realm s \<and> sr_id r = ref_id) in
       Inr (s\<lparr>lg_secrets := map (\<lambda>r. if hit r then r\<lparr>sr_status := status\<rparr> else r) (lg_secrets s)\<rparr>,
            length (filter hit (lg_secrets s))))) (\<lambda>count.
     if count = 0 then graise (NotFound ''SecretRef bulunamadi'') else greturn ())"

section \<open>Authorizations\<close>

definition insert_authorization :: "authorization_row \<Rightarrow> ledger \<Rightarrow> (ledger \<times> unit) res" where
  "insert_authorization r s =
     (if aw_realm_id r \<noteq> lg_realm s then Inl pg_insufficient_privilege
      else if \<not> authorization_row_check r then Inl pg_check_violation
      else if aw_id r \<in> aw_id ` set (lg_authorizations s) then Inl pg_unique_violation
      else if aw_realm_id r \<notin> set (lg_realms s) \<or> (aw_realm_id r, aw_actor_id r) \<notin> set (lg_actors s)
        \<or> \<not> refers (map_option (\<lambda>w. (aw_realm_id r, w)) (aw_work_item_id r)) (lg_works s)
      then Inl pg_foreign_key_violation
      else Inr (s\<lparr>lg_authorizations := lg_authorizations s @ [r]\<rparr>, ()))"

text \<open>The row that \<^verbatim>\<open>issue\<close> writes; the columns it leaves out are null.\<close>

definition issued_row :: "authorization \<Rightarrow> json \<Rightarrow> string \<Rightarrow> authorization_row" where
  "issued_row a scope d =
     \<lparr>aw_id = au_id a, aw_realm_id = au_realm_id a, aw_actor_id = au_actor_id a,
      aw_work_item_id = au_work_item_id a, aw_plan_id = au_plan_id a, aw_plan_digest = au_plan_digest a,
      aw_effect_digest = au_effect_digest a, aw_scope = scope,
      aw_allowed_resources = as_resources (au_scope a), aw_allowed_effects = as_effects (au_scope a),
      aw_provider_refs = as_provider_refs (au_scope a), aw_secret_ref_ids = as_secret_ref_ids (au_scope a),
      aw_risk = au_risk a, aw_state = au_state a, aw_issued_at = au_issued_at a, aw_expires_at = au_expires_at a,
      aw_consumed_at = None, aw_consumed_by = None, aw_revoked_at = None, aw_revocation_reason = None,
      aw_digest = d\<rparr>"

definition authorization_insert :: "uuid \<Rightarrow> authorization \<Rightarrow> (ledger, authorization) gov" where
  "authorization_insert realm_id a =
     (if au_realm_id a \<noteq> realm_id then graise (PolicyViolation ''Cross-realm yetki reddedildi'')
      else gbind (glift (canonicalize (PDict (scope_body (au_scope a))))) (\<lambda>scope.
        gbind (glift (authorization_digest a)) (\<lambda>d.
        gbind (statement (insert_authorization (issued_row a scope d))) (\<lambda>_.
        greturn a))))"

definition scope_from_json :: "json \<Rightarrow> authorization_scope res" where
  "scope_from_json j =
     rbind (json_texts (json_field j ''allowed_resources'')) (\<lambda>resources.
     rbind (json_texts (json_field j ''allowed_effects'')) (\<lambda>effects.
     rbind (json_texts (json_field j ''provider_refs'')) (\<lambda>providers.
     rbind (json_texts (json_field j ''secret_ref_ids'')) (\<lambda>secrets.
     rbind (json_texts (json_field j ''data_classifications'')) (\<lambda>values.
     rbind (rmap data_classification_of values) (\<lambda>data.
     check_scope \<lparr>as_resources = resources, as_read_resources = [], as_write_resources = [], as_effects = effects,
       as_provider_refs = providers, as_secret_ref_ids = secrets, as_data_classifications = data\<rparr>))))))"

definition authorization_from_row :: "authorization_row \<Rightarrow> authorization res" where
  "authorization_from_row r =
     rbind (scope_from_json (aw_scope r)) (\<lambda>scope.
     check_authorization \<lparr>au_id = aw_id r, au_realm_id = aw_realm_id r, au_actor_id = aw_actor_id r,
       au_plan_digest = aw_plan_digest r, au_effect_digest = aw_effect_digest r, au_scope = scope,
       au_risk = aw_risk r, au_issued_at = aw_issued_at r, au_expires_at = aw_expires_at r,
       au_work_item_id = aw_work_item_id r, au_plan_id = aw_plan_id r, au_state = aw_state r,
       au_consumed_at = aw_consumed_at r, au_consumed_by = aw_consumed_by r, au_revoked_at = aw_revoked_at r,
       au_revocation_reason = aw_revocation_reason r\<rparr>)"

definition authorization_row_of :: "uuid \<Rightarrow> ledger \<Rightarrow> authorization_row option" where
  "authorization_row_of i s =
     find (\<lambda>r. aw_realm_id r = lg_realm s \<and> aw_id r = i) (lg_authorizations s)"

definition authorization_get :: "uuid \<Rightarrow> (ledger, authorization) gov" where
  "authorization_get i =
     gbind (query (authorization_row_of i)) (\<lambda>row.
     case row of None \<Rightarrow> graise (NotFound ''Yetki bulunamadi'') | Some r \<Rightarrow> glift (authorization_from_row r))"

definition authorization_list_active :: "int \<Rightarrow> (ledger, authorization list) gov" where
  "authorization_list_active moment =
     gbind (query (\<lambda>s. sort_key (\<lambda>r. - aw_issued_at r) (filter (\<lambda>r. aw_realm_id r = lg_realm s
       \<and> aw_state r = AS_ISSUED \<and> aw_expires_at r > moment) (lg_authorizations s)))) (\<lambda>rows.
     glift (rmap authorization_from_row rows))"

text \<open>An \<^verbatim>\<open>update\<close> of the authorizations that a condition selects among the visible rows; the trigger and
  the constraints are checked on each, and the new rows are returned.\<close>

definition update_authorizations ::
  "(authorization_row \<Rightarrow> bool) \<Rightarrow> (authorization_row \<Rightarrow> authorization_row) \<Rightarrow> ledger
   \<Rightarrow> (ledger \<times> authorization_row list) res" where
  "update_authorizations p f s =
     (let hit = (\<lambda>r. aw_realm_id r = lg_realm s \<and> p r); rows = filter hit (lg_authorizations s) in
      if list_ex (\<lambda>r. transition_refused r (f r)) rows then Inl pg_insufficient_privilege
      else if \<not> list_all (\<lambda>r. authorization_row_check (f r)) rows then Inl pg_check_violation
      else Inr (s\<lparr>lg_authorizations := map (\<lambda>r. if hit r then f r else r) (lg_authorizations s)\<rparr>, map f rows))"

definition mark_consumed :: "int \<Rightarrow> string \<Rightarrow> authorization_row \<Rightarrow> authorization_row" where
  "mark_consumed moment by r =
     r\<lparr>aw_state := AS_CONSUMED, aw_consumed_at := Some moment, aw_consumed_by := Some by\<rparr>"

definition consumable :: "uuid \<Rightarrow> string \<Rightarrow> int \<Rightarrow> authorization_row \<Rightarrow> bool" where
  "consumable i effect moment r =
     (aw_id r = i \<and> aw_state r = AS_ISSUED \<and> aw_expires_at r > moment \<and> aw_effect_digest r = effect)"

text \<open>The part of \<^verbatim>\<open>consume\<close> that explains why no row was updated.\<close>

definition consume_refusal :: "uuid \<Rightarrow> string \<Rightarrow> int \<Rightarrow> (ledger, consume_result) gov" where
  "consume_refusal i effect moment =
     gcatch_not_found
       (gbind (authorization_get i) (\<lambda>existing.
        if au_effect_digest existing \<noteq> effect
        then greturn \<lparr>cr_consumed = False, cr_reason = ''effect-digest-mismatch'', cr_authorization = Some existing\<rparr>
        else greturn \<lparr>cr_consumed = False,
          cr_reason = (case rejection_reason existing moment of None \<Rightarrow> ''authorization-unavailable'' | Some r \<Rightarrow> r),
          cr_authorization = Some existing\<rparr>))
       (greturn \<lparr>cr_consumed = False, cr_reason = ''authorization-not-found'', cr_authorization = None\<rparr>)"

definition authorization_consume :: "uuid \<Rightarrow> string \<Rightarrow> string \<Rightarrow> int \<Rightarrow> (ledger, consume_result) gov" where
  "authorization_consume i effect consumed_by moment =
     gbind (statement (update_authorizations (consumable i effect moment) (mark_consumed moment consumed_by)))
       (\<lambda>rows.
     case rows of
       r # _ \<Rightarrow> gbind (glift (authorization_from_row r)) (\<lambda>a.
         greturn \<lparr>cr_consumed = True, cr_reason = ''consumed'', cr_authorization = Some a\<rparr>)
     | [] \<Rightarrow> consume_refusal i effect moment)"

definition authorization_revoke :: "uuid \<Rightarrow> string \<Rightarrow> int \<Rightarrow> (ledger, bool) gov" where
  "authorization_revoke i reason moment =
     gbind (statement (update_authorizations (\<lambda>r. aw_id r = i \<and> aw_state r = AS_ISSUED)
       (\<lambda>r. r\<lparr>aw_state := AS_REVOKED, aw_revoked_at := Some moment, aw_revocation_reason := Some reason\<rparr>))) (\<lambda>rows.
     greturn (rows \<noteq> []))"

definition authorization_expire_stale :: "int \<Rightarrow> (ledger, nat) gov" where
  "authorization_expire_stale moment =
     gbind (statement (update_authorizations (\<lambda>r. aw_state r = AS_ISSUED \<and> aw_expires_at r \<le> moment)
       (\<lambda>r. r\<lparr>aw_state := AS_EXPIRED\<rparr>))) (\<lambda>rows.
     greturn (length rows))"

section \<open>Outbound requests\<close>

text \<open>\<^verbatim>\<open>insert ... on conflict (id) do update\<close>: a row with the identifier keeps its other columns.\<close>

definition upsert_outbound :: "outbound_request \<Rightarrow> ledger \<Rightarrow> (ledger \<times> unit) res" where
  "upsert_outbound r s =
     (if ou_realm_id r \<noteq> lg_realm s then Inl pg_insufficient_privilege
      else if \<not> outbound_row_check r then Inl pg_check_violation
      else case find (\<lambda>q. ou_id q = ou_id r) (lg_outbound s) of
        None \<Rightarrow>
          if ou_realm_id r \<notin> set (lg_realms s) \<or> \<not> refers (ou_authorization_id r) (map aw_id (lg_authorizations s))
          then Inl pg_foreign_key_violation
          else Inr (s\<lparr>lg_outbound := lg_outbound s @ [r]\<rparr>, ())
      | Some old \<Rightarrow>
          let new = old\<lparr>ou_authorization_id := ou_authorization_id r, ou_state := ou_state r,
            ou_denial_reason := ou_denial_reason r\<rparr> in
          if ou_realm_id old \<noteq> lg_realm s then Inl pg_insufficient_privilege
          else if \<not> outbound_row_check new then Inl pg_check_violation
          else if \<not> refers (ou_authorization_id r) (map aw_id (lg_authorizations s)) then Inl pg_foreign_key_violation
          else Inr (s\<lparr>lg_outbound := map (\<lambda>q. if ou_id q = ou_id r then new else q) (lg_outbound s)\<rparr>, ()))"

definition outbound_record :: "outbound_request \<Rightarrow> (ledger, outbound_request) gov" where
  "outbound_record r = gbind (statement (upsert_outbound r)) (\<lambda>_. greturn r)"

definition outbound_get :: "uuid \<Rightarrow> (ledger, outbound_request) gov" where
  "outbound_get i =
     gbind (query (\<lambda>s. find (\<lambda>r. ou_realm_id r = lg_realm s \<and> ou_id r = i) (lg_outbound s))) (\<lambda>row.
     case row of None \<Rightarrow> graise (NotFound ''Outbound istek bulunamadi'') | Some r \<Rightarrow> glift (check_outbound r))"

section \<open>Audit\<close>

text \<open>The sequence number is the place of the row in the table.\<close>

definition insert_audit :: "audit_event_row \<Rightarrow> ledger \<Rightarrow> (ledger \<times> unit) res" where
  "insert_audit r s =
     (if av_realm_id r \<noteq> lg_realm s then Inl pg_insufficient_privilege
      else if \<not> audit_row_check r then Inl pg_check_violation
      else if av_id r \<in> av_id ` set (lg_audit s) then Inl pg_unique_violation
      else if av_realm_id r \<notin> set (lg_realms s)
        \<or> \<not> refers (map_option (\<lambda>a. (av_realm_id r, a)) (av_actor_id r)) (lg_actors s)
        \<or> \<not> refers (av_authorization_id r) (map aw_id (lg_authorizations s))
      then Inl pg_foreign_key_violation
      else Inr (s\<lparr>lg_audit := lg_audit s @ [r\<lparr>av_sequence := Suc (length (lg_audit s))\<rparr>]\<rparr>, ()))"

definition draw_uuid :: "(ledger, uuid) gov" where
  "draw_uuid s = (case lg_uuids s of [] \<Rightarrow> (s, Inl (PyError ''StopIteration''))
     | u # us \<Rightarrow> (s\<lparr>lg_uuids := us\<rparr>, Inr u))"

definition audit_record :: "uuid \<Rightarrow> audit_entry \<Rightarrow> (ledger, uuid) gov" where
  "audit_record realm_id e =
     gbind draw_uuid (\<lambda>record_id.
     gbind (glift (digest (PDict (ae_evidence e)))) (\<lambda>d.
     gbind (statement (insert_audit \<lparr>av_id = record_id, av_realm_id = realm_id, av_sequence = 0,
       av_actor_id = ae_actor_id e, av_correlation_id = ae_correlation_id e, av_action = ae_action e,
       av_subject_type = ae_subject_type e, av_subject_id = ae_subject_id e,
       av_authorization_id = ae_authorization_id e, av_decision = ae_decision e, av_reason = ae_reason e,
       av_evidence_digest = d, av_occurred_at = ae_now e\<rparr>)) (\<lambda>_.
     greturn record_id)))"

definition audit_for_subject :: "string \<Rightarrow> string \<Rightarrow> (ledger, (pyval \<times> pyval) list list) gov" where
  "audit_for_subject subject_type subject_id = query (\<lambda>s. map (\<lambda>r.
     [(PStr ''sequence'', PInt (int (av_sequence r))), (PStr ''action'', PStr (av_action r)),
      (PStr ''decision'', PStr (av_decision r)), (PStr ''reason'', PStr (av_reason r)),
      (PStr ''authorization_id'', opt_uuid (av_authorization_id r)), (PStr ''actor_id'', opt_uuid (av_actor_id r)),
      (PStr ''evidence_digest'', PStr (av_evidence_digest r)),
      (PStr ''occurred_at'', PDatetime (Aware (av_occurred_at r)))])
     (sort_key av_sequence (filter (\<lambda>r. av_realm_id r = lg_realm s \<and> av_subject_type r = subject_type
       \<and> av_subject_id r = subject_id) (lg_audit s))))"

definition audit_recent :: "nat \<Rightarrow> (ledger, (pyval \<times> pyval) list list) gov" where
  "audit_recent limit = query (\<lambda>s. map (\<lambda>r.
     [(PStr ''sequence'', PInt (int (av_sequence r))), (PStr ''action'', PStr (av_action r)),
      (PStr ''subject_type'', PStr (av_subject_type r)), (PStr ''subject_id'', PStr (av_subject_id r)),
      (PStr ''decision'', PStr (av_decision r)), (PStr ''reason'', PStr (av_reason r)),
      (PStr ''authorization_id'', opt_uuid (av_authorization_id r)),
      (PStr ''occurred_at'', PDatetime (Aware (av_occurred_at r)))])
     (take limit (rev (sort_key av_sequence (filter (\<lambda>r. av_realm_id r = lg_realm s) (lg_audit s))))))"

section \<open>The repositories behind the port\<close>

definition postgres_repositories :: "uuid \<Rightarrow> ledger repositories" where
  "postgres_repositories realm_id =
     \<lparr>rp_policy_append = policy_append, rp_policy_current = policy_current,
      rp_capability_current = capability_current, rp_issue = authorization_insert realm_id,
      rp_get = authorization_get, rp_consume = authorization_consume, rp_revoke = authorization_revoke,
      rp_outbound_record = outbound_record, rp_audit_record = audit_record realm_id\<rparr>"

definition postgres_governance :: "uuid \<Rightarrow> uuid option \<Rightarrow> uuid option \<Rightarrow> ledger governance" where
  "postgres_governance realm_id actor_id correlation_id =
     \<lparr>gs_realm_id = realm_id, gs_actor_id = actor_id, gs_correlation_id = correlation_id,
      gs_provider = Some (postgres_repositories realm_id)\<rparr>"

end
