(* ===== verification/LedgerHistory.thy ===== *)
theory LedgerHistory
  imports SecurityLedger GovernancePort Histories
begin

text \<open>
  Histories of the security tables. Any number of sessions, each in its realm, call the repositories;
  every statement is atomic, so an interleaving is a sequence of calls. A call that raises keeps what
  it has written. The invariant \<open>ledger_ok\<close> collects the keys and constraints; the rank is the record
  that only grows: the authorizations that have left the state \<open>issued\<close>, and the audit.
\<close>

section \<open>Invariant and record\<close>

definition ledger_ok :: "ledger \<Rightarrow> bool" where
  "ledger_ok s =
     (distinct (map aw_id (lg_authorizations s)) \<and> list_all authorization_row_check (lg_authorizations s)
      \<and> distinct (map av_id (lg_audit s)) \<and> list_all audit_row_check (lg_audit s)
      \<and> map av_sequence (lg_audit s) = map Suc [0..<length (lg_audit s)]
      \<and> distinct (map ou_id (lg_outbound s)) \<and> list_all outbound_row_check (lg_outbound s)
      \<and> distinct (map (\<lambda>r. (pr_realm_id r, pr_name r, pr_revision r)) (lg_policies s))
      \<and> distinct (map (\<lambda>r. (cb_realm_id r, cb_name r, cb_revision r)) (lg_capabilities s)))"

definition ledger_record :: "ledger \<Rightarrow> (authorization_row + audit_event_row) set" where
  "ledger_record s = Inl ` {r \<in> set (lg_authorizations s). aw_state r \<noteq> AS_ISSUED} \<union> Inr ` set (lg_audit s)"

text \<open>One step in the life of an authorization: only the columns of its end may change.\<close>

definition authorization_step :: "authorization_row \<Rightarrow> authorization_row \<Rightarrow> bool" where
  "authorization_step r r' =
     (r' = r \<or> aw_state r = AS_ISSUED \<and> aw_state r' \<noteq> AS_ISSUED
      \<and> r' = r\<lparr>aw_state := aw_state r', aw_consumed_at := aw_consumed_at r', aw_consumed_by := aw_consumed_by r',
          aw_revoked_at := aw_revoked_at r', aw_revocation_reason := aw_revocation_reason r'\<rparr>)"

definition ledger_moves :: "ledger \<Rightarrow> ledger \<Rightarrow> bool" where
  "ledger_moves s t =
     (ledger_ok s \<longrightarrow> ledger_ok t \<and> ledger_record s \<subseteq> ledger_record t
        \<and> (\<forall>r \<in> set (lg_authorizations s). \<exists>r' \<in> set (lg_authorizations t). authorization_step r r'))"

lemma authorization_step_trans:
  assumes "authorization_step a b" "authorization_step b c"
  shows "authorization_step a c"
  using assms unfolding authorization_step_def by (elim disjE; cases a; cases b; cases c; simp)

interpretation ledger_frame: call_frame ledger_moves
proof
  show "ledger_moves s s" for s by (auto simp: ledger_moves_def authorization_step_def)
  show "ledger_moves s u" if "ledger_moves s t" "ledger_moves t u" for s t u
    using that unfolding ledger_moves_def by (meson authorization_step_trans order_trans)
qed

lemma ledger_moves_frame:
  assumes "lg_authorizations t = lg_authorizations s" "lg_audit t = lg_audit s" "ledger_ok s \<Longrightarrow> ledger_ok t"
  shows "ledger_moves s t"
  using assms by (auto simp: ledger_moves_def ledger_record_def authorization_step_def)

section \<open>Every statement moves the tables\<close>

lemma framed_statement:
  assumes "\<And>s t x. f s = Inr (t, x) \<Longrightarrow> ledger_moves s t"
  shows "ledger_frame.framed (statement f)"
  unfolding ledger_frame.framed_def statement_def
  using assms ledger_frame.steps_refl by (auto split: sum.splits prod.splits)

lemma framed_query: "ledger_frame.framed (query f)"
  by (simp add: ledger_frame.framed_def query_def ledger_frame.steps_refl)

lemma framed_draw: "ledger_frame.framed draw_uuid"
  unfolding ledger_frame.framed_def draw_uuid_def
  by (auto split: list.splits intro!: ledger_moves_frame simp: ledger_ok_def)

lemma fresh_key:
  assumes "\<not> list_ex (\<lambda>q. i q \<or> k1 q = a \<and> k2 q = b \<and> k3 q = c) rows"
  shows "(a, b, c) \<notin> (\<lambda>q. (k1 q, k2 q, k3 q)) ` set rows"
  using assms by (auto simp: list_ex_iff)

lemma insert_policy_moves:
  assumes "insert_policy r s = Inr (t, x)"
  shows "ledger_moves s t"
proof -
  from assms have t: "t = s\<lparr>lg_policies := lg_policies s @ [r]\<rparr>"
    and "(pr_realm_id r, pr_name r, pr_revision r) \<notin> (\<lambda>q. (pr_realm_id q, pr_name q, pr_revision q)) ` set (lg_policies s)"
    unfolding insert_policy_def by (auto split: if_splits dest: fresh_key)
  then show ?thesis by (intro ledger_moves_frame) (simp_all add: ledger_ok_def)
qed

lemma insert_capability_moves:
  assumes "insert_capability r s = Inr (t, x)"
  shows "ledger_moves s t"
proof -
  from assms have t: "t = s\<lparr>lg_capabilities := lg_capabilities s @ [r]\<rparr>"
    and "(cb_realm_id r, cb_name r, cb_revision r) \<notin> (\<lambda>q. (cb_realm_id q, cb_name q, cb_revision q)) ` set (lg_capabilities s)"
    unfolding insert_capability_def by (auto split: if_splits dest: fresh_key)
  then show ?thesis by (intro ledger_moves_frame) (simp_all add: ledger_ok_def)
qed

lemma insert_secret_moves: "insert_secret r s = Inr (t, x) \<Longrightarrow> ledger_moves s t"
  by (rule ledger_moves_frame) (auto simp: insert_secret_def ledger_ok_def split: if_splits)

lemma insert_authorization_moves: "insert_authorization r s = Inr (t, x) \<Longrightarrow> ledger_moves s t"
  by (auto simp: insert_authorization_def ledger_moves_def ledger_ok_def ledger_record_def authorization_step_def
      split: if_splits)

lemma insert_audit_moves: "insert_audit r s = Inr (t, x) \<Longrightarrow> ledger_moves s t"
  by (auto simp: insert_audit_def ledger_moves_def ledger_ok_def ledger_record_def authorization_step_def
      audit_row_check_def split: if_splits)

lemma upsert_outbound_moves:
  assumes "upsert_outbound r s = Inr (t, x)"
  shows "ledger_moves s t"
proof (rule ledger_moves_frame)
  show "lg_authorizations t = lg_authorizations s" "lg_audit t = lg_audit s"
    using assms by (auto simp: upsert_outbound_def Let_def split: if_splits option.splits)
  assume ok: "ledger_ok s"
  show "ledger_ok t"
  proof (cases "find (\<lambda>q. ou_id q = ou_id r) (lg_outbound s)")
    case None
    then have "ou_id r \<notin> ou_id ` set (lg_outbound s)" by (auto simp: find_None_ball)
    moreover have "t = s\<lparr>lg_outbound := lg_outbound s @ [r]\<rparr>" "outbound_row_check r"
      using assms None by (auto simp: upsert_outbound_def split: if_splits)
    ultimately show ?thesis using ok by (simp add: ledger_ok_def)
  next
    case (Some old)
    define new where "new = old\<lparr>ou_authorization_id := ou_authorization_id r, ou_state := ou_state r,
      ou_denial_reason := ou_denial_reason r\<rparr>"
    define g where "g q = (if ou_id q = ou_id r then new else q)" for q
    have t: "t = s\<lparr>lg_outbound := map g (lg_outbound s)\<rparr>" and "outbound_row_check new"
      using assms Some by (auto simp: upsert_outbound_def Let_def new_def g_def [abs_def] split: if_splits)
    moreover have "ou_id \<circ> g = ou_id" using find_Some_bex [OF Some] by (auto simp: g_def new_def)
    ultimately show ?thesis using ok by (auto simp: ledger_ok_def list_all_iff g_def)
  qed
qed

lemma update_authorizations_moves:
  assumes "update_authorizations p f s = Inr (t, rows)"
    and "\<And>r. p r \<Longrightarrow> authorization_step r (f r) \<and> aw_state r = AS_ISSUED \<and> aw_id (f r) = aw_id r"
  shows "ledger_moves s t"
proof -
  define g where "g r = (if aw_realm_id r = lg_realm s \<and> p r then f r else r)" for r
  have t: "t = s\<lparr>lg_authorizations := map g (lg_authorizations s)\<rparr>"
    and check: "\<And>r. r \<in> set (lg_authorizations s) \<Longrightarrow> authorization_row_check r \<Longrightarrow> authorization_row_check (g r)"
    using assms(1) by (auto simp: update_authorizations_def Let_def g_def [abs_def] list_all_iff split: if_splits)
  have g: "authorization_step r (g r)" "aw_id (g r) = aw_id r" "aw_state r \<noteq> AS_ISSUED \<Longrightarrow> g r = r" for r
    using assms(2) by (auto simp: g_def authorization_step_def)
  have ids: "aw_id \<circ> g = aw_id" using g(2) by auto
  show ?thesis
    unfolding ledger_moves_def
  proof (intro impI conjI)
    assume ok: "ledger_ok s"
    then show "ledger_ok t" using check by (simp add: t ledger_ok_def ids list_all_iff)
    have "r \<in> g ` set (lg_authorizations s)" if "r \<in> set (lg_authorizations s)" "aw_state r \<noteq> AS_ISSUED" for r
      using g(3) [OF that(2)] that(1) by (metis imageI)
    then show "ledger_record s \<subseteq> ledger_record t" by (auto simp: t ledger_record_def)
    show "\<forall>r \<in> set (lg_authorizations s). \<exists>r' \<in> set (lg_authorizations t). authorization_step r r'"
      using g(1) by (auto simp: t)
  qed
qed

section \<open>Every call moves the tables\<close>

lemma framed_consume: "ledger_frame.framed (authorization_consume i e b m)"
proof -
  have "ledger_frame.framed (statement (update_authorizations (consumable i e m) (mark_consumed m b)))"
    by (rule framed_statement, erule update_authorizations_moves)
      (simp add: consumable_def authorization_step_def mark_consumed_def)
  then show ?thesis
    unfolding authorization_consume_def consume_refusal_def authorization_get_def
    by (intro ledger_frame.framed_calls framed_query) (auto split: list.splits intro!: ledger_frame.framed_calls framed_query)
qed

lemma framed_revoke: "ledger_frame.framed (authorization_revoke i r m)"
  unfolding authorization_revoke_def
  by (intro ledger_frame.framed_calls framed_statement, erule update_authorizations_moves)
    (simp add: authorization_step_def)

lemma framed_expire: "ledger_frame.framed (authorization_expire_stale m)"
  unfolding authorization_expire_stale_def
  by (intro ledger_frame.framed_calls framed_statement, erule update_authorizations_moves)
    (simp add: authorization_step_def)

lemma framed_set_status: "ledger_frame.framed (secret_set_status i status)"
  unfolding secret_set_status_def
  by (intro ledger_frame.framed_calls framed_statement) (auto simp: Let_def ledger_ok_def intro!: ledger_moves_frame)

lemma framed_inserts:
  "ledger_frame.framed (policy_append d)" "ledger_frame.framed (capability_append c)"
  "ledger_frame.framed (secret_add realm_id r)" "ledger_frame.framed (authorization_insert realm_id a)"
  "ledger_frame.framed (outbound_record q)" "ledger_frame.framed (audit_record realm_id w)"
  unfolding policy_append_def capability_append_def secret_add_def authorization_insert_def outbound_record_def
    audit_record_def
  by (intro ledger_frame.framed_calls framed_draw framed_statement; erule insert_policy_moves
      insert_capability_moves insert_secret_moves insert_authorization_moves upsert_outbound_moves
      insert_audit_moves)+

section \<open>Histories\<close>

text \<open>The calls that write, with the realm of the repository where the code checks it. A session turns to
  its realm with \<open>EvSession\<close>; \<open>EvCore\<close> adds rows to the tables of the other schemas.\<close>

datatype ledger_event =
    EvSession uuid
  | EvCore "uuid list" "(uuid \<times> uuid) list" "(uuid \<times> uuid) list" "(uuid \<times> uuid) list"
  | EvPolicy policy_document
  | EvCapability capability
  | EvSecret uuid secret_ref
  | EvSecretStatus uuid secret_status
  | EvIssue uuid authorization
  | EvConsume uuid string string int
  | EvRevoke uuid string int
  | EvExpire int
  | EvOutbound outbound_request
  | EvAudit uuid audit_entry

fun ledger_apply :: "ledger \<Rightarrow> ledger_event \<Rightarrow> ledger" where
  "ledger_apply s (EvSession realm) = s\<lparr>lg_realm := realm\<rparr>"
| "ledger_apply s (EvCore realms actors works projects) =
     s\<lparr>lg_realms := lg_realms s @ realms, lg_actors := lg_actors s @ actors, lg_works := lg_works s @ works,
       lg_projects := lg_projects s @ projects\<rparr>"
| "ledger_apply s (EvPolicy d) = fst (policy_append d s)"
| "ledger_apply s (EvCapability c) = fst (capability_append c s)"
| "ledger_apply s (EvSecret realm r) = fst (secret_add realm r s)"
| "ledger_apply s (EvSecretStatus i status) = fst (secret_set_status i status s)"
| "ledger_apply s (EvIssue realm a) = fst (authorization_insert realm a s)"
| "ledger_apply s (EvConsume i effect by moment) = fst (authorization_consume i effect by moment s)"
| "ledger_apply s (EvRevoke i reason moment) = fst (authorization_revoke i reason moment s)"
| "ledger_apply s (EvExpire moment) = fst (authorization_expire_stale moment s)"
| "ledger_apply s (EvOutbound r) = fst (outbound_record r s)"
| "ledger_apply s (EvAudit realm e) = fst (audit_record realm e s)"

definition ledger_exec :: "ledger \<Rightarrow> ledger_event \<Rightarrow> ledger res" where
  "ledger_exec s e = Inr (ledger_apply s e)"

lemma ledger_apply_moves: "ledger_moves s (ledger_apply s e)"
proof (cases e)
  case (EvSession realm)
  then show ?thesis by (auto intro!: ledger_moves_frame simp: ledger_ok_def)
next
  case (EvCore realms actors works projects)
  then show ?thesis by (auto intro!: ledger_moves_frame simp: ledger_ok_def)
qed (use framed_consume framed_revoke framed_expire framed_set_status framed_inserts
      in \<open>simp_all add: ledger_frame.framed_def\<close>)

interpretation ledger: ranked_system ledger_exec ledger_ok ledger_record
proof
  fix s e t
  assume "ledger_ok s" "ledger_exec s e = Inr t"
  with ledger_apply_moves [of s e] show "ledger_ok t" "ledger_record s \<le> ledger_record t"
    by (auto simp: ledger_exec_def ledger_moves_def)
qed

lemma ledger_reach_apply: "ledger.reach s (ledger_apply s e)"
  by (rule ledger.reach_step [OF ledger.reach_refl]) (simp add: ledger_exec_def)

lemma ledger_reach_moves: "ledger.reach s t \<Longrightarrow> ledger_moves s t"
proof (induction rule: ledger.reach.induct)
  case (reach_step t e u)
  then show ?case
    using ledger_apply_moves [of t e] ledger_frame.steps_trans by (auto simp: ledger_exec_def)
qed (rule ledger_frame.steps_refl)

section \<open>The repositories keep the contract of the service\<close>

lemma read_only:
  "fst (policy_current name s) = s" "fst (capability_current name s) = s" "fst (authorization_get i s) = s"
  by (auto simp: policy_current_def capability_current_def authorization_get_def gbind_def query_def glift_def
      greturn_def graise_def split: option.splits sum.splits)

definition spent :: "uuid \<Rightarrow> ledger \<Rightarrow> bool" where
  "spent i s = (\<exists>r \<in> set (lg_authorizations s). aw_id r = i \<and> aw_state r = AS_CONSUMED)"

lemma spent_reach:
  assumes "ledger_ok s" "spent i s" "ledger.reach s t"
  shows "spent i t"
proof -
  from assms(2) obtain r where r: "r \<in> set (lg_authorizations s)" "aw_id r = i" "aw_state r = AS_CONSUMED"
    unfolding spent_def by blast
  then have "Inl r \<in> ledger_record s" by (simp add: ledger_record_def)
  then have "Inl r \<in> ledger_record t" using ledger.reach_rank [OF assms(3,1)] by blast
  then have "r \<in> set (lg_authorizations t)" by (auto simp: ledger_record_def)
  with r show ?thesis unfolding spent_def by blast
qed

lemma statement_Inr_iff: "statement f s = (t, Inr x) \<longleftrightarrow> f s = Inr (t, x)"
  by (auto simp: statement_def split: sum.splits)

lemma refusal_consumes_nothing:
  assumes "consume_refusal i e m s = (t, Inr c)"
  shows "\<not> cr_consumed c"
proof (cases "authorization_get i s")
  case (Pair u r)
  with assms show ?thesis
    by (cases r) (auto simp: consume_refusal_def gcatch_not_found_def gbind_def greturn_def
        split: zekam_error.splits if_splits)
qed

lemma consume_Inr:
  assumes "authorization_consume i e b m s = (t, Inr c)" "cr_consumed c"
  obtains r where "r \<in> set (lg_authorizations s)" "aw_realm_id r = lg_realm s" "consumable i e m r"
    "mark_consumed m b r \<in> set (lg_authorizations t)" "authorization_from_row (mark_consumed m b r) = Inr (the (cr_authorization c))"
    "cr_authorization c \<noteq> None" "lg_audit t = lg_audit s"
proof -
  from assms(1) obtain u hits where
    upd: "update_authorizations (consumable i e m) (mark_consumed m b) s = Inr (u, hits)"
    and rest: "(case hits of r # _ \<Rightarrow> gbind (glift (authorization_from_row r)) (\<lambda>a.
         greturn \<lparr>cr_consumed = True, cr_reason = ''consumed'', cr_authorization = Some a\<rparr>)
       | [] \<Rightarrow> consume_refusal i e m) u = (t, Inr c)"
    unfolding authorization_consume_def gbind_Inr_iff statement_Inr_iff by blast
  from rest refusal_consumes_nothing assms(2) obtain r rows where hits: "hits = r # rows" by (cases hits) auto
  with rest have "u = t" and a: "authorization_from_row r = Inr (the (cr_authorization c))" "cr_authorization c \<noteq> None"
    by (auto simp: gbind_Inr_iff)
  with upd hits have upd: "update_authorizations (consumable i e m) (mark_consumed m b) s = Inr (t, r # rows)" by simp
  define hit where "hit q = (aw_realm_id q = lg_realm s \<and> consumable i e m q)" for q
  from upd have rows: "r # rows = map (mark_consumed m b) (filter hit (lg_authorizations s))"
    and t: "t = s\<lparr>lg_authorizations := map (\<lambda>q. if hit q then mark_consumed m b q else q) (lg_authorizations s)\<rparr>"
    unfolding update_authorizations_def Let_def hit_def [symmetric] by (simp_all split: if_splits)
  from rows have "r \<in> mark_consumed m b ` set (filter hit (lg_authorizations s))" by (metis list.set_intros(1) set_map)
  then obtain q where q: "r = mark_consumed m b q" "q \<in> set (lg_authorizations s)" "hit q" by auto
  have "lg_authorizations t = map (\<lambda>q. if hit q then mark_consumed m b q else q) (lg_authorizations s)"
    and "lg_audit t = lg_audit s" by (simp_all add: t)
  note after = this
  have "mark_consumed m b q \<in> set (lg_authorizations t)"
    unfolding after(1) set_map by (rule image_eqI [of _ _ q]) (simp_all add: q)
  then show thesis using that [of q] q a after(2) by (simp add: hit_def)
qed

interpretation postgres: authorization_port ledger.reach "postgres_repositories realm_id" ledger_ok spent
  for realm_id
proof
  show "ledger.reach s s" for s by (rule ledger.reach_refl)
  show "ledger.reach s u" if "ledger.reach s t" "ledger.reach t u" for s t u using that by (rule ledger.reach_trans)
  let ?R = "postgres_repositories realm_id"
  show "ledger.reach s (fst (rp_policy_current ?R name s))" "ledger.reach s (fst (rp_capability_current ?R name s))"
    "ledger.reach s (fst (rp_get ?R i s))" for s name i
    by (simp_all add: postgres_repositories_def read_only ledger.reach_refl)
  show "ledger.reach s (fst (rp_policy_append ?R d s))" for s d
    using ledger_reach_apply [of s "EvPolicy d"] by (simp add: postgres_repositories_def)
  show "ledger.reach s (fst (rp_issue ?R a s))" for s a
    using ledger_reach_apply [of s "EvIssue realm_id a"] by (simp add: postgres_repositories_def)
  show "ledger.reach s (fst (rp_consume ?R i e b m s))" for s i e b m
    using ledger_reach_apply [of s "EvConsume i e b m"] by (simp add: postgres_repositories_def)
  show "ledger.reach s (fst (rp_revoke ?R i r m s))" for s i r m
    using ledger_reach_apply [of s "EvRevoke i r m"] by (simp add: postgres_repositories_def)
  show "ledger.reach s (fst (rp_outbound_record ?R q s))" for s q
    using ledger_reach_apply [of s "EvOutbound q"] by (simp add: postgres_repositories_def)
  show "ledger.reach s (fst (rp_audit_record ?R w s))" for s w
    using ledger_reach_apply [of s "EvAudit realm_id w"] by (simp add: postgres_repositories_def)
  show "ledger_ok t" if "ledger_ok s" "ledger.reach s t" for s t using that ledger.reach_inv by blast
  show "spent i t" if "ledger_ok s" "spent i s" "ledger.reach s t" for i s t
    using that by (rule spent_reach)
  fix s i e b m t r
  assume ok: "ledger_ok s" and consumed: "rp_consume ?R i e b m s = (t, Inr r)" "cr_consumed r"
  from consumed(1) have "authorization_consume i e b m s = (t, Inr r)" by (simp add: postgres_repositories_def)
  from this consumed(2) obtain q where q: "q \<in> set (lg_authorizations s)" "consumable i e m q"
      "mark_consumed m b q \<in> set (lg_authorizations t)"
    by (rule consume_Inr)
  have keys: "distinct (map aw_id (lg_authorizations s))" using ok by (simp add: ledger_ok_def)
  have live: "aw_id q = i" "aw_state q = AS_ISSUED" using q(2) by (simp_all add: consumable_def)
  show "\<not> spent i s"
  proof
    assume "spent i s"
    then obtain q' where "q' \<in> set (lg_authorizations s)" "aw_id q' = i" "aw_state q' = AS_CONSUMED"
      unfolding spent_def by blast
    with distinct_key_eq [OF keys q(1), of q'] live show False by simp
  qed
  have "aw_id (mark_consumed m b q) = i" "aw_state (mark_consumed m b q) = AS_CONSUMED"
    using q(2) by (simp_all add: consumable_def mark_consumed_def)
  with q(3) show "spent i t" unfolding spent_def by blast
qed

end
