(* ===== verification/GovernanceGuarantees.thy ===== *)
theory GovernanceGuarantees
  imports LedgerHistory
begin

text \<open>
  What the governance service guarantees over the PostgreSQL repositories: which requests pass the
  gates, that one authorization admits one call, what a call leaves behind, that an issued
  authorization opens its own request, and what may leave through the provider gate.
\<close>

section \<open>Reads\<close>

lemma postgres_simps [simp]:
  "gs_provider (postgres_governance realm_id actor_id correlation_id) = Some (postgres_repositories realm_id)"
  "gs_realm_id (postgres_governance realm_id actor_id correlation_id) = realm_id"
  "gs_actor_id (postgres_governance realm_id actor_id correlation_id) = actor_id"
  "gs_correlation_id (postgres_governance realm_id actor_id correlation_id) = correlation_id"
  by (simp_all add: postgres_governance_def)

lemma repository_postgres [simp]:
  "repository (postgres_governance realm_id actor_id correlation_id) f = f (postgres_repositories realm_id)"
  by (simp add: repository_def)

lemma postgres_repositories_simps [simp]:
  "rp_policy_append (postgres_repositories realm_id) = policy_append"
  "rp_policy_current (postgres_repositories realm_id) = policy_current"
  "rp_capability_current (postgres_repositories realm_id) = capability_current"
  "rp_issue (postgres_repositories realm_id) = authorization_insert realm_id"
  "rp_get (postgres_repositories realm_id) = authorization_get"
  "rp_consume (postgres_repositories realm_id) = authorization_consume"
  "rp_revoke (postgres_repositories realm_id) = authorization_revoke"
  "rp_outbound_record (postgres_repositories realm_id) = outbound_record"
  "rp_audit_record (postgres_repositories realm_id) = audit_record realm_id"
  by (simp_all add: postgres_repositories_def)

lemma newest_None: "newest key rows = None \<longleftrightarrow> rows = []"
proof -
  have "length (sort_key (\<lambda>r. - key r) rows) = length rows" by simp
  then show ?thesis unfolding newest_def by (cases "sort_key (\<lambda>r. - key r) rows"; cases rows) auto
qed

definition registered :: "string \<Rightarrow> ledger \<Rightarrow> bool" where
  "registered name s = (\<exists>row \<in> set (lg_capabilities s). cb_realm_id row = lg_realm s \<and> cb_name row = name)"

lemma query_Inr_iff: "query f s = (t, Inr x) \<longleftrightarrow> t = s \<and> x = f s"
  by (auto simp: query_def)

lemma capability_current_Inr:
  assumes "capability_current name s = (t, Inr found)"
  shows "t = s \<and> (found = None \<longleftrightarrow> \<not> registered name s)"
proof -
  have "registered name s \<longleftrightarrow> capability_current_row name s \<noteq> None"
    unfolding capability_current_row_def newest_None registered_def by (auto simp: filter_empty_conv)
  with assms show ?thesis
    unfolding capability_current_def gbind_Inr_iff query_Inr_iff
    by (auto simp: gbind_Inr_iff split: option.splits)
qed

lemma capability_checks:
  assumes "gmap (\<lambda>name. gbind (capability_current name) (\<lambda>found. greturn (name, found = None))) names s = (t, Inr checked)"
  shows "t = s \<and> checked = map (\<lambda>name. (name, \<not> registered name s)) names"
  using assms
proof (induction names arbitrary: s checked)
  case (Cons name names)
  then obtain u ys found where "capability_current name s = (u, Inr found)" and
    rest: "gmap (\<lambda>name. gbind (capability_current name) (\<lambda>found. greturn (name, found = None))) names u = (t, Inr ys)" and
    "checked = (name, found = None) # ys"
    by (auto simp: gbind_Inr_iff)
  with capability_current_Inr Cons.IH [OF rest] show ?case by auto
qed simp

lemma capability_gate_Inr:
  assumes "capability_gate (postgres_governance realm_id actor_id correlation_id) request s = (t, Inr d)"
  shows "t = s \<and> (decision_allowed d \<longleftrightarrow> (\<forall>name \<in> set (rq_capabilities request). registered name s))"
proof -
  from assms obtain checked where
    "gmap (\<lambda>name. gbind (capability_current name) (\<lambda>found. greturn (name, found = None))) (rq_capabilities request) s
      = (t, Inr checked)" and d: "d = capability_decision (map fst (filter snd checked))"
    unfolding capability_gate_def gbind_Inr_iff by auto
  with capability_checks have "t = s" and
    "checked = map (\<lambda>name. (name, \<not> registered name s)) (rq_capabilities request)" by blast+
  then show ?thesis
    unfolding d capability_decision_def by (auto simp: filter_map filter_empty_conv o_def)
qed

lemma policy_current_state: "policy_current name s = (t, r) \<Longrightarrow> t = s"
  using read_only(1) [of name s] by simp

lemma active_policy_Inr:
  assumes "active_policy (postgres_governance realm_id actor_id correlation_id) name s = (t, Inr document)"
  shows "t = s \<and> policy_current name s = (s, Inr (Some document))"
  using assms unfolding active_policy_def gbind_Inr_iff
  by (auto dest: policy_current_state split: option.splits)

section \<open>The gates\<close>

definition policy_in_force :: "policy_document option \<Rightarrow> ledger \<Rightarrow> policy_document \<Rightarrow> bool" where
  "policy_in_force given s document =
     (given = Some document \<or> given = None \<and> policy_current DEFAULT_POLICY_NAME s = (s, Inr (Some document)))"

lemma evaluate_Inr:
  assumes "evaluate (postgres_governance realm_id actor_id correlation_id) request authorization given moment audited s
    = (t, Inr verdict)"
  obtains document capability where "policy_in_force given s document"
    "capability_gate (postgres_governance realm_id actor_id correlation_id) request s = (s, Inr capability)"
    "gate_chain capability request document authorization moment = Inr (gv_gates verdict)"
    "gv_request verdict = request" "gv_authorization verdict = authorization"
    "if audited then \<exists>i. audit_verdict (postgres_governance realm_id actor_id correlation_id) verdict moment s = (t, Inr i)
     else t = s"
proof -
  let ?sv = "postgres_governance realm_id actor_id correlation_id"
  from assms obtain document u capability v where
    doc: "(case given of Some document \<Rightarrow> greturn document | None \<Rightarrow> active_policy ?sv DEFAULT_POLICY_NAME) s = (u, Inr document)"
    and cap: "capability_gate ?sv request u = (v, Inr capability)"
    and gates: "gate_chain capability request document authorization moment = Inr (gv_gates verdict)"
    and verdict: "gv_request verdict = request" "gv_authorization verdict = authorization"
    and audit: "if audited then \<exists>i. audit_verdict ?sv verdict moment v = (t, Inr i) else t = v"
    unfolding evaluate_def Let_def gbind_Inr_iff gov_Inr_iff
    by (cases audited) (auto simp: gbind_Inr_iff)
  have "u = s" "policy_in_force given s document"
    using doc active_policy_Inr by (auto simp: policy_in_force_def split: option.splits)
  moreover have "v = u" using cap capability_gate_Inr by blast
  ultimately have "v = s" "u = s" "policy_in_force given s document" by simp_all
  from that [OF this(3) cap [unfolded this(1,2)] gates verdict audit [unfolded this(1)]] show thesis .
qed

lemma evaluate_audited:
  assumes "evaluate (postgres_governance realm_id actor_id correlation_id) request authorization given moment True s
    = (t, Inr verdict)"
  shows "gv_request verdict = request \<and> gv_authorization verdict = authorization
    \<and> (\<exists>i. audit_verdict (postgres_governance realm_id actor_id correlation_id) verdict moment s = (t, Inr i))"
  by (rule evaluate_Inr [OF assms]) simp

lemma gates_need_policy:
  assumes "evaluate (postgres_governance realm_id actor_id correlation_id) request authorization given moment audited s
    = (t, Inr verdict)"
  shows "\<exists>document. policy_in_force given s document \<and> (verdict_allowed verdict \<longrightarrow> policy_permits document request)"
  by (rule evaluate_Inr [OF assms]) (use gate_chain_allowed in \<open>unfold verdict_allowed_def, blast\<close>)

text \<open>C7. The verdict of the gates is the declarative one: a request is allowed exactly when every
  capability it names is registered in the realm, when the first rule of the policy in force for each
  of its effects allows the effect on all the resources and admits its risk, and when, unless it is a
  read-only action or of low risk, an authorization opens it - one whose scope covers every effect,
  resource and provider, which is bound to the digest of this request, and which is neither consumed
  nor revoked nor outside its time.\<close>

theorem evaluate_allowed_iff:
  assumes "evaluate (postgres_governance realm_id actor_id correlation_id) request authorization given moment audited s
    = (t, Inr verdict)"
  shows "\<exists>document. policy_in_force given s document \<and>
    (verdict_allowed verdict \<longleftrightarrow>
       (\<forall>name \<in> set (rq_capabilities request). registered name s) \<and> policy_permits document request
       \<and> (needs_authorization request \<longrightarrow>
            (\<exists>a. authorization = Some a \<and> authorization_opens request moment a)))"
proof (rule evaluate_Inr [OF assms])
  fix document capability
  assume force: "policy_in_force given s document"
    and cap: "capability_gate (postgres_governance realm_id actor_id correlation_id) request s = (s, Inr capability)"
    and gates: "gate_chain capability request document authorization moment = Inr (gv_gates verdict)"
  have "verdict_allowed verdict \<longleftrightarrow>
       (\<forall>name \<in> set (rq_capabilities request). registered name s) \<and> policy_permits document request
       \<and> (needs_authorization request \<longrightarrow> (\<exists>a. authorization = Some a \<and> authorization_opens request moment a))"
    unfolding verdict_allowed_def gate_chain_allowed [OF gates] using capability_gate_Inr [OF cap] by simp
  with force show ?thesis by (intro exI [of _ document] conjI)
qed

section \<open>One authorization, one call\<close>

text \<open>C3. An authorization admits one call, whatever happens in between: once \<^verbatim>\<open>require_authorized\<close> has
  returned with an authorization, no later call returns with it again - from any session, in any
  realm, for any request and at any time, after any sequence of calls of the repositories.\<close>

theorem authorized_at_most_once:
  assumes "ledger_ok s"
    and "require_authorized (postgres_governance realm_id actor_id correlation_id) request (Some a) by moment s = (t, Inr c)"
    and "ledger.reach t u" and "au_id b = au_id a"
  shows "\<nexists>v c'. require_authorized (postgres_governance realm_id' actor_id' correlation_id') request' (Some b) by' moment' u
    = (v, Inr c')"
proof
  assume "\<exists>v c'. require_authorized (postgres_governance realm_id' actor_id' correlation_id') request' (Some b) by' moment' u
    = (v, Inr c')"
  then obtain v c' where second: "require_authorized (postgres_governance realm_id' actor_id' correlation_id') request'
    (Some b) by' moment' u = (v, Inr c')" by blast
  have "ledger.reach s t" using postgres.require_authorized_steps [OF postgres_simps(1) assms(2)] .
  then have "ledger_ok t" "ledger_ok u" using assms(1,3) ledger.reach_inv by blast+
  have "spent (au_id a) t" using postgres.require_authorized_consumes [OF postgres_simps(1) assms(1,2)] ..
  then have "spent (au_id b) u" unfolding assms(4) by (rule spent_reach [OF \<open>ledger_ok t\<close> _ assms(3)])
  moreover have "\<not> spent (au_id b) u"
    using postgres.require_authorized_consumes [OF postgres_simps(1) \<open>ledger_ok u\<close> second] ..
  ultimately show False by contradiction
qed

section \<open>What a call leaves behind\<close>

lemma audit_record_Inr:
  assumes "audit_record realm_id e s = (t, Inr i)"
  obtains row where "lg_audit t = lg_audit s @ [row]" "lg_authorizations t = lg_authorizations s" "lg_realm t = lg_realm s"
    "lg_outbound t = lg_outbound s"
    "av_action row = ae_action e" "av_decision row = ae_decision e" "av_authorization_id row = ae_authorization_id e"
    "av_subject_id row = ae_subject_id e" "av_reason row = ae_reason e" "av_realm_id row = realm_id"
proof -
  from assms obtain u d row where
    draw: "draw_uuid s = (u, Inr i)" and ins: "insert_audit row u = Inr (t, ())" and
    row: "row = \<lparr>av_id = i, av_realm_id = realm_id, av_sequence = 0,
       av_actor_id = ae_actor_id e, av_correlation_id = ae_correlation_id e, av_action = ae_action e,
       av_subject_type = ae_subject_type e, av_subject_id = ae_subject_id e,
       av_authorization_id = ae_authorization_id e, av_decision = ae_decision e, av_reason = ae_reason e,
       av_evidence_digest = d, av_occurred_at = ae_now e\<rparr>"
    unfolding audit_record_def gbind_Inr_iff gov_Inr_iff statement_Inr_iff by auto
  from draw have "u = s\<lparr>lg_uuids := tl (lg_uuids s)\<rparr>" by (auto simp: draw_uuid_def split: list.splits)
  with ins have "t = s\<lparr>lg_uuids := tl (lg_uuids s), lg_audit := lg_audit s @ [row\<lparr>av_sequence := Suc (length (lg_audit s))\<rparr>]\<rparr>"
    by (simp add: insert_audit_def split: if_splits)
  with that [of "row\<lparr>av_sequence := Suc (length (lg_audit s))\<rparr>"] show thesis by (simp add: row)
qed

lemma audit_verdict_Inr:
  assumes "audit_verdict (postgres_governance realm_id actor_id correlation_id) verdict moment s = (t, Inr i)"
  obtains row where "lg_audit t = lg_audit s @ [row]" "lg_authorizations t = lg_authorizations s" "lg_realm t = lg_realm s"
    "av_action row = ''gate.'' @ rq_action (gv_request verdict)"
    "av_decision row = (if verdict_allowed verdict then ''allow'' else ''deny'')"
    "av_authorization_id row = map_option au_id (gv_authorization verdict)"
    "effect_digest (gv_request verdict) = Inr (av_subject_id row)"
proof -
  let ?sv = "postgres_governance realm_id actor_id correlation_id"
  from assms obtain effect evidence where e: "effect_digest (gv_request verdict) = Inr effect"
    and r: "audit_record realm_id (verdict_entry ?sv verdict moment effect evidence) s = (t, Inr i)"
    unfolding audit_verdict_def gbind_Inr_iff gov_Inr_iff by auto
  from r show thesis
  proof (rule audit_record_Inr)
    fix row
    assume "lg_audit t = lg_audit s @ [row]" "lg_authorizations t = lg_authorizations s" "lg_realm t = lg_realm s"
      "av_action row = ae_action (verdict_entry ?sv verdict moment effect evidence)"
      "av_decision row = ae_decision (verdict_entry ?sv verdict moment effect evidence)"
      "av_authorization_id row = ae_authorization_id (verdict_entry ?sv verdict moment effect evidence)"
      "av_subject_id row = ae_subject_id (verdict_entry ?sv verdict moment effect evidence)"
    with e show thesis by (intro that [of row]) (simp_all add: verdict_entry_def)
  qed
qed

lemma consume_authorization_Inr:
  assumes "consume_authorization (postgres_governance realm_id actor_id correlation_id) i request by moment s = (t, Inr r)"
  obtains effect u row where "effect_digest request = Inr effect"
    "authorization_consume i effect by moment s = (u, Inr r)"
    "lg_audit t = lg_audit u @ [row]" "lg_authorizations t = lg_authorizations u"
    "av_action row = ''authorization.consume''" "av_decision row = (if cr_consumed r then ''allow'' else ''deny'')"
    "av_authorization_id row = (if cr_authorization r = None then None else Some i)"
proof -
  from assms obtain effect u entry j where e: "effect_digest request = Inr effect"
    and c: "authorization_consume i effect by moment s = (u, Inr r)"
    and r: "audit_record realm_id entry u = (t, Inr j)"
    and entry: "ae_action entry = ''authorization.consume''"
      "ae_decision entry = (if cr_consumed r then ''allow'' else ''deny'')"
      "ae_authorization_id entry = (if cr_authorization r = None then None else Some i)"
    unfolding consume_authorization_def gbind_Inr_iff gov_Inr_iff by fastforce
  from r show thesis
    by (rule audit_record_Inr) (rule that [OF e c], simp_all add: entry)
qed

lemma require_authorized_Inr:
  assumes "require_authorized sv request authorization by moment s = (t, Inr c)"
  obtains verdict u a result where "evaluate sv request authorization None moment True s = (u, Inr verdict)"
    "verdict_allowed verdict" "authorization = Some a"
    "consume_authorization sv (au_id a) request by moment u = (t, Inr result)"
    "cr_consumed result" "cr_authorization result = Some c"
proof -
  from assms obtain verdict u where eval: "evaluate sv request authorization None moment True s = (u, Inr verdict)"
    and allowed: "verdict_allowed verdict"
    and rest: "(case authorization of
       None \<Rightarrow> graise (AuthorizationRequired ''Yetki gerekli'')
     | Some a \<Rightarrow>
       gbind (consume_authorization sv (au_id a) request by moment) (\<lambda>result.
       if \<not> cr_consumed result
       then graise (AuthorizationRequired (''Yetki tuketilemedi: '' @ cr_reason result))
       else case cr_authorization result of
         None \<Rightarrow> graise (AuthorizationRequired (''Yetki tuketilemedi: '' @ cr_reason result))
       | Some consumed \<Rightarrow> greturn consumed)) u = (t, Inr c)"
    unfolding require_authorized_def Let_def gbind_Inr_iff by (auto split: if_splits)
  from rest obtain a result where "authorization = Some a"
    "consume_authorization sv (au_id a) request by moment u = (t, Inr result)"
    "cr_consumed result" "cr_authorization result = Some c"
    by (auto simp: gbind_Inr_iff split: option.splits if_splits)
  with that [OF eval allowed] show thesis by simp
qed

text \<open>C11. When \<^verbatim>\<open>require_authorized\<close> returns, the authorization was issued in this realm, bound to the
  digest of this very request and not expired; its row is now consumed, at this moment and by this
  caller, and the returned authorization is read from that row. The audit has grown by exactly two
  entries that name the authorization: the gates allowed the action, and the authorization was
  consumed.\<close>

theorem require_authorized_trace:
  assumes "require_authorized (postgres_governance realm_id actor_id correlation_id) request authorization by moment s = (t, Inr c)"
  shows "\<exists>a row first second. authorization = Some a \<and> row \<in> set (lg_authorizations s)
    \<and> aw_id row = au_id a \<and> aw_realm_id row = lg_realm s \<and> aw_state row = AS_ISSUED
    \<and> moment < aw_expires_at row \<and> effect_digest request = Inr (aw_effect_digest row)
    \<and> mark_consumed moment by row \<in> set (lg_authorizations t)
    \<and> authorization_from_row (mark_consumed moment by row) = Inr c
    \<and> lg_audit t = lg_audit s @ [first, second]
    \<and> av_action first = ''gate.'' @ rq_action request \<and> av_decision first = ''allow''
    \<and> av_authorization_id first = Some (au_id a)
    \<and> av_action second = ''authorization.consume'' \<and> av_decision second = ''allow''
    \<and> av_authorization_id second = Some (au_id a)"
proof (rule require_authorized_Inr [OF assms])
  let ?sv = "postgres_governance realm_id actor_id correlation_id"
  fix verdict u a result
  assume eval: "evaluate ?sv request authorization None moment True s = (u, Inr verdict)"
    and allowed: "verdict_allowed verdict" and a: "authorization = Some a"
    and consume: "consume_authorization ?sv (au_id a) request by moment u = (t, Inr result)"
    and consumed: "cr_consumed result" and c: "cr_authorization result = Some c"
  from evaluate_audited [OF eval] obtain i where
    verdict: "gv_request verdict = request" "gv_authorization verdict = authorization"
    and audit: "audit_verdict ?sv verdict moment s = (u, Inr i)" by blast
  from audit obtain first where first: "lg_audit u = lg_audit s @ [first]" "lg_authorizations u = lg_authorizations s"
      "lg_realm u = lg_realm s" "av_action first = ''gate.'' @ rq_action (gv_request verdict)"
      "av_decision first = (if verdict_allowed verdict then ''allow'' else ''deny'')"
      "av_authorization_id first = map_option au_id (gv_authorization verdict)"
    by (rule audit_verdict_Inr)
  from consume obtain effect v second where e: "effect_digest request = Inr effect"
    and v: "authorization_consume (au_id a) effect by moment u = (v, Inr result)"
    and second: "lg_audit t = lg_audit v @ [second]" "lg_authorizations t = lg_authorizations v"
      "av_action second = ''authorization.consume''"
      "av_decision second = (if cr_consumed result then ''allow'' else ''deny'')"
      "av_authorization_id second = (if cr_authorization result = None then None else Some (au_id a))"
    by (rule consume_authorization_Inr)
  from v consumed obtain row where row: "row \<in> set (lg_authorizations u)" "aw_realm_id row = lg_realm u"
      "consumable (au_id a) effect moment row" "mark_consumed moment by row \<in> set (lg_authorizations v)"
      "authorization_from_row (mark_consumed moment by row) = Inr (the (cr_authorization result))"
      "lg_audit v = lg_audit u"
    by (rule consume_Inr)
  then show ?thesis
    using a e first second allowed consumed c verdict unfolding consumable_def
    by (intro exI [of _ a] exI [of _ row] exI [of _ first] exI [of _ second]) simp
qed

section \<open>What is stored is what is read\<close>

lemma sort_key_stable_twice: "sort_key f (sort_key f xs) = sort_key f xs"
  by (rule sort_key_id_if_sorted) simp

lemma json_field_sorted:
  "distinct (map fst items) \<Longrightarrow> json_field (JObj (sort_key fst items)) k = map_of items k"
proof -
  assume "distinct (map fst items)"
  moreover from this have "distinct (map fst (sort_key fst items))" by (simp add: distinct_map)
  ultimately show ?thesis
    using sorted_items_map_of [of "sort_key fst items" items] by (simp add: json_field_def sort_key_stable_twice)
qed

lemma json_texts_texts: "json_texts (Some (JArr (map JStr xs))) = Inr xs"
  by (auto simp: json_texts_def json_text_def rmap_Inr_iff list_all2_map1 list_all2_same)

lemma sort_map_value: "sort (map f xs) = map f (sort_key f xs)"
  by (rule properties_for_sort) (simp_all add: mset_map)

text \<open>Reading a value back from an enumeration.\<close>

lemma enum_values [simp]:
  "data_classification_of (data_classification_value c) = Inr c"
  "effect_kind_of (effect_kind_value e) = Inr e"
  "risk_level_of (risk_level_value l) = Inr l"
  subgoal by (cases c) (simp_all add: data_classification_of_def)
  subgoal by (cases e) (simp_all add: effect_kind_of_def)
  subgoal by (cases l) (simp_all add: risk_level_of_def)
  done

lemma rmap_values: "(\<And>x. g (f x) = Inr x) \<Longrightarrow> rmap g (map f xs) = Inr xs"
  by (simp add: rmap_Inr_iff list_all2_map1 list_all2_same)

definition stored_scope :: "authorization_scope \<Rightarrow> authorization_scope" where
  "stored_scope s =
     \<lparr>as_resources = sort (as_resources s), as_read_resources = [], as_write_resources = [],
      as_effects = sort (as_effects s), as_provider_refs = sort (as_provider_refs s),
      as_secret_ref_ids = sort (as_secret_ref_ids s),
      as_data_classifications = sort_key data_classification_value (as_data_classifications s)\<rparr>"

definition scope_items :: "authorization_scope \<Rightarrow> (string \<times> json) list" where
  "scope_items s =
     [(''allowed_resources'', JArr (map JStr (sort (as_resources s)))),
      (''allowed_effects'', JArr (map JStr (sort (as_effects s)))),
      (''provider_refs'', JArr (map JStr (sort (as_provider_refs s)))),
      (''secret_ref_ids'', JArr (map JStr (sort (as_secret_ref_ids s)))),
      (''data_classifications'', JArr (map JStr (sort (map data_classification_value (as_data_classifications s)))))]
     @ (if as_read_resources s \<noteq> [] \<or> as_write_resources s \<noteq> []
        then [(''allowed_read_resources'', JArr (map JStr (sort (as_read_resources s)))),
              (''allowed_write_resources'', JArr (map JStr (sort (as_write_resources s))))]
        else [])"

lemma canonicalize_scope: "canonicalize (PDict (scope_body s)) = Inr (JObj (sort_key fst (scope_items s)))"
  by (simp add: canonicalize_def scope_body_def scope_items_def normalize_texts)

lemma scope_reads_back:
  assumes "canonicalize (PDict (scope_body s)) = Inr j" "as_effects s \<noteq> []"
  shows "scope_from_json j = Inr (stored_scope s)"
proof -
  have "distinct (map fst (scope_items s))"
    by (cases "as_read_resources s \<noteq> [] \<or> as_write_resources s \<noteq> []") (simp_all add: scope_items_def)
  moreover have "j = JObj (sort_key fst (scope_items s))" using assms(1) by (simp add: canonicalize_scope)
  ultimately have field: "json_field j k = map_of (scope_items s) k" for k by (simp add: json_field_sorted)
  have "sort (as_effects s) \<noteq> []" using assms(2) by (metis set_empty set_sort)
  moreover have "rmap data_classification_of (sort (map data_classification_value ds))
      = Inr (sort_key data_classification_value ds)" for ds
    unfolding sort_map_value by (rule rmap_values) (rule enum_values)
  ultimately show ?thesis
    unfolding scope_from_json_def field
    by (simp add: scope_items_def json_texts_texts check_scope_def stored_scope_def)
qed

lemma find_snoc: "find P xs = None \<Longrightarrow> find P (xs @ [x]) = (if P x then Some x else None)"
  by (induction xs) (auto split: if_splits)

lemma insert_reads_back:
  assumes "authorization_insert realm_id a s = (t, Inr a')"
    and "check_authorization a = Inr a" "as_effects (au_scope a) \<noteq> []"
    and "au_consumed_at a = None" "au_consumed_by a = None" "au_revoked_at a = None" "au_revocation_reason a = None"
  shows "authorization_row_of (au_id a) t \<noteq> None
    \<and> map_option authorization_from_row (authorization_row_of (au_id a) t)
      = Some (Inr (a\<lparr>au_scope := stored_scope (au_scope a)\<rparr>))"
proof -
  from assms(1) obtain j d where j: "canonicalize (PDict (scope_body (au_scope a))) = Inr j"
    and ins: "insert_authorization (issued_row a j d) s = Inr (t, ())"
    unfolding authorization_insert_def by (auto simp: gbind_Inr_iff statement_Inr_iff split: if_splits)
  from ins have t: "t = s\<lparr>lg_authorizations := lg_authorizations s @ [issued_row a j d]\<rparr>"
    and new: "au_id a \<notin> aw_id ` set (lg_authorizations s)" and realm: "au_realm_id a = lg_realm s"
    by (auto simp: insert_authorization_def issued_row_def split: if_splits)
  have "find (\<lambda>r. aw_realm_id r = lg_realm s \<and> aw_id r = au_id a) (lg_authorizations s) = None"
    using new unfolding find_None_ball by (metis image_eqI)
  then have "authorization_row_of (au_id a) t = Some (issued_row a j d)"
    using realm by (simp add: t authorization_row_of_def find_snoc issued_row_def)
  moreover have "authorization_from_row (issued_row a j d) = Inr (a\<lparr>au_scope := stored_scope (au_scope a)\<rparr>)"
    using assms(2,4-) scope_reads_back [OF j assms(3)]
    by (cases a) (auto simp: authorization_from_row_def issued_row_def check_authorization_def rbind_Inr_iff split: if_splits)
  ultimately show ?thesis by simp
qed

lemma new_authorization_Inr:
  assumes "new_authorization sv new_id request holder plan given_digest work plan_id lifetime secrets moment = Inr a"
  shows "au_id a = new_id \<and> au_realm_id a = gs_realm_id sv \<and> au_issued_at a = moment \<and> au_expires_at a = moment + lifetime
    \<and> au_state a = AS_ISSUED \<and> check_authorization a = Inr a \<and> effect_digest request = Inr (au_effect_digest a)
    \<and> issue_scope request secrets = Inr (au_scope a)
    \<and> au_consumed_at a = None \<and> au_consumed_by a = None \<and> au_revoked_at a = None \<and> au_revocation_reason a = None"
proof -
  from assms obtain scope bound_plan effect where
    scope: "issue_scope request secrets = Inr scope" and effect: "effect_digest request = Inr effect" and
    issue: "authorization_issue new_id moment (gs_realm_id sv) holder bound_plan effect scope
        (risk_level_value (ra_level (request_risk request))) lifetime
        (case plan of Some p \<Rightarrow> Some (tp_work_item_id p) | None \<Rightarrow> work)
        (case plan of Some p \<Rightarrow> Some (tp_id p) | None \<Rightarrow> plan_id) = Inr a"
    unfolding new_authorization_def rbind_Inr_iff if_Inl_eq_Inr by blast
  have check: "check_authorization x = Inr y \<Longrightarrow> y = x" for x y
    by (auto simp: check_authorization_def rbind_Inr_iff split: if_splits)
  from issue obtain expires x where "add_delta moment lifetime = Inr expires" and x: "check_authorization x = Inr a"
      "x = \<lparr>au_id = new_id, au_realm_id = gs_realm_id sv, au_actor_id = holder,
       au_plan_digest = bound_plan, au_effect_digest = effect, au_scope = scope,
       au_risk = risk_level_value (ra_level (request_risk request)),
       au_issued_at = moment, au_expires_at = expires,
       au_work_item_id = (case plan of Some p \<Rightarrow> Some (tp_work_item_id p) | None \<Rightarrow> work),
       au_plan_id = (case plan of Some p \<Rightarrow> Some (tp_id p) | None \<Rightarrow> plan_id),
       au_state = AS_ISSUED, au_consumed_at = None, au_consumed_by = None, au_revoked_at = None,
       au_revocation_reason = None\<rparr>"
    unfolding authorization_issue_def rbind_Inr_iff by blast
  moreover from this(1) have "expires = moment + lifetime" by (simp add: add_delta_def split: if_splits)
  moreover have "x = a" using check [OF x(1)] by simp
  ultimately show ?thesis using scope effect by auto
qed

lemma issue_scope_Inr:
  assumes "issue_scope request secrets = Inr scope"
  shows "as_effects scope \<noteq> []
    \<and> (\<forall>e \<in> set (rq_effects request). e = EK_NONE \<or> effect_kind_value e \<in> set (as_effects scope))
    \<and> set (as_resources scope) = set (rq_resources request)
    \<and> set (as_provider_refs scope) = set (rq_provider_refs request)"
proof -
  define effects where "effects = sort (map effect_kind_value (filter (\<lambda>e. e \<noteq> EK_NONE) (rq_effects request)))"
  from assms have scope: "as_effects scope = (if effects = [] then [''none''] else effects)"
    "as_resources scope = sort (rq_resources request)" "as_provider_refs scope = sort (rq_provider_refs request)"
    by (auto simp: issue_scope_def Let_def check_scope_def effects_def split: if_splits)
  have "\<forall>e \<in> set (rq_effects request). e = EK_NONE \<or> effect_kind_value e \<in> set effects"
    by (auto simp: effects_def)
  then show ?thesis by (auto simp: scope)
qed

lemma opens_own_request:
  assumes "issue_scope request secrets = Inr scope" "effect_digest request = Inr (au_effect_digest a)"
    and "set (as_effects (au_scope a)) = set (as_effects scope)" "set (as_resources (au_scope a)) = set (as_resources scope)"
    and "set (as_provider_refs (au_scope a)) = set (as_provider_refs scope)"
    and "authorization_is_valid_at a m"
  shows "authorization_opens request m a"
  using issue_scope_Inr [OF assms(1)] assms(2-)
  by (auto simp: authorization_opens_def covers_resource_def list_ex_iff resource_pattern_def)

text \<open>C36. An authorization that was issued can be used: read back from the ledger it is the issued one with
  its scope in sorted order, and both open the request they were issued for at every moment from the
  issue until the end of the lifetime.\<close>

theorem issued_authorization_opens:
  assumes "issue_authorization (postgres_governance realm_id actor_id correlation_id) new_id request holder plan
      given_digest work plan_id lifetime secrets moment s = (t, Inr a)"
  shows "\<exists>b. authorization_get new_id t = (t, Inr b) \<and> b = a\<lparr>au_scope := stored_scope (au_scope a)\<rparr> \<and> au_id b = new_id
    \<and> (\<forall>m. moment \<le> m \<longrightarrow> m < moment + lifetime \<longrightarrow> authorization_opens request m a \<and> authorization_opens request m b)"
proof -
  let ?b = "a\<lparr>au_scope := stored_scope (au_scope a)\<rparr>"
  from assms obtain u entry a' i where
    new: "new_authorization (postgres_governance realm_id actor_id correlation_id) new_id request holder plan
      given_digest work plan_id lifetime secrets moment = Inr a"
    and ins: "authorization_insert realm_id a s = (u, Inr a')" and audit: "audit_record realm_id entry u = (t, Inr i)"
    unfolding issue_authorization_def gbind_Inr_iff gov_Inr_iff repository_postgres postgres_repositories_simps by blast
  note a = new_authorization_Inr [OF new]
  have scope: "as_effects (au_scope a) \<noteq> []" using issue_scope_Inr a by blast
  have rows: "authorization_row_of new_id t = authorization_row_of new_id u"
    using audit by (rule audit_record_Inr) (simp add: authorization_row_of_def)
  have "map_option authorization_from_row (authorization_row_of new_id u) = Some (Inr ?b)"
    using insert_reads_back [OF ins _ scope] a by simp
  then have "authorization_get new_id t = (t, Inr ?b)"
    by (auto simp: authorization_get_def gbind_def query_def glift_def rows split: option.splits)
  moreover have "authorization_opens request m a \<and> authorization_opens request m ?b"
    if "moment \<le> m" "m < moment + lifetime" for m
    using that a by (auto intro!: opens_own_request [of request secrets "au_scope a"]
        simp: authorization_is_valid_at_def stored_scope_def)
  ultimately show ?thesis using a by auto
qed

section \<open>The provider gate\<close>

lemma upsert_outbound_row:
  assumes "upsert_outbound r s = Inr (t, x)"
  shows "\<exists>row \<in> set (lg_outbound t). ou_id row = ou_id r \<and> ou_state row = ou_state r
    \<and> ou_authorization_id row = ou_authorization_id r \<and> ou_denial_reason row = ou_denial_reason r"
proof (cases "find (\<lambda>q. ou_id q = ou_id r) (lg_outbound s)")
  case None
  with assms show ?thesis by (auto simp: upsert_outbound_def split: if_splits)
next
  case (Some old)
  define new where "new = old\<lparr>ou_authorization_id := ou_authorization_id r, ou_state := ou_state r,
      ou_denial_reason := ou_denial_reason r\<rparr>"
  have old: "old \<in> set (lg_outbound s)" "ou_id old = ou_id r" using find_Some_bex [OF Some] by auto
  have t: "lg_outbound t = map (\<lambda>q. if ou_id q = ou_id r then new else q) (lg_outbound s)"
    using assms Some by (auto simp: upsert_outbound_def Let_def new_def split: if_splits)
  have "new \<in> set (lg_outbound t)" unfolding t set_map by (rule image_eqI [OF _ old(1)]) (simp add: old)
  then show ?thesis by (rule bexI [rotated]) (simp add: new_def old)
qed

lemma mismatch_reason_None:
  "mismatch_reason request a moment = None \<longleftrightarrow>
     authorization_is_valid_at a moment \<and> set (ou_data_categories request) \<inter> {DC_SECRET, DC_LOCAL_ONLY} = {}
     \<and> (DC_RESTRICTED \<in> set (ou_data_categories request) \<longrightarrow> DC_RESTRICTED \<in> set (as_data_classifications (au_scope a)))
     \<and> ou_provider_ref request \<in> set (as_provider_refs (au_scope a))
     \<and> covers_resource (au_scope a) (outbound_target request)"
  unfolding rejection_reason_None [symmetric]
  by (auto simp: mismatch_reason_def blocking_classifications_def review_required_classifications_def
      NEVER_OUTBOUND_def REVIEW_REQUIRED_OUTBOUND_def filter_empty_conv find_None_ball split: option.splits)

lemma provider_apply_None:
  assumes "provider_apply sv request a moment s = (t, Inr r)"
  shows "mismatch_reason request a moment = None"
  using assms unfolding provider_apply_def by (auto simp: gbind_Inr_iff split: option.splits)

text \<open>C32. \<^verbatim>\<open>ProviderGate.apply\<close> opens a request only when the authorization is valid, names the provider
  and covers the endpoint, when no secret and no local-only data is in it, and when restricted data
  was reviewed; the request is then recorded as approved under this authorization and the audit says
  so. For every other request it raises, in any state.\<close>

theorem provider_gate_exact:
  assumes "provider_apply (postgres_governance realm_id actor_id correlation_id) request a moment s = (t, Inr r)"
  shows "authorization_is_valid_at a moment \<and> set (ou_data_categories request) \<inter> {DC_SECRET, DC_LOCAL_ONLY} = {}
    \<and> (DC_RESTRICTED \<in> set (ou_data_categories request) \<longrightarrow> DC_RESTRICTED \<in> set (as_data_classifications (au_scope a)))
    \<and> ou_provider_ref request \<in> set (as_provider_refs (au_scope a))
    \<and> covers_resource (au_scope a) (outbound_target request)
    \<and> (\<exists>row \<in> set (lg_outbound t). ou_id row = ou_id request \<and> ou_state row = OS_APPROVED
         \<and> ou_authorization_id row = Some (au_id a))
    \<and> (\<exists>e. lg_audit t = lg_audit s @ [e] \<and> av_action e = ''outbound.apply'' \<and> av_decision e = ''allow''
         \<and> av_subject_id e = ou_id request \<and> av_authorization_id e = Some (au_id a))"
proof -
  have none: "mismatch_reason request a moment = None" by (rule provider_apply_None [OF assms])
  from assms obtain approved u i where
    state: "outbound_with_state request OS_APPROVED (Some (au_id a)) None = Inr approved"
    and rec: "upsert_outbound approved s = Inr (u, ())"
    and audit: "audit_record realm_id (outbound_audit (postgres_governance realm_id actor_id correlation_id) ''outbound.apply''
      approved ''allow'' ''request-matches-authorization'' (Some (au_id a)) moment) u = (t, Inr i)"
    unfolding provider_apply_def none
    by (auto simp: gbind_Inr_iff statement_Inr_iff outbound_record_def simp del: list.inject)
  from state have approved: "ou_id approved = ou_id request" "ou_state approved = OS_APPROVED"
    "ou_authorization_id approved = Some (au_id a)"
    by (auto simp: outbound_with_state_def check_outbound_def rbind_Inr_iff split: if_splits)
  have "lg_audit u = lg_audit s"
    using rec by (auto simp: upsert_outbound_def Let_def split: if_splits option.splits)
  moreover from audit obtain e where e: "lg_audit t = lg_audit u @ [e]" "lg_outbound t = lg_outbound u"
    "av_action e = ''outbound.apply''" "av_decision e = ''allow''" "av_subject_id e = ou_id approved"
    "av_authorization_id e = Some (au_id a)"
    by (rule audit_record_Inr) (simp add: outbound_audit_def)
  ultimately show ?thesis
    using none [unfolded mismatch_reason_None] upsert_outbound_row [OF rec] approved by auto
qed

section \<open>The life of an authorization\<close>

text \<open>C31. Over any history of the security tables no authorization disappears, none changes what it is
  bound to - identity, realm, digests, scope, time - and one that has been consumed, revoked or expired
  never changes again. The audit only grows, and every identifier names one row.\<close>

theorem authorization_life_cycle:
  assumes "ledger_ok s" "ledger.reach s t" "r \<in> set (lg_authorizations s)"
  shows "\<exists>r' \<in> set (lg_authorizations t). aw_id r' = aw_id r \<and> aw_realm_id r' = aw_realm_id r
    \<and> aw_plan_digest r' = aw_plan_digest r \<and> aw_effect_digest r' = aw_effect_digest r \<and> aw_scope r' = aw_scope r
    \<and> aw_allowed_resources r' = aw_allowed_resources r \<and> aw_allowed_effects r' = aw_allowed_effects r
    \<and> aw_issued_at r' = aw_issued_at r \<and> aw_expires_at r' = aw_expires_at r
    \<and> (aw_state r \<noteq> AS_ISSUED \<longrightarrow> r' = r)
    \<and> (\<forall>q \<in> set (lg_authorizations t). aw_id q = aw_id r \<longrightarrow> q = r')
    \<and> set (lg_audit s) \<subseteq> set (lg_audit t)"
proof -
  have moves: "ledger_moves s t" by (rule ledger_reach_moves [OF assms(2)])
  then obtain r' where r': "r' \<in> set (lg_authorizations t)" "authorization_step r r'" and ok: "ledger_ok t"
    and rec: "ledger_record s \<subseteq> ledger_record t"
    using assms(1,3) unfolding ledger_moves_def by blast
  have same: "aw_id r' = aw_id r \<and> aw_realm_id r' = aw_realm_id r
    \<and> aw_plan_digest r' = aw_plan_digest r \<and> aw_effect_digest r' = aw_effect_digest r \<and> aw_scope r' = aw_scope r
    \<and> aw_allowed_resources r' = aw_allowed_resources r \<and> aw_allowed_effects r' = aw_allowed_effects r
    \<and> aw_issued_at r' = aw_issued_at r \<and> aw_expires_at r' = aw_expires_at r \<and> (aw_state r \<noteq> AS_ISSUED \<longrightarrow> r' = r)"
  proof -
    from r'(2) have "r' = r \<or> aw_state r = AS_ISSUED \<and> (\<exists>state at by rat reason. r' = r\<lparr>aw_state := state, aw_consumed_at := at,
        aw_consumed_by := by, aw_revoked_at := rat, aw_revocation_reason := reason\<rparr>)"
      unfolding authorization_step_def by blast
    then show ?thesis by (elim disjE conjE exE) simp_all
  qed
  have keys: "distinct (map aw_id (lg_authorizations t))" using ok by (simp add: ledger_ok_def)
  have "\<forall>q \<in> set (lg_authorizations t). aw_id q = aw_id r \<longrightarrow> q = r'"
    using distinct_key_eq [OF keys r'(1)] same by metis
  moreover have "set (lg_audit s) \<subseteq> set (lg_audit t)" using rec by (auto simp: ledger_record_def)
  ultimately show ?thesis using same by (intro bexI [OF _ r'(1)]) (elim conjE, intro conjI)
qed

end
