(* ===== verification/PolicyGuarantees.thy ===== *)
theory PolicyGuarantees
  imports GovernanceGuarantees
begin

text \<open>
  Policies in the ledger: a stored policy is read back as it was appended, and the policy of a fresh
  installation keeps the network and pushes closed. An action of the read-only list without effects
  passes all gates, whatever its risk.
\<close>

section \<open>The newest row\<close>

lemma newest_SomeI:
  assumes "r \<in> set rows" "\<And>q. q \<in> set rows \<Longrightarrow> q \<noteq> r \<Longrightarrow> key q < key r"
  shows "newest key rows = Some r"
proof -
  obtain h hs where sorted: "sort_key (\<lambda>r. - key r) rows = h # hs"
    using assms(1) by (metis list.exhaust empty_iff list.set(1) set_sort)
  have "h \<in> set rows" using sorted by (metis list.set_intros(1) set_sort)
  have "sorted (map (\<lambda>r. - key r) (h # hs))" using sorted sorted_sort_key by metis
  moreover have "r = h \<or> r \<in> set hs" using assms(1) sorted by (metis set_ConsD set_sort)
  ultimately have "key r \<le> key h" by auto
  with assms(2) [OF \<open>h \<in> set rows\<close>] have "h = r" by fastforce
  with sorted show ?thesis by (simp add: newest_def)
qed

section \<open>Policies are read back as they were written\<close>

definition stored_rule :: "policy_rule \<Rightarrow> policy_rule" where
  "stored_rule r = r\<lparr>ru_effect_kinds := sort_key effect_kind_value (ru_effect_kinds r),
     ru_allowed_resources := sort (ru_allowed_resources r)\<rparr>"

definition stored_policy :: "policy_document \<Rightarrow> policy_document" where
  "stored_policy d = d\<lparr>pd_rules := map stored_rule (pd_rules d)\<rparr>"

definition rule_items :: "policy_rule \<Rightarrow> (string \<times> json) list" where
  "rule_items r =
     [(''name'', JStr (ru_name r)),
      (''effect_kinds'', JArr (map JStr (sort (map effect_kind_value (ru_effect_kinds r))))),
      (''allow'', JBool (ru_allow r)), (''max_risk'', JStr (risk_level_value (ru_max_risk r))),
      (''allowed_resources'', JArr (map JStr (sort (ru_allowed_resources r)))), (''reason'', JStr (ru_reason r))]"

definition rule_json :: "policy_rule \<Rightarrow> json" where
  "rule_json r = JObj (sort_key fst (rule_items r))"

definition policy_items :: "policy_document \<Rightarrow> (string \<times> json) list" where
  "policy_items d =
     [(''name'', JStr (pd_name d)), (''revision'', JInt (pd_revision d)), (''rules'', JArr (map rule_json (pd_rules d))),
      (''network_default_deny'', JBool (pd_network_default_deny d)),
      (''push_default_deny'', JBool (pd_push_default_deny d))]"

lemma normalize_rule: "normalize_value (rule_body r) = Inr (rule_json r)"
  by (simp add: rule_body_def rule_json_def rule_items_def normalize_texts)

lemma normalize_rules: "normalize_list (map rule_body rs) = Inr (map rule_json rs)"
  by (induction rs) (simp_all add: normalize_rule)

lemma canonicalize_policy: "canonicalize (PDict (policy_body d)) = Inr (JObj (sort_key fst (policy_items d)))"
  by (simp add: canonicalize_def policy_body_def policy_items_def normalize_rules)

lemma json_scalars:
  "json_text (Some (JStr x)) = Inr x" "json_bool (Some (JBool b)) = Inr b" "json_int (Some (JInt i)) = Inr i"
  "json_items (Some (JArr js)) = Inr js"
  by (simp_all add: json_text_def json_bool_def json_int_def json_items_def)

lemma rmap_kinds:
  "rmap (\<lambda>k. rbind (json_text (Some k)) effect_kind_of) (map JStr (sort (map effect_kind_value es)))
     = Inr (sort_key effect_kind_value es)"
  unfolding sort_map_value map_map by (rule rmap_values) (simp add: json_text_def)

lemma rule_reads_back:
  assumes "check_rule r = Inr r"
  shows "rule_from_json (rule_json r) = Inr (stored_rule r)"
proof -
  have "distinct (map fst (rule_items r))" by (simp add: rule_items_def)
  then have field: "json_field (rule_json r) k = map_of (rule_items r) k" for k
    by (simp add: rule_json_def json_field_sorted)
  have "\<not> blank (ru_name r)" using assms by (simp add: check_rule_def split: if_splits)
  then show ?thesis
    unfolding rule_from_json_def field
    by (cases r) (simp add: rule_items_def json_scalars json_texts_texts rmap_kinds check_rule_def stored_rule_def)
qed

lemma policy_reads_back:
  assumes "check_policy d = Inr d" "\<forall>r \<in> set (pd_rules d). check_rule r = Inr r"
    and "canonicalize (PDict (policy_body d)) = Inr j"
    and "pr_id row = pd_id d" "pr_realm_id row = pd_realm_id d" "pr_document row = j" "pr_effective_from row = pd_effective_from d"
  shows "policy_from_row row = Inr (stored_policy d)"
proof -
  have "distinct (map fst (policy_items d))" by (simp add: policy_items_def)
  moreover have "j = JObj (sort_key fst (policy_items d))" using assms(3) by (simp add: canonicalize_policy)
  ultimately have field: "json_field j k = map_of (policy_items d) k" for k by (simp add: json_field_sorted)
  have rules: "rmap rule_from_json (map rule_json (pd_rules d)) = Inr (map stored_rule (pd_rules d))"
    using assms(2) rule_reads_back by (simp add: rmap_Inr_iff list_all2_map1 list_all2_map2 list_all2_same)
  have "check_policy (stored_policy d) = Inr (stored_policy d)"
    using assms(1) by (auto simp: check_policy_def stored_policy_def stored_rule_def o_def split: if_splits)
  then show ?thesis
    using rules unfolding policy_from_row_def Let_def assms(6) field
    by (cases d) (simp add: policy_items_def json_scalars assms(4,5,7) stored_policy_def)
qed

lemma rule_for_stored: "rule_for (stored_policy d) e = map_option stored_rule (rule_for d e)"
proof -
  have applies: "applies_to (stored_rule r) e \<longleftrightarrow> applies_to r e" for r
    by (simp add: applies_to_def stored_rule_def) (metis set_empty set_sort)
  have "find (\<lambda>r. applies_to r e) (map stored_rule rs) = map_option stored_rule (find (\<lambda>r. applies_to r e) rs)" for rs
    by (induction rs) (simp_all add: applies)
  then show ?thesis by (simp add: rule_for_def stored_policy_def)
qed

lemma policy_append_reads_back:
  assumes "policy_append d s = (t, Inr d')" "check_policy d = Inr d" "\<forall>r \<in> set (pd_rules d). check_rule r = Inr r"
    and "\<forall>q \<in> set (lg_policies s). pr_realm_id q = lg_realm s \<longrightarrow> pr_name q = pd_name d \<longrightarrow> pr_revision q < pd_revision d"
  shows "policy_current (pd_name d) t = (t, Inr (Some (stored_policy d)))"
proof -
  from assms(1) obtain j digest_value row where j: "canonicalize (PDict (policy_body d)) = Inr j"
    and ins: "insert_policy row s = Inr (t, ())"
    and row: "row = \<lparr>pr_id = pd_id d, pr_realm_id = pd_realm_id d, pr_name = pd_name d, pr_revision = pd_revision d,
       pr_document = j, pr_policy_digest = digest_value, pr_effective_from = pd_effective_from d\<rparr>"
    unfolding policy_append_def gbind_Inr_iff gov_Inr_iff statement_Inr_iff by auto
  from ins have t: "t = s\<lparr>lg_policies := lg_policies s @ [row]\<rparr>" and realm: "pr_realm_id row = lg_realm s"
    by (simp_all add: insert_policy_def split: if_splits)
  have "policy_current_row (pd_name d) t = Some row"
    unfolding policy_current_row_def
    by (rule newest_SomeI) (use assms(4) realm in \<open>auto simp: t row\<close>)
  moreover have "policy_from_row row = Inr (stored_policy d)"
    by (rule policy_reads_back [OF assms(2,3) j]) (simp_all add: row)
  ultimately show ?thesis
    by (simp add: policy_current_def gbind_def query_def glift_def greturn_def)
qed

text \<open>A policy that is appended with the largest revision of its name is the one that is read back: with
  the effects and resources of each rule in sorted order and everything else unchanged, so that the
  first rule for an effect is the same rule as before.\<close>

theorem policy_roundtrip:
  assumes "policy_append d s = (t, Inr d')" "check_policy d = Inr d" "\<forall>r \<in> set (pd_rules d). check_rule r = Inr r"
    and "\<forall>q \<in> set (lg_policies s). pr_realm_id q = lg_realm s \<longrightarrow> pr_name q = pd_name d \<longrightarrow> pr_revision q < pd_revision d"
  shows "policy_current (pd_name d) t = (t, Inr (Some (stored_policy d)))
    \<and> (\<forall>e. rule_for (stored_policy d) e = map_option stored_rule (rule_for d e))"
  using policy_append_reads_back [OF assms] rule_for_stored by blast

section \<open>A fresh installation\<close>

lemma default_rules_checked:
  "\<forall>r \<in> set default_policy_rules. check_rule r = Inr r"
  "distinct (map ru_name default_policy_rules)"
  by (code_simp+)

lemma ensure_default_policy_fresh:
  assumes "ensure_default_policy (postgres_governance realm_id actor_id correlation_id) new_id moment s = (t, Inr d)"
    and "policy_current_row DEFAULT_POLICY_NAME s = None"
  shows "pd_rules d = default_policy_rules \<and> policy_current DEFAULT_POLICY_NAME t = (t, Inr (Some (stored_policy d)))"
proof -
  have none: "policy_current DEFAULT_POLICY_NAME s = (s, Inr None)"
    by (simp add: policy_current_def gbind_def query_def assms(2) greturn_def)
  from assms(1) obtain document where
    create: "policy_create new_id moment realm_id DEFAULT_POLICY_NAME 1 default_policy_rules True True = Inr document"
    and app: "policy_append document s = (t, Inr d)"
    unfolding ensure_default_policy_def by (auto simp: gbind_def none glift_def split: sum.splits)
  from create have document: "pd_name document = DEFAULT_POLICY_NAME" "pd_rules document = default_policy_rules"
      "check_policy document = Inr document"
    by (auto simp: policy_create_def check_policy_def split: if_splits)
  have "d = document" using app by (auto simp: policy_append_def gbind_Inr_iff)
  moreover have "\<forall>q \<in> set (lg_policies s). pr_realm_id q = lg_realm s \<longrightarrow> pr_name q = pd_name document
      \<longrightarrow> pr_revision q < pd_revision document"
    using assms(2) unfolding policy_current_row_def newest_None document by (simp add: filter_empty_conv)
  ultimately show ?thesis
    using policy_append_reads_back [OF app document(3)] default_rules_checked(1) document(1,2) by simp
qed

definition closed_effects :: "effect_kind set" where
  "closed_effects = {EK_NETWORK_CALL, EK_PROVIDER_CALL, EK_GIT_PUSH}"

lemma default_rule_closed:
  assumes "pd_rules d = default_policy_rules" "e \<in> closed_effects"
  shows "\<exists>rule. rule_for d e = Some rule \<and> \<not> ru_allow rule"
  using assms(2) by (auto simp: rule_for_def assms(1) default_policy_rules_def closed_effects_def applies_to_def)

text \<open>After \<^verbatim>\<open>ensure_default_policy\<close> on a realm without a policy, as long as the policy is not replaced,
  no request with a network call, a provider call or a push passes the gates, and
  \<^verbatim>\<open>require_authorized\<close> returns for none of them, whatever authorization is presented.\<close>

theorem default_policy_stays_closed:
  assumes "ensure_default_policy (postgres_governance realm_id actor_id correlation_id) new_id moment s = (t, Inr d)"
    and "policy_current_row DEFAULT_POLICY_NAME s = None"
    and "lg_policies u = lg_policies t" "lg_realm u = lg_realm t"
    and "set (rq_effects request) \<inter> {EK_NETWORK_CALL, EK_PROVIDER_CALL, EK_GIT_PUSH} \<noteq> {}"
  shows "(\<forall>v verdict. evaluate (postgres_governance realm_id actor_id correlation_id) request authorization None m audited u
      = (v, Inr verdict) \<longrightarrow> \<not> verdict_allowed verdict)
    \<and> (\<nexists>v c. require_authorized (postgres_governance realm_id actor_id correlation_id) request authorization by m u = (v, Inr c))"
proof -
  let ?sv = "postgres_governance realm_id actor_id correlation_id"
  have "pd_rules d = default_policy_rules" and cur: "policy_current DEFAULT_POLICY_NAME t = (t, Inr (Some (stored_policy d)))"
    using ensure_default_policy_fresh [OF assms(1,2)] by simp_all
  have "policy_current_row DEFAULT_POLICY_NAME u = policy_current_row DEFAULT_POLICY_NAME t"
    by (simp add: policy_current_row_def assms(3,4))
  with cur have force: "policy_in_force None u document \<Longrightarrow> document = stored_policy d" for document
    by (auto simp: policy_in_force_def policy_current_def gbind_def query_def glift_def greturn_def
        split: option.splits sum.splits)
  from assms(5) obtain e where e: "e \<in> set (rq_effects request)" "e \<in> closed_effects" by (auto simp: closed_effects_def)
  with default_rule_closed [OF \<open>pd_rules d = default_policy_rules\<close>] obtain rule where
    "rule_for (stored_policy d) e = Some (stored_rule rule)" "\<not> ru_allow rule"
    unfolding rule_for_stored by fastforce
  with e(1) have "\<not> policy_permits (stored_policy d) request"
    by (force simp: policy_permits_def rule_covers_def stored_rule_def)
  then have denied: "\<not> verdict_allowed verdict" if "evaluate ?sv request authorization None m audited u = (v, Inr verdict)"
    for v verdict audited
    using gates_need_policy [OF that] force by blast
  moreover have "\<nexists>v c. require_authorized ?sv request authorization by m u = (v, Inr c)"
    using denied require_authorized_Inr by metis
  ultimately show ?thesis by blast
qed

text \<open>The list of read-only actions opens more than reading: a request for such an action that names
  no effect passes the gates of every policy, even an empty one, and without an authorization - also when
  it says of itself that it is destructive, irreversible and touches an external system, and is
  classified as critical and in need of an authorization.\<close>

theorem read_only_action_skips_ceiling:
  "\<exists>v. evaluate sv \<lparr>rq_action = ''status'', rq_effects = [], rq_resources = resources, rq_data_classifications = data,
       rq_provider_refs = providers, rq_reversible = False, rq_destructive = True, rq_external = True,
       rq_capabilities = []\<rparr> None (Some document) moment False s = (s, Inr v)
     \<and> verdict_allowed v \<and> ra_level (gv_risk v) = RISK_CRITICAL \<and> ra_requires_authorization (gv_risk v)"
proof -
  let ?r = "\<lparr>rq_action = ''status'', rq_effects = [], rq_resources = resources, rq_data_classifications = data,
       rq_provider_refs = providers, rq_reversible = False, rq_destructive = True, rq_external = True,
       rq_capabilities = []\<rparr>"
  have "RISK_CRITICAL \<le> ra_level (request_risk ?r)" "ra_level (request_risk ?r) \<le> RISK_CRITICAL"
    using risk_level_le [of "[]" data "int (length resources)" False True True "ra_level (request_risk ?r)"]
    by (simp_all add: request_risk_def) (cases "ra_level (classify_risk [] data (int (length resources)) False True True)";
        simp add: less_eq_risk_level_def)
  then have level: "ra_level (request_risk ?r) = RISK_CRITICAL" by simp
  then have "ra_requires_authorization (request_risk ?r)"
    unfolding request_risk_def risk_assessment_flags by (simp add: less_eq_risk_level_def)
  with level show ?thesis
    by (simp add: evaluate_def gbind_def greturn_def glift_def capability_gate_def capability_decision_def gate_chain_def
        policy_gate_def risk_gate_def is_auto_approved_def AUTO_APPROVED_ACTIONS_def verdict_allowed_def gates_allowed_def)
qed

end
