(* ===== verification/GovernanceSamples.thy ===== *)
theory GovernanceSamples
  imports PolicyGuarantees
begin

text \<open>
  A small realm, evaluated: a policy, a request to write a file, an authorization for it, and an
  outbound request. Digests stay symbolic.
\<close>

section \<open>Digests of documents\<close>

lemma digest_format_json [simp]: "digest_format (digest_json j)"
  by (auto simp: digest_format_def digest_json_def digest_prefix_def starts_with_def list_all_iff sha256_hex_shape)

lemma normalize_maps:
  "(\<And>x. x \<in> set xs \<Longrightarrow> is_ok (normalize_value (f x))) \<Longrightarrow> is_ok (normalize_list (map f xs))"
proof (induction xs)
  case (Cons x xs)
  then have "is_ok (normalize_value (f x))" "is_ok (normalize_list (map f xs))" by simp_all
  then show ?case by (auto simp: is_ok_iff)
qed simp

lemma digest_ok: "is_ok (normalize_value v) \<Longrightarrow> \<exists>j. digest v = Inr (digest_json j)"
  by (auto simp: digest_def canonicalize_def is_ok_iff)

definition effect_json :: "effect_request \<Rightarrow> json" where
  "effect_json r = JObj (sort_key fst
     [(''action'', JStr (rq_action r)), (''effects'', JArr (map JStr (sort (map effect_kind_value (rq_effects r))))),
      (''resources'', JArr (map JStr (sort (rq_resources r)))),
      (''data_classifications'', JArr (map JStr (sort (map data_classification_value (rq_data_classifications r))))),
      (''provider_refs'', JArr (map JStr (sort (rq_provider_refs r)))),
      (''reversible'', JBool (rq_reversible r)), (''destructive'', JBool (rq_destructive r)),
      (''touches_external_system'', JBool (rq_external r))])"

lemma normalize_request_body: "normalize_value (PDict (request_body r)) = Inr (effect_json r)"
  by (simp add: request_body_def effect_json_def normalize_texts)

lemma effect_digest_json: "effect_digest r = Inr (digest_json (effect_json r))"
  unfolding effect_digest_def digest_def canonicalize_def normalize_request_body by simp

lemma normalize_gates: "is_ok (normalize_value (PDict (gates_as_dict ds)))"
proof -
  have gate: "is_ok (normalize_value (gate_as_dict d))" for d by (simp add: gate_as_dict_def)
  then have "is_ok (normalize_list (map gate_as_dict ds))" by (rule normalize_maps)
  then obtain js where js: "normalize_list (map gate_as_dict ds) = Inr js" by (auto simp: is_ok_iff)
  from gate obtain j where "\<And>d. normalize_value (gate_as_dict d) = Inr (j d)" unfolding is_ok_iff by metis
  with js show ?thesis by (cases "first_denial ds") (simp_all add: gates_as_dict_def)
qed

lemma normalize_risk: "is_ok (normalize_value (PDict (risk_as_dict r)))"
  by (simp add: risk_as_dict_def normalize_texts)

lemma verdict_digest_ok:
  "\<exists>evidence j. verdict_as_dict v = Inr evidence \<and> digest (PDict evidence) = Inr (digest_json j)"
proof -
  obtain g k where "normalize_value (PDict (gates_as_dict (gv_gates v))) = Inr g"
    "normalize_value (PDict (risk_as_dict (gv_risk v))) = Inr k"
    using normalize_gates normalize_risk by (meson is_ok_iff)
  then show ?thesis
    by (cases "gv_authorization v")
      (auto simp: verdict_as_dict_def effect_digest_json digest_def canonicalize_def normalize_request_body
        opt_uuid_def normalize_value.simps(15) [of "_ # _"] simp del: normalize_value.simps(15))
qed

section \<open>A realm\<close>

definition gov_policy :: policy_document where
  "gov_policy = \<lparr>pd_id = ''p1'', pd_realm_id = ''r1'', pd_name = ''varsayilan'', pd_revision = 1,
     pd_rules = default_policy_rules, pd_network_default_deny = True, pd_push_default_deny = True, pd_effective_from = 0\<rparr>"

definition gov_policy_row :: policy_row where
  "gov_policy_row = \<lparr>pr_id = ''p1'', pr_realm_id = ''r1'', pr_name = ''varsayilan'', pr_revision = 1,
     pr_document = JObj (sort_key fst (policy_items gov_policy)), pr_policy_digest = sample_digest, pr_effective_from = 0\<rparr>"

definition gov_request :: effect_request where
  "gov_request = \<lparr>rq_action = ''edit'', rq_effects = [EK_FILE_WRITE], rq_resources = [''path:web:src''],
     rq_data_classifications = [], rq_provider_refs = [], rq_reversible = True, rq_destructive = False,
     rq_external = False, rq_capabilities = []\<rparr>"

definition gov_scope :: authorization_scope where
  "gov_scope = \<lparr>as_resources = [''path:web:src''], as_read_resources = [], as_write_resources = [],
     as_effects = [''file-write''], as_provider_refs = [], as_secret_ref_ids = [], as_data_classifications = []\<rparr>"

definition gov_authorization :: authorization where
  "gov_authorization = \<lparr>au_id = ''a1'', au_realm_id = ''r1'', au_actor_id = ''x1'', au_plan_digest = sample_digest,
     au_effect_digest = digest_json (effect_json gov_request), au_scope = gov_scope, au_risk = ''medium'',
     au_issued_at = 0, au_expires_at = 1000, au_work_item_id = None, au_plan_id = None, au_state = AS_ISSUED,
     au_consumed_at = None, au_consumed_by = None, au_revoked_at = None, au_revocation_reason = None\<rparr>"

definition gov_row :: authorization_row where
  "gov_row = issued_row gov_authorization (JObj (sort_key fst (scope_items gov_scope))) sample_digest"

text \<open>A realm without rows, with the policy, and with the authorization.\<close>

definition gov_bare :: ledger where
  "gov_bare = \<lparr>lg_realm = ''r1'', lg_realms = [''r1''], lg_actors = [(''r1'', ''x1'')], lg_works = [], lg_projects = [],
     lg_uuids = [''u1'', ''u2''], lg_policies = [], lg_capabilities = [], lg_secrets = [], lg_authorizations = [],
     lg_outbound = [], lg_audit = []\<rparr>"

definition gov_ledger :: ledger where
  "gov_ledger = gov_bare\<lparr>lg_policies := [gov_policy_row], lg_authorizations := [gov_row]\<rparr>"

abbreviation gov_service :: "ledger governance" where
  "gov_service \<equiv> postgres_governance ''r1'' None None"

lemma sample_digest_format [simp]: "digest_format sample_digest" "parse_digest sample_digest = Inr (drop 7 sample_digest)"
  by code_simp+

lemma gov_row_check: "authorization_row_check gov_row"
  by (simp add: authorization_row_check_def gov_row_def issued_row_def gov_authorization_def gov_scope_def)

lemma gov_ledger_ok: "ledger_ok gov_ledger" "ledger_ok gov_bare"
  using gov_row_check by (simp_all add: ledger_ok_def gov_ledger_def gov_bare_def)

lemma gov_policy_current: "policy_current ''varsayilan'' gov_ledger = (gov_ledger, Inr (Some (stored_policy gov_policy)))"
proof -
  have "check_policy gov_policy = Inr gov_policy"
    using default_rules_checked(2) by (simp add: check_policy_def gov_policy_def)
  moreover have "\<forall>r \<in> set (pd_rules gov_policy). check_rule r = Inr r"
    using default_rules_checked(1) by (simp add: gov_policy_def)
  ultimately have "policy_from_row gov_policy_row = Inr (stored_policy gov_policy)"
    by (rule policy_reads_back [OF _ _ canonicalize_policy]) (simp_all add: gov_policy_row_def gov_policy_def)
  moreover have "policy_current_row ''varsayilan'' gov_ledger = Some gov_policy_row"
    by (simp add: policy_current_row_def gov_ledger_def gov_bare_def gov_policy_row_def newest_def)
  ultimately show ?thesis by (simp add: policy_current_def gbind_def query_def glift_def greturn_def)
qed

lemma gov_gates:
  "gate_chain (allow_gate ''capability'' ''capabilities-registered'') gov_request (stored_policy gov_policy)
     (Some gov_authorization) 10
   = Inr [allow_gate ''capability'' ''capabilities-registered'', allow_gate ''policy'' ''policy-allows'',
       allow_gate ''risk'' ''risk-medium-within-policy'', allow_gate ''scope'' ''scope-matches'',
       allow_gate ''authorization'' ''authorization-valid'']"
proof -
  have "policy_gate gov_request (stored_policy gov_policy) = allow_gate ''policy'' ''policy-allows''"
    "risk_gate gov_request (stored_policy gov_policy) (request_risk gov_request) = allow_gate ''risk'' ''risk-medium-within-policy''"
    "ra_requires_authorization (request_risk gov_request)"
    "\<not> is_auto_approved (rq_action gov_request) (rq_effects gov_request)"
    by code_simp+
  moreover have "scope_gate gov_request (Some gov_authorization) = Inr (allow_gate ''scope'' ''scope-matches'')"
    by (simp add: scope_gate_def effect_digest_json gov_request_def gov_authorization_def gov_scope_def covers_effect_def covers_resource_def resource_pattern_def)
  moreover have "authorization_gate (Some gov_authorization) 10 = allow_gate ''authorization'' ''authorization-valid''"
    by (simp add: authorization_gate_def rejection_reason_def gov_authorization_def)
  ultimately show ?thesis by (simp add: gate_chain_def Let_def)
qed

lemma audit_record_ok:
  assumes "lg_uuids s = u # us" "digest (PDict (ae_evidence e)) = Inr (digest_json j)"
    and "lg_realm s = realm_id" "realm_id \<in> set (lg_realms s)" "action_format (ae_action e)"
    and "ae_decision e \<in> {''allow'', ''deny'', ''record''}" "not_only_spaces (ae_reason e)" "u \<notin> av_id ` set (lg_audit s)"
    and "refers (map_option (\<lambda>a. (realm_id, a)) (ae_actor_id e)) (lg_actors s)"
    and "refers (ae_authorization_id e) (map aw_id (lg_authorizations s))"
  shows "\<exists>row. audit_record realm_id e s = (s\<lparr>lg_uuids := us, lg_audit := lg_audit s @ [row]\<rparr>, Inr u) \<and> av_id row = u"
  using assms
  by (simp add: audit_record_def gbind_def draw_uuid_def glift_def statement_def insert_audit_def audit_row_check_def greturn_def)
    (rule exI, rule conjI, rule refl, simp)

section \<open>The request is authorized\<close>

lemma gov_evaluate:
  "\<exists>verdict row. evaluate gov_service gov_request (Some gov_authorization) None 10 True gov_ledger
     = (gov_ledger\<lparr>lg_uuids := [''u2''], lg_audit := [row]\<rparr>, Inr verdict) \<and> verdict_allowed verdict \<and> av_id row = ''u1''"
proof -
  define gates where "gates = [allow_gate ''capability'' ''capabilities-registered'', allow_gate ''policy'' ''policy-allows'',
       allow_gate ''risk'' ''risk-medium-within-policy'', allow_gate ''scope'' ''scope-matches'',
       allow_gate ''authorization'' ''authorization-valid'']"
  define verdict where "verdict = \<lparr>gv_request = gov_request, gv_risk = request_risk gov_request, gv_gates = gates,
       gv_auto_approved = is_auto_approved (rq_action gov_request) (rq_effects gov_request),
       gv_authorization = Some gov_authorization\<rparr>"
  have allowed: "verdict_allowed verdict" by (simp add: verdict_def verdict_allowed_def gates_allowed_def gates_def)
  have none: "denial_reason verdict = None"
    by (simp add: verdict_def denial_reason_def first_denial_def gates_def)
  obtain evidence j where ev: "verdict_as_dict verdict = Inr evidence" "digest (PDict evidence) = Inr (digest_json j)"
    using verdict_digest_ok by blast
  have ids: "gv_request verdict = gov_request" "gv_authorization verdict = Some gov_authorization" by (simp_all add: verdict_def)
  have action: "action_format (''gate.'' @ rq_action gov_request)" by code_simp
  have "\<exists>row. audit_record ''r1'' (verdict_entry gov_service verdict 10 (digest_json (effect_json gov_request)) evidence) gov_ledger
      = (gov_ledger\<lparr>lg_uuids := [''u2''], lg_audit := lg_audit gov_ledger @ [row]\<rparr>, Inr ''u1'') \<and> av_id row = ''u1''"
    by (rule audit_record_ok [where j = j])
      (use action in \<open>simp_all add: verdict_entry_def ev(2) allowed none ids gov_ledger_def gov_bare_def refers_def
        gov_row_def issued_row_def gov_authorization_def not_only_spaces_def\<close>)
  then obtain row where row: "audit_verdict gov_service verdict 10 gov_ledger
      = (gov_ledger\<lparr>lg_uuids := [''u2''], lg_audit := [row]\<rparr>, Inr ''u1'')" "av_id row = ''u1''"
    by (auto simp: audit_verdict_def gbind_def glift_def effect_digest_json ids ev gov_ledger_def gov_bare_def)
  have "active_policy gov_service DEFAULT_POLICY_NAME gov_ledger = (gov_ledger, Inr (stored_policy gov_policy))"
    by (simp add: active_policy_def DEFAULT_POLICY_NAME_def gov_policy_current gbind_def greturn_def)
  moreover have "capability_gate gov_service gov_request gov_ledger
      = (gov_ledger, Inr (allow_gate ''capability'' ''capabilities-registered''))"
    by (simp add: capability_gate_def gov_request_def gbind_def greturn_def capability_decision_def)
  moreover note gov_gates [folded gates_def]
  ultimately have "evaluate gov_service gov_request (Some gov_authorization) None 10 True gov_ledger
      = (gov_ledger\<lparr>lg_uuids := [''u2''], lg_audit := [row]\<rparr>, Inr verdict)"
    using row(1) unfolding evaluate_def option.case Let_def
    by (simp add: gbind_def greturn_def glift_def flip: verdict_def)
  with allowed row(2) show ?thesis by blast
qed

lemma gov_consume:
  "authorization_consume ''a1'' (digest_json (effect_json gov_request)) ''worker'' 10
     (gov_ledger\<lparr>lg_uuids := [''u2''], lg_audit := [row]\<rparr>)
   = (gov_ledger\<lparr>lg_uuids := [''u2''], lg_audit := [row], lg_authorizations := [mark_consumed 10 ''worker'' gov_row]\<rparr>,
      Inr \<lparr>cr_consumed = True, cr_reason = ''consumed'',
        cr_authorization = Some (gov_authorization\<lparr>au_state := AS_CONSUMED, au_consumed_at := Some 10,
          au_consumed_by := Some ''worker''\<rparr>)\<rparr>)"
proof -
  have scope: "stored_scope gov_scope = gov_scope" and scope_effects: "as_effects gov_scope \<noteq> []"
    by (simp_all add: stored_scope_def gov_scope_def)
  have "scope_from_json (JObj (sort_key fst (scope_items gov_scope))) = Inr gov_scope"
    using scope_reads_back [OF canonicalize_scope] by (metis scope scope_effects)
  then have "authorization_from_row (mark_consumed 10 ''worker'' gov_row)
      = Inr (gov_authorization\<lparr>au_state := AS_CONSUMED, au_consumed_at := Some 10, au_consumed_by := Some ''worker''\<rparr>)"
    by (simp add: authorization_from_row_def mark_consumed_def gov_row_def issued_row_def gov_authorization_def
        check_authorization_def parse_digest_json)
  moreover have "consumable ''a1'' (digest_json (effect_json gov_request)) 10 gov_row"
    by (simp add: consumable_def gov_row_def issued_row_def gov_authorization_def)
  moreover have "authorization_row_check (mark_consumed 10 ''worker'' gov_row)"
    "\<not> transition_refused gov_row (mark_consumed 10 ''worker'' gov_row)" "aw_realm_id gov_row = ''r1''"
    using gov_row_check
    by (simp_all add: authorization_row_check_def transition_refused_def mark_consumed_def gov_row_def issued_row_def
        gov_authorization_def)
  ultimately show ?thesis
    by (simp add: authorization_consume_def gbind_def statement_def update_authorizations_def Let_def glift_def greturn_def
        gov_ledger_def gov_bare_def)
qed

lemma gov_authorized:
  "\<exists>t c. require_authorized gov_service gov_request (Some gov_authorization) ''worker'' 10 gov_ledger = (t, Inr c)"
proof -
  obtain verdict row where eval: "evaluate gov_service gov_request (Some gov_authorization) None 10 True gov_ledger
     = (gov_ledger\<lparr>lg_uuids := [''u2''], lg_audit := [row]\<rparr>, Inr verdict)" "verdict_allowed verdict" "av_id row = ''u1''"
    using gov_evaluate by blast
  define result where "result = \<lparr>cr_consumed = True, cr_reason = ''consumed'',
        cr_authorization = Some (gov_authorization\<lparr>au_state := AS_CONSUMED, au_consumed_at := Some 10,
          au_consumed_by := Some ''worker''\<rparr>)\<rparr>"
  define after where "after = gov_ledger\<lparr>lg_uuids := [''u2''], lg_audit := [row],
    lg_authorizations := [mark_consumed 10 ''worker'' gov_row]\<rparr>"
  define entry where "entry =
       \<lparr>ae_action = ''authorization.consume'', ae_subject_type = ''authorization'', ae_subject_id = ''a1'',
        ae_decision = ''allow'', ae_reason = ''consumed'',
        ae_evidence = dict_set (consume_as_dict result) ''effect_digest'' (PStr (digest_json (effect_json gov_request))),
        ae_actor_id = None, ae_authorization_id = Some ''a1'', ae_correlation_id = None, ae_now = 10\<rparr>"
  have "is_ok (normalize_value (PDict (ae_evidence entry)))"
    by (simp add: entry_def dict_set_def consume_as_dict_def opt_uuid_def result_def gov_authorization_def)
  then obtain j where "digest (PDict (ae_evidence entry)) = Inr (digest_json j)" using digest_ok by blast
  moreover have "action_format ''authorization.consume''" by code_simp
  ultimately have "\<exists>r. audit_record ''r1'' entry after = (after\<lparr>lg_uuids := [], lg_audit := lg_audit after @ [r]\<rparr>, Inr ''u2'')
      \<and> av_id r = ''u2''"
    by (intro audit_record_ok [where j = j])
      (simp_all add: entry_def after_def gov_ledger_def gov_bare_def refers_def eval(3) not_only_spaces_def
        mark_consumed_def gov_row_def issued_row_def gov_authorization_def)
  then obtain r where "audit_record ''r1'' entry after = (after\<lparr>lg_uuids := [], lg_audit := lg_audit after @ [r]\<rparr>, Inr ''u2'')"
    by blast
  moreover have "au_id gov_authorization = ''a1''" by (simp add: gov_authorization_def)
  ultimately have "consume_authorization gov_service (au_id gov_authorization) gov_request ''worker'' 10
      (gov_ledger\<lparr>lg_uuids := [''u2''], lg_audit := [row]\<rparr>)
     = (after\<lparr>lg_uuids := [], lg_audit := lg_audit after @ [r]\<rparr>, Inr result)"
    using gov_consume [of row]
    by (simp add: consume_authorization_def effect_digest_json gbind_def glift_def greturn_def entry_def after_def result_def)
  then show ?thesis
    using eval(1,2) by (simp add: require_authorized_def gbind_def greturn_def result_def)
qed

theorem require_authorized_trace_witness:
  "\<exists>t c. require_authorized gov_service gov_request (Some gov_authorization) ''worker'' 10 gov_ledger = (t, Inr c)
     \<and> (\<exists>row. mark_consumed 10 ''worker'' row \<in> set (lg_authorizations t)) \<and> length (lg_audit t) = 2"
proof -
  obtain t c where run: "require_authorized gov_service gov_request (Some gov_authorization) ''worker'' 10 gov_ledger = (t, Inr c)"
    using gov_authorized by blast
  have "lg_audit gov_ledger = []" by (simp add: gov_ledger_def gov_bare_def)
  with require_authorized_trace [OF run] run show ?thesis by (intro exI [of _ t] exI [of _ c]) auto
qed

theorem authorized_at_most_once_witness:
  "\<exists>t c. require_authorized gov_service gov_request (Some gov_authorization) ''worker'' 10 gov_ledger = (t, Inr c)
     \<and> (\<nexists>v c'. require_authorized gov_service gov_request (Some gov_authorization) ''other'' 11 t = (v, Inr c'))"
proof -
  obtain t c where run: "require_authorized gov_service gov_request (Some gov_authorization) ''worker'' 10 gov_ledger = (t, Inr c)"
    using gov_authorized by blast
  show ?thesis
    using authorized_at_most_once [OF gov_ledger_ok(1) run ledger.reach_refl refl] run by blast
qed

theorem evaluate_allowed_iff_witness:
  "\<exists>t verdict. evaluate gov_service gov_request (Some gov_authorization) None 10 True gov_ledger = (t, Inr verdict)
     \<and> verdict_allowed verdict \<and> authorization_opens gov_request 10 gov_authorization"
proof -
  obtain t verdict where run: "evaluate gov_service gov_request (Some gov_authorization) None 10 True gov_ledger = (t, Inr verdict)"
    and allowed: "verdict_allowed verdict"
    using gov_evaluate by blast
  have "needs_authorization gov_request" by code_simp
  with evaluate_allowed_iff [OF run] allowed run show ?thesis by blast
qed

section \<open>Issuing, revoking, policies and outbound requests\<close>

lemma gov_insert:
  "authorization_insert ''r1'' gov_authorization gov_bare
     = (gov_bare\<lparr>lg_authorizations := [issued_row gov_authorization (JObj (sort_key fst (scope_items gov_scope)))
         (digest_json j)]\<rparr>, Inr gov_authorization)"
  if "authorization_digest gov_authorization = Inr (digest_json j)" for j
proof -
  have scope: "au_scope gov_authorization = gov_scope" by (simp add: gov_authorization_def)
  show ?thesis
    using that
    by (simp add: authorization_insert_def gbind_def glift_def greturn_def statement_def insert_authorization_def
        scope canonicalize_scope)
      (simp add: issued_row_def authorization_row_check_def gov_authorization_def gov_scope_def gov_bare_def refers_def)
qed

lemma gov_authorization_digest: "\<exists>j. authorization_digest gov_authorization = Inr (digest_json j)"
  unfolding authorization_digest_def
  by (rule digest_ok) (simp add: authorization_body_def scope_body_def gov_authorization_def gov_scope_def opt_uuid_def)

lemma gov_new_authorization:
  "new_authorization gov_service ''a1'' gov_request ''x1'' None (Some sample_digest) None None 1000 [] 0 = Inr gov_authorization"
proof -
  have "risk_level_value (ra_level (request_risk gov_request)) = ''medium''" by code_simp
  moreover have "issue_scope gov_request [] = Inr gov_scope" by code_simp
  moreover have "issue_plan_digest gov_request None (Some sample_digest) = Inr sample_digest"
    by (simp add: issue_plan_digest_def sample_digest_def)
  moreover have "add_delta 0 1000 = Inr 1000" by code_simp
  ultimately show ?thesis
    by (simp add: new_authorization_def authorization_issue_def effect_digest_json check_authorization_def parse_digest_json
        gov_authorization_def)
qed

lemma gov_evidence_ok:
  assumes "authorization_as_dict gov_authorization = Inr evidence" "is_ok (normalize_value v)"
  shows "is_ok (normalize_value (PDict (dict_set evidence ''risk'' v)))"
proof -
  obtain j where j: "authorization_digest gov_authorization = Inr (digest_json j)" using gov_authorization_digest by blast
  obtain k where k: "normalize_value v = Inr k" using assms(2) by (auto simp: is_ok_iff)
  have evidence: "evidence = authorization_body gov_authorization @
     [(PStr ''id'', PStr ''a1''), (PStr ''state'', PStr ''issued''), (PStr ''consumed_at'', PNone), (PStr ''revoked_at'', PNone),
      (PStr ''revocation_reason'', PNone), (PStr ''authorization_digest'', PStr (digest_json j))]"
    using assms(1) j by (simp add: authorization_as_dict_def gov_authorization_def opt_instant_def opt_text_def)
  define body where "body = authorization_body gov_authorization"
  have body: "body = [(PStr ''actor_id'', PStr ''x1''), (PStr ''work_item_id'', PNone),
      (PStr ''plan_digest'', PStr sample_digest), (PStr ''effect_digest'', PStr (digest_json (effect_json gov_request))),
      (PStr ''scope'', PDict (scope_body gov_scope)), (PStr ''risk'', PStr ''medium''),
      (PStr ''issued_at'', PDatetime (Aware 0)), (PStr ''expires_at'', PDatetime (Aware 1000))]"
    by (simp add: body_def authorization_body_def gov_authorization_def opt_uuid_def)
  obtain sc where sc: "normalize_value (PDict (scope_body gov_scope)) = Inr sc"
    using canonicalize_scope unfolding canonicalize_def by blast
  show ?thesis
    unfolding evidence body_def [symmetric] body
    by (simp add: dict_set_def k sc normalize_value.simps(15) [of "_ # _"] del: normalize_value.simps(15))
qed

lemma gov_issued:
  "\<exists>t. issue_authorization gov_service ''a1'' gov_request ''x1'' None (Some sample_digest) None None 1000 [] 0 gov_bare
     = (t, Inr gov_authorization)"
proof -
  obtain j where j: "authorization_digest gov_authorization = Inr (digest_json j)" using gov_authorization_digest by blast
  define after where "after = gov_bare\<lparr>lg_authorizations := [issued_row gov_authorization
    (JObj (sort_key fst (scope_items gov_scope))) (digest_json j)]\<rparr>"
  obtain evidence where ev: "authorization_as_dict gov_authorization = Inr evidence"
    using j by (simp add: authorization_as_dict_def)
  define entry where "entry = \<lparr>ae_action = ''authorization.issued'', ae_subject_type = ''authorization'',
        ae_subject_id = au_id gov_authorization,
        ae_decision = ''record'', ae_reason = ''risk-'' @ risk_level_value (ra_level (request_risk gov_request)),
        ae_evidence = dict_set evidence ''risk'' (PDict (risk_as_dict (request_risk gov_request))),
        ae_actor_id = Some ''x1'', ae_authorization_id = Some (au_id gov_authorization),
        ae_correlation_id = None, ae_now = 0\<rparr>"
  have "is_ok (normalize_value (PDict (ae_evidence entry)))"
    using gov_evidence_ok [OF ev normalize_risk] by (simp add: entry_def)
  then obtain k where "digest (PDict (ae_evidence entry)) = Inr (digest_json k)" using digest_ok by blast
  moreover have "action_format ''authorization.issued''" "not_only_spaces (ae_reason entry)"
    by (code_simp, simp add: entry_def not_only_spaces_def)
  ultimately have "\<exists>r. audit_record ''r1'' entry after = (after\<lparr>lg_uuids := [''u2''], lg_audit := lg_audit after @ [r]\<rparr>, Inr ''u1'')
      \<and> av_id r = ''u1''"
    by (intro audit_record_ok [where j = k])
      (simp_all add: entry_def after_def gov_bare_def refers_def issued_row_def gov_authorization_def)
  then obtain r where "audit_record ''r1'' entry after = (after\<lparr>lg_uuids := [''u2''], lg_audit := lg_audit after @ [r]\<rparr>, Inr ''u1'')"
    by blast
  then show ?thesis
    using gov_insert [OF j] ev
    by (simp add: issue_authorization_def gov_new_authorization gbind_def glift_def greturn_def entry_def after_def)
qed

theorem issued_authorization_opens_witness:
  "\<exists>t b. authorization_get ''a1'' t = (t, Inr b) \<and> authorization_opens gov_request 999 b"
proof -
  obtain t where run: "issue_authorization gov_service ''a1'' gov_request ''x1'' None (Some sample_digest) None None 1000 [] 0
      gov_bare = (t, Inr gov_authorization)" using gov_issued by blast
  obtain b where "authorization_get ''a1'' t = (t, Inr b)"
    "\<forall>m. 0 \<le> m \<longrightarrow> m < 0 + 1000 \<longrightarrow> authorization_opens gov_request m gov_authorization \<and> authorization_opens gov_request m b"
    using issued_authorization_opens [OF run] by blast
  moreover from this(2) have "authorization_opens gov_request 999 b" by simp
  ultimately show ?thesis by blast
qed

theorem authorization_life_cycle_witness:
  "\<exists>r'. r' \<in> set (lg_authorizations (ledger_apply gov_ledger (EvRevoke ''a1'' ''lost'' 5))) \<and> aw_effect_digest r' = aw_effect_digest gov_row"
proof -
  have row: "gov_row \<in> set (lg_authorizations gov_ledger)" by (simp add: gov_ledger_def)
  show ?thesis
    using authorization_life_cycle [OF gov_ledger_ok(1) ledger_reach_apply row] by blast
qed

lemma gov_policy_checked: "check_policy gov_policy = Inr gov_policy" "\<forall>r \<in> set (pd_rules gov_policy). check_rule r = Inr r"
  using default_rules_checked by (simp_all add: check_policy_def gov_policy_def)

lemma gov_policy_append: "\<exists>t. policy_append gov_policy gov_bare = (t, Inr gov_policy)"
proof -
  have "name_format ''-'' ''varsayilan''" by code_simp
  then show ?thesis
    by (simp add: policy_append_def policy_digest_def digest_def canonicalize_policy gbind_def glift_def greturn_def
        statement_def insert_policy_def) (simp add: gov_policy_def gov_bare_def)
qed

theorem policy_roundtrip_witness:
  "\<exists>t. policy_current (pd_name gov_policy) t = (t, Inr (Some (stored_policy gov_policy)))"
proof -
  obtain t where run: "policy_append gov_policy gov_bare = (t, Inr gov_policy)" using gov_policy_append by blast
  have "\<forall>q \<in> set (lg_policies gov_bare). pr_realm_id q = lg_realm gov_bare \<longrightarrow> pr_name q = pd_name gov_policy
    \<longrightarrow> pr_revision q < pd_revision gov_policy" by (simp add: gov_bare_def)
  from policy_roundtrip [OF run gov_policy_checked this] show ?thesis by blast
qed

lemma gov_default_policy: "\<exists>t. ensure_default_policy gov_service ''p1'' 0 gov_bare = (t, Inr gov_policy)"
proof -
  have none: "policy_current DEFAULT_POLICY_NAME gov_bare = (gov_bare, Inr None)"
    by (simp add: policy_current_def gbind_def query_def policy_current_row_def newest_def gov_bare_def greturn_def)
  have "policy_create ''p1'' 0 ''r1'' DEFAULT_POLICY_NAME 1 default_policy_rules True True = Inr gov_policy"
    using gov_policy_checked(1) by (simp add: policy_create_def gov_policy_def DEFAULT_POLICY_NAME_def)
  then show ?thesis
    using gov_policy_append by (simp add: ensure_default_policy_def none gbind_def glift_def)
qed

theorem default_policy_stays_closed_witness:
  "\<exists>t. lg_realm t = ''r1'' \<and> (\<nexists>v c. require_authorized gov_service (gov_request\<lparr>rq_effects := [EK_GIT_PUSH]\<rparr>)
     (Some gov_authorization) ''worker'' 10 t = (v, Inr c))"
proof -
  obtain t where run: "ensure_default_policy gov_service ''p1'' 0 gov_bare = (t, Inr gov_policy)" using gov_default_policy by blast
  have none: "policy_current_row DEFAULT_POLICY_NAME gov_bare = None"
    by (simp add: policy_current_row_def newest_def gov_bare_def)
  have "lg_realm t = ''r1''"
    using run by (auto simp: ensure_default_policy_def gbind_Inr_iff policy_append_def statement_Inr_iff insert_policy_def
        gov_bare_def dest!: policy_current_state split: option.splits if_splits)
  moreover have "set (rq_effects (gov_request\<lparr>rq_effects := [EK_GIT_PUSH]\<rparr>)) \<inter> {EK_NETWORK_CALL, EK_PROVIDER_CALL, EK_GIT_PUSH} \<noteq> {}"
    by simp
  from default_policy_stays_closed [OF run none refl refl this] have
    "\<nexists>v c. require_authorized gov_service (gov_request\<lparr>rq_effects := [EK_GIT_PUSH]\<rparr>)
     (Some gov_authorization) ''worker'' 10 t = (v, Inr c)" ..
  ultimately show ?thesis by blast
qed

definition gov_outbound :: outbound_request where
  "gov_outbound = \<lparr>ou_id = ''o1'', ou_realm_id = ''r1'', ou_provider_ref = ''model'', ou_endpoint_ref = ''v1'',
     ou_operation = ''complete'', ou_payload_digest = sample_digest, ou_request_identity = ''q1'',
     ou_data_categories = [DC_PUBLIC], ou_retention_assumption = ''none'', ou_region = ''eu'', ou_authorization_id = None,
     ou_state = OS_PREPARED, ou_denial_reason = None, ou_created_at = 0\<rparr>"

definition gov_outbound_authorization :: authorization where
  "gov_outbound_authorization = gov_authorization\<lparr>au_scope := gov_scope\<lparr>as_provider_refs := [''model''],
     as_resources := [''model:*'']\<rparr>\<rparr>"

lemma gov_outbound_applied: "\<exists>t r. provider_apply gov_service gov_outbound gov_outbound_authorization 10 gov_ledger = (t, Inr r)"
proof -
  define approved where "approved = gov_outbound\<lparr>ou_authorization_id := Some ''a1'', ou_state := OS_APPROVED\<rparr>"
  have none: "mismatch_reason gov_outbound gov_outbound_authorization 10 = None"
    unfolding mismatch_reason_None
    by (simp add: authorization_is_valid_at_def gov_outbound_authorization_def gov_authorization_def gov_outbound_def
        covers_resource_def resource_pattern_def outbound_target_def starts_with_def)
  have state: "outbound_with_state gov_outbound OS_APPROVED (Some (au_id gov_outbound_authorization)) None = Inr approved"
    by (simp add: outbound_with_state_def approved_def gov_outbound_authorization_def gov_authorization_def check_outbound_def
        gov_outbound_def blank_def strip_def lstrip_def rstrip_def is_space_def)
  define after where "after = gov_ledger\<lparr>lg_outbound := [approved]\<rparr>"
  have rec: "outbound_record approved gov_ledger = (after, Inr approved)"
    by (simp add: outbound_record_def gbind_def statement_def upsert_outbound_def greturn_def approved_def gov_outbound_def
        gov_ledger_def gov_bare_def after_def outbound_row_check_def refers_def gov_row_def issued_row_def gov_authorization_def)
  have "is_ok (normalize_value (PDict (outbound_as_dict approved)))"
    by (simp add: outbound_as_dict_def opt_uuid_def opt_text_def approved_def gov_outbound_def)
  then obtain j where "digest (PDict (outbound_as_dict approved)) = Inr (digest_json j)" using digest_ok by blast
  moreover have "action_format ''outbound.apply''" by code_simp
  ultimately have "\<exists>r. audit_record ''r1'' (outbound_audit gov_service ''outbound.apply'' approved ''allow''
      ''request-matches-authorization'' (Some (au_id gov_outbound_authorization)) 10) after
      = (after\<lparr>lg_uuids := [''u2''], lg_audit := lg_audit after @ [r]\<rparr>, Inr ''u1'') \<and> av_id r = ''u1''"
    by (intro audit_record_ok [where j = j])
      (simp_all add: outbound_audit_def after_def gov_ledger_def gov_bare_def refers_def gov_row_def issued_row_def
        gov_outbound_authorization_def gov_authorization_def not_only_spaces_def)
  then obtain r where "audit_record ''r1'' (outbound_audit gov_service ''outbound.apply'' approved ''allow''
      ''request-matches-authorization'' (Some (au_id gov_outbound_authorization)) 10) after
      = (after\<lparr>lg_uuids := [''u2''], lg_audit := lg_audit after @ [r]\<rparr>, Inr ''u1'')" by blast
  then show ?thesis
    unfolding provider_apply_def none state by (simp add: gbind_def glift_def greturn_def rec)
qed

theorem provider_gate_exact_witness:
  "\<exists>t r. provider_apply gov_service gov_outbound gov_outbound_authorization 10 gov_ledger = (t, Inr r)
     \<and> authorization_is_valid_at gov_outbound_authorization 10"
proof -
  obtain t r where run: "provider_apply gov_service gov_outbound gov_outbound_authorization 10 gov_ledger = (t, Inr r)"
    using gov_outbound_applied by blast
  from run conjunct1 [OF provider_gate_exact [OF run]] show ?thesis by blast
qed

end
