(* ===== verification/LoopSamples.thy ===== *)
theory LoopSamples
  imports LoopGates LoopService LoopWorker GovernanceSamples
begin

text \<open>
  Concrete measurements, attempts, plans and ledgers at which the properties of the measured loop apply.
  The digests of larger documents are kept symbolic: they exist, and the parser accepts them.
\<close>

section \<open>Measurements\<close>

definition float_one :: float64 where
  "float_one = Fin False (2 ^ 52) (- 52)"

definition float_two :: float64 where
  "float_two = Fin False (2 ^ 52) (- 51)"

text \<open>The largest finite number.\<close>

definition float_largest :: float64 where
  "float_largest = Fin False (2 ^ 53 - 1) 971"

definition metric_sample :: metric_spec where
  "metric_sample = \<lparr>ms_metric_id = ''pass-rate'', ms_name = ''Pass rate'', ms_unit = ''ratio'', ms_direction = MAXIMIZE,
     ms_role = PRIMARY, ms_source_kind = ''test-run'', ms_target_value = Some float_largest, ms_min_value = None,
     ms_max_value = None, ms_minimum_meaningful_delta = float_zero, ms_regression_tolerance = float_zero,
     ms_aggregation = AGG_LATEST\<rparr>"

definition evidence_sample :: "float64 \<Rightarrow> measurement_evidence" where
  "evidence_sample x = \<lparr>me_metric_id = ''pass-rate'', me_value = x, me_evidence_ref = ''run/1'',
     me_evidence_digest = ''sha256:'' @ replicate 64 (CHR ''a''), me_source_revision = ''r1'', me_measured_at = Aware 0,
     me_measurement_identity = ''builder'', me_verifier_identity = ''verifier'', me_producer_self_report = False\<rparr>"

lemma measured_digest: "evidence_digest_set [[evidence_sample x], [evidence_sample y], [evidence_sample z]]
    = [''sha256:'' @ replicate 64 (CHR ''a'')]"
  by (simp add: evidence_digest_set_def evidence_sample_def)

lemma float_bits: "nat_bits 4503599627370496 = 53" "nat_bits 18014398509481982 = 54"
  by (simp_all add: nat_bits.simps)

lemma float_sums:
  "float_sub float_two float_one = float_one" "float_sub float_one float_one = float_zero"
  "float_sub float_largest (float_neg float_largest) = Inf False"
  by (simp_all add: float_sub_def float_one_def float_two_def float_zero_def float_largest_def signed_def Let_def
      round_float_def pack_def float_bits half_even_def)

lemma float_order:
  "float_lt float_zero float_one" "float_le float_zero float_one" "\<not> float_lt float_one (float_neg float_zero)"
  "\<not> float_le float_largest float_two" "\<not> float_lt float_zero float_zero"
  by (simp_all add: float_le_def float_one_def float_two_def float_zero_def float_largest_def signed_def)

lemma letter_digest: "valid_digest (''sha256:'' @ replicate 64 (CHR ''a''))"
  by code_simp

lemma metric_checked:
  "checked_specs [metric_sample]" "isfinite x \<Longrightarrow> checked_row [evidence_sample x]" "well_posed [metric_sample] 0"
  "usable_row [metric_sample] [evidence_sample x]"
  using letter_digest float_order(5)
  by (auto simp: metric_sample_def evidence_sample_def check_metric_spec_def check_measurement_def blank_def strip_def
      lstrip_def rstrip_def is_space_def opt_finite_def float_zero_def float_largest_def exact_target_def
      well_posed_def usable_row_def canonical_tuple_def is_ok_iff)

lemma metric_delta:
  "measured_delta metric_sample [evidence_sample x] [evidence_sample y] d \<longleftrightarrow> float_sub y x = d"
  by (auto simp: measured_delta_def metric_sample_def evidence_sample_def favorable_delta_def)

theorem evidence_order_irrelevant_witness:
  "evaluate_progress [metric_sample] [evidence_sample float_one, evidence_sample float_two] [] [] 0
     = evaluate_progress [metric_sample] [evidence_sample float_two, evidence_sample float_one] [] [] 0"
  using evidence_order_irrelevant [of "[evidence_sample float_one, evidence_sample float_two]"
      "[evidence_sample float_two, evidence_sample float_one]" "[]" "[]" "[]" "[]" "[metric_sample]" 0]
  by (simp add: add_mset_commute)

theorem evaluation_accepts_exactly_witness:
  "(\<exists>v. evaluate_progress [metric_sample] [evidence_sample float_one] [evidence_sample float_one]
      [evidence_sample float_two] 0 = Inr v)
   \<and> \<not> (\<exists>v. evaluate_progress [metric_sample] [evidence_sample float_one] [evidence_sample (float_neg float_largest)]
      [evidence_sample float_largest] 0 = Inr v)
   \<and> (\<exists>v. evaluate_progress [metric_sample] [] [evidence_sample float_one] [evidence_sample float_two] 0 = Inr v
      \<and> pv_progress_state v = INVALID)"
proof -
  have fin: "isfinite float_one" "isfinite float_two" "isfinite float_largest" "isfinite (float_neg float_largest)"
    by (simp_all add: float_one_def float_two_def float_largest_def)
  note accepts = evaluation_accepts_exactly [OF metric_checked(3,1)]
  have empty: "\<not> usable_row [metric_sample] []" by (auto dest: same_revision_nonempty)
  show ?thesis
    using accepts [OF metric_checked(2) [OF fin(1)] metric_checked(2) [OF fin(1)] metric_checked(2) [OF fin(2)]]
      accepts [OF metric_checked(2) [OF fin(1)] metric_checked(2) [OF fin(4)] metric_checked(2) [OF fin(3)]]
      accepts [of "[]", OF _ metric_checked(2) [OF fin(1)] metric_checked(2) [OF fin(2)]] empty
    by (auto simp: metric_checked(4) metric_delta float_sums fin cost_measurable_def)
qed

lemma metric_improves:
  "\<exists>v. evaluate_progress [metric_sample] [evidence_sample float_one] [evidence_sample float_one]
     [evidence_sample float_two] 0 = Inr v \<and> pv_progress_state v = IMPROVED"
proof -
  let ?m = "measure_spec (row_values [evidence_sample float_one]) (row_values [evidence_sample float_two])"
  have r: "rmap ?m [metric_sample] = Inr [metric_result metric_sample float_one False]"
    using float_order(4) by (simp add: measure_spec_def metric_get_def row_values_def evidence_sample_def metric_sample_def
        favorable_delta_def target_reached_def asserted_def float_sums)
  have fin: "isfinite float_one" "isfinite float_two" by (simp_all add: float_one_def float_two_def)
  have canon: "canonical_tuple (map ms_metric_id [metric_sample])" by (simp add: canonical_tuple_def)
  have "is_ok (check_progress_vector (measured_vector [evidence_sample float_one] [evidence_sample float_one]
      [evidence_sample float_two] [metric_result metric_sample float_one False] None))"
    by (subst check_measured_vector [OF metric_checked(4,4,4) canon metric_checked(2) [OF fin(1)]
          metric_checked(2) [OF fin(1)] metric_checked(2) [OF fin(2)] r]) (simp add: fin)
  then obtain v where v: "check_progress_vector (measured_vector [evidence_sample float_one] [evidence_sample float_one]
      [evidence_sample float_two] [metric_result metric_sample float_one False] None) = Inr v"
    by (auto simp: is_ok_iff)
  moreover have "pv_progress_state v = IMPROVED"
    using check_progress_vector_id [OF v] float_order
    by (simp add: measured_vector_def state_of_results_def results_with_role_def Let_def) (simp add: metric_sample_def)
  ultimately show ?thesis
    unfolding evaluate_usable [OF metric_checked(3,4,4,4)] r by (simp add: value_per_cost_def)
qed

theorem progress_is_earned_witness:
  "\<exists>v. evaluate_progress [metric_sample] [evidence_sample float_one] [evidence_sample float_one]
     [evidence_sample float_two] 0 = Inr v \<and> pv_progress_state v = IMPROVED
     \<and> (\<exists>d. measured_delta metric_sample [evidence_sample float_one] [evidence_sample float_two] d
        \<and> float_lt (ms_regression_tolerance metric_sample) d)"
proof -
  obtain v where v: "evaluate_progress [metric_sample] [evidence_sample float_one] [evidence_sample float_one]
     [evidence_sample float_two] 0 = Inr v" "pv_progress_state v = IMPROVED" using metric_improves by blast
  from progress_is_earned [OF v(1)] v show ?thesis by auto
qed

section \<open>Attempts\<close>

definition letters :: "char \<Rightarrow> string" where
  "letters c = ''sha256:'' @ replicate 64 c"

lemma letters_valid: "valid_digest (letters (CHR ''a''))" "valid_digest (letters (CHR ''b''))" "valid_digest (letters (CHR ''c''))"
  by (simp_all add: letters_def) code_simp+

definition novelty_sample :: "char \<Rightarrow> novelty_fingerprint" where
  "novelty_sample c = \<lparr>nf_objective_digest = letters (CHR ''a''), nf_artifact_digest = letters c,
     nf_hypothesis_digest = letters c, nf_patch_digest = letters c, nf_failure_signature = letters c,
     nf_action_semantics_digest = letters c, nf_novelty_digest = letters c\<rparr>"

definition attempt_sample :: "int \<Rightarrow> char \<Rightarrow> progress_state \<Rightarrow> loop_attempt_progress" where
  "attempt_sample n c st = \<lparr>la_attempt_id = ''00000000-0000-7000-8000-000000000001'', la_attempt_ordinal = n,
     la_artifact_before_digest = letters (CHR ''0''), la_artifact_after_digest = letters c, la_novelty = novelty_sample c,
     la_progress_state = st, la_progress_digest = letters c, la_diagnosis_evidence_digest = Some (letters c)\<rparr>"

lemma letters_eq [simp]: "letters c = letters d \<longleftrightarrow> c = d"
  by (simp add: letters_def)

lemma attempt_run_sample:
  "measured_loop.run 2 1 [] [attempt_sample 1 (CHR ''a'') IMPROVED, attempt_sample 2 (CHR ''b'') PLATEAU]
     = Inr [attempt_sample 1 (CHR ''a'') IMPROVED, attempt_sample 2 (CHR ''b'') PLATEAU]"
proof -
  have "attempt_step 2 1 [] (attempt_sample 1 (CHR ''a'') IMPROVED) = Inr [attempt_sample 1 (CHR ''a'') IMPROVED]"
    unfolding attempt_step_Inr
    by (simp add: ordered_history_def opens_next_def novel_def plateau_count_def attempt_sample_def)
  moreover have "attempt_step 2 1 [attempt_sample 1 (CHR ''a'') IMPROVED] (attempt_sample 2 (CHR ''b'') PLATEAU)
      = Inr ([attempt_sample 1 (CHR ''a'') IMPROVED] @ [attempt_sample 2 (CHR ''b'') PLATEAU])"
    unfolding attempt_step_Inr
    by (simp add: ordered_history_def opens_next_def novel_def plateau_count_def attempt_sample_def novelty_sample_def
        fresh_diagnosis_def diagnosed_plateau_def canonical_tuple_def)
  ultimately show ?thesis by (simp add: measured_loop.run_simps)
qed

theorem measured_loop_bounded_witness:
  "measured_loop.run 2 1 [] [attempt_sample 1 (CHR ''a'') IMPROVED, attempt_sample 2 (CHR ''b'') PLATEAU]
     = Inr [attempt_sample 1 (CHR ''a'') IMPROVED, attempt_sample 2 (CHR ''b'') PLATEAU]
   \<and> distinct (map (nf_patch_digest \<circ> la_novelty) [attempt_sample 1 (CHR ''a'') IMPROVED, attempt_sample 2 (CHR ''b'') PLATEAU])"
  using measured_loop_bounded [OF attempt_run_sample] attempt_run_sample by simp

theorem measured_loop_terminates_witness:
  "wf {(h', h). \<exists>a. nf_failure_signature (la_novelty a) \<in> {letters (CHR ''a''), letters (CHR ''b'')}
     \<and> attempt_step 2 1 h a = Inr h'}"
  by (rule measured_loop_terminates) simp

section \<open>A ledger\<close>

text \<open>A ledger that records what it is asked to do; it admits every request as attempt \<open>attempt-1\<close>.\<close>

datatype ledger_call = Admitted | Completed uuid | Interrupted uuid string

definition sample_admission :: loop_admission where
  "sample_admission = \<lparr>ad_admitted = True, ad_loop_id = ''loop-1'', ad_attempt_id = Some ''attempt-1'', ad_ordinal = Some 1,
     ad_terminal_state = None, ad_reason = ''ok'', ad_decision_digest = letters (CHR ''a''), ad_grants_authority = False\<rparr>"

definition sample_ledger :: "ledger_call list loop_ledger" where
  "sample_ledger = \<lparr>ll_admit = (\<lambda>r s. (s @ [Admitted], Inr sample_admission)),
     ll_complete = (\<lambda>i v s. (s @ [Completed i], Inr ''active'')),
     ll_interrupt = (\<lambda>i d s. (s @ [Interrupted i d], Inr LT_MANUAL_REVIEW)),
     ll_bind_dispatch = (\<lambda>i surface d s. (s, Inr ()))\<rparr>"

definition sample_request :: loop_attempt_request where
  "sample_request = \<lparr>lr_loop_id = ''loop-1'', lr_prompt_digest = letters (CHR ''a''), lr_context_digest = letters (CHR ''a''),
     lr_action_digest = letters (CHR ''a''), lr_source_revision = ''r1'', lr_plan_digest = letters (CHR ''a''),
     lr_policy_revision_digest = letters (CHR ''a''), lr_validator_spec_digest = letters (CHR ''b''),
     lr_reserved_input_tokens = 1, lr_reserved_output_tokens = 1, lr_reserved_cost_micros = 1,
     lr_predecessor_attempt_id = None, lr_delta_evidence_ids = [], lr_attempt_ordinal = 1, lr_objective_digest = None,
     lr_validator_asset_manifest_digest = None, lr_progress_packet_digest = None, lr_metric_vector_digest = None,
     lr_novelty_digest = None, lr_novelty = None\<rparr>"

text \<open>An effect that fails: the attempt is interrupted on the ledger, and the failure is raised.\<close>

definition failing_effect :: "(ledger_call list, unit) gov" where
  "failing_effect = graise (NotFound ''file'')"

definition unused_validator :: "unit \<Rightarrow> loop_admission \<Rightarrow> (ledger_call list, loop_validation) gov" where
  "unused_validator = (\<lambda>_ _. graise (NotFound ''validator''))"

lemma failing_run:
  "\<exists>d. loop_execute sample_ledger sample_request failing_effect unused_validator None []
     = ([Admitted, Interrupted ''attempt-1'' d], Inl (NotFound ''file''))"
proof -
  obtain d where "failure_digest ''attempt-1'' (NotFound ''file'') = Inr d" using failure_digest_total by blast
  then show ?thesis
    by (simp add: loop_execute_def sample_ledger_def sample_admission_def gbind_def gexcept_def run_attempt_def greturn_def
        failing_effect_def graise_def glift_def)
qed

theorem admitted_attempt_closed_witness:
  "\<exists>t d u i. loop_execute sample_ledger sample_request failing_effect unused_validator None [] = (t, Inl (NotFound ''file''))
     \<and> ll_interrupt sample_ledger ''attempt-1'' d u = (t, i)"
proof -
  obtain d where run: "loop_execute sample_ledger sample_request failing_effect unused_validator None []
     = ([Admitted, Interrupted ''attempt-1'' d], Inl (NotFound ''file''))" using failing_run by blast
  have admit: "ll_admit sample_ledger sample_request [] = ([Admitted], Inr sample_admission)"
    "ad_admitted sample_admission" "ad_attempt_id sample_admission = Some ''attempt-1''"
    by (simp_all add: sample_ledger_def sample_admission_def)
  have "ll_complete sample_ledger ''attempt-1'' v u \<noteq> ([Admitted, Interrupted ''attempt-1'' d], r)" for v u r
    by (auto simp: sample_ledger_def append_eq_Cons_conv)
  with admitted_attempt_closed [OF admit run] run show ?thesis by blast
qed

section \<open>Plans\<close>

definition loop_uuid :: string where
  "loop_uuid = ''00000000-0000-7000-8000-000000000001''"

lemma loop_uuid_text: "is_uuid_text loop_uuid"
  unfolding loop_uuid_def by code_simp

definition objective_sample :: optimization_objective where
  "objective_sample = \<lparr>oo_objective_id = loop_uuid, oo_realm_id = loop_uuid, oo_project_id = loop_uuid,
     oo_work_item_id = loop_uuid, oo_plan_id = loop_uuid, oo_step_id = ''step-1'', oo_artifact_ref = ''artifact'',
     oo_artifact_baseline_digest = letters (CHR ''a''), oo_measurement_plan_digest = letters (CHR ''a''),
     oo_validator_asset_manifest_digest = letters (CHR ''b''), oo_metric_specs = [metric_sample], oo_max_attempts = 3,
     oo_max_tokens = 100, oo_max_cost_micros = 100, oo_deadline = Aware 2, oo_reversibility_class = ''reversible'',
     oo_created_at = Aware 1, oo_grants_authority = False\<rparr>"

definition policy_sample :: loop_policy where
  "policy_sample = \<lparr>lo_id = loop_uuid, lo_realm_id = loop_uuid, lo_project_id = loop_uuid, lo_work_item_id = loop_uuid,
     lo_plan_id = loop_uuid, lo_step_id = ''step-1'', lo_assignment_id = loop_uuid, lo_context_manifest_id = loop_uuid,
     lo_validator_assignment_id = loop_uuid, lo_max_attempts = 3, lo_max_tokens = 100, lo_max_cost_micros = 100,
     lo_deadline = Aware 2, lo_validator_spec_digest = letters (CHR ''c''), lo_required_delta = [NEW_EVIDENCE],
     lo_forbidden_effects = [], lo_terminal_states = [LT_BLOCKED, LT_BUDGET_EXHAUSTED, LT_MANUAL_REVIEW, LT_PASSED],
     lo_source_revision = ''r1'', lo_context_manifest_digest = letters (CHR ''a''), lo_plan_digest = letters (CHR ''a''),
     lo_policy_revision_digest = letters (CHR ''a''), lo_canonical_effect_kind = ''none'', lo_created_at = Aware 1,
     lo_grants_authority = False, lo_objective_id = None, lo_stable_objective_digest = None,
     lo_measurement_plan_digest = None, lo_validator_manifest_id = None, lo_validator_asset_manifest_digest = None,
     lo_metric_specs_digest = None, lo_stall_limit = None, lo_diagnostic_patience = None,
     lo_progress_token_budget = None, lo_minimum_value_per_cost = None\<rparr>"

definition arguments_sample :: "loop_attempt_request option \<Rightarrow> string option \<Rightarrow> int \<Rightarrow> plan_arguments" where
  "arguments_sample request driver priority = \<lparr>pa_objective = objective_sample, pa_policy = policy_sample, pa_ordinal = 1,
     pa_predecessor_attempt_id = None, pa_progress_packet = None, pa_kind = MUTATION, pa_resources = [],
     pa_required_capabilities = [''loop.measured-attempt''], pa_priority = priority, pa_run_id = None, pa_control = None,
     pa_admission_request = request, pa_effect_authorization_id = None, pa_effect_authorization_digest = None,
     pa_topology_decision_id = Some loop_uuid, pa_topology_decision_digest = Some (letters (CHR ''a'')),
     pa_topology_pattern = Some ''bounded-loop'', pa_production_driver_digest = driver\<rparr>"

lemma objective_digest_sample: "\<exists>d. objective_digest objective_sample = Inr (digest_json d)"
  unfolding objective_digest_def
  by (rule digest_ok) (simp add: objective_as_dict_def objective_sample_def metric_spec_as_dict_def metric_sample_def py_float_def
      opt_float_def float_zero_def float_largest_def)

section \<open>Plans\<close>

lemma not_blank_Cons: "\<not> is_space c \<Longrightarrow> \<not> blank (c # cs)"
  by (auto simp: blank_def strip_def lstrip_def rstrip_def dropWhile_eq_Nil_conv)

lemma planned_job_exists: "\<exists>j. plan_job new_id moment a job identity payload = Inr j"
proof -
  have "\<not> is_space (CHR ''l'')" by code_simp
  then show ?thesis by (simp add: plan_job_def job_create_def check_job_def not_blank_Cons Let_def)
qed

lemma identity_digest_exists: "\<exists>d. identity_digest loop ordinal predecessor packet = Inr d"
  unfolding identity_digest_def
  by (cases predecessor; cases packet; simp add: identity_body_def digest_def canonicalize_def opt_text_def)

lemma scope_exists: "\<exists>sc. scope_of_plan a attempt job = Inr sc"
  by (cases "pa_production_driver_digest a")
    (simp_all add: scope_of_plan_def measured_loop_effect_scope_digest_def digest_def canonicalize_def normalize_texts)

lemma plan_attempt_exists:
  assumes "check_authority_arguments a = Inr ()" "assert_scope mr jr (pa_objective a) (pa_policy a) = Inr ()"
    and "objective_digest (pa_objective a) = Inr od"
    and "require_progress_packet (pa_ordinal a) (pa_progress_packet a) od (lo_source_revision (pa_policy a))
       (lo_plan_digest (pa_policy a)) (lo_policy_revision_digest (pa_policy a))
       (oo_validator_asset_manifest_digest (pa_objective a)) = Inr ()"
    and "check_predecessor a = Inr ()" "packet_digest_option (pa_progress_packet a) = Inr pk"
    and "\<And>r. pa_admission_request a = Some r \<Longrightarrow> request_binding r = (lo_id (pa_policy a), pa_ordinal a,
       pa_predecessor_attempt_id a, Some od, Some (oo_validator_asset_manifest_digest (pa_objective a)), pk)"
  shows "\<exists>plan. plan_attempt mr jr new_id moment a = Inr plan"
proof -
  obtain idn where idn: "identity_digest (lo_id (pa_policy a)) (pa_ordinal a) (pa_predecessor_attempt_id a) pk = Inr idn"
    using identity_digest_exists by blast
  obtain sc where sc: "scope_of_plan a (uuid5 ATTEMPT_NAMESPACE idn) (uuid5 JOB_NAMESPACE idn) = Inr sc"
    using scope_exists by blast
  obtain j where j: "plan_job new_id moment a (uuid5 JOB_NAMESPACE idn) idn
      (plan_payload a pk (uuid5 ATTEMPT_NAMESPACE idn) od sc) = Inr j" using planned_job_exists by blast
  have bind: "\<not> (case pa_admission_request a of None \<Rightarrow> False | Some r \<Rightarrow> request_binding r \<noteq> (lo_id (pa_policy a),
      pa_ordinal a, pa_predecessor_attempt_id a, Some od, Some (oo_validator_asset_manifest_digest (pa_objective a)), pk))"
    using assms(7) by (auto split: option.splits)
  show ?thesis
    unfolding plan_attempt_def Let_def assms(1-6) rbind_simps idn if_not_P [OF bind] sc j by blast
qed

lemma plan_sample_exists:
  assumes "objective_digest objective_sample = Inr od"
    and "\<And>r. request = Some r \<Longrightarrow> request_binding r = (loop_uuid, 1, None, Some od, Some (letters (CHR ''b'')), None)"
    and "driver = None \<or> driver = Some (letters (CHR ''c''))"
  shows "\<exists>plan. plan_attempt loop_uuid loop_uuid new_id moment (arguments_sample request driver priority) = Inr plan"
proof (rule plan_attempt_exists)
  show "check_authority_arguments (arguments_sample request driver priority) = Inr ()"
    using letters_valid assms(3)
    by (auto simp: check_authority_arguments_def arguments_sample_def parse_optional_def is_ok_iff)
qed (use assms(1,2) in \<open>simp_all add: arguments_sample_def assert_scope_def objective_sample_def policy_sample_def
    require_progress_packet_def check_predecessor_def packet_digest_option_def\<close>)

theorem attempt_identity_deterministic_witness:
  "\<exists>plan plan'. plan_attempt loop_uuid loop_uuid ''new-1'' 0 (arguments_sample None None 100) = Inr plan
     \<and> plan_attempt loop_uuid loop_uuid ''new-2'' 7 (arguments_sample None (Some (letters (CHR ''c''))) 5) = Inr plan'
     \<and> job_id (jp_job plan) = job_id (jp_job plan')"
proof -
  obtain od where od: "objective_digest objective_sample = Inr od" using objective_digest_sample by blast
  obtain plan where p: "plan_attempt loop_uuid loop_uuid ''new-1'' 0 (arguments_sample None None 100) = Inr plan"
    using plan_sample_exists [OF od, of None None] by blast
  obtain plan' where q:
    "plan_attempt loop_uuid loop_uuid ''new-2'' 7 (arguments_sample None (Some (letters (CHR ''c''))) 5) = Inr plan'"
    using plan_sample_exists [OF od, of None "Some (letters (CHR ''c''))"] by blast
  from attempt_identity_deterministic [OF p q] p q show ?thesis by (simp add: arguments_sample_def)
qed

definition silent_stores :: "nat loop_stores" where
  "silent_stores = \<lparr>ls_unit_of_work = (\<lambda>m. m), ls_assert_loop_open = (\<lambda>_. greturn ()), ls_enqueue = (\<lambda>j. greturn (j, True)),
     ls_bind_loop_attempt_job = (\<lambda>_ _ _ _ _ _. greturn True)\<rparr>"

theorem production_enqueue_needs_authorization_witness:
  "\<exists>plan scope. plan_attempt loop_uuid loop_uuid ''new-1'' 0 (arguments_sample None (Some (letters (CHR ''c''))) 100) = Inr plan
     \<and> \<not> is_ok (snd (enqueue_attempt silent_stores plan 0))
     \<and> is_ok (attach_effect_authorization plan loop_uuid scope)"
proof -
  obtain od where od: "objective_digest objective_sample = Inr od" using objective_digest_sample by blast
  obtain plan where p:
    "plan_attempt loop_uuid loop_uuid ''new-1'' 0 (arguments_sample None (Some (letters (CHR ''c''))) 100) = Inr plan"
    using plan_sample_exists [OF od, of None "Some (letters (CHR ''c''))"] by blast
  have args: "pa_production_driver_digest (arguments_sample None (Some (letters (CHR ''c''))) 100) = Some (letters (CHR ''c''))"
    "is_uuid_text (lo_id (pa_policy (arguments_sample None (Some (letters (CHR ''c''))) 100)))"
    by (simp_all add: arguments_sample_def policy_sample_def loop_uuid_text)
  from production_enqueue_needs_authorization [OF p args, of silent_stores 0 loop_uuid loop_uuid] p
  show ?thesis by (auto simp: is_ok_iff)
qed

section \<open>Requests\<close>

lemma fingerprint_exists:
  assumes "valid_digest od"
  shows "\<exists>n. check_fingerprint n = Inr n \<and> nf_objective_digest n = od \<and> valid_digest (nf_novelty_digest n)"
proof -
  let ?f = "\<lambda>d. \<lparr>nf_objective_digest = od, nf_artifact_digest = letters (CHR ''a''), nf_hypothesis_digest = letters (CHR ''a''),
    nf_patch_digest = letters (CHR ''a''), nf_failure_signature = letters (CHR ''a''),
    nf_action_semantics_digest = letters (CHR ''a''), nf_novelty_digest = d\<rparr>"
  have "\<exists>j. \<forall>d. digest (fingerprint_body (?f d)) = Inr (digest_json j)"
    by (simp add: fingerprint_body_def digest_def canonicalize_def) blast
  then obtain j where j: "digest (fingerprint_body (?f d)) = Inr (digest_json j)" for d by blast
  have "parse_all [od, letters (CHR ''a''), letters (CHR ''a''), letters (CHR ''a''), letters (CHR ''a''), letters (CHR ''a''), digest_json j]
      = Inr ()"
    using assms letters_valid(1) by (simp add: parse_all_Inr_iff)
  then have "check_fingerprint (?f (digest_json j)) = Inr (?f (digest_json j))"
    by (simp add: check_fingerprint_def j)
  then show ?thesis by (intro exI [of _ "?f (digest_json j)"]) simp
qed

definition bound_request :: "string \<Rightarrow> novelty_fingerprint \<Rightarrow> int \<Rightarrow> uuid option \<Rightarrow> string option \<Rightarrow> string option \<Rightarrow> loop_attempt_request" where
  "bound_request od n ordinal predecessor packet vector = \<lparr>lr_loop_id = loop_uuid, lr_prompt_digest = letters (CHR ''a''),
     lr_context_digest = letters (CHR ''a''), lr_action_digest = letters (CHR ''a''), lr_source_revision = ''r1'',
     lr_plan_digest = letters (CHR ''a''), lr_policy_revision_digest = letters (CHR ''a''),
     lr_validator_spec_digest = letters (CHR ''c''), lr_reserved_input_tokens = 1, lr_reserved_output_tokens = 1,
     lr_reserved_cost_micros = 1, lr_predecessor_attempt_id = predecessor, lr_delta_evidence_ids = [loop_uuid],
     lr_attempt_ordinal = ordinal, lr_objective_digest = Some od,
     lr_validator_asset_manifest_digest = Some (letters (CHR ''b'')), lr_progress_packet_digest = packet,
     lr_metric_vector_digest = vector, lr_novelty_digest = Some (nf_novelty_digest n), lr_novelty = Some n\<rparr>"

lemma bound_request_checked:
  assumes "valid_digest od" "nf_objective_digest n = od" "valid_digest (nf_novelty_digest n)"
    and "ordinal = 1 \<and> predecessor = None \<and> packet = None \<and> vector = None
      \<or> ordinal = 2 \<and> predecessor = Some loop_uuid \<and> packet = Some d \<and> vector = Some d' \<and> valid_digest d \<and> valid_digest d'"
  shows "check_attempt_request (bound_request od n ordinal predecessor packet vector)
      = Inr (bound_request od n ordinal predecessor packet vector)"
    and "uuid_fields_ok (bound_request od n ordinal predecessor packet vector)"
proof -
  let ?r = "bound_request od n ordinal predecessor packet vector"
  have one: "parse_all [lr_prompt_digest ?r, lr_context_digest ?r, lr_action_digest ?r, lr_plan_digest ?r,
      lr_policy_revision_digest ?r, lr_validator_spec_digest ?r] = Inr ()"
    using letters_valid by (simp add: parse_all_Inr_iff bound_request_def)
  have two: "parse_present [lr_objective_digest ?r, lr_validator_asset_manifest_digest ?r, lr_progress_packet_digest ?r,
      lr_metric_vector_digest ?r, lr_novelty_digest ?r] = Inr ()"
    using letters_valid assms by (auto simp: parse_present_def parse_all_Inr_iff bound_request_def set_map_filter)
  have "\<not> blank (lr_source_revision ?r)" unfolding bound_request_def by (simp, code_simp)
  then show "check_attempt_request ?r = Inr ?r"
    unfolding check_attempt_request_def one two rbind_simps
    using assms by (auto simp: bound_request_def request_measured_def canonical_tuple_def)
  show "uuid_fields_ok ?r"
    using assms loop_uuid_text by (auto simp: uuid_fields_ok_def bound_request_def split: option.splits)
qed

theorem planned_request_read_back_witness:
  "\<exists>od n plan. plan_attempt loop_uuid loop_uuid ''new-1'' 0 (arguments_sample (Some (bound_request od n 1 None None None)) None 100)
       = Inr plan \<and> read_request (jp_job plan) = Inr (bound_request od n 1 None None None)"
proof -
  obtain j where j: "objective_digest objective_sample = Inr (digest_json j)" using objective_digest_sample by blast
  obtain n where n: "check_fingerprint n = Inr n" "nf_objective_digest n = digest_json j" "valid_digest (nf_novelty_digest n)"
    using fingerprint_exists [of "digest_json j"] by auto
  let ?r = "bound_request (digest_json j) n 1 None None None"
  have r: "check_attempt_request ?r = Inr ?r" "uuid_fields_ok ?r" using bound_request_checked [OF _ n(2,3)] by simp_all
  have b: "request_binding ?r = (loop_uuid, 1, None, Some (digest_json j), Some (letters (CHR ''b'')), None)"
    and nv: "\<And>m. lr_novelty ?r = Some m \<Longrightarrow> check_fingerprint m = Inr m"
    using n(1) by (simp_all add: request_binding_def bound_request_def)
  obtain plan where p: "plan_attempt loop_uuid loop_uuid ''new-1'' 0 (arguments_sample (Some ?r) None 100) = Inr plan"
    using plan_sample_exists [OF j, of "Some ?r" None "''new-1''" 0 100] b by auto
  have "pa_admission_request (arguments_sample (Some ?r) None 100) = Some ?r" by (simp add: arguments_sample_def)
  from planned_request_read_back [OF p this r(1) nv r(2)] p show ?thesis by blast
qed

section \<open>The next attempt\<close>

definition flat_vector :: progress_vector where
  "flat_vector = \<lparr>pv_baseline_values = [], pv_previous_values = [], pv_current_values = [], pv_deltas = [],
     pv_metric_results = [], pv_evidence_digests = [letters (CHR ''a'')], pv_value_per_cost = None,
     pv_progress_state = IMPROVED, pv_invalid_reasons = []\<rparr>"

definition packet_sample :: "string \<Rightarrow> loop_packet" where
  "packet_sample od = \<lparr>lp_checkpoint = \<lparr>lc_objective_digest = od, lc_source_revision = ''r1'', lc_plan_digest = letters (CHR ''a''),
     lc_policy_revision_digest = letters (CHR ''a''), lc_validator_asset_manifest_digest = letters (CHR ''b''),
     lc_artifact_before_digest = letters (CHR ''a''), lc_artifact_after_digest = letters (CHR ''b''),
     lc_predecessor_attempt_id = loop_uuid, lc_next_attempt_ordinal = 2, lc_previous_metric_vector = flat_vector,
     lc_current_metric_vector = flat_vector, lc_accepted_hypothesis_digest = letters (CHR ''a''),
     lc_rejected_hypothesis_digests = [], lc_patch_digest = letters (CHR ''a''), lc_failure_signature = letters (CHR ''a''),
     lc_validator_diagnosis_ref = ''diagnosis'', lc_validator_diagnosis_digest = letters (CHR ''a''),
     lc_new_evidence_refs = [], lc_remaining_attempts = 1, lc_remaining_tokens = 1, lc_remaining_cost_micros = 1,
     lc_remaining_time_seconds = 1, lc_next_allowed_focus = ''focus'', lc_forbidden_retries = []\<rparr>,
     lp_metric_deltas = [], lp_max_packet_tokens = 4000, lp_grants_authority = False\<rparr>"

lemma flat_vector_ok: "is_ok (normalize_value (progress_as_dict flat_vector))"
  by (simp add: progress_as_dict_def flat_vector_def values_dict_def results_with_role_def opt_float_def)

lemma packet_digest_sample: "\<exists>d. packet_digest (packet_sample od) = Inr (digest_json d)"
proof -
  obtain jv where "normalize_value (progress_as_dict flat_vector) = Inr jv" using flat_vector_ok by (auto simp: is_ok_iff)
  then show ?thesis
    unfolding packet_digest_def
    by (intro digest_ok) (simp add: packet_as_dict_def packet_sample_def values_dict_def)
qed

definition execution_sample :: "string \<Rightarrow> loop_attempt_request \<Rightarrow> attempt_execution" where
  "execution_sample od request = \<lparr>ax_packet = packet_sample od, ax_evidence = [evidence_sample float_one], ax_outcome = LO_RETRYABLE_FAILURE,
     ax_result_invocation_id = loop_uuid, ax_verifier_invocation_id = loop_uuid, ax_actual_input_tokens = 1,
     ax_actual_output_tokens = 1, ax_actual_cost_micros = 1, ax_effect_receipt_id = None, ax_stop_reason = None,
     ax_next_request = Some request, ax_auto_enqueue_next = True\<rparr>"

definition stored_sample :: stored_progress where
  "stored_sample = \<lparr>sp_packet_digest = letters (CHR ''a''), sp_progress_decision_digest = letters (CHR ''b'')\<rparr>"

definition ports_sample :: "nat worker_ports" where
  "ports_sample = \<lparr>wp_admit = (\<lambda>_ _. greturn sample_admission), wp_run = (\<lambda>_ _. graise (NotFound ''runner'')),
     wp_load = (\<lambda>_. greturn (objective_sample, policy_sample)), wp_transaction = (\<lambda>m. m),
     wp_store_loop_progress = (\<lambda>_ _ _ _ _ _. greturn stored_sample), wp_checkpoint_writer = None,
     wp_complete = (\<lambda>_ _. greturn ''active''), wp_stores = silent_stores, wp_measured_realm = loop_uuid,
     wp_job_realm = loop_uuid\<rparr>"

lemma validation_exists: "\<exists>v. attempt_validation (execution_sample od request) policy_sample stored_sample = Inr v"
proof -
  obtain j where "digest (progress_as_dict flat_vector) = Inr (digest_json j)" using digest_ok [OF flat_vector_ok] by blast
  moreover have "\<not> blank ''run/1''" by code_simp
  moreover have "parse_present [Some (digest_json j), Some (letters (CHR ''b'')), Some (letters (CHR ''a''))] = Inr ()"
    using letters_valid by (simp add: parse_present_def parse_all_Inr_iff set_map_filter)
  moreover obtain h where "parse_digest (letters (CHR ''c'')) = Inr h" using letters_valid(3) by (auto simp: is_ok_iff)
  ultimately show ?thesis
    by (simp add: attempt_validation_def execution_sample_def packet_sample_def progress_digest_def policy_sample_def
        stored_sample_def evidence_sample_def check_validation_def validation_measured_def canonical_tuple_def)
qed

lemma next_plan_exists:
  assumes "objective_digest objective_sample = Inr od" "packet_digest (packet_sample od) = Inr pd"
    and "request_binding r = (loop_uuid, 2, Some loop_uuid, Some od, Some (letters (CHR ''b'')), Some pd)"
  shows "\<exists>plan. plan_attempt loop_uuid loop_uuid new_id moment
      (next_arguments objective_sample policy_sample (execution_sample od r) loop_uuid r run) = Inr plan"
proof (rule plan_attempt_exists)
  show "packet_digest_option (pa_progress_packet (next_arguments objective_sample policy_sample (execution_sample od r) loop_uuid r run))
      = Inr (Some pd)"
    using assms(2) by (simp add: packet_digest_option_def next_arguments_def execution_sample_def)
  show "objective_digest (pa_objective (next_arguments objective_sample policy_sample (execution_sample od r) loop_uuid r run)) = Inr od"
    using assms(1) by (simp add: next_arguments_def)
qed (use assms(3) in \<open>simp_all add: next_arguments_def check_authority_arguments_def parse_optional_def assert_scope_def
    objective_sample_def policy_sample_def require_progress_packet_def check_predecessor_def packet_sample_def execution_sample_def\<close>)

lemma silent_enqueue:
  assumes "plan_attempt mr jr new_id moment a = Inr plan" "pa_admission_request a = Some r" "lr_loop_id r = loop_uuid"
    and "lo_id (pa_policy a) = loop_uuid" "pa_production_driver_digest a = None"
  shows "\<exists>out. enqueue_attempt silent_stores plan s = (s, Inr out)"
proof -
  have "jp_loop_id plan = loop_uuid" "jp_effect_scope_digest plan = None"
    by (rule plan_attempt_Inr [OF assms(1)], simp add: assms(4) scope_of_plan_def assms(5))+
  then have "check_enqueue plan = Inr ()"
    using planned_payload(1) [OF assms(1,2)] assms(3) uuid_of_text_canonical [OF loop_uuid_text] by (simp add: check_enqueue_def)
  then show ?thesis by (simp add: enqueue_attempt_def silent_stores_def gbind_def glift_def greturn_def)
qed

theorem next_attempt_follows_witness:
  "\<exists>od r stored jid (plan :: loop_job_plan). record_attempt ports_sample ''new-1'' 0 (jp_job plan) sample_request sample_admission loop_uuid
       (execution_sample od r) objective_sample policy_sample 0 = (0, Inr (stored, ''active'', Some jid))
     \<and> (\<exists>plan' :: loop_job_plan. jp_ordinal plan' = 2 \<and> read_request (jp_job plan') = Inr r)"
proof -
  obtain j where j: "objective_digest objective_sample = Inr (digest_json j)" using objective_digest_sample by blast
  obtain k where k: "packet_digest (packet_sample (digest_json j)) = Inr (digest_json k)" using packet_digest_sample by blast
  obtain n where n: "check_fingerprint n = Inr n" "nf_objective_digest n = digest_json j" "valid_digest (nf_novelty_digest n)"
    using fingerprint_exists [of "digest_json j"] by auto
  define r where "r = bound_request (digest_json j) n 2 (Some loop_uuid) (Some (digest_json k)) (Some (digest_json k))"
  have r: "check_attempt_request r = Inr r" "uuid_fields_ok r" unfolding r_def
    by (rule bound_request_checked [OF _ n(2,3), where d = "digest_json k" and d' = "digest_json k"]; simp)+
  have b: "request_binding r = (loop_uuid, 2, Some loop_uuid, Some (digest_json j), Some (letters (CHR ''b'')), Some (digest_json k))"
    and nv: "lr_novelty r = Some n" and lid: "lr_loop_id r = loop_uuid"
    by (simp_all add: r_def request_binding_def bound_request_def)
  let ?x = "execution_sample (digest_json j) r"
  obtain first where first: "plan_attempt loop_uuid loop_uuid ''new-1'' 0 (arguments_sample None None 100) = Inr first"
    using plan_sample_exists [OF j, of None None "''new-1''" 0 100] by auto
  let ?args = "next_arguments objective_sample policy_sample ?x loop_uuid r (job_run_id (jp_job first))"
  obtain plan where plan: "plan_attempt loop_uuid loop_uuid ''new-1'' 0 ?args = Inr plan"
    using next_plan_exists [OF j k b] by blast
  obtain out where out: "enqueue_attempt silent_stores plan 0 = (0, Inr out)"
    using silent_enqueue [OF plan, of r 0] lid by (auto simp: next_arguments_def policy_sample_def)
  obtain v where v: "attempt_validation ?x policy_sample stored_sample = Inr v" using validation_exists by blast
  have x: "ax_stop_reason ?x = None" "ax_next_request ?x = Some r" "ax_auto_enqueue_next ?x"
    by (simp_all add: execution_sample_def)
  have ports: "wp_measured_realm ports_sample = loop_uuid" "wp_job_realm ports_sample = loop_uuid" "wp_stores ports_sample = silent_stores"
    "wp_store_loop_progress ports_sample = (\<lambda>_ _ _ _ _ _. greturn stored_sample)" "wp_checkpoint_writer ports_sample = None"
    "wp_complete ports_sample = (\<lambda>_ _. greturn ''active'')"
    by (simp_all add: ports_sample_def)
  have run: "record_attempt ports_sample ''new-1'' 0 (jp_job first) sample_request sample_admission loop_uuid ?x objective_sample
      policy_sample 0 = (0, Inr (stored_sample, ''active'', Some (job_id (jr_job out))))"
    by (simp add: record_attempt_def enqueue_next_def gbind_Inr_iff ports v plan out x)
  have exec: "check_execution ?x loop_uuid 1 = Inr ()" by (simp add: check_execution_def execution_sample_def packet_sample_def)
  have side1: "\<And>q. ax_next_request ?x = Some q \<Longrightarrow> check_attempt_request q = Inr q \<and> uuid_fields_ok q" using x(2) r by simp
  have side2: "\<And>q m. ax_next_request ?x = Some q \<Longrightarrow> lr_novelty q = Some m \<Longrightarrow> check_fingerprint m = Inr m"
    using x(2) nv n(1) by simp
  have "\<exists>validation u1 u2 q (plan' :: loop_job_plan) ra. wp_complete ports_sample loop_uuid validation u1 = (u2, Inr ''active'')
      \<and> lv_progress_packet_digest validation = Some (sp_packet_digest stored_sample)
      \<and> ax_stop_reason ?x = None \<and> ax_next_request ?x = Some q
      \<and> enqueue_attempt (wp_stores ports_sample) plan' u2 = (0, Inr ra) \<and> job_id (jr_job out) = job_id (jr_job ra)
      \<and> jp_ordinal plan' = 1 + 1 \<and> jp_predecessor_attempt_id plan' = Some loop_uuid
      \<and> read_request (jp_job plan') = Inr q"
    by (rule next_attempt_follows [OF run exec]) (use side1 side2 in blast)+
  then obtain q and plan' :: loop_job_plan where
    "ax_next_request ?x = Some q" "jp_ordinal plan' = 1 + 1" "read_request (jp_job plan') = Inr q"
    by blast
  with x(2) have "jp_ordinal plan' = 2 \<and> read_request (jp_job plan') = Inr r" by simp
  with run show ?thesis by blast
qed

end
