(* ===== verification/LoopCompiler.thy ===== *)
theory LoopCompiler
  imports LoopProgress "HOL-Library.Sublist"
begin

text \<open>
  The compiler of progress packets (\<^verbatim>\<open>application/loop_progress_compiler.py\<close>): from the checkpoint of an
  attempt it builds the one packet that the next attempt is given, and sheds optional references in a
  fixed order until the packet fits its token budget. The loop \<^verbatim>\<open>while True\<close> is a function with a
  termination proof. The lemmas describe the state in which it stops.
\<close>

section \<open>The policy\<close>

record compiler_policy =
  cp_max_packet_tokens :: int
  cp_max_rejected_hypotheses :: int
  cp_max_new_evidence_refs :: int
  cp_max_forbidden_retries :: int
  cp_max_focus_characters :: int
  cp_max_reference_characters :: int

definition default_compiler_policy :: compiler_policy where
  "default_compiler_policy = \<lparr>cp_max_packet_tokens = 2048, cp_max_rejected_hypotheses = 8, cp_max_new_evidence_refs = 8,
     cp_max_forbidden_retries = 8, cp_max_focus_characters = 512, cp_max_reference_characters = 256\<rparr>"

definition check_compiler_policy :: "compiler_policy \<Rightarrow> compiler_policy res" where
  "check_compiler_policy p =
     (if cp_max_packet_tokens p < 128 then Inl (ValidationFailed ''Progress packet token budget en az 128 olmali'')
      else if min (cp_max_rejected_hypotheses p) (min (cp_max_new_evidence_refs p) (cp_max_forbidden_retries p)) < 0
      then Inl (ValidationFailed ''Progress packet liste limitleri negatif olamaz'')
      else if cp_max_focus_characters p < 1 \<or> cp_max_reference_characters p < 1
      then Inl (ValidationFailed ''Progress packet metin limitleri pozitif olmali'')
      else Inr p)"

section \<open>Bounded texts and lists\<close>

text \<open>The slices \<^verbatim>\<open>values[-n:]\<close> and \<^verbatim>\<open>text[:n]\<close>.\<close>

definition slice_last :: "int \<Rightarrow> 'a list \<Rightarrow> 'a list" where
  "slice_last n xs = (if n > 0 then drop (length xs - nat n) xs else drop (nat (- n)) xs)"

definition slice_first :: "int \<Rightarrow> 'a list \<Rightarrow> 'a list" where
  "slice_first n xs = (if n < 0 then take (length xs - nat (- n)) xs else take (nat n) xs)"

definition bounded_text :: "string \<Rightarrow> string \<Rightarrow> int \<Rightarrow> string res" where
  "bounded_text t label maximum =
     (let normalized = strip t in
      if normalized = [] then Inl (ValidationFailed (''Progress packet '' @ label @ '' bos olamaz''))
      else if list_ex (\<lambda>c. c \<in> {CHR 0x0D, CHR 0x0A, CHR 0x00}) normalized
      then Inl (ValidationFailed (''Progress packet '' @ label @ '' raw/multiline icerik tasiyamaz''))
      else Inr (slice_first maximum normalized))"

definition limited :: "int \<Rightarrow> 'a list \<Rightarrow> 'a list" where
  "limited n xs = (if n \<noteq> 0 then slice_last n xs else [])"

section \<open>The loop\<close>

text \<open>The packet with the given optional parts; every other field is the checkpoint's.\<close>

definition packet_of ::
  "compiler_policy \<Rightarrow> loop_checkpoint \<Rightarrow> string \<Rightarrow> (string \<times> string) list \<Rightarrow> string list \<Rightarrow> string list \<Rightarrow> string \<Rightarrow> loop_packet" where
  "packet_of policy c diagnosis evidence rejected forbidden focus =
     \<lparr>lp_checkpoint = c\<lparr>lc_rejected_hypothesis_digests := rejected, lc_validator_diagnosis_ref := diagnosis,
        lc_new_evidence_refs := evidence, lc_next_allowed_focus := focus, lc_forbidden_retries := forbidden\<rparr>,
      lp_metric_deltas = pv_deltas (lc_current_metric_vector c), lp_max_packet_tokens = cp_max_packet_tokens policy,
      lp_grants_authority = False\<rparr>"

function compile_loop ::
  "compiler_policy \<Rightarrow> loop_checkpoint \<Rightarrow> string \<Rightarrow> (string \<times> string) list \<Rightarrow> string list \<Rightarrow> string list \<Rightarrow> string \<Rightarrow>
     loop_packet res" where
  "compile_loop policy c diagnosis evidence rejected forbidden focus =
     (case check_packet (packet_of policy c diagnosis evidence rejected forbidden focus) of
        Inr p \<Rightarrow> Inr p
      | Inl (PolicyViolation m) \<Rightarrow>
          if \<not> contains_sub m ''token budget'' then Inl (PolicyViolation m)
          else if evidence \<noteq> [] then compile_loop policy c diagnosis (tl evidence) rejected forbidden focus
          else if rejected \<noteq> [] then compile_loop policy c diagnosis evidence (tl rejected) forbidden focus
          else if forbidden \<noteq> [] then compile_loop policy c diagnosis evidence rejected (tl forbidden) focus
          else if length focus > 32
          then compile_loop policy c diagnosis evidence rejected forbidden (take (max 32 (length focus div 2)) focus)
          else Inl (PolicyViolation ''Progress packet zorunlu alanlari token budget'e sigmiyor'')
      | Inl e \<Rightarrow> Inl e)"
  by pat_completeness auto
termination
  by (relation "measure (\<lambda>(_, _, _, evidence, rejected, forbidden, focus).
        length evidence + length rejected + length forbidden + length focus)") (auto simp: neq_Nil_conv)

declare compile_loop.simps [simp del]

definition compile_packet :: "compiler_policy \<Rightarrow> loop_checkpoint \<Rightarrow> loop_packet res" where
  "compile_packet policy c =
     rbind (check_checkpoint c) (\<lambda>_.
     rbind (bounded_text (lc_next_allowed_focus c) ''next allowed focus'' (cp_max_focus_characters policy)) (\<lambda>focus.
     rbind (bounded_text (lc_validator_diagnosis_ref c) ''validator diagnosis ref'' (cp_max_reference_characters policy)) (\<lambda>diagnosis.
       compile_loop policy c diagnosis (limited (cp_max_new_evidence_refs policy) (lc_new_evidence_refs c))
         (limited (cp_max_rejected_hypotheses policy) (lc_rejected_hypothesis_digests c))
         (limited (cp_max_forbidden_retries policy) (lc_forbidden_retries c)) focus)))"

section \<open>Where the loop stops\<close>

text \<open>The packet can be printed: the two vectors hold finite numbers only.\<close>

definition printable :: "loop_checkpoint \<Rightarrow> bool" where
  "printable c = (is_ok (normalize_value (progress_as_dict (lc_previous_metric_vector c)))
     \<and> is_ok (normalize_value (progress_as_dict (lc_current_metric_vector c)))
     \<and> is_ok (normalize_value (values_dict (pv_deltas (lc_current_metric_vector c)))))"

definition one_line :: "string \<Rightarrow> bool" where
  "one_line t = list_all (\<lambda>ch. ch \<notin> {CHR 0x0D, CHR 0x0A, CHR 0x00}) (strip t)"

definition fits :: "loop_packet \<Rightarrow> bool" where
  "fits p = (case estimated_tokens p of Inl _ \<Rightarrow> False | Inr n \<Rightarrow> n \<le> lp_max_packet_tokens p)"

lemma normalize_refs:
  "\<exists>js. normalize_list (map (\<lambda>(ref, d). PDict [(PStr ''ref'', PStr ref), (PStr ''digest'', PStr d)]) rs) = Inr js"
  by (induction rs) auto

lemma packet_printable:
  assumes "printable c"
  shows "\<exists>n. estimated_tokens (packet_of policy c diagnosis evidence rejected forbidden focus) = Inr n"
proof -
  from assms obtain a b d where v: "normalize_value (progress_as_dict (lc_previous_metric_vector c)) = Inr a"
    "normalize_value (progress_as_dict (lc_current_metric_vector c)) = Inr b"
    "normalize_value (values_dict (pv_deltas (lc_current_metric_vector c))) = Inr d"
    by (auto simp: printable_def is_ok_iff)
  obtain js where refs: "normalize_list (map (\<lambda>(ref, d). PDict [(PStr ''ref'', PStr ref), (PStr ''digest'', PStr d)]) evidence) = Inr js"
    using normalize_refs by blast
  have "is_ok (normalize_value (packet_as_dict (packet_of policy c diagnosis evidence rejected forbidden focus)))"
    using v refs by (simp add: packet_as_dict_def packet_of_def Let_def normalize_texts)
  then show ?thesis by (auto simp: estimated_tokens_def canonical_json_def canonicalize_def is_ok_iff)
qed


text \<open>A checkpoint with fewer references and shorter texts passes the check again.\<close>

lemma parse_all_subset: "parse_all ds = Inr u \<Longrightarrow> set es \<subseteq> set ds \<Longrightarrow> parse_all es = Inr ()"
  by (auto simp: parse_all_Inr_iff)

lemma canonical_suffix:
  assumes "canonical_tuple ds" "suffix es ds"
  shows "canonical_tuple es"
proof -
  obtain fs where "ds = fs @ es" using assms(2) by (auto simp: suffix_def)
  with assms(1) show ?thesis by (simp add: canonical_tuple_iff sorted_append)
qed

lemma digest_tuple_suffix:
  assumes "assert_digest_tuple ds label = Inr u" "suffix es ds"
  shows "assert_digest_tuple es label = Inr ()"
  using assms canonical_suffix [OF _ assms(2)] set_mono_suffix [OF assms(2)]
  by (auto simp: assert_digest_tuple_def rbind_Inr_iff parse_all_Inr_iff split: if_splits)

lemma ref_tuple_suffix:
  assumes "assert_ref_digest_tuple ds = Inr u" "suffix es ds"
  shows "assert_ref_digest_tuple es = Inr ()"
  using assms canonical_suffix [OF _ map_mono_suffix [OF assms(2), of fst]] set_mono_suffix [OF assms(2)]
  by (auto simp: assert_ref_digest_tuple_def parse_all_Inr_iff list_ex_iff split: if_splits)

lemma check_checkpoint_shed:
  assumes "check_checkpoint c = Inr c" "suffix evidence (lc_new_evidence_refs c)"
    "suffix rejected (lc_rejected_hypothesis_digests c)" "suffix forbidden (lc_forbidden_retries c)"
    "\<not> blank diagnosis" "\<not> blank focus"
  shows "check_checkpoint (c\<lparr>lc_rejected_hypothesis_digests := rejected, lc_validator_diagnosis_ref := diagnosis,
        lc_new_evidence_refs := evidence, lc_next_allowed_focus := focus, lc_forbidden_retries := forbidden\<rparr>)
    = Inr (c\<lparr>lc_rejected_hypothesis_digests := rejected, lc_validator_diagnosis_ref := diagnosis,
        lc_new_evidence_refs := evidence, lc_next_allowed_focus := focus, lc_forbidden_retries := forbidden\<rparr>)"
proof -
  have "assert_digest_tuple (lc_rejected_hypothesis_digests c) ''rejected hypothesis'' = Inr ()"
    "assert_ref_digest_tuple (lc_new_evidence_refs c) = Inr ()" "canonical_tuple (lc_forbidden_retries c)"
    using assms(1) by (auto simp: check_checkpoint_def rbind_Inr_iff split: if_splits)
  then have "assert_digest_tuple rejected ''rejected hypothesis'' = Inr ()" "assert_ref_digest_tuple evidence = Inr ()"
    "canonical_tuple forbidden"
    using digest_tuple_suffix ref_tuple_suffix canonical_suffix assms(2-4) by blast+
  then show ?thesis
    using assms(1,5,6) by (auto simp: check_checkpoint_def rbind_Inr_iff split: if_splits)
qed

lemma normalize_floats:
  "normalize_items acc (map (\<lambda>(k, x). (PStr k, py_float x)) xs) = Inr items \<Longrightarrow> (k, x) \<in> set xs \<Longrightarrow> isfinite x"
  by (induction xs arbitrary: acc) (auto simp: rbind_Inr_iff py_float_def split: if_splits)

lemma printable_deltas:
  assumes "printable c"
  shows "float_rows_eq (pv_deltas (lc_current_metric_vector c)) (pv_deltas (lc_current_metric_vector c))"
proof -
  let ?xs = "pv_deltas (lc_current_metric_vector c)"
  from assms obtain items where "normalize_items [] (map (\<lambda>(k, x). (PStr k, py_float x)) ?xs) = Inr items"
    by (auto simp: printable_def values_dict_def is_ok_iff rbind_Inr_iff)
  from normalize_floats [OF this] show ?thesis
    unfolding float_rows_eq_def by (auto simp: list_all2_same float_eq_refl)
qed

lemma check_packet_shed:
  assumes "check_checkpoint c = Inr c" "suffix evidence (lc_new_evidence_refs c)"
    "suffix rejected (lc_rejected_hypothesis_digests c)" "suffix forbidden (lc_forbidden_retries c)"
    "\<not> blank diagnosis" "\<not> blank focus" "printable c" "1 \<le> cp_max_packet_tokens policy"
  defines "p \<equiv> packet_of policy c diagnosis evidence rejected forbidden focus"
  shows "check_packet p = (if fits p then Inr p else Inl (PolicyViolation ''Loop progress packet token budget asildi''))"
proof -
  obtain n where n: "estimated_tokens p = Inr n" using packet_printable [OF assms(7)] unfolding p_def by blast
  have "check_checkpoint (lp_checkpoint p) = Inr (lp_checkpoint p)"
    unfolding p_def packet_of_def using check_checkpoint_shed [OF assms(1-6)] by simp
  moreover have "float_rows_eq (lp_metric_deltas p) (pv_deltas (lc_current_metric_vector (lp_checkpoint p)))"
    using printable_deltas [OF assms(7)] by (simp add: p_def packet_of_def)
  moreover have "\<not> lp_grants_authority p" "lp_max_packet_tokens p = cp_max_packet_tokens policy"
    by (simp_all add: p_def packet_of_def)
  ultimately show ?thesis using n assms(8) by (simp add: check_packet_def fits_def)
qed

text \<open>A text that was stripped stays non-blank when it is cut.\<close>

lemma strip_hd: "strip t \<noteq> [] \<Longrightarrow> \<not> is_space (hd (strip t))"
proof -
  assume "strip t \<noteq> []"
  moreover have "strip t = rstrip (dropWhile is_space t)" by (simp add: strip_def lstrip_def)
  moreover obtain r where "dropWhile is_space t = rstrip (dropWhile is_space t) @ r"
    by (metis rstrip_def rev_rev_ident rev_append takeWhile_dropWhile_id)
  ultimately show ?thesis by (metis hd_append2 hd_dropWhile append_is_Nil_conv)
qed

lemma not_blank_hd: "t \<noteq> [] \<Longrightarrow> \<not> is_space (hd t) \<Longrightarrow> \<not> blank t"
  by (cases t) (auto simp: blank_def strip_def lstrip_def rstrip_def dropWhile_eq_Nil_conv)

lemma bounded_text_Inr:
  assumes "\<not> blank t" "one_line t" "1 \<le> maximum"
  shows "bounded_text t label maximum = Inr (take (nat maximum) (strip t))"
  using assms by (auto simp: bounded_text_def Let_def blank_def one_line_def slice_first_def list_ex_iff list_all_iff)

text \<open>The cut focus keeps its first character.\<close>

definition starts_text :: "string \<Rightarrow> bool" where
  "starts_text t = (t \<noteq> [] \<and> \<not> is_space (hd t))"

lemma starts_text_take: "starts_text t \<Longrightarrow> 0 < n \<Longrightarrow> starts_text (take n t)"
  by (simp add: starts_text_def)

lemma starts_text_not_blank: "starts_text t \<Longrightarrow> \<not> blank t"
  by (simp add: starts_text_def not_blank_hd)

lemma budget_text: "contains_sub ''Loop progress packet token budget asildi'' ''token budget''"
  by code_simp

lemma compile_loop_step:
  assumes "check_checkpoint c = Inr c" "suffix evidence (lc_new_evidence_refs c)"
    "suffix rejected (lc_rejected_hypothesis_digests c)" "suffix forbidden (lc_forbidden_retries c)"
    "\<not> blank diagnosis" "starts_text focus" "printable c" "1 \<le> cp_max_packet_tokens policy"
  shows "compile_loop policy c diagnosis evidence rejected forbidden focus =
    (if fits (packet_of policy c diagnosis evidence rejected forbidden focus)
     then Inr (packet_of policy c diagnosis evidence rejected forbidden focus)
     else if evidence \<noteq> [] then compile_loop policy c diagnosis (tl evidence) rejected forbidden focus
     else if rejected \<noteq> [] then compile_loop policy c diagnosis evidence (tl rejected) forbidden focus
     else if forbidden \<noteq> [] then compile_loop policy c diagnosis evidence rejected (tl forbidden) focus
     else if length focus > 32
     then compile_loop policy c diagnosis evidence rejected forbidden (take (max 32 (length focus div 2)) focus)
     else Inl (PolicyViolation ''Progress packet zorunlu alanlari token budget'e sigmiyor''))"
  by (subst compile_loop.simps, subst check_packet_shed [OF assms(1-5) starts_text_not_blank [OF assms(6)] assms(7,8)])
    (simp only: budget_text sum.case zekam_error.case if_distrib [of "case_sum _ _"] not_True_eq_False if_False split: if_split)

text \<open>What the loop gives up, from the given optional parts.\<close>

definition shed_order ::
  "(string \<times> string) list \<Rightarrow> string list \<Rightarrow> string list \<Rightarrow> string \<Rightarrow> (string \<times> string) list \<Rightarrow> string list \<Rightarrow> string list \<Rightarrow> string \<Rightarrow> bool" where
  "shed_order evidence rejected forbidden focus ev rj fb fo =
     (suffix ev evidence \<and> suffix rj rejected \<and> suffix fb forbidden \<and> prefix fo focus
      \<and> (rj \<noteq> rejected \<longrightarrow> ev = []) \<and> (fb \<noteq> forbidden \<longrightarrow> ev = [] \<and> rj = [])
      \<and> (fo \<noteq> focus \<longrightarrow> ev = [] \<and> rj = [] \<and> fb = [] \<and> 32 \<le> length fo))"

lemma shed_order_refl: "shed_order ev rj fb fo ev rj fb fo"
  by (simp add: shed_order_def)

lemma suffix_tl: "suffix (tl xs) xs"
  by (cases xs) (auto simp: suffix_def)

lemma shed_orderI:
  "evidence \<noteq> [] \<Longrightarrow> shed_order (tl evidence) rejected forbidden focus ev rj fb fo \<Longrightarrow> shed_order evidence rejected forbidden focus ev rj fb fo"
  "shed_order [] (tl rejected) forbidden focus ev rj fb fo \<Longrightarrow> shed_order [] rejected forbidden focus ev rj fb fo"
  "shed_order [] [] (tl forbidden) focus ev rj fb fo \<Longrightarrow> shed_order [] [] forbidden focus ev rj fb fo"
  "32 \<le> n \<Longrightarrow> n \<le> length focus \<Longrightarrow> shed_order [] [] [] (take n focus) ev rj fb fo \<Longrightarrow> shed_order [] [] [] focus ev rj fb fo"
  unfolding shed_order_def
  by (auto intro: suffix_order.trans [OF _ suffix_tl] prefix_order.trans [OF _ take_is_prefix])

lemma compile_loop_outcome:
  assumes "check_checkpoint c = Inr c" "suffix evidence (lc_new_evidence_refs c)"
    "suffix rejected (lc_rejected_hypothesis_digests c)" "suffix forbidden (lc_forbidden_retries c)"
    "\<not> blank diagnosis" "starts_text focus" "printable c" "1 \<le> cp_max_packet_tokens policy"
  shows "\<exists>ev rj fb fo. shed_order evidence rejected forbidden focus ev rj fb fo
    \<and> (compile_loop policy c diagnosis evidence rejected forbidden focus = Inr (packet_of policy c diagnosis ev rj fb fo)
         \<and> fits (packet_of policy c diagnosis ev rj fb fo)
         \<and> (fits (packet_of policy c diagnosis evidence rejected forbidden focus) \<longrightarrow> (ev, rj, fb, fo) = (evidence, rejected, forbidden, focus))
       \<or> compile_loop policy c diagnosis evidence rejected forbidden focus
           = Inl (PolicyViolation ''Progress packet zorunlu alanlari token budget'e sigmiyor'')
         \<and> ev = [] \<and> rj = [] \<and> fb = [] \<and> length fo \<le> 32 \<and> \<not> fits (packet_of policy c diagnosis [] [] [] fo))"
  using assms(2-4,6)
proof (induction "length evidence + length rejected + length forbidden + length focus"
    arbitrary: evidence rejected forbidden focus rule: less_induct)
  case less
  note step = compile_loop_step [OF assms(1) less.prems(1-3) assms(5) less.prems(4) assms(7,8)]
  consider "fits (packet_of policy c diagnosis evidence rejected forbidden focus)"
    | "\<not> fits (packet_of policy c diagnosis evidence rejected forbidden focus)" "evidence \<noteq> []"
    | "\<not> fits (packet_of policy c diagnosis evidence rejected forbidden focus)" "evidence = []" "rejected \<noteq> []"
    | "\<not> fits (packet_of policy c diagnosis evidence rejected forbidden focus)" "evidence = []" "rejected = []" "forbidden \<noteq> []"
    | "\<not> fits (packet_of policy c diagnosis evidence rejected forbidden focus)" "evidence = []" "rejected = []" "forbidden = []"
      "32 < length focus"
    | "\<not> fits (packet_of policy c diagnosis evidence rejected forbidden focus)" "evidence = []" "rejected = []" "forbidden = []"
      "length focus \<le> 32"
    by linarith
  then show ?case
  proof cases
    case 1
    then show ?thesis using step shed_order_refl by (intro exI [of _ evidence] exI [of _ rejected] exI [of _ forbidden] exI [of _ focus]) simp
  next
    case 2
    then have "suffix (tl evidence) (lc_new_evidence_refs c)" using less.prems(1) suffix_tl suffix_order.trans by blast
    from less.hyps [OF _ this less.prems(2-4)] 2 step show ?thesis
      using shed_orderI(1) [OF 2(2)] by simp blast
  next
    case 3
    then have "suffix (tl rejected) (lc_rejected_hypothesis_digests c)" using less.prems(2) suffix_tl suffix_order.trans by blast
    from less.hyps [OF _ less.prems(1) this less.prems(3,4)] 3 step show ?thesis
      using shed_orderI(2) by simp blast
  next
    case 4
    then have "suffix (tl forbidden) (lc_forbidden_retries c)" using less.prems(3) suffix_tl suffix_order.trans by blast
    from less.hyps [OF _ less.prems(1,2) this less.prems(4)] 4 step show ?thesis
      using shed_orderI(3) by simp blast
  next
    case 5
    let ?n = "max 32 (length focus div 2)"
    have n: "32 \<le> ?n" "?n < length focus" using 5(5) by auto
    have "starts_text (take ?n focus)" using starts_text_take [OF less.prems(4)] n by simp
    from less.hyps [OF _ less.prems(1-3) this] 5 n step show ?thesis
      using shed_orderI(4) [OF n(1) less_imp_le [OF n(2)]] by simp blast
  next
    case 6
    then show ?thesis using step shed_order_refl by (intro exI [of _ "[]"] exI [of _ focus]) simp
  qed
qed

lemma shed_focus:
  assumes "shed_order evidence rejected forbidden focus ev rj fb fo" "starts_text focus"
  shows "starts_text fo"
proof -
  have "prefix fo focus" "fo \<noteq> []" using assms by (auto simp: shed_order_def starts_text_def)
  with assms(2) show ?thesis by (auto simp: starts_text_def prefix_def)
qed

lemma limited_suffix: "0 \<le> n \<Longrightarrow> suffix (limited n xs) xs \<and> int (length (limited n xs)) \<le> n"
  by (auto simp: limited_def slice_last_def suffix_drop)

lemma check_compiler_policy_Inr:
  assumes "check_compiler_policy p = Inr q"
  shows "128 \<le> cp_max_packet_tokens p \<and> 0 \<le> cp_max_rejected_hypotheses p \<and> 0 \<le> cp_max_new_evidence_refs p
    \<and> 0 \<le> cp_max_forbidden_retries p \<and> 1 \<le> cp_max_focus_characters p \<and> 1 \<le> cp_max_reference_characters p"
  using assms by (auto simp: check_compiler_policy_def split: if_splits)

lemma checked_texts:
  "check_checkpoint c = Inr c \<Longrightarrow> \<not> blank (lc_next_allowed_focus c) \<and> \<not> blank (lc_validator_diagnosis_ref c)"
  by (auto simp: check_checkpoint_def rbind_Inr_iff split: if_splits)

lemma cut_text_starts: "\<not> blank t \<Longrightarrow> 1 \<le> n \<Longrightarrow> starts_text (take (nat n) (strip t))"
  using strip_hd [of t] by (intro starts_text_take) (auto simp: starts_text_def blank_def)

text \<open>C15. The compiler of progress packets always stops. Whatever the budget, it first cuts the lists of evidence,
  of rejected hypotheses and of forbidden retries to as many of their last entries as the policy allows, and the
  focus and the diagnosis to their numbers of characters. From a checked policy and a checked, printable
  checkpoint whose texts have one line it then returns a packet that passes its own check and is within the
  token budget, or says that the mandatory fields alone exceed it. Of what the cuts have left only optional
  parts are given up for the budget: evidence from the front of its list first, then rejected hypotheses from
  the front, then forbidden retries, and the end of the focus last, and none of them when the packet with all
  of them fits.\<close>

theorem packet_compiler_stops:
  assumes "check_compiler_policy policy = Inr policy" "check_checkpoint c = Inr c" "printable c"
    "one_line (lc_next_allowed_focus c)" "one_line (lc_validator_diagnosis_ref c)"
  defines "evidence \<equiv> limited (cp_max_new_evidence_refs policy) (lc_new_evidence_refs c)"
    and "rejected \<equiv> limited (cp_max_rejected_hypotheses policy) (lc_rejected_hypothesis_digests c)"
    and "forbidden \<equiv> limited (cp_max_forbidden_retries policy) (lc_forbidden_retries c)"
    and "focus \<equiv> take (nat (cp_max_focus_characters policy)) (strip (lc_next_allowed_focus c))"
    and "diagnosis \<equiv> take (nat (cp_max_reference_characters policy)) (strip (lc_validator_diagnosis_ref c))"
  shows "\<exists>ev rj fb fo. shed_order evidence rejected forbidden focus ev rj fb fo
    \<and> (compile_packet policy c = Inr (packet_of policy c diagnosis ev rj fb fo)
         \<and> check_packet (packet_of policy c diagnosis ev rj fb fo) = Inr (packet_of policy c diagnosis ev rj fb fo)
         \<and> fits (packet_of policy c diagnosis ev rj fb fo)
         \<and> (fits (packet_of policy c diagnosis evidence rejected forbidden focus) \<longrightarrow> (ev, rj, fb, fo) = (evidence, rejected, forbidden, focus))
       \<or> compile_packet policy c = Inl (PolicyViolation ''Progress packet zorunlu alanlari token budget'e sigmiyor'')
         \<and> length fo \<le> 32 \<and> \<not> fits (packet_of policy c diagnosis [] [] [] fo))"
proof -
  note pol = check_compiler_policy_Inr [OF assms(1)] and texts = checked_texts [OF assms(2)]
  have start: "starts_text focus" "starts_text diagnosis" unfolding focus_def diagnosis_def using pol texts cut_text_starts by blast+
  then have diag: "\<not> blank diagnosis" by (simp add: starts_text_not_blank)
  have suf: "suffix evidence (lc_new_evidence_refs c)" "suffix rejected (lc_rejected_hypothesis_digests c)"
    "suffix forbidden (lc_forbidden_retries c)"
    unfolding evidence_def rejected_def forbidden_def using pol limited_suffix by blast+
  have run: "compile_packet policy c = compile_loop policy c diagnosis evidence rejected forbidden focus"
    unfolding compile_packet_def assms(2) focus_def diagnosis_def evidence_def rejected_def forbidden_def
    using pol texts assms(4,5) by (simp add: bounded_text_Inr)
  have b: "1 \<le> cp_max_packet_tokens policy" using pol by simp
  obtain ev rj fb fo where out: "shed_order evidence rejected forbidden focus ev rj fb fo"
    "compile_loop policy c diagnosis evidence rejected forbidden focus = Inr (packet_of policy c diagnosis ev rj fb fo)
         \<and> fits (packet_of policy c diagnosis ev rj fb fo)
         \<and> (fits (packet_of policy c diagnosis evidence rejected forbidden focus) \<longrightarrow> (ev, rj, fb, fo) = (evidence, rejected, forbidden, focus))
       \<or> compile_loop policy c diagnosis evidence rejected forbidden focus
           = Inl (PolicyViolation ''Progress packet zorunlu alanlari token budget'e sigmiyor'')
         \<and> ev = [] \<and> rj = [] \<and> fb = [] \<and> length fo \<le> 32 \<and> \<not> fits (packet_of policy c diagnosis [] [] [] fo)"
    using compile_loop_outcome [OF assms(2) suf diag start(1) assms(3) b] by blast
  have "starts_text fo" by (rule shed_focus [OF out(1) start(1)])
  moreover have "suffix ev (lc_new_evidence_refs c)" "suffix rj (lc_rejected_hypothesis_digests c)" "suffix fb (lc_forbidden_retries c)"
    using out(1) suf by (auto simp: shed_order_def dest: suffix_order.trans)
  ultimately have "fits (packet_of policy c diagnosis ev rj fb fo) \<Longrightarrow>
      check_packet (packet_of policy c diagnosis ev rj fb fo) = Inr (packet_of policy c diagnosis ev rj fb fo)"
    using check_packet_shed [OF assms(2) _ _ _ diag _ assms(3) b] starts_text_not_blank by simp
  with out show ?thesis unfolding run by blast
qed

end
