(* ===== verification/Scheduler.thy ===== *)
theory Scheduler
  imports Runtime Histories Complex_Main
begin

text \<open>
  The scheduler's domain (\<^verbatim>\<open>domain/scheduler.py\<close>): intervals, durable job definitions, the
  trigger decision, routing of incoming documents, the daily report and the night budget.
  Instants are microseconds since the epoch; durations are microseconds.
\<close>

section \<open>Schedules\<close>

datatype scheduler_state = SS_ACTIVE | SS_PAUSED | SS_CANCELLED

fun scheduler_state_value :: "scheduler_state \<Rightarrow> string" where
  "scheduler_state_value SS_ACTIVE = ''active''"
| "scheduler_state_value SS_PAUSED = ''paused''"
| "scheduler_state_value SS_CANCELLED = ''cancelled''"

datatype misfire_policy = RUN_ONCE | SKIP_VISIBLE

datatype overlap_policy = OVERLAP_SKIP | OVERLAP_QUEUE

definition STABLE_AFTER_SECONDS :: int where "STABLE_AFTER_SECONDS = 5"
definition MAX_MISFIRE_CATCHUP :: int where "MAX_MISFIRE_CATCHUP = 1"

text \<open>The groups of \<^verbatim>\<open>^(?P<value>[1-9]\d*)(?P<unit>[mhd])$\<close>, where \<open>$\<close> also matches before a
  final line feed.\<close>

definition interval_shape :: "string \<Rightarrow> bool" where
  "interval_shape s = (length s \<ge> 2 \<and> last s \<in> set ''mhd'' \<and> hd s \<noteq> CHR ''0''
     \<and> list_all is_digit09 (butlast s))"

definition interval_match :: "string \<Rightarrow> (string \<times> char) option" where
  "interval_match s =
     (if interval_shape s then Some (butlast s, last s)
      else if s \<noteq> [] \<and> last s = CHR 0x0A \<and> interval_shape (butlast s)
      then Some (butlast (butlast s), last (butlast s))
      else None)"

definition digits_value :: "string \<Rightarrow> int" where
  "digits_value s = foldl (\<lambda>n c. n * 10 + (of_char c - 48)) 0 s"

record schedule =
  sc_interval :: string
  sc_timezone :: string

definition check_schedule :: "schedule \<Rightarrow> schedule res" where
  "check_schedule s =
     (if interval_match (sc_interval s) = None
      then Inl (ValidationFailed ''aralik '<sayi><m|h|d>' bicimde olmali'')
      else if blank (sc_timezone s) then Inl (ValidationFailed ''timezone bos olamaz'')
      else Inr s)"

text \<open>\<^verbatim>\<open>int\<close> refuses more than 4300 digits, and a \<^verbatim>\<open>timedelta\<close> holds at most 999999999 days.\<close>

definition delta :: "schedule \<Rightarrow> int res" where
  "delta s =
     (case interval_match (sc_interval s) of
        None \<Rightarrow> Inl (PyError ''AssertionError'')
      | Some (digits, u) \<Rightarrow>
        if length digits > 4300 then Inl (PyError ''ValueError'')
        else let value = digits_value digits;
                 minutes = (if u = CHR ''m'' then value else if u = CHR ''h'' then value * 60
                   else value * 1440)
             in if minutes div 1440 > 999999999 then Inl (PyError ''OverflowError'')
                else Inr (minutes * 60000000))"

definition next_after :: "schedule \<Rightarrow> pydatetime \<Rightarrow> int res" where
  "next_after s moment =
     (case moment of Naive \<Rightarrow> Inl (ValidationFailed ''zaman damgasi timezone-aware olmali'')
      | Aware t \<Rightarrow> rbind (delta s) (add_delta t))"

text \<open>The quotient of two durations is a double, the exact quotient rounded to 53 bits; truncating
  it gives the integer quotient, or one more when the quotient rounds up to an integer.\<close>

fun bit_length :: "nat \<Rightarrow> nat" where
  "bit_length n = (if n = 0 then 0 else Suc (bit_length (n div 2)))"

declare bit_length.simps [simp del]

definition float_quotient :: "int \<Rightarrow> int \<Rightarrow> int" where
  "float_quotient a b =
     (let q = a div b; r = a mod b in
      if 0 < r \<and> 2 ^ (54 - bit_length (nat q)) * (b - r) \<le> b then q + 1 else q)"

definition missed_between :: "schedule \<Rightarrow> int \<Rightarrow> int \<Rightarrow> int res" where
  "missed_between s last_at now =
     (if now \<le> last_at then Inr 0 else rbind (delta s) (\<lambda>d. Inr (float_quotient (now - last_at) d)))"

section \<open>Job definitions\<close>

record job_definition =
  jd_job_name :: string
  jd_schedule :: schedule
  jd_state :: scheduler_state
  jd_misfire :: misfire_policy
  jd_overlap :: overlap_policy
  jd_payload_digest :: "string option"

definition check_definition :: "job_definition \<Rightarrow> job_definition res" where
  "check_definition d =
     (if blank (jd_job_name d) then Inl (ValidationFailed ''is adi bos olamaz'')
      else case jd_payload_digest d of None \<Rightarrow> Inr d | Some p \<Rightarrow> rbind (parse_digest p) (\<lambda>_. Inr d))"

definition is_runnable :: "job_definition \<Rightarrow> bool" where
  "is_runnable d = (jd_state d = SS_ACTIVE)"

definition pause :: "job_definition \<Rightarrow> job_definition res" where
  "pause d = (if jd_state d = SS_CANCELLED
     then Inl (PolicyViolation ''iptal edilmis is duraklatilamaz'')
     else check_definition (d\<lparr>jd_state := SS_PAUSED\<rparr>))"

definition resume :: "job_definition \<Rightarrow> job_definition res" where
  "resume d = (if jd_state d \<noteq> SS_PAUSED
     then Inl (PolicyViolation ''yalniz duraklatilmis is devam ettirilir'')
     else check_definition (d\<lparr>jd_state := SS_ACTIVE\<rparr>))"

definition cancel :: "job_definition \<Rightarrow> job_definition res" where
  "cancel d = check_definition (d\<lparr>jd_state := SS_CANCELLED\<rparr>)"

definition idempotency_key :: "job_definition \<Rightarrow> int \<Rightarrow> string res" where
  "idempotency_key d scheduled_for = digest (PDict
     [(PStr ''job'', PStr (jd_job_name d)),
      (PStr ''scheduled_for'', PStr (iso_utc scheduled_for @ ''+00:00'')),
      (PStr ''payload'', opt_text (jd_payload_digest d))])"

section \<open>The trigger decision\<close>

record trigger_plan =
  tr_should_run :: bool
  tr_scheduled_for :: "int option"
  tr_idempotency_key :: "string option"
  tr_missed :: int
  tr_reason :: string

definition no_run :: "int option \<Rightarrow> string option \<Rightarrow> int \<Rightarrow> string \<Rightarrow> trigger_plan" where
  "no_run scheduled key missed reason = \<lparr>tr_should_run = False, tr_scheduled_for = scheduled,
     tr_idempotency_key = key, tr_missed = missed, tr_reason = reason\<rparr>"

text \<open>The part of \<^verbatim>\<open>plan_trigger\<close> after the instant is fixed.\<close>

definition decide_trigger ::
  "job_definition \<Rightarrow> bool \<Rightarrow> string list \<Rightarrow> int \<Rightarrow> int \<Rightarrow> trigger_plan res" where
  "decide_trigger d running known_keys scheduled missed =
     (if running \<and> jd_overlap d = OVERLAP_SKIP
      then Inr (no_run None None missed ''onceki calisma surdugu icin atlandi'')
      else rbind (idempotency_key d scheduled) (\<lambda>key.
        if key \<in> set known_keys
        then Inr (no_run (Some scheduled) (Some key) missed ''ayni tetikleme zaten kaydedildi'')
        else Inr \<lparr>tr_should_run = True, tr_scheduled_for = Some scheduled,
          tr_idempotency_key = Some key, tr_missed = missed, tr_reason = ''calistirilabilir''\<rparr>))"

definition plan_trigger ::
  "job_definition \<Rightarrow> int option \<Rightarrow> pydatetime \<Rightarrow> bool \<Rightarrow> string list \<Rightarrow> trigger_plan res" where
  "plan_trigger d last_run_at now_at running known_keys =
     (case now_at of
        Naive \<Rightarrow> Inl (ValidationFailed ''zaman damgasi timezone-aware olmali'')
      | Aware now \<Rightarrow>
        if \<not> is_runnable d
        then Inr (no_run None None 0 (''is '' @ scheduler_state_value (jd_state d) @ '' durumunda''))
        else case last_run_at of
          None \<Rightarrow> decide_trigger d running known_keys now 0
        | Some last_at \<Rightarrow>
          rbind (missed_between (jd_schedule d) last_at now) (\<lambda>missed.
            if missed = 0 then Inr (no_run None None 0 ''sonraki calisma zamani gelmedi'')
            else if missed > MAX_MISFIRE_CATCHUP \<and> jd_misfire d = SKIP_VISIBLE
            then Inr (no_run None None missed (int_str missed @ '' calisma kacirildi ve atlandi''))
            else rbind (delta (jd_schedule d)) (\<lambda>step.
              rbind (add_delta last_at (step * missed)) (\<lambda>scheduled.
                decide_trigger d running known_keys scheduled missed))))"

section \<open>Incoming documents\<close>

record incoming_document =
  id_relative_path :: string
  id_content_digest :: string
  id_byte_size :: int
  id_last_modified :: int
  id_observed_at :: int

text \<open>\<^verbatim>\<open>PureWindowsPath(value).is_absolute()\<close> for a text without backslashes that does not start
  with a slash; \<^verbatim>\<open>PurePosixPath(value).parts\<close> without empty and dot segments.\<close>

definition windows_absolute :: "string \<Rightarrow> bool" where
  "windows_absolute s = (length s \<ge> 3 \<and> s ! 1 = CHR '':'' \<and> s ! 2 = CHR ''/'')"

definition check_document :: "incoming_document \<Rightarrow> incoming_document res" where
  "check_document d = rbind (parse_digest (id_content_digest d)) (\<lambda>_.
     let value = id_relative_path d in
     if id_byte_size d \<le> 0 then Inl (ValidationFailed ''bos dosya yonlendirilmez'')
     else if CHR 0x5C \<in> set value \<or> starts_with value ''/'' \<or> windows_absolute value
     then Inl (PolicyViolation ''gelen belge yolu portable olmali'')
     else if ''..'' \<in> set (path_segments value)
     then Inl (PolicyViolation ''gelen belge yolu traversal tasiyamaz'')
     else Inr d)"

definition is_stable :: "incoming_document \<Rightarrow> bool" where
  "is_stable d = (id_observed_at d - id_last_modified d \<ge> STABLE_AFTER_SECONDS * 1000000)"

datatype route_decision = RD_ACCEPTED | RD_DUPLICATE | RD_UNSTABLE | RD_CHOICE_REQUIRED | RD_REJECTED

record route_result =
  rt_document :: incoming_document
  rt_decision :: route_decision
  rt_target :: "string option"
  rt_detail :: string
  rt_options :: "string list"

definition make_route ::
  "incoming_document \<Rightarrow> route_decision \<Rightarrow> string option \<Rightarrow> string \<Rightarrow> string list \<Rightarrow> route_result res" where
  "make_route d decision target detail options =
     (if decision = RD_ACCEPTED \<and> (target = None \<or> target = Some '''')
      then Inl (ValidationFailed ''kabul edilen belge hedef ister'')
      else if decision = RD_CHOICE_REQUIRED \<and> length options < 2
      then Inl (ValidationFailed ''secim gerektiren karar en az iki secenek ister'')
      else Inr \<lparr>rt_document = d, rt_decision = decision, rt_target = target, rt_detail = detail,
        rt_options = options\<rparr>)"

definition route_document :: "incoming_document \<Rightarrow> string list \<Rightarrow> string list \<Rightarrow> route_result res" where
  "route_document d known_digests targets =
     (if \<not> is_stable d then make_route d RD_UNSTABLE None ''dosya hala yaziliyor'' []
      else if id_content_digest d \<in> set known_digests
      then make_route d RD_DUPLICATE None ''ayni icerik daha once islendi'' []
      else if targets = [] then make_route d RD_REJECTED None ''uygun hedef bulunamadi'' []
      else if length targets > 1
      then make_route d RD_CHOICE_REQUIRED None ''birden fazla hedef eslesti; secim gerekiyor'' (sort targets)
      else make_route d RD_ACCEPTED (Some (hd targets)) ''tek hedef eslesti'' [])"

section \<open>Reports, incidents and budgets\<close>

record report_section =
  rs_title :: string
  rs_lines :: "string list"

definition check_section :: "report_section \<Rightarrow> report_section res" where
  "check_section s = (if blank (rs_title s) then Inl (ValidationFailed ''bolum basligi bos olamaz'') else Inr s)"

definition REQUIRED_REPORT_SECTIONS :: "string list" where
  "REQUIRED_REPORT_SECTIONS =
     [''tamamlanan-isler'', ''aktif-lease-ve-recovery'', ''subagent-model-dagilimi'',
      ''okunan-kaynaklar'', ''token-cost-latency-quota'', ''model-health-benchmark'',
      ''memory-skill-adaylari'', ''retrieval-index-sorunlari'', ''security-policy-olaylari'',
      ''onerilen-next-actions'']"

record daily_report =
  dr_generated_at :: pydatetime
  dr_scope :: string
  dr_sections :: "(string \<times> report_section) list"
  dr_grants_authority :: bool

definition check_report :: "daily_report \<Rightarrow> daily_report res" where
  "check_report r =
     (if dr_grants_authority r then Inl (PolicyViolation ''rapor authority veremez'')
      else let missing = filter (\<lambda>name. name \<notin> fst ` set (dr_sections r)) REQUIRED_REPORT_SECTIONS in
        if missing \<noteq> []
        then Inl (ValidationFailed (''raporda eksik bolum: '' @ join_with '', '' missing))
        else if dr_generated_at r = Naive
        then Inl (ValidationFailed ''zaman damgasi timezone-aware olmali'')
        else Inr r)"

definition section_as_dict :: "report_section \<Rightarrow> pyval" where
  "section_as_dict s = PDict [(PStr ''title'', PStr (rs_title s)), (PStr ''lines'', PList (map PStr (rs_lines s)))]"

definition report_body :: "daily_report \<Rightarrow> pyval" where
  "report_body r = PDict
     [(PStr ''schema'', PStr ''zekam-daily-report/v1''),
      (PStr ''scope'', PStr (dr_scope r)),
      (PStr ''sections'', PDict (map (\<lambda>(name, s). (PStr name, section_as_dict s))
         (sort_key fst (dr_sections r)))),
      (PStr ''grants_authority'', PBool False)]"

definition report_digest :: "daily_report \<Rightarrow> string res" where
  "report_digest r = digest (report_body r)"

text \<open>\<^verbatim>\<open>to_markdown\<close>; the lookup of a missing section raises \<^verbatim>\<open>KeyError\<close>.\<close>

definition section_lines :: "daily_report \<Rightarrow> string \<Rightarrow> string list res" where
  "section_lines r name =
     (case map_of (dr_sections r) name of
        None \<Rightarrow> Inl (PyError ''KeyError'')
      | Some s \<Rightarrow> Inr ([''## '' @ rs_title s]
          @ map (\<lambda>item. ''- '' @ item) (if rs_lines s = [] then [''kayit yok''] else rs_lines s)
          @ ['''']))"

definition to_markdown :: "daily_report \<Rightarrow> string res" where
  "to_markdown r = rbind (rmap (section_lines r) REQUIRED_REPORT_SECTIONS) (\<lambda>parts.
     Inr (join_with [CHR 0x0A]
       ([''# Zekam gunluk rapor ('' @ dr_scope r @ '')'', ''''] @ concat parts)))"

record scheduler_incident =
  si_job_name :: string
  si_kind :: string
  si_detail :: string
  si_next_safe_action :: string

definition check_incident :: "scheduler_incident \<Rightarrow> scheduler_incident res" where
  "check_incident i =
     (if si_kind i \<notin> set [''misfire'', ''overlap'', ''failure'', ''recovery-required'']
      then Inl (ValidationFailed ''olay turu taninmiyor'')
      else if blank (si_next_safe_action i)
      then Inl (ValidationFailed ''olay bir sonraki guvenli adimi bildirmeli'')
      else Inr i)"

definition REQUIRED_JOBS :: "string list" where
  "REQUIRED_JOBS =
     [''gelen-belgeler'', ''project-incremental-scan'', ''model-health'', ''benchmark-staleness'',
      ''memory-hygiene'', ''recovery-scan'', ''stale-index-scan'', ''academic-comparison'',
      ''night-research'', ''daily-report'', ''backup-verify'', ''retention-review'',
      ''diagnostic-trace-purge'', ''chaos-campaign'', ''memory-candidate-compile'']"

definition REQUIRED_JOB_INTERVALS :: "(string \<times> string) list" where
  "REQUIRED_JOB_INTERVALS =
     [(''gelen-belgeler'', ''5m''), (''project-incremental-scan'', ''1h''), (''model-health'', ''6h''),
      (''benchmark-staleness'', ''1d''), (''memory-hygiene'', ''1d''), (''recovery-scan'', ''15m''),
      (''stale-index-scan'', ''1d''), (''academic-comparison'', ''1d''), (''night-research'', ''1d''),
      (''daily-report'', ''1d''), (''backup-verify'', ''1d''), (''retention-review'', ''7d''),
      (''diagnostic-trace-purge'', ''1d''), (''chaos-campaign'', ''7d''),
      (''memory-candidate-compile'', ''5m'')]"

definition missing_required_jobs :: "string list \<Rightarrow> string list" where
  "missing_required_jobs defined = filter (\<lambda>name. name \<notin> set defined) REQUIRED_JOBS"

definition required_job_definitions :: "job_definition list res" where
  "required_job_definitions =
     (let eksik = filter (\<lambda>name. name \<notin> fst ` set REQUIRED_JOB_INTERVALS) REQUIRED_JOBS in
      if eksik \<noteq> []
      then Inl (ValidationFailed (''zorunlu is icin varsayilan aralik yok: '' @ join_with '', '' eksik))
      else rmap (\<lambda>name. rbind (check_schedule \<lparr>sc_interval = the (map_of REQUIRED_JOB_INTERVALS name),
            sc_timezone = ''UTC''\<rparr>)
          (\<lambda>s. check_definition \<lparr>jd_job_name = name, jd_schedule = s, jd_state = SS_ACTIVE,
            jd_misfire = RUN_ONCE, jd_overlap = OVERLAP_SKIP, jd_payload_digest = None\<rparr>))
        REQUIRED_JOBS)"

text \<open>A double: not a number, an infinity or a rational. Every comparison with a value that is not
  a number is false.\<close>

datatype pynumber = NaN | NegInf | Fin rat | PosInf

fun number_le :: "pynumber \<Rightarrow> pynumber \<Rightarrow> bool" where
  "number_le NaN _ = False"
| "number_le _ NaN = False"
| "number_le NegInf _ = True"
| "number_le _ PosInf = True"
| "number_le (Fin a) (Fin b) = (a \<le> b)"
| "number_le _ _ = False"

definition number_less :: "pynumber \<Rightarrow> pynumber \<Rightarrow> bool" where
  "number_less a b = (number_le a b \<and> \<not> number_le b a)"

record night_budget =
  nb_max_tokens :: int
  nb_max_cost_units :: int
  nb_max_minutes :: int
  nb_quota_floor :: pynumber

definition check_budget :: "night_budget \<Rightarrow> night_budget res" where
  "check_budget b =
     (if min (nb_max_tokens b) (min (nb_max_cost_units b) (nb_max_minutes b)) \<le> 0
      then Inl (ValidationFailed ''butce degerleri pozitif olmali'')
      else if \<not> (number_le (Fin 0) (nb_quota_floor b) \<and> number_le (nb_quota_floor b) (Fin 1))
      then Inl (ValidationFailed ''kota tabani 0..1 araliginda olmali'')
      else Inr b)"

definition permits :: "night_budget \<Rightarrow> pynumber option \<Rightarrow> bool \<times> string" where
  "permits b remaining_quota =
     (case remaining_quota of
        None \<Rightarrow> (False, ''kota bilinmiyor; tahmin edilmez'')
      | Some q \<Rightarrow>
        if number_less q (nb_quota_floor b) then (False, ''kalan kota tabanin altinda'')
        else (True, ''butce ve kota uygun''))"

definition runnable :: "job_definition list \<Rightarrow> job_definition list" where
  "runnable definitions = filter is_runnable definitions"

section \<open>Lemmas\<close>

datatype schedule_event = Pause | Resume | Cancel

fun schedule_exec :: "job_definition \<Rightarrow> schedule_event \<Rightarrow> job_definition res" where
  "schedule_exec d Pause = pause d"
| "schedule_exec d Resume = resume d"
| "schedule_exec d Cancel = cancel d"

lemma check_definition_Inr:
  "check_definition d = Inr e \<longleftrightarrow> e = d \<and> \<not> blank (jd_job_name d)
     \<and> (case jd_payload_digest d of None \<Rightarrow> True | Some p \<Rightarrow> valid_digest p)"
  by (auto simp: check_definition_def is_ok_iff rbind_Inr_iff split: option.splits)

lemma schedule_exec_Inr:
  "schedule_exec d e = Inr d' \<Longrightarrow> \<exists>s. d' = d\<lparr>jd_state := s\<rparr> \<and> \<not> blank (jd_job_name d)"
  by (cases e) (auto simp: pause_def resume_def cancel_def check_definition_Inr split: if_splits)

text \<open>The cancelled state is never left: the rank of a definition is whether it is cancelled.\<close>

definition named :: "job_definition \<Rightarrow> bool" where
  "named d = (\<not> blank (jd_job_name d))"

interpretation schedules: ranked_system schedule_exec named "\<lambda>d. jd_state d = SS_CANCELLED"
proof
  fix d d' :: job_definition and e
  assume e: "schedule_exec d e = Inr d'"
  from schedule_exec_Inr [OF e] show "named d'" by (auto simp: named_def)
  from e show "(jd_state d = SS_CANCELLED) \<le> (jd_state d' = SS_CANCELLED)"
    by (cases e) (auto simp: pause_def resume_def cancel_def check_definition_Inr)
qed

lemma bit_length_lower: "n \<noteq> 0 \<Longrightarrow> 2 ^ (bit_length n - 1) \<le> n"
proof (induction n rule: bit_length.induct)
  case (1 n)
  show ?case
  proof (cases "n div 2 = 0")
    case True
    then show ?thesis using 1(2) by (simp add: bit_length.simps [of n] bit_length.simps [of 0])
  next
    case False
    from 1(1) [OF 1(2) False] have "2 * 2 ^ (bit_length (n div 2) - 1) \<le> n" by linarith
    moreover have "bit_length (n div 2) > 0" using False by (simp add: bit_length.simps [of "n div 2"])
    ultimately show ?thesis using 1(2)
      by (simp add: bit_length.simps [of n] power_Suc [symmetric] del: power_Suc)
  qed
qed

text \<open>Below 2^53 microseconds (285 years) the rounding of the quotient never reaches the next
  integer.\<close>

lemma float_quotient_exact:
  assumes "0 \<le> a" "0 < b" "a < 2 ^ 53"
  shows "float_quotient a b = a div b"
proof -
  have False if up: "0 < a mod b" "2 ^ (54 - bit_length (nat (a div b))) * (b - a mod b) \<le> b"
  proof -
    define q r e where "q = a div b" and "r = a mod b" and "e = bit_length (nat q)"
    have a: "a = q * b + r" by (simp add: q_def r_def)
    have r: "0 < r" "r < b" using up assms(2) by (auto simp: r_def)
    have le: "(2 :: int) ^ (54 - e) * (b - r) \<le> b" using up by (simp add: e_def q_def r_def)
    have q0: "0 \<le> q" using assms by (simp add: q_def pos_imp_zdiv_nonneg_iff)
    have "(2 :: int) ^ (54 - e) * 1 \<le> 2 ^ (54 - e) * (b - r)" using r by (intro mult_left_mono) auto
    with le have b: "2 ^ (54 - e) \<le> b" by linarith
    show False
    proof (cases "q = 0")
      case True
      then have "e = 0" by (simp add: e_def bit_length.simps)
      with le b have "2 ^ 54 * (b - r) \<le> b" "2 ^ 54 \<le> b" by auto
      with r have "2 ^ 53 \<le> r" by simp
      with a True assms(3) show False by simp
    next
      case False
      with q0 bit_length_lower [of "nat q"] have "int (2 ^ (e - 1)) \<le> int (nat q)"
        unfolding e_def by (intro zle_int [THEN iffD2]) simp
      then have q: "2 ^ (e - 1) \<le> q" using q0 by simp
      have e: "0 < e" using False q0 by (simp add: e_def bit_length.simps [of "nat q"])
      have "(2 :: int) ^ 53 \<le> 2 ^ (e - 1) * 2 ^ (54 - e)"
        unfolding power_add [symmetric] using e by (intro power_increasing) auto
      also have "\<dots> \<le> q * b" using q b q0 by (intro mult_mono) auto
      also have "\<dots> < a" using a r by simp
      finally show False using assms(3) by simp
    qed
  qed
  then show ?thesis by (auto simp: float_quotient_def Let_def)
qed

lemma digits_value_pos:
  assumes "s \<noteq> []" "hd s \<noteq> CHR ''0''" "list_all is_digit09 s"
  shows "0 < digits_value s"
proof -
  have ge: "(48 :: int) \<le> of_char c" if "is_digit09 c" for c
  proof -
    have "(48 :: nat) \<le> of_char c" using that by (simp add: is_digit09_def less_eq_char_def)
    then have "int 48 \<le> int (of_char c)" by (rule zle_int [THEN iffD2])
    then show ?thesis by (simp only: of_nat_of_char of_nat_numeral)
  qed
  have mono: "n \<le> foldl (\<lambda>n c. n * 10 + (of_char c - 48)) n t"
    if "list_all is_digit09 t" "0 \<le> n" for n :: int and t :: string
    using that
  proof (induction t arbitrary: n)
    case (Cons c t)
    from Cons.prems ge [of c] have c: "n \<le> n * 10 + (of_char c - 48)" by simp
    from Cons.IH [of "n * 10 + (of_char c - 48)"] Cons.prems c show ?case by simp
  qed simp
  obtain c t where s: "s = c # t" using assms(1) by (cases s) auto
  have "(of_char c :: int) \<noteq> of_char (CHR ''0'')" using assms(2) s by (simp del: of_char_Char)
  with ge [of c] assms(3) s have "0 < (of_char c - 48 :: int)" by simp
  also have "\<dots> \<le> digits_value s" using mono [of t "of_char c - 48"] assms(3) ge [of c]
    by (simp add: digits_value_def s)
  finally show ?thesis .
qed

lemma interval_match_groups:
  "interval_match s = Some (ds, u) \<Longrightarrow>
     ds \<noteq> [] \<and> hd ds \<noteq> CHR ''0'' \<and> list_all is_digit09 ds \<and> u \<in> set ''mhd''"
proof -
  have "interval_shape t \<Longrightarrow> butlast t \<noteq> [] \<and> hd (butlast t) \<noteq> CHR ''0''
      \<and> list_all is_digit09 (butlast t) \<and> last t \<in> set ''mhd''" for t
    by (cases t; cases "tl t") (auto simp: interval_shape_def)
  then show "interval_match s = Some (ds, u) \<Longrightarrow> ?thesis"
    unfolding interval_match_def by (metis (no_types, lifting) option.distinct(1) option.inject prod.inject)
qed

lemma delta_pos: "delta s = Inr d \<Longrightarrow> 0 < d"
proof -
  assume d: "delta s = Inr d"
  then obtain ds u where m: "interval_match (sc_interval s) = Some (ds, u)"
    by (auto simp: delta_def split: option.splits)
  have "0 < digits_value ds" using digits_value_pos interval_match_groups [OF m] by blast
  with d m show "0 < d" by (auto simp: delta_def Let_def split: if_splits)
qed

lemma decide_trigger_run:
  "decide_trigger d running known scheduled missed = Inr p \<Longrightarrow> tr_should_run p \<Longrightarrow>
     \<exists>key. idempotency_key d scheduled = Inr key \<and> key \<notin> set known \<and> tr_idempotency_key p = Some key
       \<and> tr_scheduled_for p = Some scheduled"
  by (auto simp: decide_trigger_def no_run_def rbind_Inr_iff split: if_splits)

lemma decide_trigger_known:
  assumes "decide_trigger d running (ks @ known) scheduled missed = Inr p" "key \<in> set ks"
    "idempotency_key d scheduled = Inr key"
  shows "\<not> tr_should_run p"
  using assms by (auto simp: decide_trigger_def no_run_def rbind_Inr_iff split: if_splits)

lemma plan_trigger_cases:
  assumes "plan_trigger d last_run (Aware now) running known = Inr p"
  obtains (no) reason missed where "p = no_run None None missed reason"
  | (first) "last_run = None" "is_runnable d" "decide_trigger d running known now 0 = Inr p"
  | (due) l step missed where "last_run = Some l" "is_runnable d" "l < now"
      "missed_between (jd_schedule d) l now = Inr missed" "delta (jd_schedule d) = Inr step"
      "missed = float_quotient (now - l) step" "missed \<noteq> 0"
      "missed \<le> MAX_MISFIRE_CATCHUP \<or> jd_misfire d \<noteq> SKIP_VISIBLE"
      "decide_trigger d running known (l + step * missed) missed = Inr p"
proof (cases "is_runnable d")
  case False
  with assms no show ?thesis by (auto simp: plan_trigger_def)
next
  case True
  show ?thesis
  proof (cases last_run)
    case None
    with True assms first show ?thesis by (auto simp: plan_trigger_def)
  next
    case (Some l)
    show ?thesis
      using assms True Some no due
      by (auto simp: plan_trigger_def rbind_Inr_iff add_delta_def missed_between_def split: if_splits)
  qed
qed

section \<open>Properties\<close>

text \<open>One trigger never produces two runs: a decision to run carries a key that was not recorded,
  and once that key is recorded, no evaluation (at any time, running or not) decides to run for
  the same scheduled instant again.\<close>

theorem trigger_never_repeats:
  assumes "plan_trigger d last_run (Aware now) running known = Inr p" and "tr_should_run p"
  shows "\<exists>key. tr_idempotency_key p = Some key \<and> key \<notin> set known
    \<and> (\<forall>last_run' now' running' known' p'. key \<in> set known' \<longrightarrow>
        plan_trigger d last_run' (Aware now') running' known' = Inr p' \<longrightarrow> tr_should_run p' \<longrightarrow>
        tr_scheduled_for p' \<noteq> tr_scheduled_for p)"
proof -
  have run: "\<exists>t' key. tr_scheduled_for q = Some t' \<and> idempotency_key d t' = Inr key
      \<and> key \<notin> set ks \<and> tr_idempotency_key q = Some key"
    if "plan_trigger d lr (Aware t) rn ks = Inr q" "tr_should_run q" for lr t rn ks q
    using that(1)
  proof (cases rule: plan_trigger_cases)
    case no
    with that(2) show ?thesis by (simp add: no_run_def)
  qed (use decide_trigger_run that(2) in blast)+
  from run [OF assms] obtain t' key where "tr_scheduled_for p = Some t'"
    "idempotency_key d t' = Inr key" "key \<notin> set known" "tr_idempotency_key p = Some key" by blast
  with run show ?thesis by (metis Inr_inject option.inject)
qed

definition sample_definition :: job_definition where
  "sample_definition = \<lparr>jd_job_name = ''daily-report'', jd_schedule = \<lparr>sc_interval = ''1d'', sc_timezone = ''UTC''\<rparr>,
     jd_state = SS_ACTIVE, jd_misfire = RUN_ONCE, jd_overlap = OVERLAP_SKIP, jd_payload_digest = None\<rparr>"

lemma sample_key: "\<exists>key. idempotency_key sample_definition t = Inr key"
  by (simp add: idempotency_key_def digest_def canonicalize_def opt_text_def sample_definition_def)

lemma sample_delta: "delta (jd_schedule sample_definition) = Inr 86400000000"
  by code_simp

lemma sample_trigger:
  "\<exists>p. plan_trigger sample_definition (Some 0) (Aware 180000000000) False [] = Inr p \<and> tr_should_run p"
proof -
  have "float_quotient 180000000000 86400000000 = 2" by (subst float_quotient_exact) simp_all
  moreover have "is_runnable sample_definition" "jd_misfire sample_definition = RUN_ONCE"
    by (simp_all add: is_runnable_def sample_definition_def)
  ultimately show ?thesis using sample_key [of 172800000000]
    by (auto simp: plan_trigger_def missed_between_def sample_delta add_delta_def max_instant_def
        decide_trigger_def)
qed

theorem trigger_never_repeats_witness:
  "\<exists>p key. plan_trigger sample_definition (Some 0) (Aware 180000000000) False [] = Inr p
     \<and> tr_idempotency_key p = Some key
     \<and> (\<forall>p'. plan_trigger sample_definition (Some 0) (Aware 180000000001) True [key] = Inr p' \<longrightarrow>
           tr_should_run p' \<longrightarrow> tr_scheduled_for p' \<noteq> tr_scheduled_for p)"
proof -
  obtain p where p: "plan_trigger sample_definition (Some 0) (Aware 180000000000) False [] = Inr p"
    "tr_should_run p" using sample_trigger by blast
  from trigger_never_repeats [OF p] p(1) show ?thesis by (metis list.set_intros(1))
qed

text \<open>A run after a pause is scheduled on the grid of the interval: it is planned for the last grid
  point not after now, a positive number of intervals after the last run, and that number is
  what the plan reports (spans below 2^53 microseconds, 285 years).\<close>

theorem trigger_on_grid:
  assumes "plan_trigger d (Some l) (Aware now) running known = Inr p" and "tr_should_run p"
    and "now - l < 2 ^ 53" and "delta (jd_schedule d) = Inr step"
  shows "\<exists>k \<ge> 1. tr_scheduled_for p = Some (l + step * k) \<and> tr_missed p = k
    \<and> l + step * k \<le> now \<and> now < l + step * (k + 1)"
  using assms(1)
proof (cases rule: plan_trigger_cases)
  case (due l' step' missed)
  note pos = delta_pos [OF assms(4)]
  from due assms have m: "missed = (now - l) div step" "missed \<noteq> 0" "l < now"
    using float_quotient_exact [of "now - l" step] pos by auto
  have "0 \<le> missed" using m pos by (simp add: pos_imp_zdiv_nonneg_iff)
  moreover have "step * missed \<le> now - l" "now - l < step * (missed + 1)"
    unfolding m(1) using pos
    by (simp_all add: mult.commute [of step] minus_mod_eq_div_mult [symmetric] pos_mod_bound distrib_right)
  moreover have "tr_scheduled_for p = Some (l + step * missed)" "tr_missed p = missed"
    using due assms decide_trigger_run
    by (auto simp: decide_trigger_def no_run_def rbind_Inr_iff split: if_splits)
  ultimately show ?thesis using m(2) by (intro exI [of _ missed]) auto
qed (use assms(2) in \<open>auto simp: no_run_def\<close>)

theorem trigger_on_grid_witness:
  "\<exists>p k. plan_trigger sample_definition (Some 0) (Aware 180000000000) False [] = Inr p
     \<and> tr_missed p = k \<and> 86400000000 * k \<le> 180000000000 \<and> 180000000000 < 86400000000 * (k + 1)"
proof -
  obtain p where p: "plan_trigger sample_definition (Some 0) (Aware 180000000000) False [] = Inr p"
    "tr_should_run p" using sample_trigger by blast
  from trigger_on_grid [OF p _ sample_delta] p(1) show ?thesis by auto
qed

text \<open>A cancelled definition never runs again: whatever pauses, resumptions and cancellations
  follow, no trigger decision on it is to run.\<close>

theorem cancelled_never_runs:
  assumes "schedules.reach d d'" and "named d" and "jd_state d = SS_CANCELLED"
    and "plan_trigger d' last_run now running known = Inr p"
  shows "\<not> tr_should_run p \<and> tr_idempotency_key p = None"
proof -
  from schedules.reach_rank [OF assms(1,2)] assms(3) have "jd_state d' = SS_CANCELLED" by simp
  with assms(4) show ?thesis
    by (auto simp: plan_trigger_def is_runnable_def no_run_def split: pydatetime.splits)
qed

theorem cancelled_never_runs_witness:
  "\<exists>p. plan_trigger (sample_definition\<lparr>jd_state := SS_CANCELLED\<rparr>) None (Aware 0) False [] = Inr p
     \<and> \<not> tr_should_run p"
proof -
  let ?d = "sample_definition\<lparr>jd_state := SS_CANCELLED\<rparr>"
  have nm: "\<not> blank ''daily-report''" by code_simp
  have step: "schedule_exec ?d Cancel = Inr ?d"
    using nm by (simp add: cancel_def check_definition_Inr sample_definition_def)
  have "schedules.reach ?d ?d"
    by (rule schedules.reach_step [OF schedules.reach_refl step])
  moreover obtain p where "plan_trigger ?d None (Aware 0) False [] = Inr p"
    by (simp add: plan_trigger_def is_runnable_def)
  ultimately show ?thesis
    using cancelled_never_runs [of ?d ?d None "Aware 0" False "[]" p] nm
    by (auto simp: named_def sample_definition_def)
qed

text \<open>The interval check accepts texts it should not: a final line feed passes, and so does a
  number of days whose duration does not exist, so that computing the interval raises although
  the constructor accepted it.\<close>

theorem schedule_check_too_weak:
  "is_ok (check_schedule \<lparr>sc_interval = ''5m'' @ [CHR 0x0A], sc_timezone = ''UTC''\<rparr>)
   \<and> is_ok (check_schedule \<lparr>sc_interval = ''1000000000d'', sc_timezone = ''UTC''\<rparr>)
   \<and> delta \<lparr>sc_interval = ''1000000000d'', sc_timezone = ''UTC''\<rparr> = Inl (PyError ''OverflowError'')"
  by code_simp

text \<open>The required maintenance jobs can always be built from the interval table: one active
  definition per job, none missing, each with an interval of at least five minutes.\<close>

theorem required_jobs_complete:
  "case required_job_definitions of
     Inl _ \<Rightarrow> False
   | Inr ds \<Rightarrow> map jd_job_name ds = REQUIRED_JOBS \<and> missing_required_jobs (map jd_job_name ds) = []
       \<and> runnable ds = ds
       \<and> list_all (\<lambda>d. case delta (jd_schedule d) of Inl _ \<Rightarrow> False | Inr us \<Rightarrow> us \<ge> 300000000) ds"
  by code_simp

text \<open>A report that passes its checks renders: every required section is found.\<close>

theorem checked_report_renders:
  assumes "check_report r = Inr s"
  shows "\<exists>text. to_markdown s = Inr text"
proof -
  from assms have s: "s = r" and names: "set REQUIRED_REPORT_SECTIONS \<subseteq> fst ` set (dr_sections r)"
    by (auto simp: check_report_def Let_def filter_empty_conv split: if_splits)
  have "\<exists>parts. rmap (section_lines r) ns = Inr parts" if "set ns \<subseteq> fst ` set (dr_sections r)" for ns
    using that
  proof (induction ns)
    case (Cons n ns)
    then obtain sec where "map_of (dr_sections r) n = Some sec"
      by (cases "map_of (dr_sections r) n") (auto simp: map_of_eq_None_iff)
    with Cons show ?case by (auto simp: section_lines_def)
  qed simp
  from this [OF names] s show ?thesis by (auto simp: to_markdown_def)
qed

theorem checked_report_renders_witness:
  "\<exists>text. to_markdown \<lparr>dr_generated_at = Aware 0, dr_scope = ''web'',
     dr_sections = map (\<lambda>n. (n, \<lparr>rs_title = n, rs_lines = []\<rparr>)) REQUIRED_REPORT_SECTIONS,
     dr_grants_authority = False\<rparr> = Inr text"
proof -
  let ?r = "\<lparr>dr_generated_at = Aware 0, dr_scope = ''web'',
     dr_sections = map (\<lambda>n. (n, \<lparr>rs_title = n, rs_lines = []\<rparr>)) REQUIRED_REPORT_SECTIONS,
     dr_grants_authority = False\<rparr>"
  have "check_report ?r = Inr ?r" by (simp add: check_report_def image_image)
  from checked_report_renders [OF this] show ?thesis .
qed

end
