(* ===== verification/Sandbox.thy ===== *)
theory Sandbox
  imports Optimization Scheduler "HOL-Library.Sublist"
begin

text \<open>
  The contract of a builder that writes to the bound source tree (\<^verbatim>\<open>domain/sandbox.py\<close>): relative paths,
  the allowlist of writable paths, the default-deny network policy, processes without a shell, patch
  artifacts and the decision to deliver one. A frozen set is a list. The lemmas show which paths an
  allowlist permits.
\<close>

section \<open>Enumerations and bounds\<close>

datatype workspace_state = SPACE_PREPARED | SPACE_ACTIVE | SPACE_DELIVERED | SPACE_DISCARDED

fun workspace_state_value :: "workspace_state \<Rightarrow> string" where
  "workspace_state_value SPACE_PREPARED = ''prepared''"
| "workspace_state_value SPACE_ACTIVE = ''active''"
| "workspace_state_value SPACE_DELIVERED = ''delivered''"
| "workspace_state_value SPACE_DISCARDED = ''discarded''"

datatype delivery_outcome = DO_APPLIED | DO_REJECTED | DO_DRIFTED

fun delivery_outcome_value :: "delivery_outcome \<Rightarrow> string" where
  "delivery_outcome_value DO_APPLIED = ''applied''"
| "delivery_outcome_value DO_REJECTED = ''rejected''"
| "delivery_outcome_value DO_DRIFTED = ''drifted''"

definition MAX_OUTPUT_BYTES :: int where "MAX_OUTPUT_BYTES = 1048576"

definition MAX_TIMEOUT_SECONDS :: int where "MAX_TIMEOUT_SECONDS = 3600"

section \<open>Relative paths\<close>

text \<open>\<^verbatim>\<open>PurePosixPath(value).parts\<close> of a relative path are the \<open>path_segments\<close>: empty and dot segments are
  dropped by the constructor, so the last check of the code never finds one.\<close>

definition assert_relative_path :: "string \<Rightarrow> string \<Rightarrow> string res" where
  "assert_relative_path t label =
     (if blank t then Inl (ValidationFailed (label @ '' bos olamaz''))
      else if CHR 0x5C \<in> set t then Inl (PolicyViolation (label @ '' yalniz posix ayirici kullanabilir''))
      else if starts_with t ''/'' \<or> windows_absolute t then Inl (PolicyViolation (label @ '' absolute path olamaz''))
      else let parts = path_segments t in
        if ''..'' \<in> set parts then Inl (PolicyViolation (label @ '' traversal tasiyamaz''))
        else if list_ex (\<lambda>part. part \<in> {''.'', ''''}) parts then Inl (ValidationFailed (label @ '' normalize degil''))
        else Inr t)"

text \<open>\<^verbatim>\<open>for value in values: assert_relative_path(value, label)\<close>.\<close>

definition assert_relative_paths :: "string list \<Rightarrow> string \<Rightarrow> unit res" where
  "assert_relative_paths ts label = rbind (rmap (\<lambda>t. assert_relative_path t label) ts) (\<lambda>_. Inr ())"

section \<open>The allowlist\<close>

record path_allowlist =
  al_entries :: "string list"

definition check_allowlist :: "path_allowlist \<Rightarrow> path_allowlist res" where
  "check_allowlist a =
     (if al_entries a = [] then Inl (PolicyViolation ''path allowlist bos olamaz'')
      else rbind (assert_relative_paths (al_entries a) ''allowlist girdisi'') (\<lambda>_.
        if \<not> distinct (al_entries a) then Inl (ValidationFailed ''allowlist girdileri tekrar edemez'') else Inr a))"

text \<open>\<^verbatim>\<open>PurePosixPath(path).parents\<close>: the proper prefixes of the segments, longest first.\<close>

definition path_parents :: "string list \<Rightarrow> string list list" where
  "path_parents parts = map (\<lambda>n. take n parts) (rev [0..<length parts])"

definition allowlist_permits :: "path_allowlist \<Rightarrow> string \<Rightarrow> bool res" where
  "allowlist_permits a path = rbind (assert_relative_path path ''hedef path'') (\<lambda>_.
     let target = path_segments path in
     Inr (list_ex (\<lambda>entry. let allowed = path_segments entry in target = allowed \<or> allowed \<in> set (path_parents target))
       (al_entries a)))"

definition assert_permits :: "path_allowlist \<Rightarrow> string \<Rightarrow> string res" where
  "assert_permits a path = rbind (allowlist_permits a path) (\<lambda>ok.
     if ok then Inr path else Inl (PolicyViolation ''hedef path allowlist disinda''))"

definition allowlist_as_dict :: "path_allowlist \<Rightarrow> pyval" where
  "allowlist_as_dict a = PDict [(PStr ''entries'', PList (map PStr (sort (al_entries a))))]"

section \<open>The network policy\<close>

record network_policy =
  np_allowed_hosts :: "string list"
  np_allowed_operations :: "string list"

definition check_network :: "network_policy \<Rightarrow> network_policy res" where
  "check_network n =
     (if list_ex (\<lambda>host. host = [] \<or> host \<noteq> py_lower (strip host) \<or> CHR ''/'' \<in> set host) (np_allowed_hosts n)
      then Inl (ValidationFailed ''host girdisi normalize degil'')
      else if np_allowed_hosts n \<noteq> [] \<and> np_allowed_operations n = []
      then Inl (PolicyViolation ''host allowlist exact operasyon listesi ister'')
      else Inr n)"

definition is_default_deny :: "network_policy \<Rightarrow> bool" where
  "is_default_deny n = (np_allowed_hosts n = [])"

definition network_permits :: "network_policy \<Rightarrow> string \<Rightarrow> string \<Rightarrow> bool" where
  "network_permits n host operation = (host \<in> set (np_allowed_hosts n) \<and> operation \<in> set (np_allowed_operations n))"

definition assert_network_permits :: "network_policy \<Rightarrow> string \<Rightarrow> string \<Rightarrow> unit res" where
  "assert_network_permits n host operation =
     (if network_permits n host operation then Inr ()
      else Inl (PolicyViolation ''network erisimi default-deny tarafindan reddedildi''))"

definition network_as_dict :: "network_policy \<Rightarrow> pyval" where
  "network_as_dict n = PDict
     [(PStr ''allowed_hosts'', PList (map PStr (sort (remdups (np_allowed_hosts n))))),
      (PStr ''allowed_operations'', PList (map PStr (sort (remdups (np_allowed_operations n))))),
      (PStr ''default_deny'', PBool (is_default_deny n))]"

section \<open>Workspaces and trees\<close>

record sandbox_policy =
  sb_allowlist :: path_allowlist
  sb_network :: network_policy
  sb_main_tree_read_only :: bool

definition check_sandbox_policy :: "sandbox_policy \<Rightarrow> sandbox_policy res" where
  "check_sandbox_policy p =
     (if sb_main_tree_read_only p then Inl (PolicyViolation ''kod mutation'i bagli gercek source rootunda yapilmalidir'')
      else Inr p)"

definition sandbox_policy_as_dict :: "sandbox_policy \<Rightarrow> pyval" where
  "sandbox_policy_as_dict p = PDict
     [(PStr ''allowlist'', allowlist_as_dict (sb_allowlist p)), (PStr ''network'', network_as_dict (sb_network p)),
      (PStr ''main_tree_read_only'', PBool False), (PStr ''direct_source_write'', PBool True),
      (PStr ''project_copy'', PBool False)]"

definition sandbox_policy_digest :: "sandbox_policy \<Rightarrow> string res" where
  "sandbox_policy_digest p = digest (sandbox_policy_as_dict p)"

record workspace_spec =
  wk_workspace_id :: string
  wk_project_ref :: string
  wk_work_ref :: string
  wk_source_revision :: string
  wk_policy :: sandbox_policy
  wk_detached :: bool

definition check_workspace_spec :: "workspace_spec \<Rightarrow> workspace_spec res" where
  "check_workspace_spec w =
     (if wk_detached w then Inl (PolicyViolation ''project mutation icin detached worktree yasaktir'')
      else case first_blank [(''workspace_id'', wk_workspace_id w), (''project_ref'', wk_project_ref w),
          (''work_ref'', wk_work_ref w), (''source_revision'', wk_source_revision w)] of
        Some label \<Rightarrow> Inl (ValidationFailed (label @ '' bos olamaz''))
      | None \<Rightarrow> Inr w)"

definition workspace_body :: "workspace_spec \<Rightarrow> pyval" where
  "workspace_body w = PDict
     [(PStr ''schema'', PStr ''zekam-workspace-spec/v1''), (PStr ''workspace_id'', PStr (wk_workspace_id w)),
      (PStr ''project_ref'', PStr (wk_project_ref w)), (PStr ''work_ref'', PStr (wk_work_ref w)),
      (PStr ''source_revision'', PStr (wk_source_revision w)), (PStr ''policy'', sandbox_policy_as_dict (wk_policy w)),
      (PStr ''detached'', PBool False), (PStr ''direct_source_write'', PBool True)]"

definition workspace_spec_digest :: "workspace_spec \<Rightarrow> string res" where
  "workspace_spec_digest w = digest (workspace_body w)"

record tree_fingerprint =
  tf_head :: string
  tf_tree_digest :: string
  tf_dirty :: bool

definition check_fingerprint_tree :: "tree_fingerprint \<Rightarrow> tree_fingerprint res" where
  "check_fingerprint_tree f = rbind (parse_digest (tf_tree_digest f)) (\<lambda>_.
     if blank (tf_head f) then Inl (ValidationFailed ''HEAD bos olamaz'') else Inr f)"

definition tree_matches :: "tree_fingerprint \<Rightarrow> tree_fingerprint \<Rightarrow> bool" where
  "tree_matches a b = (tf_head a = tf_head b \<and> tf_tree_digest a = tf_tree_digest b \<and> tf_dirty a = tf_dirty b)"

definition tree_as_dict :: "tree_fingerprint \<Rightarrow> pyval" where
  "tree_as_dict f = PDict
     [(PStr ''head'', PStr (tf_head f)), (PStr ''tree_digest'', PStr (tf_tree_digest f)), (PStr ''dirty'', PBool (tf_dirty f))]"

section \<open>Processes\<close>

text \<open>\<^verbatim>\<open>str.isalnum\<close> of the characters up to 255.\<close>

definition is_alnum :: "char \<Rightarrow> bool" where
  "is_alnum c = (let n = (of_char c :: nat) in
     (48 \<le> n \<and> n \<le> 57) \<or> (65 \<le> n \<and> n \<le> 90) \<or> (97 \<le> n \<and> n \<le> 122) \<or> n \<in> {170, 178, 179, 181, 185, 186, 188, 189, 190}
     \<or> (192 \<le> n \<and> n \<le> 214) \<or> (216 \<le> n \<and> n \<le> 246) \<or> 248 \<le> n)"

definition shell_metacharacter :: "char \<Rightarrow> bool" where
  "shell_metacharacter c = (c \<in> set '';&|><`$'')"

definition sensitive_env :: "string \<Rightarrow> bool" where
  "sensitive_env t = list_ex (contains_sub (py_lower t))
     [''secret'', ''credential'', ''password'', ''parola'', ''apikey'', ''api-key'', ''api_key'', ''api key'',
      ''privatekey'', ''private-key'', ''private_key'', ''private key'', ''token'']"

definition ends_with :: "string \<Rightarrow> string \<Rightarrow> bool" where
  "ends_with t suf = starts_with (rev t) (rev suf)"

record process_spec =
  pr_argv :: "string list"
  pr_timeout_seconds :: int
  pr_env :: "(string \<times> string) list"
  pr_max_output_bytes :: int
  pr_stdin_digest :: "string option"

fun check_argv :: "string list \<Rightarrow> unit res" where
  "check_argv [] = Inr ()"
| "check_argv (t # ts) =
     (if t = [] then Inl (ValidationFailed ''argv ogeleri bos olmayan metin olmali'')
      else if CHR 0x0A \<in> set t \<or> CHR 0x0D \<in> set t then Inl (PolicyViolation ''argv satir sonu tasiyamaz'')
      else check_argv ts)"

fun check_env :: "string list \<Rightarrow> (string \<times> string) list \<Rightarrow> unit res" where
  "check_env seen [] = Inr ()"
| "check_env seen ((name, v) # rest) =
     (if name = [] \<or> filter (\<lambda>c. c \<noteq> CHR ''_'') name = [] \<or> list_ex (\<lambda>c. \<not> is_alnum c) (filter (\<lambda>c. c \<noteq> CHR ''_'') name)
      then Inl (ValidationFailed ''env adi gecersiz'')
      else if name \<in> set seen then Inl (ValidationFailed ''env adi tekrar edemez'')
      else if sensitive_env name \<or> sensitive_env v then Inl (PolicyViolation ''env secret benzeri deger tasiyamaz'')
      else check_env (name # seen) rest)"

definition check_process_spec :: "process_spec \<Rightarrow> process_spec res" where
  "check_process_spec p =
     (if pr_argv p = [] then Inl (ValidationFailed ''argv bos olamaz'')
      else rbind (check_argv (pr_argv p)) (\<lambda>_.
        let executable = hd (pr_argv p) in
        if list_ex shell_metacharacter executable \<or> executable \<noteq> strip executable
        then Inl (PolicyViolation ''calistirilabilir alan shell komut satiri tasiyamaz'')
        else if CHR '' '' \<in> set executable \<and> \<not> list_ex (ends_with (py_lower executable)) [''.exe'', ''.bat'', ''.cmd'']
        then Inl (PolicyViolation ''calistirilabilir alan bosluklu komut satiri olamaz'')
        else if \<not> (1 \<le> pr_timeout_seconds p \<and> pr_timeout_seconds p \<le> MAX_TIMEOUT_SECONDS)
        then Inl (ValidationFailed (''timeout 1..'' @ int_str MAX_TIMEOUT_SECONDS @ '' araliginda olmali''))
        else if \<not> (1 \<le> pr_max_output_bytes p \<and> pr_max_output_bytes p \<le> MAX_OUTPUT_BYTES)
        then Inl (ValidationFailed ''cikti siniri gecersiz'')
        else rbind (case pr_stdin_digest p of None \<Rightarrow> Inr () | Some d \<Rightarrow> rbind (parse_digest d) (\<lambda>_. Inr ())) (\<lambda>_.
          rbind (check_env [] (pr_env p)) (\<lambda>_. Inr p))))"

definition process_body :: "process_spec \<Rightarrow> pyval" where
  "process_body p = PDict
     ([(PStr ''argv'', PList (map PStr (pr_argv p))), (PStr ''timeout_seconds'', PInt (pr_timeout_seconds p)),
       (PStr ''env_names'', PList (map PStr (sort (map fst (pr_env p))))),
       (PStr ''max_output_bytes'', PInt (pr_max_output_bytes p))]
      @ (case pr_stdin_digest p of None \<Rightarrow> [] | Some d \<Rightarrow> [(PStr ''stdin_digest'', PStr d)]))"

definition process_spec_digest :: "process_spec \<Rightarrow> string res" where
  "process_spec_digest p = digest (process_body p)"

record process_result =
  ps_spec_digest :: string
  ps_exit_code :: int
  ps_duration_ms :: int
  ps_stdout_digest :: string
  ps_stderr_digest :: string
  ps_truncated :: bool
  ps_timed_out :: bool

definition check_process_result :: "process_result \<Rightarrow> process_result res" where
  "check_process_result r = rbind (parse_all [ps_spec_digest r, ps_stdout_digest r, ps_stderr_digest r]) (\<lambda>_.
     if ps_duration_ms r < 0 then Inl (ValidationFailed ''sure negatif olamaz'')
     else if ps_timed_out r \<and> ps_exit_code r = 0 then Inl (ValidationFailed ''timeout sonucu basarili olamaz'')
     else Inr r)"

definition succeeded :: "process_result \<Rightarrow> bool" where
  "succeeded r = (ps_exit_code r = 0 \<and> \<not> ps_timed_out r \<and> \<not> ps_truncated r)"

definition process_result_as_dict :: "process_result \<Rightarrow> pyval" where
  "process_result_as_dict r = PDict
     [(PStr ''spec_digest'', PStr (ps_spec_digest r)), (PStr ''exit_code'', PInt (ps_exit_code r)),
      (PStr ''duration_ms'', PInt (ps_duration_ms r)), (PStr ''stdout_digest'', PStr (ps_stdout_digest r)),
      (PStr ''stderr_digest'', PStr (ps_stderr_digest r)), (PStr ''truncated'', PBool (ps_truncated r)),
      (PStr ''timed_out'', PBool (ps_timed_out r)), (PStr ''succeeded'', PBool (succeeded r))]"

definition process_result_digest :: "process_result \<Rightarrow> string res" where
  "process_result_digest r = digest (process_result_as_dict r)"

section \<open>Delivery of a patch\<close>

record patch_artifact =
  pt_artifact_id :: string
  pt_workspace_id :: string
  pt_base_revision :: string
  pt_changed_paths :: "string list"
  pt_patch_digest :: string
  pt_created_at :: pydatetime

definition check_patch :: "patch_artifact \<Rightarrow> patch_artifact res" where
  "check_patch a = rbind (parse_digest (pt_patch_digest a)) (\<lambda>_.
     if pt_changed_paths a = [] then Inl (ValidationFailed ''bos yama teslim edilemez'')
     else rbind (assert_relative_paths (pt_changed_paths a) ''yama yolu'') (\<lambda>_.
       if \<not> distinct (pt_changed_paths a) then Inl (ValidationFailed ''yama yollari tekrar edemez'')
       else if \<not> is_aware (pt_created_at a) then Inl (ValidationFailed ''zaman damgasi timezone-aware olmali'')
       else Inr a))"

definition assert_within :: "patch_artifact \<Rightarrow> path_allowlist \<Rightarrow> unit res" where
  "assert_within a allowlist = rbind (rmap (allowlist_permits allowlist) (pt_changed_paths a)) (\<lambda>oks.
     if list_ex (\<lambda>ok. \<not> ok) oks then Inl (PolicyViolation ''yama allowlist disinda yol degistiriyor'') else Inr ())"

definition patch_body :: "patch_artifact \<Rightarrow> pyval" where
  "patch_body a = PDict
     [(PStr ''schema'', PStr ''zekam-patch-artifact/v1''), (PStr ''artifact_id'', PStr (pt_artifact_id a)),
      (PStr ''workspace_id'', PStr (pt_workspace_id a)), (PStr ''base_revision'', PStr (pt_base_revision a)),
      (PStr ''changed_paths'', PList (map PStr (sort (pt_changed_paths a)))),
      (PStr ''patch_digest'', PStr (pt_patch_digest a))]"

definition artifact_digest :: "patch_artifact \<Rightarrow> string res" where
  "artifact_digest a = digest (patch_body a)"

record delivery_decision =
  dd_artifact_digest :: string
  dd_outcome :: delivery_outcome
  dd_apply_check_passed :: bool
  dd_tests_passed :: bool
  dd_verifier_ref :: string
  dd_builder_ref :: string
  dd_detail :: string

definition check_delivery_decision :: "delivery_decision \<Rightarrow> delivery_decision res" where
  "check_delivery_decision d = rbind (parse_digest (dd_artifact_digest d)) (\<lambda>_.
     if dd_verifier_ref d = dd_builder_ref d then Inl (PolicyViolation ''verifier builder ile ayni kimlik olamaz'')
     else if dd_outcome d = DO_APPLIED \<and> \<not> (dd_apply_check_passed d \<and> dd_tests_passed d)
     then Inl (PolicyViolation ''apply-check ve test gecmeden teslim applied olamaz'')
     else if dd_outcome d \<noteq> DO_APPLIED \<and> blank (dd_detail d) then Inl (ValidationFailed ''basarisiz teslim gerekce ister'')
     else Inr d)"

definition delivery_as_dict :: "delivery_decision \<Rightarrow> pyval" where
  "delivery_as_dict d = PDict
     [(PStr ''artifact_digest'', PStr (dd_artifact_digest d)), (PStr ''outcome'', PStr (delivery_outcome_value (dd_outcome d))),
      (PStr ''apply_check_passed'', PBool (dd_apply_check_passed d)), (PStr ''tests_passed'', PBool (dd_tests_passed d)),
      (PStr ''verifier_ref'', PStr (dd_verifier_ref d)), (PStr ''builder_ref'', PStr (dd_builder_ref d)),
      (PStr ''detail'', PStr (dd_detail d))]"

definition delivery_decision_digest :: "delivery_decision \<Rightarrow> string res" where
  "delivery_decision_digest d = digest (delivery_as_dict d)"

definition assert_no_drift :: "string \<Rightarrow> string \<Rightarrow> string list \<Rightarrow> string list \<Rightarrow> unit res" where
  "assert_no_drift planned_revision current_revision planned_paths changed_paths =
     (if planned_revision \<noteq> current_revision
      then Inl (PolicyViolation ''source revision drift; plan yeniden dogrulanmali'')
      else if filter (\<lambda>path. path \<notin> set planned_paths) changed_paths \<noteq> []
      then Inl (PolicyViolation ''yama plan disinda yol degistiriyor'') else Inr ())"

section \<open>What an allowlist permits\<close>

lemma path_segments_clean: "p \<in> set (path_segments t) \<Longrightarrow> p \<noteq> '''' \<and> p \<noteq> ''.''"
  by (simp add: path_segments_def)

lemma path_parents_iff: "q \<in> set (path_parents p) \<longleftrightarrow> strict_prefix q p"
proof
  assume "q \<in> set (path_parents p)"
  then obtain n where "n < length p" "q = take n p" by (auto simp: path_parents_def)
  then show "strict_prefix q p" by (auto simp: strict_prefix_def take_is_prefix)
next
  assume "strict_prefix q p"
  then obtain r where "p = q @ r" "r \<noteq> []" by (auto elim: strict_prefixE')
  then show "q \<in> set (path_parents p)" by (auto simp: path_parents_def intro!: image_eqI [of _ _ "length q"])
qed

lemma assert_relative_path_Inr:
  "assert_relative_path t label = Inr u \<longleftrightarrow> u = t \<and> \<not> blank t \<and> CHR 0x5C \<notin> set t \<and> \<not> starts_with t ''/''
     \<and> \<not> windows_absolute t \<and> ''..'' \<notin> set (path_segments t)"
  by (auto simp: assert_relative_path_def Let_def list_ex_iff dest: path_segments_clean split: if_splits)

lemma assert_relative_paths_Inr:
  "assert_relative_paths ts label = Inr u \<longleftrightarrow> (\<forall>t \<in> set ts. is_ok (assert_relative_path t label))"
  unfolding assert_relative_paths_def by (induction ts) (auto simp: rbind_Inr_iff is_ok_iff)


text \<open>C28. An allowlist permits a relative path exactly when the segments of an entry begin the segments of
  the path, so that an entry covers its directory and nothing beside it. The allowlist whose only entry
  is a dot passes the check and permits every relative path.\<close>

theorem allowlist_permits_exactly:
  assumes "assert_relative_path path ''hedef path'' = Inr path"
  shows "allowlist_permits a path = Inr (\<exists>entry \<in> set (al_entries a). prefix (path_segments entry) (path_segments path))
    \<and> check_allowlist \<lparr>al_entries = [''.'']\<rparr> = Inr \<lparr>al_entries = [''.'']\<rparr>
    \<and> assert_permits \<lparr>al_entries = [''.'']\<rparr> path = Inr path"
proof (intro conjI)
  show exact: "allowlist_permits a path = Inr (\<exists>entry \<in> set (al_entries a). prefix (path_segments entry) (path_segments path))" for a
    using assms by (auto simp: allowlist_permits_def Let_def list_ex_iff path_parents_iff prefix_order.le_less) (metis (no_types))
  show "check_allowlist \<lparr>al_entries = [''.'']\<rparr> = Inr \<lparr>al_entries = [''.'']\<rparr>" by code_simp
  have "path_segments ''.'' = []" by code_simp
  then show "assert_permits \<lparr>al_entries = [''.'']\<rparr> path = Inr path" by (simp add: assert_permits_def exact)
qed

theorem allowlist_permits_exactly_witness:
  "allowlist_permits \<lparr>al_entries = [''src/app'']\<rparr> ''src/app/main.py'' = Inr True
   \<and> assert_permits \<lparr>al_entries = [''.'']\<rparr> ''src/app/main.py'' = Inr ''src/app/main.py''"
proof -
  have ok: "assert_relative_path ''src/app/main.py'' ''hedef path'' = Inr ''src/app/main.py''" by code_simp
  have seg: "path_segments ''src/app/main.py'' = [''src'', ''app'', ''main.py'']" "path_segments ''src/app'' = [''src'', ''app'']"
    by code_simp+
  from allowlist_permits_exactly [OF ok, of "\<lparr>al_entries = [''src/app'']\<rparr>"] show ?thesis by (simp add: seg)
qed

end
