(* ===== verification/LoopChange.thy ===== *)
theory LoopChange
  imports Sandbox GovernancePort
begin

text \<open>
  The source changes that an attempt of a loop owns, and their narrow rollback
  (\<^verbatim>\<open>domain/loop_change_set.py\<close> and \<^verbatim>\<open>application/loop_rollback.py\<close>). The adapter that reads and patches the
  source tree is a port over an abstract state. The lemmas show that a rollback touches only paths of
  the attempt, that it runs the inverse patch only after a matching check, and that a change set that
  could be created can be rolled back.
\<close>

section \<open>Entries and baselines\<close>

definition canonical_paths :: "string list \<Rightarrow> string \<Rightarrow> unit res" where
  "canonical_paths ps label =
     (if \<not> canonical_tuple ps then Inl (ValidationFailed (label @ '' tekil ve sirali olmali''))
      else assert_relative_paths ps label)"

datatype source_entry_kind = ENTRY_MISSING | ENTRY_FILE

fun source_entry_kind_value :: "source_entry_kind \<Rightarrow> string" where
  "source_entry_kind_value ENTRY_MISSING = ''missing''"
| "source_entry_kind_value ENTRY_FILE = ''file''"

record source_entry =
  se_path :: string
  se_kind :: source_entry_kind
  se_content_digest :: "string option"

definition check_source_entry :: "source_entry \<Rightarrow> source_entry res" where
  "check_source_entry e = rbind (assert_relative_path (se_path e) ''source entry path'') (\<lambda>_.
     case (se_kind e, se_content_digest e) of
       (ENTRY_MISSING, Some _) \<Rightarrow> Inl (ValidationFailed ''missing source entry content digest tasiyamaz'')
     | (ENTRY_FILE, None) \<Rightarrow> Inl (ValidationFailed ''file source entry content digest ister'')
     | (_, Some d) \<Rightarrow> rbind (parse_digest d) (\<lambda>_. Inr e)
     | (_, None) \<Rightarrow> Inr e)"

definition source_entry_as_dict :: "source_entry \<Rightarrow> pyval" where
  "source_entry_as_dict e = PDict
     [(PStr ''path'', PStr (se_path e)), (PStr ''kind'', PStr (source_entry_kind_value (se_kind e))),
      (PStr ''content_digest'', opt_text (se_content_digest e))]"

record change_baseline =
  cb_attempt_id :: uuid
  cb_source_revision :: string
  cb_tree_digest :: string
  cb_dirty_state_digest :: string
  cb_allowed_paths :: "string list"
  cb_allowed_entries :: "source_entry list"
  cb_protected_dirty_entries :: "source_entry list"
  cb_captured_at :: pydatetime
  cb_grants_authority :: bool

definition check_baseline :: "change_baseline \<Rightarrow> change_baseline res" where
  "check_baseline b =
     (if cb_grants_authority b then Inl (PolicyViolation ''Loop change baseline authority veremez'')
      else if blank (cb_source_revision b) then Inl (ValidationFailed ''Loop change baseline source revision ister'')
      else if \<not> is_aware (cb_captured_at b) then Inl (ValidationFailed ''Loop change baseline timezone-aware zaman ister'')
      else rbind (parse_all [cb_tree_digest b, cb_dirty_state_digest b]) (\<lambda>_.
        rbind (canonical_paths (cb_allowed_paths b) ''allowed path'') (\<lambda>_.
        if cb_allowed_paths b = [] then Inl (PolicyViolation ''Loop change baseline exact allowed path ister'')
        else if map se_path (cb_allowed_entries b) \<noteq> cb_allowed_paths b
        then Inl (ValidationFailed ''Loop allowed path snapshot cardinality/order drift'')
        else rbind (canonical_paths (map se_path (cb_protected_dirty_entries b)) ''protected dirty path'') (\<lambda>_.
          if set (map se_path (cb_allowed_entries b)) \<inter> set (map se_path (cb_protected_dirty_entries b)) \<noteq> {}
          then Inl (PolicyViolation ''Baslangicta dirty path loop-owned olamaz'') else Inr b))))"

definition baseline_body :: "change_baseline \<Rightarrow> pyval" where
  "baseline_body b = PDict
     [(PStr ''schema'', PStr ''zekam-loop-change-baseline/v1''), (PStr ''attempt_id'', PStr (cb_attempt_id b)),
      (PStr ''source_revision'', PStr (cb_source_revision b)), (PStr ''tree_digest'', PStr (cb_tree_digest b)),
      (PStr ''dirty_state_digest'', PStr (cb_dirty_state_digest b)),
      (PStr ''allowed_paths'', PList (map PStr (cb_allowed_paths b))),
      (PStr ''allowed_entries'', PList (map source_entry_as_dict (cb_allowed_entries b))),
      (PStr ''protected_dirty_entries'', PList (map source_entry_as_dict (cb_protected_dirty_entries b))),
      (PStr ''captured_at'', PDatetime (cb_captured_at b)), (PStr ''grants_authority'', PBool False)]"

definition baseline_digest :: "change_baseline \<Rightarrow> string res" where
  "baseline_digest b = digest (baseline_body b)"

section \<open>Change sets\<close>

record change_set =
  cs_attempt_id :: uuid
  cs_baseline_digest :: string
  cs_source_revision :: string
  cs_changed_resources :: "string list"
  cs_before_entries :: "source_entry list"
  cs_after_entries :: "source_entry list"
  cs_forward_patch_digest :: string
  cs_inverse_patch_digest :: string
  cs_created_at :: pydatetime
  cs_grants_authority :: bool

definition check_change_set :: "change_set \<Rightarrow> change_set res" where
  "check_change_set c =
     (if cs_grants_authority c then Inl (PolicyViolation ''Loop-owned change set authority veremez'')
      else if blank (cs_source_revision c) \<or> \<not> is_aware (cs_created_at c)
      then Inl (ValidationFailed ''Loop-owned change set source/zaman binding ister'')
      else rbind (parse_all [cs_baseline_digest c, cs_forward_patch_digest c, cs_inverse_patch_digest c]) (\<lambda>_.
        rbind (canonical_paths (cs_changed_resources c) ''changed resource'') (\<lambda>_.
        if cs_changed_resources c = [] then Inl (ValidationFailed ''Loop-owned change set bos olamaz'')
        else if map se_path (cs_before_entries c) \<noteq> cs_changed_resources c
        then Inl (ValidationFailed ''Loop change set before snapshot drift'')
        else if map se_path (cs_after_entries c) \<noteq> cs_changed_resources c
        then Inl (ValidationFailed ''Loop change set after snapshot drift'')
        else if cs_before_entries c = cs_after_entries c
        then Inl (ValidationFailed ''Loop change set gercek kaynak deltasi ister'')
        else Inr c)))"

definition change_set_create ::
  "change_baseline \<Rightarrow> string list \<Rightarrow> source_entry list \<Rightarrow> source_entry list \<Rightarrow> string \<Rightarrow> string \<Rightarrow> pydatetime \<Rightarrow> change_set res" where
  "change_set_create b changed_resources before_entries after_entries forward_patch inverse_patch created_at =
     rbind (check_baseline b) (\<lambda>_.
     let changed = sort (remdups changed_resources) in
     if changed \<noteq> changed_resources then Inl (ValidationFailed ''changed resources tekil ve sirali olmali'')
     else if \<not> set changed \<subseteq> set (cb_allowed_paths b) then Inl (PolicyViolation ''Loop change set allowed path disina cikamaz'')
     else if set (map se_path (cb_protected_dirty_entries b)) \<inter> set changed \<noteq> {}
     then Inl (PolicyViolation ''Loop change set user dirty path sahiplenemez'')
     else if before_entries \<noteq> filter (\<lambda>e. se_path e \<in> set changed) (cb_allowed_entries b)
     then Inl (PolicyViolation ''Loop change set exact baseline snapshot ister'')
     else rbind (baseline_digest b) (\<lambda>d. check_change_set
       \<lparr>cs_attempt_id = cb_attempt_id b, cs_baseline_digest = d, cs_source_revision = cb_source_revision b,
        cs_changed_resources = changed, cs_before_entries = before_entries, cs_after_entries = after_entries,
        cs_forward_patch_digest = forward_patch, cs_inverse_patch_digest = inverse_patch,
        cs_created_at = created_at, cs_grants_authority = False\<rparr>))"

definition change_set_body :: "change_set \<Rightarrow> pyval" where
  "change_set_body c = PDict
     [(PStr ''schema'', PStr ''zekam-loop-owned-change-set/v1''), (PStr ''attempt_id'', PStr (cs_attempt_id c)),
      (PStr ''baseline_digest'', PStr (cs_baseline_digest c)), (PStr ''source_revision'', PStr (cs_source_revision c)),
      (PStr ''changed_resources'', PList (map PStr (cs_changed_resources c))),
      (PStr ''before_entries'', PList (map source_entry_as_dict (cs_before_entries c))),
      (PStr ''after_entries'', PList (map source_entry_as_dict (cs_after_entries c))),
      (PStr ''forward_patch_digest'', PStr (cs_forward_patch_digest c)),
      (PStr ''inverse_patch_digest'', PStr (cs_inverse_patch_digest c)),
      (PStr ''created_at'', PDatetime (cs_created_at c)), (PStr ''grants_authority'', PBool False)]"

definition change_set_digest :: "change_set \<Rightarrow> string res" where
  "change_set_digest c = digest (change_set_body c)"

section \<open>Rollback plans, checks and receipts\<close>

record rollback_plan =
  rb_change_set_digest :: string
  rb_attempt_id :: uuid
  rb_source_revision :: string
  rb_changed_resources :: "string list"
  rb_inverse_patch_digest :: string
  rb_protected_state_digest :: string
  rb_reason_code :: string
  rb_prepared_at :: pydatetime
  rb_grants_authority :: bool

definition check_rollback_plan :: "rollback_plan \<Rightarrow> rollback_plan res" where
  "check_rollback_plan p =
     (if rb_grants_authority p then Inl (PolicyViolation ''Loop rollback plan authority veremez'')
      else rbind (parse_all [rb_change_set_digest p, rb_inverse_patch_digest p, rb_protected_state_digest p]) (\<lambda>_.
        rbind (canonical_paths (rb_changed_resources p) ''rollback resource'') (\<lambda>_.
        if blank (rb_source_revision p) \<or> blank (rb_reason_code p)
        then Inl (ValidationFailed ''Loop rollback source ve reason ister'')
        else if \<not> is_aware (rb_prepared_at p) then Inl (ValidationFailed ''Loop rollback timezone-aware zaman ister'')
        else Inr p)))"

definition rollback_plan_body :: "rollback_plan \<Rightarrow> pyval" where
  "rollback_plan_body p = PDict
     [(PStr ''schema'', PStr ''zekam-loop-rollback-plan/v1''), (PStr ''change_set_digest'', PStr (rb_change_set_digest p)),
      (PStr ''attempt_id'', PStr (rb_attempt_id p)), (PStr ''source_revision'', PStr (rb_source_revision p)),
      (PStr ''changed_resources'', PList (map PStr (rb_changed_resources p))),
      (PStr ''inverse_patch_digest'', PStr (rb_inverse_patch_digest p)),
      (PStr ''protected_state_digest'', PStr (rb_protected_state_digest p)),
      (PStr ''reason_code'', PStr (rb_reason_code p)), (PStr ''prepared_at'', PDatetime (rb_prepared_at p)),
      (PStr ''grants_authority'', PBool False)]"

definition rollback_plan_digest :: "rollback_plan \<Rightarrow> string res" where
  "rollback_plan_digest p = digest (rollback_plan_body p)"

record patch_apply_check =
  pc_plan_digest :: string
  pc_inverse_patch_digest :: string
  pc_source_revision :: string
  pc_changed_resources :: "string list"
  pc_protected_state_digest :: string
  pc_applicable :: bool
  pc_checked_at :: pydatetime

definition check_apply_check :: "patch_apply_check \<Rightarrow> patch_apply_check res" where
  "check_apply_check k =
     rbind (parse_all [pc_plan_digest k, pc_inverse_patch_digest k, pc_protected_state_digest k]) (\<lambda>_.
     rbind (canonical_paths (pc_changed_resources k) ''apply-check resource'') (\<lambda>_.
       if blank (pc_source_revision k) \<or> \<not> is_aware (pc_checked_at k)
       then Inl (ValidationFailed ''Loop apply-check source/zaman binding ister'') else Inr k))"

definition apply_check_digest :: "patch_apply_check \<Rightarrow> string res" where
  "apply_check_digest k = digest (PDict
     [(PStr ''schema'', PStr ''zekam-loop-patch-apply-check/v1''), (PStr ''plan_digest'', PStr (pc_plan_digest k)),
      (PStr ''inverse_patch_digest'', PStr (pc_inverse_patch_digest k)),
      (PStr ''source_revision'', PStr (pc_source_revision k)),
      (PStr ''changed_resources'', PList (map PStr (pc_changed_resources k))),
      (PStr ''protected_state_digest'', PStr (pc_protected_state_digest k)), (PStr ''applicable'', PBool (pc_applicable k)),
      (PStr ''checked_at'', PDatetime (pc_checked_at k))])"

record rollback_receipt =
  rr_plan_digest :: string
  rr_change_set_digest :: string
  rr_apply_check_digest :: string
  rr_inverse_patch_digest :: string
  rr_changed_resources :: "string list"
  rr_post_state_digest :: string
  rr_applied_at :: pydatetime
  rr_status :: string
  rr_grants_authority :: bool

definition check_rollback_receipt :: "rollback_receipt \<Rightarrow> rollback_receipt res" where
  "check_rollback_receipt r =
     (if rr_grants_authority r \<or> rr_status r \<noteq> ''applied''
      then Inl (PolicyViolation ''Loop rollback receipt yalniz applied authority-free olabilir'')
      else rbind (parse_all [rr_plan_digest r, rr_change_set_digest r, rr_apply_check_digest r, rr_inverse_patch_digest r,
          rr_post_state_digest r]) (\<lambda>_.
        rbind (canonical_paths (rr_changed_resources r) ''rollback receipt resource'') (\<lambda>_.
        if \<not> is_aware (rr_applied_at r) then Inl (ValidationFailed ''Loop rollback receipt timezone-aware zaman ister'')
        else Inr r)))"

definition rollback_receipt_digest :: "rollback_receipt \<Rightarrow> string res" where
  "rollback_receipt_digest r = digest (PDict
     [(PStr ''schema'', PStr ''zekam-loop-rollback-receipt/v1''), (PStr ''plan_digest'', PStr (rr_plan_digest r)),
      (PStr ''change_set_digest'', PStr (rr_change_set_digest r)),
      (PStr ''apply_check_digest'', PStr (rr_apply_check_digest r)),
      (PStr ''inverse_patch_digest'', PStr (rr_inverse_patch_digest r)),
      (PStr ''changed_resources'', PList (map PStr (rr_changed_resources r))),
      (PStr ''post_state_digest'', PStr (rr_post_state_digest r)), (PStr ''applied_at'', PDatetime (rr_applied_at r)),
      (PStr ''status'', PStr (rr_status r)), (PStr ''grants_authority'', PBool False)])"

section \<open>The rollback service\<close>

text \<open>The adapter of the source tree; \<open>'c\<close> is the captured patch bundle.\<close>

record ('s, 'c) patch_port =
  pp_protected_state_digest :: "change_baseline \<Rightarrow> ('s, string) gov"
  pp_apply_check :: "change_baseline \<Rightarrow> 'c \<Rightarrow> rollback_plan \<Rightarrow> pydatetime \<Rightarrow> ('s, patch_apply_check) gov"
  pp_apply_inverse :: "change_baseline \<Rightarrow> 'c \<Rightarrow> rollback_plan \<Rightarrow> patch_apply_check \<Rightarrow> ('s, string) gov"

definition ALLOWED_REASONS :: "string list" where
  "ALLOWED_REASONS = [''metric-regression'', ''validator-invalid'', ''security-invalid'']"

definition check_rollback_scope :: "change_baseline \<Rightarrow> change_set \<Rightarrow> string \<Rightarrow> unit res" where
  "check_rollback_scope b c reason =
     (if reason \<notin> set ALLOWED_REASONS then Inl (PolicyViolation ''Loop rollback yalniz regression/invalid sonucu icindir'')
      else if cs_attempt_id c \<noteq> cb_attempt_id b then Inl (PolicyViolation ''Loop rollback baseline ve exact change set ister'')
      else rbind (baseline_digest b) (\<lambda>d.
        if cs_baseline_digest c \<noteq> d \<or> cs_source_revision c \<noteq> cb_source_revision b
          \<or> \<not> set (cs_changed_resources c) \<subseteq> set (cb_allowed_paths b)
        then Inl (PolicyViolation ''Loop rollback baseline ve exact change set ister'')
        else if set (map se_path (cb_protected_dirty_entries b)) \<inter> set (cs_changed_resources c) \<noteq> {}
        then Inl (PolicyViolation ''Loop rollback user dirty path'e dokunamaz'')
        else Inr ()))"

definition rollback_prepare ::
  "('s, 'c) patch_port \<Rightarrow> change_baseline \<Rightarrow> change_set \<Rightarrow> string \<Rightarrow> pydatetime \<Rightarrow> ('s, rollback_plan) gov" where
  "rollback_prepare port b c reason prepared_at =
     gbind (glift (check_rollback_scope b c reason)) (\<lambda>_.
     gbind (glift (change_set_digest c)) (\<lambda>d.
     gbind (pp_protected_state_digest port b) (\<lambda>protected.
     glift (check_rollback_plan
       \<lparr>rb_change_set_digest = d, rb_attempt_id = cs_attempt_id c, rb_source_revision = cs_source_revision c,
        rb_changed_resources = cs_changed_resources c, rb_inverse_patch_digest = cs_inverse_patch_digest c,
        rb_protected_state_digest = protected, rb_reason_code = reason, rb_prepared_at = prepared_at,
        rb_grants_authority = False\<rparr>))))"

definition apply_check_matches :: "patch_apply_check \<Rightarrow> rollback_plan \<Rightarrow> bool res" where
  "apply_check_matches k p =
     (if \<not> pc_applicable k then Inr False
      else rbind (rollback_plan_digest p) (\<lambda>d. Inr (pc_plan_digest k = d
        \<and> pc_inverse_patch_digest k = rb_inverse_patch_digest p \<and> pc_changed_resources k = rb_changed_resources p
        \<and> pc_protected_state_digest k = rb_protected_state_digest p)))"

definition rollback_execute ::
  "('s, 'c) patch_port \<Rightarrow> change_baseline \<Rightarrow> 'c \<Rightarrow> change_set \<Rightarrow> rollback_plan \<Rightarrow> pydatetime \<Rightarrow> pydatetime \<Rightarrow>
     ('s, rollback_receipt) gov" where
  "rollback_execute port b captured c p checked_at applied_at =
     gbind (glift (change_set_digest c)) (\<lambda>d.
     if rb_change_set_digest p \<noteq> d then graise (PolicyViolation ''Loop rollback plan exact change set'e bagli degil'')
     else gbind (pp_apply_check port b captured p checked_at) (\<lambda>k.
       gbind (glift (apply_check_matches k p)) (\<lambda>ok.
       if \<not> ok then graise (PolicyViolation ''Loop rollback canonical apply-check gecmedi'')
       else gbind (pp_apply_inverse port b captured p k) (\<lambda>post.
         gbind (glift (rollback_plan_digest p)) (\<lambda>pd.
         gbind (glift (change_set_digest c)) (\<lambda>cd.
         gbind (glift (apply_check_digest k)) (\<lambda>kd.
         glift (check_rollback_receipt
           \<lparr>rr_plan_digest = pd, rr_change_set_digest = cd, rr_apply_check_digest = kd,
            rr_inverse_patch_digest = cs_inverse_patch_digest c, rr_changed_resources = cs_changed_resources c,
            rr_post_state_digest = post, rr_applied_at = applied_at, rr_status = ''applied'',
            rr_grants_authority = False\<rparr>))))))))"


section \<open>What a rollback touches\<close>

lemma rollback_prepare_Inr:
  assumes "rollback_prepare port b c reason prepared_at s = (t, Inr p)"
  shows "set (rb_changed_resources p) \<subseteq> set (cb_allowed_paths b)"
    "set (rb_changed_resources p) \<inter> set (map se_path (cb_protected_dirty_entries b)) = {}"
    "reason \<in> set ALLOWED_REASONS" "change_set_digest c = Inr (rb_change_set_digest p)"
    "rb_changed_resources p = cs_changed_resources c" "rb_inverse_patch_digest p = cs_inverse_patch_digest c"
  using assms
  by (auto simp: rollback_prepare_def gbind_Inr_iff check_rollback_scope_def check_rollback_plan_def rbind_Inr_iff
      split: if_splits)

lemma check_rollback_receipt_Inr: "check_rollback_receipt r = Inr q \<Longrightarrow> q = r"
  by (auto simp: check_rollback_receipt_def rbind_Inr_iff split: if_splits)

lemma apply_check_matches_True:
  "apply_check_matches k p = Inr True \<Longrightarrow> pc_applicable k \<and> rollback_plan_digest p = Inr (pc_plan_digest k)
    \<and> pc_inverse_patch_digest k = rb_inverse_patch_digest p \<and> pc_changed_resources k = rb_changed_resources p
    \<and> pc_protected_state_digest k = rb_protected_state_digest p"
  by (auto simp: apply_check_matches_def rbind_Inr_iff split: if_splits)

lemma apply_check_digest_ok: "is_ok (apply_check_digest k) \<longleftrightarrow> is_aware (pc_checked_at k)"
  "apply_check_digest k = Inr d \<Longrightarrow> valid_digest d"
  by (cases "pc_checked_at k"; auto simp: apply_check_digest_def digest_def canonicalize_def normalize_texts)+

text \<open>When the receipt can be made, once the inverse patch is applied.\<close>

lemma rollback_receipt_ok:
  assumes "rollback_prepare port b c reason prepared_at s0 = (s1, Inr p)" "rollback_plan_digest p = Inr pd"
    "rb_change_set_digest p = cd" "apply_check_digest k = Inr kd"
  shows "is_ok (check_rollback_receipt
           \<lparr>rr_plan_digest = pd, rr_change_set_digest = cd, rr_apply_check_digest = kd,
            rr_inverse_patch_digest = cs_inverse_patch_digest c, rr_changed_resources = cs_changed_resources c,
            rr_post_state_digest = post, rr_applied_at = applied_at, rr_status = ''applied'',
            rr_grants_authority = False\<rparr>) \<longleftrightarrow> valid_digest post \<and> is_aware applied_at"
proof -
  have "check_rollback_plan p = Inr p" using assms(1)
    by (auto simp: rollback_prepare_def gbind_Inr_iff check_rollback_plan_def rbind_Inr_iff split: if_splits)
  then have v: "valid_digest cd" "valid_digest (cs_inverse_patch_digest c)" "canonical_paths (cs_changed_resources c) ''rollback resource'' = Inr ()"
    using assms(3) rollback_prepare_Inr(5,6) [OF assms(1)]
    by (auto simp: check_rollback_plan_def rbind_Inr_iff parse_all_Inr_iff split: if_splits)
  have "canonical_paths (cs_changed_resources c) ''rollback receipt resource'' = Inr ()"
    using v(3) by (auto simp: canonical_paths_def assert_relative_paths_Inr is_ok_iff assert_relative_path_Inr split: if_splits)
  moreover have "valid_digest pd" using assms(2) by (auto simp: rollback_plan_digest_def digest_def rbind_Inr_iff)
  ultimately show ?thesis using v apply_check_digest_ok(2) [OF assms(4)]
    by (auto simp: check_rollback_receipt_def is_ok_iff rbind_Inr_iff parse_all_Inr_iff)
qed

text \<open>C26. A rollback touches only what the attempt owns, and only after a check. A prepared plan names
  allowed paths of the baseline, none of them the text of a path that was dirty before the attempt, for one of
  the three reasons. Executing it first asks the adapter whether the inverse patch applies, and either nothing
  more happens and an error is raised, or the check was for this plan, this patch, these paths and this state of
  the protected files and the adapter is asked to apply the inverse patch with it. In that case a receipt, which
  names exactly these paths, is returned exactly when the adapter answers with a well-formed digest and the
  times of the check and of the call carry a timezone; otherwise an error is raised after the patch.\<close>

theorem rollback_stays_owned:
  assumes "rollback_prepare port b c reason prepared_at s0 = (s1, Inr p)"
    and "rollback_execute port b captured c p checked_at applied_at s = (t, r)"
  shows "set (rb_changed_resources p) \<subseteq> set (cb_allowed_paths b)
    \<and> set (rb_changed_resources p) \<inter> set (map se_path (cb_protected_dirty_entries b)) = {}
    \<and> reason \<in> set ALLOWED_REASONS
    \<and> ((\<exists>x. pp_apply_check port b captured p checked_at s = (t, x) \<and> \<not> is_ok r)
      \<or> (\<exists>k u x. pp_apply_check port b captured p checked_at s = (u, Inr k) \<and> pc_applicable k
          \<and> rollback_plan_digest p = Inr (pc_plan_digest k) \<and> pc_inverse_patch_digest k = rb_inverse_patch_digest p
          \<and> pc_changed_resources k = rb_changed_resources p \<and> pc_protected_state_digest k = rb_protected_state_digest p
          \<and> pp_apply_inverse port b captured p k u = (t, x)
          \<and> (\<forall>receipt. r = Inr receipt \<longrightarrow> rr_changed_resources receipt = rb_changed_resources p
              \<and> x = Inr (rr_post_state_digest receipt))
          \<and> (is_ok r \<longleftrightarrow> is_aware applied_at \<and> is_aware (pc_checked_at k) \<and> (\<exists>post. x = Inr post \<and> valid_digest post))))"
proof -
  note p = rollback_prepare_Inr [OF assms(1)]
  obtain u kr where k: "pp_apply_check port b captured p checked_at s = (u, kr)" by fastforce
  show ?thesis
  proof (cases "\<exists>k. kr = Inr k \<and> apply_check_matches k p = Inr True")
    case True
    then obtain k where m: "kr = Inr k" "apply_check_matches k p = Inr True" by blast
    obtain v x where x: "pp_apply_inverse port b captured p k u = (v, x)" by fastforce
    have tail: "(t, r) = gbind (\<lambda>_. (v, x)) (\<lambda>post.
         gbind (glift (rollback_plan_digest p)) (\<lambda>pd.
         gbind (glift (change_set_digest c)) (\<lambda>cd.
         gbind (glift (apply_check_digest k)) (\<lambda>kd.
         glift (check_rollback_receipt
           \<lparr>rr_plan_digest = pd, rr_change_set_digest = cd, rr_apply_check_digest = kd,
            rr_inverse_patch_digest = cs_inverse_patch_digest c, rr_changed_resources = cs_changed_resources c,
            rr_post_state_digest = post, rr_applied_at = applied_at, rr_status = ''applied'',
            rr_grants_authority = False\<rparr>))))) u"
      using assms(2) p(4) k m x by (simp add: rollback_execute_def gbind_def glift_def)
    have "t = v" using tail by (auto simp: gbind_def glift_def split: sum.splits)
    moreover have "rr_changed_resources receipt = rb_changed_resources p \<and> x = Inr (rr_post_state_digest receipt)"
      if "r = Inr receipt" for receipt
      using tail [symmetric] that p(5) by (auto simp: gbind_Inr_iff dest!: check_rollback_receipt_Inr)
    moreover have "is_ok r \<longleftrightarrow> is_aware applied_at \<and> is_aware (pc_checked_at k) \<and> (\<exists>post. x = Inr post \<and> valid_digest post)"
    proof (cases "x = Inr (projr x) \<and> is_aware (pc_checked_at k)")
      case True
      obtain kd where kd: "apply_check_digest k = Inr kd" using True apply_check_digest_ok(1) by (auto simp: is_ok_iff)
      obtain post where post: "x = Inr post" using True by blast
      obtain pd where pd: "rollback_plan_digest p = Inr pd" using apply_check_matches_True [OF m(2)] by blast
      show ?thesis
        using tail True kd p(4) post pd rollback_receipt_ok [OF assms(1) pd refl kd, of post applied_at]
        by (simp add: gbind_def glift_def conj_commute)
    next
      case False
      then have "\<not> is_ok r"
        using tail apply_check_digest_ok(1) [of k]
        by (cases x) (auto simp: gbind_def glift_def is_ok_def split: sum.splits)
      then show ?thesis using False by (cases x) auto
    qed
    ultimately show ?thesis using p(1-3) k m x apply_check_matches_True [OF m(2)] by blast
  next
    case False
    then have "t = u \<and> \<not> is_ok r"
      using assms(2) p(4) k
      by (auto simp: rollback_execute_def gbind_def glift_def graise_def is_ok_def split: sum.splits if_splits)
    then show ?thesis using p(1-3) k by blast
  qed
qed

section \<open>What can be created can be rolled back\<close>

lemma normalize_entries: "\<exists>js. normalize_list (map source_entry_as_dict es) = Inr js"
  by (induction es) (auto simp: source_entry_as_dict_def opt_text_def split: option.splits)

lemma change_set_digest_ok:
  assumes "is_aware (cs_created_at c)"
  shows "\<exists>d. change_set_digest c = Inr d \<and> valid_digest d"
proof -
  obtain a where a: "normalize_list (map source_entry_as_dict (cs_before_entries c)) = Inr a" using normalize_entries by blast
  obtain z where z: "normalize_list (map source_entry_as_dict (cs_after_entries c)) = Inr z" using normalize_entries by blast
  obtain us where "cs_created_at c = Aware us" using assms by (cases "cs_created_at c") auto
  with a z show ?thesis
    by (simp add: change_set_digest_def change_set_body_def digest_def canonicalize_def normalize_texts)
qed

text \<open>C29. A change set that could be created from a baseline can be rolled back: for each of the three
  reasons, at a time with a timezone, and whenever the adapter describes the protected files with a well-formed
  digest, preparing the rollback succeeds and plans the changed resources and the inverse patch of the
  change set for the attempt of the baseline. That description is the only call of the adapter: the state
  afterwards is the one that it left.\<close>

theorem created_change_can_roll_back:
  assumes "change_set_create b changed before_entries after_entries forward_patch inverse_patch created_at = Inr c"
    and "reason \<in> set ALLOWED_REASONS" "is_aware prepared_at"
    and "pp_protected_state_digest port b s = (t, Inr d)" "valid_digest d"
  shows "\<exists>p. rollback_prepare port b c reason prepared_at s = (t, Inr p) \<and> rb_changed_resources p = changed
    \<and> rb_inverse_patch_digest p = inverse_patch \<and> rb_attempt_id p = cb_attempt_id b"
proof -
  from assms(1) obtain bd where base: "baseline_digest b = Inr bd" and sub: "set changed \<subseteq> set (cb_allowed_paths b)"
    "set (map se_path (cb_protected_dirty_entries b)) \<inter> set changed = {}"
    and check: "check_change_set \<lparr>cs_attempt_id = cb_attempt_id b, cs_baseline_digest = bd, cs_source_revision = cb_source_revision b,
        cs_changed_resources = changed, cs_before_entries = before_entries, cs_after_entries = after_entries,
        cs_forward_patch_digest = forward_patch, cs_inverse_patch_digest = inverse_patch,
        cs_created_at = created_at, cs_grants_authority = False\<rparr> = Inr c"
    by (auto simp: change_set_create_def rbind_Inr_iff Let_def split: if_splits)
  have c: "cs_attempt_id c = cb_attempt_id b" "cs_baseline_digest c = bd" "cs_source_revision c = cb_source_revision b"
    "cs_changed_resources c = changed" "cs_inverse_patch_digest c = inverse_patch" "\<not> blank (cb_source_revision b)"
    "is_aware (cs_created_at c)" "valid_digest inverse_patch" "canonical_paths changed ''changed resource'' = Inr ()"
    using check by (auto simp: check_change_set_def rbind_Inr_iff parse_all_Inr_iff split: if_splits)
  obtain cd where cd: "change_set_digest c = Inr cd" "valid_digest cd" using change_set_digest_ok [OF c(7)] by blast
  have scope: "check_rollback_scope b c reason = Inr ()"
    using assms(2) base sub c by (simp add: check_rollback_scope_def)
  have paths: "canonical_paths changed ''rollback resource'' = Inr ()"
    using c(9) by (auto simp: canonical_paths_def assert_relative_paths_Inr is_ok_iff assert_relative_path_Inr split: if_splits)
  have "\<not> blank reason" using assms(2) by (auto simp: ALLOWED_REASONS_def) code_simp+
  then have "check_rollback_plan \<lparr>rb_change_set_digest = cd, rb_attempt_id = cs_attempt_id c, rb_source_revision = cs_source_revision c,
        rb_changed_resources = cs_changed_resources c, rb_inverse_patch_digest = cs_inverse_patch_digest c,
        rb_protected_state_digest = d, rb_reason_code = reason, rb_prepared_at = prepared_at, rb_grants_authority = False\<rparr>
    = Inr \<lparr>rb_change_set_digest = cd, rb_attempt_id = cs_attempt_id c, rb_source_revision = cs_source_revision c,
        rb_changed_resources = cs_changed_resources c, rb_inverse_patch_digest = cs_inverse_patch_digest c,
        rb_protected_state_digest = d, rb_reason_code = reason, rb_prepared_at = prepared_at, rb_grants_authority = False\<rparr>"
    using assms(3,5) cd(2) c paths by (simp add: check_rollback_plan_def rbind_Inr_iff parse_all_Inr_iff)
  then show ?thesis
    using scope cd(1) assms(4) c by (simp add: rollback_prepare_def gbind_def glift_def)
qed

section \<open>Another name of a dirty file\<close>

lemma alias_segments: "path_segments (''./'' @ p) = path_segments p"
  by (simp add: path_segments_def split: list.split)

lemma alias_relative:
  assumes "is_ok (assert_relative_path p label)"
  shows "assert_relative_path (''./'' @ p) label' = Inr (''./'' @ p)"
  using assms blank_nonspace [of "CHR ''.''" "''/'' @ p"] alias_segments [of p]
  by (auto simp: assert_relative_path_Inr is_ok_iff starts_with_def windows_absolute_def is_space_def)

lemma baseline_digest_ok:
  assumes "is_aware (cb_captured_at b)"
  shows "\<exists>d. baseline_digest b = Inr d \<and> valid_digest d"
proof -
  obtain a where a: "normalize_list (map source_entry_as_dict (cb_allowed_entries b)) = Inr a" using normalize_entries by blast
  obtain z where z: "normalize_list (map source_entry_as_dict (cb_protected_dirty_entries b)) = Inr z" using normalize_entries by blast
  obtain us where "cb_captured_at b = Aware us" using assms by (cases "cb_captured_at b") auto
  with a z show ?thesis
    by (simp add: baseline_digest_def baseline_body_def digest_def canonicalize_def normalize_texts)
qed

text \<open>C40. Comparing paths as texts does not keep an attempt away from the files that the user had changed. Take any
  accepted baseline and any file that it protects as dirty: the baseline that allows this very file under the
  name with ./ in front is accepted as well, unless that text is protected too, and every change of the file
  under that name is accepted as a change set that the attempt owns.\<close>

theorem dirty_alias_owned:
  assumes "check_baseline b = Inr b" "e \<in> set (cb_protected_dirty_entries b)" "q = ''./'' @ se_path e"
    and "q \<notin> se_path ` set (cb_protected_dirty_entries b)" "se_path old = q" "se_path new = q" "old \<noteq> new"
    and "valid_digest forward_patch" "valid_digest inverse_patch" "is_aware created_at"
    and "a = b\<lparr>cb_allowed_paths := [q], cb_allowed_entries := [old]\<rparr>"
  shows "path_segments q = path_segments (se_path e) \<and> check_baseline a = Inr a
    \<and> (\<exists>c. change_set_create a [q] [old] [new] forward_patch inverse_patch created_at = Inr c \<and> cs_changed_resources c = [q])"
proof -
  have b: "\<not> cb_grants_authority b" "\<not> blank (cb_source_revision b)" "is_aware (cb_captured_at b)"
    "valid_digest (cb_tree_digest b)" "valid_digest (cb_dirty_state_digest b)"
    "canonical_paths (map se_path (cb_protected_dirty_entries b)) ''protected dirty path'' = Inr ()"
    using assms(1) by (auto simp: check_baseline_def rbind_Inr_iff parse_all_Inr_iff split: if_splits)
  have "is_ok (assert_relative_path (se_path e) ''protected dirty path'')"
    using b(6) assms(2) by (auto simp: canonical_paths_def assert_relative_paths_Inr split: if_splits)
  then have paths: "canonical_paths [q] label = Inr ()" for label
    using alias_relative [of "se_path e"] assms(3) by (simp add: canonical_paths_def canonical_tuple_def assert_relative_paths_Inr is_ok_def)
  have a: "check_baseline a = Inr a"
    using b paths assms(4,5,11) by (auto simp: check_baseline_def rbind_Inr_iff parse_all_Inr_iff)
  obtain d where d: "baseline_digest a = Inr d" "valid_digest d" using baseline_digest_ok [of a] b(3) assms(11) by auto
  let ?c = "\<lparr>cs_attempt_id = cb_attempt_id b, cs_baseline_digest = d, cs_source_revision = cb_source_revision b,
        cs_changed_resources = [q], cs_before_entries = [old], cs_after_entries = [new],
        cs_forward_patch_digest = forward_patch, cs_inverse_patch_digest = inverse_patch,
        cs_created_at = created_at, cs_grants_authority = False\<rparr>"
  have "check_change_set ?c = Inr ?c"
    using b d paths assms(5-10) by (simp add: check_change_set_def rbind_Inr_iff parse_all_Inr_iff)
  then have "change_set_create a [q] [old] [new] forward_patch inverse_patch created_at = Inr ?c"
    using a d assms(4,5,11) by (auto simp: change_set_create_def)
  with a show ?thesis using alias_segments [of "se_path e"] assms(3) by auto
qed

end
