(* ===== verification/LoopControl.thy ===== *)
theory LoopControl
  imports Work GovernancePort
begin

text \<open>
  Pausing, draining and cancelling a measured loop (\<^verbatim>\<open>application/loop_control.py\<close>): a control plan is made from a
  snapshot of the loop and applied under one exact authorization. The stores are a port; what the
  service relies on is the locale \<open>control_store\<close>, inside which every history of applied plans is shown to
  follow the transitions.
\<close>

section \<open>States, snapshots and plans\<close>

datatype loop_control_state = CTL_ACTIVE | CTL_PAUSED | CTL_DRAINING | CTL_CANCELLED

fun loop_control_state_value :: "loop_control_state \<Rightarrow> string" where
  "loop_control_state_value CTL_ACTIVE = ''active''"
| "loop_control_state_value CTL_PAUSED = ''paused''"
| "loop_control_state_value CTL_DRAINING = ''draining''"
| "loop_control_state_value CTL_CANCELLED = ''cancelled''"

fun CONTROL_TRANSITIONS :: "loop_control_state \<Rightarrow> loop_control_state list" where
  "CONTROL_TRANSITIONS CTL_ACTIVE = [CTL_PAUSED, CTL_DRAINING, CTL_CANCELLED]"
| "CONTROL_TRANSITIONS CTL_PAUSED = [CTL_ACTIVE, CTL_DRAINING, CTL_CANCELLED]"
| "CONTROL_TRANSITIONS CTL_DRAINING = [CTL_ACTIVE, CTL_CANCELLED]"
| "CONTROL_TRANSITIONS CTL_CANCELLED = []"

record control_snapshot =
  cn_realm_id :: uuid
  cn_loop_id :: uuid
  cn_work_item_id :: uuid
  cn_plan_id :: uuid
  cn_plan_digest :: string
  cn_current_state :: loop_control_state
  cn_terminal_state :: "string option"
  cn_work_state :: string
  cn_current_plan :: bool

definition check_control_snapshot :: "control_snapshot \<Rightarrow> control_snapshot res" where
  "check_control_snapshot n = rbind (parse_digest (cn_plan_digest n)) (\<lambda>_. Inr n)"

record control_plan =
  ck_realm_id :: uuid
  ck_loop_id :: uuid
  ck_work_item_id :: uuid
  ck_plan_id :: uuid
  ck_plan_digest :: string
  ck_source_state :: loop_control_state
  ck_target_state :: loop_control_state
  ck_reason_digest :: string
  ck_effect_digest :: string
  ck_control_digest :: string
  ck_grants_authority :: bool

text \<open>\<^verbatim>\<open>WorkState(text)\<close>\<close>

definition work_state_of :: "string \<Rightarrow> work_state option" where
  "work_state_of t = find (\<lambda>w. work_state_value w = t) (OPEN_STATES @ TERMINAL_STATES)"

definition control_resource :: "uuid \<Rightarrow> string" where
  "control_resource loop = ''loop:'' @ loop"

definition control_effect_digest ::
  "uuid \<Rightarrow> string \<Rightarrow> loop_control_state \<Rightarrow> loop_control_state \<Rightarrow> string \<Rightarrow> string res" where
  "control_effect_digest loop plan_text source_state target_state reason = digest (PDict
     [(PStr ''effect'', PStr ''database-write''), (PStr ''resource'', PStr (control_resource loop)),
      (PStr ''loop_id'', PStr loop), (PStr ''plan_digest'', PStr plan_text),
      (PStr ''source_state'', PStr (loop_control_state_value source_state)),
      (PStr ''target_state'', PStr (loop_control_state_value target_state)), (PStr ''reason_digest'', PStr reason)])"

definition control_plan_body :: "control_plan \<Rightarrow> pyval" where
  "control_plan_body p = PDict
     [(PStr ''schema'', PStr ''zekam-loop-control-plan/v1''), (PStr ''realm_id'', PStr (ck_realm_id p)),
      (PStr ''loop_id'', PStr (ck_loop_id p)), (PStr ''work_item_id'', PStr (ck_work_item_id p)),
      (PStr ''plan_id'', PStr (ck_plan_id p)), (PStr ''plan_digest'', PStr (ck_plan_digest p)),
      (PStr ''resource'', PStr (control_resource (ck_loop_id p))),
      (PStr ''source_state'', PStr (loop_control_state_value (ck_source_state p))),
      (PStr ''target_state'', PStr (loop_control_state_value (ck_target_state p))),
      (PStr ''reason_digest'', PStr (ck_reason_digest p)), (PStr ''effect_digest'', PStr (ck_effect_digest p)),
      (PStr ''grants_authority'', PBool False)]"

definition work_is_open_text :: "string \<Rightarrow> bool" where
  "work_is_open_text t = (case work_state_of t of None \<Rightarrow> False | Some w \<Rightarrow> w \<in> set OPEN_STATES)"

definition control_plan_create :: "control_snapshot \<Rightarrow> loop_control_state \<Rightarrow> string \<Rightarrow> control_plan res" where
  "control_plan_create n target_state reason =
     rbind (parse_digest reason) (\<lambda>_.
     if cn_terminal_state n \<noteq> None then Inl (PolicyViolation ''Terminal loop control state degistiremez'')
     else if work_state_of (cn_work_state n) = None then Inl (PolicyViolation ''Loop control Work state gecersiz'')
     else if \<not> work_is_open_text (cn_work_state n) \<or> \<not> cn_current_plan n
     then Inl (PolicyViolation ''Loop control current open Work ve TaskPlan ister'')
     else if target_state \<notin> set (CONTROL_TRANSITIONS (cn_current_state n))
     then Inl (PolicyViolation ''Loop control state transition gecersiz'')
     else rbind (control_effect_digest (cn_loop_id n) (cn_plan_digest n) (cn_current_state n) target_state reason) (\<lambda>effect.
       let draft = \<lparr>ck_realm_id = cn_realm_id n, ck_loop_id = cn_loop_id n, ck_work_item_id = cn_work_item_id n,
         ck_plan_id = cn_plan_id n, ck_plan_digest = cn_plan_digest n, ck_source_state = cn_current_state n,
         ck_target_state = target_state, ck_reason_digest = reason, ck_effect_digest = effect, ck_control_digest = '''',
         ck_grants_authority = False\<rparr> in
       rbind (digest (control_plan_body draft)) (\<lambda>d. Inr (draft\<lparr>ck_control_digest := d\<rparr>))))"

definition assert_integrity :: "control_plan \<Rightarrow> unit res" where
  "assert_integrity p =
     rbind (parse_digest (ck_plan_digest p)) (\<lambda>_. rbind (parse_digest (ck_reason_digest p)) (\<lambda>_.
     rbind (parse_digest (ck_effect_digest p)) (\<lambda>_. rbind (parse_digest (ck_control_digest p)) (\<lambda>_.
     rbind (digest (control_plan_body p)) (\<lambda>d.
       if ck_control_digest p \<noteq> d then Inl (PolicyViolation ''Loop control plan digest mismatch'') else Inr ())))))"

record control_receipt =
  cc_event_id :: uuid
  cc_loop_id :: uuid
  cc_source_state :: loop_control_state
  cc_target_state :: loop_control_state
  cc_plan_digest :: string
  cc_control_digest :: string
  cc_authorization_id :: uuid
  cc_reason_digest :: string
  cc_created_at :: pydatetime
  cc_receipt_digest :: string
  cc_grants_authority :: bool

section \<open>The service\<close>

record 's control_port =
  op_read_snapshot :: "uuid \<Rightarrow> ('s, control_snapshot) gov"
  op_record_event :: "control_plan \<Rightarrow> uuid \<Rightarrow> uuid \<Rightarrow> string \<Rightarrow> ('s, pydatetime) gov"
  op_get_authorization :: "uuid \<Rightarrow> ('s, authorization) gov"
  op_transaction :: "('s, pydatetime) gov \<Rightarrow> ('s, pydatetime) gov"

definition control_prepare :: "'s control_port \<Rightarrow> uuid \<Rightarrow> loop_control_state \<Rightarrow> string \<Rightarrow> ('s, control_plan) gov" where
  "control_prepare port loop target_state reason =
     gbind (op_read_snapshot port loop) (\<lambda>n. glift (control_plan_create n target_state reason))"

definition control_drift :: "control_snapshot \<Rightarrow> control_plan \<Rightarrow> bool" where
  "control_drift n p =
     (cn_realm_id n \<noteq> ck_realm_id p \<or> cn_loop_id n \<noteq> ck_loop_id p \<or> cn_work_item_id n \<noteq> ck_work_item_id p
      \<or> cn_plan_id n \<noteq> ck_plan_id p \<or> cn_plan_digest n \<noteq> ck_plan_digest p \<or> cn_current_state n \<noteq> ck_source_state p
      \<or> cn_terminal_state n \<noteq> None \<or> \<not> work_is_open_text (cn_work_state n) \<or> \<not> cn_current_plan n)"

definition authorization_bound :: "authorization \<Rightarrow> control_plan \<Rightarrow> int \<Rightarrow> bool" where
  "authorization_bound a p moment =
     (rejection_reason a moment = None \<and> au_realm_id a = ck_realm_id p \<and> au_work_item_id a = Some (ck_work_item_id p)
      \<and> au_plan_id a = Some (ck_plan_id p) \<and> au_plan_digest a = ck_plan_digest p \<and> au_effect_digest a = ck_effect_digest p
      \<and> covers_effect (au_scope a) ''database-write'' \<and> covers_resource (au_scope a) (control_resource (ck_loop_id p)))"

definition control_receipt_digest :: "control_plan \<Rightarrow> uuid \<Rightarrow> uuid \<Rightarrow> pydatetime \<Rightarrow> string res" where
  "control_receipt_digest p event_id authorization_id created_at = digest (PDict
     [(PStr ''schema'', PStr ''zekam-loop-control-receipt/v1''), (PStr ''event_id'', PStr event_id),
      (PStr ''loop_id'', PStr (ck_loop_id p)), (PStr ''source_state'', PStr (loop_control_state_value (ck_source_state p))),
      (PStr ''target_state'', PStr (loop_control_state_value (ck_target_state p))),
      (PStr ''plan_digest'', PStr (ck_plan_digest p)), (PStr ''control_digest'', PStr (ck_control_digest p)),
      (PStr ''authorization_id'', PStr authorization_id), (PStr ''reason_digest'', PStr (ck_reason_digest p)),
      (PStr ''created_at'', PDatetime created_at), (PStr ''grants_authority'', PBool False)])"

text \<open>\<open>event_id\<close> is the identifier that \<^verbatim>\<open>new_uuid7\<close> draws.\<close>

definition control_apply ::
  "'s control_port \<Rightarrow> control_plan \<Rightarrow> uuid \<Rightarrow> pydatetime \<Rightarrow> uuid \<Rightarrow> ('s, control_receipt) gov" where
  "control_apply port p authorization_id now event_id =
     (case now of
        Naive \<Rightarrow> graise (ValidationFailed ''Loop control apply zamani timezone-aware olmali'')
      | Aware moment \<Rightarrow>
          gbind (glift (assert_integrity p)) (\<lambda>_.
          gbind (op_read_snapshot port (ck_loop_id p)) (\<lambda>n.
          if control_drift n p then graise (PolicyViolation ''Loop control apply state/plan drift; replan required'')
          else gbind (op_get_authorization port authorization_id) (\<lambda>a.
            if \<not> authorization_bound a p moment
            then graise (AuthorizationRequired (''Loop control exact authorization binding yok: ''
              @ (case rejection_reason a moment of None \<Rightarrow> ''scope-mismatch'' | Some r \<Rightarrow> r)))
            else gbind (op_transaction port
                (gbind (glift (authorization_digest a)) (\<lambda>ad. op_record_event port p event_id (au_id a) ad))) (\<lambda>created_at.
              gbind (glift (control_receipt_digest p event_id (au_id a) created_at)) (\<lambda>rd.
              greturn \<lparr>cc_event_id = event_id, cc_loop_id = ck_loop_id p, cc_source_state = ck_source_state p,
                cc_target_state = ck_target_state p, cc_plan_digest = ck_plan_digest p,
                cc_control_digest = ck_control_digest p, cc_authorization_id = au_id a,
                cc_reason_digest = ck_reason_digest p, cc_created_at = created_at, cc_receipt_digest = rd,
                cc_grants_authority = False\<rparr>))))))"


section \<open>Histories of applied plans\<close>

text \<open>A list of calls of \<^verbatim>\<open>apply\<close>: plan, authorization, time and drawn identifier. A call that raises leaves no
  receipt.\<close>

fun control_run ::
  "'s control_port \<Rightarrow> (control_plan \<times> uuid \<times> pydatetime \<times> uuid) list \<Rightarrow> 's \<Rightarrow> 's \<times> control_receipt list" where
  "control_run port [] s = (s, [])"
| "control_run port ((p, i, now, e) # calls) s =
     (case control_apply port p i now e s of
        (t, Inl _) \<Rightarrow> control_run port calls t
      | (t, Inr r) \<Rightarrow> (case control_run port calls t of (u, rs) \<Rightarrow> (u, r # rs)))"

text \<open>The receipts of one loop lead from a state to a state along the transitions.\<close>

fun control_chain :: "loop_control_state \<Rightarrow> control_receipt list \<Rightarrow> loop_control_state \<Rightarrow> bool" where
  "control_chain a [] b = (a = b)"
| "control_chain a (r # rs) b =
     (cc_source_state r = a \<and> cc_target_state r \<in> set (CONTROL_TRANSITIONS a) \<and> control_chain (cc_target_state r) rs b)"

lemma control_chain_cancelled: "control_chain CTL_CANCELLED rs b \<Longrightarrow> rs = [] \<and> b = CTL_CANCELLED"
  by (cases rs) auto

lemma receipt_digest_ok: "\<exists>d. control_receipt_digest p e i (Aware m) = Inr d"
  by (simp add: control_receipt_digest_def digest_def canonicalize_def)

text \<open>What the service relies on: reading changes nothing, a transaction that fails is undone, and
  recording an event moves the loop from the source to the target of the plan along a transition and
  spends an authorization that was not spent.\<close>

locale control_store =
  fixes port :: "'s control_port"
    and ok :: "'s \<Rightarrow> bool"
    and state_of :: "'s \<Rightarrow> uuid \<Rightarrow> loop_control_state"
    and spent :: "'s \<Rightarrow> uuid set"
  assumes read_same: "op_read_snapshot port loop s = (t, r) \<Longrightarrow> t = s"
    and get_same: "op_get_authorization port i s = (t, q) \<Longrightarrow> t = s"
    and get_id: "op_get_authorization port i s = (t, Inr a) \<Longrightarrow> au_id a = i"
    and commit: "op_transaction port m s = (t, Inr x) \<Longrightarrow> m s = (t, Inr x)"
    and rollback: "op_transaction port m s = (t, Inl err) \<Longrightarrow> t = s"
    and recorded: "ok s \<Longrightarrow> op_record_event port p e i d s = (t, Inr created) \<Longrightarrow>
      ok t \<and> created \<noteq> Naive \<and> state_of s (ck_loop_id p) = ck_source_state p
      \<and> ck_target_state p \<in> set (CONTROL_TRANSITIONS (ck_source_state p))
      \<and> state_of t = (state_of s)(ck_loop_id p := ck_target_state p) \<and> i \<notin> spent s \<and> spent t = insert i (spent s)"
begin

lemma apply_moves:
  assumes "ok s" "control_apply port p i now e s = (t, Inr r)"
  shows "ok t \<and> cc_loop_id r = ck_loop_id p \<and> cc_authorization_id r = i \<and> i \<notin> spent s \<and> spent t = insert i (spent s)
    \<and> cc_source_state r = state_of s (ck_loop_id p) \<and> cc_target_state r \<in> set (CONTROL_TRANSITIONS (cc_source_state r))
    \<and> state_of t = (state_of s)(ck_loop_id p := cc_target_state r)"
proof -
  obtain moment where "now = Aware moment" using assms(2) by (cases now) (auto simp: control_apply_def)
  with assms(2) obtain u n v a ad w created where
    "op_read_snapshot port (ck_loop_id p) s = (u, Inr n)" "op_get_authorization port i u = (v, Inr a)"
    "op_transaction port (gbind (glift (authorization_digest a)) (\<lambda>ad. op_record_event port p e (au_id a) ad)) v = (w, Inr created)"
    and r: "t = w" "cc_loop_id r = ck_loop_id p" "cc_authorization_id r = au_id a" "cc_source_state r = ck_source_state p"
      "cc_target_state r = ck_target_state p"
    by (auto simp: control_apply_def gbind_Inr_iff split: if_splits)
  then have "op_record_event port p e i ad s = (t, Inr created)" if "authorization_digest a = Inr ad" for ad
    using that read_same get_same get_id commit by (fastforce simp: gbind_Inr_iff)
  moreover obtain ad where "authorization_digest a = Inr ad"
    using commit [of "gbind (glift (authorization_digest a)) (\<lambda>ad. op_record_event port p e (au_id a) ad)" v w created]
      \<open>op_transaction port _ v = _\<close> by (auto simp: gbind_Inr_iff)
  ultimately have "op_record_event port p e i ad s = (t, Inr created)" by blast
  from recorded [OF assms(1) this] r get_id \<open>op_get_authorization port i u = (v, Inr a)\<close> show ?thesis by metis
qed

lemma apply_refused:
  assumes "ok s" "control_apply port p i now e s = (t, Inl err)"
  shows "t = s"
proof (cases now)
  case Naive
  with assms(2) show ?thesis by (simp add: control_apply_def graise_def)
next
  case (Aware moment)
  obtain n where n: "op_read_snapshot port (ck_loop_id p) s = (s, n)" using read_same by (metis prod.exhaust)
  obtain a where a: "op_get_authorization port i s = (s, a)" using get_same by (metis prod.exhaust)
  show ?thesis
  proof (cases "\<exists>n' a'. n = Inr n' \<and> a = Inr a' \<and> assert_integrity p = Inr () \<and> \<not> control_drift n' p \<and> authorization_bound a' p moment")
    case True
    then obtain n' a' where ok': "n = Inr n'" "a = Inr a'" "assert_integrity p = Inr ()" "\<not> control_drift n' p"
      "authorization_bound a' p moment" by blast
    let ?m = "gbind (glift (authorization_digest a')) (\<lambda>ad. op_record_event port p e (au_id a') ad)"
    obtain w x where w: "op_transaction port ?m s = (w, x)" by fastforce
    show ?thesis
    proof (cases x)
      case (Inl f)
      with assms(2) Aware n a ok' w rollback show ?thesis by (auto simp: control_apply_def gbind_def glift_def)
    next
      case (Inr created)
      with w commit have "?m s = (w, Inr created)" by blast
      then obtain ad where "op_record_event port p e (au_id a') ad s = (w, Inr created)" by (auto simp: gbind_Inr_iff)
      with recorded [OF assms(1)] have "created \<noteq> Naive" by blast
      then obtain us where "created = Aware us" by (cases created) auto
      with assms(2) Aware n a ok' w Inr receipt_digest_ok [of p e "au_id a'" us] show ?thesis
        by (auto simp: control_apply_def gbind_def glift_def greturn_def)
    qed
  next
    case False
    with assms(2) Aware n a show ?thesis
      by (auto simp: control_apply_def gbind_def glift_def graise_def split: sum.splits if_splits)
  qed
qed

lemma history:
  assumes "ok s" "control_run port calls s = (t, receipts)"
  shows "ok t \<and> distinct (map cc_authorization_id receipts)
    \<and> spent t = spent s \<union> set (map cc_authorization_id receipts) \<and> spent s \<inter> set (map cc_authorization_id receipts) = {}
    \<and> control_chain (state_of s loop) (filter (\<lambda>r. cc_loop_id r = loop) receipts) (state_of t loop)"
  using assms
proof (induction calls arbitrary: s receipts)
  case (Cons c calls)
  obtain p i now e where c: "c = (p, i, now, e)" by (metis prod_cases4)
  obtain u x where x: "control_apply port p i now e s = (u, x)" by fastforce
  show ?case
  proof (cases x)
    case (Inl err)
    have "u = s" by (rule apply_refused [OF Cons.prems(1) x [unfolded Inl]])
    with x Inl Cons.prems have "control_run port calls s = (t, receipts)" by (simp add: c)
    with Cons show ?thesis by blast
  next
    case (Inr r)
    note m = apply_moves [OF Cons.prems(1) x [unfolded Inr]]
    obtain rs where rs: "control_run port calls u = (t, rs)" "receipts = r # rs"
      using Cons.prems(2) x Inr by (auto simp: c split: prod.splits)
    have "ok u" using m by blast
    from Cons.IH [OF this rs(1)] m show ?thesis by (auto simp: rs(2))
  qed
qed simp

end

end
