(* ===== verification/LoopControlStore.thy ===== *)
theory LoopControlStore
  imports LoopControl SecurityLedger
begin

text \<open>
  The store behind the loop control service: the repository of
  \<^verbatim>\<open>legacy-preserved/src-postgres/measured_loop_repository.py\<close> and the routine
  \<^verbatim>\<open>runtime.record_loop_control_event\<close> of migration 77, over the authorizations of \<open>SecurityLedger\<close>. The clock
  of the database is a field of the store, the sequence of what \<^verbatim>\<open>clock_timestamp()\<close> will answer, of which nothing
  is known: PostgreSQL lets it repeat and step back. Where a lemma needs more of it, \<open>steady_clock\<close> says what. The
  locale \<open>control_store\<close> is interpreted on this store.
\<close>

section \<open>Tables\<close>

record loop_policy_row =
  pw_realm_id :: uuid
  pw_id :: uuid
  pw_work_item_id :: uuid
  pw_plan_id :: uuid
  pw_plan_digest :: string

record control_event_row =
  ce_id :: uuid
  ce_realm_id :: uuid
  ce_loop_id :: uuid
  ce_state :: loop_control_state
  ce_plan_digest :: string
  ce_authorization_id :: uuid
  ce_authorization_digest :: string
  ce_reason_digest :: string
  ce_created_at :: int

text \<open>Work items with their state, task plans with work item and revision, terminal loops; each with its realm.\<close>

record loop_store =
  lx_ledger :: ledger
  lx_policies :: "loop_policy_row list"
  lx_work_items :: "(uuid \<times> uuid \<times> string) list"
  lx_task_plans :: "(uuid \<times> uuid \<times> uuid \<times> int) list"
  lx_terminals :: "(uuid \<times> uuid \<times> string) list"
  lx_events :: "control_event_row list"
  lx_clock :: "nat \<Rightarrow> int"
  lx_reads :: nat

definition clock_timestamp :: "loop_store \<Rightarrow> loop_store \<times> int" where
  "clock_timestamp s = (s\<lparr>lx_reads := Suc (lx_reads s)\<rparr>, lx_clock s (lx_reads s))"

abbreviation lx_realm :: "loop_store \<Rightarrow> uuid" where
  "lx_realm s \<equiv> lg_realm (lx_ledger s)"

section \<open>Queries\<close>

text \<open>\<^verbatim>\<open>order by created_at desc, id desc limit 1\<close>\<close>

definition later_event :: "control_event_row \<Rightarrow> control_event_row \<Rightarrow> bool" where
  "later_event a b = (ce_created_at a > ce_created_at b \<or> ce_created_at a = ce_created_at b \<and> ce_id a > ce_id b)"

fun newest_event :: "control_event_row list \<Rightarrow> control_event_row option" where
  "newest_event [] = None"
| "newest_event (e # es) = (case newest_event es of None \<Rightarrow> Some e | Some f \<Rightarrow> if later_event e f then Some e else Some f)"

definition control_state :: "loop_store \<Rightarrow> uuid \<Rightarrow> loop_control_state" where
  "control_state s loop =
     (case newest_event (filter (\<lambda>e. ce_realm_id e = lx_realm s \<and> ce_loop_id e = loop) (lx_events s)) of
        None \<Rightarrow> CTL_ACTIVE | Some e \<Rightarrow> ce_state e)"

definition find_policy :: "loop_store \<Rightarrow> uuid \<Rightarrow> loop_policy_row option" where
  "find_policy s loop = find (\<lambda>p. pw_realm_id p = lx_realm s \<and> pw_id p = loop) (lx_policies s)"

definition terminal_of :: "loop_store \<Rightarrow> uuid \<Rightarrow> string option" where
  "terminal_of s loop = map_option (snd \<circ> snd) (find (\<lambda>(realm, l, _). realm = lx_realm s \<and> l = loop) (lx_terminals s))"

definition work_state_text :: "loop_store \<Rightarrow> uuid \<Rightarrow> string option" where
  "work_state_text s work = map_option (snd \<circ> snd) (find (\<lambda>(realm, w, _). realm = lx_realm s \<and> w = work) (lx_work_items s))"

text \<open>\<^verbatim>\<open>order by candidate.revision desc, candidate.id desc limit 1\<close>\<close>

fun newest_plan :: "(uuid \<times> int) list \<Rightarrow> (uuid \<times> int) option" where
  "newest_plan [] = None"
| "newest_plan ((i, r) # ps) =
     (case newest_plan ps of None \<Rightarrow> Some (i, r)
      | Some (j, q) \<Rightarrow> if r > q \<or> r = q \<and> i > j then Some (i, r) else Some (j, q))"

definition current_plan_of :: "loop_store \<Rightarrow> uuid \<Rightarrow> uuid option" where
  "current_plan_of s work = map_option fst (newest_plan
     (map (\<lambda>(_, i, _, r). (i, r)) (filter (\<lambda>(realm, _, w, _). realm = lx_realm s \<and> w = work) (lx_task_plans s))))"

definition read_control_snapshot :: "uuid \<Rightarrow> (loop_store, control_snapshot) gov" where
  "read_control_snapshot loop s =
     (case find_policy s loop of
        None \<Rightarrow> (s, Inl (NotFound ''Loop control hedefi bulunamadi''))
      | Some p \<Rightarrow>
          (case work_state_text s (pw_work_item_id p) of
             None \<Rightarrow> (s, Inl (NotFound ''Loop control hedefi bulunamadi''))
           | Some w \<Rightarrow> (s, check_control_snapshot
               \<lparr>cn_realm_id = lx_realm s, cn_loop_id = loop, cn_work_item_id = pw_work_item_id p, cn_plan_id = pw_plan_id p,
                cn_plan_digest = pw_plan_digest p, cn_current_state = control_state s loop,
                cn_terminal_state = terminal_of s loop, cn_work_state = w,
                cn_current_plan = (current_plan_of s (pw_work_item_id p) = Some (pw_plan_id p))\<rparr>)))"

text \<open>\<^verbatim>\<open>assert_loop_open\<close>: the gate that the orchestrator asks before it enqueues an attempt.\<close>

definition assert_loop_open :: "uuid \<Rightarrow> (loop_store, unit) gov" where
  "assert_loop_open loop s =
     (s, if terminal_of s loop \<noteq> None then Inl (PolicyViolation ''Terminal loop yeni attempt job uretemez'')
         else if control_state s loop \<noteq> CTL_ACTIVE
         then Inl (PolicyViolation ''Paused/draining/cancelled loop yeni attempt job uretemez'') else Inr ())"

section \<open>The routine of the database\<close>

definition loop_is_controllable :: "loop_store \<Rightarrow> uuid \<Rightarrow> bool" where
  "loop_is_controllable s loop =
     (case find_policy s loop of None \<Rightarrow> False
      | Some p \<Rightarrow> terminal_of s loop = None
          \<and> (case work_state_text s (pw_work_item_id p) of None \<Rightarrow> False
             | Some w \<Rightarrow> w \<in> {''proposed'', ''ready'', ''active'', ''blocked'', ''verification''})
          \<and> current_plan_of s (pw_work_item_id p) = Some (pw_plan_id p))"

definition transition_permitted :: "loop_control_state \<Rightarrow> loop_control_state \<Rightarrow> bool" where
  "transition_permitted a b =
     (a = CTL_ACTIVE \<and> b \<in> {CTL_PAUSED, CTL_DRAINING, CTL_CANCELLED}
      \<or> a = CTL_PAUSED \<and> b \<in> {CTL_ACTIVE, CTL_DRAINING, CTL_CANCELLED}
      \<or> a = CTL_DRAINING \<and> b \<in> {CTL_ACTIVE, CTL_CANCELLED})"

definition control_authorization_ok ::
  "authorization_row \<Rightarrow> int \<Rightarrow> string \<Rightarrow> loop_policy_row \<Rightarrow> string \<Rightarrow> bool" where
  "control_authorization_ok r moment ad p expected =
     (aw_state r = AS_ISSUED \<and> aw_expires_at r > moment \<and> aw_digest r = ad
      \<and> aw_work_item_id r = Some (pw_work_item_id p) \<and> aw_plan_id r = Some (pw_plan_id p)
      \<and> aw_plan_digest r = pw_plan_digest p \<and> aw_effect_digest r = expected
      \<and> aw_allowed_effects r = [''database-write''] \<and> aw_allowed_resources r = [control_resource (pw_id p)]
      \<and> aw_provider_refs r = [] \<and> aw_secret_ref_ids r = [])"

definition insert_control_event :: "control_event_row \<Rightarrow> loop_store \<Rightarrow> loop_store res" where
  "insert_control_event e s =
     (if \<not> (digest_format (ce_plan_digest e) \<and> digest_format (ce_authorization_digest e) \<and> digest_format (ce_reason_digest e))
      then Inl pg_check_violation
      else if (ce_realm_id e, ce_id e) \<in> (\<lambda>f. (ce_realm_id f, ce_id f)) ` set (lx_events s) then Inl pg_unique_violation
      else Inr (s\<lparr>lx_events := lx_events s @ [e]\<rparr>))"

definition consume_for_control :: "uuid \<Rightarrow> loop_store \<Rightarrow> loop_store res" where
  "consume_for_control authorization_id s =
     (case clock_timestamp s of (s1, moment) \<Rightarrow>
      rbind (update_authorizations (\<lambda>r. aw_id r = authorization_id \<and> aw_state r = AS_ISSUED)
               (mark_consumed moment ''runtime.loop-control/v2'') (lx_ledger s1)) (\<lambda>(ledger, rows).
        if rows = [] then Inl pg_insufficient_privilege else Inr (s1\<lparr>lx_ledger := ledger\<rparr>)))"

definition sql_record_control_event ::
  "uuid \<Rightarrow> uuid \<Rightarrow> loop_control_state \<Rightarrow> uuid \<Rightarrow> string \<Rightarrow> string \<Rightarrow> loop_store \<Rightarrow> loop_store res" where
  "sql_record_control_event event_id loop target_state authorization_id ad reason s =
     (if \<not> loop_is_controllable s loop then Inl pg_insufficient_privilege
      else case find_policy s loop of
        None \<Rightarrow> Inl pg_insufficient_privilege
      | Some p \<Rightarrow>
        (if \<not> transition_permitted (control_state s loop) target_state then Inl pg_insufficient_privilege
         else rbind (control_effect_digest loop (pw_plan_digest p) (control_state s loop) target_state reason) (\<lambda>expected.
         case clock_timestamp s of (s1, moment) \<Rightarrow>
         (case authorization_row_of authorization_id (lx_ledger s1) of
            None \<Rightarrow> Inl pg_insufficient_privilege
          | Some r \<Rightarrow>
            (if \<not> control_authorization_ok r moment ad p expected then Inl pg_insufficient_privilege
             else case clock_timestamp s1 of (s2, created) \<Rightarrow>
               rbind (insert_control_event \<lparr>ce_id = event_id, ce_realm_id = lx_realm s, ce_loop_id = loop, ce_state = target_state,
                   ce_plan_digest = pw_plan_digest p, ce_authorization_id = authorization_id, ce_authorization_digest = ad,
                   ce_reason_digest = reason, ce_created_at = created\<rparr> s2)
                 (consume_for_control authorization_id))))))"

section \<open>The repository\<close>

definition locked_drift :: "control_snapshot \<Rightarrow> control_plan \<Rightarrow> bool res" where
  "locked_drift n p =
     (if cn_work_item_id n \<noteq> ck_work_item_id p \<or> cn_plan_id n \<noteq> ck_plan_id p \<or> cn_plan_digest n \<noteq> ck_plan_digest p
        \<or> cn_current_state n \<noteq> ck_source_state p \<or> cn_terminal_state n \<noteq> None then Inr True
      else case work_state_of (cn_work_state n) of
        None \<Rightarrow> Inl (PyError ''ValueError'')
      | Some w \<Rightarrow> Inr (w \<notin> set OPEN_STATES \<or> \<not> cn_current_plan n))"

definition recorded_event :: "uuid \<Rightarrow> control_plan \<Rightarrow> uuid \<Rightarrow> string \<Rightarrow> loop_store \<Rightarrow> control_event_row option" where
  "recorded_event event_id p authorization_id ad s = find (\<lambda>e. ce_realm_id e = lx_realm s \<and> ce_id e = event_id
     \<and> ce_loop_id e = ck_loop_id p \<and> ce_state e = ck_target_state p \<and> ce_plan_digest e = ck_plan_digest p
     \<and> ce_authorization_id e = authorization_id \<and> ce_authorization_digest e = ad
     \<and> ce_reason_digest e = ck_reason_digest p) (lx_events s)"

definition record_control_event :: "control_plan \<Rightarrow> uuid \<Rightarrow> uuid \<Rightarrow> string \<Rightarrow> (loop_store, pydatetime) gov" where
  "record_control_event p event_id authorization_id ad =
     gbind (\<lambda>s. (s, if ck_realm_id p \<noteq> lx_realm s then Inl (PolicyViolation ''Cross-realm loop control reddedildi'') else Inr ())) (\<lambda>_.
     gbind (glift (assert_integrity p)) (\<lambda>_.
     gbind (read_control_snapshot (ck_loop_id p)) (\<lambda>n.
     gbind (glift (locked_drift n p)) (\<lambda>drift.
     if drift then graise (PolicyViolation ''Loop control locked state/plan drift; replan required'')
     else gbind (\<lambda>s. case sql_record_control_event event_id (ck_loop_id p) (ck_target_state p) authorization_id ad
              (ck_reason_digest p) s of Inl e \<Rightarrow> (s, Inl e) | Inr t \<Rightarrow> (t, Inr ())) (\<lambda>_.
       gbind (\<lambda>s. (s, Inr (recorded_event event_id p authorization_id ad s))) (\<lambda>row.
       case row of
         None \<Rightarrow> graise (PolicyViolation ''Loop control terminal event kaydi dogrulanamadi'')
       | Some e \<Rightarrow> greturn (Aware (ce_created_at e))))))))"

definition control_authorization_get :: "uuid \<Rightarrow> (loop_store, authorization) gov" where
  "control_authorization_get i s =
     (case authorization_get i (lx_ledger s) of (l, r) \<Rightarrow> (s\<lparr>lx_ledger := l\<rparr>, r))"

text \<open>\<^verbatim>\<open>connection.transaction()\<close>: an error rolls back.\<close>

definition db_transaction :: "(loop_store, 'a) gov \<Rightarrow> (loop_store, 'a) gov" where
  "db_transaction m s = (case m s of (_, Inl e) \<Rightarrow> (s, Inl e) | (t, Inr x) \<Rightarrow> (t, Inr x))"

definition postgres_control :: "loop_store control_port" where
  "postgres_control = \<lparr>op_read_snapshot = read_control_snapshot, op_record_event = record_control_event,
     op_get_authorization = control_authorization_get, op_transaction = db_transaction\<rparr>"


section \<open>The store keeps the contract\<close>

text \<open>A recorded event takes three readings of the clock, the second of which is its time. The clock is steady
  when the time of every event is later than the time of the event recorded before it.\<close>

definition steady_clock :: "loop_store \<Rightarrow> bool" where
  "steady_clock s = (\<forall>n. lx_clock s n < lx_clock s (n + 3))"

definition control_ok :: "loop_store \<Rightarrow> bool" where
  "control_ok s = (distinct (map aw_id (lg_authorizations (lx_ledger s)))
     \<and> (\<forall>e \<in> set (lx_events s). ce_created_at e < lx_clock s (Suc (lx_reads s))))"

definition spent_authorizations :: "loop_store \<Rightarrow> uuid set" where
  "spent_authorizations s = aw_id ` {r \<in> set (lg_authorizations (lx_ledger s)). aw_realm_id r = lx_realm s \<and> aw_state r = AS_CONSUMED}"

lemma transition_permitted_iff: "transition_permitted a b \<longleftrightarrow> b \<in> set (CONTROL_TRANSITIONS a)"
  by (cases a) (auto simp: transition_permitted_def)

lemma newest_event_append: "\<forall>f \<in> set es. ce_created_at f < ce_created_at e \<Longrightarrow> newest_event (es @ [e]) = Some e"
  by (induction es) (auto simp: later_event_def)

lemma control_state_append:
  assumes "\<forall>f \<in> set (lx_events s). ce_created_at f < ce_created_at e" "ce_realm_id e = lx_realm s"
    and "lx_events t = lx_events s @ [e]" "lx_realm t = lx_realm s"
  shows "control_state t = (control_state s)(ce_loop_id e := ce_state e)"
proof
  fix loop
  show "control_state t loop = ((control_state s)(ce_loop_id e := ce_state e)) loop"
    using assms newest_event_append [of "filter (\<lambda>f. ce_realm_id f = lx_realm s \<and> ce_loop_id f = loop) (lx_events s)" e]
    by (auto simp: control_state_def)
qed

lemma consume_for_control_Inr:
  assumes "consume_for_control i s = Inr t" "distinct (map aw_id (lg_authorizations (lx_ledger s)))"
  shows "lx_events t = lx_events s \<and> lx_realm t = lx_realm s \<and> lx_clock t = lx_clock s \<and> lx_reads t = Suc (lx_reads s)
    \<and> distinct (map aw_id (lg_authorizations (lx_ledger t)))
    \<and> spent_authorizations t = insert i (spent_authorizations s) \<and> i \<notin> spent_authorizations s"
proof -
  let ?hit = "\<lambda>r. aw_realm_id r = lx_realm s \<and> aw_id r = i \<and> aw_state r = AS_ISSUED"
  let ?f = "mark_consumed (lx_clock s (lx_reads s)) ''runtime.loop-control/v2''"
  have t: "t = s\<lparr>lx_reads := Suc (lx_reads s), lx_ledger := (lx_ledger s)\<lparr>lg_authorizations :=
      map (\<lambda>r. if ?hit r then ?f r else r) (lg_authorizations (lx_ledger s))\<rparr>\<rparr>"
    and hit: "\<exists>r \<in> set (lg_authorizations (lx_ledger s)). ?hit r"
    using assms(1) by (auto simp: consume_for_control_def clock_timestamp_def update_authorizations_def rbind_Inr_iff Let_def
        filter_empty_conv split: if_splits)
  have ids: "map aw_id (map (\<lambda>r. if ?hit r then ?f r else r) (lg_authorizations (lx_ledger s))) = map aw_id (lg_authorizations (lx_ledger s))"
    by (auto simp: mark_consumed_def)
  have rows: "set (lg_authorizations (lx_ledger t)) = (\<lambda>r. if ?hit r then ?f r else r) ` set (lg_authorizations (lx_ledger s))"
    unfolding t by simp
  have "spent_authorizations t = insert i (spent_authorizations s)"
  proof (intro set_eqI iffI)
    fix j assume "j \<in> spent_authorizations t"
    then show "j \<in> insert i (spent_authorizations s)"
      by (auto simp: spent_authorizations_def t mark_consumed_def split: if_splits)
  next
    fix j assume "j \<in> insert i (spent_authorizations s)"
    then consider "j = i" | r where "r \<in> set (lg_authorizations (lx_ledger s))" "aw_realm_id r = lx_realm s" "aw_state r = AS_CONSUMED" "j = aw_id r"
      by (auto simp: spent_authorizations_def)
    then show "j \<in> spent_authorizations t"
    proof cases
      case 1
      obtain r where r: "r \<in> set (lg_authorizations (lx_ledger s))" "?hit r" using hit by blast
      have "?f r \<in> set (lg_authorizations (lx_ledger t))"
        unfolding rows using r by (intro image_eqI [of _ _ r]) simp_all
      then have "?f r \<in> {q \<in> set (lg_authorizations (lx_ledger t)). aw_realm_id q = lx_realm t \<and> aw_state q = AS_CONSUMED}"
        using r(2) by (simp add: mark_consumed_def t)
      moreover have "j = aw_id (?f r)" using 1 r(2) by (simp add: mark_consumed_def)
      ultimately show ?thesis unfolding spent_authorizations_def by (intro image_eqI)
    next
      case 2
      then have "r \<in> set (lg_authorizations (lx_ledger t))"
        unfolding rows by (intro image_eqI [of _ _ r]) simp_all
      then show ?thesis unfolding spent_authorizations_def using 2 by (intro image_eqI [of _ _ r]) (simp_all add: t)
    qed
  qed
  moreover have "i \<notin> spent_authorizations s"
  proof
    assume "i \<in> spent_authorizations s"
    then obtain q where q: "q \<in> set (lg_authorizations (lx_ledger s))" "aw_state q = AS_CONSUMED" "aw_id q = i"
      by (auto simp: spent_authorizations_def)
    obtain r where r: "r \<in> set (lg_authorizations (lx_ledger s))" "aw_state r = AS_ISSUED" "aw_id r = i" using hit by blast
    have "inj_on aw_id (set (lg_authorizations (lx_ledger s)))" using assms(2) by (simp add: distinct_map)
    then have "q = r" by (rule inj_onD) (use q r in simp_all)
    with q r show False by simp
  qed
  moreover have "map aw_id (lg_authorizations (lx_ledger t)) = map aw_id (lg_authorizations (lx_ledger s))"
    using ids by (simp add: t)
  moreover have "lx_events t = lx_events s" "lx_realm t = lx_realm s" "lx_clock t = lx_clock s" "lx_reads t = Suc (lx_reads s)" by (simp_all add: t)
  ultimately show ?thesis using assms(2) by metis
qed

lemma sql_record_stored:
  assumes "sql_record_control_event e loop target i ad reason s = Inr t" "distinct (map aw_id (lg_authorizations (lx_ledger s)))"
  shows "\<exists>ev. lx_events t = lx_events s @ [ev] \<and> ce_id ev = e \<and> ce_loop_id ev = loop \<and> ce_state ev = target \<and> ce_realm_id ev = lx_realm s
      \<and> ce_created_at ev = lx_clock s (Suc (lx_reads s))"
    "lx_realm t = lx_realm s \<and> lx_clock t = lx_clock s \<and> lx_reads t = lx_reads s + 3 \<and> distinct (map aw_id (lg_authorizations (lx_ledger t)))"
    "target \<in> set (CONTROL_TRANSITIONS (control_state s loop))"
    "spent_authorizations t = insert i (spent_authorizations s) \<and> i \<notin> spent_authorizations s"
proof -
  obtain p where p: "find_policy s loop = Some p" "loop_is_controllable s loop" and perm: "transition_permitted (control_state s loop) target"
    using assms(1) by (auto simp: sql_record_control_event_def split: if_splits option.splits)
  obtain x r where x: "control_effect_digest loop (pw_plan_digest p) (control_state s loop) target reason = Inr x"
    "authorization_row_of i (lx_ledger s) = Some r" "control_authorization_ok r (lx_clock s (lx_reads s)) ad p x"
    using assms(1) p perm by (cases "authorization_row_of i (lx_ledger s)")
      (auto simp: sql_record_control_event_def clock_timestamp_def rbind_Inr_iff split: if_splits)
  define ev where "ev = \<lparr>ce_id = e, ce_realm_id = lx_realm s, ce_loop_id = loop, ce_state = target,
    ce_plan_digest = pw_plan_digest p, ce_authorization_id = i, ce_authorization_digest = ad,
    ce_reason_digest = reason, ce_created_at = lx_clock s (Suc (lx_reads s))\<rparr>"
  have cons: "consume_for_control i (s\<lparr>lx_reads := Suc (Suc (lx_reads s)), lx_events := lx_events s @ [ev]\<rparr>) = Inr t"
    using assms(1) p perm x
    by (auto simp: sql_record_control_event_def clock_timestamp_def insert_control_event_def ev_def split: if_splits)
  let ?s = "s\<lparr>lx_reads := Suc (Suc (lx_reads s)), lx_events := lx_events s @ [ev]\<rparr>"
  have d: "distinct (map aw_id (lg_authorizations (lx_ledger ?s)))" using assms(2) by simp
  note c = consume_for_control_Inr [OF cons d]
  have "spent_authorizations ?s = spent_authorizations s" by (simp add: spent_authorizations_def)
  then show "spent_authorizations t = insert i (spent_authorizations s) \<and> i \<notin> spent_authorizations s" using c by simp
  show "target \<in> set (CONTROL_TRANSITIONS (control_state s loop))" using perm by (simp add: transition_permitted_iff)
  show "lx_realm t = lx_realm s \<and> lx_clock t = lx_clock s \<and> lx_reads t = lx_reads s + 3 \<and> distinct (map aw_id (lg_authorizations (lx_ledger t)))"
    using c by simp
  show "\<exists>ev. lx_events t = lx_events s @ [ev] \<and> ce_id ev = e \<and> ce_loop_id ev = loop \<and> ce_state ev = target \<and> ce_realm_id ev = lx_realm s
      \<and> ce_created_at ev = lx_clock s (Suc (lx_reads s))"
    using c by (intro exI [of _ ev]) (simp add: ev_def)
qed

lemma sql_record_Inr:
  assumes "sql_record_control_event e loop target i ad reason s = Inr t" "control_ok s" "steady_clock s"
  shows "control_ok t \<and> steady_clock t \<and> control_state t = (control_state s)(loop := target)
    \<and> target \<in> set (CONTROL_TRANSITIONS (control_state s loop))
    \<and> spent_authorizations t = insert i (spent_authorizations s) \<and> i \<notin> spent_authorizations s"
proof -
  note stored = sql_record_stored [OF assms(1)] and ok = assms(2) [unfolded control_ok_def]
  obtain ev where ev: "lx_events t = lx_events s @ [ev]" "ce_loop_id ev = loop" "ce_state ev = target" "ce_realm_id ev = lx_realm s"
    "ce_created_at ev = lx_clock s (Suc (lx_reads s))" using stored(1) ok by blast
  have t: "lx_realm t = lx_realm s" "lx_clock t = lx_clock s" "lx_reads t = lx_reads s + 3" "distinct (map aw_id (lg_authorizations (lx_ledger t)))"
    using stored(2) ok by blast+
  have old: "\<forall>f \<in> set (lx_events s). ce_created_at f < ce_created_at ev" using ok ev(5) by simp
  have step: "lx_clock s (Suc (lx_reads s)) < lx_clock s (Suc (lx_reads t))"
    using assms(3) t(3) by (metis steady_clock_def add_Suc)
  have "control_state t = (control_state s)(ce_loop_id ev := ce_state ev)"
    by (rule control_state_append [OF old ev(4,1) t(1)])
  moreover have "control_ok t" using step t old ev ok unfolding control_ok_def by (auto intro: less_trans)
  moreover have "steady_clock t" using assms(3) t(2) by (simp add: steady_clock_def)
  ultimately show ?thesis using stored(3,4) ok ev(2,3) by simp
qed

lemma newest_event_later:
  "newest_event (es @ [e]) = (case newest_event es of None \<Rightarrow> Some e | Some f \<Rightarrow> if later_event f e then Some f else Some e)"
proof (induction es)
  case (Cons a es)
  show ?case
  proof (cases "newest_event es")
    case None
    then show ?thesis using Cons by simp
  next
    case (Some f)
    then show ?thesis using Cons by (auto simp: later_event_def)
  qed
qed simp

lemma newest_event_ge: "f \<in> set es \<Longrightarrow> \<exists>g. newest_event es = Some g \<and> ce_created_at f \<le> ce_created_at g"
  by (induction es) (fastforce simp: later_event_def split: option.splits)+

lemma read_control_snapshot_Inr:
  "read_control_snapshot loop s = (t, r) \<Longrightarrow> t = s"
  "read_control_snapshot loop s = (t, Inr n) \<Longrightarrow> cn_current_state n = control_state s loop"
  by (auto simp: read_control_snapshot_def check_control_snapshot_def rbind_Inr_iff split: option.splits)

lemma record_control_event_Inr:
  assumes "control_ok s" "steady_clock s" "record_control_event p e i ad s = (t, Inr created)"
  shows "control_ok t \<and> steady_clock t \<and> created \<noteq> Naive \<and> control_state s (ck_loop_id p) = ck_source_state p
    \<and> ck_target_state p \<in> set (CONTROL_TRANSITIONS (ck_source_state p))
    \<and> control_state t = (control_state s)(ck_loop_id p := ck_target_state p)
    \<and> i \<notin> spent_authorizations s \<and> spent_authorizations t = insert i (spent_authorizations s)"
proof -
  from assms(3) obtain n where n: "read_control_snapshot (ck_loop_id p) s = (s, Inr n)" "locked_drift n p = Inr False"
    and sql: "sql_record_control_event e (ck_loop_id p) (ck_target_state p) i ad (ck_reason_digest p) s = Inr t"
    and created: "created \<noteq> Naive"
    by (auto simp: record_control_event_def gbind_Inr_iff dest: read_control_snapshot_Inr(1) split: if_splits option.splits sum.splits)
  have "control_state s (ck_loop_id p) = ck_source_state p"
    using n(2) read_control_snapshot_Inr(2) [OF n(1)] by (auto simp: locked_drift_def split: if_splits option.splits)
  with sql_record_Inr [OF sql assms(1,2)] created show ?thesis by simp
qed

lemma authorization_get_id: "authorization_get i l = (m, Inr a) \<Longrightarrow> au_id a = i"
  by (auto simp: authorization_get_def query_def gbind_Inr_iff authorization_row_of_def authorization_from_row_def
      check_authorization_def rbind_Inr_iff find_Some_iff split: option.splits if_splits)

lemma authorization_get_same: "authorization_get i l = (m, r) \<Longrightarrow> m = l"
  by (auto simp: authorization_get_def query_def gbind_def glift_def graise_def split: option.splits)

interpretation loop_control: control_store postgres_control "\<lambda>s. control_ok s \<and> steady_clock s" control_state spent_authorizations
proof
  show "op_read_snapshot postgres_control loop s = (t, r) \<Longrightarrow> t = s" for loop s t r
    by (simp add: postgres_control_def read_control_snapshot_Inr(1))
  show "op_get_authorization postgres_control i s = (t, q) \<Longrightarrow> t = s" for i s t q
    by (auto simp: postgres_control_def control_authorization_get_def dest: authorization_get_same split: prod.splits)
  show "op_get_authorization postgres_control i s = (t, Inr a) \<Longrightarrow> au_id a = i" for i s t a
    by (auto simp: postgres_control_def control_authorization_get_def dest: authorization_get_id split: prod.splits)
  show "op_transaction postgres_control m s = (t, Inr x) \<Longrightarrow> m s = (t, Inr x)" for m s t x
    by (auto simp: postgres_control_def db_transaction_def split: prod.splits sum.splits)
  show "op_transaction postgres_control m s = (t, Inl err) \<Longrightarrow> t = s" for m s t err
    by (auto simp: postgres_control_def db_transaction_def split: prod.splits sum.splits)
  show "control_ok s \<and> steady_clock s \<Longrightarrow> op_record_event postgres_control p e i d s = (t, Inr created) \<Longrightarrow>
      (control_ok t \<and> steady_clock t) \<and> created \<noteq> Naive \<and> control_state s (ck_loop_id p) = ck_source_state p
      \<and> ck_target_state p \<in> set (CONTROL_TRANSITIONS (ck_source_state p))
      \<and> control_state t = (control_state s)(ck_loop_id p := ck_target_state p)
      \<and> i \<notin> spent_authorizations s \<and> spent_authorizations t = insert i (spent_authorizations s)" for s p e i d t created
    using record_control_event_Inr [of s p e i d t created] by (simp add: postgres_control_def)
qed

text \<open>C14. As long as the clock of the database gives every recorded event a later time than the one before, every
  history of control calls follows the control states. Whatever plans are applied, with
  whatever authorizations and in whatever order, the receipts of a loop lead from its state before to its
  state after along the permitted transitions, so a cancelled loop stays cancelled and admits no attempt; a refused
  call leaves no trace in it; and every receipt spends an authorization of its own that was not
  consumed before and is consumed afterwards.\<close>

theorem loop_control_history:
  assumes "control_ok s" "steady_clock s" "control_run postgres_control calls s = (t, receipts)"
  shows "control_chain (control_state s loop) (filter (\<lambda>r. cc_loop_id r = loop) receipts) (control_state t loop)
    \<and> distinct (map cc_authorization_id receipts)
    \<and> spent_authorizations t = spent_authorizations s \<union> set (map cc_authorization_id receipts)
    \<and> spent_authorizations s \<inter> set (map cc_authorization_id receipts) = {}
    \<and> (control_state s loop = CTL_CANCELLED \<longrightarrow> control_state t loop = CTL_CANCELLED \<and> snd (assert_loop_open loop t) \<noteq> Inr ())"
proof -
  note h = loop_control.history [OF conjI [OF assms(1,2)] assms(3), of loop]
  then have "control_state s loop = CTL_CANCELLED \<longrightarrow> control_state t loop = CTL_CANCELLED"
    using control_chain_cancelled by fastforce
  then show ?thesis using h by (auto simp: assert_loop_open_def)
qed

text \<open>Without a steady clock a control event has no effect. When the routine records an event while the clock
  is behind the time of an earlier event of the same loop, the event is stored and its authorization is spent, but
  the state of the loop is read as before: a loop that was cancelled so goes on.\<close>

theorem late_clock_loses_control:
  assumes "sql_record_control_event e loop target i ad reason s = Inr t" "distinct (map aw_id (lg_authorizations (lx_ledger s)))"
    and "f \<in> set (lx_events s)" "ce_realm_id f = lx_realm s" "ce_loop_id f = loop"
    and "lx_clock s (Suc (lx_reads s)) < ce_created_at f"
  shows "control_state t loop = control_state s loop \<and> e \<in> ce_id ` set (lx_events t) \<and> i \<in> spent_authorizations t
    \<and> target \<in> set (CONTROL_TRANSITIONS (control_state s loop))"
proof -
  note stored = sql_record_stored [OF assms(1,2)]
  obtain ev where ev: "lx_events t = lx_events s @ [ev]" "ce_id ev = e" "ce_loop_id ev = loop" "ce_realm_id ev = lx_realm s"
    "ce_created_at ev = lx_clock s (Suc (lx_reads s))" using stored(1) by blast
  let ?mine = "filter (\<lambda>e. ce_realm_id e = lx_realm s \<and> ce_loop_id e = loop)"
  obtain g where g: "newest_event (?mine (lx_events s)) = Some g" "ce_created_at f \<le> ce_created_at g"
    using newest_event_ge [of f "?mine (lx_events s)"] assms(3-5) by auto
  have "later_event g ev" using g(2) assms(6) ev(5) by (simp add: later_event_def)
  then have "newest_event (?mine (lx_events t)) = newest_event (?mine (lx_events s))"
    using ev g(1) by (simp add: newest_event_later)
  then have "control_state t loop = control_state s loop" using stored(2) by (simp add: control_state_def)
  then show ?thesis using ev(1,2) stored(3,4) by simp
qed

end
