(* ===== verification/BoundSource.thy ===== *)
theory BoundSource
  imports Sandbox GovernancePort
begin

text \<open>
  The bound source tree as the builder sees it (\<^verbatim>\<open>infrastructure/git/worktree.py\<close>, with the guard of
  \<^verbatim>\<open>infrastructure/git/source_reader.py\<close>). Git and the file system are functions of the state: what a git
  command prints, what a path holds, what a path resolves to. The advisory lock of the source tree is
  modelled with its holders. The lemmas show that one builder at a time holds a source tree.
\<close>

section \<open>The tree\<close>

text \<open>The entry at a path, as \<^verbatim>\<open>lstat\<close> sees it; a reparse point is a link.\<close>

datatype path_kind = NO_ENTRY | FILE_ENTRY "nat list" | DIRECTORY_ENTRY | LINK_ENTRY

text \<open>\<open>st_git\<close> is the output of a git command in a directory; \<open>st_entry\<close> the entry under a directory at the
  given segments; \<open>st_strict\<close> is \<^verbatim>\<open>Path.resolve(strict=True)\<close>, where \<open>None\<close> is an \<^verbatim>\<open>OSError\<close>; \<open>st_absolute\<close> is
  \<^verbatim>\<open>Path.resolve()\<close>; \<open>st_holders\<close> maps a lock file to the open stream that has it locked.\<close>

record source_tree =
  st_git :: "string \<Rightarrow> string list \<Rightarrow> string res"
  st_entry :: "string \<Rightarrow> string list \<Rightarrow> path_kind"
  st_strict :: "string \<Rightarrow> string option"
  st_absolute :: "string \<Rightarrow> string"
  st_holders :: "string \<Rightarrow> nat option"
  st_next :: nat

definition READ_ONLY_COMMANDS :: "string list" where
  "READ_ONLY_COMMANDS = [''rev-parse'', ''rev-list'', ''status'', ''log'', ''show-ref'', ''ls-files'', ''ls-tree'', ''config'',
     ''describe'', ''symbolic-ref'', ''cat-file'', ''diff'', ''diff-tree'', ''for-each-ref'']"

definition run_read_only :: "source_tree \<Rightarrow> string \<Rightarrow> string list \<Rightarrow> string res" where
  "run_read_only s dir arguments =
     (case arguments of
        [] \<Rightarrow> Inl (PolicyViolation ''Git komutu bos olamaz'')
      | subcommand # _ \<Rightarrow>
          if subcommand \<notin> set READ_ONLY_COMMANDS
          then Inl (PolicyViolation (''Salt okunur olmayan Git alt komutu reddedildi: '' @ subcommand))
          else st_git s dir arguments)"

definition worktree_run :: "source_tree \<Rightarrow> string \<Rightarrow> string list \<Rightarrow> string res" where
  "worktree_run s dir arguments =
     (case arguments of
        [] \<Rightarrow> Inl (PolicyViolation ''izinsiz git alt komutu'')
      | subcommand # _ \<Rightarrow>
          if subcommand \<notin> {''diff''} then Inl (PolicyViolation ''izinsiz git alt komutu'')
          else run_read_only s dir arguments)"

text \<open>\<^verbatim>\<open>fingerprint\<close>\<close>

definition fingerprint_of :: "source_tree \<Rightarrow> string \<Rightarrow> tree_fingerprint res" where
  "fingerprint_of s dir =
     rbind (run_read_only s dir [''rev-parse'', ''HEAD'']) (\<lambda>head.
     rbind (run_read_only s dir [''ls-files'', ''--stage'']) (\<lambda>listing.
     rbind (run_read_only s dir [''status'', ''--porcelain'']) (\<lambda>status.
     rbind (digest (PDict [(PStr ''stage'', PStr (strip listing))])) (\<lambda>d.
       check_fingerprint_tree \<lparr>tf_head = strip head, tf_tree_digest = d, tf_dirty = (strip status \<noteq> [])\<rparr>))))"

section \<open>A worktree\<close>

text \<open>The lease is the lock file with the identity of the open stream; the stream is closed when it no longer
  holds the lock.\<close>

record managed_worktree =
  mw_workspace_id :: string
  mw_path :: string
  mw_revision :: string
  mw_lease :: "(string \<times> nat) option"

text \<open>\<^verbatim>\<open>resolve\<close>, which gives the segments of the target. No prefix of a target that passes the loop is a link,
  so the target is where its name says.\<close>

definition worktree_resolve :: "source_tree \<Rightarrow> managed_worktree \<Rightarrow> string \<Rightarrow> string list res" where
  "worktree_resolve s w relative =
     rbind (assert_relative_path relative ''hedef path'') (\<lambda>_.
     let base = st_absolute s (mw_path w); parts = path_segments relative in
     if list_ex (\<lambda>n. st_entry s base (take n parts) = LINK_ENTRY) [1..<Suc (length parts)]
     then Inl (PolicyViolation ''hedef path symlink veya reparse point tasiyamaz'')
     else let target = path_segments base @ parts in
       if path_segments base \<noteq> target \<and> path_segments base \<notin> set (path_parents target)
       then Inl (PolicyViolation ''hedef path bagli source kokunun disina cikiyor'')
       else Inr target)"

section \<open>The manager\<close>

record worktree_manager =
  wm_source_root :: string
  wm_workspaces_root :: string

text \<open>The lock file of a source tree; it can always be opened.\<close>

definition lease_file :: "source_tree \<Rightarrow> string \<Rightarrow> string res" where
  "lease_file s dir = rbind (run_read_only s dir [''rev-parse'', ''--git-dir'']) (\<lambda>t.
     let git_dir = strip t in
     Inr (st_absolute s (if starts_with git_dir ''/'' then git_dir else dir @ ''/'' @ git_dir) @ ''/zekam-bound-source.lock''))"

definition acquire_source_lease :: "string \<Rightarrow> (source_tree, string \<times> nat) gov" where
  "acquire_source_lease dir s =
     (case lease_file s dir of
        Inl e \<Rightarrow> (s, Inl e)
      | Inr lock \<Rightarrow> (case st_holders s lock of
          Some _ \<Rightarrow> (s, Inl (PolicyViolation ''bound source baska builder tarafindan kullaniliyor''))
        | None \<Rightarrow> (s\<lparr>st_holders := (st_holders s)(lock \<mapsto> st_next s), st_next := Suc (st_next s)\<rparr>, Inr (lock, st_next s))))"

definition release_source_lease :: "string \<times> nat \<Rightarrow> source_tree \<Rightarrow> source_tree" where
  "release_source_lease lease s = s\<lparr>st_holders := (st_holders s)(fst lease := None)\<rparr>"

definition worktree_create :: "worktree_manager \<Rightarrow> string \<Rightarrow> string \<Rightarrow> (source_tree, managed_worktree) gov" where
  "worktree_create m workspace_id revision =
     gbind (acquire_source_lease (wm_source_root m)) (\<lambda>lease s.
       case rbind (run_read_only s (wm_source_root m) [''rev-parse'', revision]) (\<lambda>resolved.
            rbind (run_read_only s (wm_source_root m) [''rev-parse'', ''HEAD'']) (\<lambda>current.
            if strip resolved \<noteq> strip current then Inl (PolicyViolation ''bound source revision HEAD ile ayni olmalidir'')
            else Inr (strip resolved))) of
         Inl e \<Rightarrow> (release_source_lease lease s, Inl e)
       | Inr resolved \<Rightarrow> (s, Inr \<lparr>mw_workspace_id = workspace_id, mw_path = wm_source_root m, mw_revision = resolved,
           mw_lease = Some lease\<rparr>))"

definition worktree_remove :: "worktree_manager \<Rightarrow> managed_worktree \<Rightarrow> (source_tree, unit) gov" where
  "worktree_remove m w s =
     (if st_absolute s (mw_path w) \<noteq> st_absolute s (wm_source_root m)
      then (s, Inl (PolicyViolation ''yalniz bagli gercek source root kabul edilir''))
      else case mw_lease w of
        None \<Rightarrow> (s, Inr ())
      | Some lease \<Rightarrow> if st_holders s (fst lease) = Some (snd lease) then (release_source_lease lease s, Inr ()) else (s, Inr ()))"

definition manager_diff :: "source_tree \<Rightarrow> managed_worktree \<Rightarrow> string res" where
  "manager_diff s w = worktree_run s (mw_path w) [''diff'', ''--no-color'', ''HEAD'']"

definition untracked_file :: "source_tree \<Rightarrow> managed_worktree \<Rightarrow> string \<Rightarrow> (string \<times> string) res" where
  "untracked_file s w relative = rbind (worktree_resolve s w relative) (\<lambda>_.
     case st_entry s (st_absolute s (mw_path w)) (path_segments relative) of
       FILE_ENTRY content \<Rightarrow> Inr (relative, digest_of_bytes content)
     | _ \<Rightarrow> Inl (PolicyViolation ''untracked source kaniti normal dosya ister''))"

definition untracked_evidence :: "source_tree \<Rightarrow> managed_worktree \<Rightarrow> (string \<times> string) list res" where
  "untracked_evidence s w =
     rbind (run_read_only s (mw_path w) [''ls-files'', ''--others'', ''--exclude-standard'', ''-z'']) (\<lambda>output.
       rmap (untracked_file s w) (sort (filter (\<lambda>v. v \<noteq> []) (split_on (CHR 0x00) output))))"

definition untracked_rows :: "(string \<times> string) list \<Rightarrow> pyval" where
  "untracked_rows rows = PList (map (\<lambda>(path, d). PDict [(PStr ''path'', PStr path), (PStr ''content_digest'', PStr d)]) rows)"

definition manager_patch_digest :: "source_tree \<Rightarrow> managed_worktree \<Rightarrow> string res" where
  "manager_patch_digest s w =
     rbind (manager_diff s w) (\<lambda>patch.
     rbind (untracked_evidence s w) (\<lambda>rows. digest (PDict
       [(PStr ''schema'', PStr ''zekam-bound-source-patch/v1''),
        (PStr ''tracked_patch_digest'', PStr (digest_of_bytes (utf8_bytes patch))), (PStr ''untracked'', untracked_rows rows)])))"

definition dirty_state_digest :: "source_tree \<Rightarrow> managed_worktree \<Rightarrow> string res" where
  "dirty_state_digest s w =
     rbind (fingerprint_of s (mw_path w)) (\<lambda>current.
     rbind (run_read_only s (mw_path w) [''status'', ''--porcelain=v1'', ''--untracked-files=all'']) (\<lambda>status.
     rbind (manager_patch_digest s w) (\<lambda>pd.
     rbind (untracked_evidence s w) (\<lambda>rows. digest (PDict
       [(PStr ''schema'', PStr ''zekam-bound-source-dirty-state/v1''), (PStr ''workspace_id'', PStr (mw_workspace_id w)),
        (PStr ''base_revision'', PStr (mw_revision w)), (PStr ''head'', PStr (tf_head current)),
        (PStr ''index_tree_digest'', PStr (tf_tree_digest current)),
        (PStr ''status_digest'', PStr (digest_of_bytes (utf8_bytes status))), (PStr ''patch_digest'', PStr pd),
        (PStr ''untracked'', untracked_rows rows), (PStr ''dirty'', PBool (tf_dirty current))])))))"

text \<open>\<^verbatim>\<open>str.splitlines\<close> up to empty lines, which the callers drop.\<close>

definition line_break :: "char \<Rightarrow> bool" where
  "line_break c = ((of_char c :: nat) \<in> {10, 11, 12, 13, 28, 29, 30, 133})"

definition split_lines :: "string \<Rightarrow> string list" where
  "split_lines t = split_on (CHR 0x0A) (map (\<lambda>c. if line_break c then CHR 0x0A else c) t)"

definition manager_changed_paths :: "source_tree \<Rightarrow> managed_worktree \<Rightarrow> string list res" where
  "manager_changed_paths s w =
     rbind (worktree_run s (mw_path w) [''diff'', ''--name-only'', ''HEAD'']) (\<lambda>output.
     let tracked = filter (\<lambda>l. l \<noteq> []) (map strip (split_lines output)) in
     rbind (rmap (worktree_resolve s w) (sort (remdups tracked))) (\<lambda>_.
     rbind (untracked_evidence s w) (\<lambda>rows. Inr (sort (remdups (tracked @ map fst rows))))))"

definition manager_apply_check :: "string \<Rightarrow> bool" where
  "manager_apply_check patch = (strip patch \<noteq> [])"

section \<open>One builder at a time\<close>

lemma run_read_only_leases [simp]:
  "run_read_only (s\<lparr>st_holders := h, st_next := n\<rparr>) dir arguments = run_read_only s dir arguments"
  "run_read_only (s\<lparr>st_holders := h\<rparr>) dir arguments = run_read_only s dir arguments"
  by (auto simp: run_read_only_def split: list.splits)

lemma worktree_create_Inr:
  assumes "worktree_create m i revision s = (t, Inr w)"
  shows "\<exists>lock head. lease_file s (wm_source_root m) = Inr lock \<and> st_holders s lock = None
    \<and> mw_lease w = Some (lock, st_next s) \<and> mw_path w = wm_source_root m \<and> mw_workspace_id w = i
    \<and> t = s\<lparr>st_holders := (st_holders s)(lock \<mapsto> st_next s), st_next := Suc (st_next s)\<rparr>
    \<and> run_read_only s (wm_source_root m) [''rev-parse'', ''HEAD''] = Inr head \<and> mw_revision w = strip head"
proof -
  from assms obtain lock where lock: "lease_file s (wm_source_root m) = Inr lock" "st_holders s lock = None"
    by (auto simp: worktree_create_def acquire_source_lease_def gbind_def split: sum.splits option.splits)
  with assms show ?thesis
    by (auto simp: worktree_create_def acquire_source_lease_def gbind_def rbind_Inr_iff split: sum.splits if_splits)
qed

lemma worktree_create_Inl: "worktree_create m i revision s = (t, Inl e) \<Longrightarrow> st_holders t = st_holders s"
  by (auto simp: worktree_create_def acquire_source_lease_def gbind_def release_source_lease_def fun_upd_idem
      split: sum.splits option.splits)

lemma worktree_create_busy:
  assumes "lease_file s (wm_source_root m) = Inr lock" "st_holders s lock \<noteq> None"
  shows "worktree_create m i revision s = (s, Inl (PolicyViolation ''bound source baska builder tarafindan kullaniliyor''))"
  using assms by (auto simp: worktree_create_def acquire_source_lease_def gbind_def)

lemma worktree_create_next: "st_next s \<le> st_next (fst (worktree_create m i revision s))"
  by (auto simp: worktree_create_def acquire_source_lease_def gbind_def release_source_lease_def split: sum.splits option.splits)

text \<open>Builders that take and give back source trees. \<open>live\<close> are the worktrees handed out and not given back, \<open>old\<close>
  those given back; any builder may give back its worktree again, and the trees change freely in
  between.\<close>

inductive builders :: "source_tree \<Rightarrow> managed_worktree list \<Rightarrow> managed_worktree list \<Rightarrow> bool" where
  nobody: "st_holders s = Map.empty \<Longrightarrow> builders s [] []"
| created: "builders s live old \<Longrightarrow> worktree_create m i revision s = (t, Inr w) \<Longrightarrow> builders t (w # live) old"
| refused: "builders s live old \<Longrightarrow> worktree_create m i revision s = (t, Inl e) \<Longrightarrow> builders t live old"
| removed: "builders s live old \<Longrightarrow> w \<in> set (live @ old) \<Longrightarrow> worktree_remove m w s = (t, Inr ()) \<Longrightarrow>
    builders t (filter (\<lambda>v. v \<noteq> w) live) (w # old)"
| edited: "builders s live old \<Longrightarrow> st_holders t = st_holders s \<Longrightarrow> st_next t = st_next s \<Longrightarrow> builders t live old"

text \<open>A lock is held by one live worktree or by none, and a stream is never opened twice.\<close>

definition builders_ok :: "source_tree \<Rightarrow> managed_worktree list \<Rightarrow> managed_worktree list \<Rightarrow> bool" where
  "builders_ok s live old =
     ((\<forall>w \<in> set live. \<exists>lock i. mw_lease w = Some (lock, i) \<and> st_holders s lock = Some i)
      \<and> (\<forall>w \<in> set (live @ old). \<exists>lock i. mw_lease w = Some (lock, i) \<and> i < st_next s)
      \<and> (\<forall>lock i. st_holders s lock = Some i \<longrightarrow> i < st_next s \<and> (\<exists>w \<in> set live. mw_lease w = Some (lock, i)))
      \<and> distinct (map mw_lease live)
      \<and> (\<forall>w \<in> set old. \<forall>v \<in> set live. mw_lease v \<noteq> mw_lease w))"

lemma builders_ok_created:
  assumes "builders_ok s live old" "worktree_create m i revision s = (t, Inr w)"
  shows "builders_ok t (w # live) old"
proof -
  obtain lock where w: "st_holders s lock = None" "mw_lease w = Some (lock, st_next s)"
    "t = s\<lparr>st_holders := (st_holders s)(lock \<mapsto> st_next s), st_next := Suc (st_next s)\<rparr>"
    using worktree_create_Inr [OF assms(2)] by blast
  have live: "\<exists>l j. mw_lease v = Some (l, j) \<and> st_holders s l = Some j \<and> j < st_next s \<and> l \<noteq> lock" if "v \<in> set live" for v
    using assms(1) that w(1) unfolding builders_ok_def by fastforce
  have old: "\<exists>l j. mw_lease v = Some (l, j) \<and> j < st_next s" if "v \<in> set old" for v
    using assms(1) that unfolding builders_ok_def by auto
  have held: "j < st_next s \<and> (\<exists>v \<in> set live. mw_lease v = Some (l, j))" if "st_holders s l = Some j" for l j
    using assms(1) that unfolding builders_ok_def by auto
  have apart: "distinct (map mw_lease live)" "\<forall>v \<in> set old. \<forall>x \<in> set live. mw_lease x \<noteq> mw_lease v"
    using assms(1) unfolding builders_ok_def by auto
  show ?thesis unfolding builders_ok_def
  proof (intro conjI)
    show "\<forall>v \<in> set (w # live). \<exists>l j. mw_lease v = Some (l, j) \<and> st_holders t l = Some j" using live w by fastforce
    show "\<forall>v \<in> set ((w # live) @ old). \<exists>l j. mw_lease v = Some (l, j) \<and> j < st_next t" using live old w by fastforce
    show "\<forall>l j. st_holders t l = Some j \<longrightarrow> j < st_next t \<and> (\<exists>v \<in> set (w # live). mw_lease v = Some (l, j))"
      using held w by (auto simp: less_Suc_eq)
    show "distinct (map mw_lease (w # live))" using apart live w by fastforce
    show "\<forall>v \<in> set old. \<forall>x \<in> set (w # live). mw_lease x \<noteq> mw_lease v" using apart old w by fastforce
  qed
qed

lemma builders_ok_removed:
  assumes "builders_ok s live old" "w \<in> set (live @ old)" "worktree_remove m w s = (t, Inr ())"
  shows "builders_ok t (filter (\<lambda>v. v \<noteq> w) live) (w # old)"
proof -
  obtain lock i where w: "mw_lease w = Some (lock, i)" "i < st_next s" using assms(1,2) unfolding builders_ok_def by blast
  have t: "t = (if st_holders s lock = Some i then release_source_lease (lock, i) s else s)"
    using assms(3) w by (auto simp: worktree_remove_def split: if_splits)
  have nxt: "st_next t = st_next s" by (simp add: t release_source_lease_def)
  have live: "\<exists>l j. mw_lease v = Some (l, j) \<and> st_holders s l = Some j" if "v \<in> set live" for v
    using assms(1) that unfolding builders_ok_def by auto
  have bound: "\<exists>l j. mw_lease v = Some (l, j) \<and> j < st_next s" if "v \<in> set (live @ old)" for v
    using assms(1) that unfolding builders_ok_def by blast
  have held: "j < st_next s \<and> (\<exists>v \<in> set live. mw_lease v = Some (l, j))" if "st_holders s l = Some j" for l j
    using assms(1) that unfolding builders_ok_def by auto
  have d: "distinct (map mw_lease live)" and apart: "\<forall>v \<in> set old. \<forall>x \<in> set live. mw_lease x \<noteq> mw_lease v"
    using assms(1) unfolding builders_ok_def by auto
  have only: "x = w" if "x \<in> set live" "mw_lease x = mw_lease w" for x
  proof (cases "w \<in> set live")
    case True
    have "inj_on mw_lease (set live)" using d by (simp add: distinct_map)
    then show ?thesis using that True by (auto dest: inj_onD)
  next
    case False
    then have "w \<in> set old" using assms(2) by simp
    with apart that show ?thesis by blast
  qed
  have keep: "st_holders t l = Some j" if "x \<in> set live" "x \<noteq> w" "mw_lease x = Some (l, j)" for x l j
  proof -
    have j: "st_holders s l = Some j" using live [OF that(1)] that(3) by auto
    have "(l, j) \<noteq> (lock, i)" using only that w(1) by auto
    with j show ?thesis by (auto simp: t release_source_lease_def)
  qed
  have less: "st_holders s l = Some j \<and> (l, j) \<noteq> (lock, i)" if "st_holders t l = Some j" for l j
    using that by (auto simp: t release_source_lease_def split: if_splits)
  show ?thesis unfolding builders_ok_def
  proof (intro conjI)
    show "\<forall>x \<in> set (filter (\<lambda>v. v \<noteq> w) live). \<exists>l j. mw_lease x = Some (l, j) \<and> st_holders t l = Some j"
      using live keep by fastforce
    show "\<forall>x \<in> set (filter (\<lambda>v. v \<noteq> w) live @ w # old). \<exists>l j. mw_lease x = Some (l, j) \<and> j < st_next t"
      using bound w nxt by auto
    show "\<forall>l j. st_holders t l = Some j \<longrightarrow> j < st_next t \<and> (\<exists>x \<in> set (filter (\<lambda>v. v \<noteq> w) live). mw_lease x = Some (l, j))"
    proof (intro allI impI)
      fix l j assume "st_holders t l = Some j"
      then have lj: "st_holders s l = Some j" "(l, j) \<noteq> (lock, i)" using less by auto
      obtain x where "x \<in> set live" "mw_lease x = Some (l, j)" using held [OF lj(1)] by blast
      moreover from this lj(2) w(1) have "x \<noteq> w" by auto
      ultimately show "j < st_next t \<and> (\<exists>x \<in> set (filter (\<lambda>v. v \<noteq> w) live). mw_lease x = Some (l, j))"
        using held [OF lj(1)] nxt by auto
    qed
    show "distinct (map mw_lease (filter (\<lambda>v. v \<noteq> w) live))" using d by (simp add: distinct_map_filter)
    show "\<forall>v \<in> set (w # old). \<forall>x \<in> set (filter (\<lambda>v. v \<noteq> w) live). mw_lease x \<noteq> mw_lease v" using apart only by auto
  qed
qed

lemma builders_ok_same:
  assumes "st_holders t = st_holders s" "builders_ok s live old" "st_next s \<le> st_next t"
  shows "builders_ok t live old"
proof -
  have "\<exists>l j. mw_lease v = Some (l, j) \<and> j < st_next t" if "v \<in> set (live @ old)" for v
    using assms(2,3) that unfolding builders_ok_def by (metis less_le_trans)
  moreover have "j < st_next t \<and> (\<exists>v \<in> set live. mw_lease v = Some (l, j))" if "st_holders s l = Some j" for l j
    using assms(2,3) that unfolding builders_ok_def by (meson less_le_trans)
  ultimately show ?thesis using assms(1,2) by (simp add: builders_ok_def)
qed

lemma builders_invariant: "builders s live old \<Longrightarrow> builders_ok s live old"
proof (induction rule: builders.induct)
  case (nobody s)
  then show ?case by (simp add: builders_ok_def)
next
  case (refused s live old m i revision t e)
  have "st_next s \<le> st_next t" using worktree_create_next [of s m i revision] refused(2) by simp
  with worktree_create_Inl [OF refused(2)] refused(3) show ?case by (rule builders_ok_same)
next
  case (edited s live old t)
  then show ?case by (simp add: builders_ok_def)
qed (auto intro: builders_ok_created builders_ok_removed)

text \<open>C12. Builders never share a source tree. Whatever the order in which builders take and give back
  trees, a lock is held exactly when one of the worktrees handed out and not yet given back has it, no two of these
  have the same lock, and giving back a worktree twice does not take the lock from the builder that has
  it by then. So a tree is free as soon as its builder has given it back.\<close>

theorem builders_never_share:
  assumes "builders s live old"
  shows "distinct (map (\<lambda>w. fst (the (mw_lease w))) live)
    \<and> (st_holders s lock \<noteq> None \<longleftrightarrow> (\<exists>w \<in> set live. fst (the (mw_lease w)) = lock))
    \<and> (\<forall>w \<in> set live. st_holders s (fst (the (mw_lease w))) = Some (snd (the (mw_lease w))))"
proof -
  note ok = builders_invariant [OF assms, unfolded builders_ok_def]
  have held: "mw_lease w \<noteq> None \<and> st_holders s (fst (the (mw_lease w))) = Some (snd (the (mw_lease w)))" if "w \<in> set live" for w
  proof -
    obtain l j where "mw_lease w = Some (l, j)" "st_holders s l = Some j" using ok \<open>w \<in> set live\<close> by blast
    then show ?thesis by simp
  qed
  have "inj_on mw_lease (set live)" "distinct live" using ok by (auto simp: distinct_map)
  moreover have "inj_on (\<lambda>w. fst (the (mw_lease w))) (set live)"
  proof (rule inj_onI)
    fix v w assume m: "v \<in> set live" "w \<in> set live" "fst (the (mw_lease v)) = fst (the (mw_lease w))"
    then have "mw_lease v = mw_lease w" using held by (metis option.exhaust_sel option.inject prod.expand)
    with m show "v = w" using \<open>inj_on mw_lease (set live)\<close> by (auto dest: inj_onD)
  qed
  ultimately have "distinct (map (\<lambda>w. fst (the (mw_lease w))) live)" by (simp add: distinct_map)
  moreover have "st_holders s lock \<noteq> None \<longleftrightarrow> (\<exists>w \<in> set live. fst (the (mw_lease w)) = lock)"
  proof
    assume "st_holders s lock \<noteq> None"
    then obtain w j where "w \<in> set live" "mw_lease w = Some (lock, j)" using ok by blast
    then show "\<exists>w \<in> set live. fst (the (mw_lease w)) = lock" by (intro bexI [of _ w]) simp_all
  next
    assume "\<exists>w \<in> set live. fst (the (mw_lease w)) = lock"
    then show "st_holders s lock \<noteq> None" using held by auto
  qed
  ultimately show ?thesis using held by blast
qed

end
