(* ===== verification/Checkpoint.thy ===== *)
theory Checkpoint
  imports Optimization Work
begin

text \<open>
  Checkpoints of an execution (\<^verbatim>\<open>domain/checkpoint_v2.py\<close>): an append-only manifest of what a plan has done
  and still has to do, with the results, open effects, resources and the binding to the source tree. The
  lemmas show what an accepted checkpoint says of the plan.
\<close>

section \<open>Shared checks\<close>

definition SECRET_MARKERS :: "string list" where
  "SECRET_MARKERS = [''-----begin '', ''api_key='', ''apikey='', ''password='', ''raw_prompt'', ''secret='', ''token='']"

definition windows_drive :: "string \<Rightarrow> bool" where
  "windows_drive t = (case t of
     c # d # e # _ \<Rightarrow> (is_lower_az c \<or> is_upper_az c) \<and> d = CHR '':'' \<and> (e = CHR 0x5C \<or> e = CHR ''/'') | _ \<Rightarrow> False)"

definition portable_text :: "string \<Rightarrow> string \<Rightarrow> string res" where
  "portable_text v label =
     (let candidate = strip v; lowered = py_lower candidate in
      if candidate = [] then Inl (ValidationFailed (label @ '' bos olamaz''))
      else if windows_drive candidate \<or> starts_with candidate ''/'' \<or> CHR 0x5C \<in> set candidate
        \<or> ''..'' \<in> set (split_on (CHR ''/'') (map (\<lambda>c. if c = CHR 0x5C then CHR ''/'' else c) candidate))
      then Inl (PolicyViolation (label @ '' portable olmali''))
      else if list_ex (contains_sub lowered) SECRET_MARKERS \<or> starts_with lowered ''sk-''
      then Inl (PolicyViolation (label @ '' secret veya raw prompt tasiyamaz''))
      else Inr candidate)"

definition distinct_digests :: "string list \<Rightarrow> string \<Rightarrow> unit res" where
  "distinct_digests ds label =
     (if \<not> distinct ds then Inl (ValidationFailed (label @ '' tekil olmali'')) else parse_all ds)"

section \<open>Enumerations\<close>

datatype open_effect_state = OE_STARTED | OE_FAILED_RECONCILIATION | OE_UNKNOWN

fun open_effect_state_value :: "open_effect_state \<Rightarrow> string" where
  "open_effect_state_value OE_STARTED = ''started-no-terminal-receipt''"
| "open_effect_state_value OE_FAILED_RECONCILIATION = ''failed-reconciliation''"
| "open_effect_state_value OE_UNKNOWN = ''unknown''"

datatype sandbox_disposition = SANDBOX_NOT_APPLICABLE | SANDBOX_CLEAN | SANDBOX_DIRTY

fun sandbox_disposition_value :: "sandbox_disposition \<Rightarrow> string" where
  "sandbox_disposition_value SANDBOX_NOT_APPLICABLE = ''not-applicable''"
| "sandbox_disposition_value SANDBOX_CLEAN = ''clean''"
| "sandbox_disposition_value SANDBOX_DIRTY = ''dirty''"

datatype resumability = SAFE_CONTINUE | RECONCILIATION_REQUIRED | MANUAL_REVIEW | RESUME_BLOCKED

fun resumability_value :: "resumability \<Rightarrow> string" where
  "resumability_value SAFE_CONTINUE = ''safe-continue''"
| "resumability_value RECONCILIATION_REQUIRED = ''reconciliation-required''"
| "resumability_value MANUAL_REVIEW = ''manual-review''"
| "resumability_value RESUME_BLOCKED = ''blocked''"

section \<open>Parts of a checkpoint\<close>

record step_result =
  sr_step_id :: string
  sr_result_digest :: string
  sr_effect_kind :: effect_kind
  sr_job_id :: uuid
  sr_attempt_id :: uuid
  sr_assignment_id :: uuid
  sr_envelope_id :: uuid
  sr_envelope_digest :: string
  sr_receipt_refs :: "uuid list"
  sr_verification_refs :: "uuid list"
  sr_verification_required :: bool

definition check_step_result :: "step_result \<Rightarrow> step_result res" where
  "check_step_result r = rbind (portable_text (sr_step_id r) ''Step result kimligi'') (\<lambda>_.
     rbind (parse_all [sr_result_digest r, sr_envelope_digest r]) (\<lambda>_.
     if \<not> distinct (sr_receipt_refs r) then Inl (ValidationFailed ''Step receipt referanslari tekil olmali'')
     else if \<not> distinct (sr_verification_refs r) then Inl (ValidationFailed ''Step verification referanslari tekil olmali'')
     else if sr_effect_kind r \<noteq> EK_NONE \<and> sr_receipt_refs r = []
     then Inl (PolicyViolation ''Effect ureten completed step terminal receipt ister'')
     else if sr_verification_required r \<and> sr_verification_refs r = []
     then Inl (PolicyViolation ''Completed step gerekli verification referansini tasimali'')
     else Inr r))"

definition step_result_body :: "step_result \<Rightarrow> pyval" where
  "step_result_body r = PDict
     [(PStr ''step_id'', PStr (sr_step_id r)), (PStr ''result_digest'', PStr (sr_result_digest r)),
      (PStr ''effect_kind'', PStr (effect_kind_value (sr_effect_kind r))), (PStr ''job_id'', PStr (sr_job_id r)),
      (PStr ''attempt_id'', PStr (sr_attempt_id r)), (PStr ''assignment_id'', PStr (sr_assignment_id r)),
      (PStr ''execution_envelope_id'', PStr (sr_envelope_id r)),
      (PStr ''execution_envelope_digest'', PStr (sr_envelope_digest r)),
      (PStr ''receipt_refs'', PList (map PStr (sr_receipt_refs r))),
      (PStr ''verification_refs'', PList (map PStr (sr_verification_refs r))),
      (PStr ''verification_required'', PBool (sr_verification_required r))]"

record open_effect =
  oe_claim_id :: uuid
  oe_effect_digest :: string
  oe_state :: open_effect_state

definition check_open_effect :: "open_effect \<Rightarrow> open_effect res" where
  "check_open_effect e = rbind (parse_digest (oe_effect_digest e)) (\<lambda>_. Inr e)"

definition open_effect_body :: "open_effect \<Rightarrow> pyval" where
  "open_effect_body e = PDict
     [(PStr ''claim_id'', PStr (oe_claim_id e)), (PStr ''effect_digest'', PStr (oe_effect_digest e)),
      (PStr ''state'', PStr (open_effect_state_value (oe_state e)))]"

record stale_bindings =
  sd_routing_context_snapshot_id :: uuid
  sd_source_revision :: string
  sd_policy_digest :: string
  sd_capability_profile_digest :: string
  sd_dependency_snapshot_digest :: string
  sd_migration_head_digest :: string
  sd_model_route_decision_digest :: string
  sd_context_manifest_digest :: string
  sd_context_packet_digest :: string
  sd_architecture_digest :: string
  sd_rules_digest :: string
  sd_test_suite_digest :: string
  sd_model_inventory_digest :: string
  sd_journal_head_digest :: string

definition check_stale_bindings :: "stale_bindings \<Rightarrow> stale_bindings res" where
  "check_stale_bindings b = rbind (portable_text (sd_source_revision b) ''Source revision'') (\<lambda>_.
     rbind (parse_all [sd_policy_digest b, sd_capability_profile_digest b, sd_dependency_snapshot_digest b,
       sd_migration_head_digest b, sd_model_route_decision_digest b, sd_context_manifest_digest b,
       sd_context_packet_digest b, sd_architecture_digest b, sd_rules_digest b, sd_test_suite_digest b,
       sd_model_inventory_digest b, sd_journal_head_digest b]) (\<lambda>_. Inr b))"

definition stale_bindings_body :: "stale_bindings \<Rightarrow> pyval" where
  "stale_bindings_body b = PDict
     [(PStr ''routing_context_snapshot_id'', PStr (sd_routing_context_snapshot_id b)),
      (PStr ''source_revision'', PStr (sd_source_revision b)), (PStr ''policy_digest'', PStr (sd_policy_digest b)),
      (PStr ''capability_profile_digest'', PStr (sd_capability_profile_digest b)),
      (PStr ''dependency_snapshot_digest'', PStr (sd_dependency_snapshot_digest b)),
      (PStr ''migration_head_digest'', PStr (sd_migration_head_digest b)),
      (PStr ''model_route_decision_digest'', PStr (sd_model_route_decision_digest b)),
      (PStr ''context_manifest_digest'', PStr (sd_context_manifest_digest b)),
      (PStr ''context_packet_digest'', PStr (sd_context_packet_digest b)),
      (PStr ''architecture_digest'', PStr (sd_architecture_digest b)), (PStr ''rules_digest'', PStr (sd_rules_digest b)),
      (PStr ''test_suite_digest'', PStr (sd_test_suite_digest b)),
      (PStr ''model_inventory_digest'', PStr (sd_model_inventory_digest b)),
      (PStr ''journal_head_digest'', PStr (sd_journal_head_digest b))]"

record sandbox_binding =
  sx_disposition :: sandbox_disposition
  sx_sandbox_id :: "string option"
  sx_base_revision :: "string option"
  sx_patch_digest :: "string option"
  sx_dirty_state_digest :: "string option"

definition check_sandbox_binding :: "sandbox_binding \<Rightarrow> sandbox_binding res" where
  "check_sandbox_binding b =
     (if sx_disposition b = SANDBOX_NOT_APPLICABLE then
        (if sx_sandbox_id b \<noteq> None \<or> sx_base_revision b \<noteq> None \<or> sx_patch_digest b \<noteq> None \<or> sx_dirty_state_digest b \<noteq> None
         then Inl (ValidationFailed ''Not-applicable sandbox binding alan tasiyamaz'') else Inr b)
      else case (sx_sandbox_id b, sx_base_revision b) of
        (Some sandbox, Some revision) \<Rightarrow>
          rbind (portable_text sandbox ''Sandbox identity'') (\<lambda>_.
          rbind (portable_text revision ''Sandbox base revision'') (\<lambda>_.
          if sx_disposition b = SANDBOX_CLEAN \<and> (sx_patch_digest b \<noteq> None \<or> sx_dirty_state_digest b \<noteq> None)
          then Inl (ValidationFailed ''Clean sandbox patch veya dirty digest tasiyamaz'')
          else if sx_disposition b \<noteq> SANDBOX_CLEAN \<and> (sx_patch_digest b = None \<or> sx_dirty_state_digest b = None)
          then Inl (ValidationFailed ''Dirty sandbox patch ve dirty state digest ister'')
          else rbind (parse_all (List.map_filter (\<lambda>v. v) [sx_patch_digest b, sx_dirty_state_digest b])) (\<lambda>_. Inr b)))
      | _ \<Rightarrow> Inl (ValidationFailed ''Sandbox identity ve base revision zorunludur''))"

definition sandbox_binding_body :: "sandbox_binding \<Rightarrow> pyval" where
  "sandbox_binding_body b = PDict
     [(PStr ''disposition'', PStr (sandbox_disposition_value (sx_disposition b))),
      (PStr ''sandbox_id'', opt_text (sx_sandbox_id b)), (PStr ''base_revision'', opt_text (sx_base_revision b)),
      (PStr ''patch_digest'', opt_text (sx_patch_digest b)), (PStr ''dirty_state_digest'', opt_text (sx_dirty_state_digest b))]"

record recovery_directive =
  rd_kind :: string
  rd_reason :: string
  rd_evidence_digests :: "string list"

definition check_recovery_directive :: "recovery_directive \<Rightarrow> recovery_directive res" where
  "check_recovery_directive d = rbind (portable_text (rd_kind d) ''Recovery kind'') (\<lambda>_.
     rbind (portable_text (rd_reason d) ''Recovery reason'') (\<lambda>_.
     rbind (distinct_digests (rd_evidence_digests d) ''Recovery evidence digest'') (\<lambda>_. Inr d)))"

definition recovery_directive_body :: "recovery_directive \<Rightarrow> pyval" where
  "recovery_directive_body d = PDict
     [(PStr ''kind'', PStr (rd_kind d)), (PStr ''reason'', PStr (rd_reason d)),
      (PStr ''evidence_digests'', PList (map PStr (rd_evidence_digests d)))]"

record next_safe_action =
  na_kind :: string
  na_step_id :: string
  na_reason :: string

definition check_next_safe_action :: "next_safe_action \<Rightarrow> next_safe_action res" where
  "check_next_safe_action a = rbind (portable_text (na_kind a) ''Next action kind'') (\<lambda>_.
     rbind (portable_text (na_step_id a) ''Next action step'') (\<lambda>_.
     rbind (portable_text (na_reason a) ''Next action reason'') (\<lambda>_. Inr a)))"

definition next_safe_action_body :: "next_safe_action \<Rightarrow> pyval" where
  "next_safe_action_body a = PDict
     [(PStr ''kind'', PStr (na_kind a)), (PStr ''step_id'', PStr (na_step_id a)), (PStr ''reason'', PStr (na_reason a))]"


section \<open>Checkpoints\<close>

record checkpoint_v2 =
  ct_checkpoint_id :: uuid
  ct_checkpoint_key :: string
  ct_revision :: int
  ct_previous_checkpoint_id :: "uuid option"
  ct_previous_checkpoint_digest :: "string option"
  ct_realm_id :: uuid
  ct_project_id :: uuid
  ct_work_item_id :: uuid
  ct_intent_digest :: string
  ct_plan_id :: uuid
  ct_plan_digest :: string
  ct_step_id :: string
  ct_run_id :: uuid
  ct_job_id :: uuid
  ct_attempt_id :: uuid
  ct_assignment_id :: uuid
  ct_envelope_id :: uuid
  ct_envelope_digest :: string
  ct_route_decision_id :: uuid
  ct_context_manifest_id :: uuid
  ct_context_packet_id :: uuid
  ct_bindings :: stale_bindings
  ct_plan_steps :: "string list"
  ct_completed_steps :: "string list"
  ct_pending_steps :: "string list"
  ct_step_results :: "step_result list"
  ct_open_effects :: "open_effect list"
  ct_read_resources :: "string list"
  ct_write_resources :: "string list"
  ct_sandbox :: sandbox_binding
  ct_tokens_used :: int
  ct_cost_micros_used :: int
  ct_attempts_used :: int
  ct_deadline :: pydatetime
  ct_recovery :: "recovery_directive list"
  ct_resumability :: resumability
  ct_next_safe_action :: "next_safe_action option"
  ct_created_at :: pydatetime
  ct_observed_lease_id :: uuid
  ct_observed_fencing_token :: int
  ct_test_and_eval_digests :: "string list"
  ct_grants_authority :: bool
  ct_carries_active_lease :: bool
  ct_approval_inherited :: bool

definition validate_partition :: "checkpoint_v2 \<Rightarrow> unit res" where
  "validate_partition c =
     (let plan = set (ct_plan_steps c); completed = set (ct_completed_steps c); pending = set (ct_pending_steps c);
          result_steps = map sr_step_id (ct_step_results c) in
      if \<not> distinct (ct_plan_steps c) \<or> list_ex blank (ct_plan_steps c)
      then Inl (ValidationFailed ''Checkpoint plan step kimlikleri tekil ve dolu olmali'')
      else if completed \<inter> pending \<noteq> {} \<or> completed \<union> pending \<noteq> plan
      then Inl (ValidationFailed ''Checkpoint completed/pending exact plan partition olmali'')
      else if \<not> distinct result_steps \<or> set result_steps \<noteq> completed
      then Inl (ValidationFailed ''Completed step'ler exact StepResultV2 ister'')
      else if pending \<noteq> {} \<and> ct_next_safe_action c = None
      then Inl (ValidationFailed ''Pending checkpoint next safe action ister'')
      else if pending = {} \<and> ct_next_safe_action c \<noteq> None
      then Inl (ValidationFailed ''Terminal checkpoint next safe action tasiyamaz'')
      else case ct_next_safe_action c of
        None \<Rightarrow> Inr ()
      | Some a \<Rightarrow> if na_step_id a \<notin> pending
          then Inl (ValidationFailed ''Next safe action pending bir step'e bagli olmali'') else Inr ())"

definition resource_texts :: "string list \<Rightarrow> string list res" where
  "resource_texts ts = rmap (\<lambda>t. rbind (parse_resource t) (\<lambda>r. Inr (resource_text r))) ts"

definition validate_resources :: "checkpoint_v2 \<Rightarrow> unit res" where
  "validate_resources c =
     rbind (resource_texts (ct_read_resources c)) (\<lambda>reads.
     rbind (resource_texts (ct_write_resources c)) (\<lambda>writes.
     if \<not> canonical_tuple reads \<or> \<not> canonical_tuple writes
     then Inl (ValidationFailed ''Logical resources canonical, sirali ve tekil olmali'')
     else if set reads \<inter> set writes \<noteq> {} then Inl (ValidationFailed ''Ayni logical resource read ve write olamaz'')
     else Inr ()))"

definition check_checkpoint_v2 :: "checkpoint_v2 \<Rightarrow> checkpoint_v2 res" where
  "check_checkpoint_v2 c =
     (if ct_grants_authority c \<or> ct_carries_active_lease c \<or> ct_approval_inherited c
      then Inl (PolicyViolation ''Checkpoint authority, active lease veya approval tasiyamaz'')
      else rbind (portable_text (ct_checkpoint_key c) ''Checkpoint key'') (\<lambda>_.
      rbind (portable_text (ct_step_id c) ''Current step'') (\<lambda>_.
      if ct_revision c < 1 then Inl (ValidationFailed ''Checkpoint revision pozitif olmali'')
      else if ct_revision c = 1 \<and> (ct_previous_checkpoint_id c \<noteq> None \<or> ct_previous_checkpoint_digest c \<noteq> None)
      then Inl (ValidationFailed ''Ilk checkpoint previous binding tasiyamaz'')
      else if ct_revision c > 1 \<and> (ct_previous_checkpoint_id c = None \<or> ct_previous_checkpoint_digest c = None)
      then Inl (ValidationFailed ''Checkpoint revision zinciri previous identity ve digest ister'')
      else rbind (parse_all (List.map_filter (\<lambda>v. v) [ct_previous_checkpoint_digest c])) (\<lambda>_.
      rbind (parse_all [ct_intent_digest c, ct_plan_digest c, ct_envelope_digest c]) (\<lambda>_.
      if \<not> is_aware (ct_deadline c) \<or> \<not> is_aware (ct_created_at c)
      then Inl (ValidationFailed ''Checkpoint zamanlari timezone-aware olmali'')
      else if ct_tokens_used c < 0 \<or> ct_cost_micros_used c < 0 \<or> ct_attempts_used c < 0
      then Inl (ValidationFailed ''Checkpoint budget tuketimi negatif olamaz'')
      else if ct_observed_fencing_token c < 1 then Inl (ValidationFailed ''Observed fencing token pozitif olmali'')
      else rbind (validate_partition c) (\<lambda>_.
      rbind (validate_resources c) (\<lambda>_.
      rbind (distinct_digests (ct_test_and_eval_digests c) ''Test/eval digest'') (\<lambda>_.
      if \<not> distinct (map oe_claim_id (ct_open_effects c))
      then Inl (ValidationFailed ''Open effect claim referanslari tekil olmali'') else Inr c))))))))"

definition checkpoint_v2_body :: "checkpoint_v2 \<Rightarrow> pyval" where
  "checkpoint_v2_body c = PDict
     [(PStr ''schema'', PStr ''zekam-checkpoint/v2''), (PStr ''checkpoint_id'', PStr (ct_checkpoint_id c)),
      (PStr ''checkpoint_key'', PStr (ct_checkpoint_key c)), (PStr ''revision'', PInt (ct_revision c)),
      (PStr ''previous_checkpoint_id'', opt_text (ct_previous_checkpoint_id c)),
      (PStr ''previous_checkpoint_digest'', opt_text (ct_previous_checkpoint_digest c)),
      (PStr ''identity'', PDict
        [(PStr ''realm_id'', PStr (ct_realm_id c)), (PStr ''project_id'', PStr (ct_project_id c)),
         (PStr ''work_item_id'', PStr (ct_work_item_id c)), (PStr ''intent_digest'', PStr (ct_intent_digest c)),
         (PStr ''plan_id'', PStr (ct_plan_id c)), (PStr ''plan_digest'', PStr (ct_plan_digest c)),
         (PStr ''step_id'', PStr (ct_step_id c)), (PStr ''run_id'', PStr (ct_run_id c)), (PStr ''job_id'', PStr (ct_job_id c)),
         (PStr ''attempt_id'', PStr (ct_attempt_id c)), (PStr ''assignment_id'', PStr (ct_assignment_id c)),
         (PStr ''execution_envelope_id'', PStr (ct_envelope_id c)),
         (PStr ''execution_envelope_digest'', PStr (ct_envelope_digest c)),
         (PStr ''route_decision_id'', PStr (ct_route_decision_id c)),
         (PStr ''context_manifest_id'', PStr (ct_context_manifest_id c)),
         (PStr ''context_packet_id'', PStr (ct_context_packet_id c))]),
      (PStr ''bindings'', stale_bindings_body (ct_bindings c)),
      (PStr ''progress'', PDict
        [(PStr ''plan_steps'', PList (map PStr (ct_plan_steps c))),
         (PStr ''completed_steps'', PList (map PStr (ct_completed_steps c))),
         (PStr ''pending_steps'', PList (map PStr (ct_pending_steps c))),
         (PStr ''step_results'', PList (map step_result_body (ct_step_results c))),
         (PStr ''open_effects'', PList (map open_effect_body (ct_open_effects c)))]),
      (PStr ''logical_resources'', PDict
        [(PStr ''read'', PList (map PStr (ct_read_resources c))), (PStr ''write'', PList (map PStr (ct_write_resources c)))]),
      (PStr ''sandbox'', sandbox_binding_body (ct_sandbox c)),
      (PStr ''budget'', PDict
        [(PStr ''tokens_used'', PInt (ct_tokens_used c)), (PStr ''cost_micros_used'', PInt (ct_cost_micros_used c)),
         (PStr ''attempts_used'', PInt (ct_attempts_used c)), (PStr ''deadline'', PDatetime (ct_deadline c))]),
      (PStr ''test_and_eval_digests'', PList (map PStr (ct_test_and_eval_digests c))),
      (PStr ''rollback_or_recovery'', PList (map recovery_directive_body (ct_recovery c))),
      (PStr ''resumability'', PStr (resumability_value (ct_resumability c))),
      (PStr ''next_safe_action'', (case ct_next_safe_action c of None \<Rightarrow> PNone | Some a \<Rightarrow> next_safe_action_body a)),
      (PStr ''lease_observation'', PDict
        [(PStr ''lease_id'', PStr (ct_observed_lease_id c)), (PStr ''fencing_token'', PInt (ct_observed_fencing_token c))]),
      (PStr ''created_at'', PDatetime (ct_created_at c)), (PStr ''grants_authority'', PBool False),
      (PStr ''carries_active_lease'', PBool False), (PStr ''approval_inherited'', PBool False)]"

definition checkpoint_v2_digest :: "checkpoint_v2 \<Rightarrow> string res" where
  "checkpoint_v2_digest c = digest (checkpoint_v2_body c)"

section \<open>What an accepted checkpoint says\<close>

lemma check_checkpoint_v2_Inr:
  assumes "check_checkpoint_v2 c = Inr d"
  shows "d = c" "validate_partition c = Inr ()" "validate_resources c = Inr ()"
    "\<not> ct_grants_authority c \<and> \<not> ct_carries_active_lease c \<and> \<not> ct_approval_inherited c"
    "ct_previous_checkpoint_id c = None \<longleftrightarrow> ct_revision c = 1" "is_aware (ct_deadline c)" "is_aware (ct_created_at c)"
  using assms by (auto simp: check_checkpoint_v2_def rbind_Inr_iff split: if_splits)

lemma check_step_result_Inr:
  "check_step_result r = Inr q \<Longrightarrow> (sr_effect_kind r \<noteq> EK_NONE \<longrightarrow> sr_receipt_refs r \<noteq> [])
     \<and> (sr_verification_required r \<longrightarrow> sr_verification_refs r \<noteq> [])"
  by (auto simp: check_step_result_def rbind_Inr_iff split: if_splits)

text \<open>C27. An accepted checkpoint accounts for every step of its plan. Each step is completed or pending and
  not both; a completed step has exactly one result, with a receipt when the step had an effect and a
  verification when one was required; the next safe action exists exactly while steps are pending and
  names one of them. The checkpoint carries no authority, lease or approval, and has a predecessor
  exactly when it is not the first.\<close>

theorem checkpoint_accounts_for_plan:
  assumes "check_checkpoint_v2 c = Inr c" "list_all (\<lambda>r. is_ok (check_step_result r)) (ct_step_results c)"
  shows "set (ct_completed_steps c) \<union> set (ct_pending_steps c) = set (ct_plan_steps c)
    \<and> set (ct_completed_steps c) \<inter> set (ct_pending_steps c) = {}
    \<and> (\<forall>s \<in> set (ct_completed_steps c). \<exists>!r. r \<in> set (ct_step_results c) \<and> sr_step_id r = s
         \<and> (sr_effect_kind r \<noteq> EK_NONE \<longrightarrow> sr_receipt_refs r \<noteq> []) \<and> (sr_verification_required r \<longrightarrow> sr_verification_refs r \<noteq> []))
    \<and> (ct_pending_steps c = [] \<longleftrightarrow> ct_next_safe_action c = None)
    \<and> (\<forall>a. ct_next_safe_action c = Some a \<longrightarrow> na_step_id a \<in> set (ct_pending_steps c))
    \<and> \<not> ct_grants_authority c \<and> \<not> ct_carries_active_lease c \<and> \<not> ct_approval_inherited c
    \<and> (ct_previous_checkpoint_id c = None \<longleftrightarrow> ct_revision c = 1)"
proof -
  note v = check_checkpoint_v2_Inr [OF assms(1)]
  have p: "set (ct_completed_steps c) \<union> set (ct_pending_steps c) = set (ct_plan_steps c)"
    "set (ct_completed_steps c) \<inter> set (ct_pending_steps c) = {}"
    "distinct (map sr_step_id (ct_step_results c))" "sr_step_id ` set (ct_step_results c) = set (ct_completed_steps c)"
    "ct_pending_steps c = [] \<longleftrightarrow> ct_next_safe_action c = None"
    "\<forall>a. ct_next_safe_action c = Some a \<longrightarrow> na_step_id a \<in> set (ct_pending_steps c)"
    using v(2) by (auto simp: validate_partition_def Let_def split: if_splits option.splits)
  have "\<exists>!r. r \<in> set (ct_step_results c) \<and> sr_step_id r = s \<and> (sr_effect_kind r \<noteq> EK_NONE \<longrightarrow> sr_receipt_refs r \<noteq> [])
      \<and> (sr_verification_required r \<longrightarrow> sr_verification_refs r \<noteq> [])" if "s \<in> set (ct_completed_steps c)" for s
  proof -
    obtain r where r: "r \<in> set (ct_step_results c)" "sr_step_id r = s" using p(4) \<open>s \<in> _\<close> by (metis imageE)
    then have "is_ok (check_step_result r)" using assms(2) by (simp add: list_all_iff)
    then have "(sr_effect_kind r \<noteq> EK_NONE \<longrightarrow> sr_receipt_refs r \<noteq> []) \<and> (sr_verification_required r \<longrightarrow> sr_verification_refs r \<noteq> [])"
      using check_step_result_Inr by (auto simp: is_ok_iff)
    moreover have "inj_on sr_step_id (set (ct_step_results c))" using p(3) by (simp add: distinct_map)
    ultimately show ?thesis using r by (auto intro!: ex1I [of _ r] dest: inj_onD)
  qed
  with p(1,2,5,6) v(4,5) show ?thesis by blast
qed

end
