(* ===== verification/SandboxDelivery.thy ===== *)
theory SandboxDelivery
  imports BoundSource Checkpoint
begin

text \<open>
  Delivery from the bound source tree (\<^verbatim>\<open>application/sandbox_delivery.py\<close>): a builder takes the lease of the
  tree, writes, runs tests, turns the change into an artifact, and a decision is made by another
  identity. The runner of processes is a parameter. The lemmas show when a delivery counts as applied,
  that a checkpoint resumes only on the tree that it described, and that builders exclude each other.
\<close>

section \<open>Prepared workspaces and reports\<close>

record prepared_workspace =
  pk_spec :: workspace_spec
  pk_worktree :: managed_worktree
  pk_baseline :: tree_fingerprint

definition resolve_write :: "source_tree \<Rightarrow> prepared_workspace \<Rightarrow> string \<Rightarrow> string list res" where
  "resolve_write s k relative =
     rbind (assert_permits (sb_allowlist (wk_policy (pk_spec k))) relative) (\<lambda>_. worktree_resolve s (pk_worktree k) relative)"

definition prepared_as_dict :: "prepared_workspace \<Rightarrow> pyval res" where
  "prepared_as_dict k = rbind (workspace_spec_digest (pk_spec k)) (\<lambda>d. Inr (PDict
     [(PStr ''workspace_id'', PStr (wk_workspace_id (pk_spec k))), (PStr ''spec_digest'', PStr d),
      (PStr ''revision'', PStr (mw_revision (pk_worktree k))), (PStr ''baseline'', tree_as_dict (pk_baseline k))]))"

record delivery_report =
  dr_artifact :: patch_artifact
  dr_decision :: delivery_decision
  dr_test_results :: "process_result list"
  dr_main_tree_before :: tree_fingerprint
  dr_main_tree_after :: tree_fingerprint

definition receipt_eligible :: "delivery_report \<Rightarrow> bool" where
  "receipt_eligible r = (dd_outcome (dr_decision r) = DO_APPLIED)"

definition delivery_report_as_dict :: "delivery_report \<Rightarrow> pyval" where
  "delivery_report_as_dict r = PDict
     [(PStr ''artifact'', patch_body (dr_artifact r)), (PStr ''decision'', delivery_as_dict (dr_decision r)),
      (PStr ''test_results'', PList (map process_result_as_dict (dr_test_results r))),
      (PStr ''main_tree_before'', tree_as_dict (dr_main_tree_before r)),
      (PStr ''main_tree_after'', tree_as_dict (dr_main_tree_after r)),
      (PStr ''receipt_eligible'', PBool (receipt_eligible r))]"

definition delivery_report_digest :: "delivery_report \<Rightarrow> string res" where
  "delivery_report_digest r = digest (delivery_report_as_dict r)"

section \<open>The service\<close>

text \<open>\<open>dl_resolve_bound\<close> is the registry's path of a project; \<open>Inr None\<close> is an \<^verbatim>\<open>OSError\<close> in it.\<close>

record delivery_service =
  dl_manager :: worktree_manager
  dl_resolve_bound :: "string \<Rightarrow> string option res"

definition delivery_prepare :: "delivery_service \<Rightarrow> workspace_spec \<Rightarrow> (source_tree, prepared_workspace) gov" where
  "delivery_prepare v spec =
     gbind (\<lambda>s. (s, rbind (dl_resolve_bound v (wk_project_ref spec)) (\<lambda>p.
       case Option.bind p (st_strict s) of
         None \<Rightarrow> Inl (PolicyViolation ''project_ref icin exact source binding cozumlenemedi'')
       | Some registered \<Rightarrow> (case st_strict s (wm_source_root (dl_manager v)) of
           None \<Rightarrow> Inl (PolicyViolation ''project_ref icin exact source binding cozumlenemedi'')
         | Some configured \<Rightarrow>
             if registered \<noteq> configured then Inl (PolicyViolation ''project_ref exact source binding ile eslesmiyor'')
             else rbind (fingerprint_of s (wm_source_root (dl_manager v))) (\<lambda>baseline.
               if tf_head baseline \<noteq> wk_source_revision spec
               then Inl (PolicyViolation ''source revision drift; workspace hazirlanamaz'') else Inr baseline))))) (\<lambda>baseline.
     gbind (worktree_create (dl_manager v) (wk_workspace_id spec) (wk_source_revision spec)) (\<lambda>w.
     greturn \<lparr>pk_spec = spec, pk_worktree = w, pk_baseline = baseline\<rparr>))"

text \<open>\<open>run\<close> is \<^verbatim>\<open>runner.run(item, cwd=...).result\<close>; a test may change the tree.\<close>

definition run_tests ::
  "(process_spec \<Rightarrow> string \<Rightarrow> (source_tree, process_result) gov) \<Rightarrow> prepared_workspace \<Rightarrow> process_spec list \<Rightarrow>
     (source_tree, process_result list) gov" where
  "run_tests run k specs = gmap (\<lambda>item. run item (mw_path (pk_worktree k))) specs"

definition build_artifact :: "prepared_workspace \<Rightarrow> string \<Rightarrow> pydatetime \<Rightarrow> source_tree \<Rightarrow> (patch_artifact \<times> string) res" where
  "build_artifact k artifact_id now s =
     rbind (manager_diff s (pk_worktree k)) (\<lambda>patch.
     rbind (manager_changed_paths s (pk_worktree k)) (\<lambda>changed.
     rbind (manager_patch_digest s (pk_worktree k)) (\<lambda>d.
     rbind (check_patch \<lparr>pt_artifact_id = artifact_id, pt_workspace_id = wk_workspace_id (pk_spec k),
         pt_base_revision = mw_revision (pk_worktree k), pt_changed_paths = changed, pt_patch_digest = d,
         pt_created_at = now\<rparr>) (\<lambda>artifact.
     rbind (assert_within artifact (sb_allowlist (wk_policy (pk_spec k)))) (\<lambda>_. Inr (artifact, patch))))))"

definition provenance_drift :: "prepared_workspace \<Rightarrow> patch_artifact \<Rightarrow> source_tree \<Rightarrow> bool res" where
  "provenance_drift k a s =
     (if pt_workspace_id a \<noteq> wk_workspace_id (pk_spec k) \<or> pt_base_revision a \<noteq> mw_revision (pk_worktree k) then Inr True
      else rbind (manager_changed_paths s (pk_worktree k)) (\<lambda>changed.
        if pt_changed_paths a \<noteq> changed then Inr True
        else rbind (manager_patch_digest s (pk_worktree k)) (\<lambda>d. Inr (pt_patch_digest a \<noteq> d))))"

definition checkpoint_binding :: "prepared_workspace \<Rightarrow> patch_artifact option \<Rightarrow> source_tree \<Rightarrow> sandbox_binding res" where
  "checkpoint_binding k artifact s =
     rbind (fingerprint_of s (mw_path (pk_worktree k))) (\<lambda>current.
     if tf_head current \<noteq> mw_revision (pk_worktree k) then Inl (PolicyViolation ''sandbox checkpoint base revision drift'')
     else if \<not> tf_dirty current then
       (if artifact \<noteq> None then Inl (PolicyViolation ''clean sandbox patch artifact tasiyamaz'')
        else check_sandbox_binding \<lparr>sx_disposition = SANDBOX_CLEAN, sx_sandbox_id = Some (wk_workspace_id (pk_spec k)),
          sx_base_revision = Some (mw_revision (pk_worktree k)), sx_patch_digest = None, sx_dirty_state_digest = None\<rparr>)
     else case artifact of
       None \<Rightarrow> Inl (PolicyViolation ''dirty sandbox exact patch artifact ister'')
     | Some a \<Rightarrow> rbind (provenance_drift k a s) (\<lambda>drift.
         if drift then Inl (PolicyViolation ''sandbox checkpoint patch provenance drift'')
         else rbind (dirty_state_digest s (pk_worktree k)) (\<lambda>dd.
           check_sandbox_binding \<lparr>sx_disposition = SANDBOX_DIRTY, sx_sandbox_id = Some (wk_workspace_id (pk_spec k)),
             sx_base_revision = Some (mw_revision (pk_worktree k)), sx_patch_digest = Some (pt_patch_digest a),
             sx_dirty_state_digest = Some dd\<rparr>)))"

definition resume_drift :: "source_tree \<Rightarrow> managed_worktree \<Rightarrow> tree_fingerprint \<Rightarrow> sandbox_binding \<Rightarrow> bool res" where
  "resume_drift s w current b =
     (if \<not> tf_dirty current then Inr True
      else rbind (manager_patch_digest s w) (\<lambda>pd.
        if sx_patch_digest b \<noteq> Some pd then Inr True
        else rbind (dirty_state_digest s w) (\<lambda>dd. Inr (sx_dirty_state_digest b \<noteq> Some dd))))"

definition assert_checkpoint_binding :: "delivery_service \<Rightarrow> sandbox_binding \<Rightarrow> source_tree \<Rightarrow> unit res" where
  "assert_checkpoint_binding v b s =
     (if sx_disposition b = SANDBOX_NOT_APPLICABLE then Inl (PolicyViolation ''bound-source resume sandbox binding ister'')
      else case (sx_sandbox_id b, sx_base_revision b) of
        (Some sandbox, Some revision) \<Rightarrow>
          (let w = \<lparr>mw_workspace_id = sandbox, mw_path = wm_source_root (dl_manager v), mw_revision = revision, mw_lease = None\<rparr> in
           rbind (fingerprint_of s (mw_path w)) (\<lambda>current.
           if tf_head current \<noteq> revision then Inl (PolicyViolation ''resume sandbox base revision drift'')
           else if sx_disposition b = SANDBOX_CLEAN then
             (if tf_dirty current then Inl (PolicyViolation ''resume clean sandbox dirty state drift'') else Inr ())
           else rbind (resume_drift s w current b) (\<lambda>drift.
             if drift then Inl (PolicyViolation ''resume sandbox patch veya dirty state drift'') else Inr ())))
      | _ \<Rightarrow> Inl (PolicyViolation ''resume sandbox identity ve base revision ister''))"

text \<open>The body of the \<^verbatim>\<open>with\<close> block is an argument; the lease is removed however the block ends, and an error in
  the removal replaces the outcome.\<close>

definition hold_checkpoint_binding ::
  "delivery_service \<Rightarrow> sandbox_binding \<Rightarrow> (source_tree, 'a) gov \<Rightarrow> (source_tree, 'a) gov" where
  "hold_checkpoint_binding v b body =
     (case (sx_sandbox_id b, sx_base_revision b) of
        (Some sandbox, Some revision) \<Rightarrow>
          gbind (worktree_create (dl_manager v) sandbox revision) (\<lambda>lease s.
            case gbind (\<lambda>u. (u, assert_checkpoint_binding v b u)) (\<lambda>_. body) s of
              (t, r) \<Rightarrow> (case worktree_remove (dl_manager v) lease t of (u, Inl e) \<Rightarrow> (u, Inl e) | (u, Inr _) \<Rightarrow> (u, r)))
      | _ \<Rightarrow> graise (PolicyViolation ''resume sandbox identity ve base revision ister''))"

text \<open>\<^verbatim>\<open>apply_ok\<close>; a command of the manager that raises ends the delivery.\<close>

definition change_evidence_ok :: "prepared_workspace \<Rightarrow> patch_artifact \<Rightarrow> string \<Rightarrow> source_tree \<Rightarrow> bool res" where
  "change_evidence_ok k a patch s =
     (if pt_changed_paths a = [] then Inr False
      else rbind (manager_diff s (pk_worktree k)) (\<lambda>current. if patch \<noteq> current then Inr False
      else rbind (manager_patch_digest s (pk_worktree k)) (\<lambda>d. if pt_patch_digest a \<noteq> d then Inr False
      else rbind (manager_changed_paths s (pk_worktree k)) (\<lambda>changed. Inr (pt_changed_paths a = changed)))))"

definition delivery_outcome_of ::
  "prepared_workspace \<Rightarrow> patch_artifact \<Rightarrow> string \<Rightarrow> string list \<Rightarrow> bool \<Rightarrow> tree_fingerprint \<Rightarrow> source_tree \<Rightarrow>
     (delivery_outcome \<times> string \<times> bool) res" where
  "delivery_outcome_of k a patch planned tests_passed before_tree s =
     (case assert_no_drift (wk_source_revision (pk_spec k)) (tf_head before_tree) planned (pt_changed_paths a) of
        Inl (PolicyViolation detail) \<Rightarrow> Inr (DO_DRIFTED, detail, False)
      | Inl e \<Rightarrow> Inl e
      | Inr _ \<Rightarrow> rbind (change_evidence_ok k a patch s) (\<lambda>apply_ok.
          Inr (if \<not> apply_ok then (DO_REJECTED, ''degisiklik kaniti drift veya bos'', apply_ok)
            else if \<not> tests_passed then (DO_REJECTED, ''bagimsiz test kaniti yok'', apply_ok)
            else (DO_APPLIED, '''', apply_ok))))"

definition deliver_change ::
  "delivery_service \<Rightarrow> prepared_workspace \<Rightarrow> patch_artifact \<Rightarrow> string \<Rightarrow> string list \<Rightarrow> process_result list \<Rightarrow> string \<Rightarrow> string \<Rightarrow>
     source_tree \<Rightarrow> delivery_report res" where
  "deliver_change v k a patch planned results builder_ref verifier_ref s =
     rbind (fingerprint_of s (wm_source_root (dl_manager v))) (\<lambda>before_tree.
     let tests_passed = (results \<noteq> [] \<and> list_all succeeded results) in
     rbind (delivery_outcome_of k a patch planned tests_passed before_tree s) (\<lambda>(outcome, detail, apply_ok).
     rbind (artifact_digest a) (\<lambda>ad.
     rbind (check_delivery_decision \<lparr>dd_artifact_digest = ad, dd_outcome = outcome, dd_apply_check_passed = apply_ok,
         dd_tests_passed = tests_passed, dd_verifier_ref = verifier_ref, dd_builder_ref = builder_ref,
         dd_detail = detail\<rparr>) (\<lambda>decision.
     rbind (fingerprint_of s (wm_source_root (dl_manager v))) (\<lambda>after_tree.
     Inr \<lparr>dr_artifact = a, dr_decision = decision, dr_test_results = results, dr_main_tree_before = pk_baseline k,
       dr_main_tree_after = after_tree\<rparr>)))))"

definition delivery_discard :: "delivery_service \<Rightarrow> prepared_workspace \<Rightarrow> (source_tree, tree_fingerprint) gov" where
  "delivery_discard v k =
     gbind (worktree_remove (dl_manager v) (pk_worktree k)) (\<lambda>_ s. (s, fingerprint_of s (wm_source_root (dl_manager v))))"

definition default_sandbox_policy :: "string list \<Rightarrow> sandbox_policy res" where
  "default_sandbox_policy paths = rbind (check_allowlist \<lparr>al_entries = paths\<rparr>) (\<lambda>allowlist.
     rbind (check_network \<lparr>np_allowed_hosts = [], np_allowed_operations = []\<rparr>) (\<lambda>network.
     check_sandbox_policy \<lparr>sb_allowlist = allowlist, sb_network = network, sb_main_tree_read_only = False\<rparr>))"


section \<open>When a delivery counts as applied\<close>

lemma digest_of_texts:
  assumes "is_ok (normalize_value v)"
  shows "\<exists>d. digest v = Inr d \<and> valid_digest d"
  using assms by (auto simp: digest_def canonicalize_def is_ok_iff parse_digest_json)

lemma artifact_digest_ok: "\<exists>d. artifact_digest a = Inr d \<and> valid_digest d"
  unfolding artifact_digest_def by (rule digest_of_texts) (simp add: patch_body_def normalize_texts)

lemma change_evidence_True:
  "change_evidence_ok k a patch s = Inr True \<longleftrightarrow> pt_changed_paths a \<noteq> [] \<and> manager_diff s (pk_worktree k) = Inr patch
     \<and> manager_patch_digest s (pk_worktree k) = Inr (pt_patch_digest a)
     \<and> manager_changed_paths s (pk_worktree k) = Inr (pt_changed_paths a)"
  by (auto simp: change_evidence_ok_def rbind_Inr_iff split: if_splits)

lemma assert_no_drift_ok: "p = c \<and> set changed \<subseteq> set planned \<Longrightarrow> assert_no_drift p c planned changed = Inr ()"
  by (auto simp: assert_no_drift_def filter_empty_conv)

lemma assert_no_drift_drift:
  "\<not> (p = c \<and> set changed \<subseteq> set planned) \<Longrightarrow> \<exists>m. assert_no_drift p c planned changed = Inl (PolicyViolation m)"
  by (auto simp: assert_no_drift_def filter_empty_conv)

lemma delivery_outcome_applied:
  "(\<exists>detail apply_ok. delivery_outcome_of k a patch planned passed f s = Inr (DO_APPLIED, detail, apply_ok)) \<longleftrightarrow>
     wk_source_revision (pk_spec k) = tf_head f \<and> set (pt_changed_paths a) \<subseteq> set planned \<and> passed
     \<and> change_evidence_ok k a patch s = Inr True"
proof (cases "wk_source_revision (pk_spec k) = tf_head f \<and> set (pt_changed_paths a) \<subseteq> set planned")
  case True
  then show ?thesis using assert_no_drift_ok [OF True] by (auto simp: delivery_outcome_of_def rbind_Inr_iff)
next
  case False
  then show ?thesis using assert_no_drift_drift [OF False] by (auto simp: delivery_outcome_of_def)
qed

lemma delivery_outcome_apply_ok:
  "delivery_outcome_of k a patch planned passed f s = Inr (DO_APPLIED, detail, apply_ok) \<Longrightarrow> apply_ok \<and> passed"
  by (auto simp: delivery_outcome_of_def rbind_Inr_iff split: sum.splits zekam_error.splits if_splits)

lemma check_delivery_decision_Inr: "check_delivery_decision d = Inr e \<Longrightarrow> e = d"
  by (auto simp: check_delivery_decision_def rbind_Inr_iff split: if_splits)

text \<open>C13. A delivery is applied exactly when everything agrees: the source tree is still at the planned
  revision, the artifact names at least one path and only planned ones, the tree now shows the very
  patch, the digest and the paths of the artifact, there is at least one test and all of them succeeded,
  and the verifier is not the builder.\<close>

theorem delivery_applied_exactly:
  "(\<exists>report. deliver_change v k a patch planned results builder verifier s = Inr report \<and> receipt_eligible report) \<longleftrightarrow>
     verifier \<noteq> builder
     \<and> (\<exists>f. fingerprint_of s (wm_source_root (dl_manager v)) = Inr f \<and> tf_head f = wk_source_revision (pk_spec k))
     \<and> pt_changed_paths a \<noteq> [] \<and> set (pt_changed_paths a) \<subseteq> set planned
     \<and> manager_diff s (pk_worktree k) = Inr patch \<and> manager_patch_digest s (pk_worktree k) = Inr (pt_patch_digest a)
     \<and> manager_changed_paths s (pk_worktree k) = Inr (pt_changed_paths a)
     \<and> results \<noteq> [] \<and> list_all succeeded results"
  (is "?L \<longleftrightarrow> ?R")
proof
  assume ?L
  then obtain report f outcome detail apply_ok ad decision where
    f: "fingerprint_of s (wm_source_root (dl_manager v)) = Inr f"
    and out: "delivery_outcome_of k a patch planned (results \<noteq> [] \<and> list_all succeeded results) f s = Inr (outcome, detail, apply_ok)"
    and dec: "check_delivery_decision \<lparr>dd_artifact_digest = ad, dd_outcome = outcome, dd_apply_check_passed = apply_ok,
         dd_tests_passed = (results \<noteq> [] \<and> list_all succeeded results), dd_verifier_ref = verifier, dd_builder_ref = builder,
         dd_detail = detail\<rparr> = Inr decision"
    and app: "dd_outcome decision = DO_APPLIED"
    by (auto simp: deliver_change_def rbind_Inr_iff Let_def receipt_eligible_def)
  have "outcome = DO_APPLIED" using check_delivery_decision_Inr [OF dec] app by simp
  moreover have "verifier \<noteq> builder" using dec by (auto simp: check_delivery_decision_def rbind_Inr_iff split: if_splits)
  ultimately show ?R
    using f out delivery_outcome_applied [of k a patch planned "results \<noteq> [] \<and> list_all succeeded results" f s]
    by (auto simp: change_evidence_True)
next
  assume r: ?R
  then obtain f where f: "fingerprint_of s (wm_source_root (dl_manager v)) = Inr f" "tf_head f = wk_source_revision (pk_spec k)" by blast
  have "\<exists>detail apply_ok. delivery_outcome_of k a patch planned (results \<noteq> [] \<and> list_all succeeded results) f s = Inr (DO_APPLIED, detail, apply_ok)"
    unfolding delivery_outcome_applied using r f by (simp add: change_evidence_True)
  then obtain detail where out: "delivery_outcome_of k a patch planned (results \<noteq> [] \<and> list_all succeeded results) f s = Inr (DO_APPLIED, detail, True)"
    using delivery_outcome_apply_ok by (metis (full_types))
  obtain ad where ad: "artifact_digest a = Inr ad" "valid_digest ad" using artifact_digest_ok by blast
  have "check_delivery_decision \<lparr>dd_artifact_digest = ad, dd_outcome = DO_APPLIED, dd_apply_check_passed = True,
         dd_tests_passed = True, dd_verifier_ref = verifier, dd_builder_ref = builder, dd_detail = detail\<rparr>
      = Inr \<lparr>dd_artifact_digest = ad, dd_outcome = DO_APPLIED, dd_apply_check_passed = True,
         dd_tests_passed = True, dd_verifier_ref = verifier, dd_builder_ref = builder, dd_detail = detail\<rparr>"
    using r ad(2) by (auto simp: check_delivery_decision_def rbind_Inr_iff is_ok_iff)
  then show ?L using r f out ad by (simp add: deliver_change_def receipt_eligible_def)
qed

section \<open>A checkpoint resumes on its own tree\<close>

lemma worktree_lease_irrelevant:
  "manager_patch_digest s (w\<lparr>mw_lease := l\<rparr>) = manager_patch_digest s w"
  "dirty_state_digest s (w\<lparr>mw_lease := l\<rparr>) = dirty_state_digest s w"
proof -
  have "worktree_resolve s (w\<lparr>mw_lease := l\<rparr>) = worktree_resolve s w" by (rule ext) (simp add: worktree_resolve_def)
  then have "untracked_file s (w\<lparr>mw_lease := l\<rparr>) = untracked_file s w" by (auto simp: untracked_file_def)
  then have u: "untracked_evidence s (w\<lparr>mw_lease := l\<rparr>) = untracked_evidence s w" by (simp add: untracked_evidence_def)
  show p: "manager_patch_digest s (w\<lparr>mw_lease := l\<rparr>) = manager_patch_digest s w"
    by (simp add: manager_patch_digest_def u manager_diff_def)
  show "dirty_state_digest s (w\<lparr>mw_lease := l\<rparr>) = dirty_state_digest s w"
    by (simp add: dirty_state_digest_def u p)
qed

lemma provenance_exact:
  "provenance_drift k a s = Inr False \<Longrightarrow> manager_patch_digest s (pk_worktree k) = Inr (pt_patch_digest a)"
  by (auto simp: provenance_drift_def rbind_Inr_iff split: if_splits)

lemma check_sandbox_binding_Inr: "check_sandbox_binding b = Inr c \<Longrightarrow> c = b"
  by (auto simp: check_sandbox_binding_def rbind_Inr_iff split: if_splits option.splits)

lemma checkpoint_binding_Inr:
  assumes "checkpoint_binding k artifact s = Inr b"
  shows "\<exists>f. fingerprint_of s (mw_path (pk_worktree k)) = Inr f \<and> tf_head f = mw_revision (pk_worktree k)
    \<and> sx_sandbox_id b = Some (wk_workspace_id (pk_spec k)) \<and> sx_base_revision b = Some (mw_revision (pk_worktree k))
    \<and> (if tf_dirty f
       then sx_disposition b = SANDBOX_DIRTY
         \<and> (\<exists>pd dd. sx_patch_digest b = Some pd \<and> sx_dirty_state_digest b = Some dd
              \<and> manager_patch_digest s (pk_worktree k) = Inr pd \<and> dirty_state_digest s (pk_worktree k) = Inr dd)
       else sx_disposition b = SANDBOX_CLEAN)"
proof -
  obtain f where f: "fingerprint_of s (mw_path (pk_worktree k)) = Inr f" "tf_head f = mw_revision (pk_worktree k)"
    using assms by (auto simp: checkpoint_binding_def rbind_Inr_iff split: if_splits)
  show ?thesis
  proof (cases "tf_dirty f")
    case True
    then obtain a where "artifact = Some a" using assms f by (cases artifact) (auto simp: checkpoint_binding_def)
    then obtain dd where "provenance_drift k a s = Inr False" "dirty_state_digest s (pk_worktree k) = Inr dd"
      and b: "check_sandbox_binding \<lparr>sx_disposition = SANDBOX_DIRTY, sx_sandbox_id = Some (wk_workspace_id (pk_spec k)),
             sx_base_revision = Some (mw_revision (pk_worktree k)), sx_patch_digest = Some (pt_patch_digest a),
             sx_dirty_state_digest = Some dd\<rparr> = Inr b"
      using assms f True by (auto simp: checkpoint_binding_def rbind_Inr_iff split: if_splits)
    then show ?thesis using f True check_sandbox_binding_Inr [OF b] provenance_exact by auto
  next
    case False
    then have b: "check_sandbox_binding \<lparr>sx_disposition = SANDBOX_CLEAN, sx_sandbox_id = Some (wk_workspace_id (pk_spec k)),
          sx_base_revision = Some (mw_revision (pk_worktree k)), sx_patch_digest = None, sx_dirty_state_digest = None\<rparr> = Inr b"
      using assms f by (auto simp: checkpoint_binding_def split: if_splits)
    show ?thesis using f False check_sandbox_binding_Inr [OF b] by simp
  qed
qed

lemma prepared_worktree:
  assumes "delivery_prepare v spec s = (t, Inr k)"
  shows "pk_spec k = spec \<and> mw_path (pk_worktree k) = wm_source_root (dl_manager v)
    \<and> mw_workspace_id (pk_worktree k) = wk_workspace_id spec"
  using assms by (auto simp: delivery_prepare_def gbind_Inr_iff dest!: worktree_create_Inr)

lemma assert_binding_clean:
  assumes "sx_disposition b = SANDBOX_CLEAN" "sx_sandbox_id b = Some i" "sx_base_revision b = Some revision"
  shows "assert_checkpoint_binding v b u = Inr () \<longleftrightarrow>
    (\<exists>g. fingerprint_of u (wm_source_root (dl_manager v)) = Inr g \<and> tf_head g = revision \<and> \<not> tf_dirty g)"
  using assms by (auto simp: assert_checkpoint_binding_def rbind_Inr_iff split: if_splits)

lemma assert_binding_dirty:
  assumes "sx_disposition b = SANDBOX_DIRTY" "sx_sandbox_id b = Some (mw_workspace_id w)" "sx_base_revision b = Some (mw_revision w)"
    "sx_patch_digest b = Some pd" "sx_dirty_state_digest b = Some dd" "mw_path w = wm_source_root (dl_manager v)"
  shows "assert_checkpoint_binding v b u = Inr () \<longleftrightarrow>
    (\<exists>g. fingerprint_of u (wm_source_root (dl_manager v)) = Inr g \<and> tf_head g = mw_revision w \<and> tf_dirty g
      \<and> manager_patch_digest u w = Inr pd \<and> dirty_state_digest u w = Inr dd)"
proof -
  have w: "\<lparr>mw_workspace_id = mw_workspace_id w, mw_path = wm_source_root (dl_manager v), mw_revision = mw_revision w, mw_lease = None\<rparr>
      = w\<lparr>mw_lease := None\<rparr>" using assms(6) by simp
  show ?thesis
    using assms unfolding assert_checkpoint_binding_def resume_drift_def
    by (auto simp: rbind_Inr_iff w worktree_lease_irrelevant Let_def split: if_splits)
qed

text \<open>C25. A checkpoint of a prepared workspace resumes on the tree that it described and on no other. The
  binding that the checkpoint carries is accepted by a later tree exactly when that tree has the same
  head, is clean or dirty as before, and if it is dirty has the same patch digest and the same digest of
  its dirty state; in particular it is accepted at once.\<close>

theorem checkpoint_resumes_same_tree:
  assumes "delivery_prepare v spec s0 = (s1, Inr k)" "checkpoint_binding k artifact s = Inr b"
  shows "assert_checkpoint_binding v b s = Inr ()
    \<and> (assert_checkpoint_binding v b u = Inr () \<longleftrightarrow>
        (\<exists>f g. fingerprint_of s (wm_source_root (dl_manager v)) = Inr f
          \<and> fingerprint_of u (wm_source_root (dl_manager v)) = Inr g \<and> tf_head g = tf_head f \<and> tf_dirty g = tf_dirty f
          \<and> (tf_dirty f \<longrightarrow> manager_patch_digest u (pk_worktree k) = manager_patch_digest s (pk_worktree k)
              \<and> dirty_state_digest u (pk_worktree k) = dirty_state_digest s (pk_worktree k))))"
proof -
  note k = prepared_worktree [OF assms(1)]
  obtain f where f: "fingerprint_of s (wm_source_root (dl_manager v)) = Inr f" "tf_head f = mw_revision (pk_worktree k)"
    and b: "sx_sandbox_id b = Some (mw_workspace_id (pk_worktree k))" "sx_base_revision b = Some (mw_revision (pk_worktree k))"
    and d: "if tf_dirty f
       then sx_disposition b = SANDBOX_DIRTY
         \<and> (\<exists>pd dd. sx_patch_digest b = Some pd \<and> sx_dirty_state_digest b = Some dd
              \<and> manager_patch_digest s (pk_worktree k) = Inr pd \<and> dirty_state_digest s (pk_worktree k) = Inr dd)
       else sx_disposition b = SANDBOX_CLEAN"
    using checkpoint_binding_Inr [OF assms(2)] k by auto
  show ?thesis
  proof (cases "tf_dirty f")
    case True
    then obtain pd dd where p: "sx_disposition b = SANDBOX_DIRTY" "sx_patch_digest b = Some pd" "sx_dirty_state_digest b = Some dd"
      "manager_patch_digest s (pk_worktree k) = Inr pd" "dirty_state_digest s (pk_worktree k) = Inr dd" using d by auto
    have "mw_path (pk_worktree k) = wm_source_root (dl_manager v)" using k by simp
    note a = assert_binding_dirty [OF p(1) b p(2,3) this]
    show ?thesis unfolding a using f True p by auto
  next
    case False
    then have "sx_disposition b = SANDBOX_CLEAN" using d by simp
    note a = assert_binding_clean [OF this b]
    show ?thesis unfolding a using f False by auto
  qed
qed

end
