(* ===== verification/SourceSamples.thy ===== *)
theory SourceSamples
  imports LoopSamples LoopCompiler LoopChange LoopControlStore SandboxDelivery
begin

text \<open>
  Concrete source trees, change sets, checkpoints and control plans at which the properties of the source
  plane apply.
\<close>

section \<open>A source tree\<close>

definition git_sample :: "string \<Rightarrow> string list \<Rightarrow> string res" where
  "git_sample dir arguments =
     (if arguments = [''rev-parse'', ''--git-dir''] then Inr ''.git''
      else if take 1 arguments = [''rev-parse''] then Inr ''r1''
      else Inr '''')"

definition tree_sample :: source_tree where
  "tree_sample = \<lparr>st_git = git_sample, st_entry = (\<lambda>_ _. NO_ENTRY), st_strict = Some, st_absolute = (\<lambda>p. p),
     st_holders = Map.empty, st_next = 0\<rparr>"

definition manager_sample :: worktree_manager where
  "manager_sample = \<lparr>wm_source_root = ''/src'', wm_workspaces_root = ''/work''\<rparr>"

definition lock_sample :: string where
  "lock_sample = ''/src/.git/zekam-bound-source.lock''"

definition worktree_sample :: managed_worktree where
  "worktree_sample = \<lparr>mw_workspace_id = ''w1'', mw_path = ''/src'', mw_revision = ''r1'', mw_lease = Some (lock_sample, 0)\<rparr>"

definition tree_taken :: source_tree where
  "tree_taken = tree_sample\<lparr>st_holders := [lock_sample \<mapsto> 0], st_next := 1\<rparr>"

lemma git_runs:
  "run_read_only tree_sample dir [''rev-parse'', ''--git-dir''] = Inr ''.git''"
  "run_read_only tree_sample dir [''rev-parse'', ''HEAD''] = Inr ''r1''"
  "run_read_only tree_sample dir [''rev-parse'', ''r1''] = Inr ''r1''"
  "run_read_only tree_sample dir [''ls-files'', ''--stage''] = Inr ''''"
  "run_read_only tree_sample dir [''status'', ''--porcelain''] = Inr ''''"
  by (simp_all add: run_read_only_def READ_ONLY_COMMANDS_def tree_sample_def git_sample_def)

lemma git_runs_taken: "run_read_only tree_taken = run_read_only tree_sample"
  by (intro ext) (simp add: tree_taken_def)

lemma strip_samples: "strip ''r1'' = ''r1''" "strip ''.git'' = ''.git''" "strip '''' = ''''"
  by code_simp+

lemma tree_created: "worktree_create manager_sample ''w1'' ''r1'' tree_sample = (tree_taken, Inr worktree_sample)"
proof -
  have "lease_file tree_sample ''/src'' = Inr lock_sample"
    by (simp add: lease_file_def git_runs strip_samples starts_with_def lock_sample_def) (simp add: tree_sample_def)
  moreover have "st_holders tree_sample = Map.empty" "st_next tree_sample = 0" by (simp_all add: tree_sample_def)
  ultimately have "acquire_source_lease ''/src'' tree_sample = (tree_taken, Inr (lock_sample, 0))"
    by (simp add: acquire_source_lease_def tree_taken_def)
  then show ?thesis
    by (simp add: worktree_create_def gbind_def git_runs git_runs_taken strip_samples manager_sample_def worktree_sample_def)
qed

theorem builders_never_share_witness:
  "builders tree_taken [worktree_sample] [] \<and> st_holders tree_taken lock_sample \<noteq> None"
proof -
  have "builders tree_sample [] []" by (rule builders.nobody) (simp add: tree_sample_def)
  then have b: "builders tree_taken [worktree_sample] []" using tree_created by (rule builders.created)
  have "\<exists>w \<in> set [worktree_sample]. fst (the (mw_lease w)) = lock_sample" by (simp add: worktree_sample_def)
  with builders_never_share [OF b, of lock_sample] b show ?thesis by blast
qed

definition workspace_sample :: workspace_spec where
  "workspace_sample = \<lparr>wk_workspace_id = ''w1'', wk_project_ref = ''zekam'', wk_work_ref = ''work'', wk_source_revision = ''r1'',
     wk_policy = \<lparr>sb_allowlist = \<lparr>al_entries = [''src'']\<rparr>, sb_network = \<lparr>np_allowed_hosts = [], np_allowed_operations = []\<rparr>,
       sb_main_tree_read_only = False\<rparr>, wk_detached = False\<rparr>"

definition delivery_sample :: delivery_service where
  "delivery_sample = \<lparr>dl_manager = manager_sample, dl_resolve_bound = (\<lambda>_. Inr (Some ''/src''))\<rparr>"

lemma tree_fingerprint_sample:
  "\<exists>d. fingerprint_of tree_sample dir = Inr \<lparr>tf_head = ''r1'', tf_tree_digest = d, tf_dirty = False\<rparr>"
proof -
  obtain d where "digest (PDict [(PStr ''stage'', PStr '''')]) = Inr d" "valid_digest d"
    using digest_of_texts [of "PDict [(PStr ''stage'', PStr '''')]"] by auto
  moreover have "\<not> blank ''r1''" by code_simp
  ultimately show ?thesis
    by (auto simp: fingerprint_of_def git_runs strip_samples check_fingerprint_tree_def is_ok_iff)
qed

theorem checkpoint_resumes_same_tree_witness:
  "\<exists>k b. delivery_prepare delivery_sample workspace_sample tree_sample = (tree_taken, Inr k)
     \<and> checkpoint_binding k None tree_taken = Inr b
     \<and> assert_checkpoint_binding delivery_sample b tree_taken = Inr ()
     \<and> assert_checkpoint_binding delivery_sample b tree_sample = Inr ()"
proof -
  obtain d where f: "fingerprint_of tree_sample dir = Inr \<lparr>tf_head = ''r1'', tf_tree_digest = d, tf_dirty = False\<rparr>" for dir
    using tree_fingerprint_sample unfolding fingerprint_of_def git_runs by auto
  have f': "fingerprint_of tree_taken = fingerprint_of tree_sample"
    by (intro ext) (simp add: fingerprint_of_def git_runs_taken)
  let ?k = "\<lparr>pk_spec = workspace_sample, pk_worktree = worktree_sample, pk_baseline = \<lparr>tf_head = ''r1'', tf_tree_digest = d, tf_dirty = False\<rparr>\<rparr>"
  let ?b = "\<lparr>sx_disposition = SANDBOX_CLEAN, sx_sandbox_id = Some ''w1'', sx_base_revision = Some ''r1'', sx_patch_digest = None, sx_dirty_state_digest = None\<rparr>"
  have strict: "st_strict tree_sample = Some" by (simp add: tree_sample_def)
  have k: "delivery_prepare delivery_sample workspace_sample tree_sample = (tree_taken, Inr ?k)"
    by (simp add: delivery_prepare_def gbind_def greturn_def f strict delivery_sample_def workspace_sample_def)
      (simp add: manager_sample_def tree_created [unfolded manager_sample_def])
  have "portable_text ''w1'' ''Sandbox identity'' = Inr ''w1''" "portable_text ''r1'' ''Sandbox base revision'' = Inr ''r1''"
    by code_simp+
  then have "check_sandbox_binding ?b = Inr ?b" by (simp add: check_sandbox_binding_def List.map_filter_def parse_all_def)
  then have b: "checkpoint_binding ?k None tree_taken = Inr ?b"
    by (simp add: checkpoint_binding_def f f' worktree_sample_def workspace_sample_def)
  show ?thesis
    using k b checkpoint_resumes_same_tree [OF k b, of tree_sample] f f' by (intro exI [of _ ?k] exI [of _ ?b]) simp
qed

section \<open>A change and its rollback\<close>

definition entry_sample :: "char \<Rightarrow> source_entry" where
  "entry_sample c = \<lparr>se_path = ''a.py'', se_kind = ENTRY_FILE, se_content_digest = Some (letters c)\<rparr>"

definition baseline_sample :: change_baseline where
  "baseline_sample = \<lparr>cb_attempt_id = loop_uuid, cb_source_revision = ''r1'', cb_tree_digest = letters (CHR ''a''),
     cb_dirty_state_digest = letters (CHR ''a''), cb_allowed_paths = [''a.py''], cb_allowed_entries = [entry_sample (CHR ''a'')],
     cb_protected_dirty_entries = [], cb_captured_at = Aware 0, cb_grants_authority = False\<rparr>"

text \<open>An adapter that counts the inverse patches it applied.\<close>

definition check_sample :: "rollback_plan \<Rightarrow> pydatetime \<Rightarrow> string \<Rightarrow> patch_apply_check" where
  "check_sample p now d = \<lparr>pc_plan_digest = d, pc_inverse_patch_digest = rb_inverse_patch_digest p,
     pc_source_revision = rb_source_revision p, pc_changed_resources = rb_changed_resources p,
     pc_protected_state_digest = rb_protected_state_digest p, pc_applicable = True, pc_checked_at = now\<rparr>"

definition port_sample :: "(nat, unit) patch_port" where
  "port_sample = \<lparr>pp_protected_state_digest = (\<lambda>b s. (s, Inr (letters (CHR ''c'')))),
     pp_apply_check = (\<lambda>b c p now s. (s, rbind (rollback_plan_digest p) (\<lambda>d. Inr (check_sample p now d)))),
     pp_apply_inverse = (\<lambda>b c p k s. (Suc s, Inr (letters (CHR ''a''))))\<rparr>"

lemma baseline_digest_sample: "\<exists>j. baseline_digest baseline_sample = Inr (digest_json j)"
  unfolding baseline_digest_def
  by (rule digest_ok) (simp add: baseline_body_def baseline_sample_def source_entry_as_dict_def entry_sample_def opt_text_def)

lemma paths_sample: "canonical_paths [''a.py''] label = Inr ()"
proof -
  have "assert_relative_path ''a.py'' label = Inr ''a.py''"
    unfolding assert_relative_path_Inr by code_simp
  then show ?thesis by (simp add: canonical_paths_def canonical_tuple_def assert_relative_paths_def)
qed

definition change_sample :: "string \<Rightarrow> change_set" where
  "change_sample d = \<lparr>cs_attempt_id = loop_uuid, cs_baseline_digest = d, cs_source_revision = ''r1'', cs_changed_resources = [''a.py''],
     cs_before_entries = [entry_sample (CHR ''a'')], cs_after_entries = [entry_sample (CHR ''b'')],
     cs_forward_patch_digest = letters (CHR ''a''), cs_inverse_patch_digest = letters (CHR ''b''),
     cs_created_at = Aware 1, cs_grants_authority = False\<rparr>"

lemma change_created:
  assumes "baseline_digest baseline_sample = Inr (digest_json j)"
  shows "change_set_create baseline_sample [''a.py''] [entry_sample (CHR ''a'')] [entry_sample (CHR ''b'')] (letters (CHR ''a''))
    (letters (CHR ''b'')) (Aware 1) = Inr (change_sample (digest_json j))"
proof -
  have blank: "\<not> blank ''r1''" by code_simp
  have path: "se_path (entry_sample c) = ''a.py''" for c by (simp add: entry_sample_def)
  have neq: "entry_sample (CHR ''a'') \<noteq> entry_sample (CHR ''b'')" by (simp add: entry_sample_def letters_def)
  have empty: "canonical_paths [] ''protected dirty path'' = Inr ()"
    by (simp add: canonical_paths_def canonical_tuple_def assert_relative_paths_def)
  have "check_baseline baseline_sample = Inr baseline_sample"
    using blank letters_valid paths_sample empty path
    by (simp add: check_baseline_def baseline_sample_def parse_all_Inr_iff rbind_Inr_iff)
  moreover have "check_change_set (change_sample (digest_json j)) = Inr (change_sample (digest_json j))"
    using blank letters_valid paths_sample path neq
    by (simp add: check_change_set_def change_sample_def parse_all_Inr_iff rbind_Inr_iff)
  ultimately show ?thesis
    using assms path by (simp add: change_set_create_def Let_def)
      (simp add: baseline_sample_def change_sample_def path)
qed

theorem created_change_can_roll_back_witness:
  "\<exists>c p. change_set_create baseline_sample [''a.py''] [entry_sample (CHR ''a'')] [entry_sample (CHR ''b'')]
      (letters (CHR ''a'')) (letters (CHR ''b'')) (Aware 1) = Inr c
    \<and> rollback_prepare port_sample baseline_sample c ''metric-regression'' (Aware 2) 0 = (0, Inr p)
    \<and> rb_changed_resources p = [''a.py'']"
proof -
  obtain j where j: "baseline_digest baseline_sample = Inr (digest_json j)" using baseline_digest_sample by blast
  note c = change_created [OF j]
  have "''metric-regression'' \<in> set ALLOWED_REASONS" "is_aware (Aware 2)"
    "pp_protected_state_digest port_sample baseline_sample 0 = (0, Inr (letters (CHR ''c'')))"
    by (simp_all add: ALLOWED_REASONS_def port_sample_def)
  from created_change_can_roll_back [OF c this letters_valid(3)] c show ?thesis by blast
qed

lemma rollback_prepared:
  assumes "baseline_digest baseline_sample = Inr (digest_json j)"
  shows "\<exists>d. rollback_prepare port_sample baseline_sample (change_sample (digest_json j)) ''metric-regression'' (Aware 2) 0 =
    (0, Inr \<lparr>rb_change_set_digest = d, rb_attempt_id = loop_uuid, rb_source_revision = ''r1'',
        rb_changed_resources = [''a.py''], rb_inverse_patch_digest = letters (CHR ''b''),
        rb_protected_state_digest = letters (CHR ''c''), rb_reason_code = ''metric-regression'', rb_prepared_at = Aware 2,
        rb_grants_authority = False\<rparr>)
    \<and> change_set_digest (change_sample (digest_json j)) = Inr d \<and> valid_digest d"
proof -
  have "is_aware (cs_created_at (change_sample (digest_json j)))" by (simp add: change_sample_def)
  then obtain d where d: "change_set_digest (change_sample (digest_json j)) = Inr d" "valid_digest d"
    using change_set_digest_ok by blast
  have "\<not> blank ''r1''" "\<not> blank ''metric-regression''" by code_simp+
  moreover have "check_rollback_scope baseline_sample (change_sample (digest_json j)) ''metric-regression'' = Inr ()"
    using assms by (simp add: check_rollback_scope_def ALLOWED_REASONS_def) (simp add: change_sample_def baseline_sample_def)
  ultimately show ?thesis
    using d letters_valid paths_sample
    by (simp add: rollback_prepare_def gbind_def glift_def check_rollback_plan_def parse_all_Inr_iff rbind_Inr_iff)
      (simp add: port_sample_def change_sample_def check_rollback_plan_def parse_all_Inr_iff rbind_Inr_iff)
qed

lemma rollback_executed:
  assumes "change_set_digest c = Inr (rb_change_set_digest p)" "valid_digest (rb_change_set_digest p)"
    "cs_changed_resources c = [''a.py'']" "rb_changed_resources p = [''a.py'']" "rb_prepared_at p = Aware 2"
    "valid_digest (cs_inverse_patch_digest c)"
  shows "\<exists>r. rollback_execute port_sample b () c p (Aware 3) (Aware 4) 0 = (1, Inr r)"
proof -
  obtain j where j: "rollback_plan_digest p = Inr (digest_json j)"
    using digest_ok [of "rollback_plan_body p"] assms(4,5) by (auto simp: rollback_plan_digest_def rollback_plan_body_def)
  let ?k = "check_sample p (Aware 3) (digest_json j)"
  obtain i where i: "apply_check_digest ?k = Inr (digest_json i)"
    unfolding apply_check_digest_def
    by (rule exE [OF digest_ok]) (auto simp: check_sample_def assms(4))
  have m: "apply_check_matches ?k p = Inr True" by (simp add: apply_check_matches_def check_sample_def j)
  have "check_rollback_receipt \<lparr>rr_plan_digest = digest_json j, rr_change_set_digest = rb_change_set_digest p,
      rr_apply_check_digest = digest_json i, rr_inverse_patch_digest = cs_inverse_patch_digest c,
      rr_changed_resources = [''a.py''], rr_post_state_digest = letters (CHR ''a''), rr_applied_at = Aware 4,
      rr_status = ''applied'', rr_grants_authority = False\<rparr> = Inr \<lparr>rr_plan_digest = digest_json j, rr_change_set_digest = rb_change_set_digest p,
      rr_apply_check_digest = digest_json i, rr_inverse_patch_digest = cs_inverse_patch_digest c,
      rr_changed_resources = [''a.py''], rr_post_state_digest = letters (CHR ''a''), rr_applied_at = Aware 4,
      rr_status = ''applied'', rr_grants_authority = False\<rparr>"
    using assms letters_valid paths_sample by (simp add: check_rollback_receipt_def parse_all_Inr_iff rbind_Inr_iff)
  then show ?thesis
    using assms j m i by (simp add: rollback_execute_def gbind_def glift_def port_sample_def)
qed

theorem rollback_stays_owned_witness:
  "\<exists>c p r. rollback_prepare port_sample baseline_sample c ''metric-regression'' (Aware 2) 0 = (0, Inr p)
    \<and> rollback_execute port_sample baseline_sample () c p (Aware 3) (Aware 4) 0 = (1, Inr r)
    \<and> set (rb_changed_resources p) \<subseteq> {''a.py''}"
proof -
  obtain j where j: "baseline_digest baseline_sample = Inr (digest_json j)" using baseline_digest_sample by blast
  let ?c = "change_sample (digest_json j)"
  obtain d p where p: "rollback_prepare port_sample baseline_sample ?c ''metric-regression'' (Aware 2) 0 = (0, Inr p)"
    "rb_change_set_digest p = d" "rb_changed_resources p = [''a.py'']" "rb_prepared_at p = Aware 2"
    "change_set_digest ?c = Inr d" "valid_digest d" using rollback_prepared [OF j] by fastforce
  obtain r where r: "rollback_execute port_sample baseline_sample () ?c p (Aware 3) (Aware 4) 0 = (1, Inr r)"
    using rollback_executed [of ?c p baseline_sample] p letters_valid by (auto simp: change_sample_def)
  have "set (rb_changed_resources p) \<subseteq> set (cb_allowed_paths baseline_sample)"
    using rollback_stays_owned [OF p(1) r] by blast
  then have "set (rb_changed_resources p) \<subseteq> {''a.py''}" by (simp add: baseline_sample_def)
  with p(1) r show ?thesis by blast
qed

definition alias_entry :: source_entry where
  "alias_entry = \<lparr>se_path = ''./a.py'', se_kind = ENTRY_FILE, se_content_digest = Some (letters (CHR ''a''))\<rparr>"

definition alias_gone :: source_entry where
  "alias_gone = \<lparr>se_path = ''./a.py'', se_kind = ENTRY_MISSING, se_content_digest = None\<rparr>"

definition dirty_baseline :: change_baseline where
  "dirty_baseline = baseline_sample\<lparr>cb_allowed_paths := [''b.py''], cb_allowed_entries := [(entry_sample (CHR ''b''))\<lparr>se_path := ''b.py''\<rparr>],
     cb_protected_dirty_entries := [entry_sample (CHR ''a'')]\<rparr>"

lemma dirty_baseline_ok: "check_baseline dirty_baseline = Inr dirty_baseline"
proof -
  have "assert_relative_path ''b.py'' label = Inr ''b.py''" for label
    unfolding assert_relative_path_Inr by code_simp
  then have "canonical_paths [''b.py''] label = Inr ()" for label
    by (simp add: canonical_paths_def canonical_tuple_def assert_relative_paths_def)
  moreover have "\<not> blank ''r1''" by code_simp
  ultimately show ?thesis
    using letters_valid paths_sample
    by (simp add: check_baseline_def dirty_baseline_def baseline_sample_def parse_all_Inr_iff rbind_Inr_iff entry_sample_def)
qed

theorem dirty_alias_owned_witness:
  "\<exists>a c. se_path (entry_sample (CHR ''a'')) = ''a.py'' \<and> check_baseline a = Inr a \<and> entry_sample (CHR ''a'') \<in> set (cb_protected_dirty_entries a)
    \<and> change_set_create a [''./a.py''] [alias_entry] [alias_gone] (letters (CHR ''a'')) (letters (CHR ''b'')) (Aware 1) = Inr c
    \<and> cs_changed_resources c = [''./a.py'']"
proof -
  have e: "entry_sample (CHR ''a'') \<in> set (cb_protected_dirty_entries dirty_baseline)"
    "''./a.py'' = ''./'' @ se_path (entry_sample (CHR ''a''))" "''./a.py'' \<notin> se_path ` set (cb_protected_dirty_entries dirty_baseline)"
    by (simp_all add: dirty_baseline_def entry_sample_def)
  let ?a = "dirty_baseline\<lparr>cb_allowed_paths := [''./a.py''], cb_allowed_entries := [alias_entry]\<rparr>"
  have f: "se_path alias_entry = ''./a.py''" "se_path alias_gone = ''./a.py''" "alias_entry \<noteq> alias_gone" "is_aware (Aware 1)"
    by (simp_all add: alias_entry_def alias_gone_def)
  from dirty_alias_owned [OF dirty_baseline_ok e f(1-3) letters_valid(1,2) f(4) refl]
  obtain c where "check_baseline ?a = Inr ?a"
    "change_set_create ?a [''./a.py''] [alias_entry] [alias_gone] (letters (CHR ''a'')) (letters (CHR ''b'')) (Aware 1) = Inr c"
    "cs_changed_resources c = [''./a.py'']" by blast
  then show ?thesis using e(1) by (intro exI [of _ ?a] exI [of _ c]) (simp add: entry_sample_def)
qed

section \<open>Pausing a loop\<close>

definition control_scope :: authorization_scope where
  "control_scope = \<lparr>as_resources = [''loop:l1''], as_read_resources = [], as_write_resources = [],
     as_effects = [''database-write''], as_provider_refs = [], as_secret_ref_ids = [], as_data_classifications = []\<rparr>"

definition control_authorization :: "string \<Rightarrow> authorization" where
  "control_authorization ed = \<lparr>au_id = ''a1'', au_realm_id = ''r1'', au_actor_id = ''x1'', au_plan_digest = letters (CHR ''a''),
     au_effect_digest = ed, au_scope = control_scope, au_risk = ''medium'', au_issued_at = 0, au_expires_at = 1000,
     au_work_item_id = Some ''k1'', au_plan_id = Some ''p1'', au_state = AS_ISSUED, au_consumed_at = None,
     au_consumed_by = None, au_revoked_at = None, au_revocation_reason = None\<rparr>"

definition control_row :: "string \<Rightarrow> string \<Rightarrow> authorization_row" where
  "control_row ed ad = issued_row (control_authorization ed) (JObj (sort_key fst (scope_items control_scope))) ad"

definition loop_sample :: "string \<Rightarrow> string \<Rightarrow> loop_store" where
  "loop_sample ed ad = \<lparr>lx_ledger = gov_bare\<lparr>lg_authorizations := [control_row ed ad]\<rparr>,
     lx_policies = [\<lparr>pw_realm_id = ''r1'', pw_id = ''l1'', pw_work_item_id = ''k1'', pw_plan_id = ''p1'', pw_plan_digest = letters (CHR ''a'')\<rparr>],
     lx_work_items = [(''r1'', ''k1'', ''active'')], lx_task_plans = [(''r1'', ''p1'', ''k1'', 1)], lx_terminals = [],
     lx_events = [], lx_clock = (\<lambda>n. 10 + int n), lx_reads = 0\<rparr>"

definition pause_plan :: "string \<Rightarrow> string \<Rightarrow> control_plan" where
  "pause_plan ed cd = \<lparr>ck_realm_id = ''r1'', ck_loop_id = ''l1'', ck_work_item_id = ''k1'', ck_plan_id = ''p1'',
     ck_plan_digest = letters (CHR ''a''), ck_source_state = CTL_ACTIVE, ck_target_state = CTL_PAUSED,
     ck_reason_digest = letters (CHR ''b''), ck_effect_digest = ed, ck_control_digest = cd, ck_grants_authority = False\<rparr>"

definition loop_snapshot :: control_snapshot where
  "loop_snapshot = \<lparr>cn_realm_id = ''r1'', cn_loop_id = ''l1'', cn_work_item_id = ''k1'', cn_plan_id = ''p1'',
     cn_plan_digest = letters (CHR ''a''), cn_current_state = CTL_ACTIVE, cn_terminal_state = None, cn_work_state = ''active'',
     cn_current_plan = True\<rparr>"

lemma letters_format: "digest_format (letters (CHR ''a''))" "digest_format (letters (CHR ''b''))"
  by (simp_all add: letters_def) code_simp+

lemma loop_facts:
  "lx_realm (loop_sample ed ad) = ''r1''" "lx_events (loop_sample ed ad) = []" "lx_clock (loop_sample ed ad) = (\<lambda>n. 10 + int n)" "lx_reads (loop_sample ed ad) = 0"
  "find_policy (loop_sample ed ad) ''l1'' = Some \<lparr>pw_realm_id = ''r1'', pw_id = ''l1'', pw_work_item_id = ''k1'', pw_plan_id = ''p1'', pw_plan_digest = letters (CHR ''a'')\<rparr>"
  "work_state_text (loop_sample ed ad) ''k1'' = Some ''active''" "terminal_of (loop_sample ed ad) loop = None"
  "current_plan_of (loop_sample ed ad) ''k1'' = Some ''p1''" "control_state (loop_sample ed ad) loop = CTL_ACTIVE"
  "lg_authorizations (lx_ledger (loop_sample ed ad)) = [control_row ed ad]"
  "authorization_row_of ''a1'' (lx_ledger (loop_sample ed ad)) = Some (control_row ed ad)"
  by (simp_all add: loop_sample_def gov_bare_def find_policy_def work_state_text_def terminal_of_def current_plan_of_def
      control_state_def authorization_row_of_def control_row_def issued_row_def control_authorization_def)

lemma loop_read: "read_control_snapshot ''l1'' (loop_sample ed ad) = (loop_sample ed ad, Inr loop_snapshot)"
  using letters_valid(1)
  by (auto simp: read_control_snapshot_def loop_facts check_control_snapshot_def loop_snapshot_def rbind_Inr_iff is_ok_iff)

lemma control_row_read:
  assumes "valid_digest ed"
  shows "control_authorization_get ''a1'' (loop_sample ed ad) = (loop_sample ed ad, Inr (control_authorization ed))"
proof -
  have "as_effects control_scope \<noteq> []" "stored_scope control_scope = control_scope"
    by (simp_all add: control_scope_def stored_scope_def)
  then have "scope_from_json (JObj (sort_key fst (scope_items control_scope))) = Inr control_scope"
    using scope_reads_back [OF canonicalize_scope] by metis
  then have "authorization_from_row (control_row ed ad) = Inr (control_authorization ed)"
    using assms letters_valid(1)
    by (auto simp: authorization_from_row_def control_row_def issued_row_def control_authorization_def check_authorization_def is_ok_iff)
  then show ?thesis
    by (simp add: control_authorization_get_def authorization_get_def gbind_def query_def glift_def loop_facts)
qed

lemma authorization_digest_sample: "\<exists>j. authorization_digest (control_authorization ed) = Inr (digest_json j)"
  unfolding authorization_digest_def
  by (rule digest_ok) (simp add: authorization_body_def control_authorization_def scope_body_def control_scope_def opt_uuid_def)

lemma pause_effect: "\<exists>j. control_effect_digest ''l1'' (letters (CHR ''a'')) CTL_ACTIVE CTL_PAUSED (letters (CHR ''b'')) = Inr (digest_json j)"
  unfolding control_effect_digest_def by (rule digest_ok) simp

lemma pause_integrity:
  assumes "valid_digest ed"
  shows "\<exists>j. assert_integrity (pause_plan ed (digest_json j)) = Inr ()"
proof -
  have body: "control_plan_body (pause_plan ed cd) = control_plan_body (pause_plan ed '''')" for cd
    by (simp add: control_plan_body_def pause_plan_def)
  obtain j where "digest (control_plan_body (pause_plan ed '''')) = Inr (digest_json j)"
    using digest_ok [of "control_plan_body (pause_plan ed '''')"] by (auto simp: control_plan_body_def)
  then show ?thesis
    using assms letters_valid body [of "digest_json j"]
    by (intro exI [of _ j]) (auto simp: assert_integrity_def pause_plan_def is_ok_iff parse_digest_json)
qed

definition pause_event :: "string \<Rightarrow> control_event_row" where
  "pause_event ad = \<lparr>ce_id = ''e1'', ce_realm_id = ''r1'', ce_loop_id = ''l1'', ce_state = CTL_PAUSED, ce_plan_digest = letters (CHR ''a''),
     ce_authorization_id = ''a1'', ce_authorization_digest = ad, ce_reason_digest = letters (CHR ''b''), ce_created_at = 11\<rparr>"

lemma loop_with_events:
  "find_policy (s\<lparr>lx_events := es\<rparr>) = find_policy s" "work_state_text (s\<lparr>lx_events := es\<rparr>) = work_state_text s"
  "terminal_of (s\<lparr>lx_events := es\<rparr>) = terminal_of s" "current_plan_of (s\<lparr>lx_events := es\<rparr>) = current_plan_of s"
  by (intro ext; simp add: find_policy_def work_state_text_def terminal_of_def current_plan_of_def)+

lemma pause_sql:
  assumes "control_effect_digest ''l1'' (letters (CHR ''a'')) CTL_ACTIVE CTL_PAUSED (letters (CHR ''b'')) = Inr ed"
    "digest_format ed" "digest_format ad" "control_state ((loop_sample ed ad)\<lparr>lx_events := es\<rparr>) ''l1'' = CTL_ACTIVE" "''e1'' \<notin> ce_id ` set es"
  shows "\<exists>t. sql_record_control_event ''e1'' ''l1'' CTL_PAUSED ''a1'' ad (letters (CHR ''b'')) ((loop_sample ed ad)\<lparr>lx_events := es\<rparr>) = Inr t
    \<and> lx_events t = es @ [pause_event ad] \<and> lx_realm t = ''r1''"
proof -
  let ?s = "(loop_sample ed ad)\<lparr>lx_events := es\<rparr>"
  note facts = loop_with_events loop_facts
  have c: "loop_is_controllable ?s ''l1''" by (simp add: loop_is_controllable_def facts)
  have a: "control_authorization_ok (control_row ed ad) 10 ad \<lparr>pw_realm_id = ''r1'', pw_id = ''l1'', pw_work_item_id = ''k1'', pw_plan_id = ''p1'', pw_plan_digest = letters (CHR ''a'')\<rparr> ed"
    by (simp add: control_authorization_ok_def control_row_def issued_row_def control_authorization_def control_scope_def control_resource_def)
  have r: "authorization_row_check (mark_consumed m by1 (control_row ed ad))" "\<not> transition_refused (control_row ed ad) (mark_consumed m by1 (control_row ed ad))"
    "aw_realm_id (control_row ed ad) = ''r1''" "aw_id (control_row ed ad) = ''a1''" "aw_state (control_row ed ad) = AS_ISSUED" for m by1
    using assms(2,3) letters_format
    by (simp_all add: authorization_row_check_def transition_refused_def mark_consumed_def control_row_def issued_row_def control_authorization_def control_scope_def)
  have u: "\<exists>l. update_authorizations (\<lambda>r. aw_id r = ''a1'' \<and> aw_state r = AS_ISSUED) (mark_consumed m by1) (lx_ledger (loop_sample ed ad)) = Inr (l, [mark_consumed m by1 (control_row ed ad)]) \<and> lg_realm l = ''r1''" for m by1
    using r by (simp add: update_authorizations_def loop_facts Let_def)
  have i: "(''r1'', ''e1'') \<notin> (\<lambda>f. (ce_realm_id f, ce_id f)) ` set es" using assms(5) by auto
  show ?thesis
    using c a assms letters_format i u [of 12 "''runtime.loop-control/v2''"]
    by (auto simp: sql_record_control_event_def facts transition_permitted_def clock_timestamp_def insert_control_event_def
        consume_for_control_def pause_event_def)
qed

lemma no_events: "(loop_sample ed ad)\<lparr>lx_events := []\<rparr> = loop_sample ed ad"
  by (simp add: loop_sample_def)

lemma pause_recorded:
  assumes "control_effect_digest ''l1'' (letters (CHR ''a'')) CTL_ACTIVE CTL_PAUSED (letters (CHR ''b'')) = Inr ed"
    "digest_format ed" "digest_format ad" "assert_integrity (pause_plan ed cd) = Inr ()"
  shows "\<exists>t. record_control_event (pause_plan ed cd) ''e1'' ''a1'' ad (loop_sample ed ad) = (t, Inr (Aware 11))"
proof -
  have p: "ck_loop_id (pause_plan ed cd) = ''l1''" "ck_target_state (pause_plan ed cd) = CTL_PAUSED"
    "ck_reason_digest (pause_plan ed cd) = letters (CHR ''b'')" "ck_realm_id (pause_plan ed cd) = ''r1''"
    "ck_plan_digest (pause_plan ed cd) = letters (CHR ''a'')" by (simp_all add: pause_plan_def)
  have "work_state_of ''active'' = Some WS_ACTIVE" by code_simp
  then have d: "locked_drift loop_snapshot (pause_plan ed cd) = Inr False"
    by (simp add: locked_drift_def loop_snapshot_def pause_plan_def OPEN_STATES_def)
  obtain t where t: "sql_record_control_event ''e1'' ''l1'' CTL_PAUSED ''a1'' ad (letters (CHR ''b'')) (loop_sample ed ad) = Inr t"
    "lx_events t = [pause_event ad]" "lx_realm t = ''r1''" using pause_sql [OF assms(1-3), of "[]"] by (auto simp: no_events loop_facts)
  have "recorded_event ''e1'' (pause_plan ed cd) ''a1'' ad t = Some (pause_event ad)"
    using t(2,3) p by (simp add: recorded_event_def) (simp add: pause_event_def)
  then show ?thesis
    using p d t(1) assms(4) loop_read loop_facts(1)
    by (simp add: record_control_event_def gbind_def glift_def greturn_def) (simp add: pause_event_def)
qed

theorem loop_control_history_witness:
  "\<exists>s t p r. control_run postgres_control [(p, ''a1'', Aware 10, ''e1'')] s = (t, [r]) \<and> control_state s ''l1'' = CTL_ACTIVE
    \<and> control_state t ''l1'' = CTL_PAUSED \<and> ''a1'' \<in> spent_authorizations t"
proof -
  obtain j where e: "control_effect_digest ''l1'' (letters (CHR ''a'')) CTL_ACTIVE CTL_PAUSED (letters (CHR ''b'')) = Inr (digest_json j)"
    using pause_effect by blast
  let ?ed = "digest_json j" and ?a = "control_authorization (digest_json j)"
  obtain c where i: "assert_integrity (pause_plan ?ed (digest_json c)) = Inr ()" using pause_integrity [of ?ed] by auto
  let ?p = "pause_plan ?ed (digest_json c)"
  obtain k where a: "authorization_digest ?a = Inr (digest_json k)"
    using authorization_digest_sample by blast
  let ?s = "loop_sample ?ed (digest_json k)"
  obtain t where t: "record_control_event ?p ''e1'' ''a1'' (digest_json k) ?s = (t, Inr (Aware 11))"
    using pause_recorded [OF e _ _ i, of "digest_json k"] by auto
  have "work_state_of ''active'' = Some WS_ACTIVE" by code_simp
  then have d: "\<not> control_drift loop_snapshot ?p"
    by (simp add: control_drift_def loop_snapshot_def pause_plan_def work_is_open_text_def OPEN_STATES_def)
  have b: "authorization_bound ?a ?p 10"
    by (simp add: authorization_bound_def rejection_reason_def control_authorization_def pause_plan_def covers_effect_def
        covers_resource_def control_scope_def resource_pattern_def control_resource_def)
  obtain rd where rd: "control_receipt_digest ?p ''e1'' ''a1'' (Aware 11) = Inr rd" using receipt_digest_ok by blast
  have id: "au_id ?a = ''a1''" "ck_loop_id ?p = ''l1''" by (simp_all add: control_authorization_def pause_plan_def)
  have "\<exists>r. control_apply postgres_control ?p ''a1'' (Aware 10) ''e1'' ?s = (t, Inr r) \<and> cc_loop_id r = ''l1'' \<and> cc_target_state r = CTL_PAUSED
     \<and> cc_authorization_id r = ''a1''"
    using i loop_read [of ?ed "digest_json k"] control_row_read [of ?ed "digest_json k"] d b t a rd id
    by (simp add: control_apply_def postgres_control_def gbind_def glift_def greturn_def db_transaction_def) (simp add: pause_plan_def)
  then obtain r where r: "control_apply postgres_control ?p ''a1'' (Aware 10) ''e1'' ?s = (t, Inr r)" "cc_loop_id r = ''l1''"
    "cc_target_state r = CTL_PAUSED" "cc_authorization_id r = ''a1''" by blast
  then have run: "control_run postgres_control [(?p, ''a1'', Aware 10, ''e1'')] ?s = (t, [r])" by simp
  have "control_ok ?s" "steady_clock ?s" by (simp_all add: control_ok_def steady_clock_def loop_facts)
  from loop_control_history [OF this run, of "''l1''"] r run show ?thesis
    by (intro exI [of _ ?s] exI [of _ t] exI [of _ ?p] exI [of _ r]) (auto simp: loop_facts)
qed

text \<open>An event from a time when the clock was ahead.\<close>

definition early_event :: control_event_row where
  "early_event = \<lparr>ce_id = ''e0'', ce_realm_id = ''r1'', ce_loop_id = ''l1'', ce_state = CTL_ACTIVE, ce_plan_digest = letters (CHR ''a''),
     ce_authorization_id = ''a0'', ce_authorization_digest = letters (CHR ''a''), ce_reason_digest = letters (CHR ''b''), ce_created_at = 1000\<rparr>"

theorem late_clock_loses_control_witness:
  "\<exists>s t ad. sql_record_control_event ''e1'' ''l1'' CTL_PAUSED ''a1'' ad (letters (CHR ''b'')) s = Inr t
    \<and> control_state t ''l1'' = CTL_ACTIVE \<and> ''a1'' \<in> spent_authorizations t"
proof -
  obtain j where e: "control_effect_digest ''l1'' (letters (CHR ''a'')) CTL_ACTIVE CTL_PAUSED (letters (CHR ''b'')) = Inr (digest_json j)"
    using pause_effect by blast
  let ?s = "(loop_sample (digest_json j) (letters (CHR ''a'')))\<lparr>lx_events := [early_event]\<rparr>"
  have a: "control_state ?s ''l1'' = CTL_ACTIVE" by (simp add: control_state_def loop_facts) (simp add: early_event_def)
  obtain t where t: "sql_record_control_event ''e1'' ''l1'' CTL_PAUSED ''a1'' (letters (CHR ''a'')) (letters (CHR ''b'')) ?s = Inr t"
    using pause_sql [OF e _ letters_format(1) a] by (auto simp: early_event_def)
  have f: "distinct (map aw_id (lg_authorizations (lx_ledger ?s)))" "early_event \<in> set (lx_events ?s)" "ce_realm_id early_event = lx_realm ?s"
    "ce_loop_id early_event = ''l1''" "lx_clock ?s (Suc (lx_reads ?s)) < ce_created_at early_event"
    by (simp_all add: loop_facts early_event_def)
  from late_clock_loses_control [OF t f] t a show ?thesis by (intro exI [of _ ?s] exI [of _ t]) auto
qed

section \<open>A progress packet\<close>

definition progress_sample :: loop_checkpoint where
  "progress_sample = (lp_checkpoint (packet_sample (letters (CHR ''a''))))\<lparr>
     lc_new_evidence_refs := [(''run/1'', letters (CHR ''a'')), (''run/2'', letters (CHR ''b''))]\<rparr>"

lemma progress_sample_ok:
  "check_checkpoint progress_sample = Inr progress_sample" "printable progress_sample"
  "check_compiler_policy default_compiler_policy = Inr default_compiler_policy"
proof -
  have b: "\<not> blank ''r1''" "\<not> blank ''diagnosis''" "\<not> blank ''focus''" "\<not> blank ''run/1''" "\<not> blank ''run/2''" by code_simp+
  have c: "canonical_tuple [''run/1'', ''run/2'']" by code_simp
  show "check_checkpoint progress_sample = Inr progress_sample"
    using b c letters_valid
    by (simp add: check_checkpoint_def progress_sample_def packet_sample_def parse_all_Inr_iff assert_digest_tuple_def
        assert_ref_digest_tuple_def canonical_tuple_def rbind_Inr_iff)
  show "printable progress_sample"
    using flat_vector_ok by (simp add: printable_def progress_sample_def packet_sample_def) (simp add: flat_vector_def values_dict_def)
  show "check_compiler_policy default_compiler_policy = Inr default_compiler_policy"
    by (simp add: check_compiler_policy_def default_compiler_policy_def)
qed

theorem packet_compiler_stops_witness:
  "(\<exists>p. compile_packet default_compiler_policy progress_sample = Inr p \<and> check_packet p = Inr p \<and> fits p)
   \<or> compile_packet default_compiler_policy progress_sample = Inl (PolicyViolation ''Progress packet zorunlu alanlari token budget'e sigmiyor'')"
proof -
  have "one_line (lc_next_allowed_focus progress_sample)" "one_line (lc_validator_diagnosis_ref progress_sample)"
    by (simp_all add: progress_sample_def packet_sample_def) code_simp+
  from packet_compiler_stops [OF progress_sample_ok(3,1,2) this] show ?thesis by blast
qed

section \<open>A checkpoint\<close>

definition step_sample :: step_result where
  "step_sample = \<lparr>sr_step_id = ''s1'', sr_result_digest = letters (CHR ''a''), sr_effect_kind = EK_FILE_WRITE, sr_job_id = loop_uuid,
     sr_attempt_id = loop_uuid, sr_assignment_id = loop_uuid, sr_envelope_id = loop_uuid, sr_envelope_digest = letters (CHR ''a''),
     sr_receipt_refs = [loop_uuid], sr_verification_refs = [loop_uuid], sr_verification_required = True\<rparr>"

definition bindings_sample :: stale_bindings where
  "bindings_sample = \<lparr>sd_routing_context_snapshot_id = loop_uuid, sd_source_revision = ''r1'', sd_policy_digest = letters (CHR ''a''),
     sd_capability_profile_digest = letters (CHR ''a''), sd_dependency_snapshot_digest = letters (CHR ''a''),
     sd_migration_head_digest = letters (CHR ''a''), sd_model_route_decision_digest = letters (CHR ''a''),
     sd_context_manifest_digest = letters (CHR ''a''), sd_context_packet_digest = letters (CHR ''a''),
     sd_architecture_digest = letters (CHR ''a''), sd_rules_digest = letters (CHR ''a''), sd_test_suite_digest = letters (CHR ''a''),
     sd_model_inventory_digest = letters (CHR ''a''), sd_journal_head_digest = letters (CHR ''a'')\<rparr>"

definition checkpoint_sample :: checkpoint_v2 where
  "checkpoint_sample = \<lparr>ct_checkpoint_id = loop_uuid, ct_checkpoint_key = ''key'', ct_revision = 1, ct_previous_checkpoint_id = None,
     ct_previous_checkpoint_digest = None, ct_realm_id = loop_uuid, ct_project_id = loop_uuid, ct_work_item_id = loop_uuid,
     ct_intent_digest = letters (CHR ''a''), ct_plan_id = loop_uuid, ct_plan_digest = letters (CHR ''a''), ct_step_id = ''s2'',
     ct_run_id = loop_uuid, ct_job_id = loop_uuid, ct_attempt_id = loop_uuid, ct_assignment_id = loop_uuid,
     ct_envelope_id = loop_uuid, ct_envelope_digest = letters (CHR ''a''), ct_route_decision_id = loop_uuid,
     ct_context_manifest_id = loop_uuid, ct_context_packet_id = loop_uuid, ct_bindings = bindings_sample,
     ct_plan_steps = [''s1'', ''s2''], ct_completed_steps = [''s1''], ct_pending_steps = [''s2''], ct_step_results = [step_sample],
     ct_open_effects = [], ct_read_resources = [], ct_write_resources = [''path:web:src''],
     ct_sandbox = \<lparr>sx_disposition = SANDBOX_NOT_APPLICABLE, sx_sandbox_id = None, sx_base_revision = None, sx_patch_digest = None,
       sx_dirty_state_digest = None\<rparr>,
     ct_tokens_used = 0, ct_cost_micros_used = 0, ct_attempts_used = 1, ct_deadline = Aware 10, ct_recovery = [],
     ct_resumability = SAFE_CONTINUE, ct_next_safe_action = Some \<lparr>na_kind = ''run'', na_step_id = ''s2'', na_reason = ''next''\<rparr>,
     ct_created_at = Aware 5, ct_observed_lease_id = loop_uuid, ct_observed_fencing_token = 1, ct_test_and_eval_digests = [],
     ct_grants_authority = False, ct_carries_active_lease = False, ct_approval_inherited = False\<rparr>"

theorem checkpoint_accounts_for_plan_witness:
  "check_checkpoint_v2 checkpoint_sample = Inr checkpoint_sample
   \<and> set (ct_completed_steps checkpoint_sample) \<union> set (ct_pending_steps checkpoint_sample) = set (ct_plan_steps checkpoint_sample)"
proof -
  have t: "portable_text ''key'' ''Checkpoint key'' = Inr ''key''" "portable_text ''s2'' ''Current step'' = Inr ''s2''"
    "portable_text ''s1'' ''Step result kimligi'' = Inr ''s1''" "\<not> blank ''s1''" "\<not> blank ''s2''" by code_simp+
  have r: "resource_texts [''path:web:src''] = Inr [''path:web:src'']" "resource_texts [] = Inr []" by code_simp+
  have p: "validate_partition checkpoint_sample = Inr ()"
    using t by (simp add: validate_partition_def checkpoint_sample_def step_sample_def Let_def insert_commute)
  have v: "validate_resources checkpoint_sample = Inr ()"
    using r by (simp add: validate_resources_def checkpoint_sample_def canonical_tuple_def)
  have c: "check_checkpoint_v2 checkpoint_sample = Inr checkpoint_sample"
    unfolding check_checkpoint_v2_def p v using t letters_valid
    by (simp add: checkpoint_sample_def rbind_Inr_iff parse_all_Inr_iff List.map_filter_def distinct_digests_def)
  have "check_step_result step_sample = Inr step_sample"
    using t letters_valid by (simp add: check_step_result_def step_sample_def rbind_Inr_iff parse_all_Inr_iff)
  then have "list_all (\<lambda>r. is_ok (check_step_result r)) (ct_step_results checkpoint_sample)"
    by (simp add: checkpoint_sample_def)
  from checkpoint_accounts_for_plan [OF c this] c show ?thesis by blast
qed

end
