(* ===== verification/Resume.thy ===== *)
theory Resume
  imports Checkpoint
begin

text \<open>
  Planning how to continue from a checkpoint (\<^verbatim>\<open>domain/resume.py\<close> and \<^verbatim>\<open>application/resume_coordinator.py\<close>). The
  read model of the coordinator is its argument: an observation of the work, the checkpoint, the plan,
  the bindings now and then, and the job. The lemmas show when work continues as it is, that a plan is
  always made, and in which order its actions stand.
\<close>

section \<open>Enumerations\<close>

datatype resume_disposition = RD_SAFE_CONTINUE | RD_SAFE_RECOMPILE | RD_SAFE_REPLAN | RD_WAITING | RD_RECOVERY_REQUIRED
  | RD_MANUAL_REVIEW | RD_DENIED | RD_ALREADY_COMPLETED

fun resume_disposition_value :: "resume_disposition \<Rightarrow> string" where
  "resume_disposition_value RD_SAFE_CONTINUE = ''safe-continue''"
| "resume_disposition_value RD_SAFE_RECOMPILE = ''safe-recompile''"
| "resume_disposition_value RD_SAFE_REPLAN = ''safe-replan''"
| "resume_disposition_value RD_WAITING = ''waiting''"
| "resume_disposition_value RD_RECOVERY_REQUIRED = ''recovery-required''"
| "resume_disposition_value RD_MANUAL_REVIEW = ''manual-review''"
| "resume_disposition_value RD_DENIED = ''denied''"
| "resume_disposition_value RD_ALREADY_COMPLETED = ''already-completed''"

datatype drift_decision = DD_RECOMPILE | DD_REPLAN | DD_REAUTHORIZE | DD_RECONCILE | DD_MANUAL_REVIEW | DD_DENY

fun drift_decision_value :: "drift_decision \<Rightarrow> string" where
  "drift_decision_value DD_RECOMPILE = ''recompile''"
| "drift_decision_value DD_REPLAN = ''replan''"
| "drift_decision_value DD_REAUTHORIZE = ''reauthorize''"
| "drift_decision_value DD_RECONCILE = ''reconcile''"
| "drift_decision_value DD_MANUAL_REVIEW = ''manual-review''"
| "drift_decision_value DD_DENY = ''deny''"

section \<open>Parts of a plan\<close>

record stale_dimension =
  sm_dimension :: string
  sm_checkpoint_value :: string
  sm_current_value :: string
  sm_decision :: drift_decision
  sm_reason_code :: string

definition check_stale_dimension :: "stale_dimension \<Rightarrow> stale_dimension res" where
  "check_stale_dimension d =
     (if blank (sm_dimension d) then Inl (ValidationFailed ''Stale dimension bos olamaz'')
      else if blank (sm_reason_code d) then Inl (ValidationFailed ''Stale dimension reason code bos olamaz'')
      else Inr d)"

definition stale_dimension_body :: "stale_dimension \<Rightarrow> pyval" where
  "stale_dimension_body d = PDict
     [(PStr ''dimension'', PStr (sm_dimension d)), (PStr ''checkpoint'', PStr (sm_checkpoint_value d)),
      (PStr ''current'', PStr (sm_current_value d)), (PStr ''decision'', PStr (drift_decision_value (sm_decision d))),
      (PStr ''reason_code'', PStr (sm_reason_code d))]"

record reconciliation_action =
  rcn_claim_id :: uuid
  rcn_effect_digest :: string
  rcn_reason_code :: string

definition check_reconciliation :: "reconciliation_action \<Rightarrow> reconciliation_action res" where
  "check_reconciliation a = rbind (parse_digest (rcn_effect_digest a)) (\<lambda>_.
     if blank (rcn_reason_code a) then Inl (ValidationFailed ''Reconciliation reason code bos olamaz'') else Inr a)"

definition reconciliation_body :: "reconciliation_action \<Rightarrow> pyval" where
  "reconciliation_body a = PDict
     [(PStr ''claim_id'', PStr (rcn_claim_id a)), (PStr ''effect_digest'', PStr (rcn_effect_digest a)),
      (PStr ''reason_code'', PStr (rcn_reason_code a))]"

record resume_action =
  act_action_id :: string
  act_kind :: string
  act_depends_on :: "string list"
  act_resource :: "string option"

definition check_resume_action :: "resume_action \<Rightarrow> resume_action res" where
  "check_resume_action a =
     (if blank (act_action_id a) \<or> blank (act_kind a) then Inl (ValidationFailed ''Resume action kimlik ve tur ister'')
      else if \<not> distinct (act_depends_on a) then Inl (ValidationFailed ''Resume action dependency tekil olmali'')
      else Inr a)"

definition resume_action_body :: "resume_action \<Rightarrow> pyval" where
  "resume_action_body a = PDict
     [(PStr ''action_id'', PStr (act_action_id a)), (PStr ''kind'', PStr (act_kind a)),
      (PStr ''depends_on'', PList (map PStr (act_depends_on a))), (PStr ''resource'', opt_text (act_resource a))]"

record runtime_observation =
  ro_run_id :: uuid
  ro_job_id :: uuid
  ro_attempt_id :: "uuid option"
  ro_assignment_id :: uuid
  ro_envelope_id :: uuid
  ro_envelope_digest :: string
  ro_observed_lease_id :: "uuid option"
  ro_observed_fencing_token :: "int option"
  ro_job_state :: string
  ro_lease_expires_at :: "pydatetime option"
  ro_deadline :: pydatetime

definition check_runtime_observation :: "runtime_observation \<Rightarrow> runtime_observation res" where
  "check_runtime_observation r = rbind (parse_digest (ro_envelope_digest r)) (\<lambda>_.
     if (ro_attempt_id r = None \<or> ro_observed_lease_id r = None \<or> ro_observed_fencing_token r = None)
       \<and> (ro_attempt_id r \<noteq> None \<or> ro_observed_lease_id r \<noteq> None \<or> ro_observed_fencing_token r \<noteq> None)
     then Inl (ValidationFailed ''Runtime lease observation exact veya tamamen bos olmali'')
     else if (case ro_observed_fencing_token r of None \<Rightarrow> False | Some n \<Rightarrow> n < 1)
     then Inl (ValidationFailed ''Runtime observation fencing token pozitif olmali'')
     else if \<not> is_aware (ro_deadline r) \<or> (case ro_lease_expires_at r of None \<Rightarrow> False | Some t \<Rightarrow> \<not> is_aware t)
     then Inl (ValidationFailed ''Runtime observation zamanlari timezone-aware olmali'')
     else Inr r)"

definition opt_number :: "int option \<Rightarrow> pyval" where
  "opt_number v = (case v of None \<Rightarrow> PNone | Some n \<Rightarrow> PInt n)"

definition runtime_entries :: "runtime_observation \<Rightarrow> (pyval \<times> pyval) list" where
  "runtime_entries r =
     [(PStr ''run_id'', PStr (ro_run_id r)), (PStr ''job_id'', PStr (ro_job_id r)), (PStr ''attempt_id'', opt_text (ro_attempt_id r)),
      (PStr ''assignment_id'', PStr (ro_assignment_id r)), (PStr ''execution_envelope_id'', PStr (ro_envelope_id r)),
      (PStr ''execution_envelope_digest'', PStr (ro_envelope_digest r)),
      (PStr ''observed_lease_id'', opt_text (ro_observed_lease_id r)),
      (PStr ''observed_fencing_token'', opt_number (ro_observed_fencing_token r)), (PStr ''job_state'', PStr (ro_job_state r)),
      (PStr ''lease_expires_at'', (case ro_lease_expires_at r of None \<Rightarrow> PNone | Some t \<Rightarrow> PDatetime t)),
      (PStr ''deadline'', PDatetime (ro_deadline r))]"

definition snapshot_digest :: "runtime_observation \<Rightarrow> string res" where
  "snapshot_digest r = digest (PDict (runtime_entries r))"

section \<open>Observations\<close>

record resume_observation =
  ob_realm_id :: uuid
  ob_project_id :: uuid
  ob_work_item_id :: uuid
  ob_work_state :: string
  ob_checkpoint_id :: uuid
  ob_checkpoint_digest :: string
  ob_checkpoint_revision :: int
  ob_checkpoint_key :: string
  ob_plan_id :: uuid
  ob_plan_digest :: string
  ob_current_plan_id :: uuid
  ob_current_plan_digest :: string
  ob_checkpoint_bindings :: stale_bindings
  ob_current_bindings :: stale_bindings
  ob_pending_steps :: "string list"
  ob_next_step_id :: "string option"
  ob_open_effects :: "open_effect list"
  ob_checkpoint_integrity :: bool
  ob_resumability :: resumability
  ob_logical_read_resources :: "string list"
  ob_logical_write_resources :: "string list"
  ob_runtime :: runtime_observation
  ob_target_client_id :: string
  ob_required_route_role :: "string option"
  ob_context_recipe :: "string option"
  ob_observed_at :: pydatetime
  ob_valid_until :: pydatetime
  ob_sandbox :: sandbox_binding
  ob_legacy_limited :: bool

definition check_observation :: "resume_observation \<Rightarrow> resume_observation res" where
  "check_observation b = rbind (parse_all [ob_checkpoint_digest b, ob_plan_digest b, ob_current_plan_digest b]) (\<lambda>_.
     if ob_checkpoint_revision b < 1 then Inl (ValidationFailed ''Checkpoint revision pozitif olmali'')
     else if \<not> is_aware (ob_observed_at b) \<or> \<not> is_aware (ob_valid_until b)
     then Inl (ValidationFailed ''Resume observation zamanlari timezone-aware olmali'')
     else if blank (ob_target_client_id b) then Inl (ValidationFailed ''Resume target client kimligi ister'')
     else case ob_next_step_id b of
       None \<Rightarrow> Inr b
     | Some step \<Rightarrow> if step \<notin> set (ob_pending_steps b)
         then Inl (ValidationFailed ''Resume next step pending partition icinde olmali'') else Inr b)"

section \<open>Plans\<close>

record resume_plan =
  rl_realm_id :: uuid
  rl_project_id :: uuid
  rl_work_item_id :: uuid
  rl_checkpoint_id :: uuid
  rl_checkpoint_digest :: string
  rl_checkpoint_revision :: int
  rl_selected_checkpoint_reason :: string
  rl_disposition :: resume_disposition
  rl_stale_dimensions :: "stale_dimension list"
  rl_reconciliation_actions :: "reconciliation_action list"
  rl_reacquire_resources :: "string list"
  rl_logical_read_resources :: "string list"
  rl_logical_write_resources :: "string list"
  rl_runtime :: runtime_observation
  rl_target_client_id :: string
  rl_next_step_id :: "string option"
  rl_context_recipe :: "string option"
  rl_required_route_role :: "string option"
  rl_actions :: "resume_action list"
  rl_blockers :: "string list"
  rl_observed_at :: pydatetime
  rl_valid_until :: pydatetime
  rl_sandbox :: sandbox_binding
  rl_grants_authority :: bool
  rl_carries_active_lease :: bool
  rl_approval_inherited :: bool

text \<open>The loop over the actions with the set \<^verbatim>\<open>known\<close>.\<close>

fun check_action_order :: "string set \<Rightarrow> resume_action list \<Rightarrow> unit res" where
  "check_action_order known [] = Inr ()"
| "check_action_order known (a # as) =
     (if \<not> set (act_depends_on a) \<subseteq> known
      then Inl (ValidationFailed ''Resume action DAG ileri veya bilinmeyen bag tasiyamaz'')
      else check_action_order (insert (act_action_id a) known) as)"

definition check_resume_plan :: "resume_plan \<Rightarrow> resume_plan res" where
  "check_resume_plan p =
     (if rl_grants_authority p \<or> rl_carries_active_lease p \<or> rl_approval_inherited p
      then Inl (PolicyViolation ''Resume plan authority, active lease veya approval tasiyamaz'')
      else rbind (parse_digest (rl_checkpoint_digest p)) (\<lambda>_.
      if \<not> is_aware (rl_observed_at p) \<or> \<not> is_aware (rl_valid_until p)
      then Inl (ValidationFailed ''Resume plan zamanlari timezone-aware olmali'')
      else if blank (rl_target_client_id p) then Inl (ValidationFailed ''Resume plan target client ister'')
      else rbind (check_runtime_observation (rl_runtime p)) (\<lambda>_.
      rbind (check_sandbox_binding (rl_sandbox p)) (\<lambda>_.
      rbind (rmap check_stale_dimension (rl_stale_dimensions p)) (\<lambda>_.
      rbind (rmap check_reconciliation (rl_reconciliation_actions p)) (\<lambda>_.
      rbind (rmap check_resume_action (rl_actions p)) (\<lambda>_.
      if \<not> distinct (map act_action_id (rl_actions p))
      then Inl (ValidationFailed ''Resume action kimlikleri tekil olmali'')
      else rbind (check_action_order {} (rl_actions p)) (\<lambda>_. Inr p))))))))"

definition resume_plan_body :: "resume_plan \<Rightarrow> pyval res" where
  "resume_plan_body p = rbind (snapshot_digest (rl_runtime p)) (\<lambda>snapshot. Inr (PDict
     [(PStr ''schema'', PStr ''zekam-resume-plan/v1''), (PStr ''realm_id'', PStr (rl_realm_id p)),
      (PStr ''project_id'', PStr (rl_project_id p)), (PStr ''work_item_id'', PStr (rl_work_item_id p)),
      (PStr ''selected_checkpoint'', PDict
        [(PStr ''checkpoint_id'', PStr (rl_checkpoint_id p)), (PStr ''checkpoint_digest'', PStr (rl_checkpoint_digest p)),
         (PStr ''revision'', PInt (rl_checkpoint_revision p)), (PStr ''reason'', PStr (rl_selected_checkpoint_reason p))]),
      (PStr ''disposition'', PStr (resume_disposition_value (rl_disposition p))),
      (PStr ''stale_dimensions'', PList (map stale_dimension_body (rl_stale_dimensions p))),
      (PStr ''reconciliation_actions'', PList (map reconciliation_body (rl_reconciliation_actions p))),
      (PStr ''reacquire_resources'', PList (map PStr (rl_reacquire_resources p))),
      (PStr ''logical_resources'', PDict
        [(PStr ''read'', PList (map PStr (rl_logical_read_resources p))),
         (PStr ''write'', PList (map PStr (rl_logical_write_resources p)))]),
      (PStr ''sandbox'', sandbox_binding_body (rl_sandbox p)),
      (PStr ''runtime'', PDict (runtime_entries (rl_runtime p) @ [(PStr ''snapshot_digest'', PStr snapshot)])),
      (PStr ''target_client_id'', PStr (rl_target_client_id p)), (PStr ''next_step_id'', opt_text (rl_next_step_id p)),
      (PStr ''context_recipe'', opt_text (rl_context_recipe p)),
      (PStr ''required_route_role'', opt_text (rl_required_route_role p)),
      (PStr ''actions'', PList (map resume_action_body (rl_actions p))),
      (PStr ''blockers'', PList (map PStr (rl_blockers p))), (PStr ''observed_at'', PDatetime (rl_observed_at p)),
      (PStr ''valid_until'', PDatetime (rl_valid_until p)), (PStr ''grants_authority'', PBool False),
      (PStr ''carries_active_lease'', PBool False), (PStr ''approval_inherited'', PBool False), (PStr ''dry_run'', PBool True)]))"

definition resume_plan_digest :: "resume_plan \<Rightarrow> string res" where
  "resume_plan_digest p = rbind (resume_plan_body p) digest"

section \<open>The coordinator\<close>

text \<open>\<^verbatim>\<open>getattr(bindings, field)\<close> for the fields of the rules.\<close>

definition BINDING_RULES :: "(string \<times> (stale_bindings \<Rightarrow> string) \<times> drift_decision) list" where
  "BINDING_RULES =
     [(''source_revision'', sd_source_revision, DD_REPLAN), (''policy_digest'', sd_policy_digest, DD_REAUTHORIZE),
      (''capability_profile_digest'', sd_capability_profile_digest, DD_RECOMPILE),
      (''dependency_snapshot_digest'', sd_dependency_snapshot_digest, DD_REPLAN),
      (''migration_head_digest'', sd_migration_head_digest, DD_MANUAL_REVIEW),
      (''model_route_decision_digest'', sd_model_route_decision_digest, DD_RECOMPILE),
      (''context_manifest_digest'', sd_context_manifest_digest, DD_RECOMPILE),
      (''context_packet_digest'', sd_context_packet_digest, DD_RECOMPILE), (''architecture_digest'', sd_architecture_digest, DD_REPLAN),
      (''rules_digest'', sd_rules_digest, DD_REPLAN), (''test_suite_digest'', sd_test_suite_digest, DD_REPLAN),
      (''model_inventory_digest'', sd_model_inventory_digest, DD_RECOMPILE), (''journal_head_digest'', sd_journal_head_digest, DD_REPLAN)]"

definition binding_drift :: "resume_observation \<Rightarrow> string \<times> (stale_bindings \<Rightarrow> string) \<times> drift_decision \<Rightarrow> stale_dimension list" where
  "binding_drift b = (\<lambda>(field, get, decision).
     if get (ob_checkpoint_bindings b) \<noteq> get (ob_current_bindings b)
     then [\<lparr>sm_dimension = field, sm_checkpoint_value = get (ob_checkpoint_bindings b),
            sm_current_value = get (ob_current_bindings b), sm_decision = decision,
            sm_reason_code = ''resume.'' @ map (\<lambda>c. if c = CHR ''_'' then CHR ''-'' else c) field @ ''-drift''\<rparr>]
     else [])"

definition plan_drift :: "resume_observation \<Rightarrow> stale_dimension list" where
  "plan_drift b =
     (if ob_plan_id b \<noteq> ob_current_plan_id b \<or> ob_plan_digest b \<noteq> ob_current_plan_digest b
      then [\<lparr>sm_dimension = ''task_plan'', sm_checkpoint_value = ob_plan_digest b, sm_current_value = ob_current_plan_digest b,
             sm_decision = DD_REPLAN, sm_reason_code = ''resume.plan-drift''\<rparr>]
      else [])"

definition stale_dimensions :: "resume_observation \<Rightarrow> stale_dimension list res" where
  "stale_dimensions b =
     rbind (rmap check_stale_dimension (plan_drift b @ concat (map (binding_drift b) BINDING_RULES))) (\<lambda>stale.
       Inr (sort_key sm_dimension stale))"

definition disposition_of :: "resume_observation \<Rightarrow> stale_dimension list \<Rightarrow> resume_disposition \<times> string list" where
  "disposition_of b stale =
     (let decisions = set (map sm_decision stale); r = ob_runtime b in
      if ob_legacy_limited b then (RD_MANUAL_REVIEW, [''resume.legacy-checkpoint-limited''])
      else if \<not> ob_checkpoint_integrity b then (RD_MANUAL_REVIEW, [''resume.checkpoint-integrity-failed''])
      else if datetime_le (ro_deadline r) (ob_observed_at b) then (RD_MANUAL_REVIEW, [''resume.budget-exhausted''])
      else if datetime_le (ob_valid_until b) (ob_observed_at b) then (RD_WAITING, [''resume.plan-validity-expired''])
      else if ob_work_state b \<in> {''cancelled'', ''archived''} then (RD_DENIED, [''resume.work-not-active''])
      else if ob_open_effects b \<noteq> [] then (RD_RECOVERY_REQUIRED, [''resume.unresolved-effect''])
      else if ro_job_state r = ''recovery-required'' then (RD_RECOVERY_REQUIRED, [''resume.target-job-recovery-required''])
      else if ro_job_state r = ''running''
        \<and> (case ro_lease_expires_at r of None \<Rightarrow> False | Some t \<Rightarrow> \<not> datetime_le t (ob_observed_at b))
      then (RD_WAITING, [''resume.target-job-active-lease''])
      else if ro_job_state r \<notin> {''ready'', ''running''} then (RD_MANUAL_REVIEW, [''resume.target-job-not-runnable''])
      else if ob_resumability b = MANUAL_REVIEW then (RD_MANUAL_REVIEW, [''resume.checkpoint-manual-review''])
      else if ob_resumability b = RESUME_BLOCKED then (RD_WAITING, [''resume.checkpoint-blocked''])
      else if ob_work_state b = ''completed'' then
        (if ob_pending_steps b \<noteq> [] then (RD_MANUAL_REVIEW, [''resume.completed-partition-drift'']) else (RD_ALREADY_COMPLETED, []))
      else if DD_MANUAL_REVIEW \<in> decisions then (RD_MANUAL_REVIEW, [''resume.high-risk-drift''])
      else if DD_DENY \<in> decisions then (RD_DENIED, [''resume.policy-denied''])
      else if DD_REPLAN \<in> decisions then (RD_SAFE_REPLAN, [''resume.replan-required''])
      else if decisions \<noteq> {} then (RD_SAFE_RECOMPILE, [''resume.recompile-required''])
      else if ob_pending_steps b = [] then (RD_MANUAL_REVIEW, [''resume.nonterminal-empty-partition''])
      else (RD_SAFE_CONTINUE, []))"

text \<open>The loop over the reconciliations, with the running index and the action before.\<close>

fun reconcile_actions :: "nat \<Rightarrow> string list \<Rightarrow> reconciliation_action list \<Rightarrow> resume_action list" where
  "reconcile_actions index prior [] = []"
| "reconcile_actions index prior (item # rest) =
     (let action_id = ''reconcile-'' @ pad_nat 3 index in
      \<lparr>act_action_id = action_id, act_kind = ''reconcile-effect'', act_depends_on = prior,
       act_resource = Some (''claim:'' @ rcn_claim_id item)\<rparr> # reconcile_actions (Suc index) [action_id] rest)"

definition resume_actions :: "resume_observation \<Rightarrow> resume_disposition \<Rightarrow> reconciliation_action list \<Rightarrow> resume_action list" where
  "resume_actions b disposition reconciliation =
     (if reconciliation \<noteq> [] \<and> disposition \<noteq> RD_RECOVERY_REQUIRED then []
      else if reconciliation \<noteq> [] then reconcile_actions 1 [] reconciliation
      else
        let refresh = (if disposition \<in> {RD_SAFE_RECOMPILE, RD_SAFE_REPLAN}
              then [\<lparr>act_action_id = ''refresh-001'', act_kind = (if disposition = RD_SAFE_REPLAN then ''replan'' else ''recompile-context''),
                act_depends_on = [], act_resource = None\<rparr>] else []) in
        if disposition = RD_SAFE_REPLAN then refresh
        else if disposition \<in> {RD_SAFE_CONTINUE, RD_SAFE_RECOMPILE, RD_SAFE_REPLAN} \<and> ob_next_step_id b \<noteq> None
        then refresh @
          [\<lparr>act_action_id = ''reacquire-001'', act_kind = ''reacquire'', act_depends_on = map act_action_id refresh, act_resource = None\<rparr>,
           \<lparr>act_action_id = ''dispatch-001'', act_kind = ''dispatch-next-step'', act_depends_on = [''reacquire-001''],
            act_resource = Some (''step:'' @ the (ob_next_step_id b))\<rparr>]
        else refresh)"

definition reconciliations :: "resume_observation \<Rightarrow> reconciliation_action list res" where
  "reconciliations b =
     (if ob_checkpoint_integrity b \<and> \<not> ob_legacy_limited b
      then rmap (\<lambda>e. check_reconciliation \<lparr>rcn_claim_id = oe_claim_id e, rcn_effect_digest = oe_effect_digest e,
        rcn_reason_code = (if oe_state e = OE_FAILED_RECONCILIATION then ''resume.failed-effect-reconciliation''
          else ''resume.receiptless-or-ambiguous-effect'')\<rparr>) (sort_key oe_claim_id (ob_open_effects b))
      else Inr [])"

definition reacquired :: "resume_observation \<Rightarrow> resume_disposition \<Rightarrow> string list" where
  "reacquired b disposition =
     (if disposition \<in> {RD_SAFE_CONTINUE, RD_SAFE_RECOMPILE, RD_SAFE_REPLAN}
      then sort (remdups (''authorization'' # ''lease'' # map (\<lambda>v. ''resource-lock:'' @ v) (ob_logical_write_resources b)))
      else [])"

text \<open>\<^verbatim>\<open>prepare\<close>, from the observation that the read model returns and the realm of that model.\<close>

definition resume_prepare :: "uuid \<Rightarrow> resume_observation \<Rightarrow> resume_plan res" where
  "resume_prepare realm b =
     (if ob_realm_id b \<noteq> realm then Inl (PolicyViolation ''resume.cross-realm-binding'')
      else rbind (stale_dimensions b) (\<lambda>stale.
      case disposition_of b stale of (disposition, blockers) \<Rightarrow>
      rbind (reconciliations b) (\<lambda>reconciliation.
      rbind (rmap check_resume_action (resume_actions b disposition reconciliation)) (\<lambda>actions.
      check_resume_plan
        \<lparr>rl_realm_id = ob_realm_id b, rl_project_id = ob_project_id b, rl_work_item_id = ob_work_item_id b,
         rl_checkpoint_id = ob_checkpoint_id b, rl_checkpoint_digest = ob_checkpoint_digest b,
         rl_checkpoint_revision = ob_checkpoint_revision b,
         rl_selected_checkpoint_reason = (if ob_checkpoint_integrity b then ''latest-valid-v2-for-current-work'' else ''ambiguous-or-invalid-v2-head''),
         rl_disposition = disposition, rl_stale_dimensions = stale, rl_reconciliation_actions = reconciliation,
         rl_reacquire_resources = reacquired b disposition, rl_logical_read_resources = ob_logical_read_resources b,
         rl_logical_write_resources = ob_logical_write_resources b, rl_runtime = ob_runtime b,
         rl_target_client_id = ob_target_client_id b,
         rl_next_step_id = (if disposition \<in> {RD_SAFE_CONTINUE, RD_SAFE_RECOMPILE, RD_RECOVERY_REQUIRED} then ob_next_step_id b else None),
         rl_context_recipe = ob_context_recipe b, rl_required_route_role = ob_required_route_role b, rl_actions = actions,
         rl_blockers = blockers, rl_observed_at = ob_observed_at b, rl_valid_until = ob_valid_until b,
         rl_sandbox = ob_sandbox b, rl_grants_authority = False, rl_carries_active_lease = False, rl_approval_inherited = False\<rparr>))))"

section \<open>When work continues\<close>

lemma check_stale_dimension_Inr: "check_stale_dimension d = Inr e \<Longrightarrow> e = d"
  by (auto simp: check_stale_dimension_def split: if_splits)

lemma rmap_check_same:
  assumes "\<And>x y. f x = Inr y \<Longrightarrow> y = x"
  shows "rmap f xs = Inr ys \<Longrightarrow> ys = xs"
  using assms by (induction xs arbitrary: ys) (auto simp: rbind_Inr_iff)

lemma stale_dimensions_Inr:
  "stale_dimensions b = Inr stale \<Longrightarrow> stale = sort_key sm_dimension (plan_drift b @ concat (map (binding_drift b) BINDING_RULES))"
  by (auto simp: stale_dimensions_def rbind_Inr_iff dest!: rmap_check_same [OF check_stale_dimension_Inr, rotated])

text \<open>The bindings agree, the identity of the routing snapshot aside.\<close>

definition same_bindings :: "stale_bindings \<Rightarrow> stale_bindings \<Rightarrow> bool" where
  "same_bindings a c = (c\<lparr>sd_routing_context_snapshot_id := sd_routing_context_snapshot_id a\<rparr> = a)"

lemma no_binding_drift:
  "concat (map (binding_drift b) BINDING_RULES) = [] \<longleftrightarrow> same_bindings (ob_checkpoint_bindings b) (ob_current_bindings b)"
  by (cases "ob_checkpoint_bindings b"; cases "ob_current_bindings b")
    (auto simp: BINDING_RULES_def binding_drift_def same_bindings_def)

lemma stale_empty:
  assumes "stale_dimensions b = Inr stale"
  shows "stale = [] \<longleftrightarrow> ob_plan_id b = ob_current_plan_id b \<and> ob_plan_digest b = ob_current_plan_digest b
    \<and> same_bindings (ob_checkpoint_bindings b) (ob_current_bindings b)"
proof -
  have "stale = [] \<longleftrightarrow> plan_drift b = [] \<and> concat (map (binding_drift b) BINDING_RULES) = []"
    unfolding stale_dimensions_Inr [OF assms] by (metis append_is_Nil_conv set_empty set_sort)
  then show ?thesis unfolding no_binding_drift by (auto simp: plan_drift_def)
qed

lemma check_resume_plan_Inr: "check_resume_plan p = Inr q \<Longrightarrow> q = p"
  by (auto simp: check_resume_plan_def rbind_Inr_iff split: if_splits)

definition planned :: "resume_observation \<Rightarrow> stale_dimension list \<Rightarrow> reconciliation_action list \<Rightarrow> resume_plan" where
  "planned b stale reconciliation = (case disposition_of b stale of (disposition, blockers) \<Rightarrow>
        \<lparr>rl_realm_id = ob_realm_id b, rl_project_id = ob_project_id b, rl_work_item_id = ob_work_item_id b,
         rl_checkpoint_id = ob_checkpoint_id b, rl_checkpoint_digest = ob_checkpoint_digest b,
         rl_checkpoint_revision = ob_checkpoint_revision b,
         rl_selected_checkpoint_reason = (if ob_checkpoint_integrity b then ''latest-valid-v2-for-current-work'' else ''ambiguous-or-invalid-v2-head''),
         rl_disposition = disposition, rl_stale_dimensions = stale, rl_reconciliation_actions = reconciliation,
         rl_reacquire_resources = reacquired b disposition, rl_logical_read_resources = ob_logical_read_resources b,
         rl_logical_write_resources = ob_logical_write_resources b, rl_runtime = ob_runtime b,
         rl_target_client_id = ob_target_client_id b,
         rl_next_step_id = (if disposition \<in> {RD_SAFE_CONTINUE, RD_SAFE_RECOMPILE, RD_RECOVERY_REQUIRED} then ob_next_step_id b else None),
         rl_context_recipe = ob_context_recipe b, rl_required_route_role = ob_required_route_role b,
         rl_actions = resume_actions b disposition reconciliation,
         rl_blockers = blockers, rl_observed_at = ob_observed_at b, rl_valid_until = ob_valid_until b,
         rl_sandbox = ob_sandbox b, rl_grants_authority = False, rl_carries_active_lease = False, rl_approval_inherited = False\<rparr>)"

lemma check_resume_action_Inr: "check_resume_action a = Inr e \<Longrightarrow> e = a"
  by (auto simp: check_resume_action_def split: if_splits)

lemma resume_prepare_planned:
  assumes "stale_dimensions b = Inr stale" "reconciliations b = Inr reconciliation"
    "rmap check_resume_action (resume_actions b (fst (disposition_of b stale)) reconciliation) = Inr actions"
  shows "resume_prepare (ob_realm_id b) b = check_resume_plan (planned b stale reconciliation)"
proof -
  have "actions = resume_actions b (fst (disposition_of b stale)) reconciliation"
    by (rule rmap_check_same [OF _ assms(3)]) (rule check_resume_action_Inr)
  moreover obtain d bl where "disposition_of b stale = (d, bl)" by fastforce
  ultimately show ?thesis using assms by (simp add: resume_prepare_def planned_def)
qed

lemma resume_prepare_Inr:
  assumes "resume_prepare realm b = Inr p"
  shows "\<exists>stale reconciliation. stale_dimensions b = Inr stale \<and> reconciliations b = Inr reconciliation
    \<and> p = planned b stale reconciliation \<and> ob_realm_id b = realm"
proof -
  have realm: "ob_realm_id b = realm" using assms by (simp add: resume_prepare_def split: if_splits)
  obtain stale where s: "stale_dimensions b = Inr stale"
    using assms realm by (cases "stale_dimensions b") (auto simp: resume_prepare_def)
  obtain rc where r: "reconciliations b = Inr rc"
    using assms realm s by (cases "reconciliations b") (auto simp: resume_prepare_def split: prod.splits)
  obtain as where a: "rmap check_resume_action (resume_actions b (fst (disposition_of b stale)) rc) = Inr as"
    using assms realm s r by (cases "rmap check_resume_action (resume_actions b (fst (disposition_of b stale)) rc)")
      (auto simp: resume_prepare_def split: prod.splits)
  have "check_resume_plan (planned b stale rc) = Inr p" using assms realm resume_prepare_planned [OF s r a] by simp
  with s r realm show ?thesis using check_resume_plan_Inr by blast
qed

lemma planned_disposition: "rl_disposition (planned b stale rc) = fst (disposition_of b stale)"
  by (simp add: planned_def split: prod.splits)

text \<open>C17. Work continues as it is exactly when nothing speaks against it: the checkpoint is whole and not of
  the old kind, its work is open, no effect of it is unresolved, the job can run and, if it is running, nobody holds a live
  lease of it, neither the deadline nor the plan has run out, the checkpoint asks for no review and is not
  blocked, the plan and every bound digest are what they were, and steps are pending. A checkpoint that
  asks for reconciliation is not among the reasons against it. Completed work is recognised as such only
  while its job is still ready or running.\<close>

theorem resume_continues_exactly:
  assumes "resume_prepare realm b = Inr p"
  shows "(rl_disposition p = RD_SAFE_CONTINUE \<longleftrightarrow>
      ob_checkpoint_integrity b \<and> \<not> ob_legacy_limited b \<and> ob_work_state b \<notin> {''cancelled'', ''archived'', ''completed''}
      \<and> ob_open_effects b = [] \<and> ro_job_state (ob_runtime b) \<in> {''ready'', ''running''}
      \<and> (ro_job_state (ob_runtime b) = ''running'' \<longrightarrow>
          (\<forall>t. ro_lease_expires_at (ob_runtime b) = Some t \<longrightarrow> datetime_le t (ob_observed_at b)))
      \<and> \<not> datetime_le (ro_deadline (ob_runtime b)) (ob_observed_at b) \<and> \<not> datetime_le (ob_valid_until b) (ob_observed_at b)
      \<and> ob_resumability b \<in> {SAFE_CONTINUE, RECONCILIATION_REQUIRED}
      \<and> ob_plan_id b = ob_current_plan_id b \<and> ob_plan_digest b = ob_current_plan_digest b
      \<and> same_bindings (ob_checkpoint_bindings b) (ob_current_bindings b) \<and> ob_pending_steps b \<noteq> [])
    \<and> (rl_disposition p = RD_ALREADY_COMPLETED \<longrightarrow> ro_job_state (ob_runtime b) \<in> {''ready'', ''running''})"
proof -
  from resume_prepare_Inr [OF assms] obtain stale where s: "stale_dimensions b = Inr stale"
    "rl_disposition p = fst (disposition_of b stale)" using planned_disposition by blast
  have r: "ob_resumability b \<in> {SAFE_CONTINUE, RECONCILIATION_REQUIRED} \<longleftrightarrow> ob_resumability b \<notin> {MANUAL_REVIEW, RESUME_BLOCKED}"
    by (cases "ob_resumability b") auto
  show ?thesis
    unfolding s(2) disposition_of_def Let_def r using stale_empty [OF s(1)]
    by (cases "ro_lease_expires_at (ob_runtime b)") auto
qed

section \<open>A plan is always made\<close>

lemma nat_str_hd: "0 < n \<Longrightarrow> hd (nat_str n) \<noteq> CHR ''0''"
proof (induction n rule: nat_str.induct)
  case (1 n)
  show ?case
  proof (cases "n < 10")
    case True
    then have "nat_str n = [digit_char n]" by (simp add: nat_str.simps [of n])
    moreover have "digit_char n \<noteq> digit_char 0" using 1(2) True digit_char_inj [of n 0] by auto
    moreover have "digit_char 0 = CHR ''0''" by code_simp
    ultimately show ?thesis by simp
  next
    case False
    then show ?thesis using 1 by (simp add: nat_str.simps [of n])
  qed
qed

lemma pad_nat_zeros: "0 < n \<Longrightarrow> dropWhile (\<lambda>c. c = CHR ''0'') (pad_nat w n) = nat_str n"
proof -
  assume "0 < n"
  then have "dropWhile (\<lambda>c. c = CHR ''0'') (nat_str n) = nat_str n" using nat_str_hd [of n] by (cases "nat_str n") simp_all
  then have "dropWhile (\<lambda>c. c = CHR ''0'') (replicate k (CHR ''0'') @ nat_str n) = nat_str n" for k by (induction k) simp_all
  then show ?thesis by (simp add: pad_nat_def)
qed

lemma pad_nat_inj: "pad_nat w m = pad_nat w n \<Longrightarrow> 0 < m \<Longrightarrow> 0 < n \<Longrightarrow> m = n"
  using pad_nat_zeros [of m w] pad_nat_zeros [of n w] nat_str_inj by metis

lemma reconcile_ids:
  "map act_action_id (reconcile_actions i prior rs) = map (\<lambda>k. ''reconcile-'' @ pad_nat 3 k) [i..<i + length rs]"
proof (induction rs arbitrary: i prior)
  case (Cons r rs)
  have "[i..<i + length (r # rs)] = i # [Suc i..<Suc i + length rs]" by (simp add: upt_conv_Cons del: upt_Suc)
  then show ?case using Cons by (simp add: Let_def del: upt_Suc)
qed simp

lemma reconcile_distinct: "1 \<le> i \<Longrightarrow> distinct (map act_action_id (reconcile_actions i prior rs))"
  unfolding reconcile_ids distinct_map by (auto simp: inj_on_def dest: pad_nat_inj)

lemma reconcile_ordered: "set prior \<subseteq> known \<Longrightarrow> check_action_order known (reconcile_actions i prior rs) = Inr ()"
  by (induction rs arbitrary: i prior known) (simp_all add: Let_def)

lemmas solid_texts = blank_nonspace is_space_def

lemma reconcile_checked:
  "distinct prior \<Longrightarrow> rmap check_resume_action (reconcile_actions i prior rs) = Inr (reconcile_actions i prior rs)"
  by (induction rs arbitrary: i prior) (simp_all add: Let_def check_resume_action_def solid_texts)

lemma resume_actions_ok:
  "rmap check_resume_action (resume_actions b d rc) = Inr (resume_actions b d rc)"
  "distinct (map act_action_id (resume_actions b d rc))" "check_action_order {} (resume_actions b d rc) = Inr ()"
proof -
  let ?r = "reconcile_actions 1 [] rc"
  have r: "rmap check_resume_action ?r = Inr ?r" "distinct (map act_action_id ?r)" "check_action_order {} ?r = Inr ()"
    by (simp_all add: reconcile_checked reconcile_distinct reconcile_ordered)
  show "rmap check_resume_action (resume_actions b d rc) = Inr (resume_actions b d rc)"
    using r(1) by (simp add: resume_actions_def Let_def check_resume_action_def solid_texts)
  show "distinct (map act_action_id (resume_actions b d rc))" using r(2) by (simp add: resume_actions_def Let_def)
  show "check_action_order {} (resume_actions b d rc) = Inr ()" using r(3) by (simp add: resume_actions_def Let_def)
qed

lemma stale_dimensions_ok: "\<exists>stale. stale_dimensions b = Inr stale \<and> rmap check_stale_dimension stale = Inr stale"
proof -
  have names: "\<forall>(field, get, decision) \<in> set BINDING_RULES. \<not> blank field"
    by (simp add: BINDING_RULES_def solid_texts)
  have "check_stale_dimension d = Inr d" if "d \<in> set (plan_drift b @ concat (map (binding_drift b) BINDING_RULES))" for d
    using that names by (auto simp: plan_drift_def binding_drift_def check_stale_dimension_def solid_texts split: if_splits)
  then have ok: "rmap check_stale_dimension ds = Inr ds" if "set ds \<subseteq> set (plan_drift b @ concat (map (binding_drift b) BINDING_RULES))" for ds
    using that by (induction ds) auto
  show ?thesis unfolding stale_dimensions_def using ok [OF order_refl] by (auto intro!: ok)
qed

lemma reconciliations_ok:
  assumes "list_all (\<lambda>e. is_ok (check_open_effect e)) (ob_open_effects b)"
  shows "\<exists>rc. reconciliations b = Inr rc \<and> rmap check_reconciliation rc = Inr rc \<and> (ob_open_effects b = [] \<longrightarrow> rc = [])
    \<and> (ob_checkpoint_integrity b \<and> \<not> ob_legacy_limited b \<and> ob_open_effects b \<noteq> [] \<longrightarrow> rc \<noteq> [])"
proof -
  let ?f = "\<lambda>e. \<lparr>rcn_claim_id = oe_claim_id e, rcn_effect_digest = oe_effect_digest e,
        rcn_reason_code = (if oe_state e = OE_FAILED_RECONCILIATION then ''resume.failed-effect-reconciliation''
          else ''resume.receiptless-or-ambiguous-effect'')\<rparr>"
  have one: "check_reconciliation (?f e) = Inr (?f e)" if "is_ok (check_open_effect e)" for e
    using that by (auto simp: check_reconciliation_def check_open_effect_def is_ok_iff rbind_Inr_iff solid_texts)
  have "rmap (\<lambda>e. check_reconciliation (?f e)) es = Inr (map ?f es)" "rmap check_reconciliation (map ?f es) = Inr (map ?f es)"
    if "set es \<subseteq> set (ob_open_effects b)" for es
    using that assms one by (induction es) (auto simp: list_all_iff)
  note two = this [of "sort_key oe_claim_id (ob_open_effects b)", simplified]
  have "sort_key oe_claim_id (ob_open_effects b) = [] \<longleftrightarrow> ob_open_effects b = []" by (metis set_empty set_sort)
  then show ?thesis using two by (auto simp: reconciliations_def)
qed

lemma safe_dispositions:
  "fst (disposition_of b stale) \<in> {RD_SAFE_CONTINUE, RD_SAFE_RECOMPILE} \<Longrightarrow> ob_open_effects b = [] \<and> ob_checkpoint_integrity b \<and> \<not> ob_legacy_limited b"
  by (auto simp: disposition_of_def Let_def split: if_splits)

lemma reconcile_kinds: "list_all (\<lambda>a. act_kind a = ''reconcile-effect'') (reconcile_actions i prior rs)"
  by (induction rs arbitrary: i prior) (simp_all add: Let_def)

lemma resume_dispatches:
  assumes "d \<in> {RD_SAFE_CONTINUE, RD_SAFE_RECOMPILE} \<Longrightarrow> rc = []"
  shows "list_ex (\<lambda>a. act_kind a = ''dispatch-next-step'') (resume_actions b d rc) \<longleftrightarrow>
    d \<in> {RD_SAFE_CONTINUE, RD_SAFE_RECOMPILE} \<and> ob_next_step_id b \<noteq> None"
proof (cases "rc = []")
  case True
  then show ?thesis by (cases d; cases "ob_next_step_id b") (simp_all add: resume_actions_def)
next
  case False
  then show ?thesis using assms reconcile_kinds [of 1 "[]" rc]
    by (auto simp: resume_actions_def list_ex_iff list_all_iff)
qed

lemma resume_plan_checked:
  assumes "check_observation b = Inr b" "check_runtime_observation (ob_runtime b) = Inr (ob_runtime b)"
    "check_sandbox_binding (ob_sandbox b) = Inr (ob_sandbox b)" "stale_dimensions b = Inr stale"
    "rmap check_stale_dimension stale = Inr stale" "reconciliations b = Inr rc" "rmap check_reconciliation rc = Inr rc"
  shows "check_resume_plan (planned b stale rc) = Inr (planned b stale rc)"
    "resume_prepare (ob_realm_id b) b = Inr (planned b stale rc)"
proof -
  obtain d bl where d: "disposition_of b stale = (d, bl)" by fastforce
  have "valid_digest (ob_checkpoint_digest b) \<and> is_aware (ob_observed_at b) \<and> is_aware (ob_valid_until b) \<and> \<not> blank (ob_target_client_id b)"
    using assms(1) by (auto simp: check_observation_def rbind_Inr_iff parse_all_Inr_iff split: if_splits)
  then show c: "check_resume_plan (planned b stale rc) = Inr (planned b stale rc)"
    using assms(2,3,5,7) resume_actions_ok [of b d rc]
    by (auto simp: check_resume_plan_def planned_def d is_ok_iff)
  show "resume_prepare (ob_realm_id b) b = Inr (planned b stale rc)"
    using c resume_prepare_planned [OF assms(4,6) resume_actions_ok(1)] by simp
qed

text \<open>C18. Every checked observation of the own realm gives a plan. The plan passes its own check, so its actions have
  distinct names and depend only on earlier ones; it dispatches the next step exactly when the work may
  continue or only has to recompile its context and a next step is known; and while effects of a whole
  checkpoint are unresolved it holds nothing but their reconciliation.\<close>

theorem resume_plan_always_made:
  assumes "check_observation b = Inr b" "check_runtime_observation (ob_runtime b) = Inr (ob_runtime b)"
    "check_sandbox_binding (ob_sandbox b) = Inr (ob_sandbox b)" "list_all (\<lambda>e. is_ok (check_open_effect e)) (ob_open_effects b)"
  shows "\<exists>p. resume_prepare (ob_realm_id b) b = Inr p \<and> check_resume_plan p = Inr p
    \<and> (list_ex (\<lambda>a. act_kind a = ''dispatch-next-step'') (rl_actions p) \<longleftrightarrow>
        rl_disposition p \<in> {RD_SAFE_CONTINUE, RD_SAFE_RECOMPILE} \<and> ob_next_step_id b \<noteq> None)
    \<and> (ob_open_effects b \<noteq> [] \<and> ob_checkpoint_integrity b \<and> \<not> ob_legacy_limited b \<longrightarrow>
        list_all (\<lambda>a. act_kind a = ''reconcile-effect'') (rl_actions p))"
proof -
  obtain stale where s: "stale_dimensions b = Inr stale" "rmap check_stale_dimension stale = Inr stale"
    using stale_dimensions_ok by blast
  obtain rc where r: "reconciliations b = Inr rc" "rmap check_reconciliation rc = Inr rc" "ob_open_effects b = [] \<longrightarrow> rc = []"
    "ob_checkpoint_integrity b \<and> \<not> ob_legacy_limited b \<and> ob_open_effects b \<noteq> [] \<longrightarrow> rc \<noteq> []"
    using reconciliations_ok [OF assms(4)] by blast
  obtain d bl where d: "disposition_of b stale = (d, bl)" by fastforce
  let ?p = "planned b stale rc"
  have f: "rl_actions ?p = resume_actions b d rc" "rl_disposition ?p = d" by (simp_all add: planned_def d)
  have "list_ex (\<lambda>a. act_kind a = ''dispatch-next-step'') (rl_actions ?p) \<longleftrightarrow>
        rl_disposition ?p \<in> {RD_SAFE_CONTINUE, RD_SAFE_RECOMPILE} \<and> ob_next_step_id b \<noteq> None"
    unfolding f using safe_dispositions [of b stale] r(3) d by (intro resume_dispatches) simp
  moreover have "list_all (\<lambda>a. act_kind a = ''reconcile-effect'') (rl_actions ?p)"
    if "ob_open_effects b \<noteq> [] \<and> ob_checkpoint_integrity b \<and> \<not> ob_legacy_limited b"
    unfolding f using r(4) that reconcile_kinds [of 1 "[]" rc] by (auto simp: resume_actions_def)
  ultimately show ?thesis using resume_plan_checked [OF assms(1-3) s r(1,2)] by auto
qed

end
