(* ===== verification/AgentDispatch.thy ===== *)
theory AgentDispatch
  imports Work GovernancePort
begin

text \<open>
  Assignments and invocations of agents (\<^verbatim>\<open>domain/agents.py\<close>, the dispatch request of \<^verbatim>\<open>domain/clients.py\<close>) and the
  service that dispatches a child (\<^verbatim>\<open>application/agent_dispatch.py\<close>). The store and the adapter are ports over
  an abstract state. The lemmas show that the adapter runs only after assignment and invocation are
  stored.
\<close>

section \<open>Assignments and invocations\<close>

datatype assignment_role = ROLE_COORDINATOR | ROLE_RESEARCHER | ROLE_BUILDER | ROLE_REVIEWER | ROLE_CRITIC | ROLE_SYNTHESIZER | ROLE_VERIFIER

fun assignment_role_value :: "assignment_role \<Rightarrow> string" where
  "assignment_role_value ROLE_COORDINATOR = ''coordinator''"
| "assignment_role_value ROLE_RESEARCHER = ''researcher''"
| "assignment_role_value ROLE_BUILDER = ''builder''"
| "assignment_role_value ROLE_REVIEWER = ''reviewer''"
| "assignment_role_value ROLE_CRITIC = ''critic''"
| "assignment_role_value ROLE_SYNTHESIZER = ''synthesizer''"
| "assignment_role_value ROLE_VERIFIER = ''verifier''"

datatype assignment_status = ASSIGN_READY | ASSIGN_ACTIVE | ASSIGN_COMPLETED | ASSIGN_FAILED | ASSIGN_BLOCKED | ASSIGN_CANCELLED
  | ASSIGN_RECOVERY_REQUIRED

fun assignment_status_value :: "assignment_status \<Rightarrow> string" where
  "assignment_status_value ASSIGN_READY = ''ready''"
| "assignment_status_value ASSIGN_ACTIVE = ''active''"
| "assignment_status_value ASSIGN_COMPLETED = ''completed''"
| "assignment_status_value ASSIGN_FAILED = ''failed''"
| "assignment_status_value ASSIGN_BLOCKED = ''blocked''"
| "assignment_status_value ASSIGN_CANCELLED = ''cancelled''"
| "assignment_status_value ASSIGN_RECOVERY_REQUIRED = ''recovery-required''"

definition TERMINAL_ASSIGNMENT_STATUSES :: "assignment_status list" where
  "TERMINAL_ASSIGNMENT_STATUSES = [ASSIGN_COMPLETED, ASSIGN_FAILED, ASSIGN_CANCELLED]"

record agent_assignment =
  ag_id :: uuid
  ag_realm_id :: uuid
  ag_project_id :: uuid
  ag_work_item_id :: uuid
  ag_role :: assignment_role
  ag_agent_ref :: string
  ag_instruction_digest :: string
  ag_context_manifest_digest :: string
  ag_assignment_digest :: string
  ag_status :: assignment_status
  ag_parent_assignment_id :: "uuid option"
  ag_plan_id :: "uuid option"
  ag_step_id :: "string option"
  ag_risk :: string
  ag_read_resources :: "string list"
  ag_write_resources :: "string list"
  ag_created_at :: pydatetime

definition check_assignment :: "agent_assignment \<Rightarrow> agent_assignment res" where
  "check_assignment a =
     (if blank (ag_agent_ref a) then Inl (ValidationFailed ''agent_ref bos olamaz'')
      else if ag_risk a \<notin> {''low'', ''medium'', ''high'', ''critical''} then Inl (ValidationFailed ''assignment risk gecersiz'')
      else rbind (parse_digest (ag_instruction_digest a)) (\<lambda>_.
        rbind (parse_digest (ag_context_manifest_digest a)) (\<lambda>_.
        rbind (parse_digest (ag_assignment_digest a)) (\<lambda>_.
        if ag_role a = ROLE_COORDINATOR \<and> ag_parent_assignment_id a \<noteq> None
        then Inl (PolicyViolation ''Koordinator child olamaz'') else Inr a))))"

definition is_child :: "agent_assignment \<Rightarrow> bool" where
  "is_child a = (ag_parent_assignment_id a \<noteq> None \<and> ag_role a \<noteq> ROLE_COORDINATOR)"

definition assignment_body :: "agent_assignment \<Rightarrow> pyval" where
  "assignment_body a = PDict
     [(PStr ''id'', PStr (ag_id a)), (PStr ''realm_id'', PStr (ag_realm_id a)), (PStr ''project_id'', PStr (ag_project_id a)),
      (PStr ''work_item_id'', PStr (ag_work_item_id a)), (PStr ''plan_id'', opt_text (ag_plan_id a)),
      (PStr ''step_id'', opt_text (ag_step_id a)), (PStr ''parent_assignment_id'', opt_text (ag_parent_assignment_id a)),
      (PStr ''role'', PStr (assignment_role_value (ag_role a))), (PStr ''agent_ref'', PStr (ag_agent_ref a)),
      (PStr ''risk'', PStr (ag_risk a)), (PStr ''instruction_digest'', PStr (ag_instruction_digest a)),
      (PStr ''context_manifest_digest'', PStr (ag_context_manifest_digest a)),
      (PStr ''read_resources'', PList (map PStr (sort (ag_read_resources a)))),
      (PStr ''write_resources'', PList (map PStr (sort (ag_write_resources a))))]"

definition assert_assignment_digest :: "agent_assignment \<Rightarrow> unit res" where
  "assert_assignment_digest a = rbind (digest (assignment_body a)) (\<lambda>d.
     if d \<noteq> ag_assignment_digest a then Inl (ValidationFailed ''Assignment supplied digest canonical identity ile uyusmuyor'') else Inr ())"

record agent_invocation =
  iv_id :: uuid
  iv_realm_id :: uuid
  iv_assignment_id :: uuid
  iv_client_id :: string
  iv_execution_identity :: string
  iv_invocation_digest :: string
  iv_created_at :: pydatetime

definition check_invocation :: "agent_invocation \<Rightarrow> agent_invocation res" where
  "check_invocation v =
     (if blank (iv_client_id v) \<or> blank (iv_execution_identity v) then Inl (ValidationFailed ''invocation kimligi bos olamaz'')
      else rbind (parse_digest (iv_invocation_digest v)) (\<lambda>_. Inr v))"

definition invocation_body :: "uuid \<Rightarrow> uuid \<Rightarrow> uuid \<Rightarrow> string \<Rightarrow> string \<Rightarrow> pyval" where
  "invocation_body i realm assignment client identity = PDict
     [(PStr ''id'', PStr i), (PStr ''realm_id'', PStr realm), (PStr ''assignment_id'', PStr assignment), (PStr ''client_id'', PStr client),
      (PStr ''execution_identity'', PStr identity)]"

definition assert_invocation_digest :: "agent_invocation \<Rightarrow> unit res" where
  "assert_invocation_digest v =
     rbind (digest (invocation_body (iv_id v) (iv_realm_id v) (iv_assignment_id v) (iv_client_id v) (iv_execution_identity v))) (\<lambda>d.
       if d \<noteq> iv_invocation_digest v then Inl (ValidationFailed ''Invocation supplied digest canonical identity ile uyusmuyor'') else Inr ())"

section \<open>Requests and results\<close>

datatype dispatch_outcome = DISPATCH_SUCCESS | DISPATCH_PARTIAL | DISPATCH_FAILED | DISPATCH_CANCELLED | DISPATCH_TIMED_OUT | DISPATCH_UNSUPPORTED

record dispatch_request =
  dq_assignment_id :: uuid
  dq_invocation_id :: uuid
  dq_client_id :: string
  dq_role :: string
  dq_instruction_digest :: string
  dq_context_manifest_digest :: string
  dq_timeout_seconds :: int
  dq_requires_structured_result :: bool

definition check_dispatch_request :: "dispatch_request \<Rightarrow> dispatch_request res" where
  "check_dispatch_request r =
     (if \<not> (1 \<le> dq_timeout_seconds r \<and> dq_timeout_seconds r \<le> 3600) then Inl (ValidationFailed ''timeout 1..3600 araliginda olmali'')
      else if blank (dq_client_id r) then Inl (ValidationFailed ''client_id bos olamaz'')
      else if blank (dq_role r) then Inl (ValidationFailed ''role bos olamaz'') else Inr r)"

definition dispatch_request_as_dict :: "dispatch_request \<Rightarrow> pyval" where
  "dispatch_request_as_dict r = PDict
     [(PStr ''assignment_id'', PStr (dq_assignment_id r)), (PStr ''invocation_id'', PStr (dq_invocation_id r)),
      (PStr ''client_id'', PStr (dq_client_id r)), (PStr ''role'', PStr (dq_role r)),
      (PStr ''instruction_digest'', PStr (dq_instruction_digest r)),
      (PStr ''context_manifest_digest'', PStr (dq_context_manifest_digest r)),
      (PStr ''timeout_seconds'', PInt (dq_timeout_seconds r)),
      (PStr ''requires_structured_result'', PBool (dq_requires_structured_result r))]"

text \<open>What the services read of a result: its outcome and its digest.\<close>

record dispatch_result =
  dp_outcome :: dispatch_outcome
  dp_result_digest :: string

definition is_success :: "dispatch_result \<Rightarrow> bool" where
  "is_success r = (dp_outcome r = DISPATCH_SUCCESS)"

definition dispatch_request_for :: "agent_assignment \<Rightarrow> agent_invocation \<Rightarrow> int \<Rightarrow> dispatch_request res" where
  "dispatch_request_for a v timeout = check_dispatch_request
     \<lparr>dq_assignment_id = ag_id a, dq_invocation_id = iv_id v, dq_client_id = iv_client_id v,
      dq_role = assignment_role_value (ag_role a), dq_instruction_digest = ag_instruction_digest a,
      dq_context_manifest_digest = ag_context_manifest_digest a, dq_timeout_seconds = timeout,
      dq_requires_structured_result = True\<rparr>"

section \<open>The service\<close>

text \<open>The adapter with the two facts of its descriptor that the service reads; the permit that is issued for the
  call is the pair of identifiers in the request.\<close>

record 's dispatch_ports =
  dx_create :: "agent_assignment \<Rightarrow> ('s, uuid) gov"
  dx_record_invocation :: "agent_invocation \<Rightarrow> ('s, uuid) gov"
  dx_store_result :: "uuid \<Rightarrow> uuid \<Rightarrow> string \<Rightarrow> ('s, unit) gov"
  dx_client_id :: string
  dx_capabilities :: "string list"
  dx_run :: "dispatch_request \<Rightarrow> ('s, dispatch_result) gov"

definition assert_supports :: "'s dispatch_ports \<Rightarrow> string \<Rightarrow> unit res" where
  "assert_supports P capability =
     (if capability \<notin> set [''chat'', ''code'', ''tool-use'', ''structured-result'', ''parallel-dispatch'', ''child-dispatch'',
        ''cancellation'', ''model-selection'', ''sandbox-write'', ''lifecycle-events-v2'']
      then Inl (ValidationFailed ''bilinmeyen yetenek sorgusu'')
      else if capability \<notin> set (dx_capabilities P)
      then Inl (PolicyViolation (''istemci '' @ capability @ '' yetenegini beyan etmiyor'')) else Inr ())"

definition dispatchable :: "'s dispatch_ports \<Rightarrow> agent_assignment \<Rightarrow> agent_invocation \<Rightarrow> unit res" where
  "dispatchable P a v =
     rbind (assert_assignment_digest a) (\<lambda>_. rbind (assert_invocation_digest v) (\<lambda>_.
     if \<not> is_child a then Inl (PolicyViolation ''Yalniz canonical child assignment dispatch edilebilir'')
     else if iv_assignment_id v \<noteq> ag_id a then Inl (PolicyViolation ''Invocation baska assignment'a bagli'')
     else if iv_client_id v \<noteq> dx_client_id P then Inl (PolicyViolation ''Invocation baska istemciye bagli'')
     else assert_supports P ''child-dispatch''))"

definition agent_dispatch :: "'s dispatch_ports \<Rightarrow> agent_assignment \<Rightarrow> agent_invocation \<Rightarrow> int \<Rightarrow> ('s, dispatch_result) gov" where
  "agent_dispatch P a v timeout =
     gbind (glift (dispatchable P a v)) (\<lambda>_.
     gbind (dx_create P a) (\<lambda>stored.
     if stored \<noteq> ag_id a then graise (PolicyViolation ''Idempotent assignment kimligi uyusmuyor'')
     else gbind (dx_record_invocation P v) (\<lambda>recorded.
     if recorded \<noteq> iv_id v then graise (PolicyViolation ''Idempotent invocation kimligi uyusmuyor'')
     else gbind (glift (dispatch_request_for a v timeout)) (\<lambda>request.
       gbind (dx_run P request) (\<lambda>result.
       gbind (dx_store_result P (ag_id a) (iv_id v) (dp_result_digest result)) (\<lambda>_. greturn result))))))"

section \<open>Stored before it runs\<close>

lemma agent_dispatch_Inr:
  assumes "agent_dispatch P a v timeout s = (t, Inr result)"
  shows "is_child a \<and> iv_assignment_id v = ag_id a \<and> iv_client_id v = dx_client_id P \<and> ''child-dispatch'' \<in> set (dx_capabilities P)
    \<and> digest (assignment_body a) = Inr (ag_assignment_digest a)
    \<and> (\<exists>s1 s2 s3 request. dx_create P a s = (s1, Inr (ag_id a)) \<and> dx_record_invocation P v s1 = (s2, Inr (iv_id v))
        \<and> dispatch_request_for a v timeout = Inr request \<and> dx_run P request s2 = (s3, Inr result)
        \<and> dx_store_result P (ag_id a) (iv_id v) (dp_result_digest result) s3 = (t, Inr ()))"
proof -
  have d: "dispatchable P a v = Inr ()" using assms by (auto simp: agent_dispatch_def gbind_Inr_iff)
  then have "is_child a \<and> iv_assignment_id v = ag_id a \<and> iv_client_id v = dx_client_id P \<and> ''child-dispatch'' \<in> set (dx_capabilities P)
      \<and> digest (assignment_body a) = Inr (ag_assignment_digest a)"
    by (auto simp: dispatchable_def assert_supports_def assert_assignment_digest_def rbind_Inr_iff split: if_splits)
  moreover have "\<exists>s1 s2 s3 request. dx_create P a s = (s1, Inr (ag_id a)) \<and> dx_record_invocation P v s1 = (s2, Inr (iv_id v))
        \<and> dispatch_request_for a v timeout = Inr request \<and> dx_run P request s2 = (s3, Inr result)
        \<and> dx_store_result P (ag_id a) (iv_id v) (dp_result_digest result) s3 = (t, Inr ())"
    using assms by (auto simp: agent_dispatch_def gbind_Inr_iff split: if_splits)
  ultimately show ?thesis by blast
qed

end
