(* ===== verification/ResumeApply.thy ===== *)
theory ResumeApply
  imports Resume AgentDispatch LoopService
begin

text \<open>
  Applying a resume plan (\<^verbatim>\<open>domain/resume_apply.py\<close> and \<^verbatim>\<open>application/resume_apply_service.py\<close>): one transaction
  revalidates the plan, consumes the authorization and claims the job and the effect; a second one
  records that the dispatch starts; then the agent runs, and a third one records how it ended. The
  repositories, the execution host, the guards and the adapter are ports over an abstract state. The
  lemmas show what a call leaves behind on every path.
\<close>

section \<open>Requests, events and results\<close>

datatype apply_phase = PHASE_CLAIM | PHASE_DISPATCH | PHASE_TERMINAL

fun apply_phase_value :: "apply_phase \<Rightarrow> string" where
  "apply_phase_value PHASE_CLAIM = ''claim''"
| "apply_phase_value PHASE_DISPATCH = ''dispatch''"
| "apply_phase_value PHASE_TERMINAL = ''terminal''"

datatype apply_state = APPLY_CLAIMED | APPLY_DISPATCHED | APPLY_COMPLETED | APPLY_RECOVERY_REQUIRED | APPLY_FAILED

fun apply_state_value :: "apply_state \<Rightarrow> string" where
  "apply_state_value APPLY_CLAIMED = ''claimed''"
| "apply_state_value APPLY_DISPATCHED = ''dispatched''"
| "apply_state_value APPLY_COMPLETED = ''completed''"
| "apply_state_value APPLY_RECOVERY_REQUIRED = ''recovery-required''"
| "apply_state_value APPLY_FAILED = ''failed''"

record apply_request =
  yq_plan :: resume_plan
  yq_supplied_plan_digest :: string
  yq_actor_id :: uuid
  yq_authorization_id :: uuid
  yq_worker_label :: string
  yq_capabilities :: "string list"
  yq_lease_seconds :: int

definition check_apply_request :: "apply_request \<Rightarrow> apply_request res" where
  "check_apply_request q =
     rbind (parse_digest (yq_supplied_plan_digest q)) (\<lambda>_.
     rbind (resume_plan_digest (yq_plan q)) (\<lambda>d.
     if yq_supplied_plan_digest q \<noteq> d then Inl (PolicyViolation ''Resume apply supplied plan digest eslesmiyor'')
     else if blank (yq_worker_label q) \<or> yq_capabilities q = [] then Inl (ValidationFailed ''Resume apply worker ve capability ister'')
     else if yq_lease_seconds q < 1 \<or> yq_lease_seconds q > 3600 then Inl (ValidationFailed ''Resume apply lease suresi 1..3600 olmali'')
     else Inr q))"

record apply_event =
  yv_apply_id :: uuid
  yv_sequence :: int
  yv_phase :: apply_phase
  yv_state :: apply_state
  yv_reason_code :: string
  yv_occurred_at :: pydatetime
  yv_attempt_id :: "uuid option"
  yv_lease_id :: "uuid option"
  yv_fencing_token :: "int option"
  yv_claim_id :: "uuid option"
  yv_receipt_id :: "uuid option"
  yv_result_digest :: "string option"
  yv_previous_digest :: "string option"

definition check_apply_event :: "apply_event \<Rightarrow> apply_event res" where
  "check_apply_event e =
     (if yv_sequence e < 1 \<or> blank (yv_reason_code e) then Inl (ValidationFailed ''Resume apply event sequence/reason gecersiz'')
      else if \<not> is_aware (yv_occurred_at e) then Inl (ValidationFailed ''Resume apply event timezone-aware olmali'')
      else if (yv_attempt_id e \<noteq> None \<or> yv_lease_id e \<noteq> None \<or> yv_fencing_token e \<noteq> None)
        \<and> (yv_attempt_id e = None \<or> yv_lease_id e = None \<or> yv_fencing_token e = None)
      then Inl (ValidationFailed ''Resume apply runtime identity exact olmali'')
      else if (case yv_fencing_token e of None \<Rightarrow> False | Some n \<Rightarrow> n < 1) then Inl (ValidationFailed ''Resume apply fence pozitif olmali'')
      else rbind (case yv_result_digest e of None \<Rightarrow> Inr '''' | Some d \<Rightarrow> parse_digest d) (\<lambda>_.
        rbind (case yv_previous_digest e of None \<Rightarrow> Inr '''' | Some d \<Rightarrow> parse_digest d) (\<lambda>_. Inr e)))"

definition apply_event_body :: "apply_event \<Rightarrow> pyval" where
  "apply_event_body e = PDict
     [(PStr ''schema'', PStr ''zekam-resume-apply-event/v1''), (PStr ''apply_id'', PStr (yv_apply_id e)),
      (PStr ''sequence'', PInt (yv_sequence e)), (PStr ''phase'', PStr (apply_phase_value (yv_phase e))),
      (PStr ''state'', PStr (apply_state_value (yv_state e))), (PStr ''reason_code'', PStr (yv_reason_code e)),
      (PStr ''attempt_id'', opt_text (yv_attempt_id e)), (PStr ''lease_id'', opt_text (yv_lease_id e)),
      (PStr ''fencing_token'', opt_number (yv_fencing_token e)), (PStr ''claim_id'', opt_text (yv_claim_id e)),
      (PStr ''receipt_id'', opt_text (yv_receipt_id e)), (PStr ''result_digest'', opt_text (yv_result_digest e)),
      (PStr ''previous_digest'', opt_text (yv_previous_digest e)), (PStr ''occurred_at'', PDatetime (yv_occurred_at e))]"

definition apply_event_digest :: "apply_event \<Rightarrow> string res" where
  "apply_event_digest e = digest (apply_event_body e)"

record apply_result =
  yr_apply_id :: uuid
  yr_state :: apply_state
  yr_plan_digest :: string
  yr_event_digest :: string
  yr_attempt_id :: "uuid option"
  yr_lease_id :: "uuid option"
  yr_fencing_token :: "int option"
  yr_claim_id :: "uuid option"
  yr_receipt_id :: "uuid option"
  yr_result_digest :: "string option"
  yr_reprepare_required :: bool

definition check_apply_result :: "apply_result \<Rightarrow> apply_result res" where
  "check_apply_result r = rbind (parse_digest (yr_plan_digest r)) (\<lambda>_. rbind (parse_digest (yr_event_digest r)) (\<lambda>_.
     rbind (case yr_result_digest r of None \<Rightarrow> Inr '''' | Some d \<Rightarrow> parse_digest d) (\<lambda>_. Inr r)))"

definition apply_result_as_dict :: "apply_result \<Rightarrow> pyval" where
  "apply_result_as_dict r = PDict
     [(PStr ''schema'', PStr ''zekam-resume-apply-result/v1''), (PStr ''apply_id'', PStr (yr_apply_id r)),
      (PStr ''state'', PStr (apply_state_value (yr_state r))), (PStr ''resume_plan_digest'', PStr (yr_plan_digest r)),
      (PStr ''event_digest'', PStr (yr_event_digest r)), (PStr ''attempt_id'', opt_text (yr_attempt_id r)),
      (PStr ''lease_id'', opt_text (yr_lease_id r)), (PStr ''fencing_token'', opt_number (yr_fencing_token r)),
      (PStr ''claim_id'', opt_text (yr_claim_id r)), (PStr ''receipt_id'', opt_text (yr_receipt_id r)),
      (PStr ''result_digest'', opt_text (yr_result_digest r)), (PStr ''reprepare_required'', PBool (yr_reprepare_required r)),
      (PStr ''grants_authority'', PBool False)]"

text \<open>\<^verbatim>\<open>_result\<close>\<close>

definition apply_result_of :: "string \<Rightarrow> apply_event \<Rightarrow> apply_result res" where
  "apply_result_of plan_text e = rbind (apply_event_digest e) (\<lambda>d. check_apply_result
     \<lparr>yr_apply_id = yv_apply_id e, yr_state = yv_state e, yr_plan_digest = plan_text, yr_event_digest = d,
      yr_attempt_id = yv_attempt_id e, yr_lease_id = yv_lease_id e, yr_fencing_token = yv_fencing_token e,
      yr_claim_id = yv_claim_id e, yr_receipt_id = yv_receipt_id e, yr_result_digest = yv_result_digest e,
      yr_reprepare_required = (yv_state e = APPLY_RECOVERY_REQUIRED)\<rparr>)"

section \<open>The ports\<close>

record claimed_job =
  qj_job_plan_id :: "uuid option"
  qj_attempt_id :: uuid
  qj_lease_id :: uuid
  qj_fencing_token :: int

datatype attempt_outcome = AO_SUCCEEDED | AO_FAILED | AO_ABANDONED | AO_RECOVERY_REQUIRED

text \<open>The ports of the service: the resume repository and its read model, the assignments, the job queue and the
  execution host, the guards, and the adapter. A guard that is not configured is \<open>None\<close>; its
  \<^verbatim>\<open>hold_checkpoint_binding\<close> is the call that makes the context manager and the \<^verbatim>\<open>with\<close> statement over it. Of the claim, the
  receipt and the cloned envelope only the identifiers are read.\<close>

record 's resume_ports =
  ax_lock_work :: "uuid \<Rightarrow> ('s, unit) gov"
  ax_find_exact :: "resume_plan \<Rightarrow> uuid \<Rightarrow> uuid \<Rightarrow> string \<Rightarrow> ('s, uuid option) gov"
  ax_latest_event :: "uuid \<Rightarrow> ('s, apply_event option) gov"
  ax_lease_is_live :: "apply_event \<Rightarrow> int \<Rightarrow> ('s, bool) gov"
  ax_recover_interrupted :: "apply_event \<Rightarrow> int \<Rightarrow> ('s, apply_event) gov"
  ax_read_snapshot :: "uuid \<Rightarrow> string \<Rightarrow> pydatetime \<Rightarrow> ('s, resume_observation) gov"
  ax_guard_assert :: "(sandbox_binding \<Rightarrow> ('s, unit) gov) option"
  ax_guard_hold :: "sandbox_binding \<Rightarrow> ('s, unit) gov"
  ax_guard_with :: "sandbox_binding \<Rightarrow> ('s, dispatch_result) gov \<Rightarrow> ('s, dispatch_result) gov"
  ax_environment :: "(uuid \<Rightarrow> int \<Rightarrow> ('s, unit) gov) option"
  ax_create :: "resume_plan \<Rightarrow> uuid \<Rightarrow> uuid \<Rightarrow> string \<Rightarrow> int \<Rightarrow> ('s, uuid \<times> bool) gov"
  ax_get_authorization :: "uuid \<Rightarrow> ('s, authorization) gov"
  ax_claim_exact :: "apply_request \<Rightarrow> uuid \<Rightarrow> string \<Rightarrow> int \<Rightarrow> ('s, claimed_job) gov"
  ax_get_assignment :: "uuid \<Rightarrow> ('s, agent_assignment) gov"
  ax_record_invocation :: "agent_invocation \<Rightarrow> ('s, uuid) gov"
  ax_clone_envelope :: "resume_plan \<Rightarrow> uuid \<Rightarrow> claimed_job \<Rightarrow> string \<Rightarrow> string \<Rightarrow> int \<Rightarrow> ('s, uuid) gov"
  ax_claim_effect :: "claimed_job \<Rightarrow> string \<Rightarrow> string \<Rightarrow> resource_request list \<Rightarrow> uuid \<Rightarrow> string \<Rightarrow> int \<Rightarrow> ('s, uuid) gov"
  ax_append_event :: "apply_event \<Rightarrow> ('s, unit) gov"
  ax_finish :: "claimed_job \<Rightarrow> attempt_outcome \<Rightarrow> failure_category option \<Rightarrow> string option \<Rightarrow> int \<Rightarrow> ('s, bool) gov"
  ax_record_success :: "uuid \<Rightarrow> string \<Rightarrow> int \<Rightarrow> ('s, uuid) gov"
  ax_record_failure :: "uuid \<Rightarrow> failure_category \<Rightarrow> string \<Rightarrow> int \<Rightarrow> ('s, uuid) gov"
  ax_store_result_checkpoint :: "resume_plan \<Rightarrow> uuid \<Rightarrow> claimed_job \<Rightarrow> uuid \<Rightarrow> string \<Rightarrow> int \<Rightarrow> ('s, unit) gov"
  ax_dispatch :: "'s dispatch_ports"

text \<open>\<^verbatim>\<open>with self.connection.transaction()\<close>: an error rolls back.\<close>

definition in_transaction :: "('s, 'a) gov \<Rightarrow> ('s, 'a) gov" where
  "in_transaction m s = (case m s of (_, Inl e) \<Rightarrow> (s, Inl e) | (t, Inr x) \<Rightarrow> (t, Inr x))"

section \<open>The first transaction\<close>

definition resume_effect :: "resume_plan \<Rightarrow> effect_request" where
  "resume_effect p = \<lparr>rq_action = ''resume.apply.next-step'', rq_effects = [EK_DATABASE_WRITE, EK_PROCESS_RUN],
     rq_resources = sort (remdups (rl_logical_read_resources p @ rl_logical_write_resources p)), rq_data_classifications = [],
     rq_provider_refs = [], rq_reversible = True, rq_destructive = False, rq_external = False,
     rq_capabilities = [''database.write'', ''process.run'']\<rparr>"

definition sandbox_applies :: "resume_plan \<Rightarrow> bool" where
  "sandbox_applies p = (sx_disposition (rl_sandbox p) \<noteq> SANDBOX_NOT_APPLICABLE)"

definition assert_sandbox :: "'s resume_ports \<Rightarrow> resume_plan \<Rightarrow> ('s, unit) gov" where
  "assert_sandbox P p =
     (if sandbox_applies p
      then (case ax_guard_assert P of None \<Rightarrow> graise (PolicyViolation ''Resume apply sandbox live binding guard ister'')
            | Some guard \<Rightarrow> guard (rl_sandbox p))
      else greturn ())"

definition replayed :: "'s resume_ports \<Rightarrow> string \<Rightarrow> uuid \<Rightarrow> int \<Rightarrow> ('s, apply_result) gov" where
  "replayed P plan_text i moment =
     gbind (ax_latest_event P i) (\<lambda>event.
     case event of
       None \<Rightarrow> graise (PolicyViolation ''Resume apply replay event kaniti eksik'')
     | Some replay \<Rightarrow>
         if yv_state replay \<in> {APPLY_CLAIMED, APPLY_DISPATCHED}
         then gbind (ax_lease_is_live P replay moment) (\<lambda>live.
           if live then glift (apply_result_of plan_text replay)
           else gbind (ax_recover_interrupted P replay moment) (\<lambda>e. glift (apply_result_of plan_text e)))
         else glift (apply_result_of plan_text replay))"

definition assignment_drift :: "resume_plan \<Rightarrow> claimed_job \<Rightarrow> agent_assignment \<Rightarrow> bool" where
  "assignment_drift p c a =
     (ag_project_id a \<noteq> rl_project_id p \<or> ag_work_item_id a \<noteq> rl_work_item_id p \<or> ag_plan_id a \<noteq> qj_job_plan_id c
      \<or> ag_step_id a \<noteq> rl_next_step_id p \<or> ag_status a \<notin> {ASSIGN_READY, ASSIGN_ACTIVE} \<or> \<not> is_child a)"

definition invocation_for ::
  "resume_plan \<Rightarrow> uuid \<Rightarrow> claimed_job \<Rightarrow> agent_assignment \<Rightarrow> uuid \<Rightarrow> int \<Rightarrow> agent_invocation res" where
  "invocation_for p apply_id c a i moment =
     (let identity = ''resume:'' @ apply_id @ '':'' @ qj_attempt_id c @ '':'' @ int_str (qj_fencing_token c) in
      rbind (digest (invocation_body i (rl_realm_id p) (ag_id a) (rl_target_client_id p) identity)) (\<lambda>d.
      check_invocation \<lparr>iv_id = i, iv_realm_id = rl_realm_id p, iv_assignment_id = ag_id a, iv_client_id = rl_target_client_id p,
        iv_execution_identity = identity, iv_invocation_digest = d, iv_created_at = Aware moment\<rparr>))"

text \<open>\<^verbatim>\<open>str(plan.next_step_id)\<close>\<close>

definition step_text :: "resume_plan \<Rightarrow> string" where
  "step_text p = (case rl_next_step_id p of None \<Rightarrow> ''None'' | Some t \<Rightarrow> t)"

record started_apply =
  sy_apply_id :: uuid
  sy_claimed :: claimed_job
  sy_assignment :: agent_assignment
  sy_invocation :: agent_invocation
  sy_envelope :: uuid
  sy_claim :: uuid
  sy_event :: apply_event

definition runtime_event ::
  "uuid \<Rightarrow> int \<Rightarrow> apply_phase \<Rightarrow> apply_state \<Rightarrow> string \<Rightarrow> pydatetime \<Rightarrow> claimed_job \<Rightarrow> uuid \<Rightarrow> uuid option \<Rightarrow> string option \<Rightarrow> string option
     \<Rightarrow> apply_event res" where
  "runtime_event apply_id n phase state reason at c claim rid outcome_text previous = check_apply_event
     \<lparr>yv_apply_id = apply_id, yv_sequence = n, yv_phase = phase, yv_state = state, yv_reason_code = reason, yv_occurred_at = at,
      yv_attempt_id = Some (qj_attempt_id c), yv_lease_id = Some (qj_lease_id c), yv_fencing_token = Some (qj_fencing_token c),
      yv_claim_id = Some claim, yv_receipt_id = rid, yv_result_digest = outcome_text, yv_previous_digest = previous\<rparr>"

definition start_apply ::
  "'s resume_ports \<Rightarrow> 's governance \<Rightarrow> apply_request \<Rightarrow> uuid \<Rightarrow> uuid \<Rightarrow> string \<Rightarrow> int \<Rightarrow> int \<Rightarrow> ('s, started_apply) gov" where
  "start_apply P gs q apply_id invocation_id ed timeout moment =
     (let p = yq_plan q in
      gbind (ax_get_authorization P (yq_authorization_id q)) (\<lambda>a.
      if au_actor_id a \<noteq> yq_actor_id q then graise (PolicyViolation ''Resume apply authorization actor drift'')
      else case au_plan_id a of
        None \<Rightarrow> graise (PolicyViolation ''Resume apply authorization exact task plan ister'')
      | Some plan_id \<Rightarrow>
        gbind (require_authorized gs (resume_effect p) (Some a) (yq_worker_label q) moment) (\<lambda>consumed.
        gbind (ax_claim_exact P q plan_id (step_text p) moment) (\<lambda>c.
        gbind (ax_get_assignment P (ro_assignment_id (rl_runtime p))) (\<lambda>assignment.
        if assignment_drift p c assignment then graise (PolicyViolation ''Resume apply assignment scope/state drift'')
        else gbind (assert_sandbox P p) (\<lambda>_.
        gbind (glift (invocation_for p apply_id c assignment invocation_id moment)) (\<lambda>invocation.
        gbind (ax_record_invocation P invocation) (\<lambda>_.
        gbind (glift (dispatch_request_for assignment invocation timeout)) (\<lambda>request.
        gbind (glift (digest (PDict (scope_body (au_scope consumed))))) (\<lambda>scope_text.
        gbind (glift (digest (dispatch_request_as_dict request))) (\<lambda>payload_text.
        gbind (ax_clone_envelope P p apply_id c scope_text payload_text moment) (\<lambda>envelope.
        gbind (glift (authorization_digest consumed)) (\<lambda>ad.
        gbind (glift (parse_requests (rl_logical_read_resources p) (rl_logical_write_resources p))) (\<lambda>resources.
        gbind (ax_claim_effect P c ed ad resources (au_id consumed) (''resume:'' @ apply_id @ '':dispatch'') moment) (\<lambda>claim.
        gbind (glift (runtime_event apply_id 1 PHASE_CLAIM APPLY_CLAIMED ''resume.exact-claim-created'' (Aware moment) c claim None None None)) (\<lambda>event.
        gbind (ax_append_event P event) (\<lambda>_.
        greturn \<lparr>sy_apply_id = apply_id, sy_claimed = c, sy_assignment = assignment, sy_invocation = invocation,
          sy_envelope = envelope, sy_claim = claim, sy_event = event\<rparr>)))))))))))))))))"

text \<open>The body of the first \<^verbatim>\<open>with\<close> block: a result that is returned from it, or what the rest needs.\<close>

definition claim_phase ::
  "'s resume_ports \<Rightarrow> 's governance \<Rightarrow> apply_request \<Rightarrow> string \<Rightarrow> string \<Rightarrow> uuid \<Rightarrow> int \<Rightarrow> int \<Rightarrow> ('s, apply_result + started_apply) gov" where
  "claim_phase P gs q plan_text ed invocation_id timeout moment =
     (let p = yq_plan q in
      gbind (ax_lock_work P (rl_work_item_id p)) (\<lambda>_.
      gbind (ax_find_exact P p (yq_actor_id q) (yq_authorization_id q) ed) (\<lambda>found.
      case found of
        Some i \<Rightarrow> gbind (replayed P plan_text i moment) (\<lambda>r. greturn (Inl r))
      | None \<Rightarrow>
        gbind (ax_read_snapshot P (rl_work_item_id p) (rl_target_client_id p) (rl_observed_at p)) (\<lambda>b.
        gbind (glift (resume_prepare (rl_realm_id p) b)) (\<lambda>fresh.
        gbind (glift (resume_plan_digest fresh)) (\<lambda>fresh_text.
        if fresh_text \<noteq> yq_supplied_plan_digest q then graise (PolicyViolation ''Resume apply exact plan revalidation drift'')
        else gbind (assert_sandbox P p) (\<lambda>_.
        case ax_environment P of
          None \<Rightarrow> graise (PolicyViolation ''Resume apply live environment force probe ister'')
        | Some assert_current \<Rightarrow>
          gbind (assert_current (ro_envelope_id (rl_runtime p)) moment) (\<lambda>_.
          gbind (ax_create P p (yq_actor_id q) (yq_authorization_id q) ed moment) (\<lambda>(apply_id, created).
          if \<not> created
          then gbind (ax_latest_event P apply_id) (\<lambda>event. case event of
              None \<Rightarrow> graise (PolicyViolation ''Resume apply replay event kaniti eksik'')
            | Some replay \<Rightarrow> gbind (glift (apply_result_of plan_text replay)) (\<lambda>r. greturn (Inl r)))
          else gbind (start_apply P gs q apply_id invocation_id ed timeout moment) (\<lambda>st. greturn (Inr st)))))))))))"

section \<open>Dispatch and conclusion\<close>

text \<open>The call of \<^verbatim>\<open>hold_checkpoint_binding\<close> stands before the \<^verbatim>\<open>try\<close>.\<close>

definition hold_guard :: "'s resume_ports \<Rightarrow> resume_plan \<Rightarrow> ('s, unit) gov" where
  "hold_guard P p = (if sandbox_applies p then ax_guard_hold P (rl_sandbox p) else greturn ())"

definition guarded_dispatch :: "'s resume_ports \<Rightarrow> resume_plan \<Rightarrow> started_apply \<Rightarrow> int \<Rightarrow> ('s, dispatch_result) gov" where
  "guarded_dispatch P p st timeout =
     (let body = agent_dispatch (ax_dispatch P) (sy_assignment st) (sy_invocation st) timeout in
      if sandbox_applies p
      then ax_guard_with P (rl_sandbox p) (gbind (assert_sandbox P p) (\<lambda>_. body))
      else body)"

definition close_recovery ::
  "'s resume_ports \<Rightarrow> started_apply \<Rightarrow> apply_event \<Rightarrow> failure_category \<Rightarrow> string \<Rightarrow> int \<Rightarrow> ('s, unit) gov" where
  "close_recovery P st event category message moment =
     gbind (ax_append_event P event) (\<lambda>_.
     gbind (ax_finish P (sy_claimed st) AO_RECOVERY_REQUIRED (Some category) None moment) (\<lambda>finished.
     if \<not> finished then graise (PolicyViolation message) else greturn ()))"

text \<open>The handler of an error in the dispatch.\<close>

definition dispatch_unknown :: "'s resume_ports \<Rightarrow> string \<Rightarrow> started_apply \<Rightarrow> string \<Rightarrow> int \<Rightarrow> ('s, apply_result) gov" where
  "dispatch_unknown P plan_text st previous at =
     gbind (glift (runtime_event (sy_apply_id st) 3 PHASE_DISPATCH APPLY_RECOVERY_REQUIRED ''resume.adapter-outcome-unknown'' (Aware at)
       (sy_claimed st) (sy_claim st) None None (Some previous))) (\<lambda>event.
     gbind (in_transaction (close_recovery P st event FC_ADAPTER ''Resume apply recovery transition fence drift'' at)) (\<lambda>_.
     glift (apply_result_of plan_text event)))"

definition terminal_receipt :: "'s resume_ports \<Rightarrow> started_apply \<Rightarrow> dispatch_result \<Rightarrow> int \<Rightarrow> ('s, uuid) gov" where
  "terminal_receipt P st d at =
     (if is_success d then ax_record_success P (sy_claim st) (dp_result_digest d) at
      else ax_record_failure P (sy_claim st) FC_ADAPTER (dp_result_digest d) at)"

definition terminal_event :: "started_apply \<Rightarrow> dispatch_result \<Rightarrow> uuid \<Rightarrow> string \<Rightarrow> int \<Rightarrow> apply_event res" where
  "terminal_event st d rid previous at = runtime_event (sy_apply_id st) 3 PHASE_TERMINAL
     (if is_success d then APPLY_COMPLETED else APPLY_FAILED)
     (if is_success d then ''resume.dispatch-receipt-completed'' else ''resume.dispatch-receipt-failed'') (Aware at)
     (sy_claimed st) (sy_claim st) (Some rid) (if is_success d then Some (dp_result_digest d) else None) (Some previous)"

text \<open>The end of the last \<^verbatim>\<open>with\<close> block.\<close>

definition close_terminal :: "'s resume_ports \<Rightarrow> started_apply \<Rightarrow> dispatch_result \<Rightarrow> apply_event \<Rightarrow> int \<Rightarrow> ('s, unit) gov" where
  "close_terminal P st d event at =
     gbind (ax_append_event P event) (\<lambda>_.
     gbind (if is_success d then ax_finish P (sy_claimed st) AO_SUCCEEDED None (Some (dp_result_digest d)) at
            else ax_finish P (sy_claimed st) AO_FAILED (Some FC_ADAPTER) None at) (\<lambda>finished.
     if \<not> finished then graise (PolicyViolation ''Resume apply terminal transition fence drift'')
     else greturn ()))"

text \<open>The last \<^verbatim>\<open>with\<close> block, with the result that it returns itself; only a \<^verbatim>\<open>PolicyViolation\<close> of the
  checkpoint is caught.\<close>

definition conclude_apply ::
  "'s resume_ports \<Rightarrow> resume_plan \<Rightarrow> string \<Rightarrow> started_apply \<Rightarrow> string \<Rightarrow> dispatch_result \<Rightarrow> uuid \<Rightarrow> apply_event \<Rightarrow> int
     \<Rightarrow> ('s, apply_result option) gov" where
  "conclude_apply P p plan_text st previous d rid event at s =
     (let close = gbind (close_terminal P st d event at) (\<lambda>_. greturn None) in
      if \<not> is_success d then close s
      else case ax_store_result_checkpoint P p (sy_envelope st) (sy_claimed st) rid (dp_result_digest d) at s of
        (t, Inr _) \<Rightarrow> close t
      | (t, Inl (PolicyViolation _)) \<Rightarrow>
          gbind (glift (runtime_event (sy_apply_id st) 3 PHASE_DISPATCH APPLY_RECOVERY_REQUIRED
              ''resume.post-result-checkpoint-gate-failed'' (Aware at) (sy_claimed st) (sy_claim st) None None (Some previous))) (\<lambda>recovery.
          gbind (close_recovery P st recovery FC_POLICY ''Resume checkpoint recovery fence drift'' at) (\<lambda>_.
          gbind (glift (apply_result_of plan_text recovery)) (\<lambda>r. greturn (Some r)))) t
      | (t, Inl e) \<Rightarrow> (t, Inl e))"

text \<open>What follows a dispatch that returned.\<close>

definition dispatch_known ::
  "'s resume_ports \<Rightarrow> resume_plan \<Rightarrow> string \<Rightarrow> started_apply \<Rightarrow> string \<Rightarrow> dispatch_result \<Rightarrow> int \<Rightarrow> ('s, apply_result) gov" where
  "dispatch_known P p plan_text st previous d at =
     gbind (terminal_receipt P st d at) (\<lambda>rid.
     gbind (glift (terminal_event st d rid previous at)) (\<lambda>event.
     gbind (in_transaction (conclude_apply P p plan_text st previous d rid event at)) (\<lambda>returned.
     case returned of Some r \<Rightarrow> greturn r | None \<Rightarrow> glift (apply_result_of plan_text event))))"

definition dispatch_phase ::
  "'s resume_ports \<Rightarrow> resume_plan \<Rightarrow> string \<Rightarrow> started_apply \<Rightarrow> int \<Rightarrow> int \<Rightarrow> int \<Rightarrow> ('s, apply_result) gov" where
  "dispatch_phase P p plan_text st timeout dispatched_at terminal_at =
     gbind (glift (apply_event_digest (sy_event st))) (\<lambda>claimed_text.
     gbind (glift (runtime_event (sy_apply_id st) 2 PHASE_DISPATCH APPLY_DISPATCHED ''resume.adapter-dispatch-started'' (Aware dispatched_at)
       (sy_claimed st) (sy_claim st) None None (Some claimed_text))) (\<lambda>dispatched.
     gbind (in_transaction (ax_append_event P dispatched)) (\<lambda>_.
     if sandbox_applies p \<and> ax_guard_assert P = None then graise (PolicyViolation ''Resume apply sandbox live binding guard ister'')
     else gbind (hold_guard P p) (\<lambda>_.
       gbind (glift (apply_event_digest dispatched)) (\<lambda>previous. \<lambda>s.
       case guarded_dispatch P p st timeout s of
         (t, Inl _) \<Rightarrow> dispatch_unknown P plan_text st previous terminal_at t
       | (t, Inr d) \<Rightarrow> dispatch_known P p plan_text st previous d terminal_at t)))))"

text \<open>\<open>dispatched_at\<close> and \<open>terminal_at\<close> are the later readings of the clock; \<open>invocation_id\<close> is drawn by \<^verbatim>\<open>new_uuid7\<close>.\<close>

definition resume_apply ::
  "'s resume_ports \<Rightarrow> 's governance \<Rightarrow> apply_request \<Rightarrow> int \<Rightarrow> pydatetime \<Rightarrow> uuid \<Rightarrow> int \<Rightarrow> int \<Rightarrow> ('s, apply_result) gov" where
  "resume_apply P gs q timeout now invocation_id dispatched_at terminal_at =
     (let p = yq_plan q in
      case now of
        Naive \<Rightarrow> graise (PolicyViolation ''Resume apply zamani timezone-aware olmali'')
      | Aware moment \<Rightarrow>
        if \<not> (1 \<le> timeout \<and> timeout \<le> 3600) then graise (PolicyViolation ''Resume apply timeout 1..3600 olmali'')
        else if datetime_le (rl_valid_until p) now then graise (PolicyViolation ''Resume apply plan gecerlilik penceresi doldu'')
        else if dx_client_id (ax_dispatch P) \<noteq> rl_target_client_id p then graise (PolicyViolation ''Resume apply target client drift'')
        else if rl_disposition p \<noteq> RD_SAFE_CONTINUE then graise (PolicyViolation ''Resume apply yalniz fresh safe-continue plan uygular'')
        else gbind (glift (effect_digest (resume_effect p))) (\<lambda>ed.
          gbind (glift (resume_plan_digest p)) (\<lambda>plan_text.
          gbind (in_transaction (claim_phase P gs q plan_text ed invocation_id timeout moment)) (\<lambda>outcome.
          case outcome of
            Inl r \<Rightarrow> greturn r
          | Inr st \<Rightarrow> dispatch_phase P p plan_text st timeout dispatched_at terminal_at))))"

section \<open>What a call leaves behind\<close>

lemmas gov_run = gbind_def glift_def graise_def greturn_def

lemma in_transaction_Inr: "in_transaction m s = (t, Inr x) \<longleftrightarrow> m s = (t, Inr x)"
  by (auto simp: in_transaction_def split: prod.splits sum.splits)

lemma in_transaction_Inl: "in_transaction m s = (t, Inl e) \<Longrightarrow> t = s"
  by (auto simp: in_transaction_def split: prod.splits sum.splits)

lemma runtime_event_Inr:
  "runtime_event apply_id n phase state reason at c claim rid text previous = Inr e \<Longrightarrow>
     yv_state e = state \<and> yv_result_digest e = text \<and> yv_previous_digest e = previous \<and> is_aware (yv_occurred_at e)"
  by (auto simp: runtime_event_def check_apply_event_def rbind_Inr_iff split: if_splits)

lemma apply_result_of_Inr: "apply_result_of plan_text e = Inr r \<Longrightarrow> yr_state r = yv_state e \<and> yr_result_digest r = yv_result_digest e"
  by (auto simp: apply_result_of_def check_apply_result_def rbind_Inr_iff)

lemma normalize_opt_text: "normalize_value (opt_text x) = Inr (case x of None \<Rightarrow> JNull | Some t \<Rightarrow> JStr t)"
  by (cases x) (simp_all add: opt_text_def)

lemma normalize_opt_number: "normalize_value (opt_number x) = Inr (case x of None \<Rightarrow> JNull | Some n \<Rightarrow> JInt n)"
  by (cases x) (simp_all add: opt_number_def)

lemma apply_event_digest_ok: "is_aware (yv_occurred_at e) \<Longrightarrow> \<exists>j. apply_event_digest e = Inr (digest_json j)"
  by (cases "yv_occurred_at e")
    (simp_all add: apply_event_digest_def apply_event_body_def digest_def canonicalize_def normalize_opt_text normalize_opt_number, blast)

lemma assert_sandbox_Inr: "assert_sandbox P p s = (t, Inr x) \<Longrightarrow> sandbox_applies p \<Longrightarrow> ax_guard_assert P \<noteq> None"
  by (auto simp: assert_sandbox_def split: option.splits)

text \<open>What a call has done before it creates an application: the work is locked, the plan was not applied before,
  it was prepared again with the supplied digest, and the live checks have passed. Each state is the one that the
  call before has left.\<close>

definition revalidated :: "'s resume_ports \<Rightarrow> apply_request \<Rightarrow> string \<Rightarrow> int \<Rightarrow> 's \<Rightarrow> 's \<Rightarrow> bool" where
  "revalidated P q ed moment s u =
     (\<exists>u1 u2 u3 u4 b fresh assert_current.
        ax_lock_work P (rl_work_item_id (yq_plan q)) s = (u1, Inr ())
      \<and> ax_find_exact P (yq_plan q) (yq_actor_id q) (yq_authorization_id q) ed u1 = (u2, Inr None)
      \<and> ax_read_snapshot P (rl_work_item_id (yq_plan q)) (rl_target_client_id (yq_plan q)) (rl_observed_at (yq_plan q)) u2 = (u3, Inr b)
      \<and> resume_prepare (rl_realm_id (yq_plan q)) b = Inr fresh \<and> resume_plan_digest fresh = Inr (yq_supplied_plan_digest q)
      \<and> assert_sandbox P (yq_plan q) u3 = (u4, Inr ())
      \<and> ax_environment P = Some assert_current \<and> assert_current (ro_envelope_id (rl_runtime (yq_plan q))) moment u4 = (u, Inr ()))"

text \<open>The authorization of the requesting actor is consumed for the effect of the plan.\<close>

definition authority_spent :: "'s resume_ports \<Rightarrow> 's governance \<Rightarrow> apply_request \<Rightarrow> int \<Rightarrow> 's \<Rightarrow> bool" where
  "authority_spent P gs q moment s =
     (\<exists>u v a c. ax_get_authorization P (yq_authorization_id q) s = (u, Inr a) \<and> au_actor_id a = yq_actor_id q
      \<and> require_authorized gs (resume_effect (yq_plan q)) (Some a) (yq_worker_label q) moment u = (v, Inr c))"

text \<open>An earlier application is reported: the one that is found, by its last event or, when it was interrupted and its
  lease is dead, by the event of its recovery; or the one that another call has created meanwhile.\<close>

definition replay_of ::
  "'s resume_ports \<Rightarrow> apply_request \<Rightarrow> string \<Rightarrow> string \<Rightarrow> int \<Rightarrow> 's \<Rightarrow> 's \<Rightarrow> apply_result \<Rightarrow> bool" where
  "replay_of P q plan_text ed moment s t x =
     ((\<exists>u1 u2 u3 i event. ax_lock_work P (rl_work_item_id (yq_plan q)) s = (u1, Inr ())
        \<and> ax_find_exact P (yq_plan q) (yq_actor_id q) (yq_authorization_id q) ed u1 = (u2, Inr (Some i))
        \<and> ax_latest_event P i u2 = (u3, Inr (Some event))
        \<and> (if yv_state event \<notin> {APPLY_CLAIMED, APPLY_DISPATCHED} then t = u3 \<and> apply_result_of plan_text event = Inr x
           else (ax_lease_is_live P event moment u3 = (t, Inr True) \<and> apply_result_of plan_text event = Inr x)
             \<or> (\<exists>u4 e. ax_lease_is_live P event moment u3 = (u4, Inr False) \<and> ax_recover_interrupted P event moment u4 = (t, Inr e)
                  \<and> apply_result_of plan_text e = Inr x)))
      \<or> (\<exists>u v i event. revalidated P q ed moment s u
        \<and> ax_create P (yq_plan q) (yq_actor_id q) (yq_authorization_id q) ed moment u = (v, Inr (i, False))
        \<and> ax_latest_event P i v = (t, Inr (Some event)) \<and> apply_result_of plan_text event = Inr x))"

lemma start_apply_authorized:
  assumes "start_apply P gs q apply_id iv ed timeout moment s = (t, Inr st)"
  shows "authority_spent P gs q moment s"
proof -
  obtain a u plan_id where "au_actor_id a = yq_actor_id q" "au_plan_id a = Some plan_id"
    "ax_get_authorization P (yq_authorization_id q) s = (u, Inr a)"
    using assms by (fastforce simp: start_apply_def Let_def gbind_Inr_iff split: option.splits if_splits)
  with assms show ?thesis by (auto simp: authority_spent_def start_apply_def Let_def gbind_Inr_iff)
qed

lemma claim_phase_fresh:
  assumes "ax_lock_work P (rl_work_item_id (yq_plan q)) s = (u1, Inr ())"
    "ax_find_exact P (yq_plan q) (yq_actor_id q) (yq_authorization_id q) ed u1 = (u2, Inr None)"
    "claim_phase P gs q plan_text ed iv timeout moment s = (t, Inr out)"
  shows "\<exists>u v i created. revalidated P q ed moment s u
    \<and> ax_create P (yq_plan q) (yq_actor_id q) (yq_authorization_id q) ed moment u = (v, Inr (i, created))
    \<and> (sandbox_applies (yq_plan q) \<longrightarrow> ax_guard_assert P \<noteq> None)
    \<and> (if created then (\<exists>st. out = Inr st \<and> start_apply P gs q i iv ed timeout moment v = (t, Inr st))
       else (\<exists>event x. out = Inl x \<and> ax_latest_event P i v = (t, Inr (Some event)) \<and> apply_result_of plan_text event = Inr x))"
proof -
  obtain u3 b fresh u4 assert_current u v i created where
    "ax_read_snapshot P (rl_work_item_id (yq_plan q)) (rl_target_client_id (yq_plan q)) (rl_observed_at (yq_plan q)) u2 = (u3, Inr b)"
    "resume_prepare (rl_realm_id (yq_plan q)) b = Inr fresh" "resume_plan_digest fresh = Inr (yq_supplied_plan_digest q)"
    and guard: "assert_sandbox P (yq_plan q) u3 = (u4, Inr ())"
    and "ax_environment P = Some assert_current" "assert_current (ro_envelope_id (rl_runtime (yq_plan q))) moment u4 = (u, Inr ())"
    and c: "ax_create P (yq_plan q) (yq_actor_id q) (yq_authorization_id q) ed moment u = (v, Inr (i, created))"
    and rest: "(if \<not> created
          then gbind (ax_latest_event P i) (\<lambda>event. case event of
              None \<Rightarrow> graise (PolicyViolation ''Resume apply replay event kaniti eksik'')
            | Some replay \<Rightarrow> gbind (glift (apply_result_of plan_text replay)) (\<lambda>r. greturn (Inl r)))
          else gbind (start_apply P gs q i iv ed timeout moment) (\<lambda>st. greturn (Inr st))) v = (t, Inr out)"
    using assms(3) by (auto simp: claim_phase_def Let_def gbind_Inr_iff assms(1,2) split: option.splits if_splits)
  then have "revalidated P q ed moment s u" using assms(1,2) unfolding revalidated_def by blast
  moreover have "sandbox_applies (yq_plan q) \<longrightarrow> ax_guard_assert P \<noteq> None" using assert_sandbox_Inr [OF guard] by blast
  moreover have "if created then (\<exists>st. out = Inr st \<and> start_apply P gs q i iv ed timeout moment v = (t, Inr st))
       else (\<exists>event x. out = Inl x \<and> ax_latest_event P i v = (t, Inr (Some event)) \<and> apply_result_of plan_text event = Inr x)"
    using rest by (cases created) (auto simp: gbind_Inr_iff split: option.splits)
  ultimately show ?thesis using c by blast
qed

lemma claim_phase_cases:
  assumes "claim_phase P gs q plan_text ed iv timeout moment s = (t, Inr out)"
  shows "(\<exists>x. out = Inl x \<and> replay_of P q plan_text ed moment s t x)
    \<or> (\<exists>u v i st. out = Inr st \<and> revalidated P q ed moment s u \<and> (sandbox_applies (yq_plan q) \<longrightarrow> ax_guard_assert P \<noteq> None)
        \<and> ax_create P (yq_plan q) (yq_actor_id q) (yq_authorization_id q) ed moment u = (v, Inr (i, True))
        \<and> start_apply P gs q i iv ed timeout moment v = (t, Inr st))"
proof -
  obtain u1 u2 found where f: "ax_lock_work P (rl_work_item_id (yq_plan q)) s = (u1, Inr ())"
    "ax_find_exact P (yq_plan q) (yq_actor_id q) (yq_authorization_id q) ed u1 = (u2, Inr found)"
    using assms by (auto simp: claim_phase_def Let_def gbind_Inr_iff)
  show ?thesis
  proof (cases found)
    case None
    show ?thesis using claim_phase_fresh [OF f(1) f(2) [unfolded None] assms] unfolding replay_of_def by (smt (verit))
  next
    case (Some i)
    then obtain x where x: "replayed P plan_text i moment u2 = (t, Inr x)" "out = Inl x"
      using assms by (auto simp: claim_phase_def Let_def gbind_Inr_iff f)
    obtain u3 event where e: "ax_latest_event P i u2 = (u3, Inr (Some event))"
      using x(1) by (auto simp: replayed_def gbind_Inr_iff split: option.splits)
    have "if yv_state event \<notin> {APPLY_CLAIMED, APPLY_DISPATCHED} then t = u3 \<and> apply_result_of plan_text event = Inr x
           else (ax_lease_is_live P event moment u3 = (t, Inr True) \<and> apply_result_of plan_text event = Inr x)
             \<or> (\<exists>u4 e. ax_lease_is_live P event moment u3 = (u4, Inr False) \<and> ax_recover_interrupted P event moment u4 = (t, Inr e)
                  \<and> apply_result_of plan_text e = Inr x)"
      using x(1) by (auto simp: replayed_def gbind_Inr_iff e split: if_splits)
    then show ?thesis using x(2) f e Some unfolding replay_of_def by blast
  qed
qed

text \<open>How a dispatch that ran ends, step by step from the state that it left: with its success recorded, checkpointed and
  the job finished as succeeded; with its failure recorded and the job finished as failed; with the checkpoint of a
  success refused and the job sent to recovery for the policy; or, when its outcome is unknown, with the job sent to
  recovery for the adapter. The result is that of the event which is stored on the way.\<close>

definition closed_by ::
  "'s resume_ports \<Rightarrow> resume_plan \<Rightarrow> string \<Rightarrow> started_apply \<Rightarrow> zekam_error + dispatch_result \<Rightarrow> int \<Rightarrow> 's \<Rightarrow> 's \<Rightarrow> apply_result \<Rightarrow> bool" where
  "closed_by P p plan_text st d at w t r =
     (\<exists>event u. apply_result_of plan_text event = Inr r \<and> yr_state r = yv_state event \<and>
       (case d of
          Inl _ \<Rightarrow> yv_state event = APPLY_RECOVERY_REQUIRED \<and> ax_append_event P event w = (u, Inr ())
            \<and> ax_finish P (sy_claimed st) AO_RECOVERY_REQUIRED (Some FC_ADAPTER) None at u = (t, Inr True)
        | Inr x \<Rightarrow>
            if \<not> is_success x
            then yv_state event = APPLY_FAILED \<and> (\<exists>rid w1. ax_record_failure P (sy_claim st) FC_ADAPTER (dp_result_digest x) at w = (w1, Inr rid)
              \<and> yv_receipt_id event = Some rid \<and> ax_append_event P event w1 = (u, Inr ())
              \<and> ax_finish P (sy_claimed st) AO_FAILED (Some FC_ADAPTER) None at u = (t, Inr True))
            else \<exists>rid w1 w2 kept. ax_record_success P (sy_claim st) (dp_result_digest x) at w = (w1, Inr rid)
              \<and> ax_store_result_checkpoint P p (sy_envelope st) (sy_claimed st) rid (dp_result_digest x) at w1 = (w2, kept)
              \<and> ax_append_event P event w2 = (u, Inr ())
              \<and> (if is_ok kept
                 then yv_state event = APPLY_COMPLETED \<and> yr_result_digest r = Some (dp_result_digest x) \<and> yv_receipt_id event = Some rid
                   \<and> ax_finish P (sy_claimed st) AO_SUCCEEDED None (Some (dp_result_digest x)) at u = (t, Inr True)
                 else (\<exists>m. kept = Inl (PolicyViolation m)) \<and> yv_state event = APPLY_RECOVERY_REQUIRED
                   \<and> ax_finish P (sy_claimed st) AO_RECOVERY_REQUIRED (Some FC_POLICY) None at u = (t, Inr True))))"

lemma close_recovery_Inr:
  "close_recovery P st event category message at s = (t, Inr x) \<Longrightarrow>
     \<exists>u. ax_append_event P event s = (u, Inr ()) \<and> ax_finish P (sy_claimed st) AO_RECOVERY_REQUIRED (Some category) None at u = (t, Inr True)"
  by (auto simp: close_recovery_def gbind_Inr_iff split: if_splits)

lemma close_terminal_Inr:
  "close_terminal P st d event at s = (t, Inr x) \<Longrightarrow>
     \<exists>u. ax_append_event P event s = (u, Inr ()) \<and>
       (if is_success d then ax_finish P (sy_claimed st) AO_SUCCEEDED None (Some (dp_result_digest d)) at
        else ax_finish P (sy_claimed st) AO_FAILED (Some FC_ADAPTER) None at) u = (t, Inr True)"
  by (auto simp: close_terminal_def gbind_Inr_iff split: if_splits)

lemma terminal_event_Inr:
  assumes "terminal_event st d rid previous at = Inr event"
  shows "yv_state event = (if is_success d then APPLY_COMPLETED else APPLY_FAILED)" "yv_receipt_id event = Some rid"
    "yv_result_digest event = (if is_success d then Some (dp_result_digest d) else None)"
  using assms
  by (auto simp: terminal_event_def runtime_event_def check_apply_event_def rbind_Inr_iff split: if_splits)

lemma conclude_apply_cases:
  assumes "conclude_apply P p plan_text st previous d rid event at s = (t, Inr x)" "is_success d"
  shows "\<exists>u kept. ax_store_result_checkpoint P p (sy_envelope st) (sy_claimed st) rid (dp_result_digest d) at s = (u, kept)
    \<and> (if is_ok kept then x = None \<and> close_terminal P st d event at u = (t, Inr ())
       else (\<exists>m r recovery. kept = Inl (PolicyViolation m) \<and> x = Some r \<and> yv_state recovery = APPLY_RECOVERY_REQUIRED
         \<and> apply_result_of plan_text recovery = Inr r
         \<and> close_recovery P st recovery FC_POLICY ''Resume checkpoint recovery fence drift'' at u = (t, Inr ())))"
proof -
  obtain u k where k: "ax_store_result_checkpoint P p (sy_envelope st) (sy_claimed st) rid (dp_result_digest d) at s = (u, k)" by fastforce
  show ?thesis
  proof (cases k)
    case (Inr y)
    then show ?thesis using assms k by (auto simp: conclude_apply_def gbind_Inr_iff is_ok_def)
  next
    case (Inl e)
    obtain m where m: "e = PolicyViolation m" using assms k Inl by (cases e) (auto simp: conclude_apply_def)
    then obtain recovery r where "close_recovery P st recovery FC_POLICY ''Resume checkpoint recovery fence drift'' at u = (t, Inr ())"
      "yv_state recovery = APPLY_RECOVERY_REQUIRED" "apply_result_of plan_text recovery = Inr r" "x = Some r"
      using assms k Inl by (auto simp: conclude_apply_def gbind_Inr_iff dest!: runtime_event_Inr)
    then show ?thesis using k Inl m by (intro exI [of _ u] exI [of _ k]) (auto simp: is_ok_def)
  qed
qed

lemma dispatch_known_Inr:
  assumes "dispatch_known P p plan_text st previous d at s = (t, Inr r)"
  shows "closed_by P p plan_text st (Inr d) at s t r"
proof -
  obtain w1 v rid event x where e: "terminal_receipt P st d at s = (w1, Inr rid)" "terminal_event st d rid previous at = Inr event"
    "conclude_apply P p plan_text st previous d rid event at w1 = (v, Inr x)"
    "(case x of Some y \<Rightarrow> greturn y | None \<Rightarrow> glift (apply_result_of plan_text event)) v = (t, Inr r)"
    using assms unfolding dispatch_known_def gbind_Inr_iff in_transaction_Inr by auto
  have v: "v = t" "x = None \<Longrightarrow> apply_result_of plan_text event = Inr r" "x = Some y \<Longrightarrow> y = r" for y
    using e(4) by (cases x; simp)+
  note terminal = terminal_event_Inr [OF e(2)]
  show ?thesis
  proof (cases "is_success d")
    case True
    then have rec: "ax_record_success P (sy_claim st) (dp_result_digest d) at s = (w1, Inr rid)" using e(1) by (simp add: terminal_receipt_def)
    obtain w2 kept where k: "ax_store_result_checkpoint P p (sy_envelope st) (sy_claimed st) rid (dp_result_digest d) at w1 = (w2, kept)"
      and how: "if is_ok kept then x = None \<and> close_terminal P st d event at w2 = (t, Inr ())
       else (\<exists>m r recovery. kept = Inl (PolicyViolation m) \<and> x = Some r \<and> yv_state recovery = APPLY_RECOVERY_REQUIRED
         \<and> apply_result_of plan_text recovery = Inr r
         \<and> close_recovery P st recovery FC_POLICY ''Resume checkpoint recovery fence drift'' at w2 = (t, Inr ()))"
      using conclude_apply_cases [OF e(3) True] v(1) by blast
    show ?thesis
    proof (cases "is_ok kept")
      case ok: True
      then obtain u where u: "ax_append_event P event w2 = (u, Inr ())"
        "ax_finish P (sy_claimed st) AO_SUCCEEDED None (Some (dp_result_digest d)) at u = (t, Inr True)" "apply_result_of plan_text event = Inr r"
        using how close_terminal_Inr [of P st d event at w2 t "()"] True v(2) by auto
      then show ?thesis unfolding closed_by_def
        using True ok rec k terminal apply_result_of_Inr [OF u(3)]
        by (intro exI [of _ event] exI [of _ u]) auto
    next
      case bad: False
      then obtain m recovery where m: "kept = Inl (PolicyViolation m)" "yv_state recovery = APPLY_RECOVERY_REQUIRED"
        "apply_result_of plan_text recovery = Inr r"
        "close_recovery P st recovery FC_POLICY ''Resume checkpoint recovery fence drift'' at w2 = (t, Inr ())"
        using how v(3) by auto
      obtain u where "ax_append_event P recovery w2 = (u, Inr ())"
        "ax_finish P (sy_claimed st) AO_RECOVERY_REQUIRED (Some FC_POLICY) None at u = (t, Inr True)"
        using close_recovery_Inr [OF m(4)] by blast
      then show ?thesis unfolding closed_by_def
        using True bad rec k m apply_result_of_Inr [OF m(3)]
        by (intro exI [of _ recovery] exI [of _ u]) auto
    qed
  next
    case False
    then have rec: "ax_record_failure P (sy_claim st) FC_ADAPTER (dp_result_digest d) at s = (w1, Inr rid)" using e(1) by (simp add: terminal_receipt_def)
    have "x = None" "close_terminal P st d event at w1 = (t, Inr ())" using e(3) False v(1) by (auto simp: conclude_apply_def gbind_Inr_iff)
    then obtain u where u: "ax_append_event P event w1 = (u, Inr ())" "ax_finish P (sy_claimed st) AO_FAILED (Some FC_ADAPTER) None at u = (t, Inr True)"
      "apply_result_of plan_text event = Inr r"
      using close_terminal_Inr [of P st d event at w1 t "()"] False v(2) by auto
    then show ?thesis unfolding closed_by_def
      using False rec terminal apply_result_of_Inr [OF u(3)]
      by (intro exI [of _ event] exI [of _ u]) auto
  qed
qed

lemma dispatch_unknown_Inr:
  assumes "dispatch_unknown P plan_text st previous at s = (t, Inr r)"
  shows "closed_by P p plan_text st (Inl e) at s t r"
proof -
  obtain event v where c: "close_recovery P st event FC_ADAPTER ''Resume apply recovery transition fence drift'' at s = (t, Inr v)"
    "yv_state event = APPLY_RECOVERY_REQUIRED" "apply_result_of plan_text event = Inr r"
    using assms by (auto simp: dispatch_unknown_def gbind_Inr_iff in_transaction_Inr dest!: runtime_event_Inr)
  show ?thesis using close_recovery_Inr [OF c(1)] c(2) apply_result_of_Inr [OF c(3)] c(3) unfolding closed_by_def by auto
qed

lemma dispatch_phase_cases:
  assumes "dispatch_phase P p plan_text st timeout dispatched_at terminal_at s = (t, r)"
    "sandbox_applies p \<longrightarrow> ax_guard_assert P \<noteq> None"
  shows "(t = s \<and> (\<exists>e. r = Inl e)) \<or> (\<exists>event u. yv_state event = APPLY_DISPATCHED \<and> ax_append_event P event s = (u, Inr ())
    \<and> ((\<exists>e. hold_guard P p u = (t, Inl e) \<and> r = Inl e)
      \<or> (\<exists>v w d. hold_guard P p u = (v, Inr ()) \<and> guarded_dispatch P p st timeout v = (w, d)
          \<and> (\<forall>x. r = Inr x \<longrightarrow> closed_by P p plan_text st d terminal_at w t x))))"
proof (cases "apply_event_digest (sy_event st)")
  case (Inr claimed_text)
  let ?event = "runtime_event (sy_apply_id st) 2 PHASE_DISPATCH APPLY_DISPATCHED ''resume.adapter-dispatch-started'' (Aware dispatched_at)
       (sy_claimed st) (sy_claim st) None None (Some claimed_text)"
  show ?thesis
  proof (cases ?event)
    case e: (Inr event)
    have ev: "yv_state event = APPLY_DISPATCHED" "is_aware (yv_occurred_at event)" using runtime_event_Inr [OF e] by simp_all
    obtain previous where d: "apply_event_digest event = Inr previous" using apply_event_digest_ok [OF ev(2)] by blast
    obtain u k where k: "in_transaction (ax_append_event P event) s = (u, k)" by fastforce
    show ?thesis
    proof (cases k)
      case (Inl x)
      then have "t = s" using assms(1) Inr e k in_transaction_Inl [of "ax_append_event P event" s u x]
        by (simp add: dispatch_phase_def gov_run)
      then show ?thesis using assms(1) Inr e k Inl by (auto simp: dispatch_phase_def gov_run)
    next
      case a: (Inr x)
      have guard: "(sandbox_applies p \<and> ax_guard_assert P = None) = False" using assms(2) by blast
      have stored: "ax_append_event P event s = (u, Inr ())" using k a by (simp add: in_transaction_Inr)
      obtain v h where h: "hold_guard P p u = (v, h)" by fastforce
      show ?thesis
      proof (cases h)
        case (Inl e')
        then have "t = v \<and> r = Inl e'" using assms(1) guard Inr e k a h by (simp add: dispatch_phase_def gov_run if_False)
        then show ?thesis using ev(1) stored h Inl by blast
      next
        case held: (Inr y)
        obtain w g where g: "guarded_dispatch P p st timeout v = (w, g)" by fastforce
        have "(case g of Inl _ \<Rightarrow> dispatch_unknown P plan_text st previous terminal_at w
            | Inr y \<Rightarrow> dispatch_known P p plan_text st previous y terminal_at w) = (t, r)"
          using assms(1) guard Inr e k a d h held g by (cases g) (simp_all add: dispatch_phase_def gov_run if_False)
        then have "closed_by P p plan_text st g terminal_at w t y" if "r = Inr y" for y
          using that dispatch_unknown_Inr dispatch_known_Inr by (cases g) fastforce+
        then show ?thesis using ev(1) stored h held g by fastforce
      qed
    qed
  qed (use assms(1) Inr in \<open>auto simp: dispatch_phase_def gov_run\<close>)
qed (use assms(1) in \<open>auto simp: dispatch_phase_def gov_run\<close>)

text \<open>C16. Applying a plan has three outcomes, and each state in them is the one that the step before has left.
  Either nothing has happened at all and an error is raised. Or an earlier application of the same plan is
  reported, by its last event or by that of its recovery. Or the plan was prepared again with the supplied digest,
  the live checks passed, an authorization of the actor was consumed and the claim was committed. In the last case
  either an error is raised with no more than the claim in place; or the event of the dispatch is stored, and then
  either the guard of the sandbox refuses to hold it, which is raised, or the agent runs. When the call then
  returns a result, the result says how the run was closed: completed exactly when the agent succeeded and its
  success was recorded and checkpointed; failed when it did not succeed; recovery required when its outcome is
  unknown or when the checkpoint of its success was refused - each time with the job finished accordingly as the
  last step.\<close>

theorem resume_apply_outcome:
  assumes "resume_apply P gs q timeout now iv dispatched_at terminal_at s = (t, r)"
  shows "(t = s \<and> (\<exists>e. r = Inl e))
    \<or> (\<exists>plan_text ed moment. now = Aware moment \<and> effect_digest (resume_effect (yq_plan q)) = Inr ed \<and> resume_plan_digest (yq_plan q) = Inr plan_text
        \<and> ((\<exists>x. r = Inr x \<and> replay_of P q plan_text ed moment s t x)
          \<or> (\<exists>u v w i st. rl_disposition (yq_plan q) = RD_SAFE_CONTINUE \<and> \<not> datetime_le (rl_valid_until (yq_plan q)) now
              \<and> revalidated P q ed moment s u
              \<and> ax_create P (yq_plan q) (yq_actor_id q) (yq_authorization_id q) ed moment u = (v, Inr (i, True))
              \<and> authority_spent P gs q moment v \<and> start_apply P gs q i iv ed timeout moment v = (w, Inr st)
              \<and> ((t = w \<and> (\<exists>e. r = Inl e))
                \<or> (\<exists>event a. yv_state event = APPLY_DISPATCHED \<and> ax_append_event P event w = (a, Inr ())
                    \<and> ((\<exists>e. hold_guard P (yq_plan q) a = (t, Inl e) \<and> r = Inl e)
                      \<or> (\<exists>b c d. hold_guard P (yq_plan q) a = (b, Inr ()) \<and> guarded_dispatch P (yq_plan q) st timeout b = (c, d)
                          \<and> (\<forall>x. r = Inr x \<longrightarrow> closed_by P (yq_plan q) plan_text st d terminal_at c t x))))))))"
proof (cases "now = Naive \<or> \<not> (1 \<le> timeout \<and> timeout \<le> 3600) \<or> datetime_le (rl_valid_until (yq_plan q)) now
    \<or> dx_client_id (ax_dispatch P) \<noteq> rl_target_client_id (yq_plan q) \<or> rl_disposition (yq_plan q) \<noteq> RD_SAFE_CONTINUE")
  case True
  then have "t = s \<and> (\<exists>e. r = Inl e)" using assms by (auto simp: resume_apply_def Let_def graise_def split: pydatetime.splits if_splits)
  then show ?thesis by blast
next
  case False
  then obtain moment where m: "now = Aware moment" by (cases now) auto
  have ready: "rl_disposition (yq_plan q) = RD_SAFE_CONTINUE" "\<not> datetime_le (rl_valid_until (yq_plan q)) now" using False by blast+
  have body: "gbind (glift (effect_digest (resume_effect (yq_plan q)))) (\<lambda>ed.
          gbind (glift (resume_plan_digest (yq_plan q))) (\<lambda>plan_text.
          gbind (in_transaction (claim_phase P gs q plan_text ed iv timeout moment)) (\<lambda>outcome.
          case outcome of
            Inl r \<Rightarrow> greturn r
          | Inr st \<Rightarrow> dispatch_phase P (yq_plan q) plan_text st timeout dispatched_at terminal_at))) s = (t, r)"
    using assms False by (simp add: resume_apply_def Let_def m)
  show ?thesis
  proof (cases "is_ok (effect_digest (resume_effect (yq_plan q))) \<and> is_ok (resume_plan_digest (yq_plan q))")
    case False
    then have "t = s \<and> (\<exists>e. r = Inl e)" using body by (auto simp: is_ok_iff gov_run split: sum.splits)
    then show ?thesis by blast
  next
    case True
    then obtain ed plan_text where d: "effect_digest (resume_effect (yq_plan q)) = Inr ed" "resume_plan_digest (yq_plan q) = Inr plan_text"
      by (auto simp: is_ok_iff)
    obtain w k where k: "in_transaction (claim_phase P gs q plan_text ed iv timeout moment) s = (w, k)" by fastforce
    show ?thesis
    proof (cases k)
      case (Inl e)
      have "w = s" by (rule in_transaction_Inl [OF k [unfolded Inl]])
      then have "t = s \<and> r = Inl e" using body d k Inl by (simp add: gov_run)
      then show ?thesis by blast
    next
      case (Inr out)
      have c: "claim_phase P gs q plan_text ed iv timeout moment s = (w, Inr out)" using k Inr by (simp add: in_transaction_Inr)
      from claim_phase_cases [OF c] show ?thesis
      proof (elim disjE exE conjE)
        fix x assume x: "out = Inl x" "replay_of P q plan_text ed moment s w x"
        then have "t = w \<and> r = Inr x" using body d k Inr by (simp add: gov_run)
        then show ?thesis using m d x(2) by blast
      next
        fix u v i st
        assume f: "out = Inr st" "revalidated P q ed moment s u" "sandbox_applies (yq_plan q) \<longrightarrow> ax_guard_assert P \<noteq> None"
          "ax_create P (yq_plan q) (yq_actor_id q) (yq_authorization_id q) ed moment u = (v, Inr (i, True))"
          "start_apply P gs q i iv ed timeout moment v = (w, Inr st)"
        have "dispatch_phase P (yq_plan q) plan_text st timeout dispatched_at terminal_at w = (t, r)" using body d k Inr f(1) by (simp add: gov_run)
        from dispatch_phase_cases [OF this f(3)] show ?thesis
          using m d ready f(2,4,5) start_apply_authorized [OF f(5)] by blast
      qed
    qed
  qed
qed

end
