(* ===== verification/ResumeSamples.thy ===== *)
theory ResumeSamples
  imports LoopSamples ResumeApply
begin

text \<open>
  A checkpointed work item with one pending step, the plan that resumes it, and a service that applies it
  once, then reports it: the properties of resuming applied at concrete values.
\<close>

section \<open>An observation\<close>

definition resume_bindings :: stale_bindings where
  "resume_bindings = \<lparr>sd_routing_context_snapshot_id = loop_uuid, sd_source_revision = ''r1'', sd_policy_digest = letters (CHR ''a''),
     sd_capability_profile_digest = letters (CHR ''a''), sd_dependency_snapshot_digest = letters (CHR ''a''),
     sd_migration_head_digest = letters (CHR ''a''), sd_model_route_decision_digest = letters (CHR ''a''),
     sd_context_manifest_digest = letters (CHR ''a''), sd_context_packet_digest = letters (CHR ''a''),
     sd_architecture_digest = letters (CHR ''a''), sd_rules_digest = letters (CHR ''a''), sd_test_suite_digest = letters (CHR ''a''),
     sd_model_inventory_digest = letters (CHR ''a''), sd_journal_head_digest = letters (CHR ''a'')\<rparr>"

definition runtime_sample :: runtime_observation where
  "runtime_sample = \<lparr>ro_run_id = loop_uuid, ro_job_id = loop_uuid, ro_attempt_id = None, ro_assignment_id = loop_uuid,
     ro_envelope_id = loop_uuid, ro_envelope_digest = letters (CHR ''a''), ro_observed_lease_id = None,
     ro_observed_fencing_token = None, ro_job_state = ''ready'', ro_lease_expires_at = None, ro_deadline = Aware 100\<rparr>"

definition no_sandbox :: sandbox_binding where
  "no_sandbox = \<lparr>sx_disposition = SANDBOX_NOT_APPLICABLE, sx_sandbox_id = None, sx_base_revision = None, sx_patch_digest = None,
     sx_dirty_state_digest = None\<rparr>"

definition observation_sample :: resume_observation where
  "observation_sample = \<lparr>ob_realm_id = loop_uuid, ob_project_id = loop_uuid, ob_work_item_id = loop_uuid, ob_work_state = ''active'',
     ob_checkpoint_id = loop_uuid, ob_checkpoint_digest = letters (CHR ''a''), ob_checkpoint_revision = 1, ob_checkpoint_key = ''key'',
     ob_plan_id = loop_uuid, ob_plan_digest = letters (CHR ''b''), ob_current_plan_id = loop_uuid,
     ob_current_plan_digest = letters (CHR ''b''), ob_checkpoint_bindings = resume_bindings, ob_current_bindings = resume_bindings,
     ob_pending_steps = [''s2''], ob_next_step_id = Some ''s2'', ob_open_effects = [], ob_checkpoint_integrity = True,
     ob_resumability = SAFE_CONTINUE, ob_logical_read_resources = [], ob_logical_write_resources = [''path:web:src''],
     ob_runtime = runtime_sample, ob_target_client_id = ''client'', ob_required_route_role = None, ob_context_recipe = None,
     ob_observed_at = Aware 5, ob_valid_until = Aware 50, ob_sandbox = no_sandbox, ob_legacy_limited = False\<rparr>"

lemma observation_checked:
  "check_observation observation_sample = Inr observation_sample" "check_runtime_observation runtime_sample = Inr runtime_sample"
  "check_sandbox_binding no_sandbox = Inr no_sandbox"
proof -
  have "\<not> blank ''client''" by code_simp
  then show "check_observation observation_sample = Inr observation_sample"
    using letters_valid by (simp add: check_observation_def observation_sample_def rbind_Inr_iff parse_all_Inr_iff)
  show "check_runtime_observation runtime_sample = Inr runtime_sample"
    using letters_valid by (simp add: check_runtime_observation_def runtime_sample_def rbind_Inr_iff is_ok_iff)
  show "check_sandbox_binding no_sandbox = Inr no_sandbox" by (simp add: check_sandbox_binding_def no_sandbox_def)
qed

definition plan_sample :: resume_plan where
  "plan_sample = planned observation_sample [] []"

lemma stale_sample: "stale_dimensions observation_sample = Inr []"
  by (simp add: stale_dimensions_def plan_drift_def binding_drift_def observation_sample_def BINDING_RULES_def)

lemma plan_facts:
  "rl_disposition plan_sample = RD_SAFE_CONTINUE" "rl_valid_until plan_sample = Aware 50" "rl_observed_at plan_sample = Aware 5"
  "rl_work_item_id plan_sample = loop_uuid" "rl_target_client_id plan_sample = ''client''" "rl_runtime plan_sample = runtime_sample"
  by (simp_all add: plan_sample_def planned_def disposition_of_def observation_sample_def runtime_sample_def)

lemma plan_prepared: "resume_prepare loop_uuid observation_sample = Inr plan_sample"
proof -
  have r: "reconciliations observation_sample = Inr []" by (simp add: reconciliations_def observation_sample_def)
  have f: "ob_runtime observation_sample = runtime_sample" "ob_sandbox observation_sample = no_sandbox"
    "ob_realm_id observation_sample = loop_uuid" by (simp_all add: observation_sample_def)
  show ?thesis
    using resume_plan_checked(2) [OF observation_checked(1) _ _ stale_sample _ r] observation_checked
    by (simp add: plan_sample_def f)
qed

theorem resume_plan_always_made_witness:
  "\<exists>p. resume_prepare loop_uuid observation_sample = Inr p \<and> check_resume_plan p = Inr p
    \<and> list_ex (\<lambda>a. act_kind a = ''dispatch-next-step'') (rl_actions p) \<and> rl_disposition p = RD_SAFE_CONTINUE"
proof -
  have f: "ob_runtime observation_sample = runtime_sample" "ob_sandbox observation_sample = no_sandbox"
    "ob_realm_id observation_sample = loop_uuid" "ob_next_step_id observation_sample = Some ''s2''" "ob_open_effects observation_sample = []"
    by (simp_all add: observation_sample_def)
  have "list_all (\<lambda>e. is_ok (check_open_effect e)) (ob_open_effects observation_sample)" by (simp add: f)
  from resume_plan_always_made [OF observation_checked(1) _ _ this] observation_checked f
  obtain p where "resume_prepare loop_uuid observation_sample = Inr p" "check_resume_plan p = Inr p"
    "list_ex (\<lambda>a. act_kind a = ''dispatch-next-step'') (rl_actions p) \<longleftrightarrow> rl_disposition p \<in> {RD_SAFE_CONTINUE, RD_SAFE_RECOMPILE}"
    by auto
  then show ?thesis using plan_prepared plan_facts(1) by auto
qed

theorem resume_continues_exactly_witness:
  "rl_disposition plan_sample = RD_SAFE_CONTINUE \<and> same_bindings resume_bindings resume_bindings \<and> ob_pending_steps observation_sample \<noteq> []"
  using resume_continues_exactly [OF plan_prepared] plan_facts(1) by (simp add: observation_sample_def)

section \<open>The plan applied\<close>

definition effect_sample :: effect_request where
  "effect_sample = \<lparr>rq_action = ''resume.apply.next-step'', rq_effects = [EK_DATABASE_WRITE, EK_PROCESS_RUN],
     rq_resources = [''path:web:src''], rq_data_classifications = [], rq_provider_refs = [], rq_reversible = True,
     rq_destructive = False, rq_external = False, rq_capabilities = [''database.write'', ''process.run'']\<rparr>"

definition resume_scope :: authorization_scope where
  "resume_scope = \<lparr>as_resources = [''path:web:src''], as_read_resources = [], as_write_resources = [],
     as_effects = [''database-write'', ''process-run''], as_provider_refs = [], as_secret_ref_ids = [], as_data_classifications = []\<rparr>"

definition resume_authorization :: authorization where
  "resume_authorization = gov_authorization\<lparr>au_actor_id := loop_uuid, au_plan_id := Some loop_uuid, au_scope := resume_scope,
     au_effect_digest := digest_json (effect_json effect_sample)\<rparr>"

definition child_assignment :: "string \<Rightarrow> agent_assignment" where
  "child_assignment d = \<lparr>ag_id = loop_uuid, ag_realm_id = loop_uuid, ag_project_id = loop_uuid, ag_work_item_id = loop_uuid,
     ag_role = ROLE_BUILDER, ag_agent_ref = ''agent'', ag_instruction_digest = letters (CHR ''a''),
     ag_context_manifest_digest = letters (CHR ''a''), ag_assignment_digest = d, ag_status = ASSIGN_READY,
     ag_parent_assignment_id = Some loop_uuid, ag_plan_id = Some loop_uuid, ag_step_id = Some ''s2'', ag_risk = ''low'',
     ag_read_resources = [], ag_write_resources = [], ag_created_at = Aware 1\<rparr>"

definition resume_job :: claimed_job where
  "resume_job = \<lparr>qj_job_plan_id = Some loop_uuid, qj_attempt_id = loop_uuid, qj_lease_id = loop_uuid, qj_fencing_token = 1\<rparr>"

definition agent_ports :: "apply_event list dispatch_ports" where
  "agent_ports = \<lparr>dx_create = (\<lambda>a. greturn (ag_id a)), dx_record_invocation = (\<lambda>v. greturn (iv_id v)),
     dx_store_result = (\<lambda>_ _ _. greturn ()), dx_client_id = ''client'', dx_capabilities = [''child-dispatch''],
     dx_run = (\<lambda>_. greturn \<lparr>dp_outcome = DISPATCH_SUCCESS, dp_result_digest = letters (CHR ''a'')\<rparr>)\<rparr>"

text \<open>The state is the list of the stored events; the other ports answer the same in every state. The argument is the
  digest of the assignment.\<close>

definition apply_ports :: "string \<Rightarrow> apply_event list resume_ports" where
  "apply_ports d = \<lparr>ax_lock_work = (\<lambda>_. greturn ()),
     ax_find_exact = (\<lambda>_ _ _ _ s. (s, Inr (if s = [] then None else Some (yv_apply_id (last s))))),
     ax_latest_event = (\<lambda>i s. (s, Inr (List.find (\<lambda>e. yv_apply_id e = i) (rev s)))),
     ax_lease_is_live = (\<lambda>_ _. greturn False), ax_recover_interrupted = (\<lambda>e _. greturn e),
     ax_read_snapshot = (\<lambda>_ _ _. greturn observation_sample), ax_guard_assert = None, ax_guard_hold = (\<lambda>_. greturn ()),
     ax_guard_with = (\<lambda>_ m. m),
     ax_environment = Some (\<lambda>_ _. greturn ()), ax_create = (\<lambda>_ _ _ _ _. greturn (loop_uuid, True)),
     ax_get_authorization = (\<lambda>_. greturn resume_authorization), ax_claim_exact = (\<lambda>_ _ _ _. greturn resume_job),
     ax_get_assignment = (\<lambda>_. greturn (child_assignment d)), ax_record_invocation = (\<lambda>v. greturn (iv_id v)),
     ax_clone_envelope = (\<lambda>_ _ _ _ _ _. greturn loop_uuid), ax_claim_effect = (\<lambda>_ _ _ _ _ _ _. greturn loop_uuid),
     ax_append_event = (\<lambda>e s. (s @ [e], Inr ())), ax_finish = (\<lambda>_ _ _ _ _. greturn True),
     ax_record_success = (\<lambda>_ _ _. greturn loop_uuid), ax_record_failure = (\<lambda>_ _ _ _. greturn loop_uuid),
     ax_store_result_checkpoint = (\<lambda>_ _ _ _ _ _. greturn ()), ax_dispatch = agent_ports\<rparr>"

definition resume_capability :: "string \<Rightarrow> capability" where
  "resume_capability name = \<lparr>ca_id = loop_uuid, ca_realm_id = loop_uuid, ca_name = name, ca_revision = 1, ca_kind = CK_DATABASE,
     ca_description = name, ca_definition = [], ca_created_at = 0\<rparr>"

definition apply_repositories :: "apply_event list repositories" where
  "apply_repositories = \<lparr>rp_policy_append = greturn, rp_policy_current = (\<lambda>_. greturn (Some gov_policy)),
     rp_capability_current = (\<lambda>name. greturn (Some (resume_capability name))), rp_issue = greturn,
     rp_get = (\<lambda>_. greturn resume_authorization),
     rp_consume = (\<lambda>_ _ _ _. greturn \<lparr>cr_consumed = True, cr_reason = ''consumed'', cr_authorization = Some resume_authorization\<rparr>),
     rp_revoke = (\<lambda>_ _ _. greturn True), rp_outbound_record = greturn, rp_audit_record = (\<lambda>_. greturn loop_uuid)\<rparr>"

definition apply_governance :: "apply_event list governance" where
  "apply_governance = \<lparr>gs_realm_id = loop_uuid, gs_actor_id = None, gs_correlation_id = None, gs_provider = Some apply_repositories\<rparr>"

definition request_sample :: "string \<Rightarrow> apply_request" where
  "request_sample d = \<lparr>yq_plan = plan_sample, yq_supplied_plan_digest = d, yq_actor_id = loop_uuid, yq_authorization_id = loop_uuid,
     yq_worker_label = ''worker'', yq_capabilities = [''process.run''], yq_lease_seconds = 60\<rparr>"

lemma runtime_facts:
  "ro_lease_expires_at runtime_sample = None" "ro_deadline runtime_sample = Aware 100"
  by (simp_all add: runtime_sample_def)

lemma plan_parts:
  "rl_stale_dimensions plan_sample = []" "rl_reconciliation_actions plan_sample = []" "rl_sandbox plan_sample = no_sandbox"
  "rl_actions plan_sample = resume_actions observation_sample RD_SAFE_CONTINUE []"
  "rl_logical_read_resources plan_sample = []" "rl_logical_write_resources plan_sample = [''path:web:src'']"
  "rl_realm_id plan_sample = loop_uuid" "rl_project_id plan_sample = loop_uuid" "rl_next_step_id plan_sample = Some ''s2''"
  by (simp_all add: plan_sample_def planned_def disposition_of_def observation_sample_def runtime_sample_def)

lemma actions_sample: "is_ok (normalize_list (map resume_action_body (resume_actions observation_sample RD_SAFE_CONTINUE [])))"
  by (simp add: resume_actions_def observation_sample_def resume_action_body_def normalize_opt_text)

lemma plan_digest_sample: "\<exists>j. resume_plan_digest plan_sample = Inr (digest_json j)"
proof -
  obtain k where k: "snapshot_digest runtime_sample = Inr k"
    unfolding snapshot_digest_def using digest_ok [of "PDict (runtime_entries runtime_sample)"]
    by (auto simp: runtime_entries_def runtime_facts normalize_opt_text normalize_opt_number)
  obtain body where b: "resume_plan_body plan_sample = Inr body" by (simp add: resume_plan_body_def plan_facts k)
  obtain as where a: "normalize_list (map resume_action_body (resume_actions observation_sample RD_SAFE_CONTINUE [])) = Inr as"
    using actions_sample by (auto simp: is_ok_iff)
  have "is_ok (normalize_value body)"
    using b by (auto simp: resume_plan_body_def plan_facts plan_parts k a normalize_opt_text normalize_opt_number normalize_texts
        runtime_facts runtime_entries_def sandbox_binding_body_def)
  then show ?thesis using digest_ok b by (simp add: resume_plan_digest_def)
qed

lemma effect_of_plan: "resume_effect plan_sample = effect_sample"
  by (simp add: resume_effect_def effect_sample_def plan_parts)

lemma resume_gates:
  "gate_chain (allow_gate ''capability'' ''capabilities-registered'') effect_sample gov_policy (Some resume_authorization) 6
   = Inr [allow_gate ''capability'' ''capabilities-registered'', allow_gate ''policy'' ''policy-allows'',
       allow_gate ''risk'' ''risk-high-within-policy'', allow_gate ''scope'' ''scope-matches'',
       allow_gate ''authorization'' ''authorization-valid'']"
proof -
  have "policy_gate effect_sample gov_policy = allow_gate ''policy'' ''policy-allows''"
    "risk_gate effect_sample gov_policy (request_risk effect_sample) = allow_gate ''risk'' ''risk-high-within-policy''"
    "ra_requires_authorization (request_risk effect_sample)" "\<not> is_auto_approved (rq_action effect_sample) (rq_effects effect_sample)"
    by code_simp+
  moreover have "scope_gate effect_sample (Some resume_authorization) = Inr (allow_gate ''scope'' ''scope-matches'')"
    by (simp add: scope_gate_def effect_digest_json resume_authorization_def resume_scope_def effect_sample_def covers_effect_def
        covers_resource_def resource_pattern_def)
  moreover have "authorization_gate (Some resume_authorization) 6 = allow_gate ''authorization'' ''authorization-valid''"
    by (simp add: authorization_gate_def rejection_reason_def resume_authorization_def gov_authorization_def)
  ultimately show ?thesis by (simp add: gate_chain_def Let_def)
qed

lemma resume_authorized:
  "require_authorized apply_governance effect_sample (Some resume_authorization) ''worker'' 6 s = (s, Inr resume_authorization)"
proof -
  have provider: "gs_provider apply_governance = Some apply_repositories" by (simp add: apply_governance_def)
  have "active_policy apply_governance DEFAULT_POLICY_NAME s = (s, Inr gov_policy)"
    by (simp add: active_policy_def repository_def provider apply_repositories_def gov_run)
  moreover have "capability_gate apply_governance effect_sample s = (s, Inr (allow_gate ''capability'' ''capabilities-registered''))"
    by (simp add: capability_gate_def effect_sample_def repository_def provider apply_repositories_def gov_run capability_decision_def)
  moreover have "audit_verdict apply_governance v m s = (s, Inr loop_uuid)" for v m
    using verdict_digest_ok [of v]
    by (auto simp: audit_verdict_def effect_digest_json repository_def provider apply_repositories_def gov_run)
  ultimately have "\<exists>v. evaluate apply_governance effect_sample (Some resume_authorization) None 6 True s = (s, Inr v) \<and> verdict_allowed v"
    by (simp add: evaluate_def Let_def gov_run resume_gates verdict_allowed_def gates_allowed_def)
  moreover have "consume_authorization apply_governance i effect_sample w m s
      = (s, Inr \<lparr>cr_consumed = True, cr_reason = ''consumed'', cr_authorization = Some resume_authorization\<rparr>)" for i w m
    by (simp add: consume_authorization_def effect_digest_json repository_def provider apply_repositories_def gov_run)
  ultimately show ?thesis by (auto simp: require_authorized_def gov_run)
qed

lemma assignment_digest_sample:
  "\<exists>j. digest (assignment_body (child_assignment d)) = Inr (digest_json j)"
  by (rule digest_ok) (simp add: assignment_body_def child_assignment_def normalize_opt_text)

lemma assignment_body_digest: "assignment_body (child_assignment d) = assignment_body (child_assignment e)"
  by (simp add: assignment_body_def child_assignment_def)

lemma resume_authorization_digest: "\<exists>j. authorization_digest resume_authorization = Inr (digest_json j)"
  unfolding authorization_digest_def
  by (rule digest_ok)
    (simp add: authorization_body_def scope_body_def resume_authorization_def gov_authorization_def resume_scope_def opt_uuid_def)

lemma invocation_digestable: "is_ok (normalize_value (invocation_body i a b c e))"
  by (simp add: invocation_body_def)

lemma invocation_sample:
  "\<exists>v. invocation_for plan_sample loop_uuid resume_job (child_assignment d) loop_uuid 6 = Inr v \<and> iv_id v = loop_uuid
     \<and> iv_assignment_id v = loop_uuid \<and> iv_client_id v = ''client'' \<and> assert_invocation_digest v = Inr ()"
proof -
  define identity where "identity = ''resume:'' @ loop_uuid @ '':'' @ qj_attempt_id resume_job @ '':'' @ int_str (qj_fencing_token resume_job)"
  have "\<not> blank ''client''" by code_simp
  moreover have "\<not> blank identity" using blank_nonspace [of "CHR ''r''"] by (simp add: identity_def is_space_def)
  moreover obtain j where "digest (invocation_body loop_uuid loop_uuid loop_uuid ''client'' identity) = Inr (digest_json j)"
    using digest_ok [OF invocation_digestable] by blast
  ultimately show ?thesis
    unfolding invocation_for_def Let_def identity_def [symmetric]
    by (simp add: check_invocation_def plan_facts plan_parts parse_digest_json child_assignment_def
        assert_invocation_digest_def)
qed

lemma resources_parsed: "\<exists>rs. parse_requests [] [''path:web:src''] = Inr rs"
proof -
  have "case parse_requests [] [''path:web:src''] of Inr _ \<Rightarrow> True | Inl _ \<Rightarrow> False" by code_simp
  then show ?thesis by (simp split: sum.splits)
qed

lemma event_made:
  assumes "1 \<le> n" "\<not> is_space c" "\<And>d. x = Some d \<Longrightarrow> valid_digest d" "\<And>d. y = Some d \<Longrightarrow> valid_digest d"
  shows "\<exists>e. runtime_event loop_uuid n phase state (c # reason) (Aware at) resume_job loop_uuid rid x y = Inr e
     \<and> yv_state e = state \<and> yv_result_digest e = x \<and> is_aware (yv_occurred_at e)"
  using assms blank_nonspace [of c]
  by (auto simp: runtime_event_def check_apply_event_def resume_job_def rbind_Inr_iff is_ok_iff split: option.splits)

lemma apply_started:
  "\<exists>st event. start_apply (apply_ports d) apply_governance (request_sample x) loop_uuid loop_uuid ed 60 6 [] = ([event], Inr st)
     \<and> sy_apply_id st = loop_uuid \<and> sy_claimed st = resume_job \<and> sy_assignment st = child_assignment d \<and> sy_claim st = loop_uuid
     \<and> iv_id (sy_invocation st) = loop_uuid \<and> iv_assignment_id (sy_invocation st) = loop_uuid \<and> iv_client_id (sy_invocation st) = ''client''
     \<and> assert_invocation_digest (sy_invocation st) = Inr () \<and> is_aware (yv_occurred_at (sy_event st))"
proof -
  obtain v where v: "invocation_for plan_sample loop_uuid resume_job (child_assignment d) loop_uuid 6 = Inr v" "iv_id v = loop_uuid"
    "iv_assignment_id v = loop_uuid" "iv_client_id v = ''client''" "assert_invocation_digest v = Inr ()" using invocation_sample by blast
  obtain rs where rs: "parse_requests [] [''path:web:src''] = Inr rs" using resources_parsed by blast
  obtain j where j: "authorization_digest resume_authorization = Inr (digest_json j)" using resume_authorization_digest by blast
  have "\<not> blank ''client''" "\<not> blank ''builder''" by code_simp+
  then obtain request where request: "dispatch_request_for (child_assignment d) v 60 = Inr request"
    by (simp add: dispatch_request_for_def check_dispatch_request_def v child_assignment_def)
  have "is_ok (normalize_value (dispatch_request_as_dict request))" by (simp add: dispatch_request_as_dict_def)
  then obtain k where k: "digest (dispatch_request_as_dict request) = Inr (digest_json k)" using digest_ok by blast
  have scope: "\<exists>k. digest (PDict (scope_body (au_scope resume_authorization))) = Inr (digest_json k)"
    using canonicalize_scope by (auto simp: digest_def)
  have p: "ax_get_authorization (apply_ports d) i s = (s, Inr resume_authorization)" "ax_claim_exact (apply_ports d) q i t m s = (s, Inr resume_job)"
    "ax_get_assignment (apply_ports d) i s = (s, Inr (child_assignment d))" "ax_record_invocation (apply_ports d) w s = (s, Inr (iv_id w))"
    "ax_clone_envelope (apply_ports d) pl i c t u m s = (s, Inr loop_uuid)" "ax_claim_effect (apply_ports d) c t u r i b m s = (s, Inr loop_uuid)"
    "ax_append_event (apply_ports d) e s = (s @ [e], Inr ())" for i s t m w pl c u r b e q
    by (simp_all add: apply_ports_def greturn_def)
  have a: "au_actor_id resume_authorization = loop_uuid" "au_plan_id resume_authorization = Some loop_uuid"
    by (simp_all add: resume_authorization_def)
  have f: "\<not> assignment_drift plan_sample resume_job (child_assignment d)"
    by (simp add: assignment_drift_def child_assignment_def plan_parts plan_facts resume_job_def is_child_def)
  have g: "assert_sandbox P plan_sample s = (s, Inr ())" for P :: "apply_event list resume_ports" and s
    by (simp add: assert_sandbox_def sandbox_applies_def plan_parts no_sandbox_def greturn_def)
  obtain e where e: "runtime_event loop_uuid 1 PHASE_CLAIM APPLY_CLAIMED ''resume.exact-claim-created'' (Aware 6) resume_job loop_uuid
      None None None = Inr e" "is_aware (yv_occurred_at e)"
    using event_made [of 1 "CHR ''r''"] by (force simp: is_space_def)
  show ?thesis using v(2-5) scope
    by (auto simp: start_apply_def Let_def gov_run request_sample_def p a effect_of_plan resume_authorized f g v(1) request k j plan_parts rs e)
qed

lemma agent_runs:
  assumes "digest (assignment_body (child_assignment d)) = Inr d" "iv_id v = loop_uuid" "iv_assignment_id v = loop_uuid"
    "iv_client_id v = ''client''" "assert_invocation_digest v = Inr ()"
  shows "agent_dispatch agent_ports (child_assignment d) v 60 s = (s, Inr \<lparr>dp_outcome = DISPATCH_SUCCESS, dp_result_digest = letters (CHR ''a'')\<rparr>)"
proof -
  have "\<not> blank ''client''" "\<not> blank ''builder''" by code_simp+
  then obtain request where "dispatch_request_for (child_assignment d) v 60 = Inr request"
    by (simp add: dispatch_request_for_def check_dispatch_request_def assms child_assignment_def)
  moreover have "dispatchable agent_ports (child_assignment d) v = Inr ()"
    using assms by (simp add: dispatchable_def assert_assignment_digest_def assert_supports_def agent_ports_def)
      (simp add: child_assignment_def is_child_def)
  ultimately show ?thesis by (simp add: agent_dispatch_def gov_run) (simp add: agent_ports_def gov_run assms)
qed

lemma result_made:
  assumes "is_aware (yv_occurred_at e)" "yv_result_digest e = Some d" "valid_digest d" "valid_digest plan_text"
  shows "\<exists>r. apply_result_of plan_text e = Inr r \<and> yr_state r = yv_state e"
  using apply_event_digest_ok [OF assms(1)] assms
  by (auto simp: apply_result_of_def check_apply_result_def rbind_Inr_iff is_ok_iff parse_digest_json)

lemma dispatch_completes:
  assumes "digest (assignment_body (child_assignment d)) = Inr d" "sy_apply_id st = loop_uuid" "sy_claimed st = resume_job"
    "sy_assignment st = child_assignment d" "sy_claim st = loop_uuid" "iv_id (sy_invocation st) = loop_uuid"
    "iv_assignment_id (sy_invocation st) = loop_uuid" "iv_client_id (sy_invocation st) = ''client''"
    "assert_invocation_digest (sy_invocation st) = Inr ()" "is_aware (yv_occurred_at (sy_event st))" "valid_digest plan_text"
  shows "\<exists>t r. dispatch_phase (apply_ports d) plan_sample plan_text st 60 7 8 s = (t, Inr r) \<and> yr_state r = APPLY_COMPLETED"
proof -
  let ?done = "\<lparr>dp_outcome = DISPATCH_SUCCESS, dp_result_digest = letters (CHR ''a'')\<rparr>"
  obtain i where i: "apply_event_digest (sy_event st) = Inr (digest_json i)" using apply_event_digest_ok [OF assms(10)] by blast
  obtain e where e: "runtime_event loop_uuid 2 PHASE_DISPATCH APPLY_DISPATCHED ''resume.adapter-dispatch-started'' (Aware 7) resume_job loop_uuid
      None None (Some (digest_json i)) = Inr e" "is_aware (yv_occurred_at e)"
    using event_made [of 2 "CHR ''r''" None "Some (digest_json i)"] by (force simp: is_space_def)
  obtain j where j: "apply_event_digest e = Inr (digest_json j)" using apply_event_digest_ok [OF e(2)] by blast
  obtain f where f: "terminal_event st ?done loop_uuid (digest_json j) 8 = Inr f" "yv_state f = APPLY_COMPLETED"
    "yv_result_digest f = Some (letters (CHR ''a''))" "is_aware (yv_occurred_at f)"
    using event_made [of 3 "CHR ''r''" "Some (letters (CHR ''a''))" "Some (digest_json j)"] letters_valid
    by (force simp: terminal_event_def is_success_def is_space_def assms)
  obtain r where r: "apply_result_of plan_text f = Inr r" "yr_state r = APPLY_COMPLETED"
    using result_made [OF f(4,3)] letters_valid assms(11) f(2) by auto
  have no_sandbox: "\<not> sandbox_applies plan_sample" by (simp add: sandbox_applies_def plan_parts no_sandbox_def)
  have run: "guarded_dispatch (apply_ports d) plan_sample st 60 u = (u, Inr ?done)" for u
    using agent_runs [OF assms(1,6-9)] by (simp add: guarded_dispatch_def no_sandbox Let_def assms(4)) (simp add: apply_ports_def)
  have p: "ax_append_event (apply_ports d) x u = (u @ [x], Inr ())" "ax_finish (apply_ports d) c o' k z m u = (u, Inr True)"
    "ax_record_success (apply_ports d) i' y m u = (u, Inr loop_uuid)"
    "ax_store_result_checkpoint (apply_ports d) pl i' c b y m u = (u, Inr ())" for x u c o' k y z m i' pl b
    by (simp_all add: apply_ports_def greturn_def)
  have known: "\<exists>t. dispatch_known (apply_ports d) plan_sample plan_text st (digest_json j) ?done 8 u = (t, Inr r)" for u
    by (simp add: dispatch_known_def terminal_receipt_def is_success_def [of ?done] gov_run in_transaction_def f(1) conclude_apply_def
        close_terminal_def p r(1) Let_def)
  show ?thesis using known r(2)
    by (simp add: dispatch_phase_def gov_run i assms(2,3,5) e(1) in_transaction_def p no_sandbox hold_guard_def j run) blast
qed

lemma plan_applied:
  assumes "digest (assignment_body (child_assignment d)) = Inr d" "resume_plan_digest plan_sample = Inr plan_text" "valid_digest plan_text"
  shows "\<exists>t r. resume_apply (apply_ports d) apply_governance (request_sample plan_text) 60 (Aware 6) loop_uuid 7 8 [] = (t, Inr r)
     \<and> yr_state r = APPLY_COMPLETED"
proof -
  have ed: "effect_digest (resume_effect plan_sample) = Inr (digest_json (effect_json effect_sample))" by (simp add: effect_of_plan effect_digest_json)
  obtain st event where st: "start_apply (apply_ports d) apply_governance (request_sample plan_text) loop_uuid loop_uuid
      (digest_json (effect_json effect_sample)) 60 6 [] = ([event], Inr st)"
    and facts: "sy_apply_id st = loop_uuid" "sy_claimed st = resume_job" "sy_assignment st = child_assignment d" "sy_claim st = loop_uuid"
    "iv_id (sy_invocation st) = loop_uuid" "iv_assignment_id (sy_invocation st) = loop_uuid" "iv_client_id (sy_invocation st) = ''client''"
    "assert_invocation_digest (sy_invocation st) = Inr ()" "is_aware (yv_occurred_at (sy_event st))"
    using apply_started by blast
  have q: "yq_plan (request_sample plan_text) = plan_sample" "yq_supplied_plan_digest (request_sample plan_text) = plan_text"
    by (simp_all add: request_sample_def)
  have p: "ax_lock_work (apply_ports d) w s = (s, Inr ())" "ax_find_exact (apply_ports d) pl w x y [] = ([], Inr None)"
    "ax_read_snapshot (apply_ports d) w x o' s = (s, Inr observation_sample)" "ax_environment (apply_ports d) = Some (\<lambda>_ _. greturn ())"
    "ax_create (apply_ports d) pl w x y m s = (s, Inr (loop_uuid, True))" "dx_client_id (ax_dispatch (apply_ports d)) = ''client''"
    for w s pl x y o' m by (simp_all add: apply_ports_def agent_ports_def greturn_def)
  have "assert_sandbox (apply_ports d) plan_sample s = (s, Inr ())" for s
    by (simp add: assert_sandbox_def sandbox_applies_def plan_parts no_sandbox_def greturn_def)
  then have "claim_phase (apply_ports d) apply_governance (request_sample plan_text) plan_text (digest_json (effect_json effect_sample))
      loop_uuid 60 6 [] = ([event], Inr (Inr st))"
    using st by (simp add: claim_phase_def Let_def gov_run q p plan_parts plan_prepared assms(2))
  moreover obtain t r where "dispatch_phase (apply_ports d) plan_sample plan_text st 60 7 8 [event] = (t, Inr r)" "yr_state r = APPLY_COMPLETED"
    using dispatch_completes [OF assms(1) facts assms(3)] by blast
  ultimately show ?thesis
    by (simp add: resume_apply_def q p plan_facts gov_run in_transaction_def ed assms(2))
qed

text \<open>Applied to a service that has not seen the plan, the call completes it, and the property says how.\<close>

theorem resume_apply_outcome_witness:
  "\<exists>d plan_text t r st c x. resume_apply (apply_ports d) apply_governance (request_sample plan_text) 60 (Aware 6) loop_uuid 7 8 [] = (t, Inr r)
     \<and> yr_state r = APPLY_COMPLETED \<and> closed_by (apply_ports d) plan_sample plan_text st x 8 c t r"
proof -
  obtain i where i: "digest (assignment_body (child_assignment e)) = Inr (digest_json i)" for e
    using assignment_digest_sample assignment_body_digest by metis
  obtain j where j: "resume_plan_digest plan_sample = Inr (digest_json j)" using plan_digest_sample by blast
  let ?P = "apply_ports (digest_json i)" and ?q = "request_sample (digest_json j)"
  obtain t r where r: "resume_apply ?P apply_governance ?q 60 (Aware 6) loop_uuid 7 8 [] = (t, Inr r)" "yr_state r = APPLY_COMPLETED"
    using plan_applied [OF i j] by auto
  have "ax_lock_work ?P w s = (s, Inr ())" "ax_find_exact ?P pl w x y [] = ([], Inr None)" "ax_create ?P pl w x y m s \<noteq> (u, Inr (k, False))"
    for w s pl x y m u k by (simp_all add: apply_ports_def greturn_def)
  then have no_replay: "\<not> replay_of ?P ?q plan_text ed m [] t x" for plan_text ed m x by (auto simp: replay_of_def)
  have q: "yq_plan ?q = plan_sample" by (simp add: request_sample_def)
  from resume_apply_outcome [OF r(1)] have "\<exists>st c x. closed_by ?P plan_sample (digest_json j) st x 8 c t r"
    using no_replay j q by auto
  then show ?thesis using r by blast
qed

end
