(* ===== verification/Spec2Isabelle.thy ===== *)
theory Spec2Isabelle
  imports RuntimeHazards ServiceGuarantees SourceSamples ResumeSamples Scheduler Work
begin

text \<open>
  Verification of the execution plane, the governance plane, the measured loop and the source plane of
  zekam (Python, \<^verbatim>\<open>src/src/zekam\<close>): the parts of the program that decide which job runs, under which
  lease and locks, what may be claimed and finished, what happens after a crash, which effects are
  permitted, whether an agent may try again, what it may change in the source tree, and how interrupted work is
  resumed.

  \<^bold>\<open>The program.\<close> Domain modules (\<^verbatim>\<open>domain/\<close>) hold immutable values with their checks: canonical
  JSON and digests, identifiers, resources with their conflict relation, jobs with leases, effect
  claims and receipts, work items and plans, schedules. The application layer fixes the contract of
  the local runtime (\<^verbatim>\<open>application/local_runtime.py\<close>). The SQLite store
  (\<^verbatim>\<open>infrastructure/sqlite/local_runtime.py\<close>) implements it: every public operation is one write
  transaction over the tables of \<^verbatim>\<open>operational_schema.py\<close>; the transitions into and out of recovery
  are in \<^verbatim>\<open>local_runtime_recovery_tx.py\<close>. Workers, schedulers and delivery processes only meet in
  these tables. The service (\<^verbatim>\<open>application/local_runtime_service.py\<close>) runs ticks over the store: claim a
  job, run its effect while a thread renews the lease, record the receipt. The governance service
  (\<^verbatim>\<open>application/governance.py\<close>) asks capability, policy, risk, scope and authorization of every
  request and consumes one-shot authorizations; its repositories are PostgreSQL adapters
  (\<^verbatim>\<open>legacy-preserved/src-postgres/security_repository.py\<close>). The measured loop lets an agent attempt a
  step again only while measurements show progress: measurements are evaluated against the metrics of an
  objective (\<^verbatim>\<open>domain/optimization.py\<close>), gates decide on the next attempt (\<^verbatim>\<open>domain/loop_progress.py\<close>), policies,
  requests and validations are contracts (\<^verbatim>\<open>domain/loop_policy.py\<close>), the executor closes every attempt in a
  ledger (\<^verbatim>\<open>application/loop_service.py\<close>), and the orchestrator and its worker turn attempts into jobs of the
  queue (\<^verbatim>\<open>application/loop_orchestrator.py\<close>, \<^verbatim>\<open>application/measured_loop_worker.py\<close>). What an attempt learnt
  is compiled into a packet of bounded size for the next one (\<^verbatim>\<open>application/loop_progress_compiler.py\<close>), and a
  loop is paused, drained or cancelled under an authorization (\<^verbatim>\<open>application/loop_control.py\<close>, with the
  PostgreSQL routine of migration 77). In the source plane a builder takes the one lease of the bound
  source tree (\<^verbatim>\<open>infrastructure/git/worktree.py\<close>), writes inside an allowlist (\<^verbatim>\<open>domain/sandbox.py\<close>), and
  delivers a tested patch (\<^verbatim>\<open>application/sandbox_delivery.py\<close>); an attempt owns the change set that it made
  and can roll it back (\<^verbatim>\<open>domain/loop_change_set.py\<close>, \<^verbatim>\<open>application/loop_rollback.py\<close>); checkpoints
  (\<^verbatim>\<open>domain/checkpoint_v2.py\<close>) bind what is done and pending to the state of that tree. A resume plan
  (\<^verbatim>\<open>application/resume_coordinator.py\<close>) compares a checkpoint with the present and says how to continue; its
  application (\<^verbatim>\<open>application/resume_apply_service.py\<close>) consumes an authorization, claims the job and dispatches
  the agent (\<^verbatim>\<open>application/agent_dispatch.py\<close>) once.

  \<^bold>\<open>How it is modelled.\<close> A fallible function returns \<open>'a res\<close>, a sum of an error (one constructor per
  exception class, with its message) and a value. A dataclass is a record with a check function for
  \<^verbatim>\<open>__post_init__\<close>. A table is a list of rows; a transaction takes the store to an error, which is
  the rollback, or to a new store. Instants are integers in microseconds since the epoch; every
  operation takes the readings of the clock as arguments, and the identifiers drawn by
  \<^verbatim>\<open>new_uuid7\<close> come from a list in the store. Text is a list of the 256 characters of Isabelle's
  \<open>char\<close>. The secret scanner and the home directory are parameters (record \<open>env\<close>).

  \<^bold>\<open>The theories.\<close>
  \<^item> \<open>Prelude\<close>: errors, the result monad and its rewriting, Python string functions, tables.
  \<^item> \<open>Histories\<close>: the interfaces of stateful components as locales - \<open>guarded_system\<close> (an invariant kept
    by every operation), \<open>ranked_system\<close> (a quantity that never decreases), \<open>revisioned_system\<close>.
  \<^item> \<open>Sha256\<close>, \<open>Canonical\<close>: \<^verbatim>\<open>domain/canonical.py\<close>. Digests do not depend on the order of dictionary
    entries, canonical texts determine the value, normalisation is idempotent, digests parse.
  \<^item> \<open>Identifiers\<close>: \<^verbatim>\<open>domain/identifiers.py\<close>. UUIDv7 order and timestamps, slugs.
  \<^item> \<open>Resources\<close>: \<^verbatim>\<open>domain/resources.py\<close>. The conflict relation (locale \<open>lock_conflicts\<close>), compatible
    locks stay compatible, one lock order, parse and print.
  \<^item> \<open>Runtime\<close>: \<^verbatim>\<open>domain/runtime.py\<close>. Jobs, leases, claims, receipts, recovery assessment.
  \<^item> \<open>Work\<close>: \<^verbatim>\<open>domain/work.py\<close>. The state machine of work items as a \<open>revisioned_system\<close>, plans accepted
    exactly when acyclic, and their topological order.
  \<^item> \<open>Scheduler\<close>: \<^verbatim>\<open>domain/scheduler.py\<close>. Trigger planning, its idempotency keys and its grid;
    definitions as a \<open>ranked_system\<close>.
  \<^item> \<open>LocalContracts\<close>: \<^verbatim>\<open>application/local_runtime.py\<close> and the canonical texts of
    \<^verbatim>\<open>local_continuity.py\<close>.
  \<^item> \<open>LocalStore\<close>: the tables and statements, with keys, checks and triggers.
  \<^item> \<open>RecoveryTx\<close>: \<^verbatim>\<open>local_runtime_recovery_tx.py\<close>.
  \<^item> \<open>LocalQueue\<close>, \<open>LocalOutbox\<close>: the operations of \<^verbatim>\<open>SQLiteLocalRuntimeStore\<close>.
  \<^item> \<open>StoreInvariant\<close>: the invariant \<open>good\<close> of the tables, the life cycle \<open>job_step\<close> of a job and the
    relation \<open>moves\<close> between stores that keeps both.
  \<^item> \<open>LocalRuntime\<close>, \<open>OutboxMoves\<close>: every operation moves the store.
  \<^item> \<open>RuntimeHistory\<close>: the operations as events; the store is a \<open>ranked_system\<close> whose invariant is
    \<open>good\<close> and whose rank is the audit record. Transactions take the write lock first, so every
    interleaving of workers is a sequence of events.
  \<^item> \<open>RuntimeSamples\<close>: a concrete history, evaluated.
  \<^item> \<open>RuntimeGuarantees\<close>, \<open>RuntimeOperations\<close>, \<open>RuntimeRecovery\<close>: what holds of every history and what each
    operation promises.
  \<^item> \<open>RuntimeHazards\<close>: situations in which one job blocks the queue.
  \<^item> \<open>LocalService\<close>: worker, outbox and startup ticks of \<^verbatim>\<open>local_runtime_service.py\<close>, over a port for the
    store; other processes commit between any two calls, and the process may be killed there.
  \<^item> \<open>ServicePort\<close>: the locale \<open>runtime_port\<close>, what a tick relies on; \<open>ServiceGuarantees\<close> interprets it on the
    SQLite store and shows what a tick leaves and that no effect runs twice; \<open>ServiceSamples\<close> evaluates ticks.
  \<^item> \<open>Security\<close>, \<open>Policy\<close>: \<^verbatim>\<open>domain/security.py\<close> and \<^verbatim>\<open>domain/policy.py\<close>. Redaction, and risk as a linear order
    that only rises.
  \<^item> \<open>Governance\<close>: \<^verbatim>\<open>application/governance.py\<close> over a port for the repositories. \<open>GovernancePort\<close>: the gates as
    predicates, and the locales \<open>call_frame\<close>, \<open>repository_port\<close> and \<open>authorization_port\<close>.
  \<^item> \<open>SecurityLedger\<close>: the PostgreSQL repositories and tables. \<open>LedgerHistory\<close>: their histories as a
    \<open>ranked_system\<close>, and the interpretation of \<open>authorization_port\<close>.
  \<^item> \<open>GovernanceGuarantees\<close>, \<open>PolicyGuarantees\<close>: what passes the gates, that an authorization admits one
    call, what a call leaves behind; \<open>GovernanceSamples\<close> evaluates a realm.
  \<^item> \<open>Float64\<close>: Python's floats as IEEE binary64 numbers - rounding, arithmetic, comparison, \<^verbatim>\<open>sum\<close> and \<^verbatim>\<open>repr\<close>.
    \<open>Uuids\<close>: SHA-1, \<^verbatim>\<open>uuid5\<close> and \<^verbatim>\<open>UUID(text)\<close>.
  \<^item> \<open>Optimization\<close>: \<^verbatim>\<open>domain/optimization.py\<close>. Which measurements the evaluation accepts, finds invalid
    or refuses, what improved and target reached
    mean for the measurements, and that the order of the measurements does not matter.
  \<^item> \<open>LoopProgress\<close>: \<^verbatim>\<open>domain/loop_progress.py\<close>. \<open>LoopGates\<close>: the gates as one predicate \<open>opens_next\<close>, the loop as a
    \<open>guarded_system\<close>, its bound and its termination.
  \<^item> \<open>LoopPolicy\<close>: \<^verbatim>\<open>domain/loop_policy.py\<close>. \<open>LoopService\<close>: the executor over a port for the ledger; an admitted
    attempt is closed on every path.
  \<^item> \<open>LoopOrchestrator\<close>, \<open>LoopWorker\<close>: planning, authorizing and enqueueing an attempt, and the handler of its
    job. Attempts have a deterministic identity, the worker reads back the planned request, and a job
    enqueues its successor. \<open>LoopSamples\<close> evaluates objectives, attempts, plans and ledgers.
  \<^item> \<open>LoopCompiler\<close>: \<^verbatim>\<open>loop_progress_compiler.py\<close>. The loop that sheds optional references ends, and what it
    gave up and in which order.
  \<^item> \<open>LoopControl\<close>: \<^verbatim>\<open>loop_control.py\<close> over the locale \<open>control_store\<close>, with every history of applied plans;
    \<open>LoopControlStore\<close>: the repository and the routine of the database, on which the locale is interpreted.
    The clock of the database is an arbitrary function of the readings; the histories hold while it is steady
    (\<open>steady_clock\<close>), and a clock that is set back makes a recorded event lose its effect.
  \<^item> \<open>Sandbox\<close>: \<^verbatim>\<open>domain/sandbox.py\<close>. What an allowlist permits. \<open>BoundSource\<close>: \<^verbatim>\<open>worktree.py\<close> over a source tree
    whose git and file system are functions of the state; the interleaved builders as the step relation
    \<open>builders\<close>, whose invariant is that they never share a tree.
  \<^item> \<open>LoopChange\<close>: \<^verbatim>\<open>loop_change_set.py\<close> and \<^verbatim>\<open>loop_rollback.py\<close>. What a rollback touches, when it
    gives a receipt, that it is possible, and the aliases of a path that escape its ownership check.
  \<^item> \<open>Checkpoint\<close>: \<^verbatim>\<open>checkpoint_v2.py\<close>. An accepted checkpoint accounts for its plan.
  \<^item> \<open>SandboxDelivery\<close>: \<^verbatim>\<open>sandbox_delivery.py\<close>. When a delivery is applied, and on which trees a checkpoint
    resumes. \<open>SourceSamples\<close> evaluates a tree, a change with its rollback, a control plan and checkpoints.
  \<^item> \<open>Resume\<close>: \<^verbatim>\<open>domain/resume.py\<close> and \<^verbatim>\<open>resume_coordinator.py\<close>. When checkpointed work continues as it is, and
    that every checked observation gives a plan whose actions are ordered.
  \<^item> \<open>AgentDispatch\<close>: \<^verbatim>\<open>domain/agents.py\<close>, \<^verbatim>\<open>agent_dispatch.py\<close> and the dispatch requests of \<^verbatim>\<open>domain/clients.py\<close>;
    an agent runs only after its assignment and invocation are stored.
  \<^item> \<open>ResumeApply\<close>: \<^verbatim>\<open>domain/resume_apply.py\<close> and \<^verbatim>\<open>resume_apply_service.py\<close> over ports for the repositories, the
    execution host, the guards and the adapter: its three transactions, and what a call leaves behind on
    every path. \<open>ResumeSamples\<close> evaluates an observation, its plan and a run
    that completes it.

  \<^bold>\<open>Loops and bounds.\<close> Every loop is structural recursion or has a termination proof (the topological
  sort, the text scanners, the compiler of packets). Fuel occurs in the printing of a float only: 400 scalings by ten cover the
  decimal exponents of binary64 (at most 324), and 17 digits always identify a binary64 number. Integers are unbounded as in Python; the 48-bit
  timestamp of a UUIDv7 and the words of SHA-256 are at their width; the overflow of
  \<^verbatim>\<open>datetime\<close> arithmetic is an error value. The float division in \<^verbatim>\<open>missed_between\<close> is modelled
  with its rounding.

  \<^bold>\<open>Not modelled.\<close> The schema versions 7 to 9, which add work bindings to jobs (their tables and
  triggers are in other modules); the read-only reports \<^verbatim>\<open>job_snapshot\<close>,
  \<^verbatim>\<open>job_completion_checkpoint\<close> and \<^verbatim>\<open>latest_completed_learning_day\<close>; migrations and file checks of the
  database; checks of the dynamic type of an argument; the aborted state of a PostgreSQL transaction
  after an error, and the gaps it leaves in the audit sequence; the repositories behind the ledger, the
  stores of the measured loop and the application of a resume plan, which are ports here, and the agent dispatch inside an attempt, which is a
  parameter; the patch adapter of a rollback, the process runner and git itself, which are ports or
  functions of the state; the bytes of a git output beyond the characters of \<open>char\<close>. The other planes of the program - memory,
  retrieval, model routing, research, publication, the clients, the command line - are outside this
  development, as are the processes that do I/O.
\<close>

end
